(* ===== verification/Cloud_Prelude.thy ===== *)
theory Cloud_Prelude
  imports
    Main
    "HOL-Library.AList"
    "HOL-Library.Sublist"
    "HOL-Library.Multiset"
    "HOL-Library.Word"
    "HOL-Library.Char_ord"
    "HOL-Library.List_Lexorder"
begin

text \<open>
  Shared vocabulary of the development: Go values and the standard-library calls the source
  makes on them (byte strings, \<open>strings.TrimSpace\<close>, \<open>strconv.Atoi\<close>, instants and 64-bit
  durations, maps, errors), the exchange sort the in-memory store writes out by hand, and the
  generic lemmas the components share.

  \<^item> A Go string is a byte string, \<^typ>\<open>string\<close>; the order on strings is the bytewise
    lexicographic one, as Go's \<open><\<close>.
  \<^item> An instant is an \<^typ>\<open>int\<close>, nanoseconds since the zero \<open>time.Time\<close>, which is 0.
  \<^item> A map is an association list with distinct keys (\<open>gwf\<close>). The order of the list stands
    for the iteration order of \<open>range\<close>, which Go leaves unspecified: theorems are stated for
    every list, and the listings that sort are shown not to depend on it.
  \<^item> A fallible call returns \<open>go_error + 'a\<close>.
\<close>

section \<open>Theorem collections\<close>

named_theorems store_defs \<open>definitions of the operations of the in-memory store\<close>
named_theorems job_defs \<open>definitions of the operations of the job service\<close>
named_theorems policy_defs \<open>definitions of the policy engine\<close>

section \<open>Errors, instants, durations\<close>

datatype go_error = Errorf string | ErrIdempotencyConflict

fun error_text :: "go_error \<Rightarrow> string" where
  "error_text (Errorf s) = s"
| "error_text ErrIdempotencyConflict = ''idempotency conflict: key reused with different payload''"

type_synonym 'a result = "go_error + 'a"
type_synonym time = int
type_synonym duration = int
type_synonym 'v gomap = "(string \<times> 'v) list"
type_synonym environment = "string \<Rightarrow> string"

abbreviation is_zero :: "time \<Rightarrow> bool" where "is_zero t \<equiv> t = 0"
abbreviation second :: duration where "second \<equiv> 1000000000"
abbreviation minutes :: "int \<Rightarrow> duration" where "minutes n \<equiv> n * 60000000000"

text \<open>\<open>time.Duration(n) * time.Second\<close> is an int64 product and wraps around.\<close>

definition duration_secs :: "int \<Rightarrow> duration" where
  "duration_secs n = sint (of_int n * 1000000000 :: 64 word)"

definition is_int64 :: "int \<Rightarrow> bool" where
  "is_int64 n \<longleftrightarrow> - (2 ^ 63) \<le> n \<and> n < 2 ^ 63"

lemma sint_of_int_64: "is_int64 n \<Longrightarrow> sint (of_int n :: 64 word) = n"
  by (simp add: is_int64_def int_word_sint)

lemma duration_secs_exact:
  assumes "- 9223372036 \<le> n" "n \<le> 9223372036"
  shows "duration_secs n = n * second"
proof -
  have "sint (of_int (n * 1000000000) :: 64 word) = n * 1000000000"
    using assms by (intro sint_of_int_64) (simp add: is_int64_def)
  then show ?thesis by (simp add: duration_secs_def)
qed

text \<open>\<open>t.Unix()\<close> and \<open>time.Unix(s, 0)\<close>: seconds since 1970.\<close>

definition unix_seconds :: "time \<Rightarrow> int" where
  "unix_seconds t = t div second - 62135596800"

definition from_unix :: "int \<Rightarrow> time" where
  "from_unix s = (s + 62135596800) * second"

section \<open>Sequencing, quoting, draws\<close>

text \<open>The early return \<open>if err != nil { return nil, err }\<close>.\<close>

definition and_then :: "'a result \<Rightarrow> ('a \<Rightarrow> 'b result) \<Rightarrow> 'b result" where
  "and_then r f = (case r of Inl e \<Rightarrow> Inl e | Inr x \<Rightarrow> f x)"

lemma and_then_Inr: "and_then r f = Inr y \<longleftrightarrow> (\<exists>x. r = Inr x \<and> f x = Inr y)"
  by (cases r) (simp_all add: and_then_def)

lemma and_then_simps [simp]: "and_then (Inl e) f = Inl e" "and_then (Inr x) f = f x"
  by (simp_all add: and_then_def)

lemma and_then_cong [fundef_cong]: "r = r' \<Longrightarrow> (\<And>x. r' = Inr x \<Longrightarrow> f x = g x) \<Longrightarrow> and_then r f = and_then r' g"
  by (cases r') simp_all

text \<open>The verb \<open>%q\<close> on a text without quotes, backslashes and control bytes.\<close>

definition quoted :: "string \<Rightarrow> string" where
  "quoted s = [CHR 0x22] @ s @ [CHR 0x22]"

text \<open>What one call draws from its surroundings: the clock, \<open>uuid.NewString\<close> and the random source.\<close>

record draw =
  dr_now :: time
  dr_id :: string
  dr_jti :: string
  dr_rand :: "string + string"

section \<open>Strings\<close>

abbreviation newline :: string where "newline \<equiv> [CHR 0x0A]"

text \<open>
  Strip a leading word of \<open>ws\<close> as long as there is one. \<open>strings.TrimSpace\<close> does it on both
  ends with the UTF-8 encodings of the white space code points.
\<close>

function trim_pre :: "string list \<Rightarrow> string \<Rightarrow> string" where
  "trim_pre ws s =
     (case find (\<lambda>w. w \<noteq> [] \<and> prefix w s) ws of
        None \<Rightarrow> s
      | Some w \<Rightarrow> trim_pre ws (drop (length w) s))"
  by pat_completeness auto
termination
proof (relation "measure (\<lambda>(ws, s). length s)", goal_cases)
  case 1
  show ?case by simp
next
  case (2 ws s w)
  then have "w \<noteq> []" and "prefix w s" by (auto simp: find_Some_iff)
  then show ?case by (cases s) (auto simp: length_greater_0_conv)
qed

declare trim_pre.simps [simp del]

definition go_spaces :: "string list" where
  "go_spaces =
    [[CHR 0x09], [CHR 0x0A], [CHR 0x0B], [CHR 0x0C], [CHR 0x0D], [CHR 0x20],
     [CHR 0xC2, CHR 0x85], [CHR 0xC2, CHR 0xA0], [CHR 0xE1, CHR 0x9A, CHR 0x80],
     [CHR 0xE2, CHR 0x80, CHR 0x80], [CHR 0xE2, CHR 0x80, CHR 0x81],
     [CHR 0xE2, CHR 0x80, CHR 0x82], [CHR 0xE2, CHR 0x80, CHR 0x83],
     [CHR 0xE2, CHR 0x80, CHR 0x84], [CHR 0xE2, CHR 0x80, CHR 0x85],
     [CHR 0xE2, CHR 0x80, CHR 0x86], [CHR 0xE2, CHR 0x80, CHR 0x87],
     [CHR 0xE2, CHR 0x80, CHR 0x88], [CHR 0xE2, CHR 0x80, CHR 0x89],
     [CHR 0xE2, CHR 0x80, CHR 0x8A], [CHR 0xE2, CHR 0x80, CHR 0xA8],
     [CHR 0xE2, CHR 0x80, CHR 0xA9], [CHR 0xE2, CHR 0x80, CHR 0xAF],
     [CHR 0xE2, CHR 0x81, CHR 0x9F], [CHR 0xE3, CHR 0x80, CHR 0x80]]"

definition trim_space :: "string \<Rightarrow> string" where
  "trim_space s = rev (trim_pre (map rev go_spaces) (rev (trim_pre go_spaces s)))"

lemma trim_pre_suffix: "suffix (trim_pre ws s) s"
proof (induction ws s rule: trim_pre.induct)
  case (1 ws s)
  show ?case
  proof (cases "find (\<lambda>w. w \<noteq> [] \<and> prefix w s) ws")
    case None
    then show ?thesis by (simp add: trim_pre.simps [of ws s])
  next
    case (Some w)
    then have "suffix (trim_pre ws (drop (length w) s)) (drop (length w) s)"
      by (rule "1.IH")
    then show ?thesis
      using Some by (simp add: trim_pre.simps [of ws s])
        (meson suffix_drop suffix_order.trans)
  qed
qed

lemma trim_pre_none: "w \<in> set ws \<Longrightarrow> w \<noteq> [] \<Longrightarrow> \<not> prefix w (trim_pre ws s)"
proof (induction ws s rule: trim_pre.induct)
  case (1 ws s)
  show ?case
  proof (cases "find (\<lambda>w. w \<noteq> [] \<and> prefix w s) ws")
    case None
    then have "trim_pre ws s = s" by (simp add: trim_pre.simps [of ws s])
    with None "1.prems" show ?thesis by (auto simp: find_None_iff)
  next
    case (Some v)
    with "1.IH" "1.prems" show ?thesis by (simp add: trim_pre.simps [of ws s])
  qed
qed

lemma trim_pre_id: "(\<And>w. w \<in> set ws \<Longrightarrow> w \<noteq> [] \<Longrightarrow> \<not> prefix w s) \<Longrightarrow> trim_pre ws s = s"
  by (subst trim_pre.simps) (auto simp: find_None_iff split: option.splits dest: find_Some_iff [THEN iffD1])

lemma trim_space_id:
  assumes "\<And>w. w \<in> set go_spaces \<Longrightarrow> w \<noteq> [] \<Longrightarrow> \<not> prefix w s"
    and "\<And>w. w \<in> set go_spaces \<Longrightarrow> w \<noteq> [] \<Longrightarrow> \<not> suffix w s"
  shows "trim_space s = s"
proof -
  have "trim_pre go_spaces s = s" using assms(1) by (rule trim_pre_id)
  moreover have "trim_pre (map rev go_spaces) (rev s) = rev s"
    using assms(2) by (intro trim_pre_id) (auto simp: suffix_to_prefix)
  ultimately show ?thesis by (simp add: trim_space_def)
qed

lemma trim_space_idem [simp]: "trim_space (trim_space s) = trim_space s"
proof (rule trim_space_id)
  fix w assume w: "w \<in> set go_spaces" "w \<noteq> []"
  let ?l = "trim_pre go_spaces s"
  have "suffix (trim_pre (map rev go_spaces) (rev ?l)) (rev ?l)" by (rule trim_pre_suffix)
  then have "prefix (trim_space s) ?l" by (simp add: trim_space_def suffix_to_prefix)
  with trim_pre_none [OF w] show "\<not> prefix w (trim_space s)"
    by (meson prefix_order.trans)
  have "\<not> prefix (rev w) (trim_pre (map rev go_spaces) (rev ?l))"
    using w by (intro trim_pre_none) auto
  then show "\<not> suffix w (trim_space s)"
    by (simp add: trim_space_def suffix_to_prefix)
qed

lemma trim_space_Nil [simp]: "trim_space [] = []"
  by (rule trim_space_id) auto

lemma trim_space_length: "length (trim_space s) \<le> length s"
proof -
  have "length (trim_pre ws t) \<le> length t" for ws t
    using trim_pre_suffix [of ws t] by (rule suffix_length_le)
  from this [of "map rev go_spaces" "rev (trim_pre go_spaces s)"] this [of go_spaces s]
  show ?thesis by (simp add: trim_space_def)
qed

text \<open>\<open>strings.ToUpper\<close> and \<open>strings.ToLower\<close> on ASCII letters; other bytes are unchanged.\<close>

definition to_upper_c :: "char \<Rightarrow> char" where
  "to_upper_c c = (if CHR ''a'' \<le> c \<and> c \<le> CHR ''z'' then char_of (of_char c - (32::nat)) else c)"

definition to_lower_c :: "char \<Rightarrow> char" where
  "to_lower_c c = (if CHR ''A'' \<le> c \<and> c \<le> CHR ''Z'' then char_of (of_char c + (32::nat)) else c)"

definition to_upper :: "string \<Rightarrow> string" where "to_upper s = map to_upper_c s"
definition to_lower :: "string \<Rightarrow> string" where "to_lower s = map to_lower_c s"

text \<open>\<open>strings.Trim(s, "/")\<close>, \<open>strings.TrimLeft\<close>, \<open>strings.TrimPrefix\<close> and \<open>strings.Split\<close>.\<close>

definition trim_left_c :: "char \<Rightarrow> string \<Rightarrow> string" where
  "trim_left_c c s = dropWhile (\<lambda>x. x = c) s"

definition trim_c :: "char \<Rightarrow> string \<Rightarrow> string" where
  "trim_c c s = rev (trim_left_c c (rev (trim_left_c c s)))"

definition trim_right_c :: "char \<Rightarrow> string \<Rightarrow> string" where
  "trim_right_c c s = rev (trim_left_c c (rev s))"

definition trim_prefix :: "string \<Rightarrow> string \<Rightarrow> string" where
  "trim_prefix p s = (if prefix p s then drop (length p) s else s)"

definition trim_suffix :: "string \<Rightarrow> string \<Rightarrow> string" where
  "trim_suffix p s = (if suffix p s then take (length s - length p) s else s)"

text \<open>\<open>strings.Join\<close>\<close>

fun str_join :: "string \<Rightarrow> string list \<Rightarrow> string" where
  "str_join sep [] = []"
| "str_join sep [x] = x"
| "str_join sep (x # y # ys) = x @ sep @ str_join sep (y # ys)"

fun split_c :: "char \<Rightarrow> string \<Rightarrow> string list" where
  "split_c c [] = [[]]"
| "split_c c (x # xs) =
     (if x = c then [] # split_c c xs
      else (case split_c c xs of [] \<Rightarrow> [[x]] | w # ws \<Rightarrow> (x # w) # ws))"

lemma split_c_none: "c \<notin> set s \<Longrightarrow> split_c c s = [s]"
  by (induction s) auto

lemma split_c_not_Nil [simp]: "split_c c s \<noteq> []"
  by (induction s) (auto split: list.split)

lemma split_c_append: "split_c c (s @ c # t) = split_c c s @ split_c c t"
proof (induction s)
  case (Cons x s)
  then show ?case by (cases "split_c c s") simp_all
qed simp

lemma split_c_two: "c \<notin> set s \<Longrightarrow> c \<notin> set t \<Longrightarrow> split_c c (s @ c # t) = [s, t]"
  by (simp add: split_c_append split_c_none)

lemma split_c_without: "w \<in> set (split_c c s) \<Longrightarrow> c \<notin> set w"
proof (induction s arbitrary: w)
  case (Cons x s)
  then show ?case by (cases "split_c c s") (auto split: if_splits)
qed simp

lemma split_c_join: "xs \<noteq> [] \<Longrightarrow> list_all (\<lambda>x. c \<notin> set x) xs \<Longrightarrow> split_c c (str_join [c] xs) = xs"
  by (induction "[c]" xs rule: str_join.induct) (simp_all add: split_c_none split_c_append)

text \<open>Decimal rendering (\<open>%d\<close>) and \<open>strconv.Atoi\<close>.\<close>

fun show_nat :: "nat \<Rightarrow> string" where
  "show_nat n =
     (if n < 10 then [char_of (48 + n)] else show_nat (n div 10) @ [char_of (48 + n mod 10)])"

declare show_nat.simps [simp del]

definition show_int :: "int \<Rightarrow> string" where
  "show_int i = (if i < 0 then CHR ''-'' # show_nat (nat (- i)) else show_nat (nat i))"

fun digits_val :: "nat \<Rightarrow> string \<Rightarrow> nat option" where
  "digits_val acc [] = Some acc"
| "digits_val acc (c # cs) =
     (if CHR ''0'' \<le> c \<and> c \<le> CHR ''9'' then digits_val (10 * acc + (of_char c - 48)) cs else None)"

definition atoi :: "string \<Rightarrow> int option" where
  "atoi s =
     (let neg = (case s of c # _ \<Rightarrow> c = CHR ''-'' | [] \<Rightarrow> False);
          ds = (case s of c # cs \<Rightarrow> if c = CHR ''-'' \<or> c = CHR ''+'' then cs else s | [] \<Rightarrow> [])
      in if ds = [] then None
         else (case digits_val 0 ds of
                 None \<Rightarrow> None
               | Some n \<Rightarrow> (let v = (if neg then - int n else int n)
                            in if is_int64 v then Some v else None)))"

lemma atoi_int64: "atoi s = Some n \<Longrightarrow> is_int64 n"
  by (auto simp: atoi_def Let_def split: if_splits option.splits)

lemma of_char_digit: "n < 10 \<Longrightarrow> of_char (char_of (48 + n) :: char) = 48 + (n :: nat)"
  by simp

lemma digit_range: "n < 10 \<Longrightarrow> CHR ''0'' \<le> char_of (48 + n) \<and> char_of (48 + n) \<le> CHR ''9''"
  for n :: nat
  by (simp add: less_eq_char_def)

lemma digits_val_append:
  "digits_val a xs = Some b \<Longrightarrow> digits_val a (xs @ ys) = digits_val b ys"
  by (induction a xs rule: digits_val.induct) (auto split: if_splits)

lemma digits_val_show_nat: "digits_val 0 (show_nat n) = Some n"
proof (induction n rule: show_nat.induct)
  case (1 n)
  show ?case
  proof (cases "n < 10")
    case True
    then show ?thesis by (subst show_nat.simps) (simp add: digit_range)
  next
    case False
    with "1.IH" have "digits_val 0 (show_nat (n div 10)) = Some (n div 10)" by simp
    moreover have "n mod 10 < 10" by simp
    ultimately show ?thesis
      using False digit_range [of "n mod 10"]
      by (subst show_nat.simps) (simp add: digits_val_append)
  qed
qed

lemma show_nat_hd_digit: "\<exists>d ds. show_nat n = char_of (48 + d :: nat) # ds \<and> d < 10"
proof (induction n rule: show_nat.induct)
  case (1 n)
  show ?case
  proof (cases "n < 10")
    case True
    then have "show_nat n = char_of (48 + n) # [] \<and> n < 10" by (simp add: show_nat.simps [of n])
    then show ?thesis by blast
  next
    case False
    with "1.IH" obtain d :: nat and ds
      where d: "show_nat (n div 10) = char_of (48 + d) # ds" "d < 10" by blast
    with False have "show_nat n = char_of (48 + d) # (ds @ [char_of (48 + n mod 10)]) \<and> d < 10"
      by (simp add: show_nat.simps [of n])
    then show ?thesis by blast
  qed
qed

lemma show_nat_nonempty [simp]: "show_nat n \<noteq> []"
  using show_nat_hd_digit [of n] by auto

lemma show_nat_inj: "show_nat a = show_nat b \<Longrightarrow> a = b"
  using digits_val_show_nat [of a] digits_val_show_nat [of b] by (metis option.inject)

lemma show_nat_digits: "\<forall>c \<in> set (show_nat n). CHR ''0'' \<le> c \<and> c \<le> CHR ''9''"
proof (induction n rule: show_nat.induct)
  case (1 n)
  then show ?case using digit_range [of "n mod 10"] digit_range [of n]
    by (subst show_nat.simps) auto
qed

lemma go_spaces_no_digit:
  "\<forall>w \<in> set go_spaces. w \<noteq> [] \<longrightarrow>
     \<not> (CHR ''0'' \<le> hd w \<and> hd w \<le> CHR ''9'') \<and> \<not> (CHR ''0'' \<le> last w \<and> last w \<le> CHR ''9'')"
  by code_simp

lemma show_nat_trim [simp]: "trim_space (show_nat n) = show_nat n"
proof (rule trim_space_id)
  fix w assume w: "w \<in> set go_spaces" "w \<noteq> []"
  show "\<not> prefix w (show_nat n)"
  proof
    assume "prefix w (show_nat n)"
    then have "hd w \<in> set (show_nat n)" using w(2) by (auto simp: prefix_def)
    with show_nat_digits go_spaces_no_digit w show False by blast
  qed
  show "\<not> suffix w (show_nat n)"
  proof
    assume "suffix w (show_nat n)"
    then have "last w \<in> set (show_nat n)" using w(2) by (auto simp: suffix_def)
    with show_nat_digits go_spaces_no_digit w show False by blast
  qed
qed

lemma atoi_show_int: "is_int64 i \<Longrightarrow> atoi (show_int i) = Some i"
proof -
  assume i: "is_int64 i"
  obtain d :: nat and ds where d: "show_nat (nat i) = char_of (48 + d) # ds" "d < 10"
    using show_nat_hd_digit by blast
  have "\<not> CHR ''0'' \<le> CHR ''-''" "\<not> CHR ''0'' \<le> CHR ''+''" by (simp_all add: less_eq_char_def)
  with digit_range [OF d(2)] have "char_of (48 + d) \<noteq> CHR ''-''" "char_of (48 + d) \<noteq> CHR ''+''"
    by metis+
  moreover have "show_nat (nat (- i)) \<noteq> []" using show_nat_hd_digit [of "nat (- i)"] by auto
  ultimately show ?thesis
    using i d digits_val_show_nat [of "nat i"] digits_val_show_nat [of "nat (- i)"]
    by (auto simp: atoi_def show_int_def Let_def)
qed

section \<open>Maps\<close>

abbreviation gget :: "'v gomap \<Rightarrow> string \<Rightarrow> 'v option" where "gget \<equiv> map_of"
abbreviation gset :: "string \<Rightarrow> 'v \<Rightarrow> 'v gomap \<Rightarrow> 'v gomap" where "gset \<equiv> AList.update"
abbreviation gdel :: "string \<Rightarrow> 'v gomap \<Rightarrow> 'v gomap" where "gdel \<equiv> AList.delete"
abbreviation gvals :: "'v gomap \<Rightarrow> 'v list" where "gvals m \<equiv> map snd m"
abbreviation gwf :: "'v gomap \<Rightarrow> bool" where "gwf m \<equiv> distinct (map fst m)"

lemma gget_gset [simp]: "gget (gset k v m) k' = (if k' = k then Some v else gget m k')"
  by (simp add: update_conv')

lemma gget_gdel [simp]: "gget (gdel k m) k' = (if k' = k then None else gget m k')"
  by (simp add: delete_conv')

lemma gwf_gset [simp]: "gwf m \<Longrightarrow> gwf (gset k v m)"
  by (rule distinct_update)

lemma gwf_gdel [simp]: "gwf m \<Longrightarrow> gwf (gdel k m)"
  by (rule distinct_delete)

lemma gwf_filter [simp]: "gwf m \<Longrightarrow> gwf (filter P m)"
  by (simp add: distinct_map_filter)

lemma gget_filter:
  "gwf m \<Longrightarrow> gget (filter (\<lambda>(k, v). P k v) m) x =
     (case gget m x of None \<Rightarrow> None | Some v \<Rightarrow> if P x v then Some v else None)"
  by (induction m) (auto simp: map_of_eq_None_iff image_iff split: option.splits dest: map_of_SomeD)

lemma gvals_gget: "gwf m \<Longrightarrow> v \<in> set (gvals m) \<longleftrightarrow> (\<exists>k. gget m k = Some v)"
  by (auto simp: map_of_eq_Some_iff image_iff) force+

lemma gset_same_keys: "k \<in> fst ` set m \<Longrightarrow> map fst (gset k v m) = map fst m"
  by (induction m) auto

lemma gset_new: "gget m k = None \<Longrightarrow> gset k v m = m @ [(k, v)]"
  by (induction m) (auto split: if_splits)

lemma gset_swap:
  "k \<noteq> k' \<Longrightarrow> k \<in> fst ` set m \<Longrightarrow> k' \<in> fst ` set m \<Longrightarrow>
   gset k v (gset k' v' m) = gset k' v' (gset k v m)"
  by (induction m) (auto)

lemma gvals_map: "gvals (map (\<lambda>(k, v). (k, g v)) m) = map g (gvals m)"
  by (simp add: case_prod_unfold comp_def)

lemma find_SomeD: "find P xs = Some x \<Longrightarrow> x \<in> set xs \<and> P x"
  by (auto simp: find_Some_iff)

text \<open>Mutation in place of the first entry a \<open>range\<close> loop finds.\<close>

fun update_first :: "('v \<Rightarrow> bool) \<Rightarrow> ('v \<Rightarrow> 'v) \<Rightarrow> 'v gomap \<Rightarrow> 'v gomap option" where
  "update_first P f [] = None"
| "update_first P f ((k, v) # m) =
     (if P v then Some ((k, f v) # m) else map_option ((#) (k, v)) (update_first P f m))"

lemma update_first_keys: "update_first P f m = Some m' \<Longrightarrow> map fst m' = map fst m"
  by (induction P f m arbitrary: m' rule: update_first.induct) (auto split: if_splits)

lemma update_first_find:
  "map_option (\<lambda>_. ()) (update_first P f m) = map_option (\<lambda>_. ()) (find P (gvals m))"
  by (induction P f m rule: update_first.induct) (auto simp: option.map_comp comp_def)

section \<open>The exchange sort\<close>

text \<open>
  The store sorts its listings with two nested index loops,
  \<open>for i ... { for k := i+1 ... { if less(out[k], out[i]) { swap } } }\<close>. \<open>exch_pass\<close> is one
  run of the inner loop: it carries \<open>out[i]\<close> and leaves the displaced element at \<open>k\<close>.
\<close>

fun exch_pass :: "('a \<Rightarrow> 'a \<Rightarrow> bool) \<Rightarrow> 'a \<Rightarrow> 'a list \<Rightarrow> 'a \<times> 'a list" where
  "exch_pass lt x [] = (x, [])"
| "exch_pass lt x (y # ys) =
     (if lt y x then (let (m, r) = exch_pass lt y ys in (m, x # r))
      else (let (m, r) = exch_pass lt x ys in (m, y # r)))"

lemma exch_pass_length: "exch_pass lt x ys = (m, r) \<Longrightarrow> length r = length ys"
  by (induction lt x ys arbitrary: m r rule: exch_pass.induct)
     (auto split: if_splits prod.splits)

function exch_sort :: "('a \<Rightarrow> 'a \<Rightarrow> bool) \<Rightarrow> 'a list \<Rightarrow> 'a list" where
  "exch_sort lt [] = []"
| "exch_sort lt (x # xs) = (let (m, r) = exch_pass lt x xs in m # exch_sort lt r)"
  by pat_completeness auto
termination
  by (relation "measure (\<lambda>(lt, xs). length xs)") (auto dest: exch_pass_length [OF sym])

lemma exch_pass_mset: "exch_pass lt x ys = (m, r) \<Longrightarrow> mset (m # r) = mset (x # ys)"
  by (induction lt x ys arbitrary: m r rule: exch_pass.induct)
     (fastforce split: if_splits prod.splits)+

lemma mset_exch_sort [simp]: "mset (exch_sort lt xs) = mset xs"
proof (induction lt xs rule: exch_sort.induct)
  case (1 lt)
  show ?case by simp
next
  case (2 lt x xs)
  obtain m r where mr: "exch_pass lt x xs = (m, r)" by fastforce
  with "2.IH" have "mset (exch_sort lt r) = mset r" by simp
  with mr exch_pass_mset [OF mr] show ?case by simp
qed

lemma set_exch_sort [simp]: "set (exch_sort lt xs) = set xs"
  by (metis mset_exch_sort set_mset_mset)

lemma length_exch_sort [simp]: "length (exch_sort lt xs) = length xs"
  by (metis mset_exch_sort size_mset)

lemma distinct_exch_sort [simp]: "distinct (exch_sort lt xs) = distinct xs"
  using mset_eq_imp_distinct_iff [OF mset_exch_sort] .

lemma distinct_map_exch_sort [simp]: "distinct (map f (exch_sort lt xs)) = distinct (map f xs)"
  by (rule mset_eq_imp_distinct_iff) simp

text \<open>The contract of a comparison passed to a sort: a strict weak order.\<close>

locale strict_weak =
  fixes lt :: "'a \<Rightarrow> 'a \<Rightarrow> bool"
  assumes asym: "lt x y \<Longrightarrow> \<not> lt y x"
    and ntrans: "lt x z \<Longrightarrow> lt x y \<or> lt y z"
begin

lemma exch_pass_min:
  "exch_pass lt x ys = (m, r) \<Longrightarrow> \<not> lt x m \<and> (\<forall>z \<in> set r. \<not> lt z m)"
proof (induction ys arbitrary: x m r)
  case Nil
  then show ?case using asym by auto
next
  case (Cons y ys)
  show ?case
  proof (cases "lt y x")
    case True
    with Cons.prems obtain r' where r': "exch_pass lt y ys = (m, r')" "r = x # r'"
      by (auto split: prod.splits)
    from Cons.IH [OF r'(1)] have "\<not> lt y m" "\<forall>z \<in> set r'. \<not> lt z m" by auto
    with True r'(2) show ?thesis using asym ntrans by (metis set_ConsD)
  next
    case False
    with Cons.prems obtain r' where r': "exch_pass lt x ys = (m, r')" "r = y # r'"
      by (auto split: prod.splits)
    from Cons.IH [OF r'(1)] have "\<not> lt x m" "\<forall>z \<in> set r'. \<not> lt z m" by auto
    with False r'(2) show ?thesis using ntrans by (metis set_ConsD)
  qed
qed

lemma sorted_exch_sort: "sorted_wrt (\<lambda>a b. \<not> lt b a) (exch_sort lt xs)"
proof (induction xs rule: length_induct)
  case (1 xs)
  show ?case
  proof (cases xs)
    case Nil
    then show ?thesis by simp
  next
    case (Cons x ys)
    obtain m r where mr: "exch_pass lt x ys = (m, r)" by fastforce
    with "1.IH" Cons have "sorted_wrt (\<lambda>a b. \<not> lt b a) (exch_sort lt r)"
      by (simp add: exch_pass_length)
    with Cons mr exch_pass_min [OF mr] show ?thesis by simp
  qed
qed

text \<open>Where ties are equal, a sorted permutation is unique.\<close>

lemma sorted_unique:
  "sorted_wrt (\<lambda>a b. \<not> lt b a) xs \<Longrightarrow> sorted_wrt (\<lambda>a b. \<not> lt b a) ys \<Longrightarrow> mset xs = mset ys \<Longrightarrow>
   (\<And>a b. a \<in> set xs \<Longrightarrow> b \<in> set xs \<Longrightarrow> \<not> lt a b \<Longrightarrow> \<not> lt b a \<Longrightarrow> a = b) \<Longrightarrow> xs = ys"
proof (induction xs arbitrary: ys)
  case Nil
  then show ?case by simp
next
  case (Cons x xs)
  from Cons.prems(3) obtain y ys' where ys: "ys = y # ys'" by (cases ys) auto
  have sets: "set ys = set (x # xs)" using Cons.prems(3) by (metis set_mset_mset)
  then have "x = y \<or> x \<in> set ys'" and "y = x \<or> y \<in> set xs" using ys by auto
  then have "x = y"
    using Cons.prems(1,2,4) ys by auto
  then show ?case
    using Cons.prems ys by (auto intro: Cons.IH)
qed

lemma exch_sort_perm_eq:
  assumes "mset xs = mset ys"
    and "\<And>a b. a \<in> set xs \<Longrightarrow> b \<in> set xs \<Longrightarrow> \<not> lt a b \<Longrightarrow> \<not> lt b a \<Longrightarrow> a = b"
  shows "exch_sort lt xs = exch_sort lt ys"
  using assms sorted_exch_sort by (intro sorted_unique) auto

lemma exch_sort_filter:
  assumes "\<And>a b. a \<in> set xs \<Longrightarrow> b \<in> set xs \<Longrightarrow> \<not> lt a b \<Longrightarrow> \<not> lt b a \<Longrightarrow> a = b"
  shows "exch_sort lt (filter P xs) = filter P (exch_sort lt xs)"
  using assms sorted_exch_sort by (intro sorted_unique) (auto simp: sorted_wrt_filter)

lemma strict_exch_sort:
  assumes "distinct xs"
    and "\<And>a b. a \<in> set xs \<Longrightarrow> b \<in> set xs \<Longrightarrow> \<not> lt a b \<Longrightarrow> \<not> lt b a \<Longrightarrow> a = b"
  shows "sorted_wrt lt (exch_sort lt xs)"
proof -
  let ?s = "exch_sort lt xs"
  have d: "distinct ?s" using assms(1) by simp
  have "lt (?s ! i) (?s ! j)" if ij: "i < j" "j < length ?s" for i j
  proof -
    have "\<not> lt (?s ! j) (?s ! i)" using sorted_exch_sort ij by (rule sorted_wrt_nth_less)
    moreover have "?s ! i \<noteq> ?s ! j" using d ij by (simp add: nth_eq_iff_index_eq)
    moreover have "?s ! i \<in> set xs" "?s ! j \<in> set xs"
      using ij nth_mem [of i ?s] nth_mem [of j ?s] by simp_all
    ultimately show ?thesis using assms(2) by blast
  qed
  then show ?thesis by (simp add: sorted_wrt_iff_nth_less)
qed

lemma filter_after_nth:
  assumes "sorted_wrt lt xs" "k < length xs"
  shows "filter (lt (xs ! k)) xs = drop (Suc k) xs"
proof -
  have split: "xs = take (Suc k) xs @ drop (Suc k) xs" by simp
  have "\<not> lt (xs ! k) y" if "y \<in> set (take (Suc k) xs)" for y
  proof -
    from that obtain i where i: "i \<le> k" "y = xs ! i"
      by (metis in_set_conv_nth length_take less_Suc_eq_le min_less_iff_conj nth_take)
    then show ?thesis
      using assms(2) asym sorted_wrt_nth_less [OF assms(1), of i k] by (cases "i = k") auto
  qed
  moreover have "lt (xs ! k) y" if "y \<in> set (drop (Suc k) xs)" for y
    using that assms sorted_wrt_nth_less [OF assms(1), of k] by (auto simp: in_set_conv_nth)
  ultimately have "filter (lt (xs ! k)) (take (Suc k) xs @ drop (Suc k) xs) = drop (Suc k) xs"
    by (simp only: filter_append) (auto intro!: filter_True filter_False)
  with split show ?thesis by simp
qed

lemma take_sorted:
  assumes "x \<in> set (take n (exch_sort lt xs))" and "y \<in> set (drop n (exch_sort lt xs))"
  shows "\<not> lt y x"
proof -
  have "sorted_wrt (\<lambda>a b. \<not> lt b a)
      (take n (exch_sort lt xs) @ drop n (exch_sort lt xs))"
    using sorted_exch_sort by simp
  with assms show ?thesis unfolding sorted_wrt_append by blast
qed

end

text \<open>
  \<open>sort.Slice\<close> of the standard library: a permutation sorted by the comparison. It is not stable;
  the slices the source sorts come from a \<open>range\<close> over a map, whose order is arbitrary, so the
  insertion sort below reaches every result the library may return on some order of the map.
\<close>

fun insert_by :: "('a \<Rightarrow> 'a \<Rightarrow> bool) \<Rightarrow> 'a \<Rightarrow> 'a list \<Rightarrow> 'a list" where
  "insert_by lt x [] = [x]"
| "insert_by lt x (y # ys) = (if lt y x then y # insert_by lt x ys else x # y # ys)"

definition sort_slice :: "('a \<Rightarrow> 'a \<Rightarrow> bool) \<Rightarrow> 'a list \<Rightarrow> 'a list" where
  "sort_slice lt xs = foldr (insert_by lt) xs []"

lemma mset_insert_by [simp]: "mset (insert_by lt x xs) = add_mset x (mset xs)"
  by (induction lt x xs rule: insert_by.induct) auto

lemma mset_sort_slice [simp]: "mset (sort_slice lt xs) = mset xs"
  by (induction xs) (auto simp: sort_slice_def)

lemma set_insert_by [simp]: "set (insert_by lt x xs) = insert x (set xs)"
  by (induction lt x xs rule: insert_by.induct) auto

lemma set_sort_slice [simp]: "set (sort_slice lt xs) = set xs"
  by (metis mset_sort_slice set_mset_mset)

context strict_weak
begin

lemma sorted_insert_by:
  "sorted_wrt (\<lambda>a b. \<not> lt b a) xs \<Longrightarrow> sorted_wrt (\<lambda>a b. \<not> lt b a) (insert_by lt x xs)"
proof (induction xs)
  case Nil
  then show ?case by simp
next
  case (Cons y ys)
  then show ?case using asym ntrans by (auto) metis+
qed

lemma sorted_sort_slice: "sorted_wrt (\<lambda>a b. \<not> lt b a) (sort_slice lt xs)"
  by (induction xs) (auto simp: sort_slice_def sorted_insert_by)

end

end
