(* ===== verification/Store_Types.thy ===== *)
theory Store_Types
  imports Cloud_Prelude
begin

text \<open>
  The entities of the control plane (\<open>internal/store/store.go\<close>) and the state of the
  in-memory store (\<open>internal/store/memory.go\<close>, type \<open>Memory\<close>). Field names carry a prefix
  per entity, since record selectors share one name space. JSON columns whose content the
  modelled code reads are kept decoded: \<open>CommandJSON\<close> is a list of strings, \<open>LabelsJSON\<close> a map
  from strings to strings (empty for a nil column), \<open>PayloadJSON\<close> of the outbox a webhook event;
  the others are byte strings. A nil slice and an empty slice are the empty list, and the deep
  copies of the \<open>clone\<close> functions are the identity on values.
\<close>

section \<open>Accounts\<close>

record user =
  uID :: string
  uUsername :: string
  uPassword :: string
  uRole :: string
  uTokenVersion :: int

record audit_event =
  aeID :: string
  aeUserID :: string
  aeAgentID :: string
  aeAction :: string
  aeTarget :: string
  aeDetail :: string
  aeCreatedAt :: time

record audit_filter =
  afUserID :: string
  afAgentID :: string
  afAction :: string
  afLimit :: int

record refresh_token =
  rtID :: string
  rtUserID :: string
  rtTokenHash :: string
  rtExpiresAt :: time
  rtCreatedAt :: time
  rtRevoked :: bool

record agent =
  agID :: string
  agOwnerUserID :: string
  agName :: string
  agDescription :: string
  agStatus :: string
  agDefaultScopes :: "string list"
  agAllowedDriveIDs :: "string list"
  agReadPrefixes :: "string list"
  agWritePrefixes :: "string list"
  agTokenVersion :: int
  agCreatedAt :: time

section \<open>Storage resources\<close>

record provider =
  pID :: string
  pUserID :: string
  pName :: string
  pType :: string
  pCredsJSON :: string
  pEndpointPublic :: string
  pRegion :: string
  pAccountID :: string

record drive =
  dID :: string
  dUserID :: string
  dName :: string
  dAlias :: string
  dProviderID :: string
  dBucket :: string
  dPrefix :: string
  dMountPoint :: string
  dRegion :: string
  dCreatedAt :: time

record binding =
  bID :: string
  bUserID :: string
  bDriveID :: string
  bDeviceID :: string
  bMountPoint :: string
  bMode :: string
  bDesired :: string
  bActual :: string
  bLastError :: string
  bUpdatedAt :: time
  bCreatedAt :: time

record device =
  vID :: string
  vUserID :: string
  vName :: string
  vLastSeen :: time

record snapshot =
  snID :: string
  snUserID :: string
  snDriveID :: string
  snAgentID :: string
  snLabel :: string
  snNote :: string
  snPayloadJSON :: string
  snCreatedAt :: time

section \<open>Jobs and the webhook outbox\<close>

record job =
  jID :: string
  jUserID :: string
  jDriveID :: string
  jBindingID :: string
  jMode :: string
  jCommand :: "string list"
  jStatus :: string
  jRegionHint :: string
  jNote :: string
  jConnectorID :: string
  jAgentID :: string
  jClaimedByAgentID :: string
  jClaimedByRunnerID :: string
  jPriority :: int
  jLabels :: "string gomap"
  jIdempotencyKey :: string
  jExitCode :: "int option"
  jDurationMs :: int
  jHeartbeatAt :: time
  jClaimedAt :: time
  jTimeoutSec :: int
  jAttemptCount :: int
  jMaxAttempts :: int
  jStdout :: string
  jStderr :: string
  jStdoutTruncated :: bool
  jStderrTruncated :: bool
  jCreatedAt :: time
  jUpdatedAt :: time

record admin_job_filter =
  ajUserID :: string
  ajStatus :: string
  ajRegionHint :: string
  ajClaimedByRunnerID :: string
  ajLimit :: int
  ajCursorCreated :: time
  ajCursorID :: string

record job_list_filter =
  jlUserID :: string
  jlAgentID :: string
  jlClaimedByAgentID :: string
  jlClaimedByRunnerID :: string
  jlRegionHint :: string
  jlStatus :: string
  jlLabels :: "string gomap"
  jlLimit :: int
  jlCursorCreated :: time
  jlCursorID :: string

record job_status_counts =
  cPending :: nat
  cDispatched :: nat
  cRunning :: nat
  cSucceeded :: nat
  cFailed :: nat
  cCancelled :: nat
  cTotal :: nat

text \<open>The API view of a job (\<open>internal/job/service.go\<close>, type \<open>Job\<close>): nil pointers are \<open>None\<close>.\<close>

record job_view =
  vwID :: string
  vwUserID :: string
  vwDriveID :: string
  vwBindingID :: string
  vwMode :: string
  vwCommand :: "string list"
  vwStatus :: string
  vwRegionHint :: string
  vwNote :: string
  vwConnectorID :: string
  vwAgentID :: string
  vwClaimedByAgentID :: string
  vwClaimedByRunnerID :: string
  vwPriority :: int
  vwLabels :: "string gomap"
  vwIdempotencyKey :: string
  vwExitCode :: "int option"
  vwDurationMs :: int
  vwHeartbeatAt :: "time option"
  vwClaimedAt :: "time option"
  vwTimeoutSec :: int
  vwAttemptCount :: int
  vwMaxAttempts :: int
  vwStdout :: string
  vwStderr :: string
  vwStdoutTruncated :: bool
  vwStderrTruncated :: bool
  vwCreatedAt :: time
  vwUpdatedAt :: time

record webhook_event =
  evEventID :: string
  evEvent :: string
  evOccurredAt :: time
  evJob :: job_view

record webhook_outbox =
  wID :: string
  wJobID :: string
  wUserID :: string
  wEvent :: string
  wPayload :: webhook_event
  wStatus :: string
  wAttempts :: int
  wNextAttemptAt :: time
  wLastError :: string
  wCreatedAt :: time
  wUpdatedAt :: time
  wDeliveredAt :: time

record webhook_outbox_counts =
  wcPending :: nat
  wcDelivered :: nat
  wcDead :: nat
  wcTotal :: nat

record webhook_outbox_filter =
  wfStatus :: string
  wfJobID :: string
  wfUserID :: string
  wfEvent :: string
  wfLimit :: int

section \<open>Stage C entities\<close>

record memory_entry =
  meID :: string
  meUserID :: string
  meAgentID :: string
  meDriveID :: string
  meLayer :: string
  meKey :: string
  meContent :: string
  meMetaJSON :: string
  meEmbeddingJSON :: string
  meCreatedAt :: time
  meExpiresAt :: time

record memory_filter =
  mfUserID :: string
  mfAgentID :: string
  mfDriveID :: string
  mfLayer :: string
  mfKey :: string
  mfLimit :: int

record marketplace_item =
  miID :: string
  miPublisherUserID :: string
  miName :: string
  miDescription :: string
  miKind :: string
  miVersion :: string
  miPayloadJSON :: string
  miPublic :: bool
  miPriceCents :: int
  miCurrency :: string
  miCreatedAt :: time

record lineage_event =
  leID :: string
  leUserID :: string
  leActorID :: string
  leAction :: string
  leEntity :: string
  leParent :: string
  leDetail :: string
  leCreatedAt :: time

record graph_edge =
  geID :: string
  geUserID :: string
  geSubject :: string
  geRelation :: string
  geObject :: string
  geMetaJSON :: string
  geCreatedAt :: time

record purchase =
  puID :: string
  puUserID :: string
  puItemID :: string
  puAmountCents :: int
  puCurrency :: string
  puStatus :: string
  puProvider :: string
  puProviderRef :: string
  puCreatedAt :: time

record connector_binding =
  cbID :: string
  cbUserID :: string
  cbType :: string
  cbName :: string
  cbConfigJSON :: string
  cbStatus :: string
  cbCreatedAt :: time

section \<open>The in-memory store\<close>

record memory =
  m_users :: "user gomap"
  m_providers :: "provider gomap"
  m_drives :: "drive gomap"
  m_bindings :: "binding gomap"
  m_devices :: "device gomap"
  m_jobs :: "job gomap"
  m_audits :: "audit_event list"
  m_revokedJTI :: "time gomap"
  m_refresh :: "refresh_token gomap"
  m_agents :: "agent gomap"
  m_snapshots :: "snapshot gomap"
  m_memories :: "memory_entry gomap"
  m_market :: "marketplace_item gomap"
  m_lineage :: "lineage_event list"
  m_graph :: "graph_edge gomap"
  m_purchases :: "purchase gomap"
  m_connectors :: "connector_binding gomap"
  m_webhooks :: "webhook_outbox gomap"

definition NewMemory :: memory where
  "NewMemory =
    \<lparr>m_users = [], m_providers = [], m_drives = [], m_bindings = [], m_devices = [], m_jobs = [],
     m_audits = [], m_revokedJTI = [], m_refresh = [], m_agents = [], m_snapshots = [],
     m_memories = [], m_market = [], m_lineage = [], m_graph = [], m_purchases = [],
     m_connectors = [], m_webhooks = []\<rparr>"

text \<open>
  Well-formedness: every map has distinct keys, every row is stored under its own identifier (a
  user under its username), and the audit log is within its cap.
\<close>

definition keyed :: "('v \<Rightarrow> string) \<Rightarrow> 'v gomap \<Rightarrow> bool" where
  "keyed f m \<longleftrightarrow> gwf m \<and> (\<forall>(k, v) \<in> set m. f v = k)"

definition store_wf :: "memory \<Rightarrow> bool" where
  "store_wf m \<longleftrightarrow>
     keyed uUsername (m_users m) \<and> keyed pID (m_providers m) \<and> keyed dID (m_drives m) \<and>
     keyed bID (m_bindings m) \<and> keyed vID (m_devices m) \<and> keyed jID (m_jobs m) \<and>
     length (m_audits m) \<le> 1000 \<and> gwf (m_revokedJTI m) \<and> keyed rtID (m_refresh m) \<and>
     keyed agID (m_agents m) \<and> keyed snID (m_snapshots m) \<and> keyed meID (m_memories m) \<and>
     keyed miID (m_market m) \<and> keyed geID (m_graph m) \<and> keyed puID (m_purchases m) \<and>
     keyed cbID (m_connectors m) \<and> keyed wID (m_webhooks m)"

lemma keyed_Nil [simp]: "keyed f []"
  by (simp add: keyed_def)

lemma keyed_gwf: "keyed f m \<Longrightarrow> gwf m"
  by (simp add: keyed_def)

lemma keyed_gget: "keyed f m \<Longrightarrow> gget m k = Some v \<Longrightarrow> f v = k"
  by (auto simp: keyed_def dest: map_of_SomeD)

lemma set_gset: "set (gset k v m) \<subseteq> insert (k, v) (set m)"
  by (induction m) auto

lemma keyed_gset [intro]: "keyed f m \<Longrightarrow> f v = k \<Longrightarrow> keyed f (gset k v m)"
  using set_gset [of k v m] by (fastforce simp: keyed_def)

lemma set_gdel: "set (gdel k m) \<subseteq> set m"
  by (induction m) auto

lemma keyed_gdel [intro]: "keyed f m \<Longrightarrow> keyed f (gdel k m)"
  using set_gdel [of k m] by (fastforce simp: keyed_def)

lemma keyed_filter [intro]: "keyed f m \<Longrightarrow> keyed f (filter P m)"
  by (auto simp: keyed_def distinct_map_filter)

lemma keyed_update_first:
  assumes "keyed f m" "update_first P g m = Some m'" "\<And>v. f (g v) = f v"
  shows "keyed f m'"
proof -
  have "\<forall>(k, v) \<in> set m. f v = k \<Longrightarrow> update_first P g m = Some m' \<Longrightarrow> \<forall>(k, v) \<in> set m'. f v = k"
    using assms(3) by (induction P g m arbitrary: m' rule: update_first.induct) (auto split: if_splits)
  with assms show ?thesis by (auto simp: keyed_def update_first_keys)
qed

lemma keyed_in: "keyed f m \<Longrightarrow> v \<in> snd ` set m \<longleftrightarrow> gget m (f v) = Some v"
  by (auto simp: keyed_def) (force intro: map_of_is_SomeI dest: map_of_SomeD)+

lemma keyed_inj: "keyed f m \<Longrightarrow> v \<in> snd ` set m \<Longrightarrow> w \<in> snd ` set m \<Longrightarrow> f v = f w \<Longrightarrow> v = w"
  by (simp add: keyed_in)

lemma keyed_distinct: "keyed f m \<Longrightarrow> distinct (gvals m)"
proof (induction m)
  case Nil
  then show ?case by simp
next
  case (Cons a m)
  then show ?case by (cases a) (force simp: keyed_def)
qed

lemma keyed_map_f: "keyed f m \<Longrightarrow> map f (gvals m) = map fst m"
  by (induction m) (auto simp: keyed_def)

lemma store_wfD:
  assumes "store_wf m"
  shows "keyed uUsername (m_users m)"
    and "keyed pID (m_providers m)"
    and "keyed dID (m_drives m)"
    and "keyed bID (m_bindings m)"
    and "keyed vID (m_devices m)"
    and "keyed jID (m_jobs m)"
    and "keyed rtID (m_refresh m)"
    and "keyed agID (m_agents m)"
    and "keyed snID (m_snapshots m)"
    and "keyed meID (m_memories m)"
    and "keyed miID (m_market m)"
    and "keyed geID (m_graph m)"
    and "keyed puID (m_purchases m)"
    and "keyed cbID (m_connectors m)"
    and "keyed wID (m_webhooks m)"
    and "length (m_audits m) \<le> 1000" and "gwf (m_revokedJTI m)"
  using assms by (simp_all only: store_wf_def)

lemma store_wf_upd:
  assumes "store_wf m"
  shows "keyed uUsername x0 \<Longrightarrow> store_wf (m\<lparr>m_users := x0\<rparr>)"
    and "keyed pID x1 \<Longrightarrow> store_wf (m\<lparr>m_providers := x1\<rparr>)"
    and "keyed dID x2 \<Longrightarrow> store_wf (m\<lparr>m_drives := x2\<rparr>)"
    and "keyed bID x3 \<Longrightarrow> store_wf (m\<lparr>m_bindings := x3\<rparr>)"
    and "keyed vID x4 \<Longrightarrow> store_wf (m\<lparr>m_devices := x4\<rparr>)"
    and "keyed jID x5 \<Longrightarrow> store_wf (m\<lparr>m_jobs := x5\<rparr>)"
    and "keyed rtID x6 \<Longrightarrow> store_wf (m\<lparr>m_refresh := x6\<rparr>)"
    and "keyed agID x7 \<Longrightarrow> store_wf (m\<lparr>m_agents := x7\<rparr>)"
    and "keyed snID x8 \<Longrightarrow> store_wf (m\<lparr>m_snapshots := x8\<rparr>)"
    and "keyed meID x9 \<Longrightarrow> store_wf (m\<lparr>m_memories := x9\<rparr>)"
    and "keyed miID x10 \<Longrightarrow> store_wf (m\<lparr>m_market := x10\<rparr>)"
    and "keyed geID x11 \<Longrightarrow> store_wf (m\<lparr>m_graph := x11\<rparr>)"
    and "keyed puID x12 \<Longrightarrow> store_wf (m\<lparr>m_purchases := x12\<rparr>)"
    and "keyed cbID x13 \<Longrightarrow> store_wf (m\<lparr>m_connectors := x13\<rparr>)"
    and "keyed wID x14 \<Longrightarrow> store_wf (m\<lparr>m_webhooks := x14\<rparr>)"
    and "length as \<le> 1000 \<Longrightarrow> store_wf (m\<lparr>m_audits := as\<rparr>)" and "gwf rs \<Longrightarrow> store_wf (m\<lparr>m_revokedJTI := rs\<rparr>)"
    and "store_wf (m\<lparr>m_lineage := ls\<rparr>)"
  using assms by (simp_all add: store_wf_def)

lemma store_wf_NewMemory: "store_wf NewMemory"
  by (simp add: store_wf_def NewMemory_def)

end
