(* ===== verification/Store_Interface.thy ===== *)
theory Store_Interface
  imports Store_Types
begin

text \<open>
  The contract a per-user table of the store offers its services, as locales: a lookup that
  answers only for the owner (\<open>owned_get\<close>), extended by the listing of the owner's rows
  (\<open>owned_read\<close>), by creation, update and deletion. The
  theories of the tables interpret them on the operations of the in-memory store; the lemmas
  proved here once give each table its tenant isolation and its lookup-after-write laws.
\<close>

text \<open>The comparisons of the listings: newest first and oldest first by an instant of the row.\<close>

definition newer :: "('v \<Rightarrow> time) \<Rightarrow> 'v \<Rightarrow> 'v \<Rightarrow> bool" where
  "newer at a b \<longleftrightarrow> at a > at b"

definition older :: "('v \<Rightarrow> time) \<Rightarrow> 'v \<Rightarrow> 'v \<Rightarrow> bool" where
  "older at a b \<longleftrightarrow> at a < at b"

interpretation newer_order: strict_weak "newer at" for at :: "'v \<Rightarrow> time"
  by unfold_locales (auto simp: newer_def)

interpretation older_order: strict_weak "older at" for at :: "'v \<Rightarrow> time"
  by unfold_locales (auto simp: older_def)

lemma keyed_map_same:
  assumes "keyed f m" "\<And>v. f (g v) = f v"
  shows "keyed f (map (\<lambda>(k, v). (k, g v)) m)"
proof -
  let ?m = "map (\<lambda>(k, v). (k, g v)) m"
  have keys: "map fst ?m = map fst m" by (simp add: case_prod_unfold comp_def)
  have "\<forall>(k, v) \<in> set ?m. f v = k" using assms by (auto simp: keyed_def)
  with assms(1) show ?thesis unfolding keyed_def keys by blast
qed

lemmas wf_intros = store_wf_upd keyed_gset keyed_gdel keyed_filter keyed_map_same
lemmas wf_dests = store_wfD

locale owned_get =
  fixes owner :: "'e \<Rightarrow> 'o"
    and ident :: "'e \<Rightarrow> string"
    and rows :: "memory \<Rightarrow> 'e gomap"
    and get :: "memory \<Rightarrow> 'o \<Rightarrow> string \<Rightarrow> 'e result"
  assumes get_iff: "get m u i = Inr e \<longleftrightarrow> gget (rows m) i = Some e \<and> owner e = u"
begin

lemma get_owner: "get m u i = Inr e \<Longrightarrow> owner e = u"
  by (simp add: get_iff)

lemma get_stranger: "get m u i = Inr e \<Longrightarrow> u' \<noteq> u \<Longrightarrow> \<exists>err. get m u' i = Inl err"
  by (cases "get m u' i") (simp_all add: get_iff)

lemma get_cong: "gget (rows m') i = gget (rows m) i \<Longrightarrow> get m' u i = Inr e \<longleftrightarrow> get m u i = Inr e"
  by (simp add: get_iff)

end

locale owned_read = owned_get +
  fixes listing :: "memory \<Rightarrow> 'b \<Rightarrow> 'a list"
  assumes listing_set: "set (listing m u) = {e \<in> set (gvals (rows m)). owner e = u}"
begin

lemma listing_get: "keyed ident (rows m) \<Longrightarrow> e \<in> set (listing m u) \<longleftrightarrow> get m u (ident e) = Inr e"
  using keyed_in [of ident "rows m" e] by (simp add: listing_set get_iff)

end

locale owned_create = owned_get +
  fixes create :: "memory \<Rightarrow> 'a \<Rightarrow> memory result"
  assumes create_rows: "create m e = Inr m' \<Longrightarrow> rows m' = gset (ident e) e (rows m)"
begin

lemma get_create: "create m e = Inr m' \<Longrightarrow> get m' (owner e) (ident e) = Inr e"
  by (simp add: get_iff create_rows)

lemma create_isolated:
  assumes "create m e = Inr m'" "gget (rows m) (ident e) = None" "u \<noteq> owner e"
  shows "get m' u i = Inr x \<longleftrightarrow> get m u i = Inr x"
  using assms by (auto simp: get_iff create_rows [OF assms(1)])

lemma get_create_other: "create m e = Inr m' \<Longrightarrow> i \<noteq> ident e \<Longrightarrow> get m' u i = Inr x \<longleftrightarrow> get m u i = Inr x"
  by (simp add: get_iff create_rows)

end

locale owned_update = owned_get +
  fixes upd :: "memory \<Rightarrow> 'a \<Rightarrow> memory result"
    and stored :: "memory \<Rightarrow> 'a \<Rightarrow> 'a"
  assumes upd_found: "upd m e = Inr m' \<Longrightarrow> \<exists>c. get m (owner e) (ident e) = Inr c"
    and upd_rows: "upd m e = Inr m' \<Longrightarrow> rows m' = gset (ident e) (stored m e) (rows m)"
    and stored_owner: "owner (stored m e) = owner e"
begin

lemma get_upd: "upd m e = Inr m' \<Longrightarrow> get m' (owner e) (ident e) = Inr (stored m e)"
  by (simp add: get_iff upd_rows stored_owner)

lemma upd_isolated:
  assumes "upd m e = Inr m'" "u \<noteq> owner e"
  shows "get m' u i = Inr x \<longleftrightarrow> get m u i = Inr x"
  using upd_found [OF assms(1)] assms by (auto simp: get_iff upd_rows stored_owner)

lemma upd_domain: "upd m e = Inr m' \<Longrightarrow> dom (gget (rows m')) = dom (gget (rows m))"
  using upd_found [of m e m'] by (auto simp: get_iff upd_rows dom_def)

end

locale owned_delete = owned_get +
  fixes del :: "memory \<Rightarrow> 'b \<Rightarrow> string \<Rightarrow> memory result"
  assumes del_found: "del m u i = Inr m' \<Longrightarrow> \<exists>e. get m u i = Inr e"
    and del_ok: "get m u i = Inr e \<Longrightarrow> \<exists>m'. del m u i = Inr m'"
    and del_rows: "del m u i = Inr m' \<Longrightarrow> rows m' = gdel i (rows m)"
begin

lemma get_del: "del m u i = Inr m' \<Longrightarrow> \<exists>err. get m' u' i = Inl err"
  using get_iff [of m' u' i] del_rows [of m u i m'] by (cases "get m' u' i") auto

lemma get_del_other: "del m u i = Inr m' \<Longrightarrow> j \<noteq> i \<Longrightarrow> get m' v j = Inr x \<longleftrightarrow> get m v j = Inr x"
  by (simp add: get_iff del_rows)

lemma del_stranger: "get m u i = Inr e \<Longrightarrow> u' \<noteq> u \<Longrightarrow> \<exists>err. del m u' i = Inl err"
  using get_stranger [of m u i e u'] del_found [of m u' i] by (cases "del m u' i") force+

lemma del_isolated: "del m u i = Inr m' \<Longrightarrow> v \<noteq> u \<Longrightarrow> get m' v j = Inr x \<longleftrightarrow> get m v j = Inr x"
  using del_found [of m u i m'] by (auto simp: get_iff del_rows)

end

end
