(* ===== verification/Store_Jobs.thy ===== *)
theory Store_Jobs
  imports Store_Interface
begin

text \<open>
  The job table of the in-memory store (\<open>internal/store/memory.go\<close>): lookups, the filtered
  and paged listings, the status counters, the retention purge with its cascade into the webhook
  outbox, and the atomic claim.
\<close>

section \<open>Lookup, creation, update\<close>

definition CreateJob :: "memory \<Rightarrow> job \<Rightarrow> memory result" where
  "CreateJob m j = Inr (m\<lparr>m_jobs := gset (jID j) j (m_jobs m)\<rparr>)"

definition GetJob :: "memory \<Rightarrow> string \<Rightarrow> string \<Rightarrow> job result" where
  "GetJob m u i =
     (case gget (m_jobs m) i of
        None \<Rightarrow> Inl (Errorf ''job not found'')
      | Some j \<Rightarrow> if jUserID j \<noteq> u then Inl (Errorf ''job not found'') else Inr j)"

definition GetJobByID :: "memory \<Rightarrow> string \<Rightarrow> job result" where
  "GetJobByID m i =
     (case gget (m_jobs m) i of None \<Rightarrow> Inl (Errorf ''job not found'') | Some j \<Rightarrow> Inr j)"

definition GetJobByIdempotencyKey :: "memory \<Rightarrow> string \<Rightarrow> string \<Rightarrow> job result" where
  "GetJobByIdempotencyKey m u key0 =
     (let key = trim_space key0
      in if key = [] then Inl (Errorf ''job not found'')
         else (case find (\<lambda>j. jUserID j = u \<and> jIdempotencyKey j = key) (gvals (m_jobs m)) of
                 None \<Rightarrow> Inl (Errorf ''job not found'')
               | Some j \<Rightarrow> Inr j))"

definition UpdateJob :: "memory \<Rightarrow> job \<Rightarrow> memory result" where
  "UpdateJob m j =
     (case gget (m_jobs m) (jID j) of
        None \<Rightarrow> Inl (Errorf ''job not found'')
      | Some cur \<Rightarrow>
          if jUserID cur \<noteq> jUserID j then Inl (Errorf ''job not found'')
          else Inr (m\<lparr>m_jobs := gset (jID j) j (m_jobs m)\<rparr>))"

section \<open>Listings\<close>

definition job_newer :: "job \<Rightarrow> job \<Rightarrow> bool" where
  "job_newer a b \<longleftrightarrow>
     jCreatedAt a > jCreatedAt b \<or> (jCreatedAt a = jCreatedAt b \<and> jID a > jID b)"

definition job_older :: "job \<Rightarrow> job \<Rightarrow> bool" where
  "job_older a b \<longleftrightarrow>
     jCreatedAt a < jCreatedAt b \<or> (jCreatedAt a = jCreatedAt b \<and> jID a < jID b)"

interpretation job_newer_order: strict_weak job_newer
  by unfold_locales (auto simp: job_newer_def)

interpretation job_older_order: strict_weak job_older
  by unfold_locales (auto simp: job_older_def)

definition job_page_limit :: "int \<Rightarrow> int" where
  "job_page_limit l = (let l = (if l \<le> 0 then 100 else l) in if l > 501 then 501 else l)"

text \<open>Keyset cursor: keep the rows strictly after \<open>(created, id)\<close> in the newest-first order.\<close>

definition past_cursor :: "time \<Rightarrow> string \<Rightarrow> job \<Rightarrow> bool" where
  "past_cursor created cid j \<longleftrightarrow>
     (if \<not> is_zero created \<and> cid \<noteq> []
      then \<not> jCreatedAt j > created \<and> \<not> (jCreatedAt j = created \<and> jID j \<ge> cid)
      else True)"

definition admin_job_matches :: "admin_job_filter \<Rightarrow> job \<Rightarrow> bool" where
  "admin_job_matches f j \<longleftrightarrow>
     (let region = trim_space (ajRegionHint f); runner = trim_space (ajClaimedByRunnerID f)
      in (ajUserID f = [] \<or> jUserID j = ajUserID f) \<and>
         (ajStatus f = [] \<or> jStatus j = ajStatus f) \<and>
         (region = [] \<or> jRegionHint j = region) \<and>
         (runner = [] \<or> jClaimedByRunnerID j = runner))"

definition ListJobsAdmin :: "memory \<Rightarrow> admin_job_filter \<Rightarrow> job list" where
  "ListJobsAdmin m f =
     take (nat (job_page_limit (ajLimit f)))
       (exch_sort job_newer
          (filter (\<lambda>j. admin_job_matches f j \<and> past_cursor (ajCursorCreated f) (ajCursorID f) j)
             (gvals (m_jobs m))))"

definition ListJobs :: "memory \<Rightarrow> string \<Rightarrow> job list" where
  "ListJobs m u = filter (\<lambda>j. jUserID j = u) (gvals (m_jobs m))"

text \<open>A missing label reads as the empty string, as an absent key of a Go map.\<close>

definition label_of :: "string gomap \<Rightarrow> string \<Rightarrow> string" where
  "label_of have k = (case gget have k of None \<Rightarrow> [] | Some v \<Rightarrow> v)"

definition jobLabelsMatchStore :: "string gomap \<Rightarrow> string gomap \<Rightarrow> bool" where
  "jobLabelsMatchStore raw want \<longleftrightarrow>
     (if want = [] then True
      else if raw = [] then False
      else list_all (\<lambda>(k, v). label_of raw k = v) want)"

definition job_list_matches :: "job_list_filter \<Rightarrow> job \<Rightarrow> bool" where
  "job_list_matches f j \<longleftrightarrow>
     (let userID = trim_space (jlUserID f); agentID = trim_space (jlAgentID f);
          claimer = trim_space (jlClaimedByAgentID f); runner = trim_space (jlClaimedByRunnerID f);
          region = trim_space (jlRegionHint f); status = trim_space (jlStatus f)
      in (userID = [] \<or> jUserID j = userID) \<and>
         (agentID = [] \<or> jAgentID j = agentID) \<and>
         (claimer = [] \<or> jClaimedByAgentID j = claimer) \<and>
         (runner = [] \<or> jClaimedByRunnerID j = runner) \<and>
         (region = [] \<or> jRegionHint j = region) \<and>
         (status = [] \<or> jStatus j = status) \<and>
         jobLabelsMatchStore (jLabels j) (jlLabels f))"

definition ListJobsPage :: "memory \<Rightarrow> job_list_filter \<Rightarrow> job list" where
  "ListJobsPage m f =
     take (nat (job_page_limit (jlLimit f)))
       (exch_sort job_newer
          (filter (\<lambda>j. job_list_matches f j \<and> past_cursor (jlCursorCreated f) (jlCursorID f) j)
             (gvals (m_jobs m))))"

definition AddStatus :: "string \<Rightarrow> job_status_counts \<Rightarrow> job_status_counts" where
  "AddStatus status c0 =
     (let c = c0\<lparr>cTotal := cTotal c0 + 1\<rparr>
      in if status = ''pending'' then c\<lparr>cPending := cPending c + 1\<rparr>
         else if status = ''dispatched'' then c\<lparr>cDispatched := cDispatched c + 1\<rparr>
         else if status = ''running'' then c\<lparr>cRunning := cRunning c + 1\<rparr>
         else if status = ''succeeded'' then c\<lparr>cSucceeded := cSucceeded c + 1\<rparr>
         else if status = ''failed'' then c\<lparr>cFailed := cFailed c + 1\<rparr>
         else if status = ''cancelled'' then c\<lparr>cCancelled := cCancelled c + 1\<rparr>
         else c)"

definition CountJobsByStatus :: "memory \<Rightarrow> string \<Rightarrow> job_status_counts" where
  "CountJobsByStatus m u =
     fold (\<lambda>j c. if u \<noteq> [] \<and> jUserID j \<noteq> u then c else AddStatus (jStatus j) c) (gvals (m_jobs m))
       \<lparr>cPending = 0, cDispatched = 0, cRunning = 0, cSucceeded = 0, cFailed = 0, cCancelled = 0,
        cTotal = 0\<rparr>"

definition is_queued :: "job \<Rightarrow> bool" where
  "is_queued j \<longleftrightarrow> jStatus j = ''pending'' \<or> jStatus j = ''dispatched''"

definition ListPendingJobs :: "memory \<Rightarrow> string \<Rightarrow> job list" where
  "ListPendingJobs m u = filter (\<lambda>j. jUserID j = u \<and> is_queued j) (gvals (m_jobs m))"

definition ListRunningJobs :: "memory \<Rightarrow> string \<Rightarrow> job list" where
  "ListRunningJobs m u0 =
     (let u = trim_space u0
      in exch_sort job_older
           (filter (\<lambda>j. jStatus j = ''running'' \<and> (u = [] \<or> jUserID j = u)) (gvals (m_jobs m))))"

section \<open>Retention\<close>

definition is_terminal :: "string \<Rightarrow> bool" where
  "is_terminal s \<longleftrightarrow> s = ''succeeded'' \<or> s = ''failed'' \<or> s = ''cancelled''"

definition purge_limit :: "int \<Rightarrow> int" where
  "purge_limit l = (let l = (if l \<le> 0 then 500 else l) in if l > 5000 then 5000 else l)"

definition purge_candidates :: "memory \<Rightarrow> time \<Rightarrow> int \<Rightarrow> (string \<times> time) list" where
  "purge_candidates m olderThan limit =
     take (nat (purge_limit limit))
       (exch_sort (older snd)
          (map (\<lambda>(i, j). (i, jUpdatedAt j))
             (filter (\<lambda>(i, j). is_terminal (jStatus j) \<and> jUpdatedAt j < olderThan) (m_jobs m))))"

definition store_PurgeTerminalJobs :: "memory \<Rightarrow> time \<Rightarrow> int \<Rightarrow> memory \<times> nat" where
  "store_PurgeTerminalJobs m olderThan limit =
     (let ids = map fst (purge_candidates m olderThan limit)
      in (m\<lparr>m_jobs := fold gdel ids (m_jobs m),
            m_webhooks :=
              fold (\<lambda>i ws. filter (\<lambda>(wid, e). wJobID e \<noteq> i) ws) ids (m_webhooks m)\<rparr>,
          length ids))"

definition DeleteWebhookOutboxByJobIDs :: "memory \<Rightarrow> string list \<Rightarrow> memory \<times> nat" where
  "DeleteWebhookOutboxByJobIDs m ids =
     (if ids = [] then (m, 0)
      else (m\<lparr>m_webhooks := filter (\<lambda>(wid, e). wJobID e \<notin> set ids) (m_webhooks m)\<rparr>,
            length (filter (\<lambda>(wid, e). wJobID e \<in> set ids) (m_webhooks m))))"

section \<open>The atomic claim\<close>

definition claimed :: "time \<Rightarrow> string \<Rightarrow> string \<Rightarrow> job \<Rightarrow> job" where
  "claimed now agent runner j =
     j\<lparr>jStatus := ''running'', jClaimedByAgentID := agent, jClaimedByRunnerID := runner,
       jHeartbeatAt := now, jClaimedAt := now, jAttemptCount := jAttemptCount j + 1,
       jUpdatedAt := now\<rparr>"

definition ClaimPendingJob ::
  "time \<Rightarrow> memory \<Rightarrow> string \<Rightarrow> string \<Rightarrow> string \<Rightarrow> string \<Rightarrow> (memory \<times> job) result" where
  "ClaimPendingJob now m u i agent runner =
     (case gget (m_jobs m) i of
        None \<Rightarrow> Inl (Errorf ''job not found'')
      | Some j \<Rightarrow>
          if jUserID j \<noteq> u then Inl (Errorf ''job not found'')
          else if jStatus j \<noteq> ''pending'' \<and> jStatus j \<noteq> ''dispatched''
          then Inl (Errorf (''job not claimable: '' @ jStatus j))
          else (let j' = claimed now agent runner j
                in Inr (m\<lparr>m_jobs := gset i j' (m_jobs m)\<rparr>, j')))"

lemmas job_store_defs [store_defs] =
  CreateJob_def GetJob_def GetJobByID_def GetJobByIdempotencyKey_def UpdateJob_def ListJobsAdmin_def
  ListJobs_def ListJobsPage_def CountJobsByStatus_def ListPendingJobs_def ListRunningJobs_def
  store_PurgeTerminalJobs_def DeleteWebhookOutboxByJobIDs_def ClaimPendingJob_def

interpretation jobs: owned_read jUserID jID m_jobs GetJob ListJobs
  by unfold_locales (auto simp: GetJob_def ListJobs_def split: option.splits)

interpretation jobs_c: owned_create jUserID jID m_jobs GetJob CreateJob
  by unfold_locales (auto simp: CreateJob_def)

interpretation jobs_u: owned_update jUserID jID m_jobs GetJob UpdateJob "\<lambda>m j. j"
  by unfold_locales (auto simp: UpdateJob_def GetJob_def split: option.splits if_splits)

section \<open>Well-formedness\<close>

lemma claimed_simps [simp]:
  "jID (claimed n a r j) = jID j" "jUserID (claimed n a r j) = jUserID j"
  "jStatus (claimed n a r j) = ''running''" "jCreatedAt (claimed n a r j) = jCreatedAt j"
  "jIdempotencyKey (claimed n a r j) = jIdempotencyKey j"
  by (simp_all add: claimed_def)

lemma CreateJob_wf: "store_wf m \<Longrightarrow> CreateJob m j = Inr m' \<Longrightarrow> store_wf m'"
  by (auto simp: CreateJob_def wf_dests intro!: wf_intros)

lemma UpdateJob_wf: "store_wf m \<Longrightarrow> UpdateJob m j = Inr m' \<Longrightarrow> store_wf m'"
  by (auto simp: UpdateJob_def wf_dests split: option.splits if_splits intro!: wf_intros)

lemma ClaimPendingJob_wf:
  "store_wf m \<Longrightarrow> ClaimPendingJob now m u i a r = Inr (m', j') \<Longrightarrow> store_wf m'"
  by (auto simp: ClaimPendingJob_def Let_def wf_dests keyed_gget [OF store_wfD(6)]
      split: option.splits if_splits intro!: wf_intros)

lemma keyed_fold_gdel: "keyed f m \<Longrightarrow> keyed f (fold gdel ids m)"
  by (induction ids arbitrary: m) auto

lemma keyed_fold_filter: "keyed f m \<Longrightarrow> keyed f (fold (\<lambda>i. filter (P i)) ids m)"
  by (induction ids arbitrary: m) auto

lemma store_PurgeTerminalJobs_wf: "store_wf m \<Longrightarrow> store_wf (fst (store_PurgeTerminalJobs m t l))"
  by (auto simp: store_PurgeTerminalJobs_def Let_def wf_dests
      intro!: store_wf_upd keyed_fold_gdel keyed_fold_filter)

lemma DeleteWebhookOutboxByJobIDs_wf:
  "store_wf m \<Longrightarrow> store_wf (fst (DeleteWebhookOutboxByJobIDs m ids))"
  by (auto simp: DeleteWebhookOutboxByJobIDs_def wf_dests intro!: wf_intros)

lemmas job_store_wf = CreateJob_wf UpdateJob_wf ClaimPendingJob_wf store_PurgeTerminalJobs_wf
  DeleteWebhookOutboxByJobIDs_wf

section \<open>Listings: order independence and pagination\<close>

lemma jobs_in: "store_wf m \<Longrightarrow> j \<in> snd ` set (m_jobs m) \<longleftrightarrow> gget (m_jobs m) (jID j) = Some j"
  by (rule keyed_in [OF store_wfD(6)])

lemma job_newer_total:
  assumes "store_wf m" "a \<in> snd ` set (m_jobs m)" "b \<in> snd ` set (m_jobs m)"
    and "\<not> job_newer a b" "\<not> job_newer b a"
  shows "a = b"
proof -
  have "jID a = jID b"
    using assms(4,5) by (cases "jCreatedAt a" "jCreatedAt b" rule: linorder_cases)
      (simp_all add: job_newer_def)
  with assms(2,3) show ?thesis by (rule keyed_inj [OF store_wfD(6) [OF assms(1)]])
qed

lemma job_older_total:
  assumes "store_wf m" "a \<in> snd ` set (m_jobs m)" "b \<in> snd ` set (m_jobs m)"
    and "\<not> job_older a b" "\<not> job_older b a"
  shows "a = b"
proof -
  have "jID a = jID b"
    using assms(4,5) by (cases "jCreatedAt a" "jCreatedAt b" rule: linorder_cases)
      (simp_all add: job_older_def)
  with assms(2,3) show ?thesis by (rule keyed_inj [OF store_wfD(6) [OF assms(1)]])
qed

lemma job_newer_sort_cong:
  assumes "store_wf m" "mset (gvals (m_jobs m)) = mset (gvals (m_jobs m'))"
  shows "exch_sort job_newer (filter P (gvals (m_jobs m))) =
    exch_sort job_newer (filter P (gvals (m_jobs m')))"
  using assms job_newer_total [OF assms(1)]
  by (intro job_newer_order.exch_sort_perm_eq) (auto simp: image_iff)

text \<open>The whole listing of a filter, of which the pages are slices.\<close>

definition job_listing :: "memory \<Rightarrow> job_list_filter \<Rightarrow> job list" where
  "job_listing m f = exch_sort job_newer (filter (job_list_matches f) (gvals (m_jobs m)))"

lemma job_listing_set:
  "set (job_listing m f) = {j \<in> set (gvals (m_jobs m)). job_list_matches f j}"
  by (simp add: job_listing_def)

lemma job_listing_strict:
  assumes "store_wf m"
  shows "sorted_wrt job_newer (job_listing m f)"
  unfolding job_listing_def
  using keyed_distinct [OF store_wfD(6) [OF assms]] job_newer_total [OF assms]
  by (intro job_newer_order.strict_exch_sort) auto

lemma past_cursor_newer:
  "jCreatedAt c \<noteq> 0 \<Longrightarrow> jID c \<noteq> [] \<Longrightarrow> past_cursor (jCreatedAt c) (jID c) j \<longleftrightarrow> job_newer c j"
  by (cases "jCreatedAt j" "jCreatedAt c" rule: linorder_cases)
    (simp_all add: past_cursor_def job_newer_def not_le)

lemma job_list_matches_cursor [simp]:
  "job_list_matches (f\<lparr>jlCursorCreated := t, jlCursorID := i\<rparr>) = job_list_matches f"
  by (rule ext) (simp add: job_list_matches_def)

lemma exch_sort_filter_newer:
  assumes "store_wf m"
  shows "exch_sort job_newer (filter (\<lambda>j. P j \<and> Q j) (gvals (m_jobs m))) =
    filter Q (exch_sort job_newer (filter P (gvals (m_jobs m))))"
proof -
  have "exch_sort job_newer (filter Q (filter P (gvals (m_jobs m)))) =
      filter Q (exch_sort job_newer (filter P (gvals (m_jobs m))))"
    using job_newer_total [OF assms] by (intro job_newer_order.exch_sort_filter) auto
  then show ?thesis by (simp add: conj_commute)
qed

lemma first_page: "jlCursorID f = [] \<Longrightarrow> ListJobsPage m f = take (nat (job_page_limit (jlLimit f))) (job_listing m f)"
  by (simp add: ListJobsPage_def job_listing_def past_cursor_def)

lemma page_after:
  assumes wf: "store_wf m" and k: "k < length (job_listing m f)"
    and c: "c = job_listing m f ! k" "jCreatedAt c \<noteq> 0" "jID c \<noteq> []"
  shows "ListJobsPage m (f\<lparr>jlCursorCreated := jCreatedAt c, jlCursorID := jID c\<rparr>) =
    take (nat (job_page_limit (jlLimit f))) (drop (Suc k) (job_listing m f))"
proof -
  have "filter (past_cursor (jCreatedAt c) (jID c)) (job_listing m f) = filter (job_newer c) (job_listing m f)"
    using c(2,3) by (simp only: past_cursor_newer not_False_eq_True cong: filter_cong)
  also have "\<dots> = drop (Suc k) (job_listing m f)"
    unfolding c(1) using job_listing_strict [OF wf] k by (rule job_newer_order.filter_after_nth)
  finally show ?thesis
    by (simp add: ListJobsPage_def exch_sort_filter_newer [OF wf] job_listing_def)
qed

section \<open>Counting\<close>

lemma CountJobsByStatus_counts:
  fixes m u
  defines "js \<equiv> filter (\<lambda>j. u = [] \<or> jUserID j = u) (gvals (m_jobs m))"
  defines "n \<equiv> \<lambda>s. length (filter (\<lambda>j. jStatus j = s) js)"
  shows "CountJobsByStatus m u =
    \<lparr>cPending = n ''pending'', cDispatched = n ''dispatched'', cRunning = n ''running'',
     cSucceeded = n ''succeeded'', cFailed = n ''failed'', cCancelled = n ''cancelled'',
     cTotal = length js\<rparr>"
proof -
  have filter: "fold (\<lambda>j c. if u \<noteq> [] \<and> jUserID j \<noteq> u then c else AddStatus (jStatus j) c) xs c =
      fold (\<lambda>j. AddStatus (jStatus j)) (filter (\<lambda>j. u = [] \<or> jUserID j = u) xs) c" for xs c
    by (induction xs arbitrary: c) auto
  define K where "K s xs = length (filter (\<lambda>j. jStatus j = s) xs)" for s and xs :: "job list"
  have cnt: "fold (\<lambda>j. AddStatus (jStatus j)) xs
       \<lparr>cPending = a1, cDispatched = a2, cRunning = a3, cSucceeded = a4, cFailed = a5, cCancelled = a6,
        cTotal = a7\<rparr> =
      \<lparr>cPending = a1 + K ''pending'' xs, cDispatched = a2 + K ''dispatched'' xs,
       cRunning = a3 + K ''running'' xs, cSucceeded = a4 + K ''succeeded'' xs,
       cFailed = a5 + K ''failed'' xs, cCancelled = a6 + K ''cancelled'' xs,
       cTotal = a7 + length xs\<rparr>" for xs a1 a2 a3 a4 a5 a6 a7
    by (induction xs arbitrary: a1 a2 a3 a4 a5 a6 a7) (simp_all add: K_def AddStatus_def Let_def)
  show ?thesis unfolding CountJobsByStatus_def filter cnt js_def n_def K_def by (simp only: add_0)
qed

section \<open>The purge\<close>

lemma gget_fold_gdel: "gget (fold gdel ids m) i = (if i \<in> set ids then None else gget m i)"
  by (induction ids arbitrary: m) auto

lemma fold_filter_jobs:
  "fold (\<lambda>i. filter (\<lambda>(wid, e). wJobID e \<noteq> i)) ids ws = filter (\<lambda>(wid, e). wJobID e \<notin> set ids) ws"
  by (induction ids arbitrary: ws) (auto intro!: filter_cong)

definition purgeable :: "memory \<Rightarrow> time \<Rightarrow> string \<Rightarrow> time \<Rightarrow> bool" where
  "purgeable m cutoff i at \<longleftrightarrow>
     (\<exists>j. gget (m_jobs m) i = Some j \<and> is_terminal (jStatus j) \<and> jUpdatedAt j = at \<and> at < cutoff)"

lemma purge_all_set:
  assumes "store_wf m"
  shows "set (exch_sort (older snd)
          (map (\<lambda>(i, j). (i, jUpdatedAt j))
             (filter (\<lambda>(i, j). is_terminal (jStatus j) \<and> jUpdatedAt j < cutoff) (m_jobs m)))) =
         {(i, at). purgeable m cutoff i at}"
  using keyed_gwf [OF store_wfD(6) [OF assms]]
  by (force simp: purgeable_def map_of_eq_Some_iff)

lemma purge_candidates_spec:
  assumes "store_wf m"
  shows "(i, at) \<in> set (purge_candidates m cutoff l) \<Longrightarrow> purgeable m cutoff i at"
    and "distinct (map fst (purge_candidates m cutoff l))"
    and "(i, at) \<in> set (purge_candidates m cutoff l) \<Longrightarrow> purgeable m cutoff k at' \<Longrightarrow>
         k \<notin> fst ` set (purge_candidates m cutoff l) \<Longrightarrow> at \<le> at'"
    and "length (purge_candidates m cutoff l) =
      min (nat (purge_limit l))
        (length (filter (\<lambda>j. is_terminal (jStatus j) \<and> jUpdatedAt j < cutoff) (gvals (m_jobs m))))"
proof -
  let ?n = "nat (purge_limit l)"
  let ?src = "map (\<lambda>(i, j). (i, jUpdatedAt j))
             (filter (\<lambda>(i, j). is_terminal (jStatus j) \<and> jUpdatedAt j < cutoff) (m_jobs m))"
  let ?all = "exch_sort (older snd) ?src"
  have pc: "purge_candidates m cutoff l = take ?n ?all" by (simp add: purge_candidates_def)
  have allset: "set ?all = {(i, at). purgeable m cutoff i at}" by (rule purge_all_set [OF assms])
  show "purgeable m cutoff i at" if "(i, at) \<in> set (purge_candidates m cutoff l)"
  proof -
    have "(i, at) \<in> set ?all" using that unfolding pc by (rule in_set_takeD)
    then show ?thesis unfolding allset by simp
  qed
  have "map fst ?src = map fst (filter (\<lambda>(i, j). is_terminal (jStatus j) \<and> jUpdatedAt j < cutoff) (m_jobs m))"
    by (simp add: case_prod_unfold comp_def)
  then have "distinct (map fst ?src)"
    using gwf_filter [OF keyed_gwf [OF store_wfD(6) [OF assms]]] by (simp only:)
  then have "distinct (map fst ?all)" by (simp only: distinct_map_exch_sort)
  then show "distinct (map fst (purge_candidates m cutoff l))"
    unfolding pc take_map [symmetric] by (rule distinct_take)
  show "at \<le> at'" if c: "(i, at) \<in> set (purge_candidates m cutoff l)" "purgeable m cutoff k at'"
    "k \<notin> fst ` set (purge_candidates m cutoff l)"
  proof -
    have "(k, at') \<in> set ?all" unfolding allset using c(2) by simp
    then have "(k, at') \<in> set (take ?n ?all) \<union> set (drop ?n ?all)"
      by (simp only: set_append [symmetric] append_take_drop_id)
    moreover have "(k, at') \<notin> set (take ?n ?all)"
      using c(3) imageI [of "(k, at')" _ fst] unfolding pc fst_conv by blast
    ultimately have "(k, at') \<in> set (drop ?n ?all)" by blast
    with c(1) have "\<not> older snd (k, at') (i, at)"
      unfolding pc by (intro older_order.take_sorted)
    then show ?thesis by (simp add: older_def)
  qed
  have "length ?src = length (filter (\<lambda>j. is_terminal (jStatus j) \<and> jUpdatedAt j < cutoff) (gvals (m_jobs m)))"
    by (simp add: filter_map case_prod_unfold comp_def)
  then show "length (purge_candidates m cutoff l) =
      min (nat (purge_limit l))
        (length (filter (\<lambda>j. is_terminal (jStatus j) \<and> jUpdatedAt j < cutoff) (gvals (m_jobs m))))"
    unfolding pc by simp
qed

lemma purge_jobs:
  assumes "store_wf m"
  shows "gget (m_jobs (fst (store_PurgeTerminalJobs m cutoff l))) i =
    (if i \<in> fst ` set (purge_candidates m cutoff l) then None else gget (m_jobs m) i)"
  by (simp add: store_PurgeTerminalJobs_def Let_def gget_fold_gdel)

lemma purge_webhooks:
  assumes "store_wf m"
  shows "gget (m_webhooks (fst (store_PurgeTerminalJobs m cutoff l))) w =
    (case gget (m_webhooks m) w of
       None \<Rightarrow> None
     | Some e \<Rightarrow> if wJobID e \<in> fst ` set (purge_candidates m cutoff l) then None else Some e)"
  using gget_filter [OF keyed_gwf [OF store_wfD(15) [OF assms]],
      of "\<lambda>_ e. wJobID e \<notin> fst ` set (purge_candidates m cutoff l)"]
  by (simp add: store_PurgeTerminalJobs_def Let_def fold_filter_jobs split: option.split)

lemma purge_count: "snd (store_PurgeTerminalJobs m cutoff l) = length (purge_candidates m cutoff l)"
  by (simp add: store_PurgeTerminalJobs_def Let_def)

lemma purge_limit_range: "1 \<le> purge_limit l \<and> purge_limit l \<le> 5000"
  by (simp add: purge_limit_def Let_def)

lemma job_page_limit_range: "1 \<le> job_page_limit l \<and> job_page_limit l \<le> 501"
  by (simp add: job_page_limit_def Let_def)

section \<open>The claim\<close>

lemma ClaimPendingJob_iff:
  "ClaimPendingJob now m u i a r = Inr (m', j') \<longleftrightarrow>
     (\<exists>j. GetJob m u i = Inr j \<and> is_queued j \<and> j' = claimed now a r j \<and>
          m' = m\<lparr>m_jobs := gset i j' (m_jobs m)\<rparr>)"
  by (auto simp: ClaimPendingJob_def GetJob_def is_queued_def Let_def split: option.splits if_splits)

lemma ClaimPendingJob_once:
  assumes "ClaimPendingJob now m u i a r = Inr (m', j')"
  shows "\<exists>e. ClaimPendingJob now' m' u' i a' r' = Inl e"
  using assms by (auto simp: ClaimPendingJob_iff) (simp add: ClaimPendingJob_def)

section \<open>The webhook outbox\<close>

text \<open>
  The webhook outbox table of the in-memory store (\<open>internal/store/memory.go\<close>): enqueue, the
  due list the worker drains, update, lookup, the admin listing, the counters and the retention
  purge.
\<close>

definition EnqueueWebhookOutbox :: "memory \<Rightarrow> webhook_outbox \<Rightarrow> memory result" where
  "EnqueueWebhookOutbox m e =
     (if trim_space (wID e) = [] then Inl (Errorf ''webhook outbox id required'')
      else (case gget (m_webhooks m) (wID e) of
              Some _ \<Rightarrow> Inl (Errorf ''webhook outbox exists'')
            | None \<Rightarrow> Inr (m\<lparr>m_webhooks := gset (wID e) e (m_webhooks m)\<rparr>)))"

definition due_limit :: "int \<Rightarrow> int" where
  "due_limit l = (let l = (if l \<le> 0 then 32 else l) in if l > 200 then 200 else l)"

definition is_due :: "time \<Rightarrow> webhook_outbox \<Rightarrow> bool" where
  "is_due now e \<longleftrightarrow> wStatus e = ''pending'' \<and> \<not> wNextAttemptAt e > now"

definition ListDueWebhookOutbox :: "memory \<Rightarrow> time \<Rightarrow> int \<Rightarrow> webhook_outbox list" where
  "ListDueWebhookOutbox m now limit =
     take (nat (due_limit limit))
       (exch_sort (older wNextAttemptAt) (filter (is_due now) (gvals (m_webhooks m))))"

definition UpdateWebhookOutbox :: "memory \<Rightarrow> webhook_outbox \<Rightarrow> memory result" where
  "UpdateWebhookOutbox m e =
     (if trim_space (wID e) = [] then Inl (Errorf ''webhook outbox id required'')
      else (case gget (m_webhooks m) (wID e) of
              None \<Rightarrow> Inl (Errorf ''webhook outbox not found'')
            | Some _ \<Rightarrow> Inr (m\<lparr>m_webhooks := gset (wID e) e (m_webhooks m)\<rparr>)))"

definition GetWebhookOutbox :: "memory \<Rightarrow> string \<Rightarrow> webhook_outbox result" where
  "GetWebhookOutbox m i0 =
     (let i = trim_space i0
      in if i = [] then Inl (Errorf ''webhook outbox not found'')
         else (case gget (m_webhooks m) i of
                 None \<Rightarrow> Inl (Errorf ''webhook outbox not found'')
               | Some e \<Rightarrow> Inr e))"

definition outbox_list_limit :: "int \<Rightarrow> int" where
  "outbox_list_limit l = (let l = (if l \<le> 0 then 100 else l) in if l > 500 then 500 else l)"

definition outbox_matches :: "webhook_outbox_filter \<Rightarrow> webhook_outbox \<Rightarrow> bool" where
  "outbox_matches f e \<longleftrightarrow>
     (let status = trim_space (wfStatus f); jobID = trim_space (wfJobID f);
          userID = trim_space (wfUserID f); event = trim_space (wfEvent f)
      in (status = [] \<or> wStatus e = status) \<and> (jobID = [] \<or> wJobID e = jobID) \<and>
         (userID = [] \<or> wUserID e = userID) \<and> (event = [] \<or> wEvent e = event))"

definition ListWebhookOutbox :: "memory \<Rightarrow> webhook_outbox_filter \<Rightarrow> webhook_outbox list" where
  "ListWebhookOutbox m f =
     take (nat (outbox_list_limit (wfLimit f)))
       (exch_sort (newer wCreatedAt) (filter (outbox_matches f) (gvals (m_webhooks m))))"

definition CountWebhookOutbox :: "memory \<Rightarrow> webhook_outbox_counts" where
  "CountWebhookOutbox m =
     fold (\<lambda>e c0.
             (let c = c0\<lparr>wcTotal := wcTotal c0 + 1\<rparr>
              in if wStatus e = ''pending'' then c\<lparr>wcPending := wcPending c + 1\<rparr>
                 else if wStatus e = ''delivered'' then c\<lparr>wcDelivered := wcDelivered c + 1\<rparr>
                 else if wStatus e = ''dead'' then c\<lparr>wcDead := wcDead c + 1\<rparr>
                 else c))
       (gvals (m_webhooks m)) \<lparr>wcPending = 0, wcDelivered = 0, wcDead = 0, wcTotal = 0\<rparr>"

text \<open>The instant a settled row is aged by: delivery (else update) if delivered, update if dead.\<close>

definition settled_at :: "webhook_outbox \<Rightarrow> time option" where
  "settled_at e =
     (if wStatus e = ''delivered''
      then Some (if is_zero (wDeliveredAt e) then wUpdatedAt e else wDeliveredAt e)
      else if wStatus e = ''dead'' then Some (wUpdatedAt e) else None)"

definition outbox_purge_candidates :: "memory \<Rightarrow> time \<Rightarrow> int \<Rightarrow> (string \<times> time) list" where
  "outbox_purge_candidates m olderThan limit =
     take (nat (purge_limit limit))
       (exch_sort (older snd)
          (List.map_filter
             (\<lambda>(i, e). (case settled_at e of
                          None \<Rightarrow> None
                        | Some at \<Rightarrow> if at < olderThan then Some (i, at) else None))
             (m_webhooks m)))"

definition PurgeWebhookOutbox :: "memory \<Rightarrow> time \<Rightarrow> int \<Rightarrow> memory \<times> nat" where
  "PurgeWebhookOutbox m olderThan limit =
     (let ids = map fst (outbox_purge_candidates m olderThan limit)
      in (m\<lparr>m_webhooks := fold gdel ids (m_webhooks m)\<rparr>, length ids))"

lemmas outbox_store_defs [store_defs] =
  EnqueueWebhookOutbox_def ListDueWebhookOutbox_def UpdateWebhookOutbox_def GetWebhookOutbox_def
  ListWebhookOutbox_def CountWebhookOutbox_def PurgeWebhookOutbox_def

section \<open>Well-formedness\<close>

lemma EnqueueWebhookOutbox_wf: "store_wf m \<Longrightarrow> EnqueueWebhookOutbox m e = Inr m' \<Longrightarrow> store_wf m'"
  by (auto simp: EnqueueWebhookOutbox_def wf_dests split: option.splits if_splits intro!: wf_intros)

lemma UpdateWebhookOutbox_wf: "store_wf m \<Longrightarrow> UpdateWebhookOutbox m e = Inr m' \<Longrightarrow> store_wf m'"
  by (auto simp: UpdateWebhookOutbox_def wf_dests split: option.splits if_splits intro!: wf_intros)

lemma PurgeWebhookOutbox_wf: "store_wf m \<Longrightarrow> store_wf (fst (PurgeWebhookOutbox m t l))"
  by (auto simp: PurgeWebhookOutbox_def Let_def wf_dests intro!: store_wf_upd keyed_fold_gdel)

lemmas outbox_wf = EnqueueWebhookOutbox_wf UpdateWebhookOutbox_wf PurgeWebhookOutbox_wf

section \<open>Behaviour\<close>

lemma ListDueWebhookOutbox_due:
  assumes "store_wf m" "e \<in> set (ListDueWebhookOutbox m now l)"
  shows "is_due now e" and "gget (m_webhooks m) (wID e) = Some e"
proof -
  have "e \<in> set (exch_sort (older wNextAttemptAt) (filter (is_due now) (gvals (m_webhooks m))))"
    using assms(2) unfolding ListDueWebhookOutbox_def by (rule in_set_takeD)
  then have "e \<in> snd ` set (m_webhooks m)" and "is_due now e" by simp_all
  then show "is_due now e" and "gget (m_webhooks m) (wID e) = Some e"
    using keyed_in [OF store_wfD(15) [OF assms(1)]] by simp_all
qed

lemma ListDueWebhookOutbox_distinct:
  assumes "store_wf m"
  shows "distinct (map wID (ListDueWebhookOutbox m now l))"
proof -
  have "map wID (gvals (m_webhooks m)) = map fst (m_webhooks m)"
    by (rule keyed_map_f [OF store_wfD(15) [OF assms]])
  then have "distinct (map wID (gvals (m_webhooks m)))"
    using keyed_gwf [OF store_wfD(15) [OF assms]] by (simp only:)
  then have "distinct (map wID (exch_sort (older wNextAttemptAt) (filter (is_due now) (gvals (m_webhooks m)))))"
    by (simp only: distinct_map_exch_sort distinct_map_filter)
  then show ?thesis unfolding ListDueWebhookOutbox_def take_map [symmetric] by (rule distinct_take)
qed

lemma PurgeWebhookOutbox_only:
  assumes "store_wf m" "gget (m_webhooks m) i = Some e"
    and "gget (m_webhooks (fst (PurgeWebhookOutbox m cutoff l))) i = None"
  shows "\<exists>at. settled_at e = Some at \<and> at < cutoff"
proof -
  from assms(2,3) have "i \<in> fst ` set (outbox_purge_candidates m cutoff l)"
    by (auto simp: PurgeWebhookOutbox_def Let_def gget_fold_gdel split: if_splits)
  then obtain at where "(i, at) \<in> set (outbox_purge_candidates m cutoff l)" by force
  then have "(i, at) \<in> set (exch_sort (older snd) (List.map_filter
             (\<lambda>(i, e). (case settled_at e of
                          None \<Rightarrow> None
                        | Some at \<Rightarrow> if at < cutoff then Some (i, at) else None))
             (m_webhooks m)))"
    unfolding outbox_purge_candidates_def by (rule in_set_takeD)
  then obtain e' where "(i, e') \<in> set (m_webhooks m)" "settled_at e' = Some at" "at < cutoff"
    by (auto simp: map_filter_def split: option.splits if_splits)
  moreover from this have "gget (m_webhooks m) i = Some e'"
    using keyed_gwf [OF store_wfD(15) [OF assms(1)]] by (simp add: map_of_eq_Some_iff)
  ultimately show ?thesis using assms(2) by simp
qed

end
