(* ===== verification/Job_Core.thy ===== *)
theory Job_Core
  imports Store_Jobs
begin

text \<open>
  The job service (\<open>internal/job/service.go\<close>), first part: its settings read from the
  environment, the bounded note and output fields, labels, the API view, creation with
  idempotency keys, lookup, statistics and the paged listings.

  A service call reads the environment, the clock and the identifier generator from a context
  (\<open>ctx\<close>): one reading of the clock per call, and the identifiers are the values of \<open>cx_uuid\<close>
  at a counter that the world carries. An operation that changes state returns the new world
  with its result, since some calls change state before they fail.
\<close>

record ctx =
  cx_env :: environment
  cx_now :: time
  cx_uuid :: "nat \<Rightarrow> string"
  cx_lease :: duration

record world =
  wd_mem :: memory
  wd_next :: nat

section \<open>Settings\<close>

definition envv :: "environment \<Rightarrow> string \<Rightarrow> string" where
  "envv env k = trim_space (env k)"

definition leaseFromEnv :: "environment \<Rightarrow> duration" where
  "leaseFromEnv env =
     (let v = envv env ''AI_CLOUDHUB_JOB_LEASE_SEC''
      in if v = [] then 300 * second
         else (case atoi v of
                 None \<Rightarrow> 300 * second
               | Some n \<Rightarrow> if n \<le> 0 then 0 else duration_secs (if n < 10 then 10 else n)))"

definition effectiveTimeoutSec :: "environment \<Rightarrow> int \<Rightarrow> int" where
  "effectiveTimeoutSec env jobTimeout =
     (if jobTimeout > 0 then jobTimeout
      else (let v = envv env ''AI_CLOUDHUB_JOB_TIMEOUT_SEC''
            in if v = [] then 0
               else (case atoi v of None \<Rightarrow> 0 | Some n \<Rightarrow> if n \<le> 0 then 0 else n)))"

definition jobWebhookURL :: "environment \<Rightarrow> string" where
  "jobWebhookURL env = envv env ''AI_CLOUDHUB_JOB_WEBHOOK_URL''"

definition jobWebhookMaxAttempts :: "environment \<Rightarrow> int" where
  "jobWebhookMaxAttempts env =
     (let v = envv env ''AI_CLOUDHUB_JOB_WEBHOOK_MAX_ATTEMPTS''
      in if v = [] then 8
         else (case atoi v of
                 None \<Rightarrow> 8
               | Some n \<Rightarrow> if n < 1 then 8 else if n > 32 then 32 else n))"

definition jobWebhookPollInterval :: "environment \<Rightarrow> duration" where
  "jobWebhookPollInterval env =
     (let v = envv env ''AI_CLOUDHUB_JOB_WEBHOOK_POLL_SEC''
      in if v = [] then 2 * second
         else (case atoi v of
                 None \<Rightarrow> 2 * second
               | Some n \<Rightarrow> if n < 1 then 2 * second else duration_secs (if n > 60 then 60 else n)))"

definition jobWebhookHTTPTimeout :: "environment \<Rightarrow> duration" where
  "jobWebhookHTTPTimeout env =
     (let v = envv env ''AI_CLOUDHUB_JOB_WEBHOOK_TIMEOUT_SEC''
      in if v = [] then 5 * second
         else (case atoi v of
                 None \<Rightarrow> 5 * second
               | Some n \<Rightarrow> if n < 1 then 5 * second else duration_secs (if n > 120 then 120 else n)))"

definition jobWebhookRetain :: "environment \<Rightarrow> duration" where
  "jobWebhookRetain env =
     (let v = envv env ''AI_CLOUDHUB_JOB_WEBHOOK_RETAIN_SEC''
      in if v = [] then 7 * 24 * 3600 * second
         else (case atoi v of
                 None \<Rightarrow> 7 * 24 * 3600 * second
               | Some n \<Rightarrow>
                   if n < 0 then 7 * 24 * 3600 * second
                   else if n = 0 then 0
                   else (let n = (if n < 1 then 1 else n)
                         in duration_secs (if n > 365 * 24 * 3600 then 365 * 24 * 3600 else n))))"

definition jobWebhookPurgeInterval :: "environment \<Rightarrow> duration" where
  "jobWebhookPurgeInterval env =
     (let v = envv env ''AI_CLOUDHUB_JOB_WEBHOOK_PURGE_SEC''
      in if v = [] then 60 * second
         else (case atoi v of
                 None \<Rightarrow> 60 * second
               | Some n \<Rightarrow> if n < 1 then 60 * second else duration_secs (if n > 3600 then 3600 else n)))"

definition jobWebhookMaxInflight :: "environment \<Rightarrow> int" where
  "jobWebhookMaxInflight env =
     (let v = envv env ''AI_CLOUDHUB_JOB_WEBHOOK_MAX_INFLIGHT''
      in if v = [] then 1
         else (case atoi v of
                 None \<Rightarrow> 1
               | Some n \<Rightarrow> if n < 1 then 1 else if n > 32 then 32 else n))"

definition jobReclaimPollInterval :: "environment \<Rightarrow> duration" where
  "jobReclaimPollInterval env =
     (let v = envv env ''AI_CLOUDHUB_JOB_RECLAIM_POLL_SEC''
      in if v = [] then 30 * second
         else (case atoi v of
                 None \<Rightarrow> 30 * second
               | Some n \<Rightarrow>
                   if n < 0 then 30 * second
                   else if n = 0 then 0
                   else duration_secs (if n > 3600 then 3600 else n)))"

definition jobTerminalRetain :: "environment \<Rightarrow> duration" where
  "jobTerminalRetain env =
     (let v = envv env ''AI_CLOUDHUB_JOB_RETAIN_SEC''
      in if v = [] \<or> v = ''0'' then 0
         else (case atoi v of
                 None \<Rightarrow> 0
               | Some n \<Rightarrow>
                   if n < 1 then 0
                   else duration_secs (if n > 365 * 24 * 3600 then 365 * 24 * 3600 else n)))"

text \<open>The delay after the Nth failed delivery; \<open>time.Millisecond\<close> is a million nanoseconds.\<close>

definition webhookBackoff :: "environment \<Rightarrow> int \<Rightarrow> duration" where
  "webhookBackoff env attempt =
     (if envv env ''AI_CLOUDHUB_JOB_WEBHOOK_BACKOFF_SEC'' = ''0'' then 1000000
      else (let secs = [5, 15, 60, 300, 900, 3600, 7200, 14400];
                attempt = (if attempt < 1 then 1 else attempt)
            in if attempt \<le> int (length secs) then duration_secs (secs ! nat (attempt - 1))
               else duration_secs (secs ! (length secs - 1))))"

definition DefaultMaxJobOutput :: int where "DefaultMaxJobOutput = 8192"
definition HardMaxJobOutput :: int where "HardMaxJobOutput = 256 * 1024"

definition jobOutputMax :: "environment \<Rightarrow> int" where
  "jobOutputMax env =
     (let v = envv env ''AI_CLOUDHUB_JOB_OUTPUT_MAX''
      in if v = [] then DefaultMaxJobOutput
         else (case atoi v of
                 None \<Rightarrow> DefaultMaxJobOutput
               | Some n \<Rightarrow>
                   if n \<le> 0 then DefaultMaxJobOutput
                   else if n > HardMaxJobOutput then HardMaxJobOutput else n))"

section \<open>Bounded fields\<close>

definition last_bytes :: "nat \<Rightarrow> string \<Rightarrow> string" where
  "last_bytes n s = drop (length s - n) s"

definition capTailFlag :: "string \<Rightarrow> int \<Rightarrow> string \<times> bool" where
  "capTailFlag s mx =
     (if mx \<le> 0 \<or> int (length s) \<le> mx then (s, False) else (last_bytes (nat mx) s, True))"

definition cap_note :: "string \<Rightarrow> string" where
  "cap_note note = (if length note > 2000 then last_bytes 2000 note else note)"

definition appendJobNote :: "string \<Rightarrow> string \<Rightarrow> string" where
  "appendJobNote existing extra0 =
     (let extra = trim_space extra0
      in if extra = [] then existing
         else (let note = trim_space existing;
                   note = (if note \<noteq> [] then note @ '' | '' else note)
               in cap_note (note @ extra)))"

section \<open>Labels\<close>

fun clean_labels :: "string gomap \<Rightarrow> string gomap \<Rightarrow> string gomap result" where
  "clean_labels [] clean = Inr clean"
| "clean_labels ((k0, v0) # m) clean =
     (let k = trim_space k0; v = trim_space v0
      in if k = [] then Inl (Errorf ''labels: empty key'')
         else if length k > 64 \<or> length v > 256
         then Inl (Errorf ''labels: key max 64 / value max 256 chars'')
         else clean_labels m (gset k v clean))"

definition encodeJobLabels :: "string gomap \<Rightarrow> string gomap result" where
  "encodeJobLabels m =
     (if m = [] then Inr []
      else if length m > 16 then Inl (Errorf ''labels: at most 16 keys'')
      else clean_labels m [])"

definition mapsEqual :: "string gomap \<Rightarrow> string gomap \<Rightarrow> bool" where
  "mapsEqual a b \<longleftrightarrow> length a = length b \<and> list_all (\<lambda>(k, v). label_of b k = v) a"

definition jobLabelsMatch :: "string gomap \<Rightarrow> string gomap \<Rightarrow> bool" where
  "jobLabelsMatch have want \<longleftrightarrow>
     (if want = [] then True
      else if have = [] then False
      else list_all (\<lambda>(k, v). label_of have k = v) want)"

section \<open>The API view\<close>

definition opt_time :: "time \<Rightarrow> time option" where
  "opt_time t = (if is_zero t then None else Some t)"

definition jobFromStore :: "job \<Rightarrow> job_view" where
  "jobFromStore sj =
    \<lparr>vwID = jID sj, vwUserID = jUserID sj, vwDriveID = jDriveID sj, vwBindingID = jBindingID sj,
     vwMode = jMode sj, vwCommand = jCommand sj, vwStatus = jStatus sj,
     vwRegionHint = jRegionHint sj, vwNote = jNote sj, vwConnectorID = jConnectorID sj,
     vwAgentID = jAgentID sj, vwClaimedByAgentID = jClaimedByAgentID sj,
     vwClaimedByRunnerID = jClaimedByRunnerID sj, vwPriority = jPriority sj,
     vwLabels = jLabels sj, vwIdempotencyKey = jIdempotencyKey sj, vwExitCode = jExitCode sj,
     vwDurationMs = jDurationMs sj, vwHeartbeatAt = opt_time (jHeartbeatAt sj),
     vwClaimedAt = opt_time (jClaimedAt sj), vwTimeoutSec = jTimeoutSec sj,
     vwAttemptCount = jAttemptCount sj, vwMaxAttempts = jMaxAttempts sj, vwStdout = jStdout sj,
     vwStderr = jStderr sj, vwStdoutTruncated = jStdoutTruncated sj,
     vwStderrTruncated = jStderrTruncated sj, vwCreatedAt = jCreatedAt sj,
     vwUpdatedAt = jUpdatedAt sj\<rparr>"

lemma jobFromStore_simps [simp]:
  "vwID (jobFromStore j) = jID j" "vwUserID (jobFromStore j) = jUserID j"
  "vwStatus (jobFromStore j) = jStatus j" "vwCreatedAt (jobFromStore j) = jCreatedAt j"
  "vwDriveID (jobFromStore j) = jDriveID j"
  by (simp_all add: jobFromStore_def)

section \<open>Creation\<close>

record create_input =
  ciDriveID :: string
  ciBindingID :: string
  ciMode :: string
  ciCommand :: "string list"
  ciRegionHint :: string
  ciNote :: string
  ciConnectorID :: string
  ciTimeoutSec :: int
  ciMaxAttempts :: int
  ciPriority :: int
  ciLabels :: "string gomap"
  ciIdempotencyKey :: string
  ciAgentID :: string

definition sameCreatePayload ::
  "job \<Rightarrow> create_input \<Rightarrow> string \<Rightarrow> string gomap \<Rightarrow> string \<Rightarrow> int \<Rightarrow> int \<Rightarrow> int \<Rightarrow> bool" where
  "sameCreatePayload sj ci mode labels connectorID priority timeoutSec maxAttempts \<longleftrightarrow>
     (if jDriveID sj \<noteq> ciDriveID ci \<or> jBindingID sj \<noteq> ciBindingID ci \<or> jMode sj \<noteq> mode then False
      else if jCommand sj \<noteq> ciCommand ci then False
      else if trim_space (jRegionHint sj) \<noteq> trim_space (ciRegionHint ci) then False
      else if jConnectorID sj \<noteq> connectorID then False
      else if jPriority sj \<noteq> priority \<or> jTimeoutSec sj \<noteq> timeoutSec \<or> jMaxAttempts sj \<noteq> maxAttempts
      then False
      else if jLabels sj = [] \<and> labels = [] then True
      else if jLabels sj = [] \<or> labels = [] then False
      else mapsEqual (jLabels sj) labels)"

definition clamp_priority :: "int \<Rightarrow> int" where
  "clamp_priority p = (let p = (if p > 1000 then 1000 else p) in if p < -1000 then -1000 else p)"

definition create_note :: "string \<Rightarrow> string" where
  "create_note note0 =
     (let note = trim_space note0; note = (if note \<noteq> [] then note @ '' | '' else note)
      in note @ ''BYOC only: claim with your runner; no platform large pool (D-001)'')"

definition new_job ::
  "ctx \<Rightarrow> string \<Rightarrow> string \<Rightarrow> create_input \<Rightarrow> string gomap \<Rightarrow> job" where
  "new_job c i u ci labels =
    \<lparr>jID = i, jUserID = u, jDriveID = ciDriveID ci, jBindingID = ciBindingID ci,
     jMode = (if ciMode ci = [] then ''mount'' else ciMode ci), jCommand = ciCommand ci,
     jStatus = ''pending'', jRegionHint = ciRegionHint ci, jNote = create_note (ciNote ci),
     jConnectorID = trim_space (ciConnectorID ci), jAgentID = trim_space (ciAgentID ci),
     jClaimedByAgentID = [], jClaimedByRunnerID = [], jPriority = clamp_priority (ciPriority ci),
     jLabels = labels, jIdempotencyKey = trim_space (ciIdempotencyKey ci), jExitCode = None,
     jDurationMs = 0, jHeartbeatAt = 0, jClaimedAt = 0,
     jTimeoutSec = (if ciTimeoutSec ci < 0 then 0 else ciTimeoutSec ci), jAttemptCount = 0,
     jMaxAttempts = (if ciMaxAttempts ci < 0 then 0 else ciMaxAttempts ci), jStdout = [],
     jStderr = [], jStdoutTruncated = False, jStderrTruncated = False, jCreatedAt = cx_now c,
     jUpdatedAt = cx_now c\<rparr>"

lemma new_job_simps [simp]:
  "jID (new_job c i u ci labels) = i" "jUserID (new_job c i u ci labels) = u"
  "jStatus (new_job c i u ci labels) = ''pending''" "jCreatedAt (new_job c i u ci labels) = cx_now c"
  "jIdempotencyKey (new_job c i u ci labels) = trim_space (ciIdempotencyKey ci)"
  by (simp_all add: new_job_def)

text \<open>The lookup of an idempotency key: nothing, the stored job to replay, or a conflict.\<close>

definition idem_check ::
  "memory \<Rightarrow> string \<Rightarrow> create_input \<Rightarrow> string gomap \<Rightarrow> job result option" where
  "idem_check m u ci labels =
     (let idem = trim_space (ciIdempotencyKey ci)
      in if idem = [] then None
         else (case GetJobByIdempotencyKey m u idem of
                 Inl _ \<Rightarrow> None
               | Inr e \<Rightarrow>
                   Some (if sameCreatePayload e ci (if ciMode ci = [] then ''mount'' else ciMode ci)
                              labels (trim_space (ciConnectorID ci)) (clamp_priority (ciPriority ci))
                              (if ciTimeoutSec ci < 0 then 0 else ciTimeoutSec ci)
                              (if ciMaxAttempts ci < 0 then 0 else ciMaxAttempts ci)
                         then Inr e else Inl ErrIdempotencyConflict)))"

definition Create :: "ctx \<Rightarrow> world \<Rightarrow> string \<Rightarrow> create_input \<Rightarrow> world \<times> (job_view \<times> bool) result" where
  "Create c w u ci =
     (if trim_space (ciDriveID ci) = [] then (w, Inl (Errorf ''drive_id required''))
      else if ciCommand ci = []
      then (w, Inl (Errorf ''command required (runs on BYOC runner, not platform pool)''))
      else if length (trim_space (ciIdempotencyKey ci)) > 128
      then (w, Inl (Errorf ''idempotency_key max 128 chars''))
      else (case encodeJobLabels (ciLabels ci) of
              Inl e \<Rightarrow> (w, Inl e)
            | Inr labels \<Rightarrow>
                (case idem_check (wd_mem w) u ci labels of
                   Some (Inr e) \<Rightarrow> (w, Inr (jobFromStore e, False))
                 | Some (Inl e) \<Rightarrow> (w, Inl e)
                 | None \<Rightarrow>
                     (let sj = new_job c (cx_uuid c (wd_next w)) u ci labels;
                          w1 = w\<lparr>wd_next := wd_next w + 1\<rparr>
                      in (case CreateJob (wd_mem w) sj of
                            Inr m' \<Rightarrow> (w1\<lparr>wd_mem := m'\<rparr>, Inr (jobFromStore sj, True))
                          | Inl err \<Rightarrow>
                              (case idem_check (wd_mem w) u ci labels of
                                 Some (Inr e) \<Rightarrow> (w1, Inr (jobFromStore e, False))
                               | Some (Inl e) \<Rightarrow> (w1, Inl e)
                               | None \<Rightarrow> (w1, Inl err)))))))"

section \<open>Lookup, statistics, listings\<close>

definition Get :: "world \<Rightarrow> string \<Rightarrow> string \<Rightarrow> job_view result" where
  "Get w u i =
     (case GetJob (wd_mem w) u i of
        Inl _ \<Rightarrow> Inl (Errorf ''job not found'') | Inr sj \<Rightarrow> Inr (jobFromStore sj))"

definition AdminGet :: "world \<Rightarrow> string \<Rightarrow> job_view result" where
  "AdminGet w i =
     (case GetJobByID (wd_mem w) (trim_space i) of
        Inl _ \<Rightarrow> Inl (Errorf ''job not found'') | Inr sj \<Rightarrow> Inr (jobFromStore sj))"

definition Stats :: "world \<Rightarrow> string \<Rightarrow> job_status_counts" where
  "Stats w u = CountJobsByStatus (wd_mem w) (trim_space u)"

definition AdminStats :: "world \<Rightarrow> string \<Rightarrow> job_status_counts" where
  "AdminStats w u = Stats w (trim_space u)"

text \<open>A page asks the store for one row more than the limit; a full page carries the cursor of its
  last row. The opaque token is kept decoded: the pair of creation instant and identifier, or
  \<open>None\<close> for the empty or unparsable token, which both mean the first page.\<close>

type_synonym cursor = "(time \<times> string) option"

definition service_limit :: "int \<Rightarrow> int" where
  "service_limit l = (let l = (if l \<le> 0 then 100 else l) in if l > 500 then 500 else l)"

definition page_of :: "int \<Rightarrow> job list \<Rightarrow> job_view list \<times> cursor" where
  "page_of limit js =
     (let out = map jobFromStore js
      in if int (length out) > limit
         then (let l = out ! nat (limit - 1)
               in (take (nat limit) out, Some (vwCreatedAt l, vwID l)))
         else (out, None))"

record admin_list_filter =
  alUserID :: string
  alStatus :: string
  alRegionHint :: string
  alClaimedByRunnerID :: string
  alLimit :: int
  alCursor :: cursor

definition AdminList :: "world \<Rightarrow> admin_list_filter \<Rightarrow> job_view list \<times> cursor" where
  "AdminList w f =
     (let limit = service_limit (alLimit f);
          cur = (case alCursor f of None \<Rightarrow> (0, []) | Some p \<Rightarrow> p)
      in page_of limit
           (ListJobsAdmin (wd_mem w)
              \<lparr>ajUserID = trim_space (alUserID f), ajStatus = trim_space (alStatus f),
               ajRegionHint = trim_space (alRegionHint f),
               ajClaimedByRunnerID = trim_space (alClaimedByRunnerID f), ajLimit = limit + 1,
               ajCursorCreated = fst cur, ajCursorID = snd cur\<rparr>))"

record list_filter =
  lfAgentID :: string
  lfClaimedByAgentID :: string
  lfClaimedByRunnerID :: string
  lfRegionHint :: string
  lfStatus :: string
  lfLabels :: "string gomap"
  lfLimit :: int
  lfCursor :: cursor

definition store_filter :: "string \<Rightarrow> list_filter \<Rightarrow> job_list_filter" where
  "store_filter u f =
     (let cur = (case lfCursor f of None \<Rightarrow> (0, []) | Some p \<Rightarrow> p)
      in \<lparr>jlUserID = trim_space u, jlAgentID = trim_space (lfAgentID f),
          jlClaimedByAgentID = trim_space (lfClaimedByAgentID f),
          jlClaimedByRunnerID = trim_space (lfClaimedByRunnerID f),
          jlRegionHint = trim_space (lfRegionHint f), jlStatus = trim_space (lfStatus f),
          jlLabels = lfLabels f, jlLimit = service_limit (lfLimit f) + 1,
          jlCursorCreated = fst cur, jlCursorID = snd cur\<rparr>)"

definition List :: "world \<Rightarrow> string \<Rightarrow> list_filter \<Rightarrow> job_view list \<times> cursor" where
  "List w u f = page_of (service_limit (lfLimit f)) (ListJobsPage (wd_mem w) (store_filter u f))"

definition ListPending :: "world \<Rightarrow> string \<Rightarrow> string \<Rightarrow> job_view list" where
  "ListPending w u region0 =
     (let region = trim_space region0
      in map jobFromStore
           (filter (\<lambda>sj. region = [] \<or> jRegionHint sj = region) (ListPendingJobs (wd_mem w) u)))"

lemmas job_core_defs [job_defs] = Create_def Get_def AdminGet_def Stats_def AdminStats_def
  AdminList_def List_def ListPending_def

end
