(* ===== verification/Job_Lifecycle.thy ===== *)
theory Job_Lifecycle
  imports Job_Core
begin

text \<open>
  The job service (\<open>internal/job/service.go\<close>), second part: the transitions of a job. A user or
  a worker claims it, heartbeats it, completes, cancels or releases it; the reclaim passes fail
  a job past its deadline or its claim budget and release one whose lease expired. Every
  terminal transition enqueues an event in the webhook outbox when a webhook URL is set. The
  delivery pass the source starts in the background after an enqueue is a call of its own
  (theory \<open>Job_Webhooks\<close>), which may run at any later time.
\<close>

section \<open>The terminal event\<close>

definition event_name :: "string \<Rightarrow> string" where
  "event_name status =
     (if status = ''succeeded'' then ''job.succeeded''
      else if status = ''failed'' then ''job.failed''
      else if status = ''cancelled'' then ''job.cancelled''
      else ''job.'' @ status)"

definition outbox_row :: "ctx \<Rightarrow> string \<Rightarrow> job_view \<Rightarrow> webhook_outbox" where
  "outbox_row c i j =
    \<lparr>wID = i, wJobID = vwID j, wUserID = vwUserID j, wEvent = event_name (vwStatus j),
     wPayload = \<lparr>evEventID = i, evEvent = event_name (vwStatus j), evOccurredAt = cx_now c, evJob = j\<rparr>,
     wStatus = ''pending'', wAttempts = 0, wNextAttemptAt = cx_now c, wLastError = [],
     wCreatedAt = cx_now c, wUpdatedAt = cx_now c, wDeliveredAt = 0\<rparr>"

definition notifyJobTerminal :: "ctx \<Rightarrow> world \<Rightarrow> job_view \<Rightarrow> world" where
  "notifyJobTerminal c w j =
     (if jobWebhookURL (cx_env c) = [] then w
      else (let w1 = w\<lparr>wd_next := wd_next w + 1\<rparr>
            in (case EnqueueWebhookOutbox (wd_mem w) (outbox_row c (cx_uuid c (wd_next w)) j) of
                  Inl _ \<Rightarrow> w1
                | Inr m' \<Rightarrow> w1\<lparr>wd_mem := m'\<rparr>)))"

text \<open>Store the job and announce it: the common end of the terminal transitions.\<close>

definition finish_job :: "ctx \<Rightarrow> world \<Rightarrow> job \<Rightarrow> world \<times> job_view result" where
  "finish_job c w sj =
     (case UpdateJob (wd_mem w) sj of
        Inl e \<Rightarrow> (w, Inl e)
      | Inr m' \<Rightarrow>
          (let j = jobFromStore sj
           in (notifyJobTerminal c (w\<lparr>wd_mem := m'\<rparr>) j, Inr j)))"

section \<open>Claims\<close>

definition claim_before :: "job \<Rightarrow> job \<Rightarrow> bool" where
  "claim_before a b \<longleftrightarrow>
     (if jPriority a \<noteq> jPriority b then jPriority a > jPriority b
      else jCreatedAt a < jCreatedAt b)"

interpretation claim_order: strict_weak claim_before
  by unfold_locales (auto simp: claim_before_def split: if_splits)

definition Heartbeat :: "ctx \<Rightarrow> world \<Rightarrow> string \<Rightarrow> string \<Rightarrow> world \<times> job_view result" where
  "Heartbeat c w u i =
     (case GetJob (wd_mem w) u i of
        Inl _ \<Rightarrow> (w, Inl (Errorf ''job not found''))
      | Inr sj \<Rightarrow>
          if jStatus sj = ''cancelled'' then (w, Inl (Errorf ''job cancelled''))
          else if jStatus sj \<noteq> ''running''
          then (w, Inl (Errorf (''job not running (status='' @ jStatus sj @ '')'')))
          else (let sj' = sj\<lparr>jHeartbeatAt := cx_now c, jUpdatedAt := cx_now c\<rparr>
                in (case UpdateJob (wd_mem w) sj' of
                      Inl e \<Rightarrow> (w, Inl e)
                    | Inr m' \<Rightarrow> (w\<lparr>wd_mem := m'\<rparr>, Inr (jobFromStore sj')))))"

section \<open>Failing and releasing a running job\<close>

definition failed_job :: "ctx \<Rightarrow> int \<Rightarrow> string \<Rightarrow> job \<Rightarrow> job" where
  "failed_job c code why sj =
     sj\<lparr>jStatus := ''failed'', jExitCode := Some code, jNote := appendJobNote (jNote sj) why,
        jHeartbeatAt := 0, jClaimedAt := 0, jClaimedByRunnerID := [], jUpdatedAt := cx_now c\<rparr>"

definition failTimeout :: "ctx \<Rightarrow> world \<Rightarrow> string \<Rightarrow> string \<Rightarrow> int \<Rightarrow> world \<times> job_view result" where
  "failTimeout c w u i sec =
     (case GetJob (wd_mem w) u i of
        Inl _ \<Rightarrow> (w, Inl (Errorf ''job not found''))
      | Inr sj \<Rightarrow>
          if jStatus sj \<noteq> ''running''
          then (w, Inl (Errorf (''job not running (status='' @ jStatus sj @ '')'')))
          else finish_job c w (failed_job c 124 (''timeout after '' @ show_int sec @ ''s'') sj))"

definition failMaxAttempts ::
  "ctx \<Rightarrow> world \<Rightarrow> string \<Rightarrow> string \<Rightarrow> int \<Rightarrow> int \<Rightarrow> world \<times> job_view result" where
  "failMaxAttempts c w u i attempt mx =
     (case GetJob (wd_mem w) u i of
        Inl _ \<Rightarrow> (w, Inl (Errorf ''job not found''))
      | Inr sj \<Rightarrow>
          if jStatus sj \<noteq> ''running''
          then (w, Inl (Errorf (''job not running (status='' @ jStatus sj @ '')'')))
          else finish_job c w
                 (failed_job c 1
                    (''max attempts exceeded ('' @ show_int attempt @ ''/'' @ show_int mx @
                     '') after lease expired'') sj))"

definition release_note :: "string \<Rightarrow> string \<Rightarrow> string" where
  "release_note existing reason =
     (if reason = [] then existing
      else (let note = trim_space existing; note = (if note \<noteq> [] then note @ '' | '' else note)
            in cap_note (note @ ''released: '' @ reason)))"

definition released_job :: "ctx \<Rightarrow> string \<Rightarrow> job \<Rightarrow> job" where
  "released_job c reason sj =
     sj\<lparr>jStatus := ''pending'', jClaimedByAgentID := [], jClaimedByRunnerID := [],
        jHeartbeatAt := 0, jClaimedAt := 0, jUpdatedAt := cx_now c,
        jNote := release_note (jNote sj) (trim_space reason)\<rparr>"

definition ReleaseToPending ::
  "ctx \<Rightarrow> world \<Rightarrow> string \<Rightarrow> string \<Rightarrow> string \<Rightarrow> world \<times> job_view result" where
  "ReleaseToPending c w u i reason =
     (case GetJob (wd_mem w) u i of
        Inl _ \<Rightarrow> (w, Inl (Errorf ''job not found''))
      | Inr sj \<Rightarrow>
          if \<not> (jStatus sj = ''running'' \<or> jStatus sj = ''dispatched'')
          then (w, Inl (Errorf (''job not releaseable (status='' @ jStatus sj @ '')'')))
          else (let sj' = released_job c reason sj
                in (case UpdateJob (wd_mem w) sj' of
                      Inl e \<Rightarrow> (w, Inl e)
                    | Inr m' \<Rightarrow> (w\<lparr>wd_mem := m'\<rparr>, Inr (jobFromStore sj')))))"

section \<open>The reclaim passes\<close>

definition first_nonzero :: "time list \<Rightarrow> time" where
  "first_nonzero ts = (case filter (\<lambda>t. \<not> is_zero t) ts of [] \<Rightarrow> 0 | t # _ \<Rightarrow> t)"

text \<open>\<open>time.Time.Add\<close> of a 64-bit duration: past the deadline counted from the claim.\<close>

definition timed_out :: "ctx \<Rightarrow> job \<Rightarrow> bool" where
  "timed_out c sj \<longleftrightarrow>
     (let sec = effectiveTimeoutSec (cx_env c) (jTimeoutSec sj);
          start = first_nonzero [jClaimedAt sj, jHeartbeatAt sj, jUpdatedAt sj]
      in sec > 0 \<and> \<not> is_zero start \<and> cx_now c > start + duration_secs sec)"

definition lease_expired :: "ctx \<Rightarrow> time \<Rightarrow> bool" where
  "lease_expired c ts \<longleftrightarrow> \<not> is_zero ts \<and> ts < cx_now c - cx_lease c"

definition count_ok :: "nat \<Rightarrow> world \<times> 'a result \<Rightarrow> world \<times> nat" where
  "count_ok n r = (fst r, case snd r of Inl _ \<Rightarrow> n | Inr _ \<Rightarrow> n + 1)"

definition reclaim_step :: "ctx \<Rightarrow> string \<Rightarrow> time \<Rightarrow> job \<Rightarrow> world \<times> nat \<Rightarrow> world \<times> nat" where
  "reclaim_step c u ts sj wn =
     (let (w, n) = wn in
      if jStatus sj \<noteq> ''running'' then (w, n)
      else if timed_out c sj
      then count_ok n (failTimeout c w u (jID sj) (effectiveTimeoutSec (cx_env c) (jTimeoutSec sj)))
      else if cx_lease c \<le> 0 then (w, n)
      else if \<not> lease_expired c ts then (w, n)
      else if jMaxAttempts sj > 0 \<and> jAttemptCount sj \<ge> jMaxAttempts sj
      then count_ok n (failMaxAttempts c w u (jID sj) (jAttemptCount sj) (jMaxAttempts sj))
      else count_ok n (ReleaseToPending c w u (jID sj) ''lease expired''))"

definition ReclaimStale :: "ctx \<Rightarrow> world \<Rightarrow> string \<Rightarrow> world \<times> nat" where
  "ReclaimStale c w u =
     fold (\<lambda>sj. reclaim_step c u (first_nonzero [jHeartbeatAt sj, jUpdatedAt sj]) sj)
       (ListRunningJobs (wd_mem w) u) (w, 0)"

definition ReclaimStaleAll :: "ctx \<Rightarrow> world \<Rightarrow> world \<times> nat" where
  "ReclaimStaleAll c w =
     fold (\<lambda>sj. reclaim_step c (jUserID sj)
                  (first_nonzero [jHeartbeatAt sj, jClaimedAt sj, jUpdatedAt sj]) sj)
       (ListRunningJobs (wd_mem w) []) (w, 0)"

section \<open>Claiming\<close>

fun claim_first ::
  "ctx \<Rightarrow> memory \<Rightarrow> string \<Rightarrow> string \<Rightarrow> string \<Rightarrow> string \<Rightarrow> job list \<Rightarrow> (memory \<times> job) option" where
  "claim_first c m u agent runner region [] = None"
| "claim_first c m u agent runner region (j # js) =
     (if jStatus j \<noteq> ''pending'' \<and> jStatus j \<noteq> ''dispatched''
      then claim_first c m u agent runner region js
      else if region \<noteq> [] \<and> trim_space (jRegionHint j) \<noteq> region
      then claim_first c m u agent runner region js
      else (case ClaimPendingJob (cx_now c) m u (jID j) agent runner of
              Inl _ \<Rightarrow> claim_first c m u agent runner region js
            | Inr r \<Rightarrow> Some r))"

definition ClaimNext ::
  "ctx \<Rightarrow> world \<Rightarrow> string \<Rightarrow> string \<Rightarrow> string \<Rightarrow> string \<Rightarrow> world \<times> job_view result" where
  "ClaimNext c w0 u agent runner region0 =
     (let w = fst (ReclaimStale c w0 u); js = ListPendingJobs (wd_mem w) u
      in if js = [] then (w, Inl (Errorf ''no pending jobs''))
         else (let region = trim_space region0
               in (case claim_first c (wd_mem w) u agent runner region (sort_slice claim_before js) of
                     Some (m', j) \<Rightarrow> (w\<lparr>wd_mem := m'\<rparr>, Inr (jobFromStore j))
                   | None \<Rightarrow>
                       if region \<noteq> []
                       then (w, Inl (Errorf (''no pending jobs in region '' @ [CHR 0x22] @ region @ [CHR 0x22])))
                       else (w, Inl (Errorf ''no pending jobs'')))))"

definition Claim ::
  "ctx \<Rightarrow> world \<Rightarrow> string \<Rightarrow> string \<Rightarrow> string \<Rightarrow> string \<Rightarrow> world \<times> job_view result" where
  "Claim c w0 u i agent runner =
     (let w = fst (ReclaimStale c w0 u)
      in (case ClaimPendingJob (cx_now c) (wd_mem w) u i agent runner of
            Inl e \<Rightarrow> (w, Inl e)
          | Inr (m', j) \<Rightarrow> (w\<lparr>wd_mem := m'\<rparr>, Inr (jobFromStore j))))"

text \<open>
  The filtered claim carries the last denial and the number of skipped candidates. \<open>allow\<close> is the
  caller's policy: the empty string, or the reason of the denial; \<open>recheck\<close> is the same policy
  asked again after the claim, when its answer may have changed.
\<close>

fun claim_filtered ::
  "ctx \<Rightarrow> world \<Rightarrow> string \<Rightarrow> string \<Rightarrow> string \<Rightarrow> string \<Rightarrow> (string \<Rightarrow> string) \<Rightarrow> (string \<Rightarrow> string) \<Rightarrow>
   string \<Rightarrow> nat \<Rightarrow> job list \<Rightarrow> world \<times> job_view result" where
  "claim_filtered c w u agent runner region allow recheck deny skipped [] =
     (w, Inl (Errorf (if deny \<noteq> []
                      then ''no claimable jobs for this agent ('' @ show_nat skipped @
                           '' skipped by policy): '' @ deny
                      else ''no pending jobs'')))"
| "claim_filtered c w u agent runner region allow recheck deny skipped (j # js) =
     (if jStatus j \<noteq> ''pending'' \<and> jStatus j \<noteq> ''dispatched''
      then claim_filtered c w u agent runner region allow recheck deny skipped js
      else if region \<noteq> [] \<and> trim_space (jRegionHint j) \<noteq> region
      then claim_filtered c w u agent runner region allow recheck deny skipped js
      else if allow (jDriveID j) \<noteq> []
      then claim_filtered c w u agent runner region allow recheck (allow (jDriveID j)) (skipped + 1) js
      else (case ClaimPendingJob (cx_now c) (wd_mem w) u (jID j) agent runner of
              Inl _ \<Rightarrow> claim_filtered c w u agent runner region allow recheck deny skipped js
            | Inr (m', cl) \<Rightarrow>
                (let w' = w\<lparr>wd_mem := m'\<rparr>; reason = recheck (jDriveID cl)
                 in if reason \<noteq> []
                    then (case ReleaseToPending c w' u (jID cl) reason of
                            (w'', Inl e) \<Rightarrow>
                              (w'', Inl (Errorf (reason @ '' (also failed to release job '' @ jID cl @ '': '' @
                                error_text e @ '')'')))
                          | (w'', Inr _) \<Rightarrow>
                              claim_filtered c w'' u agent runner region allow recheck reason skipped js)
                    else (w', Inr (jobFromStore cl)))))"

definition ClaimNextFiltered ::
  "ctx \<Rightarrow> world \<Rightarrow> string \<Rightarrow> string \<Rightarrow> string \<Rightarrow> string \<Rightarrow>
   ((string \<Rightarrow> string) \<times> (string \<Rightarrow> string)) option \<Rightarrow> world \<times> job_view result" where
  "ClaimNextFiltered c w0 u agent runner region policy =
     (case policy of
        None \<Rightarrow> ClaimNext c w0 u agent runner region
      | Some (allow, recheck) \<Rightarrow>
          (let w = fst (ReclaimStale c w0 u); js = ListPendingJobs (wd_mem w) u
           in if js = [] then (w, Inl (Errorf ''no pending jobs''))
              else claim_filtered c w u agent runner (trim_space region) allow recheck [] 0
                     (sort_slice claim_before js)))"

section \<open>Completion\<close>

record complete_input =
  coOK :: bool
  coNote :: string
  coExitCode :: "int option"
  coDurationMs :: int
  coStdout :: string
  coStderr :: string
  coStdoutTruncated :: bool
  coStderrTruncated :: bool

definition completed_job :: "ctx \<Rightarrow> complete_input \<Rightarrow> job \<Rightarrow> job" where
  "completed_job c ci sj0 =
     (let mx = jobOutputMax (cx_env c);
          sj = sj0\<lparr>jStatus := (if coOK ci then ''succeeded'' else ''failed'')\<rparr>;
          sj = (if trim_space (coNote ci) \<noteq> []
                then sj\<lparr>jNote := appendJobNote (jNote sj) (trim_space (coNote ci))\<rparr> else sj);
          sj = (case coExitCode ci of None \<Rightarrow> sj | Some v \<Rightarrow> sj\<lparr>jExitCode := Some v\<rparr>);
          sj = (if coDurationMs ci > 0 then sj\<lparr>jDurationMs := coDurationMs ci\<rparr> else sj);
          sj = (if coStdout ci \<noteq> [] \<or> coStdoutTruncated ci
                then (let (capped, trunc) = capTailFlag (coStdout ci) mx
                      in sj\<lparr>jStdout := capped, jStdoutTruncated := coStdoutTruncated ci \<or> trunc\<rparr>)
                else sj);
          sj = (if coStderr ci \<noteq> [] \<or> coStderrTruncated ci
                then (let (capped, trunc) = capTailFlag (coStderr ci) mx
                      in sj\<lparr>jStderr := capped, jStderrTruncated := coStderrTruncated ci \<or> trunc\<rparr>)
                else sj)
      in sj\<lparr>jHeartbeatAt := 0, jClaimedAt := 0, jUpdatedAt := cx_now c\<rparr>)"

definition Complete ::
  "ctx \<Rightarrow> world \<Rightarrow> string \<Rightarrow> string \<Rightarrow> complete_input \<Rightarrow> world \<times> job_view result" where
  "Complete c w u i ci =
     (case GetJob (wd_mem w) u i of
        Inl _ \<Rightarrow> (w, Inl (Errorf ''job not found''))
      | Inr sj \<Rightarrow>
          if is_terminal (jStatus sj) then (w, Inr (jobFromStore sj))
          else finish_job c w (completed_job c ci sj))"

definition AdminComplete :: "ctx \<Rightarrow> world \<Rightarrow> string \<Rightarrow> complete_input \<Rightarrow> world \<times> job_view result" where
  "AdminComplete c w i ci =
     (case GetJobByID (wd_mem w) (trim_space i) of
        Inl _ \<Rightarrow> (w, Inl (Errorf ''job not found''))
      | Inr sj \<Rightarrow>
          (let note = trim_space (coNote ci);
               note = (if note = [] then ''admin force complete'' else ''admin complete: '' @ note)
           in Complete c w (jUserID sj) (jID sj) (ci\<lparr>coNote := note\<rparr>)))"

section \<open>Cancellation and release by the user and by an administrator\<close>

definition cancelled_job :: "ctx \<Rightarrow> string \<Rightarrow> job \<Rightarrow> job" where
  "cancelled_job c adminNote sj0 =
     (let sj = sj0\<lparr>jStatus := ''cancelled''\<rparr>;
          sj = (if adminNote \<noteq> []
                then sj\<lparr>jNote := appendJobNote (jNote sj) (''admin cancel: '' @ adminNote)\<rparr> else sj)
      in sj\<lparr>jHeartbeatAt := 0, jClaimedAt := 0, jUpdatedAt := cx_now c\<rparr>)"

definition cancelStoreJob :: "ctx \<Rightarrow> world \<Rightarrow> job \<Rightarrow> string \<Rightarrow> world \<times> job_view result" where
  "cancelStoreJob c w sj adminNote =
     (if jStatus sj = ''succeeded'' \<or> jStatus sj = ''failed''
      then (w, Inl (Errorf ''job already finished''))
      else if jStatus sj = ''cancelled'' then (w, Inr (jobFromStore sj))
      else finish_job c w (cancelled_job c adminNote sj))"

definition Cancel :: "ctx \<Rightarrow> world \<Rightarrow> string \<Rightarrow> string \<Rightarrow> world \<times> job_view result" where
  "Cancel c w u i =
     (case GetJob (wd_mem w) u i of
        Inl _ \<Rightarrow> (w, Inl (Errorf ''job not found''))
      | Inr sj \<Rightarrow> cancelStoreJob c w sj [])"

definition AdminCancel :: "ctx \<Rightarrow> world \<Rightarrow> string \<Rightarrow> string \<Rightarrow> world \<times> job_view result" where
  "AdminCancel c w i note =
     (case GetJobByID (wd_mem w) (trim_space i) of
        Inl _ \<Rightarrow> (w, Inl (Errorf ''job not found''))
      | Inr sj \<Rightarrow> cancelStoreJob c w sj (trim_space note))"

fun cancel_each :: "ctx \<Rightarrow> int \<Rightarrow> job list \<Rightarrow> world \<times> int \<Rightarrow> world \<times> int" where
  "cancel_each c limit [] wn = wn"
| "cancel_each c limit (sj # js) (w, n) =
     (case cancelStoreJob c w sj ''admin cancel-all'' of
        (w', Inl _) \<Rightarrow> cancel_each c limit js (w', n)
      | (w', Inr _) \<Rightarrow>
          if n + 1 \<ge> limit then (w', n + 1) else cancel_each c limit js (w', n + 1))"

fun cancel_statuses :: "ctx \<Rightarrow> int \<Rightarrow> string \<Rightarrow> string list \<Rightarrow> world \<times> int \<Rightarrow> world \<times> int" where
  "cancel_statuses c limit u [] wn = wn"
| "cancel_statuses c limit u (st # sts) (w, n) =
     (if n \<ge> limit then (w, n)
      else cancel_statuses c limit u sts
             (cancel_each c limit
                (ListJobsAdmin (wd_mem w)
                   \<lparr>ajUserID = u, ajStatus = st, ajRegionHint = [], ajClaimedByRunnerID = [],
                    ajLimit = limit - n, ajCursorCreated = 0, ajCursorID = []\<rparr>) (w, n)))"

definition AdminCancelAll :: "ctx \<Rightarrow> world \<Rightarrow> string \<Rightarrow> string \<Rightarrow> int \<Rightarrow> world \<times> int result" where
  "AdminCancelAll c w u0 status0 limit0 =
     (let limit = service_limit limit0; status = trim_space status0; u = trim_space u0;
          go = (\<lambda>sts. let (w', n) = cancel_statuses c limit u sts (w, 0) in (w', Inr n))
      in if status = [] then go [''pending'', ''dispatched'', ''running'']
         else if status = ''pending'' \<or> status = ''dispatched'' \<or> status = ''running'' then go [status]
         else (w, Inl (Errorf ''status must be empty, pending, dispatched, or running'')))"

definition AdminRelease :: "ctx \<Rightarrow> world \<Rightarrow> string \<Rightarrow> string \<Rightarrow> world \<times> job_view result" where
  "AdminRelease c w i reason0 =
     (case GetJobByID (wd_mem w) (trim_space i) of
        Inl _ \<Rightarrow> (w, Inl (Errorf ''job not found''))
      | Inr sj \<Rightarrow>
          (let reason = trim_space reason0;
               reason = (if reason = [] then ''admin force release'' else ''admin: '' @ reason)
           in ReleaseToPending c w (jUserID sj) (jID sj) reason))"

section \<open>Retention\<close>

definition svc_PurgeTerminalJobs :: "ctx \<Rightarrow> world \<Rightarrow> duration \<Rightarrow> world \<times> nat" where
  "svc_PurgeTerminalJobs c w olderThan0 =
     (let olderThan = (if olderThan0 \<le> 0 then jobTerminalRetain (cx_env c) else olderThan0)
      in if olderThan \<le> 0 then (w, 0)
         else (let (m', n) = store_PurgeTerminalJobs (wd_mem w) (cx_now c - olderThan) 500
               in (w\<lparr>wd_mem := m'\<rparr>, n)))"

definition AdminPurgeTerminalJobs :: "ctx \<Rightarrow> world \<Rightarrow> duration \<Rightarrow> world \<times> nat" where
  "AdminPurgeTerminalJobs c w olderThan0 =
     (let olderThan =
            (if olderThan0 \<le> 0
             then (let r = jobTerminalRetain (cx_env c) in if r \<le> 0 then 30 * 24 * 3600 * second else r)
             else olderThan0);
          (m', n) = store_PurgeTerminalJobs (wd_mem w) (cx_now c - olderThan) 2000
      in (w\<lparr>wd_mem := m'\<rparr>, n))"

text \<open>One tick of the maintenance worker: a global reclaim, then the purge; disabled at 0.\<close>

definition maintenance_tick :: "ctx \<Rightarrow> world \<Rightarrow> world" where
  "maintenance_tick c w =
     (if jobReclaimPollInterval (cx_env c) \<le> 0 then w
      else fst (svc_PurgeTerminalJobs c (fst (ReclaimStaleAll c w)) 0))"

lemmas lifecycle_defs [job_defs] = notifyJobTerminal_def finish_job_def Heartbeat_def failTimeout_def
  failMaxAttempts_def ReleaseToPending_def ReclaimStale_def ReclaimStaleAll_def ClaimNext_def Claim_def
  ClaimNextFiltered_def Complete_def AdminComplete_def cancelStoreJob_def Cancel_def AdminCancel_def
  AdminCancelAll_def AdminRelease_def svc_PurgeTerminalJobs_def AdminPurgeTerminalJobs_def
  maintenance_tick_def

end
