(* ===== verification/Job_Facts.thy ===== *)
theory Job_Facts
  imports Job_Lifecycle
begin

text \<open>
  Facts on the settings, the bounded fields, the labels, creation and the paged listing of the
  job service.
\<close>

section \<open>Settings are clamped for every environment\<close>

lemma jobWebhookMaxAttempts_range: "1 \<le> jobWebhookMaxAttempts env \<and> jobWebhookMaxAttempts env \<le> 32"
  by (auto simp: jobWebhookMaxAttempts_def Let_def split: option.split)

lemma jobWebhookMaxInflight_range: "1 \<le> jobWebhookMaxInflight env \<and> jobWebhookMaxInflight env \<le> 32"
  by (auto simp: jobWebhookMaxInflight_def Let_def split: option.split)

lemma jobOutputMax_range: "1 \<le> jobOutputMax env \<and> jobOutputMax env \<le> HardMaxJobOutput"
  by (auto simp: jobOutputMax_def Let_def DefaultMaxJobOutput_def HardMaxJobOutput_def split: option.split)

lemma jobWebhookPollInterval_range:
  "second \<le> jobWebhookPollInterval env \<and> jobWebhookPollInterval env \<le> 60 * second"
  by (auto simp: jobWebhookPollInterval_def Let_def duration_secs_exact split: option.split)

lemma jobWebhookHTTPTimeout_range:
  "second \<le> jobWebhookHTTPTimeout env \<and> jobWebhookHTTPTimeout env \<le> 120 * second"
  by (auto simp: jobWebhookHTTPTimeout_def Let_def duration_secs_exact split: option.split)

lemma jobWebhookPurgeInterval_range:
  "second \<le> jobWebhookPurgeInterval env \<and> jobWebhookPurgeInterval env \<le> 3600 * second"
  by (auto simp: jobWebhookPurgeInterval_def Let_def duration_secs_exact split: option.split)

lemma jobWebhookRetain_range:
  "jobWebhookRetain env = 0 \<or>
   (second \<le> jobWebhookRetain env \<and> jobWebhookRetain env \<le> 365 * 24 * 3600 * second)"
  by (auto simp: jobWebhookRetain_def Let_def duration_secs_exact split: option.split)

lemma jobReclaimPollInterval_range:
  "jobReclaimPollInterval env = 0 \<or>
   (second \<le> jobReclaimPollInterval env \<and> jobReclaimPollInterval env \<le> 3600 * second)"
  by (auto simp: jobReclaimPollInterval_def Let_def duration_secs_exact split: option.split)

lemma jobTerminalRetain_range:
  "jobTerminalRetain env = 0 \<or>
   (second \<le> jobTerminalRetain env \<and> jobTerminalRetain env \<le> 365 * 24 * 3600 * second)"
  by (auto simp: jobTerminalRetain_def Let_def duration_secs_exact split: option.split)

lemma effectiveTimeoutSec_nonneg: "0 \<le> effectiveTimeoutSec env t"
  by (auto simp: effectiveTimeoutSec_def Let_def split: option.split)

section \<open>The retry delay\<close>

definition backoff_table :: "int list" where
  "backoff_table = [5, 15, 60, 300, 900, 3600, 7200, 14400]"

definition backoff_secs :: "int \<Rightarrow> int" where
  "backoff_secs a =
     (if a \<le> 1 then 5 else if a = 2 then 15 else if a = 3 then 60 else if a = 4 then 300
      else if a = 5 then 900 else if a = 6 then 3600 else if a = 7 then 7200 else 14400)"

lemma webhookBackoff_eq:
  "webhookBackoff env a =
     (if envv env ''AI_CLOUDHUB_JOB_WEBHOOK_BACKOFF_SEC'' = ''0'' then 1000000
      else backoff_secs a * second)"
proof -
  consider "a \<le> 1" | "a = 2" | "a = 3" | "a = 4" | "a = 5" | "a = 6" | "a = 7" | "a \<ge> 8" by linarith
  then show ?thesis
  proof cases
    case 8
    then have "a = 8 \<or> \<not> a \<le> 8" "\<not> a < 1" by auto
    with 8 show ?thesis
      by (auto simp: webhookBackoff_def backoff_secs_def Let_def duration_secs_exact)
  next
    case 1
    then show ?thesis
      by (cases "a = 1") (simp_all add: webhookBackoff_def backoff_secs_def Let_def duration_secs_exact)
  qed (simp_all add: webhookBackoff_def backoff_secs_def Let_def duration_secs_exact)
qed

lemma backoff_secs_range: "5 \<le> backoff_secs a \<and> backoff_secs a \<le> 14400"
  by (simp add: backoff_secs_def)

lemma backoff_secs_mono: "a \<le> b \<Longrightarrow> backoff_secs a \<le> backoff_secs b"
  by (auto simp: backoff_secs_def)

lemma webhookBackoff_pos: "0 < webhookBackoff env a"
  using backoff_secs_range [of a] by (simp add: webhookBackoff_eq)

section \<open>Bounded fields\<close>

lemma last_bytes_length: "length (last_bytes n s) = min n (length s)"
  by (simp add: last_bytes_def)

lemma last_bytes_suffix: "suffix (last_bytes n s) s"
  by (simp add: last_bytes_def suffix_drop)

lemma capTailFlag_spec:
  assumes "capTailFlag s mx = (t, trunc)" "0 < mx"
  shows "suffix t s" and "int (length t) = min mx (int (length s))" and "trunc \<longleftrightarrow> t \<noteq> s"
proof -
  show "suffix t s"
    using assms by (auto simp: capTailFlag_def last_bytes_suffix split: if_splits)
  show "int (length t) = min mx (int (length s))"
    using assms by (auto simp: capTailFlag_def last_bytes_length split: if_splits)
  then show "trunc \<longleftrightarrow> t \<noteq> s"
    using assms by (auto simp: capTailFlag_def split: if_splits)
qed

lemma cap_note_length: "length (cap_note s) \<le> 2000"
  by (simp add: cap_note_def last_bytes_length)

lemma cap_note_suffix: "suffix (cap_note s) s"
  by (simp add: cap_note_def last_bytes_suffix)

lemma appendJobNote_length: "length existing \<le> 2000 \<Longrightarrow> length (appendJobNote existing extra) \<le> 2000"
  by (simp add: appendJobNote_def Let_def cap_note_length)

lemma appendJobNote_extra: "trim_space extra \<noteq> [] \<Longrightarrow> length (appendJobNote existing extra) \<le> 2000"
  by (simp add: appendJobNote_def Let_def cap_note_length)

lemma suffix_last: "suffix xs ys \<Longrightarrow> suffix zs ys \<Longrightarrow> length zs \<le> length xs \<Longrightarrow> suffix zs xs"
  by (metis suffix_length_suffix)

lemma appendJobNote_suffix:
  assumes "trim_space extra \<noteq> []"
  shows "suffix (last_bytes 2000 (trim_space extra)) (appendJobNote existing extra)"
proof -
  let ?n = "(if trim_space existing \<noteq> [] then trim_space existing @ '' | '' else trim_space existing) @ trim_space extra"
  have a: "appendJobNote existing extra = cap_note ?n"
    using assms by (simp add: appendJobNote_def Let_def)
  have "suffix (last_bytes 2000 (trim_space extra)) ?n"
    using last_bytes_suffix by (rule suffix_appendI)
  moreover have "length (last_bytes 2000 (trim_space extra)) \<le> length (cap_note ?n)"
    by (auto simp: cap_note_def last_bytes_length)
  ultimately show ?thesis unfolding a using cap_note_suffix by (metis suffix_last)
qed

lemma release_note_length: "length existing \<le> 2000 \<Longrightarrow> length (release_note existing reason) \<le> 2000"
  by (simp add: release_note_def Let_def cap_note_length)

section \<open>Labels\<close>

definition label_ok :: "string \<times> string \<Rightarrow> bool" where
  "label_ok kv \<longleftrightarrow>
     (case kv of (k, v) \<Rightarrow> k \<noteq> [] \<and> trim_space k = k \<and> trim_space v = v \<and> length k \<le> 64 \<and> length v \<le> 256)"

lemma clean_labels_ok:
  "clean_labels m acc = Inr out \<Longrightarrow> gwf acc \<Longrightarrow> \<forall>kv \<in> set acc. label_ok kv \<Longrightarrow>
   gwf out \<and> (\<forall>kv \<in> set out. label_ok kv) \<and> length out \<le> length acc + length m"
proof (induction m acc rule: clean_labels.induct)
  case (1 clean)
  then show ?case by simp
next
  case (2 k0 v0 m clean)
  let ?k = "trim_space k0" and ?v = "trim_space v0"
  from "2.prems"(1) have ok: "?k \<noteq> []" "length ?k \<le> 64" "length ?v \<le> 256"
    and out: "clean_labels m (gset ?k ?v clean) = Inr out"
    by (auto simp: Let_def split: if_splits)
  have len: "length (gset ?k ?v clean) \<le> Suc (length clean)" by (induction clean) auto
  have "\<forall>kv \<in> set (gset ?k ?v clean). label_ok kv"
    using set_gset [of ?k ?v clean] "2.prems"(3) ok by (auto simp: label_ok_def)
  with "2.IH" [OF refl refl] ok out "2.prems"(2) len show ?case by fastforce
qed

lemma encodeJobLabels_ok:
  "encodeJobLabels m = Inr out \<Longrightarrow> gwf out \<and> (\<forall>kv \<in> set out. label_ok kv) \<and> length out \<le> 16"
  using clean_labels_ok [of m "[]" out] by (fastforce simp: encodeJobLabels_def split: if_splits)

lemma mapsEqual_refl: "gwf a \<Longrightarrow> mapsEqual a a"
  by (auto simp: mapsEqual_def list_all_iff label_of_def)

section \<open>Creation\<close>

lemma find_append_new:
  "find P xs = None \<Longrightarrow> P x \<Longrightarrow> find P (xs @ [x]) = Some x"
  by (induction xs) (auto split: if_splits)

lemma Create_new_eq:
  "Create c w u ci = (w', Inr (v, True)) \<longleftrightarrow>
     trim_space (ciDriveID ci) \<noteq> [] \<and> ciCommand ci \<noteq> [] \<and>
     length (trim_space (ciIdempotencyKey ci)) \<le> 128 \<and>
     (\<exists>labels. encodeJobLabels (ciLabels ci) = Inr labels \<and> idem_check (wd_mem w) u ci labels = None \<and>
        v = jobFromStore (new_job c (cx_uuid c (wd_next w)) u ci labels) \<and>
        w' = \<lparr>wd_mem = (wd_mem w)\<lparr>m_jobs := gset (cx_uuid c (wd_next w))
               (new_job c (cx_uuid c (wd_next w)) u ci labels) (m_jobs (wd_mem w))\<rparr>,
             wd_next = wd_next w + 1\<rparr>)"
  by (cases w) (auto simp: Create_def CreateJob_def Let_def new_job_def split: sum.splits option.splits)

lemma idem_check_None:
  "idem_check m u ci labels = None \<longleftrightarrow>
     trim_space (ciIdempotencyKey ci) = [] \<or>
     find (\<lambda>j. jUserID j = u \<and> jIdempotencyKey j = trim_space (ciIdempotencyKey ci)) (gvals (m_jobs m)) = None"
  by (auto simp: idem_check_def GetJobByIdempotencyKey_def Let_def split: option.splits sum.splits)

lemma sameCreatePayload_new:
  "encodeJobLabels (ciLabels ci) = Inr labels \<Longrightarrow>
   sameCreatePayload (new_job c i u ci labels) ci (if ciMode ci = [] then ''mount'' else ciMode ci) labels
     (trim_space (ciConnectorID ci)) (clamp_priority (ciPriority ci))
     (if ciTimeoutSec ci < 0 then 0 else ciTimeoutSec ci) (if ciMaxAttempts ci < 0 then 0 else ciMaxAttempts ci)"
  using encodeJobLabels_ok [of "ciLabels ci" labels]
  by (simp add: sameCreatePayload_def new_job_def mapsEqual_refl)

lemma Create_replay_core:
  assumes "Create c w u ci = (w', Inr (v, True))" "trim_space (ciIdempotencyKey ci) \<noteq> []"
    and "gget (m_jobs (wd_mem w)) (cx_uuid c (wd_next w)) = None"
  shows "Create c' w' u ci = (w', Inr (v, False))"
proof -
  let ?i = "cx_uuid c (wd_next w)" and ?key = "trim_space (ciIdempotencyKey ci)"
  from assms(1) obtain labels where l: "encodeJobLabels (ciLabels ci) = Inr labels"
    and none: "idem_check (wd_mem w) u ci labels = None"
    and v: "v = jobFromStore (new_job c ?i u ci labels)"
    and w': "w' = \<lparr>wd_mem = (wd_mem w)\<lparr>m_jobs := gset ?i (new_job c ?i u ci labels) (m_jobs (wd_mem w))\<rparr>,
             wd_next = wd_next w + 1\<rparr>"
    and ok: "trim_space (ciDriveID ci) \<noteq> []" "ciCommand ci \<noteq> []" "length ?key \<le> 128"
    unfolding Create_new_eq by blast
  have "find (\<lambda>j. jUserID j = u \<and> jIdempotencyKey j = ?key) (gvals (m_jobs (wd_mem w))) = None"
    using none assms(2) by (simp add: idem_check_None)
  then have "find (\<lambda>j. jUserID j = u \<and> jIdempotencyKey j = ?key) (gvals (m_jobs (wd_mem w'))) =
      Some (new_job c ?i u ci labels)"
    unfolding w' by (simp add: gset_new [OF assms(3)]) (rule find_append_new, simp_all add: new_job_def)
  then have "idem_check (wd_mem w') u ci labels = Some (Inr (new_job c ?i u ci labels))"
    using assms(2) sameCreatePayload_new [OF l, of c ?i u]
    by (simp add: idem_check_def GetJobByIdempotencyKey_def Let_def)
  with ok l v show ?thesis by (simp add: Create_def)
qed

section \<open>Following the cursors\<close>

lemma store_filter_simps [simp]:
  "jlLimit (store_filter u f) = service_limit (lfLimit f) + 1"
  "lfCursor f = None \<Longrightarrow> jlCursorID (store_filter u f) = []"
  by (simp_all add: store_filter_def Let_def)

lemma store_filter_cursor:
  "store_filter u (f\<lparr>lfCursor := Some (t, i)\<rparr>) =
   (store_filter u (f\<lparr>lfCursor := None\<rparr>))\<lparr>jlCursorCreated := t, jlCursorID := i\<rparr>"
  by (simp add: store_filter_def Let_def)

lemma service_limit_range: "1 \<le> service_limit l \<and> service_limit l \<le> 500"
  by (simp add: service_limit_def Let_def)

lemma job_page_limit_service: "job_page_limit (service_limit l + 1) = service_limit l + 1"
  using service_limit_range [of l] by (simp add: job_page_limit_def Let_def)

text \<open>Fetch page after page, following \<open>next_cursor\<close>.\<close>

fun all_pages :: "nat \<Rightarrow> world \<Rightarrow> string \<Rightarrow> list_filter \<Rightarrow> job_view list" where
  "all_pages 0 w u f = []"
| "all_pages (Suc n) w u f =
     (let (items, next) = List w u f
      in items @ (case next of None \<Rightarrow> [] | Some _ \<Rightarrow> all_pages n w u (f\<lparr>lfCursor := next\<rparr>)))"

lemma page_of_take:
  assumes "1 \<le> limit"
  shows "page_of limit (take (nat (limit + 1)) js) =
    (map jobFromStore (take (nat limit) js),
     if int (length js) > limit then Some (jCreatedAt (js ! nat (limit - 1)), jID (js ! nat (limit - 1))) else None)"
proof -
  have n: "nat (limit + 1) = Suc (nat limit)" "nat (limit - 1) < nat limit" using assms by auto
  show ?thesis
  proof (cases "int (length js) > limit")
    case True
    then have "min (length js) (Suc (nat limit)) = Suc (nat limit)" using assms by auto
    moreover have "nat (limit - 1) < length js" "nat (limit - 1) < Suc (nat limit)" using True n by auto
    ultimately show ?thesis
      using True assms n by (simp add: page_of_def Let_def take_map jobFromStore_def min_def)
  next
    case False
    then have "length js \<le> nat limit" using assms by auto
    with False assms n show ?thesis by (simp add: page_of_def Let_def)
  qed
qed

lemma List_first:
  "lfCursor f = None \<Longrightarrow>
   List w u f = page_of (service_limit (lfLimit f))
     (take (nat (service_limit (lfLimit f) + 1)) (job_listing (wd_mem w) (store_filter u f)))"
  by (simp add: List_def first_page job_page_limit_service)

lemma List_next:
  assumes "store_wf (wd_mem w)" "k < length js" "js = job_listing (wd_mem w) (store_filter u (f\<lparr>lfCursor := None\<rparr>))"
    and "jCreatedAt (js ! k) \<noteq> 0" "jID (js ! k) \<noteq> []"
  shows "List w u (f\<lparr>lfCursor := Some (jCreatedAt (js ! k), jID (js ! k))\<rparr>) =
    page_of (service_limit (lfLimit f)) (take (nat (service_limit (lfLimit f) + 1)) (drop (Suc k) js))"
  using page_after [OF assms(1), of k "store_filter u (f\<lparr>lfCursor := None\<rparr>)" "js ! k"] assms(2-5)
  by (simp add: List_def store_filter_cursor job_page_limit_service)

lemma all_pages_from:
  assumes wf: "store_wf (wd_mem w)"
    and js: "js = job_listing (wd_mem w) (store_filter u (f\<lparr>lfCursor := None\<rparr>))"
    and ok: "\<forall>j \<in> set js. jCreatedAt j \<noteq> 0 \<and> jID j \<noteq> []"
  shows "k < length js \<Longrightarrow> length js - k \<le> n \<Longrightarrow>
    all_pages n w u (f\<lparr>lfCursor := Some (jCreatedAt (js ! k), jID (js ! k))\<rparr>) =
      map jobFromStore (drop (Suc k) js)"
proof (induction n arbitrary: k)
  case 0
  then show ?case by simp
next
  case (Suc n)
  let ?L = "service_limit (lfLimit f)" and ?d = "drop (Suc k) js"
  have L: "1 \<le> ?L" using service_limit_range by blast
  have "jCreatedAt (js ! k) \<noteq> 0" "jID (js ! k) \<noteq> []" using ok Suc.prems(1) by auto
  then have page: "List w u (f\<lparr>lfCursor := Some (jCreatedAt (js ! k), jID (js ! k))\<rparr>) =
      (map jobFromStore (take (nat ?L) ?d),
       if int (length ?d) > ?L then Some (jCreatedAt (?d ! nat (?L - 1)), jID (?d ! nat (?L - 1))) else None)"
    using List_next [OF wf Suc.prems(1) js] unfolding page_of_take [OF L] by blast
  show ?case
  proof (cases "int (length ?d) > ?L")
    case False
    then show ?thesis using page L by simp
  next
    case True
    let ?k = "k + nat ?L"
    have k': "?k < length js" "?d ! nat (?L - 1) = js ! ?k"
      using True L by (auto simp: nat_diff_distrib)
    have "length js - ?k \<le> n" using Suc.prems L by linarith
    with Suc.IH [OF k'(1)] have "all_pages n w u (f\<lparr>lfCursor := Some (jCreatedAt (js ! ?k), jID (js ! ?k))\<rparr>) =
        map jobFromStore (drop (Suc ?k) js)" .
    moreover have "drop (Suc k) js = take (nat ?L) ?d @ drop (Suc ?k) js"
      by (metis append_take_drop_id drop_drop add.commute add_Suc_right)
    ultimately show ?thesis
      using page L True k'(2) by (simp del: drop_drop) (metis map_append)
  qed
qed

lemma all_pages_listing:
  assumes wf: "store_wf (wd_mem w)" and first: "lfCursor f = None"
    and js: "js = job_listing (wd_mem w) (store_filter u f)"
    and ok: "\<forall>j \<in> set js. jCreatedAt j \<noteq> 0 \<and> jID j \<noteq> []"
    and fuel: "length js < n"
  shows "all_pages n w u f = map jobFromStore js"
proof -
  let ?L = "service_limit (lfLimit f)"
  have L: "1 \<le> ?L" using service_limit_range by blast
  have f: "f\<lparr>lfCursor := None\<rparr> = f" using first by simp
  obtain n' where n: "n = Suc n'" using fuel by (cases n) auto
  have page: "List w u f = (map jobFromStore (take (nat ?L) js),
       if int (length js) > ?L then Some (jCreatedAt (js ! nat (?L - 1)), jID (js ! nat (?L - 1))) else None)"
    using List_first [OF first, of w u] unfolding js [symmetric] page_of_take [OF L] .
  show ?thesis
  proof (cases "int (length js) > ?L")
    case False
    then show ?thesis using page L n by simp
  next
    case True
    let ?k = "nat (?L - 1)"
    have k: "?k < length js" "Suc ?k = nat ?L" using True L by auto
    have "length js - ?k \<le> n'" using fuel n by linarith
    then have "all_pages n' w u (f\<lparr>lfCursor := Some (jCreatedAt (js ! ?k), jID (js ! ?k))\<rparr>) =
        map jobFromStore (drop (nat ?L) js)"
      using all_pages_from [OF wf _ ok k(1), of u f n'] js f k by simp
    moreover have "js = take (nat ?L) js @ drop (nat ?L) js" by simp
    ultimately show ?thesis
      using page L n True by simp (metis map_append append_take_drop_id)
  qed
qed

end
