(* ===== verification/Job_Webhooks.thy ===== *)
theory Job_Webhooks
  imports Job_Lifecycle
begin

text \<open>
  The job service (\<open>internal/job/service.go\<close>), third part: the delivery of the webhook outbox,
  its signature, and the administration of its rows.

  The HTTP client, the JSON encoder of an event and the HMAC are parameters (\<open>net\<close>). A delivery
  pass takes the outcome of each row as a function \<open>deliver\<close> of the row; in a parallel pass the
  outcomes arrive in an arbitrary order, a permutation of the rows attempted.
\<close>

section \<open>One delivery\<close>

record request =
  rqURL :: string
  rqBody :: string
  rqHeaders :: "string gomap"

record net =
  nt_marshal :: "webhook_event \<Rightarrow> string"
  nt_hmac_hex :: "string \<Rightarrow> string \<Rightarrow> string"
  nt_new_request :: "string \<Rightarrow> string \<Rightarrow> string option"
  nt_do :: "request \<Rightarrow> string + int"

definition webhook_signature :: "net \<Rightarrow> string \<Rightarrow> string \<Rightarrow> string \<Rightarrow> string" where
  "webhook_signature nt secret ts body = ''sha256='' @ nt_hmac_hex nt secret ((ts @ ''.'') @ body)"

definition webhook_request :: "net \<Rightarrow> time \<Rightarrow> string \<Rightarrow> string \<Rightarrow> webhook_outbox \<Rightarrow> request" where
  "webhook_request nt now url secret row =
     (let ts = show_int (unix_seconds now); body = nt_marshal nt (wPayload row);
          hs = [(''Content-Type'', ''application/json''),
                (''User-Agent'', ''AI-cloudhub-job-webhook/1''),
                (''X-AI-Cloudhub-Timestamp'', ts),
                (''X-AI-Cloudhub-Event-Id'', wID row),
                (''X-AI-Cloudhub-Event'', wEvent row)];
          hs = (if secret \<noteq> []
                then gset ''X-AI-Cloudhub-Signature'' (webhook_signature nt secret ts body) hs else hs)
      in \<lparr>rqURL = url, rqBody = body, rqHeaders = hs\<rparr>)"

definition deliverWebhookOnce ::
  "net \<Rightarrow> time \<Rightarrow> string \<Rightarrow> string \<Rightarrow> webhook_outbox \<Rightarrow> bool \<times> string" where
  "deliverWebhookOnce nt now url secret row =
     (case nt_new_request nt url (nt_marshal nt (wPayload row)) of
        Some err \<Rightarrow> (False, err)
      | None \<Rightarrow>
          (case nt_do nt (webhook_request nt now url secret row) of
             Inl err \<Rightarrow> (False, err)
           | Inr status \<Rightarrow>
               if status \<ge> 300 then (False, ''HTTP '' @ show_int status) else (True, [])))"

text \<open>\<open>hmac.Equal\<close> is equality of the byte strings.\<close>

definition VerifyJobWebhookSignature :: "net \<Rightarrow> string \<Rightarrow> string \<Rightarrow> string \<Rightarrow> string \<Rightarrow> bool" where
  "VerifyJobWebhookSignature nt secret0 timestamp header body \<longleftrightarrow>
     (let secret = trim_space secret0
      in if secret = [] \<or> timestamp = [] \<or> header = [] then False
         else nt_hmac_hex nt secret ((timestamp @ ''.'') @ body) = trim_prefix ''sha256='' header)"

section \<open>The delivery pass\<close>

definition attempted :: "ctx \<Rightarrow> webhook_outbox \<Rightarrow> bool \<times> string \<Rightarrow> webhook_outbox" where
  "attempted c fresh0 outcome =
     (let (ok, derr) = outcome;
          fresh = fresh0\<lparr>wAttempts := wAttempts fresh0 + 1, wUpdatedAt := cx_now c\<rparr>
      in if ok
         then fresh\<lparr>wStatus := ''delivered'', wDeliveredAt := cx_now c, wLastError := []\<rparr>
         else (let fresh = fresh\<lparr>wLastError := take 500 derr\<rparr>
               in if wAttempts fresh \<ge> jobWebhookMaxAttempts (cx_env c)
                  then fresh\<lparr>wStatus := ''dead''\<rparr>
                  else fresh\<lparr>wNextAttemptAt := cx_now c + webhookBackoff (cx_env c) (wAttempts fresh)\<rparr>))"

definition finishWebhookAttempt ::
  "ctx \<Rightarrow> webhook_outbox \<Rightarrow> bool \<times> string \<Rightarrow> memory \<Rightarrow> memory \<times> nat" where
  "finishWebhookAttempt c fresh outcome m =
     (case UpdateWebhookOutbox m (attempted c fresh outcome) of
        Inl _ \<Rightarrow> (m, 0)
      | Inr m' \<Rightarrow> (m', if fst outcome then 1 else 0))"

definition fresh_pending :: "memory \<Rightarrow> webhook_outbox \<Rightarrow> webhook_outbox option" where
  "fresh_pending m row =
     (case GetWebhookOutbox m (wID row) of
        Inl _ \<Rightarrow> None
      | Inr fresh \<Rightarrow> if wStatus fresh \<noteq> ''pending'' then None else Some fresh)"

definition deliver_step ::
  "ctx \<Rightarrow> (webhook_outbox \<Rightarrow> bool \<times> string) \<Rightarrow> webhook_outbox \<Rightarrow> memory \<times> nat \<Rightarrow> memory \<times> nat" where
  "deliver_step c deliver row mn =
     (let (m, n) = mn in
      case fresh_pending m row of
        None \<Rightarrow> (m, n)
      | Some fresh \<Rightarrow>
          (let (m', k) = finishWebhookAttempt c fresh (deliver fresh) m in (m', n + k)))"

definition process_seq ::
  "ctx \<Rightarrow> (webhook_outbox \<Rightarrow> bool \<times> string) \<Rightarrow> webhook_outbox list \<Rightarrow> memory \<Rightarrow> memory \<times> nat" where
  "process_seq c deliver due m = fold (deliver_step c deliver) due (m, 0)"

definition finish_step ::
  "ctx \<Rightarrow> webhook_outbox \<times> bool \<times> string \<Rightarrow> memory \<times> nat \<Rightarrow> memory \<times> nat" where
  "finish_step c r mn =
     (let (m, n) = mn; (m', k) = finishWebhookAttempt c (fst r) (snd r) m in (m', n + k))"

definition process_par ::
  "ctx \<Rightarrow> (webhook_outbox \<times> bool \<times> string) list \<Rightarrow> memory \<Rightarrow> memory \<times> nat" where
  "process_par c results m = fold (finish_step c) results (m, 0)"

definition par_results ::
  "(webhook_outbox \<Rightarrow> bool \<times> string) \<Rightarrow> webhook_outbox list \<Rightarrow> memory \<Rightarrow> (webhook_outbox \<times> bool \<times> string) list" where
  "par_results deliver due m = map (\<lambda>fr. (fr, deliver fr)) (List.map_filter (fresh_pending m) due)"

text \<open>\<open>perm\<close> is the order in which the parallel deliveries complete.\<close>

definition ProcessWebhookOutbox ::
  "ctx \<Rightarrow> (webhook_outbox \<Rightarrow> bool \<times> string) \<Rightarrow>
   ((webhook_outbox \<times> bool \<times> string) list \<Rightarrow> (webhook_outbox \<times> bool \<times> string) list) \<Rightarrow>
   world \<Rightarrow> int \<Rightarrow> world \<times> nat" where
  "ProcessWebhookOutbox c deliver perm w limit0 =
     (if jobWebhookURL (cx_env c) = [] then (w, 0)
      else (let due = ListDueWebhookOutbox (wd_mem w) (cx_now c) (if limit0 \<le> 0 then 32 else limit0)
            in if due = [] then (w, 0)
               else (let (m', n) =
                       (if jobWebhookMaxInflight (cx_env c) \<le> 1
                        then process_seq c deliver due (wd_mem w)
                        else process_par c (perm (par_results deliver due (wd_mem w))) (wd_mem w))
                     in (w\<lparr>wd_mem := m'\<rparr>, n))))"

section \<open>Retention and administration\<close>

definition svc_PurgeWebhookOutbox :: "ctx \<Rightarrow> world \<Rightarrow> duration \<Rightarrow> world \<times> nat" where
  "svc_PurgeWebhookOutbox c w olderThan0 =
     (let olderThan = (if olderThan0 \<le> 0 then jobWebhookRetain (cx_env c) else olderThan0)
      in if olderThan \<le> 0 then (w, 0)
         else (let (m', n) = PurgeWebhookOutbox (wd_mem w) (cx_now c - olderThan) 500
               in (w\<lparr>wd_mem := m'\<rparr>, n)))"

definition AdminPurgeWebhooks :: "ctx \<Rightarrow> world \<Rightarrow> duration \<Rightarrow> world \<times> nat" where
  "AdminPurgeWebhooks c w olderThan0 =
     (let olderThan =
            (if olderThan0 \<le> 0
             then (let r = jobWebhookRetain (cx_env c) in if r \<le> 0 then 7 * 24 * 3600 * second else r)
             else olderThan0);
          (m', n) = PurgeWebhookOutbox (wd_mem w) (cx_now c - olderThan) 2000
      in (w\<lparr>wd_mem := m'\<rparr>, n))"

record webhook_view =
  wvID :: string
  wvJobID :: string
  wvUserID :: string
  wvEvent :: string
  wvStatus :: string
  wvAttempts :: int
  wvNextAttemptAt :: time
  wvLastError :: string
  wvCreatedAt :: time
  wvUpdatedAt :: time
  wvDeliveredAt :: "time option"
  wvPayload :: "webhook_event option"

definition webhookViewFromStore :: "webhook_outbox \<Rightarrow> bool \<Rightarrow> webhook_view" where
  "webhookViewFromStore e withPayload =
    \<lparr>wvID = wID e, wvJobID = wJobID e, wvUserID = wUserID e, wvEvent = wEvent e,
     wvStatus = wStatus e, wvAttempts = wAttempts e, wvNextAttemptAt = wNextAttemptAt e,
     wvLastError = wLastError e, wvCreatedAt = wCreatedAt e, wvUpdatedAt = wUpdatedAt e,
     wvDeliveredAt = opt_time (wDeliveredAt e),
     wvPayload = (if withPayload then Some (wPayload e) else None)\<rparr>"

definition admin_webhook_rows :: "world \<Rightarrow> webhook_outbox_filter \<Rightarrow> webhook_outbox list" where
  "admin_webhook_rows w f =
     ListWebhookOutbox (wd_mem w)
       \<lparr>wfStatus = trim_space (wfStatus f), wfJobID = trim_space (wfJobID f),
        wfUserID = trim_space (wfUserID f), wfEvent = trim_space (wfEvent f), wfLimit = wfLimit f\<rparr>"

definition AdminListWebhooks :: "world \<Rightarrow> webhook_outbox_filter \<Rightarrow> webhook_view list" where
  "AdminListWebhooks w f = map (\<lambda>e. webhookViewFromStore e False) (admin_webhook_rows w f)"

definition AdminGetWebhook :: "world \<Rightarrow> string \<Rightarrow> webhook_view result" where
  "AdminGetWebhook w i =
     (case GetWebhookOutbox (wd_mem w) (trim_space i) of
        Inl _ \<Rightarrow> Inl (Errorf ''webhook outbox not found'')
      | Inr e \<Rightarrow> Inr (webhookViewFromStore e True))"

definition AdminGetWithWebhooks :: "world \<Rightarrow> string \<Rightarrow> (job_view \<times> webhook_view list) result" where
  "AdminGetWithWebhooks w i =
     (case AdminGet w i of
        Inl e \<Rightarrow> Inl e
      | Inr j \<Rightarrow>
          Inr (j, AdminListWebhooks w
                    \<lparr>wfStatus = [], wfJobID = vwID j, wfUserID = [], wfEvent = [], wfLimit = 50\<rparr>))"

definition requeued :: "ctx \<Rightarrow> webhook_outbox \<Rightarrow> webhook_outbox" where
  "requeued c e =
     e\<lparr>wStatus := ''pending'', wAttempts := 0, wNextAttemptAt := cx_now c - second,
       wLastError := [], wDeliveredAt := 0, wUpdatedAt := cx_now c\<rparr>"

definition requeueWebhookRow :: "ctx \<Rightarrow> memory \<Rightarrow> webhook_outbox \<Rightarrow> memory result" where
  "requeueWebhookRow c m e = UpdateWebhookOutbox m (requeued c e)"

definition AdminRetryWebhook :: "ctx \<Rightarrow> world \<Rightarrow> string \<Rightarrow> world \<times> webhook_view result" where
  "AdminRetryWebhook c w i =
     (case GetWebhookOutbox (wd_mem w) (trim_space i) of
        Inl _ \<Rightarrow> (w, Inl (Errorf ''webhook outbox not found''))
      | Inr e \<Rightarrow>
          (case requeueWebhookRow c (wd_mem w) e of
             Inl err \<Rightarrow> (w, Inl err)
           | Inr m' \<Rightarrow> (w\<lparr>wd_mem := m'\<rparr>, Inr (webhookViewFromStore (requeued c e) True))))"

definition requeue_step :: "ctx \<Rightarrow> webhook_outbox \<Rightarrow> memory \<times> nat \<Rightarrow> memory \<times> nat" where
  "requeue_step c e mn =
     (let (m, n) = mn in
      case requeueWebhookRow c m e of Inl _ \<Rightarrow> (m, n) | Inr m' \<Rightarrow> (m', n + 1))"

definition AdminRetryWebhooksBatch ::
  "ctx \<Rightarrow> world \<Rightarrow> webhook_outbox_filter \<Rightarrow> world \<times> nat result" where
  "AdminRetryWebhooksBatch c w f =
     (let status = (if trim_space (wfStatus f) = [] then ''dead'' else trim_space (wfStatus f))
      in if \<not> (status = ''pending'' \<or> status = ''delivered'' \<or> status = ''dead'')
         then (w, Inl (Errorf ''status must be pending, delivered, or dead''))
         else (let rows = admin_webhook_rows w
                     (f\<lparr>wfStatus := status, wfLimit := service_limit (wfLimit f)\<rparr>);
                   (m', n) = fold (requeue_step c) rows (wd_mem w, 0)
               in (w\<lparr>wd_mem := m'\<rparr>, Inr n)))"

text \<open>One tick of the webhook worker: a delivery pass, and the purge when its interval is over.\<close>

definition webhook_tick ::
  "ctx \<Rightarrow> (webhook_outbox \<Rightarrow> bool \<times> string) \<Rightarrow>
   ((webhook_outbox \<times> bool \<times> string) list \<Rightarrow> (webhook_outbox \<times> bool \<times> string) list) \<Rightarrow>
   time \<Rightarrow> world \<Rightarrow> world \<times> time" where
  "webhook_tick c deliver perm lastPurge w =
     (if jobWebhookURL (cx_env c) = [] then (w, lastPurge)
      else (let w1 = fst (ProcessWebhookOutbox c deliver perm w 32)
            in if cx_now c - lastPurge \<ge> jobWebhookPurgeInterval (cx_env c)
               then (fst (svc_PurgeWebhookOutbox c w1 0), cx_now c)
               else (w1, lastPurge)))"

lemmas webhook_defs [job_defs] = deliverWebhookOnce_def ProcessWebhookOutbox_def
  svc_PurgeWebhookOutbox_def AdminPurgeWebhooks_def AdminListWebhooks_def AdminGetWebhook_def
  AdminGetWithWebhooks_def AdminRetryWebhook_def AdminRetryWebhooksBatch_def webhook_tick_def

section \<open>Signatures\<close>

text \<open>The signature a delivery sends is the one the receiver's check accepts.\<close>

lemma signature_verifies:
  assumes "trim_space s \<noteq> []"
  shows "VerifyJobWebhookSignature nt s (show_int t) (webhook_signature nt (trim_space s) (show_int t) body) body"
proof -
  have "show_int t \<noteq> []"
    using show_nat_hd_digit [of "nat t"] by (auto simp: show_int_def)
  with assms show ?thesis
    by (simp add: VerifyJobWebhookSignature_def webhook_signature_def trim_prefix_def Let_def)
qed

end
