(* ===== verification/Job_Machine.thy ===== *)
theory Job_Machine
  imports Job_Facts Job_Webhooks
begin

text \<open>
  The state machine of jobs and outbox rows. \<open>prim\<close> is an abstract step: a job is created,
  claimed, kept alive, released or finished, or the retention purges it; a row of the outbox is
  attempted, requeued or purged. The invariants of the service are proved once for \<open>prim\<close>;
  the theory \<open>Job_Refinement\<close> shows that every call of the service is a sequence of such steps.
\<close>

section \<open>Writing one row\<close>

definition put_job :: "job \<Rightarrow> world \<Rightarrow> world" where
  "put_job j w = w\<lparr>wd_mem := (wd_mem w)\<lparr>m_jobs := gset (jID j) j (m_jobs (wd_mem w))\<rparr>\<rparr>"

definition put_hook :: "webhook_outbox \<Rightarrow> world \<Rightarrow> world" where
  "put_hook e w = w\<lparr>wd_mem := (wd_mem w)\<lparr>m_webhooks := gset (wID e) e (m_webhooks (wd_mem w))\<rparr>\<rparr>"

abbreviation job_at :: "world \<Rightarrow> string \<Rightarrow> job option" where
  "job_at w i \<equiv> gget (m_jobs (wd_mem w)) i"

abbreviation hook_at :: "world \<Rightarrow> string \<Rightarrow> webhook_outbox option" where
  "hook_at w i \<equiv> gget (m_webhooks (wd_mem w)) i"

lemma put_job_simps [simp]:
  "m_jobs (wd_mem (put_job j w)) = gset (jID j) j (m_jobs (wd_mem w))"
  "m_webhooks (wd_mem (put_job j w)) = m_webhooks (wd_mem w)"
  "wd_next (put_job j w) = wd_next w"
  by (simp_all add: put_job_def)

lemma put_hook_simps [simp]:
  "m_webhooks (wd_mem (put_hook e w)) = gset (wID e) e (m_webhooks (wd_mem w))"
  "m_jobs (wd_mem (put_hook e w)) = m_jobs (wd_mem w)"
  "wd_next (put_hook e w) = wd_next w"
  by (simp_all add: put_hook_def)

lemma put_job_wf: "store_wf (wd_mem w) \<Longrightarrow> store_wf (wd_mem (put_job j w))"
  by (auto simp: put_job_def wf_dests intro!: wf_intros)

lemma put_hook_wf: "store_wf (wd_mem w) \<Longrightarrow> store_wf (wd_mem (put_hook e w))"
  by (auto simp: put_hook_def wf_dests intro!: wf_intros)

section \<open>Identifiers\<close>

text \<open>What the service relies on in the identifier generator (\<open>uuid.NewString\<close>): it never
  repeats a value, and a value is not blank and has no surrounding space.\<close>

definition uuid_ok :: "(nat \<Rightarrow> string) \<Rightarrow> bool" where
  "uuid_ok uuid \<longleftrightarrow> inj uuid \<and> (\<forall>k. trim_space (uuid k) = uuid k \<and> uuid k \<noteq> [])"

lemma uuid_ok_show: "uuid_ok show_nat"
  using show_nat_inj by (auto simp: uuid_ok_def inj_def)

definition issued :: "(nat \<Rightarrow> string) \<Rightarrow> nat \<Rightarrow> string \<Rightarrow> bool" where
  "issued uuid n i \<longleftrightarrow> (\<exists>k<n. i = uuid k)"

definition wd_wf :: "(nat \<Rightarrow> string) \<Rightarrow> world \<Rightarrow> bool" where
  "wd_wf uuid w \<longleftrightarrow> uuid_ok uuid \<and> store_wf (wd_mem w) \<and>
     (\<forall>i j. job_at w i = Some j \<longrightarrow> issued uuid (wd_next w) i) \<and>
     (\<forall>i e. hook_at w i = Some e \<longrightarrow> issued uuid (wd_next w) i)"

lemma issued_mono: "issued uuid n i \<Longrightarrow> n \<le> n' \<Longrightarrow> issued uuid n' i"
  by (auto simp: issued_def intro: less_le_trans)

lemma issued_next [simp]: "issued uuid (Suc n) (uuid n)"
  by (auto simp: issued_def)

lemma not_issued: "uuid_ok uuid \<Longrightarrow> \<not> issued uuid n (uuid n)"
  by (auto simp: issued_def uuid_ok_def dest: injD)

lemma issued_trim: "uuid_ok uuid \<Longrightarrow> issued uuid n i \<Longrightarrow> trim_space i = i \<and> i \<noteq> []"
  by (auto simp: issued_def uuid_ok_def)

lemma wd_wfD:
  assumes "wd_wf uuid w"
  shows "uuid_ok uuid" and "store_wf (wd_mem w)"
    and "job_at w i = Some j \<Longrightarrow> issued uuid (wd_next w) i"
    and "hook_at w i = Some e \<Longrightarrow> issued uuid (wd_next w) i"
    and "job_at w (uuid (wd_next w)) = None" and "hook_at w (uuid (wd_next w)) = None"
  using assms not_issued [of uuid "wd_next w"]
  by (auto simp: wd_wf_def intro: ccontr [of "_ = None"])

lemma job_at_id: "wd_wf uuid w \<Longrightarrow> job_at w i = Some j \<Longrightarrow> jID j = i"
  by (rule keyed_gget [OF store_wfD(6) [OF wd_wfD(2)]])

lemma hook_at_id: "wd_wf uuid w \<Longrightarrow> hook_at w i = Some e \<Longrightarrow> wID e = i"
  by (rule keyed_gget [OF store_wfD(15) [OF wd_wfD(2)]])

lemma outbox_row_simps [simp]:
  "wID (outbox_row c i v) = i" "wJobID (outbox_row c i v) = vwID v"
  "wUserID (outbox_row c i v) = vwUserID v" "wEvent (outbox_row c i v) = event_name (vwStatus v)"
  "evJob (wPayload (outbox_row c i v)) = v" "evEventID (wPayload (outbox_row c i v)) = i"
  "wStatus (outbox_row c i v) = ''pending''" "wAttempts (outbox_row c i v) = 0"
  "wDeliveredAt (outbox_row c i v) = 0"
  by (simp_all add: outbox_row_def)

lemma notifyJobTerminal_eq:
  assumes "wd_wf (cx_uuid c) w"
  shows "notifyJobTerminal c w v =
    (if jobWebhookURL (cx_env c) = [] then w
     else (put_hook (outbox_row c (cx_uuid c (wd_next w)) v) w)\<lparr>wd_next := wd_next w + 1\<rparr>)"
proof -
  have "trim_space (cx_uuid c (wd_next w)) \<noteq> []"
    using wd_wfD(1) [OF assms] by (simp add: uuid_ok_def)
  then show ?thesis
    using wd_wfD(6) [OF assms]
    by (simp add: notifyJobTerminal_def EnqueueWebhookOutbox_def outbox_row_def put_hook_def Let_def)
qed

section \<open>The abstract steps\<close>

definition terminal_of :: "ctx \<Rightarrow> job \<Rightarrow> job \<Rightarrow> bool" where
  "terminal_of c j j' \<longleftrightarrow>
     (jStatus j = ''running'' \<and> (\<exists>code why. j' = failed_job c code why j)) \<or>
     (\<exists>ci. j' = completed_job c ci j) \<or> (\<exists>note. j' = cancelled_job c note j)"

definition input_ok :: "create_input \<Rightarrow> bool" where
  "input_ok ci \<longleftrightarrow> trim_space (ciDriveID ci) \<noteq> [] \<and> ciCommand ci \<noteq> [] \<and>
     length (trim_space (ciIdempotencyKey ci)) \<le> 128"

inductive prim :: "ctx \<Rightarrow> world \<Rightarrow> world \<Rightarrow> bool" for c where
  p_create: "input_ok ci \<Longrightarrow> encodeJobLabels (ciLabels ci) = Inr labels \<Longrightarrow>
     idem_check (wd_mem w) u ci labels = None \<Longrightarrow>
     prim c w ((put_job (new_job c (cx_uuid c (wd_next w)) u ci labels) w)\<lparr>wd_next := wd_next w + 1\<rparr>)"
| p_claim: "job_at w i = Some j \<Longrightarrow> is_queued j \<Longrightarrow> prim c w (put_job (claimed (cx_now c) a r j) w)"
| p_beat: "job_at w i = Some j \<Longrightarrow> jStatus j = ''running'' \<Longrightarrow>
     prim c w (put_job (j\<lparr>jHeartbeatAt := cx_now c, jUpdatedAt := cx_now c\<rparr>) w)"
| p_release: "job_at w i = Some j \<Longrightarrow> jStatus j = ''running'' \<or> jStatus j = ''dispatched'' \<Longrightarrow>
     prim c w (put_job (released_job c reason j) w)"
| p_finish: "job_at w i = Some j \<Longrightarrow> \<not> is_terminal (jStatus j) \<Longrightarrow> terminal_of c j j' \<Longrightarrow>
     prim c w (notifyJobTerminal c (put_job j' w) (jobFromStore j'))"
| p_purge: "prim c w (w\<lparr>wd_mem := fst (store_PurgeTerminalJobs (wd_mem w) t l)\<rparr>)"
| p_attempt: "hook_at w i = Some e \<Longrightarrow> wStatus e = ''pending'' \<Longrightarrow> prim c w (put_hook (attempted c e r) w)"
| p_requeue: "hook_at w i = Some e \<Longrightarrow> prim c w (put_hook (requeued c e) w)"
| p_hook_purge: "prim c w (w\<lparr>wd_mem := fst (PurgeWebhookOutbox (wd_mem w) t l)\<rparr>)"

text \<open>The fields no transition changes, and the change of each transition.\<close>

definition same_request :: "job \<Rightarrow> job \<Rightarrow> bool" where
  "same_request j j' \<longleftrightarrow>
     jID j' = jID j \<and> jUserID j' = jUserID j \<and> jDriveID j' = jDriveID j \<and>
     jBindingID j' = jBindingID j \<and> jMode j' = jMode j \<and> jCommand j' = jCommand j \<and>
     jRegionHint j' = jRegionHint j \<and> jConnectorID j' = jConnectorID j \<and>
     jAgentID j' = jAgentID j \<and> jPriority j' = jPriority j \<and> jLabels j' = jLabels j \<and>
     jIdempotencyKey j' = jIdempotencyKey j \<and> jTimeoutSec j' = jTimeoutSec j \<and>
     jMaxAttempts j' = jMaxAttempts j \<and> jCreatedAt j' = jCreatedAt j"

lemma same_request_refl [simp]: "same_request j j"
  by (simp add: same_request_def)

lemma same_request_trans: "same_request j k \<Longrightarrow> same_request k l \<Longrightarrow> same_request j l"
  by (simp add: same_request_def)

lemma completed_job_simps [simp]:
  "same_request j (completed_job c ci j)"
  "jStatus (completed_job c ci j) = (if coOK ci then ''succeeded'' else ''failed'')"
  "jAttemptCount (completed_job c ci j) = jAttemptCount j"
  "jHeartbeatAt (completed_job c ci j) = 0" "jClaimedAt (completed_job c ci j) = 0"
  by (simp_all add: completed_job_def same_request_def Let_def split: prod.splits option.splits)

lemma failed_job_simps [simp]:
  "same_request j (failed_job c code why j)"
  "jStatus (failed_job c code why j) = ''failed''"
  "jAttemptCount (failed_job c code why j) = jAttemptCount j"
  "jHeartbeatAt (failed_job c code why j) = 0" "jClaimedAt (failed_job c code why j) = 0"
  by (simp_all add: failed_job_def same_request_def)

lemma cancelled_job_simps [simp]:
  "same_request j (cancelled_job c note j)"
  "jStatus (cancelled_job c note j) = ''cancelled''"
  "jAttemptCount (cancelled_job c note j) = jAttemptCount j"
  "jHeartbeatAt (cancelled_job c note j) = 0" "jClaimedAt (cancelled_job c note j) = 0"
  by (simp_all add: cancelled_job_def same_request_def Let_def)

lemma released_job_simps [simp]:
  "same_request j (released_job c reason j)"
  "jStatus (released_job c reason j) = ''pending''"
  "jAttemptCount (released_job c reason j) = jAttemptCount j"
  "jHeartbeatAt (released_job c reason j) = 0" "jClaimedAt (released_job c reason j) = 0"
  "jClaimedByAgentID (released_job c reason j) = []" "jClaimedByRunnerID (released_job c reason j) = []"
  by (simp_all add: released_job_def same_request_def)

lemma claimed_request [simp]: "same_request j (claimed now a r j)"
  by (simp add: claimed_def same_request_def)

lemma beat_request [simp]: "same_request j (j\<lparr>jHeartbeatAt := t, jUpdatedAt := t'\<rparr>)"
  by (simp add: same_request_def)

lemma same_request_id: "same_request j j' \<Longrightarrow> jID j' = jID j \<and> jUserID j' = jUserID j"
  by (simp add: same_request_def)

lemma terminal_of_facts:
  assumes "terminal_of c j j'"
  shows "same_request j j'" and "is_terminal (jStatus j')" and "jAttemptCount j' = jAttemptCount j"
    and "jHeartbeatAt j' = 0" and "jClaimedAt j' = 0"
  using assms by (auto simp: terminal_of_def is_terminal_def)

lemma terminal_of_id: "terminal_of c j j' \<Longrightarrow> jID j' = jID j"
  using terminal_of_facts(1) same_request_id by blast

section \<open>Well-formedness is preserved\<close>

lemma purge_sub: "job_at (w\<lparr>wd_mem := fst (store_PurgeTerminalJobs (wd_mem w) t l)\<rparr>) i = Some j \<Longrightarrow> job_at w i = Some j"
  by (simp add: store_PurgeTerminalJobs_def Let_def gget_fold_gdel split: if_splits)

lemma purge_hook_sub:
  "store_wf (wd_mem w) \<Longrightarrow>
   hook_at (w\<lparr>wd_mem := fst (store_PurgeTerminalJobs (wd_mem w) t l)\<rparr>) i = Some e \<Longrightarrow> hook_at w i = Some e"
  using purge_webhooks [of "wd_mem w" t l i] by (auto split: option.splits if_splits)

lemma hook_purge_sub: "hook_at (w\<lparr>wd_mem := fst (PurgeWebhookOutbox (wd_mem w) t l)\<rparr>) i = Some e \<Longrightarrow> hook_at w i = Some e"
  by (simp add: PurgeWebhookOutbox_def Let_def gget_fold_gdel split: if_splits)

lemma hook_purge_jobs [simp]: "m_jobs (fst (PurgeWebhookOutbox m t l)) = m_jobs m"
  by (simp add: PurgeWebhookOutbox_def Let_def)

lemma put_job_wd:
  assumes "wd_wf uuid w" "issued uuid (wd_next w) (jID j)"
  shows "wd_wf uuid (put_job j w)"
  using assms put_job_wf [of w j] by (auto simp: wd_wf_def)

lemma put_hook_wd:
  assumes "wd_wf uuid w" "issued uuid (wd_next w) (wID e)"
  shows "wd_wf uuid (put_hook e w)"
  using assms put_hook_wf [of w e] by (auto simp: wd_wf_def)

lemma next_wd: "wd_wf uuid w \<Longrightarrow> n \<ge> wd_next w \<Longrightarrow> wd_wf uuid (w\<lparr>wd_next := n\<rparr>)"
  by (auto simp: wd_wf_def intro: issued_mono)

lemma put_job_next_wd:
  assumes "wd_wf uuid w" "jID j = uuid (wd_next w)"
  shows "wd_wf uuid ((put_job j w)\<lparr>wd_next := wd_next w + 1\<rparr>)"
proof -
  have "wd_wf uuid (put_job j (w\<lparr>wd_next := wd_next w + 1\<rparr>))"
    using assms by (intro put_job_wd next_wd) auto
  then show ?thesis by (cases w) (simp add: put_job_def)
qed

lemma put_hook_next_wd:
  assumes "wd_wf uuid w" "wID e = uuid (wd_next w)"
  shows "wd_wf uuid ((put_hook e w)\<lparr>wd_next := wd_next w + 1\<rparr>)"
proof -
  have "wd_wf uuid (put_hook e (w\<lparr>wd_next := wd_next w + 1\<rparr>))"
    using assms by (intro put_hook_wd next_wd) auto
  then show ?thesis by (cases w) (simp add: put_hook_def)
qed

lemma notify_wd: "wd_wf (cx_uuid c) w \<Longrightarrow> wd_wf (cx_uuid c) (notifyJobTerminal c w v)"
  using put_hook_next_wd [of "cx_uuid c" w "outbox_row c (cx_uuid c (wd_next w)) v"]
  by (simp add: notifyJobTerminal_eq)

lemma put_job_old_wd:
  "wd_wf uuid w \<Longrightarrow> job_at w i = Some j \<Longrightarrow> same_request j j' \<Longrightarrow> wd_wf uuid (put_job j' w)"
  using wd_wfD(3) [of uuid w i j] job_at_id [of uuid w i j]
  by (auto intro!: put_job_wd dest: same_request_id)

lemma attempted_simps [simp]:
  "wID (attempted c e r) = wID e" "wJobID (attempted c e r) = wJobID e"
  "wUserID (attempted c e r) = wUserID e" "wEvent (attempted c e r) = wEvent e"
  "wPayload (attempted c e r) = wPayload e" "wAttempts (attempted c e r) = wAttempts e + 1"
  "wCreatedAt (attempted c e r) = wCreatedAt e"
  by (simp_all add: attempted_def Let_def case_prod_unfold)

lemma requeued_simps [simp]:
  "wID (requeued c e) = wID e" "wJobID (requeued c e) = wJobID e"
  "wUserID (requeued c e) = wUserID e" "wEvent (requeued c e) = wEvent e"
  "wPayload (requeued c e) = wPayload e" "wCreatedAt (requeued c e) = wCreatedAt e"
  by (simp_all add: requeued_def)

lemma prim_wd:
  assumes "prim c w w'" "wd_wf (cx_uuid c) w"
  shows "wd_wf (cx_uuid c) w'"
  using assms
proof (induction rule: prim.induct)
  case (p_create ci labels w u)
  then show ?case by (intro put_job_next_wd) (simp_all add: new_job_def)
next
  case (p_finish w i j j')
  then show ?case by (intro notify_wd put_job_old_wd terminal_of_facts(1))
next
  case (p_purge w t l)
  then show ?case
    using store_PurgeTerminalJobs_wf [of "wd_mem w" t l] purge_sub [of w t l] purge_hook_sub [of w t l]
    by (simp add: wd_wf_def)
next
  case (p_hook_purge w t l)
  then show ?case
    using PurgeWebhookOutbox_wf [of "wd_mem w" t l] hook_purge_sub [of w t l]
    by (simp add: wd_wf_def)
next
  case (p_attempt w i e r)
  then show ?case using wd_wfD(4) hook_at_id by (intro put_hook_wd) auto
next
  case (p_requeue w i e)
  then show ?case using wd_wfD(4) hook_at_id by (intro put_hook_wd) auto
qed (auto intro: put_job_old_wd)

section \<open>The life of a job\<close>

text \<open>How a stored job may change in any number of steps: its request never, its attempt count
  upwards, and nothing at all once it is terminal.\<close>

definition evolves :: "job \<Rightarrow> job \<Rightarrow> bool" where
  "evolves j j' \<longleftrightarrow> same_request j j' \<and> jAttemptCount j \<le> jAttemptCount j' \<and>
     (is_terminal (jStatus j) \<longrightarrow> j' = j)"

lemma evolves_refl [simp]: "evolves j j"
  by (simp add: evolves_def)

lemma evolves_trans: "evolves j k \<Longrightarrow> evolves k l \<Longrightarrow> evolves j l"
  unfolding evolves_def using same_request_trans [of j k l] by auto

lemma claimed_attempts [simp]: "jAttemptCount (claimed now a r j) = jAttemptCount j + 1"
  by (simp add: claimed_def)

lemma not_terminal_simps [simp]: "\<not> is_terminal ''running''" "\<not> is_terminal ''pending''" "\<not> is_terminal ''dispatched''"
  by (simp_all add: is_terminal_def)

lemma queued_not_terminal: "is_queued j \<Longrightarrow> \<not> is_terminal (jStatus j)"
  by (auto simp: is_queued_def)

lemma evolves_terminal: "\<not> is_terminal (jStatus j) \<Longrightarrow> terminal_of c j j' \<Longrightarrow> evolves j j'"
  by (simp add: evolves_def terminal_of_facts)

lemma notify_jobs [simp]: "m_jobs (wd_mem (notifyJobTerminal c w v)) = m_jobs (wd_mem w)"
  by (simp add: notifyJobTerminal_def EnqueueWebhookOutbox_def Let_def split: sum.split option.split)

lemma prim_job:
  assumes "prim c w w'" "wd_wf (cx_uuid c) w" "job_at w i = Some j"
  shows "case job_at w' i of None \<Rightarrow> is_terminal (jStatus j) | Some j' \<Rightarrow> evolves j j'"
  using assms
proof (induction rule: prim.induct)
  case (p_create ci labels w u)
  then have "i \<noteq> cx_uuid c (wd_next w)" using wd_wfD(5) by force
  with p_create show ?case by (simp add: new_job_def)
next
  case (p_claim w k j0 a r)
  then have "jID j0 = k" by (auto dest: job_at_id)
  with p_claim show ?case by (auto simp: evolves_def queued_not_terminal)
next
  case (p_beat w k j0)
  then have "jID j0 = k" by (auto dest: job_at_id)
  with p_beat show ?case by (auto simp: evolves_def)
next
  case (p_release w k j0 reason)
  then have "jID (released_job c reason j0) = k"
    using same_request_id [OF released_job_simps(1)] by (auto dest: job_at_id)
  with p_release show ?case by (auto simp: evolves_def)
next
  case (p_finish w k j0 j')
  then have "jID j' = k" by (auto dest: job_at_id simp: terminal_of_id)
  with p_finish show ?case by (auto simp: evolves_terminal)
next
  case (p_purge w t l)
  then have wf: "store_wf (wd_mem w)" by (rule_tac wd_wfD(2))
  show ?case
  proof (cases "i \<in> fst ` set (purge_candidates (wd_mem w) t l)")
    case True
    then obtain at where "(i, at) \<in> set (purge_candidates (wd_mem w) t l)" by force
    from purge_candidates_spec(1) [OF wf this] True p_purge.prems(2) show ?thesis
      by (simp add: purge_jobs [OF wf] purgeable_def)
  next
    case False
    with p_purge.prems(2) show ?thesis by (simp add: purge_jobs [OF wf])
  qed
qed simp_all

text \<open>Only the retention removes a job, and a terminal job it keeps is unchanged.\<close>

abbreviation prims :: "ctx \<Rightarrow> world \<Rightarrow> world \<Rightarrow> bool" where
  "prims c \<equiv> (prim c)\<^sup>*\<^sup>*"

lemma prims_wd: "prims c w w' \<Longrightarrow> wd_wf (cx_uuid c) w \<Longrightarrow> wd_wf (cx_uuid c) w'"
  by (induction rule: rtranclp_induct) (auto dest: prim_wd)

section \<open>Invariants of the job table\<close>

definition job_ok :: "job \<Rightarrow> bool" where
  "job_ok j \<longleftrightarrow>
     jStatus j \<in> {''pending'', ''running'', ''succeeded'', ''failed'', ''cancelled''} \<and>
     (jStatus j = ''running'' \<longrightarrow> jClaimedAt j \<noteq> 0 \<and> jHeartbeatAt j \<noteq> 0 \<and> 1 \<le> jAttemptCount j) \<and>
     (jStatus j \<noteq> ''running'' \<longrightarrow> jClaimedAt j = 0 \<and> jHeartbeatAt j = 0) \<and>
     (jStatus j = ''pending'' \<longrightarrow> jClaimedByAgentID j = [] \<and> jClaimedByRunnerID j = []) \<and>
     0 \<le> jAttemptCount j \<and>
     int (length (jStdout j)) \<le> HardMaxJobOutput \<and> int (length (jStderr j)) \<le> HardMaxJobOutput"

definition request_ok :: "job \<Rightarrow> bool" where
  "request_ok j \<longleftrightarrow>
     trim_space (jDriveID j) \<noteq> [] \<and> jCommand j \<noteq> [] \<and> jMode j \<noteq> [] \<and>
     -1000 \<le> jPriority j \<and> jPriority j \<le> 1000 \<and> 0 \<le> jTimeoutSec j \<and> 0 \<le> jMaxAttempts j \<and>
     length (jIdempotencyKey j) \<le> 128 \<and> trim_space (jIdempotencyKey j) = jIdempotencyKey j \<and>
     gwf (jLabels j) \<and> length (jLabels j) \<le> 16 \<and> (\<forall>kv \<in> set (jLabels j). label_ok kv) \<and>
     jCreatedAt j \<noteq> 0"

lemma request_ok_same: "request_ok j \<Longrightarrow> same_request j j' \<Longrightarrow> request_ok j'"
  by (simp add: request_ok_def same_request_def)

lemma capTail_HardMax: "capTailFlag s (jobOutputMax env) = (t, b) \<Longrightarrow> int (length t) \<le> HardMaxJobOutput"
  using capTailFlag_spec(2) [of s "jobOutputMax env" t b] jobOutputMax_range [of env] by auto

lemma completed_job_out:
  "jStdout (completed_job c ci j) =
     (if coStdout ci \<noteq> [] \<or> coStdoutTruncated ci
      then fst (capTailFlag (coStdout ci) (jobOutputMax (cx_env c))) else jStdout j)"
  "jStderr (completed_job c ci j) =
     (if coStderr ci \<noteq> [] \<or> coStderrTruncated ci
      then fst (capTailFlag (coStderr ci) (jobOutputMax (cx_env c))) else jStderr j)"
  "jNote (completed_job c ci j) =
     (if trim_space (coNote ci) \<noteq> [] then appendJobNote (jNote j) (trim_space (coNote ci)) else jNote j)"
  by (simp_all add: completed_job_def Let_def case_prod_unfold split: option.split)

lemma terminal_of_ok:
  assumes "terminal_of c j j'" "job_ok j"
  shows "job_ok j'"
proof -
  consider code why where "j' = failed_job c code why j" | ci where "j' = completed_job c ci j"
    | nt where "j' = cancelled_job c nt j"
    using assms(1) by (auto simp: terminal_of_def)
  then show ?thesis
  proof cases
    case 1
    with assms(2) show ?thesis by (simp add: job_ok_def failed_job_def)
  next
    case 2
    have "int (length (fst (capTailFlag s (jobOutputMax (cx_env c))))) \<le> HardMaxJobOutput" for s
      by (rule capTail_HardMax [where env = "cx_env c"]) (simp add: prod_eq_iff)
    with 2 assms(2) show ?thesis by (simp add: job_ok_def completed_job_out)
  next
    case 3
    with assms(2) show ?thesis by (simp add: job_ok_def cancelled_job_def Let_def)
  qed
qed

lemma new_job_ok:
  assumes "cx_now c \<noteq> 0" "input_ok ci" "encodeJobLabels (ciLabels ci) = Inr labels"
  shows "job_ok (new_job c i u ci labels)" and "request_ok (new_job c i u ci labels)"
  using assms encodeJobLabels_ok [OF assms(3)]
  by (auto simp: job_ok_def request_ok_def new_job_def input_ok_def clamp_priority_def
      HardMaxJobOutput_def Let_def)

lemma prim_job_ok:
  assumes "prim c w w'" "wd_wf (cx_uuid c) w" "cx_now c \<noteq> 0"
    and "\<And>i j. job_at w i = Some j \<Longrightarrow> job_ok j \<and> request_ok j" "job_at w' i = Some j"
  shows "job_ok j \<and> request_ok j"
  using assms
proof (induction rule: prim.induct)
  case (p_create ci labels w u)
  then show ?case using new_job_ok [of c ci labels] by (auto split: if_splits)
next
  case (p_claim w k j0 a r)
  from p_claim.prems(3) [OF p_claim.hyps(1)] have "job_ok (claimed (cx_now c) a r j0)"
    using p_claim.prems(2) by (auto simp: job_ok_def claimed_def)
  with p_claim show ?case
    using request_ok_same [OF _ claimed_request] by (auto split: if_splits)
next
  case (p_beat w k j0)
  let ?j = "j0\<lparr>jHeartbeatAt := cx_now c, jUpdatedAt := cx_now c\<rparr>"
  from p_beat.prems(3) [OF p_beat.hyps(1)] have "job_ok ?j" "request_ok ?j"
    using p_beat.prems(2) p_beat.hyps(2) request_ok_same [OF _ beat_request] by (auto simp: job_ok_def)
  with p_beat show ?case by (auto split: if_splits)
next
  case (p_release w k j0 reason)
  from p_release.prems(3) [OF p_release.hyps(1)]
  have "job_ok (released_job c reason j0)" "request_ok (released_job c reason j0)"
    using request_ok_same [OF _ released_job_simps(1)] by (auto simp: job_ok_def released_job_def)
  with p_release show ?case by (auto split: if_splits)
next
  case (p_finish w k j0 j')
  from p_finish.prems(3) [OF p_finish.hyps(1)] have "job_ok j'" "request_ok j'"
    using terminal_of_ok [OF p_finish.hyps(3)] request_ok_same terminal_of_facts(1) [OF p_finish.hyps(3)]
    by blast+
  with p_finish show ?case by (auto split: if_splits)
next
  case (p_purge w t l)
  then show ?case using purge_sub [of w t l i j] by blast
qed simp_all

text \<open>A note never outgrows its cap: one within it stays within it, whatever is appended.\<close>

lemma prim_note:
  assumes "prim c w w'" "wd_wf (cx_uuid c) w" "job_at w i = Some j" "length (jNote j) \<le> 2000"
    and "job_at w' i = Some j'"
  shows "length (jNote j') \<le> 2000"
  using assms
proof (induction rule: prim.induct)
  case (p_create ci labels w u)
  then have "i \<noteq> cx_uuid c (wd_next w)" using wd_wfD(5) by force
  with p_create show ?case by (simp add: new_job_def)
next
  case (p_claim w k j0 a r)
  then have "jID j0 = k" by (auto dest: job_at_id)
  with p_claim show ?case by (auto simp: claimed_def split: if_splits)
next
  case (p_beat w k j0)
  then have "jID j0 = k" by (auto dest: job_at_id)
  with p_beat show ?case by (auto split: if_splits)
next
  case (p_release w k j0 reason)
  then have "jID (released_job c reason j0) = k"
    using same_request_id [OF released_job_simps(1)] by (auto dest: job_at_id)
  with p_release show ?case
    by (auto simp: released_job_def release_note_length split: if_splits)
next
  case (p_finish w k j0 j1)
  then have "jID j1 = k" by (auto dest: job_at_id simp: terminal_of_id)
  moreover have "length (jNote j0) \<le> 2000 \<Longrightarrow> length (jNote j1) \<le> 2000"
    using p_finish.hyps(3)
    by (auto simp: terminal_of_def failed_job_def cancelled_job_def completed_job_out Let_def appendJobNote_length)
  ultimately show ?case using p_finish by (auto split: if_splits)
next
  case (p_purge w t l)
  then show ?case using purge_sub [of w t l i j'] by auto
qed simp_all

section \<open>Invariants of the outbox\<close>

text \<open>Every row of the outbox reports the final state of a job that the store still holds; its
  delivery state is consistent; and no two rows report the same job.\<close>

definition hook_ok :: "webhook_outbox \<Rightarrow> bool" where
  "hook_ok e \<longleftrightarrow>
     wStatus e \<in> {''pending'', ''delivered'', ''dead''} \<and>
     0 \<le> wAttempts e \<and> wAttempts e \<le> 32 \<and> length (wLastError e) \<le> 500 \<and>
     (wStatus e = ''pending'' \<longrightarrow> wAttempts e \<le> 31) \<and>
     (wStatus e \<noteq> ''pending'' \<longrightarrow> 1 \<le> wAttempts e) \<and>
     (wStatus e = ''delivered'' \<longleftrightarrow> wDeliveredAt e \<noteq> 0)"

definition reports :: "webhook_outbox \<Rightarrow> job \<Rightarrow> bool" where
  "reports e j \<longleftrightarrow>
     is_terminal (jStatus j) \<and> evJob (wPayload e) = jobFromStore j \<and> wUserID e = jUserID j \<and>
     wEvent e = event_name (jStatus j) \<and> evEventID (wPayload e) = wID e"

definition hooks_ok :: "world \<Rightarrow> bool" where
  "hooks_ok w \<longleftrightarrow>
     (\<forall>i e. hook_at w i = Some e \<longrightarrow>
        hook_ok e \<and> (\<exists>j. job_at w (wJobID e) = Some j \<and> reports e j)) \<and>
     (\<forall>i k e f. hook_at w i = Some e \<longrightarrow> hook_at w k = Some f \<longrightarrow> wJobID e = wJobID f \<longrightarrow> i = k)"

lemma hooks_okD:
  assumes "hooks_ok w" "hook_at w i = Some e"
  shows "hook_ok e" and "\<exists>j. job_at w (wJobID e) = Some j \<and> reports e j"
    and "hook_at w k = Some f \<Longrightarrow> wJobID e = wJobID f \<Longrightarrow> i = k"
  using assms unfolding hooks_ok_def by blast+

lemma attempted_ok:
  assumes "hook_ok e" "wStatus e = ''pending''" "cx_now c \<noteq> 0"
  shows "hook_ok (attempted c e r)"
  using assms jobWebhookMaxAttempts_range [of "cx_env c"]
  by (cases r) (auto simp: hook_ok_def attempted_def Let_def)

lemma requeued_ok: "hook_ok e \<Longrightarrow> hook_ok (requeued c e)"
  by (auto simp: hook_ok_def requeued_def)

lemma outbox_row_ok: "hook_ok (outbox_row c i v)"
  by (simp add: hook_ok_def outbox_row_def)

lemma reports_cong:
  "reports e j \<Longrightarrow> wPayload e' = wPayload e \<Longrightarrow> wUserID e' = wUserID e \<Longrightarrow> wEvent e' = wEvent e \<Longrightarrow>
   wID e' = wID e \<Longrightarrow> reports e' j"
  by (simp add: reports_def)

lemma reports_row: "is_terminal (jStatus j) \<Longrightarrow> reports (outbox_row c i (jobFromStore j)) j"
  by (simp add: reports_def jobFromStore_def)

text \<open>A step that leaves the outbox alone and rewrites a job that is not terminal keeps it.\<close>

lemma hooks_ok_put_job:
  assumes "hooks_ok w" "wd_wf uuid w" "\<And>j0. job_at w (jID j) = Some j0 \<Longrightarrow> \<not> is_terminal (jStatus j0)"
  shows "hooks_ok (put_job j w)"
proof -
  have "wJobID e \<noteq> jID j" if "hook_at w k = Some e" for k e
    using hooks_okD(2) [OF assms(1) that] assms(3) by (auto simp: reports_def)
  with assms(1) show ?thesis unfolding hooks_ok_def by simp
qed

lemma hooks_ok_put_hook:
  assumes "hooks_ok w" "wd_wf uuid w" "hook_at w i = Some e" "hook_ok e'"
    and "wPayload e' = wPayload e" "wUserID e' = wUserID e" "wEvent e' = wEvent e" "wID e' = wID e"
    and "wJobID e' = wJobID e"
  shows "hooks_ok (put_hook e' w)"
proof -
  have i: "wID e' = i" using hook_at_id [OF assms(2,3)] assms(8) by simp
  obtain j where "job_at w (wJobID e) = Some j" "reports e j" using hooks_okD(2) [OF assms(1,3)] by blast
  then have "job_at w (wJobID e') = Some j" "reports e' j"
    using assms(5-9) by (auto intro: reports_cong)
  with i assms(1,3,4,9) show ?thesis unfolding hooks_ok_def by (auto split: if_splits)
qed

lemma hooks_ok_next [simp]: "hooks_ok (w\<lparr>wd_next := n\<rparr>) = hooks_ok w"
  by (simp add: hooks_ok_def)

lemma no_hook_of_live:
  "hooks_ok w \<Longrightarrow> job_at w i = Some j \<Longrightarrow> \<not> is_terminal (jStatus j) \<Longrightarrow> hook_at w k = Some e \<Longrightarrow> wJobID e \<noteq> i"
  using hooks_okD(2) [of w k e] by (auto simp: reports_def)

lemma hooks_ok_finish:
  assumes ok: "hooks_ok w" and wf: "wd_wf (cx_uuid c) w"
    and j: "job_at w i = Some j" "\<not> is_terminal (jStatus j)" "terminal_of c j j'"
  shows "hooks_ok (notifyJobTerminal c (put_job j' w) (jobFromStore j'))"
proof -
  let ?w = "put_job j' w"
  have i: "jID j' = i" using job_at_id [OF wf j(1)] terminal_of_id [OF j(3)] by simp
  have ok': "hooks_ok ?w" using j(1,2) i by (intro hooks_ok_put_job [OF ok wf]) auto
  have wf': "wd_wf (cx_uuid c) ?w" by (rule put_job_old_wd [OF wf j(1) terminal_of_facts(1) [OF j(3)]])
  let ?k = "cx_uuid c (wd_next ?w)" and ?e = "outbox_row c (cx_uuid c (wd_next ?w)) (jobFromStore j')"
  have none: "hook_at ?w ?k = None" by (rule wd_wfD(6) [OF wf'])
  have rep: "job_at ?w (wJobID ?e) = Some j'" "reports ?e j'"
    using reports_row [OF terminal_of_facts(2) [OF j(3)]] by (simp_all add: jobFromStore_def)
  have jid: "wJobID ?e = i" using i by (simp add: jobFromStore_def)
  have nohook: "wJobID f \<noteq> i" if "hook_at w k = Some f" for k f
    using no_hook_of_live [OF ok j(1,2) that] .
  have "hooks_ok (put_hook ?e ?w)"
    using ok' rep outbox_row_ok [of c ?k "jobFromStore j'"] none jid unfolding hooks_ok_def
    by (auto split: if_splits dest: nohook)
  then show ?thesis using ok' by (simp add: notifyJobTerminal_eq [OF wf'])
qed

lemma prim_hooks_ok:
  assumes "prim c w w'" "wd_wf (cx_uuid c) w" "cx_now c \<noteq> 0" "hooks_ok w"
  shows "hooks_ok w'"
  using assms
proof (induction rule: prim.induct)
  case (p_create ci labels w u)
  have "job_at w (cx_uuid c (wd_next w)) = None" by (rule wd_wfD(5) [OF p_create.prems(1)])
  then have "hooks_ok (put_job (new_job c (cx_uuid c (wd_next w)) u ci labels) w)"
    by (intro hooks_ok_put_job [OF p_create.prems(3,1)]) (simp add: new_job_def)
  then show ?case by simp
next
  case (p_claim w i j a r)
  then show ?case
    using job_at_id [of _ w i j] by (intro hooks_ok_put_job) (auto simp: queued_not_terminal)
next
  case (p_beat w i j)
  then show ?case using job_at_id [of _ w i j] by (intro hooks_ok_put_job) auto
next
  case (p_release w i j reason)
  have "jID (released_job c reason j) = i"
    using same_request_id [OF released_job_simps(1)] job_at_id [OF p_release.prems(1) p_release.hyps(1)] by simp
  with p_release show ?case by (intro hooks_ok_put_job) auto
next
  case (p_finish w i j j')
  then show ?case by (intro hooks_ok_finish)
next
  case (p_purge w t l)
  then have wf: "store_wf (wd_mem w)" by (rule_tac wd_wfD(2))
  from p_purge.prems(3) show ?case unfolding hooks_ok_def
    by (simp add: purge_jobs [OF wf] purge_webhooks [OF wf] split: option.splits) (meson option.inject)
next
  case (p_attempt w i e r)
  then show ?case
    by (intro hooks_ok_put_hook [OF _ p_attempt.prems(1) p_attempt.hyps(1)] attempted_ok)
       (auto dest: hooks_okD(1))
next
  case (p_requeue w i e)
  then show ?case
    by (intro hooks_ok_put_hook [OF _ p_requeue.prems(1) p_requeue.hyps(1)] requeued_ok)
       (auto dest: hooks_okD(1))
next
  case (p_hook_purge w t l)
  then show ?case using hook_purge_sub [of w t l] unfolding hooks_ok_def by (simp) blast
qed

section \<open>Idempotency keys\<close>

definition idem_unique :: "world \<Rightarrow> bool" where
  "idem_unique w \<longleftrightarrow>
     (\<forall>i k j l. job_at w i = Some j \<longrightarrow> job_at w k = Some l \<longrightarrow> jUserID j = jUserID l \<longrightarrow>
        jIdempotencyKey j \<noteq> [] \<longrightarrow> jIdempotencyKey j = jIdempotencyKey l \<longrightarrow> i = k)"

lemma idem_unique_same:
  assumes "idem_unique w" "\<And>i j'. job_at w' i = Some j' \<Longrightarrow> \<exists>j. job_at w i = Some j \<and> same_request j j'"
  shows "idem_unique w'"
  unfolding idem_unique_def
proof (intro allI impI)
  fix i k j l
  assume a: "job_at w' i = Some j" "job_at w' k = Some l" "jUserID j = jUserID l"
    "jIdempotencyKey j \<noteq> []" "jIdempotencyKey j = jIdempotencyKey l"
  obtain j0 l0 where "job_at w i = Some j0" "same_request j0 j" "job_at w k = Some l0" "same_request l0 l"
    using assms(2) [OF a(1)] assms(2) [OF a(2)] by blast
  with a assms(1) show "i = k" unfolding idem_unique_def same_request_def by metis
qed

lemma put_job_same:
  assumes "wd_wf uuid w" "job_at w k = Some j0" "same_request j0 j1" "job_at (put_job j1 w) i = Some j'"
  shows "\<exists>j. job_at w i = Some j \<and> same_request j j'"
  using assms job_at_id [OF assms(1,2)] same_request_id [OF assms(3)] by (auto split: if_splits)

lemma prim_same:
  assumes "prim c w w'" "wd_wf (cx_uuid c) w" "job_at w' i = Some j'" "wd_next w = wd_next w' \<or> job_at w i \<noteq> None"
  shows "\<exists>j. job_at w i = Some j \<and> same_request j j'"
  using assms
proof (induction rule: prim.induct)
  case (p_create ci labels w u)
  have "i \<noteq> cx_uuid c (wd_next w)" using p_create.prems(3) wd_wfD(5) [OF p_create.prems(1)] by auto
  with p_create show ?case by (auto simp: new_job_def split: if_splits)
next
  case (p_finish w k j j1)
  then show ?case
    using put_job_same [OF p_finish.prems(1) p_finish.hyps(1) terminal_of_facts(1) [OF p_finish.hyps(3)]]
    by simp
next
  case (p_purge w t l)
  then show ?case using purge_sub [of w t l i j'] by (intro exI [of _ j']) simp
next
  case (p_claim w k j a r)
  show ?case by (rule put_job_same [OF p_claim.prems(1) p_claim.hyps(1) claimed_request p_claim.prems(2)])
next
  case (p_beat w k j)
  show ?case by (rule put_job_same [OF p_beat.prems(1) p_beat.hyps(1) beat_request p_beat.prems(2)])
next
  case (p_release w k j reason)
  show ?case
    by (rule put_job_same [OF p_release.prems(1) p_release.hyps(1) released_job_simps(1) p_release.prems(2)])
qed simp_all

lemma idem_check_free:
  assumes "store_wf (wd_mem w)" "idem_check (wd_mem w) u ci labels = None"
    and "trim_space (ciIdempotencyKey ci) \<noteq> []" "job_at w i = Some j" "jUserID j = u"
  shows "jIdempotencyKey j \<noteq> trim_space (ciIdempotencyKey ci)"
proof -
  have "j \<in> set (gvals (m_jobs (wd_mem w)))"
    using gvals_gget [OF keyed_gwf [OF store_wfD(6) [OF assms(1)]]] assms(4) by blast
  moreover have "find (\<lambda>j. jUserID j = u \<and> jIdempotencyKey j = trim_space (ciIdempotencyKey ci))
      (gvals (m_jobs (wd_mem w))) = None"
    using assms(2,3) by (simp add: idem_check_None)
  ultimately show ?thesis using assms(5) unfolding find_None_iff by blast
qed

lemma idem_unique_cong: "m_jobs (wd_mem w') = m_jobs (wd_mem w) \<Longrightarrow> idem_unique w' = idem_unique w"
  by (simp add: idem_unique_def)

lemma prim_idem_unique:
  assumes "prim c w w'" "wd_wf (cx_uuid c) w" "idem_unique w"
  shows "idem_unique w'"
  using assms(1)
proof cases
  case (p_create ci labels u)
  let ?j = "new_job c (cx_uuid c (wd_next w)) u ci labels"
  have free: "jIdempotencyKey j \<noteq> trim_space (ciIdempotencyKey ci)"
    if "job_at w i = Some j" "jUserID j = u" "trim_space (ciIdempotencyKey ci) \<noteq> []" for i j
    using idem_check_free [OF wd_wfD(2) [OF assms(2)] p_create(4) that(3,1,2)] .
  have "idem_unique (put_job ?j w)"
    unfolding idem_unique_def
  proof (intro allI impI)
    fix i k j l
    assume a: "job_at (put_job ?j w) i = Some j" "job_at (put_job ?j w) k = Some l" "jUserID j = jUserID l"
      "jIdempotencyKey j \<noteq> []" "jIdempotencyKey j = jIdempotencyKey l"
    let ?n = "cx_uuid c (wd_next w)"
    consider "i = ?n" "k = ?n" | "i = ?n" "k \<noteq> ?n" | "i \<noteq> ?n" "k = ?n" | "i \<noteq> ?n" "k \<noteq> ?n" by blast
    then show "i = k"
    proof cases
      case 2
      with a free [of k l] show ?thesis by auto
    next
      case 3
      with a free [of i j] show ?thesis by auto
    next
      case 4
      with a have "job_at w i = Some j" "job_at w k = Some l" by simp_all
      with a assms(3) show ?thesis unfolding idem_unique_def by blast
    qed simp
  qed
  then show ?thesis unfolding p_create(1) by (rule idem_unique_cong [THEN iffD2, rotated]) simp
next
  case (p_claim i j a r)
  then show ?thesis using assms prim_same [OF assms(1,2)] by (intro idem_unique_same [OF assms(3)]) simp
next
  case (p_beat i j)
  then show ?thesis using assms prim_same [OF assms(1,2)] by (intro idem_unique_same [OF assms(3)]) simp
next
  case (p_release i j reason)
  then show ?thesis using assms prim_same [OF assms(1,2)] by (intro idem_unique_same [OF assms(3)]) simp
next
  case (p_finish i j j')
  have "idem_unique (put_job j' w)"
    using put_job_same [OF assms(2) p_finish(2) terminal_of_facts(1) [OF p_finish(4)]]
    by (intro idem_unique_same [OF assms(3)])
  then show ?thesis unfolding p_finish(1) by (rule idem_unique_cong [THEN iffD2, rotated]) simp
next
  case (p_purge t l)
  then show ?thesis using assms prim_same [OF assms(1,2)] by (intro idem_unique_same [OF assms(3)]) simp
next
  case (p_attempt i e r)
  show ?thesis unfolding p_attempt(1) using assms(3) by (rule idem_unique_cong [THEN iffD2, rotated]) simp
next
  case (p_requeue i e)
  show ?thesis unfolding p_requeue(1) using assms(3) by (rule idem_unique_cong [THEN iffD2, rotated]) simp
next
  case (p_hook_purge t l)
  show ?thesis unfolding p_hook_purge(1) using assms(3) by (rule idem_unique_cong [THEN iffD2, rotated]) simp
qed

section \<open>The invariant of the service\<close>

definition svc_inv :: "(nat \<Rightarrow> string) \<Rightarrow> world \<Rightarrow> bool" where
  "svc_inv uuid w \<longleftrightarrow>
     wd_wf uuid w \<and> (\<forall>i j. job_at w i = Some j \<longrightarrow> job_ok j \<and> request_ok j) \<and> hooks_ok w \<and> idem_unique w"

lemma prim_inv: "prim c w w' \<Longrightarrow> svc_inv (cx_uuid c) w \<Longrightarrow> cx_now c \<noteq> 0 \<Longrightarrow> svc_inv (cx_uuid c) w'"
  unfolding svc_inv_def using prim_wd prim_job_ok prim_hooks_ok prim_idem_unique by (metis (no_types))

lemma prims_inv: "prims c w w' \<Longrightarrow> svc_inv (cx_uuid c) w \<Longrightarrow> cx_now c \<noteq> 0 \<Longrightarrow> svc_inv (cx_uuid c) w'"
  by (induction rule: rtranclp_induct) (auto intro: prim_inv)

definition world0 :: world where
  "world0 = \<lparr>wd_mem = NewMemory, wd_next = 0\<rparr>"

lemma svc_inv_world0: "uuid_ok uuid \<Longrightarrow> svc_inv uuid world0"
  by (simp add: svc_inv_def world0_def wd_wf_def store_wf_NewMemory hooks_ok_def idem_unique_def)
     (simp add: NewMemory_def)

end
