(* ===== verification/Job_Refinement.thy ===== *)
theory Job_Refinement
  imports Job_Machine
begin

text \<open>
  Every call of the job service refines the state machine of theory \<open>Job_Machine\<close>: from a
  well-formed world it runs a sequence of its steps. The last section collects the calls in one
  step relation and transfers the invariants to every reachable world.
\<close>

section \<open>Calls as sequences of steps\<close>

lemma UpdateJob_put:
  assumes "wd_wf uuid w" "GetJob (wd_mem w) u i = Inr sj" "same_request sj sj'"
  shows "UpdateJob (wd_mem w) sj' = Inr (wd_mem (put_job sj' w))"
proof -
  have at: "job_at w i = Some sj" "jUserID sj = u" using assms(2) by (simp_all add: jobs.get_iff)
  with assms(1,3) have "jID sj' = i" "jUserID sj' = u"
    by (auto dest: same_request_id job_at_id)
  with at show ?thesis by (simp add: UpdateJob_def put_job_def)
qed

lemma world_put [simp]: "w\<lparr>wd_mem := wd_mem (put_job j w)\<rparr> = put_job j w"
  by (simp add: put_job_def)

lemma GetJob_at: "GetJob (wd_mem w) u i = Inr sj \<Longrightarrow> job_at w i = Some sj"
  by (simp add: jobs.get_iff)

lemma finish_job_eq:
  assumes "wd_wf (cx_uuid c) w" "GetJob (wd_mem w) u i = Inr sj" "same_request sj sj'"
  shows "finish_job c w sj' = (notifyJobTerminal c (put_job sj' w) (jobFromStore sj'), Inr (jobFromStore sj'))"
  by (simp add: finish_job_def UpdateJob_put [OF assms] Let_def)

lemma finish_job_prim:
  assumes "wd_wf (cx_uuid c) w" "GetJob (wd_mem w) u i = Inr sj" "\<not> is_terminal (jStatus sj)" "terminal_of c sj sj'"
  shows "prim c w (fst (finish_job c w sj'))"
  using p_finish [OF GetJob_at [OF assms(2)] assms(3,4)]
  by (simp add: finish_job_eq [OF assms(1,2) terminal_of_facts(1) [OF assms(4)]])

lemma claim_prim:
  assumes "wd_wf (cx_uuid c) w" "ClaimPendingJob (cx_now c) (wd_mem w) u i a r = Inr (m', j')"
  shows "prim c w (w\<lparr>wd_mem := m'\<rparr>)"
proof -
  from assms(2) obtain j where j: "GetJob (wd_mem w) u i = Inr j" "is_queued j" "j' = claimed (cx_now c) a r j"
    "m' = (wd_mem w)\<lparr>m_jobs := gset i j' (m_jobs (wd_mem w))\<rparr>"
    by (auto simp: ClaimPendingJob_iff)
  have "jID j = i" using job_at_id [OF assms(1) GetJob_at [OF j(1)]] .
  with j have "w\<lparr>wd_mem := m'\<rparr> = put_job (claimed (cx_now c) a r j) w" by (simp add: put_job_def)
  with p_claim [OF GetJob_at [OF j(1)] j(2)] show ?thesis by simp
qed

lemma Create_prims: "prims c w (fst (Create c w u ci))" if "wd_wf (cx_uuid c) w"
proof (cases "Create c w u ci")
  case (Pair w' r)
  show ?thesis
  proof (cases "\<exists>v. r = Inr (v, True)")
    case True
    then obtain v where "Create c w u ci = (w', Inr (v, True))" using Pair by blast
    then obtain labels where l: "input_ok ci" "encodeJobLabels (ciLabels ci) = Inr labels"
      "idem_check (wd_mem w) u ci labels = None"
      and w': "w' = (put_job (new_job c (cx_uuid c (wd_next w)) u ci labels) w)\<lparr>wd_next := wd_next w + 1\<rparr>"
      unfolding Create_new_eq by (cases w) (auto simp: input_ok_def put_job_def)
    from p_create [OF l] show ?thesis unfolding Pair fst_conv w' by (rule r_into_rtranclp)
  next
    case False
    with Pair have "w' = w"
      by (auto simp: Create_def CreateJob_def Let_def split: if_splits sum.splits option.splits)
    with Pair show ?thesis by simp
  qed
qed

lemma Heartbeat_prims:
  assumes "wd_wf (cx_uuid c) w"
  shows "prims c w (fst (Heartbeat c w u i))"
proof (cases "GetJob (wd_mem w) u i")
  case (Inl e)
  then show ?thesis by (simp add: Heartbeat_def)
next
  case (Inr sj)
  then show ?thesis
    using p_beat [OF GetJob_at [OF Inr]] UpdateJob_put [OF assms Inr beat_request]
    by (auto simp: Heartbeat_def Let_def)
qed

lemma ReleaseToPending_prims:
  assumes "wd_wf (cx_uuid c) w"
  shows "prims c w (fst (ReleaseToPending c w u i reason))"
proof (cases "GetJob (wd_mem w) u i")
  case (Inl e)
  then show ?thesis by (simp add: ReleaseToPending_def)
next
  case (Inr sj)
  then show ?thesis
    using p_release [OF GetJob_at [OF Inr]] UpdateJob_put [OF assms Inr released_job_simps(1)]
    by (auto simp: ReleaseToPending_def Let_def)
qed

lemma failTimeout_prims:
  assumes "wd_wf (cx_uuid c) w"
  shows "prims c w (fst (failTimeout c w u i sec))"
proof (cases "GetJob (wd_mem w) u i")
  case (Inl e)
  then show ?thesis by (simp add: failTimeout_def)
next
  case (Inr sj)
  show ?thesis
  proof (cases "jStatus sj = ''running''")
    case True
    then have "terminal_of c sj (failed_job c 124 (''timeout after '' @ show_int sec @ ''s'') sj)"
      by (auto simp: terminal_of_def)
    from finish_job_prim [OF assms Inr _ this] True Inr show ?thesis
      by (simp add: failTimeout_def r_into_rtranclp)
  qed (simp add: failTimeout_def Inr)
qed

lemma failMaxAttempts_prims:
  assumes "wd_wf (cx_uuid c) w"
  shows "prims c w (fst (failMaxAttempts c w u i n k))"
proof (cases "GetJob (wd_mem w) u i")
  case (Inl e)
  then show ?thesis by (simp add: failMaxAttempts_def)
next
  case (Inr sj)
  show ?thesis
  proof (cases "jStatus sj = ''running''")
    case True
    then have "terminal_of c sj (failed_job c 1 (''max attempts exceeded ('' @ show_int n @ ''/'' @ show_int k @
                     '') after lease expired'') sj)"
      by (auto simp: terminal_of_def)
    from finish_job_prim [OF assms Inr _ this] True Inr show ?thesis
      by (simp add: failMaxAttempts_def r_into_rtranclp)
  qed (simp add: failMaxAttempts_def Inr)
qed

lemma Complete_prims:
  assumes "wd_wf (cx_uuid c) w"
  shows "prims c w (fst (Complete c w u i ci))"
proof (cases "GetJob (wd_mem w) u i")
  case (Inl e)
  then show ?thesis by (simp add: Complete_def)
next
  case (Inr sj)
  have "terminal_of c sj (completed_job c ci sj)" by (auto simp: terminal_of_def)
  from finish_job_prim [OF assms Inr _ this] Inr show ?thesis
    by (simp add: Complete_def r_into_rtranclp)
qed

lemma cancelStoreJob_prims:
  assumes "wd_wf (cx_uuid c) w" "job_at w (jID sj) = Some sj"
  shows "prims c w (fst (cancelStoreJob c w sj nt))"
proof -
  have g: "GetJob (wd_mem w) (jUserID sj) (jID sj) = Inr sj" using assms(2) by (simp add: jobs.get_iff)
  have "terminal_of c sj (cancelled_job c nt sj)" by (auto simp: terminal_of_def)
  from finish_job_prim [OF assms(1) g _ this] show ?thesis
    by (simp add: cancelStoreJob_def is_terminal_def r_into_rtranclp)
qed

lemma Cancel_prims: "wd_wf (cx_uuid c) w \<Longrightarrow> prims c w (fst (Cancel c w u i))"
  by (auto simp: Cancel_def jobs.get_iff job_at_id intro!: cancelStoreJob_prims split: sum.split)

lemma GetJobByID_at: "GetJobByID m i = Inr sj \<longleftrightarrow> gget (m_jobs m) i = Some sj"
  by (simp add: GetJobByID_def split: option.split)

lemma AdminCancel_prims: "wd_wf (cx_uuid c) w \<Longrightarrow> prims c w (fst (AdminCancel c w i nt))"
  by (auto simp: AdminCancel_def GetJobByID_at job_at_id intro!: cancelStoreJob_prims split: sum.split)

lemma AdminRelease_prims: "wd_wf (cx_uuid c) w \<Longrightarrow> prims c w (fst (AdminRelease c w i reason))"
  by (auto simp: AdminRelease_def Let_def intro!: ReleaseToPending_prims split: sum.split)

lemma AdminComplete_prims: "wd_wf (cx_uuid c) w \<Longrightarrow> prims c w (fst (AdminComplete c w i ci))"
  by (auto simp: AdminComplete_def Let_def intro!: Complete_prims split: sum.split)

section \<open>Folds over a listing\<close>

lemma fold_prims:
  assumes "wd_wf (cx_uuid c) w"
    and "\<And>x w n. wd_wf (cx_uuid c) w \<Longrightarrow> prims c w (fst (f x (w, n)))"
  shows "prims c w (fst (fold f xs (w, n)))"
  using assms(1)
proof (induction xs arbitrary: w n)
  case Nil
  then show ?case by simp
next
  case (Cons x xs)
  have step: "prims c w (fst (f x (w, n)))" by (rule assms(2) [OF Cons.prems])
  from Cons.IH [OF prims_wd [OF step Cons.prems], of "snd (f x (w, n))"]
  have "prims c (fst (f x (w, n))) (fst (fold f (x # xs) (w, n)))" by simp
  with step show ?case by (rule rtranclp_trans)
qed

lemma reclaim_step_prims:
  "wd_wf (cx_uuid c) w \<Longrightarrow> prims c w (fst (reclaim_step c u ts sj (w, n)))"
  by (simp add: reclaim_step_def count_ok_def failTimeout_prims failMaxAttempts_prims ReleaseToPending_prims)

lemma ReclaimStale_prims: "wd_wf (cx_uuid c) w \<Longrightarrow> prims c w (fst (ReclaimStale c w u))"
  unfolding ReclaimStale_def by (rule fold_prims) (auto intro: reclaim_step_prims)

lemma ReclaimStaleAll_prims: "wd_wf (cx_uuid c) w \<Longrightarrow> prims c w (fst (ReclaimStaleAll c w))"
  unfolding ReclaimStaleAll_def by (rule fold_prims) (auto intro: reclaim_step_prims)

section \<open>Claims\<close>

lemma claim_first_prim:
  assumes "wd_wf (cx_uuid c) w" "claim_first c (wd_mem w) u a r region js = Some (m', j)"
  shows "prim c w (w\<lparr>wd_mem := m'\<rparr>)"
  using assms(2)
  by (induction js) (auto split: if_splits sum.splits intro: claim_prim [OF assms(1)])

lemma ClaimNext_prims:
  assumes "wd_wf (cx_uuid c) w"
  shows "prims c w (fst (ClaimNext c w u a r region))"
proof -
  let ?w = "fst (ReclaimStale c w u)"
  have p: "prims c w ?w" by (rule ReclaimStale_prims [OF assms])
  have wf: "wd_wf (cx_uuid c) ?w" by (rule prims_wd [OF p assms])
  have "prims c ?w (fst (ClaimNext c w u a r region))"
    by (auto simp: ClaimNext_def Let_def dest: claim_first_prim [OF wf] split: option.split)
  with p show ?thesis by (rule rtranclp_trans)
qed

lemma Claim_prims:
  assumes "wd_wf (cx_uuid c) w"
  shows "prims c w (fst (Claim c w u i a r))"
proof -
  let ?w = "fst (ReclaimStale c w u)"
  have p: "prims c w ?w" by (rule ReclaimStale_prims [OF assms])
  have wf: "wd_wf (cx_uuid c) ?w" by (rule prims_wd [OF p assms])
  have "prims c ?w (fst (Claim c w u i a r))"
    by (auto simp: Claim_def Let_def dest: claim_prim [OF wf] split: sum.split)
  with p show ?thesis by (rule rtranclp_trans)
qed

lemma claim_filtered_prims:
  "wd_wf (cx_uuid c) w \<Longrightarrow> prims c w (fst (claim_filtered c w u a r region allow recheck deny skipped js))"
proof (induction js arbitrary: w deny skipped)
  case Nil
  then show ?case by simp
next
  case (Cons j js)
  show ?case
  proof (cases "ClaimPendingJob (cx_now c) (wd_mem w) u (jID j) a r")
    case (Inl e)
    with Cons show ?thesis by (cases "region = []") simp_all
  next
    case (Inr q)
    obtain m' cl where q: "q = (m', cl)" by (cases q)
    let ?w = "w\<lparr>wd_mem := m'\<rparr>"
    have p: "prims c w ?w" using claim_prim [OF Cons.prems] Inr q by blast
    have wf: "wd_wf (cx_uuid c) ?w" by (rule prims_wd [OF p Cons.prems])
    obtain w2 res where rel: "ReleaseToPending c ?w u (jID cl) (recheck (jDriveID cl)) = (w2, res)"
      by (cases "ReleaseToPending c ?w u (jID cl) (recheck (jDriveID cl))")
    have p2: "prims c w w2"
      using rtranclp_trans [OF p ReleaseToPending_prims [OF wf]] rel by (metis fst_conv)
    have "prims c w (fst (claim_filtered c w2 u a r region allow recheck d s js))" for d s
      using p2 Cons.IH [OF prims_wd [OF p2 Cons.prems]] by (rule rtranclp_trans)
    with Cons p p2 rel Inr q show ?thesis
      by (cases "region = []") (simp_all add: Let_def split: sum.split)
  qed
qed

lemma ClaimNextFiltered_prims:
  assumes "wd_wf (cx_uuid c) w"
  shows "prims c w (fst (ClaimNextFiltered c w u a r region policy))"
proof (cases policy)
  case None
  then show ?thesis by (simp add: ClaimNextFiltered_def ClaimNext_prims [OF assms])
next
  case (Some ar)
  let ?w = "fst (ReclaimStale c w u)"
  have p: "prims c w ?w" by (rule ReclaimStale_prims [OF assms])
  have wf: "wd_wf (cx_uuid c) ?w" by (rule prims_wd [OF p assms])
  have "prims c ?w (fst (ClaimNextFiltered c w u a r region policy))"
    using Some claim_filtered_prims [OF wf] by (cases ar) (simp add: ClaimNextFiltered_def Let_def)
  with p show ?thesis by (rule rtranclp_trans)
qed

section \<open>Cancelling in bulk\<close>

text \<open>The bulk cancel works on a snapshot of the listing; its rows are distinct, so the rows still
  to come are as the store has them.\<close>

lemma notify_job_at: "job_at (notifyJobTerminal c w v) i = job_at w i"
  by simp

lemma cancelStoreJob_other:
  assumes "job_at w (jID sj) = Some sj" "i \<noteq> jID sj" "wd_wf (cx_uuid c) w"
  shows "job_at (fst (cancelStoreJob c w sj nt)) i = job_at w i"
proof -
  have g: "GetJob (wd_mem w) (jUserID sj) (jID sj) = Inr sj" using assms(1) by (simp add: jobs.get_iff)
  have "jID (cancelled_job c nt sj) = jID sj"
    using same_request_id [OF cancelled_job_simps(1)] by blast
  with assms(2) show ?thesis
    by (simp add: cancelStoreJob_def finish_job_eq [OF assms(3) g cancelled_job_simps(1)])
qed

lemma cancel_each_prims:
  "wd_wf (cx_uuid c) w \<Longrightarrow> distinct (map jID js) \<Longrightarrow> \<forall>sj \<in> set js. job_at w (jID sj) = Some sj \<Longrightarrow>
   prims c w (fst (cancel_each c limit js (w, n)))"
proof (induction js arbitrary: w n)
  case Nil
  then show ?case by simp
next
  case (Cons sj js)
  obtain w' res where st: "cancelStoreJob c w sj ''admin cancel-all'' = (w', res)"
    by (cases "cancelStoreJob c w sj ''admin cancel-all''")
  have at: "job_at w (jID sj) = Some sj" using Cons.prems(3) by simp
  have p: "prims c w w'" using cancelStoreJob_prims [OF Cons.prems(1) at] st by (metis fst_conv)
  have "job_at w' (jID x) = Some x" if "x \<in> set js" for x
  proof -
    have "jID x \<in> jID ` set js" using that by (rule imageI)
    with Cons.prems(2) have "jID x \<noteq> jID sj" by auto
    from cancelStoreJob_other [OF at this Cons.prems(1)] st that Cons.prems(3) show ?thesis
      by (metis fst_conv list.set_intros(2))
  qed
  then have "prims c w' (fst (cancel_each c limit js (w', k)))" for k
    using Cons.IH [OF prims_wd [OF p Cons.prems(1)]] Cons.prems(2) by simp
  then have "prims c w (fst (cancel_each c limit js (w', k)))" for k
    using p rtranclp_trans by metis
  with p st show ?case by (auto split: sum.split)
qed

lemma ListJobsAdmin_in:
  assumes "store_wf (wd_mem w)" "sj \<in> set (ListJobsAdmin (wd_mem w) f)"
  shows "job_at w (jID sj) = Some sj" and "admin_job_matches f sj"
proof -
  have "sj \<in> set (exch_sort job_newer
          (filter (\<lambda>j. admin_job_matches f j \<and> past_cursor (ajCursorCreated f) (ajCursorID f) j)
             (gvals (m_jobs (wd_mem w)))))"
    using assms(2) unfolding ListJobsAdmin_def by (rule in_set_takeD)
  then have "sj \<in> snd ` set (m_jobs (wd_mem w))" "admin_job_matches f sj" by simp_all
  then show "job_at w (jID sj) = Some sj" "admin_job_matches f sj"
    using jobs_in [OF assms(1)] by simp_all
qed

lemma ListJobsAdmin_distinct:
  assumes "store_wf m"
  shows "distinct (map jID (ListJobsAdmin m f))"
proof -
  have "distinct (map jID (gvals (m_jobs m)))"
    unfolding keyed_map_f [OF store_wfD(6) [OF assms]] by (rule keyed_gwf [OF store_wfD(6) [OF assms]])
  then have "distinct (map jID (exch_sort job_newer
          (filter (\<lambda>j. admin_job_matches f j \<and> past_cursor (ajCursorCreated f) (ajCursorID f) j)
             (gvals (m_jobs m)))))"
    by (simp only: distinct_map_exch_sort distinct_map_filter)
  then show ?thesis unfolding ListJobsAdmin_def take_map [symmetric] by (rule distinct_take)
qed

lemma cancel_statuses_prims:
  "wd_wf (cx_uuid c) w \<Longrightarrow> prims c w (fst (cancel_statuses c limit u sts (w, n)))"
proof (induction sts arbitrary: w n)
  case Nil
  then show ?case by simp
next
  case (Cons st sts)
  have wf: "store_wf (wd_mem w)" by (rule wd_wfD(2) [OF Cons.prems])
  let ?r = "cancel_each c limit (ListJobsAdmin (wd_mem w)
                   \<lparr>ajUserID = u, ajStatus = st, ajRegionHint = [], ajClaimedByRunnerID = [],
                    ajLimit = limit - n, ajCursorCreated = 0, ajCursorID = []\<rparr>) (w, n)"
  have p: "prims c w (fst ?r)"
    by (rule cancel_each_prims [OF Cons.prems ListJobsAdmin_distinct [OF wf]])
       (auto intro: ListJobsAdmin_in(1) [OF wf])
  from Cons.IH [OF prims_wd [OF p Cons.prems], of "snd ?r"]
  have "prims c w (fst (cancel_statuses c limit u sts ?r))"
    using p by (simp add: rtranclp_trans)
  then show ?case by simp
qed

lemma AdminCancelAll_prims:
  assumes "wd_wf (cx_uuid c) w"
  shows "prims c w (fst (AdminCancelAll c w u st limit))"
  using cancel_statuses_prims [OF assms]
  by (simp add: AdminCancelAll_def Let_def case_prod_unfold del: cancel_statuses.simps)

section \<open>Retention and maintenance\<close>

lemma svc_PurgeTerminalJobs_prims: "prims c w (fst (svc_PurgeTerminalJobs c w d))"
  using p_purge [of c w] by (auto simp: svc_PurgeTerminalJobs_def Let_def case_prod_unfold)

lemma AdminPurgeTerminalJobs_prims: "prims c w (fst (AdminPurgeTerminalJobs c w d))"
  using p_purge [of c w] by (auto simp: AdminPurgeTerminalJobs_def Let_def case_prod_unfold)

lemma maintenance_tick_prims:
  assumes "wd_wf (cx_uuid c) w"
  shows "prims c w (maintenance_tick c w)"
  using rtranclp_trans [OF ReclaimStaleAll_prims [OF assms] svc_PurgeTerminalJobs_prims]
  by (simp add: maintenance_tick_def)

lemma svc_PurgeWebhookOutbox_prims: "prims c w (fst (svc_PurgeWebhookOutbox c w d))"
  using p_hook_purge [of c w] by (auto simp: svc_PurgeWebhookOutbox_def Let_def case_prod_unfold)

lemma AdminPurgeWebhooks_prims: "prims c w (fst (AdminPurgeWebhooks c w d))"
  using p_hook_purge [of c w] by (auto simp: AdminPurgeWebhooks_def Let_def case_prod_unfold)

section \<open>Delivery\<close>

lemma UpdateWebhookOutbox_put:
  assumes "wd_wf uuid w" "hook_at w i = Some e" "wID e' = wID e"
  shows "UpdateWebhookOutbox (wd_mem w) e' = Inr (wd_mem (put_hook e' w))"
  using hook_at_id [OF assms(1,2)] issued_trim [OF wd_wfD(1) [OF assms(1)] wd_wfD(4) [OF assms(1,2)]] assms(2,3)
  by (simp add: UpdateWebhookOutbox_def put_hook_def)

lemma world_put_hook [simp]: "w\<lparr>wd_mem := wd_mem (put_hook e w)\<rparr> = put_hook e w"
  by (simp add: put_hook_def)

lemma GetWebhookOutbox_at: "GetWebhookOutbox m i = Inr e \<Longrightarrow> gget (m_webhooks m) (trim_space i) = Some e"
  by (auto simp: GetWebhookOutbox_def Let_def split: if_splits option.splits)

lemma fresh_pending_at:
  "fresh_pending m row = Some fresh \<Longrightarrow>
   gget (m_webhooks m) (trim_space (wID row)) = Some fresh \<and> wStatus fresh = ''pending''"
  by (auto simp: fresh_pending_def dest: GetWebhookOutbox_at split: sum.splits if_splits)

lemma finishWebhookAttempt_eq:
  assumes "wd_wf (cx_uuid c) w" "hook_at w i = Some e"
  shows "finishWebhookAttempt c e r (wd_mem w) = (wd_mem (put_hook (attempted c e r) w), if fst r then 1 else 0)"
  by (simp add: finishWebhookAttempt_def UpdateWebhookOutbox_put [OF assms attempted_simps(1)])

lemma mem_fold_prims:
  assumes "wd_wf (cx_uuid c) w"
    and "\<And>x w n. wd_wf (cx_uuid c) w \<Longrightarrow> prims c w (w\<lparr>wd_mem := fst (f x (wd_mem w, n))\<rparr>)"
  shows "prims c w (w\<lparr>wd_mem := fst (fold f xs (wd_mem w, n))\<rparr>)"
  using assms(1)
proof (induction xs arbitrary: w n)
  case Nil
  then show ?case by simp
next
  case (Cons x xs)
  let ?w = "w\<lparr>wd_mem := fst (f x (wd_mem w, n))\<rparr>"
  have step: "prims c w ?w" by (rule assms(2) [OF Cons.prems])
  from Cons.IH [OF prims_wd [OF step Cons.prems], of "snd (f x (wd_mem w, n))"]
  have "prims c ?w (w\<lparr>wd_mem := fst (fold f (x # xs) (wd_mem w, n))\<rparr>)" by simp
  with step show ?case by (rule rtranclp_trans)
qed

lemma deliver_step_prims:
  assumes "wd_wf (cx_uuid c) w"
  shows "prims c w (w\<lparr>wd_mem := fst (deliver_step c deliver row (wd_mem w, n))\<rparr>)"
proof (cases "fresh_pending (wd_mem w) row")
  case None
  then show ?thesis by (simp add: deliver_step_def)
next
  case (Some e)
  note at = fresh_pending_at [OF Some]
  then show ?thesis
    using p_attempt [of w _ e c "deliver e"] finishWebhookAttempt_eq [OF assms, of "trim_space (wID row)" e] Some
    by (auto simp: deliver_step_def)
qed

lemma process_par_prims:
  assumes "wd_wf (cx_uuid c) w" "distinct (map (wID \<circ> fst) rs)"
    and "\<forall>r \<in> set rs. hook_at w (wID (fst r)) = Some (fst r) \<and> wStatus (fst r) = ''pending''"
  shows "prims c w (w\<lparr>wd_mem := fst (fold (finish_step c) rs (wd_mem w, n))\<rparr>)"
  using assms
proof (induction rs arbitrary: w n)
  case Nil
  then show ?case by simp
next
  case (Cons r rs)
  let ?w = "put_hook (attempted c (fst r) (snd r)) w"
  have at: "hook_at w (wID (fst r)) = Some (fst r)" "wStatus (fst r) = ''pending''"
    using Cons.prems(3) by simp_all
  have p: "prims c w ?w" using p_attempt [OF at] by (rule r_into_rtranclp)
  have step: "finish_step c r (wd_mem w, n) = (wd_mem ?w, n + (if fst (snd r) then 1 else 0))"
    by (simp add: finish_step_def finishWebhookAttempt_eq [OF Cons.prems(1) at(1)])
  have "hook_at ?w (wID (fst x)) = Some (fst x) \<and> wStatus (fst x) = ''pending''" if "x \<in> set rs" for x
    using that Cons.prems(2,3) by (auto simp: image_iff)
  then have "prims c ?w (?w\<lparr>wd_mem := fst (fold (finish_step c) rs (wd_mem ?w, k))\<rparr>)" for k
    using Cons.IH [OF prims_wd [OF p Cons.prems(1)]] Cons.prems(2) by simp
  then have "prims c ?w (w\<lparr>wd_mem := fst (fold (finish_step c) (r # rs) (wd_mem w, n))\<rparr>)"
    by (simp add: step put_hook_def)
  with p show ?case by (rule rtranclp_trans)
qed

lemma due_current:
  assumes "wd_wf uuid w" "e \<in> set (ListDueWebhookOutbox (wd_mem w) now l)"
  shows "hook_at w (wID e) = Some e" and "wStatus e = ''pending''" and "fresh_pending (wd_mem w) e = Some e"
proof -
  show at: "hook_at w (wID e) = Some e" and st: "wStatus e = ''pending''"
    using ListDueWebhookOutbox_due [OF wd_wfD(2) [OF assms(1)] assms(2)] by (simp_all add: is_due_def)
  have "trim_space (wID e) = wID e \<and> wID e \<noteq> []"
    by (rule issued_trim [OF wd_wfD(1) [OF assms(1)] wd_wfD(4) [OF assms(1) at]])
  with at st show "fresh_pending (wd_mem w) e = Some e"
    by (simp add: fresh_pending_def GetWebhookOutbox_def)
qed

lemma map_filter_Some: "(\<And>x. x \<in> set xs \<Longrightarrow> f x = Some x) \<Longrightarrow> List.map_filter f xs = xs"
  by (induction xs) (simp_all add: map_filter_def)

lemma par_results_due:
  assumes "wd_wf uuid w" "due = ListDueWebhookOutbox (wd_mem w) now l"
  shows "par_results deliver due (wd_mem w) = map (\<lambda>e. (e, deliver e)) due"
  using due_current(3) [OF assms(1)] by (simp add: par_results_def map_filter_Some assms(2))

lemma par_distinct:
  assumes "wd_wf uuid w" "mset rs = mset (map (\<lambda>e. (e, deliver e)) (ListDueWebhookOutbox (wd_mem w) now l))"
  shows "distinct (map (wID \<circ> fst) rs)"
    and "\<forall>r \<in> set rs. hook_at w (wID (fst r)) = Some (fst r) \<and> wStatus (fst r) = ''pending''"
proof -
  have "mset (map (wID \<circ> fst) rs) =
      mset (map (wID \<circ> fst) (map (\<lambda>e. (e, deliver e)) (ListDueWebhookOutbox (wd_mem w) now l)))"
    unfolding mset_map [of "wID \<circ> fst"] assms(2) ..
  also have "map (wID \<circ> fst) (map (\<lambda>e. (e, deliver e)) (ListDueWebhookOutbox (wd_mem w) now l)) =
      map wID (ListDueWebhookOutbox (wd_mem w) now l)"
    by simp
  finally show "distinct (map (wID \<circ> fst) rs)"
    using ListDueWebhookOutbox_distinct [OF wd_wfD(2) [OF assms(1)]]
    by (rule mset_eq_imp_distinct_iff [THEN iffD2])
  have "set rs = (\<lambda>e. (e, deliver e)) ` set (ListDueWebhookOutbox (wd_mem w) now l)"
    using mset_eq_setD [OF assms(2)] by (simp only: list.set_map)
  then show "\<forall>r \<in> set rs. hook_at w (wID (fst r)) = Some (fst r) \<and> wStatus (fst r) = ''pending''"
    using due_current(1,2) [OF assms(1)] by auto
qed

lemma ProcessWebhookOutbox_prims:
  assumes wf: "wd_wf (cx_uuid c) w" and perm: "\<And>rs. mset (perm rs) = mset rs"
  shows "prims c w (fst (ProcessWebhookOutbox c deliver perm w l))"
proof -
  define l' where "l' = (if l \<le> 0 then 32 else l)"
  let ?due = "ListDueWebhookOutbox (wd_mem w) (cx_now c) l'"
  let ?rs = "perm (par_results deliver ?due (wd_mem w))"
  have "prims c w (w\<lparr>wd_mem := fst (process_seq c deliver ?due (wd_mem w))\<rparr>)"
    unfolding process_seq_def by (rule mem_fold_prims [OF wf deliver_step_prims])
  moreover have "mset ?rs = mset (map (\<lambda>e. (e, deliver e)) ?due)"
    by (simp add: perm par_results_due [OF wf refl])
  then have "prims c w (w\<lparr>wd_mem := fst (process_par c ?rs (wd_mem w))\<rparr>)"
    unfolding process_par_def by (intro process_par_prims [OF wf] par_distinct [OF wf])
  ultimately show ?thesis
    unfolding ProcessWebhookOutbox_def l'_def [symmetric] by (simp add: Let_def case_prod_unfold)
qed

lemma requeue_put:
  "wd_wf uuid w \<Longrightarrow> hook_at w i = Some e \<Longrightarrow> requeueWebhookRow c (wd_mem w) e = Inr (wd_mem (put_hook (requeued c e) w))"
  by (simp add: requeueWebhookRow_def UpdateWebhookOutbox_put)

lemma AdminRetryWebhook_prims:
  assumes "wd_wf (cx_uuid c) w"
  shows "prims c w (fst (AdminRetryWebhook c w i))"
proof (cases "GetWebhookOutbox (wd_mem w) (trim_space i)")
  case (Inl e)
  then show ?thesis by (simp add: AdminRetryWebhook_def)
next
  case (Inr e)
  note at = GetWebhookOutbox_at [OF Inr]
  show ?thesis using p_requeue [OF at] by (auto simp: AdminRetryWebhook_def Inr requeue_put [OF assms at])
qed

lemma requeue_fold_prims:
  assumes "wd_wf (cx_uuid c) w" "distinct (map wID es)" "\<forall>e \<in> set es. hook_at w (wID e) = Some e"
  shows "prims c w (w\<lparr>wd_mem := fst (fold (requeue_step c) es (wd_mem w, n))\<rparr>)"
  using assms
proof (induction es arbitrary: w n)
  case Nil
  then show ?case by simp
next
  case (Cons e es)
  let ?w = "put_hook (requeued c e) w"
  have at: "hook_at w (wID e) = Some e" using Cons.prems(3) by simp
  have p: "prims c w ?w" using p_requeue [OF at] by (rule r_into_rtranclp)
  have step: "requeue_step c e (wd_mem w, n) = (wd_mem ?w, n + 1)"
    by (simp add: requeue_step_def requeue_put [OF Cons.prems(1) at])
  have "hook_at ?w (wID x) = Some x" if "x \<in> set es" for x
    using that Cons.prems(2,3) by (auto simp: image_iff)
  then have "prims c ?w (?w\<lparr>wd_mem := fst (fold (requeue_step c) es (wd_mem ?w, k))\<rparr>)" for k
    using Cons.IH [OF prims_wd [OF p Cons.prems(1)]] Cons.prems(2) by simp
  then have "prims c ?w (w\<lparr>wd_mem := fst (fold (requeue_step c) (e # es) (wd_mem w, n))\<rparr>)"
    by (simp add: step put_hook_def)
  with p show ?case by (rule rtranclp_trans)
qed

lemma admin_rows_current:
  assumes "wd_wf uuid w"
  shows "distinct (map wID (admin_webhook_rows w f))"
    and "\<forall>e \<in> set (admin_webhook_rows w f). hook_at w (wID e) = Some e"
proof -
  have keyed: "keyed wID (m_webhooks (wd_mem w))" by (rule store_wfD(15) [OF wd_wfD(2) [OF assms]])
  have "distinct (map wID (gvals (m_webhooks (wd_mem w))))"
    unfolding keyed_map_f [OF keyed] by (rule keyed_gwf [OF keyed])
  then have "distinct (map wID (exch_sort (newer wCreatedAt) (filter P (gvals (m_webhooks (wd_mem w))))))" for P
    by (simp only: distinct_map_exch_sort distinct_map_filter)
  then show "distinct (map wID (admin_webhook_rows w f))"
    unfolding admin_webhook_rows_def ListWebhookOutbox_def take_map [symmetric] by (rule distinct_take)
  show "\<forall>e \<in> set (admin_webhook_rows w f). hook_at w (wID e) = Some e"
  proof
    fix e assume "e \<in> set (admin_webhook_rows w f)"
    then have "e \<in> snd ` set (m_webhooks (wd_mem w))"
      unfolding admin_webhook_rows_def ListWebhookOutbox_def by (auto dest: in_set_takeD)
    then show "hook_at w (wID e) = Some e" using keyed_in [OF keyed] by blast
  qed
qed

lemma AdminRetryWebhooksBatch_prims:
  assumes "wd_wf (cx_uuid c) w"
  shows "prims c w (fst (AdminRetryWebhooksBatch c w f))"
  using requeue_fold_prims [OF assms admin_rows_current [OF assms]]
  by (simp add: AdminRetryWebhooksBatch_def Let_def case_prod_unfold)

lemma webhook_tick_prims:
  assumes "wd_wf (cx_uuid c) w" "\<And>rs. mset (perm rs) = mset rs"
  shows "prims c w (fst (webhook_tick c deliver perm lp w))"
  using ProcessWebhookOutbox_prims [OF assms]
    rtranclp_trans [OF ProcessWebhookOutbox_prims [OF assms] svc_PurgeWebhookOutbox_prims]
  by (simp add: webhook_tick_def Let_def)

section \<open>The service as a step relation\<close>

text \<open>One call of the service in some context: any settings, any positive instant, any delivery
  outcomes, any policy of the caller. The identifier generator is the same in every call.\<close>

inductive svc_call :: "ctx \<Rightarrow> world \<Rightarrow> world \<Rightarrow> bool" for c where
  c_create: "svc_call c w (fst (Create c w u ci))"
| c_beat: "svc_call c w (fst (Heartbeat c w u i))"
| c_claim: "svc_call c w (fst (Claim c w u i a r))"
| c_claim_next: "svc_call c w (fst (ClaimNext c w u a r region))"
| c_claim_filtered: "svc_call c w (fst (ClaimNextFiltered c w u a r region policy))"
| c_release: "svc_call c w (fst (ReleaseToPending c w u i reason))"
| c_admin_release: "svc_call c w (fst (AdminRelease c w i reason))"
| c_complete: "svc_call c w (fst (Complete c w u i co))"
| c_admin_complete: "svc_call c w (fst (AdminComplete c w i co))"
| c_cancel: "svc_call c w (fst (Cancel c w u i))"
| c_admin_cancel: "svc_call c w (fst (AdminCancel c w i nt))"
| c_admin_cancel_all: "svc_call c w (fst (AdminCancelAll c w u st l))"
| c_reclaim: "svc_call c w (fst (ReclaimStale c w u))"
| c_reclaim_all: "svc_call c w (fst (ReclaimStaleAll c w))"
| c_purge: "svc_call c w (fst (svc_PurgeTerminalJobs c w d))"
| c_admin_purge: "svc_call c w (fst (AdminPurgeTerminalJobs c w d))"
| c_maintenance: "svc_call c w (maintenance_tick c w)"
| c_process: "(\<And>rs. mset (perm rs) = mset rs) \<Longrightarrow>
    svc_call c w (fst (ProcessWebhookOutbox c deliver perm w l))"
| c_hook_tick: "(\<And>rs. mset (perm rs) = mset rs) \<Longrightarrow>
    svc_call c w (fst (webhook_tick c deliver perm lp w))"
| c_hook_purge: "svc_call c w (fst (svc_PurgeWebhookOutbox c w d))"
| c_admin_hook_purge: "svc_call c w (fst (AdminPurgeWebhooks c w d))"
| c_retry: "svc_call c w (fst (AdminRetryWebhook c w i))"
| c_retry_batch: "svc_call c w (fst (AdminRetryWebhooksBatch c w f))"

lemma svc_call_prims:
  assumes "svc_call c w w'" "wd_wf (cx_uuid c) w"
  shows "prims c w w'"
  using assms
  by (induction rule: svc_call.induct)
     (auto intro: Create_prims Heartbeat_prims Claim_prims ClaimNext_prims ClaimNextFiltered_prims
       ReleaseToPending_prims AdminRelease_prims Complete_prims AdminComplete_prims Cancel_prims
       AdminCancel_prims AdminCancelAll_prims ReclaimStale_prims ReclaimStaleAll_prims
       svc_PurgeTerminalJobs_prims AdminPurgeTerminalJobs_prims maintenance_tick_prims
       ProcessWebhookOutbox_prims webhook_tick_prims svc_PurgeWebhookOutbox_prims
       AdminPurgeWebhooks_prims AdminRetryWebhook_prims AdminRetryWebhooksBatch_prims)

definition svc_step :: "(nat \<Rightarrow> string) \<Rightarrow> world \<Rightarrow> world \<Rightarrow> bool" where
  "svc_step uuid w w' \<longleftrightarrow> (\<exists>c. cx_uuid c = uuid \<and> cx_now c > 0 \<and> svc_call c w w')"

lemma svc_step_inv:
  assumes "svc_step uuid w w'" "svc_inv uuid w"
  shows "svc_inv uuid w'"
proof -
  obtain c where c: "cx_uuid c = uuid" "cx_now c > 0" "svc_call c w w'"
    using assms(1) by (auto simp: svc_step_def)
  then have "prims c w w'" using assms(2) by (intro svc_call_prims) (simp_all add: svc_inv_def)
  with c assms(2) show ?thesis using prims_inv [of c w w'] by auto
qed

definition svc_reachable :: "(nat \<Rightarrow> string) \<Rightarrow> world \<Rightarrow> bool" where
  "svc_reachable uuid w \<longleftrightarrow> (svc_step uuid)\<^sup>*\<^sup>* world0 w"

lemma steps_inv: "(svc_step uuid)\<^sup>*\<^sup>* w w' \<Longrightarrow> svc_inv uuid w \<Longrightarrow> svc_inv uuid w'"
  by (induction rule: rtranclp_induct) (auto intro: svc_step_inv)

lemma reachable_inv: "uuid_ok uuid \<Longrightarrow> svc_reachable uuid w \<Longrightarrow> svc_inv uuid w"
  unfolding svc_reachable_def using steps_inv svc_inv_world0 by blast

text \<open>Along any run a terminal job is never modified: it is as it was, or the retention removed it.\<close>

definition settled :: "nat \<Rightarrow> string \<Rightarrow> job \<Rightarrow> world \<Rightarrow> bool" where
  "settled n i j w \<longleftrightarrow> n \<le> wd_next w \<and> (job_at w i = None \<or> job_at w i = Some j)"

lemma prim_next: "prim c w w' \<Longrightarrow> wd_next w \<le> wd_next w'"
  by (induction rule: prim.induct) (auto simp: notifyJobTerminal_def Let_def split: sum.split)

lemma prim_absent:
  assumes "prim c w w'" "wd_wf (cx_uuid c) w" "job_at w i = None" "issued (cx_uuid c) (wd_next w) i"
  shows "job_at w' i = None"
proof (rule ccontr)
  assume "job_at w' i \<noteq> None"
  then obtain j' where "job_at w' i = Some j'" by blast
  with assms(1) show False using assms(2-4)
  proof (induction rule: prim.induct)
    case (p_create ci labels w u)
    then have "i = cx_uuid c (wd_next w)" by (auto split: if_splits)
    with p_create show ?case
      using not_issued [OF wd_wfD(1), of "cx_uuid c" w "wd_next w"] by blast
  next
    case (p_claim w k j a r)
    then show ?case using job_at_id [of _ w k j] by (auto split: if_splits)
  next
    case (p_beat w k j)
    then show ?case using job_at_id [of _ w k j] by (auto split: if_splits)
  next
    case (p_release w k j reason)
    then show ?case using job_at_id [OF _ p_release.hyps(1)] same_request_id [OF released_job_simps(1)]
      by (auto split: if_splits)
  next
    case (p_finish w k j j')
    then show ?case using job_at_id [OF _ p_finish.hyps(1)] terminal_of_id [OF p_finish.hyps(3)]
      by (auto split: if_splits)
  next
    case (p_purge w t l)
    then show ?case using purge_sub [of w t l i j'] by simp
  qed simp_all
qed

lemma prim_settled:
  assumes "prim c w w'" "wd_wf (cx_uuid c) w" "settled n i j w" "issued (cx_uuid c) n i" "is_terminal (jStatus j)"
  shows "settled n i j w'"
proof (cases "job_at w i")
  case (Some j')
  with prim_job [OF assms(1,2) Some] assms(3,5) prim_next [OF assms(1)] show ?thesis
    by (auto simp: settled_def evolves_def split: option.splits)
next
  case None
  have n: "n \<le> wd_next w" using assms(3) by (simp add: settled_def)
  from prim_absent [OF assms(1,2) None issued_mono [OF assms(4) n]] prim_next [OF assms(1)] n
  show ?thesis by (simp add: settled_def)
qed

lemma prims_settled:
  assumes "prims c w w'" "wd_wf (cx_uuid c) w" "settled n i j w" "issued (cx_uuid c) n i" "is_terminal (jStatus j)"
  shows "settled n i j w'"
  using assms
proof (induction rule: rtranclp_induct)
  case base
  then show ?case by simp
next
  case (step y z)
  then show ?case using prims_wd [OF step.hyps(1)] prim_settled [OF step.hyps(2)] by blast
qed

lemma steps_settled:
  assumes "(svc_step uuid)\<^sup>*\<^sup>* w w'" "wd_wf uuid w" "settled n i j w" "issued uuid n i" "is_terminal (jStatus j)"
  shows "settled n i j w' \<and> wd_wf uuid w'"
  using assms
proof (induction rule: rtranclp_induct)
  case base
  then show ?case by simp
next
  case (step y z)
  then obtain c where c: "cx_uuid c = uuid" "svc_call c y z" by (auto simp: svc_step_def)
  with step have y: "settled n i j y" "wd_wf (cx_uuid c) y" by auto
  have p: "prims c y z" by (rule svc_call_prims [OF c(2) y(2)])
  show ?case
    using prims_settled [OF p y(2,1)] prims_wd [OF p y(2)] step.prems(3,4) c(1) by simp
qed

text \<open>A note within its cap stays within it.\<close>

definition short_note :: "nat \<Rightarrow> string \<Rightarrow> world \<Rightarrow> bool" where
  "short_note n i w \<longleftrightarrow> n \<le> wd_next w \<and> (\<forall>j. job_at w i = Some j \<longrightarrow> length (jNote j) \<le> 2000)"

lemma prim_short_note:
  assumes "prim c w w'" "wd_wf (cx_uuid c) w" "short_note n i w" "issued (cx_uuid c) n i"
  shows "short_note n i w'"
proof (cases "job_at w i")
  case (Some j)
  with assms(3) have "length (jNote j) \<le> 2000" by (simp add: short_note_def)
  with prim_note [OF assms(1,2) Some] prim_next [OF assms(1)] assms(3) show ?thesis
    by (auto simp: short_note_def)
next
  case None
  have n: "n \<le> wd_next w" using assms(3) by (simp add: short_note_def)
  from prim_absent [OF assms(1,2) None issued_mono [OF assms(4) n]] prim_next [OF assms(1)] n
  show ?thesis by (simp add: short_note_def)
qed

lemma steps_short_note:
  assumes "(svc_step uuid)\<^sup>*\<^sup>* w w'" "wd_wf uuid w" "short_note n i w" "issued uuid n i"
  shows "short_note n i w' \<and> wd_wf uuid w'"
  using assms
proof (induction rule: rtranclp_induct)
  case base
  then show ?case by simp
next
  case (step y z)
  then obtain c where c: "cx_uuid c = uuid" "svc_call c y z" by (auto simp: svc_step_def)
  with step have y: "short_note n i y" "wd_wf (cx_uuid c) y" by auto
  from svc_call_prims [OF c(2) y(2)] y have "short_note n i z \<and> wd_wf (cx_uuid c) z"
  proof (induction rule: rtranclp_induct)
    case base
    then show ?case by simp
  next
    case (step a b)
    then show ?case using prim_short_note [OF step.hyps(2)] prim_wd [OF step.hyps(2)] assms(4) c(1) by blast
  qed
  then show ?case using c(1) by simp
qed

end
