(* ===== verification/Job_Behaviour.thy ===== *)
theory Job_Behaviour
  imports Job_Refinement
begin

text \<open>
  What the calls of the job service achieve: which job a claim takes, what a reclaim pass leaves
  running, that a denied job is not left claimed, that a terminal transition announces itself
  once, and that the order in which parallel deliveries complete does not matter.
\<close>

section \<open>Claiming in order\<close>

definition region_ok :: "string \<Rightarrow> job \<Rightarrow> bool" where
  "region_ok region j \<longleftrightarrow> region = [] \<or> trim_space (jRegionHint j) = region"

lemma claim_first_find:
  assumes "\<And>j. j \<in> set js \<Longrightarrow> GetJob m u (jID j) = Inr j \<and> is_queued j"
  shows "claim_first c m u a r region js =
    map_option (\<lambda>j. (m\<lparr>m_jobs := gset (jID j) (claimed (cx_now c) a r j) (m_jobs m)\<rparr>, claimed (cx_now c) a r j))
      (find (region_ok region) js)"
  using assms
proof (induction js)
  case Nil
  then show ?case by simp
next
  case (Cons j js)
  have j: "GetJob m u (jID j) = Inr j" "is_queued j" using Cons.prems by auto
  then have "ClaimPendingJob (cx_now c) m u (jID j) a r =
      Inr (m\<lparr>m_jobs := gset (jID j) (claimed (cx_now c) a r j) (m_jobs m)\<rparr>, claimed (cx_now c) a r j)"
    by (auto simp: ClaimPendingJob_iff)
  moreover have "jStatus j = ''pending'' \<or> jStatus j = ''dispatched''" using j(2) by (simp add: is_queued_def)
  ultimately show ?case using Cons by (auto simp: region_ok_def)
qed

lemma find_sorted_min:
  assumes "sorted_wrt (\<lambda>a b. \<not> lt b a) xs" "find P xs = Some x" "y \<in> set xs" "P y" "\<And>z. \<not> lt z z"
  shows "\<not> lt y x"
  using assms by (induction xs) (auto split: if_splits)

lemma pending_get:
  assumes "store_wf m" "j \<in> set (ListPendingJobs m u)"
  shows "GetJob m u (jID j) = Inr j \<and> is_queued j"
  using assms jobs_in [OF assms(1), of j] by (auto simp: ListPendingJobs_def jobs.get_iff)

text \<open>A job of the user that waits in the queue and may run in the region asked for.\<close>

definition waiting :: "world \<Rightarrow> string \<Rightarrow> string \<Rightarrow> job \<Rightarrow> bool" where
  "waiting w u region j \<longleftrightarrow>
     job_at w (jID j) = Some j \<and> jUserID j = u \<and> (jStatus j = ''pending'' \<or> jStatus j = ''dispatched'') \<and>
     (trim_space region = [] \<or> trim_space (jRegionHint j) = trim_space region)"

lemma waiting_iff:
  assumes "store_wf (wd_mem w)"
  shows "waiting w u region j \<longleftrightarrow> j \<in> set (ListPendingJobs (wd_mem w) u) \<and> region_ok (trim_space region) j"
  using jobs_in [OF assms, of j] by (auto simp: waiting_def ListPendingJobs_def is_queued_def region_ok_def)

lemma ClaimNext_takes:
  assumes wf: "wd_wf (cx_uuid c) w" and w1: "w1 = fst (ReclaimStale c w u)"
    and res: "ClaimNext c w u a r region = (w', res)"
  shows "case res of
      Inr v \<Rightarrow> \<exists>j. waiting w1 u region j \<and>
          (\<forall>k. waiting w1 u region k \<longrightarrow> \<not> claim_before k j) \<and>
          v = jobFromStore (claimed (cx_now c) a r j) \<and> w' = put_job (claimed (cx_now c) a r j) w1
    | Inl _ \<Rightarrow> (\<forall>k. \<not> waiting w1 u region k) \<and> w' = w1"
proof -
  have wf1: "wd_wf (cx_uuid c) w1" using prims_wd [OF ReclaimStale_prims [OF wf] wf] w1 by simp
  let ?js = "ListPendingJobs (wd_mem w1) u" and ?rg = "trim_space region"
  let ?ss = "sort_slice claim_before ?js"
  note wait = waiting_iff [OF wd_wfD(2) [OF wf1], of u region]
  have cf: "claim_first c (wd_mem w1) u a r ?rg ?ss =
      map_option (\<lambda>j. ((wd_mem w1)\<lparr>m_jobs := gset (jID j) (claimed (cx_now c) a r j) (m_jobs (wd_mem w1))\<rparr>,
        claimed (cx_now c) a r j)) (find (region_ok ?rg) ?ss)"
    by (rule claim_first_find) (use pending_get [OF wd_wfD(2) [OF wf1]] in auto)
  show ?thesis
  proof (cases "find (region_ok ?rg) ?ss")
    case None
    then have none: "\<forall>k. \<not> waiting w1 u region k"
      by (auto simp: wait find_None_iff)
    from res None cf w1 have "w' = w1 \<and> (\<exists>e. res = Inl e)"
      by (auto simp: ClaimNext_def Let_def split: if_splits)
    with none show ?thesis by auto
  next
    case (Some j)
    then have j: "j \<in> set ?js" "region_ok ?rg j" using find_SomeD [OF Some] by auto
    have min: "\<not> claim_before k j" if "waiting w1 u region k" for k
    proof (rule find_sorted_min [OF claim_order.sorted_sort_slice Some])
      show "k \<in> set ?ss" "region_ok ?rg k" using that by (simp_all add: wait)
      show "\<not> claim_before z z" for z by (simp add: claim_before_def)
    qed
    have "?js \<noteq> []" using j(1) by auto
    then have eq: "res = Inr (jobFromStore (claimed (cx_now c) a r j))" "w' = put_job (claimed (cx_now c) a r j) w1"
      using res Some cf w1 by (simp_all add: ClaimNext_def Let_def put_job_def)
    have "waiting w1 u region j" using j by (simp add: wait)
    with min eq show ?thesis by (simp only: sum.case) blast
  qed
qed

text \<open>The comparison of the source, read as an order: a job no other precedes has the highest
  priority and, among those of that priority, the earliest creation.\<close>

lemma not_claim_before:
  "\<not> claim_before k j \<longleftrightarrow>
     jPriority k < jPriority j \<or> (jPriority k = jPriority j \<and> jCreatedAt j \<le> jCreatedAt k)"
  by (auto simp: claim_before_def)

section \<open>The filtered claim\<close>

definition is_running :: "world \<Rightarrow> string \<Rightarrow> bool" where
  "is_running w i \<longleftrightarrow> (\<exists>j. job_at w i = Some j \<and> jStatus j = ''running'')"

lemma claim_then_release:
  assumes wf: "wd_wf (cx_uuid c) w" and cl: "ClaimPendingJob (cx_now c) (wd_mem w) u i a r = Inr (m', cl)"
  shows "\<exists>v. ReleaseToPending c (w\<lparr>wd_mem := m'\<rparr>) u (jID cl) reason =
      (put_job (released_job c reason cl) (w\<lparr>wd_mem := m'\<rparr>), Inr v)"
    and "\<And>k. k \<noteq> i \<Longrightarrow> job_at (w\<lparr>wd_mem := m'\<rparr>) k = job_at w k" and "jID cl = i" and "jStatus cl = ''running''"
proof -
  from cl obtain j where j: "GetJob (wd_mem w) u i = Inr j" "cl = claimed (cx_now c) a r j"
    "m' = (wd_mem w)\<lparr>m_jobs := gset i cl (m_jobs (wd_mem w))\<rparr>"
    by (auto simp: ClaimPendingJob_iff)
  have i: "jID j = i" "jUserID j = u" using job_at_id [OF wf GetJob_at [OF j(1)]] j(1) by (simp_all add: jobs.get_iff)
  show id: "jID cl = i" "jStatus cl = ''running''" using j i by simp_all
  show "\<And>k. k \<noteq> i \<Longrightarrow> job_at (w\<lparr>wd_mem := m'\<rparr>) k = job_at w k" using j(3) by simp
  let ?w = "w\<lparr>wd_mem := m'\<rparr>"
  have wf': "wd_wf (cx_uuid c) ?w"
    by (rule prim_wd [OF claim_prim [OF wf cl] wf])
  have g: "GetJob (wd_mem ?w) u i = Inr cl" using j i by (simp add: jobs.get_iff)
  show "\<exists>v. ReleaseToPending c ?w u (jID cl) reason = (put_job (released_job c reason cl) ?w, Inr v)"
    using g id UpdateJob_put [OF wf' g released_job_simps(1)]
    by (simp add: ReleaseToPending_def Let_def put_job_def)
qed

lemma claim_filtered_running:
  "wd_wf (cx_uuid c) w \<Longrightarrow>
   \<forall>j \<in> set js. \<forall>j0. job_at w (jID j) = Some j0 \<longrightarrow> jDriveID j0 = jDriveID j \<Longrightarrow>
   claim_filtered c w u a r region allow recheck deny skipped js = (w', res) \<Longrightarrow> is_running w' i \<Longrightarrow>
   is_running w i \<or>
   (\<exists>v. res = Inr v \<and> vwID v = i \<and> allow (vwDriveID v) = [] \<and> recheck (vwDriveID v) = [])"
proof (induction js arbitrary: w deny skipped)
  case Nil
  then show ?case by simp
next
  case (Cons j js)
  consider (skip) d s where "claim_filtered c w u a r region allow recheck d s js = (w', res)"
    | (att) m' cl where "allow (jDriveID j) = []"
        "ClaimPendingJob (cx_now c) (wd_mem w) u (jID j) a r = Inr (m', cl)"
        "claim_filtered c w u a r region allow recheck deny skipped (j # js) =
          (let w' = w\<lparr>wd_mem := m'\<rparr>; reason = recheck (jDriveID cl)
                 in if reason \<noteq> []
                    then (case ReleaseToPending c w' u (jID cl) reason of
                            (w'', Inl e) \<Rightarrow>
                              (w'', Inl (Errorf (reason @ '' (also failed to release job '' @ jID cl @ '': '' @
                                error_text e @ '')'')))
                          | (w'', Inr _) \<Rightarrow>
                              claim_filtered c w'' u a r region allow recheck reason skipped js)
                    else (w', Inr (jobFromStore cl)))"
    using Cons.prems(3) by (auto split: if_splits sum.splits)
  then show ?case
  proof cases
    case skip
    show ?thesis
      by (rule Cons.IH [OF Cons.prems(1) _ skip Cons.prems(4)]) (use Cons.prems(2) in simp)
  next
    case att
    let ?w = "w\<lparr>wd_mem := m'\<rparr>"
    note cr = claim_then_release [OF Cons.prems(1) att(2)]
    obtain j0 where j0: "job_at w (jID j) = Some j0" "cl = claimed (cx_now c) a r j0"
      "m' = (wd_mem w)\<lparr>m_jobs := gset (jID j) cl (m_jobs (wd_mem w))\<rparr>"
      using att(2) by (auto simp: ClaimPendingJob_iff jobs.get_iff)
    have drive: "jDriveID cl = jDriveID j" using j0 Cons.prems(2) by (simp add: claimed_def)
    have wf1: "wd_wf (cx_uuid c) ?w" by (rule prim_wd [OF claim_prim [OF Cons.prems(1) att(2)] Cons.prems(1)])
    have at1: "job_at ?w (jID j) = Some cl" using j0(3) by simp
    show ?thesis
    proof (cases "recheck (jDriveID cl) = []")
      case True
      then have eq: "w' = ?w" "res = Inr (jobFromStore cl)" using Cons.prems(3) att(3) by (simp_all add: Let_def)
      show ?thesis
      proof (cases "i = jID j")
        case False
        then show ?thesis using Cons.prems(4) cr(2) unfolding eq is_running_def by simp
      next
        case same: True
        show ?thesis using eq(2) same cr(3) True att(1) drive by simp
      qed
    next
      case False
      let ?rel = "released_job c (recheck (jDriveID cl)) cl"
      let ?w2 = "put_job ?rel ?w"
      have id: "jID ?rel = jID j" using same_request_id [OF released_job_simps(1)] cr(3) by simp
      have run: "claim_filtered c ?w2 u a r region allow recheck (recheck (jDriveID cl)) skipped js = (w', res)"
        using False Cons.prems(3) att(3) cr(1) [of "recheck (jDriveID cl)"] by (auto simp: Let_def)
      have wf2: "wd_wf (cx_uuid c) ?w2" by (rule put_job_old_wd [OF wf1 at1 released_job_simps(1)])
      have at2: "job_at ?w2 k = (if k = jID j then Some ?rel else job_at w k)" for k
        using id cr(2) by (simp add: j0(3))
      have "\<forall>x \<in> set js. \<forall>x0. job_at ?w2 (jID x) = Some x0 \<longrightarrow> jDriveID x0 = jDriveID x"
      proof (intro ballI allI impI)
        fix x x0 assume x: "x \<in> set js" "job_at ?w2 (jID x) = Some x0"
        have "jDriveID ?rel = jDriveID j0" using j0(2) by (simp add: released_job_def claimed_def)
        show "jDriveID x0 = jDriveID x"
        proof (cases "jID x = jID j")
          case True
          then have "x0 = ?rel" using x(2) at2 [of "jID x"] by simp
          moreover have "job_at w (jID x) = Some j0" using True j0(1) by simp
          then have "jDriveID j0 = jDriveID x" using x(1) Cons.prems(2) list.set_intros(2) by metis
          ultimately show ?thesis using \<open>jDriveID ?rel = jDriveID j0\<close> by simp
        next
          case False
          then have "job_at w (jID x) = Some x0" using x(2) at2 [of "jID x"] by simp
          with x(1) Cons.prems(2) show ?thesis by simp
        qed
      qed
      from Cons.IH [OF wf2 this run Cons.prems(4)] show ?thesis
        using at2 [of i] by (auto simp: is_running_def split: if_splits)
    qed
  qed
qed

lemma ClaimNextFiltered_running:
  assumes wf: "wd_wf (cx_uuid c) w" and w1: "w1 = fst (ReclaimStale c w u)"
    and res: "ClaimNextFiltered c w u a r region (Some (allow, recheck)) = (w', res)" and run: "is_running w' i"
  shows "is_running w1 i \<or>
    (\<exists>v. res = Inr v \<and> vwID v = i \<and> allow (vwDriveID v) = [] \<and> recheck (vwDriveID v) = [])"
proof -
  have wf1: "wd_wf (cx_uuid c) w1" using prims_wd [OF ReclaimStale_prims [OF wf] wf] w1 by simp
  let ?js = "ListPendingJobs (wd_mem w1) u"
  show ?thesis
  proof (cases "?js = []")
    case True
    then show ?thesis using res run w1 by (simp add: ClaimNextFiltered_def Let_def)
  next
    case False
    have "\<forall>j \<in> set (sort_slice claim_before ?js). \<forall>j0. job_at w1 (jID j) = Some j0 \<longrightarrow> jDriveID j0 = jDriveID j"
      using pending_get [OF wd_wfD(2) [OF wf1]] by (auto simp: jobs.get_iff)
    moreover have "claim_filtered c w1 u a r (trim_space region) allow recheck [] 0 (sort_slice claim_before ?js) = (w', res)"
      using res False w1 by (simp add: ClaimNextFiltered_def Let_def)
    ultimately show ?thesis using run by (rule claim_filtered_running [OF wf1])
  qed
qed

section \<open>The reclaim pass\<close>

text \<open>A running job the pass must not leave running.\<close>

definition overdue :: "ctx \<Rightarrow> job \<Rightarrow> bool" where
  "overdue c j \<longleftrightarrow> timed_out c j \<or>
     (cx_lease c > 0 \<and> lease_expired c (first_nonzero [jHeartbeatAt j, jUpdatedAt j]))"

lemma finish_job_at:
  assumes "wd_wf (cx_uuid c) w" "GetJob (wd_mem w) u i = Inr sj" "same_request sj sj'"
  shows "job_at (fst (finish_job c w sj')) k = (if k = i then Some sj' else job_at w k)"
    and "\<exists>v. snd (finish_job c w sj') = Inr v"
proof -
  have "jID sj' = i"
    using job_at_id [OF assms(1) GetJob_at [OF assms(2)]] same_request_id [OF assms(3)] by simp
  then show "job_at (fst (finish_job c w sj')) k = (if k = i then Some sj' else job_at w k)"
    by (simp add: finish_job_eq [OF assms])
  show "\<exists>v. snd (finish_job c w sj') = Inr v" by (simp add: finish_job_eq [OF assms])
qed

lemma reclaim_step_at:
  assumes wf: "wd_wf (cx_uuid c) w" and at: "job_at w (jID sj) = Some sj" "jUserID sj = u" "jStatus sj = ''running''"
    and ts: "ts = first_nonzero [jHeartbeatAt sj, jUpdatedAt sj]"
    and r: "reclaim_step c u ts sj (w, n) = (w', n')"
  shows "k \<noteq> jID sj \<Longrightarrow> job_at w' k = job_at w k"
    and "\<not> overdue c sj \<Longrightarrow> w' = w \<and> n' = n"
    and "overdue c sj \<Longrightarrow> n' = n + 1 \<and> (\<exists>j'. job_at w' (jID sj) = Some j' \<and>
       (if timed_out c sj \<or> (jMaxAttempts sj > 0 \<and> jAttemptCount sj \<ge> jMaxAttempts sj)
        then jStatus j' = ''failed'' else jStatus j' = ''pending''))"
proof -
  have g: "GetJob (wd_mem w) u (jID sj) = Inr sj" using at by (simp add: jobs.get_iff)
  note fa = finish_job_at [OF wf g failed_job_simps(1)]
  have rel: "ReleaseToPending c w u (jID sj) ''lease expired'' =
      (put_job (released_job c ''lease expired'' sj) w, Inr (jobFromStore (released_job c ''lease expired'' sj)))"
    using g at(3) UpdateJob_put [OF wf g released_job_simps(1)] by (simp add: ReleaseToPending_def Let_def)
  have relid: "jID (released_job c ''lease expired'' sj) = jID sj"
    using same_request_id [OF released_job_simps(1)] by blast
  have ft: "failTimeout c w u (jID sj) sec =
      finish_job c w (failed_job c 124 (''timeout after '' @ show_int sec @ ''s'') sj)" for sec
    using g at(3) by (simp add: failTimeout_def)
  have fm: "failMaxAttempts c w u (jID sj) x y = finish_job c w (failed_job c 1
      (''max attempts exceeded ('' @ show_int x @ ''/'' @ show_int y @ '') after lease expired'') sj)" for x y
    using g at(3) by (simp add: failMaxAttempts_def)
  have cnt: "count_ok n (finish_job c w (failed_job c code why sj)) =
      (fst (finish_job c w (failed_job c code why sj)), n + 1)" for code why
  proof -
    obtain v where "snd (finish_job c w (failed_job c code why sj)) = Inr v" using fa(2) by blast
    then show ?thesis by (simp add: count_ok_def)
  qed
  have r': "(w', n') = (if timed_out c sj
      then (fst (finish_job c w (failed_job c 124 (''timeout after '' @
             show_int (effectiveTimeoutSec (cx_env c) (jTimeoutSec sj)) @ ''s'') sj)), n + 1)
      else if \<not> (cx_lease c > 0 \<and> lease_expired c ts) then (w, n)
      else if jMaxAttempts sj > 0 \<and> jAttemptCount sj \<ge> jMaxAttempts sj
      then (fst (finish_job c w (failed_job c 1 (''max attempts exceeded ('' @ show_int (jAttemptCount sj) @ ''/'' @
             show_int (jMaxAttempts sj) @ '') after lease expired'') sj)), n + 1)
      else (put_job (released_job c ''lease expired'' sj) w, n + 1))"
    unfolding r [symmetric] reclaim_step_def Let_def prod.case ft fm cnt rel
    by (simp add: at(3) count_ok_def not_le)
  show "k \<noteq> jID sj \<Longrightarrow> job_at w' k = job_at w k"
    using r' relid by (simp add: fa(1) split: if_splits)
  show "\<not> overdue c sj \<Longrightarrow> w' = w \<and> n' = n"
    using r' ts by (simp add: overdue_def split: if_splits)
  show "overdue c sj \<Longrightarrow> n' = n + 1 \<and> (\<exists>j'. job_at w' (jID sj) = Some j' \<and>
       (if timed_out c sj \<or> (jMaxAttempts sj > 0 \<and> jAttemptCount sj \<ge> jMaxAttempts sj)
        then jStatus j' = ''failed'' else jStatus j' = ''pending''))"
    using r' relid ts by (simp add: fa(1) overdue_def split: if_splits)
qed

definition reclaim_outcome :: "ctx \<Rightarrow> job \<Rightarrow> string" where
  "reclaim_outcome c j =
     (if \<not> overdue c j then jStatus j
      else if timed_out c j \<or> (jMaxAttempts j > 0 \<and> jAttemptCount j \<ge> jMaxAttempts j) then ''failed''
      else ''pending'')"

lemma reclaim_fold:
  assumes "wd_wf (cx_uuid c) w" "distinct (map jID js)"
    and "\<forall>sj \<in> set js. job_at w (jID sj) = Some sj \<and> jUserID sj = u \<and> jStatus sj = ''running''"
    and "fold (\<lambda>sj. reclaim_step c u (first_nonzero [jHeartbeatAt sj, jUpdatedAt sj]) sj) js (w, n) = (w', n')"
  shows "(\<forall>k. k \<notin> jID ` set js \<longrightarrow> job_at w' k = job_at w k) \<and>
    (\<forall>sj \<in> set js. \<exists>j'. job_at w' (jID sj) = Some j' \<and> jStatus j' = reclaim_outcome c sj \<and>
        (\<not> overdue c sj \<longrightarrow> j' = sj)) \<and>
    n' = n + length (filter (overdue c) js)"
  using assms
proof (induction js arbitrary: w n)
  case Nil
  then show ?case by simp
next
  case (Cons sj js)
  obtain w1 n1 where st: "reclaim_step c u (first_nonzero [jHeartbeatAt sj, jUpdatedAt sj]) sj (w, n) = (w1, n1)"
    by fastforce
  have cur: "job_at w (jID sj) = Some sj" "jUserID sj = u" "jStatus sj = ''running''" using Cons.prems(3) by auto
  note step = reclaim_step_at [OF Cons.prems(1) cur refl st]
  have wf1: "wd_wf (cx_uuid c) w1"
    using prims_wd [OF reclaim_step_prims [OF Cons.prems(1)] Cons.prems(1)] st by (metis fst_conv)
  have ids: "jID x \<noteq> jID sj" if "x \<in> set js" for x
    using imageI [OF that, of jID] Cons.prems(2) by auto
  have "\<forall>x \<in> set js. job_at w1 (jID x) = Some x \<and> jUserID x = u \<and> jStatus x = ''running''"
    using Cons.prems(3) step(1) ids by simp
  moreover have "fold (\<lambda>sj. reclaim_step c u (first_nonzero [jHeartbeatAt sj, jUpdatedAt sj]) sj) js (w1, n1) = (w', n')"
    using Cons.prems(4) st by simp
  ultimately have IH: "\<forall>k. k \<notin> jID ` set js \<longrightarrow> job_at w' k = job_at w1 k"
    "\<forall>sj \<in> set js. \<exists>j'. job_at w' (jID sj) = Some j' \<and> jStatus j' = reclaim_outcome c sj \<and>
        (\<not> overdue c sj \<longrightarrow> j' = sj)" "n' = n1 + length (filter (overdue c) js)"
    using Cons.IH [OF wf1] Cons.prems(2) by simp_all
  have "jID sj \<notin> jID ` set js" using Cons.prems(2) by simp
  then have "job_at w' (jID sj) = job_at w1 (jID sj)" using IH(1) by blast
  then have "\<exists>j'. job_at w' (jID sj) = Some j' \<and> jStatus j' = reclaim_outcome c sj \<and> (\<not> overdue c sj \<longrightarrow> j' = sj)"
    using step(2,3) cur(1) by (cases "overdue c sj") (auto simp: reclaim_outcome_def split: if_splits)
  moreover have "n' = n + length (filter (overdue c) (sj # js))"
    using IH(3) step(2,3) by (cases "overdue c sj") auto
  ultimately show ?case using IH(1,2) step(1) by simp
qed

lemma ListRunningJobs_in:
  assumes "store_wf (wd_mem w)"
  shows "sj \<in> set (ListRunningJobs (wd_mem w) u) \<longleftrightarrow>
    job_at w (jID sj) = Some sj \<and> jStatus sj = ''running'' \<and> (trim_space u = [] \<or> jUserID sj = trim_space u)"
  using jobs_in [OF assms, of sj] by (auto simp: ListRunningJobs_def Let_def)

lemma ListRunningJobs_distinct:
  assumes "store_wf m"
  shows "distinct (map jID (ListRunningJobs m u))"
proof -
  have "distinct (map jID (gvals (m_jobs m)))"
    unfolding keyed_map_f [OF store_wfD(6) [OF assms]] by (rule keyed_gwf [OF store_wfD(6) [OF assms]])
  then show ?thesis
    unfolding ListRunningJobs_def Let_def by (simp only: distinct_map_exch_sort distinct_map_filter)
qed

lemma ReclaimStale_jobs:
  assumes wf: "wd_wf (cx_uuid c) w" and u: "trim_space u = u" "u \<noteq> []" and r: "ReclaimStale c w u = (w', n)"
    and j: "job_at w i = Some j"
  shows "if jUserID j = u \<and> jStatus j = ''running'' \<and> overdue c j
    then \<exists>j'. job_at w' i = Some j' \<and> jStatus j' = reclaim_outcome c j
    else job_at w' i = Some j"
proof -
  let ?js = "ListRunningJobs (wd_mem w) u"
  have wfm: "store_wf (wd_mem w)" by (rule wd_wfD(2) [OF wf])
  have mem: "sj \<in> set ?js \<longleftrightarrow> job_at w (jID sj) = Some sj \<and> jStatus sj = ''running'' \<and> jUserID sj = u" for sj
    using ListRunningJobs_in [OF wfm] u by simp
  have fld: "fold (\<lambda>sj. reclaim_step c u (first_nonzero [jHeartbeatAt sj, jUpdatedAt sj]) sj) ?js (w, 0) = (w', n)"
    using r by (simp add: ReclaimStale_def)
  have all: "(\<forall>k. k \<notin> jID ` set ?js \<longrightarrow> job_at w' k = job_at w k) \<and>
    (\<forall>sj \<in> set ?js. \<exists>j'. job_at w' (jID sj) = Some j' \<and> jStatus j' = reclaim_outcome c sj \<and>
        (\<not> overdue c sj \<longrightarrow> j' = sj))"
    using reclaim_fold [OF wf ListRunningJobs_distinct [OF wfm] _ fld] mem by blast
  have id: "jID j = i" by (rule job_at_id [OF wf j])
  show ?thesis
  proof (cases "j \<in> set ?js")
    case True
    with all id mem show ?thesis by force
  next
    case False
    have "i \<notin> jID ` set ?js"
    proof
      assume "i \<in> jID ` set ?js"
      then obtain x where "x \<in> set ?js" "jID x = i" by blast
      with mem [of x] j have "x = j" by simp
      with False \<open>x \<in> set ?js\<close> show False by simp
    qed
    with all j False mem id show ?thesis by auto
  qed
qed

section \<open>The terminal event\<close>

text \<open>A terminal transition adds exactly one row to the outbox when a URL is set, none otherwise.\<close>

lemma notify_hooks:
  assumes "wd_wf (cx_uuid c) w"
  shows "m_webhooks (wd_mem (notifyJobTerminal c w v)) =
    m_webhooks (wd_mem w) @
      (if jobWebhookURL (cx_env c) = [] then []
       else [(cx_uuid c (wd_next w), outbox_row c (cx_uuid c (wd_next w)) v)])"
  using gset_new [OF wd_wfD(6) [OF assms]] by (simp add: notifyJobTerminal_eq [OF assms])

lemma finish_job_hooks:
  assumes wf: "wd_wf (cx_uuid c) w" and g: "GetJob (wd_mem w) u i = Inr sj" "same_request sj sj'"
  shows "m_webhooks (wd_mem (fst (finish_job c w sj'))) =
    m_webhooks (wd_mem w) @
      (if jobWebhookURL (cx_env c) = [] then []
       else [(cx_uuid c (wd_next w), outbox_row c (cx_uuid c (wd_next w)) (jobFromStore sj'))])"
  using notify_hooks [OF put_job_old_wd [OF wf GetJob_at [OF g(1)] g(2)]]
  by (simp add: finish_job_eq [OF wf g])

lemma Complete_eq:
  assumes wf: "wd_wf (cx_uuid c) w" and g: "GetJob (wd_mem w) u i = Inr sj"
  shows "Complete c w u i ci = (if is_terminal (jStatus sj) then (w, Inr (jobFromStore sj))
    else (notifyJobTerminal c (put_job (completed_job c ci sj) w) (jobFromStore (completed_job c ci sj)),
          Inr (jobFromStore (completed_job c ci sj))))"
  by (simp add: Complete_def g finish_job_eq [OF wf g completed_job_simps(1)])

section \<open>The order of parallel deliveries\<close>

lemma alist_eqI:
  assumes "map fst xs = map fst ys" "distinct (map fst xs)" "\<And>k. map_of xs k = map_of ys k"
  shows "xs = ys"
proof (rule nth_equalityI)
  show len: "length xs = length ys" using assms(1) by (metis length_map)
  fix i assume i: "i < length xs"
  have key: "fst (xs ! i) = fst (ys ! i)"
    using assms(1) i len by (metis nth_map)
  have "map_of xs (fst (xs ! i)) = Some (snd (xs ! i))"
    using assms(2) i by (simp add: map_of_eq_Some_iff nth_mem)
  moreover have "map_of ys (fst (ys ! i)) = Some (snd (ys ! i))"
    using assms(1,2) i len by (simp add: map_of_eq_Some_iff nth_mem)
  ultimately show "xs ! i = ys ! i" using key assms(3) by (simp add: prod_eq_iff)
qed

lemma finish_fold:
  assumes "wd_wf (cx_uuid c) w" "distinct (map (wID \<circ> fst) rs)"
    and "\<forall>r \<in> set rs. hook_at w (wID (fst r)) = Some (fst r)"
  shows "\<exists>hs. fold (finish_step c) rs (wd_mem w, n) =
       ((wd_mem w)\<lparr>m_webhooks := hs\<rparr>, n + length (filter (fst \<circ> snd) rs)) \<and>
      map fst hs = map fst (m_webhooks (wd_mem w)) \<and>
      (\<forall>k. gget hs k = (case find (\<lambda>r. wID (fst r) = k) rs of
                          None \<Rightarrow> hook_at w k | Some r \<Rightarrow> Some (attempted c (fst r) (snd r))))"
  using assms
proof (induction rs arbitrary: w n)
  case Nil
  then show ?case by (intro exI [of _ "m_webhooks (wd_mem w)"]) simp
next
  case (Cons r rs)
  let ?w = "put_hook (attempted c (fst r) (snd r)) w"
  let ?n = "n + (if fst (snd r) then 1 else 0)"
  have at: "hook_at w (wID (fst r)) = Some (fst r)" using Cons.prems(3) by simp
  have step: "finish_step c r (wd_mem w, n) = (wd_mem ?w, ?n)"
    by (simp add: finish_step_def finishWebhookAttempt_eq [OF Cons.prems(1) at])
  have wf': "wd_wf (cx_uuid c) ?w"
    by (rule put_hook_wd [OF Cons.prems(1)]) (simp add: wd_wfD(4) [OF Cons.prems(1) at])
  have "(wID \<circ> fst) r \<notin> (wID \<circ> fst) ` set rs"
    using Cons.prems(2) by (simp only: list.map distinct.simps list.set_map simp_thms)
  then have ne: "wID (fst x) \<noteq> wID (fst r)" if "x \<in> set rs" for x
    using imageI [OF that, of "wID \<circ> fst"] by (metis comp_apply)
  have cur: "\<forall>x \<in> set rs. hook_at ?w (wID (fst x)) = Some (fst x)"
    using Cons.prems(3) ne by simp
  have d: "distinct (map (wID \<circ> fst) rs)" using Cons.prems(2) unfolding list.map distinct.simps by blast
  obtain hs where hs: "fold (finish_step c) rs (wd_mem ?w, ?n) =
       ((wd_mem ?w)\<lparr>m_webhooks := hs\<rparr>, ?n + length (filter (fst \<circ> snd) rs))"
      "map fst hs = map fst (m_webhooks (wd_mem ?w))"
      "\<forall>k. gget hs k = (case find (\<lambda>r. wID (fst r) = k) rs of
                          None \<Rightarrow> hook_at ?w k | Some r \<Rightarrow> Some (attempted c (fst r) (snd r)))"
    using Cons.IH [OF wf' d cur, of ?n] by blast
  have keys: "map fst (m_webhooks (wd_mem ?w)) = map fst (m_webhooks (wd_mem w))"
  proof -
    have "wID (fst r) \<in> fst ` set (m_webhooks (wd_mem w))" using map_of_SomeD [OF at] by force
    then show ?thesis by (simp add: gset_same_keys)
  qed
  have "find (\<lambda>x. wID (fst x) = wID (fst r)) rs = None"
    using ne by (auto simp: find_None_iff)
  then have get: "\<forall>k. gget hs k = (case find (\<lambda>x. wID (fst x) = k) (r # rs) of
                          None \<Rightarrow> hook_at w k | Some r \<Rightarrow> Some (attempted c (fst r) (snd r)))"
    using hs(3) by (auto split: option.split)
  have "fold (finish_step c) (r # rs) (wd_mem w, n) =
      ((wd_mem w)\<lparr>m_webhooks := hs\<rparr>, n + length (filter (fst \<circ> snd) (r # rs)))"
    using hs(1) by (simp add: step put_hook_def)
  moreover have "map fst hs = map fst (m_webhooks (wd_mem w))" using hs(2) keys by simp
  ultimately show ?case using get by blast
qed

lemma find_perm:
  assumes "mset rs = mset rs'" "distinct (map f rs)"
  shows "find (\<lambda>r. f r = k) rs = find (\<lambda>r. f r = k) rs'"
proof -
  have set: "set rs = set rs'" using mset_eq_setD [OF assms(1)] .
  have inj: "inj_on f (set rs)" using assms(2) by (simp add: distinct_map)
  show ?thesis
  proof (cases "find (\<lambda>r. f r = k) rs")
    case None
    then show ?thesis using set by (metis find_None_iff)
  next
    case (Some r)
    then have r: "r \<in> set rs" "f r = k" using find_SomeD [OF Some] by auto
    then have "find (\<lambda>r. f r = k) rs' \<noteq> None" using set by (auto simp: find_None_iff)
    then obtain r' where r': "find (\<lambda>r. f r = k) rs' = Some r'" by blast
    then have "r' \<in> set rs" "f r' = f r" using find_SomeD [OF r'] set r(2) by auto
    then have "r' = r" by (rule_tac inj_onD [OF inj _ _ r(1)])
    then show ?thesis unfolding r' Some by simp
  qed
qed

lemma process_par_perm:
  assumes wf: "wd_wf (cx_uuid c) w" and d: "distinct (map (wID \<circ> fst) rs)"
    and at: "\<forall>r \<in> set rs. hook_at w (wID (fst r)) = Some (fst r)" and m: "mset rs = mset rs'"
  shows "process_par c rs (wd_mem w) = process_par c rs' (wd_mem w)"
proof -
  have d': "distinct (map (wID \<circ> fst) rs')"
  proof (rule mset_eq_imp_distinct_iff [THEN iffD1, OF _ d])
    show "mset (map (wID \<circ> fst) rs) = mset (map (wID \<circ> fst) rs')" by (simp only: mset_map m)
  qed
  have at': "\<forall>r \<in> set rs'. hook_at w (wID (fst r)) = Some (fst r)"
    using at mset_eq_setD [OF m] by simp
  obtain hs where hs: "process_par c rs (wd_mem w) =
       ((wd_mem w)\<lparr>m_webhooks := hs\<rparr>, 0 + length (filter (fst \<circ> snd) rs))"
      "map fst hs = map fst (m_webhooks (wd_mem w))"
      "\<forall>k. gget hs k = (case find (\<lambda>r. wID (fst r) = k) rs of
                          None \<Rightarrow> hook_at w k | Some r \<Rightarrow> Some (attempted c (fst r) (snd r)))"
    using finish_fold [OF wf d at, of 0] unfolding process_par_def by blast
  obtain hs' where hs': "process_par c rs' (wd_mem w) =
       ((wd_mem w)\<lparr>m_webhooks := hs'\<rparr>, 0 + length (filter (fst \<circ> snd) rs'))"
      "map fst hs' = map fst (m_webhooks (wd_mem w))"
      "\<forall>k. gget hs' k = (case find (\<lambda>r. wID (fst r) = k) rs' of
                          None \<Rightarrow> hook_at w k | Some r \<Rightarrow> Some (attempted c (fst r) (snd r)))"
    using finish_fold [OF wf d' at', of 0] unfolding process_par_def by blast
  have "find (\<lambda>r. wID (fst r) = k) rs = find (\<lambda>r. wID (fst r) = k) rs'" for k
    using find_perm [OF m, of "wID \<circ> fst" k] d by simp
  moreover have "distinct (map fst hs)"
    unfolding hs(2) by (rule keyed_gwf [OF store_wfD(15) [OF wd_wfD(2) [OF wf]]])
  ultimately have "hs = hs'" using hs(2,3) hs'(2,3) by (intro alist_eqI) simp_all
  moreover have "length (filter (fst \<circ> snd) rs) = length (filter (fst \<circ> snd) rs')"
    using m by (metis mset_filter size_mset)
  ultimately show ?thesis using hs(1) hs'(1) by simp
qed

lemma deliver_seq_par:
  assumes "wd_wf (cx_uuid c) w" "distinct (map wID due)"
    and "\<forall>e \<in> set due. hook_at w (wID e) = Some e \<and> wStatus e = ''pending''"
  shows "fold (deliver_step c deliver) due (wd_mem w, n) =
    fold (finish_step c) (map (\<lambda>e. (e, deliver e)) due) (wd_mem w, n)"
  using assms
proof (induction due arbitrary: w n)
  case Nil
  then show ?case by simp
next
  case (Cons e due)
  have at: "hook_at w (wID e) = Some e" "wStatus e = ''pending''" using Cons.prems(3) by simp_all
  have "trim_space (wID e) = wID e \<and> wID e \<noteq> []"
    by (rule issued_trim [OF wd_wfD(1) [OF Cons.prems(1)] wd_wfD(4) [OF Cons.prems(1) at(1)]])
  then have fp: "fresh_pending (wd_mem w) e = Some e"
    using at by (simp add: fresh_pending_def GetWebhookOutbox_def)
  let ?w = "put_hook (attempted c e (deliver e)) w"
  let ?n = "n + (if fst (deliver e) then 1 else 0)"
  have wf': "wd_wf (cx_uuid c) ?w"
    by (rule put_hook_wd [OF Cons.prems(1)]) (simp add: wd_wfD(4) [OF Cons.prems(1) at(1)])
  have ne: "wID x \<noteq> wID e" if "x \<in> set due" for x
    using imageI [OF that, of wID] Cons.prems(2) by auto
  have "deliver_step c deliver e (wd_mem w, n) = (wd_mem ?w, ?n)"
    "finish_step c (e, deliver e) (wd_mem w, n) = (wd_mem ?w, ?n)"
    by (simp_all add: deliver_step_def fp finish_step_def finishWebhookAttempt_eq [OF Cons.prems(1) at(1)])
  moreover have "\<forall>x \<in> set due. hook_at ?w (wID x) = Some x \<and> wStatus x = ''pending''"
    using Cons.prems(3) ne by simp
  ultimately show ?case using Cons.IH [OF wf', of ?n] Cons.prems(2) by simp
qed

lemma ProcessWebhookOutbox_seq:
  assumes wf: "wd_wf (cx_uuid c) w" and perm: "\<And>rs. mset (perm rs) = mset rs"
  shows "process_par c (perm (par_results deliver (ListDueWebhookOutbox (wd_mem w) now l) (wd_mem w))) (wd_mem w) =
    process_seq c deliver (ListDueWebhookOutbox (wd_mem w) now l) (wd_mem w)"
proof -
  let ?due = "ListDueWebhookOutbox (wd_mem w) now l"
  let ?rs = "map (\<lambda>e. (e, deliver e)) ?due"
  have pr: "par_results deliver ?due (wd_mem w) = ?rs" by (rule par_results_due [OF wf refl])
  note pd = par_distinct [OF wf refl, of deliver now l]
  have "process_par c ?rs (wd_mem w) = process_par c (perm ?rs) (wd_mem w)"
    by (rule process_par_perm [OF wf pd(1)]) (use pd(2) perm in auto)
  moreover have "process_seq c deliver ?due (wd_mem w) = process_par c ?rs (wd_mem w)"
    unfolding process_seq_def process_par_def
    by (rule deliver_seq_par [OF wf ListDueWebhookOutbox_distinct [OF wd_wfD(2) [OF wf]]])
       (use due_current(1,2) [OF wf] in auto)
  ultimately show ?thesis by (simp add: pr)
qed

text \<open>One pass, row by row: the rows listed as due are attempted once each, all others stay, and no
  row appears or disappears.\<close>

lemma pass_at:
  assumes wf: "wd_wf (cx_uuid c) w" and perm: "\<And>rs. mset (perm rs) = mset rs" and url: "jobWebhookURL (cx_env c) \<noteq> []"
    and due: "due = ListDueWebhookOutbox (wd_mem w) (cx_now c) (if l \<le> 0 then 32 else l)"
    and w': "w' = fst (ProcessWebhookOutbox c deliver perm w l)"
  shows "hook_at w' k = (case find (\<lambda>e. wID e = k) due of
      None \<Rightarrow> hook_at w k | Some e \<Rightarrow> Some (attempted c e (deliver e)))"
    and "map fst (m_webhooks (wd_mem w')) = map fst (m_webhooks (wd_mem w))"
    and "wd_wf (cx_uuid c) w'"
proof -
  let ?rs = "map (\<lambda>e. (e, deliver e)) due"
  have seq: "process_seq c deliver due (wd_mem w) = process_par c ?rs (wd_mem w)"
    unfolding process_seq_def process_par_def due
    by (rule deliver_seq_par [OF wf ListDueWebhookOutbox_distinct [OF wd_wfD(2) [OF wf]]])
       (use due_current(1,2) [OF wf] in auto)
  have "fst (ProcessWebhookOutbox c deliver perm w l) = w\<lparr>wd_mem := fst (process_par c ?rs (wd_mem w))\<rparr>"
    unfolding ProcessWebhookOutbox_def Let_def due [symmetric]
    using url seq ProcessWebhookOutbox_seq [OF wf perm, of deliver "cx_now c" "if l \<le> 0 then 32 else l"]
    by (simp add: due [symmetric] case_prod_unfold process_par_def)
  moreover obtain hs where hs: "process_par c ?rs (wd_mem w) =
       ((wd_mem w)\<lparr>m_webhooks := hs\<rparr>, 0 + length (filter (fst \<circ> snd) ?rs))"
      "map fst hs = map fst (m_webhooks (wd_mem w))"
      "\<forall>k. gget hs k = (case find (\<lambda>r. wID (fst r) = k) ?rs of
                          None \<Rightarrow> hook_at w k | Some r \<Rightarrow> Some (attempted c (fst r) (snd r)))"
    using finish_fold [OF wf, of ?rs 0] par_distinct [OF wf, of ?rs deliver "cx_now c" "if l \<le> 0 then 32 else l"]
    unfolding process_par_def due by (auto simp: due [symmetric])
  ultimately have eq: "wd_mem w' = (wd_mem w)\<lparr>m_webhooks := hs\<rparr>" by (simp add: w')
  have "find (\<lambda>r. wID (fst r) = k) (map (\<lambda>e. (e, deliver e)) es) =
      map_option (\<lambda>e. (e, deliver e)) (find (\<lambda>e. wID e = k) es)" for es
    by (induction es) simp_all
  with hs(3) show "hook_at w' k = (case find (\<lambda>e. wID e = k) due of
      None \<Rightarrow> hook_at w k | Some e \<Rightarrow> Some (attempted c e (deliver e)))"
    by (simp add: eq option.case_eq_if option.map_sel)
  show "map fst (m_webhooks (wd_mem w')) = map fst (m_webhooks (wd_mem w))" by (simp add: eq hs(2))
  show "wd_wf (cx_uuid c) w'"
    unfolding w' by (rule prims_wd [OF ProcessWebhookOutbox_prims [OF wf perm] wf])
qed

text \<open>With no more rows than a pass may take, a row is taken exactly when it is pending and its next
  attempt has come.\<close>

lemma due_all:
  assumes wf: "wd_wf uuid w" and room: "int (length (m_webhooks (wd_mem w))) \<le> due_limit l" and e: "hook_at w i = Some e"
  shows "find (\<lambda>x. wID x = i) (ListDueWebhookOutbox (wd_mem w) now l) =
    (if wStatus e = ''pending'' \<and> wNextAttemptAt e \<le> now then Some e else None)"
proof -
  let ?due = "ListDueWebhookOutbox (wd_mem w) now l"
  let ?rows = "gvals (m_webhooks (wd_mem w))"
  have "length (filter (is_due now) ?rows) \<le> nat (due_limit l)"
    by (rule le_trans [OF length_filter_le]) (use room in simp)
  then have "take (nat (due_limit l)) (exch_sort (older wNextAttemptAt) (filter (is_due now) ?rows)) =
      exch_sort (older wNextAttemptAt) (filter (is_due now) ?rows)" by simp
  then have "set ?due = {x \<in> set ?rows. is_due now x}"
    unfolding ListDueWebhookOutbox_def by simp
  then have mem: "x \<in> set ?due \<longleftrightarrow> hook_at w (wID x) = Some x \<and> is_due now x" for x
    using keyed_in [OF store_wfD(15) [OF wd_wfD(2) [OF wf]], of x] by auto
  have id: "wID e = i" by (rule hook_at_id [OF wf e])
  show ?thesis
  proof (cases "is_due now e")
    case True
    then have "e \<in> set ?due" using e id by (simp add: mem)
    then have "find (\<lambda>x. wID x = i) ?due \<noteq> None" using id unfolding find_None_iff by blast
    then obtain y where y: "find (\<lambda>x. wID x = i) ?due = Some y" by blast
    have "y \<in> set ?due" "wID y = i" using find_SomeD [OF y] by simp_all
    then have "y = e" using e by (simp add: mem)
    with y have "find (\<lambda>x. wID x = i) ?due = Some e" by simp
    with True show ?thesis by (simp add: is_due_def)
  next
    case False
    then have "find (\<lambda>x. wID x = i) ?due = None" using e by (auto simp: mem find_None_iff)
    with False show ?thesis by (auto simp: is_due_def)
  qed
qed


text \<open>A concrete run of the job service, at which the properties are instantiated: a job of the
  user \<open>alice\<close> is created, claimed and completed, with a webhook URL configured.\<close>

definition demo_env :: environment where
  "demo_env k = (if k = ''AI_CLOUDHUB_JOB_WEBHOOK_URL'' then ''http://hook'' else [])"

definition demo_ctx :: "time \<Rightarrow> ctx" where
  "demo_ctx now = \<lparr>cx_env = demo_env, cx_now = now, cx_uuid = show_nat, cx_lease = 300 * second\<rparr>"

definition demo_input :: create_input where
  "demo_input =
    \<lparr>ciDriveID = ''d'', ciBindingID = [], ciMode = [], ciCommand = [''ls''], ciRegionHint = [],
     ciNote = [], ciConnectorID = [], ciTimeoutSec = 60, ciMaxAttempts = 3, ciPriority = 5,
     ciLabels = [(''a'', ''b'')], ciIdempotencyKey = ''k'', ciAgentID = []\<rparr>"

definition demo_done :: complete_input where
  "demo_done =
    \<lparr>coOK = True, coNote = ''ok'', coExitCode = Some 0, coDurationMs = 7, coStdout = ''out'',
     coStderr = [], coStdoutTruncated = False, coStderrTruncated = False\<rparr>"

definition demo1 :: world where "demo1 = fst (Create (demo_ctx 1) world0 ''alice'' demo_input)"
definition demo2 :: world where "demo2 = fst (Claim (demo_ctx 2) demo1 ''alice'' ''0'' [] ''r'')"
definition demo3 :: world where "demo3 = fst (Complete (demo_ctx 3) demo2 ''alice'' ''0'' demo_done)"

lemma demo_ctx_simps [simp]: "cx_uuid (demo_ctx t) = show_nat" "cx_now (demo_ctx t) = t"
  by (simp_all add: demo_ctx_def)

lemma demo_steps:
  "svc_step show_nat world0 demo1" "svc_step show_nat demo1 demo2" "svc_step show_nat demo2 demo3"
proof -
  show "svc_step show_nat world0 demo1"
    unfolding svc_step_def demo1_def by (intro exI [of _ "demo_ctx 1"]) (simp add: c_create)
  show "svc_step show_nat demo1 demo2"
    unfolding svc_step_def demo2_def by (intro exI [of _ "demo_ctx 2"]) (simp add: c_claim)
  show "svc_step show_nat demo2 demo3"
    unfolding svc_step_def demo3_def by (intro exI [of _ "demo_ctx 3"]) (simp add: c_complete)
qed

lemma demo_reachable:
  "svc_reachable show_nat demo1" "svc_reachable show_nat demo2" "svc_reachable show_nat demo3"
  unfolding svc_reachable_def using demo_steps by (meson rtranclp.rtrancl_into_rtrancl rtranclp.rtrancl_refl)+

lemma demo_wf: "wd_wf show_nat demo1" "wd_wf show_nat demo2" "wd_wf show_nat demo3"
  using demo_reachable reachable_inv [OF uuid_ok_show] by (auto simp: svc_inv_def)

text \<open>Three queued jobs: the first with priority 5, then two with priority 9.\<close>

definition demo_urgent :: "time \<Rightarrow> string \<Rightarrow> world \<Rightarrow> world" where
  "demo_urgent t k w =
     fst (Create (demo_ctx t) w ''alice'' (demo_input\<lparr>ciPriority := 9, ciIdempotencyKey := k\<rparr>))"

definition demo_queue :: world where
  "demo_queue = demo_urgent 3 ''k3'' (demo_urgent 2 ''k2'' demo1)"

text \<open>A running job without a timeout of its own, claimed at the instant 2.\<close>

definition demo_leased :: world where
  "demo_leased =
     fst (Claim (demo_ctx 2) (fst (Create (demo_ctx 1) world0 ''alice'' (demo_input\<lparr>ciTimeoutSec := 0\<rparr>)))
       ''alice'' ''0'' [] ''r'')"

lemma demo_create_step: "0 < t \<Longrightarrow> svc_step show_nat w (fst (Create (demo_ctx t) w u i))"
  unfolding svc_step_def by (intro exI [of _ "demo_ctx t"]) (simp add: c_create)

lemma demo_claim_step: "0 < t \<Longrightarrow> svc_step show_nat w (fst (Claim (demo_ctx t) w u i a r))"
  unfolding svc_step_def by (intro exI [of _ "demo_ctx t"]) (simp add: c_claim)

lemma demo_queue_wf: "wd_wf show_nat demo_queue" "wd_wf show_nat demo_leased"
proof -
  have "svc_step show_nat demo1 (demo_urgent 2 ''k2'' demo1)"
    "svc_step show_nat (demo_urgent 2 ''k2'' demo1) demo_queue"
    unfolding demo_queue_def demo_urgent_def by (rule demo_create_step, simp)+
  with demo_reachable(1) have "svc_reachable show_nat demo_queue"
    unfolding svc_reachable_def by (meson rtranclp.rtrancl_into_rtrancl)
  then show "wd_wf show_nat demo_queue" using reachable_inv [OF uuid_ok_show] by (auto simp: svc_inv_def)
  let ?w = "fst (Create (demo_ctx 1) world0 ''alice'' (demo_input\<lparr>ciTimeoutSec := 0\<rparr>))"
  have "svc_step show_nat world0 ?w" by (rule demo_create_step) simp
  moreover have "svc_step show_nat ?w demo_leased" unfolding demo_leased_def by (rule demo_claim_step) simp
  ultimately have "svc_reachable show_nat demo_leased"
    unfolding svc_reachable_def by (meson rtranclp.rtrancl_into_rtrancl rtranclp.rtrancl_refl)
  then show "wd_wf show_nat demo_leased" using reachable_inv [OF uuid_ok_show] by (auto simp: svc_inv_def)
qed

lemma demo3_status: "map_option jStatus (job_at demo3 ''0'') = Some ''succeeded''"
  by code_simp

lemma demo2_status: "map_option jStatus (job_at demo2 ''0'') = Some ''running''"
  by code_simp

end
