(* ===== verification/Job_Properties.thy ===== *)
theory Job_Properties
  imports Job_Behaviour
begin

text \<open>The properties of the job service, each with a witness at a concrete run where it has
  hypotheses.\<close>

section \<open>Invariants of every reachable world\<close>

text \<open>C1: In every world the service can reach, by any calls in any order with any settings and
  clocks, a stored job is consistent: its status is one of the five used; it carries claim and
  heartbeat instants exactly while it runs; a pending job has no claimer; its output is within
  the hard cap; and its request is within the limits of creation (priority, labels, key length).\<close>

theorem reachable_jobs_consistent:
  assumes "uuid_ok uuid" "svc_reachable uuid w" "job_at w i = Some j"
  shows "job_ok j \<and> request_ok j \<and> jID j = i"
  using reachable_inv [OF assms(1,2)] assms(3) by (auto simp: svc_inv_def job_at_id)

theorem reachable_jobs_consistent_witness:
  "\<exists>j. job_at demo2 ''0'' = Some j \<and> job_ok j \<and> request_ok j \<and> jID j = ''0''"
proof -
  obtain j where j: "job_at demo2 ''0'' = Some j" using demo2_status by auto
  with reachable_jobs_consistent [OF uuid_ok_show demo_reachable(2) j] show ?thesis by blast
qed

text \<open>C2: A job that has reached a terminal status is never modified again: after any further
  calls it is either exactly as it was or removed by the retention, and its identifier is never
  reused.\<close>

theorem terminal_jobs_frozen:
  assumes "uuid_ok uuid" "svc_reachable uuid w" "job_at w i = Some j" "is_terminal (jStatus j)"
    and "(svc_step uuid)\<^sup>*\<^sup>* w w'"
  shows "job_at w' i = None \<or> job_at w' i = Some j"
proof -
  have wf: "wd_wf uuid w" using reachable_inv [OF assms(1,2)] by (simp add: svc_inv_def)
  have "settled (wd_next w) i j w" using assms(3) by (simp add: settled_def)
  then show ?thesis
    using steps_settled [OF assms(5) wf _ wd_wfD(3) [OF wf assms(3)] assms(4)] by (simp add: settled_def)
qed

theorem terminal_jobs_frozen_witness:
  "\<exists>j. job_at demo3 ''0'' = Some j \<and>
     (let w' = fst (Cancel (demo_ctx 9) demo3 ''alice'' ''0'')
      in job_at w' ''0'' = None \<or> job_at w' ''0'' = Some j)"
proof -
  obtain j where j: "job_at demo3 ''0'' = Some j" "is_terminal (jStatus j)"
    using demo3_status by (auto simp: is_terminal_def)
  have "svc_step show_nat demo3 (fst (Cancel (demo_ctx 9) demo3 ''alice'' ''0''))"
    unfolding svc_step_def by (intro exI [of _ "demo_ctx 9"]) (simp add: c_cancel)
  with terminal_jobs_frozen [OF uuid_ok_show demo_reachable(3) j r_into_rtranclp] j(1) show ?thesis
    by (auto simp: Let_def)
qed

text \<open>C3: In every reachable world each row of the webhook outbox reports the final state of a job
  the store still holds (payload, owner and event name agree with it), its own delivery state is
  consistent, and no two rows report the same job: a job is announced at most once.\<close>

theorem outbox_rows_faithful:
  assumes "uuid_ok uuid" "svc_reachable uuid w" "hook_at w i = Some e"
  shows "hook_ok e \<and> (\<exists>j. job_at w (wJobID e) = Some j \<and> reports e j) \<and>
    (\<forall>k f. hook_at w k = Some f \<longrightarrow> wJobID f = wJobID e \<longrightarrow> k = i)"
  using reachable_inv [OF assms(1,2)] hooks_okD [of w i e] assms(3) unfolding svc_inv_def by metis

theorem outbox_rows_faithful_witness:
  "\<exists>e. hook_at demo3 ''1'' = Some e \<and> hook_ok e \<and> (\<exists>j. job_at demo3 (wJobID e) = Some j \<and> reports e j) \<and>
     {k. \<exists>f. hook_at demo3 k = Some f \<and> wJobID f = wJobID e} = {''1''}"
proof -
  have "map_option wJobID (hook_at demo3 ''1'') = Some ''0''" by code_simp
  then obtain e where e: "hook_at demo3 ''1'' = Some e" by auto
  note of = outbox_rows_faithful [OF uuid_ok_show demo_reachable(3) e]
  have "{k. \<exists>f. hook_at demo3 k = Some f \<and> wJobID f = wJobID e} = {''1''}" using of e by blast
  with of e show ?thesis by blast
qed

text \<open>In every reachable world a nonempty idempotency key names at most one job of a user.\<close>

theorem idempotency_keys_unique:
  assumes "uuid_ok uuid" "svc_reachable uuid w" "job_at w i = Some j" "job_at w k = Some l"
    and "jUserID j = jUserID l" "jIdempotencyKey j = jIdempotencyKey l" "jIdempotencyKey j \<noteq> []"
  shows "i = k"
  using reachable_inv [OF assms(1,2)] assms(3-7) unfolding svc_inv_def idem_unique_def by blast

theorem idempotency_keys_unique_witness:
  "{k. \<exists>l. job_at demo3 k = Some l \<and> jUserID l = ''alice'' \<and> jIdempotencyKey l = ''k''} = {''0''}"
proof -
  have "map_option (\<lambda>j. (jUserID j, jIdempotencyKey j)) (job_at demo3 ''0'') = Some (''alice'', ''k'')"
    by code_simp
  then obtain j where j: "job_at demo3 ''0'' = Some j" "jUserID j = ''alice''" "jIdempotencyKey j = ''k''" by auto
  have "''0'' = k" if "job_at demo3 k = Some l" "jUserID l = ''alice''" "jIdempotencyKey l = ''k''" for k l
    by (rule idempotency_keys_unique [OF uuid_ok_show demo_reachable(3) j(1) that(1)]) (use j that in simp_all)
  then show ?thesis using j by blast
qed

text \<open>Once the note of a stored job is within 2000 bytes, no further calls of the service let
  it grow beyond.\<close>

theorem notes_stay_bounded:
  assumes "uuid_ok uuid" "svc_reachable uuid w" "job_at w i = Some j" "length (jNote j) \<le> 2000"
    and "(svc_step uuid)\<^sup>*\<^sup>* w w'" "job_at w' i = Some j'"
  shows "length (jNote j') \<le> 2000"
proof -
  have wf: "wd_wf uuid w" using reachable_inv [OF assms(1,2)] by (simp add: svc_inv_def)
  have "short_note (wd_next w) i w" using assms(3,4) by (simp add: short_note_def)
  then show ?thesis
    using steps_short_note [OF assms(5) wf _ wd_wfD(3) [OF wf assms(3)]] assms(6) by (simp add: short_note_def)
qed

theorem notes_stay_bounded_witness:
  "\<exists>j'. job_at demo3 ''0'' = Some j' \<and> length (jNote j') \<le> 2000"
proof -
  have "map_option (\<lambda>j. length (jNote j) \<le> 2000) (job_at demo1 ''0'') = Some True" by code_simp
  then obtain j where j: "job_at demo1 ''0'' = Some j" "length (jNote j) \<le> 2000" by auto
  obtain j' where j': "job_at demo3 ''0'' = Some j'" using demo3_status by auto
  have "(svc_step show_nat)\<^sup>*\<^sup>* demo1 demo3" using demo_steps by (meson rtranclp.simps)
  from notes_stay_bounded [OF uuid_ok_show demo_reachable(1) j this j'] j' show ?thesis by blast
qed

section \<open>Creation\<close>



text \<open>A key already used by the user is never given to a second job: whatever the input, the
  call changes nothing, and it returns the stored job when the payload is the same and the
  conflict error when it is not.\<close>

theorem create_key_conflict:
  assumes "GetJobByIdempotencyKey (wd_mem w) u (ciIdempotencyKey ci) = Inr e"
    and "trim_space (ciDriveID ci) \<noteq> []" "ciCommand ci \<noteq> []"
    and "length (trim_space (ciIdempotencyKey ci)) \<le> 128" "encodeJobLabels (ciLabels ci) = Inr labels"
  shows "Create c w u ci =
    (w, if jDriveID e = ciDriveID ci \<and> jBindingID e = ciBindingID ci \<and> jCommand e = ciCommand ci \<and>
           jMode e = (if ciMode ci = [] then ''mount'' else ciMode ci) \<and>
           trim_space (jRegionHint e) = trim_space (ciRegionHint ci) \<and>
           jConnectorID e = trim_space (ciConnectorID ci) \<and> jPriority e = max (-1000) (min 1000 (ciPriority ci)) \<and>
           jTimeoutSec e = max 0 (ciTimeoutSec ci) \<and> jMaxAttempts e = max 0 (ciMaxAttempts ci) \<and>
           mapsEqual (jLabels e) labels
        then Inr (jobFromStore e, False) else Inl ErrIdempotencyConflict)"
proof -
  have key: "trim_space (ciIdempotencyKey ci) \<noteq> []"
    using assms(1) by (auto simp: GetJobByIdempotencyKey_def Let_def split: if_splits)
  have get: "GetJobByIdempotencyKey (wd_mem w) u (trim_space (ciIdempotencyKey ci)) = Inr e"
    using assms(1) by (simp add: GetJobByIdempotencyKey_def)
  have lab: "(if jLabels e = [] \<and> labels = [] then True else if jLabels e = [] \<or> labels = [] then False
      else mapsEqual (jLabels e) labels) = mapsEqual (jLabels e) labels"
    by (auto simp: mapsEqual_def)
  have nums: "clamp_priority (ciPriority ci) = max (-1000) (min 1000 (ciPriority ci))"
    "(if ciTimeoutSec ci < 0 then 0 else ciTimeoutSec ci) = max 0 (ciTimeoutSec ci)"
    "(if ciMaxAttempts ci < 0 then 0 else ciMaxAttempts ci) = max 0 (ciMaxAttempts ci)"
    by (auto simp: clamp_priority_def Let_def)
  show ?thesis
    using assms(2-5) key get
    by (simp add: Create_def idem_check_def Let_def sameCreatePayload_def lab nums)
qed

theorem create_key_conflict_witness:
  "Create (demo_ctx 4) demo3 ''alice'' (demo_input\<lparr>ciCommand := [''rm'']\<rparr>) = (demo3, Inl ErrIdempotencyConflict)"
proof -
  have "case GetJobByIdempotencyKey (wd_mem demo3) ''alice'' ''k'' of Inr e \<Rightarrow> jCommand e = [''ls''] | Inl _ \<Rightarrow> False"
    by code_simp
  then obtain e where e: "GetJobByIdempotencyKey (wd_mem demo3) ''alice''
      (ciIdempotencyKey (demo_input\<lparr>ciCommand := [''rm'']\<rparr>)) = Inr e" "jCommand e = [''ls'']"
    by (auto simp: demo_input_def split: sum.splits)
  have l: "encodeJobLabels (ciLabels (demo_input\<lparr>ciCommand := [''rm'']\<rparr>)) = Inr [(''a'', ''b'')]" by code_simp
  have d: "trim_space (ciDriveID (demo_input\<lparr>ciCommand := [''rm'']\<rparr>)) \<noteq> []"
    "length (trim_space (ciIdempotencyKey (demo_input\<lparr>ciCommand := [''rm'']\<rparr>))) \<le> 128" by code_simp+
  show ?thesis using create_key_conflict [OF e(1) d(1) _ d(2) l, of "demo_ctx 4"] e(2) by simp
qed

section \<open>Listing\<close>

text \<open>C15: Fetching page after page with the returned cursors enumerates the filtered listing of a
  user completely, without gaps or repetitions, newest first, whatever the page size.\<close>

theorem pagination_complete:
  assumes "uuid_ok uuid" "svc_reachable uuid w" "lfCursor f = None"
    and "length (job_listing (wd_mem w) (store_filter u f)) < n"
  shows "all_pages n w u f = map jobFromStore (job_listing (wd_mem w) (store_filter u f)) \<and>
    distinct (map vwID (all_pages n w u f)) \<and>
    sorted_wrt job_newer (job_listing (wd_mem w) (store_filter u f)) \<and>
    set (job_listing (wd_mem w) (store_filter u f)) =
      {j. job_at w (jID j) = Some j \<and> job_list_matches (store_filter u f) j}"
proof -
  let ?js = "job_listing (wd_mem w) (store_filter u f)"
  have inv: "svc_inv uuid w" by (rule reachable_inv [OF assms(1,2)])
  then have wf: "wd_wf uuid w" "store_wf (wd_mem w)" by (auto simp: svc_inv_def wd_wf_def)
  have set: "set ?js = {j. job_at w (jID j) = Some j \<and> job_list_matches (store_filter u f) j}"
    using jobs_in [OF wf(2)] by (auto simp: job_listing_def)
  have ok: "\<forall>j \<in> set ?js. jCreatedAt j \<noteq> 0 \<and> jID j \<noteq> []"
  proof
    fix j assume "j \<in> set ?js"
    then have at: "job_at w (jID j) = Some j" using set by blast
    then have "request_ok j" using inv by (auto simp: svc_inv_def)
    with issued_trim [OF assms(1) wd_wfD(3) [OF wf(1) at]] show "jCreatedAt j \<noteq> 0 \<and> jID j \<noteq> []"
      by (simp add: request_ok_def)
  qed
  have pages: "all_pages n w u f = map jobFromStore ?js"
    by (rule all_pages_listing [OF wf(2) assms(3) refl ok assms(4)])
  have "distinct (map jID (gvals (m_jobs (wd_mem w))))"
    unfolding keyed_map_f [OF store_wfD(6) [OF wf(2)]] by (rule keyed_gwf [OF store_wfD(6) [OF wf(2)]])
  then have "distinct (map jID ?js)"
    unfolding job_listing_def by (simp only: distinct_map_exch_sort distinct_map_filter)
  then have "distinct (map vwID (all_pages n w u f))" by (simp add: pages comp_def)
  then show ?thesis using pages set job_listing_strict [OF wf(2)] by blast
qed

definition demo_filter :: list_filter where
  "demo_filter =
    \<lparr>lfAgentID = [], lfClaimedByAgentID = [], lfClaimedByRunnerID = [], lfRegionHint = [], lfStatus = [],
     lfLabels = [], lfLimit = 1, lfCursor = None\<rparr>"

theorem pagination_complete_witness:
  "all_pages 3 demo3 ''alice'' demo_filter =
     map jobFromStore (job_listing (wd_mem demo3) (store_filter ''alice'' demo_filter)) \<and>
   length (all_pages 3 demo3 ''alice'' demo_filter) = 1"
proof -
  have len: "length (job_listing (wd_mem demo3) (store_filter ''alice'' demo_filter)) = 1" by code_simp
  then have "all_pages 3 demo3 ''alice'' demo_filter =
     map jobFromStore (job_listing (wd_mem demo3) (store_filter ''alice'' demo_filter))"
    using pagination_complete [OF uuid_ok_show demo_reachable(3), of demo_filter "''alice''" 3]
    by (simp add: demo_filter_def)
  with len show ?thesis by simp
qed

end

