(* ===== verification/Queue_Properties.thy ===== *)
theory Queue_Properties
  imports Job_Behaviour
begin

text \<open>Properties of claiming, reclaiming, delivery, retention and settings of the job service.\<close>

section \<open>Claiming\<close>



text \<open>A claim is won once: after a successful claim, a claim of the same job by anybody is
  refused until the job is released.\<close>

theorem claim_won_once:
  assumes "ClaimPendingJob now m u i a r = Inr (m', j')"
  shows "jStatus j' = ''running'' \<and> (\<exists>e. ClaimPendingJob now' m' u' i a' r' = Inl e)"
  using assms ClaimPendingJob_once [OF assms] by (auto simp: ClaimPendingJob_iff)

theorem claim_won_once_witness:
  "\<exists>m' j'. ClaimPendingJob 2 (wd_mem demo1) ''alice'' ''0'' [] ''r1'' = Inr (m', j') \<and>
     (\<exists>e. ClaimPendingJob 2 m' ''alice'' ''0'' [] ''r2'' = Inl e)"
proof -
  have "case ClaimPendingJob 2 (wd_mem demo1) ''alice'' ''0'' [] ''r1'' of Inr _ \<Rightarrow> True | _ \<Rightarrow> False" by code_simp
  then obtain m' j' where cl: "ClaimPendingJob 2 (wd_mem demo1) ''alice'' ''0'' [] ''r1'' = Inr (m', j')"
    by (auto split: sum.splits)
  from claim_won_once [OF cl, of 2 "''alice''" "[]" "''r2''"] cl show ?thesis by blast
qed

text \<open>The policy-filtered claim leaves no denied job claimed: a job that runs after the call
  either ran already after the reclaim pass, or is the job returned, whose drive the policy
  allowed both before and after the claim.\<close>

theorem filtered_claim_respects_policy:
  assumes "wd_wf (cx_uuid c) w" "w1 = fst (ReclaimStale c w u)"
    and "ClaimNextFiltered c w u a r region (Some (allow, recheck)) = (w', res)" "is_running w' i"
  shows "is_running w1 i \<or>
    (\<exists>v. res = Inr v \<and> vwID v = i \<and> allow (vwDriveID v) = [] \<and> recheck (vwDriveID v) = [])"
  using assms by (rule ClaimNextFiltered_running)

theorem filtered_claim_respects_policy_witness:
  "\<not> is_running (fst (ClaimNextFiltered (demo_ctx 2) demo1 ''alice'' [] ''r'' []
      (Some (\<lambda>_. [], \<lambda>d. if d = ''d'' then ''denied'' else [])))) ''0''"
proof
  let ?p = "Some (\<lambda>_. [], \<lambda>d. if d = ''d'' then ''denied'' else [] :: string)"
  assume run: "is_running (fst (ClaimNextFiltered (demo_ctx 2) demo1 ''alice'' [] ''r'' [] ?p)) ''0''"
  obtain w' res where cn: "ClaimNextFiltered (demo_ctx 2) demo1 ''alice'' [] ''r'' [] ?p = (w', res)" by fastforce
  have wf: "wd_wf (cx_uuid (demo_ctx 2)) demo1" using demo_wf(1) by simp
  have "case snd (ClaimNextFiltered (demo_ctx 2) demo1 ''alice'' [] ''r'' [] ?p) of Inl _ \<Rightarrow> True | Inr _ \<Rightarrow> False"
    by code_simp
  then obtain e where "res = Inl e" using cn by (auto split: sum.splits)
  moreover have "map_option jStatus (job_at (fst (ReclaimStale (demo_ctx 2) demo1 ''alice'')) ''0'') = Some ''pending''"
    by code_simp
  then have "\<not> is_running (fst (ReclaimStale (demo_ctx 2) demo1 ''alice'')) ''0''"
    by (auto simp: is_running_def)
  ultimately show False
    using filtered_claim_respects_policy [OF wf refl cn] run cn by auto
qed

section \<open>Reclaiming\<close>

text \<open>C9: A reclaim pass over a user ends exactly the runs that are late or lost, and leaves every
  other job untouched. A run is late when its job has a timeout (its own, or the configured one)
  and the instant of the pass is past its claim (or, without one, its last heartbeat or update)
  plus the timeout; it is lost when leases are on and its last heartbeat (or, without one, its last
  update) plus the lease lies before the instant of the pass. A late run, and a lost one that has
  used up its attempts, fails; any other lost run goes back to the queue.\<close>

theorem reclaim_is_exact:
  fixes c j
  defines "now \<equiv> cx_now c" and "sec \<equiv> if 0 < jTimeoutSec j then jTimeoutSec j else effectiveTimeoutSec (cx_env c) 0"
    and "start \<equiv> if jClaimedAt j \<noteq> 0 then jClaimedAt j else if jHeartbeatAt j \<noteq> 0 then jHeartbeatAt j else jUpdatedAt j"
    and "beat \<equiv> if jHeartbeatAt j \<noteq> 0 then jHeartbeatAt j else jUpdatedAt j"
  defines "late \<equiv> 0 < sec \<and> start \<noteq> 0 \<and> start + duration_secs sec < now"
    and "lost \<equiv> 0 < cx_lease c \<and> beat \<noteq> 0 \<and> beat + cx_lease c < now"
    and "used_up \<equiv> 0 < jMaxAttempts j \<and> jMaxAttempts j \<le> jAttemptCount j"
  assumes "wd_wf (cx_uuid c) w" "trim_space u = u" "u \<noteq> []" "ReclaimStale c w u = (w', n)"
    and "job_at w i = Some j"
  shows "if jUserID j = u \<and> jStatus j = ''running'' \<and> (late \<or> lost)
    then \<exists>j'. job_at w' i = Some j' \<and>
      jStatus j' = (if late \<or> used_up then ''failed'' else ''pending'')
    else job_at w' i = Some j"
proof -
  have "effectiveTimeoutSec (cx_env c) (jTimeoutSec j) = sec"
    by (simp add: sec_def effectiveTimeoutSec_def)
  note sec = this
  have od: "overdue c j \<longleftrightarrow> late \<or> lost" and "timed_out c j \<longleftrightarrow> late"
    unfolding overdue_def timed_out_def lease_expired_def first_nonzero_def Let_def sec
      late_def lost_def now_def start_def beat_def by auto
  then have "overdue c j \<Longrightarrow> reclaim_outcome c j = (if late \<or> used_up then ''failed'' else ''pending'')"
    unfolding reclaim_outcome_def used_up_def by simp
  with ReclaimStale_jobs [OF assms(8-12)] od show ?thesis by (auto split: if_splits)
qed

text \<open>The witness: a deadline that passed, a lease that is not over at its last instant, and the
  same lease one nanosecond later.\<close>

theorem reclaim_is_exact_witness:
  "map_option jStatus (job_at (fst (ReclaimStale (demo_ctx (61 * second)) demo2 ''alice'')) ''0'') = Some ''failed'' \<and>
   map_option jStatus (job_at (fst (ReclaimStale (demo_ctx (300 * second + 2)) demo_leased ''alice'')) ''0'') = Some ''running'' \<and>
   map_option jStatus (job_at (fst (ReclaimStale (demo_ctx (300 * second + 3)) demo_leased ''alice'')) ''0'') = Some ''pending''"
proof -
  let ?f = "\<lambda>j. (jUserID j, jStatus j, jClaimedAt j, jHeartbeatAt j, jTimeoutSec j, jMaxAttempts j, jAttemptCount j)"
  have "map_option ?f (job_at demo2 ''0'') = Some (''alice'', ''running'', 2, 2, 60, 3, 1)" by code_simp
  then obtain j where j: "job_at demo2 ''0'' = Some j" "?f j = (''alice'', ''running'', 2, 2, 60, 3, 1)" by auto
  have "map_option ?f (job_at demo_leased ''0'') = Some (''alice'', ''running'', 2, 2, 0, 3, 1)" by code_simp
  then obtain k where k: "job_at demo_leased ''0'' = Some k" "?f k = (''alice'', ''running'', 2, 2, 0, 3, 1)" by auto
  have t: "trim_space ''alice'' = ''alice''" "effectiveTimeoutSec demo_env 0 = 0"
    "effectiveTimeoutSec demo_env 60 = 60" "duration_secs 60 = 60 * second" by code_simp+
  have wf: "wd_wf (cx_uuid (demo_ctx t)) demo2" "wd_wf (cx_uuid (demo_ctx t)) demo_leased" for t
    using demo_wf(2) demo_queue_wf(2) by simp_all
  note at = reclaim_is_exact [OF _ t(1) _ prod.collapse [symmetric]]
  have env: "cx_env (demo_ctx t) = demo_env" "cx_lease (demo_ctx t) = 300 * second" for t
    by (simp_all add: demo_ctx_def)
  show ?thesis
    using at [OF wf(1) _ j(1), of "61 * second"] at [OF wf(2) _ k(1), of "300 * second + 2"]
      at [OF wf(2) _ k(1), of "300 * second + 3"] j k t env by auto
qed

lemma duration_wraps: "duration_secs 10000000000 < 0"
  unfolding duration_secs_def by code_simp

text \<open>C17: The deadline of a running job is exact for timeouts up to 9223372036 s; past that the
  64-bit product of seconds and nanoseconds wraps around, and a larger timeout can expire at
  once: a job with a timeout of 10^10 s is timed out at the instant of its claim.\<close>

theorem deadline_exact_until_wrap:
  assumes "0 < jTimeoutSec j" "jClaimedAt j \<noteq> 0"
  shows "(jTimeoutSec j \<le> 9223372036 \<longrightarrow> (timed_out c j \<longleftrightarrow> cx_now c > jClaimedAt j + jTimeoutSec j * second)) \<and>
    (jTimeoutSec j = 10000000000 \<longrightarrow> cx_now c = jClaimedAt j \<longrightarrow> timed_out c j)"
proof -
  have st: "timed_out c j \<longleftrightarrow> cx_now c > jClaimedAt j + duration_secs (jTimeoutSec j)"
    using assms by (simp add: timed_out_def effectiveTimeoutSec_def first_nonzero_def)
  show ?thesis using st assms(1) duration_wraps by (auto simp: duration_secs_exact)
qed

theorem deadline_exact_until_wrap_witness:
  "\<exists>j. job_at demo2 ''0'' = Some j \<and> (timed_out (demo_ctx 5) j \<longleftrightarrow> 5 > jClaimedAt j + 60 * second)"
proof -
  have "map_option (\<lambda>j. (jTimeoutSec j, jClaimedAt j \<noteq> 0)) (job_at demo2 ''0'') = Some (60, True)" by code_simp
  then obtain j where j: "job_at demo2 ''0'' = Some j" "jTimeoutSec j = 60" "jClaimedAt j \<noteq> 0" by auto
  with deadline_exact_until_wrap [of j "demo_ctx 5"] show ?thesis by simp
qed

section \<open>The terminal event and its delivery\<close>

text \<open>Completing a job that is not terminal appends exactly one row to the outbox, reporting
  the completed job, when a webhook URL is set, and none otherwise; completing a terminal job
  changes nothing at all.\<close>

theorem completion_announced_once:
  assumes "wd_wf (cx_uuid c) w" "GetJob (wd_mem w) u i = Inr sj" "Complete c w u i co = (w', res)"
  shows "if is_terminal (jStatus sj) then w' = w \<and> res = Inr (jobFromStore sj)
    else res = Inr (jobFromStore (completed_job c co sj)) \<and> job_at w' i = Some (completed_job c co sj) \<and>
      m_webhooks (wd_mem w') = m_webhooks (wd_mem w) @
        (if jobWebhookURL (cx_env c) = [] then []
         else [(cx_uuid c (wd_next w),
                outbox_row c (cx_uuid c (wd_next w)) (jobFromStore (completed_job c co sj)))])"
proof (cases "is_terminal (jStatus sj)")
  case True
  then show ?thesis using assms(3) by (simp add: Complete_eq [OF assms(1,2)])
next
  case False
  have "Complete c w u i co = finish_job c w (completed_job c co sj)"
    using False by (simp add: Complete_def assms(2))
  then show ?thesis
    using False assms(3) finish_job_hooks [OF assms(1,2) completed_job_simps(1), of c co]
      finish_job_at(1) [OF assms(1,2) completed_job_simps(1), of c co i]
      finish_job_eq [OF assms(1,2) completed_job_simps(1), of c co] by simp
qed

theorem completion_announced_once_witness:
  "\<exists>sj. GetJob (wd_mem demo2) ''alice'' ''0'' = Inr sj \<and>
     job_at demo3 ''0'' = Some (completed_job (demo_ctx 3) demo_done sj) \<and> length (m_webhooks (wd_mem demo3)) = 1"
proof -
  have "case GetJob (wd_mem demo2) ''alice'' ''0'' of Inr sj \<Rightarrow> \<not> is_terminal (jStatus sj) | Inl _ \<Rightarrow> False" by code_simp
  then obtain sj where sj: "GetJob (wd_mem demo2) ''alice'' ''0'' = Inr sj" "\<not> is_terminal (jStatus sj)"
    by (auto split: sum.splits)
  have wf: "wd_wf (cx_uuid (demo_ctx 3)) demo2" using demo_wf(2) by simp
  have "m_webhooks (wd_mem demo2) = []" "jobWebhookURL demo_env \<noteq> []" by code_simp+
  then show ?thesis
    using completion_announced_once [OF wf sj(1) prod.collapse [symmetric], of demo_done] sj
    unfolding demo3_def [symmetric] by (simp add: demo_ctx_def)
qed

text \<open>A delivery pass with parallel deliveries leaves the same store and the same count as the
  sequential pass, in whatever order the parallel deliveries complete.\<close>

theorem delivery_order_irrelevant:
  assumes "wd_wf (cx_uuid c) w" "\<And>rs. mset (perm rs) = mset rs"
  shows "process_par c (perm (par_results deliver (ListDueWebhookOutbox (wd_mem w) now l) (wd_mem w))) (wd_mem w) =
    process_seq c deliver (ListDueWebhookOutbox (wd_mem w) now l) (wd_mem w)"
  using assms by (rule ProcessWebhookOutbox_seq)

theorem delivery_order_irrelevant_witness:
  "process_par (demo_ctx 4) (rev (par_results (\<lambda>_. (True, [])) (ListDueWebhookOutbox (wd_mem demo3) 4 8) (wd_mem demo3)))
     (wd_mem demo3) =
   process_seq (demo_ctx 4) (\<lambda>_. (True, [])) (ListDueWebhookOutbox (wd_mem demo3) 4 8) (wd_mem demo3) \<and>
   snd (process_seq (demo_ctx 4) (\<lambda>_. (True, [])) (ListDueWebhookOutbox (wd_mem demo3) 4 8) (wd_mem demo3)) = 1"
proof -
  have wf: "wd_wf (cx_uuid (demo_ctx 4)) demo3" using demo_wf(3) by simp
  have "snd (process_seq (demo_ctx 4) (\<lambda>_. (True, [])) (ListDueWebhookOutbox (wd_mem demo3) 4 8) (wd_mem demo3)) = 1"
    by code_simp
  then show ?thesis using delivery_order_irrelevant [OF wf, of rev] by simp
qed

text \<open>A pass of the delivery worker: its instant, its limit, what each delivery answers and the
  order in which parallel deliveries complete. A run is a sequence of passes over the stored
  outbox.\<close>

record delivery_pass =
  dpNow :: time
  dpLimit :: int
  dpDeliver :: "webhook_outbox \<Rightarrow> bool \<times> string"
  dpOrder :: "(webhook_outbox \<times> bool \<times> string) list \<Rightarrow> (webhook_outbox \<times> bool \<times> string) list"

definition one_pass :: "ctx \<Rightarrow> delivery_pass \<Rightarrow> world \<Rightarrow> world" where
  "one_pass c p w = fst (ProcessWebhookOutbox (c\<lparr>cx_now := dpNow p\<rparr>) (dpDeliver p) (dpOrder p) w (dpLimit p))"

definition run_passes :: "ctx \<Rightarrow> delivery_pass list \<Rightarrow> world \<Rightarrow> world" where
  "run_passes c ps w = fold (one_pass c) ps w"

text \<open>A pass at which the receiver refuses the row \<open>i\<close>, whose parallel deliveries complete in some
  order, and whose limit leaves room for \<open>n\<close> rows.\<close>

definition refuses :: "string \<Rightarrow> nat \<Rightarrow> delivery_pass \<Rightarrow> bool" where
  "refuses i n p \<longleftrightarrow> (\<forall>e. wID e = i \<longrightarrow> \<not> fst (dpDeliver p e)) \<and> (\<forall>rs. mset (dpOrder p rs) = mset rs) \<and>
     n \<le> 200 \<and> (if dpLimit p \<le> 0 then n \<le> 32 else int n \<le> dpLimit p)"

text \<open>The schedule a refused row should follow: an attempt whenever the next attempt has come and
  attempts are left, and after it a delay from the table, or the end.\<close>

definition retry_delay :: "environment \<Rightarrow> int \<Rightarrow> duration" where
  "retry_delay env a =
     (if envv env ''AI_CLOUDHUB_JOB_WEBHOOK_BACKOFF_SEC'' = ''0'' then 1000000 else backoff_secs a * second)"

fun retry :: "int \<Rightarrow> (int \<Rightarrow> duration) \<Rightarrow> time \<Rightarrow> int \<times> time \<Rightarrow> int \<times> time" where
  "retry mx delay t (a, next_at) =
     (if a < mx \<and> next_at \<le> t then (a + 1, if a + 1 < mx then t + delay (a + 1) else next_at)
      else (a, next_at))"

definition on_schedule :: "int \<Rightarrow> int \<times> time \<Rightarrow> webhook_outbox \<Rightarrow> bool" where
  "on_schedule mx s e \<longleftrightarrow>
     (wAttempts e, wNextAttemptAt e) = s \<and> wAttempts e \<le> mx \<and>
     wStatus e = (if wAttempts e = mx then ''dead'' else ''pending'')"

lemma refused_pass:
  assumes wf: "wd_wf (cx_uuid c) w" and url: "jobWebhookURL (cx_env c) \<noteq> []"
    and ref: "refuses i (length (m_webhooks (wd_mem w))) p" and e: "hook_at w i = Some e"
    and s: "on_schedule (jobWebhookMaxAttempts (cx_env c)) s e"
  shows "wd_wf (cx_uuid c) (one_pass c p w)"
    and "length (m_webhooks (wd_mem (one_pass c p w))) = length (m_webhooks (wd_mem w))"
    and "\<exists>e'. hook_at (one_pass c p w) i = Some e' \<and>
      on_schedule (jobWebhookMaxAttempts (cx_env c))
        (retry (jobWebhookMaxAttempts (cx_env c)) (retry_delay (cx_env c)) (dpNow p) s) e'"
proof -
  let ?c = "c\<lparr>cx_now := dpNow p\<rparr>" and ?l = "if dpLimit p \<le> 0 then 32 else dpLimit p"
  have wf': "wd_wf (cx_uuid ?c) w" and url': "jobWebhookURL (cx_env ?c) \<noteq> []" using wf url by simp_all
  have ord: "mset (dpOrder p rs) = mset rs" for rs using ref by (simp add: refuses_def)
  note at = pass_at [OF wf' ord url' refl one_pass_def]
  show "wd_wf (cx_uuid c) (one_pass c p w)" using at(3) by simp
  show "length (m_webhooks (wd_mem (one_pass c p w))) = length (m_webhooks (wd_mem w))"
    using arg_cong [OF at(2), of length] by (simp only: length_map)
  have "int (length (m_webhooks (wd_mem w))) \<le> due_limit ?l"
    using ref by (auto simp: refuses_def due_limit_def Let_def split: if_splits)
  note due = due_all [OF wf this e, of "dpNow p"]
  have "\<not> fst (dpDeliver p e)" using ref hook_at_id [OF wf e] by (simp add: refuses_def)
  then obtain why where why: "dpDeliver p e = (False, why)" by (cases "dpDeliver p e") simp
  have delay: "webhookBackoff (cx_env c) a = retry_delay (cx_env c) a" for a
    by (simp add: webhookBackoff_eq retry_delay_def)
  show "\<exists>e'. hook_at (one_pass c p w) i = Some e' \<and>
      on_schedule (jobWebhookMaxAttempts (cx_env c))
        (retry (jobWebhookMaxAttempts (cx_env c)) (retry_delay (cx_env c)) (dpNow p) s) e'"
    using s e why at(1) [of i] due
    by (cases s) (auto simp: on_schedule_def attempted_def Let_def delay split: if_splits)
qed

lemma refused_run:
  assumes "wd_wf (cx_uuid c) w" "jobWebhookURL (cx_env c) \<noteq> []"
    and "\<forall>p \<in> set ps. refuses i (length (m_webhooks (wd_mem w))) p" "hook_at w i = Some e"
    and "on_schedule (jobWebhookMaxAttempts (cx_env c)) s e"
  shows "\<exists>e'. hook_at (run_passes c ps w) i = Some e' \<and>
    on_schedule (jobWebhookMaxAttempts (cx_env c))
      (fold (retry (jobWebhookMaxAttempts (cx_env c)) (retry_delay (cx_env c))) (map dpNow ps) s) e'"
  using assms
proof (induction ps arbitrary: w s e)
  case Nil
  then show ?case by (auto simp: run_passes_def)
next
  case (Cons p ps)
  have r: "refuses i (length (m_webhooks (wd_mem w))) p" using Cons.prems(3) by simp
  note step = refused_pass [OF Cons.prems(1,2) r Cons.prems(4,5)]
  from step(3) obtain e' where "hook_at (one_pass c p w) i = Some e'"
    "on_schedule (jobWebhookMaxAttempts (cx_env c))
      (retry (jobWebhookMaxAttempts (cx_env c)) (retry_delay (cx_env c)) (dpNow p) s) e'" by blast
  from Cons.IH [OF step(1) Cons.prems(2) _ this] Cons.prems(3) step(2) show ?case
    by (simp add: run_passes_def)
qed

text \<open>Clocks at least the longest delay apart, the first not before the row is due.\<close>

fun spaced :: "time \<Rightarrow> time list \<Rightarrow> bool" where
  "spaced t0 [] = True"
| "spaced t0 (t # ts) = (t0 \<le> t \<and> spaced (t + 14400 * second) ts)"

lemma retry_delay_range: "0 < retry_delay env a \<and> retry_delay env a \<le> 14400 * second"
  using backoff_secs_range [of a] by (simp add: retry_delay_def)

lemma spaced_mono: "spaced t ts \<Longrightarrow> t' \<le> t \<Longrightarrow> spaced t' ts"
  by (cases ts) auto

lemma spaced_attempts:
  assumes "spaced t0 ts" "next_at \<le> t0" "0 \<le> a" "a \<le> mx"
  shows "fst (fold (retry mx (retry_delay env)) ts (a, next_at)) = min (a + int (length ts)) mx"
  using assms
proof (induction ts arbitrary: t0 a next_at)
  case Nil
  then show ?case by simp
next
  case (Cons t ts)
  show ?case
  proof (cases "a < mx")
    case True
    have "spaced (t + 14400 * second) ts" "next_at \<le> t" using Cons.prems by auto
    moreover have "t + retry_delay env (a + 1) \<le> t + 14400 * second" "next_at \<le> t + 14400 * second"
      using retry_delay_range [of env "a + 1"] \<open>next_at \<le> t\<close> by auto
    ultimately show ?thesis
      using True Cons.IH [of "t + 14400 * second" "t + retry_delay env (a + 1)" "a + 1"]
        Cons.IH [of "t + 14400 * second" next_at "a + 1"] Cons.prems by auto
  next
    case False
    have "fold (retry mx (retry_delay env)) ss (a, n) = (a, n)" for ss n
      using False by (induction ss) simp_all
    with False Cons.prems(4) show ?thesis by simp
  qed
qed

text \<open>C16: A new row whose deliveries the receiver keeps refusing follows its schedule through every
  run of delivery passes, sequential or parallel: it is attempted at exactly the passes at which its
  next attempt has come, the delays between its attempts are those of the table (5 s up to 4 h),
  after the configured number of attempts it is dead and no pass touches it again, and until then
  it is pending. When the passes are at least 4 h apart, n passes make n attempts, so the row is
  dead after exactly the configured number of them. The limit of each pass has room for the rows of
  the outbox.\<close>

theorem failing_row_dies_on_time:
  assumes "wd_wf (cx_uuid c) w" "jobWebhookURL (cx_env c) \<noteq> []"
    and "hook_at w i = Some e" "wStatus e = ''pending''" "wAttempts e = 0"
    and "\<forall>p \<in> set ps. refuses i (length (m_webhooks (wd_mem w))) p"
  shows "\<exists>e'. hook_at (run_passes c ps w) i = Some e' \<and>
    (wAttempts e', wNextAttemptAt e') =
      fold (retry (jobWebhookMaxAttempts (cx_env c)) (retry_delay (cx_env c))) (map dpNow ps) (0, wNextAttemptAt e) \<and>
    wAttempts e' \<le> jobWebhookMaxAttempts (cx_env c) \<and>
    wStatus e' = (if wAttempts e' = jobWebhookMaxAttempts (cx_env c) then ''dead'' else ''pending'') \<and>
    (spaced (wNextAttemptAt e) (map dpNow ps) \<longrightarrow>
       wAttempts e' = min (int (length ps)) (jobWebhookMaxAttempts (cx_env c)))"
proof -
  let ?mx = "jobWebhookMaxAttempts (cx_env c)"
  have mx: "0 < ?mx" using jobWebhookMaxAttempts_range [of "cx_env c"] by linarith
  then have "on_schedule ?mx (0, wNextAttemptAt e) e" using assms(4,5) by (simp add: on_schedule_def)
  from refused_run [OF assms(1,2,6,3) this] obtain e' where e': "hook_at (run_passes c ps w) i = Some e'"
    "on_schedule ?mx (fold (retry ?mx (retry_delay (cx_env c))) (map dpNow ps) (0, wNextAttemptAt e)) e'" by blast
  moreover have "wAttempts e' = min (int (length ps)) ?mx" if "spaced (wNextAttemptAt e) (map dpNow ps)"
    using spaced_attempts [OF that order_refl, of 0 ?mx "cx_env c"] e'(2) mx
    by (metis add_0 fst_conv length_map less_imp_le on_schedule_def order_refl)
  ultimately show ?thesis by (auto simp: on_schedule_def)
qed

definition demo_pass :: "nat \<Rightarrow> delivery_pass" where
  "demo_pass n = \<lparr>dpNow = int n * (14400 * second) + 4, dpLimit = 0, dpDeliver = (\<lambda>_. (False, ''HTTP 500'')),
     dpOrder = rev\<rparr>"

theorem failing_row_dies_on_time_witness:
  "map_option (\<lambda>e. (wStatus e, wAttempts e)) (hook_at (run_passes (demo_ctx 4) (map demo_pass [0..<7]) demo3) ''1'') =
     Some (''pending'', 7) \<and>
   map_option (\<lambda>e. (wStatus e, wAttempts e)) (hook_at (run_passes (demo_ctx 4) (map demo_pass [0..<10]) demo3) ''1'') =
     Some (''dead'', 8)"
proof -
  have "map_option (\<lambda>e. (wStatus e, wAttempts e, wNextAttemptAt e)) (hook_at demo3 ''1'') = Some (''pending'', 0, 3)"
    by code_simp
  then obtain e where e: "hook_at demo3 ''1'' = Some e" "wStatus e = ''pending''" "wAttempts e = 0"
    "wNextAttemptAt e = 3" by auto
  have mx: "jobWebhookMaxAttempts (cx_env (demo_ctx 4)) = 8" and "length (m_webhooks (wd_mem demo3)) = 1" by code_simp+
  then have ref: "\<forall>p \<in> set (map demo_pass ns). refuses ''1'' (length (m_webhooks (wd_mem demo3))) p" for ns
    by (auto simp: refuses_def demo_pass_def)
  have wf: "wd_wf (cx_uuid (demo_ctx 4)) demo3" using demo_wf(3) by simp
  have url: "jobWebhookURL (cx_env (demo_ctx 4)) \<noteq> []" by code_simp
  have sp: "spaced 3 (map dpNow (map demo_pass [0..<7]))" "spaced 3 (map dpNow (map demo_pass [0..<10]))"
    by (simp_all add: demo_pass_def upt_rec)
  show ?thesis
    using failing_row_dies_on_time [OF wf url e(1-3) ref, of "[0..<7]"]
      failing_row_dies_on_time [OF wf url e(1-3) ref, of "[0..<10]"] sp e(4) mx by (auto simp del: upt.simps)
qed

text \<open>The signature header of a delivery is accepted by the receiver's check with the same
  secret, whatever the HMAC: the request carries the timestamp and the body it signs.\<close>

theorem signed_request_verifies:
  assumes "trim_space secret \<noteq> []"
  shows "case (gget (rqHeaders (webhook_request nt now url (trim_space secret) row)) ''X-AI-Cloudhub-Timestamp'',
               gget (rqHeaders (webhook_request nt now url (trim_space secret) row)) ''X-AI-Cloudhub-Signature'') of
      (Some ts, Some sig) \<Rightarrow>
        VerifyJobWebhookSignature nt secret ts sig (rqBody (webhook_request nt now url (trim_space secret) row))
    | _ \<Rightarrow> False"
  using assms signature_verifies [OF assms] by (simp add: webhook_request_def Let_def)

theorem signed_request_verifies_witness:
  "\<exists>sig. VerifyJobWebhookSignature \<lparr>nt_marshal = \<lambda>_. ''{}'', nt_hmac_hex = \<lambda>k m. k @ m,
      nt_new_request = \<lambda>_ _. None, nt_do = \<lambda>_. Inr 200\<rparr> ''s'' (show_int (-62135596800)) sig ''{}''"
proof -
  let ?nt = "\<lparr>nt_marshal = \<lambda>_. ''{}'', nt_hmac_hex = \<lambda>k m. k @ m,
      nt_new_request = \<lambda>_ _. None, nt_do = \<lambda>_. Inr 200\<rparr> :: net"
  let ?row = "outbox_row (demo_ctx 1) ''1'' (jobFromStore (new_job (demo_ctx 1) ''0'' ''alice'' demo_input []))"
  let ?rq = "webhook_request ?nt 0 ''u'' (trim_space ''s'') ?row"
  have s: "trim_space ''s'' \<noteq> []" by code_simp
  have ts: "gget (rqHeaders ?rq) ''X-AI-Cloudhub-Timestamp'' = Some (show_int (-62135596800))"
    and body: "rqBody ?rq = ''{}''"
    by (simp_all add: webhook_request_def Let_def unix_seconds_def)
  from signed_request_verifies [OF s, of ?nt 0 "''u''" ?row]
  show ?thesis unfolding ts body by (cases "gget (rqHeaders ?rq) ''X-AI-Cloudhub-Signature''") auto
qed

section \<open>Retention\<close>

text \<open>The purge removes only terminal jobs last updated before the cutoff, as many as the limit
  allows, none of them younger than an eligible job it keeps, and with each removed job exactly
  its rows of the outbox.\<close>

theorem purge_is_exact:
  assumes "store_wf m" "store_PurgeTerminalJobs m cutoff l = (m', n)"
  shows "(\<forall>i. gget (m_jobs m') i \<noteq> gget (m_jobs m) i \<longrightarrow>
        gget (m_jobs m') i = None \<and> (\<exists>at. purgeable m cutoff i at \<and>
          (\<forall>k at'. purgeable m cutoff k at' \<longrightarrow> gget (m_jobs m') k \<noteq> None \<longrightarrow> at \<le> at'))) \<and>
    n = min (nat (purge_limit l))
          (length (filter (\<lambda>j. is_terminal (jStatus j) \<and> jUpdatedAt j < cutoff) (gvals (m_jobs m)))) \<and>
    (\<forall>k e. gget (m_webhooks m) k = Some e \<longrightarrow>
        (gget (m_webhooks m') k = None \<longleftrightarrow> gget (m_jobs m) (wJobID e) \<noteq> gget (m_jobs m') (wJobID e)) \<or>
        gget (m_jobs m) (wJobID e) = None)"
proof -
  let ?P = "purge_candidates m cutoff l"
  have m': "m' = fst (store_PurgeTerminalJobs m cutoff l)" "n = length ?P"
    using assms(2) purge_count [of m cutoff l] by simp_all
  note jobs = purge_jobs [OF assms(1), of cutoff l] and spec = purge_candidates_spec [OF assms(1)]
  have cand: "\<exists>at. purgeable m cutoff i at \<and> (i, at) \<in> set ?P" if "i \<in> fst ` set ?P" for i
    using that spec(1) by force
  have first: "gget (m_jobs m') i = None \<and> (\<exists>at. purgeable m cutoff i at \<and>
      (\<forall>k at'. purgeable m cutoff k at' \<longrightarrow> gget (m_jobs m') k \<noteq> None \<longrightarrow> at \<le> at'))"
    if diff: "gget (m_jobs m') i \<noteq> gget (m_jobs m) i" for i
  proof -
    have i: "i \<in> fst ` set ?P" using diff by (auto simp: m' jobs split: if_splits)
    then obtain at where at: "purgeable m cutoff i at" "(i, at) \<in> set ?P" using cand by blast
    have "at \<le> at'" if "purgeable m cutoff k at'" "gget (m_jobs m') k \<noteq> None" for k at'
      using spec(3) [OF at(2) that(1)] that(2) by (auto simp: m' jobs split: if_splits)
    with at(1) i show ?thesis by (auto simp: m' jobs)
  qed
  moreover have "gget (m_webhooks m') k = None \<longleftrightarrow> gget (m_jobs m) (wJobID e) \<noteq> gget (m_jobs m') (wJobID e)"
    if "gget (m_webhooks m) k = Some e" "gget (m_jobs m) (wJobID e) \<noteq> None" for k e
    using that by (simp add: m' purge_webhooks [OF assms(1)] jobs)
  ultimately show ?thesis using spec(4) m'(2) by blast
qed

theorem purge_is_exact_witness:
  "snd (store_PurgeTerminalJobs (wd_mem demo3) 100 0) = 1 \<and>
   gget (m_jobs (fst (store_PurgeTerminalJobs (wd_mem demo3) 100 0))) ''0'' = None"
proof -
  have wf: "store_wf (wd_mem demo3)" by (rule wd_wfD(2) [OF demo_wf(3)])
  let ?r = "store_PurgeTerminalJobs (wd_mem demo3) 100 0"
  have n: "snd ?r = min (nat (purge_limit 0))
          (length (filter (\<lambda>j. is_terminal (jStatus j) \<and> jUpdatedAt j < 100) (gvals (m_jobs (wd_mem demo3)))))"
    using purge_is_exact [OF wf prod.collapse [symmetric], of 100 0] by blast
  have "min (nat (purge_limit 0))
          (length (filter (\<lambda>j. is_terminal (jStatus j) \<and> jUpdatedAt j < 100) (gvals (m_jobs (wd_mem demo3))))) = 1"
    by code_simp
  moreover have "map_option jID (gget (m_jobs (fst ?r)) ''0'') = None" by code_simp
  ultimately show ?thesis using n by simp
qed

section \<open>Settings and bounds\<close>

text \<open>For every environment, even garbage, the settings of the workers are within their
  documented bounds: attempts and inflight in 1..32, poll in 1..60 s, HTTP timeout in 1..120 s,
  purge interval in 1..3600 s, retention 0 or 1 s..365 d, reclaim poll 0 or 1..3600 s, output cap
  in 1..262144 bytes, and the retry delay positive and at most 4 h.\<close>

theorem settings_clamped:
  "jobWebhookMaxAttempts env \<in> {1..32} \<and> jobWebhookMaxInflight env \<in> {1..32} \<and>
   jobWebhookPollInterval env \<in> {second..60 * second} \<and>
   jobWebhookHTTPTimeout env \<in> {second..120 * second} \<and>
   jobWebhookPurgeInterval env \<in> {second..3600 * second} \<and>
   jobWebhookRetain env \<in> insert 0 {second..365 * 24 * 3600 * second} \<and>
   jobTerminalRetain env \<in> insert 0 {second..365 * 24 * 3600 * second} \<and>
   jobReclaimPollInterval env \<in> insert 0 {second..3600 * second} \<and>
   jobOutputMax env \<in> {1..262144} \<and>
   webhookBackoff env a \<in> {1..14400 * second} \<and> 0 \<le> effectiveTimeoutSec env t"
  using jobWebhookMaxAttempts_range [of env] jobWebhookMaxInflight_range [of env]
    jobWebhookPollInterval_range [of env] jobWebhookHTTPTimeout_range [of env]
    jobWebhookPurgeInterval_range [of env] jobWebhookRetain_range [of env] jobTerminalRetain_range [of env]
    jobReclaimPollInterval_range [of env] jobOutputMax_range [of env] backoff_secs_range [of a]
    effectiveTimeoutSec_nonneg [of env t]
  by (simp add: HardMaxJobOutput_def webhookBackoff_eq)

text \<open>The retry delay never shrinks as attempts fail, and follows the table 5 s, 15 s, 60 s,
  5 min, 15 min, 1 h, 2 h, then 4 h.\<close>

theorem backoff_monotone:
  assumes "a \<le> b"
  shows "webhookBackoff env a \<le> webhookBackoff env b"
  using backoff_secs_mono [OF assms] by (simp add: webhookBackoff_eq)

theorem backoff_monotone_witness:
  "webhookBackoff (\<lambda>_. []) 1 \<le> webhookBackoff (\<lambda>_. []) 9 \<and> webhookBackoff (\<lambda>_. []) 9 = 14400 * second"
  using backoff_monotone [of 1 9 "\<lambda>_. []"] by (simp add: webhookBackoff_eq envv_def backoff_secs_def)

text \<open>The claim lease is off or at least ten seconds for every setting up to 9223372036 s; a
  larger setting overflows the 64-bit product, and 10000000000 turns the lease off by a negative
  duration.\<close>

theorem lease_floor_until_wrap:
  "(\<forall>n. atoi (envv env ''AI_CLOUDHUB_JOB_LEASE_SEC'') = Some n \<longrightarrow> n \<le> 9223372036 \<longrightarrow>
      leaseFromEnv env = 0 \<or> 10 * second \<le> leaseFromEnv env) \<and>
   leaseFromEnv (\<lambda>_. ''10000000000'') < 0"
proof -
  have "envv (\<lambda>_. ''10000000000'') ''AI_CLOUDHUB_JOB_LEASE_SEC'' = ''10000000000''" by code_simp
  moreover have "digits_val 0 ''10000000000'' = Some 10000000000" by (simp add: less_eq_char_def)
  then have "atoi ''10000000000'' = Some 10000000000" by (simp add: atoi_def is_int64_def)
  ultimately have "leaseFromEnv (\<lambda>_. ''10000000000'') < 0"
    using duration_wraps by (simp add: leaseFromEnv_def)
  moreover have "leaseFromEnv env = 0 \<or> 10 * second \<le> leaseFromEnv env"
    if "atoi (envv env ''AI_CLOUDHUB_JOB_LEASE_SEC'') = Some n" "n \<le> 9223372036" for n
    using that by (auto simp: leaseFromEnv_def Let_def duration_secs_exact)
  ultimately show ?thesis by blast
qed

theorem lease_floor_until_wrap_witness:
  "leaseFromEnv (\<lambda>_. ''3'') = 10 * second \<and>
   (leaseFromEnv (\<lambda>_. ''3'') = 0 \<or> 10 * second \<le> leaseFromEnv (\<lambda>_. ''3''))"
proof -
  have "atoi (envv (\<lambda>_. ''3'') ''AI_CLOUDHUB_JOB_LEASE_SEC'') = Some 3" by code_simp
  moreover have "leaseFromEnv (\<lambda>_. ''3'') = 10 * second" by code_simp
  ultimately show ?thesis using lease_floor_until_wrap [of "\<lambda>_. ''3''"] by auto
qed

text \<open>Captured output is cut to its last bytes: a suffix of the original, within the cap, and
  flagged exactly when something was cut; an appended note ends with the new text.\<close>

theorem output_capped:
  assumes "capTailFlag s (jobOutputMax env) = (t, trunc)" "trim_space extra \<noteq> []"
  shows "suffix t s \<and> int (length t) = min (jobOutputMax env) (int (length s)) \<and> (trunc \<longleftrightarrow> t \<noteq> s) \<and>
    length (appendJobNote existing extra) \<le> 2000 \<and>
    suffix (last_bytes 2000 (trim_space extra)) (appendJobNote existing extra)"
proof -
  have "0 < jobOutputMax env" using jobOutputMax_range [of env] by linarith
  from capTailFlag_spec [OF assms(1) this] appendJobNote_extra [OF assms(2), of existing]
    appendJobNote_suffix [OF assms(2), of existing]
  show ?thesis by blast
qed

theorem output_capped_witness:
  "capTailFlag ''abcd'' (jobOutputMax (\<lambda>_. ''2'')) = (''cd'', True) \<and> suffix ''cd'' ''abcd'' \<and>
   suffix ''new'' (appendJobNote ''old'' ''new'')"
proof -
  have c: "capTailFlag ''abcd'' (jobOutputMax (\<lambda>_. ''2'')) = (''cd'', True)" by code_simp
  have t: "trim_space ''new'' \<noteq> []" "last_bytes 2000 (trim_space ''new'') = ''new''" by code_simp+
  from output_capped [OF c t(1), of "''old''"] c t(2) show ?thesis by simp
qed

end
