(* ===== verification/Store_Accounts.thy ===== *)
theory Store_Accounts
  imports Store_Interface
begin

text \<open>
  Users, the audit log, session revocation, refresh tokens and agents of the in-memory store
  (\<open>internal/store/memory.go\<close>). A user map is keyed by username; the operations that take an
  identifier walk the map and act on the first row they meet.
\<close>

section \<open>Users\<close>

definition norm_role :: "user \<Rightarrow> user" where
  "norm_role u = (if uRole u = [] then u\<lparr>uRole := ''user''\<rparr> else u)"

definition CreateUser :: "memory \<Rightarrow> user \<Rightarrow> memory result" where
  "CreateUser m u =
     (case gget (m_users m) (uUsername u) of
        Some _ \<Rightarrow> Inl (Errorf ''user exists'')
      | None \<Rightarrow> Inr (m\<lparr>m_users := gset (uUsername u) (norm_role u) (m_users m)\<rparr>))"

definition GetUserByUsername :: "memory \<Rightarrow> string \<Rightarrow> user result" where
  "GetUserByUsername m username =
     (case gget (m_users m) username of
        None \<Rightarrow> Inl (Errorf ''user not found'')
      | Some u \<Rightarrow> Inr (norm_role u))"

definition GetUserByID :: "memory \<Rightarrow> string \<Rightarrow> user result" where
  "GetUserByID m i =
     (case find (\<lambda>u. uID u = i) (gvals (m_users m)) of
        None \<Rightarrow> Inl (Errorf ''user not found'')
      | Some u \<Rightarrow> Inr (norm_role u))"

definition CountUsers :: "memory \<Rightarrow> nat" where
  "CountUsers m = length (m_users m)"

definition UpdateUserRole :: "memory \<Rightarrow> string \<Rightarrow> string \<Rightarrow> memory result" where
  "UpdateUserRole m i role =
     (case update_first (\<lambda>u. uID u = i) (\<lambda>u. u\<lparr>uRole := role\<rparr>) (m_users m) of
        None \<Rightarrow> Inl (Errorf ''user not found'')
      | Some us \<Rightarrow> Inr (m\<lparr>m_users := us\<rparr>))"

definition UpdateUserPassword :: "memory \<Rightarrow> string \<Rightarrow> string \<Rightarrow> memory result" where
  "UpdateUserPassword m i hash =
     (case update_first (\<lambda>u. uID u = i) (\<lambda>u. u\<lparr>uPassword := hash\<rparr>) (m_users m) of
        None \<Rightarrow> Inl (Errorf ''user not found'')
      | Some us \<Rightarrow> Inr (m\<lparr>m_users := us\<rparr>))"

definition ListUsers :: "memory \<Rightarrow> user list" where
  "ListUsers m = map (\<lambda>u. norm_role (u\<lparr>uPassword := []\<rparr>)) (gvals (m_users m))"

definition BumpTokenVersion :: "memory \<Rightarrow> string \<Rightarrow> (memory \<times> int) result" where
  "BumpTokenVersion m i =
     (case find (\<lambda>u. uID u = i) (gvals (m_users m)) of
        None \<Rightarrow> Inl (Errorf ''user not found'')
      | Some u \<Rightarrow>
          (case update_first (\<lambda>u. uID u = i) (\<lambda>u. u\<lparr>uTokenVersion := uTokenVersion u + 1\<rparr>) (m_users m) of
             None \<Rightarrow> Inl (Errorf ''user not found'')
           | Some us \<Rightarrow> Inr (m\<lparr>m_users := us\<rparr>, uTokenVersion u + 1)))"

section \<open>Audit log\<close>

definition AppendAudit :: "memory \<Rightarrow> audit_event \<Rightarrow> memory" where
  "AppendAudit m e =
     (let as = m_audits m @ [e]
      in m\<lparr>m_audits := (if length as > 1000 then drop (length as - 1000) as else as)\<rparr>)"

definition audit_matches :: "audit_filter \<Rightarrow> audit_event \<Rightarrow> bool" where
  "audit_matches f e \<longleftrightarrow>
     (afUserID f = [] \<or> aeUserID e = afUserID f) \<and>
     (afAgentID f = [] \<or> aeAgentID e = afAgentID f) \<and>
     (afAction f = [] \<or> aeAction e = afAction f)"

definition ListAudit :: "memory \<Rightarrow> audit_filter \<Rightarrow> audit_event list" where
  "ListAudit m f =
     (let limit = (if afLimit f \<le> 0 \<or> afLimit f > 500 then 100 else afLimit f)
      in take (nat limit) (filter (audit_matches f) (rev (m_audits m))))"

section \<open>Session revocation\<close>

definition BumpAgentTokenVersion :: "memory \<Rightarrow> string \<Rightarrow> (memory \<times> int) result" where
  "BumpAgentTokenVersion m i =
     (case gget (m_agents m) i of
        None \<Rightarrow> Inl (Errorf ''agent not found'')
      | Some a \<Rightarrow>
          (let a' = a\<lparr>agTokenVersion := agTokenVersion a + 1\<rparr>
           in Inr (m\<lparr>m_agents := gset i a' (m_agents m)\<rparr>, agTokenVersion a')))"

definition RevokeJTI :: "time \<Rightarrow> memory \<Rightarrow> string \<Rightarrow> time \<Rightarrow> memory result" where
  "RevokeJTI now m jti expiresAt =
     (if jti = [] then Inl (Errorf ''jti required'')
      else Inr (m\<lparr>m_revokedJTI :=
             gset jti expiresAt (filter (\<lambda>(k, exp). \<not> now > exp) (m_revokedJTI m))\<rparr>))"

definition IsJTIRevoked :: "time \<Rightarrow> memory \<Rightarrow> string \<Rightarrow> memory \<times> bool" where
  "IsJTIRevoked now m jti =
     (if jti = [] then (m, False)
      else (case gget (m_revokedJTI m) jti of
              None \<Rightarrow> (m, False)
            | Some exp \<Rightarrow>
                if now > exp then (m\<lparr>m_revokedJTI := gdel jti (m_revokedJTI m)\<rparr>, False)
                else (m, True)))"

section \<open>Refresh tokens\<close>

definition CreateRefreshToken :: "memory \<Rightarrow> refresh_token \<Rightarrow> memory result" where
  "CreateRefreshToken m t =
     (if rtID t = [] \<or> rtTokenHash t = [] then Inl (Errorf ''refresh token incomplete'')
      else Inr (m\<lparr>m_refresh := gset (rtID t) t (m_refresh m)\<rparr>))"

definition GetRefreshTokenByHash :: "time \<Rightarrow> memory \<Rightarrow> string \<Rightarrow> refresh_token result" where
  "GetRefreshTokenByHash now m hash =
     (case find (\<lambda>t. rtTokenHash t = hash) (gvals (m_refresh m)) of
        None \<Rightarrow> Inl (Errorf ''refresh token not found'')
      | Some t \<Rightarrow>
          if rtRevoked t \<or> now > rtExpiresAt t then Inl (Errorf ''refresh token invalid'')
          else Inr t)"

definition RevokeRefreshToken :: "memory \<Rightarrow> string \<Rightarrow> memory result" where
  "RevokeRefreshToken m i =
     (case gget (m_refresh m) i of
        None \<Rightarrow> Inl (Errorf ''refresh token not found'')
      | Some t \<Rightarrow>
          if rtRevoked t then Inl (Errorf ''refresh token already revoked'')
          else Inr (m\<lparr>m_refresh := gset i (t\<lparr>rtRevoked := True\<rparr>) (m_refresh m)\<rparr>))"

definition RevokeRefreshTokensForUser :: "memory \<Rightarrow> string \<Rightarrow> memory" where
  "RevokeRefreshTokensForUser m u =
     m\<lparr>m_refresh :=
         map (\<lambda>(k, t). (k, if rtUserID t = u then t\<lparr>rtRevoked := True\<rparr> else t)) (m_refresh m)\<rparr>"

section \<open>Agents\<close>

definition CreateAgent :: "memory \<Rightarrow> agent \<Rightarrow> memory result" where
  "CreateAgent m a = Inr (m\<lparr>m_agents := gset (agID a) a (m_agents m)\<rparr>)"

definition GetAgent :: "memory \<Rightarrow> string \<Rightarrow> string \<Rightarrow> agent result" where
  "GetAgent m owner i =
     (case gget (m_agents m) i of
        None \<Rightarrow> Inl (Errorf ''agent not found'')
      | Some a \<Rightarrow> if agOwnerUserID a \<noteq> owner then Inl (Errorf ''agent not found'') else Inr a)"

definition GetAgentByID :: "memory \<Rightarrow> string \<Rightarrow> agent result" where
  "GetAgentByID m i =
     (case gget (m_agents m) i of
        None \<Rightarrow> Inl (Errorf ''agent not found'')
      | Some a \<Rightarrow> Inr a)"

definition ListAgents :: "memory \<Rightarrow> string \<Rightarrow> agent list" where
  "ListAgents m owner = filter (\<lambda>a. agOwnerUserID a = owner) (gvals (m_agents m))"

definition UpdateAgent :: "memory \<Rightarrow> agent \<Rightarrow> memory result" where
  "UpdateAgent m a =
     (case gget (m_agents m) (agID a) of
        None \<Rightarrow> Inl (Errorf ''agent not found'')
      | Some cur \<Rightarrow>
          if agOwnerUserID cur \<noteq> agOwnerUserID a then Inl (Errorf ''agent not found'')
          else Inr (m\<lparr>m_agents := gset (agID a) a (m_agents m)\<rparr>))"

definition DeleteAgent :: "memory \<Rightarrow> string \<Rightarrow> string \<Rightarrow> memory result" where
  "DeleteAgent m owner i =
     (case gget (m_agents m) i of
        None \<Rightarrow> Inl (Errorf ''agent not found'')
      | Some a \<Rightarrow>
          if agOwnerUserID a \<noteq> owner then Inl (Errorf ''agent not found'')
          else Inr (m\<lparr>m_agents := gdel i (m_agents m)\<rparr>))"

lemmas account_defs [store_defs] =
  CreateUser_def GetUserByUsername_def GetUserByID_def CountUsers_def UpdateUserRole_def
  UpdateUserPassword_def ListUsers_def BumpTokenVersion_def AppendAudit_def
  BumpAgentTokenVersion_def RevokeJTI_def IsJTIRevoked_def CreateRefreshToken_def
  GetRefreshTokenByHash_def RevokeRefreshToken_def RevokeRefreshTokensForUser_def
  CreateAgent_def GetAgent_def GetAgentByID_def ListAgents_def UpdateAgent_def DeleteAgent_def

interpretation agents: owned_read agOwnerUserID agID m_agents GetAgent ListAgents
  by unfold_locales (auto simp: store_defs split: option.splits)

interpretation agents_c: owned_create agOwnerUserID agID m_agents GetAgent CreateAgent
  by unfold_locales (auto simp: store_defs split: option.splits)

interpretation agents_u: owned_update agOwnerUserID agID m_agents GetAgent UpdateAgent "\<lambda>m a. a"
  by unfold_locales (auto simp: store_defs split: option.splits if_splits)

interpretation agents_d: owned_delete agOwnerUserID agID m_agents GetAgent DeleteAgent
  by unfold_locales (auto simp: store_defs split: option.splits if_splits)

section \<open>Well-formedness\<close>

lemma norm_role_simps [simp]:
  "uUsername (norm_role u) = uUsername u" "uID (norm_role u) = uID u"
  "uTokenVersion (norm_role u) = uTokenVersion u" "uPassword (norm_role u) = uPassword u"
  by (simp_all add: norm_role_def)

lemma norm_role_nonempty: "uRole (norm_role u) \<noteq> []"
  by (simp add: norm_role_def)

lemma CreateUser_wf: "store_wf m \<Longrightarrow> CreateUser m u = Inr m' \<Longrightarrow> store_wf m'"
  by (auto simp: CreateUser_def wf_dests split: option.splits intro!: wf_intros)

lemma users_step_wf:
  assumes "store_wf m" "update_first P g (m_users m) = Some us" "\<And>v. uUsername (g v) = uUsername v"
  shows "store_wf (m\<lparr>m_users := us\<rparr>)"
  using assms keyed_update_first [OF store_wfD(1) [OF assms(1)]] by (intro store_wf_upd) auto

lemma UpdateUserRole_wf: "store_wf m \<Longrightarrow> UpdateUserRole m i r = Inr m' \<Longrightarrow> store_wf m'"
  by (auto simp: UpdateUserRole_def split: option.splits intro: users_step_wf)

lemma UpdateUserPassword_wf: "store_wf m \<Longrightarrow> UpdateUserPassword m i h = Inr m' \<Longrightarrow> store_wf m'"
  by (auto simp: UpdateUserPassword_def split: option.splits intro: users_step_wf)

lemma BumpTokenVersion_wf: "store_wf m \<Longrightarrow> BumpTokenVersion m i = Inr (m', v) \<Longrightarrow> store_wf m'"
  by (auto simp: BumpTokenVersion_def split: option.splits intro: users_step_wf)

lemma AppendAudit_wf: "store_wf m \<Longrightarrow> store_wf (AppendAudit m e)"
  by (auto simp: AppendAudit_def Let_def wf_dests intro!: store_wf_upd)

lemma BumpAgentTokenVersion_wf:
  "store_wf m \<Longrightarrow> BumpAgentTokenVersion m i = Inr (m', v) \<Longrightarrow> store_wf m'"
  by (auto simp: BumpAgentTokenVersion_def Let_def wf_dests keyed_gget [OF store_wfD(8)]
      split: option.splits intro!: wf_intros)

lemma RevokeJTI_wf: "store_wf m \<Longrightarrow> RevokeJTI now m j t = Inr m' \<Longrightarrow> store_wf m'"
  by (auto simp: RevokeJTI_def wf_dests split: if_splits intro!: store_wf_upd gwf_gset gwf_filter)

lemma IsJTIRevoked_wf: "store_wf m \<Longrightarrow> store_wf (fst (IsJTIRevoked now m j))"
  by (auto simp: IsJTIRevoked_def wf_dests split: option.splits intro!: store_wf_upd gwf_gdel)

lemma CreateRefreshToken_wf: "store_wf m \<Longrightarrow> CreateRefreshToken m t = Inr m' \<Longrightarrow> store_wf m'"
  by (auto simp: CreateRefreshToken_def wf_dests split: if_splits intro!: wf_intros)

lemma RevokeRefreshToken_wf: "store_wf m \<Longrightarrow> RevokeRefreshToken m i = Inr m' \<Longrightarrow> store_wf m'"
  by (auto simp: RevokeRefreshToken_def wf_dests keyed_gget [OF store_wfD(7)]
      split: if_splits option.splits intro!: wf_intros)

lemma RevokeRefreshTokensForUser_wf: "store_wf m \<Longrightarrow> store_wf (RevokeRefreshTokensForUser m u)"
  by (auto simp: RevokeRefreshTokensForUser_def wf_dests intro!: wf_intros)

lemma CreateAgent_wf: "store_wf m \<Longrightarrow> CreateAgent m a = Inr m' \<Longrightarrow> store_wf m'"
  by (auto simp: CreateAgent_def wf_dests intro!: wf_intros)

lemma UpdateAgent_wf: "store_wf m \<Longrightarrow> UpdateAgent m a = Inr m' \<Longrightarrow> store_wf m'"
  by (auto simp: UpdateAgent_def wf_dests split: option.splits if_splits intro!: wf_intros)

lemma DeleteAgent_wf: "store_wf m \<Longrightarrow> DeleteAgent m u i = Inr m' \<Longrightarrow> store_wf m'"
  by (auto simp: DeleteAgent_def wf_dests split: option.splits if_splits intro!: wf_intros)

lemmas account_wf =
  CreateUser_wf UpdateUserRole_wf UpdateUserPassword_wf BumpTokenVersion_wf AppendAudit_wf
  BumpAgentTokenVersion_wf RevokeJTI_wf IsJTIRevoked_wf CreateRefreshToken_wf RevokeRefreshToken_wf
  RevokeRefreshTokensForUser_wf CreateAgent_wf UpdateAgent_wf DeleteAgent_wf

section \<open>Revocation\<close>

text \<open>A revoked token identifier stays revoked until its own expiry, whatever is revoked meanwhile.\<close>

lemma RevokeJTI_revoked:
  "RevokeJTI now m j exp = Inr m' \<Longrightarrow> now' \<le> exp \<Longrightarrow> snd (IsJTIRevoked now' m' j)"
  by (auto simp: RevokeJTI_def IsJTIRevoked_def split: if_splits)

lemma RevokeJTI_keeps:
  assumes "gwf (m_revokedJTI m)" "snd (IsJTIRevoked now' m j)" "now \<le> now'"
    and "RevokeJTI now m k exp = Inr m'" "k \<noteq> j"
  shows "snd (IsJTIRevoked now' m' j)"
  using assms by (auto simp: RevokeJTI_def IsJTIRevoked_def gget_filter split: if_splits option.splits)

text \<open>Rotation: a refresh token can be revoked once, and a revoked token no longer resolves.\<close>

lemma RevokeRefreshToken_once:
  "RevokeRefreshToken m i = Inr m' \<Longrightarrow> \<exists>e. RevokeRefreshToken m' i = Inl e"
  by (auto simp: RevokeRefreshToken_def split: option.splits if_splits)

lemma gvals_revoked:
  "gvals (m_refresh (RevokeRefreshTokensForUser m u)) =
     map (\<lambda>t. if rtUserID t = u then t\<lparr>rtRevoked := True\<rparr> else t) (gvals (m_refresh m))"
  by (simp add: RevokeRefreshTokensForUser_def case_prod_unfold comp_def)

lemma RevokeRefreshTokensForUser_revokes:
  assumes "GetRefreshTokenByHash now (RevokeRefreshTokensForUser m u) h = Inr t"
  shows "rtUserID t \<noteq> u"
proof
  assume u: "rtUserID t = u"
  from assms have "t \<in> set (gvals (m_refresh (RevokeRefreshTokensForUser m u)))" and "\<not> rtRevoked t"
    by (auto simp: GetRefreshTokenByHash_def simp del: set_map
        split: option.splits if_splits dest: find_SomeD)
  then obtain t0 where "t = (if rtUserID t0 = u then t0\<lparr>rtRevoked := True\<rparr> else t0)"
    unfolding gvals_revoked list.set_map by (elim imageE)
  with u \<open>\<not> rtRevoked t\<close> show False by (cases "rtUserID t0 = u") simp_all
qed

end
