(* ===== verification/Store_Resources.thy ===== *)
theory Store_Resources
  imports Store_Interface
begin

text \<open>
  Providers, drives, bindings, devices and snapshots of the in-memory store
  (\<open>internal/store/memory.go\<close>), and the interpretation of the table contracts on them.
\<close>

section \<open>Providers\<close>

definition CreateProvider :: "memory \<Rightarrow> provider \<Rightarrow> memory result" where
  "CreateProvider m p = Inr (m\<lparr>m_providers := gset (pID p) p (m_providers m)\<rparr>)"

definition GetProvider :: "memory \<Rightarrow> string \<Rightarrow> string \<Rightarrow> provider result" where
  "GetProvider m u i =
     (case gget (m_providers m) i of
        None \<Rightarrow> Inl (Errorf ''provider not found'')
      | Some p \<Rightarrow> if pUserID p \<noteq> u then Inl (Errorf ''provider not found'') else Inr p)"

definition ListProviders :: "memory \<Rightarrow> string \<Rightarrow> provider list" where
  "ListProviders m u = filter (\<lambda>p. pUserID p = u) (gvals (m_providers m))"

definition DeleteProvider :: "memory \<Rightarrow> string \<Rightarrow> string \<Rightarrow> memory result" where
  "DeleteProvider m u i =
     (case gget (m_providers m) i of
        None \<Rightarrow> Inl (Errorf ''provider not found'')
      | Some p \<Rightarrow>
          if pUserID p \<noteq> u then Inl (Errorf ''provider not found'')
          else Inr (m\<lparr>m_providers := gdel i (m_providers m)\<rparr>))"

section \<open>Drives\<close>

definition CreateDrive :: "memory \<Rightarrow> drive \<Rightarrow> memory result" where
  "CreateDrive m d = Inr (m\<lparr>m_drives := gset (dID d) d (m_drives m)\<rparr>)"

definition GetDrive :: "memory \<Rightarrow> string \<Rightarrow> string \<Rightarrow> drive result" where
  "GetDrive m u i =
     (case gget (m_drives m) i of
        None \<Rightarrow> Inl (Errorf ''drive not found'')
      | Some d \<Rightarrow> if dUserID d \<noteq> u then Inl (Errorf ''drive not found'') else Inr d)"

definition GetDriveByAlias :: "memory \<Rightarrow> string \<Rightarrow> string \<Rightarrow> drive result" where
  "GetDriveByAlias m u alias =
     (if alias = [] then Inl (Errorf ''drive not found'')
      else (case find (\<lambda>d. dUserID d = u \<and> dAlias d = alias) (gvals (m_drives m)) of
              None \<Rightarrow> Inl (Errorf ''drive not found'')
            | Some d \<Rightarrow> Inr d))"

definition ListDrives :: "memory \<Rightarrow> string \<Rightarrow> drive list" where
  "ListDrives m u = filter (\<lambda>d. dUserID d = u) (gvals (m_drives m))"

text \<open>An update keeps the provider, the bucket and the creation instant of the stored row.\<close>

definition updated_drive :: "memory \<Rightarrow> drive \<Rightarrow> drive" where
  "updated_drive m d =
     (case gget (m_drives m) (dID d) of
        None \<Rightarrow> d
      | Some cur \<Rightarrow> d\<lparr>dProviderID := dProviderID cur, dBucket := dBucket cur, dCreatedAt := dCreatedAt cur\<rparr>)"

definition UpdateDrive :: "memory \<Rightarrow> drive \<Rightarrow> memory result" where
  "UpdateDrive m d =
     (case gget (m_drives m) (dID d) of
        None \<Rightarrow> Inl (Errorf ''drive not found'')
      | Some cur \<Rightarrow>
          if dUserID cur \<noteq> dUserID d then Inl (Errorf ''drive not found'')
          else Inr (m\<lparr>m_drives := gset (dID d) (updated_drive m d) (m_drives m)\<rparr>))"

definition DeleteDrive :: "memory \<Rightarrow> string \<Rightarrow> string \<Rightarrow> memory result" where
  "DeleteDrive m u i =
     (case gget (m_drives m) i of
        None \<Rightarrow> Inl (Errorf ''drive not found'')
      | Some d \<Rightarrow>
          if dUserID d \<noteq> u then Inl (Errorf ''drive not found'')
          else Inr (m\<lparr>m_drives := gdel i (m_drives m)\<rparr>))"

section \<open>Bindings and devices\<close>

definition CreateBinding :: "memory \<Rightarrow> binding \<Rightarrow> memory result" where
  "CreateBinding m b = Inr (m\<lparr>m_bindings := gset (bID b) b (m_bindings m)\<rparr>)"

definition GetBinding :: "memory \<Rightarrow> string \<Rightarrow> string \<Rightarrow> binding result" where
  "GetBinding m u i =
     (case gget (m_bindings m) i of
        None \<Rightarrow> Inl (Errorf ''binding not found'')
      | Some b \<Rightarrow> if bUserID b \<noteq> u then Inl (Errorf ''binding not found'') else Inr b)"

definition ListBindings :: "memory \<Rightarrow> string \<Rightarrow> string \<Rightarrow> binding list" where
  "ListBindings m u deviceID =
     filter (\<lambda>b. bUserID b = u \<and> (deviceID = [] \<or> bDeviceID b = deviceID)) (gvals (m_bindings m))"

definition UpdateBinding :: "memory \<Rightarrow> binding \<Rightarrow> memory result" where
  "UpdateBinding m b =
     (case gget (m_bindings m) (bID b) of
        None \<Rightarrow> Inl (Errorf ''binding not found'')
      | Some cur \<Rightarrow>
          if bUserID cur \<noteq> bUserID b then Inl (Errorf ''binding not found'')
          else Inr (m\<lparr>m_bindings := gset (bID b) b (m_bindings m)\<rparr>))"

definition UpsertDevice :: "memory \<Rightarrow> device \<Rightarrow> memory result" where
  "UpsertDevice m d =
     (if (case gget (m_devices m) (vID d) of None \<Rightarrow> False | Some cur \<Rightarrow> vUserID cur \<noteq> vUserID d)
      then Inl (Errorf ''device id conflict'')
      else Inr (m\<lparr>m_devices := gset (vID d) d (m_devices m)\<rparr>))"

definition GetDevice :: "memory \<Rightarrow> string \<Rightarrow> string \<Rightarrow> device result" where
  "GetDevice m u i =
     (case gget (m_devices m) i of
        None \<Rightarrow> Inl (Errorf ''device not found'')
      | Some d \<Rightarrow> if vUserID d \<noteq> u then Inl (Errorf ''device not found'') else Inr d)"

definition ListDevices :: "memory \<Rightarrow> string \<Rightarrow> device list" where
  "ListDevices m u = filter (\<lambda>d. vUserID d = u) (gvals (m_devices m))"

section \<open>Snapshots\<close>

definition CreateSnapshot :: "memory \<Rightarrow> snapshot \<Rightarrow> memory result" where
  "CreateSnapshot m s = Inr (m\<lparr>m_snapshots := gset (snID s) s (m_snapshots m)\<rparr>)"

definition GetSnapshot :: "memory \<Rightarrow> string \<Rightarrow> string \<Rightarrow> string \<Rightarrow> snapshot result" where
  "GetSnapshot m u d i =
     (case gget (m_snapshots m) i of
        None \<Rightarrow> Inl (Errorf ''snapshot not found'')
      | Some s \<Rightarrow>
          if snUserID s \<noteq> u \<or> snDriveID s \<noteq> d then Inl (Errorf ''snapshot not found'') else Inr s)"

definition ListSnapshots :: "memory \<Rightarrow> string \<Rightarrow> string \<Rightarrow> int \<Rightarrow> snapshot list" where
  "ListSnapshots m u d limit0 =
     (let limit = (if limit0 \<le> 0 \<or> limit0 > 200 then 50 else limit0)
      in take (nat limit)
           (exch_sort (newer snCreatedAt)
              (filter (\<lambda>s. snUserID s = u \<and> snDriveID s = d) (gvals (m_snapshots m)))))"

definition DeleteSnapshot :: "memory \<Rightarrow> string \<Rightarrow> string \<Rightarrow> string \<Rightarrow> memory result" where
  "DeleteSnapshot m u d i =
     (case gget (m_snapshots m) i of
        None \<Rightarrow> Inl (Errorf ''snapshot not found'')
      | Some s \<Rightarrow>
          if snUserID s \<noteq> u \<or> snDriveID s \<noteq> d then Inl (Errorf ''snapshot not found'')
          else Inr (m\<lparr>m_snapshots := gdel i (m_snapshots m)\<rparr>))"

lemmas resource_defs [store_defs] =
  CreateProvider_def GetProvider_def ListProviders_def DeleteProvider_def
  CreateDrive_def GetDrive_def GetDriveByAlias_def ListDrives_def updated_drive_def UpdateDrive_def
  DeleteDrive_def CreateBinding_def GetBinding_def ListBindings_def UpdateBinding_def
  UpsertDevice_def GetDevice_def ListDevices_def
  CreateSnapshot_def GetSnapshot_def ListSnapshots_def DeleteSnapshot_def

section \<open>The table contracts\<close>

interpretation providers: owned_read pUserID pID m_providers GetProvider ListProviders
  by unfold_locales (auto simp: resource_defs split: option.splits)

interpretation providers_c: owned_create pUserID pID m_providers GetProvider CreateProvider
  by unfold_locales (auto simp: resource_defs split: option.splits)

interpretation providers_d: owned_delete pUserID pID m_providers GetProvider DeleteProvider
  by unfold_locales (auto simp: resource_defs split: option.splits if_splits)

interpretation drives: owned_read dUserID dID m_drives GetDrive ListDrives
  by unfold_locales (auto simp: resource_defs split: option.splits)

interpretation drives_c: owned_create dUserID dID m_drives GetDrive CreateDrive
  by unfold_locales (auto simp: resource_defs split: option.splits)

interpretation drives_u: owned_update dUserID dID m_drives GetDrive UpdateDrive updated_drive
  by unfold_locales (auto simp: resource_defs split: option.splits if_splits)

interpretation drives_d: owned_delete dUserID dID m_drives GetDrive DeleteDrive
  by unfold_locales (auto simp: resource_defs split: option.splits if_splits)

interpretation bindings: owned_read bUserID bID m_bindings GetBinding "\<lambda>m u. ListBindings m u []"
  by unfold_locales (auto simp: resource_defs split: option.splits)

interpretation bindings_c: owned_create bUserID bID m_bindings GetBinding CreateBinding
  by unfold_locales (auto simp: resource_defs split: option.splits)

interpretation bindings_u: owned_update bUserID bID m_bindings GetBinding UpdateBinding "\<lambda>m b. b"
  by unfold_locales (auto simp: resource_defs split: option.splits if_splits)

interpretation devices: owned_read vUserID vID m_devices GetDevice ListDevices
  by unfold_locales (auto simp: resource_defs split: option.splits)

interpretation devices_c: owned_create vUserID vID m_devices GetDevice UpsertDevice
  by unfold_locales (auto simp: resource_defs split: option.splits if_splits)

text \<open>A snapshot belongs to a drive of a user: its owner is the pair.\<close>

interpretation snapshots: owned_create "\<lambda>s. (snUserID s, snDriveID s)" snID m_snapshots
    "\<lambda>m (u, d). GetSnapshot m u d" CreateSnapshot
  by unfold_locales (auto simp: resource_defs split: option.splits if_splits)

interpretation snapshots_d: owned_delete "\<lambda>s. (snUserID s, snDriveID s)" snID m_snapshots
    "\<lambda>m (u, d). GetSnapshot m u d" "\<lambda>m (u, d). DeleteSnapshot m u d"
  by unfold_locales (auto simp: resource_defs split: option.splits if_splits)

text \<open>An upsert never moves a device to another user.\<close>

lemma UpsertDevice_isolated:
  assumes "UpsertDevice m d = Inr m'" "u \<noteq> vUserID d"
  shows "GetDevice m' u i = Inr x \<longleftrightarrow> GetDevice m u i = Inr x"
proof (cases "i = vID d")
  case True
  with assms have "\<nexists>x. GetDevice m' u i = Inr x" "\<nexists>x. GetDevice m u i = Inr x"
    by (auto simp: devices.get_iff UpsertDevice_def split: if_splits)
  then show ?thesis by simp
next
  case False
  then show ?thesis using devices_c.get_create_other [OF assms(1)] by simp
qed

lemma GetDriveByAlias_owner:
  "GetDriveByAlias m u a = Inr d \<Longrightarrow> dUserID d = u \<and> dAlias d = a \<and> d \<in> set (ListDrives m u)"
  by (auto simp: GetDriveByAlias_def ListDrives_def split: if_splits option.splits dest: find_SomeD)

section \<open>Well-formedness\<close>

lemma CreateProvider_wf: "store_wf m \<Longrightarrow> CreateProvider m p = Inr m' \<Longrightarrow> store_wf m'"
  by (auto simp: CreateProvider_def wf_dests intro!: wf_intros)

lemma DeleteProvider_wf: "store_wf m \<Longrightarrow> DeleteProvider m u i = Inr m' \<Longrightarrow> store_wf m'"
  by (auto simp: DeleteProvider_def wf_dests split: option.splits if_splits intro!: wf_intros)

lemma CreateDrive_wf: "store_wf m \<Longrightarrow> CreateDrive m d = Inr m' \<Longrightarrow> store_wf m'"
  by (auto simp: CreateDrive_def wf_dests intro!: wf_intros)

lemma updated_drive_id [simp]: "dID (updated_drive m d) = dID d" "dUserID (updated_drive m d) = dUserID d"
  by (simp_all add: updated_drive_def split: option.split)

lemma UpdateDrive_wf: "store_wf m \<Longrightarrow> UpdateDrive m d = Inr m' \<Longrightarrow> store_wf m'"
  by (auto simp: UpdateDrive_def wf_dests split: option.splits if_splits intro!: wf_intros)

lemma DeleteDrive_wf: "store_wf m \<Longrightarrow> DeleteDrive m u i = Inr m' \<Longrightarrow> store_wf m'"
  by (auto simp: DeleteDrive_def wf_dests split: option.splits if_splits intro!: wf_intros)

lemma CreateBinding_wf: "store_wf m \<Longrightarrow> CreateBinding m b = Inr m' \<Longrightarrow> store_wf m'"
  by (auto simp: CreateBinding_def wf_dests intro!: wf_intros)

lemma UpdateBinding_wf: "store_wf m \<Longrightarrow> UpdateBinding m b = Inr m' \<Longrightarrow> store_wf m'"
  by (auto simp: UpdateBinding_def wf_dests split: option.splits if_splits intro!: wf_intros)

lemma UpsertDevice_wf: "store_wf m \<Longrightarrow> UpsertDevice m d = Inr m' \<Longrightarrow> store_wf m'"
  by (auto simp: UpsertDevice_def wf_dests split: option.splits if_splits intro!: wf_intros)

lemma CreateSnapshot_wf: "store_wf m \<Longrightarrow> CreateSnapshot m s = Inr m' \<Longrightarrow> store_wf m'"
  by (auto simp: CreateSnapshot_def wf_dests intro!: wf_intros)

lemma DeleteSnapshot_wf: "store_wf m \<Longrightarrow> DeleteSnapshot m u d i = Inr m' \<Longrightarrow> store_wf m'"
  by (auto simp: DeleteSnapshot_def wf_dests split: option.splits if_splits intro!: wf_intros)

lemmas resource_wf =
  CreateProvider_wf DeleteProvider_wf CreateDrive_wf UpdateDrive_wf DeleteDrive_wf
  CreateBinding_wf UpdateBinding_wf UpsertDevice_wf CreateSnapshot_wf DeleteSnapshot_wf

end
