(* ===== verification/Store_StageC.thy ===== *)
theory Store_StageC
  imports Store_Interface
begin

text \<open>
  The agent memories, the marketplace, the lineage log, the identity graph, the purchases and the
  connector bindings of the in-memory store (\<open>internal/store/memory.go\<close>).
\<close>

section \<open>Agent memories\<close>

definition CreateMemory :: "memory \<Rightarrow> memory_entry \<Rightarrow> memory result" where
  "CreateMemory m e =
     (if meID e = [] then Inl (Errorf ''memory id required'')
      else Inr (m\<lparr>m_memories := gset (meID e) e (m_memories m)\<rparr>))"

definition GetMemory :: "memory \<Rightarrow> string \<Rightarrow> string \<Rightarrow> memory_entry result" where
  "GetMemory m u i =
     (case gget (m_memories m) i of
        None \<Rightarrow> Inl (Errorf ''memory not found'')
      | Some e \<Rightarrow> if meUserID e \<noteq> u then Inl (Errorf ''memory not found'') else Inr e)"

definition memory_live :: "time \<Rightarrow> memory_entry \<Rightarrow> bool" where
  "memory_live now e \<longleftrightarrow> is_zero (meExpiresAt e) \<or> \<not> meExpiresAt e < now"

definition memory_matches :: "time \<Rightarrow> memory_filter \<Rightarrow> memory_entry \<Rightarrow> bool" where
  "memory_matches now f e \<longleftrightarrow>
     (mfUserID f = [] \<or> meUserID e = mfUserID f) \<and>
     (mfAgentID f = [] \<or> meAgentID e = mfAgentID f) \<and>
     (mfDriveID f = [] \<or> meDriveID e = mfDriveID f) \<and>
     (mfLayer f = [] \<or> meLayer e = mfLayer f) \<and>
     (mfKey f = [] \<or> meKey e = mfKey f) \<and> memory_live now e"

definition ListMemory :: "time \<Rightarrow> memory \<Rightarrow> memory_filter \<Rightarrow> memory_entry list" where
  "ListMemory now m f =
     (let limit = (if mfLimit f \<le> 0 \<or> mfLimit f > 500 then 100 else mfLimit f)
      in take (nat limit)
           (exch_sort (newer meCreatedAt) (filter (memory_matches now f) (gvals (m_memories m)))))"

definition DeleteMemory :: "memory \<Rightarrow> string \<Rightarrow> string \<Rightarrow> memory result" where
  "DeleteMemory m u i =
     (case gget (m_memories m) i of
        None \<Rightarrow> Inl (Errorf ''memory not found'')
      | Some e \<Rightarrow>
          if meUserID e \<noteq> u then Inl (Errorf ''memory not found'')
          else Inr (m\<lparr>m_memories := gdel i (m_memories m)\<rparr>))"

section \<open>Marketplace\<close>

definition CreateMarketplaceItem :: "memory \<Rightarrow> marketplace_item \<Rightarrow> memory result" where
  "CreateMarketplaceItem m it =
     (if miID it = [] then Inl (Errorf ''marketplace id required'')
      else Inr (m\<lparr>m_market := gset (miID it) it (m_market m)\<rparr>))"

definition GetMarketplaceItem :: "memory \<Rightarrow> string \<Rightarrow> marketplace_item result" where
  "GetMarketplaceItem m i =
     (case gget (m_market m) i of
        None \<Rightarrow> Inl (Errorf ''marketplace item not found'') | Some it \<Rightarrow> Inr it)"

definition ListMarketplaceItems :: "memory \<Rightarrow> bool \<Rightarrow> string \<Rightarrow> marketplace_item list" where
  "ListMarketplaceItems m publicOnly publisher =
     filter (\<lambda>it. \<not> (publicOnly \<and> \<not> miPublic it) \<and>
                  (publisher = [] \<or> miPublisherUserID it = publisher)) (gvals (m_market m))"

definition DeleteMarketplaceItem :: "memory \<Rightarrow> string \<Rightarrow> string \<Rightarrow> memory result" where
  "DeleteMarketplaceItem m publisher i =
     (case gget (m_market m) i of
        None \<Rightarrow> Inl (Errorf ''marketplace item not found'')
      | Some it \<Rightarrow>
          if miPublisherUserID it \<noteq> publisher then Inl (Errorf ''marketplace item not found'')
          else Inr (m\<lparr>m_market := gdel i (m_market m)\<rparr>))"

section \<open>Lineage and the identity graph\<close>

definition AppendLineage :: "memory \<Rightarrow> lineage_event \<Rightarrow> memory result" where
  "AppendLineage m e =
     (if leID e = [] then Inl (Errorf ''lineage id required'')
      else Inr (m\<lparr>m_lineage := m_lineage m @ [e]\<rparr>))"

definition ListLineage :: "memory \<Rightarrow> string \<Rightarrow> string \<Rightarrow> int \<Rightarrow> lineage_event list" where
  "ListLineage m u entity limit0 =
     (let limit = (if limit0 \<le> 0 \<or> limit0 > 500 then 100 else limit0)
      in take (nat limit)
           (filter (\<lambda>e. leUserID e = u \<and> (entity = [] \<or> leEntity e = entity \<or> leParent e = entity))
              (rev (m_lineage m))))"

definition UpsertGraphEdge :: "memory \<Rightarrow> graph_edge \<Rightarrow> memory result" where
  "UpsertGraphEdge m e =
     (if geID e = [] then Inl (Errorf ''edge id required'')
      else Inr (m\<lparr>m_graph := gset (geID e) e (m_graph m)\<rparr>))"

definition ListGraphEdges :: "memory \<Rightarrow> string \<Rightarrow> string \<Rightarrow> string \<Rightarrow> int \<Rightarrow> graph_edge list" where
  "ListGraphEdges m u subject object limit0 =
     (let limit = (if limit0 \<le> 0 \<or> limit0 > 500 then 100 else limit0)
      in take (nat limit)
           (filter (\<lambda>e. geUserID e = u \<and> (subject = [] \<or> geSubject e = subject) \<and>
                        (object = [] \<or> geObject e = object)) (gvals (m_graph m))))"

section \<open>Purchases\<close>

definition CreatePurchase :: "memory \<Rightarrow> purchase \<Rightarrow> memory result" where
  "CreatePurchase m p =
     (if puID p = [] then Inl (Errorf ''purchase id required'')
      else Inr (m\<lparr>m_purchases := gset (puID p) p (m_purchases m)\<rparr>))"

definition GetPurchase :: "memory \<Rightarrow> string \<Rightarrow> string \<Rightarrow> purchase result" where
  "GetPurchase m u i =
     (case gget (m_purchases m) i of
        None \<Rightarrow> Inl (Errorf ''purchase not found'')
      | Some p \<Rightarrow> if puUserID p \<noteq> u then Inl (Errorf ''purchase not found'') else Inr p)"

definition ListPurchases :: "memory \<Rightarrow> string \<Rightarrow> int \<Rightarrow> purchase list" where
  "ListPurchases m u limit0 =
     (let limit = (if limit0 \<le> 0 \<or> limit0 > 200 then 50 else limit0)
      in take (nat limit) (filter (\<lambda>p. puUserID p = u) (gvals (m_purchases m))))"

definition UpdatePurchase :: "memory \<Rightarrow> purchase \<Rightarrow> memory result" where
  "UpdatePurchase m p =
     (if puID p = [] then Inl (Errorf ''purchase id required'')
      else (case gget (m_purchases m) (puID p) of
              None \<Rightarrow> Inl (Errorf ''purchase not found'')
            | Some _ \<Rightarrow> Inr (m\<lparr>m_purchases := gset (puID p) p (m_purchases m)\<rparr>)))"

section \<open>Connector bindings\<close>

definition CreateConnector :: "memory \<Rightarrow> connector_binding \<Rightarrow> memory result" where
  "CreateConnector m c =
     (if cbID c = [] then Inl (Errorf ''connector id required'')
      else Inr (m\<lparr>m_connectors := gset (cbID c) c (m_connectors m)\<rparr>))"

definition GetConnector :: "memory \<Rightarrow> string \<Rightarrow> string \<Rightarrow> connector_binding result" where
  "GetConnector m u i =
     (case gget (m_connectors m) i of
        None \<Rightarrow> Inl (Errorf ''connector not found'')
      | Some c \<Rightarrow> if cbUserID c \<noteq> u then Inl (Errorf ''connector not found'') else Inr c)"

definition ListConnectors :: "memory \<Rightarrow> string \<Rightarrow> connector_binding list" where
  "ListConnectors m u = filter (\<lambda>c. cbUserID c = u) (gvals (m_connectors m))"

definition DeleteConnector :: "memory \<Rightarrow> string \<Rightarrow> string \<Rightarrow> memory result" where
  "DeleteConnector m u i =
     (case gget (m_connectors m) i of
        None \<Rightarrow> Inl (Errorf ''connector not found'')
      | Some c \<Rightarrow>
          if cbUserID c \<noteq> u then Inl (Errorf ''connector not found'')
          else Inr (m\<lparr>m_connectors := gdel i (m_connectors m)\<rparr>))"

lemmas stage_c_defs [store_defs] =
  CreateMemory_def GetMemory_def ListMemory_def DeleteMemory_def CreateMarketplaceItem_def
  GetMarketplaceItem_def ListMarketplaceItems_def DeleteMarketplaceItem_def AppendLineage_def
  ListLineage_def UpsertGraphEdge_def ListGraphEdges_def CreatePurchase_def GetPurchase_def
  ListPurchases_def UpdatePurchase_def CreateConnector_def GetConnector_def ListConnectors_def
  DeleteConnector_def

section \<open>The table contracts\<close>

interpretation memories: owned_create meUserID meID m_memories GetMemory CreateMemory
  by unfold_locales (auto simp: stage_c_defs split: option.splits if_splits)

interpretation memories_d: owned_delete meUserID meID m_memories GetMemory DeleteMemory
  by unfold_locales (auto simp: stage_c_defs split: option.splits if_splits)

interpretation purchases: owned_create puUserID puID m_purchases GetPurchase CreatePurchase
  by unfold_locales (auto simp: stage_c_defs split: option.splits if_splits)

interpretation connectors: owned_read cbUserID cbID m_connectors GetConnector ListConnectors
  by unfold_locales (auto simp: stage_c_defs split: option.splits)

interpretation connectors_c: owned_create cbUserID cbID m_connectors GetConnector CreateConnector
  by unfold_locales (auto simp: stage_c_defs split: option.splits if_splits)

interpretation connectors_d: owned_delete cbUserID cbID m_connectors GetConnector DeleteConnector
  by unfold_locales (auto simp: stage_c_defs split: option.splits if_splits)

section \<open>Well-formedness\<close>

lemma CreateMemory_wf: "store_wf m \<Longrightarrow> CreateMemory m e = Inr m' \<Longrightarrow> store_wf m'"
  by (auto simp: CreateMemory_def wf_dests split: if_splits intro!: wf_intros)

lemma DeleteMemory_wf: "store_wf m \<Longrightarrow> DeleteMemory m u i = Inr m' \<Longrightarrow> store_wf m'"
  by (auto simp: DeleteMemory_def wf_dests split: option.splits if_splits intro!: wf_intros)

lemma CreateMarketplaceItem_wf: "store_wf m \<Longrightarrow> CreateMarketplaceItem m e = Inr m' \<Longrightarrow> store_wf m'"
  by (auto simp: CreateMarketplaceItem_def wf_dests split: if_splits intro!: wf_intros)

lemma DeleteMarketplaceItem_wf: "store_wf m \<Longrightarrow> DeleteMarketplaceItem m u i = Inr m' \<Longrightarrow> store_wf m'"
  by (auto simp: DeleteMarketplaceItem_def wf_dests split: option.splits if_splits intro!: wf_intros)

lemma AppendLineage_wf: "store_wf m \<Longrightarrow> AppendLineage m e = Inr m' \<Longrightarrow> store_wf m'"
  by (auto simp: AppendLineage_def wf_dests split: if_splits intro!: wf_intros)

lemma UpsertGraphEdge_wf: "store_wf m \<Longrightarrow> UpsertGraphEdge m e = Inr m' \<Longrightarrow> store_wf m'"
  by (auto simp: UpsertGraphEdge_def wf_dests split: if_splits intro!: wf_intros)

lemma CreatePurchase_wf: "store_wf m \<Longrightarrow> CreatePurchase m e = Inr m' \<Longrightarrow> store_wf m'"
  by (auto simp: CreatePurchase_def wf_dests split: if_splits intro!: wf_intros)

lemma UpdatePurchase_wf: "store_wf m \<Longrightarrow> UpdatePurchase m e = Inr m' \<Longrightarrow> store_wf m'"
  by (auto simp: UpdatePurchase_def wf_dests split: option.splits if_splits intro!: wf_intros)

lemma CreateConnector_wf: "store_wf m \<Longrightarrow> CreateConnector m e = Inr m' \<Longrightarrow> store_wf m'"
  by (auto simp: CreateConnector_def wf_dests split: if_splits intro!: wf_intros)

lemma DeleteConnector_wf: "store_wf m \<Longrightarrow> DeleteConnector m u i = Inr m' \<Longrightarrow> store_wf m'"
  by (auto simp: DeleteConnector_def wf_dests split: option.splits if_splits intro!: wf_intros)

lemmas stage_c_wf =
  CreateMemory_wf DeleteMemory_wf CreateMarketplaceItem_wf DeleteMarketplaceItem_wf
  AppendLineage_wf UpsertGraphEdge_wf CreatePurchase_wf UpdatePurchase_wf CreateConnector_wf
  DeleteConnector_wf

section \<open>Listings\<close>

text \<open>An expired memory is never listed, and a listing holds the newest matches.\<close>

lemma ListMemory_sound:
  "e \<in> set (ListMemory now m f) \<Longrightarrow> memory_matches now f e \<and> e \<in> set (gvals (m_memories m))"
  by (auto simp: ListMemory_def Let_def dest!: in_set_takeD)

lemma ListMarketplaceItems_public:
  "it \<in> set (ListMarketplaceItems m True p) \<Longrightarrow> miPublic it"
  by (simp add: ListMarketplaceItems_def)

text \<open>The lineage log is append-only: what was listed without limit stays a suffix of the listing.\<close>

lemma AppendLineage_listed:
  assumes "AppendLineage m e = Inr m'" "leUserID e = u" "entity = [] \<or> leEntity e = entity \<or> leParent e = entity"
  shows "\<exists>rest. ListLineage m' u entity l = e # rest"
proof -
  have "0 < nat (if l \<le> 0 \<or> 500 < l then 100 else l)" by auto
  with assms show ?thesis
    by (cases "nat (if l \<le> 0 \<or> 500 < l then 100 else l)")
       (auto simp: AppendLineage_def ListLineage_def Let_def split: if_splits)
qed

end
