(* ===== verification/Codec_Base64.thy ===== *)
theory Codec_Base64
  imports Cloud_Prelude
begin

text \<open>
  \<open>base64.RawURLEncoding\<close>, the codec of the bearer tokens and refresh secrets: three bytes become
  four characters of the URL alphabet, a rest of one or two bytes becomes two or three characters,
  without padding. Decoding skips line breaks, as Go's decoder does, and ignores the unused low
  bits of the last character (the encoding is not \<open>Strict\<close>).
\<close>

definition b64_char :: "nat \<Rightarrow> char" where
  "b64_char n =
     (if n < 26 then char_of (65 + n)
      else if n < 52 then char_of (71 + n)
      else if n < 62 then char_of (n - 4)
      else if n = 62 then CHR ''-'' else CHR ''_'')"

definition b64_val :: "char \<Rightarrow> nat option" where
  "b64_val c =
     (let n = (of_char c :: nat)
      in if 65 \<le> n \<and> n \<le> 90 then Some (n - 65)
         else if 97 \<le> n \<and> n \<le> 122 then Some (n - 71)
         else if 48 \<le> n \<and> n \<le> 57 then Some (n + 4)
         else if c = CHR ''-'' then Some 62
         else if c = CHR ''_'' then Some 63 else None)"

fun b64_groups :: "nat list \<Rightarrow> nat list" where
  "b64_groups [] = []"
| "b64_groups [a] = [a div 4, a mod 4 * 16]"
| "b64_groups [a, b] = [a div 4, a mod 4 * 16 + b div 16, b mod 16 * 4]"
| "b64_groups (a # b # c # xs) =
     [a div 4, a mod 4 * 16 + b div 16, b mod 16 * 4 + c div 64, c mod 64] @ b64_groups xs"

fun b64_bytes :: "nat list \<Rightarrow> nat list option" where
  "b64_bytes [] = Some []"
| "b64_bytes [p] = None"
| "b64_bytes [p, q] = Some [p * 4 + q div 16]"
| "b64_bytes [p, q, r] = Some [p * 4 + q div 16, q mod 16 * 16 + r div 4]"
| "b64_bytes (p # q # r # s # xs) =
     (case b64_bytes xs of
        None \<Rightarrow> None
      | Some ys \<Rightarrow> Some ([p * 4 + q div 16, q mod 16 * 16 + r div 4, r mod 4 * 64 + s] @ ys))"

definition b64_encode :: "string \<Rightarrow> string" where
  "b64_encode s = map b64_char (b64_groups (map of_char s))"

definition b64_decode :: "string \<Rightarrow> string option" where
  "b64_decode s =
     (let vs = map b64_val (filter (\<lambda>c. c \<noteq> CHR 0x0A \<and> c \<noteq> CHR 0x0D) s)
      in if None \<in> set vs then None
         else (case b64_bytes (map the vs) of None \<Rightarrow> None | Some bs \<Rightarrow> Some (map char_of bs)))"

section \<open>Round trip\<close>

lemma of_char_of_small: "n < 256 \<Longrightarrow> of_char (char_of n :: char) = (n :: nat)"
  by (simp add: of_char_of)

lemma b64_val_char: "n < 64 \<Longrightarrow> b64_val (b64_char n) = Some n"
proof -
  have c: "of_char (CHR ''-'') = (45 :: nat)" "of_char (CHR ''_'') = (95 :: nat)" by simp_all
  assume "n < 64"
  then consider "n < 26" | "26 \<le> n" "n < 52" | "52 \<le> n" "n < 62" | "n = 62" | "n = 63" by linarith
  then show ?thesis
  proof cases
    case 3
    then have "48 \<le> n - 4 \<and> n - 4 \<le> 57" by linarith
    with 3 show ?thesis by (simp add: b64_char_def b64_val_def Let_def of_char_of_small)
  qed (simp_all add: b64_char_def b64_val_def Let_def of_char_of_small c)
qed

lemma b64_quad:
  fixes a b c :: nat
  assumes "a < 256" "b < 256" "c < 256"
  shows "a div 4 < 64" "a mod 4 * 16 + b div 16 < 64" "b mod 16 * 4 + c div 64 < 64"
    "a mod 4 * 16 < 64" "b mod 16 * 4 < 64"
    "a div 4 * 4 + (a mod 4 * 16 + b div 16) div 16 = a"
    "(a mod 4 * 16 + b div 16) mod 16 * 16 + (b mod 16 * 4 + c div 64) div 4 = b"
    "(b mod 16 * 4 + c div 64) mod 4 * 64 + c mod 64 = c"
    "a div 4 * 4 + a mod 4 * 16 div 16 = a"
    "(a mod 4 * 16 + b div 16) mod 16 * 16 + b mod 16 * 4 div 4 = b"
proof -
  define p q r s' t u where "p = a div 4" and "q = a mod 4" and "r = b div 16" and "s' = b mod 16"
    and "t = c div 64" and "u = c mod 64"
  note d = this
  have e: "a = 4 * p + q" "b = 16 * r + s'" "c = 64 * t + u" by (simp_all add: d)
  have b: "q < 4" "s' < 16" "u < 64" "p < 64" "r < 16" "t < 4" using assms by (simp_all add: d)
  have v: "a div 4 = p" "a mod 4 = q" "b div 16 = r" "b mod 16 = s'" "c div 64 = t" "c mod 64 = u"
    by (simp_all add: d)
  show "a div 4 < 64" "a mod 4 * 16 + b div 16 < 64" "b mod 16 * 4 + c div 64 < 64"
    "a mod 4 * 16 < 64" "b mod 16 * 4 < 64"
    unfolding v using b by linarith+
  show "a div 4 * 4 + (a mod 4 * 16 + b div 16) div 16 = a"
    "(a mod 4 * 16 + b div 16) mod 16 * 16 + (b mod 16 * 4 + c div 64) div 4 = b"
    "(b mod 16 * 4 + c div 64) mod 4 * 64 + c mod 64 = c"
    "a div 4 * 4 + a mod 4 * 16 div 16 = a"
    "(a mod 4 * 16 + b div 16) mod 16 * 16 + b mod 16 * 4 div 4 = b"
    unfolding v using b by (simp_all add: e)
qed

lemma b64_groups_bound: "\<forall>x \<in> set xs. x < 256 \<Longrightarrow> \<forall>y \<in> set (b64_groups xs). y < 64"
proof (induction xs rule: b64_groups.induct)
  case (4 a b c xs)
  then show ?case using b64_quad [of a b c] by simp
next
  case (3 a b)
  then show ?case using b64_quad [of a b 0] by simp
next
  case (2 a)
  then show ?case using b64_quad [of a 0 0] by simp
qed simp

lemma b64_bytes_groups: "\<forall>x \<in> set xs. x < 256 \<Longrightarrow> b64_bytes (b64_groups xs) = Some xs"
proof (induction xs rule: b64_groups.induct)
  case (4 a b c xs)
  then show ?case using b64_quad [of a b c] by simp
next
  case (3 a b)
  then show ?case using b64_quad [of a b 0] by simp
next
  case (2 a)
  then show ?case using b64_quad [of a 0 0] by simp
qed simp

lemma b64_char_plain: "n < 64 \<Longrightarrow> b64_char n \<noteq> CHR 0x0A \<and> b64_char n \<noteq> CHR 0x0D \<and> b64_char n \<noteq> CHR ''.''"
proof -
  have c: "of_char (CHR 0x0A) = (10 :: nat)" "of_char (CHR 0x0D) = (13 :: nat)" "of_char (CHR ''.'') = (46 :: nat)"
    by simp_all
  assume "n < 64"
  then show ?thesis using b64_val_char [of n] by (auto simp: b64_val_def Let_def c)
qed

lemma bytes_small: "\<forall>x \<in> set (map of_char (s :: string)). (x :: nat) < 256"
  by auto

lemma b64_encode_plain: "c \<in> set (b64_encode s) \<Longrightarrow> c \<noteq> CHR 0x0A \<and> c \<noteq> CHR 0x0D \<and> c \<noteq> CHR ''.''"
  unfolding b64_encode_def using b64_groups_bound [OF bytes_small] b64_char_plain by auto

lemma b64_roundtrip: "b64_decode (b64_encode s) = Some s"
proof -
  let ?g = "b64_groups (map of_char s)"
  have g: "\<forall>y \<in> set ?g. y < 64" by (rule b64_groups_bound [OF bytes_small])
  have f: "filter (\<lambda>c. c \<noteq> CHR 0x0A \<and> c \<noteq> CHR 0x0D) (b64_encode s) = b64_encode s"
    using b64_encode_plain by (intro filter_True) blast
  have v: "map b64_val (b64_encode s) = map Some ?g"
    unfolding b64_encode_def using g b64_val_char by simp
  have n: "None \<notin> set (map Some ?g)" by auto
  have "map the (map Some ?g) = ?g" by (simp add: comp_def)
  moreover have "map char_of (map of_char s :: nat list) = s" by (simp add: comp_def)
  ultimately show ?thesis
    unfolding b64_decode_def f v Let_def using n b64_bytes_groups [OF bytes_small, of s]
    by (simp del: map_map)
qed

end
