(* ===== verification/Auth_Service.thy ===== *)
theory Auth_Service
  imports Store_Accounts Codec_Base64
begin

text \<open>
  Accounts and sessions (\<open>internal/auth/auth.go\<close>, \<open>refresh.go\<close>, \<open>scope.go\<close>, \<open>policy.go\<close>). Every operation
  takes the service settings, what the call draws (clock, identifiers, random secret) and the store,
  and returns the store after the call. bcrypt, HMAC-SHA256, SHA-256 and the JSON codec of the token
  payload are parameters.
\<close>

section \<open>Settings and draws\<close>

record payload =
  tpUserID :: string
  tpUsername :: string
  tpRole :: string
  tpExp :: int
  tpJTI :: string
  tpTokenVersion :: int
  tpAgentID :: string
  tpAgentTokenVersion :: int
  tpScopes :: "string list"

record auth_service =
  asSecret :: string
  asTokenTTL :: duration
  asRefreshTTL :: duration
  as_bcrypt :: "string \<Rightarrow> string + string"
  as_compare :: "string \<Rightarrow> string \<Rightarrow> bool"
  as_hmac :: "string \<Rightarrow> string \<Rightarrow> string"
  as_sha_hex :: "string \<Rightarrow> string"
  as_marshal :: "payload \<Rightarrow> string + string"
  as_unmarshal :: "string \<Rightarrow> string + payload"

record principal =
  prlUserID :: string
  prlUsername :: string
  prlRole :: string
  prlAgentID :: string
  prlScopes :: "string list"

record account =
  acID :: string
  acUsername :: string
  acRole :: string

record token_pair =
  tkAccess :: string
  tkRefresh :: string
  tkExpiresIn :: int
  tkUser :: account

abbreviation hour :: duration where "hour \<equiv> 3600 * second"

definition tokenTTLOrDefault :: "auth_service \<Rightarrow> duration" where
  "tokenTTLOrDefault s = (if asTokenTTL s \<le> 0 then 24 * hour else asTokenTTL s)"

definition refreshTTLOrDefault :: "auth_service \<Rightarrow> duration" where
  "refreshTTLOrDefault s = (if asRefreshTTL s \<le> 0 then 7 * 24 * hour else asRefreshTTL s)"

definition SetTokenTTL :: "auth_service \<Rightarrow> duration \<Rightarrow> auth_service" where
  "SetTokenTTL s ttl = s\<lparr>asTokenTTL := (if ttl \<le> 0 then 24 * hour else ttl)\<rparr>"

definition SetRefreshTTL :: "auth_service \<Rightarrow> duration \<Rightarrow> auth_service" where
  "SetRefreshTTL s ttl = s\<lparr>asRefreshTTL := (if ttl \<le> 0 then 7 * 24 * hour else ttl)\<rparr>"

section \<open>User names, passwords, scopes\<close>

text \<open>Runes of a valid UTF-8 string: the bytes that do not continue a rune.\<close>

definition rune_count :: "string \<Rightarrow> nat" where
  "rune_count s = length (filter (\<lambda>c. \<not> (CHR 0x80 \<le> c \<and> c < CHR 0xC0)) s)"

definition is_alnum :: "char \<Rightarrow> bool" where
  "is_alnum c \<longleftrightarrow> (CHR ''a'' \<le> c \<and> c \<le> CHR ''z'') \<or> (CHR ''A'' \<le> c \<and> c \<le> CHR ''Z'') \<or>
                 (CHR ''0'' \<le> c \<and> c \<le> CHR ''9'')"

definition usernameRE :: "string \<Rightarrow> bool" where
  "usernameRE s \<longleftrightarrow>
     (case s of [] \<Rightarrow> False
      | c # cs \<Rightarrow> is_alnum c \<and>
          list_all (\<lambda>x. is_alnum x \<or> x = CHR ''.'' \<or> x = CHR ''_'' \<or> x = CHR ''-'') cs)"

definition ValidateUsername :: "string \<Rightarrow> unit result" where
  "ValidateUsername username0 =
     (let username = trim_space username0; n = rune_count username
      in if n < 3 then Inl (Errorf ''username too short (min 3)'')
         else if n > 64 then Inl (Errorf ''username too long (max 64)'')
         else if \<not> usernameRE username
         then Inl (Errorf ''username must start with alphanumeric and contain only [a-zA-Z0-9._-]'')
         else Inr ())"

definition ValidatePassword :: "string \<Rightarrow> unit result" where
  "ValidatePassword password =
     (let n = rune_count password
      in if n < 8 then Inl (Errorf ''password too short (min 8)'')
         else if n > 128 then Inl (Errorf ''password too long (max 128)'')
         else Inr ())"

definition KnownScopes :: "string list" where
  "KnownScopes = [''drive.read'', ''drive.write'', ''job.run'', ''provider.read'', ''provider.write'']"

definition IsKnownScope :: "string \<Rightarrow> bool" where
  "IsKnownScope s \<longleftrightarrow> trim_space s \<in> set KnownScopes"

fun normalize_loop :: "string list \<Rightarrow> string list \<Rightarrow> string list" where
  "normalize_loop seen [] = []"
| "normalize_loop seen (s0 # ss) =
     (let s = trim_space s0
      in if s = [] \<or> s \<in> set seen then normalize_loop seen ss
         else s # normalize_loop (s # seen) ss)"

definition NormalizeScopes :: "string list \<Rightarrow> string list" where
  "NormalizeScopes ss = normalize_loop [] ss"

definition HasScope :: "string \<Rightarrow> string list \<Rightarrow> string \<Rightarrow> bool" where
  "HasScope agentID scopes need \<longleftrightarrow> agentID = [] \<or> trim_space need \<in> set scopes"

definition HasAnyScope :: "string \<Rightarrow> string list \<Rightarrow> string list \<Rightarrow> bool" where
  "HasAnyScope agentID scopes needs \<longleftrightarrow> agentID = [] \<or> list_ex (HasScope agentID scopes) needs"

section \<open>Passwords\<close>

definition HashPassword :: "auth_service \<Rightarrow> string \<Rightarrow> string result" where
  "HashPassword s password =
     (case as_bcrypt s password of
        Inl err \<Rightarrow> Inl (Errorf (''hash password: '' @ err))
      | Inr h \<Rightarrow> Inr h)"

definition isBcryptHash :: "string \<Rightarrow> bool" where
  "isBcryptHash s \<longleftrightarrow> prefix ''$2a$'' s \<or> prefix ''$2b$'' s \<or> prefix ''$2y$'' s"

section \<open>Access tokens\<close>

definition sign_payload :: "auth_service \<Rightarrow> string \<Rightarrow> string" where
  "sign_payload s raw = b64_encode raw @ CHR ''.'' # b64_encode (as_hmac s (asSecret s) raw)"

definition issue ::
  "auth_service \<Rightarrow> draw \<Rightarrow> string \<Rightarrow> string \<Rightarrow> string \<Rightarrow> int \<Rightarrow> duration \<Rightarrow> string \<Rightarrow> int \<Rightarrow> string list \<Rightarrow>
   string result" where
  "issue s dr userID username role0 tokenVersion ttl agentID agentTokenVersion scopes =
     (let role = (if role0 = [] then ''user'' else role0);
          p = \<lparr>tpUserID = userID, tpUsername = username, tpRole = role,
               tpExp = unix_seconds (dr_now dr + ttl), tpJTI = dr_jti dr, tpTokenVersion = tokenVersion,
               tpAgentID = agentID, tpAgentTokenVersion = agentTokenVersion, tpScopes = scopes\<rparr>
      in (case as_marshal s p of
            Inl err \<Rightarrow> Inl (Errorf err)
          | Inr raw \<Rightarrow> Inr (sign_payload s raw)))"

definition IssueAgentToken ::
  "auth_service \<Rightarrow> draw \<Rightarrow> string \<Rightarrow> string \<Rightarrow> string \<Rightarrow> string \<Rightarrow> int \<Rightarrow> int \<Rightarrow> string list \<Rightarrow> duration \<Rightarrow>
   string result" where
  "IssueAgentToken s dr userID username role agentID userTokenVersion agentTokenVersion scopes0 ttl0 =
     (if agentID = [] then Inl (Errorf ''agent_id required'')
      else (let scopes = NormalizeScopes scopes0
            in (case find (\<lambda>sc. \<not> IsKnownScope sc) scopes of
                  Some sc \<Rightarrow> Inl (Errorf (''unknown scope '' @ [CHR 0x22] @ sc @ [CHR 0x22]))
                | None \<Rightarrow>
                    (let ttl = (if ttl0 \<le> 0
                                then (if tokenTTLOrDefault s > hour then hour else tokenTTLOrDefault s)
                                else ttl0)
                     in issue s dr userID username role userTokenVersion ttl agentID
                          agentTokenVersion scopes))))"

text \<open>The checks of a payload against the store, after its signature was accepted.\<close>

definition check_versions :: "memory \<Rightarrow> payload \<Rightarrow> payload result" where
  "check_versions m p =
     (case GetUserByID m (tpUserID p) of
        Inl _ \<Rightarrow> Inl (Errorf ''token revoked'')
      | Inr rec \<Rightarrow>
          if tpTokenVersion p \<noteq> uTokenVersion rec then Inl (Errorf ''token revoked'')
          else if tpAgentID p = [] then Inr p
          else (case GetAgentByID m (tpAgentID p) of
                  Inl _ \<Rightarrow> Inl (Errorf ''token revoked'')
                | Inr a \<Rightarrow>
                    if agStatus a \<noteq> ''active'' then Inl (Errorf ''agent disabled'')
                    else if tpAgentTokenVersion p \<noteq> agTokenVersion a then Inl (Errorf ''token revoked'')
                    else Inr p))"

definition parsePayload :: "auth_service \<Rightarrow> time \<Rightarrow> memory \<Rightarrow> string \<Rightarrow> memory \<times> payload result" where
  "parsePayload s now m token =
     (case split_c (CHR ''.'') token of
        [h, sg] \<Rightarrow>
          (case b64_decode h of
             None \<Rightarrow> (m, Inl (Errorf ''bad token''))
           | Some raw \<Rightarrow>
               (case b64_decode sg of
                  None \<Rightarrow> (m, Inl (Errorf ''bad token''))
                | Some sig \<Rightarrow>
                    if sig \<noteq> as_hmac s (asSecret s) raw then (m, Inl (Errorf ''bad signature''))
                    else (case as_unmarshal s raw of
                            Inl err \<Rightarrow> (m, Inl (Errorf err))
                          | Inr p \<Rightarrow>
                              if unix_seconds now > tpExp p then (m, Inl (Errorf ''token expired''))
                              else if tpJTI p = [] then (m, check_versions m p)
                              else (let (m1, rev) = IsJTIRevoked now m (tpJTI p)
                                    in if rev then (m1, Inl (Errorf ''token revoked''))
                                       else (m1, check_versions m1 p)))))
      | _ \<Rightarrow> (m, Inl (Errorf ''bad token'')))"

definition ParsePrincipal :: "auth_service \<Rightarrow> time \<Rightarrow> memory \<Rightarrow> string \<Rightarrow> memory \<times> principal result" where
  "ParsePrincipal s now m token =
     (case parsePayload s now m token of
        (m1, Inl e) \<Rightarrow> (m1, Inl e)
      | (m1, Inr p) \<Rightarrow>
          (m1, Inr \<lparr>prlUserID = tpUserID p, prlUsername = tpUsername p,
                    prlRole = (if tpRole p = [] then ''user'' else tpRole p),
                    prlAgentID = tpAgentID p, prlScopes = tpScopes p\<rparr>))"

section \<open>Refresh tokens\<close>

definition newRefreshSecret :: "auth_service \<Rightarrow> draw \<Rightarrow> (string \<times> string) result" where
  "newRefreshSecret s dr =
     (case dr_rand dr of
        Inl err \<Rightarrow> Inl (Errorf err)
      | Inr b \<Rightarrow> Inr (b64_encode b, as_sha_hex s (b64_encode b)))"

definition IssueTokens ::
  "auth_service \<Rightarrow> draw \<Rightarrow> memory \<Rightarrow> string \<Rightarrow> string \<Rightarrow> string \<Rightarrow> int \<Rightarrow> memory \<times> token_pair result" where
  "IssueTokens s dr m userID username role0 tokenVersion =
     (let role = (if role0 = [] then ''user'' else role0); accessTTL = tokenTTLOrDefault s
      in (case issue s dr userID username role tokenVersion accessTTL [] 0 [] of
            Inl e \<Rightarrow> (m, Inl e)
          | Inr access \<Rightarrow>
              (case newRefreshSecret s dr of
                 Inl e \<Rightarrow> (m, Inl e)
               | Inr (raw, hash) \<Rightarrow>
                   (let rt = \<lparr>rtID = dr_id dr, rtUserID = userID, rtTokenHash = hash,
                              rtExpiresAt = dr_now dr + refreshTTLOrDefault s, rtCreatedAt = dr_now dr,
                              rtRevoked = False\<rparr>
                    in (case CreateRefreshToken m rt of
                          Inl e \<Rightarrow> (m, Inl (Errorf (''persist refresh: '' @ error_text e)))
                        | Inr m1 \<Rightarrow>
                            (m1, Inr \<lparr>tkAccess = access, tkRefresh = raw,
                                      tkExpiresIn = accessTTL div second,
                                      tkUser = \<lparr>acID = userID, acUsername = username, acRole = role\<rparr>\<rparr>))))))"

definition Refresh :: "auth_service \<Rightarrow> draw \<Rightarrow> memory \<Rightarrow> string \<Rightarrow> memory \<times> token_pair result" where
  "Refresh s dr m rawRefresh0 =
     (let rawRefresh = trim_space rawRefresh0
      in if rawRefresh = [] then (m, Inl (Errorf ''refresh_token required''))
         else (case GetRefreshTokenByHash (dr_now dr) m (as_sha_hex s rawRefresh) of
                 Inl _ \<Rightarrow> (m, Inl (Errorf ''invalid refresh token''))
               | Inr rec \<Rightarrow>
                   (case GetUserByID m (rtUserID rec) of
                      Inl _ \<Rightarrow> (m, Inl (Errorf ''invalid refresh token''))
                    | Inr u \<Rightarrow>
                        (case RevokeRefreshToken m (rtID rec) of
                           Inl _ \<Rightarrow> (m, Inl (Errorf ''invalid refresh token''))
                         | Inr m1 \<Rightarrow>
                             IssueTokens s dr m1 (uID u) (uUsername u)
                               (if uRole u = [] then ''user'' else uRole u) (uTokenVersion u)))))"

definition RevokeRefresh :: "auth_service \<Rightarrow> time \<Rightarrow> memory \<Rightarrow> string \<Rightarrow> memory" where
  "RevokeRefresh s now m rawRefresh =
     (if rawRefresh = [] then m
      else (case GetRefreshTokenByHash now m (as_sha_hex s rawRefresh) of
              Inl _ \<Rightarrow> m
            | Inr rec \<Rightarrow> (case RevokeRefreshToken m (rtID rec) of Inl _ \<Rightarrow> m | Inr m1 \<Rightarrow> m1)))"

section \<open>Accounts\<close>

definition create_account ::
  "auth_service \<Rightarrow> draw \<Rightarrow> memory \<Rightarrow> string \<Rightarrow> string \<Rightarrow> string \<Rightarrow> memory \<times> account result" where
  "create_account s dr m username password role =
     (case HashPassword s password of
        Inl e \<Rightarrow> (m, Inl e)
      | Inr hash \<Rightarrow>
          (case CreateUser m \<lparr>uID = dr_id dr, uUsername = username, uPassword = hash, uRole = role,
                              uTokenVersion = 0\<rparr> of
             Inl e \<Rightarrow> (m, Inl e)
           | Inr m1 \<Rightarrow> (m1, Inr \<lparr>acID = dr_id dr, acUsername = username, acRole = role\<rparr>)))"

definition Register :: "auth_service \<Rightarrow> draw \<Rightarrow> memory \<Rightarrow> string \<Rightarrow> string \<Rightarrow> memory \<times> account result" where
  "Register s dr m username0 password =
     (let username = trim_space username0
      in (case ValidateUsername username of
            Inl e \<Rightarrow> (m, Inl e)
          | Inr _ \<Rightarrow>
              (case ValidatePassword password of
                 Inl e \<Rightarrow> (m, Inl e)
               | Inr _ \<Rightarrow>
                   (case GetUserByUsername m username of
                      Inr _ \<Rightarrow> (m, Inl (Errorf ''user exists''))
                    | Inl _ \<Rightarrow>
                        create_account s dr m username password
                          (if CountUsers m = 0 then ''admin'' else ''user'')))))"

definition AdminCreateUser ::
  "auth_service \<Rightarrow> draw \<Rightarrow> memory \<Rightarrow> string \<Rightarrow> string \<Rightarrow> string \<Rightarrow> memory \<times> account result" where
  "AdminCreateUser s dr m username0 password role0 =
     (let username = trim_space username0
      in (case ValidateUsername username of
            Inl e \<Rightarrow> (m, Inl e)
          | Inr _ \<Rightarrow>
              (case ValidatePassword password of
                 Inl e \<Rightarrow> (m, Inl e)
               | Inr _ \<Rightarrow>
                   (let role = (if trim_space role0 = [] then ''user'' else trim_space role0)
                    in if role \<noteq> ''admin'' \<and> role \<noteq> ''user''
                       then (m, Inl (Errorf ''role must be admin or user''))
                       else (case GetUserByUsername m username of
                               Inr _ \<Rightarrow> (m, Inl (Errorf ''user exists''))
                             | Inl _ \<Rightarrow> create_account s dr m username password role)))))"

definition password_matches :: "auth_service \<Rightarrow> string \<Rightarrow> string \<Rightarrow> bool" where
  "password_matches s stored password \<longleftrightarrow>
     (if isBcryptHash stored then as_compare s stored password else stored = password)"

definition Login :: "auth_service \<Rightarrow> draw \<Rightarrow> memory \<Rightarrow> string \<Rightarrow> string \<Rightarrow> memory \<times> token_pair result" where
  "Login s dr m username password =
     (case GetUserByUsername m username of
        Inl _ \<Rightarrow> (m, Inl (Errorf ''invalid credentials''))
      | Inr rec \<Rightarrow>
          (let role = (if uRole rec = [] then ''user'' else uRole rec)
           in if \<not> password_matches s (uPassword rec) password
              then (m, Inl (Errorf ''invalid credentials''))
              else if isBcryptHash (uPassword rec)
              then IssueTokens s dr m (uID rec) (uUsername rec) role (uTokenVersion rec)
              else (case HashPassword s password of
                      Inl e \<Rightarrow> (m, Inl e)
                    | Inr hash \<Rightarrow>
                        (case UpdateUserPassword m (uID rec) hash of
                           Inl e \<Rightarrow> (m, Inl (Errorf (''upgrade password hash: '' @ error_text e)))
                         | Inr m1 \<Rightarrow>
                             IssueTokens s dr m1 (uID rec) (uUsername rec) role (uTokenVersion rec)))))"

definition bump_quietly :: "memory \<Rightarrow> string \<Rightarrow> memory" where
  "bump_quietly m userID = (case BumpTokenVersion m userID of Inl _ \<Rightarrow> m | Inr (m1, _) \<Rightarrow> m1)"

definition Logout :: "auth_service \<Rightarrow> time \<Rightarrow> memory \<Rightarrow> string \<Rightarrow> string \<Rightarrow> memory \<times> unit result" where
  "Logout s now m token rawRefresh =
     (case parsePayload s now m token of
        (m1, Inl e) \<Rightarrow> (m1, Inl e)
      | (m1, Inr p) \<Rightarrow>
          (let m2 = (if rawRefresh = [] then m1 else RevokeRefresh s now m1 rawRefresh)
           in if tpJTI p = []
              then (case BumpTokenVersion m2 (tpUserID p) of
                      Inl e \<Rightarrow> (RevokeRefreshTokensForUser m2 (tpUserID p), Inl e)
                    | Inr (m3, _) \<Rightarrow> (RevokeRefreshTokensForUser m3 (tpUserID p), Inr ()))
              else (case RevokeJTI now m2 (tpJTI p) (from_unix (tpExp p)) of
                      Inl e \<Rightarrow> (m2, Inl e)
                    | Inr m3 \<Rightarrow> (m3, Inr ()))))"

definition RevokeAllSessions :: "memory \<Rightarrow> string \<Rightarrow> memory \<times> int result" where
  "RevokeAllSessions m userID =
     (let m1 = RevokeRefreshTokensForUser m userID
      in (case BumpTokenVersion m1 userID of
            Inl e \<Rightarrow> (m1, Inl e)
          | Inr (m2, v) \<Rightarrow> (m2, Inr v)))"

definition countAdmins :: "memory \<Rightarrow> nat" where
  "countAdmins m = length (filter (\<lambda>u. uRole u = ''admin'') (ListUsers m))"

text \<open>A change of role reads first (\<open>set_role_check\<close>: the role is valid, the user exists, the last
  administrator is not demoted) and writes afterwards, with nothing locked in between; \<open>SetRole\<close> is
  one such call with no other call between the two.\<close>

definition set_role_check :: "memory \<Rightarrow> string \<Rightarrow> string \<Rightarrow> string result" where
  "set_role_check m userID role0 =
     (let role = trim_space role0
      in if role \<noteq> ''admin'' \<and> role \<noteq> ''user'' then Inl (Errorf ''role must be admin or user'')
         else (case GetUserByID m userID of
                 Inl _ \<Rightarrow> Inl (Errorf ''user not found'')
               | Inr cur \<Rightarrow>
                   (let curRole = (if uRole cur = [] then ''user'' else uRole cur)
                    in if curRole = ''admin'' \<and> role = ''user'' \<and> countAdmins m \<le> 1
                       then Inl (Errorf ''cannot demote the last admin'')
                       else Inr role)))"

definition SetRole :: "memory \<Rightarrow> string \<Rightarrow> string \<Rightarrow> memory \<times> unit result" where
  "SetRole m userID role0 =
     (case set_role_check m userID role0 of
        Inl e \<Rightarrow> (m, Inl e)
      | Inr role \<Rightarrow>
          (case UpdateUserRole m userID role of
             Inl e \<Rightarrow> (m, Inl e)
           | Inr m1 \<Rightarrow> (m1, Inr ())))"

definition GetUser :: "memory \<Rightarrow> string \<Rightarrow> account result" where
  "GetUser m userID =
     (case GetUserByID m userID of
        Inl e \<Rightarrow> Inl e
      | Inr u \<Rightarrow> Inr \<lparr>acID = uID u, acUsername = uUsername u,
                      acRole = (if uRole u = [] then ''user'' else uRole u)\<rparr>)"

definition ListAccounts :: "memory \<Rightarrow> account list" where
  "ListAccounts m =
     map (\<lambda>u. \<lparr>acID = uID u, acUsername = uUsername u,
               acRole = (if uRole u = [] then ''user'' else uRole u)\<rparr>) (ListUsers m)"

definition ChangePassword ::
  "auth_service \<Rightarrow> memory \<Rightarrow> string \<Rightarrow> string \<Rightarrow> string \<Rightarrow> memory \<times> unit result" where
  "ChangePassword s m userID oldPassword newPassword =
     (case ValidatePassword newPassword of
        Inl e \<Rightarrow> (m, Inl e)
      | Inr _ \<Rightarrow>
          (case GetUserByID m userID of
             Inl _ \<Rightarrow> (m, Inl (Errorf ''user not found''))
           | Inr u \<Rightarrow>
               if \<not> password_matches s (uPassword u) oldPassword
               then (m, Inl (Errorf ''invalid credentials''))
               else (case HashPassword s newPassword of
                       Inl e \<Rightarrow> (m, Inl e)
                     | Inr hash \<Rightarrow>
                         (case UpdateUserPassword m userID hash of
                            Inl e \<Rightarrow> (m, Inl e)
                          | Inr m1 \<Rightarrow>
                              (bump_quietly (RevokeRefreshTokensForUser m1 userID) userID, Inr ())))))"

definition AuditAgent ::
  "draw \<Rightarrow> memory \<Rightarrow> string \<Rightarrow> string \<Rightarrow> string \<Rightarrow> string \<Rightarrow> string \<Rightarrow> memory" where
  "AuditAgent dr m userID agentID action target detail =
     AppendAudit m \<lparr>aeID = dr_id dr, aeUserID = userID, aeAgentID = agentID, aeAction = action,
       aeTarget = target, aeDetail = detail, aeCreatedAt = dr_now dr\<rparr>"

definition Audit :: "draw \<Rightarrow> memory \<Rightarrow> string \<Rightarrow> string \<Rightarrow> string \<Rightarrow> string \<Rightarrow> memory" where
  "Audit dr m userID action target detail = AuditAgent dr m userID [] action target detail"

lemmas auth_defs [store_defs] =
  Register_def AdminCreateUser_def create_account_def Login_def IssueTokens_def Refresh_def
  RevokeRefresh_def Logout_def RevokeAllSessions_def SetRole_def set_role_check_def ChangePassword_def
  bump_quietly_def

end
