(* ===== verification/Auth_Machine.thy ===== *)
theory Auth_Machine
  imports Auth_Service
begin

text \<open>
  What the account service keeps: token versions never go back, a revoked refresh token never
  resolves again, an installation with an administrator keeps one. \<open>auth_le\<close> collects the first two
  with the survival of administrators; every operation moves the store up in it.
\<close>

section \<open>Lookups by walking a map\<close>

lemma find_update_first:
  assumes "update_first (\<lambda>u. g u = i) f m = Some m'" "\<And>u. g (f u) = g u"
  shows "find (\<lambda>u. g u = j) (gvals m') =
     (if j = i then map_option f (find (\<lambda>u. g u = i) (gvals m)) else find (\<lambda>u. g u = j) (gvals m))"
  using assms(1)
proof (induction m arbitrary: m')
  case Nil
  then show ?case by simp
next
  case (Cons x m)
  obtain k v where x: "x = (k, v)" by (cases x)
  show ?case
  proof (cases "g v = i")
    case True
    then have "m' = (k, f v) # m" using Cons.prems x by simp
    then show ?thesis using True x assms(2) by simp
  next
    case False
    then obtain m2 where m2: "update_first (\<lambda>u. g u = i) f m = Some m2" "m' = (k, v) # m2"
      using Cons.prems x by auto
    from Cons.IH [OF m2(1)] m2(2) False x show ?thesis by (cases "j = i") simp_all
  qed
qed

lemma find_append: "find P (xs @ ys) = (case find P xs of Some x \<Rightarrow> Some x | None \<Rightarrow> find P ys)"
  by (induction xs) auto

lemma find_gset_old:
  assumes "gget m k = Some v" "P v' = P v" "find P (gvals m) = Some t"
  shows "find P (gvals (gset k v' m)) = Some t \<or> (t = v \<and> find P (gvals (gset k v' m)) = Some v')"
  using assms by (induction m) (auto split: if_splits)

lemma find_map_same: "(\<And>x. P (f x) = P x) \<Longrightarrow> find P (map f xs) = map_option f (find P xs)"
  by (induction xs) auto

section \<open>Versions, dead refresh tokens, administrators\<close>

definition version_of :: "memory \<Rightarrow> string \<Rightarrow> int option" where
  "version_of m i = map_option uTokenVersion (find (\<lambda>u. uID u = i) (gvals (m_users m)))"

definition dead :: "memory \<Rightarrow> string \<Rightarrow> bool" where
  "dead m h \<longleftrightarrow> (case find (\<lambda>t. rtTokenHash t = h) (gvals (m_refresh m)) of
                   None \<Rightarrow> False | Some t \<Rightarrow> rtRevoked t)"

definition admins :: "memory \<Rightarrow> user list" where
  "admins m = filter (\<lambda>u. uRole u = ''admin'') (gvals (m_users m))"

definition auth_le :: "memory \<Rightarrow> memory \<Rightarrow> bool" where
  "auth_le m m' \<longleftrightarrow>
     (\<forall>i v. version_of m i = Some v \<longrightarrow> (\<exists>v' \<ge> v. version_of m' i = Some v')) \<and>
     (\<forall>h. dead m h \<longrightarrow> dead m' h) \<and>
     (admins m \<noteq> [] \<longrightarrow> admins m' \<noteq> []) \<and>
     (m_users m \<noteq> [] \<longrightarrow> m_users m' \<noteq> [])"

lemma auth_le_refl [simp, intro]: "auth_le m m"
  by (auto simp: auth_le_def)

lemma auth_le_trans [trans]: "auth_le a b \<Longrightarrow> auth_le b c \<Longrightarrow> auth_le a c"
  unfolding auth_le_def by (meson order_trans)

lemma auth_leI:
  assumes "\<And>i v. version_of m i = Some v \<Longrightarrow> \<exists>v' \<ge> v. version_of m' i = Some v'"
    and "\<And>h. dead m h \<Longrightarrow> dead m' h" "admins m \<noteq> [] \<Longrightarrow> admins m' \<noteq> []"
    and "m_users m \<noteq> [] \<Longrightarrow> m_users m' \<noteq> []"
  shows "auth_le m m'"
  using assms by (auto simp: auth_le_def)

lemma version_le: "auth_le m m' \<Longrightarrow> version_of m i = Some v \<Longrightarrow> \<exists>v' \<ge> v. version_of m' i = Some v'"
  by (simp add: auth_le_def)

lemma dead_le: "auth_le m m' \<Longrightarrow> dead m h \<Longrightarrow> dead m' h"
  by (simp add: auth_le_def)

lemma admins_le: "auth_le m m' \<Longrightarrow> admins m \<noteq> [] \<Longrightarrow> admins m' \<noteq> []"
  by (simp add: auth_le_def)

lemma auth_le_other:
  assumes "m_users m' = m_users m" "m_refresh m' = m_refresh m"
  shows "auth_le m m'"
  unfolding auth_le_def version_of_def dead_def admins_def assms by blast

lemma auth_le_refresh:
  assumes "m_users m' = m_users m" "\<And>h. dead m h \<Longrightarrow> dead m' h"
  shows "auth_le m m'"
  unfolding auth_le_def version_of_def admins_def assms(1) using assms(2) by blast

lemma auth_le_users:
  assumes "m_refresh m' = m_refresh m"
    and "\<And>i v. version_of m i = Some v \<Longrightarrow> \<exists>v' \<ge> v. version_of m' i = Some v'"
    and "admins m \<noteq> [] \<Longrightarrow> admins m' \<noteq> []" "m_users m \<noteq> [] \<Longrightarrow> m_users m' \<noteq> []"
  shows "auth_le m m'"
  unfolding auth_le_def dead_def assms(1) using assms(2,3,4) by blast

section \<open>The store operations\<close>

lemma CreateUser_appends:
  "CreateUser m u = Inr m' \<Longrightarrow> m' = m\<lparr>m_users := m_users m @ [(uUsername u, norm_role u)]\<rparr>"
  by (auto simp: CreateUser_def gset_new split: option.splits)

lemma CreateUser_le: "CreateUser m u = Inr m' \<Longrightarrow> auth_le m m'"
  by (drule CreateUser_appends, rule auth_le_users)
     (auto simp: version_of_def find_append admins_def split: option.splits)

lemma users_step_version:
  assumes "update_first (\<lambda>u. uID u = i) f (m_users m) = Some us" "\<And>u. uID (f u) = uID u"
    and "\<And>u. uTokenVersion (f u) \<ge> uTokenVersion u" "version_of m j = Some v"
  shows "\<exists>v' \<ge> v. version_of (m\<lparr>m_users := us\<rparr>) j = Some v'"
  using assms(3,4) find_update_first [OF assms(1,2), of j] by (auto simp: version_of_def)

lemma users_step_nonempty:
  "update_first P f m = Some m' \<Longrightarrow> m' \<noteq> []"
  by (cases m) (auto split: if_splits)

lemma users_step_admins:
  assumes "update_first P f us = Some us'" "\<And>u. uRole (f u) = uRole u"
  shows "map uRole (gvals us') = map uRole (gvals us)"
  using assms by (induction P f us arbitrary: us' rule: update_first.induct) (auto split: if_splits)

lemma admins_roles: "admins m \<noteq> [] \<longleftrightarrow> ''admin'' \<in> set (map uRole (gvals (m_users m)))"
  by (force simp: admins_def filter_empty_conv)

lemma users_step_le:
  assumes "update_first (\<lambda>u. uID u = i) f (m_users m) = Some us" "\<And>u. uID (f u) = uID u"
    and "\<And>u. uTokenVersion (f u) \<ge> uTokenVersion u" "\<And>u. uRole (f u) = uRole u"
  shows "auth_le m (m\<lparr>m_users := us\<rparr>)"
proof (rule auth_le_users)
  show "\<exists>v' \<ge> v. version_of (m\<lparr>m_users := us\<rparr>) j = Some v'" if "version_of m j = Some v" for j v
    by (rule users_step_version [OF assms(1-3) that])
  show "admins (m\<lparr>m_users := us\<rparr>) \<noteq> []" if "admins m \<noteq> []"
    using that users_step_admins [OF assms(1,4)] unfolding admins_roles by simp
qed (use users_step_nonempty [OF assms(1)] in simp_all)

lemma UpdateUserPassword_le: "UpdateUserPassword m i h = Inr m' \<Longrightarrow> auth_le m m'"
  unfolding UpdateUserPassword_def by (auto split: option.splits intro!: users_step_le)

lemma BumpTokenVersion_parts:
  assumes "BumpTokenVersion m i = Inr (m', v)"
  obtains us u where "update_first (\<lambda>u. uID u = i) (\<lambda>u. u\<lparr>uTokenVersion := uTokenVersion u + 1\<rparr>) (m_users m) = Some us"
    "m' = m\<lparr>m_users := us\<rparr>" "find (\<lambda>u. uID u = i) (gvals (m_users m)) = Some u" "v = uTokenVersion u + 1"
  using assms unfolding BumpTokenVersion_def by (auto split: option.splits)

lemma BumpTokenVersion_le: "BumpTokenVersion m i = Inr (m', v) \<Longrightarrow> auth_le m m'"
  by (erule BumpTokenVersion_parts) (auto intro!: users_step_le)

lemma BumpTokenVersion_version:
  assumes "BumpTokenVersion m i = Inr (m', v)"
  shows "version_of m i = Some (v - 1)" "version_of m' i = Some v"
proof -
  obtain us u where b: "update_first (\<lambda>u. uID u = i) (\<lambda>u. u\<lparr>uTokenVersion := uTokenVersion u + 1\<rparr>) (m_users m) = Some us"
    "m' = m\<lparr>m_users := us\<rparr>" "find (\<lambda>u. uID u = i) (gvals (m_users m)) = Some u" "v = uTokenVersion u + 1"
    by (rule BumpTokenVersion_parts [OF assms])
  show "version_of m i = Some (v - 1)" by (simp add: version_of_def b(3,4))
  show "version_of m' i = Some v"
    using find_update_first [OF b(1), of i] by (simp add: version_of_def b(2,3,4))
qed

lemma CreateRefreshToken_le:
  assumes "CreateRefreshToken m t = Inr m'" "gget (m_refresh m) (rtID t) = None"
  shows "auth_le m m'"
  using assms
  by (intro auth_le_refresh)
     (auto simp: CreateRefreshToken_def gset_new dead_def find_append split: if_splits option.splits)

lemma RevokeRefreshToken_parts:
  assumes "RevokeRefreshToken m i = Inr m'"
  obtains t where "gget (m_refresh m) i = Some t"
    "m' = m\<lparr>m_refresh := gset i (t\<lparr>rtRevoked := True\<rparr>) (m_refresh m)\<rparr>"
  using assms unfolding RevokeRefreshToken_def by (auto split: option.splits if_splits)

lemma RevokeRefreshToken_le: "RevokeRefreshToken m i = Inr m' \<Longrightarrow> auth_le m m'"
proof (rule auth_le_refresh)
  assume r: "RevokeRefreshToken m i = Inr m'"
  obtain t where t: "gget (m_refresh m) i = Some t"
    "m' = m\<lparr>m_refresh := gset i (t\<lparr>rtRevoked := True\<rparr>) (m_refresh m)\<rparr>"
    by (rule RevokeRefreshToken_parts [OF r])
  then show "m_users m' = m_users m" by simp
  fix h assume "dead m h"
  then obtain w where w: "find (\<lambda>t. rtTokenHash t = h) (gvals (m_refresh m)) = Some w" "rtRevoked w"
    by (auto simp: dead_def split: option.splits)
  from find_gset_old [OF t(1) _ w(1), of "t\<lparr>rtRevoked := True\<rparr>"] w(2) show "dead m' h"
    by (auto simp: dead_def t(2))
qed

lemma RevokeRefreshTokensForUser_le: "auth_le m (RevokeRefreshTokensForUser m u)"
proof (rule auth_le_refresh)
  show "m_users (RevokeRefreshTokensForUser m u) = m_users m" by (simp add: RevokeRefreshTokensForUser_def)
  fix h assume "dead m h"
  then show "dead (RevokeRefreshTokensForUser m u) h"
    unfolding dead_def gvals_revoked
    by (subst find_map_same) (auto split: option.splits)
qed

lemma RevokeJTI_le: "RevokeJTI now m j e = Inr m' \<Longrightarrow> auth_le m m'"
  by (auto simp: RevokeJTI_def split: if_splits intro!: auth_le_other)

lemma IsJTIRevoked_frame [simp]:
  "m_users (fst (IsJTIRevoked now m j)) = m_users m" "m_refresh (fst (IsJTIRevoked now m j)) = m_refresh m"
  "m_agents (fst (IsJTIRevoked now m j)) = m_agents m"
  by (auto simp: IsJTIRevoked_def split: option.splits)

lemma parsePayload_frame [simp]:
  "m_users (fst (parsePayload s now m t)) = m_users m" "m_refresh (fst (parsePayload s now m t)) = m_refresh m"
  by (auto simp: parsePayload_def Let_def split_def split: list.splits option.splits sum.splits)


text \<open>
  Every call of the account service as a step of the store, and what no sequence of calls undoes.
  A step also covers everything else the control plane does to the store, as long as it leaves
  users, refresh tokens and the denylist alone.
\<close>

section \<open>Each call moves up\<close>

abbreviation fresh :: "draw \<Rightarrow> memory \<Rightarrow> bool" where
  "fresh dr m \<equiv> gget (m_refresh m) (dr_id dr) = None"

lemma IssueTokens_cases:
  obtains e where "IssueTokens s dr m u n r v = (m, Inl e)"
  | m1 rt pair where "CreateRefreshToken m rt = Inr m1" "rtID rt = dr_id dr" "rtUserID rt = u"
      "IssueTokens s dr m u n r v = (m1, Inr pair)" "rtTokenHash rt = as_sha_hex s (tkRefresh pair)"
      "rtExpiresAt rt = dr_now dr + refreshTTLOrDefault s" "\<not> rtRevoked rt"
      "issue s dr u n (if r = [] then ''user'' else r) v (tokenTTLOrDefault s) [] 0 [] = Inr (tkAccess pair)"
proof (cases "issue s dr u n (if r = [] then ''user'' else r) v (tokenTTLOrDefault s) [] 0 []")
  case (Inl e)
  then show ?thesis using that(1) by (simp add: IssueTokens_def Let_def)
next
  case i: (Inr access)
  show ?thesis
  proof (cases "dr_rand dr")
    case (Inl e)
    then show ?thesis using that(1) i by (simp add: IssueTokens_def newRefreshSecret_def Let_def)
  next
    case (Inr b)
    let ?rt = "\<lparr>rtID = dr_id dr, rtUserID = u, rtTokenHash = as_sha_hex s (b64_encode b),
      rtExpiresAt = dr_now dr + refreshTTLOrDefault s, rtCreatedAt = dr_now dr, rtRevoked = False\<rparr>"
    show ?thesis
    proof (cases "CreateRefreshToken m ?rt")
      case (Inl e)
      then show ?thesis using that(1) i Inr by (simp add: IssueTokens_def newRefreshSecret_def Let_def)
    next
      case c: (Inr m1)
      let ?pair = "\<lparr>tkAccess = access, tkRefresh = b64_encode b, tkExpiresIn = tokenTTLOrDefault s div second,
        tkUser = \<lparr>acID = u, acUsername = n, acRole = (if r = [] then ''user'' else r)\<rparr>\<rparr>"
      have "IssueTokens s dr m u n r v = (m1, Inr ?pair)"
        using i Inr c by (simp add: IssueTokens_def newRefreshSecret_def Let_def)
      then show ?thesis using c i by (intro that(2) [of ?rt m1 ?pair]) simp_all
    qed
  qed
qed

lemma IssueTokens_le: "fresh dr m \<Longrightarrow> auth_le m (fst (IssueTokens s dr m u n r v))"
  by (rule IssueTokens_cases [of s dr m u n r v]) (auto intro: CreateRefreshToken_le)

lemma create_account_le: "auth_le m (fst (create_account s dr m u p r))"
  by (auto simp: create_account_def intro: CreateUser_le split: sum.splits)

lemma Register_le: "auth_le m (fst (Register s dr m u p))"
  by (auto simp: Register_def Let_def create_account_le split: sum.splits)

lemma AdminCreateUser_le: "auth_le m (fst (AdminCreateUser s dr m u p r))"
  by (auto simp: AdminCreateUser_def Let_def create_account_le split: sum.splits)

lemma UpdateUserPassword_frame: "UpdateUserPassword m i h = Inr m' \<Longrightarrow> m_refresh m' = m_refresh m"
  by (auto simp: UpdateUserPassword_def split: option.splits)

lemma Login_le:
  assumes "fresh dr m"
  shows "auth_le m (fst (Login s dr m u p))"
proof (cases "GetUserByUsername m u")
  case (Inl e)
  then show ?thesis by (simp add: Login_def)
next
  case (Inr rec)
  show ?thesis
  proof (cases "\<not> password_matches s (uPassword rec) p")
    case True
    then show ?thesis using Inr by (simp add: Login_def Let_def)
  next
    case False
    show ?thesis
    proof (cases "isBcryptHash (uPassword rec)")
      case True
      then show ?thesis using Inr False IssueTokens_le [OF assms] by (simp add: Login_def Let_def)
    next
      case c: False
      show ?thesis
      proof (cases "HashPassword s p")
        case (Inl e)
        then show ?thesis using Inr False c by (simp add: Login_def Let_def)
      next
        case h: (Inr hash)
        show ?thesis
        proof (cases "UpdateUserPassword m (uID rec) hash")
          case (Inl e)
          then show ?thesis using Inr False c h by (simp add: Login_def Let_def)
        next
          case up: (Inr m1)
          have "fresh dr m1" using assms UpdateUserPassword_frame [OF up] by simp
          from auth_le_trans [OF UpdateUserPassword_le [OF up] IssueTokens_le [OF this]]
          show ?thesis using Inr False c h up by (simp add: Login_def Let_def)
        qed
      qed
    qed
  qed
qed

lemma RevokeRefreshToken_fresh: "RevokeRefreshToken m i = Inr m' \<Longrightarrow> fresh dr m \<Longrightarrow> fresh dr m'"
  by (erule RevokeRefreshToken_parts) auto

text \<open>A refresh either changes nothing or revokes the presented token and issues a new pair.\<close>

lemma Refresh_cases:
  obtains e where "Refresh s dr m raw = (m, Inl e)"
  | rec u m1 where "GetRefreshTokenByHash (dr_now dr) m (as_sha_hex s (trim_space raw)) = Inr rec"
      "RevokeRefreshToken m (rtID rec) = Inr m1" "GetUserByID m (rtUserID rec) = Inr u"
      "Refresh s dr m raw =
         IssueTokens s dr m1 (uID u) (uUsername u) (if uRole u = [] then ''user'' else uRole u) (uTokenVersion u)"
proof (cases "trim_space raw = []")
  case True
  then show ?thesis using that(1) by (simp add: Refresh_def Let_def)
next
  case r: False
  show ?thesis
  proof (cases "GetRefreshTokenByHash (dr_now dr) m (as_sha_hex s (trim_space raw))")
    case (Inl e)
    then show ?thesis using that(1) r by (simp add: Refresh_def Let_def)
  next
    case g: (Inr rec)
    show ?thesis
    proof (cases "GetUserByID m (rtUserID rec)")
      case (Inl e)
      then show ?thesis using that(1) r g by (simp add: Refresh_def Let_def)
    next
      case u: (Inr u)
      show ?thesis
      proof (cases "RevokeRefreshToken m (rtID rec)")
        case (Inl e)
        then show ?thesis using that(1) r g u by (simp add: Refresh_def Let_def)
      next
        case (Inr m1)
        then show ?thesis using that(2) [OF g Inr u] r g u by (simp add: Refresh_def Let_def)
      qed
    qed
  qed
qed

lemma Refresh_le:
  assumes "fresh dr m"
  shows "auth_le m (fst (Refresh s dr m raw))"
proof (rule Refresh_cases [of s dr m raw])
  fix e assume "Refresh s dr m raw = (m, Inl e)"
  then show ?thesis by simp
next
  fix rec u m1
  assume r: "RevokeRefreshToken m (rtID rec) = Inr m1"
    and e: "Refresh s dr m raw =
         IssueTokens s dr m1 (uID u) (uUsername u) (if uRole u = [] then ''user'' else uRole u) (uTokenVersion u)"
  show ?thesis unfolding e
    by (rule auth_le_trans [OF RevokeRefreshToken_le [OF r] IssueTokens_le [OF RevokeRefreshToken_fresh [OF r assms]]])
qed

lemma RevokeRefresh_le: "auth_le m (RevokeRefresh s now m raw)"
  by (auto simp: RevokeRefresh_def intro: RevokeRefreshToken_le split: sum.splits)

lemma parsePayload_le: "auth_le m (fst (parsePayload s now m t))"
  by (rule auth_le_other) simp_all

lemma ParsePrincipal_fst: "fst (ParsePrincipal s now m t) = fst (parsePayload s now m t)"
  by (auto simp: ParsePrincipal_def split: prod.splits sum.splits)

lemma bump_quietly_le: "auth_le m (bump_quietly m u)"
  by (auto simp: bump_quietly_def intro: BumpTokenVersion_le split: sum.splits)

lemma RevokeAllSessions_le: "auth_le m (fst (RevokeAllSessions m u))"
proof (cases "BumpTokenVersion (RevokeRefreshTokensForUser m u) u")
  case (Inl e)
  then show ?thesis by (simp add: RevokeAllSessions_def RevokeRefreshTokensForUser_le)
next
  case (Inr r)
  obtain m2 v where r: "r = (m2, v)" by (cases r)
  show ?thesis
    using auth_le_trans [OF RevokeRefreshTokensForUser_le BumpTokenVersion_le [OF Inr [unfolded r]]] Inr r
    by (simp add: RevokeAllSessions_def)
qed

lemma ChangePassword_le: "auth_le m (fst (ChangePassword s m u old new))"
proof -
  have "auth_le m (bump_quietly (RevokeRefreshTokensForUser m1 u) u)"
    if "UpdateUserPassword m u h = Inr m1" for h m1
    by (rule auth_le_trans [OF auth_le_trans [OF UpdateUserPassword_le [OF that]
          RevokeRefreshTokensForUser_le] bump_quietly_le])
  then show ?thesis by (auto simp: ChangePassword_def split: sum.splits)
qed

lemma Logout_le: "auth_le m (fst (Logout s now m t raw))"
proof -
  obtain m1 r where p: "parsePayload s now m t = (m1, r)" by (cases "parsePayload s now m t")
  have le1: "auth_le m m1" using parsePayload_le [of m s now t] p by simp
  show ?thesis
  proof (cases r)
    case (Inl e)
    then show ?thesis using p le1 by (simp add: Logout_def)
  next
    case (Inr pl)
    let ?m2 = "if raw = [] then m1 else RevokeRefresh s now m1 raw"
    have le2: "auth_le m ?m2" using auth_le_trans [OF le1 RevokeRefresh_le] le1 by simp
    show ?thesis
    proof (cases "tpJTI pl = []")
      case True
      show ?thesis
      proof (cases "BumpTokenVersion ?m2 (tpUserID pl)")
        case (Inl e)
        then show ?thesis
          using p Inr True auth_le_trans [OF le2 RevokeRefreshTokensForUser_le] by (simp add: Logout_def Let_def)
      next
        case b: (Inr mv)
        obtain m3 v where mv: "mv = (m3, v)" by (cases mv)
        have "auth_le m (RevokeRefreshTokensForUser m3 (tpUserID pl))"
          by (rule auth_le_trans [OF auth_le_trans [OF le2 BumpTokenVersion_le [OF b [unfolded mv]]]
                RevokeRefreshTokensForUser_le])
        then show ?thesis using p Inr True b mv by (simp add: Logout_def Let_def)
      qed
    next
      case False
      show ?thesis
      proof (cases "RevokeJTI now ?m2 (tpJTI pl) (from_unix (tpExp pl))")
        case (Inl e)
        then show ?thesis using p Inr False le2 by (simp add: Logout_def Let_def)
      next
        case j: (Inr m3)
        then show ?thesis
          using p Inr False auth_le_trans [OF le2 RevokeJTI_le [OF j]] by (simp add: Logout_def Let_def)
      qed
    qed
  qed
qed

section \<open>Changing a role\<close>

lemma countAdmins_admins: "countAdmins m = length (admins m)"
proof -
  have "uRole (norm_role (u\<lparr>uPassword := []\<rparr>)) = ''admin'' \<longleftrightarrow> uRole u = ''admin''" for u
    by (simp add: norm_role_def)
  then show ?thesis
    by (simp add: countAdmins_def admins_def ListUsers_def filter_map comp_def)
qed

lemma update_first_admins:
  assumes "update_first P f us = Some us'"
  shows "length (filter Q (gvals us)) \<le> Suc (length (filter Q (gvals us')))"
  using assms by (induction P f us arbitrary: us' rule: update_first.induct) (auto split: if_splits)

lemma update_first_admins_hit:
  assumes "update_first P f us = Some us'" "find P (gvals us) = Some u" "\<not> Q u \<or> Q (f u)"
  shows "length (filter Q (gvals us)) \<le> length (filter Q (gvals us'))"
  using assms by (induction P f us arbitrary: us' rule: update_first.induct) (auto split: if_splits)

lemma admins_pos: "admins m \<noteq> [] \<longleftrightarrow> 0 < length (filter (\<lambda>u. uRole u = ''admin'') (gvals (m_users m)))"
  unfolding admins_def by (rule length_greater_0_conv [symmetric])

lemma m_users_upd: "m_users (m\<lparr>m_users := us\<rparr>) = us"
  by simp

lemma UpdateUserRole_parts:
  assumes "UpdateUserRole m i r = Inr m'"
  obtains us where "update_first (\<lambda>u. uID u = i) (\<lambda>u. u\<lparr>uRole := r\<rparr>) (m_users m) = Some us"
    "m' = m\<lparr>m_users := us\<rparr>"
  using assms unfolding UpdateUserRole_def by (auto split: option.splits)

lemma SetRole_admins:
  assumes "SetRole m i r = (m', Inr ())" "admins m \<noteq> []"
  shows "admins m' \<noteq> []"
proof -
  let ?r = "trim_space r"
  have r: "?r = ''admin'' \<or> ?r = ''user''"
    using assms(1) by (rule contrapos_pp) (auto simp: SetRole_def set_role_check_def Let_def)
  obtain cur where cur: "GetUserByID m i = Inr cur"
    using assms(1) r by (cases "GetUserByID m i") (auto simp: SetRole_def set_role_check_def Let_def)
  then obtain u where u: "find (\<lambda>u. uID u = i) (gvals (m_users m)) = Some u" "cur = norm_role u"
    by (auto simp: GetUserByID_def split: option.splits)
  have g: "\<not> ((if uRole cur = [] then ''user'' else uRole cur) = ''admin'' \<and> ?r = ''user'' \<and> countAdmins m \<le> 1)"
    using assms(1) r cur by (rule_tac notI) (auto simp: SetRole_def set_role_check_def Let_def)
  have up: "UpdateUserRole m i ?r = Inr m'"
    using assms(1) r cur g by (cases "UpdateUserRole m i ?r") (auto simp: SetRole_def set_role_check_def Let_def split: if_splits)
  obtain us where us: "update_first (\<lambda>u. uID u = i) (\<lambda>u. u\<lparr>uRole := ?r\<rparr>) (m_users m) = Some us"
    "m' = m\<lparr>m_users := us\<rparr>"
    by (rule UpdateUserRole_parts [OF up])
  let ?Q = "\<lambda>u. uRole u = ''admin''"
  have pos: "0 < length (filter ?Q (gvals (m_users m)))"
    using assms(2) by (rule admins_pos [THEN iffD1])
  show ?thesis
  proof (cases "\<not> ?Q u \<or> ?r = ''admin''")
    case True
    then have "length (filter ?Q (gvals (m_users m))) \<le> length (filter ?Q (gvals us))"
      by (intro update_first_admins_hit [OF us(1) u(1)]) auto
    with pos have "0 < length (filter ?Q (gvals us))" by linarith
    then show ?thesis unfolding admins_pos us(2) m_users_upd .
  next
    case False
    then have "uRole cur = ''admin''" "?r = ''user''" using r u(2) by (auto simp: norm_role_def)
    then have "1 < length (filter ?Q (gvals (m_users m)))"
      using g countAdmins_admins [of m] by (simp add: admins_def)
    with update_first_admins [OF us(1), of ?Q] have "0 < length (filter ?Q (gvals us))" by linarith
    then show ?thesis unfolding admins_pos us(2) m_users_upd .
  qed
qed

lemma SetRole_error: "snd (SetRole m i r) = Inl e \<Longrightarrow> fst (SetRole m i r) = m"
  by (auto simp: SetRole_def set_role_check_def Let_def split: sum.splits if_splits)

lemma SetRole_le: "auth_le m (fst (SetRole m i r))"
proof (cases "snd (SetRole m i r)")
  case (Inl e)
  then show ?thesis using SetRole_error [OF Inl] by simp
next
  case (Inr x)
  obtain m' where s: "SetRole m i r = (m', Inr ())" using Inr by (cases "SetRole m i r") simp
  obtain r' where up: "UpdateUserRole m i r' = Inr m'"
    using s by (auto simp: SetRole_def set_role_check_def Let_def split: sum.splits if_splits)
  obtain us where us: "update_first (\<lambda>u. uID u = i) (\<lambda>u. u\<lparr>uRole := r'\<rparr>) (m_users m) = Some us"
    "m' = m\<lparr>m_users := us\<rparr>"
    by (rule UpdateUserRole_parts [OF up])
  show ?thesis unfolding s fst_conv
  proof (rule auth_le_users)
    show "m_refresh m' = m_refresh m" by (simp add: us(2))
    show "\<exists>v' \<ge> v. version_of m' j = Some v'" if "version_of m j = Some v" for j v
      unfolding us(2) by (rule users_step_version [OF us(1) _ _ that]) simp_all
    show "admins m' \<noteq> []" if "admins m \<noteq> []" by (rule SetRole_admins [OF s that])
  qed (use users_step_nonempty [OF us(1)] us(2) in simp)
qed

section \<open>Sequences of calls\<close>

inductive auth_step :: "auth_service \<Rightarrow> memory \<Rightarrow> memory \<Rightarrow> bool" for s where
  st_register: "auth_step s m (fst (Register s dr m u p))"
| st_login: "fresh dr m \<Longrightarrow> auth_step s m (fst (Login s dr m u p))"
| st_refresh: "fresh dr m \<Longrightarrow> auth_step s m (fst (Refresh s dr m raw))"
| st_parse: "auth_step s m (fst (ParsePrincipal s now m t))"
| st_logout: "auth_step s m (fst (Logout s now m t raw))"
| st_revoke_all: "auth_step s m (fst (RevokeAllSessions m i))"
| st_change_password: "auth_step s m (fst (ChangePassword s m i old new))"
| st_set_role: "auth_step s m (fst (SetRole m i r))"
| st_admin_create: "auth_step s m (fst (AdminCreateUser s dr m u p r))"
| st_other: "m_users m' = m_users m \<Longrightarrow> m_refresh m' = m_refresh m \<Longrightarrow>
    m_revokedJTI m' = m_revokedJTI m \<Longrightarrow> auth_step s m m'"

inductive auth_steps :: "auth_service \<Rightarrow> memory \<Rightarrow> memory \<Rightarrow> bool" for s where
  st_none: "auth_steps s m m"
| st_more: "auth_steps s m m1 \<Longrightarrow> auth_step s m1 m2 \<Longrightarrow> auth_steps s m m2"

lemma auth_step_le: "auth_step s m m' \<Longrightarrow> auth_le m m'"
  by (induction rule: auth_step.induct)
     (simp_all add: Register_le Login_le Refresh_le ParsePrincipal_fst parsePayload_le Logout_le
       RevokeAllSessions_le ChangePassword_le SetRole_le AdminCreateUser_le auth_le_other)

lemma auth_steps_le: "auth_steps s m m' \<Longrightarrow> auth_le m m'"
  by (induction rule: auth_steps.induct) (auto intro: auth_le_trans auth_step_le)

text \<open>The first registration makes an administrator.\<close>

lemma no_users:
  assumes "m_users m = []"
  shows "GetUserByUsername m u = Inl (Errorf ''user not found'')"
    "GetUserByID m i = Inl (Errorf ''user not found'')"
    "BumpTokenVersion m i = Inl (Errorf ''user not found'')"
  using assms by (simp_all add: GetUserByUsername_def GetUserByID_def BumpTokenVersion_def)

lemma Register_first:
  assumes "m_users m = []" "Register s dr m u p = (m', Inr v)"
  shows "acRole v = ''admin'' \<and> admins m' \<noteq> []"
  using assms
  by (auto simp: Register_def Let_def no_users create_account_def CountUsers_def CreateUser_def
      admins_def norm_role_def split: sum.splits)

lemma RevokeRefreshToken_users: "RevokeRefreshToken m i = Inr m' \<Longrightarrow> m_users m' = m_users m"
  by (erule RevokeRefreshToken_parts) simp

lemma RevokeRefresh_users: "m_users (RevokeRefresh s now m raw) = m_users m"
  by (auto simp: RevokeRefresh_def dest: RevokeRefreshToken_users split: sum.splits)

lemma RevokeRefreshTokensForUser_users [simp]: "m_users (RevokeRefreshTokensForUser m u) = m_users m"
  by (simp add: RevokeRefreshTokensForUser_def)

section \<open>Which tokens are accepted\<close>

definition versions_ok :: "memory \<Rightarrow> payload \<Rightarrow> bool" where
  "versions_ok m p \<longleftrightarrow>
     version_of m (tpUserID p) = Some (tpTokenVersion p) \<and>
     (tpAgentID p = [] \<or>
      (case gget (m_agents m) (tpAgentID p) of
         None \<Rightarrow> False
       | Some a \<Rightarrow> agStatus a = ''active'' \<and> agTokenVersion a = tpAgentTokenVersion p))"

lemma check_versions_ok: "check_versions m p = Inr q \<longleftrightarrow> q = p \<and> versions_ok m p"
  unfolding check_versions_def versions_ok_def version_of_def GetUserByID_def GetAgentByID_def
  by (auto split: option.splits)

lemma check_versions_same:
  "m_users m' = m_users m \<Longrightarrow> m_agents m' = m_agents m \<Longrightarrow> versions_ok m' p = versions_ok m p"
  by (simp add: versions_ok_def version_of_def)

definition carries :: "auth_service \<Rightarrow> string \<Rightarrow> payload \<Rightarrow> bool" where
  "carries s token p \<longleftrightarrow>
     (\<exists>h sg raw. split_c (CHR ''.'') token = [h, sg] \<and> b64_decode h = Some raw \<and>
        b64_decode sg = Some (as_hmac s (asSecret s) raw) \<and> as_unmarshal s raw = Inr p)"

lemma carries_unique: "carries s t p \<Longrightarrow> carries s t q \<Longrightarrow> p = q"
  by (auto simp: carries_def)

lemma carries_sign: "carries s (sign_payload s raw) p \<longleftrightarrow> as_unmarshal s raw = Inr p"
proof -
  have "split_c (CHR ''.'') (sign_payload s raw) =
      [b64_encode raw, b64_encode (as_hmac s (asSecret s) raw)]"
    unfolding sign_payload_def using b64_encode_plain by (intro split_c_two) blast+
  then show ?thesis by (simp add: carries_def b64_roundtrip)
qed

lemma parsePayload_carries:
  assumes "carries s token p"
  shows "parsePayload s now m token =
     (if unix_seconds now > tpExp p then (m, Inl (Errorf ''token expired''))
      else if snd (IsJTIRevoked now m (tpJTI p)) then (fst (IsJTIRevoked now m (tpJTI p)), Inl (Errorf ''token revoked''))
      else (fst (IsJTIRevoked now m (tpJTI p)), check_versions (fst (IsJTIRevoked now m (tpJTI p))) p))"
proof -
  obtain h sg raw where "split_c (CHR ''.'') token = [h, sg]" "b64_decode h = Some raw"
    "b64_decode sg = Some (as_hmac s (asSecret s) raw)" "as_unmarshal s raw = Inr p"
    using assms by (auto simp: carries_def)
  then show ?thesis
    by (cases "tpJTI p = []") (simp_all add: parsePayload_def Let_def split_def IsJTIRevoked_def)
qed

lemma parsePayload_accepts_carries:
  assumes "snd (parsePayload s now m token) = Inr p"
  shows "carries s token p"
proof -
  let ?ws = "split_c (CHR ''.'') token"
  obtain h sg where w: "?ws = [h, sg]"
    using assms by (auto simp: parsePayload_def split: list.splits)
  obtain raw where raw: "b64_decode h = Some raw"
    using assms w by (cases "b64_decode h") (auto simp: parsePayload_def)
  have sig: "b64_decode sg = Some (as_hmac s (asSecret s) raw)"
    using assms w raw by (cases "b64_decode sg") (auto simp: parsePayload_def split: if_splits)
  obtain q where q: "as_unmarshal s raw = Inr q"
    using assms w raw sig by (cases "as_unmarshal s raw") (auto simp: parsePayload_def)
  then have c: "carries s token q" using w raw sig by (auto simp: carries_def)
  have "q = p"
    using assms unfolding parsePayload_carries [OF c] by (auto simp: check_versions_ok split: if_splits)
  with c show ?thesis by simp
qed

lemma parsePayload_accepts:
  "snd (parsePayload s now m token) = Inr p \<longleftrightarrow>
     carries s token p \<and> unix_seconds now \<le> tpExp p \<and> \<not> snd (IsJTIRevoked now m (tpJTI p)) \<and> versions_ok m p"
proof (cases "carries s token p")
  case True
  show ?thesis
    unfolding parsePayload_carries [OF True]
    using True check_versions_same [of "fst (IsJTIRevoked now m (tpJTI p))" m p]
    by (auto simp: check_versions_ok)
next
  case False
  then show ?thesis using parsePayload_accepts_carries by blast
qed

lemma versions_stay_stale:
  assumes "auth_steps s m m'" "version_of m i = Some v" "tpUserID p = i" "tpTokenVersion p < v"
  shows "\<not> versions_ok m' p"
  using version_le [OF auth_steps_le [OF assms(1)] assms(2)] assms(3,4) by (auto simp: versions_ok_def)

section \<open>Refresh tokens that were used\<close>

lemma GetRefreshTokenByHash_dead: "dead m h \<Longrightarrow> \<exists>e. GetRefreshTokenByHash now m h = Inl e"
  by (auto simp: dead_def GetRefreshTokenByHash_def split: option.splits)

lemma Refresh_dead:
  assumes "dead m (as_sha_hex s (trim_space raw))"
  shows "\<exists>e. Refresh s dr m raw = (m, Inl e)"
proof (rule Refresh_cases [of s dr m raw])
  fix rec u m1 assume "GetRefreshTokenByHash (dr_now dr) m (as_sha_hex s (trim_space raw)) = Inr rec"
  with GetRefreshTokenByHash_dead [OF assms, of "dr_now dr"] show ?thesis by auto
qed auto

lemma RevokeRefreshToken_dead:
  assumes "store_wf m" "GetRefreshTokenByHash now m h = Inr rec" "RevokeRefreshToken m (rtID rec) = Inr m'"
  shows "dead m' h"
proof -
  have f: "find (\<lambda>t. rtTokenHash t = h) (gvals (m_refresh m)) = Some rec"
    using assms(2) by (auto simp: GetRefreshTokenByHash_def split: option.splits if_splits)
  obtain t where t: "gget (m_refresh m) (rtID rec) = Some t"
    "m' = m\<lparr>m_refresh := gset (rtID rec) (t\<lparr>rtRevoked := True\<rparr>) (m_refresh m)\<rparr>"
    by (rule RevokeRefreshToken_parts [OF assms(3)])
  have k: "keyed rtID (m_refresh m)" using store_wfD(7) [OF assms(1)] .
  have "rec \<in> set (gvals (m_refresh m))" using find_SomeD [OF f] by blast
  then have "t = rec" using keyed_in [OF k, of rec] t(1) by simp
  with find_gset_old [OF t(1) _ f, of "t\<lparr>rtRevoked := True\<rparr>"] f t(1)
  have "find (\<lambda>t. rtTokenHash t = h) (gvals (m_refresh m')) = Some rec \<or>
        find (\<lambda>t. rtTokenHash t = h) (gvals (m_refresh m')) = Some (rec\<lparr>rtRevoked := True\<rparr>)"
    by (auto simp: t(2))
  moreover have "find (\<lambda>t. rtTokenHash t = h) (gvals (m_refresh m')) \<noteq> Some rec \<or> rtRevoked rec"
  proof (cases "rtRevoked rec")
    case False
    have "rec \<notin> set (gvals (m_refresh m'))"
    proof
      assume a: "rec \<in> set (gvals (m_refresh m'))"
      have "keyed rtID (m_refresh m')"
        unfolding t(2) using k \<open>t = rec\<close> by (auto intro!: keyed_gset)
      with a have "gget (m_refresh m') (rtID rec) = Some rec" using keyed_in by fastforce
      then have "rec = t\<lparr>rtRevoked := True\<rparr>" by (simp add: t(2))
      then have "rtRevoked rec" by (metis refresh_token.select_convs(6) refresh_token.surjective refresh_token.update_convs(6))
      with False show False by simp
    qed
    then show ?thesis using find_SomeD by metis
  qed simp
  ultimately show ?thesis by (auto simp: dead_def)
qed

end
