(* ===== verification/Auth_Properties.thy ===== *)
theory Auth_Properties
  imports Auth_Machine
begin

text \<open>Properties of accounts, access tokens and refresh tokens, with a concrete installation.\<close>

section \<open>A concrete installation\<close>

definition demo_payload :: payload where
  "demo_payload =
    \<lparr>tpUserID = ''u1'', tpUsername = ''ann'', tpRole = ''admin'', tpExp = 86400 - 62135596800, tpJTI = ''j1'',
     tpTokenVersion = 0, tpAgentID = [], tpAgentTokenVersion = 0, tpScopes = []\<rparr>"

definition demo_auth :: auth_service where
  "demo_auth =
    \<lparr>asSecret = ''k'', asTokenTTL = 0, asRefreshTTL = 0,
     as_bcrypt = (\<lambda>p. Inr (''$2a$'' @ p)), as_compare = (\<lambda>h p. h = ''$2a$'' @ p),
     as_hmac = (\<lambda>k x. k @ x), as_sha_hex = (\<lambda>x. ''h'' @ x),
     as_marshal = (\<lambda>p. Inr (tpUserID p @ tpJTI p)),
     as_unmarshal = (\<lambda>raw. if raw = ''u1j1'' then Inr demo_payload else Inl ''bad'')\<rparr>"

definition demo_draw :: "time \<Rightarrow> string \<Rightarrow> draw" where
  "demo_draw t i = \<lparr>dr_now = t, dr_id = ''u'' @ i, dr_jti = ''j'' @ i, dr_rand = Inr (''s'' @ i)\<rparr>"

definition auth1 :: memory where
  "auth1 = fst (Register demo_auth (demo_draw 0 ''1'') NewMemory '' ann '' ''password1'')"

definition login1 :: "memory \<times> token_pair result" where
  "login1 = Login demo_auth (demo_draw 0 ''1'') auth1 ''ann'' ''password1''"

definition auth2 :: memory where "auth2 = fst login1"
definition pair1 :: token_pair where
  "pair1 = (case snd login1 of Inr p \<Rightarrow> p | Inl _ \<Rightarrow> \<lparr>tkAccess = [], tkRefresh = [], tkExpiresIn = 0,
      tkUser = \<lparr>acID = [], acUsername = [], acRole = []\<rparr>\<rparr>)"

lemma login1_ok: "login1 = (auth2, Inr pair1)"
proof -
  have "case snd login1 of Inr _ \<Rightarrow> True | Inl _ \<Rightarrow> False" by code_simp
  then obtain p where p: "snd login1 = Inr p" by (cases "snd login1") simp_all
  then have "pair1 = p" by (simp add: pair1_def)
  with p show ?thesis by (simp add: auth2_def prod_eq_iff)
qed

lemma pair1_parses: "snd (parsePayload demo_auth 5 auth2 (tkAccess pair1)) = Inr demo_payload"
  by code_simp

lemma store_wf_auth2: "store_wf auth2"
  by code_simp

section \<open>Access tokens\<close>

text \<open>C25: A bearer token is accepted exactly when it is a payload signed with the service's secret,
  not past its expiry second, not on the denylist, and its version counters are the current ones of
  an existing user and, for an agent token, of an existing active agent.\<close>

theorem token_accepted_iff:
  "snd (parsePayload s now m token) = Inr p \<longleftrightarrow>
     carries s token p \<and> unix_seconds now \<le> tpExp p \<and> \<not> snd (IsJTIRevoked now m (tpJTI p)) \<and> versions_ok m p"
  by (rule parsePayload_accepts)

text \<open>The payload of a token issued at login.\<close>

definition login_payload :: "auth_service \<Rightarrow> draw \<Rightarrow> string \<Rightarrow> string \<Rightarrow> string \<Rightarrow> int \<Rightarrow> payload" where
  "login_payload s dr u n r v =
    \<lparr>tpUserID = u, tpUsername = n, tpRole = (if r = [] then ''user'' else r),
     tpExp = unix_seconds (dr_now dr + tokenTTLOrDefault s), tpJTI = dr_jti dr, tpTokenVersion = v,
     tpAgentID = [], tpAgentTokenVersion = 0, tpScopes = []\<rparr>"

lemma issue_login:
  assumes "issue s dr u n (if r = [] then ''user'' else r) v (tokenTTLOrDefault s) [] 0 [] = Inr tok"
  obtains raw where "as_marshal s (login_payload s dr u n r v) = Inr raw" "tok = sign_payload s raw"
proof -
  have r: "(if (if r = [] then ''user'' else r) = [] then ''user'' else if r = [] then ''user'' else r) =
      (if r = [] then ''user'' else r)" by simp
  from assms show thesis
    unfolding issue_def Let_def r login_payload_def [symmetric]
    by (cases "as_marshal s (login_payload s dr u n r v)") (auto intro: that)
qed

text \<open>The access token of a fresh pair is accepted until it expires, and yields the user it was
  issued to with the role at that time, provided the JSON codec reads back what it wrote.\<close>

theorem issued_token_accepted:
  assumes "IssueTokens s dr m u n r v = (m1, Inr pair)" "version_of m u = Some v"
    and "\<And>raw. as_marshal s (login_payload s dr u n r v) = Inr raw \<Longrightarrow>
           as_unmarshal s raw = Inr (login_payload s dr u n r v)"
    and "unix_seconds now' \<le> unix_seconds (dr_now dr + tokenTTLOrDefault s)"
    and "\<not> snd (IsJTIRevoked now' m (dr_jti dr))"
  shows "snd (ParsePrincipal s now' m1 (tkAccess pair)) =
     Inr \<lparr>prlUserID = u, prlUsername = n, prlRole = (if r = [] then ''user'' else r),
          prlAgentID = [], prlScopes = []\<rparr>"
proof -
  let ?p = "login_payload s dr u n r v"
  obtain raw where raw: "as_marshal s ?p = Inr raw" "tkAccess pair = sign_payload s raw"
    by (rule IssueTokens_cases [of s dr m u n r v]) (use assms(1) in \<open>auto elim: issue_login\<close>)
  have c: "carries s (tkAccess pair) ?p"
    unfolding raw(2) carries_sign by (rule assms(3) [OF raw(1)])
  have m1: "m_users m1 = m_users m" "m_revokedJTI m1 = m_revokedJTI m"
    by (rule IssueTokens_cases [of s dr m u n r v];
        use assms(1) in \<open>auto simp: CreateRefreshToken_def split: if_splits\<close>)+
  have "versions_ok m1 ?p"
    using assms(2) m1(1) by (simp add: versions_ok_def version_of_def login_payload_def)
  moreover have "\<not> snd (IsJTIRevoked now' m1 (tpJTI ?p))"
    using assms(5) m1(2) by (auto simp: IsJTIRevoked_def login_payload_def split: option.splits if_splits)
  ultimately have "snd (parsePayload s now' m1 (tkAccess pair)) = Inr ?p"
    unfolding parsePayload_accepts using c assms(4) by (simp add: login_payload_def)
  then show ?thesis
    by (cases "parsePayload s now' m1 (tkAccess pair)") (simp add: ParsePrincipal_def login_payload_def)
qed

theorem issued_token_accepted_witness:
  "snd (ParsePrincipal demo_auth 5
     (fst (IssueTokens demo_auth (demo_draw 0 ''1'') auth1 ''u1'' ''ann'' ''admin'' 0)) (tkAccess pair1)) =
   Inr \<lparr>prlUserID = ''u1'', prlUsername = ''ann'', prlRole = ''admin'', prlAgentID = [], prlScopes = []\<rparr>"
proof -
  have i: "IssueTokens demo_auth (demo_draw 0 ''1'') auth1 ''u1'' ''ann'' ''admin'' 0 = (auth2, Inr pair1)"
    by code_simp
  have lp: "login_payload demo_auth (demo_draw 0 ''1'') ''u1'' ''ann'' ''admin'' 0 = demo_payload"
    by code_simp
  have v: "version_of auth1 ''u1'' = Some 0" by code_simp
  have j: "as_unmarshal demo_auth raw = Inr demo_payload"
    if "as_marshal demo_auth demo_payload = Inr raw" for raw
    using that by (simp add: demo_auth_def demo_payload_def)
  have t: "unix_seconds 5 \<le> unix_seconds (dr_now (demo_draw 0 ''1'') + tokenTTLOrDefault demo_auth)" by code_simp
  have n: "\<not> snd (IsJTIRevoked 5 auth1 (dr_jti (demo_draw 0 ''1'')))" by code_simp
  show ?thesis
    using issued_token_accepted [OF i v _ t n] j unfolding lp i by simp
qed

section \<open>Revocation\<close>

lemma find_user_dead:
  assumes "GetRefreshTokenByHash now m h = Inr t" "rtUserID t = u"
  shows "dead (RevokeRefreshTokensForUser m u) h"
proof -
  have "find (\<lambda>t. rtTokenHash t = h) (gvals (m_refresh m)) = Some t"
    using assms(1) by (auto simp: GetRefreshTokenByHash_def split: option.splits if_splits)
  then show ?thesis
    unfolding dead_def gvals_revoked by (subst find_map_same) (simp_all add: assms(2))
qed

lemma RevokeAllSessions_parts:
  assumes "RevokeAllSessions m u = (m1, Inr v)"
  shows "BumpTokenVersion (RevokeRefreshTokensForUser m u) u = Inr (m1, v)"
  using assms by (auto simp: RevokeAllSessions_def Let_def split: sum.splits prod.splits)

text \<open>C26: Once all sessions of a user are revoked, no access token of the user that was accepted
  before is accepted again, and no refresh token of the user that was good before is good again, each
  whether or not the user had one of the other kind, at any later instant and whatever calls of the
  account service follow.\<close>

theorem revoked_sessions_stay_dead:
  assumes "RevokeAllSessions m u = (m1, Inr v)" "auth_steps s m1 m2"
  shows "(\<forall>now token p. snd (parsePayload s now m token) = Inr p \<and> tpUserID p = u \<longrightarrow>
       (\<forall>now'. \<exists>e. snd (parsePayload s now' m2 token) = Inl e)) \<and>
     (\<forall>now raw t. GetRefreshTokenByHash now m (as_sha_hex s (trim_space raw)) = Inr t \<and> rtUserID t = u \<longrightarrow>
       (\<forall>dr. \<exists>e. Refresh s dr m2 raw = (m2, Inl e)))"
proof (intro conjI allI impI; elim conjE)
  let ?m0 = "RevokeRefreshTokensForUser m u"
  note b = RevokeAllSessions_parts [OF assms(1)]
  have vm: "version_of m u = Some (v - 1)" "version_of m1 u = Some v"
    using BumpTokenVersion_version [OF b] by (simp_all add: version_of_def)
  show "\<exists>e. snd (parsePayload s now' m2 token) = Inl e"
    if tok: "snd (parsePayload s now m token) = Inr p" "tpUserID p = u" for now token p now'
  proof (cases "snd (parsePayload s now' m2 token)")
    case (Inr q)
    have p: "carries s token p" "tpTokenVersion p = v - 1"
      using tok vm(1) by (auto simp: parsePayload_accepts versions_ok_def)
    have "carries s token q" "versions_ok m2 q" using Inr by (auto simp: parsePayload_accepts)
    then have "versions_ok m2 p" using carries_unique [OF p(1)] by simp
    moreover have "\<not> versions_ok m2 p"
      using versions_stay_stale [OF assms(2) vm(2) tok(2)] p(2) by simp
    ultimately show ?thesis by simp
  qed simp
  have le: "auth_le ?m0 m2"
    by (rule auth_le_trans [OF BumpTokenVersion_le [OF b] auth_steps_le [OF assms(2)]])
  show "\<exists>e. Refresh s dr m2 raw = (m2, Inl e)"
    if "GetRefreshTokenByHash now m (as_sha_hex s (trim_space raw)) = Inr t" "rtUserID t = u" for now raw t dr
    by (intro Refresh_dead) (rule dead_le [OF le find_user_dead [OF that]])
qed

text \<open>The witness: the access token dies although the user's only refresh token was given back before,
  and the refresh token dies whatever became of the access token.\<close>

theorem revoked_sessions_stay_dead_witness:
  "(let m = RevokeRefresh demo_auth 5 auth2 (tkRefresh pair1)
    in \<exists>e. snd (parsePayload demo_auth 9 (fst (RevokeAllSessions m ''u1'')) (tkAccess pair1)) = Inl e) \<and>
   (\<exists>e. Refresh demo_auth (demo_draw 9 ''9'') (fst (RevokeAllSessions auth2 ''u1'')) (tkRefresh pair1) =
        (fst (RevokeAllSessions auth2 ''u1''), Inl e))"
proof -
  let ?m = "RevokeRefresh demo_auth 5 auth2 (tkRefresh pair1)"
  have r: "RevokeAllSessions auth2 ''u1'' = (fst (RevokeAllSessions auth2 ''u1''), Inr 1)"
    "RevokeAllSessions ?m ''u1'' = (fst (RevokeAllSessions ?m ''u1''), Inr 1)" by code_simp+
  have g: "case GetRefreshTokenByHash 5 auth2 (as_sha_hex demo_auth (trim_space (tkRefresh pair1))) of
      Inr t \<Rightarrow> rtUserID t = ''u1'' | Inl _ \<Rightarrow> False" by code_simp
  then obtain t where t: "GetRefreshTokenByHash 5 auth2 (as_sha_hex demo_auth (trim_space (tkRefresh pair1))) = Inr t"
    "rtUserID t = ''u1''"
    by (cases "GetRefreshTokenByHash 5 auth2 (as_sha_hex demo_auth (trim_space (tkRefresh pair1)))") simp_all
  have u: "snd (parsePayload demo_auth 5 ?m (tkAccess pair1)) = Inr demo_payload" "tpUserID demo_payload = ''u1''"
    by code_simp+
  show ?thesis
    using revoked_sessions_stay_dead [OF r(1) st_none, of demo_auth] t
      revoked_sessions_stay_dead [OF r(2) st_none, of demo_auth] u
    unfolding Let_def by blast
qed

text \<open>C27: A refresh token works once: after a successful refresh the presented token is refused for
  good, whatever calls follow.\<close>

theorem refresh_is_single_use:
  assumes "store_wf m" "fresh dr m" "Refresh s dr m raw = (m1, Inr pair)" "auth_steps s m1 m2"
  shows "\<exists>e. Refresh s dr' m2 raw = (m2, Inl e)"
proof (rule Refresh_cases [of s dr m raw])
  fix rec u m0
  assume g: "GetRefreshTokenByHash (dr_now dr) m (as_sha_hex s (trim_space raw)) = Inr rec"
    and r: "RevokeRefreshToken m (rtID rec) = Inr m0"
    and e: "Refresh s dr m raw =
         IssueTokens s dr m0 (uID u) (uUsername u) (if uRole u = [] then ''user'' else uRole u) (uTokenVersion u)"
  have "auth_le m0 m1"
    using IssueTokens_le [OF RevokeRefreshToken_fresh [OF r assms(2)], of s] assms(3) e by (metis fst_conv)
  then have "auth_le m0 m2" by (rule auth_le_trans [OF _ auth_steps_le [OF assms(4)]])
  from dead_le [OF this RevokeRefreshToken_dead [OF assms(1) g r]] show ?thesis by (rule Refresh_dead)
qed (use assms(3) in simp)

theorem refresh_is_single_use_witness:
  "\<exists>e. Refresh demo_auth (demo_draw 7 ''3'') (fst (Refresh demo_auth (demo_draw 6 ''2'') auth2 (tkRefresh pair1)))
      (tkRefresh pair1) = (fst (Refresh demo_auth (demo_draw 6 ''2'') auth2 (tkRefresh pair1)), Inl e)"
proof -
  let ?r = "Refresh demo_auth (demo_draw 6 ''2'') auth2 (tkRefresh pair1)"
  have "case snd ?r of Inr _ \<Rightarrow> True | Inl _ \<Rightarrow> False" by code_simp
  then obtain pair where p: "?r = (fst ?r, Inr pair)" by (cases ?r) (auto split: sum.splits)
  have f: "fresh (demo_draw 6 ''2'') auth2" by code_simp
  show ?thesis by (rule refresh_is_single_use [OF store_wf_auth2 f p st_none])
qed

lemma RevokeRefresh_frame:
  "m_users (RevokeRefresh s now m raw) = m_users m" "m_agents (RevokeRefresh s now m raw) = m_agents m"
proof -
  have "m_agents m1 = m_agents m" if "RevokeRefreshToken m i = Inr m1" for m1 i
    using that by (rule RevokeRefreshToken_parts) simp
  then show "m_agents (RevokeRefresh s now m raw) = m_agents m"
    by (auto simp: RevokeRefresh_def split: sum.splits)
qed (rule RevokeRefresh_users)

lemma quotient_after:
  fixes t q r e :: int
  assumes "t = 1000000000 * q + r" "0 \<le> r" "r < 1000000000"
  shows "e < q \<longleftrightarrow> (e + 1) * 1000000000 \<le> t"
proof
  assume "e < q"
  then show "(e + 1) * 1000000000 \<le> t" using assms by simp
next
  assume "(e + 1) * 1000000000 \<le> t"
  then show "e < q" using assms by simp
qed

lemma unix_after: "unix_seconds t > e \<longleftrightarrow> from_unix (e + 1) \<le> t"
proof -
  have "unix_seconds t > e \<longleftrightarrow> t div second > e + 62135596800" unfolding unix_seconds_def by linarith
  then show ?thesis
    using quotient_after [of t "t div second" "t mod second" "e + 62135596800"] by (simp add: from_unix_def)
qed

lemma RevokeJTI_gap:
  "RevokeJTI now m j e = Inr m' \<Longrightarrow> j \<noteq> [] \<Longrightarrow> snd (IsJTIRevoked t m' j) \<longleftrightarrow> t \<le> e"
  by (cases "e < t") (auto simp: RevokeJTI_def IsJTIRevoked_def)

text \<open>C28: Logging out denies the token from then on, except during its last second: the denylist
  entry ends at the start of the expiry second, while the token itself is good to the end of it.\<close>

theorem logout_denies_exactly:
  assumes "snd (parsePayload s now m token) = Inr p" "tpJTI p \<noteq> []"
    and "Logout s now m token raw = (m', Inr ())"
  shows "(\<exists>e. snd (parsePayload s t m' token) = Inl e) \<longleftrightarrow>
     t \<le> from_unix (tpExp p) \<or> from_unix (tpExp p + 1) \<le> t"
proof -
  have p: "carries s token p" "versions_ok m p" using assms(1) by (auto simp: parsePayload_accepts)
  obtain m1 where m1: "parsePayload s now m token = (m1, Inr p)"
    using assms(1) by (cases "parsePayload s now m token") simp
  let ?m2 = "if raw = [] then m1 else RevokeRefresh s now m1 raw"
  have j: "RevokeJTI now ?m2 (tpJTI p) (from_unix (tpExp p)) = Inr m'"
    using assms(2,3) m1 by (auto simp: Logout_def Let_def split: sum.splits)
  have f1: "m_users m1 = m_users m" "m_agents m1 = m_agents m"
    using m1 parsePayload_carries [OF p(1), of now m] by (auto split: if_splits)
  have f2: "m_users m' = m_users ?m2" "m_agents m' = m_agents ?m2"
    using j by (auto simp: RevokeJTI_def split: if_splits)
  have v: "versions_ok m' p"
    using p(2) f1 f2 check_versions_same [of m' m p] by (simp add: RevokeRefresh_frame)
  have r: "snd (IsJTIRevoked t m' (tpJTI p)) \<longleftrightarrow> t \<le> from_unix (tpExp p)"
    using RevokeJTI_gap [OF j assms(2)] .
  have u: "q = p" if "snd (parsePayload s t m' token) = Inr q" for q
    using carries_unique [OF p(1) parsePayload_accepts_carries [OF that]] by simp
  have "(\<exists>e. snd (parsePayload s t m' token) = Inl e) \<longleftrightarrow> snd (parsePayload s t m' token) \<noteq> Inr p"
    using u by (cases "snd (parsePayload s t m' token)") auto
  then show ?thesis
    using p(1) v r unix_after [of "tpExp p" t] by (auto simp: parsePayload_accepts)
qed

theorem logout_denies_exactly_witness:
  "{t. \<exists>e. snd (parsePayload demo_auth t (fst (Logout demo_auth 5 auth2 (tkAccess pair1) [])) (tkAccess pair1)) = Inl e}
    = {t. t \<le> 86400 * second} \<union> {t. 86401 * second \<le> t}"
proof -
  have j: "tpJTI demo_payload \<noteq> []" "tpExp demo_payload = 86400 - 62135596800" by (simp_all add: demo_payload_def)
  have l: "Logout demo_auth 5 auth2 (tkAccess pair1) [] =
      (fst (Logout demo_auth 5 auth2 (tkAccess pair1) []), Inr ())" by code_simp
  show ?thesis using logout_denies_exactly [OF pair1_parses j(1) l] unfolding j(2) by (auto simp: from_unix_def)
qed

section \<open>Roles and scopes\<close>

text \<open>C29: An installation that has an administrator has one after every sequence of account calls
  carried out one after the other, and the first account registered on an empty installation is an
  administrator, so from then on there is one. (Two changes of role that overlap are not such a
  sequence, see lemma overlapping_demotions.)\<close>

theorem administrator_remains:
  assumes "auth_steps s m m'"
  shows "(admins m \<noteq> [] \<longrightarrow> admins m' \<noteq> []) \<and>
    (m_users m0 = [] \<and> Register s dr m0 u p = (m, Inr v) \<longrightarrow> acRole v = ''admin'' \<and> admins m' \<noteq> [])"
proof -
  have keep: "admins m \<noteq> [] \<Longrightarrow> admins m' \<noteq> []" by (rule admins_le [OF auth_steps_le [OF assms]])
  moreover have "acRole v = ''admin'' \<and> admins m \<noteq> []" if "m_users m0 = []" "Register s dr m0 u p = (m, Inr v)"
    using Register_first [OF that] .
  ultimately show ?thesis by blast
qed

text \<open>The witness: after the first registration, the demotion of that account and the creation of an
  ordinary one.\<close>

theorem administrator_remains_witness:
  "let m2 = fst (SetRole auth1 ''u1'' ''user'');
       m3 = fst (AdminCreateUser demo_auth (demo_draw 1 ''2'') m2 ''bob'' ''password2'' [])
   in admins m3 \<noteq> [] \<and> length (m_users m3) = 2"
proof -
  let ?m2 = "fst (SetRole auth1 ''u1'' ''user'')"
  let ?m3 = "fst (AdminCreateUser demo_auth (demo_draw 1 ''2'') ?m2 ''bob'' ''password2'' [])"
  have s: "auth_steps demo_auth auth1 ?m3"
    by (rule st_more [OF st_more [OF st_none st_set_role] st_admin_create])
  have "case snd (Register demo_auth (demo_draw 0 ''1'') NewMemory '' ann '' ''password1'') of
      Inr _ \<Rightarrow> True | Inl _ \<Rightarrow> False" by code_simp
  then obtain v where v: "Register demo_auth (demo_draw 0 ''1'') NewMemory '' ann '' ''password1'' = (auth1, Inr v)"
    unfolding auth1_def by (cases "Register demo_auth (demo_draw 0 ''1'') NewMemory '' ann '' ''password1''")
      (auto split: sum.splits)
  have "m_users NewMemory = []" by (simp add: NewMemory_def)
  with administrator_remains [OF s, of NewMemory "demo_draw 0 ''1''" "'' ann ''" "''password1''" v] v
  have "admins ?m3 \<noteq> []" by blast
  moreover have "length (m_users ?m3) = 2" by code_simp
  ultimately show ?thesis unfolding Let_def by blast
qed

text \<open>The guard reads the number of administrators and the store is written afterwards: when two
  administrators demote each other at the same time, both checks pass and no administrator is left.\<close>

definition two_admins :: memory where
  "two_admins = fst (AdminCreateUser demo_auth (demo_draw 1 ''2'') auth1 ''bob'' ''password2'' ''admin'')"

lemma overlapping_demotions:
  "length (admins two_admins) = 2 \<and>
   (case (set_role_check two_admins ''u1'' ''user'', set_role_check two_admins ''u2'' ''user'') of
      (Inr r1, Inr r2) \<Rightarrow>
        (case UpdateUserRole two_admins ''u1'' r1 of
           Inr m1 \<Rightarrow> (case UpdateUserRole m1 ''u2'' r2 of Inr m2 \<Rightarrow> admins m2 = [] | Inl _ \<Rightarrow> False)
         | Inl _ \<Rightarrow> False)
    | _ \<Rightarrow> False)"
  by code_simp

lemma sum_case_InrE:
  assumes "(case x of Inl e \<Rightarrow> Inl (f e) | Inr y \<Rightarrow> Inr (g y)) = Inr z"
  obtains y where "x = Inr y" "z = g y"
  using assms by (cases x) auto

lemma normalize_loop_spec:
  "distinct (normalize_loop seen ss) \<and> set (normalize_loop seen ss) = trim_space ` set ss - insert [] (set seen)"
  by (induction seen ss rule: normalize_loop.induct) (auto simp: Let_def)

text \<open>An agent token names its agent, carries only scopes of the known vocabulary, each once,
  and lives at most an hour when no lifetime is asked for.\<close>

theorem agent_token_scoped:
  assumes "IssueAgentToken s dr u n r a uv av scopes ttl = Inr tok"
  shows "\<exists>p raw. as_marshal s p = Inr raw \<and> tok = sign_payload s raw \<and>
     tpAgentID p = a \<and> a \<noteq> [] \<and> distinct (tpScopes p) \<and> set (tpScopes p) \<subseteq> set KnownScopes \<and>
     set (tpScopes p) = trim_space ` set scopes - {[]} \<and>
     tpExp p = unix_seconds (dr_now dr + (if ttl \<le> 0 then min hour (tokenTTLOrDefault s) else ttl))"
proof -
  let ?ttl = "if ttl \<le> 0 then (if tokenTTLOrDefault s > hour then hour else tokenTTLOrDefault s) else ttl"
  have ttl: "?ttl = (if ttl \<le> 0 then min hour (tokenTTLOrDefault s) else ttl)" by (simp add: min_def)
  have a: "a \<noteq> []" using assms by (auto simp: IssueAgentToken_def)
  have n: "find (\<lambda>sc. \<not> IsKnownScope sc) (NormalizeScopes scopes) = None"
    using assms a by (cases "find (\<lambda>sc. \<not> IsKnownScope sc) (NormalizeScopes scopes)")
      (auto simp: IssueAgentToken_def Let_def)
  then have i: "issue s dr u n r uv ?ttl a av (NormalizeScopes scopes) = Inr tok"
    using assms a by (simp add: IssueAgentToken_def Let_def)
  have k: "\<forall>sc \<in> set (NormalizeScopes scopes). IsKnownScope sc" using n by (simp add: find_None_iff)
  have ns: "distinct (NormalizeScopes scopes)" "set (NormalizeScopes scopes) = trim_space ` set scopes - {[]}"
    using normalize_loop_spec [of "[]" scopes] by (simp_all add: NormalizeScopes_def)
  have "set (NormalizeScopes scopes) \<subseteq> set KnownScopes"
  proof
    fix sc assume sc: "sc \<in> set (NormalizeScopes scopes)"
    then obtain x where "sc = trim_space x" using ns(2) by auto
    with k sc show "sc \<in> set KnownScopes" by (auto simp: IsKnownScope_def)
  qed
  moreover obtain p raw where "as_marshal s p = Inr raw" "tok = sign_payload s raw" "tpAgentID p = a"
    "tpScopes p = NormalizeScopes scopes" "tpExp p = unix_seconds (dr_now dr + ?ttl)"
    using i unfolding issue_def Let_def
    by (elim sum_case_InrE) auto
  ultimately show ?thesis using a ns unfolding ttl by metis
qed

theorem agent_token_scoped_witness:
  "\<exists>tok p raw. IssueAgentToken demo_auth (demo_draw 0 ''1'') ''u1'' ''ann'' ''admin'' ''a1'' 0 0
       ['' job.run '', ''drive.read''] 0 = Inr tok \<and>
     as_marshal demo_auth p = Inr raw \<and> tok = sign_payload demo_auth raw \<and>
     set (tpScopes p) \<subseteq> set KnownScopes \<and> tpExp p = 3600 - 62135596800"
proof -
  let ?i = "IssueAgentToken demo_auth (demo_draw 0 ''1'') ''u1'' ''ann'' ''admin'' ''a1'' 0 0
       ['' job.run '', ''drive.read''] 0"
  have "case ?i of Inr _ \<Rightarrow> True | Inl _ \<Rightarrow> False" by code_simp
  then obtain tok where tok: "?i = Inr tok" by (cases ?i) auto
  have e: "unix_seconds (dr_now (demo_draw 0 ''1'') + (if (0::int) \<le> 0 then min hour (tokenTTLOrDefault demo_auth) else 0)) = 3600 - 62135596800"
    by code_simp
  from agent_token_scoped [OF tok] tok e show ?thesis by auto
qed

end
