(* ===== verification/Policy_Engine.thy ===== *)
theory Policy_Engine
  imports Cloud_Prelude
begin

text \<open>
  The policy engine (\<open>internal/policy/engine.go\<close>, \<open>file.go\<close>, \<open>opa.go\<close>, \<open>pdp.go\<close>): built-in
  capability checks on agents, then the ordered rules of a policy document, then an OPA module,
  then a remote decision point. The JSON decoder, the file system, the Rego evaluator and the
  HTTP exchange are parameters. The evaluator (\<open>opEval\<close>) stands for the module loaded at the moment of
  the call; when \<open>opa.go\<close> loads a changed module again is not modelled.
\<close>

section \<open>Requests, decisions, documents\<close>

record policy_request =
  prAgentID :: string
  prAllowedDriveIDs :: "string list"
  prReadPrefixes :: "string list"
  prWritePrefixes :: "string list"
  prScopes :: "string list"
  prAction :: string
  prDriveID :: string
  prPath :: string

record decision =
  dcAllow :: bool
  dcReason :: string

record rule =
  ruID :: string
  ruEffect :: string
  ruPrincipals :: "string list"
  ruActions :: "string list"
  ruAgentIDs :: "string list"
  ruDriveIDs :: "string list"
  ruPathDenyPrefixes :: "string list"
  ruPathAllowPrefixes :: "string list"
  ruRequireScopes :: "string list"
  ruReason :: string

record document =
  doVersion :: int
  doMode :: string
  doRules :: "rule list"

abbreviation allow_with :: "string \<Rightarrow> decision" where
  "allow_with r \<equiv> \<lparr>dcAllow = True, dcReason = r\<rparr>"

abbreviation deny_with :: "string \<Rightarrow> decision" where
  "deny_with r \<equiv> \<lparr>dcAllow = False, dcReason = r\<rparr>"

section \<open>Scopes and prefs\<close>

definition scopeForAction :: "string \<Rightarrow> string" where
  "scopeForAction action =
     (if action = ''drive.read'' \<or> action = ''drive.session'' \<or> action = ''path.read'' then ''drive.read''
      else if action = ''drive.write'' \<or> action = ''path.write'' then ''drive.write''
      else if action = ''job.run'' then ''job.run''
      else if action = ''provider.read'' then ''provider.read''
      else if action = ''provider.write'' then ''provider.write''
      else [])"

definition hasScope :: "string list \<Rightarrow> string \<Rightarrow> bool" where
  "hasScope scopes need \<longleftrightarrow>
     (if need \<in> set scopes then True
      else if need = ''drive.read'' \<and> ''drive.write'' \<in> set scopes then True
      else if need = ''provider.read'' \<and> ''provider.write'' \<in> set scopes then True
      else False)"

definition prefixOK :: "string \<Rightarrow> string list \<Rightarrow> bool" where
  "prefixOK path0 prefs \<longleftrightarrow>
     (let path = trim_space path0; p = trim_prefix ''/'' path
      in list_ex
           (\<lambda>pref0.
              (let pref = trim_prefix ''/'' (trim_space pref0)
               in pref = [] \<or> pref = ''*'' \<or>
                  p = pref \<or> prefix (pref @ ''/'') p \<or> prefix pref path \<or>
                  sublist (''/'' @ pref) path \<or> suffix pref path))
           prefs)"

definition containsFold :: "string list \<Rightarrow> string \<Rightarrow> bool" where
  "containsFold ss x \<longleftrightarrow>
     list_ex (\<lambda>s. to_lower (trim_space s) = to_lower (trim_space x)) ss"

definition pathHitsAny :: "string \<Rightarrow> string list \<Rightarrow> bool" where
  "pathHitsAny path prefs \<longleftrightarrow>
     (if prefixOK path prefs then True
      else (let p = map (\<lambda>c. if c = CHR 0x5C then CHR ''/'' else c) path;
                parts = split_c (CHR ''/'') p
            in list_ex
                 (\<lambda>pref0.
                    (let pref = trim_c (CHR ''/'') (trim_space pref0)
                     in if pref = [] then False
                        else pref \<in> set parts \<or> sublist (''/'' @ pref @ ''/'') p \<or>
                             suffix (''/'' @ pref) p))
                 prefs))"

section \<open>File rules\<close>

definition principal_matches :: "bool \<Rightarrow> string \<Rightarrow> bool" where
  "principal_matches isAgent p0 \<longleftrightarrow>
     (let p = to_lower (trim_space p0)
      in p = ''any'' \<or> p = ''*'' \<or> (p = ''agent'' \<and> isAgent) \<or> (p = ''human'' \<and> \<not> isAgent))"

definition ruleMatches :: "rule \<Rightarrow> policy_request \<Rightarrow> bool" where
  "ruleMatches r req \<longleftrightarrow>
     (let isAgent = (prAgentID req \<noteq> [])
      in if ruPrincipals r \<noteq> [] \<and> \<not> list_ex (principal_matches isAgent) (ruPrincipals r) then False
         else if ruActions r \<noteq> [] \<and> prAction req \<noteq> [] \<and> \<not> containsFold (ruActions r) (prAction req)
         then False
         else if ruAgentIDs r \<noteq> [] \<and> (\<not> isAgent \<or> prAgentID req \<notin> set (ruAgentIDs r)) then False
         else if ruDriveIDs r \<noteq> [] \<and> (prDriveID req = [] \<or> prDriveID req \<notin> set (ruDriveIDs r))
         then False
         else if ruPathDenyPrefixes r \<noteq> [] \<and>
                 (prPath req = [] \<or> \<not> pathHitsAny (prPath req) (ruPathDenyPrefixes r))
         then False
         else if ruPathAllowPrefixes r \<noteq> [] \<and>
                 (prPath req = [] \<or> \<not> prefixOK (prPath req) (ruPathAllowPrefixes r))
         then False
         else True)"

definition rule_reason :: "rule \<Rightarrow> string \<Rightarrow> string" where
  "rule_reason r dflt = (if ruReason r = [] then dflt else ruReason r)"

definition denied :: "bool \<Rightarrow> string \<Rightarrow> decision" where
  "denied observe reason =
     (if observe then allow_with (''observe:would-deny:'' @ reason) else deny_with reason)"

text \<open>What a matching rule decides; \<open>None\<close> when its effect is neither \<open>deny\<close> nor \<open>allow\<close>.\<close>

definition rule_decision :: "bool \<Rightarrow> rule \<Rightarrow> policy_request \<Rightarrow> decision option" where
  "rule_decision observe r req =
     (case find (\<lambda>need. \<not> hasScope (prScopes req) need) (ruRequireScopes r) of
        Some need \<Rightarrow>
          Some (denied observe (rule_reason r (''policy '' @ ruID r @ '': missing scope '' @ need)))
      | None \<Rightarrow>
          if ruEffect r = ''deny''
          then Some (denied observe (rule_reason r (''policy deny: '' @ ruID r)))
          else if ruEffect r = ''allow''
          then Some (allow_with (rule_reason r (''policy allow: '' @ ruID r)))
          else None)"

fun apply_rules :: "bool \<Rightarrow> rule list \<Rightarrow> policy_request \<Rightarrow> decision" where
  "apply_rules observe [] req = allow_with ''ok''"
| "apply_rules observe (r # rs) req =
     (if \<not> ruleMatches r req then apply_rules observe rs req
      else (case rule_decision observe r req of
              Some d \<Rightarrow> d
            | None \<Rightarrow> apply_rules observe rs req))"

definition applyFileRules :: "document option \<Rightarrow> policy_request \<Rightarrow> decision" where
  "applyFileRules doc req =
     (case doc of
        None \<Rightarrow> allow_with ''ok''
      | Some d \<Rightarrow>
          if doRules d = [] then allow_with ''ok''
          else apply_rules (doMode d = ''observe'') (doRules d) req)"

section \<open>Loading a document\<close>

definition empty_document :: document where
  "empty_document = \<lparr>doVersion = 1, doMode = ''enforce'', doRules = []\<rparr>"

fun parse_rules :: "nat \<Rightarrow> rule list \<Rightarrow> rule list result" where
  "parse_rules i [] = Inr []"
| "parse_rules i (r # rs) =
     (let eff = to_lower (trim_space (ruEffect r)); eff = (if eff = [] then ''deny'' else eff)
      in if eff \<noteq> ''deny'' \<and> eff \<noteq> ''allow''
         then Inl (Errorf (''rule '' @ quoted (ruID r) @ '': effect '' @ quoted (ruEffect r) @
                           '' (want deny|allow)''))
         else (let i' = (if trim_space (ruID r) = [] then ''rule-'' @ show_nat i else ruID r)
               in (case parse_rules (Suc i) rs of
                     Inl e \<Rightarrow> Inl e
                   | Inr rs' \<Rightarrow> Inr (r\<lparr>ruEffect := eff, ruID := i'\<rparr> # rs'))))"

definition ParseDocument :: "(string \<Rightarrow> string + document) \<Rightarrow> string \<Rightarrow> document result" where
  "ParseDocument unmarshal raw =
     (if trim_space raw = [] then Inr empty_document
      else (case unmarshal raw of
              Inl err \<Rightarrow> Inl (Errorf (''policy json: '' @ err))
            | Inr doc \<Rightarrow>
                (let version = (if doVersion doc = 0 then 1 else doVersion doc);
                     mode = to_lower (trim_space (doMode doc));
                     mode = (if mode = [] then ''enforce'' else mode)
                 in if version \<noteq> 1
                    then Inl (Errorf (''unsupported policy version '' @ show_int version @ '' (want 1)''))
                    else if mode \<noteq> ''enforce'' \<and> mode \<noteq> ''observe''
                    then Inl (Errorf (''policy mode '' @ quoted (doMode doc) @ '' (want enforce|observe)''))
                    else (case parse_rules 0 (doRules doc) of
                            Inl e \<Rightarrow> Inl e
                          | Inr rs \<Rightarrow> Inr \<lparr>doVersion = version, doMode = mode, doRules = rs\<rparr>))))"

text \<open>The file system: reading a file and its modification time and size.\<close>

record files =
  fs_unmarshal :: "string \<Rightarrow> string + document"
  fs_read :: "string \<Rightarrow> string + string"
  fs_stat :: "string \<Rightarrow> string + (time \<times> int)"

definition LoadDocumentFile :: "files \<Rightarrow> string \<Rightarrow> document result" where
  "LoadDocumentFile fs path0 =
     (let path = trim_space path0
      in if path = [] then Inr empty_document
         else (case fs_read fs path of
                 Inl err \<Rightarrow> Inl (Errorf (''read policy file: '' @ err))
               | Inr b \<Rightarrow> ParseDocument (fs_unmarshal fs) b))"

section \<open>OPA\<close>

datatype opa_outcome = OpaError string | OpaNoResult | OpaBool bool | OpaNonBool

record opa =
  opStrict :: bool
  opObserve :: bool
  opEval :: "policy_request \<Rightarrow> opa_outcome"

definition OPA_Evaluate :: "opa \<Rightarrow> policy_request \<Rightarrow> bool \<times> string" where
  "OPA_Evaluate o' req =
     (case opEval o' req of
        OpaError err \<Rightarrow>
          if opStrict o' then (False, ''opa error: '' @ err)
          else (True, ''opa error (fail-open): '' @ err)
      | OpaNoResult \<Rightarrow> (True, ''opa:no-result'')
      | OpaNonBool \<Rightarrow>
          if opStrict o' then (False, ''opa: non-boolean allow result'')
          else (True, ''opa: non-boolean (fail-open)'')
      | OpaBool b \<Rightarrow>
          if b then (True, ''opa:allow'')
          else if opObserve o' then (True, ''opa:observe:would-deny'')
          else (False, ''opa:deny''))"

section \<open>The remote decision point\<close>

record pdp_answer =
  paAllow :: "bool option"
  paReason :: string
  paResult :: "bool option"

record pdp =
  pdURL :: string
  pdStrict :: bool
  pdObserve :: bool
  pdExchange :: "policy_request \<Rightarrow> string + (int \<times> string)"
  pdDecode :: "string \<Rightarrow> string + pdp_answer"

definition pdp_fail :: "pdp \<Rightarrow> string \<Rightarrow> bool \<times> string" where
  "pdp_fail p err =
     (if pdStrict p then (False, ''pdp error: '' @ err) else (True, ''pdp error (fail-open): '' @ err))"

definition truncatePDP :: "string \<Rightarrow> nat \<Rightarrow> string" where
  "truncatePDP s n = (if length s \<le> n then s else take n s @ [CHR 0xE2, CHR 0x80, CHR 0xA6])"

definition pdp_enabled :: "pdp \<Rightarrow> bool" where
  "pdp_enabled p \<longleftrightarrow> trim_space (pdURL p) \<noteq> []"

definition PDP_Evaluate :: "pdp \<Rightarrow> policy_request \<Rightarrow> bool \<times> string" where
  "PDP_Evaluate p req =
     (if \<not> pdp_enabled p then (True, [])
      else (case pdExchange p req of
              Inl err \<Rightarrow> pdp_fail p err
            | Inr (status, raw) \<Rightarrow>
                if status \<ge> 300
                then pdp_fail p (''pdp HTTP '' @ show_int status @ '': '' @ truncatePDP raw 160)
                else (case pdDecode p raw of
                        Inl err \<Rightarrow> pdp_fail p (''pdp json: '' @ err)
                      | Inr out \<Rightarrow>
                          (case (case paAllow out of Some b \<Rightarrow> Some b | None \<Rightarrow> paResult out) of
                             None \<Rightarrow> (True, ''pdp:no-allow-field'')
                           | Some allowed \<Rightarrow>
                               (let reason = trim_space (paReason out)
                                in if allowed
                                   then (True, if reason = [] then ''pdp:allow'' else reason)
                                   else if pdObserve p
                                   then (True, if reason = [] then ''pdp:observe:would-deny''
                                               else ''pdp:observe:'' @ reason)
                                   else (False,
                                         if reason = [] then ''pdp:deny''
                                         else if \<not> prefix ''pdp:'' reason then ''pdp:deny:'' @ reason
                                         else reason))))))"

section \<open>The engine\<close>

record engine =
  egDoc :: "document option"
  egFilePath :: string
  egMeta :: "time \<times> int"
  egReloadEvery :: duration
  egLastCheck :: time
  egOPA :: "opa option"
  egPDP :: "pdp option"

definition loadFileLocked :: "files \<Rightarrow> time \<Rightarrow> engine \<Rightarrow> engine result" where
  "loadFileLocked fs now e =
     (case LoadDocumentFile fs (egFilePath e) of
        Inl err \<Rightarrow> Inl err
      | Inr doc \<Rightarrow>
          (case fs_stat fs (egFilePath e) of
             Inl err \<Rightarrow> Inl (Errorf err)
           | Inr meta \<Rightarrow> Inr (e\<lparr>egDoc := Some doc, egMeta := meta, egLastCheck := now\<rparr>)))"

definition LoadFile :: "files \<Rightarrow> time \<Rightarrow> engine \<Rightarrow> string \<Rightarrow> engine \<times> unit result" where
  "LoadFile fs now e0 path =
     (let e = e0\<lparr>egFilePath := trim_space path\<rparr>
      in if egFilePath e = [] then (e\<lparr>egDoc := Some empty_document, egMeta := (0, 0)\<rparr>, Inr ())
         else (case loadFileLocked fs now e of
                 Inl err \<Rightarrow> (e, Inl err)
               | Inr e' \<Rightarrow> (e', Inr ())))"

definition maybeReload :: "files \<Rightarrow> time \<Rightarrow> engine \<Rightarrow> engine" where
  "maybeReload fs now e =
     (if egFilePath e = [] \<or> egReloadEvery e \<le> 0 then e
      else if now - egLastCheck e < egReloadEvery e then e
      else (let e1 = e\<lparr>egLastCheck := now\<rparr>
            in (case fs_stat fs (egFilePath e) of
                  Inl _ \<Rightarrow> e1
                | Inr meta \<Rightarrow>
                    if meta = egMeta e then e1
                    else (case loadFileLocked fs now e1 of Inl _ \<Rightarrow> e1 | Inr e2 \<Rightarrow> e2))))"

definition builtin_deny :: "policy_request \<Rightarrow> string option" where
  "builtin_deny req =
     (if prAgentID req = [] then None
      else if scopeForAction (prAction req) \<noteq> [] \<and>
              \<not> hasScope (prScopes req) (scopeForAction (prAction req))
      then Some (''missing scope: '' @ scopeForAction (prAction req))
      else if prDriveID req \<noteq> [] \<and> prAllowedDriveIDs req \<noteq> [] \<and>
              prDriveID req \<notin> set (prAllowedDriveIDs req)
      then Some ''drive not allowed for agent''
      else if prPath req \<noteq> []
      then (if prAction req = ''path.write'' \<or> prAction req = ''drive.write''
            then (if prWritePrefixes req \<noteq> [] \<and> \<not> prefixOK (prPath req) (prWritePrefixes req)
                  then Some ''path not in write_prefixes'' else None)
            else if prAction req = ''path.read'' \<or> prAction req = ''drive.read'' \<or>
                    prAction req = ''drive.session''
            then (if prReadPrefixes req \<noteq> [] \<and> \<not> prefixOK (prPath req) (prReadPrefixes req)
                  then Some ''path not in read_prefixes'' else None)
            else None)
      else None)"

definition opa_stage :: "opa option \<Rightarrow> policy_request \<Rightarrow> decision \<Rightarrow> decision" where
  "opa_stage o' req d =
     (case o' of
        None \<Rightarrow> d
      | Some op \<Rightarrow>
          (let (allow, reason) = OPA_Evaluate op req
           in if \<not> allow then deny_with reason
              else if reason \<noteq> [] \<and> reason \<noteq> ''opa:allow'' \<and> reason \<noteq> ''opa:no-result'' \<and>
                      (dcReason d = ''ok'' \<or> dcReason d = ''human'')
              then d\<lparr>dcReason := reason\<rparr> else d))"

definition pdp_stage :: "pdp option \<Rightarrow> policy_request \<Rightarrow> decision \<Rightarrow> decision" where
  "pdp_stage p req d =
     (case p of
        None \<Rightarrow> d
      | Some pd \<Rightarrow>
          if \<not> pdp_enabled pd then d
          else (let (allow, reason) = PDP_Evaluate pd req
                in if \<not> allow then deny_with reason
                   else if reason \<noteq> [] \<and> reason \<noteq> ''pdp:allow'' \<and>
                           (dcReason d = ''ok'' \<or> dcReason d = ''human'' \<or> dcReason d = ''opa:allow'')
                   then d\<lparr>dcReason := reason\<rparr> else d))"

definition Evaluate :: "files \<Rightarrow> time \<Rightarrow> engine \<Rightarrow> policy_request \<Rightarrow> engine \<times> decision" where
  "Evaluate fs now e0 req =
     (let e = maybeReload fs now e0
      in (e, case builtin_deny req of
               Some reason \<Rightarrow> deny_with reason
             | None \<Rightarrow>
                 (let d = applyFileRules (egDoc e) req
                  in if \<not> dcAllow d then d
                     else (let d = opa_stage (egOPA e) req d
                           in if \<not> dcAllow d then d
                              else (let d = pdp_stage (egPDP e) req d
                                    in if \<not> dcAllow d then d
                                       else if dcReason d = ''ok'' \<and> prAgentID req = []
                                       then allow_with ''human''
                                       else if dcReason d = ''ok'' then allow_with ''ok''
                                       else d)))))"

definition CanAccessDrive :: "string \<Rightarrow> string list \<Rightarrow> string \<Rightarrow> unit result" where
  "CanAccessDrive agentID allowed driveID =
     (if agentID = [] then Inr ()
      else if driveID = [] then Inr ()
      else if allowed = [] then Inr ()
      else if driveID \<notin> set allowed then Inl (Errorf ''drive not allowed for agent'')
      else Inr ())"

definition new_engine :: engine where
  "new_engine =
    \<lparr>egDoc = Some empty_document, egFilePath = [], egMeta = (0, 0), egReloadEvery = 0,
     egLastCheck = 0, egOPA = None, egPDP = None\<rparr>"

definition CanAccessDriveWithEngine ::
  "files \<Rightarrow> time \<Rightarrow> engine option \<Rightarrow> policy_request \<Rightarrow> unit result" where
  "CanAccessDriveWithEngine fs now e0 req0 =
     (let e = (case e0 of None \<Rightarrow> new_engine | Some e \<Rightarrow> e);
          req = (if prAction req0 = [] then req0\<lparr>prAction := ''drive.read''\<rparr> else req0);
          d = snd (Evaluate fs now e req)
      in if \<not> dcAllow d then Inl (Errorf (dcReason d)) else Inr ())"

lemmas engine_defs [policy_defs] =
  Evaluate_def applyFileRules_def opa_stage_def pdp_stage_def builtin_deny_def denied_def

section \<open>Facts\<close>

lemma denied_observe [simp]: "dcAllow (denied True r)"
  by (simp add: denied_def)

lemma rule_decision_observe: "rule_decision True r req = Some d \<Longrightarrow> dcAllow d"
  by (auto simp: rule_decision_def split: option.splits if_splits)

lemma apply_rules_observe: "dcAllow (apply_rules True rs req)"
  by (induction True rs req rule: apply_rules.induct)
     (auto dest: rule_decision_observe split: option.splits)

text \<open>The first matching rule with a decision decides.\<close>

definition deciding :: "bool \<Rightarrow> policy_request \<Rightarrow> rule \<Rightarrow> bool" where
  "deciding observe req r \<longleftrightarrow> ruleMatches r req \<and> rule_decision observe r req \<noteq> None"

lemma apply_rules_first:
  "apply_rules observe rs req =
     (case find (deciding observe req) rs of
        None \<Rightarrow> allow_with ''ok''
      | Some r \<Rightarrow> the (rule_decision observe r req))"
  by (induction observe rs req rule: apply_rules.induct) (auto simp: deciding_def split: option.splits)

lemma opa_stage_allow: "dcAllow d \<Longrightarrow> dcAllow (opa_stage o' req d) \<longleftrightarrow> (\<forall>op. o' = Some op \<longrightarrow> fst (OPA_Evaluate op req))"
  by (auto simp: opa_stage_def split: option.splits prod.splits)

lemma pdp_stage_allow:
  "dcAllow d \<Longrightarrow> dcAllow (pdp_stage p req d) \<longleftrightarrow>
   (\<forall>pd. p = Some pd \<longrightarrow> pdp_enabled pd \<longrightarrow> fst (PDP_Evaluate pd req))"
  by (auto simp: pdp_stage_def split: option.splits prod.splits)

lemma Evaluate_allow_iff:
  "dcAllow (snd (Evaluate fs now e req)) \<longleftrightarrow>
     builtin_deny req = None \<and>
     dcAllow (applyFileRules (egDoc (maybeReload fs now e)) req) \<and>
     (\<forall>op. egOPA (maybeReload fs now e) = Some op \<longrightarrow> fst (OPA_Evaluate op req)) \<and>
     (\<forall>pd. egPDP (maybeReload fs now e) = Some pd \<longrightarrow> pdp_enabled pd \<longrightarrow> fst (PDP_Evaluate pd req))"
proof -
  let ?e = "maybeReload fs now e"
  let ?d = "applyFileRules (egDoc ?e) req"
  consider "\<exists>r. builtin_deny req = Some r" | "builtin_deny req = None" "\<not> dcAllow ?d"
    | "builtin_deny req = None" "dcAllow ?d" by blast
  then show ?thesis
  proof cases
    case 1
    then show ?thesis by (auto simp: Evaluate_def Let_def)
  next
    case 2
    then show ?thesis by (simp add: Evaluate_def Let_def)
  next
    case 3
    let ?o = "opa_stage (egOPA ?e) req ?d"
    have o: "dcAllow ?o \<longleftrightarrow> (\<forall>op. egOPA ?e = Some op \<longrightarrow> fst (OPA_Evaluate op req))"
      by (rule opa_stage_allow) (rule 3)
    show ?thesis
    proof (cases "dcAllow ?o")
      case True
      have "dcAllow (snd (Evaluate fs now e req)) \<longleftrightarrow> dcAllow (pdp_stage (egPDP ?e) req ?o)"
        using 3 True by (simp add: Evaluate_def Let_def)
      with 3 True o pdp_stage_allow [OF True] show ?thesis by blast
    next
      case False
      have "\<not> dcAllow (snd (Evaluate fs now e req))"
        using 3 False by (simp add: Evaluate_def Let_def)
      with False o show ?thesis by blast
    qed
  qed
qed

lemma maybeReload_stages [simp]:
  "egOPA (maybeReload fs now e) = egOPA e" "egPDP (maybeReload fs now e) = egPDP e"
  "egFilePath (maybeReload fs now e) = egFilePath e"
  by (auto simp: maybeReload_def loadFileLocked_def Let_def split: sum.splits)

text \<open>Every document that was loaded is normalised.\<close>

definition rule_ok :: "rule \<Rightarrow> bool" where
  "rule_ok r \<longleftrightarrow> (ruEffect r = ''deny'' \<or> ruEffect r = ''allow'') \<and> trim_space (ruID r) \<noteq> []"

definition document_ok :: "document \<Rightarrow> bool" where
  "document_ok d \<longleftrightarrow> doVersion d = 1 \<and> (doMode d = ''enforce'' \<or> doMode d = ''observe'') \<and>
     (\<forall>r \<in> set (doRules d). rule_ok r)"

lemma trim_space_nonspace:
  assumes "s = c # s'" "\<forall>w \<in> set go_spaces. w \<noteq> [] \<longrightarrow> hd w \<noteq> c"
  shows "trim_space s \<noteq> []"
proof -
  have "trim_pre go_spaces s = s"
    using assms by (intro trim_pre_id) (auto simp: prefix_Cons)
  moreover have "trim_pre (map rev go_spaces) (rev s) \<noteq> []"
  proof
    assume e: "trim_pre (map rev go_spaces) (rev s) = []"
    have "\<exists>w \<in> set (map rev go_spaces). w \<noteq> [] \<and> suffix w t" if "trim_pre (map rev go_spaces) t = []" "t \<noteq> []" for t
      using that
    proof (induction "map rev go_spaces" t rule: trim_pre.induct)
      case (1 t)
      show ?case
      proof (cases "find (\<lambda>w. w \<noteq> [] \<and> prefix w t) (map rev go_spaces)")
        case None
        then show ?thesis using 1 by (simp add: trim_pre.simps [of _ t])
      next
        case (Some w)
        then have w: "w \<in> set (map rev go_spaces)" "w \<noteq> []" "prefix w t" using find_SomeD [OF Some] by auto
        show ?thesis
        proof (cases "drop (length w) t = []")
          case True
          with w(3) have "t = w" by (metis append_Nil2 append_eq_conv_conj prefixE)
          with w show ?thesis by blast
        next
          case False
          have "trim_pre (map rev go_spaces) (drop (length w) t) = []"
            using "1.prems"(1) Some by (simp add: trim_pre.simps [of _ t])
          from "1.hyps" [OF Some this False] show ?thesis by (meson suffix_drop suffix_order.trans)
        qed
      qed
    qed
    from this [OF e] assms(1) obtain w where "w \<in> set go_spaces" "w \<noteq> []" "suffix (rev w) (rev s)" by auto
    then have "prefix w s" by (simp add: suffix_to_prefix)
    with \<open>w \<noteq> []\<close> assms(1) have "hd w = c" by (cases w) auto
    with assms(2) \<open>w \<in> set go_spaces\<close> \<open>w \<noteq> []\<close> show False by blast
  qed
  ultimately show ?thesis by (simp add: trim_space_def)
qed

lemma rule_id_nonblank: "trim_space (''rule-'' @ show_nat i) \<noteq> []"
proof (rule trim_space_nonspace)
  show "''rule-'' @ show_nat i = CHR ''r'' # (''ule-'' @ show_nat i)" by simp
  show "\<forall>w \<in> set go_spaces. w \<noteq> [] \<longrightarrow> hd w \<noteq> CHR ''r''" by code_simp
qed

lemma rule_ok_named:
  "\<lbrakk>eff = ''deny'' \<or> eff = ''allow''\<rbrakk> \<Longrightarrow>
   rule_ok (r\<lparr>ruEffect := eff, ruID := (if trim_space (ruID r) = [] then ''rule-'' @ show_nat i else ruID r)\<rparr>)"
  using rule_id_nonblank [of i] by (cases "trim_space (ruID r) = []") (auto simp: rule_ok_def)

lemma parse_rules_ok: "parse_rules i rs = Inr rs' \<Longrightarrow> \<forall>r \<in> set rs'. rule_ok r"
proof (induction rs arbitrary: i rs')
  case Nil
  then show ?case by simp
next
  case (Cons r rs)
  let ?eff = "if to_lower (trim_space (ruEffect r)) = [] then ''deny'' else to_lower (trim_space (ruEffect r))"
  have ok: "?eff = ''deny'' \<or> ?eff = ''allow''"
  proof (rule ccontr)
    assume "\<not> (?eff = ''deny'' \<or> ?eff = ''allow'')"
    then have "?eff \<noteq> ''deny'' \<and> ?eff \<noteq> ''allow''" by blast
    then show False using Cons.prems by (simp only: parse_rules.simps Let_def if_True) simp
  qed
  then have g: "\<not> (?eff \<noteq> ''deny'' \<and> ?eff \<noteq> ''allow'')" by blast
  obtain t where t: "parse_rules (Suc i) rs = Inr t"
    "rs' = r\<lparr>ruEffect := ?eff, ruID := (if trim_space (ruID r) = [] then ''rule-'' @ show_nat i else ruID r)\<rparr> # t"
  proof (cases "parse_rules (Suc i) rs")
    case (Inl e)
    then show ?thesis using Cons.prems by (simp only: parse_rules.simps Let_def g if_False) simp
  next
    case (Inr t)
    then show ?thesis using Cons.prems that by (simp only: parse_rules.simps Let_def g if_False) simp
  qed
  with Cons.IH [OF t(1)] rule_ok_named [OF ok, of r i] show ?case by (simp only: list.set ball_simps)
qed

lemma ParseDocument_rules:
  assumes "ParseDocument unm raw = Inr d"
  shows "doVersion d = 1 \<and> (doMode d = ''enforce'' \<or> doMode d = ''observe'') \<and>
    (\<exists>rs. parse_rules 0 rs = Inr (doRules d))"
proof (cases "trim_space raw = []")
  case True
  then have "d = empty_document" using assms by (simp add: ParseDocument_def)
  moreover have "parse_rules 0 [] = Inr []" by simp
  ultimately show ?thesis unfolding empty_document_def by (metis document.select_convs)
next
  case False
  then show ?thesis
    using assms by (auto simp: ParseDocument_def Let_def split: if_splits sum.splits)
qed

lemma ParseDocument_ok: "ParseDocument unm raw = Inr d \<Longrightarrow> document_ok d"
  unfolding document_ok_def by (blast dest: ParseDocument_rules parse_rules_ok)

text \<open>A path with a denied segment is caught, however deep.\<close>

lemma pathHitsAny_segment:
  assumes "pref \<in> set prefs" "trim_c (CHR ''/'') (trim_space pref) = seg" "seg \<noteq> []"
    and "seg \<in> set (split_c (CHR ''/'') path)" "CHR 0x5C \<notin> set path"
  shows "pathHitsAny path prefs"
proof -
  have "map (\<lambda>c. if c = CHR 0x5C then CHR ''/'' else c) path = path"
    using assms(5) by (intro map_idI) auto
  with assms(1-4) show ?thesis unfolding pathHitsAny_def by (auto simp: list_ex_iff Let_def)
qed

text \<open>What the two optional stages say on their own.\<close>

definition opa_allows :: "opa option \<Rightarrow> policy_request \<Rightarrow> bool" where
  "opa_allows o' req \<longleftrightarrow> (case o' of None \<Rightarrow> True | Some op \<Rightarrow> fst (OPA_Evaluate op req))"

definition pdp_allows :: "pdp option \<Rightarrow> policy_request \<Rightarrow> bool" where
  "pdp_allows p req \<longleftrightarrow> (case p of None \<Rightarrow> True | Some pd \<Rightarrow> \<not> pdp_enabled pd \<or> fst (PDP_Evaluate pd req))"

lemma Evaluate_allow:
  "dcAllow (snd (Evaluate fs now e req)) \<longleftrightarrow>
     builtin_deny req = None \<and> dcAllow (applyFileRules (egDoc (maybeReload fs now e)) req) \<and>
     opa_allows (egOPA e) req \<and> pdp_allows (egPDP e) req"
  unfolding Evaluate_allow_iff maybeReload_stages opa_allows_def pdp_allows_def
  by (auto split: option.splits)

text \<open>The engine always holds a validated document.\<close>

definition engine_ok :: "engine \<Rightarrow> bool" where
  "engine_ok e \<longleftrightarrow> (case egDoc e of None \<Rightarrow> False | Some d \<Rightarrow> document_ok d)"

lemma engine_ok_empty [simp]: "document_ok empty_document" "engine_ok new_engine"
  by (simp_all add: document_ok_def empty_document_def engine_ok_def new_engine_def)

lemma LoadDocumentFile_ok: "LoadDocumentFile fs path = Inr d \<Longrightarrow> document_ok d"
  by (auto simp: LoadDocumentFile_def Let_def dest: ParseDocument_ok split: if_splits sum.splits)

lemma loadFileLocked_ok: "loadFileLocked fs now e = Inr e' \<Longrightarrow> engine_ok e'"
  by (auto simp: loadFileLocked_def engine_ok_def dest: LoadDocumentFile_ok split: sum.splits)

lemma maybeReload_ok: "engine_ok e \<Longrightarrow> engine_ok (maybeReload fs now e)"
  by (auto simp: maybeReload_def Let_def dest: loadFileLocked_ok split: sum.splits)
     (simp_all add: engine_ok_def)

lemma LoadFile_ok: "engine_ok e \<Longrightarrow> engine_ok (fst (LoadFile fs now e path))"
  by (auto simp: LoadFile_def Let_def dest: loadFileLocked_ok split: sum.splits)
     (simp_all add: engine_ok_def)

lemma Evaluate_engine [simp]: "fst (Evaluate fs now e req) = maybeReload fs now e"
  by (simp add: Evaluate_def Let_def)

end
