(* ===== verification/Policy_Limits.thy ===== *)
theory Policy_Limits
  imports Cloud_Prelude Complex_Main
begin

text \<open>
  Quotas, the token bucket limiter and the login lockout (\<open>internal/policy/quota.go\<close>,
  \<open>ratelimit.go\<close>, \<open>authlimit.go\<close>, \<open>redis_limit.go\<close>). Token counts are rationals where the code has float64; instants
  are nanoseconds. The clock is read once per call and is an argument.
\<close>

section \<open>Quotas\<close>

record quota =
  qMaxConcurrentBindings :: int
  qMaxDrives :: int
  qMaxProviders :: int

definition DefaultQuota :: quota where
  "DefaultQuota = \<lparr>qMaxConcurrentBindings = 10, qMaxDrives = 20, qMaxProviders = 20\<rparr>"

definition CheckBindings :: "quota \<Rightarrow> int \<Rightarrow> unit result" where
  "CheckBindings q current =
     (let max = (if qMaxConcurrentBindings q \<le> 0 then 10 else qMaxConcurrentBindings q)
      in if current \<ge> max
         then Inl (Errorf (''binding quota exceeded: max '' @ show_int max @ '' concurrent bindings per user''))
         else Inr ())"

definition CheckDrives :: "quota \<Rightarrow> int \<Rightarrow> unit result" where
  "CheckDrives q current =
     (let max = (if qMaxDrives q \<le> 0 then 20 else qMaxDrives q)
      in if current \<ge> max
         then Inl (Errorf (''drive quota exceeded: max '' @ show_int max @ '' drives per user''))
         else Inr ())"

definition CheckProviders :: "quota \<Rightarrow> int \<Rightarrow> unit result" where
  "CheckProviders q current =
     (let max = (if qMaxProviders q \<le> 0 then 20 else qMaxProviders q)
      in if current \<ge> max
         then Inl (Errorf (''provider quota exceeded: max '' @ show_int max @ '' providers per user''))
         else Inr ())"

section \<open>Token buckets\<close>

record bucket =
  bkTokens :: rat
  bkLast :: time

record limiter =
  liRate :: rat
  liBurst :: rat
  liBuckets :: "bucket gomap"

definition NewLimiter :: "rat \<Rightarrow> rat \<Rightarrow> limiter" where
  "NewLimiter rate0 burst0 =
     (let rate = (if rate0 \<le> 0 then 10 else rate0);
          burst = (if burst0 \<le> 0 then rate else burst0)
      in \<lparr>liRate = rate, liBurst = burst, liBuckets = []\<rparr>)"

definition seconds_of :: "duration \<Rightarrow> rat" where
  "seconds_of d = of_int d / 1000000000"

definition Allow :: "time \<Rightarrow> limiter \<Rightarrow> string \<Rightarrow> limiter \<times> bool" where
  "Allow now l key =
     (case gget (liBuckets l) key of
        None \<Rightarrow>
          (l\<lparr>liBuckets := gset key \<lparr>bkTokens = liBurst l - 1, bkLast = now\<rparr> (liBuckets l)\<rparr>, True)
      | Some b \<Rightarrow>
          (let tokens = bkTokens b + seconds_of (now - bkLast b) * liRate l;
               tokens = (if tokens > liBurst l then liBurst l else tokens)
           in if tokens < 1
              then (l\<lparr>liBuckets := gset key \<lparr>bkTokens = tokens, bkLast = now\<rparr> (liBuckets l)\<rparr>, False)
              else (l\<lparr>liBuckets := gset key \<lparr>bkTokens = tokens - 1, bkLast = now\<rparr> (liBuckets l)\<rparr>, True)))"

definition NewAuthLimiter :: "rat \<Rightarrow> rat \<Rightarrow> limiter" where
  "NewAuthLimiter perMinute0 burst0 =
     (let perMinute = (if perMinute0 \<le> 0 then 10 else perMinute0);
          burst = (if burst0 \<le> 0 then 5 else burst0)
      in NewLimiter (perMinute / 60) burst)"

definition AuthAllow :: "time \<Rightarrow> limiter option \<Rightarrow> string \<Rightarrow> limiter option \<times> bool" where
  "AuthAllow now a key =
     (case a of
        None \<Rightarrow> (None, True)
      | Some l \<Rightarrow> (let (l', ok) = Allow now l (if key = [] then ''unknown'' else key) in (Some l', ok)))"

text \<open>A sequence of calls and the number of them that were let through for a key.\<close>

fun serve :: "limiter \<Rightarrow> (time \<times> string) list \<Rightarrow> string \<Rightarrow> limiter \<times> nat" where
  "serve l [] k = (l, 0)"
| "serve l ((t, key) # es) k =
     (let (l', ok) = Allow t l key; (l'', n) = serve l' es k
      in (l'', if ok \<and> key = k then Suc n else n))"

section \<open>Lockout\<close>

record fail_entry =
  feCount :: nat
  feFirst :: time

record tracker =
  ftMaxFail :: int
  ftWindow :: duration
  ftFailures :: "fail_entry gomap"

definition NewFailureTracker :: "int \<Rightarrow> duration \<Rightarrow> tracker" where
  "NewFailureTracker maxFail window =
     \<lparr>ftMaxFail = (if maxFail \<le> 0 then 8 else maxFail),
      ftWindow = (if window \<le> 0 then 15 * 60 * second else window), ftFailures = []\<rparr>"

definition Locked :: "time \<Rightarrow> tracker \<Rightarrow> string \<Rightarrow> tracker \<times> bool" where
  "Locked now t key =
     (case gget (ftFailures t) key of
        None \<Rightarrow> (t, False)
      | Some e \<Rightarrow>
          if now - feFirst e > ftWindow t
          then (t\<lparr>ftFailures := gdel key (ftFailures t)\<rparr>, False)
          else (t, int (feCount e) \<ge> ftMaxFail t))"

definition Fail :: "time \<Rightarrow> tracker \<Rightarrow> string \<Rightarrow> tracker \<times> bool" where
  "Fail now t key =
     (case gget (ftFailures t) key of
        None \<Rightarrow> (t\<lparr>ftFailures := gset key \<lparr>feCount = 1, feFirst = now\<rparr> (ftFailures t)\<rparr>, False)
      | Some e \<Rightarrow>
          if now - feFirst e > ftWindow t
          then (t\<lparr>ftFailures := gset key \<lparr>feCount = 1, feFirst = now\<rparr> (ftFailures t)\<rparr>, False)
          else (let e' = e\<lparr>feCount := feCount e + 1\<rparr>
                in (t\<lparr>ftFailures := gset key e' (ftFailures t)\<rparr>, int (feCount e') \<ge> ftMaxFail t)))"

definition Clear :: "tracker \<Rightarrow> string \<Rightarrow> tracker" where
  "Clear t key = t\<lparr>ftFailures := gdel key (ftFailures t)\<rparr>"

datatype login_event =
    BadLogin time string
  | GoodLogin time string

text \<open>
  What a login does to the tracker: \<open>Locked\<close> is asked first, then \<open>Fail\<close> or \<open>Clear\<close> is called. The
  event says whether the password matches and under which key; the result says whether the password was
  looked at. The whole handler, with the check of the password and the making of the key, is
  \<open>handleLogin\<close> of \<open>Http_Accounts\<close>, whose lemma \<open>handleLogin_attempt\<close> reduces it to this step.
\<close>

definition login_attempt :: "tracker \<Rightarrow> login_event \<Rightarrow> tracker \<times> bool" where
  "login_attempt t ev =
     (case ev of
        BadLogin now key \<Rightarrow>
          (let (t1, locked) = Locked now t key
           in if locked then (t1, False) else (fst (Fail now t1 key), True))
      | GoodLogin now key \<Rightarrow>
          (let (t1, locked) = Locked now t key
           in if locked then (t1, False) else (Clear t1 key, True)))"

fun login_run :: "tracker \<Rightarrow> login_event list \<Rightarrow> tracker \<times> bool list" where
  "login_run t [] = (t, [])"
| "login_run t (ev # evs) =
     (let (t1, ok) = login_attempt t ev; (t2, oks) = login_run t1 evs in (t2, ok # oks))"

lemmas limit_defs [policy_defs] =
  CheckBindings_def CheckDrives_def CheckProviders_def Allow_def Locked_def Fail_def Clear_def

section \<open>Facts about the limiter\<close>

lemma Allow_rate [simp]:
  "liRate (fst (Allow t l k)) = liRate l" "liBurst (fst (Allow t l k)) = liBurst l"
  by (auto simp: Allow_def Let_def split: option.splits)

lemma Allow_other [simp]:
  "k' \<noteq> k \<Longrightarrow> gget (liBuckets (fst (Allow t l k))) k' = gget (liBuckets l) k'"
  by (auto simp: Allow_def Let_def split: option.splits)

lemma Allow_new:
  "gget (liBuckets l) k = None \<Longrightarrow>
   snd (Allow t l k) \<and> gget (liBuckets (fst (Allow t l k))) k = Some \<lparr>bkTokens = liBurst l - 1, bkLast = t\<rparr>"
  by (simp add: Allow_def)

text \<open>A bucket never holds more than the burst, and what it loses it paid for a permit.\<close>

lemma Allow_old:
  assumes "gget (liBuckets l) k = Some b"
  obtains b' where "gget (liBuckets (fst (Allow t l k))) k = Some b'" "bkLast b' = t"
    "bkTokens b' + of_bool (snd (Allow t l k)) \<le> bkTokens b + seconds_of (t - bkLast b) * liRate l"
    "bkTokens b' + of_bool (snd (Allow t l k)) =
       min (liBurst l) (bkTokens b + seconds_of (t - bkLast b) * liRate l)"
    "snd (Allow t l k) \<longleftrightarrow> bkTokens b' \<ge> 0 \<and> bkTokens b' + of_bool (snd (Allow t l k)) \<ge> 1"
proof -
  let ?u = "bkTokens b + seconds_of (t - bkLast b) * liRate l"
  let ?v = "if ?u > liBurst l then liBurst l else ?u"
  show thesis
  proof (cases "?v < 1")
    case True
    then have "Allow t l k = (l\<lparr>liBuckets := gset k \<lparr>bkTokens = ?v, bkLast = t\<rparr> (liBuckets l)\<rparr>, False)"
      using assms by (simp add: Allow_def Let_def)
    then show thesis using True by (intro that [of "\<lparr>bkTokens = ?v, bkLast = t\<rparr>"]) auto
  next
    case False
    then have "Allow t l k = (l\<lparr>liBuckets := gset k \<lparr>bkTokens = ?v - 1, bkLast = t\<rparr> (liBuckets l)\<rparr>, True)"
      using assms by (simp add: Allow_def Let_def)
    then show thesis using False by (intro that [of "\<lparr>bkTokens = ?v - 1, bkLast = t\<rparr>"]) auto
  qed
qed

lemma Allow_tokens_nonneg:
  assumes "gget (liBuckets l) k = Some b" "bkTokens b \<ge> z" "z \<le> 0" "liRate l \<ge> 0" "t \<ge> bkLast b" "liBurst l \<ge> z"
    "gget (liBuckets (fst (Allow t l k))) k = Some b'"
  shows "bkTokens b' \<ge> z"
proof -
  have "0 \<le> seconds_of (t - bkLast b) * liRate l"
    using assms(4,5) by (simp add: seconds_of_def)
  then show ?thesis
    using assms(1,2,3,6,7) by (auto simp: Allow_def Let_def split: if_splits)
qed

definition ordered_from :: "time \<Rightarrow> (time \<times> string) list \<Rightarrow> bool" where
  "ordered_from start es \<longleftrightarrow> sorted (start # map fst es)"

lemma serve_bound_old:
  assumes "gget (liBuckets l) k = Some b" "bkTokens b \<ge> z" "z \<le> 0" "liRate l > 0" "liBurst l \<ge> z"
    and "sorted (start # map fst es)" "start \<ge> bkLast b" "\<forall>e \<in> set es. fst e \<le> fin" "start \<le> fin"
  shows "of_nat (snd (serve l es k)) \<le> bkTokens b - z + seconds_of (fin - bkLast b) * liRate l"
  using assms
proof (induction es arbitrary: l b start)
  case Nil
  then have "0 \<le> seconds_of (fin - bkLast b) * liRate l" by (simp add: seconds_of_def)
  with Nil.prems show ?case by simp
next
  case (Cons e es)
  obtain t key where e: "e = (t, key)" by (cases e)
  let ?l = "fst (Allow t l key)"
  have s: "sorted (t # map fst es)" "start \<le> t" "t \<le> fin" using Cons.prems e by auto
  show ?case
  proof (cases "key = k")
    case False
    have "of_nat (snd (serve ?l es k)) \<le> bkTokens b - z + seconds_of (fin - bkLast b) * liRate ?l"
      using Cons.prems False s by (intro Cons.IH [where start = t]) (auto simp: e)
    then show ?thesis using False by (simp add: e Let_def split_def)
  next
    case True
    obtain b' where b': "gget (liBuckets ?l) k = Some b'" "bkLast b' = t"
      "bkTokens b' + of_bool (snd (Allow t l k)) \<le> bkTokens b + seconds_of (t - bkLast b) * liRate l"
      using Allow_old [OF Cons.prems(1), of t] True by metis
    have z: "bkTokens b' \<ge> z"
      using Cons.prems b'(1) s True by (intro Allow_tokens_nonneg [of l k b z t b']) auto
    have "of_nat (snd (serve ?l es k)) \<le> bkTokens b' - z + seconds_of (fin - bkLast b') * liRate ?l"
      using Cons.prems z b'(1,2) s by (intro Cons.IH [where start = t]) (auto simp: e)
    moreover have "seconds_of (fin - t) * liRate l + seconds_of (t - bkLast b) * liRate l =
        seconds_of (fin - bkLast b) * liRate l"
      by (simp add: seconds_of_def field_simps)
    moreover have "(of_nat (snd (serve l (e # es) k)) :: rat) =
        of_nat (snd (serve ?l es k)) + of_bool (snd (Allow t l k))"
      using True by (simp add: e Let_def split_def)
    ultimately show ?thesis using b'(2,3) by simp
  qed
qed

lemma serve_bound_new:
  assumes "gget (liBuckets l) k = None" "liRate l > 0" "liBurst l > 0"
    and "sorted (start # map fst es)" "\<forall>e \<in> set es. fst e \<le> fin" "start \<le> fin"
  shows "of_nat (snd (serve l es k)) \<le> max 1 (liBurst l) + seconds_of (fin - start) * liRate l"
  using assms
proof (induction es arbitrary: l start)
  case Nil
  then have "0 \<le> seconds_of (fin - start) * liRate l" by (simp add: seconds_of_def)
  then show ?case using Nil by simp
next
  case (Cons e es)
  obtain t key where e: "e = (t, key)" by (cases e)
  let ?l = "fst (Allow t l key)"
  have s: "sorted (t # map fst es)" "start \<le> t" "t \<le> fin" using Cons.prems e by auto
  have mono: "seconds_of (fin - t) * liRate l \<le> seconds_of (fin - start) * liRate l"
    using Cons.prems(2) s by (intro mult_right_mono) (simp_all add: seconds_of_def divide_right_mono)
  show ?case
  proof (cases "key = k")
    case False
    have "of_nat (snd (serve ?l es k)) \<le> max 1 (liBurst ?l) + seconds_of (fin - t) * liRate ?l"
      using Cons.prems False s by (intro Cons.IH [where start = t]) (auto simp: e)
    then show ?thesis using False mono by (simp add: e Let_def split_def)
  next
    case True
    define z where "z = min 0 (liBurst l - 1)"
    have a: "snd (Allow t l k)"
      "gget (liBuckets (fst (Allow t l k))) k = Some \<lparr>bkTokens = liBurst l - 1, bkLast = t\<rparr>"
      using Allow_new [OF Cons.prems(1), of t] by auto
    have "of_nat (snd (serve ?l es k)) \<le> (liBurst l - 1) - z + seconds_of (fin - t) * liRate ?l"
      using serve_bound_old [of ?l k "\<lparr>bkTokens = liBurst l - 1, bkLast = t\<rparr>" z t es fin]
        a(2) True Cons.prems s by (simp add: z_def e)
    moreover have "(of_nat (snd (serve l (e # es) k)) :: rat) = of_nat (snd (serve ?l es k)) + 1"
      using True a(1) by (simp add: e Let_def split_def)
    moreover have "liBurst l - z = max 1 (liBurst l)" by (auto simp: z_def)
    ultimately show ?thesis using mono by simp
  qed
qed

lemma NewLimiter_pos:
  "liRate (NewLimiter r b) > 0" "liBurst (NewLimiter r b) > 0" "liBuckets (NewLimiter r b) = []"
  by (auto simp: NewLimiter_def Let_def)

text \<open>A key that waited long enough is served again.\<close>

lemma Allow_refills:
  assumes "gget (liBuckets l) k = Some b" "bkTokens b \<ge> 0" "liBurst l \<ge> 1"
    and "seconds_of (t - bkLast b) * liRate l \<ge> 1"
  shows "snd (Allow t l k)"
  using assms by (auto simp: Allow_def Let_def)

section \<open>Facts about the lockout\<close>

fun ev_key :: "login_event \<Rightarrow> string" where
  "ev_key (BadLogin _ k) = k" | "ev_key (GoodLogin _ k) = k"

fun ev_time :: "login_event \<Rightarrow> time" where
  "ev_time (BadLogin t _) = t" | "ev_time (GoodLogin t _) = t"

definition checked :: "string \<Rightarrow> tracker \<Rightarrow> login_event list \<Rightarrow> nat" where
  "checked k t evs =
     length (filter (\<lambda>(ev, ok). ok \<and> ev_key ev = k) (zip evs (snd (login_run t evs))))"

lemma checked_Nil [simp]: "checked k t [] = 0"
  by (simp add: checked_def)

lemma checked_Cons:
  "checked k t (ev # evs) =
   (if snd (login_attempt t ev) \<and> ev_key ev = k then 1 else 0) + checked k (fst (login_attempt t ev)) evs"
  by (simp add: checked_def Let_def split_def)

lemma login_attempt_limits [simp]:
  "ftMaxFail (fst (login_attempt t ev)) = ftMaxFail t"
  "ftWindow (fst (login_attempt t ev)) = ftWindow t"
  by (auto simp: login_attempt_def Locked_def Fail_def Clear_def Let_def
      split: login_event.splits option.splits)

lemma login_attempt_other:
  "ev_key ev \<noteq> k \<Longrightarrow> gget (ftFailures (fst (login_attempt t ev))) k = gget (ftFailures t) k"
  by (auto simp: login_attempt_def Locked_def Fail_def Clear_def Let_def
      split: login_event.splits option.splits)

lemma bad_fresh:
  assumes "gget (ftFailures t) k = None"
  shows "snd (login_attempt t (BadLogin now k))"
    "gget (ftFailures (fst (login_attempt t (BadLogin now k)))) k = Some \<lparr>feCount = 1, feFirst = now\<rparr>"
  using assms by (simp_all add: login_attempt_def Locked_def Fail_def)

lemma bad_counted:
  assumes "gget (ftFailures t) k = Some e" "now - feFirst e \<le> ftWindow t" "int (feCount e) < ftMaxFail t"
  shows "snd (login_attempt t (BadLogin now k))"
    "gget (ftFailures (fst (login_attempt t (BadLogin now k)))) k = Some (e\<lparr>feCount := feCount e + 1\<rparr>)"
  using assms by (simp_all add: login_attempt_def Locked_def Fail_def Let_def)

lemma bad_locked:
  assumes "gget (ftFailures t) k = Some e" "now - feFirst e \<le> ftWindow t" "int (feCount e) \<ge> ftMaxFail t"
  shows "login_attempt t (BadLogin now k) = (t, False)"
  using assms by (simp add: login_attempt_def Locked_def)

definition guesses :: "string \<Rightarrow> login_event list \<Rightarrow> nat" where
  "guesses k evs = length (filter (\<lambda>ev. ev_key ev = k) evs)"

lemma guesses_simps [simp]:
  "guesses k [] = 0" "guesses k (ev # evs) = (if ev_key ev = k then 1 else 0) + guesses k evs"
  by (simp_all add: guesses_def)

definition guessing :: "string \<Rightarrow> time \<Rightarrow> login_event list \<Rightarrow> bool" where
  "guessing k fin evs \<longleftrightarrow> (\<forall>ev \<in> set evs. ev_key ev = k \<longrightarrow> ev = BadLogin (ev_time ev) k \<and> ev_time ev \<le> fin)"

lemma guessing_Cons:
  "guessing k fin (ev # evs) \<longleftrightarrow>
   (ev_key ev = k \<longrightarrow> ev = BadLogin (ev_time ev) k \<and> ev_time ev \<le> fin) \<and> guessing k fin evs"
  by (simp add: guessing_def)

lemma checked_counted:
  assumes "gget (ftFailures t) k = Some e" "fin - feFirst e \<le> ftWindow t" "guessing k fin evs"
  shows "int (checked k t evs) = min (int (guesses k evs)) (max 0 (ftMaxFail t - int (feCount e)))"
  using assms
proof (induction evs arbitrary: t e)
  case Nil
  then show ?case by simp
next
  case (Cons ev evs)
  note g = Cons.prems(3) [unfolded guessing_Cons]
  show ?case
  proof (cases "ev_key ev = k")
    case False
    have "int (checked k (fst (login_attempt t ev)) evs) =
        min (int (guesses k evs)) (max 0 (ftMaxFail (fst (login_attempt t ev)) - int (feCount e)))"
      using Cons.prems g login_attempt_other [OF False] by (intro Cons.IH) auto
    then show ?thesis using False by (simp add: checked_Cons)
  next
    case True
    then have ev: "ev = BadLogin (ev_time ev) k" and w: "ev_time ev - feFirst e \<le> ftWindow t"
      using g Cons.prems(2) by auto
    show ?thesis
    proof (cases "int (feCount e) < ftMaxFail t")
      case c: True
      let ?t = "fst (login_attempt t (BadLogin (ev_time ev) k))"
      have "int (checked k ?t evs) =
          min (int (guesses k evs)) (max 0 (ftMaxFail ?t - int (feCount (e\<lparr>feCount := feCount e + 1\<rparr>))))"
        using Cons.prems(2) g bad_counted [OF Cons.prems(1) w c] by (intro Cons.IH) auto
      moreover have "checked k t (ev # evs) = 1 + checked k ?t evs"
        using bad_counted(1) [OF Cons.prems(1) w c] by (subst ev) (simp add: checked_Cons)
      ultimately show ?thesis using c True by simp
    next
      case False
      then have "login_attempt t ev = (t, False)"
        by (subst ev) (rule bad_locked [OF Cons.prems(1) w], simp)
      then have "checked k t (ev # evs) = checked k t evs" by (simp add: checked_Cons)
      with Cons.IH [OF Cons.prems(1,2)] g False True show ?thesis by simp
    qed
  qed
qed

lemma checked_fresh:
  assumes "gget (ftFailures t) k = None" "0 < ftMaxFail t"
    and "guessing k fin evs" "\<forall>ev \<in> set evs. fin - ev_time ev \<le> ftWindow t"
  shows "int (checked k t evs) = min (int (guesses k evs)) (ftMaxFail t)"
  using assms
proof (induction evs arbitrary: t)
  case Nil
  then show ?case by simp
next
  case (Cons ev evs)
  note g = Cons.prems(3) [unfolded guessing_Cons]
  show ?case
  proof (cases "ev_key ev = k")
    case False
    have "int (checked k (fst (login_attempt t ev)) evs) =
        min (int (guesses k evs)) (ftMaxFail (fst (login_attempt t ev)))"
      using Cons.prems g login_attempt_other [OF False] by (intro Cons.IH) auto
    then show ?thesis using False by (simp add: checked_Cons)
  next
    case True
    then have ev: "ev = BadLogin (ev_time ev) k" using g by auto
    let ?t = "fst (login_attempt t (BadLogin (ev_time ev) k))"
    have "int (checked k ?t evs) = min (int (guesses k evs)) (max 0 (ftMaxFail ?t - int (feCount \<lparr>feCount = 1, feFirst = ev_time ev\<rparr>)))"
      using Cons.prems(4) g bad_fresh [OF Cons.prems(1)] by (intro checked_counted) auto
    moreover have "checked k t (ev # evs) = 1 + checked k ?t evs"
      using bad_fresh(1) [OF Cons.prems(1)] by (subst ev) (simp add: checked_Cons)
    ultimately show ?thesis using Cons.prems(2) True by simp
  qed
qed

section \<open>The shared limiter\<close>

text \<open>
  A fixed window in a Redis server. The server is a parameter with a state of its own: \<open>INCR\<close> answers the
  new count or an error, \<open>EXPIRE\<close> an error or none, \<open>PING\<close> likewise; \<open>rs_parse\<close> tells whether the URL
  parses, otherwise it is taken as an address. Expiry happens in the server between two calls.
\<close>

record 'r redis_server =
  rs_parse :: "string \<Rightarrow> string option"
  rs_ping :: "string \<Rightarrow> string option"
  rs_incr :: "'r \<Rightarrow> string \<Rightarrow> 'r \<times> (string + int)"
  rs_expire :: "'r \<Rightarrow> string \<Rightarrow> duration \<Rightarrow> 'r \<times> string option"

record redis_limiter =
  rlAddress :: string
  rlLimit :: int
  rlWindow :: duration
  rlPrefix :: string

definition NewRedisLimiter :: "'r redis_server \<Rightarrow> string \<Rightarrow> int \<Rightarrow> duration \<Rightarrow> redis_limiter result" where
  "NewRedisLimiter srv redisURL limit0 window0 =
     (let limit = (if limit0 \<le> 0 then 100 else limit0); window = (if window0 \<le> 0 then minutes 1 else window0);
          addr = (case rs_parse srv redisURL of Some a \<Rightarrow> a | None \<Rightarrow> redisURL)
      in case rs_ping srv addr of
           Some e \<Rightarrow> Inl (Errorf (''redis ping: '' @ e))
         | None \<Rightarrow> Inr \<lparr>rlAddress = addr, rlLimit = limit, rlWindow = window, rlPrefix = ''aihub:rl:''\<rparr>)"

text \<open>An error of the server lets the request pass; an error of the expiry is ignored.\<close>

definition Redis_Allow :: "'r redis_server \<Rightarrow> redis_limiter \<Rightarrow> string \<Rightarrow> 'r \<Rightarrow> 'r \<times> bool" where
  "Redis_Allow srv l k st =
     (let key = rlPrefix l @ k
      in case rs_incr srv st key of
           (st1, Inl e) \<Rightarrow> (st1, True)
         | (st1, Inr n) \<Rightarrow>
             ((if n = 1 then fst (rs_expire srv st1 key (rlWindow l)) else st1), n \<le> rlLimit l))"

definition ParseRedisLimit :: "string \<Rightarrow> string \<Rightarrow> int \<times> duration" where
  "ParseRedisLimit limitStr windowSecStr =
     (let pos = (\<lambda>v d. case atoi v of Some n \<Rightarrow> if n > 0 then n else d | None \<Rightarrow> d)
      in (pos limitStr 100, duration_secs (pos windowSecStr 60)))"

text \<open>The answers to the requests of one key.\<close>

fun redis_run :: "'r redis_server \<Rightarrow> redis_limiter \<Rightarrow> string \<Rightarrow> nat \<Rightarrow> 'r \<Rightarrow> 'r \<times> nat" where
  "redis_run srv l k 0 st = (st, 0)"
| "redis_run srv l k (Suc n) st =
     (case Redis_Allow srv l k st of (st1, ok) \<Rightarrow>
        (case redis_run srv l k n st1 of (st2, m) \<Rightarrow> (st2, if ok then Suc m else m)))"

text \<open>
  As long as the server counts a key up and does not drop it, the limiter lets at most the limit pass,
  whether a window was set or not: a key whose expiry could not be set stays refused for good.
\<close>

lemma redis_window_bound:
  assumes incr: "\<And>st. \<exists>st1. rs_incr srv st (rlPrefix l @ k) = (st1, Inr (cnt st + 1)) \<and> cnt st1 = cnt st + 1"
    and expire: "\<And>st. cnt (fst (rs_expire srv st (rlPrefix l @ k) (rlWindow l))) = cnt st"
    and "redis_run srv l k n st = (st', m)"
  shows "cnt st' = cnt st + int n \<and> int m = max 0 (min (int n) (rlLimit l - cnt st))"
  using assms(3)
proof (induction n arbitrary: st st' m)
  case 0
  then show ?case by simp
next
  case (Suc n)
  obtain st1 where i: "rs_incr srv st (rlPrefix l @ k) = (st1, Inr (cnt st + 1))" "cnt st1 = cnt st + 1"
    using incr by blast
  obtain st2 where a: "Redis_Allow srv l k st = (st2, cnt st + 1 \<le> rlLimit l)" "cnt st2 = cnt st + 1"
    using i expire [of st1] by (cases "cnt st + 1 = 1") (simp_all add: Redis_Allow_def)
  obtain st3 m' where r: "redis_run srv l k n st2 = (st3, m')" by fastforce
  from Suc.IH [OF r] Suc.prems a r show ?case by (auto split: if_splits)
qed

end
