(* ===== verification/Policy_Properties.thy ===== *)
theory Policy_Properties
  imports Policy_Engine Policy_Limits
begin

text \<open>Properties of the policy engine, the request limiter and the login lockout.\<close>

section \<open>A concrete policy\<close>

definition demo_rule :: rule where
  "demo_rule =
    \<lparr>ruID = ''block-ssh'', ruEffect = '' DENY'', ruPrincipals = [''agent''], ruActions = [],
     ruAgentIDs = [], ruDriveIDs = [], ruPathDenyPrefixes = [''.ssh''], ruPathAllowPrefixes = [],
     ruRequireScopes = [], ruReason = []\<rparr>"

definition demo_files :: files where
  "demo_files =
    \<lparr>fs_unmarshal = (\<lambda>_. Inr \<lparr>doVersion = 0, doMode = [], doRules = [demo_rule]\<rparr>),
     fs_read = (\<lambda>_. Inr ''x''), fs_stat = (\<lambda>_. Inr (1, 1))\<rparr>"

definition demo_request :: "string \<Rightarrow> policy_request" where
  "demo_request path =
    \<lparr>prAgentID = ''a1'', prAllowedDriveIDs = [], prReadPrefixes = [], prWritePrefixes = [],
     prScopes = [''drive.read''], prAction = ''path.read'', prDriveID = [], prPath = path\<rparr>"

section \<open>Decisions\<close>

text \<open>C31: A request is allowed exactly when no built-in check denies it and the policy document, the
  OPA module and the remote decision point each allow it: no stage can lift another's denial.\<close>

theorem request_allowed_iff:
  "dcAllow (snd (Evaluate fs now e req)) \<longleftrightarrow>
     builtin_deny req = None \<and> dcAllow (applyFileRules (egDoc (maybeReload fs now e)) req) \<and>
     opa_allows (egOPA e) req \<and> pdp_allows (egPDP e) req"
  by (rule Evaluate_allow)

text \<open>The first rule that matches the request and has an effect decides, in document order; with no
  such rule the request passes; and in observe mode whatever decides does not deny.\<close>

theorem first_rule_decides:
  "applyFileRules (Some d) req =
     (case find (deciding (doMode d = ''observe'') req) (doRules d) of
        None \<Rightarrow> allow_with ''ok''
      | Some r \<Rightarrow> the (rule_decision (doMode d = ''observe'') r req)) \<and>
   (doMode d \<noteq> ''observe'' \<or> dcAllow (applyFileRules (Some d) req))"
proof -
  define o' where "o' = (doMode d = ''observe'')"
  have e: "applyFileRules (Some d) req = apply_rules o' (doRules d) req"
    by (simp add: applyFileRules_def o'_def)
  have "\<not> o' \<or> dcAllow (apply_rules o' (doRules d) req)"
    using apply_rules_observe [of "doRules d" req] by (cases o') simp_all
  then show ?thesis
    unfolding e o'_def [symmetric] by (simp add: apply_rules_first)
qed

theorem first_rule_decides_witness:
  "ruleMatches (demo_rule\<lparr>ruEffect := ''deny''\<rparr>) (demo_request ''/w/.ssh/id'') \<and>
   dcAllow (applyFileRules (Some \<lparr>doVersion = 1, doMode = ''observe'', doRules = [demo_rule\<lparr>ruEffect := ''deny''\<rparr>]\<rparr>)
     (demo_request ''/w/.ssh/id''))"
proof -
  have m: "ruleMatches (demo_rule\<lparr>ruEffect := ''deny''\<rparr>) (demo_request ''/w/.ssh/id'')" by code_simp
  let ?d = "\<lparr>doVersion = 1, doMode = ''observe'', doRules = [demo_rule\<lparr>ruEffect := ''deny''\<rparr>]\<rparr>"
  have n: "doMode ?d = ''observe''" by simp
  show ?thesis
    using conjunct2 [OF first_rule_decides [of ?d "demo_request ''/w/.ssh/id''"]] n m by blast
qed

text \<open>The engine never evaluates an unvalidated document: loading and hot reloading, whatever the
  file holds and however reading it fails, leave a version 1 document in a known mode whose rules
  have an identifier and a known effect.\<close>

theorem engine_document_valid:
  assumes "engine_ok e"
  shows "engine_ok (fst (LoadFile fs now e path)) \<and> engine_ok (fst (Evaluate fs now e req))"
  using LoadFile_ok [OF assms] maybeReload_ok [OF assms] by simp

theorem engine_document_valid_witness:
  "engine_ok (fst (LoadFile demo_files 1 new_engine ''p.json'')) \<and>
   dcAllow (snd (Evaluate demo_files 2 (fst (LoadFile demo_files 1 new_engine ''p.json'')) (demo_request ''/w/a''))) \<and>
   \<not> dcAllow (snd (Evaluate demo_files 2 (fst (LoadFile demo_files 1 new_engine ''p.json''))
                     (demo_request ''/w/.ssh/id'')))"
proof -
  have a: "dcAllow (snd (Evaluate demo_files 2 (fst (LoadFile demo_files 1 new_engine ''p.json'')) (demo_request ''/w/a'')))"
    by code_simp
  have b: "\<not> dcAllow (snd (Evaluate demo_files 2 (fst (LoadFile demo_files 1 new_engine ''p.json''))
                     (demo_request ''/w/.ssh/id'')))"
    by code_simp
  from engine_document_valid [OF engine_ok_empty(2), of demo_files 1 "''p.json''"] a b show ?thesis by blast
qed

text \<open>A rule's denied name is caught at any depth: a path with a segment equal to a deny entry
  (trimmed of spaces and slashes) hits the rule.\<close>

theorem denied_segment_caught:
  assumes "pref \<in> set prefs" "trim_c (CHR ''/'') (trim_space pref) \<noteq> []"
    and "trim_c (CHR ''/'') (trim_space pref) \<in> set (split_c (CHR ''/'') path)" "CHR 0x5C \<notin> set path"
  shows "pathHitsAny path prefs"
  by (rule pathHitsAny_segment [OF assms(1) refl assms(2,3,4)])

theorem denied_segment_caught_witness: "pathHitsAny ''a/.env/b'' [''x'', '' .env/ '']"
proof (rule denied_segment_caught [of "'' .env/ ''"])
  show "'' .env/ '' \<in> set [''x'', '' .env/ '']" by simp
  show "trim_c (CHR ''/'') (trim_space '' .env/ '') \<noteq> []" by code_simp
  show "trim_c (CHR ''/'') (trim_space '' .env/ '') \<in> set (split_c (CHR ''/'') ''a/.env/b'')" by code_simp
  show "CHR 0x5C \<notin> set ''a/.env/b''" by code_simp
qed

section \<open>Limits\<close>

text \<open>Over any stretch of calls, a key of a new limiter gets at most the burst (at least one) plus
  the rate times the elapsed time, whatever other keys do.\<close>

theorem limiter_bounds_key:
  assumes "sorted (start # map fst es)" "\<forall>e \<in> set es. fst e \<le> fin" "start \<le> fin"
  shows "of_nat (snd (serve (NewLimiter rate burst) es key)) \<le>
     max 1 (liBurst (NewLimiter rate burst)) + seconds_of (fin - start) * liRate (NewLimiter rate burst)"
  using serve_bound_new [OF _ NewLimiter_pos(1,2) assms, where k = key] NewLimiter_pos(3) by simp

theorem limiter_bounds_key_witness:
  "snd (serve (NewLimiter 1 2) [(0, ''a''), (0, ''a''), (0, ''b''), (0, ''a''), (second, ''a'')] ''a'') = 3 \<and>
   of_nat (snd (serve (NewLimiter 1 2) [(0, ''a''), (0, ''a''), (0, ''b''), (0, ''a''), (second, ''a'')] ''a''))
     \<le> (3 :: rat)"
proof -
  let ?es = "[(0, ''a''), (0, ''a''), (0, ''b''), (0, ''a''), (second, ''a'')]"
  have n: "snd (serve (NewLimiter 1 2) ?es ''a'') = 3"
    by (simp add: NewLimiter_def Allow_def seconds_of_def)
  have s: "sorted (0 # map fst ?es)" "\<forall>e \<in> set ?es. fst e \<le> second" "0 \<le> second" by simp_all
  have "max 1 (liBurst (NewLimiter 1 2)) + seconds_of (second - 0) * liRate (NewLimiter 1 2) = 3"
    by (simp add: NewLimiter_def seconds_of_def)
  with limiter_bounds_key [OF s, of 1 2 "''a''"] n show ?thesis by simp
qed

text \<open>C32: Guessing a password is cut off: of the wrong passwords tried for one lockout key within one
  window, with any other logins in between, exactly the first maxFail are checked.\<close>

theorem guesses_cut_off:
  assumes "guessing key fin evs"
    and "\<forall>ev \<in> set evs. fin - ev_time ev \<le> ftWindow (NewFailureTracker maxFail window)"
  shows "int (checked key (NewFailureTracker maxFail window) evs) =
     min (int (guesses key evs)) (ftMaxFail (NewFailureTracker maxFail window))"
  using assms by (intro checked_fresh [of _ key fin]) (auto simp: NewFailureTracker_def)

theorem guesses_cut_off_witness:
  "checked ''ann'' (NewFailureTracker 2 0) [BadLogin 1 ''ann'', GoodLogin 2 ''bob'', BadLogin 3 ''ann'', BadLogin 4 ''ann''] = 2"
proof -
  let ?evs = "[BadLogin 1 ''ann'', GoodLogin 2 ''bob'', BadLogin 3 ''ann'', BadLogin 4 ''ann'']"
  have a: "guessing ''ann'' 4 ?evs" by (simp add: guessing_def)
  have b: "\<forall>ev \<in> set ?evs. 4 - ev_time ev \<le> ftWindow (NewFailureTracker 2 0)"
    by (simp add: NewFailureTracker_def)
  show ?thesis using guesses_cut_off [OF a b] by (simp add: NewFailureTracker_def)
qed

end
