(* ===== verification/Agent_Service.thy ===== *)
theory Agent_Service
  imports Auth_Machine Policy_Engine Store_Resources
begin

text \<open>
  Agent principals (\<open>internal/agent/service.go\<close>): creation and update with validation against the
  store, the access check through the policy engine, and the rule that tightening an agent's rights
  bumps its token version. The public view of an agent (\<open>Record\<close>) has the fields of the stored row,
  so results are rows.
\<close>

record agent_input =
  aiName :: string
  aiDescription :: string
  aiDefaultScopes :: "string list"
  aiAllowedDriveIDs :: "string list"
  aiReadPrefixes :: "string list"
  aiWritePrefixes :: "string list"

record agent_update =
  auName :: "string option"
  auDescription :: "string option"
  auStatus :: "string option"
  auDefaultScopes :: "string list option"
  auAllowedDriveIDs :: "string list option"
  auReadPrefixes :: "string list option"
  auWritePrefixes :: "string list option"
  auSetDrives :: bool

definition normalizeIDs :: "string list \<Rightarrow> string list" where
  "normalizeIDs ids = normalize_loop [] ids"

fun normalize_prefix_loop :: "string list \<Rightarrow> string list \<Rightarrow> string list" where
  "normalize_prefix_loop seen [] = []"
| "normalize_prefix_loop seen (p0 # ps) =
     (let p = trim_c (CHR ''/'') (trim_space p0)
      in if p = [] \<or> p \<in> set seen then normalize_prefix_loop seen ps
         else p # normalize_prefix_loop (p # seen) ps)"

definition normalizePrefixes :: "string list \<Rightarrow> string list" where
  "normalizePrefixes ps = normalize_prefix_loop [] ps"

definition validateDrives :: "memory \<Rightarrow> string \<Rightarrow> string list \<Rightarrow> unit result" where
  "validateDrives m owner ids =
     (case find (\<lambda>i. isl (GetDrive m owner i)) ids of
        Some i \<Rightarrow> Inl (Errorf (''drive '' @ i @ '' not found or not owned''))
      | None \<Rightarrow> Inr ())"

definition known_scopes :: "string list \<Rightarrow> string list result" where
  "known_scopes scopes =
     (case find (\<lambda>sc. \<not> IsKnownScope sc) scopes of
        Some sc \<Rightarrow> Inl (Errorf (''unknown scope '' @ quoted sc))
      | None \<Rightarrow> Inr scopes)"

definition Agent_Create :: "draw \<Rightarrow> memory \<Rightarrow> string \<Rightarrow> agent_input \<Rightarrow> memory \<times> agent result" where
  "Agent_Create dr m owner inp =
     (let name = trim_space (aiName inp)
      in if name = [] then (m, Inl (Errorf ''name required''))
         else if length name > 64 then (m, Inl (Errorf ''name too long''))
         else (let scopes0 = NormalizeScopes (aiDefaultScopes inp);
                   scopes = (if scopes0 = [] then [''drive.read'', ''drive.write''] else scopes0)
               in (case known_scopes scopes of
                     Inl e \<Rightarrow> (m, Inl e)
                   | Inr _ \<Rightarrow>
                       (let drives = normalizeIDs (aiAllowedDriveIDs inp)
                        in (case validateDrives m owner drives of
                              Inl e \<Rightarrow> (m, Inl e)
                            | Inr _ \<Rightarrow>
                                (let a = \<lparr>agID = dr_id dr, agOwnerUserID = owner, agName = name,
                                          agDescription = trim_space (aiDescription inp),
                                          agStatus = ''active'', agDefaultScopes = scopes,
                                          agAllowedDriveIDs = drives,
                                          agReadPrefixes = normalizePrefixes (aiReadPrefixes inp),
                                          agWritePrefixes = normalizePrefixes (aiWritePrefixes inp),
                                          agTokenVersion = 0, agCreatedAt = dr_now dr\<rparr>
                                 in (case CreateAgent m a of
                                       Inl e \<Rightarrow> (m, Inl e)
                                     | Inr m1 \<Rightarrow> (m1, Inr a))))))))"

definition Agent_Get :: "memory \<Rightarrow> string \<Rightarrow> string \<Rightarrow> agent result" where
  "Agent_Get m owner i =
     (case GetAgent m owner i of Inl _ \<Rightarrow> Inl (Errorf ''agent not found'') | Inr a \<Rightarrow> Inr a)"

definition Agent_Delete :: "memory \<Rightarrow> string \<Rightarrow> string \<Rightarrow> memory \<times> unit result" where
  "Agent_Delete m owner i =
     (case DeleteAgent m owner i of
        Inl _ \<Rightarrow> (m, Inl (Errorf ''agent not found''))
      | Inr m1 \<Rightarrow> (m1, Inr ()))"

section \<open>Updates\<close>

definition scopesTightened :: "string list \<Rightarrow> string list \<Rightarrow> bool" where
  "scopesTightened old new \<longleftrightarrow> old \<noteq> new \<and> list_ex (\<lambda>s. s \<notin> set new) old"

definition drivesTightened :: "string list \<Rightarrow> string list \<Rightarrow> bool" where
  "drivesTightened old new \<longleftrightarrow>
     (if old = new then False
      else if old = [] \<and> new \<noteq> [] then True
      else if old \<noteq> [] \<and> new = [] then False
      else list_ex (\<lambda>i. i \<notin> set new) old)"

definition prefixesTightened :: "string list \<Rightarrow> string list \<Rightarrow> bool" where
  "prefixesTightened old new \<longleftrightarrow>
     (if old = new then False
      else if old = [] \<and> new \<noteq> [] then True
      else if old \<noteq> [] \<and> new = [] then False
      else list_ex (\<lambda>p. p \<notin> set new) old)"

definition set_name :: "string option \<Rightarrow> agent \<Rightarrow> agent result" where
  "set_name n a =
     (case n of
        None \<Rightarrow> Inr a
      | Some s \<Rightarrow> if trim_space s = [] then Inl (Errorf ''name required'')
                  else Inr (a\<lparr>agName := trim_space s\<rparr>))"

definition set_description :: "string option \<Rightarrow> agent \<Rightarrow> agent" where
  "set_description d a = (case d of None \<Rightarrow> a | Some s \<Rightarrow> a\<lparr>agDescription := trim_space s\<rparr>)"

definition set_status :: "string option \<Rightarrow> agent \<Rightarrow> agent result" where
  "set_status st a =
     (case st of
        None \<Rightarrow> Inr a
      | Some s \<Rightarrow> if trim_space s \<noteq> ''active'' \<and> trim_space s \<noteq> ''disabled''
                  then Inl (Errorf ''status must be active|disabled'')
                  else Inr (a\<lparr>agStatus := trim_space s\<rparr>))"

definition set_scopes :: "string list option \<Rightarrow> agent \<Rightarrow> agent result" where
  "set_scopes sc a =
     (case sc of
        None \<Rightarrow> Inr a
      | Some ss \<Rightarrow> and_then (known_scopes (NormalizeScopes ss)) (\<lambda>scopes. Inr (a\<lparr>agDefaultScopes := scopes\<rparr>)))"

definition set_drives :: "memory \<Rightarrow> string \<Rightarrow> bool \<Rightarrow> string list option \<Rightarrow> agent \<Rightarrow> agent result" where
  "set_drives m owner force ds a =
     (if force \<or> ds \<noteq> None
      then (let drives = normalizeIDs (case ds of None \<Rightarrow> [] | Some xs \<Rightarrow> xs)
            in and_then (validateDrives m owner drives) (\<lambda>_. Inr (a\<lparr>agAllowedDriveIDs := drives\<rparr>)))
      else Inr a)"

definition set_prefixes :: "string list option \<Rightarrow> string list option \<Rightarrow> agent \<Rightarrow> agent" where
  "set_prefixes rd wr a =
     (let a1 = (case rd of None \<Rightarrow> a | Some ps \<Rightarrow> a\<lparr>agReadPrefixes := normalizePrefixes ps\<rparr>)
      in (case wr of None \<Rightarrow> a1 | Some ps \<Rightarrow> a1\<lparr>agWritePrefixes := normalizePrefixes ps\<rparr>))"

definition patched :: "memory \<Rightarrow> string \<Rightarrow> agent_update \<Rightarrow> agent \<Rightarrow> agent result" where
  "patched m owner inp a =
     and_then (set_name (auName inp) a)
       (\<lambda>a1. and_then (set_status (auStatus inp) (set_description (auDescription inp) a1))
         (\<lambda>a2. and_then (set_scopes (auDefaultScopes inp) a2)
           (\<lambda>a3. and_then (set_drives m owner (auSetDrives inp) (auAllowedDriveIDs inp) a3)
             (\<lambda>a4. Inr (set_prefixes (auReadPrefixes inp) (auWritePrefixes inp) a4)))))"

definition must_revoke :: "agent \<Rightarrow> agent \<Rightarrow> bool" where
  "must_revoke old a \<longleftrightarrow>
     (agStatus a = ''disabled'' \<and> agStatus old \<noteq> ''disabled'') \<or>
     scopesTightened (agDefaultScopes old) (agDefaultScopes a) \<or>
     drivesTightened (agAllowedDriveIDs old) (agAllowedDriveIDs a) \<or>
     prefixesTightened (agReadPrefixes old) (agReadPrefixes a) \<or>
     prefixesTightened (agWritePrefixes old) (agWritePrefixes a)"

definition Agent_Update :: "memory \<Rightarrow> string \<Rightarrow> string \<Rightarrow> agent_update \<Rightarrow> memory \<times> agent result" where
  "Agent_Update m owner i inp =
     (case GetAgent m owner i of
        Inl _ \<Rightarrow> (m, Inl (Errorf ''agent not found''))
      | Inr old \<Rightarrow>
          (case patched m owner inp old of
             Inl e \<Rightarrow> (m, Inl e)
           | Inr a0 \<Rightarrow>
               (let a = (if must_revoke old a0 then a0\<lparr>agTokenVersion := agTokenVersion a0 + 1\<rparr> else a0)
                in (case UpdateAgent m a of
                      Inl e \<Rightarrow> (m, Inl e)
                    | Inr m1 \<Rightarrow> (m1, Inr a)))))"

section \<open>Access checks\<close>

definition fill_from_agent :: "agent \<Rightarrow> policy_request \<Rightarrow> policy_request" where
  "fill_from_agent a req =
     req\<lparr>prAllowedDriveIDs := (if prAllowedDriveIDs req = [] then agAllowedDriveIDs a else prAllowedDriveIDs req),
         prReadPrefixes := (if prReadPrefixes req = [] then agReadPrefixes a else prReadPrefixes req),
         prWritePrefixes := (if prWritePrefixes req = [] then agWritePrefixes a else prWritePrefixes req)\<rparr>"

definition CheckAccess ::
  "files \<Rightarrow> time \<Rightarrow> memory \<Rightarrow> engine option \<Rightarrow> policy_request \<Rightarrow> engine option \<times> unit result" where
  "CheckAccess fs now m eng req =
     (case eng of
        None \<Rightarrow> (None, Inr ())
      | Some e \<Rightarrow>
          (case (if prAgentID req = [] then Inr req
                 else (case GetAgentByID m (prAgentID req) of
                         Inl _ \<Rightarrow> Inl (Errorf ''agent not found'')
                       | Inr a \<Rightarrow> if agStatus a = ''disabled'' then Inl (Errorf ''agent disabled'')
                                  else Inr (fill_from_agent a req))) of
             Inl err \<Rightarrow> (Some e, Inl err)
           | Inr rq \<Rightarrow>
               (let (e1, d) = Evaluate fs now e rq
                in (Some e1, if dcAllow d then Inr () else Inl (Errorf (dcReason d))))))"

definition CheckDriveAccess :: "memory \<Rightarrow> string \<Rightarrow> string \<Rightarrow> unit result" where
  "CheckDriveAccess m agentID driveID =
     (if agentID = [] \<or> driveID = [] then Inr ()
      else (case GetAgentByID m agentID of
              Inl _ \<Rightarrow> Inl (Errorf ''agent not found'')
            | Inr a \<Rightarrow> if agStatus a = ''disabled'' then Inl (Errorf ''agent disabled'')
                       else CanAccessDrive agentID (agAllowedDriveIDs a) driveID))"

section \<open>Widening\<close>

lemma patched_keeps:
  assumes "patched m owner inp a = Inr a'"
  shows "agID a' = agID a \<and> agOwnerUserID a' = agOwnerUserID a \<and> agTokenVersion a' = agTokenVersion a"
proof -
  obtain a1 a2 a3 a4 where s: "set_name (auName inp) a = Inr a1"
    "set_status (auStatus inp) (set_description (auDescription inp) a1) = Inr a2"
    "set_scopes (auDefaultScopes inp) a2 = Inr a3"
    "set_drives m owner (auSetDrives inp) (auAllowedDriveIDs inp) a3 = Inr a4"
    "a' = set_prefixes (auReadPrefixes inp) (auWritePrefixes inp) a4"
    using assms by (auto simp: patched_def and_then_Inr)
  define k where "k b \<longleftrightarrow> agID b = agID a \<and> agOwnerUserID b = agOwnerUserID a \<and> agTokenVersion b = agTokenVersion a"
    for b :: agent
  have "k a1" using s(1) by (auto simp: set_name_def k_def split: option.splits if_splits)
  then have "k a2" using s(2)
    by (auto simp: set_status_def set_description_def k_def split: option.splits if_splits)
  then have "k a3" using s(3) by (auto simp: set_scopes_def and_then_Inr k_def split: option.splits)
  then have "k a4" using s(4) by (auto simp: set_drives_def and_then_Inr k_def Let_def split: if_splits)
  then have "k a'" using s(5) by (simp add: set_prefixes_def k_def Let_def split: option.splits)
  then show ?thesis by (simp add: k_def)
qed

lemma prefixOK_mono: "set ps \<subseteq> set qs \<Longrightarrow> prefixOK path ps \<Longrightarrow> prefixOK path qs"
  unfolding prefixOK_def Let_def list_ex_iff by blast

lemma not_drivesTightened: "\<not> drivesTightened old new \<Longrightarrow> new = [] \<or> (old \<noteq> [] \<and> set old \<subseteq> set new)"
  by (auto simp: drivesTightened_def list_ex_iff split: if_splits)

lemma not_prefixesTightened: "\<not> prefixesTightened old new \<Longrightarrow> new = [] \<or> (old \<noteq> [] \<and> set old \<subseteq> set new)"
  by (auto simp: prefixesTightened_def list_ex_iff split: if_splits)

lemma not_scopesTightened: "\<not> scopesTightened old new \<Longrightarrow> set old \<subseteq> set new"
  by (auto simp: scopesTightened_def list_ex_iff)

text \<open>When a request passes the built-in checks.\<close>

definition list_permits :: "(string list \<Rightarrow> bool) \<Rightarrow> string list \<Rightarrow> bool" where
  "list_permits P ps \<longleftrightarrow> ps = [] \<or> P ps"

definition path_check :: "policy_request \<Rightarrow> string list \<Rightarrow> string list \<Rightarrow> bool" where
  "path_check req rd wr \<longleftrightarrow>
     prPath req = [] \<or>
     (if prAction req = ''path.write'' \<or> prAction req = ''drive.write''
      then list_permits (prefixOK (prPath req)) wr
      else if prAction req = ''path.read'' \<or> prAction req = ''drive.read'' \<or> prAction req = ''drive.session''
      then list_permits (prefixOK (prPath req)) rd
      else True)"

lemma builtin_passes:
  "builtin_deny req = None \<longleftrightarrow>
     prAgentID req = [] \<or>
     ((scopeForAction (prAction req) = [] \<or> hasScope (prScopes req) (scopeForAction (prAction req))) \<and>
      (prDriveID req = [] \<or> list_permits (\<lambda>ds. prDriveID req \<in> set ds) (prAllowedDriveIDs req)) \<and>
      path_check req (prReadPrefixes req) (prWritePrefixes req))"
  unfolding builtin_deny_def path_check_def list_permits_def by auto

lemma list_permits_mono:
  assumes "new = [] \<or> (old \<noteq> [] \<and> set old \<subseteq> set new)" "list_permits P (if xs = [] then old else xs)"
    and "\<And>ps qs. set ps \<subseteq> set qs \<Longrightarrow> P ps \<Longrightarrow> P qs"
  shows "list_permits P (if xs = [] then new else xs)"
  using assms by (cases "xs = []") (auto simp: list_permits_def)

lemma path_check_mono:
  assumes "path_check req rd wr" "list_permits (prefixOK (prPath req)) rd \<Longrightarrow> list_permits (prefixOK (prPath req)) rd'"
    and "list_permits (prefixOK (prPath req)) wr \<Longrightarrow> list_permits (prefixOK (prPath req)) wr'"
  shows "path_check req rd' wr'"
  using assms unfolding path_check_def by (auto split: if_splits)

lemma path_check_fill: "path_check (fill_from_agent a req) rd wr = path_check req rd wr"
  by (simp add: path_check_def fill_from_agent_def)

lemma not_revoked_widens:
  assumes "\<not> must_revoke old a" "builtin_deny (fill_from_agent old req) = None"
  shows "builtin_deny (fill_from_agent a req) = None"
proof -
  have d: "agAllowedDriveIDs a = [] \<or> (agAllowedDriveIDs old \<noteq> [] \<and> set (agAllowedDriveIDs old) \<subseteq> set (agAllowedDriveIDs a))"
    and r: "agReadPrefixes a = [] \<or> (agReadPrefixes old \<noteq> [] \<and> set (agReadPrefixes old) \<subseteq> set (agReadPrefixes a))"
    and w: "agWritePrefixes a = [] \<or> (agWritePrefixes old \<noteq> [] \<and> set (agWritePrefixes old) \<subseteq> set (agWritePrefixes a))"
    using assms(1) not_drivesTightened not_prefixesTightened unfolding must_revoke_def by blast+
  note f = fill_from_agent_def
  show ?thesis
  proof (cases "prAgentID req = []")
    case True
    then show ?thesis by (simp add: builtin_passes f)
  next
    case False
    have b: "scopeForAction (prAction req) = [] \<or> hasScope (prScopes req) (scopeForAction (prAction req))"
      "prDriveID req = [] \<or> list_permits (\<lambda>ds. prDriveID req \<in> set ds)
         (if prAllowedDriveIDs req = [] then agAllowedDriveIDs old else prAllowedDriveIDs req)"
      "path_check req (if prReadPrefixes req = [] then agReadPrefixes old else prReadPrefixes req)
         (if prWritePrefixes req = [] then agWritePrefixes old else prWritePrefixes req)"
      using assms(2) False unfolding builtin_passes path_check_fill by (simp_all add: f)
    have "prDriveID req = [] \<or> list_permits (\<lambda>ds. prDriveID req \<in> set ds)
         (if prAllowedDriveIDs req = [] then agAllowedDriveIDs a else prAllowedDriveIDs req)"
      using b(2) list_permits_mono [OF d, of "\<lambda>ds. prDriveID req \<in> set ds"] by blast
    moreover have "path_check req (if prReadPrefixes req = [] then agReadPrefixes a else prReadPrefixes req)
         (if prWritePrefixes req = [] then agWritePrefixes a else prWritePrefixes req)"
      by (rule path_check_mono [OF b(3)])
        (erule list_permits_mono [OF r] list_permits_mono [OF w], erule (1) prefixOK_mono)+
    ultimately show ?thesis unfolding builtin_passes path_check_fill using b(1) by (simp add: f)
  qed
qed

end
