(* ===== verification/Agent_Properties.thy ===== *)
theory Agent_Properties
  imports Agent_Service Auth_Properties
begin

text \<open>Properties of agent principals: what an update may silently widen and what it must revoke.\<close>

section \<open>A concrete agent\<close>

definition demo_agent_input :: agent_input where
  "demo_agent_input =
    \<lparr>aiName = '' bot '', aiDescription = [], aiDefaultScopes = [], aiAllowedDriveIDs = [],
     aiReadPrefixes = [''/docs/''], aiWritePrefixes = []\<rparr>"

definition no_update :: agent_update where
  "no_update =
    \<lparr>auName = None, auDescription = None, auStatus = None, auDefaultScopes = None,
     auAllowedDriveIDs = None, auReadPrefixes = None, auWritePrefixes = None, auSetDrives = False\<rparr>"

definition agents1 :: memory where
  "agents1 = fst (Agent_Create (demo_draw 0 ''7'') auth1 ''u1'' demo_agent_input)"

definition demo_agent :: agent where
  "demo_agent =
    \<lparr>agID = ''u7'', agOwnerUserID = ''u1'', agName = ''bot'', agDescription = [], agStatus = ''active'',
     agDefaultScopes = [''drive.read'', ''drive.write''], agAllowedDriveIDs = [],
     agReadPrefixes = [''docs''], agWritePrefixes = [], agTokenVersion = 0, agCreatedAt = 0\<rparr>"

definition agent_payload :: payload where
  "agent_payload = demo_payload\<lparr>tpAgentID := ''u7'', tpScopes := [''drive.read'']\<rparr>"

definition agent_auth :: auth_service where
  "agent_auth = demo_auth\<lparr>as_unmarshal := (\<lambda>raw. if raw = ''u1j1'' then Inr agent_payload else Inl ''bad'')\<rparr>"

section \<open>Updates and tokens\<close>

lemma Agent_Update_parts:
  assumes "Agent_Update m u i inp = (m', Inr a')"
  obtains a a0 where "GetAgent m u i = Inr a" "patched m u inp a = Inr a0"
    "a' = (if must_revoke a a0 then a0\<lparr>agTokenVersion := agTokenVersion a0 + 1\<rparr> else a0)"
    "UpdateAgent m a' = Inr m'"
proof (cases "GetAgent m u i")
  case (Inl e)
  then show ?thesis using assms by (simp add: Agent_Update_def)
next
  case a: (Inr a)
  show ?thesis
  proof (cases "patched m u inp a")
    case (Inl e)
    then show ?thesis using assms a by (simp add: Agent_Update_def)
  next
    case p: (Inr a0)
    let ?a = "if must_revoke a a0 then a0\<lparr>agTokenVersion := agTokenVersion a0 + 1\<rparr> else a0"
    have "(case UpdateAgent m ?a of Inl e \<Rightarrow> (m, Inl e) | Inr m1 \<Rightarrow> (m1, Inr ?a)) = (m', Inr a')"
      using assms a p unfolding Agent_Update_def Let_def by simp
    then show ?thesis using that [OF a p] by (cases "UpdateAgent m ?a") auto
  qed
qed

lemma Agent_Update_row:
  assumes "store_wf m" "Agent_Update m u i inp = (m', Inr a')"
  shows "gget (m_agents m') i = Some a' \<and> m_users m' = m_users m"
proof -
  obtain a a0 where p: "GetAgent m u i = Inr a" "patched m u inp a = Inr a0"
    "a' = (if must_revoke a a0 then a0\<lparr>agTokenVersion := agTokenVersion a0 + 1\<rparr> else a0)"
    "UpdateAgent m a' = Inr m'"
    by (rule Agent_Update_parts [OF assms(2)])
  have "gget (m_agents m) i = Some a" using p(1) by (simp add: agents.get_iff)
  then have "agID a = i" by (rule keyed_gget [OF store_wfD(8) [OF assms(1)]])
  then have "agID a' = i" using patched_keeps [OF p(2)] p(3) by simp
  then show ?thesis using p(4) by (auto simp: UpdateAgent_def split: option.splits if_splits)
qed

text \<open>Removing a scope, narrowing the drives or the paths, or disabling the agent.\<close>

lemma stale_agent_version:
  assumes "gget (m_agents m') i = Some a'" "tpAgentID p = i" "i \<noteq> []"
    and "agTokenVersion a' \<noteq> tpAgentTokenVersion p" "carries s token p"
  shows "\<exists>e. snd (parsePayload s t m' token) = Inl e"
proof (cases "snd (parsePayload s t m' token)")
  case (Inr q)
  then have "carries s token q" "versions_ok m' q" by (auto simp: parsePayload_accepts)
  then have "versions_ok m' p" using carries_unique [OF assms(5)] by simp
  with assms show ?thesis by (simp add: versions_ok_def)
qed simp

text \<open>C30: Updating an agent either revokes its tokens or only widens it: if an outstanding token of the
  agent is still accepted at some instant, then no default scope was lost and every request that
  passed the built-in checks with the agent's old restrictions passes them with the new ones.\<close>

theorem update_revokes_or_widens:
  assumes "store_wf m" "GetAgent m u i = Inr a" "Agent_Update m u i inp = (m', Inr a')" "i \<noteq> []"
    and "snd (parsePayload s now m token) = Inr p" "tpAgentID p = i"
    and "snd (parsePayload s t m' token) = Inr p'"
  shows "set (agDefaultScopes a) \<subseteq> set (agDefaultScopes a') \<and>
     {req. builtin_deny (fill_from_agent a req) = None} \<subseteq> {req. builtin_deny (fill_from_agent a' req) = None}"
proof -
  obtain b a0 where p: "GetAgent m u i = Inr b" "patched m u inp b = Inr a0"
    "a' = (if must_revoke b a0 then a0\<lparr>agTokenVersion := agTokenVersion a0 + 1\<rparr> else a0)"
    by (rule Agent_Update_parts [OF assms(3)])
  have b: "b = a" using p(1) assms(2) by simp
  have row: "gget (m_agents m') i = Some a'" using Agent_Update_row [OF assms(1,3)] by simp
  have old: "carries s token p" "tpAgentTokenVersion p = agTokenVersion a"
    using assms(2,4,5,6) by (auto simp: parsePayload_accepts versions_ok_def agents.get_iff)
  have "agTokenVersion a' = agTokenVersion a"
    using stale_agent_version [OF row assms(6,4) _ old(1), of t] old(2) assms(7) by force
  then have nr: "\<not> must_revoke a a0" "a' = a0"
    using p(3) patched_keeps [OF p(2)] b by (auto split: if_splits)
  have "\<not> scopesTightened (agDefaultScopes a) (agDefaultScopes a0)" using nr(1) by (simp add: must_revoke_def)
  then show ?thesis using not_scopesTightened not_revoked_widens [OF nr(1)] nr(2) by auto
qed

theorem update_revokes_or_widens_witness:
  "set [''drive.read'', ''drive.write''] \<subseteq>
     set (agDefaultScopes (demo_agent\<lparr>agDefaultScopes := [''drive.read'', ''drive.write'', ''job.run'']\<rparr>)) \<and>
   {req. builtin_deny (fill_from_agent demo_agent req) = None} \<subseteq>
   {req. builtin_deny (fill_from_agent (demo_agent\<lparr>agDefaultScopes := [''drive.read'', ''drive.write'', ''job.run'']\<rparr>) req) = None}"
proof -
  let ?inp = "no_update\<lparr>auDefaultScopes := Some [''drive.read'', ''drive.write'', ''job.run'']\<rparr>"
  let ?a' = "demo_agent\<lparr>agDefaultScopes := [''drive.read'', ''drive.write'', ''job.run'']\<rparr>"
  let ?tok = "sign_payload agent_auth ''u1j1''"
  let ?m' = "fst (Agent_Update agents1 ''u1'' ''u7'' ?inp)"
  have wf: "store_wf agents1" by code_simp
  have g: "GetAgent agents1 ''u1'' ''u7'' = Inr demo_agent" by code_simp
  have up: "Agent_Update agents1 ''u1'' ''u7'' ?inp = (?m', Inr ?a')" by code_simp
  have t1: "snd (parsePayload agent_auth 5 agents1 ?tok) = Inr agent_payload" by code_simp
  have t2: "snd (parsePayload agent_auth 6 ?m' ?tok) = Inr agent_payload" by code_simp
  have i: "tpAgentID agent_payload = ''u7''" by (simp add: agent_payload_def)
  have s: "agDefaultScopes demo_agent = [''drive.read'', ''drive.write'']" by (simp add: demo_agent_def)
  show ?thesis using update_revokes_or_widens [OF wf g up _ t1 i t2] s by simp
qed

section \<open>Well-formed agents\<close>

definition agent_ok :: "agent \<Rightarrow> bool" where
  "agent_ok a \<longleftrightarrow>
     trim_space (agName a) = agName a \<and> agName a \<noteq> [] \<and>
     (agStatus a = ''active'' \<or> agStatus a = ''disabled'') \<and>
     distinct (agDefaultScopes a) \<and> set (agDefaultScopes a) \<subseteq> set KnownScopes \<and>
     distinct (agAllowedDriveIDs a) \<and> [] \<notin> set (agAllowedDriveIDs a)"

lemma known_scopes_ok:
  assumes "known_scopes (NormalizeScopes ss) = Inr sc"
  shows "distinct sc \<and> set sc \<subseteq> set KnownScopes"
proof -
  have n: "find (\<lambda>x. \<not> IsKnownScope x) (NormalizeScopes ss) = None" "sc = NormalizeScopes ss"
    using assms by (auto simp: known_scopes_def split: option.splits)
  have "set sc = trim_space ` set ss - {[]}" "distinct sc"
    using normalize_loop_spec [of "[]" ss] n(2) by (simp_all add: NormalizeScopes_def)
  moreover have "\<forall>x \<in> set sc. IsKnownScope x" using n by (simp add: find_None_iff)
  moreover have "trim_space x = x" if "x \<in> set sc" for x
    using that calculation(1) by auto
  ultimately show ?thesis unfolding IsKnownScope_def by (metis subsetI)
qed

lemma normalizeIDs_ok: "distinct (normalizeIDs ids) \<and> [] \<notin> set (normalizeIDs ids)"
  using normalize_loop_spec [of "[]" ids] by (simp add: normalizeIDs_def)

lemma patched_ok:
  assumes "patched m u inp a = Inr a'" "agent_ok a"
  shows "agent_ok a'"
proof -
  obtain a1 a2 a3 a4 where s: "set_name (auName inp) a = Inr a1"
    "set_status (auStatus inp) (set_description (auDescription inp) a1) = Inr a2"
    "set_scopes (auDefaultScopes inp) a2 = Inr a3"
    "set_drives m u (auSetDrives inp) (auAllowedDriveIDs inp) a3 = Inr a4"
    "a' = set_prefixes (auReadPrefixes inp) (auWritePrefixes inp) a4"
    using assms(1) by (auto simp: patched_def and_then_Inr)
  have "agent_ok a1" using s(1) assms(2) by (auto simp: set_name_def agent_ok_def split: option.splits if_splits)
  then have "agent_ok (set_description (auDescription inp) a1)"
    by (simp add: set_description_def agent_ok_def split: option.splits)
  then have "agent_ok a2" using s(2)
    by (auto simp: set_status_def agent_ok_def split: option.splits if_splits)
  then have "agent_ok a3"
  proof (cases "auDefaultScopes inp")
    case (Some ss)
    then obtain sc where "known_scopes (NormalizeScopes ss) = Inr sc" "a3 = a2\<lparr>agDefaultScopes := sc\<rparr>"
      using s(3) by (auto simp: set_scopes_def and_then_Inr)
    with known_scopes_ok [of ss sc] \<open>agent_ok a2\<close> show ?thesis by (simp add: agent_ok_def)
  qed (use s(3) in \<open>simp add: set_scopes_def\<close>)
  then have "agent_ok a4" using s(4) normalizeIDs_ok
    by (auto simp: set_drives_def and_then_Inr agent_ok_def Let_def split: if_splits)
  then show ?thesis using s(5) by (simp add: set_prefixes_def agent_ok_def Let_def split: option.splits)
qed

lemma agent_ok_version: "agent_ok (a\<lparr>agTokenVersion := v\<rparr>) = agent_ok a"
  by (simp add: agent_ok_def)

definition agents_ok :: "memory \<Rightarrow> bool" where
  "agents_ok m \<longleftrightarrow> (\<forall>i a. gget (m_agents m) i = Some a \<longrightarrow> agent_ok a)"

lemma Agent_Create_new:
  assumes "snd (Agent_Create dr m u inp) = Inr a"
  shows "agent_ok a \<and> fst (Agent_Create dr m u inp) = m\<lparr>m_agents := gset (agID a) a (m_agents m)\<rparr> \<and>
    agID a = dr_id dr \<and> agOwnerUserID a = u"
proof -
  define name where "name = trim_space (aiName inp)"
  define sc where "sc = (if NormalizeScopes (aiDefaultScopes inp) = [] then [''drive.read'', ''drive.write'']
    else NormalizeScopes (aiDefaultScopes inp))"
  define ids where "ids = normalizeIDs (aiAllowedDriveIDs inp)"
  note d = name_def [symmetric] sc_def [symmetric] ids_def [symmetric]
  have n: "name \<noteq> []"
    using assms unfolding Agent_Create_def Let_def d by (cases "name = []") simp_all
  have l: "\<not> length name > 64"
    using assms n unfolding Agent_Create_def Let_def d by (cases "length name > 64") simp_all
  have k: "known_scopes sc = Inr sc"
    using assms n l unfolding Agent_Create_def Let_def d
    by (cases "known_scopes sc") (auto simp: known_scopes_def split: option.splits)
  have v: "validateDrives m u ids = Inr ()"
    using assms n l k unfolding Agent_Create_def Let_def d by (cases "validateDrives m u ids") simp_all
  have "distinct sc \<and> set sc \<subseteq> set KnownScopes"
  proof (cases "NormalizeScopes (aiDefaultScopes inp) = []")
    case True
    then show ?thesis by (simp add: sc_def KnownScopes_def)
  next
    case False
    then have "known_scopes (NormalizeScopes (aiDefaultScopes inp)) = Inr sc" using k by (simp add: sc_def)
    then show ?thesis by (rule known_scopes_ok)
  qed
  moreover have "trim_space name = name" by (simp add: name_def)
  moreover have "distinct ids \<and> [] \<notin> set ids" using normalizeIDs_ok by (simp add: ids_def)
  ultimately show ?thesis
    using assms n l k v unfolding Agent_Create_def Let_def d
    by (auto simp: CreateAgent_def agent_ok_def)
qed

lemma Agent_Create_error: "snd (Agent_Create dr m u inp) = Inl e \<Longrightarrow> fst (Agent_Create dr m u inp) = m"
  by (auto simp: Agent_Create_def Let_def split: sum.splits if_splits)

lemma Agent_Update_error: "snd (Agent_Update m u i inp) = Inl e \<Longrightarrow> fst (Agent_Update m u i inp) = m"
  by (auto simp: Agent_Update_def Let_def split: sum.splits if_splits)

lemma agents_ok_gset: "agents_ok m \<Longrightarrow> agent_ok a \<Longrightarrow> agents_ok (m\<lparr>m_agents := gset k a (m_agents m)\<rparr>)"
  by (simp add: agents_ok_def)

lemma Agent_Create_keeps: "agents_ok m \<Longrightarrow> agents_ok (fst (Agent_Create dr m u inp))"
  using Agent_Create_new [of dr m u inp] Agent_Create_error [of dr m u inp]
  by (cases "snd (Agent_Create dr m u inp)") (auto intro: agents_ok_gset)

lemma Agent_Update_keeps:
  assumes "agents_ok m"
  shows "agents_ok (fst (Agent_Update m u i inp))"
proof (cases "snd (Agent_Update m u i inp)")
  case (Inl e)
  then show ?thesis using Agent_Update_error [OF Inl] assms by simp
next
  case (Inr a')
  obtain m' where up: "Agent_Update m u i inp = (m', Inr a')"
    using Inr by (cases "Agent_Update m u i inp") simp
  obtain a a0 where p: "GetAgent m u i = Inr a" "patched m u inp a = Inr a0"
    "a' = (if must_revoke a a0 then a0\<lparr>agTokenVersion := agTokenVersion a0 + 1\<rparr> else a0)"
    "UpdateAgent m a' = Inr m'"
    by (rule Agent_Update_parts [OF up])
  have "agent_ok a" using p(1) assms by (auto simp: agents_ok_def agents.get_iff)
  then have "agent_ok a'" using patched_ok [OF p(2)] p(3) by (simp add: agent_ok_version)
  moreover have "m' = m\<lparr>m_agents := gset (agID a') a' (m_agents m)\<rparr>"
    using p(4) by (auto simp: UpdateAgent_def split: option.splits if_splits)
  ultimately show ?thesis using up assms by (simp add: agents_ok_gset)
qed

lemma gget_gdel_sub: "gget (gdel k m) i = Some v \<Longrightarrow> gget m i = Some v"
  by (simp split: if_splits)

lemma Agent_Delete_keeps: "agents_ok m \<Longrightarrow> agents_ok (fst (Agent_Delete m u i))"
  unfolding Agent_Delete_def DeleteAgent_def agents_ok_def
  by (auto split: option.splits if_splits)

text \<open>Whatever clients send, every stored agent keeps a trimmed non-empty name, a known status,
  distinct scopes of the vocabulary and a drive list without blanks or repetitions.\<close>

theorem agents_stay_well_formed:
  assumes "agents_ok m"
  shows "agents_ok (fst (Agent_Create dr m u inp)) \<and> agents_ok (fst (Agent_Update m u i upd)) \<and>
     agents_ok (fst (Agent_Delete m u i))"
  using Agent_Create_keeps [OF assms] Agent_Update_keeps [OF assms] Agent_Delete_keeps [OF assms] by blast

theorem agents_stay_well_formed_witness:
  "agents_ok (fst (Agent_Create (demo_draw 0 ''7'') auth1 ''u1'' demo_agent_input)) \<and>
   gget (m_agents (fst (Agent_Create (demo_draw 0 ''7'') auth1 ''u1'' demo_agent_input))) ''u7'' = Some demo_agent"
proof -
  have e: "m_agents auth1 = []" by code_simp
  have ok: "agents_ok auth1" by (simp add: agents_ok_def e)
  have row: "gget (m_agents (fst (Agent_Create (demo_draw 0 ''7'') auth1 ''u1'' demo_agent_input))) ''u7'' = Some demo_agent"
    by code_simp
  from agents_stay_well_formed [OF ok] row show ?thesis by blast
qed

end
