(* ===== verification/Sql_Table.thy ===== *)
theory Sql_Table
  imports Store_Types
begin

text \<open>
  The state of the SQLite store (\<open>internal/store/sqlite.go\<close>) and the meaning of the SQL statements
  it sends. A table is the list of its rows, one record per row with the columns of the Go struct;
  the order of the list stands for the order in which the engine visits the rows, which SQL leaves
  unspecified without \<open>ORDER BY\<close>. A statement that would break a primary key or a unique index of
  the schema fails with the driver's error text, the parameter \<open>q_clash\<close>, and changes nothing.
  \<open>json_extract\<close> of the engine is the parameter \<open>q_json\<close>. The other driver errors (a lost file, a
  full disk) are not modelled.
\<close>

section \<open>Instants as text\<close>

text \<open>
  Instants are stored by \<open>t.UTC().Format(time.RFC3339Nano)\<close>: a fixed-width text down to the second,
  then the fraction without its trailing zeros, then \<open>Z\<close>. SQLite compares the texts bytewise, so
  within one second the order is the order of the fraction texts: \<open>.12Z\<close> sorts before \<open>.1Z\<close>, and
  a whole second, \<open>Z\<close>, sorts after every fraction.
\<close>

fun digits :: "nat \<Rightarrow> int \<Rightarrow> string" where
  "digits 0 n = []"
| "digits (Suc k) n = digits k (n div 10) @ [char_of (48 + nat (n mod 10))]"

definition frac_text :: "int \<Rightarrow> string" where
  "frac_text n =
     (if n = 0 then ''Z''
      else CHR ''.'' # rev (dropWhile (\<lambda>c. c = CHR ''0'') (rev (digits 9 n))) @ ''Z'')"

definition ts_before :: "time \<Rightarrow> time \<Rightarrow> bool" where
  "ts_before t u \<longleftrightarrow>
     t div second < u div second \<or>
     (t div second = u div second \<and> frac_text (t mod second) < frac_text (u mod second))"

definition ts_le :: "time \<Rightarrow> time \<Rightarrow> bool" where
  "ts_le t u \<longleftrightarrow> ts_before t u \<or> t = u"

definition col_asc :: "('r \<Rightarrow> time) \<Rightarrow> 'r \<Rightarrow> 'r \<Rightarrow> bool" where
  "col_asc at a b \<longleftrightarrow> ts_before (at a) (at b)"

definition col_desc :: "('r \<Rightarrow> time) \<Rightarrow> 'r \<Rightarrow> 'r \<Rightarrow> bool" where
  "col_desc at a b \<longleftrightarrow> ts_before (at b) (at a)"

lemma ts_before_asym: "ts_before t u \<Longrightarrow> \<not> ts_before u t"
  unfolding ts_before_def by (metis order_less_asym)

lemma lex_ntrans:
  fixes a b c :: "'a::linorder" and x y z :: "'b::linorder"
  shows "a < c \<or> a = c \<and> x < z \<Longrightarrow> (a < b \<or> a = b \<and> x < y) \<or> (b < c \<or> b = c \<and> y < z)"
  by (cases a b rule: linorder_cases; cases x y rule: linorder_cases) auto

lemma ts_before_ntrans: "ts_before t v \<Longrightarrow> ts_before t u \<or> ts_before u v"
  unfolding ts_before_def by (rule lex_ntrans)

interpretation asc_order: strict_weak "col_asc at" for at :: "'r \<Rightarrow> time"
  by unfold_locales (auto simp: col_asc_def dest: ts_before_asym ts_before_ntrans)

interpretation desc_order: strict_weak "col_desc at" for at :: "'r \<Rightarrow> time"
  by unfold_locales (auto simp: col_desc_def dest: ts_before_asym ts_before_ntrans)

lemma ts_before_sound: "ts_before t u \<Longrightarrow> t < u + second"
proof -
  assume "ts_before t u"
  then have q: "t div second \<le> u div second" by (auto simp: ts_before_def)
  define a b where "a = t div second" and "b = u div second"
  have "t = a * second + t mod second" "u = b * second + u mod second"
    unfolding a_def b_def by (simp_all only: div_mult_mod_eq)
  moreover have "t mod second < second" "0 \<le> u mod second" by simp_all
  moreover have "a \<le> b" using q by (simp only: a_def b_def)
  ultimately show ?thesis by linarith
qed

lemma ts_before_complete: "t + second \<le> u \<Longrightarrow> ts_before t u"
proof -
  assume le: "t + second \<le> u"
  then have "(t + second) div second \<le> u div second" by (intro zdiv_mono1) simp_all
  moreover have "(t + second) div second = t div second + 1" by (rule div_add_self2) simp
  ultimately have "t div second < u div second" by (simp only: add1_zle_eq)
  then show ?thesis unfolding ts_before_def by (rule disjI1)
qed

text \<open>A whole second sorts after the fractions of its second, so an early answer is impossible.\<close>

lemma frac_text_less_Z: "frac_text a < frac_text b \<Longrightarrow> a \<noteq> 0"
  by (cases "b = 0") (auto simp: frac_text_def less_char_def)

lemma ts_before_whole: "second dvd t \<Longrightarrow> ts_before t u \<Longrightarrow> t < u"
proof -
  assume d: "second dvd t" and "ts_before t u"
  moreover from d have "t mod second = 0" by simp
  ultimately have "t div second < u div second"
    using frac_text_less_Z by (auto simp: ts_before_def)
  then show ?thesis by (meson linorder_not_less zdiv_mono1 zero_less_numeral)
qed

section \<open>Statements\<close>

definition sql_insert :: "('r list \<Rightarrow> bool) \<Rightarrow> string \<Rightarrow> 'r \<Rightarrow> 'r list \<Rightarrow> string + 'r list" where
  "sql_insert ok clash r rows = (if ok (rows @ [r]) then Inr (rows @ [r]) else Inl clash)"

definition sql_update ::
  "('r list \<Rightarrow> bool) \<Rightarrow> string \<Rightarrow> ('r \<Rightarrow> bool) \<Rightarrow> ('r \<Rightarrow> 'r) \<Rightarrow> 'r list \<Rightarrow> string + ('r list \<times> nat)" where
  "sql_update ok clash P g rows =
     (let rows' = map (\<lambda>r. if P r then g r else r) rows
      in if ok rows' then Inr (rows', length (filter P rows)) else Inl clash)"

definition sql_delete :: "('r \<Rightarrow> bool) \<Rightarrow> 'r list \<Rightarrow> string + ('r list \<times> nat)" where
  "sql_delete P rows = Inr (filter (\<lambda>r. \<not> P r) rows, length (filter P rows))"

text \<open>\<open>QueryRow\<close> with \<open>sql.ErrNoRows\<close> turned into an error, and \<open>RowsAffected() = 0\<close> likewise.\<close>

definition row_or :: "string \<Rightarrow> 'r option \<Rightarrow> 'r result" where
  "row_or err r = (case r of None \<Rightarrow> Inl (Errorf err) | Some x \<Rightarrow> Inr x)"

definition stored :: "string \<Rightarrow> ('r list \<Rightarrow> 's) \<Rightarrow> string + 'r list \<Rightarrow> 's result" where
  "stored ctxt put r = (case r of Inl e \<Rightarrow> Inl (Errorf (ctxt @ e)) | Inr rows \<Rightarrow> Inr (put rows))"

definition affected_or ::
  "string \<Rightarrow> string \<Rightarrow> ('r list \<Rightarrow> 's) \<Rightarrow> string + ('r list \<times> nat) \<Rightarrow> 's result" where
  "affected_or ctxt err put r =
     (case r of
        Inl e \<Rightarrow> Inl (Errorf (ctxt @ e))
      | Inr (rows, n) \<Rightarrow> if n = 0 then Inl (Errorf err) else Inr (put rows))"

section \<open>The tables\<close>

record sqlite =
  q_users :: "user list"
  q_providers :: "provider list"
  q_drives :: "drive list"
  q_bindings :: "binding list"
  q_devices :: "device list"
  q_jobs :: "job list"
  q_audits :: "audit_event list"
  q_jtis :: "(string \<times> time) list"
  q_refresh :: "refresh_token list"
  q_agents :: "agent list"
  q_snapshots :: "snapshot list"
  q_memories :: "memory_entry list"
  q_market :: "marketplace_item list"
  q_lineage :: "lineage_event list"
  q_graph :: "graph_edge list"
  q_purchases :: "purchase list"
  q_connectors :: "connector_binding list"
  q_outbox :: "webhook_outbox list"
  q_clash :: string
  q_json :: "string gomap \<Rightarrow> string \<Rightarrow> string option"

text \<open>The primary keys and unique indexes of \<open>Migrate\<close>; the partial indexes leave out empty keys.\<close>

definition users_ok :: "user list \<Rightarrow> bool" where
  "users_ok rows \<longleftrightarrow> distinct (map uID rows) \<and> distinct (map uUsername rows)"

definition key_ok :: "('r \<Rightarrow> string) \<Rightarrow> 'r list \<Rightarrow> bool" where
  "key_ok key rows \<longleftrightarrow> distinct (map key rows)"

definition refresh_ok :: "refresh_token list \<Rightarrow> bool" where
  "refresh_ok rows \<longleftrightarrow> distinct (map rtID rows) \<and> distinct (map rtTokenHash rows)"

definition drives_ok :: "drive list \<Rightarrow> bool" where
  "drives_ok rows \<longleftrightarrow>
     distinct (map dID rows) \<and>
     distinct (map (\<lambda>d. (dUserID d, dAlias d)) (filter (\<lambda>d. dAlias d \<noteq> []) rows))"

definition jobs_ok :: "job list \<Rightarrow> bool" where
  "jobs_ok rows \<longleftrightarrow>
     distinct (map jID rows) \<and>
     distinct (map (\<lambda>j. (jUserID j, jIdempotencyKey j)) (filter (\<lambda>j. jIdempotencyKey j \<noteq> []) rows))"

definition sqlite_ok :: "sqlite \<Rightarrow> bool" where
  "sqlite_ok q \<longleftrightarrow>
     users_ok (q_users q) \<and> key_ok pID (q_providers q) \<and> drives_ok (q_drives q) \<and>
     key_ok bID (q_bindings q) \<and> key_ok vID (q_devices q) \<and> jobs_ok (q_jobs q) \<and>
     key_ok aeID (q_audits q) \<and> key_ok fst (q_jtis q) \<and> refresh_ok (q_refresh q) \<and>
     key_ok agID (q_agents q) \<and> key_ok snID (q_snapshots q) \<and> key_ok meID (q_memories q) \<and>
     key_ok miID (q_market q) \<and> key_ok leID (q_lineage q) \<and> key_ok geID (q_graph q) \<and>
     key_ok puID (q_purchases q) \<and> key_ok cbID (q_connectors q) \<and> key_ok wID (q_outbox q)"

text \<open>A database as \<open>Open\<close> leaves it on a new file: every table empty.\<close>

definition fresh_db :: "string \<Rightarrow> (string gomap \<Rightarrow> string \<Rightarrow> string option) \<Rightarrow> sqlite" where
  "fresh_db clash json =
     \<lparr>q_users = [], q_providers = [], q_drives = [], q_bindings = [], q_devices = [], q_jobs = [],
      q_audits = [], q_jtis = [], q_refresh = [], q_agents = [], q_snapshots = [], q_memories = [],
      q_market = [], q_lineage = [], q_graph = [], q_purchases = [], q_connectors = [],
      q_outbox = [], q_clash = clash, q_json = json\<rparr>"

lemma fresh_db_ok: "sqlite_ok (fresh_db clash json)"
  by (simp add: sqlite_ok_def fresh_db_def users_ok_def key_ok_def refresh_ok_def drives_ok_def jobs_ok_def)

end
