(* ===== verification/Sqlite_Simulation.thy ===== *)
theory Sqlite_Simulation
  imports Sql_Table
begin

text \<open>
  How a table of row lists represents a map of the in-memory store: the same rows, each stored
  under its own key. The lemmas turn each statement, by its key and the rest of its \<open>WHERE\<close>
  condition, into the map operation it implements.
\<close>

definition sim :: "('r \<Rightarrow> string) \<Rightarrow> 'r list \<Rightarrow> 'r gomap \<Rightarrow> bool" where
  "sim f rows m \<longleftrightarrow> keyed f m \<and> mset rows = mset (gvals m)"

lemma sim_Nil [simp]: "sim f [] []"
  by (simp add: sim_def)

lemma simD: "sim f rows m \<Longrightarrow> keyed f m" "sim f rows m \<Longrightarrow> mset rows = mset (gvals m)"
  unfolding sim_def by blast+

lemma sim_set: "sim f rows m \<Longrightarrow> set rows = set (gvals m)"
  unfolding sim_def by (metis set_mset_mset)

lemma sim_in: "sim f rows m \<Longrightarrow> r \<in> set rows \<longleftrightarrow> gget m (f r) = Some r"
  using keyed_in [of f m r] by (simp add: sim_set) (simp add: sim_def)

lemma sim_key: "sim f rows m \<Longrightarrow> gget m k = Some r \<Longrightarrow> f r = k"
  by (rule keyed_gget [OF simD(1)])

lemma sim_inj: "sim f rows m \<Longrightarrow> r \<in> set rows \<Longrightarrow> s \<in> set rows \<Longrightarrow> f r = f s \<Longrightarrow> r = s"
  by (simp add: sim_in)

lemma sim_key_ok: "sim f rows m \<Longrightarrow> key_ok f rows"
proof -
  assume s: "sim f rows m"
  then have "mset (map f rows) = mset (map f (gvals m))" by (simp only: sim_def mset_map)
  moreover have "distinct (map f (gvals m))"
    using s keyed_map_f keyed_gwf unfolding sim_def by metis
  ultimately show ?thesis unfolding key_ok_def by (metis mset_eq_imp_distinct_iff)
qed

lemma find_the:
  assumes "x \<in> set xs" "P x" "\<And>y. y \<in> set xs \<Longrightarrow> P y \<Longrightarrow> y = x"
  shows "find P xs = Some x"
proof (cases "find P xs")
  case None
  then show ?thesis using assms(1,2) by (auto simp: find_None_iff)
next
  case (Some y)
  then show ?thesis using assms(3) find_SomeD [OF Some] by simp
qed

lemma find_mset:
  assumes "mset xs = mset ys" "\<And>a b. a \<in> set xs \<Longrightarrow> b \<in> set xs \<Longrightarrow> P a \<Longrightarrow> P b \<Longrightarrow> a = b"
  shows "find P xs = find P ys"
proof (cases "find P xs")
  case None
  then have "find P ys = None" using mset_eq_setD [OF assms(1)] by (simp add: find_None_iff)
  with None show ?thesis by simp
next
  case (Some x)
  then have "x \<in> set xs" "P x" by (auto dest: find_SomeD)
  moreover from this have "find P ys = Some x"
    using assms mset_eq_setD [OF assms(1)] by (intro find_the) auto
  ultimately show ?thesis using Some by simp
qed

lemma sim_find_key: "sim f rows m \<Longrightarrow> find (\<lambda>r. f r = k) rows = gget m k"
proof (cases "gget m k")
  case None
  assume s: "sim f rows m"
  with None show ?thesis by (auto simp: find_None_iff sim_in)
next
  case (Some r)
  assume s: "sim f rows m"
  have "f r = k" by (rule sim_key [OF s Some])
  with s Some show ?thesis by (auto intro!: find_the simp: sim_in)
qed

lemma sim_find_owned:
  assumes "sim f rows m"
  shows "find (\<lambda>r. f r = k \<and> Q r) rows =
    (case gget m k of None \<Rightarrow> None | Some r \<Rightarrow> if Q r then Some r else None)"
proof (cases "gget m k")
  case None
  with assms show ?thesis by (auto simp: find_None_iff sim_in)
next
  case (Some r)
  have k: "f r = k" by (rule sim_key [OF assms Some])
  show ?thesis
  proof (cases "Q r")
    case True
    have "find (\<lambda>r. f r = k \<and> Q r) rows = Some r"
      using True k Some assms by (intro find_the) (auto simp: sim_in)
    with True Some show ?thesis by simp
  next
    case False
    with Some assms have "find (\<lambda>r. f r = k \<and> Q r) rows = None" by (auto simp: find_None_iff sim_in)
    with False Some show ?thesis by simp
  qed
qed

lemma sim_filter_mset: "sim f rows m \<Longrightarrow> mset (filter P rows) = mset (filter P (gvals m))"
  by (simp only: sim_def mset_filter)

lemma sim_length: "sim f rows m \<Longrightarrow> length rows = length m"
  unfolding sim_def by (metis length_map size_mset)

section \<open>Writes\<close>

lemma map_of_eq_mset:
  assumes "gwf m" "gwf n" "gget m = gget n"
  shows "mset m = mset n"
proof -
  have "(k, v) \<in> set m \<longleftrightarrow> (k, v) \<in> set n" for k v
    using assms by (metis map_of_eq_Some_iff)
  then have "set m = set n" by auto
  moreover have "distinct m" "distinct n" using assms(1,2) by (simp_all add: distinct_map)
  ultimately show ?thesis by (metis set_eq_iff_mset_eq_distinct)
qed

lemma gvals_gset:
  "keyed f m \<Longrightarrow> gget m k = Some v \<Longrightarrow> gvals (gset k v' m) = map (\<lambda>r. if r = v then v' else r) (gvals m)"
proof (induction m)
  case Nil
  then show ?case by simp
next
  case (Cons a m)
  obtain k0 v0 where a: "a = (k0, v0)" by (cases a)
  have m: "keyed f m" "f v0 = k0" "k0 \<notin> fst ` set m" using Cons.prems(1) a by (auto simp: keyed_def)
  show ?case
  proof (cases "k0 = k")
    case True
    with Cons.prems a have "v0 = v" by simp
    moreover have "\<forall>r \<in> set (gvals m). r \<noteq> v0" using m by (force simp: keyed_def)
    ultimately show ?thesis using a True by (simp add: map_idI)
  next
    case False
    with Cons.prems a have "gget m k = Some v" by simp
    moreover from this have "f v = k" by (rule keyed_gget [OF m(1)])
    ultimately show ?thesis using Cons.IH [OF m(1)] a False m(2) by auto
  qed
qed

lemma gvals_gdel:
  "keyed f m \<Longrightarrow> gvals (gdel k m) = filter (\<lambda>r. f r \<noteq> k) (gvals m)"
  by (induction m) (auto simp: keyed_def)

lemma sim_update:
  assumes "sim f rows m" "gget m k = Some v" "f v' = k"
  shows "sim f (map (\<lambda>r. if r = v then v' else r) rows) (gset k v' m)"
proof -
  note k = simD(1) [OF assms(1)]
  have "mset (gvals (gset k v' m)) = image_mset (\<lambda>r. if r = v then v' else r) (mset (gvals m))"
    by (simp only: gvals_gset [OF k assms(2)] mset_map)
  then have "mset (map (\<lambda>r. if r = v then v' else r) rows) = mset (gvals (gset k v' m))"
    unfolding mset_map [of _ rows] simD(2) [OF assms(1)] by (rule sym)
  with keyed_gset [OF k assms(3)] show ?thesis unfolding sim_def by blast
qed

lemma sim_update_where:
  assumes "sim f rows m" "gget m k = Some v" "f (g v) = k"
    and "\<And>r. r \<in> set rows \<Longrightarrow> P r \<longleftrightarrow> r = v"
  shows "sim f (map (\<lambda>r. if P r then g r else r) rows) (gset k (g v) m)"
proof -
  have "map (\<lambda>r. if P r then g r else r) rows = map (\<lambda>r. if r = v then g v else r) rows"
    using assms(4) by (intro map_cong) auto
  then show ?thesis using sim_update [OF assms(1,2,3)] by (simp only:)
qed

lemma sim_delete: "sim f rows m \<Longrightarrow> sim f (filter (\<lambda>r. f r \<noteq> k) rows) (gdel k m)"
proof -
  assume s: "sim f rows m"
  have "mset (filter (\<lambda>r. f r \<noteq> k) rows) = mset (gvals (gdel k m))"
    by (simp only: gvals_gdel [OF simD(1) [OF s]] mset_filter simD(2) [OF s])
  with keyed_gdel [OF simD(1) [OF s]] show ?thesis unfolding sim_def by blast
qed

lemma sim_delete_where:
  assumes "sim f rows m" "gget m k = Some v" "\<And>r. r \<in> set rows \<Longrightarrow> P r \<longleftrightarrow> r = v"
  shows "sim f (filter (\<lambda>r. \<not> P r) rows) (gdel k m)"
proof -
  have fv: "f v = k" by (rule sim_key [OF assms(1,2)])
  have "v \<in> set rows" using assms(1,2) fv by (simp add: sim_in)
  then have "\<not> P r \<longleftrightarrow> f r \<noteq> k" if "r \<in> set rows" for r
    using assms(3) [OF that] sim_inj [OF assms(1) that, of v] fv by (cases "r = v") auto
  then have "filter (\<lambda>r. \<not> P r) rows = filter (\<lambda>r. f r \<noteq> k) rows" by (rule filter_cong [OF refl])
  with sim_delete [OF assms(1)] show ?thesis by (simp only:)
qed

lemma sim_insert:
  assumes "sim f rows m" "key_ok f (rows @ [x])"
  shows "sim f (rows @ [x]) (gset (f x) x m)"
proof -
  have "\<forall>r \<in> set rows. f r \<noteq> f x" using assms(2) by (simp add: key_ok_def image_iff) metis
  then have "gget m (f x) = None"
    using assms(1) sim_key [OF assms(1), of "f x"] by (cases "gget m (f x)") (auto simp: sim_in)
  then have "gset (f x) x m = m @ [(f x, x)]" by (rule gset_new)
  moreover have "keyed f (gset (f x) x m)" using assms(1) by (intro keyed_gset) (auto simp: sim_def)
  ultimately show ?thesis using assms(1) by (simp add: sim_def)
qed

lemma sim_replace:
  assumes "sim f rows m"
  shows "sim f (filter (\<lambda>r. f r \<noteq> f x) rows @ [x]) (gset (f x) x m)"
proof -
  let ?rows = "filter (\<lambda>r. f r \<noteq> f x) rows"
  have d: "sim f ?rows (gdel (f x) m)" by (rule sim_delete [OF assms])
  have "distinct (map f ?rows)"
    using sim_key_ok [OF assms] unfolding key_ok_def by (rule distinct_map_filter)
  then have "key_ok f (?rows @ [x])" by (auto simp: key_ok_def)
  from sim_insert [OF d this] have s: "sim f (?rows @ [x]) (gset (f x) x (gdel (f x) m))" .
  have k: "keyed f (gset (f x) x m)" by (rule keyed_gset [OF simD(1) [OF assms] refl])
  have "mset (gset (f x) x (gdel (f x) m)) = mset (gset (f x) x m)"
    using keyed_gwf [OF simD(1) [OF s]] keyed_gwf [OF k]
    by (intro map_of_eq_mset) auto
  then have "mset (gvals (gset (f x) x (gdel (f x) m))) = mset (gvals (gset (f x) x m))"
    by (simp only: mset_map)
  with simD(2) [OF s] k show ?thesis unfolding sim_def by metis
qed

section \<open>Statements\<close>

text \<open>
  \<open>agree key c R a b\<close>: when the SQLite call succeeds, the in-memory call succeeds and the results
  are related; when it fails, the in-memory call fails with the same error, unless the call
  breaks a constraint of the schema (\<open>key\<close>) and the failure is the driver's, whose text ends with
  \<open>c\<close>.
\<close>

definition clash_error :: "string \<Rightarrow> go_error \<Rightarrow> bool" where
  "clash_error c e \<longleftrightarrow> suffix c (error_text e)"

definition agree :: "bool \<Rightarrow> string \<Rightarrow> ('s \<Rightarrow> 'm \<Rightarrow> bool) \<Rightarrow> 's result \<Rightarrow> 'm result \<Rightarrow> bool" where
  "agree key c R a b =
     (case a of
        Inr s \<Rightarrow> (case b of Inr t \<Rightarrow> R s t | Inl _ \<Rightarrow> False)
      | Inl e \<Rightarrow> (key \<and> clash_error c e) \<or> b = Inl e)"

lemma agree_simps [simp]:
  "agree key c R (Inr s) (Inr t) = R s t"
  "agree key c R (Inl e) (Inl e) = True"
  "agree True c R (Inl (Errorf (x @ c))) b = True"
  "agree True c R (Inl (Errorf c)) b = True"
  by (auto simp: agree_def clash_error_def suffix_def)

lemma row_or_find:
  "sim f rows m \<Longrightarrow>
   row_or err (find (\<lambda>r. f r = k \<and> Q r) rows) =
     (case gget m k of None \<Rightarrow> Inl (Errorf err) | Some r \<Rightarrow> if Q r then Inr r else Inl (Errorf err))"
  by (simp add: sim_find_owned row_or_def split: option.splits)

lemma update_cases:
  assumes "sim f rows m" "ok rows"
    and "\<And>v. gget m k = Some v \<Longrightarrow> Q v \<Longrightarrow> f (g v) = k"
  obtains "affected_or ctxt err put (sql_update ok c (\<lambda>r. f r = k \<and> Q r) g rows) = Inl (Errorf err)"
      "\<And>v. gget m k = Some v \<Longrightarrow> \<not> Q v"
  | v where "gget m k = Some v" "Q v"
      "affected_or ctxt err put (sql_update ok c (\<lambda>r. f r = k \<and> Q r) g rows) = Inl (Errorf (ctxt @ c))"
      "\<not> ok (map (\<lambda>r. if f r = k \<and> Q r then g r else r) rows)"
  | v rows' where "gget m k = Some v" "Q v"
      "affected_or ctxt err put (sql_update ok c (\<lambda>r. f r = k \<and> Q r) g rows) = Inr (put rows')"
      "ok rows'" "sim f rows' (gset k (g v) m)" "rows' = map (\<lambda>r. if f r = k \<and> Q r then g r else r) rows"
proof (cases "\<exists>v. gget m k = Some v \<and> Q v")
  case False
  then have "\<forall>r \<in> set rows. \<not> (f r = k \<and> Q r)" using assms(1) by (auto simp: sim_in)
  then have none: "filter (\<lambda>r. f r = k \<and> Q r) rows = []"
    and same: "map (\<lambda>r. if f r = k \<and> Q r then g r else r) rows = rows"
    by (auto simp: filter_empty_conv intro!: map_idI)
  have "affected_or ctxt err put (sql_update ok c (\<lambda>r. f r = k \<and> Q r) g rows) = Inl (Errorf err)"
    using assms(2) unfolding affected_or_def sql_update_def Let_def same none by simp
  with False that(1) show ?thesis by blast
next
  case True
  then obtain v where v: "gget m k = Some v" "Q v" by blast
  have fv: "f v = k" by (rule sim_key [OF assms(1) v(1)])
  have vin: "v \<in> set rows" using v fv assms(1) by (simp add: sim_in)
  have iff: "(f r = k \<and> Q r) \<longleftrightarrow> r = v" if "r \<in> set rows" for r
    using that v fv sim_inj [OF assms(1) that vin] by auto
  let ?rows' = "map (\<lambda>r. if f r = k \<and> Q r then g r else r) rows"
  have s: "sim f ?rows' (gset k (g v) m)"
    using iff by (intro sim_update_where [where P = "\<lambda>r. f r = k \<and> Q r" and g = g,
      OF assms(1) v(1) assms(3) [OF v]])
  have n: "length (filter (\<lambda>r. f r = k \<and> Q r) rows) \<noteq> 0" using vin v fv by (auto simp: filter_empty_conv)
  show ?thesis
  proof (cases "ok ?rows'")
    case True
    with n have "affected_or ctxt err put (sql_update ok c (\<lambda>r. f r = k \<and> Q r) g rows) = Inr (put ?rows')"
      by (simp only: affected_or_def sql_update_def Let_def if_True if_False sum.case prod.case)
    from that(3) [OF v this True s refl] show ?thesis .
  next
    case False
    then have "affected_or ctxt err put (sql_update ok c (\<lambda>r. f r = k \<and> Q r) g rows) = Inl (Errorf (ctxt @ c))"
      by (simp only: affected_or_def sql_update_def Let_def if_False sum.case)
    from that(2) [OF v this False] show ?thesis .
  qed
qed

text \<open>A table whose only constraint is its primary key cannot clash on an update.\<close>

lemma update_key_cases:
  assumes "sim f rows m" "\<And>v. gget m k = Some v \<Longrightarrow> Q v \<Longrightarrow> f (g v) = k"
  obtains "affected_or ctxt err put (sql_update (key_ok f) c (\<lambda>r. f r = k \<and> Q r) g rows) = Inl (Errorf err)"
      "\<And>v. gget m k = Some v \<Longrightarrow> \<not> Q v"
  | v rows' where "gget m k = Some v" "Q v"
      "affected_or ctxt err put (sql_update (key_ok f) c (\<lambda>r. f r = k \<and> Q r) g rows) = Inr (put rows')"
      "sim f rows' (gset k (g v) m)" "rows' = map (\<lambda>r. if f r = k \<and> Q r then g r else r) rows"
proof (cases "\<exists>v. gget m k = Some v \<and> Q v")
  case False
  show ?thesis
    by (rule update_cases [where Q = Q and g = g and ok = "key_ok f" and ctxt = ctxt and err = err
          and put = put and c = c, OF assms(1) sim_key_ok [OF assms(1)] assms(2)])
       (use False that(1) in blast)+
next
  case True
  then obtain v where v: "gget m k = Some v" "Q v" by blast
  have fv: "f v = k" by (rule sim_key [OF assms(1) v(1)])
  have vin: "v \<in> set rows" using v fv assms(1) by (simp add: sim_in)
  have iff: "(f r = k \<and> Q r) \<longleftrightarrow> r = v" if "r \<in> set rows" for r
    using that v fv sim_inj [OF assms(1) that vin] by auto
  let ?rows' = "map (\<lambda>r. if f r = k \<and> Q r then g r else r) rows"
  have s: "sim f ?rows' (gset k (g v) m)"
    using iff by (intro sim_update_where [where P = "\<lambda>r. f r = k \<and> Q r" and g = g,
      OF assms(1) v(1) assms(2) [OF v]])
  have n: "length (filter (\<lambda>r. f r = k \<and> Q r) rows) \<noteq> 0" using vin v fv by (auto simp: filter_empty_conv)
  with sim_key_ok [OF s]
  have "affected_or ctxt err put (sql_update (key_ok f) c (\<lambda>r. f r = k \<and> Q r) g rows) = Inr (put ?rows')"
    by (simp only: affected_or_def sql_update_def Let_def if_True if_False sum.case prod.case)
  from that(2) [OF v this s refl] show ?thesis .
qed

lemma delete_cases:
  assumes "sim f rows m"
  obtains "affected_or ctxt err put (sql_delete (\<lambda>r. f r = k \<and> Q r) rows) = Inl (Errorf err)"
      "\<And>v. gget m k = Some v \<Longrightarrow> \<not> Q v"
  | v rows' where "gget m k = Some v" "Q v"
      "affected_or ctxt err put (sql_delete (\<lambda>r. f r = k \<and> Q r) rows) = Inr (put rows')"
      "sim f rows' (gdel k m)" "rows' = filter (\<lambda>r. \<not> (f r = k \<and> Q r)) rows"
proof (cases "\<exists>v. gget m k = Some v \<and> Q v")
  case False
  then have "\<forall>r \<in> set rows. \<not> (f r = k \<and> Q r)" using assms(1) by (auto simp: sim_in)
  then have none: "filter (\<lambda>r. f r = k \<and> Q r) rows = []" by (auto simp: filter_empty_conv)
  have "affected_or ctxt err put (sql_delete (\<lambda>r. f r = k \<and> Q r) rows) = Inl (Errorf err)"
    unfolding affected_or_def sql_delete_def none by simp
  with False that(1) show ?thesis by blast
next
  case True
  then obtain v where v: "gget m k = Some v" "Q v" by blast
  have fv: "f v = k" by (rule sim_key [OF assms(1) v(1)])
  have vin: "v \<in> set rows" using v fv assms(1) by (simp add: sim_in)
  have iff: "(f r = k \<and> Q r) \<longleftrightarrow> r = v" if "r \<in> set rows" for r
    using that v fv sim_inj [OF assms(1) that vin] by auto
  let ?rows' = "filter (\<lambda>r. \<not> (f r = k \<and> Q r)) rows"
  have s: "sim f ?rows' (gdel k m)" by (rule sim_delete_where [OF assms(1) v(1) iff])
  have n: "length (filter (\<lambda>r. f r = k \<and> Q r) rows) \<noteq> 0" using vin v fv by (auto simp: filter_empty_conv)
  then have "affected_or ctxt err put (sql_delete (\<lambda>r. f r = k \<and> Q r) rows) = Inr (put ?rows')"
    by (simp only: affected_or_def sql_delete_def if_False sum.case prod.case)
  from that(2) [OF v this s refl] show ?thesis .
qed

section \<open>One rule per statement\<close>

lemma agree_insert:
  assumes "sim f rows m" "\<And>rs. ok rs \<Longrightarrow> key_ok f rs"
    and "\<And>rs. ok rs \<Longrightarrow> sim f rs (gset (f x) x m) \<Longrightarrow> rs = rows @ [x] \<Longrightarrow> R (put rs) y"
  shows "agree (\<not> ok (rows @ [x])) c R (stored ctxt put (sql_insert ok c x rows)) (Inr y)"
proof (cases "ok (rows @ [x])")
  case True
  have "R (put (rows @ [x])) y"
    using True assms(1,2) by (intro assms(3) sim_insert) simp_all
  with True show ?thesis by (simp add: stored_def sql_insert_def)
next
  case False
  then show ?thesis by (simp add: stored_def sql_insert_def)
qed

lemma agree_delete:
  assumes "sim f rows m"
    and "\<And>rs. sim f rs (gdel k m) \<Longrightarrow> rs = filter (\<lambda>r. \<not> (f r = k \<and> Q r)) rows \<Longrightarrow> R (put rs) y"
  shows "agree key c R (affected_or ctxt err put (sql_delete (\<lambda>r. f r = k \<and> Q r) rows))
    (case gget m k of None \<Rightarrow> Inl (Errorf err) | Some v \<Rightarrow> if \<not> Q v then Inl (Errorf err) else Inr y)"
  by (rule delete_cases [where ctxt = ctxt and put = put and err = err and k = k and Q = Q, OF assms(1)])
     (use assms(2) in \<open>auto split: option.splits\<close>)

lemma agree_update_key:
  assumes "sim f rows m"
    and "\<And>v. gget m k = Some v \<Longrightarrow> Q v \<Longrightarrow> f (g v) = k"
    and "\<And>v rs. gget m k = Some v \<Longrightarrow> Q v \<Longrightarrow> sim f rs (gset k (g v) m) \<Longrightarrow> R (put rs) (y v)"
  shows "agree key c R
    (affected_or ctxt err put (sql_update (key_ok f) c (\<lambda>r. f r = k \<and> Q r) g rows))
    (case gget m k of None \<Rightarrow> Inl (Errorf err) | Some v \<Rightarrow> if \<not> Q v then Inl (Errorf err) else Inr (y v))"
  by (rule update_key_cases [where ctxt = ctxt and put = put and err = err and k = k and Q = Q
        and g = g and c = c, OF assms(1,2)])
     (use assms(3) in \<open>auto split: option.splits\<close>)

lemma agree_update:
  assumes "sim f rows m" "ok rows"
    and "\<And>v. gget m k = Some v \<Longrightarrow> Q v \<Longrightarrow> f (g v) = k"
    and "\<And>v rs. gget m k = Some v \<Longrightarrow> Q v \<Longrightarrow> ok rs \<Longrightarrow> sim f rs (gset k (g v) m) \<Longrightarrow> R (put rs) (y v)"
  shows "agree (\<not> ok (map (\<lambda>r. if f r = k \<and> Q r then g r else r) rows)) c R
    (affected_or ctxt err put (sql_update ok c (\<lambda>r. f r = k \<and> Q r) g rows))
    (case gget m k of None \<Rightarrow> Inl (Errorf err) | Some v \<Rightarrow> if \<not> Q v then Inl (Errorf err) else Inr (y v))"
  by (rule update_cases [where ctxt = ctxt and put = put and err = err and k = k and Q = Q
        and g = g and c = c and f = f and ok = ok, OF assms(1,2,3)])
     (use assms(4) in \<open>auto split: option.splits\<close>)

text \<open>An update that keeps the unique columns cannot clash.\<close>

lemma agree_update_safe:
  assumes "sim f rows m" "ok rows" "ok (map (\<lambda>r. if f r = k \<and> Q r then g r else r) rows)"
    and "\<And>v. gget m k = Some v \<Longrightarrow> Q v \<Longrightarrow> f (g v) = k"
    and "\<And>v rs. gget m k = Some v \<Longrightarrow> Q v \<Longrightarrow> ok rs \<Longrightarrow> sim f rs (gset k (g v) m) \<Longrightarrow> R (put rs) (y v)"
  shows "agree key c R
    (affected_or ctxt err put (sql_update ok c (\<lambda>r. f r = k \<and> Q r) g rows))
    (case gget m k of None \<Rightarrow> Inl (Errorf err) | Some v \<Rightarrow> if \<not> Q v then Inl (Errorf err) else Inr (y v))"
  by (rule update_cases [where ctxt = ctxt and put = put and err = err and k = k and Q = Q
        and g = g and c = c and f = f and ok = ok, OF assms(1,2,4)])
     (use assms(3,5) in \<open>auto split: option.splits\<close>)

end
