(* ===== verification/Sqlite_Accounts.thy ===== *)
theory Sqlite_Accounts
  imports Sql_Table
begin

text \<open>
  Users, the audit log, the token denylist, refresh tokens and agents of the SQLite store
  (\<open>internal/store/sqlite.go\<close>).
\<close>

section \<open>Users\<close>

definition sq_CreateUser :: "sqlite \<Rightarrow> user \<Rightarrow> sqlite result" where
  "sq_CreateUser q u =
     (let role = (if uRole u = [] then ''user'' else uRole u)
      in stored ''create user: '' (\<lambda>rows. q\<lparr>q_users := rows\<rparr>)
           (sql_insert users_ok (q_clash q) (u\<lparr>uRole := role\<rparr>) (q_users q)))"

definition sq_GetUserByUsername :: "sqlite \<Rightarrow> string \<Rightarrow> user result" where
  "sq_GetUserByUsername q username =
     row_or ''user not found'' (find (\<lambda>u. uUsername u = username) (q_users q))"

definition sq_GetUserByID :: "sqlite \<Rightarrow> string \<Rightarrow> user result" where
  "sq_GetUserByID q i = row_or ''user not found'' (find (\<lambda>u. uID u = i) (q_users q))"

definition sq_CountUsers :: "sqlite \<Rightarrow> nat" where
  "sq_CountUsers q = length (q_users q)"

definition sq_UpdateUserRole :: "sqlite \<Rightarrow> string \<Rightarrow> string \<Rightarrow> sqlite result" where
  "sq_UpdateUserRole q i role =
     affected_or [] ''user not found'' (\<lambda>rows. q\<lparr>q_users := rows\<rparr>)
       (sql_update users_ok (q_clash q) (\<lambda>u. uID u = i) (\<lambda>u. u\<lparr>uRole := role\<rparr>) (q_users q))"

definition sq_UpdateUserPassword :: "sqlite \<Rightarrow> string \<Rightarrow> string \<Rightarrow> sqlite result" where
  "sq_UpdateUserPassword q i hash =
     affected_or ''update user password: '' ''user not found'' (\<lambda>rows. q\<lparr>q_users := rows\<rparr>)
       (sql_update users_ok (q_clash q) (\<lambda>u. uID u = i) (\<lambda>u. u\<lparr>uPassword := hash\<rparr>) (q_users q))"

text \<open>The listing selects neither the password nor the token version: both read as Go zero values.\<close>

definition by_username :: "user \<Rightarrow> user \<Rightarrow> bool" where
  "by_username a b \<longleftrightarrow> uUsername a < uUsername b"

definition sq_ListUsers :: "sqlite \<Rightarrow> user list" where
  "sq_ListUsers q =
     map (\<lambda>u. u\<lparr>uPassword := [], uTokenVersion := 0\<rparr>) (sort_slice by_username (q_users q))"

definition sq_BumpTokenVersion :: "sqlite \<Rightarrow> string \<Rightarrow> (sqlite \<times> int) result" where
  "sq_BumpTokenVersion q i =
     (case affected_or [] ''user not found'' (\<lambda>rows. q\<lparr>q_users := rows\<rparr>)
             (sql_update users_ok (q_clash q) (\<lambda>u. uID u = i)
                (\<lambda>u. u\<lparr>uTokenVersion := uTokenVersion u + 1\<rparr>) (q_users q)) of
        Inl e \<Rightarrow> Inl e
      | Inr q' \<Rightarrow>
          (case find (\<lambda>u. uID u = i) (q_users q') of
             None \<Rightarrow> Inl (Errorf ''sql: no rows in result set'')
           | Some u \<Rightarrow> Inr (q', uTokenVersion u)))"

section \<open>Audit log\<close>

definition sq_AppendAudit :: "sqlite \<Rightarrow> audit_event \<Rightarrow> sqlite result" where
  "sq_AppendAudit q e =
     stored [] (\<lambda>rows. q\<lparr>q_audits := rows\<rparr>) (sql_insert (key_ok aeID) (q_clash q) e (q_audits q))"

definition sq_ListAudit :: "sqlite \<Rightarrow> audit_filter \<Rightarrow> audit_event list" where
  "sq_ListAudit q f =
     (let limit = (if afLimit f \<le> 0 \<or> afLimit f > 500 then 100 else afLimit f)
      in take (nat limit)
           (sort_slice (col_desc aeCreatedAt)
              (filter (\<lambda>e. (afUserID f = [] \<or> aeUserID e = afUserID f) \<and>
                           (afAgentID f = [] \<or> aeAgentID e = afAgentID f) \<and>
                           (afAction f = [] \<or> aeAction e = afAction f)) (q_audits q))))"

section \<open>Session revocation\<close>

definition sq_BumpAgentTokenVersion :: "sqlite \<Rightarrow> string \<Rightarrow> (sqlite \<times> int) result" where
  "sq_BumpAgentTokenVersion q i =
     (case affected_or [] ''agent not found'' (\<lambda>rows. q\<lparr>q_agents := rows\<rparr>)
             (sql_update (key_ok agID) (q_clash q) (\<lambda>a. agID a = i)
                (\<lambda>a. a\<lparr>agTokenVersion := agTokenVersion a + 1\<rparr>) (q_agents q)) of
        Inl e \<Rightarrow> Inl e
      | Inr q' \<Rightarrow>
          (case find (\<lambda>a. agID a = i) (q_agents q') of
             None \<Rightarrow> Inl (Errorf ''sql: no rows in result set'')
           | Some a \<Rightarrow> Inr (q', agTokenVersion a)))"

text \<open>
  \<open>RevokeJTI\<close> first prunes the entries whose expiry text is before the text of now, then inserts or
  replaces its own entry.
\<close>

definition sq_RevokeJTI :: "time \<Rightarrow> sqlite \<Rightarrow> string \<Rightarrow> time \<Rightarrow> sqlite result" where
  "sq_RevokeJTI now q jti expiresAt =
     (if jti = [] then Inl (Errorf ''jti required'')
      else (let pruned = filter (\<lambda>(j, exp). \<not> ts_before exp now) (q_jtis q)
            in Inr (q\<lparr>q_jtis := filter (\<lambda>(j, exp). j \<noteq> jti) pruned @ [(jti, expiresAt)]\<rparr>)))"

definition sq_IsJTIRevoked :: "time \<Rightarrow> sqlite \<Rightarrow> string \<Rightarrow> sqlite \<times> bool" where
  "sq_IsJTIRevoked now q jti =
     (if jti = [] then (q, False)
      else (case find (\<lambda>(j, exp). j = jti) (q_jtis q) of
              None \<Rightarrow> (q, False)
            | Some (j, exp) \<Rightarrow>
                if now > exp then (q\<lparr>q_jtis := filter (\<lambda>(j, exp). j \<noteq> jti) (q_jtis q)\<rparr>, False)
                else (q, True)))"

section \<open>Refresh tokens\<close>

definition sq_CreateRefreshToken :: "sqlite \<Rightarrow> refresh_token \<Rightarrow> sqlite result" where
  "sq_CreateRefreshToken q t =
     stored [] (\<lambda>rows. q\<lparr>q_refresh := rows\<rparr>) (sql_insert refresh_ok (q_clash q) t (q_refresh q))"

definition sq_GetRefreshTokenByHash :: "time \<Rightarrow> sqlite \<Rightarrow> string \<Rightarrow> refresh_token result" where
  "sq_GetRefreshTokenByHash now q hash =
     (case row_or ''refresh token not found'' (find (\<lambda>t. rtTokenHash t = hash) (q_refresh q)) of
        Inl e \<Rightarrow> Inl e
      | Inr t \<Rightarrow>
          if rtRevoked t \<or> now > rtExpiresAt t then Inl (Errorf ''refresh token invalid'')
          else Inr t)"

definition sq_RevokeRefreshToken :: "sqlite \<Rightarrow> string \<Rightarrow> sqlite result" where
  "sq_RevokeRefreshToken q i =
     affected_or [] ''refresh token already revoked'' (\<lambda>rows. q\<lparr>q_refresh := rows\<rparr>)
       (sql_update refresh_ok (q_clash q) (\<lambda>t. rtID t = i \<and> \<not> rtRevoked t)
          (\<lambda>t. t\<lparr>rtRevoked := True\<rparr>) (q_refresh q))"

definition sq_RevokeRefreshTokensForUser :: "sqlite \<Rightarrow> string \<Rightarrow> sqlite result" where
  "sq_RevokeRefreshTokensForUser q u =
     stored [] (\<lambda>rows. q\<lparr>q_refresh := rows\<rparr>)
       (map_sum id fst
          (sql_update refresh_ok (q_clash q) (\<lambda>t. rtUserID t = u \<and> \<not> rtRevoked t)
             (\<lambda>t. t\<lparr>rtRevoked := True\<rparr>) (q_refresh q)))"

section \<open>Agents\<close>

definition sq_CreateAgent :: "sqlite \<Rightarrow> agent \<Rightarrow> sqlite result" where
  "sq_CreateAgent q a =
     stored [] (\<lambda>rows. q\<lparr>q_agents := rows\<rparr>) (sql_insert (key_ok agID) (q_clash q) a (q_agents q))"

definition sq_GetAgent :: "sqlite \<Rightarrow> string \<Rightarrow> string \<Rightarrow> agent result" where
  "sq_GetAgent q owner i =
     row_or ''agent not found'' (find (\<lambda>a. agID a = i \<and> agOwnerUserID a = owner) (q_agents q))"

definition sq_GetAgentByID :: "sqlite \<Rightarrow> string \<Rightarrow> agent result" where
  "sq_GetAgentByID q i = row_or ''agent not found'' (find (\<lambda>a. agID a = i) (q_agents q))"

definition sq_ListAgents :: "sqlite \<Rightarrow> string \<Rightarrow> agent list" where
  "sq_ListAgents q owner =
     sort_slice (col_desc agCreatedAt) (filter (\<lambda>a. agOwnerUserID a = owner) (q_agents q))"

definition set_agent :: "agent \<Rightarrow> agent \<Rightarrow> agent" where
  "set_agent a cur =
     cur\<lparr>agName := agName a, agDescription := agDescription a, agStatus := agStatus a,
         agDefaultScopes := agDefaultScopes a, agAllowedDriveIDs := agAllowedDriveIDs a,
         agReadPrefixes := agReadPrefixes a, agWritePrefixes := agWritePrefixes a,
         agTokenVersion := agTokenVersion a\<rparr>"

definition sq_UpdateAgent :: "sqlite \<Rightarrow> agent \<Rightarrow> sqlite result" where
  "sq_UpdateAgent q a =
     affected_or [] ''agent not found'' (\<lambda>rows. q\<lparr>q_agents := rows\<rparr>)
       (sql_update (key_ok agID) (q_clash q) (\<lambda>r. agID r = agID a \<and> agOwnerUserID r = agOwnerUserID a)
          (set_agent a) (q_agents q))"

definition sq_DeleteAgent :: "sqlite \<Rightarrow> string \<Rightarrow> string \<Rightarrow> sqlite result" where
  "sq_DeleteAgent q owner i =
     affected_or [] ''agent not found'' (\<lambda>rows. q\<lparr>q_agents := rows\<rparr>)
       (sql_delete (\<lambda>a. agID a = i \<and> agOwnerUserID a = owner) (q_agents q))"

end
