(* ===== verification/Sqlite_Resources.thy ===== *)
theory Sqlite_Resources
  imports Sql_Table
begin

text \<open>
  Providers, drives, bindings, devices and snapshots of the SQLite store
  (\<open>internal/store/sqlite.go\<close>). An update names the columns it sets; the others keep their value.
\<close>

section \<open>Providers\<close>

definition sq_CreateProvider :: "sqlite \<Rightarrow> provider \<Rightarrow> sqlite result" where
  "sq_CreateProvider q p =
     (let creds = (if pCredsJSON p = [] then ''{}'' else pCredsJSON p)
      in stored ''create provider: '' (\<lambda>rows. q\<lparr>q_providers := rows\<rparr>)
           (sql_insert (key_ok pID) (q_clash q) (p\<lparr>pCredsJSON := creds\<rparr>) (q_providers q)))"

definition sq_GetProvider :: "sqlite \<Rightarrow> string \<Rightarrow> string \<Rightarrow> provider result" where
  "sq_GetProvider q u i =
     row_or ''provider not found'' (find (\<lambda>p. pID p = i \<and> pUserID p = u) (q_providers q))"

definition sq_ListProviders :: "sqlite \<Rightarrow> string \<Rightarrow> provider list" where
  "sq_ListProviders q u = filter (\<lambda>p. pUserID p = u) (q_providers q)"

definition sq_DeleteProvider :: "sqlite \<Rightarrow> string \<Rightarrow> string \<Rightarrow> sqlite result" where
  "sq_DeleteProvider q u i =
     affected_or [] ''provider not found'' (\<lambda>rows. q\<lparr>q_providers := rows\<rparr>)
       (sql_delete (\<lambda>p. pID p = i \<and> pUserID p = u) (q_providers q))"

section \<open>Drives\<close>

definition sq_CreateDrive :: "sqlite \<Rightarrow> drive \<Rightarrow> sqlite result" where
  "sq_CreateDrive q d =
     stored ''create drive: '' (\<lambda>rows. q\<lparr>q_drives := rows\<rparr>)
       (sql_insert drives_ok (q_clash q) d (q_drives q))"

definition sq_GetDrive :: "sqlite \<Rightarrow> string \<Rightarrow> string \<Rightarrow> drive result" where
  "sq_GetDrive q u i =
     row_or ''drive not found'' (find (\<lambda>d. dID d = i \<and> dUserID d = u) (q_drives q))"

definition sq_GetDriveByAlias :: "sqlite \<Rightarrow> string \<Rightarrow> string \<Rightarrow> drive result" where
  "sq_GetDriveByAlias q u alias =
     (if alias = [] then Inl (Errorf ''drive not found'')
      else row_or ''drive not found'' (find (\<lambda>d. dUserID d = u \<and> dAlias d = alias) (q_drives q)))"

definition sq_ListDrives :: "sqlite \<Rightarrow> string \<Rightarrow> drive list" where
  "sq_ListDrives q u = filter (\<lambda>d. dUserID d = u) (q_drives q)"

definition set_drive :: "drive \<Rightarrow> drive \<Rightarrow> drive" where
  "set_drive d cur =
     cur\<lparr>dName := dName d, dAlias := dAlias d, dPrefix := dPrefix d, dMountPoint := dMountPoint d,
         dRegion := dRegion d\<rparr>"

definition sq_UpdateDrive :: "sqlite \<Rightarrow> drive \<Rightarrow> sqlite result" where
  "sq_UpdateDrive q d =
     affected_or [] ''drive not found'' (\<lambda>rows. q\<lparr>q_drives := rows\<rparr>)
       (sql_update drives_ok (q_clash q) (\<lambda>r. dID r = dID d \<and> dUserID r = dUserID d)
          (set_drive d) (q_drives q))"

definition sq_DeleteDrive :: "sqlite \<Rightarrow> string \<Rightarrow> string \<Rightarrow> sqlite result" where
  "sq_DeleteDrive q u i =
     affected_or [] ''drive not found'' (\<lambda>rows. q\<lparr>q_drives := rows\<rparr>)
       (sql_delete (\<lambda>d. dID d = i \<and> dUserID d = u) (q_drives q))"

section \<open>Bindings and devices\<close>

definition sq_CreateBinding :: "sqlite \<Rightarrow> binding \<Rightarrow> sqlite result" where
  "sq_CreateBinding q b =
     stored ''create binding: '' (\<lambda>rows. q\<lparr>q_bindings := rows\<rparr>)
       (sql_insert (key_ok bID) (q_clash q) b (q_bindings q))"

definition sq_GetBinding :: "sqlite \<Rightarrow> string \<Rightarrow> string \<Rightarrow> binding result" where
  "sq_GetBinding q u i =
     row_or ''binding not found'' (find (\<lambda>b. bID b = i \<and> bUserID b = u) (q_bindings q))"

definition sq_ListBindings :: "sqlite \<Rightarrow> string \<Rightarrow> string \<Rightarrow> binding list" where
  "sq_ListBindings q u deviceID =
     (if deviceID = [] then filter (\<lambda>b. bUserID b = u) (q_bindings q)
      else filter (\<lambda>b. bUserID b = u \<and> bDeviceID b = deviceID) (q_bindings q))"

definition set_binding :: "binding \<Rightarrow> binding \<Rightarrow> binding" where
  "set_binding b cur =
     cur\<lparr>bDriveID := bDriveID b, bDeviceID := bDeviceID b, bMountPoint := bMountPoint b,
         bMode := bMode b, bDesired := bDesired b, bActual := bActual b,
         bLastError := bLastError b, bUpdatedAt := bUpdatedAt b\<rparr>"

definition sq_UpdateBinding :: "sqlite \<Rightarrow> binding \<Rightarrow> sqlite result" where
  "sq_UpdateBinding q b =
     affected_or [] ''binding not found'' (\<lambda>rows. q\<lparr>q_bindings := rows\<rparr>)
       (sql_update (key_ok bID) (q_clash q) (\<lambda>r. bID r = bID b \<and> bUserID r = bUserID b)
          (set_binding b) (q_bindings q))"

text \<open>
  \<open>INSERT ... ON CONFLICT(id) DO UPDATE ... WHERE devices.user_id = excluded.user_id\<close> after the
  check that the row, if there is one, belongs to the caller.
\<close>

definition sq_UpsertDevice :: "sqlite \<Rightarrow> device \<Rightarrow> sqlite result" where
  "sq_UpsertDevice q d =
     (case find (\<lambda>r. vID r = vID d) (q_devices q) of
        None \<Rightarrow>
          stored ''upsert device: '' (\<lambda>rows. q\<lparr>q_devices := rows\<rparr>)
            (sql_insert (key_ok vID) (q_clash q) d (q_devices q))
      | Some cur \<Rightarrow>
          if vUserID cur \<noteq> vUserID d then Inl (Errorf ''device id conflict'')
          else stored ''upsert device: '' (\<lambda>rows. q\<lparr>q_devices := rows\<rparr>)
                 (map_sum id fst
                    (sql_update (key_ok vID) (q_clash q) (\<lambda>r. vID r = vID d \<and> vUserID r = vUserID d)
                       (\<lambda>r. r\<lparr>vName := vName d, vLastSeen := vLastSeen d\<rparr>) (q_devices q))))"

definition sq_GetDevice :: "sqlite \<Rightarrow> string \<Rightarrow> string \<Rightarrow> device result" where
  "sq_GetDevice q u i =
     row_or ''device not found'' (find (\<lambda>d. vID d = i \<and> vUserID d = u) (q_devices q))"

definition sq_ListDevices :: "sqlite \<Rightarrow> string \<Rightarrow> device list" where
  "sq_ListDevices q u = filter (\<lambda>d. vUserID d = u) (q_devices q)"

section \<open>Snapshots\<close>

definition sq_CreateSnapshot :: "sqlite \<Rightarrow> snapshot \<Rightarrow> sqlite result" where
  "sq_CreateSnapshot q s =
     stored [] (\<lambda>rows. q\<lparr>q_snapshots := rows\<rparr>)
       (sql_insert (key_ok snID) (q_clash q) s (q_snapshots q))"

definition sq_GetSnapshot :: "sqlite \<Rightarrow> string \<Rightarrow> string \<Rightarrow> string \<Rightarrow> snapshot result" where
  "sq_GetSnapshot q u d i =
     row_or ''snapshot not found''
       (find (\<lambda>s. snID s = i \<and> snUserID s = u \<and> snDriveID s = d) (q_snapshots q))"

definition sq_ListSnapshots :: "sqlite \<Rightarrow> string \<Rightarrow> string \<Rightarrow> int \<Rightarrow> snapshot list" where
  "sq_ListSnapshots q u d limit0 =
     (let limit = (if limit0 \<le> 0 \<or> limit0 > 200 then 50 else limit0)
      in take (nat limit)
           (sort_slice (col_desc snCreatedAt)
              (filter (\<lambda>s. snUserID s = u \<and> snDriveID s = d) (q_snapshots q))))"

definition sq_DeleteSnapshot :: "sqlite \<Rightarrow> string \<Rightarrow> string \<Rightarrow> string \<Rightarrow> sqlite result" where
  "sq_DeleteSnapshot q u d i =
     affected_or [] ''snapshot not found'' (\<lambda>rows. q\<lparr>q_snapshots := rows\<rparr>)
       (sql_delete (\<lambda>s. snID s = i \<and> snUserID s = u \<and> snDriveID s = d) (q_snapshots q))"

text \<open>
  Agent memories, the marketplace, lineage, the identity graph, purchases and connectors of the
  SQLite store (\<open>internal/store/sqlite.go\<close>). Several listings fetch a bounded number of rows first
  and filter them in Go afterwards; the model keeps that order.
\<close>

section \<open>Agent memories\<close>

definition sq_CreateMemory :: "sqlite \<Rightarrow> memory_entry \<Rightarrow> sqlite result" where
  "sq_CreateMemory q e =
     stored [] (\<lambda>rows. q\<lparr>q_memories := rows\<rparr>)
       (sql_insert (key_ok meID) (q_clash q) e (q_memories q))"

definition sq_GetMemory :: "sqlite \<Rightarrow> string \<Rightarrow> string \<Rightarrow> memory_entry result" where
  "sq_GetMemory q u i =
     row_or ''memory not found'' (find (\<lambda>e. meID e = i \<and> meUserID e = u) (q_memories q))"

definition sq_ListMemory :: "time \<Rightarrow> sqlite \<Rightarrow> memory_filter \<Rightarrow> memory_entry list" where
  "sq_ListMemory now q f =
     (let limit = (if mfLimit f \<le> 0 \<or> mfLimit f > 500 then 100 else mfLimit f);
          rows = take (nat (limit * 3))
                   (sort_slice (col_desc meCreatedAt) (filter (\<lambda>e. meUserID e = mfUserID f) (q_memories q)))
      in take (nat limit)
           (filter (\<lambda>e. \<not> (mfAgentID f \<noteq> [] \<and> meAgentID e \<noteq> mfAgentID f) \<and>
                        \<not> (mfDriveID f \<noteq> [] \<and> meDriveID e \<noteq> mfDriveID f) \<and>
                        \<not> (mfLayer f \<noteq> [] \<and> meLayer e \<noteq> mfLayer f) \<and>
                        \<not> (mfKey f \<noteq> [] \<and> meKey e \<noteq> mfKey f) \<and>
                        \<not> (\<not> is_zero (meExpiresAt e) \<and> meExpiresAt e < now)) rows))"

definition sq_DeleteMemory :: "sqlite \<Rightarrow> string \<Rightarrow> string \<Rightarrow> sqlite result" where
  "sq_DeleteMemory q u i =
     affected_or [] ''memory not found'' (\<lambda>rows. q\<lparr>q_memories := rows\<rparr>)
       (sql_delete (\<lambda>e. meID e = i \<and> meUserID e = u) (q_memories q))"

section \<open>Marketplace\<close>

definition sq_CreateMarketplaceItem :: "sqlite \<Rightarrow> marketplace_item \<Rightarrow> sqlite result" where
  "sq_CreateMarketplaceItem q it =
     stored [] (\<lambda>rows. q\<lparr>q_market := rows\<rparr>)
       (sql_insert (key_ok miID) (q_clash q) it (q_market q))"

definition sq_GetMarketplaceItem :: "sqlite \<Rightarrow> string \<Rightarrow> marketplace_item result" where
  "sq_GetMarketplaceItem q i =
     row_or ''marketplace item not found'' (find (\<lambda>it. miID it = i) (q_market q))"

definition sq_ListMarketplaceItems :: "sqlite \<Rightarrow> bool \<Rightarrow> string \<Rightarrow> marketplace_item list" where
  "sq_ListMarketplaceItems q publicOnly publisher =
     filter (\<lambda>it. \<not> (publicOnly \<and> \<not> miPublic it) \<and>
                  \<not> (publisher \<noteq> [] \<and> miPublisherUserID it \<noteq> publisher))
       (take 500 (sort_slice (col_desc miCreatedAt) (q_market q)))"

definition sq_DeleteMarketplaceItem :: "sqlite \<Rightarrow> string \<Rightarrow> string \<Rightarrow> sqlite result" where
  "sq_DeleteMarketplaceItem q publisher i =
     affected_or [] ''marketplace item not found'' (\<lambda>rows. q\<lparr>q_market := rows\<rparr>)
       (sql_delete (\<lambda>it. miID it = i \<and> miPublisherUserID it = publisher) (q_market q))"

section \<open>Lineage and the identity graph\<close>

definition sq_AppendLineage :: "sqlite \<Rightarrow> lineage_event \<Rightarrow> sqlite result" where
  "sq_AppendLineage q e =
     stored [] (\<lambda>rows. q\<lparr>q_lineage := rows\<rparr>)
       (sql_insert (key_ok leID) (q_clash q) e (q_lineage q))"

definition sq_ListLineage :: "sqlite \<Rightarrow> string \<Rightarrow> string \<Rightarrow> int \<Rightarrow> lineage_event list" where
  "sq_ListLineage q u entity limit0 =
     (let limit = (if limit0 \<le> 0 \<or> limit0 > 500 then 100 else limit0);
          rows = take (nat (limit * 2))
                   (sort_slice (col_desc leCreatedAt) (filter (\<lambda>e. leUserID e = u) (q_lineage q)))
      in take (nat limit)
           (filter (\<lambda>e. \<not> (entity \<noteq> [] \<and> leEntity e \<noteq> entity \<and> leParent e \<noteq> entity)) rows))"

definition sq_UpsertGraphEdge :: "sqlite \<Rightarrow> graph_edge \<Rightarrow> sqlite result" where
  "sq_UpsertGraphEdge q e =
     Inr (q\<lparr>q_graph := filter (\<lambda>r. geID r \<noteq> geID e) (q_graph q) @ [e]\<rparr>)"

definition sq_ListGraphEdges :: "sqlite \<Rightarrow> string \<Rightarrow> string \<Rightarrow> string \<Rightarrow> int \<Rightarrow> graph_edge list" where
  "sq_ListGraphEdges q u subject object limit0 =
     (let limit = (if limit0 \<le> 0 \<or> limit0 > 500 then 100 else limit0);
          rows = take (nat (limit * 3)) (filter (\<lambda>e. geUserID e = u) (q_graph q))
      in take (nat limit)
           (filter (\<lambda>e. \<not> (subject \<noteq> [] \<and> geSubject e \<noteq> subject) \<and>
                        \<not> (object \<noteq> [] \<and> geObject e \<noteq> object)) rows))"

section \<open>Purchases\<close>

definition sq_CreatePurchase :: "sqlite \<Rightarrow> purchase \<Rightarrow> sqlite result" where
  "sq_CreatePurchase q p =
     stored [] (\<lambda>rows. q\<lparr>q_purchases := rows\<rparr>)
       (sql_insert (key_ok puID) (q_clash q) p (q_purchases q))"

definition sq_GetPurchase :: "sqlite \<Rightarrow> string \<Rightarrow> string \<Rightarrow> purchase result" where
  "sq_GetPurchase q u i =
     row_or ''purchase not found'' (find (\<lambda>p. puID p = i \<and> puUserID p = u) (q_purchases q))"

definition sq_ListPurchases :: "sqlite \<Rightarrow> string \<Rightarrow> int \<Rightarrow> purchase list" where
  "sq_ListPurchases q u limit0 =
     (let limit = (if limit0 \<le> 0 \<or> limit0 > 200 then 50 else limit0)
      in take (nat limit)
           (sort_slice (col_desc puCreatedAt) (filter (\<lambda>p. puUserID p = u) (q_purchases q))))"

definition sq_UpdatePurchase :: "sqlite \<Rightarrow> purchase \<Rightarrow> sqlite result" where
  "sq_UpdatePurchase q p =
     affected_or [] ''purchase not found'' (\<lambda>rows. q\<lparr>q_purchases := rows\<rparr>)
       (sql_update (key_ok puID) (q_clash q) (\<lambda>r. puID r = puID p \<and> puUserID r = puUserID p)
          (\<lambda>r. r\<lparr>puStatus := puStatus p, puProvider := puProvider p, puProviderRef := puProviderRef p\<rparr>)
          (q_purchases q))"

section \<open>Connectors\<close>

definition sq_CreateConnector :: "sqlite \<Rightarrow> connector_binding \<Rightarrow> sqlite result" where
  "sq_CreateConnector q c =
     stored [] (\<lambda>rows. q\<lparr>q_connectors := rows\<rparr>)
       (sql_insert (key_ok cbID) (q_clash q) c (q_connectors q))"

definition sq_GetConnector :: "sqlite \<Rightarrow> string \<Rightarrow> string \<Rightarrow> connector_binding result" where
  "sq_GetConnector q u i =
     row_or ''connector not found'' (find (\<lambda>c. cbID c = i \<and> cbUserID c = u) (q_connectors q))"

definition sq_ListConnectors :: "sqlite \<Rightarrow> string \<Rightarrow> connector_binding list" where
  "sq_ListConnectors q u =
     sort_slice (col_desc cbCreatedAt) (filter (\<lambda>c. cbUserID c = u) (q_connectors q))"

definition sq_DeleteConnector :: "sqlite \<Rightarrow> string \<Rightarrow> string \<Rightarrow> sqlite result" where
  "sq_DeleteConnector q u i =
     affected_or [] ''connector not found'' (\<lambda>rows. q\<lparr>q_connectors := rows\<rparr>)
       (sql_delete (\<lambda>c. cbID c = i \<and> cbUserID c = u) (q_connectors q))"

end
