(* ===== verification/Sqlite_Jobs.thy ===== *)
theory Sqlite_Jobs
  imports Sql_Table Store_Jobs
begin

text \<open>
  Jobs and the webhook outbox of the SQLite store (\<open>internal/store/sqlite.go\<close>): the filtered and
  paged listings, the claim by \<open>UPDATE ... RETURNING\<close>, the retention purges. The limits are those
  of the in-memory store. The empty texts that stand for zero instants and empty labels are the
  zero instants and empty maps of the row.
\<close>

section \<open>Lookup, creation, update\<close>

definition sq_CreateJob :: "sqlite \<Rightarrow> job \<Rightarrow> sqlite result" where
  "sq_CreateJob q j =
     stored ''create job: '' (\<lambda>rows. q\<lparr>q_jobs := rows\<rparr>)
       (sql_insert jobs_ok (q_clash q) j (q_jobs q))"

definition sq_GetJob :: "sqlite \<Rightarrow> string \<Rightarrow> string \<Rightarrow> job result" where
  "sq_GetJob q u i = row_or ''job not found'' (find (\<lambda>j. jID j = i \<and> jUserID j = u) (q_jobs q))"

definition sq_GetJobByID :: "sqlite \<Rightarrow> string \<Rightarrow> job result" where
  "sq_GetJobByID q i = row_or ''job not found'' (find (\<lambda>j. jID j = i) (q_jobs q))"

definition sq_GetJobByIdempotencyKey :: "sqlite \<Rightarrow> string \<Rightarrow> string \<Rightarrow> job result" where
  "sq_GetJobByIdempotencyKey q u key0 =
     (let key = trim_space key0
      in if key = [] then Inl (Errorf ''job not found'')
         else row_or ''job not found'' (find (\<lambda>j. jUserID j = u \<and> jIdempotencyKey j = key) (q_jobs q)))"

text \<open>Every column but the identifier, the owner and the creation instant.\<close>

definition set_job :: "job \<Rightarrow> job \<Rightarrow> job" where
  "set_job j cur = j\<lparr>jID := jID cur, jUserID := jUserID cur, jCreatedAt := jCreatedAt cur\<rparr>"

definition sq_UpdateJob :: "sqlite \<Rightarrow> job \<Rightarrow> sqlite result" where
  "sq_UpdateJob q j =
     affected_or [] ''job not found'' (\<lambda>rows. q\<lparr>q_jobs := rows\<rparr>)
       (sql_update jobs_ok (q_clash q) (\<lambda>r. jID r = jID j \<and> jUserID r = jUserID j) (set_job j) (q_jobs q))"

section \<open>Listings\<close>

definition job_desc :: "job \<Rightarrow> job \<Rightarrow> bool" where
  "job_desc a b \<longleftrightarrow>
     ts_before (jCreatedAt b) (jCreatedAt a) \<or> (jCreatedAt a = jCreatedAt b \<and> jID b < jID a)"

definition job_asc :: "job \<Rightarrow> job \<Rightarrow> bool" where
  "job_asc a b \<longleftrightarrow>
     ts_before (jCreatedAt a) (jCreatedAt b) \<or> (jCreatedAt a = jCreatedAt b \<and> jID a < jID b)"

definition job_queue_order :: "job \<Rightarrow> job \<Rightarrow> bool" where
  "job_queue_order a b \<longleftrightarrow>
     jPriority b < jPriority a \<or>
     (jPriority a = jPriority b \<and> ts_before (jCreatedAt a) (jCreatedAt b))"

definition sq_past_cursor :: "time \<Rightarrow> string \<Rightarrow> job \<Rightarrow> bool" where
  "sq_past_cursor created cid j \<longleftrightarrow>
     (if \<not> is_zero created \<and> cid \<noteq> []
      then ts_before (jCreatedAt j) created \<or> (jCreatedAt j = created \<and> jID j < cid)
      else True)"

definition sq_ListJobsAdmin :: "sqlite \<Rightarrow> admin_job_filter \<Rightarrow> job list" where
  "sq_ListJobsAdmin q f =
     (let limit = (if ajLimit f \<le> 0 then 100 else ajLimit f);
          limit = (if limit > 501 then 501 else limit);
          region = trim_space (ajRegionHint f); runner = trim_space (ajClaimedByRunnerID f)
      in take (nat limit)
           (sort_slice job_desc
              (filter (\<lambda>j. (ajUserID f = [] \<or> jUserID j = ajUserID f) \<and>
                           (ajStatus f = [] \<or> jStatus j = ajStatus f) \<and>
                           (region = [] \<or> jRegionHint j = region) \<and>
                           (runner = [] \<or> jClaimedByRunnerID j = runner) \<and>
                           sq_past_cursor (ajCursorCreated f) (ajCursorID f) j) (q_jobs q))))"

definition sq_ListJobs :: "sqlite \<Rightarrow> string \<Rightarrow> job list" where
  "sq_ListJobs q u = sort_slice (col_desc jCreatedAt) (filter (\<lambda>j. jUserID j = u) (q_jobs q))"

text \<open>The JSON path of a label: quoted where the name holds a dot or a dash.\<close>

definition label_path :: "string \<Rightarrow> string" where
  "label_path k =
     (if CHR ''.'' \<in> set k \<or> CHR ''-'' \<in> set k
      then ''$.'' @ [CHR 0x22] @ filter (\<lambda>c. c \<noteq> CHR 0x22) k @ [CHR 0x22]
      else ''$.'' @ k)"

definition sq_labels_match :: "sqlite \<Rightarrow> string gomap \<Rightarrow> job \<Rightarrow> bool" where
  "sq_labels_match q want j \<longleftrightarrow>
     list_all (\<lambda>(k0, v).
        let k = trim_space k0 in k = [] \<or> q_json q (jLabels j) (label_path k) = Some v) want"

definition sq_ListJobsPage :: "sqlite \<Rightarrow> job_list_filter \<Rightarrow> job list" where
  "sq_ListJobsPage q f =
     (let limit = (if jlLimit f \<le> 0 then 100 else jlLimit f);
          limit = (if limit > 501 then 501 else limit);
          aid = trim_space (jlAgentID f); cid = trim_space (jlClaimedByAgentID f);
          rid = trim_space (jlClaimedByRunnerID f); reg = trim_space (jlRegionHint f);
          st = trim_space (jlStatus f)
      in take (nat limit)
           (sort_slice job_desc
              (filter (\<lambda>j. jUserID j = trim_space (jlUserID f) \<and>
                           (aid = [] \<or> jAgentID j = aid) \<and>
                           (cid = [] \<or> jClaimedByAgentID j = cid) \<and>
                           (rid = [] \<or> jClaimedByRunnerID j = rid) \<and>
                           (reg = [] \<or> jRegionHint j = reg) \<and>
                           (st = [] \<or> jStatus j = st) \<and>
                           sq_labels_match q (jlLabels f) j \<and>
                           sq_past_cursor (jlCursorCreated f) (jlCursorID f) j) (q_jobs q))))"

text \<open>\<open>SELECT status, COUNT(*) ... GROUP BY status\<close>, then one addition per group.\<close>

definition status_groups :: "string list \<Rightarrow> (string \<times> nat) list" where
  "status_groups ss = map (\<lambda>s. (s, length (filter (\<lambda>x. x = s) ss))) (remdups ss)"

definition add_group :: "string \<times> nat \<Rightarrow> job_status_counts \<Rightarrow> job_status_counts" where
  "add_group g c0 =
     (case g of (status, n) \<Rightarrow>
        (let c = (if status = ''pending'' then c0\<lparr>cPending := cPending c0 + n\<rparr>
                  else if status = ''dispatched'' then c0\<lparr>cDispatched := cDispatched c0 + n\<rparr>
                  else if status = ''running'' then c0\<lparr>cRunning := cRunning c0 + n\<rparr>
                  else if status = ''succeeded'' then c0\<lparr>cSucceeded := cSucceeded c0 + n\<rparr>
                  else if status = ''failed'' then c0\<lparr>cFailed := cFailed c0 + n\<rparr>
                  else if status = ''cancelled'' then c0\<lparr>cCancelled := cCancelled c0 + n\<rparr>
                  else c0)
         in c\<lparr>cTotal := cTotal c + n\<rparr>))"

definition sq_CountJobsByStatus :: "sqlite \<Rightarrow> string \<Rightarrow> job_status_counts" where
  "sq_CountJobsByStatus q u0 =
     (let u = trim_space u0;
          rows = (if u \<noteq> [] then filter (\<lambda>j. jUserID j = u) (q_jobs q) else q_jobs q)
      in fold add_group (status_groups (map jStatus rows))
           \<lparr>cPending = 0, cDispatched = 0, cRunning = 0, cSucceeded = 0, cFailed = 0, cCancelled = 0,
            cTotal = 0\<rparr>)"

definition sq_ListPendingJobs :: "sqlite \<Rightarrow> string \<Rightarrow> job list" where
  "sq_ListPendingJobs q u =
     sort_slice job_queue_order
       (filter (\<lambda>j. jUserID j = u \<and> jStatus j \<in> set [''pending'', ''dispatched'']) (q_jobs q))"

definition sq_ListRunningJobs :: "sqlite \<Rightarrow> string \<Rightarrow> job list" where
  "sq_ListRunningJobs q u0 =
     (let u = trim_space u0
      in sort_slice job_asc
           (if u \<noteq> [] then filter (\<lambda>j. jUserID j = u \<and> jStatus j = ''running'') (q_jobs q)
            else filter (\<lambda>j. jStatus j = ''running'') (q_jobs q)))"

section \<open>Retention\<close>

definition sq_DeleteWebhookOutboxByJobIDs :: "sqlite \<Rightarrow> string list \<Rightarrow> sqlite \<times> nat" where
  "sq_DeleteWebhookOutboxByJobIDs q ids =
     fold (\<lambda>i (q, n). (q\<lparr>q_outbox := filter (\<lambda>e. wJobID e \<noteq> i) (q_outbox q)\<rparr>,
                       n + length (filter (\<lambda>e. wJobID e = i) (q_outbox q)))) ids (q, 0)"

definition sq_PurgeTerminalJobs :: "sqlite \<Rightarrow> time \<Rightarrow> int \<Rightarrow> sqlite \<times> nat" where
  "sq_PurgeTerminalJobs q olderThan limit0 =
     (let limit = (if limit0 \<le> 0 then 500 else limit0);
          limit = (if limit > 5000 then 5000 else limit);
          ids = map jID (take (nat limit)
                  (sort_slice (col_asc jUpdatedAt)
                     (filter (\<lambda>j. jStatus j \<in> set [''succeeded'', ''failed'', ''cancelled''] \<and>
                                  ts_before (jUpdatedAt j) olderThan) (q_jobs q))));
          (q1, n) = fold (\<lambda>i (q, n). (q\<lparr>q_jobs := filter (\<lambda>j. jID j \<noteq> i) (q_jobs q)\<rparr>,
                                      n + length (filter (\<lambda>j. jID j = i) (q_jobs q)))) ids (q, 0)
      in (if ids \<noteq> [] then fst (sq_DeleteWebhookOutboxByJobIDs q1 ids) else q1, n))"

section \<open>The claim\<close>

definition sq_ClaimPendingJob ::
  "time \<Rightarrow> sqlite \<Rightarrow> string \<Rightarrow> string \<Rightarrow> string \<Rightarrow> string \<Rightarrow> (sqlite \<times> job) result" where
  "sq_ClaimPendingJob now q u i agent runner =
     (let P = (\<lambda>j. jID j = i \<and> jUserID j = u \<and> jStatus j \<in> set [''pending'', ''dispatched'']);
          set_claim = (\<lambda>j. j\<lparr>jStatus := ''running'', jClaimedByAgentID := agent,
                             jClaimedByRunnerID := runner, jHeartbeatAt := now, jClaimedAt := now,
                             jAttemptCount := jAttemptCount j + 1, jUpdatedAt := now\<rparr>)
      in (case find P (q_jobs q) of
            None \<Rightarrow>
              (case sq_GetJob q u i of
                 Inl _ \<Rightarrow> Inl (Errorf ''job not found'')
               | Inr cur \<Rightarrow> Inl (Errorf (''job not claimable: '' @ jStatus cur)))
          | Some j \<Rightarrow>
              Inr (q\<lparr>q_jobs := map (\<lambda>j. if P j then set_claim j else j) (q_jobs q)\<rparr>, set_claim j)))"

section \<open>The webhook outbox\<close>

definition sq_EnqueueWebhookOutbox :: "sqlite \<Rightarrow> webhook_outbox \<Rightarrow> sqlite result" where
  "sq_EnqueueWebhookOutbox q e =
     (if trim_space (wID e) = [] then Inl (Errorf ''webhook outbox id required'')
      else stored ''enqueue webhook outbox: '' (\<lambda>rows. q\<lparr>q_outbox := rows\<rparr>)
             (sql_insert (key_ok wID) (q_clash q) e (q_outbox q)))"

definition sq_ListDueWebhookOutbox :: "sqlite \<Rightarrow> time \<Rightarrow> int \<Rightarrow> webhook_outbox list" where
  "sq_ListDueWebhookOutbox q now limit0 =
     (let limit = (if limit0 \<le> 0 then 32 else limit0);
          limit = (if limit > 200 then 200 else limit)
      in take (nat limit)
           (sort_slice (col_asc wNextAttemptAt)
              (filter (\<lambda>e. wStatus e = ''pending'' \<and> ts_le (wNextAttemptAt e) now) (q_outbox q))))"

definition set_outbox :: "webhook_outbox \<Rightarrow> webhook_outbox \<Rightarrow> webhook_outbox" where
  "set_outbox e cur = e\<lparr>wID := wID cur, wCreatedAt := wCreatedAt cur\<rparr>"

definition sq_UpdateWebhookOutbox :: "sqlite \<Rightarrow> webhook_outbox \<Rightarrow> sqlite result" where
  "sq_UpdateWebhookOutbox q e =
     (if trim_space (wID e) = [] then Inl (Errorf ''webhook outbox id required'')
      else affected_or [] ''webhook outbox not found'' (\<lambda>rows. q\<lparr>q_outbox := rows\<rparr>)
             (sql_update (key_ok wID) (q_clash q) (\<lambda>r. wID r = wID e) (set_outbox e) (q_outbox q)))"

definition sq_GetWebhookOutbox :: "sqlite \<Rightarrow> string \<Rightarrow> webhook_outbox result" where
  "sq_GetWebhookOutbox q i0 =
     (let i = trim_space i0
      in if i = [] then Inl (Errorf ''webhook outbox not found'')
         else row_or ''webhook outbox not found'' (find (\<lambda>e. wID e = i) (q_outbox q)))"

definition sq_ListWebhookOutbox :: "sqlite \<Rightarrow> webhook_outbox_filter \<Rightarrow> webhook_outbox list" where
  "sq_ListWebhookOutbox q f =
     (let limit = (if wfLimit f \<le> 0 then 100 else wfLimit f);
          limit = (if limit > 500 then 500 else limit);
          status = trim_space (wfStatus f); jobID = trim_space (wfJobID f);
          userID = trim_space (wfUserID f); event = trim_space (wfEvent f)
      in take (nat limit)
           (sort_slice (col_desc wCreatedAt)
              (filter (\<lambda>e. (status = [] \<or> wStatus e = status) \<and> (jobID = [] \<or> wJobID e = jobID) \<and>
                           (userID = [] \<or> wUserID e = userID) \<and> (event = [] \<or> wEvent e = event))
                 (q_outbox q))))"

definition add_outbox_group :: "string \<times> nat \<Rightarrow> webhook_outbox_counts \<Rightarrow> webhook_outbox_counts" where
  "add_outbox_group g c0 =
     (case g of (status, n) \<Rightarrow>
        (let c = (if status = ''pending'' then c0\<lparr>wcPending := wcPending c0 + n\<rparr>
                  else if status = ''delivered'' then c0\<lparr>wcDelivered := wcDelivered c0 + n\<rparr>
                  else if status = ''dead'' then c0\<lparr>wcDead := wcDead c0 + n\<rparr>
                  else c0)
         in c\<lparr>wcTotal := wcTotal c + n\<rparr>))"

definition sq_CountWebhookOutbox :: "sqlite \<Rightarrow> webhook_outbox_counts" where
  "sq_CountWebhookOutbox q =
     fold add_outbox_group (status_groups (map wStatus (q_outbox q)))
       \<lparr>wcPending = 0, wcDelivered = 0, wcDead = 0, wcTotal = 0\<rparr>"

text \<open>\<open>COALESCE(NULLIF(delivered_at,''), updated_at)\<close>.\<close>

definition settled_column :: "webhook_outbox \<Rightarrow> time" where
  "settled_column e = (if is_zero (wDeliveredAt e) then wUpdatedAt e else wDeliveredAt e)"

definition sq_PurgeWebhookOutbox :: "sqlite \<Rightarrow> time \<Rightarrow> int \<Rightarrow> sqlite \<times> nat" where
  "sq_PurgeWebhookOutbox q olderThan limit0 =
     (let limit = (if limit0 \<le> 0 then 500 else limit0);
          limit = (if limit > 5000 then 5000 else limit);
          ids = map wID (take (nat limit)
                  (sort_slice (col_asc settled_column)
                     (filter (\<lambda>e. (wStatus e = ''delivered'' \<and>
                                     ((\<not> is_zero (wDeliveredAt e) \<and> ts_before (wDeliveredAt e) olderThan) \<or>
                                      (is_zero (wDeliveredAt e) \<and> ts_before (wUpdatedAt e) olderThan))) \<or>
                                  (wStatus e = ''dead'' \<and> ts_before (wUpdatedAt e) olderThan))
                        (q_outbox q))))
      in fold (\<lambda>i (q, n). (q\<lparr>q_outbox := filter (\<lambda>e. wID e \<noteq> i) (q_outbox q)\<rparr>,
                           n + length (filter (\<lambda>e. wID e = i) (q_outbox q)))) ids (q, 0))"

end
