(* ===== verification/Sqlite_Refinement.thy ===== *)
theory Sqlite_Refinement
  imports Sqlite_Simulation Sqlite_Accounts Sqlite_Resources Sqlite_Jobs
    Store_Accounts Store_Resources Store_StageC
begin

text \<open>
  The SQLite store against the in-memory store. \<open>represents q m\<close> relates their states table by table,
  \<open>store_write\<close> lists the calls that change a table both keep, and every call, run on both sides,
  agrees: same errors, related states. The audit log, the token denylist and the lineage log are
  pruned by other rules on the two sides and are not related.
\<close>

section \<open>Related states\<close>

definition represents :: "sqlite \<Rightarrow> memory \<Rightarrow> bool" where
  "represents q m \<longleftrightarrow>
     users_ok (q_users q) \<and> drives_ok (q_drives q) \<and> jobs_ok (q_jobs q) \<and> refresh_ok (q_refresh q) \<and>
     (\<forall>u \<in> set (q_users q). uRole u \<noteq> []) \<and>
     sim uUsername (q_users q) (m_users m) \<and>
     sim pID (q_providers q) (m_providers m) \<and>
     sim dID (q_drives q) (m_drives m) \<and>
     sim bID (q_bindings q) (m_bindings m) \<and>
     sim vID (q_devices q) (m_devices m) \<and>
     sim jID (q_jobs q) (m_jobs m) \<and>
     sim rtID (q_refresh q) (m_refresh m) \<and>
     sim agID (q_agents q) (m_agents m) \<and>
     sim snID (q_snapshots q) (m_snapshots m) \<and>
     sim meID (q_memories q) (m_memories m) \<and>
     sim miID (q_market q) (m_market m) \<and>
     sim geID (q_graph q) (m_graph m) \<and>
     sim puID (q_purchases q) (m_purchases m) \<and>
     sim cbID (q_connectors q) (m_connectors m) \<and>
     sim wID (q_outbox q) (m_webhooks m)"

lemma representsD:
  assumes "represents q m"
  shows "users_ok (q_users q)" "drives_ok (q_drives q)" "jobs_ok (q_jobs q)" "refresh_ok (q_refresh q)"
    "u \<in> set (q_users q) \<Longrightarrow> uRole u \<noteq> []"
    "sim uUsername (q_users q) (m_users m)"
    "sim pID (q_providers q) (m_providers m)"
    "sim dID (q_drives q) (m_drives m)"
    "sim bID (q_bindings q) (m_bindings m)"
    "sim vID (q_devices q) (m_devices m)"
    "sim jID (q_jobs q) (m_jobs m)"
    "sim rtID (q_refresh q) (m_refresh m)"
    "sim agID (q_agents q) (m_agents m)"
    "sim snID (q_snapshots q) (m_snapshots m)"
    "sim meID (q_memories q) (m_memories m)"
    "sim miID (q_market q) (m_market m)"
    "sim geID (q_graph q) (m_graph m)"
    "sim puID (q_purchases q) (m_purchases m)"
    "sim cbID (q_connectors q) (m_connectors m)"
    "sim wID (q_outbox q) (m_webhooks m)"
  using assms unfolding represents_def by blast+

lemma represents_upd:
  assumes "represents q m"
  shows "users_ok rows1 \<Longrightarrow> (\<And>u. u \<in> set rows1 \<Longrightarrow> uRole u \<noteq> []) \<Longrightarrow> sim uUsername rows1 n1 \<Longrightarrow> represents (q\<lparr>q_users := rows1\<rparr>) (m\<lparr>m_users := n1\<rparr>)"
    and "sim pID rows2 n2 \<Longrightarrow> represents (q\<lparr>q_providers := rows2\<rparr>) (m\<lparr>m_providers := n2\<rparr>)"
    and "drives_ok rows3 \<Longrightarrow> sim dID rows3 n3 \<Longrightarrow> represents (q\<lparr>q_drives := rows3\<rparr>) (m\<lparr>m_drives := n3\<rparr>)"
    and "sim bID rows4 n4 \<Longrightarrow> represents (q\<lparr>q_bindings := rows4\<rparr>) (m\<lparr>m_bindings := n4\<rparr>)"
    and "sim vID rows5 n5 \<Longrightarrow> represents (q\<lparr>q_devices := rows5\<rparr>) (m\<lparr>m_devices := n5\<rparr>)"
    and "jobs_ok rows6 \<Longrightarrow> sim jID rows6 n6 \<Longrightarrow> represents (q\<lparr>q_jobs := rows6\<rparr>) (m\<lparr>m_jobs := n6\<rparr>)"
    and "refresh_ok rows7 \<Longrightarrow> sim rtID rows7 n7 \<Longrightarrow> represents (q\<lparr>q_refresh := rows7\<rparr>) (m\<lparr>m_refresh := n7\<rparr>)"
    and "sim agID rows8 n8 \<Longrightarrow> represents (q\<lparr>q_agents := rows8\<rparr>) (m\<lparr>m_agents := n8\<rparr>)"
    and "sim snID rows9 n9 \<Longrightarrow> represents (q\<lparr>q_snapshots := rows9\<rparr>) (m\<lparr>m_snapshots := n9\<rparr>)"
    and "sim meID rows10 n10 \<Longrightarrow> represents (q\<lparr>q_memories := rows10\<rparr>) (m\<lparr>m_memories := n10\<rparr>)"
    and "sim miID rows11 n11 \<Longrightarrow> represents (q\<lparr>q_market := rows11\<rparr>) (m\<lparr>m_market := n11\<rparr>)"
    and "sim geID rows12 n12 \<Longrightarrow> represents (q\<lparr>q_graph := rows12\<rparr>) (m\<lparr>m_graph := n12\<rparr>)"
    and "sim puID rows13 n13 \<Longrightarrow> represents (q\<lparr>q_purchases := rows13\<rparr>) (m\<lparr>m_purchases := n13\<rparr>)"
    and "sim cbID rows14 n14 \<Longrightarrow> represents (q\<lparr>q_connectors := rows14\<rparr>) (m\<lparr>m_connectors := n14\<rparr>)"
    and "sim wID rows15 n15 \<Longrightarrow> represents (q\<lparr>q_outbox := rows15\<rparr>) (m\<lparr>m_webhooks := n15\<rparr>)"
  using assms unfolding represents_def by simp_all

lemma represents_fresh: "represents (fresh_db clash json) NewMemory"
  by (simp add: represents_def fresh_db_def NewMemory_def users_ok_def drives_ok_def jobs_ok_def
      refresh_ok_def)

lemma affected_put_id:
  "affected_or ctxt err (\<lambda>rows. rows) r = Inr rows \<Longrightarrow> affected_or ctxt err put r = Inr (put rows)"
  by (cases r) (auto simp: affected_or_def split: if_splits)

section \<open>Users\<close>

lemma update_first_gset:
  "keyed f m \<Longrightarrow> update_first P g m = (case find P (gvals m) of None \<Rightarrow> None | Some v \<Rightarrow> Some (gset (f v) (g v) m))"
proof (induction m)
  case Nil
  then show ?case by simp
next
  case (Cons a m)
  obtain k0 v0 where a: "a = (k0, v0)" by (cases a)
  have m: "keyed f m" "f v0 = k0" "k0 \<notin> fst ` set m" using Cons.prems a by (auto simp: keyed_def)
  have "f v \<noteq> k0" if "find P (gvals m) = Some v" for v
  proof -
    have "v \<in> snd ` set m" using find_SomeD [OF that] by simp
    then have "gget m (f v) = Some v" using keyed_in [OF m(1), of v] by simp
    moreover have "gget m k0 = None" using m(3) by (simp add: map_of_eq_None_iff)
    ultimately show ?thesis by auto
  qed
  with Cons.IH [OF m(1)] a m(2) show ?case by (auto split: option.splits)
qed

lemma users_find_id:
  assumes "sim uUsername rows m" "users_ok rows"
  shows "find (\<lambda>u. uID u = i) rows = find (\<lambda>u. uID u = i) (gvals m)"
  using assms(2) simD(2) [OF assms(1)]
  by (intro find_mset) (auto simp: users_ok_def distinct_map dest: inj_onD)

lemma users_update:
  assumes s: "sim uUsername rows m" and ok: "users_ok rows" and roles: "\<And>u. u \<in> set rows \<Longrightarrow> uRole u \<noteq> []"
    and g: "\<And>u. uUsername (g u) = uUsername u" "\<And>u. uID (g u) = uID u" "\<And>u. uRole u \<noteq> [] \<Longrightarrow> uRole (g u) \<noteq> []"
  obtains "affected_or ctxt err put (sql_update users_ok c (\<lambda>u. uID u = i) g rows) = Inl (Errorf err)"
      "update_first (\<lambda>u. uID u = i) g m = None" "find (\<lambda>u. uID u = i) (gvals m) = None"
  | us rows' v where
      "affected_or ctxt err put (sql_update users_ok c (\<lambda>u. uID u = i) g rows) = Inr (put rows')"
      "update_first (\<lambda>u. uID u = i) g m = Some us" "sim uUsername rows' us" "users_ok rows'"
      "\<And>u. u \<in> set rows' \<Longrightarrow> uRole u \<noteq> []" "find (\<lambda>u. uID u = i) (gvals m) = Some v"
      "find (\<lambda>u. uID u = i) rows' = Some (g v)"
proof (cases "find (\<lambda>u. uID u = i) (gvals m)")
  case None
  then have "filter (\<lambda>u. uID u = i) rows = []" using sim_set [OF s]
    by (auto simp: find_None_iff filter_empty_conv)
  moreover from this have "map (\<lambda>u. if uID u = i then g u else u) rows = rows"
    by (auto simp: filter_empty_conv intro!: map_idI)
  ultimately have "affected_or ctxt err put (sql_update users_ok c (\<lambda>u. uID u = i) g rows) = Inl (Errorf err)"
    using ok by (simp add: affected_or_def sql_update_def)
  with None that(1) show ?thesis by (simp add: update_first_gset [OF simD(1) [OF s]])
next
  case (Some v)
  let ?h = "\<lambda>u. if uID u = i then g u else u" and ?rows' = "map (\<lambda>u. if uID u = i then g u else u) rows"
  have v: "uID v = i" "v \<in> set rows"
    using find_SomeD [OF Some] sim_set [OF s] by auto
  have get: "gget m (uUsername v) = Some v" using v s by (simp add: sim_in)
  have iff: "uID r = i \<longleftrightarrow> r = v" if "r \<in> set rows" for r
    using that v ok by (auto simp: users_ok_def distinct_map dest: inj_onD)
  have same: "map uID ?rows' = map uID rows" "map uUsername ?rows' = map uUsername rows"
    using g by (auto intro!: map_cong)
  have ok': "users_ok ?rows'" using ok unfolding users_ok_def same .
  have n: "length (filter (\<lambda>u. uID u = i) rows) \<noteq> 0" using v by (auto simp: filter_empty_conv)
  have updated: "affected_or ctxt err put (sql_update users_ok c (\<lambda>u. uID u = i) g rows) = Inr (put ?rows')"
    using ok' n by (simp only: affected_or_def sql_update_def Let_def if_True if_False sum.case prod.case)
  have s': "sim uUsername ?rows' (gset (uUsername v) (g v) m)"
    using iff g(1) by (intro sim_update_where [where P = "\<lambda>u. uID u = i" and g = g, OF s get]) simp_all
  have roles': "uRole u \<noteq> []" if "u \<in> set ?rows'" for u
    using that roles g(3) by (auto split: if_splits)
  have "find (\<lambda>u. uID u = i) ?rows' = Some (g v)"
    using v iff g(2) by (intro find_the) (auto split: if_splits)
  with that(2) [OF updated _ s' ok' roles' Some] Some show ?thesis
    by (simp add: update_first_gset [OF simD(1) [OF s]])
qed

section \<open>Agreement, call by call\<close>

text \<open>The unique indexes contain the primary key.\<close>

lemma index_key_ok:
  "drives_ok rs \<Longrightarrow> key_ok dID rs" "jobs_ok js \<Longrightarrow> key_ok jID js" "refresh_ok ts \<Longrightarrow> key_ok rtID ts"
  "users_ok us \<Longrightarrow> key_ok uUsername us"
  by (simp_all add: drives_ok_def jobs_ok_def refresh_ok_def users_ok_def key_ok_def)

abbreviation agrees :: "bool \<Rightarrow> sqlite \<Rightarrow> sqlite result \<Rightarrow> memory result \<Rightarrow> bool" where
  "agrees key q \<equiv> agree key (q_clash q) represents"

lemmas represents_intro = represents_upd index_key_ok

lemma drives_ok_filter: "drives_ok rs \<Longrightarrow> drives_ok (filter P rs)"
proof -
  have "filter (\<lambda>d. dAlias d \<noteq> []) (filter P rs) = filter P (filter (\<lambda>d. dAlias d \<noteq> []) rs)"
    by (simp add: conj_commute)
  then show "drives_ok rs \<Longrightarrow> drives_ok (filter P rs)"
    unfolding drives_ok_def by (simp only: distinct_map_filter)
qed

lemma agree_DeleteDrive:
  assumes rep: "represents q m"
  shows "agrees False q (sq_DeleteDrive q u i) (DeleteDrive m u i)"
  unfolding sq_DeleteDrive_def DeleteDrive_def
  by (rule agree_delete [OF representsD(8) [OF rep]])
     (simp add: represents_upd [OF rep] drives_ok_filter [OF representsD(2) [OF rep]])

lemma agree_DeleteSnapshot:
  assumes rep: "represents q m"
  shows "agrees False q (sq_DeleteSnapshot q u d i) (DeleteSnapshot m u d i)"
  using agree_delete [OF representsD(14) [OF rep], where R = represents and k = i
      and Q = "\<lambda>s. snUserID s = u \<and> snDriveID s = d", OF represents_upd(9) [OF rep]]
  unfolding sq_DeleteSnapshot_def DeleteSnapshot_def de_Morgan_conj by simp

lemma agree_UpsertGraphEdge:
  assumes rep: "represents q m" and "geID e \<noteq> []"
  shows "agrees False q (sq_UpsertGraphEdge q e) (UpsertGraphEdge m e)"
  using assms(2) represents_upd(12) [OF rep] sim_replace [OF representsD(17) [OF rep]]
  by (simp add: sq_UpsertGraphEdge_def UpsertGraphEdge_def)

lemma agree_CreateRefreshToken:
  assumes rep: "represents q m" and "rtID t \<noteq> []" "rtTokenHash t \<noteq> []"
  shows "agrees (\<not> refresh_ok (q_refresh q @ [t])) q (sq_CreateRefreshToken q t) (CreateRefreshToken m t)"
  using assms unfolding sq_CreateRefreshToken_def CreateRefreshToken_def
  by (simp?, intro agree_insert [OF representsD(12) [OF rep]]) (auto intro: represents_intro)

lemma agree_CreateAgent:
  assumes rep: "represents q m"
  shows "agrees (\<not> key_ok agID (q_agents q @ [a])) q (sq_CreateAgent q a) (CreateAgent m a)"
  using assms unfolding sq_CreateAgent_def CreateAgent_def
  by (simp?, intro agree_insert [OF representsD(13) [OF rep]]) (auto intro: represents_intro)

lemma agree_DeleteAgent:
  assumes rep: "represents q m"
  shows "agrees False q (sq_DeleteAgent q u i) (DeleteAgent m u i)"
  unfolding sq_DeleteAgent_def DeleteAgent_def
  by (rule agree_delete [OF representsD(13) [OF rep]]) (simp add: represents_upd [OF rep])

lemma agree_CreateProvider:
  assumes rep: "represents q m" and "pCredsJSON p \<noteq> []"
  shows "agrees (\<not> key_ok pID (q_providers q @ [p])) q (sq_CreateProvider q p) (CreateProvider m p)"
  using assms unfolding sq_CreateProvider_def CreateProvider_def
  by (simp?, intro agree_insert [OF representsD(7) [OF rep]]) (auto intro: represents_intro)

lemma agree_DeleteProvider:
  assumes rep: "represents q m"
  shows "agrees False q (sq_DeleteProvider q u i) (DeleteProvider m u i)"
  unfolding sq_DeleteProvider_def DeleteProvider_def
  by (rule agree_delete [OF representsD(7) [OF rep]]) (simp add: represents_upd [OF rep])

lemma agree_CreateDrive:
  assumes rep: "represents q m"
  shows "agrees (\<not> drives_ok (q_drives q @ [d])) q (sq_CreateDrive q d) (CreateDrive m d)"
  using assms unfolding sq_CreateDrive_def CreateDrive_def
  by (simp?, intro agree_insert [OF representsD(8) [OF rep]]) (auto intro: represents_intro)

lemma agree_CreateBinding:
  assumes rep: "represents q m"
  shows "agrees (\<not> key_ok bID (q_bindings q @ [b])) q (sq_CreateBinding q b) (CreateBinding m b)"
  using assms unfolding sq_CreateBinding_def CreateBinding_def
  by (simp?, intro agree_insert [OF representsD(9) [OF rep]]) (auto intro: represents_intro)

lemma agree_CreateSnapshot:
  assumes rep: "represents q m"
  shows "agrees (\<not> key_ok snID (q_snapshots q @ [s])) q (sq_CreateSnapshot q s) (CreateSnapshot m s)"
  using assms unfolding sq_CreateSnapshot_def CreateSnapshot_def
  by (simp?, intro agree_insert [OF representsD(14) [OF rep]]) (auto intro: represents_intro)

lemma agree_CreateJob:
  assumes rep: "represents q m"
  shows "agrees (\<not> jobs_ok (q_jobs q @ [j])) q (sq_CreateJob q j) (CreateJob m j)"
  using assms unfolding sq_CreateJob_def CreateJob_def
  by (simp?, intro agree_insert [OF representsD(11) [OF rep]]) (auto intro: represents_intro)

lemma agree_CreateMemory:
  assumes rep: "represents q m" and "meID e \<noteq> []"
  shows "agrees (\<not> key_ok meID (q_memories q @ [e])) q (sq_CreateMemory q e) (CreateMemory m e)"
  using assms unfolding sq_CreateMemory_def CreateMemory_def
  by (simp?, intro agree_insert [OF representsD(15) [OF rep]]) (auto intro: represents_intro)

lemma agree_DeleteMemory:
  assumes rep: "represents q m"
  shows "agrees False q (sq_DeleteMemory q u i) (DeleteMemory m u i)"
  unfolding sq_DeleteMemory_def DeleteMemory_def
  by (rule agree_delete [OF representsD(15) [OF rep]]) (simp add: represents_upd [OF rep])

lemma agree_CreateMarketplaceItem:
  assumes rep: "represents q m" and "miID it \<noteq> []"
  shows "agrees (\<not> key_ok miID (q_market q @ [it])) q (sq_CreateMarketplaceItem q it) (CreateMarketplaceItem m it)"
  using assms unfolding sq_CreateMarketplaceItem_def CreateMarketplaceItem_def
  by (simp?, intro agree_insert [OF representsD(16) [OF rep]]) (auto intro: represents_intro)

lemma agree_DeleteMarketplaceItem:
  assumes rep: "represents q m"
  shows "agrees False q (sq_DeleteMarketplaceItem q u i) (DeleteMarketplaceItem m u i)"
  unfolding sq_DeleteMarketplaceItem_def DeleteMarketplaceItem_def
  by (rule agree_delete [OF representsD(16) [OF rep]]) (simp add: represents_upd [OF rep])

lemma agree_CreatePurchase:
  assumes rep: "represents q m" and "puID p \<noteq> []"
  shows "agrees (\<not> key_ok puID (q_purchases q @ [p])) q (sq_CreatePurchase q p) (CreatePurchase m p)"
  using assms unfolding sq_CreatePurchase_def CreatePurchase_def
  by (simp?, intro agree_insert [OF representsD(18) [OF rep]]) (auto intro: represents_intro)

lemma agree_CreateConnector:
  assumes rep: "represents q m" and "cbID c \<noteq> []"
  shows "agrees (\<not> key_ok cbID (q_connectors q @ [c])) q (sq_CreateConnector q c) (CreateConnector m c)"
  using assms unfolding sq_CreateConnector_def CreateConnector_def
  by (simp?, intro agree_insert [OF representsD(19) [OF rep]]) (auto intro: represents_intro)

lemma agree_DeleteConnector:
  assumes rep: "represents q m"
  shows "agrees False q (sq_DeleteConnector q u i) (DeleteConnector m u i)"
  unfolding sq_DeleteConnector_def DeleteConnector_def
  by (rule agree_delete [OF representsD(19) [OF rep]]) (simp add: represents_upd [OF rep])

lemma agree_CreateUser:
  assumes rep: "represents q m"
  shows "agrees (\<not> users_ok (q_users q @ [norm_role u])) q (sq_CreateUser q u) (CreateUser m u)"
proof -
  let ?u = "norm_role u"
  have norm: "u\<lparr>uRole := if uRole u = [] then ''user'' else uRole u\<rparr> = ?u" by (simp add: norm_role_def)
  have a: "agrees (\<not> users_ok (q_users q @ [?u])) q (stored ''create user: '' (\<lambda>rows. q\<lparr>q_users := rows\<rparr>)
      (sql_insert users_ok (q_clash q) ?u (q_users q)))
      (Inr (m\<lparr>m_users := gset (uUsername ?u) ?u (m_users m)\<rparr>))"
    using representsD(5) [OF rep] norm_role_nonempty [of u]
    by (intro agree_insert [OF representsD(6) [OF rep]]) (auto intro!: represents_upd(1) [OF rep] simp: index_key_ok)
  show ?thesis
  proof (cases "gget (m_users m) (uUsername u)")
    case None
    then show ?thesis using a unfolding sq_CreateUser_def CreateUser_def Let_def norm by simp
  next
    case (Some v)
    then have "v \<in> set (q_users q)" "uUsername v = uUsername u"
      using sim_in [OF representsD(6) [OF rep], of v] sim_key [OF representsD(6) [OF rep]] by auto
    then have "\<not> users_ok (q_users q @ [?u])" by (auto simp: users_ok_def intro: rev_image_eqI)
    then show ?thesis unfolding sq_CreateUser_def Let_def norm
      by (simp only: stored_def sql_insert_def if_False sum.case simp_thms agree_simps)
  qed
qed

lemma agree_user_update:
  assumes rep: "represents q m"
    and g: "\<And>u. uUsername (g u) = uUsername u" "\<And>u. uID (g u) = uID u"
      "\<And>u. uRole u \<noteq> [] \<Longrightarrow> uRole (g u) \<noteq> []"
  shows "agrees False q
    (affected_or ctxt ''user not found'' (\<lambda>rows. q\<lparr>q_users := rows\<rparr>)
       (sql_update users_ok (q_clash q) (\<lambda>u. uID u = i) g (q_users q)))
    (case update_first (\<lambda>u. uID u = i) g (m_users m) of
       None \<Rightarrow> Inl (Errorf ''user not found'') | Some us \<Rightarrow> Inr (m\<lparr>m_users := us\<rparr>))"
  by (rule users_update [where g = g and i = i and ctxt = ctxt and err = "''user not found''"
        and put = "\<lambda>rows. q\<lparr>q_users := rows\<rparr>" and c = "q_clash q",
        OF representsD(6,1,5) [OF rep] g])
     (simp_all add: represents_upd(1) [OF rep])

lemma agree_UpdateUserRole:
  "represents q m \<Longrightarrow> role \<noteq> [] \<Longrightarrow> agrees False q (sq_UpdateUserRole q i role) (UpdateUserRole m i role)"
  unfolding sq_UpdateUserRole_def UpdateUserRole_def by (rule agree_user_update) simp_all

lemma agree_UpdateUserPassword:
  "represents q m \<Longrightarrow> agrees False q (sq_UpdateUserPassword q i h) (UpdateUserPassword m i h)"
  unfolding sq_UpdateUserPassword_def UpdateUserPassword_def by (rule agree_user_update) simp_all

lemma agree_BumpTokenVersion:
  assumes rep: "represents q m"
  shows "agree False (q_clash q) (\<lambda>(q', v) (m', w). represents q' m' \<and> v = w)
    (sq_BumpTokenVersion q i) (BumpTokenVersion m i)"
  unfolding sq_BumpTokenVersion_def BumpTokenVersion_def
  by (rule users_update [where g = "\<lambda>u. u\<lparr>uTokenVersion := uTokenVersion u + 1\<rparr>" and i = i and ctxt = "[]"
        and err = "''user not found''" and put = "\<lambda>rows. q\<lparr>q_users := rows\<rparr>" and c = "q_clash q",
        OF representsD(6,1,5) [OF rep]])
     (simp_all add: represents_upd(1) [OF rep])

lemma agree_BumpAgentTokenVersion:
  assumes rep: "represents q m"
  shows "agree False (q_clash q) (\<lambda>(q', v) (m', w). represents q' m' \<and> v = w)
    (sq_BumpAgentTokenVersion q i) (BumpAgentTokenVersion m i)"
proof -
  let ?g = "\<lambda>a. a\<lparr>agTokenVersion := agTokenVersion a + 1\<rparr>"
  note s = representsD(13) [OF rep]
  show ?thesis
    unfolding sq_BumpAgentTokenVersion_def BumpAgentTokenVersion_def Let_def
  proof (rule update_key_cases [where g = ?g and k = i and Q = "\<lambda>_. True" and ctxt = "[]"
        and err = "''agent not found''" and put = "\<lambda>rows. q\<lparr>q_agents := rows\<rparr>" and c = "q_clash q", OF s],
      goal_cases)
    case (1 v)
    then show ?case by (simp add: sim_key [OF s])
  next
    case 2
    from 2(2) have "gget (m_agents m) i = None" by (cases "gget (m_agents m) i") auto
    with 2(1) show ?case by simp
  next
    case (3 v rows')
    have "find (\<lambda>a. agID a = i) rows' = Some (?g v)" using sim_find_key [OF 3(4)] by simp
    with 3(1,3) represents_upd(8) [OF rep 3(4)] show ?case by simp
  qed
qed

lemma agree_UpdateAgent:
  assumes rep: "represents q m"
    and "\<And>cur. gget (m_agents m) (agID a) = Some cur \<Longrightarrow> agCreatedAt cur = agCreatedAt a"
  shows "agrees False q (sq_UpdateAgent q a) (UpdateAgent m a)"
  unfolding sq_UpdateAgent_def UpdateAgent_def
proof (rule agree_update_key [OF representsD(13) [OF rep]], goal_cases)
  case (1 v)
  then show ?case using sim_key [OF representsD(13) [OF rep]] by (simp add: set_agent_def)
next
  case (2 v rs)
  then have "set_agent a v = a"
    using assms(2) [OF 2(1)] sim_key [OF representsD(13) [OF rep] 2(1)] by (simp add: set_agent_def)
  with 2 show ?case by (simp add: represents_upd [OF rep])
qed

lemma agree_UpdateBinding:
  assumes rep: "represents q m"
    and "\<And>cur. gget (m_bindings m) (bID b) = Some cur \<Longrightarrow> bCreatedAt cur = bCreatedAt b"
  shows "agrees False q (sq_UpdateBinding q b) (UpdateBinding m b)"
  unfolding sq_UpdateBinding_def UpdateBinding_def
proof (rule agree_update_key [OF representsD(9) [OF rep]], goal_cases)
  case (1 v)
  then show ?case using sim_key [OF representsD(9) [OF rep]] by (simp add: set_binding_def)
next
  case (2 v rs)
  then have "set_binding b v = b"
    using assms(2) [OF 2(1)] sim_key [OF representsD(9) [OF rep] 2(1)] by (simp add: set_binding_def)
  with 2 show ?case by (simp add: represents_upd [OF rep])
qed

lemma agree_UpdateDrive:
  assumes rep: "represents q m"
  shows "agrees (\<not> drives_ok (map (\<lambda>r. if dID r = dID d \<and> dUserID r = dUserID d then set_drive d r else r) (q_drives q)))
    q (sq_UpdateDrive q d) (UpdateDrive m d)"
  unfolding sq_UpdateDrive_def UpdateDrive_def
proof (rule agree_update [where ok = drives_ok, OF representsD(8) [OF rep] representsD(2) [OF rep]], goal_cases)
  case (1 v)
  then show ?case using sim_key [OF representsD(8) [OF rep]] by (simp add: set_drive_def)
next
  case (2 v rs)
  then have "set_drive d v = updated_drive m d"
    using sim_key [OF representsD(8) [OF rep] 2(1)] by (simp add: set_drive_def updated_drive_def)
  with 2 show ?case by (simp add: represents_upd [OF rep])
qed

lemma agree_UpdateJob:
  assumes rep: "represents q m"
    and "\<And>cur. gget (m_jobs m) (jID j) = Some cur \<Longrightarrow> jCreatedAt cur = jCreatedAt j"
  shows "agrees (\<not> jobs_ok (map (\<lambda>r. if jID r = jID j \<and> jUserID r = jUserID j then set_job j r else r) (q_jobs q)))
    q (sq_UpdateJob q j) (UpdateJob m j)"
  unfolding sq_UpdateJob_def UpdateJob_def
proof (rule agree_update [where ok = jobs_ok, OF representsD(11) [OF rep] representsD(3) [OF rep]], goal_cases)
  case (1 v)
  then show ?case using sim_key [OF representsD(11) [OF rep]] by (simp add: set_job_def)
next
  case (2 v rs)
  then have "set_job j v = j"
    using assms(2) [OF 2(1)] sim_key [OF representsD(11) [OF rep] 2(1)] by (simp add: set_job_def)
  with 2 show ?case by (simp add: represents_upd [OF rep])
qed

lemma agree_UpdatePurchase:
  assumes rep: "represents q m" and id: "puID p \<noteq> []"
    and "\<And>cur. gget (m_purchases m) (puID p) = Some cur \<Longrightarrow>
      p = cur\<lparr>puStatus := puStatus p, puProvider := puProvider p, puProviderRef := puProviderRef p\<rparr>"
  shows "agrees False q (sq_UpdatePurchase q p) (UpdatePurchase m p)"
proof -
  let ?g = "\<lambda>r. r\<lparr>puStatus := puStatus p, puProvider := puProvider p, puProviderRef := puProviderRef p\<rparr>"
  note s = representsD(18) [OF rep]
  have own: "puUserID cur = puUserID p" if "gget (m_purchases m) (puID p) = Some cur" for cur
    using arg_cong [OF assms(3) [OF that], of puUserID] by simp
  have mem: "UpdatePurchase m p = (case gget (m_purchases m) (puID p) of
      None \<Rightarrow> Inl (Errorf ''purchase not found'')
    | Some v \<Rightarrow> if \<not> puUserID v = puUserID p then Inl (Errorf ''purchase not found'')
        else Inr (m\<lparr>m_purchases := gset (puID p) p (m_purchases m)\<rparr>))"
    using id own by (auto simp: UpdatePurchase_def split: option.splits)
  show ?thesis
    unfolding mem sq_UpdatePurchase_def
  proof (rule agree_update_key [OF s], goal_cases)
    case (1 v)
    then show ?case using sim_key [OF s 1(1)] by simp
  next
    case (2 v rs)
    then have "sim puID rs (gset (puID p) p (m_purchases m))" using assms(3) [OF 2(1)] by simp
    then show ?case by (rule represents_upd [OF rep])
  qed
qed

lemma agree_UpdateWebhookOutbox:
  assumes rep: "represents q m"
    and "\<And>cur. gget (m_webhooks m) (wID e) = Some cur \<Longrightarrow> wCreatedAt cur = wCreatedAt e"
  shows "agrees False q (sq_UpdateWebhookOutbox q e) (UpdateWebhookOutbox m e)"
proof (cases "trim_space (wID e) = []")
  case True
  then show ?thesis by (simp add: sq_UpdateWebhookOutbox_def UpdateWebhookOutbox_def)
next
  case False
  note s = representsD(20) [OF rep]
  have "agrees False q
     (affected_or [] ''webhook outbox not found'' (\<lambda>rows. q\<lparr>q_outbox := rows\<rparr>)
       (sql_update (key_ok wID) (q_clash q) (\<lambda>r. wID r = wID e \<and> True) (set_outbox e) (q_outbox q)))
     (case gget (m_webhooks m) (wID e) of
        None \<Rightarrow> Inl (Errorf ''webhook outbox not found'')
      | Some v \<Rightarrow> if \<not> True then Inl (Errorf ''webhook outbox not found'')
          else Inr (m\<lparr>m_webhooks := gset (wID e) e (m_webhooks m)\<rparr>))"
  proof (rule agree_update_key [OF s], goal_cases)
    case (1 v)
    then show ?case using sim_key [OF s 1(1)] by (simp add: set_outbox_def)
  next
    case (2 v rs)
    then have "set_outbox e v = e"
      using assms(2) [OF 2(1)] sim_key [OF s 2(1)] by (simp add: set_outbox_def)
    with 2 show ?case by (simp add: represents_upd [OF rep])
  qed
  then show ?thesis using False
    by (simp add: sq_UpdateWebhookOutbox_def UpdateWebhookOutbox_def cong: option.case_cong)
qed

lemma agree_EnqueueWebhookOutbox:
  assumes rep: "represents q m"
  shows "agrees (\<not> key_ok wID (q_outbox q @ [e])) q (sq_EnqueueWebhookOutbox q e) (EnqueueWebhookOutbox m e)"
proof (cases "trim_space (wID e) = []")
  case True
  then show ?thesis by (simp add: sq_EnqueueWebhookOutbox_def EnqueueWebhookOutbox_def)
next
  case False
  note s = representsD(20) [OF rep]
  show ?thesis
  proof (cases "gget (m_webhooks m) (wID e)")
    case None
    have "agrees (\<not> key_ok wID (q_outbox q @ [e])) q (stored ''enqueue webhook outbox: '' (\<lambda>rows. q\<lparr>q_outbox := rows\<rparr>)
        (sql_insert (key_ok wID) (q_clash q) e (q_outbox q)))
        (Inr (m\<lparr>m_webhooks := gset (wID e) e (m_webhooks m)\<rparr>))"
      by (intro agree_insert [OF s]) (auto intro: represents_upd [OF rep])
    with False None show ?thesis by (simp add: sq_EnqueueWebhookOutbox_def EnqueueWebhookOutbox_def)
  next
    case (Some v)
    then have "v \<in> set (q_outbox q)" "wID v = wID e" using sim_in [OF s, of v] sim_key [OF s] by auto
    then have "\<not> key_ok wID (q_outbox q @ [e])" by (auto simp: key_ok_def intro: rev_image_eqI)
    with False show ?thesis
      by (simp only: sq_EnqueueWebhookOutbox_def if_False stored_def sql_insert_def sum.case not_False_eq_True agree_simps)
  qed
qed

lemma agree_UpsertDevice:
  assumes rep: "represents q m"
  shows "agrees False q (sq_UpsertDevice q d) (UpsertDevice m d)"
proof -
  note s = representsD(10) [OF rep]
  have row: "find (\<lambda>r. vID r = vID d) (q_devices q) = gget (m_devices m) (vID d)"
    by (rule sim_find_key [OF s])
  show ?thesis
  proof (cases "gget (m_devices m) (vID d)")
    case None
    then have "\<forall>r \<in> set (q_devices q). vID r \<noteq> vID d" using row by (simp add: find_None_iff)
    then have ok: "key_ok vID (q_devices q @ [d])"
      using sim_key_ok [OF s] by (auto simp: key_ok_def)
    have "represents (q\<lparr>q_devices := q_devices q @ [d]\<rparr>) (m\<lparr>m_devices := gset (vID d) d (m_devices m)\<rparr>)"
      by (rule represents_upd(5) [OF rep sim_insert [OF s ok]])
    with None ok show ?thesis
      by (simp add: sq_UpsertDevice_def row UpsertDevice_def stored_def sql_insert_def)
  next
    case (Some v)
    show ?thesis
    proof (cases "vUserID v = vUserID d")
      case False
      with Some show ?thesis by (simp add: sq_UpsertDevice_def row UpsertDevice_def)
    next
      case True
      let ?g = "\<lambda>r. r\<lparr>vName := vName d, vLastSeen := vLastSeen d\<rparr>"
      let ?P = "\<lambda>r. vID r = vID d \<and> vUserID r = vUserID d"
      let ?rows = "map (\<lambda>r. if ?P r then ?g r else r) (q_devices q)"
      have vk: "vID v = vID d" by (rule sim_key [OF s Some])
      have gv: "?g v = d" using vk True by simp
      have vin: "v \<in> set (q_devices q)" using Some vk s by (simp add: sim_in)
      have "?P r \<longleftrightarrow> r = v" if "r \<in> set (q_devices q)" for r
        using that vk True sim_inj [OF s that vin] by auto
      then have sim': "sim vID ?rows (gset (vID d) d (m_devices m))"
        using sim_update_where [where P = ?P and g = ?g, OF s Some] vk gv by simp
      then have ok: "key_ok vID ?rows" by (rule sim_key_ok)
      have "represents (q\<lparr>q_devices := ?rows\<rparr>) (m\<lparr>m_devices := gset (vID d) d (m_devices m)\<rparr>)"
        by (rule represents_upd(5) [OF rep sim'])
      moreover have "sq_UpsertDevice q d = Inr (q\<lparr>q_devices := ?rows\<rparr>)"
        using ok by (simp only: sq_UpsertDevice_def row Some option.case True simp_thms if_False
            sql_update_def Let_def if_True map_sum.simps stored_def sum.case fst_conv)
      moreover have "UpsertDevice m d = Inr (m\<lparr>m_devices := gset (vID d) d (m_devices m)\<rparr>)"
        using Some True by (simp add: UpsertDevice_def)
      ultimately show ?thesis by simp
    qed
  qed
qed

lemma refresh_ok_revoke:
  "refresh_ok rows \<Longrightarrow> refresh_ok (map (\<lambda>t. if P t then t\<lparr>rtRevoked := True\<rparr> else t) rows)"
proof -
  have "map rtID (map (\<lambda>t. if P t then t\<lparr>rtRevoked := True\<rparr> else t) rows) = map rtID rows"
    and "map rtTokenHash (map (\<lambda>t. if P t then t\<lparr>rtRevoked := True\<rparr> else t) rows) = map rtTokenHash rows"
    by simp_all
  then show "refresh_ok rows \<Longrightarrow> refresh_ok (map (\<lambda>t. if P t then t\<lparr>rtRevoked := True\<rparr> else t) rows)"
    unfolding refresh_ok_def by (simp only:)
qed

lemma agree_RevokeRefreshToken:
  assumes rep: "represents q m" and found: "gget (m_refresh m) i \<noteq> None"
  shows "agrees False q (sq_RevokeRefreshToken q i) (RevokeRefreshToken m i)"
proof -
  note s = representsD(12) [OF rep]
  have mem: "RevokeRefreshToken m i = (case gget (m_refresh m) i of
      None \<Rightarrow> Inl (Errorf ''refresh token already revoked'')
    | Some t \<Rightarrow> if \<not> \<not> rtRevoked t then Inl (Errorf ''refresh token already revoked'')
        else Inr (m\<lparr>m_refresh := gset i (t\<lparr>rtRevoked := True\<rparr>) (m_refresh m)\<rparr>))"
    using found by (auto simp: RevokeRefreshToken_def)
  show ?thesis
    unfolding mem sq_RevokeRefreshToken_def
  proof (rule agree_update_safe [where ok = refresh_ok, OF s representsD(4) [OF rep]], goal_cases)
    case 1
    then show ?case by (rule refresh_ok_revoke [OF representsD(4) [OF rep]])
  next
    case (2 v)
    then show ?case using sim_key [OF s 2(1)] by simp
  next
    case (3 v rs)
    from 3(3,4) show ?case by (rule represents_upd(7) [OF rep])
  qed
qed

lemma agree_RevokeRefreshTokensForUser:
  assumes rep: "represents q m"
  shows "agrees False q (sq_RevokeRefreshTokensForUser q u) (Inr (RevokeRefreshTokensForUser m u))"
proof -
  note s = representsD(12) [OF rep]
  let ?rows = "map (\<lambda>t. if rtUserID t = u \<and> \<not> rtRevoked t then t\<lparr>rtRevoked := True\<rparr> else t) (q_refresh q)"
  let ?h = "\<lambda>t. if rtUserID t = u then t\<lparr>rtRevoked := True\<rparr> else t"
  let ?m = "map (\<lambda>(k, t). (k, ?h t)) (m_refresh m)"
  have ok: "refresh_ok ?rows" by (rule refresh_ok_revoke [OF representsD(4) [OF rep]])
  have "?rows = map ?h (q_refresh q)" by (intro map_cong) auto
  then have "mset ?rows = mset (map ?h (gvals (m_refresh m)))"
    by (simp only: mset_map simD(2) [OF s])
  then have "mset ?rows = mset (gvals ?m)" by (simp only: gvals_map)
  moreover have "keyed rtID ?m" by (rule keyed_map_same [OF simD(1) [OF s]]) simp
  ultimately have "sim rtID ?rows ?m" unfolding sim_def by blast
  then have "represents (q\<lparr>q_refresh := ?rows\<rparr>) (m\<lparr>m_refresh := ?m\<rparr>)"
    by (rule represents_upd(7) [OF rep ok])
  moreover have "sq_RevokeRefreshTokensForUser q u = Inr (q\<lparr>q_refresh := ?rows\<rparr>)"
    using ok by (simp only: sq_RevokeRefreshTokensForUser_def sql_update_def Let_def if_True map_sum.simps
        stored_def sum.case fst_conv)
  ultimately show ?thesis by (simp add: RevokeRefreshTokensForUser_def)
qed

lemma jobs_ok_map:
  assumes "jobs_ok rows"
    and "\<And>j. jID (h j) = jID j" "\<And>j. jUserID (h j) = jUserID j" "\<And>j. jIdempotencyKey (h j) = jIdempotencyKey j"
  shows "jobs_ok (map h rows)"
proof -
  have "filter (\<lambda>j. jIdempotencyKey j \<noteq> []) (map h rows) = map h (filter (\<lambda>j. jIdempotencyKey j \<noteq> []) rows)"
    by (simp add: filter_map comp_def assms(4))
  moreover have "map (\<lambda>j. (jUserID j, jIdempotencyKey j)) (map h xs) = map (\<lambda>j. (jUserID j, jIdempotencyKey j)) xs" for xs
    by (simp add: assms)
  moreover have "map jID (map h rows) = map jID rows" by (simp add: assms)
  ultimately show ?thesis using assms(1) unfolding jobs_ok_def by (simp only:)
qed

lemma agree_ClaimPendingJob:
  assumes rep: "represents q m"
  shows "agree False (q_clash q) (\<lambda>(q', j) (m', j'). represents q' m' \<and> j = j')
    (sq_ClaimPendingJob now q u i a r) (ClaimPendingJob now m u i a r)"
proof -
  note s = representsD(11) [OF rep]
  let ?Q = "\<lambda>j. jUserID j = u \<and> jStatus j \<in> set [''pending'', ''dispatched'']"
  let ?P = "\<lambda>j. jID j = i \<and> ?Q j"
  have fnd: "find ?P (q_jobs q) = (case gget (m_jobs m) i of None \<Rightarrow> None | Some j \<Rightarrow> if ?Q j then Some j else None)"
    by (rule sim_find_owned [OF s])
  have get: "sq_GetJob q u i = GetJob m u i"
    unfolding sq_GetJob_def GetJob_def row_or_find [OF s] by (simp split: option.splits)
  show ?thesis
  proof (cases "gget (m_jobs m) i")
    case None
    then show ?thesis
      by (simp only: sq_ClaimPendingJob_def Let_def fnd get ClaimPendingJob_def GetJob_def option.case) simp
  next
    case (Some j)
    show ?thesis
    proof (cases "?Q j")
      case False
      with Some show ?thesis
        by (simp only: sq_ClaimPendingJob_def Let_def fnd get ClaimPendingJob_def GetJob_def option.case if_False)
           auto
    next
      case True
      let ?rows = "map (\<lambda>j. if ?P j then claimed now a r j else j) (q_jobs q)"
      have fj: "find ?P (q_jobs q) = Some j" unfolding fnd Some option.case using True by (rule if_P)
      have jk: "jID j = i" by (rule sim_key [OF s Some])
      have jin: "j \<in> set (q_jobs q)" using Some jk s by (simp add: sim_in)
      have "?P x \<longleftrightarrow> x = j" if "x \<in> set (q_jobs q)" for x
        using that jk True sim_inj [OF s that jin] by auto
      then have sim': "sim jID ?rows (gset i (claimed now a r j) (m_jobs m))"
        using jk by (intro sim_update_where [where P = ?P and g = "claimed now a r", OF s Some]) simp_all
      have "jobs_ok ?rows" by (rule jobs_ok_map [OF representsD(3) [OF rep]]) simp_all
      from represents_upd(6) [OF rep this sim']
      have "represents (q\<lparr>q_jobs := ?rows\<rparr>) (m\<lparr>m_jobs := gset i (claimed now a r j) (m_jobs m)\<rparr>)" .
      moreover have "sq_ClaimPendingJob now q u i a r = Inr (q\<lparr>q_jobs := ?rows\<rparr>, claimed now a r j)"
        unfolding sq_ClaimPendingJob_def Let_def fj option.case claimed_def by (rule refl)
      moreover have "ClaimPendingJob now m u i a r = Inr (m\<lparr>m_jobs := gset i (claimed now a r j) (m_jobs m)\<rparr>, claimed now a r j)"
        using Some True by (auto simp: ClaimPendingJob_def Let_def)
      ultimately show ?thesis by simp
    qed
  qed
qed

section \<open>Reads\<close>

lemma read_users:
  assumes rep: "represents q m"
  shows "sq_GetUserByUsername q name = GetUserByUsername m name"
    and "sq_GetUserByID q i = GetUserByID m i" and "sq_CountUsers q = CountUsers m"
proof -
  note s = representsD(6) [OF rep]
  have norm: "norm_role v = v" if "v \<in> set (q_users q)" for v
    using representsD(5) [OF rep that] by (simp add: norm_role_def)
  have "norm_role v = v" if "gget (m_users m) name = Some v" for v
    using that sim_in [OF s, of v] sim_key [OF s that] norm by simp
  then show "sq_GetUserByUsername q name = GetUserByUsername m name"
    by (simp add: sq_GetUserByUsername_def GetUserByUsername_def row_or_def sim_find_key [OF s]
        split: option.splits)
  have "norm_role v = v" if "find (\<lambda>u. uID u = i) (gvals (m_users m)) = Some v" for v
    using find_SomeD [OF that] sim_set [OF s] norm by auto
  then show "sq_GetUserByID q i = GetUserByID m i"
    by (simp add: sq_GetUserByID_def GetUserByID_def row_or_def
        users_find_id [OF s representsD(1) [OF rep]] split: option.splits)
  show "sq_CountUsers q = CountUsers m"
    by (simp add: sq_CountUsers_def CountUsers_def sim_length [OF s])
qed

lemma read_refresh:
  assumes rep: "represents q m"
  shows "sq_GetRefreshTokenByHash now q h = GetRefreshTokenByHash now m h"
proof -
  have "find (\<lambda>t. rtTokenHash t = h) (q_refresh q) = find (\<lambda>t. rtTokenHash t = h) (gvals (m_refresh m))"
    using representsD(4) [OF rep] simD(2) [OF representsD(12) [OF rep]]
    by (intro find_mset) (auto simp: refresh_ok_def distinct_map dest: inj_onD)
  then show ?thesis
    by (simp add: sq_GetRefreshTokenByHash_def GetRefreshTokenByHash_def row_or_def split: option.splits)
qed

lemma read_owned:
  assumes rep: "represents q m"
  shows "sq_GetAgent q u i = GetAgent m u i" "sq_GetAgentByID q i = GetAgentByID m i"
    "sq_GetProvider q u i = GetProvider m u i" "sq_GetDrive q u i = GetDrive m u i"
    "sq_GetBinding q u i = GetBinding m u i" "sq_GetDevice q u i = GetDevice m u i"
    "sq_GetSnapshot q u d i = GetSnapshot m u d i" "sq_GetJob q u i = GetJob m u i"
    "sq_GetJobByID q i = GetJobByID m i" "sq_GetMemory q u i = GetMemory m u i"
    "sq_GetMarketplaceItem q i = GetMarketplaceItem m i" "sq_GetPurchase q u i = GetPurchase m u i"
    "sq_GetConnector q u i = GetConnector m u i" "sq_GetWebhookOutbox q i = GetWebhookOutbox m i"
  unfolding sq_GetAgent_def GetAgent_def sq_GetAgentByID_def GetAgentByID_def sq_GetProvider_def
    GetProvider_def sq_GetDrive_def GetDrive_def sq_GetBinding_def GetBinding_def sq_GetDevice_def
    GetDevice_def sq_GetSnapshot_def GetSnapshot_def sq_GetJob_def GetJob_def sq_GetJobByID_def
    GetJobByID_def sq_GetMemory_def GetMemory_def sq_GetMarketplaceItem_def GetMarketplaceItem_def
    sq_GetPurchase_def GetPurchase_def sq_GetConnector_def GetConnector_def sq_GetWebhookOutbox_def
    GetWebhookOutbox_def de_Morgan_conj [symmetric]
    sim_find_owned [OF representsD(13) [OF rep]] sim_find_owned [OF representsD(7) [OF rep]]
    sim_find_owned [OF representsD(8) [OF rep]] sim_find_owned [OF representsD(9) [OF rep]]
    sim_find_owned [OF representsD(10) [OF rep]] sim_find_owned [OF representsD(14) [OF rep]]
    sim_find_owned [OF representsD(11) [OF rep]] sim_find_owned [OF representsD(15) [OF rep]]
    sim_find_owned [OF representsD(18) [OF rep]] sim_find_owned [OF representsD(19) [OF rep]]
    sim_find_key [OF representsD(13) [OF rep]] sim_find_key [OF representsD(11) [OF rep]]
    sim_find_key [OF representsD(16) [OF rep]] sim_find_key [OF representsD(20) [OF rep]]
    row_or_def
  by (simp_all add: Let_def split: option.splits)

lemma read_by_index:
  assumes rep: "represents q m"
  shows "sq_GetDriveByAlias q u alias = GetDriveByAlias m u alias"
    and "sq_GetJobByIdempotencyKey q u key = GetJobByIdempotencyKey m u key"
proof -
  have "find (\<lambda>d. dUserID d = u \<and> dAlias d = alias) (q_drives q) =
      find (\<lambda>d. dUserID d = u \<and> dAlias d = alias) (gvals (m_drives m))" if "alias \<noteq> []"
    using representsD(2) [OF rep] that
    by (intro find_mset [OF simD(2) [OF representsD(8) [OF rep]]])
       (auto simp: drives_ok_def distinct_map dest: inj_onD)
  then show "sq_GetDriveByAlias q u alias = GetDriveByAlias m u alias"
    by (simp add: sq_GetDriveByAlias_def GetDriveByAlias_def row_or_def)
  have "find (\<lambda>j. jUserID j = u \<and> jIdempotencyKey j = k) (q_jobs q) =
      find (\<lambda>j. jUserID j = u \<and> jIdempotencyKey j = k) (gvals (m_jobs m))" if "k \<noteq> []" for k
    using representsD(3) [OF rep] that
    by (intro find_mset [OF simD(2) [OF representsD(11) [OF rep]]])
       (auto simp: jobs_ok_def distinct_map dest: inj_onD)
  then show "sq_GetJobByIdempotencyKey q u key = GetJobByIdempotencyKey m u key"
    by (simp add: sq_GetJobByIdempotencyKey_def GetJobByIdempotencyKey_def row_or_def Let_def)
qed

lemma read_lists:
  assumes rep: "represents q m"
  shows "mset (sq_ListAgents q u) = mset (ListAgents m u)"
    "mset (sq_ListProviders q u) = mset (ListProviders m u)"
    "mset (sq_ListDrives q u) = mset (ListDrives m u)"
    "mset (sq_ListBindings q u dev) = mset (ListBindings m u dev)"
    "mset (sq_ListDevices q u) = mset (ListDevices m u)"
    "mset (sq_ListJobs q u) = mset (ListJobs m u)"
    "mset (sq_ListPendingJobs q u) = mset (ListPendingJobs m u)"
    "mset (sq_ListRunningJobs q u) = mset (ListRunningJobs m u)"
    "mset (sq_ListConnectors q u) = mset (ListConnectors m u)"
  using sim_filter_mset [OF representsD(13) [OF rep]] sim_filter_mset [OF representsD(7) [OF rep]]
    sim_filter_mset [OF representsD(8) [OF rep]] sim_filter_mset [OF representsD(9) [OF rep]]
    sim_filter_mset [OF representsD(10) [OF rep]] sim_filter_mset [OF representsD(11) [OF rep]]
    sim_filter_mset [OF representsD(19) [OF rep]]
  unfolding sq_ListAgents_def ListAgents_def sq_ListProviders_def ListProviders_def sq_ListDrives_def
    ListDrives_def sq_ListBindings_def ListBindings_def sq_ListDevices_def ListDevices_def
    sq_ListJobs_def ListJobs_def sq_ListPendingJobs_def ListPendingJobs_def is_queued_def
    sq_ListRunningJobs_def ListRunningJobs_def sq_ListConnectors_def ListConnectors_def
    mset_sort_slice mset_exch_sort
  by (simp_all add: Let_def conj_commute del: mset_filter)


text \<open>The listings with a limit: some fetch a bounded number of rows and filter them afterwards, the
  in-memory store filters first. They agree while the rows fit the limit.\<close>

lemma length_sort_slice: "length (sort_slice lt xs) = length xs"
  by (metis mset_sort_slice size_mset)

lemma fitting_owned:
  assumes rep: "represents q m" and l: "0 < l" "l \<le> 200"
  shows "int (length (filter (\<lambda>s. snUserID s = u \<and> snDriveID s = d) (q_snapshots q))) \<le> l \<Longrightarrow>
      mset (sq_ListSnapshots q u d l) = mset (ListSnapshots m u d l)"
    and "int (length (filter (\<lambda>p. puUserID p = u) (q_purchases q))) \<le> l \<Longrightarrow>
      mset (sq_ListPurchases q u l) = mset (ListPurchases m u l)"
proof -
  have eff: "(if l \<le> 0 \<or> l > 200 then 50 else l) = l" using l by simp
  have sn: "mset (filter P (q_snapshots q)) = mset (filter P (gvals (m_snapshots m)))" for P
    by (rule sim_filter_mset [OF representsD(14) [OF rep]])
  have pu: "mset (filter P (q_purchases q)) = mset (filter P (gvals (m_purchases m)))" for P
    by (rule sim_filter_mset [OF representsD(18) [OF rep]])
  show "mset (sq_ListSnapshots q u d l) = mset (ListSnapshots m u d l)"
    if "int (length (filter (\<lambda>s. snUserID s = u \<and> snDriveID s = d) (q_snapshots q))) \<le> l"
  proof -
    let ?P = "\<lambda>s. snUserID s = u \<and> snDriveID s = d"
    have "length (filter ?P (q_snapshots q)) \<le> nat l" using that by simp
    moreover have "length (filter ?P (gvals (m_snapshots m))) = length (filter ?P (q_snapshots q))"
      by (rule mset_eq_length [OF sn [symmetric]])
    ultimately have "mset (take (nat l) (sort_slice (col_desc snCreatedAt) (filter ?P (q_snapshots q)))) =
        mset (filter ?P (q_snapshots q))"
      "mset (take (nat l) (exch_sort (newer snCreatedAt) (filter ?P (gvals (m_snapshots m))))) =
        mset (filter ?P (gvals (m_snapshots m)))"
      by (simp_all add: length_sort_slice del: mset_filter)
    then show ?thesis unfolding sq_ListSnapshots_def ListSnapshots_def Let_def eff by (simp only: sn)
  qed
  show "mset (sq_ListPurchases q u l) = mset (ListPurchases m u l)"
    if "int (length (filter (\<lambda>p. puUserID p = u) (q_purchases q))) \<le> l"
  proof -
    let ?P = "\<lambda>p. puUserID p = u"
    have "length (filter ?P (q_purchases q)) \<le> nat l" using that by simp
    moreover have "length (filter ?P (gvals (m_purchases m))) = length (filter ?P (q_purchases q))"
      by (rule mset_eq_length [OF pu [symmetric]])
    ultimately have "mset (take (nat l) (sort_slice (col_desc puCreatedAt) (filter ?P (q_purchases q)))) =
        mset (filter ?P (q_purchases q))"
      "mset (take (nat l) (filter ?P (gvals (m_purchases m)))) = mset (filter ?P (gvals (m_purchases m)))"
      by (simp_all add: length_sort_slice del: mset_filter)
    then show ?thesis unfolding sq_ListPurchases_def ListPurchases_def Let_def eff by (simp only: pu)
  qed
qed

lemma fitting_market:
  assumes rep: "represents q m" and fit: "length (q_market q) \<le> 500"
  shows "mset (sq_ListMarketplaceItems q public publisher) = mset (ListMarketplaceItems m public publisher)"
proof -
  have mk: "mset (filter P (q_market q)) = mset (filter P (gvals (m_market m)))" for P
    by (rule sim_filter_mset [OF representsD(16) [OF rep]])
  have "take 500 (sort_slice (col_desc miCreatedAt) (q_market q)) = sort_slice (col_desc miCreatedAt) (q_market q)"
    using fit by (simp add: length_sort_slice)
  then have "mset (sq_ListMarketplaceItems q public publisher) =
      mset (filter (\<lambda>it. \<not> (public \<and> \<not> miPublic it) \<and>
        \<not> (publisher \<noteq> [] \<and> miPublisherUserID it \<noteq> publisher)) (q_market q))"
    unfolding sq_ListMarketplaceItems_def by simp
  also have "\<dots> = mset (ListMarketplaceItems m public publisher)"
    unfolding mk ListMarketplaceItems_def de_Morgan_conj not_not ..
  finally show ?thesis .
qed

lemma fitting_memory:
  assumes rep: "represents q m" and f: "mfUserID f \<noteq> []" "0 < mfLimit f" "mfLimit f \<le> 500"
    and fit: "int (length (filter (\<lambda>e. meUserID e = mfUserID f) (q_memories q))) \<le> mfLimit f"
  shows "mset (sq_ListMemory now q f) = mset (ListMemory now m f)"
proof -
  let ?U = "\<lambda>e. meUserID e = mfUserID f" and ?M = "memory_matches now f"
  have me: "mset (filter P (q_memories q)) = mset (filter P (gvals (m_memories m)))" for P
    by (rule sim_filter_mset [OF representsD(15) [OF rep]])
  have eff: "(if mfLimit f \<le> 0 \<or> mfLimit f > 500 then 100 else mfLimit f) = mfLimit f" using f by simp
  let ?rows = "sort_slice (col_desc meCreatedAt) (filter ?U (q_memories q))"
  have "length ?rows \<le> nat (mfLimit f * 3)" "length ?rows \<le> nat (mfLimit f)"
    using fit f(2) by (simp_all add: length_sort_slice)
  then have r: "take (nat (mfLimit f * 3)) ?rows = ?rows"
    and t: "take (nat (mfLimit f)) (filter P ?rows) = filter P ?rows" for P
    by (simp, intro take_all le_trans [OF length_filter_le])
  have q: "sq_ListMemory now q f = filter (\<lambda>e. \<not> (mfAgentID f \<noteq> [] \<and> meAgentID e \<noteq> mfAgentID f) \<and>
                        \<not> (mfDriveID f \<noteq> [] \<and> meDriveID e \<noteq> mfDriveID f) \<and>
                        \<not> (mfLayer f \<noteq> [] \<and> meLayer e \<noteq> mfLayer f) \<and>
                        \<not> (mfKey f \<noteq> [] \<and> meKey e \<noteq> mfKey f) \<and>
                        \<not> (\<not> is_zero (meExpiresAt e) \<and> meExpiresAt e < now)) ?rows"
    unfolding sq_ListMemory_def Let_def eff r t ..
  have all: "mset (sq_ListMemory now q f) = mset (filter ?M (q_memories q))"
    unfolding q mset_filter mset_sort_slice filter_filter_mset
    by (rule filter_mset_cong) (use f(1) in \<open>auto simp: memory_matches_def memory_live_def\<close>)
  have "length (filter ?M (gvals (m_memories m))) = length (filter ?M (q_memories q))"
    by (rule mset_eq_length [OF me [symmetric]])
  also have "filter ?M (q_memories q) = filter ?M (filter ?U (q_memories q))"
    unfolding filter_filter using f(1) by (intro filter_cong) (auto simp: memory_matches_def)
  then have "length (filter ?M (q_memories q)) \<le> length (filter ?U (q_memories q))"
    using length_filter_le [of ?M "filter ?U (q_memories q)"] by simp
  finally have "length (exch_sort (newer meCreatedAt) (filter ?M (gvals (m_memories m)))) \<le> nat (mfLimit f)"
    using fit by simp
  then have "mset (ListMemory now m f) = mset (filter ?M (gvals (m_memories m)))"
    unfolding ListMemory_def Let_def eff by (simp del: mset_filter)
  with all show ?thesis by (simp only: me)
qed


text \<open>
  The calls that change the tables both stores keep, as values; the conditions under which the
  services make them (identifiers present, creation instants unchanged); and the constraint each call
  can break. Every admissible call agrees with the in-memory store.
\<close>

section \<open>The calls\<close>

datatype store_write =
    Create_user user
  | Set_role string string
  | Set_password string string
  | Bump_user string
  | Bump_agent string
  | Create_refresh refresh_token
  | Revoke_refresh string
  | Revoke_user_refresh string
  | Create_agent agent
  | Update_agent agent
  | Delete_agent string string
  | Create_provider provider
  | Delete_provider string string
  | Create_drive drive
  | Update_drive drive
  | Delete_drive string string
  | Create_binding binding
  | Update_binding binding
  | Upsert_device device
  | Create_snapshot snapshot
  | Delete_snapshot string string string
  | Create_job job
  | Update_job job
  | Claim_job time string string string string
  | Create_memory memory_entry
  | Delete_memory string string
  | Create_item marketplace_item
  | Delete_item string string
  | Upsert_edge graph_edge
  | Create_purchase purchase
  | Update_purchase purchase
  | Create_connector connector_binding
  | Delete_connector string string
  | Enqueue_webhook webhook_outbox
  | Update_webhook webhook_outbox

fun sqlite_write :: "sqlite \<Rightarrow> store_write \<Rightarrow> sqlite result" where
  "sqlite_write q (Create_user u) = sq_CreateUser q u"
| "sqlite_write q (Set_role i role) = sq_UpdateUserRole q i role"
| "sqlite_write q (Set_password i hash) = sq_UpdateUserPassword q i hash"
| "sqlite_write q (Bump_user i) = map_sum id fst (sq_BumpTokenVersion q i)"
| "sqlite_write q (Bump_agent i) = map_sum id fst (sq_BumpAgentTokenVersion q i)"
| "sqlite_write q (Create_refresh t) = sq_CreateRefreshToken q t"
| "sqlite_write q (Revoke_refresh i) = sq_RevokeRefreshToken q i"
| "sqlite_write q (Revoke_user_refresh u) = sq_RevokeRefreshTokensForUser q u"
| "sqlite_write q (Create_agent a) = sq_CreateAgent q a"
| "sqlite_write q (Update_agent a) = sq_UpdateAgent q a"
| "sqlite_write q (Delete_agent u i) = sq_DeleteAgent q u i"
| "sqlite_write q (Create_provider p) = sq_CreateProvider q p"
| "sqlite_write q (Delete_provider u i) = sq_DeleteProvider q u i"
| "sqlite_write q (Create_drive d) = sq_CreateDrive q d"
| "sqlite_write q (Update_drive d) = sq_UpdateDrive q d"
| "sqlite_write q (Delete_drive u i) = sq_DeleteDrive q u i"
| "sqlite_write q (Create_binding b) = sq_CreateBinding q b"
| "sqlite_write q (Update_binding b) = sq_UpdateBinding q b"
| "sqlite_write q (Upsert_device d) = sq_UpsertDevice q d"
| "sqlite_write q (Create_snapshot s) = sq_CreateSnapshot q s"
| "sqlite_write q (Delete_snapshot u d i) = sq_DeleteSnapshot q u d i"
| "sqlite_write q (Create_job j) = sq_CreateJob q j"
| "sqlite_write q (Update_job j) = sq_UpdateJob q j"
| "sqlite_write q (Claim_job now u i a r) = map_sum id fst (sq_ClaimPendingJob now q u i a r)"
| "sqlite_write q (Create_memory e) = sq_CreateMemory q e"
| "sqlite_write q (Delete_memory u i) = sq_DeleteMemory q u i"
| "sqlite_write q (Create_item it) = sq_CreateMarketplaceItem q it"
| "sqlite_write q (Delete_item u i) = sq_DeleteMarketplaceItem q u i"
| "sqlite_write q (Upsert_edge e) = sq_UpsertGraphEdge q e"
| "sqlite_write q (Create_purchase p) = sq_CreatePurchase q p"
| "sqlite_write q (Update_purchase p) = sq_UpdatePurchase q p"
| "sqlite_write q (Create_connector c) = sq_CreateConnector q c"
| "sqlite_write q (Delete_connector u i) = sq_DeleteConnector q u i"
| "sqlite_write q (Enqueue_webhook e) = sq_EnqueueWebhookOutbox q e"
| "sqlite_write q (Update_webhook e) = sq_UpdateWebhookOutbox q e"

fun memory_write :: "memory \<Rightarrow> store_write \<Rightarrow> memory result" where
  "memory_write m (Create_user u) = CreateUser m u"
| "memory_write m (Set_role i role) = UpdateUserRole m i role"
| "memory_write m (Set_password i hash) = UpdateUserPassword m i hash"
| "memory_write m (Bump_user i) = map_sum id fst (BumpTokenVersion m i)"
| "memory_write m (Bump_agent i) = map_sum id fst (BumpAgentTokenVersion m i)"
| "memory_write m (Create_refresh t) = CreateRefreshToken m t"
| "memory_write m (Revoke_refresh i) = RevokeRefreshToken m i"
| "memory_write m (Revoke_user_refresh u) = Inr (RevokeRefreshTokensForUser m u)"
| "memory_write m (Create_agent a) = CreateAgent m a"
| "memory_write m (Update_agent a) = UpdateAgent m a"
| "memory_write m (Delete_agent u i) = DeleteAgent m u i"
| "memory_write m (Create_provider p) = CreateProvider m p"
| "memory_write m (Delete_provider u i) = DeleteProvider m u i"
| "memory_write m (Create_drive d) = CreateDrive m d"
| "memory_write m (Update_drive d) = UpdateDrive m d"
| "memory_write m (Delete_drive u i) = DeleteDrive m u i"
| "memory_write m (Create_binding b) = CreateBinding m b"
| "memory_write m (Update_binding b) = UpdateBinding m b"
| "memory_write m (Upsert_device d) = UpsertDevice m d"
| "memory_write m (Create_snapshot s) = CreateSnapshot m s"
| "memory_write m (Delete_snapshot u d i) = DeleteSnapshot m u d i"
| "memory_write m (Create_job j) = CreateJob m j"
| "memory_write m (Update_job j) = UpdateJob m j"
| "memory_write m (Claim_job now u i a r) = map_sum id fst (ClaimPendingJob now m u i a r)"
| "memory_write m (Create_memory e) = CreateMemory m e"
| "memory_write m (Delete_memory u i) = DeleteMemory m u i"
| "memory_write m (Create_item it) = CreateMarketplaceItem m it"
| "memory_write m (Delete_item u i) = DeleteMarketplaceItem m u i"
| "memory_write m (Upsert_edge e) = UpsertGraphEdge m e"
| "memory_write m (Create_purchase p) = CreatePurchase m p"
| "memory_write m (Update_purchase p) = UpdatePurchase m p"
| "memory_write m (Create_connector c) = CreateConnector m c"
| "memory_write m (Delete_connector u i) = DeleteConnector m u i"
| "memory_write m (Enqueue_webhook e) = EnqueueWebhookOutbox m e"
| "memory_write m (Update_webhook e) = UpdateWebhookOutbox m e"

text \<open>A call that would break a primary key or a unique index of the schema.\<close>

fun breaks_index :: "sqlite \<Rightarrow> store_write \<Rightarrow> bool" where
  "breaks_index q (Create_user u) \<longleftrightarrow> \<not> users_ok (q_users q @ [norm_role u])"
| "breaks_index q (Create_refresh t) \<longleftrightarrow> \<not> refresh_ok (q_refresh q @ [t])"
| "breaks_index q (Create_agent a) \<longleftrightarrow> \<not> key_ok agID (q_agents q @ [a])"
| "breaks_index q (Create_provider p) \<longleftrightarrow> \<not> key_ok pID (q_providers q @ [p])"
| "breaks_index q (Create_drive d) \<longleftrightarrow> \<not> drives_ok (q_drives q @ [d])"
| "breaks_index q (Update_drive d) \<longleftrightarrow> \<not> drives_ok (map (\<lambda>r. if dID r = dID d \<and> dUserID r = dUserID d then set_drive d r else r) (q_drives q))"
| "breaks_index q (Create_binding b) \<longleftrightarrow> \<not> key_ok bID (q_bindings q @ [b])"
| "breaks_index q (Create_snapshot s) \<longleftrightarrow> \<not> key_ok snID (q_snapshots q @ [s])"
| "breaks_index q (Create_job j) \<longleftrightarrow> \<not> jobs_ok (q_jobs q @ [j])"
| "breaks_index q (Update_job j) \<longleftrightarrow> \<not> jobs_ok (map (\<lambda>r. if jID r = jID j \<and> jUserID r = jUserID j then set_job j r else r) (q_jobs q))"
| "breaks_index q (Create_memory e) \<longleftrightarrow> \<not> key_ok meID (q_memories q @ [e])"
| "breaks_index q (Create_item it) \<longleftrightarrow> \<not> key_ok miID (q_market q @ [it])"
| "breaks_index q (Create_purchase p) \<longleftrightarrow> \<not> key_ok puID (q_purchases q @ [p])"
| "breaks_index q (Create_connector c) \<longleftrightarrow> \<not> key_ok cbID (q_connectors q @ [c])"
| "breaks_index q (Enqueue_webhook e) \<longleftrightarrow> \<not> key_ok wID (q_outbox q @ [e])"
| "breaks_index _ _ \<longleftrightarrow> False"

text \<open>What the services guarantee of their arguments.\<close>

fun admissible :: "memory \<Rightarrow> store_write \<Rightarrow> bool" where
  "admissible m (Set_role i role) \<longleftrightarrow> role \<noteq> []"
| "admissible m (Create_refresh t) \<longleftrightarrow> rtID t \<noteq> [] \<and> rtTokenHash t \<noteq> []"
| "admissible m (Revoke_refresh i) \<longleftrightarrow> gget (m_refresh m) i \<noteq> None"
| "admissible m (Update_agent a) \<longleftrightarrow> (\<forall>cur. gget (m_agents m) (agID a) = Some cur \<longrightarrow> agCreatedAt cur = agCreatedAt a)"
| "admissible m (Create_provider p) \<longleftrightarrow> pCredsJSON p \<noteq> []"
| "admissible m (Update_binding b) \<longleftrightarrow> (\<forall>cur. gget (m_bindings m) (bID b) = Some cur \<longrightarrow> bCreatedAt cur = bCreatedAt b)"
| "admissible m (Update_job j) \<longleftrightarrow> (\<forall>cur. gget (m_jobs m) (jID j) = Some cur \<longrightarrow> jCreatedAt cur = jCreatedAt j)"
| "admissible m (Create_memory e) \<longleftrightarrow> meID e \<noteq> []"
| "admissible m (Create_item it) \<longleftrightarrow> miID it \<noteq> []"
| "admissible m (Upsert_edge e) \<longleftrightarrow> geID e \<noteq> []"
| "admissible m (Create_purchase p) \<longleftrightarrow> puID p \<noteq> []"
| "admissible m (Update_purchase p) \<longleftrightarrow> puID p \<noteq> [] \<and> (\<forall>cur. gget (m_purchases m) (puID p) = Some cur \<longrightarrow>
       p = cur\<lparr>puStatus := puStatus p, puProvider := puProvider p, puProviderRef := puProviderRef p\<rparr>)"
| "admissible m (Create_connector c) \<longleftrightarrow> cbID c \<noteq> []"
| "admissible m (Update_webhook e) \<longleftrightarrow> (\<forall>cur. gget (m_webhooks m) (wID e) = Some cur \<longrightarrow> wCreatedAt cur = wCreatedAt e)"
| "admissible _ _ \<longleftrightarrow> True"

lemma agree_fst:
  "agree key c (\<lambda>(s, v) (t, w). R s t \<and> v = w) a b \<Longrightarrow> agree key c R (map_sum id fst a) (map_sum id fst b)"
  by (cases a; cases b) (auto simp: agree_def)

lemmas agree_calls =
  agree_CreateUser agree_UpdateUserRole agree_UpdateUserPassword agree_BumpTokenVersion agree_BumpAgentTokenVersion agree_CreateRefreshToken agree_RevokeRefreshToken agree_RevokeRefreshTokensForUser agree_CreateAgent agree_UpdateAgent agree_DeleteAgent agree_CreateProvider agree_DeleteProvider agree_CreateDrive agree_UpdateDrive agree_DeleteDrive agree_CreateBinding agree_UpdateBinding agree_UpsertDevice agree_CreateSnapshot agree_DeleteSnapshot agree_CreateJob agree_UpdateJob agree_ClaimPendingJob agree_CreateMemory agree_DeleteMemory agree_CreateMarketplaceItem agree_DeleteMarketplaceItem agree_UpsertGraphEdge agree_CreatePurchase agree_UpdatePurchase agree_CreateConnector agree_DeleteConnector agree_EnqueueWebhookOutbox agree_UpdateWebhookOutbox

lemma write_agrees:
  assumes "represents q m" "admissible m w"
  shows "agrees (breaks_index q w) q (sqlite_write q w) (memory_write m w)"
  using assms
  by (cases w) (auto intro: agree_calls agree_fst)

end
