(* ===== verification/Sqlite_Order.thy ===== *)
theory Sqlite_Order
  imports Sqlite_Refinement
begin

text \<open>
  Where the order of the stored texts is the order of the instants. With nine significant digits on
  both sides the texts have the same width and the orders coincide; then the listings of the
  SQLite store, which the engine sorts, are those of the in-memory store, which sorts by instants.
\<close>

section \<open>Fixed-width digits\<close>

lemma length_digits [simp]: "length (digits k n) = k"
  by (induction k arbitrary: n) auto

lemma quot_less:
  fixes a b c x y :: int
  assumes "0 \<le> x" "x < c" "0 \<le> y" "y < c"
  shows "a * c + x < b * c + y \<longleftrightarrow> a < b \<or> a = b \<and> x < y"
proof (cases a b rule: linorder_cases)
  case less
  then have "(a + 1) * c \<le> b * c" using assms by (intro mult_right_mono) auto
  then show ?thesis using less assms by (simp add: distrib_right)
next
  case equal
  then show ?thesis by simp
next
  case greater
  then have "(b + 1) * c \<le> a * c" using assms by (intro mult_right_mono) auto
  then show ?thesis using greater assms by (simp add: distrib_right)
qed

lemma lex_append:
  fixes xs ys :: "'a::linorder list"
  shows "length xs = length ys \<Longrightarrow> xs @ [a] < ys @ [b] \<longleftrightarrow> xs < ys \<or> xs = ys \<and> a < b"
  by (induction xs ys rule: list_induct2) auto

lemma digit_char_less:
  assumes "0 \<le> a" "a < 10" "0 \<le> b" "b < 10"
  shows "char_of (48 + nat a) < (char_of (48 + nat b) :: char) \<longleftrightarrow> a < (b :: int)"
proof -
  have "of_char (char_of (48 + nat x) :: char) = 48 + nat x" if "0 \<le> x" "x < 10" for x :: int
    using that by simp
  then show ?thesis using assms by (auto simp: less_char_def)
qed

lemma digits_less:
  "0 \<le> m \<Longrightarrow> m < 10 ^ k \<Longrightarrow> 0 \<le> n \<Longrightarrow> n < 10 ^ k \<Longrightarrow> digits k m < digits k n \<longleftrightarrow> m < n"
proof (induction k arbitrary: m n)
  case 0
  then show ?case by simp
next
  case (Suc k)
  have IH: "digits k (m div 10) < digits k (n div 10) \<longleftrightarrow> m div 10 < n div 10"
    using Suc.prems by (intro Suc.IH) (auto simp: pos_imp_zdiv_nonneg_iff)
  have IH': "digits k (n div 10) < digits k (m div 10) \<longleftrightarrow> n div 10 < m div 10"
    using Suc.prems by (intro Suc.IH) (auto simp: pos_imp_zdiv_nonneg_iff)
  have eq: "digits k (m div 10) = digits k (n div 10) \<longleftrightarrow> m div 10 = n div 10"
    using IH IH' by (metis linorder_neq_iff)
  have "digits (Suc k) m < digits (Suc k) n \<longleftrightarrow>
      m div 10 < n div 10 \<or> m div 10 = n div 10 \<and> m mod 10 < n mod 10"
    by (simp add: lex_append IH eq digit_char_less)
  also have "\<dots> \<longleftrightarrow> m div 10 * 10 + m mod 10 < n div 10 * 10 + n mod 10"
    by (intro quot_less [symmetric]) simp_all
  also have "\<dots> \<longleftrightarrow> m < n" by (simp only: div_mult_mod_eq)
  finally show ?case .
qed

section \<open>Full precision\<close>

text \<open>An instant whose last nanosecond digit is not zero: its text keeps all nine digits.\<close>

definition full_precision :: "time \<Rightarrow> bool" where
  "full_precision t \<longleftrightarrow> t mod 10 \<noteq> 0"

lemma frac_text_full:
  assumes "n mod 10 \<noteq> 0"
  shows "frac_text n = CHR ''.'' # digits 9 n @ ''Z''"
proof -
  have d: "nat (n mod 10) < 10" "nat (n mod 10) \<noteq> 0"
    using assms pos_mod_bound [of 10 n] pos_mod_sign [of 10 n] by auto
  have "char_of (48 + nat (n mod 10)) \<noteq> CHR ''0''"
  proof
    assume "char_of (48 + nat (n mod 10)) = CHR ''0''"
    then have "of_char (char_of (48 + nat (n mod 10)) :: char) = (of_char (CHR ''0'') :: nat)" by simp
    then have "48 + nat (n mod 10) = (48 :: nat)" unfolding of_char_digit [OF d(1)] by simp
    with d(2) show False by simp
  qed
  moreover have "digits 9 n = digits 8 (n div 10) @ [char_of (48 + nat (n mod 10))]"
    using digits.simps(2) [of 8 n] by simp
  moreover have "n \<noteq> 0" using assms by auto
  ultimately show ?thesis by (simp add: frac_text_def)
qed

lemma full_precision_order:
  assumes "full_precision t" "full_precision u"
  shows "ts_before t u \<longleftrightarrow> t < u"
proof -
  define a b x y where abxy: "a = t div second" "b = u div second" "x = t mod second" "y = u mod second"
  have t: "t = a * second + x" and u: "u = b * second + y"
    unfolding abxy by (simp_all only: div_mult_mod_eq)
  have x: "0 \<le> x" "x < second" and y: "0 \<le> y" "y < second" unfolding abxy by simp_all
  have "x mod 10 = t mod 10" "y mod 10 = u mod 10"
    unfolding abxy by (rule mod_mod_cancel, simp)+
  then have "frac_text x = CHR ''.'' # digits 9 x @ ''Z''" "frac_text y = CHR ''.'' # digits 9 y @ ''Z''"
    using assms unfolding full_precision_def by (simp_all add: frac_text_full)
  then have "frac_text x < frac_text y \<longleftrightarrow> x < y"
    using digits_less [of x 9 y] x y by (simp add: lex_append)
  then have "ts_before t u \<longleftrightarrow> a < b \<or> a = b \<and> x < y" unfolding ts_before_def abxy by simp
  also have "\<dots> \<longleftrightarrow> t < u" unfolding t u using x y by (intro quot_less [symmetric]) simp_all
  finally show ?thesis .
qed

lemma ts_before_example: "ts_before 120000000 100000000 \<and> \<not> ts_before 100000000 120000000"
  by code_simp

section \<open>Sorted listings\<close>

lemma insert_by_cong:
  "(\<And>y. y \<in> set ys \<Longrightarrow> lt y x = lt' y x) \<Longrightarrow> insert_by lt x ys = insert_by lt' x ys"
  by (induction ys) auto

lemma sort_slice_cong:
  "(\<And>x y. x \<in> set xs \<Longrightarrow> y \<in> set xs \<Longrightarrow> lt x y = lt' x y) \<Longrightarrow> sort_slice lt xs = sort_slice lt' xs"
proof (induction xs)
  case Nil
  then show ?case by (simp add: sort_slice_def)
next
  case (Cons x xs)
  have "sort_slice lt (x # xs) = insert_by lt x (sort_slice lt xs)" by (simp add: sort_slice_def)
  also have "sort_slice lt xs = sort_slice lt' xs" using Cons.prems by (intro Cons.IH) auto
  also have "insert_by lt x (sort_slice lt' xs) = insert_by lt' x (sort_slice lt' xs)"
    using Cons.prems by (intro insert_by_cong) auto
  also have "\<dots> = sort_slice lt' (x # xs)" by (simp add: sort_slice_def)
  finally show ?case .
qed

lemma newer_sorts_agree:
  assumes "mset xs = mset ys" "\<And>a b. a \<in> set xs \<Longrightarrow> b \<in> set xs \<Longrightarrow> jID a = jID b \<Longrightarrow> a = b"
  shows "sort_slice job_newer xs = exch_sort job_newer ys"
proof (rule job_newer_order.sorted_unique [OF job_newer_order.sorted_sort_slice job_newer_order.sorted_exch_sort])
  show "mset (sort_slice job_newer xs) = mset (exch_sort job_newer ys)" using assms(1) by simp
  fix a b assume "a \<in> set (sort_slice job_newer xs)" "b \<in> set (sort_slice job_newer xs)"
    and "\<not> job_newer a b" "\<not> job_newer b a"
  then show "a = b" using assms(2) by (auto simp: job_newer_def not_less)
qed

lemma job_sorts_agree:
  assumes "mset xs = mset ys" "\<And>j. j \<in> set xs \<Longrightarrow> full_precision (jCreatedAt j)"
    and "\<And>a b. a \<in> set xs \<Longrightarrow> b \<in> set xs \<Longrightarrow> jID a = jID b \<Longrightarrow> a = b"
  shows "sort_slice job_desc xs = exch_sort job_newer ys"
proof -
  have "sort_slice job_desc xs = sort_slice job_newer xs"
    using assms(2) by (intro sort_slice_cong) (auto simp: job_desc_def job_newer_def full_precision_order)
  also have "\<dots> = exch_sort job_newer ys" by (rule newer_sorts_agree [OF assms(1,3)])
  finally show ?thesis .
qed

text \<open>
  Labels: the engine's \<open>json_extract\<close> of a plain member name is the member (\<open>json_members\<close>, the
  documented meaning of the path \<open>$.name\<close>).
\<close>

definition plain_label :: "string \<Rightarrow> bool" where
  "plain_label k \<longleftrightarrow> k \<noteq> [] \<and> trim_space k = k \<and>
     list_all (\<lambda>c. c \<notin> set [CHR ''.'', CHR ''-'', CHR ''['', CHR '']'', CHR 0x22]) k"

definition json_members :: "sqlite \<Rightarrow> bool" where
  "json_members q \<longleftrightarrow>
     (\<forall>labels k. plain_label k \<longrightarrow> q_json q labels (''$.'' @ k) = gget labels k)"

lemma labels_agree:
  assumes json: "json_members q" and want: "list_all (\<lambda>(k, v). plain_label k \<and> v \<noteq> []) want"
  shows "sq_labels_match q want j = jobLabelsMatchStore (jLabels j) want"
proof -
  have "(let k = trim_space k0 in k = [] \<or> q_json q (jLabels j) (label_path k) = Some v) \<longleftrightarrow>
      label_of (jLabels j) k0 = v" if "plain_label k0" "v \<noteq> []" for k0 v
  proof -
    have "label_path k0 = ''$.'' @ k0" "trim_space k0 = k0" "k0 \<noteq> []"
      using that(1) by (auto simp: label_path_def plain_label_def list_all_iff)
    moreover have "q_json q (jLabels j) (''$.'' @ k0) = gget (jLabels j) k0"
      using json that(1) unfolding json_members_def by blast
    ultimately show ?thesis using that(2) by (auto simp: Let_def label_of_def split: option.splits)
  qed
  then have "sq_labels_match q want j \<longleftrightarrow> list_all (\<lambda>(k, v). label_of (jLabels j) k = v) want"
    using want unfolding sq_labels_match_def list_all_iff by (auto split: prod.splits)
  moreover have "\<not> list_all (\<lambda>(k, v). label_of [] k = v) want" if "want \<noteq> []"
    using that want by (cases want) (auto simp: label_of_def)
  ultimately show ?thesis by (auto simp: jobLabelsMatchStore_def)
qed

section \<open>Grouped counts\<close>

definition group_sum :: "string \<Rightarrow> (string \<times> nat) list \<Rightarrow> nat" where
  "group_sum x gs = sum_list (map snd (filter (\<lambda>g. fst g = x) gs))"

lemma AddStatus_group: "AddStatus s = add_group (s, 1)"
  by (rule ext) (simp add: AddStatus_def add_group_def Let_def)

lemma fold_add_group:
  "fold add_group gs c =
     \<lparr>cPending = cPending c + group_sum ''pending'' gs,
      cDispatched = cDispatched c + group_sum ''dispatched'' gs,
      cRunning = cRunning c + group_sum ''running'' gs,
      cSucceeded = cSucceeded c + group_sum ''succeeded'' gs,
      cFailed = cFailed c + group_sum ''failed'' gs,
      cCancelled = cCancelled c + group_sum ''cancelled'' gs,
      cTotal = cTotal c + sum_list (map snd gs)\<rparr>"
proof (induction gs arbitrary: c)
  case Nil
  then show ?case by (simp add: group_sum_def)
next
  case (Cons g gs)
  then show ?case by (cases g) (simp add: add_group_def group_sum_def Let_def)
qed

lemma group_sum_groups:
  "distinct ds \<Longrightarrow> group_sum x (map (\<lambda>s. (s, f s)) ds) = (if x \<in> set ds then f x else 0)"
  by (induction ds) (auto simp: group_sum_def)

lemma group_sum_units: "group_sum x (map (\<lambda>s. (s, 1)) ss) = length (filter (\<lambda>s. s = x) ss)"
  by (induction ss) (auto simp: group_sum_def)

lemma group_sum_status: "group_sum x (status_groups ss) = length (filter (\<lambda>s. s = x) ss)"
proof -
  have "group_sum x (status_groups ss) = (if x \<in> set ss then length (filter (\<lambda>s. s = x) ss) else 0)"
    unfolding status_groups_def by (subst group_sum_groups) simp_all
  also have "\<dots> = length (filter (\<lambda>s. s = x) ss)" by (auto simp: filter_empty_conv)
  finally show ?thesis .
qed

lemma total_status: "sum_list (map snd (status_groups ss)) = length ss"
proof -
  have "sum_list (map snd (status_groups ss)) = sum_list (map (count_list ss) (remdups ss))"
    unfolding status_groups_def map_map
    by (intro arg_cong [where f = sum_list] map_cong) (simp_all add: count_list_eq_length_filter eq_commute)
  also have "\<dots> = sum (count_list ss) (set ss)" by (simp add: sum_list_distinct_conv_sum_set)
  also have "\<dots> = length ss" by (rule sum_count_set) simp_all
  finally show ?thesis .
qed

lemma grouped_counts:
  assumes "mset xs = mset ys"
  shows "fold add_group (status_groups (map f xs)) c = fold (\<lambda>y. AddStatus (f y)) ys c"
proof -
  have "fold (\<lambda>y. AddStatus (f y)) ys c = fold add_group (map (\<lambda>s. (s, 1)) (map f ys)) c"
    by (induction ys arbitrary: c) (simp_all add: AddStatus_group)
  moreover have "length (filter (\<lambda>s. s = x) (map f xs)) = length (filter (\<lambda>s. s = x) (map f ys))" for x
    using assms by (metis mset_filter mset_map size_mset)
  moreover have "length xs = length ys" using assms by (metis size_mset)
  moreover have "sum_list (map snd (map (\<lambda>s. (s, 1 :: nat)) zs)) = length zs" for zs :: "string list"
    by (induction zs) auto
  ultimately show ?thesis
    unfolding fold_add_group by (simp only: group_sum_status group_sum_units total_status length_map)
qed

lemma counts_agree:
  assumes rep: "represents q m"
  shows "sq_CountJobsByStatus q u = CountJobsByStatus m (trim_space u)"
proof -
  let ?u = "trim_space u"
  have skip: "fold (\<lambda>j c. if v \<noteq> [] \<and> jUserID j \<noteq> v then c else AddStatus (jStatus j) c) js c =
      fold (\<lambda>j. AddStatus (jStatus j)) (filter (\<lambda>j. v = [] \<or> jUserID j = v) js) c" for v js c
    by (induction js arbitrary: c) auto
  have rows: "(if ?u \<noteq> [] then filter (\<lambda>j. jUserID j = ?u) (q_jobs q) else q_jobs q) =
      filter (\<lambda>j. ?u = [] \<or> jUserID j = ?u) (q_jobs q)"
    by simp
  show ?thesis
    unfolding sq_CountJobsByStatus_def CountJobsByStatus_def Let_def rows skip
    by (rule grouped_counts, rule sim_filter_mset [OF representsD(11) [OF rep]])
qed

end
