(* ===== verification/Sqlite_Properties.thy ===== *)
theory Sqlite_Properties
  imports Sqlite_Order
begin

text \<open>
  The properties of the SQLite store: it refines the in-memory store call by call and answers the
  same reads, instants stored as text are ordered up to one second (exactly, at full precision,
  where the job pages are those of the in-memory store), and the token denylist is exact for
  expiries at whole seconds.
\<close>

definition demo_json :: "string gomap \<Rightarrow> string \<Rightarrow> string option" where
  "demo_json labels path = gget labels (drop 2 path)"

definition demo_db :: sqlite where
  "demo_db = fresh_db ''UNIQUE constraint failed'' demo_json"

definition sq_job :: "string \<Rightarrow> time \<Rightarrow> job" where
  "sq_job i t =
     \<lparr>jID = i, jUserID = ''u1'', jDriveID = ''d1'', jBindingID = [], jMode = ''mount'',
      jCommand = [''sync''], jStatus = ''pending'', jRegionHint = [], jNote = [], jConnectorID = [],
      jAgentID = [], jClaimedByAgentID = [], jClaimedByRunnerID = [], jPriority = 0,
      jLabels = [(''env'', ''prod'')], jIdempotencyKey = [], jExitCode = None, jDurationMs = 0,
      jHeartbeatAt = 0, jClaimedAt = 0, jTimeoutSec = 0, jAttemptCount = 0, jMaxAttempts = 0,
      jStdout = [], jStderr = [], jStdoutTruncated = False, jStderrTruncated = False,
      jCreatedAt = t, jUpdatedAt = t\<rparr>"

definition demo_rows :: "job list" where
  "demo_rows = [sq_job ''a'' 1000000001, sq_job ''b'' 1000000002]"

lemma demo_represents:
  "represents (demo_db\<lparr>q_jobs := demo_rows\<rparr>) (NewMemory\<lparr>m_jobs := map (\<lambda>j. (jID j, j)) demo_rows\<rparr>)"
  by (simp add: represents_def demo_db_def fresh_db_def NewMemory_def users_ok_def drives_ok_def
      jobs_ok_def refresh_ok_def demo_rows_def sq_job_def sim_def keyed_def)

section \<open>Refinement of the in-memory store\<close>

text \<open>C11: The SQLite store refines the in-memory store: for every one of the 35 state-changing calls
  on the tables both keep (users, tokens, agents, providers, drives, bindings, devices, snapshots,
  jobs with the claim, memories, marketplace, graph, purchases, connectors, webhook outbox), made
  as the services make it, a successful SQLite call is a successful in-memory call with related
  results, and a failing one fails with the very same error, unless the new rows would break a
  primary key or unique index of the schema and the driver says so.\<close>

theorem sqlite_refines_memory:
  assumes "represents q m" and "admissible m w"
  shows "case sqlite_write q w of
      Inr q' \<Rightarrow> \<exists>m'. memory_write m w = Inr m' \<and> represents q' m'
    | Inl e \<Rightarrow> (breaks_index q w \<and> clash_error (q_clash q) e) \<or> memory_write m w = Inl e"
  using write_agrees [OF assms] by (auto simp: agree_def split: sum.splits)

theorem sqlite_refines_memory_witness:
  "case sqlite_write (demo_db\<lparr>q_jobs := demo_rows\<rparr>) (Claim_job 7 ''u1'' ''a'' ''ag'' ''r'') of
      Inr q' \<Rightarrow> \<exists>m'. memory_write (NewMemory\<lparr>m_jobs := map (\<lambda>j. (jID j, j)) demo_rows\<rparr>)
                  (Claim_job 7 ''u1'' ''a'' ''ag'' ''r'') = Inr m' \<and> represents q' m'
    | Inl e \<Rightarrow> (breaks_index (demo_db\<lparr>q_jobs := demo_rows\<rparr>) (Claim_job 7 ''u1'' ''a'' ''ag'' ''r'') \<and>
                clash_error (q_clash (demo_db\<lparr>q_jobs := demo_rows\<rparr>)) e) \<or>
        memory_write (NewMemory\<lparr>m_jobs := map (\<lambda>j. (jID j, j)) demo_rows\<rparr>)
          (Claim_job 7 ''u1'' ''a'' ''ag'' ''r'') = Inl e"
  by (rule sqlite_refines_memory [OF demo_represents]) simp

text \<open>C12: In related states the two stores answer the same reads: the same user by name or id and
  the same number of users; the same refresh token by hash; the same row, or the same error, for
  every lookup by identifier (agents, providers, drives, bindings, devices, snapshots, jobs,
  memories, marketplace items, purchases, connectors, outbox rows), by alias and by idempotency key;
  the same rows, up to order, in the listings without a limit (agents, providers, drives, bindings,
  devices, jobs, pending jobs, running jobs, connectors) and the same job counters, computed by
  GROUP BY on one side and row by row on the other. The listings that cut their rows (snapshots,
  purchases, memories of a named user, the marketplace) give the same rows while the rows they look
  at fit the limit; beyond it the SQLite store may miss rows, because it cuts before it filters. Not
  covered: the user list, whose token versions SQLite leaves out, the audit log and the lineage log,
  which the two stores prune differently, and graph edges, outbox and due listings.\<close>

theorem sqlite_reads_agree:
  assumes "represents q m"
  shows "sq_GetUserByUsername q s = GetUserByUsername m s \<and> sq_GetUserByID q i = GetUserByID m i \<and>
    sq_CountUsers q = CountUsers m \<and>
    sq_GetRefreshTokenByHash now q h = GetRefreshTokenByHash now m h \<and>
    sq_GetAgent q u i = GetAgent m u i \<and> sq_GetAgentByID q i = GetAgentByID m i \<and>
    sq_GetProvider q u i = GetProvider m u i \<and>
    sq_GetDrive q u i = GetDrive m u i \<and> sq_GetDriveByAlias q u s = GetDriveByAlias m u s \<and>
    sq_GetBinding q u i = GetBinding m u i \<and> sq_GetDevice q u i = GetDevice m u i \<and>
    sq_GetSnapshot q u d i = GetSnapshot m u d i \<and> sq_GetJob q u i = GetJob m u i \<and>
    sq_GetJobByID q i = GetJobByID m i \<and>
    sq_GetJobByIdempotencyKey q u s = GetJobByIdempotencyKey m u s \<and>
    sq_GetMemory q u i = GetMemory m u i \<and> sq_GetMarketplaceItem q i = GetMarketplaceItem m i \<and>
    sq_GetPurchase q u i = GetPurchase m u i \<and> sq_GetConnector q u i = GetConnector m u i \<and>
    sq_GetWebhookOutbox q i = GetWebhookOutbox m i \<and>
    mset (sq_ListAgents q u) = mset (ListAgents m u) \<and>
    mset (sq_ListProviders q u) = mset (ListProviders m u) \<and>
    mset (sq_ListDrives q u) = mset (ListDrives m u) \<and>
    mset (sq_ListBindings q u d) = mset (ListBindings m u d) \<and>
    mset (sq_ListDevices q u) = mset (ListDevices m u) \<and>
    mset (sq_ListJobs q u) = mset (ListJobs m u) \<and>
    mset (sq_ListPendingJobs q u) = mset (ListPendingJobs m u) \<and>
    mset (sq_ListRunningJobs q u) = mset (ListRunningJobs m u) \<and>
    mset (sq_ListConnectors q u) = mset (ListConnectors m u) \<and>
    sq_CountJobsByStatus q u = CountJobsByStatus m (trim_space u) \<and>
    (0 < l \<and> l \<le> 200 \<longrightarrow>
      (int (length (filter (\<lambda>s. snUserID s = u \<and> snDriveID s = d) (q_snapshots q))) \<le> l \<longrightarrow>
         mset (sq_ListSnapshots q u d l) = mset (ListSnapshots m u d l)) \<and>
      (int (length (filter (\<lambda>p. puUserID p = u) (q_purchases q))) \<le> l \<longrightarrow>
         mset (sq_ListPurchases q u l) = mset (ListPurchases m u l))) \<and>
    (length (q_market q) \<le> 500 \<longrightarrow>
      mset (sq_ListMarketplaceItems q public publisher) = mset (ListMarketplaceItems m public publisher)) \<and>
    (mfUserID f \<noteq> [] \<and> 0 < mfLimit f \<and> mfLimit f \<le> 500 \<and>
       int (length (filter (\<lambda>e. meUserID e = mfUserID f) (q_memories q))) \<le> mfLimit f \<longrightarrow>
      mset (sq_ListMemory now q f) = mset (ListMemory now m f))"
  using fitting_owned [OF assms, of l] fitting_market [OF assms] fitting_memory [OF assms, of f now]
  by (simp only: read_users [OF assms] read_refresh [OF assms] read_owned [OF assms]
      read_by_index [OF assms] read_lists [OF assms] counts_agree [OF assms] simp_thms) blast

text \<open>The witness: a lookup of one of two jobs, and a listing with a limit on an empty table.\<close>

theorem sqlite_reads_agree_witness:
  "sq_GetJob (demo_db\<lparr>q_jobs := demo_rows\<rparr>) ''u1'' ''b'' =
     GetJob (NewMemory\<lparr>m_jobs := map (\<lambda>j. (jID j, j)) demo_rows\<rparr>) ''u1'' ''b'' \<and>
   sq_GetJob (demo_db\<lparr>q_jobs := demo_rows\<rparr>) ''u1'' ''b'' = Inr (sq_job ''b'' 1000000002) \<and>
   mset (sq_ListPendingJobs (demo_db\<lparr>q_jobs := demo_rows\<rparr>) ''u1'') =
     mset (ListPendingJobs (NewMemory\<lparr>m_jobs := map (\<lambda>j. (jID j, j)) demo_rows\<rparr>) ''u1'') \<and>
   length (ListPendingJobs (NewMemory\<lparr>m_jobs := map (\<lambda>j. (jID j, j)) demo_rows\<rparr>) ''u1'') = 2 \<and>
   mset (sq_ListMarketplaceItems (demo_db\<lparr>q_jobs := demo_rows\<rparr>) True []) =
     mset (ListMarketplaceItems (NewMemory\<lparr>m_jobs := map (\<lambda>j. (jID j, j)) demo_rows\<rparr>) True [])"
proof -
  have "GetJob (NewMemory\<lparr>m_jobs := map (\<lambda>j. (jID j, j)) demo_rows\<rparr>) ''u1'' ''b'' = Inr (sq_job ''b'' 1000000002)"
    "length (ListPendingJobs (NewMemory\<lparr>m_jobs := map (\<lambda>j. (jID j, j)) demo_rows\<rparr>) ''u1'') = 2"
    by (simp_all add: demo_rows_def sq_job_def GetJob_def ListPendingJobs_def is_queued_def NewMemory_def)
  moreover have "length (q_market (demo_db\<lparr>q_jobs := demo_rows\<rparr>)) \<le> 500"
    by (simp add: demo_db_def fresh_db_def)
  ultimately show ?thesis using sqlite_reads_agree [OF demo_represents] by simp
qed

section \<open>Instants\<close>

text \<open>The order of instants in the SQLite store is the order of their texts. It never reverses
  instants a second or more apart, it agrees with time between instants written with all nine
  digits, but within one second it does reverse: 0.12 s sorts before 0.1 s, and so a listing or a
  cursor may return rows of the same second out of order.\<close>

theorem stored_instants_order:
  "(ts_before t u \<longrightarrow> t < u + second) \<and> (t + second \<le> u \<longrightarrow> ts_before t u) \<and>
   (full_precision t \<and> full_precision u \<longrightarrow> ts_before t u = (t < u)) \<and>
   ts_before 120000000 100000000"
  using ts_before_sound ts_before_complete full_precision_order ts_before_example by blast

theorem stored_instants_order_witness:
  "ts_before 1 1000000001 \<and> (ts_before 7 19 = (7 < (19 :: int)))"
  using stored_instants_order [of 1 1000000001] stored_instants_order [of 7 19]
  by (simp add: full_precision_def)

text \<open>C13: A page of jobs is the same on both stores: for a named user, labels with plain names and
  non-empty values, and creation instants at full precision, the SQLite query with its keyset
  cursor and LIMIT returns exactly the list the in-memory store filters, sorts and cuts.\<close>

theorem job_pages_agree:
  assumes rep: "represents q m" and json: "json_members q"
    and user: "trim_space (jlUserID f) \<noteq> []"
    and labels: "list_all (\<lambda>(k, v). plain_label k \<and> v \<noteq> []) (jlLabels f)"
    and prec: "\<And>j. j \<in> set (q_jobs q) \<Longrightarrow> full_precision (jCreatedAt j)"
    and cursor: "jlCursorCreated f = 0 \<or> full_precision (jlCursorCreated f)"
  shows "sq_ListJobsPage q f = ListJobsPage m f"
proof -
  note s = representsD(11) [OF rep]
  let ?P = "\<lambda>j. job_list_matches f j \<and> past_cursor (jlCursorCreated f) (jlCursorID f) j"
  have cur: "sq_past_cursor (jlCursorCreated f) (jlCursorID f) j =
      past_cursor (jlCursorCreated f) (jlCursorID f) j" if "j \<in> set (q_jobs q)" for j
    using cursor prec [OF that]
    by (auto simp: sq_past_cursor_def past_cursor_def full_precision_order)
  have rows: "filter (\<lambda>j. jUserID j = trim_space (jlUserID f) \<and>
        (trim_space (jlAgentID f) = [] \<or> jAgentID j = trim_space (jlAgentID f)) \<and>
        (trim_space (jlClaimedByAgentID f) = [] \<or> jClaimedByAgentID j = trim_space (jlClaimedByAgentID f)) \<and>
        (trim_space (jlClaimedByRunnerID f) = [] \<or> jClaimedByRunnerID j = trim_space (jlClaimedByRunnerID f)) \<and>
        (trim_space (jlRegionHint f) = [] \<or> jRegionHint j = trim_space (jlRegionHint f)) \<and>
        (trim_space (jlStatus f) = [] \<or> jStatus j = trim_space (jlStatus f)) \<and>
        sq_labels_match q (jlLabels f) j \<and>
        sq_past_cursor (jlCursorCreated f) (jlCursorID f) j) (q_jobs q) = filter ?P (q_jobs q)"
    using user labels_agree [OF json labels] cur
    by (intro filter_cong [OF refl]) (auto simp: job_list_matches_def Let_def)
  have "sort_slice job_desc (filter ?P (q_jobs q)) = exch_sort job_newer (filter ?P (gvals (m_jobs m)))"
    using prec sim_inj [OF s] by (intro job_sorts_agree sim_filter_mset [OF s]) auto
  then show ?thesis
    unfolding sq_ListJobsPage_def ListJobsPage_def Let_def rows job_page_limit_def by (simp only:)
qed

definition demo_page :: job_list_filter where
  "demo_page =
     \<lparr>jlUserID = ''u1'', jlAgentID = [], jlClaimedByAgentID = [], jlClaimedByRunnerID = [],
      jlRegionHint = [], jlStatus = [], jlLabels = [(''env'', ''prod'')], jlLimit = 10,
      jlCursorCreated = 0, jlCursorID = []\<rparr>"

theorem job_pages_agree_witness:
  "sq_ListJobsPage (demo_db\<lparr>q_jobs := demo_rows\<rparr>) demo_page =
     ListJobsPage (NewMemory\<lparr>m_jobs := map (\<lambda>j. (jID j, j)) demo_rows\<rparr>) demo_page \<and>
   map jID (ListJobsPage (NewMemory\<lparr>m_jobs := map (\<lambda>j. (jID j, j)) demo_rows\<rparr>) demo_page) = [''b'', ''a'']"
proof
  show "sq_ListJobsPage (demo_db\<lparr>q_jobs := demo_rows\<rparr>) demo_page =
     ListJobsPage (NewMemory\<lparr>m_jobs := map (\<lambda>j. (jID j, j)) demo_rows\<rparr>) demo_page"
  proof (rule job_pages_agree [OF demo_represents])
    show "json_members (demo_db\<lparr>q_jobs := demo_rows\<rparr>)"
      by (simp add: json_members_def demo_db_def fresh_db_def demo_json_def)
    show "trim_space (jlUserID demo_page) \<noteq> []" by code_simp
    show "list_all (\<lambda>(k, v). plain_label k \<and> v \<noteq> []) (jlLabels demo_page)" by code_simp
    show "jlCursorCreated demo_page = 0 \<or> full_precision (jlCursorCreated demo_page)"
      by (simp add: demo_page_def)
    show "full_precision (jCreatedAt j)" if "j \<in> set (q_jobs (demo_db\<lparr>q_jobs := demo_rows\<rparr>))" for j
      using that by (auto simp: demo_rows_def sq_job_def full_precision_def)
  qed
  show "map jID (ListJobsPage (NewMemory\<lparr>m_jobs := map (\<lambda>j. (jID j, j)) demo_rows\<rparr>) demo_page) = [''b'', ''a'']"
    by code_simp
qed

section \<open>The token denylist\<close>

lemma deny_keeps:
  assumes "(jti, exp) \<in> set (q_jtis q)" "second dvd exp" "now \<le> now'" "now' \<le> exp" "j \<noteq> jti"
    and "sq_RevokeJTI now q j e = Inr q'"
  shows "(jti, exp) \<in> set (q_jtis q')"
proof -
  have "\<not> ts_before exp now" using ts_before_whole [OF assms(2)] assms(3,4) by fastforce
  with assms(1,5,6) show ?thesis by (auto simp: sq_RevokeJTI_def Let_def split: if_splits)
qed

lemma find_jti: "key_ok fst rows \<Longrightarrow> (jti, exp) \<in> set rows \<Longrightarrow> find (\<lambda>(j, e). j = jti) rows = Some (jti, exp)"
  by (intro find_the) (auto simp: key_ok_def dest: eq_key_imp_eq_value)

lemma key_ok_filter: "key_ok f rows \<Longrightarrow> key_ok f (filter P rows)"
  by (simp add: key_ok_def distinct_map_filter)

lemma key_ok_replace: "key_ok f rows \<Longrightarrow> key_ok f (filter (\<lambda>r. f r \<noteq> f x) rows @ [x])"
  using key_ok_filter [of f rows "\<lambda>r. f r \<noteq> f x"] by (auto simp: key_ok_def)

lemma jtis_step: "key_ok fst (q_jtis q) \<Longrightarrow> sq_RevokeJTI now q j e = Inr q' \<Longrightarrow> key_ok fst (q_jtis q')"
proof -
  assume k: "key_ok fst (q_jtis q)" and r: "sq_RevokeJTI now q j e = Inr q'"
  have eq: "(\<lambda>(j', exp). j' \<noteq> j) = (\<lambda>r. fst r \<noteq> fst (j, e))" by auto
  have "q_jtis q' = filter (\<lambda>(j', exp). j' \<noteq> j) (filter (\<lambda>(j', exp). \<not> ts_before exp now) (q_jtis q)) @ [(j, e)]"
    using r by (auto simp: sq_RevokeJTI_def Let_def split: if_splits)
  then show "key_ok fst (q_jtis q')"
    unfolding eq using key_ok_replace [OF key_ok_filter [OF k]] by (simp only:)
qed

text \<open>The state after a list of revocations \<open>(now, jti, expiry)\<close>, a failing one changing nothing.\<close>

fun deny_all :: "(time \<times> string \<times> time) list \<Rightarrow> sqlite \<Rightarrow> sqlite" where
  "deny_all [] q = q"
| "deny_all ((now, j, e) # rs) q =
     deny_all rs (case sq_RevokeJTI now q j e of Inl _ \<Rightarrow> q | Inr q' \<Rightarrow> q')"

lemma deny_all_keeps:
  assumes "list_all (\<lambda>(now, j, e). now \<le> now' \<and> j \<noteq> jti) rs" "second dvd exp" "now' \<le> exp"
  shows "key_ok fst (q_jtis q) \<Longrightarrow> (jti, exp) \<in> set (q_jtis q) \<Longrightarrow>
    key_ok fst (q_jtis (deny_all rs q)) \<and> (jti, exp) \<in> set (q_jtis (deny_all rs q))"
  using assms(1)
proof (induction rs arbitrary: q)
  case (Cons r rs)
  obtain now j e where r: "r = (now, j, e)" by (cases r)
  show ?case
  proof (cases "sq_RevokeJTI now q j e")
    case (Inl err)
    with Cons r show ?thesis by simp
  next
    case (Inr q')
    have "now \<le> now'" "j \<noteq> jti" using Cons.prems(3) r by auto
    with deny_keeps [OF Cons.prems(2) assms(2) _ assms(3) _ Inr] jtis_step [OF Cons.prems(1) Inr]
      Cons.IH Cons.prems(3) r Inr
    show ?thesis by simp
  qed
qed simp

text \<open>The denylist of the SQLite store, pruned by comparing texts, is exact for tokens whose
  expiry is a whole second (as issued tokens have): once a token is revoked, whatever other tokens
  are revoked and however often the list is pruned meanwhile, it is reported revoked at every
  instant up to its expiry, and no longer after it.\<close>

theorem denylist_exact:
  assumes "key_ok fst (q_jtis q)" and "second dvd exp"
    and "sq_RevokeJTI start q jti exp = Inr q1"
    and "list_all (\<lambda>(now, j, e). now \<le> now' \<and> j \<noteq> jti) rs"
  shows "(now' \<le> exp \<longrightarrow> snd (sq_IsJTIRevoked now' (deny_all rs q1) jti)) \<and>
    (now' > exp \<and> rs = [] \<longrightarrow> \<not> snd (sq_IsJTIRevoked now' (deny_all rs q1) jti))"
proof -
  have k1: "key_ok fst (q_jtis q1)" by (rule jtis_step [OF assms(1,3)])
  have in1: "(jti, exp) \<in> set (q_jtis q1)" and "jti \<noteq> []"
    using assms(3) by (auto simp: sq_RevokeJTI_def Let_def split: if_splits)
  have "snd (sq_IsJTIRevoked now' (deny_all rs q1) jti)" if "now' \<le> exp"
  proof -
    have "find (\<lambda>(j, e). j = jti) (q_jtis (deny_all rs q1)) = Some (jti, exp)"
      using deny_all_keeps [OF assms(4,2) that k1 in1] by (intro find_jti) simp_all
    with \<open>jti \<noteq> []\<close> that show ?thesis by (simp add: sq_IsJTIRevoked_def)
  qed
  moreover have "\<not> snd (sq_IsJTIRevoked now' (deny_all rs q1) jti)" if "now' > exp" "rs = []"
    using find_jti [OF k1 in1] that \<open>jti \<noteq> []\<close> by (simp add: sq_IsJTIRevoked_def)
  ultimately show ?thesis by blast
qed

theorem denylist_exact_witness:
  "snd (sq_IsJTIRevoked 4500000000
     (deny_all [(4100000000, ''x'', 9000000000)] (demo_db\<lparr>q_jtis := [(''t'', 5000000000)]\<rparr>)) ''t'')"
  using denylist_exact [of demo_db 5000000000 1 "''t''" "demo_db\<lparr>q_jtis := [(''t'', 5000000000)]\<rparr>"
      4500000000 "[(4100000000, ''x'', 9000000000)]"]
  by (simp add: demo_db_def fresh_db_def sq_RevokeJTI_def key_ok_def)

end
