(* ===== verification/Provider_Config.thy ===== *)
theory Provider_Config
  imports Cloud_Prelude
begin

text \<open>
  Provider types and the normalisation of their credentials (\<open>internal/provider/types.go\<close>,
  \<open>config.go\<close>). The result of \<open>url.Parse\<close> is a parameter: the function from the text of a URL to its
  scheme, host and path, or the text of the error. A nil \<open>*bool\<close> is \<open>None\<close>. \<open>Resolve\<close> is split
  along the cases of its switch.
\<close>

section \<open>Types\<close>

abbreviation TypeS3 :: string where "TypeS3 \<equiv> ''s3''"
abbreviation TypeR2 :: string where "TypeR2 \<equiv> ''r2''"
abbreviation TypeMinIO :: string where "TypeMinIO \<equiv> ''minio''"
abbreviation TypeB2 :: string where "TypeB2 \<equiv> ''b2''"
abbreviation TypeOSS :: string where "TypeOSS \<equiv> ''oss''"
abbreviation TypeCOS :: string where "TypeCOS \<equiv> ''cos''"
abbreviation TypeQiniu :: string where "TypeQiniu \<equiv> ''qiniu''"
abbreviation TypeOracle :: string where "TypeOracle \<equiv> ''oracle''"

definition IsImplemented :: "string \<Rightarrow> bool" where
  "IsImplemented t \<longleftrightarrow>
     t \<in> {TypeS3, TypeR2, TypeMinIO, TypeB2, TypeOSS, TypeCOS, TypeQiniu, TypeOracle}"

record type_meta =
  tmType :: string
  tmName :: string
  tmBatch :: string
  tmS3Compat :: bool
  tmImplemented :: bool
  tmFields :: "string list"
  tmNotes :: string

definition Provider_Catalog :: "type_meta list" where
  "Provider_Catalog =
    [\<lparr>tmType = TypeS3, tmName = ''Generic S3'', tmBatch = ''A'', tmS3Compat = True, tmImplemented = True,
      tmFields = [''access_key'', ''secret_key'', ''endpoint'', ''region'', ''force_path_style''],
      tmNotes = ''AWS S3, custom S3-compatible endpoints''\<rparr>,
     \<lparr>tmType = TypeR2, tmName = ''Cloudflare R2'', tmBatch = ''A'', tmS3Compat = True, tmImplemented = True,
      tmFields = [''access_key'', ''secret_key'', ''account_id'', ''endpoint?''],
      tmNotes = ''Free ~10GB; zero egress. endpoint optional if account_id set''\<rparr>,
     \<lparr>tmType = TypeMinIO, tmName = ''MinIO'', tmBatch = ''A'', tmS3Compat = True, tmImplemented = True,
      tmFields = [''access_key'', ''secret_key'', ''endpoint'', ''region?'', ''force_path_style''],
      tmNotes = ''Self-hosted; path-style default true''\<rparr>,
     \<lparr>tmType = TypeB2, tmName = ''Backblaze B2'', tmBatch = ''B'', tmS3Compat = True, tmImplemented = True,
      tmFields = [''access_key'', ''secret_key'', ''endpoint'', ''region?'', ''force_path_style''],
      tmNotes = ''S3-compatible; path-style default true; e.g. s3.us-west-000.backblazeb2.com''\<rparr>,
     \<lparr>tmType = TypeOSS, tmName = ''Aliyun OSS'', tmBatch = ''B'', tmS3Compat = True, tmImplemented = True,
      tmFields = [''access_key'', ''secret_key'', ''endpoint'', ''region?'', ''force_path_style''],
      tmNotes = ''S3-compatible; virtual-hosted default; e.g. oss-cn-hangzhou.aliyuncs.com''\<rparr>,
     \<lparr>tmType = TypeCOS, tmName = ''Tencent COS'', tmBatch = ''B'', tmS3Compat = True, tmImplemented = True,
      tmFields = [''access_key'', ''secret_key'', ''endpoint'', ''region?'', ''force_path_style''],
      tmNotes = ''S3-compatible; e.g. cos.ap-guangzhou.myqcloud.com''\<rparr>,
     \<lparr>tmType = TypeQiniu, tmName = ''Qiniu Kodo'', tmBatch = ''C'', tmS3Compat = True, tmImplemented = True,
      tmFields = [''access_key'', ''secret_key'', ''endpoint'', ''region?'', ''force_path_style''],
      tmNotes = ''S3-compatible; path-style often true; e.g. s3-cn-east-1.qiniucs.com''\<rparr>,
     \<lparr>tmType = TypeOracle, tmName = ''Oracle OCI'', tmBatch = ''C'', tmS3Compat = True, tmImplemented = True,
      tmFields = [''access_key'', ''secret_key'', ''endpoint'', ''region?'', ''force_path_style''],
      tmNotes = ''OCI S3 compatibility; path-style default true; region default us-ashburn-1''\<rparr>]"

section \<open>Credentials and resolved connections\<close>

record credentials =
  crAccessKey :: string
  crSecretKey :: string
  crEndpoint :: string
  crRegion :: string
  crAccountID :: string
  crForcePathStyle :: "bool option"
  crUseSSL :: "bool option"

record resolved =
  rsType :: string
  rsAccessKey :: string
  rsSecretKey :: string
  rsSessionToken :: string
  rsEndpoint :: string
  rsRegion :: string
  rsForcePathStyle :: bool
  rsUseSSL :: bool
  rsProviderLabel :: string

record url =
  urScheme :: string
  urHost :: string
  urPath :: string

type_synonym url_parser = "string \<Rightarrow> string + url"

definition parseEndpoint :: "url_parser \<Rightarrow> string \<Rightarrow> bool \<Rightarrow> (string \<times> bool) result" where
  "parseEndpoint urls raw0 defaultSSL =
     (let raw = trim_space raw0
      in if sublist ''://'' raw
         then (case urls raw of
                 Inl e \<Rightarrow> Inl (Errorf (''invalid endpoint: '' @ e))
               | Inr u \<Rightarrow>
                   Inr (if urHost u = [] then urPath u else urHost u,
                        if urScheme u = ''http'' then False
                        else if urScheme u = ''https'' then True else defaultSSL))
         else Inr (raw, defaultSSL))"

definition chosen :: "'a option \<Rightarrow> 'a \<Rightarrow> 'a" where
  "chosen c dflt = (case c of Some b \<Rightarrow> b | None \<Rightarrow> dflt)"

definition default_region :: "string \<Rightarrow> resolved \<Rightarrow> resolved" where
  "default_region d r = (if rsRegion r = [] then r\<lparr>rsRegion := d\<rparr> else r)"

text \<open>The block that ends every case: parse the endpoint, set the host, let \<open>use_ssl\<close> decide.\<close>

definition with_endpoint :: "url_parser \<Rightarrow> credentials \<Rightarrow> string \<Rightarrow> bool \<Rightarrow> resolved \<Rightarrow> resolved result" where
  "with_endpoint urls c ep dflt r =
     and_then (parseEndpoint urls ep dflt)
       (\<lambda>(host, ssl). Inr (r\<lparr>rsEndpoint := host, rsUseSSL := chosen (crUseSSL c) ssl\<rparr>))"

definition resolve_r2 :: "url_parser \<Rightarrow> credentials \<Rightarrow> resolved \<Rightarrow> resolved result" where
  "resolve_r2 urls c r0 =
     (let r = default_region ''auto'' (r0\<lparr>rsProviderLabel := ''Cloudflare'', rsForcePathStyle := False, rsUseSSL := True\<rparr>);
          ep = trim_space (crEndpoint c)
      in if ep = []
         then (let aid = trim_space (crAccountID c)
               in if aid = [] then Inl (Errorf ''r2 requires account_id or endpoint'')
                  else with_endpoint urls c (aid @ ''.r2.cloudflarestorage.com'') True r)
         else with_endpoint urls c ep True r)"

definition resolve_minio :: "url_parser \<Rightarrow> credentials \<Rightarrow> resolved \<Rightarrow> resolved result" where
  "resolve_minio urls c r0 =
     (let r = default_region ''us-east-1''
                (r0\<lparr>rsProviderLabel := ''Minio'', rsForcePathStyle := chosen (crForcePathStyle c) True\<rparr>);
          ep = trim_space (crEndpoint c)
      in if ep = [] then Inl (Errorf ''minio requires endpoint'')
         else with_endpoint urls c ep False r)"

definition resolve_s3 :: "url_parser \<Rightarrow> credentials \<Rightarrow> resolved \<Rightarrow> resolved result" where
  "resolve_s3 urls c r0 =
     (let r = default_region ''us-east-1''
                (r0\<lparr>rsProviderLabel := ''Other'', rsForcePathStyle := chosen (crForcePathStyle c) False\<rparr>);
          ep = trim_space (crEndpoint c)
      in if ep = []
         then Inr (r\<lparr>rsEndpoint := ''s3.amazonaws.com'', rsUseSSL := True, rsProviderLabel := ''AWS''\<rparr>)
         else with_endpoint urls c ep True r)"

definition resolve_b2 :: "url_parser \<Rightarrow> credentials \<Rightarrow> resolved \<Rightarrow> resolved result" where
  "resolve_b2 urls c r0 =
     (let r = r0\<lparr>rsProviderLabel := ''Other'', rsForcePathStyle := chosen (crForcePathStyle c) True\<rparr>;
          ep = trim_space (crEndpoint c)
      in if ep = [] then Inl (Errorf ''b2 requires endpoint (e.g. s3.us-west-000.backblazeb2.com)'')
         else with_endpoint urls c ep True r)"

definition resolve_oss :: "url_parser \<Rightarrow> credentials \<Rightarrow> resolved \<Rightarrow> resolved result" where
  "resolve_oss urls c r0 =
     (let r = default_region ''us-east-1''
                (r0\<lparr>rsProviderLabel := ''Other'', rsForcePathStyle := chosen (crForcePathStyle c) False\<rparr>);
          ep = trim_space (crEndpoint c)
      in if ep = [] then Inl (Errorf ''oss requires endpoint (e.g. oss-cn-hangzhou.aliyuncs.com)'')
         else with_endpoint urls c ep True r)"

definition resolve_cos :: "url_parser \<Rightarrow> credentials \<Rightarrow> resolved \<Rightarrow> resolved result" where
  "resolve_cos urls c r0 =
     (let r = default_region ''us-east-1''
                (r0\<lparr>rsProviderLabel := ''Other'', rsForcePathStyle := chosen (crForcePathStyle c) False\<rparr>);
          ep = trim_space (crEndpoint c)
      in if ep = [] then Inl (Errorf ''cos requires endpoint (e.g. cos.ap-guangzhou.myqcloud.com)'')
         else with_endpoint urls c ep True r)"

definition resolve_qiniu :: "url_parser \<Rightarrow> credentials \<Rightarrow> resolved \<Rightarrow> resolved result" where
  "resolve_qiniu urls c r0 =
     (let r = r0\<lparr>rsProviderLabel := ''Other'', rsForcePathStyle := chosen (crForcePathStyle c) True\<rparr>;
          ep = trim_space (crEndpoint c)
      in if ep = [] then Inl (Errorf ''qiniu requires endpoint (e.g. s3-cn-east-1.qiniucs.com)'')
         else with_endpoint urls c ep True r)"

definition resolve_oracle :: "url_parser \<Rightarrow> credentials \<Rightarrow> resolved \<Rightarrow> resolved result" where
  "resolve_oracle urls c r0 =
     (let r = default_region ''us-ashburn-1''
                (r0\<lparr>rsProviderLabel := ''Other'', rsForcePathStyle := chosen (crForcePathStyle c) True\<rparr>);
          ep = trim_space (crEndpoint c)
      in if ep = [] then Inl (Errorf ''oracle requires endpoint (OCI S3 compatibility endpoint)'')
         else with_endpoint urls c ep True r)"

definition resolved_base :: "string \<Rightarrow> credentials \<Rightarrow> resolved" where
  "resolved_base t c =
     \<lparr>rsType = t, rsAccessKey = trim_space (crAccessKey c), rsSecretKey = trim_space (crSecretKey c),
      rsSessionToken = [], rsEndpoint = [], rsRegion = trim_space (crRegion c), rsForcePathStyle = False,
      rsUseSSL = False, rsProviderLabel = []\<rparr>"

definition Resolve :: "url_parser \<Rightarrow> string \<Rightarrow> credentials \<Rightarrow> resolved result" where
  "Resolve urls t c =
     (if \<not> IsImplemented t
      then Inl (Errorf (''provider type '' @ quoted t @ '' not implemented yet (see docs/VENDORS.md batch order)''))
      else if trim_space (crAccessKey c) = [] \<or> trim_space (crSecretKey c) = []
      then Inl (Errorf ''access_key and secret_key required'')
      else (let r = resolved_base t c
            in if t = TypeR2 then resolve_r2 urls c r
               else if t = TypeMinIO then resolve_minio urls c r
               else if t = TypeS3 then resolve_s3 urls c r
               else if t = TypeB2 then resolve_b2 urls c r
               else if t = TypeOSS then resolve_oss urls c r
               else if t = TypeCOS then resolve_cos urls c r
               else if t = TypeQiniu then resolve_qiniu urls c r
               else if t = TypeOracle then resolve_oracle urls c r
               else Inr r))"

lemmas provider_config_defs =
  Resolve_def resolve_r2_def resolve_minio_def resolve_s3_def resolve_b2_def resolve_oss_def resolve_cos_def
  resolve_qiniu_def resolve_oracle_def resolved_base_def with_endpoint_def default_region_def chosen_def

section \<open>Facts\<close>

text \<open>The catalogue offers exactly the types that resolve.\<close>

lemma catalog_types: "set (map tmType Provider_Catalog) = {t. IsImplemented t}"
  by (auto simp: Provider_Catalog_def IsImplemented_def)

lemma parseEndpoint_plain: "\<not> sublist ''://'' (trim_space e) \<Longrightarrow> parseEndpoint urls e d = Inr (trim_space e, d)"
  by (simp add: parseEndpoint_def Let_def)

text \<open>
  What a resolved connection keeps of the credentials, whatever the type: the two keys, trimmed;
  the region, if there is one.
\<close>

lemma with_endpoint_Inr:
  "with_endpoint urls c ep d r = Inr r' \<longleftrightarrow>
   (\<exists>host ssl. parseEndpoint urls ep d = Inr (host, ssl) \<and>
      r' = r\<lparr>rsEndpoint := host, rsUseSSL := chosen (crUseSSL c) ssl\<rparr>)"
  by (auto simp: with_endpoint_def and_then_Inr)

lemma chosen_simps [simp]: "chosen None d = d" "chosen (Some b) d = b"
  by (simp_all add: chosen_def)

lemma default_region_simps [simp]:
  "rsType (default_region d r) = rsType r" "rsAccessKey (default_region d r) = rsAccessKey r"
  "rsSecretKey (default_region d r) = rsSecretKey r" "rsSessionToken (default_region d r) = rsSessionToken r"
  "rsForcePathStyle (default_region d r) = rsForcePathStyle r"
  "rsProviderLabel (default_region d r) = rsProviderLabel r"
  "rsRegion (default_region d r) = (if rsRegion r = [] then d else rsRegion r)"
  by (simp_all add: default_region_def)

end
