(* ===== verification/Secret_Box.thy ===== *)
theory Secret_Box
  imports Cloud_Prelude
begin

text \<open>
  The envelope of provider secrets (\<open>internal/crypto/secretbox/secretbox.go\<close>): the master key from
  hexadecimal, Base64 or a passphrase, and the layout \<open>ACH1 || nonce || ciphertext\<close>. The
  authenticated cipher (NaCl secretbox), scrypt and the four Base64 decoders are parameters; a nil
  \<open>*Box\<close> is \<open>None\<close>. A random source that fails is an \<open>Inl\<close> draw.
\<close>

record cipher =
  cy_seal :: "string \<Rightarrow> string \<Rightarrow> string \<Rightarrow> string"
  cy_open :: "string \<Rightarrow> string \<Rightarrow> string \<Rightarrow> string option"
  cy_scrypt :: "string \<Rightarrow> string \<Rightarrow> string + string"
  cy_b64 :: "(string \<Rightarrow> string option) list"

abbreviation magic :: string where "magic \<equiv> ''ACH1''"
abbreviation passphraseSalt :: string where "passphraseSalt \<equiv> ''ai-cloudhub-v1-master-key-salt''"
abbreviation keySize :: nat where "keySize \<equiv> 32"
abbreviation nonceSize :: nat where "nonceSize \<equiv> 24"
abbreviation overhead :: nat where "overhead \<equiv> 44"

section \<open>The master key\<close>

definition hex_val :: "char \<Rightarrow> nat option" where
  "hex_val c =
     (if CHR ''0'' \<le> c \<and> c \<le> CHR ''9'' then Some (of_char c - 48)
      else if CHR ''a'' \<le> c \<and> c \<le> CHR ''f'' then Some (of_char c - 87)
      else if CHR ''A'' \<le> c \<and> c \<le> CHR ''F'' then Some (of_char c - 55)
      else None)"

fun hex_decode :: "string \<Rightarrow> string option" where
  "hex_decode [] = Some []"
| "hex_decode [c] = None"
| "hex_decode (c # d # cs) =
     (case (hex_val c, hex_val d, hex_decode cs) of
        (Some a, Some b, Some r) \<Rightarrow> Some (char_of (16 * a + b) # r)
      | _ \<Rightarrow> None)"

fun first_key :: "(string \<Rightarrow> string option) list \<Rightarrow> string \<Rightarrow> string option" where
  "first_key [] s = None"
| "first_key (d # ds) s =
     (case d s of
        Some raw \<Rightarrow> if length raw = keySize then Some raw else first_key ds s
      | None \<Rightarrow> first_key ds s)"

definition hex_key :: "string \<Rightarrow> string option" where
  "hex_key s =
     (let h = (if prefix ''0x'' (to_lower s) then drop 2 s else s)
      in if length h = keySize * 2
         then (case hex_decode h of
                 Some raw \<Rightarrow> if length raw = keySize then Some raw else None
               | None \<Rightarrow> None)
         else None)"

definition parseMasterKey :: "cipher \<Rightarrow> string \<Rightarrow> string result" where
  "parseMasterKey cy s =
     (case hex_key s of
        Some raw \<Rightarrow> Inr raw
      | None \<Rightarrow>
          (case first_key (cy_b64 cy) s of
             Some raw \<Rightarrow> Inr raw
           | None \<Rightarrow>
               (case cy_scrypt cy s passphraseSalt of
                  Inl e \<Rightarrow> Inl (Errorf (''secretbox: scrypt: '' @ e))
                | Inr raw \<Rightarrow> Inr raw)))"

text \<open>\<open>copy(b.key[:], raw)\<close> fills an array of 32 zero bytes.\<close>

definition key_array :: "string \<Rightarrow> string" where
  "key_array raw = take keySize (raw @ replicate keySize (CHR 0x00))"

definition NewBox :: "cipher \<Rightarrow> string \<Rightarrow> string result" where
  "NewBox cy masterKey =
     (let k = trim_space masterKey
      in if k = [] then Inl (Errorf ''secretbox: empty master key (set AI_CLOUDHUB_MASTER_KEY)'')
         else and_then (parseMasterKey cy k) (\<lambda>raw. Inr (key_array raw)))"

definition BoxFromEnv :: "cipher \<Rightarrow> environment \<Rightarrow> string option result" where
  "BoxFromEnv cy env =
     (let v = trim_space (env ''AI_CLOUDHUB_MASTER_KEY'')
      in if v = [] then Inr None else and_then (NewBox cy v) (\<lambda>b. Inr (Some b)))"

section \<open>Sealing\<close>

definition Seal :: "cipher \<Rightarrow> string option \<Rightarrow> string + string \<Rightarrow> string \<Rightarrow> string result" where
  "Seal cy box rnd plaintext =
     (case box of
        None \<Rightarrow> Inl (Errorf ''secretbox: nil Box'')
      | Some key \<Rightarrow>
          (case rnd of
             Inl e \<Rightarrow> Inl (Errorf (''secretbox: nonce: '' @ e))
           | Inr nonce \<Rightarrow> Inr (magic @ nonce @ cy_seal cy plaintext nonce key)))"

definition Open :: "cipher \<Rightarrow> string option \<Rightarrow> string \<Rightarrow> string result" where
  "Open cy box ciphertext =
     (case box of
        None \<Rightarrow> Inl (Errorf ''secretbox: nil Box'')
      | Some key \<Rightarrow>
          if length ciphertext < overhead then Inl (Errorf ''secretbox: ciphertext too short'')
          else if take 4 ciphertext \<noteq> magic then Inl (Errorf ''secretbox: unknown ciphertext version'')
          else (case cy_open cy (drop 28 ciphertext) (take nonceSize (drop 4 ciphertext)) key of
                  None \<Rightarrow> Inl (Errorf ''secretbox: authentication failed'')
                | Some plain \<Rightarrow> Inr plain))"

section \<open>Facts\<close>

text \<open>
  The documented contract of the cipher: opening with the same nonce and key gives the plaintext
  back, and sealing adds 16 bytes.
\<close>

definition cipher_ok :: "cipher \<Rightarrow> bool" where
  "cipher_ok cy \<longleftrightarrow>
     (\<forall>p n k. cy_open cy (cy_seal cy p n k) n k = Some p \<and> length (cy_seal cy p n k) = length p + 16)"

lemma Open_Seal:
  assumes "cipher_ok cy" "length nonce = nonceSize" "Seal cy (Some k) (Inr nonce) p = Inr c"
  shows "Open cy (Some k) c = Inr p"
  using assms by (auto simp: Seal_def Open_def cipher_ok_def)

lemma Seal_nonempty: "Seal cy b r p = Inr c \<Longrightarrow> c \<noteq> []"
  by (auto simp: Seal_def split: option.splits sum.splits)

text \<open>The hexadecimal form of a key, for the round trip.\<close>

definition hex_digit :: "nat \<Rightarrow> char" where
  "hex_digit n = (if n < 10 then char_of (48 + n) else char_of (87 + n))"

definition hex_encode :: "string \<Rightarrow> string" where
  "hex_encode s = concat (map (\<lambda>c. [hex_digit (of_char c div 16), hex_digit (of_char c mod 16)]) s)"

lemma nibble: "of_char (c :: char) div 16 < (16 :: nat)"
  using nat_of_char_less_256 [of c] by (intro less_mult_imp_div_less) simp

lemma hex_val_digit: "n < 16 \<Longrightarrow> hex_val (hex_digit n) = Some n"
  by (auto simp: hex_val_def hex_digit_def less_eq_char_def)

lemma hex_decode_encode: "hex_decode (hex_encode s) = Some s"
proof (induction s)
  case Nil
  then show ?case by (simp add: hex_encode_def)
next
  case (Cons c s)
  then show ?case by (simp add: hex_encode_def hex_val_digit nibble)
qed

lemma length_hex_encode: "length (hex_encode s) = 2 * length s"
  by (induction s) (auto simp: hex_encode_def)

lemma hex_encode_chars: "c \<in> set (hex_encode s) \<Longrightarrow> \<exists>n < 16. c = hex_digit n"
proof -
  assume "c \<in> set (hex_encode s)"
  then obtain d where "c = hex_digit (of_char d div 16) \<or> c = hex_digit (of_char d mod 16)"
    by (auto simp: hex_encode_def)
  moreover have "of_char d mod 16 < (16 :: nat)" by simp
  ultimately show ?thesis using nibble [of d] by blast
qed

lemma go_spaces_no_hex:
  "\<forall>w \<in> set go_spaces. \<forall>c \<in> set w.
     \<not> (CHR ''0'' \<le> c \<and> c \<le> CHR ''9'') \<and> \<not> (CHR ''a'' \<le> c \<and> c \<le> CHR ''f'')"
  by code_simp

lemma hex_digit_range:
  "n < 16 \<Longrightarrow> (CHR ''0'' \<le> hex_digit n \<and> hex_digit n \<le> CHR ''9'') \<or> (CHR ''a'' \<le> hex_digit n \<and> hex_digit n \<le> CHR ''f'')"
  by (auto simp: hex_digit_def less_eq_char_def)

lemma trim_hex: "trim_space (hex_encode s) = hex_encode s"
proof (rule trim_space_id)
  fix w assume w: "w \<in> set go_spaces" "w \<noteq> []"
  have n: "c \<notin> set (hex_encode s)" if "c \<in> set w" for c
    using that w go_spaces_no_hex hex_digit_range hex_encode_chars by metis
  obtain c where "c \<in> set w" using w(2) by (cases w) auto
  with n show "\<not> prefix w (hex_encode s)" "\<not> suffix w (hex_encode s)"
    by (auto dest: set_mono_prefix set_mono_suffix)
qed

lemma hex_no_0x: "\<not> prefix ''0x'' (to_lower (hex_encode s))"
proof
  assume "prefix ''0x'' (to_lower (hex_encode s))"
  then have "CHR ''x'' \<in> set (to_lower (hex_encode s))" by (auto simp: prefix_def)
  then obtain c where "c \<in> set (hex_encode s)" "to_lower_c c = CHR ''x''" by (auto simp: to_lower_def)
  then obtain n where "n < 16" "to_lower_c (hex_digit n) = CHR ''x''" using hex_encode_chars by blast
  then show False using hex_digit_range [of n]
    by (auto simp: to_lower_c_def less_eq_char_def split: if_splits)
qed

lemma hex_key_encode:
  assumes "length k = keySize"
  shows "hex_key (hex_encode k) = Some k" and "hex_key (''0x'' @ hex_encode k) = Some k"
proof -
  show "hex_key (hex_encode k) = Some k"
    unfolding hex_key_def Let_def using assms hex_no_0x [of k]
    by (simp only: if_False) (simp add: length_hex_encode hex_decode_encode)
  have "prefix ''0x'' (to_lower (''0x'' @ hex_encode k))" by (simp add: to_lower_def to_lower_c_def less_eq_char_def)
  then show "hex_key (''0x'' @ hex_encode k) = Some k"
    unfolding hex_key_def Let_def using assms
    by (simp only: if_True) (simp add: length_hex_encode hex_decode_encode)
qed

lemma NewBox_hex:
  assumes "length k = keySize"
  shows "NewBox cy (hex_encode k) = Inr k"
proof -
  have "hex_encode k \<noteq> []" using assms length_hex_encode [of k] by auto
  then show ?thesis using assms by (simp add: NewBox_def Let_def trim_hex parseMasterKey_def hex_key_encode key_array_def)
qed

lemma NewBox_size: "NewBox cy s = Inr k \<Longrightarrow> length k = keySize"
  by (auto simp: NewBox_def and_then_Inr Let_def key_array_def split: if_splits)

end
