(* ===== verification/Provider_Service.thy ===== *)
theory Provider_Service
  imports Provider_Config Secret_Box Policy_Limits Store_Resources
begin

text \<open>
  The provider registry (\<open>internal/provider/service.go\<close>, \<open>health.go\<close>): creation with quota and sealing
  of the secret, reads, and the resolution of a stored record to a connection. The JSON encoding
  of the stored credentials and the S3 client of the health probe are parameters; a nil box
  (plaintext mode) is \<open>None\<close>.
\<close>

record provider_rec =
  rcID :: string
  rcUserID :: string
  rcName :: string
  rcType :: string
  rcCreds :: credentials
  rcSecretEnc :: string
  rcEndpointPublic :: string
  rcRegion :: string
  rcAccountID :: string

record creds_blob =
  kbAccessKey :: string
  kbSecretKey :: string
  kbEndpoint :: string
  kbRegion :: string
  kbAccountID :: string
  kbForcePathStyle :: "bool option"
  kbUseSSL :: "bool option"
  kbSecretEnc :: string

record provider_service =
  ps_box :: "string option"
  ps_cipher :: cipher
  ps_urls :: url_parser
  ps_marshal :: "creds_blob \<Rightarrow> string + string"
  ps_unmarshal :: "string \<Rightarrow> string + creds_blob"

record provider_input =
  piName :: string
  piType :: string
  piCreds :: credentials

definition Public :: "provider_rec \<Rightarrow> (string \<times> string) list" where
  "Public r =
    [(''id'', rcID r), (''name'', rcName r), (''type'', rcType r), (''endpoint'', rcEndpointPublic r),
     (''region'', rcRegion r), (''account_id'', rcAccountID r)]"

section \<open>Storing records\<close>

definition recordToStore :: "provider_service \<Rightarrow> provider_rec \<Rightarrow> provider result" where
  "recordToStore sv rec =
     (let c = rcCreds rec;
          blob = \<lparr>kbAccessKey = crAccessKey c, kbSecretKey = crSecretKey c, kbEndpoint = crEndpoint c,
                  kbRegion = crRegion c, kbAccountID = crAccountID c, kbForcePathStyle = crForcePathStyle c,
                  kbUseSSL = crUseSSL c, kbSecretEnc = rcSecretEnc rec\<rparr>
      in (case ps_marshal sv blob of
            Inl e \<Rightarrow> Inl (Errorf e)
          | Inr creds \<Rightarrow>
              Inr \<lparr>pID = rcID rec, pUserID = rcUserID rec, pName = rcName rec, pType = rcType rec,
                   pCredsJSON = creds, pEndpointPublic = rcEndpointPublic rec, pRegion = rcRegion rec,
                   pAccountID = rcAccountID rec\<rparr>))"

definition empty_blob :: creds_blob where
  "empty_blob =
    \<lparr>kbAccessKey = [], kbSecretKey = [], kbEndpoint = [], kbRegion = [], kbAccountID = [],
     kbForcePathStyle = None, kbUseSSL = None, kbSecretEnc = []\<rparr>"

definition record_of :: "provider \<Rightarrow> creds_blob \<Rightarrow> provider_rec" where
  "record_of p b =
    \<lparr>rcID = pID p, rcUserID = pUserID p, rcName = pName p, rcType = pType p,
     rcCreds = \<lparr>crAccessKey = kbAccessKey b, crSecretKey = kbSecretKey b, crEndpoint = kbEndpoint b,
                crRegion = kbRegion b, crAccountID = kbAccountID b,
                crForcePathStyle = kbForcePathStyle b, crUseSSL = kbUseSSL b\<rparr>,
     rcSecretEnc = kbSecretEnc b, rcEndpointPublic = pEndpointPublic p, rcRegion = pRegion p,
     rcAccountID = pAccountID p\<rparr>"

definition recordFromStore :: "provider_service \<Rightarrow> provider \<Rightarrow> provider_rec result" where
  "recordFromStore sv p =
     (if pCredsJSON p = [] then Inr (record_of p empty_blob)
      else (case ps_unmarshal sv (pCredsJSON p) of
              Inl e \<Rightarrow> Inl (Errorf (''decode credentials: '' @ e))
            | Inr b \<Rightarrow> Inr (record_of p b)))"

section \<open>Operations\<close>

text \<open>The record of a new provider: the resolved host replaces the endpoint, a missing region the
  resolved one.\<close>

definition new_record :: "draw \<Rightarrow> string \<Rightarrow> provider_input \<Rightarrow> resolved \<Rightarrow> provider_rec" where
  "new_record dr userID inp r =
    \<lparr>rcID = dr_id dr, rcUserID = userID, rcName = trim_space (piName inp), rcType = piType inp,
     rcCreds = (piCreds inp)\<lparr>crEndpoint := rsEndpoint r,
                 crRegion := (if crRegion (piCreds inp) = [] then rsRegion r else crRegion (piCreds inp))\<rparr>,
     rcSecretEnc = [], rcEndpointPublic = rsEndpoint r, rcRegion = rsRegion r,
     rcAccountID = trim_space (crAccountID (piCreds inp))\<rparr>"

definition seal_record :: "provider_service \<Rightarrow> draw \<Rightarrow> provider_rec \<Rightarrow> provider_rec result" where
  "seal_record sv dr rec =
     (case ps_box sv of
        None \<Rightarrow> Inr rec
      | Some k \<Rightarrow>
          (case Seal (ps_cipher sv) (ps_box sv) (dr_rand dr) (crSecretKey (rcCreds rec)) of
             Inl e \<Rightarrow> Inl (Errorf (''encrypt secret: '' @ error_text e))
           | Inr sealed \<Rightarrow>
               Inr (rec\<lparr>rcSecretEnc := sealed, rcCreds := (rcCreds rec)\<lparr>crSecretKey := []\<rparr>\<rparr>)))"

definition Provider_Create ::
  "provider_service \<Rightarrow> draw \<Rightarrow> memory \<Rightarrow> string \<Rightarrow> provider_input \<Rightarrow> memory \<times> provider_rec result" where
  "Provider_Create sv dr m userID inp =
     (if trim_space (piName inp) = [] then (m, Inl (Errorf ''name required''))
      else if \<not> IsImplemented (piType inp)
      then (m, Inl (Errorf (''provider '' @ quoted (piType inp) @ '' not implemented yet; see docs/VENDORS.md'')))
      else (case and_then (CheckProviders DefaultQuota (int (length (ListProviders m userID))))
                   (\<lambda>_. and_then (Resolve (ps_urls sv) (piType inp) (piCreds inp))
                     (\<lambda>r. and_then (seal_record sv dr (new_record dr userID inp r))
                       (\<lambda>rec. and_then (recordToStore sv rec) (\<lambda>p. Inr (rec, p))))) of
              Inl e \<Rightarrow> (m, Inl e)
            | Inr (rec, p) \<Rightarrow>
                (case CreateProvider m p of
                   Inl e \<Rightarrow> (m, Inl e)
                 | Inr m1 \<Rightarrow> (m1, Inr rec))))"

definition Provider_Get :: "provider_service \<Rightarrow> memory \<Rightarrow> string \<Rightarrow> string \<Rightarrow> provider_rec result" where
  "Provider_Get sv m userID i =
     (case GetProvider m userID i of
        Inl _ \<Rightarrow> Inl (Errorf ''provider not found'')
      | Inr p \<Rightarrow> recordFromStore sv p)"

definition Provider_List :: "provider_service \<Rightarrow> memory \<Rightarrow> string \<Rightarrow> provider_rec list" where
  "Provider_List sv m userID =
     concat (map (\<lambda>p. case recordFromStore sv p of Inl _ \<Rightarrow> [] | Inr r \<Rightarrow> [r]) (ListProviders m userID))"

definition Provider_Delete :: "memory \<Rightarrow> string \<Rightarrow> string \<Rightarrow> memory \<times> unit result" where
  "Provider_Delete m userID i =
     (case DeleteProvider m userID i of
        Inl _ \<Rightarrow> (m, Inl (Errorf ''provider not found''))
      | Inr m1 \<Rightarrow> (m1, Inr ()))"

definition plaintextCreds :: "provider_service \<Rightarrow> provider_rec \<Rightarrow> credentials result" where
  "plaintextCreds sv rec =
     (if rcSecretEnc rec = [] then Inr (rcCreds rec)
      else if ps_box sv = None
      then Inl (Errorf (''provider '' @ rcID rec @ '' has encrypted secret but master key is not configured''))
      else (case Open (ps_cipher sv) (ps_box sv) (rcSecretEnc rec) of
              Inl e \<Rightarrow> Inl (Errorf (''decrypt secret: '' @ error_text e))
            | Inr pt \<Rightarrow> Inr ((rcCreds rec)\<lparr>crSecretKey := pt\<rparr>)))"

definition ResolveRecord ::
  "provider_service \<Rightarrow> memory \<Rightarrow> string \<Rightarrow> string \<Rightarrow> (resolved \<times> provider_rec) result" where
  "ResolveRecord sv m userID i =
     and_then (Provider_Get sv m userID i)
       (\<lambda>rec. and_then (plaintextCreds sv rec)
         (\<lambda>creds. and_then (Resolve (ps_urls sv) (rcType rec) creds)
           (\<lambda>r. Inr (r, rec))))"

section \<open>Health probe\<close>

record health =
  heOK :: bool
  heProviderID :: string
  heType :: string
  heEndpoint :: string
  heLatencyMS :: int
  heBucketCount :: "int option"
  heMessage :: string

text \<open>The client constructor and the probe answer with an error text or a count of buckets; the
  elapsed time is an argument.\<close>

definition HealthProbe ::
  "provider_service \<Rightarrow> (resolved \<Rightarrow> string + 'c) \<Rightarrow> ('c \<Rightarrow> string + int) \<Rightarrow> int \<Rightarrow> memory \<Rightarrow> string \<Rightarrow> string
   \<Rightarrow> health result" where
  "HealthProbe sv s3new probe latency m userID i =
     and_then (ResolveRecord sv m userID i)
       (\<lambda>(r, rec).
          let out = \<lparr>heOK = False, heProviderID = rcID rec, heType = rcType rec, heEndpoint = rsEndpoint r,
                     heLatencyMS = latency, heBucketCount = None, heMessage = []\<rparr>
          in (case s3new r of
                Inl e \<Rightarrow> Inr (out\<lparr>heMessage := ''client: '' @ e\<rparr>)
              | Inr client \<Rightarrow>
                  (case probe client of
                     Inl e \<Rightarrow> Inr (out\<lparr>heMessage := e\<rparr>)
                   | Inr n \<Rightarrow> Inr (out\<lparr>heOK := True, heBucketCount := Some n, heMessage := ''list_buckets ok''\<rparr>))))"

section \<open>Resolving again\<close>

text \<open>
  The connection a stored record resolves to, given the one its creation resolved to: the scheme of
  the endpoint is gone, so without an explicit \<open>use_ssl\<close> the default of the type decides; an empty
  S3 endpoint has become a host and loses its AWS label.
\<close>

definition reresolved :: "string \<Rightarrow> credentials \<Rightarrow> resolved \<Rightarrow> resolved" where
  "reresolved t c r =
     r\<lparr>rsUseSSL := chosen (crUseSSL c) (t \<noteq> TypeMinIO),
       rsProviderLabel := (if t = TypeS3 then ''Other'' else rsProviderLabel r)\<rparr>"

lemma trim_defaults [simp]:
  "trim_space ''auto'' = ''auto''" "trim_space ''us-east-1'' = ''us-east-1''"
  "trim_space ''us-ashburn-1'' = ''us-ashburn-1''"
  by code_simp+

definition stored_creds :: "credentials \<Rightarrow> resolved \<Rightarrow> credentials" where
  "stored_creds c r =
     c\<lparr>crEndpoint := rsEndpoint r, crRegion := (if crRegion c = [] then rsRegion r else crRegion c)\<rparr>"

text \<open>The cases of \<open>Resolve\<close> as a table: label, path style, region and SSL default of a type.\<close>

definition type_label :: "string \<Rightarrow> string" where
  "type_label t = (if t = TypeR2 then ''Cloudflare'' else if t = TypeMinIO then ''Minio'' else ''Other'')"

definition path_default :: "string \<Rightarrow> bool" where
  "path_default t \<longleftrightarrow> t \<in> {TypeMinIO, TypeB2, TypeQiniu, TypeOracle}"

definition region_default :: "string \<Rightarrow> string" where
  "region_default t =
     (if t = TypeR2 then ''auto'' else if t = TypeB2 \<or> t = TypeQiniu then []
      else if t = TypeOracle then ''us-ashburn-1'' else ''us-east-1'')"

definition shaped :: "string \<Rightarrow> credentials \<Rightarrow> resolved" where
  "shaped t c =
     (resolved_base t c)\<lparr>rsProviderLabel := type_label t,
       rsForcePathStyle := (if t = TypeR2 then False else chosen (crForcePathStyle c) (path_default t)),
       rsRegion := (if trim_space (crRegion c) = [] then region_default t else trim_space (crRegion c))\<rparr>"

definition keys_given :: "credentials \<Rightarrow> bool" where
  "keys_given c \<longleftrightarrow> trim_space (crAccessKey c) \<noteq> [] \<and> trim_space (crSecretKey c) \<noteq> []"

lemma with_endpoint_ssl [simp]: "with_endpoint urls c ep d (r\<lparr>rsUseSSL := b\<rparr>) = with_endpoint urls c ep d r"
  by (cases "parseEndpoint urls ep d") (auto simp: with_endpoint_def)

lemmas type_tables = type_label_def path_default_def region_default_def

lemma type_cases [consumes 1]:
  assumes "IsImplemented t"
  obtains "t = TypeS3" | "t = TypeR2" | "t = TypeMinIO" | "t = TypeB2" | "t = TypeOSS" | "t = TypeCOS"
    | "t = TypeQiniu" | "t = TypeOracle"
  using assms unfolding IsImplemented_def insert_iff empty_iff by (elim disjE FalseE)

lemma Resolve_table:
  assumes "IsImplemented t" "keys_given c" "trim_space (crEndpoint c) \<noteq> []"
  shows "Resolve urls t c = with_endpoint urls c (trim_space (crEndpoint c)) (t \<noteq> TypeMinIO) (shaped t c)"
proof -
  have k: "trim_space (crAccessKey c) \<noteq> []" "trim_space (crSecretKey c) \<noteq> []"
    using assms(2) by (simp_all add: keys_given_def)
  have r: "default_region d ((resolved_base u c)\<lparr>rsProviderLabel := l, rsForcePathStyle := f\<rparr>) =
      (resolved_base u c)\<lparr>rsProviderLabel := l, rsForcePathStyle := f,
        rsRegion := (if trim_space (crRegion c) = [] then d else trim_space (crRegion c))\<rparr>" for d u l f
    by (simp add: default_region_def resolved_base_def)
  have r': "default_region d ((resolved_base u c)\<lparr>rsProviderLabel := l, rsForcePathStyle := f, rsUseSSL := b\<rparr>) =
      (default_region d ((resolved_base u c)\<lparr>rsProviderLabel := l, rsForcePathStyle := f\<rparr>))\<lparr>rsUseSSL := b\<rparr>" for d u l f b
    by (simp add: default_region_def resolved_base_def)
  from assms(1) show ?thesis
  proof (cases rule: type_cases)
    case 1
    then show ?thesis using assms k by (simp add: Resolve_def resolve_s3_def r shaped_def type_tables)
  next
    case 2
    then show ?thesis using assms k by (simp add: Resolve_def resolve_r2_def r r' shaped_def type_tables)
  next
    case 3
    then show ?thesis using assms k by (simp add: Resolve_def resolve_minio_def r shaped_def type_tables)
  next
    case 4
    then show ?thesis using assms k by (simp add: Resolve_def resolve_b2_def resolved_base_def shaped_def type_tables)
  next
    case 5
    then show ?thesis using assms k by (simp add: Resolve_def resolve_oss_def r shaped_def type_tables)
  next
    case 6
    then show ?thesis using assms k by (simp add: Resolve_def resolve_cos_def r shaped_def type_tables)
  next
    case 7
    then show ?thesis using assms k by (simp add: Resolve_def resolve_qiniu_def resolved_base_def shaped_def type_tables)
  next
    case 8
    then show ?thesis using assms k by (simp add: Resolve_def resolve_oracle_def r shaped_def type_tables)
  qed
qed

text \<open>Without an endpoint only two types resolve: R2 from the account, S3 to AWS.\<close>

lemma Resolve_no_endpoint:
  assumes "Resolve urls t c = Inr r" "trim_space (crEndpoint c) = []"
  shows "t = TypeR2 \<or>
    t = TypeS3 \<and> r = (shaped t c)\<lparr>rsEndpoint := ''s3.amazonaws.com'', rsUseSSL := True, rsProviderLabel := ''AWS''\<rparr>"
  using assms unfolding Resolve_def
  by (auto simp: resolve_s3_def resolve_minio_def resolve_b2_def resolve_oss_def resolve_cos_def
    resolve_qiniu_def resolve_oracle_def shaped_def type_tables resolved_base_def default_region_def Let_def
    IsImplemented_def split: if_splits)

lemma Resolve_Inr_keys: "Resolve urls t c = Inr r \<Longrightarrow> IsImplemented t \<and> keys_given c"
  by (auto simp: Resolve_def keys_given_def split: if_splits)

lemma Resolve_r2_account:
  assumes "Resolve urls TypeR2 c = Inr r" "trim_space (crEndpoint c) = []"
  shows "with_endpoint urls c (trim_space (crAccountID c) @ ''.r2.cloudflarestorage.com'') True (shaped TypeR2 c) = Inr r"
  using assms unfolding Resolve_def resolve_r2_def
  by (auto simp: shaped_def type_tables resolved_base_def default_region_def with_endpoint_def Let_def
    split: if_splits)

lemma region_default_trim [simp]: "trim_space (region_default t) = region_default t"
  by (simp add: region_default_def)

lemma shaped_stored:
  "rsRegion r = rsRegion (shaped t c) \<Longrightarrow> shaped t (stored_creds c r) = shaped t c"
  by (auto simp: shaped_def stored_creds_def resolved_base_def)

lemma Resolve_shape:
  assumes "Resolve urls t c = Inr r"
  shows "\<exists>h s. r = (shaped t c)\<lparr>rsEndpoint := h, rsUseSSL := s, rsProviderLabel := rsProviderLabel r\<rparr> \<and>
    (t \<noteq> TypeS3 \<longrightarrow> rsProviderLabel r = type_label t)"
proof (cases "trim_space (crEndpoint c) = []")
  case False
  with assms Resolve_Inr_keys [OF assms] have "with_endpoint urls c (trim_space (crEndpoint c)) (t \<noteq> TypeMinIO) (shaped t c) = Inr r"
    using Resolve_table by simp
  then obtain h s where "r = (shaped t c)\<lparr>rsEndpoint := h, rsUseSSL := s\<rparr>" by (auto simp: with_endpoint_Inr)
  then show ?thesis by (intro exI [of _ h] exI [of _ s]) (simp add: shaped_def)
next
  case True
  from Resolve_no_endpoint [OF assms True] show ?thesis
  proof
    assume t: "t = TypeR2"
    from Resolve_r2_account [OF assms [unfolded t] True]
    obtain h s where "r = (shaped t c)\<lparr>rsEndpoint := h, rsUseSSL := s\<rparr>" by (auto simp: with_endpoint_Inr t)
    then show ?thesis by (intro exI [of _ h] exI [of _ s]) (simp add: shaped_def)
  qed auto
qed

lemma Resolve_stored:
  assumes "Resolve urls t c = Inr r" "rsEndpoint r \<noteq> []" "trim_space (rsEndpoint r) = rsEndpoint r"
    and "\<not> sublist ''://'' (rsEndpoint r)"
  shows "Resolve urls t (stored_creds c r) = Inr (reresolved t c r)"
proof -
  have pe: "parseEndpoint urls (rsEndpoint r) d = Inr (rsEndpoint r, d)" for d
    using assms(3,4) parseEndpoint_plain [of "rsEndpoint r"] by simp
  from Resolve_shape [OF assms(1)] obtain h s where
    r: "r = (shaped t c)\<lparr>rsEndpoint := h, rsUseSSL := s, rsProviderLabel := rsProviderLabel r\<rparr>"
    and l: "t \<noteq> TypeS3 \<longrightarrow> rsProviderLabel r = type_label t" by blast
  have sh: "shaped t (stored_creds c r) = shaped t c" by (rule shaped_stored) (subst r, simp)
  have k: "IsImplemented t" "keys_given (stored_creds c r)"
    using Resolve_Inr_keys [OF assms(1)] by (simp_all add: keys_given_def stored_creds_def)
  have "Resolve urls t (stored_creds c r) =
      Inr ((shaped t c)\<lparr>rsEndpoint := rsEndpoint r, rsUseSSL := chosen (crUseSSL c) (t \<noteq> TypeMinIO)\<rparr>)"
  proof -
    have ep: "crEndpoint (stored_creds c r) = rsEndpoint r" "crUseSSL (stored_creds c r) = crUseSSL c"
      by (simp_all add: stored_creds_def)
    show ?thesis using Resolve_table [OF k, unfolded ep, of urls] assms(2,3) by (simp add: sh with_endpoint_def pe ep)
  qed
  moreover have "(shaped t c)\<lparr>rsEndpoint := rsEndpoint r, rsUseSSL := b\<rparr> = r\<lparr>rsUseSSL := b, rsProviderLabel := type_label t\<rparr>" for b
    by (subst r, subst (2) r) (simp add: shaped_def)
  moreover have "r\<lparr>rsUseSSL := b, rsProviderLabel := type_label t\<rparr> = reresolved t c r"
    if "b = chosen (crUseSSL c) (t \<noteq> TypeMinIO)" for b
    using l that by (auto simp: reresolved_def type_label_def)
  ultimately show ?thesis by simp
qed

end
