(* ===== verification/Provider_Properties.thy ===== *)
theory Provider_Properties
  imports Provider_Service
begin

text \<open>
  Properties of the provider registry: what a stored provider resolves to, that a master key keeps
  the secret out of the store, and the quota.
\<close>

section \<open>The parameters and a creation\<close>

text \<open>The documented contract of \<open>json.Marshal\<close> and \<open>json.Unmarshal\<close> on a struct of valid UTF-8
  strings, booleans and bytes: what was encoded decodes to itself, and an object is never empty text.\<close>

definition codec_ok :: "provider_service \<Rightarrow> bool" where
  "codec_ok sv \<longleftrightarrow> (\<forall>b s. ps_marshal sv b = Inr s \<longrightarrow> s \<noteq> [] \<and> ps_unmarshal sv s = Inr b)"

definition nonce_ok :: "draw \<Rightarrow> bool" where
  "nonce_ok dr \<longleftrightarrow> (\<forall>n. dr_rand dr = Inr n \<longrightarrow> length n = nonceSize)"

lemma seal_record_None: "ps_box sv = None \<Longrightarrow> seal_record sv dr rec = Inr rec"
  by (simp add: seal_record_def)

lemma seal_record_Some:
  assumes "ps_box sv = Some k" "seal_record sv dr rec = Inr rec'"
  shows "\<exists>n c. dr_rand dr = Inr n \<and> Seal (ps_cipher sv) (Some k) (Inr n) (crSecretKey (rcCreds rec)) = Inr c \<and>
    rec' = rec\<lparr>rcSecretEnc := c, rcCreds := (rcCreds rec)\<lparr>crSecretKey := []\<rparr>\<rparr>"
  using assms by (cases "dr_rand dr") (auto simp: seal_record_def Seal_def split: sum.splits)

lemma Provider_Create_Inr:
  assumes "Provider_Create sv dr m u inp = (m', Inr rec)"
  obtains r p where "int (length (ListProviders m u)) < 20"
    "Resolve (ps_urls sv) (piType inp) (piCreds inp) = Inr r"
    "seal_record sv dr (new_record dr u inp r) = Inr rec" "recordToStore sv rec = Inr p"
    "CreateProvider m p = Inr m'"
  using assms
  by (auto simp: Provider_Create_def and_then_Inr CheckProviders_def DefaultQuota_def
      split: if_splits sum.splits)

lemma seal_record_keeps:
  "seal_record sv dr rec = Inr rec' \<Longrightarrow>
   rcID rec' = rcID rec \<and> rcUserID rec' = rcUserID rec \<and> rcType rec' = rcType rec"
  by (auto simp: seal_record_def split: option.splits sum.splits)

lemma recordToStore_Inr:
  "recordToStore sv rec = Inr p \<Longrightarrow> pID p = rcID rec \<and> pUserID p = rcUserID rec"
  by (auto simp: recordToStore_def Let_def split: sum.splits)

lemma stored_record:
  assumes "codec_ok sv" "recordToStore sv rec = Inr p"
  shows "recordFromStore sv p = Inr rec"
  using assms by (auto simp: recordToStore_def recordFromStore_def record_of_def codec_ok_def Let_def
      split: sum.splits)

lemma created_gets:
  assumes "codec_ok sv" "Provider_Create sv dr m u inp = (m', Inr rec)"
  shows "Provider_Get sv m' u (dr_id dr) = Inr rec"
proof (rule Provider_Create_Inr [OF assms(2)])
  fix r p
  assume p: "seal_record sv dr (new_record dr u inp r) = Inr rec" "recordToStore sv rec = Inr p"
    "CreateProvider m p = Inr m'"
  then have "pID p = dr_id dr" "pUserID p = u"
    using seal_record_keeps recordToStore_Inr by (auto simp: new_record_def)
  with providers_c.get_create [OF p(3)] have "GetProvider m' u (dr_id dr) = Inr p" by simp
  with stored_record [OF assms(1) p(2)] show ?thesis by (simp add: Provider_Get_def)
qed

lemma plaintext_created:
  assumes "cipher_ok (ps_cipher sv)" "nonce_ok dr" "seal_record sv dr rec0 = Inr rec" "rcSecretEnc rec0 = []"
  shows "plaintextCreds sv rec = Inr (rcCreds rec0)"
proof (cases "ps_box sv")
  case None
  then show ?thesis using assms by (simp add: seal_record_None plaintextCreds_def)
next
  case (Some k)
  then obtain n c where c: "dr_rand dr = Inr n" "Seal (ps_cipher sv) (Some k) (Inr n) (crSecretKey (rcCreds rec0)) = Inr c"
    "rec = rec0\<lparr>rcSecretEnc := c, rcCreds := (rcCreds rec0)\<lparr>crSecretKey := []\<rparr>\<rparr>"
    using seal_record_Some assms(3) by blast
  then have "Open (ps_cipher sv) (Some k) c = Inr (crSecretKey (rcCreds rec0))"
    using Open_Seal assms(1,2) by (auto simp: nonce_ok_def)
  with c Some Seal_nonempty [OF c(2)] show ?thesis by (simp add: plaintextCreds_def)
qed

section \<open>A concrete registry\<close>

text \<open>A cipher that appends the key's checksum, a codec that writes the fields one after another
  with their lengths, and a parser of \<open>scheme://host\<close>.\<close>

definition sample_cipher :: cipher where
  "sample_cipher =
    \<lparr>cy_seal = (\<lambda>p n k. p @ replicate 16 (CHR 0x00)), cy_open = (\<lambda>c n k. Some (take (length c - 16) c)),
     cy_scrypt = (\<lambda>p s. Inr (replicate 32 (CHR ''k''))), cy_b64 = []\<rparr>"

definition sample_blob :: creds_blob where
  "sample_blob =
    \<lparr>kbAccessKey = ''AK'', kbSecretKey = [], kbEndpoint = ''minio.lan:9000'', kbRegion = ''us-east-1'', kbAccountID = [],
     kbForcePathStyle = None, kbUseSSL = None,
     kbSecretEnc = ''ACH1'' @ replicate 24 (CHR ''n'') @ ''SK'' @ replicate 16 (CHR 0x00)\<rparr>"

definition sample_registry :: provider_service where
  "sample_registry =
    \<lparr>ps_box = Some (replicate 32 (CHR ''k'')), ps_cipher = sample_cipher,
     ps_urls = (\<lambda>s. Inr \<lparr>urScheme = ''https'', urHost = drop 8 s, urPath = []\<rparr>),
     ps_marshal = (\<lambda>b. if b = sample_blob then Inr ''{}'' else Inl ''unsupported''),
     ps_unmarshal = (\<lambda>s. Inr sample_blob)\<rparr>"

definition sample_draw :: draw where
  "sample_draw = \<lparr>dr_now = 1, dr_id = ''p1'', dr_jti = [], dr_rand = Inr (replicate 24 (CHR ''n''))\<rparr>"

definition sample_input :: provider_input where
  "sample_input =
    \<lparr>piName = ''lan'', piType = TypeMinIO,
     piCreds = \<lparr>crAccessKey = ''AK'', crSecretKey = ''SK'', crEndpoint = ''https://minio.lan:9000'', crRegion = [],
                crAccountID = [], crForcePathStyle = None, crUseSSL = None\<rparr>\<rparr>"

definition sample_resolved :: resolved where
  "sample_resolved =
    \<lparr>rsType = TypeMinIO, rsAccessKey = ''AK'', rsSecretKey = ''SK'', rsSessionToken = [], rsEndpoint = ''minio.lan:9000'',
     rsRegion = ''us-east-1'', rsForcePathStyle = True, rsUseSSL = True, rsProviderLabel = ''Minio''\<rparr>"

definition sample_record :: provider_rec where
  "sample_record =
    \<lparr>rcID = ''p1'', rcUserID = ''u1'', rcName = ''lan'', rcType = TypeMinIO,
     rcCreds = \<lparr>crAccessKey = ''AK'', crSecretKey = [], crEndpoint = ''minio.lan:9000'', crRegion = ''us-east-1'',
                crAccountID = [], crForcePathStyle = None, crUseSSL = None\<rparr>,
     rcSecretEnc = kbSecretEnc sample_blob, rcEndpointPublic = ''minio.lan:9000'', rcRegion = ''us-east-1'',
     rcAccountID = []\<rparr>"

definition sample_store :: memory where
  "sample_store = fst (Provider_Create sample_registry sample_draw NewMemory ''u1'' sample_input)"

lemma sample_laws: "cipher_ok (ps_cipher sample_registry)" "codec_ok sample_registry" "nonce_ok sample_draw"
  by (auto simp: sample_registry_def sample_cipher_def cipher_ok_def codec_ok_def nonce_ok_def sample_draw_def split: if_splits)

lemma sample_resolves: "Resolve (ps_urls sample_registry) (piType sample_input) (piCreds sample_input) = Inr sample_resolved"
  by code_simp

lemma sample_created: "Provider_Create sample_registry sample_draw NewMemory ''u1'' sample_input = (sample_store, Inr sample_record)"
proof -
  have "snd (Provider_Create sample_registry sample_draw NewMemory ''u1'' sample_input) = Inr sample_record"
    by code_simp
  then show ?thesis by (simp add: sample_store_def prod_eq_iff)
qed

lemma sample_host: "rsEndpoint sample_resolved \<noteq> []" "trim_space (rsEndpoint sample_resolved) = rsEndpoint sample_resolved"
  "\<not> sublist ''://'' (rsEndpoint sample_resolved)"
  by code_simp+

section \<open>Properties\<close>

text \<open>C21: A created provider resolves later to the connection its creation resolved to, with the
  secret unsealed, when the resolved host is a plain host; two fields may differ: without an
  explicit use_ssl the scheme the user wrote is forgotten and the default of the type decides
  (plain for MinIO, TLS for all others), and an S3 provider gets the label Other even when its
  creation resolved to AWS.\<close>
theorem created_provider_resolves:
  assumes "cipher_ok (ps_cipher sv)" "codec_ok sv" "nonce_ok dr"
    and "Provider_Create sv dr m u inp = (m', Inr rec)"
    and "Resolve (ps_urls sv) (piType inp) (piCreds inp) = Inr r"
    and "rsEndpoint r \<noteq> []" "trim_space (rsEndpoint r) = rsEndpoint r" "\<not> sublist ''://'' (rsEndpoint r)"
  shows "ResolveRecord sv m' u (dr_id dr) =
    Inr (r\<lparr>rsUseSSL := (case crUseSSL (piCreds inp) of Some b \<Rightarrow> b | None \<Rightarrow> piType inp \<noteq> TypeMinIO),
           rsProviderLabel := (if piType inp = TypeS3 then ''Other'' else rsProviderLabel r)\<rparr>, rec)"
proof -
  obtain p where p: "seal_record sv dr (new_record dr u inp r) = Inr rec"
    by (rule Provider_Create_Inr [OF assms(4)]) (use assms(5) in auto)
  have creds: "rcCreds (new_record dr u inp r) = stored_creds (piCreds inp) r"
    "rcSecretEnc (new_record dr u inp r) = []" "rcType rec = piType inp"
    using seal_record_keeps [OF p] by (simp_all add: new_record_def stored_creds_def)
  have "plaintextCreds sv rec = Inr (stored_creds (piCreds inp) r)"
    using plaintext_created [OF assms(1,3) p] creds by simp
  with Resolve_stored [OF assms(5-8)] created_gets [OF assms(2,4)] show ?thesis
    by (simp add: ResolveRecord_def creds(3) reresolved_def chosen_def)
qed

text \<open>The provider registered with \<open>https://\<close> for a MinIO server: it later resolves to plain HTTP.\<close>
theorem created_provider_resolves_witness:
  "ResolveRecord sample_registry sample_store ''u1'' ''p1'' = Inr (sample_resolved\<lparr>rsUseSSL := False\<rparr>, sample_record) \<and>
   rsUseSSL sample_resolved"
  using created_provider_resolves [OF sample_laws sample_created sample_resolves sample_host]
  by (simp add: sample_draw_def sample_input_def sample_resolved_def)

text \<open>C22: With a master key the secret never reaches the store in plain text: the encoded credentials
  of a created provider have an empty secret key and a ciphertext that opens to the secret the
  user gave, and the record returned to the caller carries no secret either.\<close>
theorem secret_sealed_at_rest:
  assumes "cipher_ok (ps_cipher sv)" "nonce_ok dr" "ps_box sv = Some k"
    and "Provider_Create sv dr m u inp = (m', Inr rec)"
  shows "crSecretKey (rcCreds rec) = [] \<and>
    (\<exists>p blob. GetProvider m' u (dr_id dr) = Inr p \<and> ps_marshal sv blob = Inr (pCredsJSON p) \<and>
       kbSecretKey blob = [] \<and> Open (ps_cipher sv) (ps_box sv) (kbSecretEnc blob) = Inr (crSecretKey (piCreds inp)))"
proof (rule Provider_Create_Inr [OF assms(4)])
  fix r p
  assume p: "seal_record sv dr (new_record dr u inp r) = Inr rec" "recordToStore sv rec = Inr p"
    "CreateProvider m p = Inr m'"
  obtain n c where c: "dr_rand dr = Inr n" "Seal (ps_cipher sv) (Some k) (Inr n) (crSecretKey (piCreds inp)) = Inr c"
    "rcSecretEnc rec = c" "crSecretKey (rcCreds rec) = []"
    using seal_record_Some [OF assms(3) p(1)] by (auto simp: new_record_def)
  then have o: "Open (ps_cipher sv) (Some k) c = Inr (crSecretKey (piCreds inp))"
    using Open_Seal assms(1,2) by (auto simp: nonce_ok_def)
  have "pID p = dr_id dr" "pUserID p = u"
    using p seal_record_keeps recordToStore_Inr by (auto simp: new_record_def)
  with providers_c.get_create [OF p(3)] have g: "GetProvider m' u (dr_id dr) = Inr p" by simp
  obtain blob where "ps_marshal sv blob = Inr (pCredsJSON p)" "kbSecretKey blob = []" "kbSecretEnc blob = c"
    using p(2) c(3,4) by (auto simp: recordToStore_def Let_def split: sum.splits)
  with o g c(4) assms(3) show ?thesis by auto
qed

theorem secret_sealed_at_rest_witness:
  "crSecretKey (rcCreds sample_record) = [] \<and> (\<exists>p blob. GetProvider sample_store ''u1'' ''p1'' = Inr p \<and>
     ps_marshal sample_registry blob = Inr (pCredsJSON p) \<and> kbSecretKey blob = [] \<and>
     Open sample_cipher (ps_box sample_registry) (kbSecretEnc blob) = Inr ''SK'')"
  using secret_sealed_at_rest [OF sample_laws(1,3) _ sample_created, of "replicate 32 (CHR ''k'')"]
  by (simp add: sample_registry_def sample_draw_def sample_input_def)

text \<open>A user never has more than twenty providers through this service.\<close>
lemma provider_quota:
  assumes "Provider_Create sv dr m u inp = (m', Inr rec)" "gget (m_providers m) (dr_id dr) = None"
  shows "length (ListProviders m' u) \<le> 20 \<and> length (ListProviders m' u) = Suc (length (ListProviders m u))"
proof (rule Provider_Create_Inr [OF assms(1)])
  fix r p
  assume q: "int (length (ListProviders m u)) < 20"
    and p: "seal_record sv dr (new_record dr u inp r) = Inr rec" "recordToStore sv rec = Inr p"
    "CreateProvider m p = Inr m'"
  have "pID p = dr_id dr" "pUserID p = u"
    using p seal_record_keeps recordToStore_Inr by (auto simp: new_record_def)
  with p(3) assms(2) have "ListProviders m' u = ListProviders m u @ [p]"
    by (auto simp: CreateProvider_def ListProviders_def gset_new)
  with q show ?thesis by simp
qed

end
