(* ===== verification/Drive_Service.thy ===== *)
theory Drive_Service
  imports Provider_Service
begin

text \<open>
  Drives, bindings and write barriers (\<open>internal/drive/service.go\<close>, \<open>binding.go\<close>, \<open>barrier.go\<close>). The API
  types \<open>Map\<close> and \<open>Binding\<close> have the fields of the stored rows, so results are rows. The operating
  system name is an argument (\<open>ds_goos\<close>); the barriers of the process are a map of their own.
\<close>

record drive_service =
  ds_providers :: provider_service
  ds_quota :: quota
  ds_goos :: string

record drive_input =
  diName :: string
  diAlias :: string
  diProviderID :: string
  diBucket :: string
  diPrefix :: string
  diMountPoint :: string
  diRegion :: string

record drive_update =
  duName :: string
  duAlias :: string
  duSetAlias :: bool
  duPrefix :: "string option"
  duMountPoint :: string
  duRegion :: "string option"

section \<open>Validation\<close>

definition is_alpha :: "char \<Rightarrow> bool" where
  "is_alpha c \<longleftrightarrow> (CHR ''A'' \<le> c \<and> c \<le> CHR ''Z'') \<or> (CHR ''a'' \<le> c \<and> c \<le> CHR ''z'')"

definition alias_char :: "char \<Rightarrow> bool" where
  "alias_char c \<longleftrightarrow> is_alpha c \<or> (CHR ''0'' \<le> c \<and> c \<le> CHR ''9'') \<or> c = CHR ''_'' \<or> c = CHR ''-''"

text \<open>\<open>^[A-Za-z][A-Za-z0-9_-]{0,15}$\<close>\<close>

definition aliasPattern :: "string \<Rightarrow> bool" where
  "aliasPattern s \<longleftrightarrow>
     (case s of [] \<Rightarrow> False | c # cs \<Rightarrow> is_alpha c \<and> length cs \<le> 15 \<and> list_all alias_char cs)"

definition NormalizeAlias :: "string \<Rightarrow> string result" where
  "NormalizeAlias raw =
     (let s = trim_space raw
      in if s = [] then Inr []
         else if \<not> aliasPattern s
         then Inl (Errorf ''invalid alias: must match ^[A-Za-z][A-Za-z0-9_-]{0,15}$'')
         else Inr (to_upper s))"

definition defaultMountPoint :: "string \<Rightarrow> string" where
  "defaultMountPoint goos = (if goos = ''windows'' then ''G:'' else ''/workspace'')"

definition validateMountPoint :: "string \<Rightarrow> unit result" where
  "validateMountPoint mp =
     (if mp = [] then Inl (Errorf ''mount_point required'')
      else if length mp = 2 \<and> mp ! 1 = CHR '':'' \<and> is_alpha (mp ! 0) then Inr ()
      else if prefix ''/'' mp \<or> prefix ''~/'' mp then Inr ()
      else if length mp \<ge> 2 \<and> mp ! 1 = CHR '':'' then Inr ()
      else Inl (Errorf ''mount_point should look like G: or /workspace''))"

section \<open>Drives\<close>

definition Drive_Get :: "memory \<Rightarrow> string \<Rightarrow> string \<Rightarrow> drive result" where
  "Drive_Get m userID i =
     (case GetDrive m userID i of Inl _ \<Rightarrow> Inl (Errorf ''drive not found'') | Inr d \<Rightarrow> Inr d)"

definition Drive_List :: "memory \<Rightarrow> string \<Rightarrow> drive list" where
  "Drive_List m userID = ListDrives m userID"

text \<open>An alias in use by any drive of the user, the one being changed included.\<close>

definition alias_free :: "memory \<Rightarrow> string \<Rightarrow> string \<Rightarrow> unit result" where
  "alias_free m userID alias =
     (case GetDriveByAlias m userID alias of
        Inr _ \<Rightarrow> Inl (Errorf ''alias already in use'')
      | Inl _ \<Rightarrow> Inr ())"

text \<open>The checks of \<open>Create\<close> in their order, up to the row that is stored.\<close>

definition new_drive ::
  "drive_service \<Rightarrow> draw \<Rightarrow> memory \<Rightarrow> string \<Rightarrow> drive_input \<Rightarrow> drive result" where
  "new_drive sv dr m userID inp =
     (let name = trim_space (diName inp); bucket = trim_space (diBucket inp);
          prov = trim_space (diProviderID inp)
      in if name = [] \<or> bucket = [] \<or> prov = [] then Inl (Errorf ''name, provider_id, bucket required'')
         else (case Provider_Get (ds_providers sv) m userID prov of
                 Inl e \<Rightarrow> Inl (Errorf (''provider: '' @ error_text e))
               | Inr _ \<Rightarrow>
                   and_then (CheckDrives (ds_quota sv) (int (length (ListDrives m userID))))
                     (\<lambda>_. let mp0 = trim_space (diMountPoint inp);
                              mp = (if mp0 = [] then defaultMountPoint (ds_goos sv) else mp0)
                          in and_then (validateMountPoint mp)
                               (\<lambda>_. and_then (NormalizeAlias (diAlias inp))
                                  (\<lambda>alias. and_then (if alias = [] then Inr () else alias_free m userID alias)
                                     (\<lambda>_. Inr \<lparr>dID = dr_id dr, dUserID = userID, dName = name, dAlias = alias,
                                              dProviderID = prov, dBucket = bucket,
                                              dPrefix = trim_c (CHR ''/'') (trim_space (diPrefix inp)),
                                              dMountPoint = mp, dRegion = trim_space (diRegion inp),
                                              dCreatedAt = dr_now dr\<rparr>))))))"

definition Drive_Create ::
  "drive_service \<Rightarrow> draw \<Rightarrow> memory \<Rightarrow> string \<Rightarrow> drive_input \<Rightarrow> memory \<times> drive result" where
  "Drive_Create sv dr m userID inp =
     (case new_drive sv dr m userID inp of
        Inl e \<Rightarrow> (m, Inl e)
      | Inr d \<Rightarrow> (case CreateDrive m d of Inl e \<Rightarrow> (m, Inl e) | Inr m1 \<Rightarrow> (m1, Inr d)))"

definition Drive_Resolve :: "memory \<Rightarrow> string \<Rightarrow> string \<Rightarrow> drive result" where
  "Drive_Resolve m userID aliasOrName =
     (let q = trim_space aliasOrName
      in if q = [] then Inl (Errorf ''alias or name required'')
         else (case (case NormalizeAlias q of
                       Inl _ \<Rightarrow> None
                     | Inr alias \<Rightarrow> if alias = [] then None
                                   else (case GetDriveByAlias m userID alias of Inl _ \<Rightarrow> None | Inr d \<Rightarrow> Some d)) of
                 Some d \<Rightarrow> Inr d
               | None \<Rightarrow> (case find (\<lambda>d. dName d = q) (ListDrives m userID) of
                           Some d \<Rightarrow> Inr d
                         | None \<Rightarrow> Inl (Errorf ''drive not found''))))"

definition Drive_GetByAlias :: "memory \<Rightarrow> string \<Rightarrow> string \<Rightarrow> drive result" where
  "Drive_GetByAlias m userID alias =
     and_then (NormalizeAlias alias)
       (\<lambda>a. if a = [] then Inl (Errorf ''drive not found'')
            else (case GetDriveByAlias m userID a of
                    Inl _ \<Rightarrow> Inl (Errorf ''drive not found'')
                  | Inr d \<Rightarrow> Inr d))"

definition set_alias :: "memory \<Rightarrow> string \<Rightarrow> string \<Rightarrow> drive \<Rightarrow> drive result" where
  "set_alias m userID raw cur =
     and_then (NormalizeAlias raw)
       (\<lambda>alias. and_then (if alias \<noteq> [] \<and> alias \<noteq> dAlias cur then alias_free m userID alias else Inr ())
          (\<lambda>_. Inr (cur\<lparr>dAlias := alias\<rparr>)))"

definition patched_drive :: "memory \<Rightarrow> string \<Rightarrow> drive_update \<Rightarrow> drive \<Rightarrow> drive result" where
  "patched_drive m userID inp cur =
     (let name = trim_space (duName inp);
          c1 = (if name \<noteq> [] then cur\<lparr>dName := name\<rparr> else cur)
      in and_then (if duSetAlias inp then set_alias m userID (duAlias inp) c1 else Inr c1)
           (\<lambda>c2. let c3 = (case duPrefix inp of None \<Rightarrow> c2
                           | Some p \<Rightarrow> c2\<lparr>dPrefix := trim_c (CHR ''/'') (trim_space p)\<rparr>);
                     mp = trim_space (duMountPoint inp)
                 in and_then (if mp \<noteq> [] then and_then (validateMountPoint mp) (\<lambda>_. Inr (c3\<lparr>dMountPoint := mp\<rparr>))
                              else Inr c3)
                      (\<lambda>c4. Inr (case duRegion inp of None \<Rightarrow> c4 | Some r \<Rightarrow> c4\<lparr>dRegion := trim_space r\<rparr>))))"

definition Drive_Update ::
  "memory \<Rightarrow> string \<Rightarrow> string \<Rightarrow> drive_update \<Rightarrow> memory \<times> drive result" where
  "Drive_Update m userID i inp =
     (case and_then (Drive_Get m userID i) (patched_drive m userID inp) of
        Inl e \<Rightarrow> (m, Inl e)
      | Inr cur \<Rightarrow> (case UpdateDrive m cur of Inl e \<Rightarrow> (m, Inl e) | Inr m1 \<Rightarrow> (m1, Inr cur)))"

definition Drive_Delete :: "memory \<Rightarrow> string \<Rightarrow> string \<Rightarrow> memory \<times> unit result" where
  "Drive_Delete m userID i =
     (case DeleteDrive m userID i of
        Inl _ \<Rightarrow> (m, Inl (Errorf ''drive not found''))
      | Inr m1 \<Rightarrow> (m1, Inr ()))"

section \<open>Bindings\<close>

record binding_input =
  biDriveID :: string
  biDeviceID :: string
  biMountPoint :: string
  biMode :: string
  biDesired :: string

definition new_binding ::
  "drive_service \<Rightarrow> draw \<Rightarrow> memory \<Rightarrow> string \<Rightarrow> binding_input \<Rightarrow> binding result" where
  "new_binding sv dr m userID inp =
     and_then (Drive_Get m userID (biDriveID inp))
       (\<lambda>_. and_then (CheckBindings (ds_quota sv) (int (length (ListBindings m userID []))))
          (\<lambda>_. let dev0 = trim_space (biDeviceID inp);
                   mp0 = trim_space (biMountPoint inp);
                   mp = (if mp0 = [] then defaultMountPoint (ds_goos sv) else mp0)
               in and_then (validateMountPoint mp)
                    (\<lambda>_. Inr \<lparr>bID = dr_id dr, bUserID = userID, bDriveID = biDriveID inp,
                             bDeviceID = (if dev0 = [] then ''default'' else dev0), bMountPoint = mp,
                             bMode = (if biMode inp = [] then ''mount'' else biMode inp),
                             bDesired = (if biDesired inp = ''unmounted'' then ''unmounted'' else ''mounted''),
                             bActual = ''unknown'', bLastError = [], bUpdatedAt = dr_now dr,
                             bCreatedAt = dr_now dr\<rparr>)))"

definition Drive_CreateBinding ::
  "drive_service \<Rightarrow> draw \<Rightarrow> memory \<Rightarrow> string \<Rightarrow> binding_input \<Rightarrow> memory \<times> binding result" where
  "Drive_CreateBinding sv dr m userID inp =
     (case new_binding sv dr m userID inp of
        Inl e \<Rightarrow> (m, Inl e)
      | Inr b \<Rightarrow> (case CreateBinding m b of Inl e \<Rightarrow> (m, Inl e) | Inr m1 \<Rightarrow> (m1, Inr b)))"

definition Drive_ListBindings :: "memory \<Rightarrow> string \<Rightarrow> string \<Rightarrow> binding list" where
  "Drive_ListBindings m userID deviceID = ListBindings m userID deviceID"

definition Drive_GetBinding :: "memory \<Rightarrow> string \<Rightarrow> string \<Rightarrow> binding result" where
  "Drive_GetBinding m userID i =
     (case GetBinding m userID i of Inl _ \<Rightarrow> Inl (Errorf ''binding not found'') | Inr b \<Rightarrow> Inr b)"

definition SetDesired :: "time \<Rightarrow> memory \<Rightarrow> string \<Rightarrow> string \<Rightarrow> string \<Rightarrow> memory \<times> binding result" where
  "SetDesired now m userID i desired =
     (case Drive_GetBinding m userID i of
        Inl e \<Rightarrow> (m, Inl e)
      | Inr b0 \<Rightarrow>
          (let b = b0\<lparr>bDesired := desired, bUpdatedAt := now\<rparr>
           in (case UpdateBinding m b of Inl e \<Rightarrow> (m, Inl e) | Inr m1 \<Rightarrow> (m1, Inr b))))"

definition ReportActual ::
  "time \<Rightarrow> memory \<Rightarrow> string \<Rightarrow> string \<Rightarrow> string \<Rightarrow> string \<Rightarrow> memory \<times> binding result" where
  "ReportActual now m userID i actual lastErr =
     (case Drive_GetBinding m userID i of
        Inl e \<Rightarrow> (m, Inl e)
      | Inr b0 \<Rightarrow>
          (let b = b0\<lparr>bActual := actual, bLastError := lastErr, bUpdatedAt := now\<rparr>
           in (case UpdateBinding m b of Inl e \<Rightarrow> (m, Inl e) | Inr m1 \<Rightarrow> (m1, Inr b))))"

section \<open>Write barriers\<close>

record barrier =
  baID :: string
  baUserID :: string
  baDriveID :: string
  baDeviceID :: string
  baStatus :: string
  baNote :: string
  baCreatedAt :: time
  baDoneAt :: time

record barrier_input =
  bciDriveID :: string
  bciDeviceID :: string
  bciStatus :: string
  bciNote :: string

definition BeginBarrier ::
  "draw \<Rightarrow> memory \<Rightarrow> barrier gomap \<Rightarrow> string \<Rightarrow> string \<Rightarrow> string \<Rightarrow> barrier gomap \<times> barrier result" where
  "BeginBarrier dr m bs userID driveID deviceID =
     (case Drive_Get m userID driveID of
        Inl e \<Rightarrow> (bs, Inl e)
      | Inr _ \<Rightarrow>
          (let b = \<lparr>baID = dr_id dr, baUserID = userID, baDriveID = driveID, baDeviceID = deviceID,
                    baStatus = ''pending'', baNote = [], baCreatedAt = dr_now dr, baDoneAt = 0\<rparr>
           in (gset (baID b) b bs, Inr b)))"

definition CompleteBarrier ::
  "draw \<Rightarrow> memory \<Rightarrow> barrier gomap \<Rightarrow> string \<Rightarrow> barrier_input \<Rightarrow> barrier gomap \<times> barrier result" where
  "CompleteBarrier dr m bs userID inp =
     (let status = (if bciStatus inp = [] then ''ok'' else bciStatus inp)
      in if status \<noteq> ''ok'' \<and> status \<noteq> ''failed'' then (bs, Inl (Errorf ''status must be ok or failed''))
         else (case Drive_Get m userID (bciDriveID inp) of
                 Inl e \<Rightarrow> (bs, Inl e)
               | Inr _ \<Rightarrow>
                   (let b = \<lparr>baID = dr_id dr, baUserID = userID, baDriveID = bciDriveID inp,
                             baDeviceID = bciDeviceID inp, baStatus = status, baNote = bciNote inp,
                             baCreatedAt = dr_now dr, baDoneAt = dr_now dr\<rparr>;
                        bs1 = gset (baID b) b bs
                    in (if length bs1 > 500 then [(baID b, b)] else bs1, Inr b))))"

definition ListBarriers :: "barrier gomap \<Rightarrow> string \<Rightarrow> string \<Rightarrow> barrier list" where
  "ListBarriers bs userID driveID =
     filter (\<lambda>b. baUserID b = userID \<and> (driveID = [] \<or> baDriveID b = driveID)) (gvals bs)"

end
