(* ===== verification/S3_Store.thy ===== *)
theory S3_Store
  imports Cloud_Prelude
begin

text \<open>
  The object store adapter (\<open>internal/s3store/store.go\<close>) over the calls of the MinIO client, which
  are parameters: the listing is the list of objects its channel delivers, an error the text of the
  error. Sizes are within int64.
\<close>

record s3_object =
  oErr :: "string option"
  oKey :: string
  oSize :: int
  oETag :: string
  oLastModified :: time
  oVersionID :: string
  oIsLatest :: bool
  oIsDeleteMarker :: bool

record 'c minio =
  mc_new :: "string \<Rightarrow> string \<Rightarrow> string \<Rightarrow> string \<Rightarrow> bool \<Rightarrow> string + 'c"
  mc_list_buckets :: "'c \<Rightarrow> string + string list"
  mc_bucket_exists :: "'c \<Rightarrow> string \<Rightarrow> string + bool"
  mc_make_bucket :: "'c \<Rightarrow> string \<Rightarrow> string \<Rightarrow> string + unit"
  mc_list_objects :: "'c \<Rightarrow> string \<Rightarrow> string \<Rightarrow> bool \<Rightarrow> bool \<Rightarrow> s3_object list"
  mc_presign :: "'c \<Rightarrow> string \<Rightarrow> string \<Rightarrow> string \<Rightarrow> duration \<Rightarrow> (string \<times> string) list \<Rightarrow> string + string"
  mc_copy :: "'c \<Rightarrow> string \<Rightarrow> string \<Rightarrow> string \<Rightarrow> string + unit"

record 'c s3_store =
  st_client :: 'c
  st_region :: string

record object_info =
  oiKey :: string
  oiSize :: int
  oiLastModified :: time
  oiIsDir :: bool

record inventory_entry =
  ieKey :: string
  ieSize :: int
  ieETag :: string
  ieLastModified :: time
  ieVersionID :: string
  ieIsLatest :: bool
  ieDeleteMarker :: bool

definition s3_New :: "'c minio \<Rightarrow> string \<Rightarrow> string \<Rightarrow> string \<Rightarrow> string \<Rightarrow> bool \<Rightarrow> 'c s3_store result" where
  "s3_New mc endpoint accessKey secretKey region useSSL =
     (case mc_new mc endpoint accessKey secretKey region useSSL of
        Inl e \<Rightarrow> Inl (Errorf (''minio client: '' @ e))
      | Inr cli \<Rightarrow> Inr \<lparr>st_client = cli, st_region = region\<rparr>)"

definition s3_Probe :: "'c minio \<Rightarrow> 'c s3_store \<Rightarrow> int result" where
  "s3_Probe mc s =
     (case mc_list_buckets mc (st_client s) of
        Inl e \<Rightarrow> Inl (Errorf e)
      | Inr bs \<Rightarrow> Inr (int (length bs)))"

definition s3_EnsureBucket :: "'c minio \<Rightarrow> 'c s3_store \<Rightarrow> string \<Rightarrow> unit result" where
  "s3_EnsureBucket mc s bucket =
     (case mc_bucket_exists mc (st_client s) bucket of
        Inl e \<Rightarrow> Inl (Errorf e)
      | Inr exists \<Rightarrow>
          if exists then Inr ()
          else (case mc_make_bucket mc (st_client s) bucket (st_region s) of
                  Inl e \<Rightarrow> Inl (Errorf e)
                | Inr u \<Rightarrow> Inr u))"

definition normalizePrefix :: "string \<Rightarrow> string" where
  "normalizePrefix p = trim_left_c (CHR ''/'') p"

text \<open>The loop of \<open>List\<close>: a key that ends in a slash is a directory.\<close>

fun list_loop :: "object_info list \<Rightarrow> s3_object list \<Rightarrow> object_info list result" where
  "list_loop acc [] = Inr (rev acc)"
| "list_loop acc (obj # objs) =
     (case oErr obj of
        Some e \<Rightarrow> Inl (Errorf e)
      | None \<Rightarrow>
          if suffix ''/'' (oKey obj)
          then list_loop (\<lparr>oiKey = oKey obj, oiSize = 0, oiLastModified = 0, oiIsDir = True\<rparr> # acc) objs
          else list_loop (\<lparr>oiKey = oKey obj, oiSize = oSize obj, oiLastModified = oLastModified obj,
                           oiIsDir = False\<rparr> # acc) objs)"

definition s3_List :: "'c minio \<Rightarrow> 'c s3_store \<Rightarrow> string \<Rightarrow> string \<Rightarrow> object_info list result" where
  "s3_List mc s bucket prefx =
     list_loop [] (mc_list_objects mc (st_client s) bucket (normalizePrefix prefx) False False)"

definition entry_of :: "s3_object \<Rightarrow> inventory_entry" where
  "entry_of obj =
    \<lparr>ieKey = oKey obj, ieSize = oSize obj, ieETag = trim_c (CHR 0x22) (oETag obj),
     ieLastModified = oLastModified obj, ieVersionID = oVersionID obj, ieIsLatest = oIsLatest obj,
     ieDeleteMarker = oIsDeleteMarker obj\<rparr>"

text \<open>An object the inventory reports: not the zero-sized marker of a folder.\<close>

definition reported :: "s3_object \<Rightarrow> bool" where
  "reported obj \<longleftrightarrow> \<not> (suffix ''/'' (oKey obj) \<and> oSize obj = 0 \<and> oVersionID obj = [])"

text \<open>The loop of \<open>listInventory\<close> returns the entries so far also with an error.\<close>

fun inventory_loop ::
  "int \<Rightarrow> inventory_entry list \<Rightarrow> s3_object list \<Rightarrow> inventory_entry list \<times> bool \<times> string option" where
  "inventory_loop maxKeys acc [] = (acc, False, None)"
| "inventory_loop maxKeys acc (obj # objs) =
     (case oErr obj of
        Some e \<Rightarrow> (acc, False, Some e)
      | None \<Rightarrow>
          if \<not> reported obj
          then inventory_loop maxKeys acc objs
          else (let acc1 = acc @ [entry_of obj]
                in if int (length acc1) \<ge> maxKeys then (acc1, True, None)
                   else inventory_loop maxKeys acc1 objs))"

definition clamp_max_keys :: "int \<Rightarrow> int" where
  "clamp_max_keys n = (if n \<le> 0 then 1000 else if n > 5000 then 5000 else n)"

definition listInventory ::
  "'c minio \<Rightarrow> 'c s3_store \<Rightarrow> string \<Rightarrow> string \<Rightarrow> int \<Rightarrow> bool \<Rightarrow> (inventory_entry list \<times> bool) result" where
  "listInventory mc s bucket prefx maxKeys withVersions =
     (case inventory_loop (clamp_max_keys maxKeys) []
             (mc_list_objects mc (st_client s) bucket (normalizePrefix prefx) True withVersions) of
        (entries, truncated, None) \<Rightarrow> Inr (entries, truncated)
      | (_, _, Some e) \<Rightarrow> Inl (Errorf e))"

definition ListInventory where "ListInventory mc s bucket prefx maxKeys = listInventory mc s bucket prefx maxKeys False"
definition ListInventoryVersions where
  "ListInventoryVersions mc s bucket prefx maxKeys = listInventory mc s bucket prefx maxKeys True"

definition RestoreHint :: "string \<Rightarrow> string \<Rightarrow> string \<Rightarrow> string \<Rightarrow> bool \<Rightarrow> string" where
  "RestoreHint endpoint bucket key versionID useSSL =
     (let scheme = (if useSSL then ''https'' else ''http'')
      in if versionID = []
         then ''# current object: '' @ scheme @ ''://'' @ endpoint @ ''/'' @ bucket @ ''/'' @ key
         else ''# Fetch version (BYOS; control plane does not proxy bytes):'' @ newline @
              ''# aws s3api get-object --bucket '' @ bucket @ '' --key '' @ key @ '' --version-id '' @ versionID @
              '' out.bin'' @ newline @ ''# or rclone with version-aware remote if configured'')"

definition clamp_presign :: "duration \<Rightarrow> duration" where
  "clamp_presign ttl =
     (let t = (if ttl \<le> 0 then minutes 15 else ttl)
      in if t > 7 * 24 * minutes 60 then 7 * 24 * minutes 60 else t)"

definition PresignGetVersion ::
  "'c minio \<Rightarrow> 'c s3_store \<Rightarrow> string \<Rightarrow> string \<Rightarrow> string \<Rightarrow> duration \<Rightarrow> string result" where
  "PresignGetVersion mc s bucket key versionID ttl =
     (case mc_presign mc (st_client s) ''GET'' bucket key (clamp_presign ttl)
             (if versionID = [] then [] else [(''versionId'', versionID)]) of
        Inl e \<Rightarrow> Inl (Errorf e)
      | Inr u \<Rightarrow> Inr u)"

definition CopyVersionToCurrent ::
  "'c minio \<Rightarrow> 'c s3_store \<Rightarrow> string \<Rightarrow> string \<Rightarrow> string \<Rightarrow> unit result" where
  "CopyVersionToCurrent mc s bucket key versionID =
     (if versionID = [] then Inl (Errorf ''version_id required'')
      else (case mc_copy mc (st_client s) bucket key versionID of
              Inl e \<Rightarrow> Inl (Errorf e)
            | Inr u \<Rightarrow> Inr u))"

section \<open>Facts\<close>

lemma clamp_presign_range: "0 < clamp_presign ttl \<and> clamp_presign ttl \<le> 7 * 24 * minutes 60"
  by (simp add: clamp_presign_def Let_def)

lemma clamp_max_keys_range: "1 \<le> clamp_max_keys n \<and> clamp_max_keys n \<le> 5000"
  by (simp add: clamp_max_keys_def)

text \<open>
  Without an error the inventory is the first \<open>max\<close> reported objects in order; it says truncated
  exactly when it has \<open>max\<close> of them.
\<close>

lemma inventory_loop_spec:
  assumes "inventory_loop n acc objs = (es, tr, None)" "int (length acc) < n"
  shows "es = acc @ take (nat n - length acc) (map entry_of (filter reported objs)) \<and>
    (tr \<longleftrightarrow> int (length es) = n)"
  using assms
proof (induction n acc objs rule: inventory_loop.induct)
  case (1 n acc)
  then show ?case by simp
next
  case (2 n acc obj objs)
  then have e: "oErr obj = None" by (auto split: option.splits)
  show ?case
  proof (cases "reported obj \<and> int (length (acc @ [entry_of obj])) < n")
    case True
    with "2.prems" e have "inventory_loop n (acc @ [entry_of obj]) objs = (es, tr, None)"
      by (auto simp: Let_def)
    with "2.IH"(2) e True
    have "es = (acc @ [entry_of obj]) @ take (nat n - Suc (length acc)) (map entry_of (filter reported objs)) \<and>
        (tr \<longleftrightarrow> int (length es) = n)" by auto
    moreover have "Suc (length acc) < nat n" using True by auto
    then have "nat n - length acc = Suc (nat n - Suc (length acc))" by simp
    ultimately show ?thesis using True by simp
  next
    case stop: False
    show ?thesis
    proof (cases "reported obj")
      case False
      with 2 e show ?thesis by auto
    next
      case True
      with stop "2.prems" e have "es = acc @ [entry_of obj] \<and> tr" by (auto simp: Let_def)
      moreover have "nat n - length acc = 1" using stop True "2.prems"(2) by simp
      ultimately show ?thesis using True "2.prems"(2) stop by simp
    qed
  qed
qed

lemma listInventory_spec:
  assumes "listInventory mc s b p n v = Inr (es, tr)"
  shows "es = take (nat (clamp_max_keys n)) (map entry_of (filter reported
      (mc_list_objects mc (st_client s) b (normalizePrefix p) True v))) \<and>
    (tr \<longleftrightarrow> int (length es) = clamp_max_keys n)"
  using assms inventory_loop_spec [of "clamp_max_keys n" "[]"] clamp_max_keys_range [of n]
  by (fastforce simp: listInventory_def split: prod.splits option.splits)

end
