(* ===== verification/Json_Value.thy ===== *)
theory Json_Value
  imports Cloud_Prelude
begin

text \<open>
  Decoded JSON (\<open>interface{}\<close> after \<open>json.Unmarshal\<close>): numbers are integers, which the modelled code
  uses only below 2^53; an object is an association list.
\<close>

datatype json =
    JNull
  | JBool bool
  | JNum int
  | JStr string
  | JArr "json list"
  | JObj "(string \<times> json) list"

fun json_kind :: "json \<Rightarrow> string" where
  "json_kind JNull = ''null''"
| "json_kind (JBool b) = ''bool''"
| "json_kind (JNum n) = ''number''"
| "json_kind (JStr s) = ''string''"
| "json_kind (JArr js) = ''array''"
| "json_kind (JObj fs) = ''object''"

text \<open>The two-value type assertion \<open>m[k].(string)\<close>: empty when missing or of another type.\<close>

definition string_at :: "(string \<times> json) list \<Rightarrow> string \<Rightarrow> string" where
  "string_at m k = (case map_of m k of Some (JStr s) \<Rightarrow> s | _ \<Rightarrow> [])"


text \<open>
  The text \<open>json.Marshal\<close> writes for a string (valid UTF-8): quotes, backslashes, control bytes, the HTML
  characters and the separators U+2028 and U+2029 are escaped.
\<close>

definition hex_digit :: "nat \<Rightarrow> char" where
  "hex_digit n = (if n < 10 then char_of (48 + n) else char_of (87 + n))"

definition json_escape_char :: "char \<Rightarrow> string" where
  "json_escape_char c =
     (let n = of_char c :: nat
      in if c = CHR 0x22 \<or> c = CHR 0x5C then [CHR 0x5C, c]
         else if c = CHR 0x08 then [CHR 0x5C, CHR ''b''] else if c = CHR 0x0C then [CHR 0x5C, CHR ''f'']
         else if c = CHR 0x0A then [CHR 0x5C, CHR ''n''] else if c = CHR 0x0D then [CHR 0x5C, CHR ''r'']
         else if c = CHR 0x09 then [CHR 0x5C, CHR ''t'']
         else if n < 32 \<or> c = CHR ''<'' \<or> c = CHR ''>'' \<or> c = CHR 0x26
         then CHR 0x5C # ''u00'' @ [hex_digit (n div 16), hex_digit (n mod 16)]
         else [c])"

fun json_escape :: "string \<Rightarrow> string" where
  "json_escape [] = []"
| "json_escape (c # cs) =
     (if c = CHR 0xE2 \<and> take 2 cs = [CHR 0x80, CHR 0xA8] then CHR 0x5C # ''u2028'' @ json_escape (drop 2 cs)
      else if c = CHR 0xE2 \<and> take 2 cs = [CHR 0x80, CHR 0xA9] then CHR 0x5C # ''u2029'' @ json_escape (drop 2 cs)
      else json_escape_char c @ json_escape cs)"

definition json_quote :: "string \<Rightarrow> string" where
  "json_quote s = [CHR 0x22] @ json_escape s @ [CHR 0x22]"

end
