(* ===== verification/Sts_Vendors.thy ===== *)
theory Sts_Vendors
  imports Auth_Service Provider_Config Json_Value
begin

text \<open>
  Optional temporary credentials (\<open>internal/sts/minio_assume.go\<close>, \<open>s3_assume.go\<close>, \<open>aws_assume.go\<close>,
  \<open>aliyun_sts.go\<close>, \<open>tencent_sts.go\<close>): the environment flags, the requests and their signatures, and
  the fallback to the credentials of the provider. Parameters (\<open>sts_env\<close>): the process
  environment, the \<open>AssumeRole\<close> exchange of the MinIO library, the HTTP client, the hash functions,
  the formatting and parsing of instants, the decoding of the JSON answers. One call reads the clock once.
\<close>

section \<open>Qiniu tokens\<close>

text \<open>
  Private download URLs and upload tokens of Qiniu Kodo (\<open>internal/sts/qiniu_token.go\<close>). HMAC-SHA1
  is a parameter; the padded URL-safe Base64 with its padding cut off is the raw encoding.
\<close>

section \<open>Query escaping\<close>

text \<open>\<open>url.QueryEscape\<close>\<close>

definition unreserved :: "char \<Rightarrow> bool" where
  "unreserved c \<longleftrightarrow>
     (CHR ''a'' \<le> c \<and> c \<le> CHR ''z'') \<or> (CHR ''A'' \<le> c \<and> c \<le> CHR ''Z'') \<or> (CHR ''0'' \<le> c \<and> c \<le> CHR ''9'') \<or>
     c \<in> {CHR ''-'', CHR ''_'', CHR ''.'', CHR ''~''}"

definition upper_hex :: "nat \<Rightarrow> char" where
  "upper_hex n = (if n < 10 then char_of (48 + n) else char_of (55 + n))"

definition escape_char :: "char \<Rightarrow> string" where
  "escape_char c =
     (if unreserved c then [c]
      else if c = CHR '' '' then ''+''
      else [CHR ''%'', upper_hex (of_char c div 16), upper_hex (of_char c mod 16)])"

definition query_escape :: "string \<Rightarrow> string" where
  "query_escape s = concat (map escape_char s)"

section \<open>Tokens\<close>

definition QiniuDownloadToken ::
  "(string \<Rightarrow> string \<Rightarrow> string) \<Rightarrow> url_parser \<Rightarrow> string \<Rightarrow> string \<Rightarrow> string \<Rightarrow> int \<Rightarrow> string result" where
  "QiniuDownloadToken hmac urls accessKey0 secretKey0 rawURL deadline =
     (let accessKey = trim_space accessKey0; secretKey = trim_space secretKey0
      in if accessKey = [] \<or> secretKey = [] then Inl (Errorf ''qiniu access_key and secret_key required'')
         else (case urls rawURL of
                 Inl e \<Rightarrow> Inl (Errorf (''qiniu url: '' @ e))
               | Inr u \<Rightarrow>
                   (let signedURL = urScheme u @ ''://'' @ urHost u @ urPath u @ ''?e='' @ show_int deadline
                    in Inr (accessKey @ '':'' @ b64_encode (hmac secretKey signedURL)))))"

definition clamp_download :: "duration \<Rightarrow> duration" where
  "clamp_download ttl =
     (let t = (if ttl \<le> 0 then 3600 * second else ttl)
      in if t > 24 * 3600 * second then 24 * 3600 * second else t)"

definition QiniuSignedDownloadURL ::
  "(string \<Rightarrow> string \<Rightarrow> string) \<Rightarrow> url_parser \<Rightarrow> time \<Rightarrow> string \<Rightarrow> string \<Rightarrow> string \<Rightarrow> duration
   \<Rightarrow> (string \<times> int) result" where
  "QiniuSignedDownloadURL hmac urls now accessKey secretKey baseURL ttl =
     (let deadline = unix_seconds (now + clamp_download ttl)
      in (case urls baseURL of
            Inl e \<Rightarrow> Inl (Errorf e)
          | Inr u \<Rightarrow>
              (let scheme = (if urScheme u = [] then ''https'' else urScheme u);
                   base = trim_right_c (CHR ''?'') (scheme @ ''://'' @ urHost u @ urPath u)
               in and_then (QiniuDownloadToken hmac urls accessKey secretKey base deadline)
                    (\<lambda>tok. Inr (base @ ''?e='' @ show_int deadline @ ''&token='' @ query_escape tok, deadline)))))"

definition QiniuObjectDownloadBase :: "string \<Rightarrow> bool \<Rightarrow> string \<Rightarrow> string \<Rightarrow> string" where
  "QiniuObjectDownloadBase endpoint useSSL bucket0 key0 =
     (let h = trim_right_c (CHR ''/'') (trim_prefix ''http://'' (trim_prefix ''https://'' (trim_space endpoint)));
          host = (if h = [] then ''download.example.com'' else h);
          scheme = (if useSSL then ''https'' else ''http'');
          key = trim_left_c (CHR ''/'') (trim_space key0);
          bucket = trim_space bucket0;
          lower = to_lower host
      in if (sublist ''qiniucs'' lower \<or> prefix ''s3.'' lower \<or> sublist ''.s3.'' lower) \<and> bucket \<noteq> []
         then scheme @ ''://'' @ host @ ''/'' @ bucket @ ''/'' @ key
         else scheme @ ''://'' @ host @ ''/'' @ key)"

definition QiniuObjectSignedGet ::
  "(string \<Rightarrow> string \<Rightarrow> string) \<Rightarrow> url_parser \<Rightarrow> time \<Rightarrow> string \<Rightarrow> string \<Rightarrow> string \<Rightarrow> bool \<Rightarrow> string \<Rightarrow> string \<Rightarrow> duration
   \<Rightarrow> (string \<times> int) result" where
  "QiniuObjectSignedGet hmac urls now accessKey secretKey endpoint useSSL bucket key ttl =
     QiniuSignedDownloadURL hmac urls now accessKey secretKey (QiniuObjectDownloadBase endpoint useSSL bucket key) ttl"

definition QiniuUploadToken :: "(string \<Rightarrow> string \<Rightarrow> string) \<Rightarrow> string \<Rightarrow> string \<Rightarrow> string \<Rightarrow> int \<Rightarrow> string result" where
  "QiniuUploadToken hmac accessKey0 secretKey0 scope deadline =
     (let accessKey = trim_space accessKey0; secretKey = trim_space secretKey0
      in if accessKey = [] \<or> secretKey = [] then Inl (Errorf ''qiniu access_key and secret_key required'')
         else if scope = [] then Inl (Errorf ''scope required (bucket or bucket:key)'')
         else (let policy = ''{'' @ quoted ''scope'' @ '':'' @ quoted scope @ '','' @ quoted ''deadline'' @ '':'' @
                            show_int deadline @ ''}'';
                   encoded = b64_encode policy
               in Inr (accessKey @ '':'' @ b64_encode (hmac secretKey encoded) @ '':'' @ encoded)))"

section \<open>Facts\<close>

lemma clamp_download_range: "0 < clamp_download ttl \<and> clamp_download ttl \<le> 24 * 3600 * second"
  by (simp add: clamp_download_def Let_def)

text \<open>A signed URL expires within a day.\<close>

lemma signed_url_deadline:
  assumes "QiniuSignedDownloadURL hmac urls now ak sk base ttl = Inr (u, d)"
  shows "d = unix_seconds (now + clamp_download ttl)"
  using assms by (auto simp: QiniuSignedDownloadURL_def and_then_Inr Let_def split: sum.splits)

text \<open>An escaped token has only unreserved characters, percent signs and plus signs: no separator of
  the query.\<close>

lemma upper_hex_clean: "\<forall>n \<in> set [0..<16]. upper_hex n \<notin> {CHR ''&'', CHR ''='', CHR ''#'', CHR ''?''}"
  by code_simp

lemma query_escape_clean:
  assumes "c \<in> set (query_escape s)"
  shows "c \<notin> {CHR ''&'', CHR ''='', CHR ''#'', CHR ''?''}"
proof -
  obtain d where d: "c \<in> set (escape_char d)" using assms by (auto simp: query_escape_def)
  have h: "upper_hex n \<notin> {CHR ''&'', CHR ''='', CHR ''#'', CHR ''?''}" if "n < 16" for n
    using upper_hex_clean that by simp
  have n: "of_char d div 16 < (16 :: nat)"
    using nat_of_char_less_256 [of d] by (intro less_mult_imp_div_less) simp
  have m: "of_char d mod 16 < (16 :: nat)" by simp
  show ?thesis
    using d h [OF n] h [OF m] by (auto simp: escape_char_def unreserved_def less_eq_char_def split: if_splits)
qed

section \<open>Parameters\<close>

record assume_request =
  arEndpoint :: string
  arAccessKey :: string
  arSecretKey :: string
  arLocation :: string
  arSeconds :: int
  arRoleARN :: string
  arExternalID :: string

record temp_creds =
  tcAccess :: string
  tcSecret :: string
  tcToken :: string
  tcExpires :: time

record http_request =
  hqMethod :: string
  hqURL :: string
  hqHeaders :: "(string \<times> string) list"
  hqBody :: string

record aliyun_answer =
  aaAccessKeyId :: string
  aaAccessKeySecret :: string
  aaSecurityToken :: string
  aaExpiration :: string
  aaCode :: string
  aaMessage :: string

record tencent_answer =
  taTmpSecretId :: string
  taTmpSecretKey :: string
  taToken :: string
  taExpiredTime :: int
  taExpiration :: string
  taError :: "(string \<times> string) option"

record sts_env =
  se_env :: environment
  se_assume :: "assume_request \<Rightarrow> string + temp_creds"
  se_http :: "http_request \<Rightarrow> string + int \<times> string"
  se_hmac_sha1 :: "string \<Rightarrow> string \<Rightarrow> string"
  se_hmac_sha256 :: "string \<Rightarrow> string \<Rightarrow> string"
  se_sha256 :: "string \<Rightarrow> string"
  se_format :: "string \<Rightarrow> time \<Rightarrow> string"
  se_parse_rfc3339 :: "string \<Rightarrow> time option"
  se_aliyun_json :: "string \<Rightarrow> string + aliyun_answer"
  se_tencent_json :: "string \<Rightarrow> string + tencent_answer"
  se_urls :: url_parser

section \<open>Flags and settings\<close>

definition envFlagTrue :: "sts_env \<Rightarrow> string \<Rightarrow> bool" where
  "envFlagTrue e key =
     (let v = trim_space (se_env e key)
      in v = ''1'' \<or> to_lower v = ''true'' \<or> to_lower v = ''yes'')"

definition minioSTSEnabled :: "sts_env \<Rightarrow> bool" where
  "minioSTSEnabled e = envFlagTrue e ''AI_CLOUDHUB_MINIO_STS''"

definition clampSTSDurationSeconds :: "duration \<Rightarrow> int" where
  "clampSTSDurationSeconds d =
     (let s0 = d div second;
          s1 = (if s0 < 900 then 900 else s0)
      in if s1 > 12 * 3600 then 12 * 3600 else s1)"

definition s3STSEnabled :: "sts_env \<Rightarrow> bool" where
  "s3STSEnabled e = envFlagTrue e ''AI_CLOUDHUB_S3_STS''"

definition vendorSTSEnabled :: "sts_env \<Rightarrow> string \<Rightarrow> bool" where
  "vendorSTSEnabled e vendor0 =
     (let vendor = to_upper (trim_space vendor0)
      in if vendor = [] then False else envFlagTrue e (''AI_CLOUDHUB_'' @ vendor @ ''_STS''))"

definition s3CompatSTSWanted :: "sts_env \<Rightarrow> string \<Rightarrow> bool" where
  "s3CompatSTSWanted e t =
     (if s3STSEnabled e then True
      else if t = TypeMinIO then minioSTSEnabled e
      else if t = TypeB2 then vendorSTSEnabled e ''B2''
      else if t = TypeOSS then vendorSTSEnabled e ''OSS''
      else if t = TypeCOS then vendorSTSEnabled e ''COS''
      else if t = TypeQiniu then vendorSTSEnabled e ''QINIU''
      else if t = TypeOracle then vendorSTSEnabled e ''ORACLE''
      else if t = TypeR2 then vendorSTSEnabled e ''R2''
      else False)"

text \<open>The first of several variables that is set, trimmed.\<close>

fun first_env :: "sts_env \<Rightarrow> string list \<Rightarrow> string" where
  "first_env e [] = []"
| "first_env e (k # ks) = (if trim_space (se_env e k) \<noteq> [] then trim_space (se_env e k) else first_env e ks)"

definition roleARNForType :: "sts_env \<Rightarrow> string \<Rightarrow> string" where
  "roleARNForType e t =
     first_env e
       (if t = TypeMinIO then [''AI_CLOUDHUB_MINIO_STS_ROLE_ARN'', ''AI_CLOUDHUB_S3_STS_ROLE_ARN'']
        else if t = TypeB2 then [''AI_CLOUDHUB_B2_STS_ROLE_ARN'', ''AI_CLOUDHUB_S3_STS_ROLE_ARN'']
        else if t = TypeOSS then [''AI_CLOUDHUB_OSS_STS_ROLE_ARN'', ''AI_CLOUDHUB_S3_STS_ROLE_ARN'']
        else if t = TypeCOS then [''AI_CLOUDHUB_COS_STS_ROLE_ARN'', ''AI_CLOUDHUB_S3_STS_ROLE_ARN'']
        else if t = TypeQiniu then [''AI_CLOUDHUB_QINIU_STS_ROLE_ARN'', ''AI_CLOUDHUB_S3_STS_ROLE_ARN'']
        else if t = TypeOracle then [''AI_CLOUDHUB_ORACLE_STS_ROLE_ARN'', ''AI_CLOUDHUB_S3_STS_ROLE_ARN'']
        else if t = TypeR2 then [''AI_CLOUDHUB_R2_STS_ROLE_ARN'', ''AI_CLOUDHUB_S3_STS_ROLE_ARN'']
        else [''AI_CLOUDHUB_S3_STS_ROLE_ARN''])"

definition stsEndpointOverride :: "sts_env \<Rightarrow> resolved \<Rightarrow> string" where
  "stsEndpointOverride e r =
     (let t = rsType r;
          own = (if t = TypeMinIO then [''AI_CLOUDHUB_MINIO_STS_ENDPOINT'']
                 else if t = TypeQiniu then [''AI_CLOUDHUB_QINIU_STS_ENDPOINT'']
                 else if t = TypeOracle then [''AI_CLOUDHUB_ORACLE_STS_ENDPOINT'']
                 else if t = TypeB2 then [''AI_CLOUDHUB_B2_STS_ENDPOINT'']
                 else if t = TypeR2 then [''AI_CLOUDHUB_R2_STS_ENDPOINT'']
                 else if t = TypeOSS then [''AI_CLOUDHUB_OSS_S3_STS_ENDPOINT'']
                 else if t = TypeCOS then [''AI_CLOUDHUB_COS_S3_STS_ENDPOINT'']
                 else if t = TypeS3 then [''AI_CLOUDHUB_S3_STS_ENDPOINT''] else [])
      in trim_right_c (CHR ''/'') (first_env e (own @ [''AI_CLOUDHUB_S3_STS_ENDPOINT''])))"

definition stsEndpointURL :: "sts_env \<Rightarrow> resolved \<Rightarrow> string" where
  "stsEndpointURL e r =
     (if stsEndpointOverride e r \<noteq> [] then stsEndpointOverride e r
      else (let scheme = (if rsUseSSL r then ''https'' else ''http'');
                ep = trim_space (rsEndpoint r)
            in if prefix ''http://'' ep \<or> prefix ''https://'' ep then trim_right_c (CHR ''/'') ep
               else if ep = [] then [] else scheme @ ''://'' @ ep))"

section \<open>Labels and notes\<close>

abbreviation SourceEmbedded :: string where "SourceEmbedded \<equiv> ''embedded''"
abbreviation SourceRefresh :: string where "SourceRefresh \<equiv> ''refresh''"
abbreviation SourceMinioSTS :: string where "SourceMinioSTS \<equiv> ''minio_sts''"
abbreviation SourceAWSSTS :: string where "SourceAWSSTS \<equiv> ''aws_sts''"
abbreviation SourceS3STS :: string where "SourceS3STS \<equiv> ''s3_sts''"
abbreviation SourceAliyunSTS :: string where "SourceAliyunSTS \<equiv> ''aliyun_sts''"
abbreviation SourceTencentSTS :: string where "SourceTencentSTS \<equiv> ''tencent_sts''"
abbreviation SourceQiniuSTS :: string where "SourceQiniuSTS \<equiv> ''qiniu_sts''"
abbreviation SourceQiniuDownload :: string where "SourceQiniuDownload \<equiv> ''qiniu_download''"

abbreviation ellipsis :: string where "ellipsis \<equiv> [CHR 0xE2, CHR 0x80, CHR 0xA6]"

definition noteR2 :: string where
  "noteR2 = ''Cloudflare R2 typically uses long-lived S3 API tokens, not classic STS AssumeRole; set AI_CLOUDHUB_R2_STS=1 or AI_CLOUDHUB_S3_STS=1 to attempt S3-compatible AssumeRole''"
definition noteB2 :: string where
  "noteB2 = ''Backblaze B2: S3-compatible STS not enabled; set AI_CLOUDHUB_B2_STS=1 or AI_CLOUDHUB_S3_STS=1 to attempt AssumeRole''"
definition noteOSS :: string where
  "noteOSS = ''Aliyun OSS: set AI_CLOUDHUB_OSS_NATIVE_STS=1 + RoleArn (acs:ram::'' @ ellipsis @
     '') for RAM STS, or AI_CLOUDHUB_OSS_STS=1 / AI_CLOUDHUB_S3_STS=1 for S3-compat AssumeRole''"
definition noteCOS :: string where
  "noteCOS = ''Tencent COS: set AI_CLOUDHUB_COS_NATIVE_STS=1 + RoleArn (qcs::cam::'' @ ellipsis @
     '') for CAM STS, or AI_CLOUDHUB_COS_STS=1 / AI_CLOUDHUB_S3_STS=1 for S3-compat AssumeRole''"
definition noteQiniu :: string where
  "noteQiniu = ''Qiniu Kodo: set AI_CLOUDHUB_QINIU_STS=1 for S3-compat AssumeRole, and/or AI_CLOUDHUB_QINIU_DOWNLOAD_TOKEN=1 for native private download tokens''"

section \<open>S3-compatible exchange\<close>

definition checked_creds :: "string \<Rightarrow> time \<Rightarrow> int \<Rightarrow> string + temp_creds \<Rightarrow> temp_creds result" where
  "checked_creds label now secs answer =
     (case answer of
        Inl err \<Rightarrow> Inl (Errorf (label @ '' AssumeRole: '' @ err))
      | Inr c \<Rightarrow>
          if tcAccess c = [] \<or> tcSecret c = []
          then Inl (Errorf (label @ '' AssumeRole: empty temporary credentials''))
          else Inr (if is_zero (tcExpires c) then c\<lparr>tcExpires := now + secs * second\<rparr> else c))"

definition TryS3AssumeRole :: "sts_env \<Rightarrow> time \<Rightarrow> resolved \<Rightarrow> duration \<Rightarrow> string \<Rightarrow> temp_creds result" where
  "TryS3AssumeRole e now r d roleARN =
     (if rsEndpoint r = [] then Inl (Errorf ''endpoint required for S3-compatible STS'')
      else if rsAccessKey r = [] \<or> rsSecretKey r = []
      then Inl (Errorf ''access_key and secret_key required for S3-compatible STS'')
      else (let secs = clampSTSDurationSeconds d
            in checked_creds ''s3-compatible'' now secs
                 (se_assume e \<lparr>arEndpoint = stsEndpointURL e r, arAccessKey = rsAccessKey r, arSecretKey = rsSecretKey r,
                               arLocation = (if rsRegion r = [] then ''us-east-1'' else rsRegion r),
                               arSeconds = secs, arRoleARN = trim_space roleARN, arExternalID = []\<rparr>)))"

definition TryMinioAssumeRole :: "sts_env \<Rightarrow> time \<Rightarrow> resolved \<Rightarrow> duration \<Rightarrow> temp_creds result" where
  "TryMinioAssumeRole e now r d = TryS3AssumeRole e now r d (roleARNForType e TypeMinIO)"

text \<open>The three results of an attempt: the connection to use, its source and a note.\<close>

type_synonym attempt = "resolved \<times> string \<times> string"

definition with_creds :: "resolved \<Rightarrow> temp_creds \<Rightarrow> resolved" where
  "with_creds r c = r\<lparr>rsAccessKey := tcAccess c, rsSecretKey := tcSecret c, rsSessionToken := tcToken c\<rparr>"

definition applyOptionalS3CompatSTS ::
  "sts_env \<Rightarrow> time \<Rightarrow> resolved \<Rightarrow> duration \<Rightarrow> string \<Rightarrow> string \<Rightarrow> string \<Rightarrow> string \<Rightarrow> attempt" where
  "applyOptionalS3CompatSTS e now r d fallbackSource successSource vendorLabel noteWhenDisabled =
     (if \<not> s3CompatSTSWanted e (rsType r) then (r, fallbackSource, noteWhenDisabled)
      else (case TryS3AssumeRole e now r d (roleARNForType e (rsType r)) of
              Inl _ \<Rightarrow> (r, fallbackSource, vendorLabel @
                '' S3-compatible STS AssumeRole failed; using embedded credentials in short-lived session'')
            | Inr c \<Rightarrow> (with_creds r c, successSource, [])))"

definition applyOptionalMinioSTS :: "sts_env \<Rightarrow> time \<Rightarrow> resolved \<Rightarrow> duration \<Rightarrow> string \<Rightarrow> attempt" where
  "applyOptionalMinioSTS e now r d fallbackSource =
     (if rsType r \<noteq> TypeMinIO then (r, fallbackSource, [])
      else applyOptionalS3CompatSTS e now r d fallbackSource SourceMinioSTS ''MinIO'' [])"

section \<open>AWS\<close>

definition awsSTSEnabled :: "sts_env \<Rightarrow> bool" where
  "awsSTSEnabled e = envFlagTrue e ''AI_CLOUDHUB_AWS_STS''"

definition looksLikeAWS :: "resolved \<Rightarrow> bool" where
  "looksLikeAWS r =
     (if to_lower (trim_space (rsProviderLabel r)) = ''aws'' then True
      else (let ep = to_lower (trim_space (rsEndpoint r))
            in if ep = [] \<or> ep = ''s3.amazonaws.com'' then True
               else if suffix ''.amazonaws.com.cn'' ep then sublist ''s3'' ep
               else if \<not> suffix ''.amazonaws.com'' ep then False
               else if ep = ''s3.amazonaws.com'' then True
               else if prefix ''s3.'' ep \<or> prefix ''s3-'' ep then True
               else if sublist ''.s3.'' ep \<or> sublist ''.s3-'' ep then True
               else if sublist ''s3-fips'' ep \<or> sublist ''s3.dualstack'' ep then True
               else False))"

definition awsSTSEndpointURL :: "sts_env \<Rightarrow> string \<Rightarrow> string" where
  "awsSTSEndpointURL e region0 =
     (let ep = trim_space (se_env e ''AI_CLOUDHUB_AWS_STS_ENDPOINT'');
          region = trim_space region0
      in if ep \<noteq> [] then trim_right_c (CHR ''/'') ep
         else if region = [] \<or> region = ''us-east-1'' then ''https://sts.amazonaws.com''
         else if prefix ''cn-'' region then ''https://sts.'' @ region @ ''.amazonaws.com.cn''
         else ''https://sts.'' @ region @ ''.amazonaws.com'')"

definition TryAWSAssumeRole :: "sts_env \<Rightarrow> time \<Rightarrow> resolved \<Rightarrow> duration \<Rightarrow> temp_creds result" where
  "TryAWSAssumeRole e now r d =
     (if rsAccessKey r = [] \<or> rsSecretKey r = []
      then Inl (Errorf ''access_key and secret_key required for AWS STS'')
      else (let roleARN = trim_space (se_env e ''AI_CLOUDHUB_AWS_STS_ROLE_ARN'')
            in if roleARN = [] then Inl (Errorf ''AI_CLOUDHUB_AWS_STS_ROLE_ARN required for AWS AssumeRole'')
               else (let secs = clampSTSDurationSeconds d;
                         loc = (if rsRegion r = [] then ''us-east-1'' else rsRegion r)
                     in checked_creds ''aws'' now secs
                          (se_assume e \<lparr>arEndpoint = awsSTSEndpointURL e loc, arAccessKey = rsAccessKey r,
                             arSecretKey = rsSecretKey r, arLocation = loc, arSeconds = secs, arRoleARN = roleARN,
                             arExternalID = trim_space (se_env e ''AI_CLOUDHUB_AWS_STS_EXTERNAL_ID'')\<rparr>))))"

definition applyOptionalAWSSTS :: "sts_env \<Rightarrow> time \<Rightarrow> resolved \<Rightarrow> duration \<Rightarrow> string \<Rightarrow> attempt" where
  "applyOptionalAWSSTS e now r d fallbackSource =
     (if rsType r \<noteq> TypeS3 then (r, fallbackSource, [])
      else if \<not> awsSTSEnabled e then (r, fallbackSource, [])
      else if \<not> looksLikeAWS r
      then (r, fallbackSource,
            ''S3 endpoint is not AWS; AI_CLOUDHUB_AWS_STS skipped; using embedded credentials in short-lived session'')
      else (case TryAWSAssumeRole e now r d of
              Inl _ \<Rightarrow> (r, fallbackSource, ''AWS STS AssumeRole failed; using embedded credentials in short-lived session'')
            | Inr c \<Rightarrow> (with_creds r c, SourceAWSSTS, [])))"

section \<open>Aliyun\<close>

definition aliyunNativeSTSEnabled :: "sts_env \<Rightarrow> bool" where
  "aliyunNativeSTSEnabled e =
     (envFlagTrue e ''AI_CLOUDHUB_OSS_NATIVE_STS'' \<or> envFlagTrue e ''AI_CLOUDHUB_ALIYUN_STS'')"

definition aliyunRoleARN :: "sts_env \<Rightarrow> string" where
  "aliyunRoleARN e =
     first_env e [''AI_CLOUDHUB_ALIYUN_STS_ROLE_ARN'', ''AI_CLOUDHUB_OSS_STS_ROLE_ARN'', ''AI_CLOUDHUB_S3_STS_ROLE_ARN'']"

definition aliyunSTSEndpoint :: "sts_env \<Rightarrow> string" where
  "aliyunSTSEndpoint e =
     (let ep = trim_space (se_env e ''AI_CLOUDHUB_ALIYUN_STS_ENDPOINT'')
      in if ep \<noteq> [] then trim_right_c (CHR ''/'') ep else ''https://sts.aliyuncs.com'')"

definition looksLikeAliyunRoleARN :: "string \<Rightarrow> bool" where
  "looksLikeAliyunRoleARN arn = prefix ''acs:ram::'' (trim_space arn)"

text \<open>\<open>strings.ReplaceAll\<close> for a nonempty old text.\<close>

function replace_all :: "string \<Rightarrow> string \<Rightarrow> string \<Rightarrow> string" where
  "replace_all old new s =
     (if old \<noteq> [] \<and> prefix old s then new @ replace_all old new (drop (length old) s)
      else (case s of [] \<Rightarrow> [] | c # cs \<Rightarrow> c # replace_all old new cs))"
  by pat_completeness auto
termination
proof (relation "measure (\<lambda>(old, new, s). length s)", goal_cases)
  case (2 old new s)
  then show ?case by (cases s) (auto dest: prefix_length_le)
qed auto

declare replace_all.simps [simp del]

definition aliyunPercentEncode :: "string \<Rightarrow> string" where
  "aliyunPercentEncode s =
     replace_all ''%7E'' ''~'' (replace_all ''*'' ''%2A'' (replace_all ''+'' ''%20'' (query_escape s)))"

text \<open>Standard Base64 with padding, from the URL alphabet.\<close>

definition b64_std :: "string \<Rightarrow> string" where
  "b64_std s =
     (let r = b64_encode s
      in map (\<lambda>c. if c = CHR ''-'' then CHR ''+'' else if c = CHR ''_'' then CHR ''/'' else c) r @
         replicate ((4 - length r mod 4) mod 4) (CHR ''=''))"

definition aliyunRPCSignature :: "sts_env \<Rightarrow> string \<Rightarrow> string gomap \<Rightarrow> string \<Rightarrow> string" where
  "aliyunRPCSignature e httpMethod params accessKeySecret =
     (let keys = sort (filter (\<lambda>k. k \<noteq> ''Signature'') (map fst params));
          pair = (\<lambda>k. aliyunPercentEncode k @ ''='' @
                    aliyunPercentEncode (case gget params k of Some v \<Rightarrow> v | None \<Rightarrow> []));
          stringToSign = httpMethod @ ''&'' @ aliyunPercentEncode ''/'' @ ''&'' @
            aliyunPercentEncode (str_join ''&'' (map pair keys))
      in b64_std (se_hmac_sha1 e (accessKeySecret @ ''&'') stringToSign))"

text \<open>\<open>url.Values.Encode\<close>\<close>

definition encode_values :: "string gomap \<Rightarrow> string" where
  "encode_values params =
     str_join ''&'' (map (\<lambda>k. query_escape k @ ''='' @ query_escape (case gget params k of Some v \<Rightarrow> v | None \<Rightarrow> []))
       (sort (map fst params)))"

definition truncateSTS :: "string \<Rightarrow> nat \<Rightarrow> string" where
  "truncateSTS s n = (if length s \<le> n then s else take n s @ ellipsis)"

definition aliyun_params :: "sts_env \<Rightarrow> time \<Rightarrow> resolved \<Rightarrow> string \<Rightarrow> int \<Rightarrow> string gomap" where
  "aliyun_params e now r roleARN secs =
    [(''Action'', ''AssumeRole''), (''Version'', ''2015-04-01''), (''Format'', ''JSON''),
     (''AccessKeyId'', rsAccessKey r), (''SignatureMethod'', ''HMAC-SHA1''), (''SignatureVersion'', ''1.0''),
     (''SignatureNonce'', show_int (now - from_unix 0)),
     (''Timestamp'', se_format e ''2006-01-02T15:04:05Z'' now), (''RoleArn'', roleARN),
     (''RoleSessionName'', ''ai-cloudhub''), (''DurationSeconds'', show_int secs)]"

definition TryAliyunAssumeRole :: "sts_env \<Rightarrow> time \<Rightarrow> resolved \<Rightarrow> duration \<Rightarrow> temp_creds result" where
  "TryAliyunAssumeRole e now r d =
     (if rsAccessKey r = [] \<or> rsSecretKey r = []
      then Inl (Errorf ''access_key and secret_key required for Aliyun STS'')
      else if aliyunRoleARN e = []
      then Inl (Errorf ''AI_CLOUDHUB_OSS_STS_ROLE_ARN (or ALIYUN) required for Aliyun AssumeRole'')
      else (let s0 = clampSTSDurationSeconds d;
                secs = (if s0 > 3600 then 3600 else s0);
                params0 = aliyun_params e now r (aliyunRoleARN e) secs;
                params = gset ''Signature'' (aliyunRPCSignature e ''GET'' params0 (rsSecretKey r)) params0
            in (case se_http e \<lparr>hqMethod = ''GET'', hqURL = aliyunSTSEndpoint e @ ''/?'' @ encode_values params,
                               hqHeaders = [], hqBody = []\<rparr> of
                  Inl err \<Rightarrow> Inl (Errorf (''aliyun STS request: '' @ err))
                | Inr (code, body) \<Rightarrow>
                    if code \<ge> 300
                    then Inl (Errorf (''aliyun STS HTTP '' @ show_int code @ '': '' @ truncateSTS body 256))
                    else (case se_aliyun_json e body of
                            Inl err \<Rightarrow> Inl (Errorf (''aliyun STS json: '' @ err))
                          | Inr a \<Rightarrow>
                              if aaAccessKeyId a = [] \<or> aaAccessKeySecret a = []
                              then (if aaCode a \<noteq> [] \<or> aaMessage a \<noteq> []
                                    then Inl (Errorf (''aliyun STS: '' @ aaCode a @ '' '' @ aaMessage a))
                                    else Inl (Errorf ''aliyun STS: empty temporary credentials''))
                              else Inr \<lparr>tcAccess = aaAccessKeyId a, tcSecret = aaAccessKeySecret a,
                                        tcToken = aaSecurityToken a,
                                        tcExpires = (case se_parse_rfc3339 e (aaExpiration a) of
                                                       Some t \<Rightarrow> t | None \<Rightarrow> now + secs * second)\<rparr>))))"

definition applyOptionalOSSSTS :: "sts_env \<Rightarrow> time \<Rightarrow> resolved \<Rightarrow> duration \<Rightarrow> string \<Rightarrow> attempt" where
  "applyOptionalOSSSTS e now r d fallbackSource =
     (if rsType r \<noteq> TypeOSS then (r, fallbackSource, [])
      else (let arn = aliyunRoleARN e;
                want0 = aliyunNativeSTSEnabled e \<or> looksLikeAliyunRoleARN arn;
                want = (if \<not> want0 \<and> s3CompatSTSWanted e TypeOSS \<and> looksLikeAliyunRoleARN arn then True else want0)
            in if \<not> want \<and> \<not> s3CompatSTSWanted e TypeOSS then (r, fallbackSource, noteOSS)
               else if want \<and> arn \<noteq> []
               then (case TryAliyunAssumeRole e now r d of
                       Inr c \<Rightarrow> (with_creds r c, SourceAliyunSTS, [])
                     | Inl _ \<Rightarrow>
                         if \<not> s3CompatSTSWanted e TypeOSS
                         then (r, fallbackSource, ''Aliyun STS AssumeRole failed; using embedded credentials in short-lived session'')
                         else (case applyOptionalS3CompatSTS e now r d fallbackSource SourceS3STS ''OSS'' [] of
                                 (out, source, note) \<Rightarrow>
                                   if note = [] \<and> source = SourceS3STS then (out, source, [])
                                   else if source = fallbackSource
                                   then (r, fallbackSource, ''Aliyun native + S3-compatible STS failed; using embedded credentials in short-lived session'')
                                   else (out, source, note)))
               else applyOptionalS3CompatSTS e now r d fallbackSource SourceS3STS ''OSS'' noteOSS))"

section \<open>Tencent\<close>

definition tencentNativeSTSEnabled :: "sts_env \<Rightarrow> bool" where
  "tencentNativeSTSEnabled e =
     (envFlagTrue e ''AI_CLOUDHUB_COS_NATIVE_STS'' \<or> envFlagTrue e ''AI_CLOUDHUB_TENCENT_STS'')"

definition tencentRoleARN :: "sts_env \<Rightarrow> string" where
  "tencentRoleARN e =
     first_env e [''AI_CLOUDHUB_TENCENT_STS_ROLE_ARN'', ''AI_CLOUDHUB_COS_STS_ROLE_ARN'', ''AI_CLOUDHUB_S3_STS_ROLE_ARN'']"

definition tencentSTSBase :: "sts_env \<Rightarrow> string \<times> string" where
  "tencentSTSBase e =
     (let ep = trim_space (se_env e ''AI_CLOUDHUB_TENCENT_STS_ENDPOINT'')
      in if ep = [] then (''https'', ''sts.tencentcloudapi.com'')
         else if prefix ''http://'' ep then (''http'', trim_right_c (CHR ''/'') (trim_prefix ''http://'' ep))
         else if prefix ''https://'' ep then (''https'', trim_right_c (CHR ''/'') (trim_prefix ''https://'' ep))
         else (''https'', trim_right_c (CHR ''/'') ep))"

definition looksLikeTencentRoleARN :: "string \<Rightarrow> bool" where
  "looksLikeTencentRoleARN arn0 =
     (let arn = trim_space arn0 in prefix ''qcs::cam::'' arn \<or> sublist '':roleName/'' arn)"

definition lower_hex :: "string \<Rightarrow> string" where
  "lower_hex s = concat (map (\<lambda>c. let h = (\<lambda>n. if n < 10 then char_of (48 + n) else char_of (87 + n))
                                in [h (of_char c div 16 :: nat), h (of_char c mod 16)]) s)"

definition tencentTC3Auth ::
  "sts_env \<Rightarrow> string \<Rightarrow> string \<Rightarrow> string \<Rightarrow> string \<Rightarrow> int \<Rightarrow> string \<Rightarrow> string" where
  "tencentTC3Auth e secretId secretKey service host timestamp payload =
     (let hmac = se_hmac_sha256 e;
          date = se_format e ''2006-01-02'' (from_unix timestamp);
          canonicalHeaders = ''content-type:application/json'' @ [CHR 0x0A] @ ''host:'' @ host @ [CHR 0x0A];
          canonicalRequest = str_join newline [''POST'', ''/'', [], canonicalHeaders, ''content-type;host'',
            lower_hex (se_sha256 e payload)];
          credentialScope = date @ ''/'' @ service @ ''/tc3_request'';
          stringToSign = str_join newline [''TC3-HMAC-SHA256'', show_int timestamp, credentialScope,
            lower_hex (se_sha256 e canonicalRequest)];
          secretSigning = hmac (hmac (hmac (''TC3'' @ secretKey) date) service) ''tc3_request''
      in ''TC3-HMAC-SHA256 Credential='' @ secretId @ ''/'' @ credentialScope @ '', SignedHeaders=content-type;host, Signature='' @
         lower_hex (hmac secretSigning stringToSign))"

text \<open>\<open>json.Marshal\<close> of the request payload: its keys sorted.\<close>

definition tencent_payload :: "string \<Rightarrow> int \<Rightarrow> string" where
  "tencent_payload roleARN secs =
     ''{'' @ quoted ''DurationSeconds'' @ '':'' @ show_int secs @ '','' @ quoted ''RoleArn'' @ '':'' @ json_quote roleARN @ '','' @
     quoted ''RoleSessionName'' @ '':'' @ quoted ''ai-cloudhub'' @ ''}''"

definition tencent_request :: "sts_env \<Rightarrow> time \<Rightarrow> resolved \<Rightarrow> string \<Rightarrow> int \<Rightarrow> http_request" where
  "tencent_request e now r roleARN secs =
     (let region0 = (if trim_space (rsRegion r) = [] then trim_space (se_env e ''AI_CLOUDHUB_TENCENT_STS_REGION'')
                     else trim_space (rsRegion r));
          region = (if region0 = [] then ''ap-guangzhou'' else region0);
          body = tencent_payload roleARN secs;
          (scheme, host) = tencentSTSBase e;
          timestamp = unix_seconds now
      in \<lparr>hqMethod = ''POST'', hqURL = scheme @ ''://'' @ host,
          hqHeaders = [(''Content-Type'', ''application/json''), (''Host'', host), (''X-TC-Action'', ''AssumeRole''),
            (''X-TC-Version'', ''2018-08-13''), (''X-TC-Timestamp'', show_int timestamp), (''X-TC-Region'', region),
            (''Authorization'', tencentTC3Auth e (rsAccessKey r) (rsSecretKey r) ''sts'' host timestamp body)],
          hqBody = body\<rparr>)"

definition TryTencentAssumeRole :: "sts_env \<Rightarrow> time \<Rightarrow> resolved \<Rightarrow> duration \<Rightarrow> temp_creds result" where
  "TryTencentAssumeRole e now r d =
     (if rsAccessKey r = [] \<or> rsSecretKey r = []
      then Inl (Errorf ''access_key and secret_key required for Tencent STS'')
      else if tencentRoleARN e = []
      then Inl (Errorf ''AI_CLOUDHUB_COS_STS_ROLE_ARN (or TENCENT) required for Tencent AssumeRole'')
      else (let s0 = clampSTSDurationSeconds d;
                secs = (if s0 > 7200 then 7200 else s0)
            in (case se_http e (tencent_request e now r (tencentRoleARN e) secs) of
                  Inl err \<Rightarrow> Inl (Errorf (''tencent STS request: '' @ err))
                | Inr (code, body) \<Rightarrow>
                    (case se_tencent_json e body of
                       Inl err \<Rightarrow> Inl (Errorf (''tencent STS json: '' @ err))
                     | Inr a \<Rightarrow>
                         (case taError a of
                            Some (c, msg) \<Rightarrow> Inl (Errorf (''tencent STS: '' @ c @ '' '' @ msg))
                          | None \<Rightarrow>
                              if code \<ge> 300
                              then Inl (Errorf (''tencent STS HTTP '' @ show_int code @ '': '' @ truncateSTS body 256))
                              else if taTmpSecretId a = [] \<or> taTmpSecretKey a = []
                              then Inl (Errorf ''tencent STS: empty temporary credentials'')
                              else Inr \<lparr>tcAccess = taTmpSecretId a, tcSecret = taTmpSecretKey a, tcToken = taToken a,
                                        tcExpires = (if taExpiredTime a > 0 then from_unix (taExpiredTime a)
                                          else (case se_parse_rfc3339 e (taExpiration a) of
                                                  Some t \<Rightarrow> t | None \<Rightarrow> now + secs * second))\<rparr>)))))"

definition applyOptionalCOSSTS :: "sts_env \<Rightarrow> time \<Rightarrow> resolved \<Rightarrow> duration \<Rightarrow> string \<Rightarrow> attempt" where
  "applyOptionalCOSSTS e now r d fallbackSource =
     (if rsType r \<noteq> TypeCOS then (r, fallbackSource, [])
      else (let arn = tencentRoleARN e;
                want0 = tencentNativeSTSEnabled e \<or> looksLikeTencentRoleARN arn;
                want = (if \<not> want0 \<and> s3CompatSTSWanted e TypeCOS \<and> looksLikeTencentRoleARN arn then True else want0)
            in if \<not> want \<and> \<not> s3CompatSTSWanted e TypeCOS then (r, fallbackSource, noteCOS)
               else if want \<and> arn \<noteq> []
               then (case TryTencentAssumeRole e now r d of
                       Inr c \<Rightarrow> (with_creds r c, SourceTencentSTS, [])
                     | Inl _ \<Rightarrow>
                         if \<not> s3CompatSTSWanted e TypeCOS
                         then (r, fallbackSource, ''Tencent STS AssumeRole failed; using embedded credentials in short-lived session'')
                         else (case applyOptionalS3CompatSTS e now r d fallbackSource SourceS3STS ''COS'' [] of
                                 (out, source, note) \<Rightarrow>
                                   if source = fallbackSource
                                   then (r, fallbackSource, ''Tencent native + S3-compatible STS failed; using embedded credentials in short-lived session'')
                                   else (out, source, note)))
               else applyOptionalS3CompatSTS e now r d fallbackSource SourceS3STS ''COS'' noteCOS))"

section \<open>Qiniu\<close>

definition qiniuDownloadTokenEnabled :: "sts_env \<Rightarrow> bool" where
  "qiniuDownloadTokenEnabled e = envFlagTrue e ''AI_CLOUDHUB_QINIU_DOWNLOAD_TOKEN''"

definition qiniuDownloadHint :: "sts_env \<Rightarrow> time \<Rightarrow> resolved \<Rightarrow> duration \<Rightarrow> string" where
  "qiniuDownloadHint e now r d =
     (let host = (if rsEndpoint r = [] then ''download.example.com'' else rsEndpoint r);
          scheme = (if rsUseSSL r then ''https'' else ''http'');
          sample = scheme @ ''://'' @ host @ ''/__sample_key__''
      in (case QiniuSignedDownloadURL (se_hmac_sha1 e) (se_urls e) now (rsAccessKey r) (rsSecretKey r) sample d of
            Inl err \<Rightarrow> ''Qiniu download-token assist failed: '' @ error_text err
          | Inr (surl, deadline) \<Rightarrow>
              ''Qiniu private download token (source=qiniu_download): sample_signed_url_prefix='' @ take 180 surl @
              ellipsis @ '' deadline='' @ show_int deadline @
              ''; set AI_CLOUDHUB_QINIU_DOWNLOAD_TOKEN=1; replace __sample_key__ with object key under drive prefix''))"

definition applyOptionalQiniuSTS :: "sts_env \<Rightarrow> time \<Rightarrow> resolved \<Rightarrow> duration \<Rightarrow> string \<Rightarrow> attempt" where
  "applyOptionalQiniuSTS e now r d fallbackSource =
     (if rsType r \<noteq> TypeQiniu then (r, fallbackSource, [])
      else if s3CompatSTSWanted e TypeQiniu
      then (case applyOptionalS3CompatSTS e now r d fallbackSource
                   (if vendorSTSEnabled e ''QINIU'' then SourceQiniuSTS else SourceS3STS) ''Qiniu'' noteQiniu of
              (out, source, note) \<Rightarrow>
                if qiniuDownloadTokenEnabled e
                then (out, if source = fallbackSource then SourceQiniuDownload else source,
                      (if note = [] then [] else note @ '' | '') @ qiniuDownloadHint e now r d)
                else (out, source, note))
      else if qiniuDownloadTokenEnabled e then (r, SourceQiniuDownload, qiniuDownloadHint e now r d)
      else (r, fallbackSource, noteQiniu))"

end
