(* ===== verification/Drive_Objects.thy ===== *)
theory Drive_Objects
  imports Drive_Service S3_Store Sts_Vendors
begin

text \<open>
  Object level calls of a drive (\<open>internal/drive/objects.go\<close>): live listings, signed download URLs
  and version restore. A key is scoped under the prefix of the drive. The MinIO client, HMAC-SHA1
  and \<open>url.Parse\<close> are parameters. The result maps are records of the same entries.
\<close>

record 'c object_env =
  oe_providers :: provider_service
  oe_minio :: "'c minio"
  oe_hmac_sha1 :: "string \<Rightarrow> string \<Rightarrow> string"

definition open_s3 :: "'c object_env \<Rightarrow> resolved \<Rightarrow> 'c s3_store result" where
  "open_s3 env r =
     s3_New (oe_minio env) (rsEndpoint r) (rsAccessKey r) (rsSecretKey r) (rsRegion r) (rsUseSSL r)"

definition list_prefix :: "drive \<Rightarrow> string" where
  "list_prefix d =
     (if dPrefix d \<noteq> [] \<and> \<not> suffix ''/'' (dPrefix d) then dPrefix d @ ''/'' else dPrefix d)"

text \<open>The int64 sum of the sizes.\<close>

definition total_size :: "inventory_entry list \<Rightarrow> int" where
  "total_size es = sint (of_int (sum_list (map ieSize es)) :: 64 word)"

record objects_inventory =
  ovDriveID :: string
  ovBucket :: string
  ovPrefix :: string
  ovCount :: nat
  ovTotalBytes :: int
  ovTruncated :: bool
  ovWithVersions :: bool
  ovEntries :: "inventory_entry list"
  ovNote :: string

definition ListObjects ::
  "'c object_env \<Rightarrow> memory \<Rightarrow> string \<Rightarrow> string \<Rightarrow> int \<Rightarrow> bool \<Rightarrow> objects_inventory result" where
  "ListObjects env m userID driveID maxKeys withVersions =
     and_then (Drive_Get m userID driveID)
       (\<lambda>d. and_then (ResolveRecord (oe_providers env) m userID (dProviderID d))
         (\<lambda>(r, _). and_then (open_s3 env r)
           (\<lambda>st. let prefx = list_prefix d
                 in and_then (if withVersions
                              then ListInventoryVersions (oe_minio env) st (dBucket d) prefx maxKeys
                              else ListInventory (oe_minio env) st (dBucket d) prefx maxKeys)
                      (\<lambda>(es, truncated).
                         Inr \<lparr>ovDriveID = dID d, ovBucket = dBucket d, ovPrefix = prefx, ovCount = length es,
                              ovTotalBytes = total_size es, ovTruncated = truncated, ovWithVersions = withVersions,
                              ovEntries = es,
                              ovNote = ''Live inventory (metadata only). Control plane does not proxy object bytes.'' @
                                (if withVersions
                                 then '' with_versions=true requires bucket versioning; otherwise version_id may be empty.''
                                 else [])\<rparr>))))"

section \<open>Scoping a key\<close>

definition scope_key :: "string \<Rightarrow> string \<Rightarrow> string result" where
  "scope_key drive_prefix key =
     (let k = trim_left_c (CHR ''/'') (trim_space key)
      in if k = [] then Inl (Errorf ''key required'')
         else if sublist ''..'' k then Inl (Errorf ''invalid key'')
         else (let p = trim_c (CHR ''/'') drive_prefix
               in if p \<noteq> [] \<and> k \<noteq> p \<and> \<not> prefix (p @ ''/'') k then Inr (p @ ''/'' @ k) else Inr k))"

definition resolveObjectKey ::
  "'c object_env \<Rightarrow> memory \<Rightarrow> string \<Rightarrow> string \<Rightarrow> string \<Rightarrow> (drive \<times> resolved \<times> string) result" where
  "resolveObjectKey env m userID driveID key =
     and_then (Drive_Get m userID driveID)
       (\<lambda>d. and_then (ResolveRecord (oe_providers env) m userID (dProviderID d))
         (\<lambda>(r, _). and_then (scope_key (dPrefix d) key) (\<lambda>k. Inr (d, r, k))))"

section \<open>Hints, URLs, restore\<close>

record version_hint =
  vhDriveID :: string
  vhBucket :: string
  vhKey :: string
  vhVersionID :: string
  vhHint :: string

definition ObjectVersionHint ::
  "'c object_env \<Rightarrow> memory \<Rightarrow> string \<Rightarrow> string \<Rightarrow> string \<Rightarrow> string \<Rightarrow> version_hint result" where
  "ObjectVersionHint env m userID driveID key versionID =
     and_then (resolveObjectKey env m userID driveID key)
       (\<lambda>(d, r, k). Inr \<lparr>vhDriveID = driveID, vhBucket = dBucket d, vhKey = k, vhVersionID = versionID,
                       vhHint = RestoreHint (rsEndpoint r) (dBucket d) k versionID (rsUseSSL r)\<rparr>)"

record signed_get =
  sgDriveID :: string
  sgBucket :: string
  sgKey :: string
  sgVersionID :: string
  sgURL :: string
  sgExpiresIn :: int
  sgDeadline :: "int option"
  sgMethod :: string

text \<open>\<open>time.Duration(ttlMin) * time.Minute\<close> wraps in int64; the bounds apply to the wrapped value.\<close>

definition presign_ttl :: "int \<Rightarrow> duration" where
  "presign_ttl ttlMin =
     (let t = sint (of_int ttlMin * 60000000000 :: 64 word);
          t = (if t \<le> 0 then minutes 15 else t)
      in if t > 24 * 3600 * second then 24 * 3600 * second else t)"

definition ObjectPresignGet ::
  "'c object_env \<Rightarrow> time \<Rightarrow> memory \<Rightarrow> string \<Rightarrow> string \<Rightarrow> string \<Rightarrow> string \<Rightarrow> int \<Rightarrow> signed_get result" where
  "ObjectPresignGet env now m userID driveID key versionID ttlMin =
     and_then (resolveObjectKey env m userID driveID key)
       (\<lambda>(d, r, k).
          let ttl = presign_ttl ttlMin
          in if rsType r = TypeQiniu \<and> trim_space versionID = []
             then and_then (QiniuObjectSignedGet (oe_hmac_sha1 env) (ps_urls (oe_providers env)) now
                              (rsAccessKey r) (rsSecretKey r) (rsEndpoint r) (rsUseSSL r) (dBucket d) k ttl)
                    (\<lambda>(signed, deadline).
                       let expIn = deadline - unix_seconds now
                       in Inr \<lparr>sgDriveID = driveID, sgBucket = dBucket d, sgKey = k, sgVersionID = versionID,
                               sgURL = signed, sgExpiresIn = (if expIn < 0 then ttl div second else expIn),
                               sgDeadline = Some deadline, sgMethod = ''qiniu_download''\<rparr>)
             else and_then (open_s3 env r)
                    (\<lambda>st. and_then (PresignGetVersion (oe_minio env) st (dBucket d) k versionID ttl)
                       (\<lambda>u. Inr \<lparr>sgDriveID = driveID, sgBucket = dBucket d, sgKey = k, sgVersionID = versionID,
                                sgURL = u, sgExpiresIn = ttl div second, sgDeadline = None,
                                sgMethod = ''s3_presign''\<rparr>)))"

definition ObjectRestoreVersion ::
  "'c object_env \<Rightarrow> memory \<Rightarrow> string \<Rightarrow> string \<Rightarrow> string \<Rightarrow> string \<Rightarrow> (string \<times> string \<times> string) result" where
  "ObjectRestoreVersion env m userID driveID key versionID =
     (if trim_space versionID = [] then Inl (Errorf ''version_id required'')
      else and_then (resolveObjectKey env m userID driveID key)
             (\<lambda>(d, r, k). and_then (open_s3 env r)
                (\<lambda>st. case CopyVersionToCurrent (oe_minio env) st (dBucket d) k versionID of
                        Inl e \<Rightarrow> Inl (Errorf (''copy version: '' @ error_text e @
                                 '' (bucket versioning must be enabled)''))
                      | Inr _ \<Rightarrow> Inr (dBucket d, k, versionID))))"

record restore_plan =
  rpDriveID :: string
  rpKey :: string
  rpVersionID :: string
  rpCLIHint :: string
  rpPresign :: "string + signed_get"

definition ObjectRestorePlan ::
  "'c object_env \<Rightarrow> time \<Rightarrow> memory \<Rightarrow> string \<Rightarrow> string \<Rightarrow> string \<Rightarrow> string \<Rightarrow> int \<Rightarrow> restore_plan result" where
  "ObjectRestorePlan env now m userID driveID key versionID ttlMin =
     and_then (ObjectVersionHint env m userID driveID key versionID)
       (\<lambda>h. Inr \<lparr>rpDriveID = driveID, rpKey = vhKey h, rpVersionID = versionID, rpCLIHint = vhHint h,
               rpPresign = (case ObjectPresignGet env now m userID driveID key versionID ttlMin of
                              Inl e \<Rightarrow> Inl (error_text e)
                            | Inr s \<Rightarrow> Inr s)\<rparr>)"

section \<open>Facts\<close>

lemma presign_ttl_range: "0 < presign_ttl n \<and> presign_ttl n \<le> 24 * 3600 * second"
  by (simp add: presign_ttl_def Let_def)

text \<open>Where a scoped key lies.\<close>

definition under_prefix :: "string \<Rightarrow> string \<Rightarrow> bool" where
  "under_prefix p k \<longleftrightarrow> p = [] \<or> k = p \<or> prefix (p @ ''/'') k"

lemma scope_key_under: "scope_key dp key = Inr k \<Longrightarrow> under_prefix (trim_c (CHR ''/'') dp) k \<and> k \<noteq> []"
  by (auto simp: scope_key_def under_prefix_def Let_def split: if_splits)

lemma resolveObjectKey_Inr:
  "resolveObjectKey env m u did key = Inr (d, r, k) \<Longrightarrow>
   GetDrive m u did = Inr d \<and> scope_key (dPrefix d) key = Inr k"
  by (auto simp: resolveObjectKey_def and_then_Inr Drive_Get_def split: sum.splits)

text \<open>A key that is already scoped is not scoped again.\<close>

lemma scope_key_again:
  assumes "scope_key dp key = Inr k" "trim_space k = k" "hd k \<noteq> CHR ''/''" "\<not> sublist ''..'' k"
  shows "scope_key dp k = Inr k"
proof -
  have k: "k \<noteq> []" "under_prefix (trim_c (CHR ''/'') dp) k" using scope_key_under [OF assms(1)] by auto
  moreover have "trim_left_c (CHR ''/'') k = k" using assms(3) k(1) by (cases k) (auto simp: trim_left_c_def)
  ultimately show ?thesis using assms(2,4) by (auto simp: scope_key_def under_prefix_def Let_def)
qed

end
