(* ===== verification/Drive_Snapshots.thy ===== *)
theory Drive_Snapshots
  imports Drive_Objects Json_Value
begin

text \<open>
  Workspace snapshots (\<open>internal/drive/snapshot.go\<close>): capture of a drive with an optional manifest and
  object inventory, the difference of two inventories, restore. JSON texts are related to JSON
  values by the parameters of \<open>json_env\<close>; the values are built and taken apart as the struct tags
  say, with exact keys and exact numbers. A decoded Go map is an association list.
\<close>

section \<open>JSON values\<close>

record json_env =
  je_encode :: "json \<Rightarrow> string + string"
  je_decode :: "string \<Rightarrow> string + json"
  je_time :: "time \<Rightarrow> string"
  je_parse_time :: "string \<Rightarrow> string + time"

definition bad_field :: "string \<Rightarrow> string \<Rightarrow> string \<Rightarrow> json \<Rightarrow> go_error" where
  "bad_field ty k want j =
     Errorf (''json: cannot unmarshal '' @ json_kind j @ '' into Go struct field '' @ ty @ ''.'' @ k @
             '' of type '' @ want)"

definition str_field :: "string \<Rightarrow> (string \<times> json) list \<Rightarrow> string \<Rightarrow> string result" where
  "str_field ty fs k =
     (case map_of fs k of
        None \<Rightarrow> Inr []
      | Some j \<Rightarrow> (case j of JNull \<Rightarrow> Inr [] | JStr s \<Rightarrow> Inr s | _ \<Rightarrow> Inl (bad_field ty k ''string'' j)))"

definition int_field :: "string \<Rightarrow> (string \<times> json) list \<Rightarrow> string \<Rightarrow> int result" where
  "int_field ty fs k =
     (case map_of fs k of
        None \<Rightarrow> Inr 0
      | Some j \<Rightarrow> (case j of JNull \<Rightarrow> Inr 0 | JNum n \<Rightarrow> Inr n | _ \<Rightarrow> Inl (bad_field ty k ''int64'' j)))"

definition bool_field :: "string \<Rightarrow> (string \<times> json) list \<Rightarrow> string \<Rightarrow> bool result" where
  "bool_field ty fs k =
     (case map_of fs k of
        None \<Rightarrow> Inr False
      | Some j \<Rightarrow> (case j of JNull \<Rightarrow> Inr False | JBool b \<Rightarrow> Inr b | _ \<Rightarrow> Inl (bad_field ty k ''bool'' j)))"

definition time_field :: "json_env \<Rightarrow> (string \<times> json) list \<Rightarrow> string \<Rightarrow> time result" where
  "time_field env fs k =
     (case map_of fs k of
        None \<Rightarrow> Inr 0
      | Some j \<Rightarrow>
          (case j of
             JNull \<Rightarrow> Inr 0
           | JStr s \<Rightarrow> (case je_parse_time env s of Inl e \<Rightarrow> Inl (Errorf e) | Inr t \<Rightarrow> Inr t)
           | _ \<Rightarrow> Inl (Errorf ''Time.UnmarshalJSON: input is not a JSON string'')))"

definition omit_empty :: "string \<Rightarrow> string \<Rightarrow> (string \<times> json) list" where
  "omit_empty k s = (if s = [] then [] else [(k, JStr s)])"

definition omit_false :: "string \<Rightarrow> bool \<Rightarrow> (string \<times> json) list" where
  "omit_false k b = (if b then [(k, JBool True)] else [])"

section \<open>Drives and inventory entries as JSON\<close>

definition drive_json :: "json_env \<Rightarrow> drive \<Rightarrow> json" where
  "drive_json env d =
     JObj ([(''id'', JStr (dID d)), (''user_id'', JStr (dUserID d)), (''name'', JStr (dName d))] @
           omit_empty ''alias'' (dAlias d) @
           [(''provider_id'', JStr (dProviderID d)), (''bucket'', JStr (dBucket d))] @
           omit_empty ''prefix'' (dPrefix d) @ [(''mount_point'', JStr (dMountPoint d))] @
           omit_empty ''region'' (dRegion d) @ [(''created_at'', JStr (je_time env (dCreatedAt d)))])"

definition json_drive :: "json_env \<Rightarrow> json \<Rightarrow> drive result" where
  "json_drive env j =
     (case j of
        JNull \<Rightarrow> Inr \<lparr>dID = [], dUserID = [], dName = [], dAlias = [], dProviderID = [], dBucket = [], dPrefix = [],
                     dMountPoint = [], dRegion = [], dCreatedAt = 0\<rparr>
      | JObj fs \<Rightarrow>
          and_then (str_field ''Map'' fs ''alias'') (\<lambda>alias.
          and_then (str_field ''Map'' fs ''bucket'') (\<lambda>bucket.
          and_then (time_field env fs ''created_at'') (\<lambda>created.
          and_then (str_field ''Map'' fs ''id'') (\<lambda>i.
          and_then (str_field ''Map'' fs ''mount_point'') (\<lambda>mp.
          and_then (str_field ''Map'' fs ''name'') (\<lambda>name.
          and_then (str_field ''Map'' fs ''prefix'') (\<lambda>pre.
          and_then (str_field ''Map'' fs ''provider_id'') (\<lambda>prov.
          and_then (str_field ''Map'' fs ''region'') (\<lambda>region.
          and_then (str_field ''Map'' fs ''user_id'') (\<lambda>u.
            Inr \<lparr>dID = i, dUserID = u, dName = name, dAlias = alias, dProviderID = prov, dBucket = bucket,
                 dPrefix = pre, dMountPoint = mp, dRegion = region, dCreatedAt = created\<rparr>))))))))))
      | _ \<Rightarrow> Inl (Errorf (''json: cannot unmarshal '' @ json_kind j @ '' into Go value of type drive.Map'')))"

definition entry_json :: "json_env \<Rightarrow> inventory_entry \<Rightarrow> json" where
  "entry_json env e =
     JObj ([(''key'', JStr (ieKey e)), (''size'', JNum (ieSize e))] @ omit_empty ''etag'' (ieETag e) @
           [(''last_modified'', JStr (je_time env (ieLastModified e)))] @
           omit_empty ''version_id'' (ieVersionID e) @ omit_false ''is_latest'' (ieIsLatest e) @
           omit_false ''delete_marker'' (ieDeleteMarker e))"

definition json_entry :: "json_env \<Rightarrow> json \<Rightarrow> inventory_entry result" where
  "json_entry env j =
     (case j of
        JNull \<Rightarrow> Inr \<lparr>ieKey = [], ieSize = 0, ieETag = [], ieLastModified = 0, ieVersionID = [], ieIsLatest = False,
                     ieDeleteMarker = False\<rparr>
      | JObj fs \<Rightarrow>
          and_then (bool_field ''InventoryEntry'' fs ''delete_marker'') (\<lambda>dm.
          and_then (str_field ''InventoryEntry'' fs ''etag'') (\<lambda>etag.
          and_then (bool_field ''InventoryEntry'' fs ''is_latest'') (\<lambda>latest.
          and_then (str_field ''InventoryEntry'' fs ''key'') (\<lambda>key.
          and_then (time_field env fs ''last_modified'') (\<lambda>lm.
          and_then (int_field ''InventoryEntry'' fs ''size'') (\<lambda>size.
          and_then (str_field ''InventoryEntry'' fs ''version_id'') (\<lambda>ver.
            Inr \<lparr>ieKey = key, ieSize = size, ieETag = etag, ieLastModified = lm, ieVersionID = ver,
                 ieIsLatest = latest, ieDeleteMarker = dm\<rparr>)))))))
      | _ \<Rightarrow> Inl (Errorf (''json: cannot unmarshal '' @ json_kind j @
                     '' into Go value of type s3store.InventoryEntry'')))"

fun json_entries :: "json_env \<Rightarrow> json list \<Rightarrow> inventory_entry list result" where
  "json_entries env [] = Inr []"
| "json_entries env (j # js) =
     and_then (json_entry env j) (\<lambda>e. and_then (json_entries env js) (\<lambda>es. Inr (e # es)))"

section \<open>Creation\<close>

abbreviation DefaultMaxSnapshotsPerDrive :: int where "DefaultMaxSnapshotsPerDrive \<equiv> 50"

record snapshot_input =
  siLabel :: string
  siNote :: string
  siAgentID :: string
  siManifest :: string
  siIncludeObjects :: bool
  siMaxObjects :: int

definition listObjectInventory ::
  "json_env \<Rightarrow> 'c object_env \<Rightarrow> memory \<Rightarrow> string \<Rightarrow> drive \<Rightarrow> int \<Rightarrow> json result" where
  "listObjectInventory env ob m userID d maxKeys =
     and_then (ResolveRecord (oe_providers ob) m userID (dProviderID d))
       (\<lambda>(r, _). and_then (open_s3 ob r)
         (\<lambda>st. let prefx = list_prefix d
               in and_then (case ListInventoryVersions (oe_minio ob) st (dBucket d) prefx maxKeys of
                              Inr x \<Rightarrow> Inr x
                            | Inl _ \<Rightarrow> ListInventory (oe_minio ob) st (dBucket d) prefx maxKeys)
                    (\<lambda>(es, truncated).
                       Inr (JObj [(''bucket'', JStr (dBucket d)), (''count'', JNum (int (length es))),
                                  (''entries'', if es = [] then JNull else JArr (map (entry_json env) es)),
                                  (''has_version_ids'', JBool (list_ex (\<lambda>e. ieVersionID e \<noteq> []) es)),
                                  (''note'', JStr ''Metadata inventory only (key/size/etag/mtime[/version_id]). Not automatic byte restore.''),
                                  (''ok'', JBool True), (''prefix'', JStr prefx),
                                  (''total_bytes'', JNum (total_size es)), (''truncated'', JBool truncated)]))))"

text \<open>The payload map, its keys in the order \<open>json.Marshal\<close> writes them.\<close>

definition snapshot_payload ::
  "json_env \<Rightarrow> time \<Rightarrow> drive \<Rightarrow> json option \<Rightarrow> json result option \<Rightarrow> json" where
  "snapshot_payload env now d man objs =
     JObj ([(''captured_at'', JStr (je_time env now)), (''drive'', drive_json env d),
            (''kind'', JStr (case objs of Some (Inr _) \<Rightarrow> ''ai-cloudhub.snapshot.v0+inventory''
                             | _ \<Rightarrow> ''ai-cloudhub.snapshot.v0''))] @
           (case man of None \<Rightarrow> [] | Some j \<Rightarrow> [(''manifest'', j)]) @
           (case objs of
              None \<Rightarrow> []
            | Some (Inl e) \<Rightarrow> [(''objects'', JObj [(''error'', JStr (error_text e)), (''ok'', JBool False)])]
            | Some (Inr j) \<Rightarrow> [(''objects'', j)]))"

definition decode_manifest :: "json_env \<Rightarrow> string \<Rightarrow> json option result" where
  "decode_manifest env raw =
     (if raw = [] then Inr None
      else (case je_decode env raw of
              Inl e \<Rightarrow> Inl (Errorf (''manifest: '' @ e))
            | Inr j \<Rightarrow> Inr (Some j)))"

definition new_snapshot ::
  "json_env \<Rightarrow> 'c object_env \<Rightarrow> draw \<Rightarrow> memory \<Rightarrow> string \<Rightarrow> string \<Rightarrow> snapshot_input \<Rightarrow> snapshot result" where
  "new_snapshot env ob dr m userID driveID inp =
     and_then (Drive_Get m userID driveID)
       (\<lambda>d. if int (length (ListSnapshots m userID driveID (DefaultMaxSnapshotsPerDrive + 1))) \<ge> DefaultMaxSnapshotsPerDrive
            then Inl (Errorf (''snapshot quota exceeded: max '' @ show_int DefaultMaxSnapshotsPerDrive @ '' per drive''))
            else and_then (decode_manifest env (siManifest inp))
              (\<lambda>man. case je_encode env (snapshot_payload env (dr_now dr) d man
                              (if siIncludeObjects inp
                               then Some (listObjectInventory env ob m userID d (siMaxObjects inp)) else None)) of
                       Inl e \<Rightarrow> Inl (Errorf e)
                     | Inr raw \<Rightarrow>
                         Inr \<lparr>snID = dr_id dr, snUserID = userID, snDriveID = driveID,
                              snAgentID = trim_space (siAgentID inp), snLabel = trim_space (siLabel inp),
                              snNote = trim_space (siNote inp), snPayloadJSON = raw, snCreatedAt = dr_now dr\<rparr>))"

definition Drive_CreateSnapshot ::
  "json_env \<Rightarrow> 'c object_env \<Rightarrow> draw \<Rightarrow> memory \<Rightarrow> string \<Rightarrow> string \<Rightarrow> snapshot_input \<Rightarrow> memory \<times> snapshot result" where
  "Drive_CreateSnapshot env ob dr m userID driveID inp =
     (case new_snapshot env ob dr m userID driveID inp of
        Inl e \<Rightarrow> (m, Inl e)
      | Inr sn \<Rightarrow> (case CreateSnapshot m sn of Inl e \<Rightarrow> (m, Inl e) | Inr m1 \<Rightarrow> (m1, Inr sn)))"

section \<open>Reads and deletion\<close>

definition Drive_ListSnapshots :: "memory \<Rightarrow> string \<Rightarrow> string \<Rightarrow> int \<Rightarrow> snapshot list result" where
  "Drive_ListSnapshots m userID driveID limit =
     and_then (Drive_Get m userID driveID) (\<lambda>_. Inr (ListSnapshots m userID driveID limit))"

definition Drive_GetSnapshot :: "memory \<Rightarrow> string \<Rightarrow> string \<Rightarrow> string \<Rightarrow> snapshot result" where
  "Drive_GetSnapshot m userID driveID i =
     (case GetSnapshot m userID driveID i of
        Inl _ \<Rightarrow> Inl (Errorf ''snapshot not found'')
      | Inr sn \<Rightarrow> Inr sn)"

definition Drive_DeleteSnapshot :: "memory \<Rightarrow> string \<Rightarrow> string \<Rightarrow> string \<Rightarrow> memory \<times> unit result" where
  "Drive_DeleteSnapshot m userID driveID i =
     (case DeleteSnapshot m userID driveID i of
        Inl _ \<Rightarrow> (m, Inl (Errorf ''snapshot not found''))
      | Inr m1 \<Rightarrow> (m1, Inr ()))"

section \<open>Difference of inventories\<close>

definition index_entries :: "inventory_entry list \<Rightarrow> inventory_entry gomap" where
  "index_entries es = foldl (\<lambda>m e. gset (ieKey e) e m) [] es"

definition object_fields :: "json option \<Rightarrow> (string \<times> json) list option" where
  "object_fields j = (case j of Some (JObj fs) \<Rightarrow> Some fs | _ \<Rightarrow> None)"

definition inventoryMap :: "json_env \<Rightarrow> string \<Rightarrow> inventory_entry gomap result" where
  "inventoryMap env raw =
     (case je_decode env raw of
        Inl e \<Rightarrow> Inl (Errorf e)
      | Inr p \<Rightarrow>
          (case (case p of JObj fs \<Rightarrow> Inr fs | JNull \<Rightarrow> Inr [] | _ \<Rightarrow>
                   Inl (Errorf (''json: cannot unmarshal '' @ json_kind p @
                     '' into Go value of type map[string]interface {}''))) of
             Inl e \<Rightarrow> Inl e
           | Inr payload \<Rightarrow>
               (case object_fields (map_of payload ''objects'') of
                  None \<Rightarrow> Inl (Errorf ''no objects inventory'')
                | Some obj \<Rightarrow>
                    if map_of obj ''ok'' \<noteq> Some (JBool True) then Inl (Errorf ''inventory not ok'')
                    else (case map_of obj ''entries'' of
                            None \<Rightarrow> Inr (index_entries [])
                          | Some JNull \<Rightarrow> Inr (index_entries [])
                          | Some (JArr js) \<Rightarrow> and_then (json_entries env js) (\<lambda>es. Inr (index_entries es))
                          | Some j \<Rightarrow> Inl (Errorf (''json: cannot unmarshal '' @ json_kind j @
                                       '' into Go value of type []s3store.InventoryEntry''))))))"

record snapshot_diff =
  sdAdded :: "inventory_entry list"
  sdRemoved :: "inventory_entry list"
  sdChanged :: "(inventory_entry \<times> inventory_entry) list"
  sdCountA :: nat
  sdCountB :: nat

definition differs :: "inventory_entry \<Rightarrow> inventory_entry \<Rightarrow> bool" where
  "differs ea eb \<longleftrightarrow> ieETag ea \<noteq> ieETag eb \<or> ieSize ea \<noteq> ieSize eb"

definition diff_inventories :: "inventory_entry gomap \<Rightarrow> inventory_entry gomap \<Rightarrow> snapshot_diff" where
  "diff_inventories a b =
    \<lparr>sdAdded = map snd (filter (\<lambda>(k, _). gget a k = None) b),
     sdRemoved = map snd (filter (\<lambda>(k, _). gget b k = None) a),
     sdChanged = concat (map (\<lambda>(k, eb). case gget a k of
        Some ea \<Rightarrow> if differs ea eb then [(ea, eb)] else [] | None \<Rightarrow> []) b),
     sdCountA = length a, sdCountB = length b\<rparr>"

text \<open>Without two inventories the answer carries the errors instead of a difference.\<close>

definition DiffSnapshots ::
  "json_env \<Rightarrow> memory \<Rightarrow> string \<Rightarrow> string \<Rightarrow> string \<Rightarrow> string
   \<Rightarrow> (go_error option \<times> go_error option + snapshot_diff) result" where
  "DiffSnapshots env m userID driveID idA idB =
     (case GetSnapshot m userID driveID idA of
        Inl _ \<Rightarrow> Inl (Errorf ''snapshot a not found'')
      | Inr a \<Rightarrow>
          (case GetSnapshot m userID driveID idB of
             Inl _ \<Rightarrow> Inl (Errorf ''snapshot b not found'')
           | Inr b \<Rightarrow>
               (case (inventoryMap env (snPayloadJSON a), inventoryMap env (snPayloadJSON b)) of
                  (Inr ma, Inr mb) \<Rightarrow> Inr (Inr (diff_inventories ma mb))
                | (ra, rb) \<Rightarrow> Inr (Inl (case ra of Inl e \<Rightarrow> Some e | Inr _ \<Rightarrow> None,
                                        case rb of Inl e \<Rightarrow> Some e | Inr _ \<Rightarrow> None)))))"

section \<open>Restore\<close>

definition restored_drive :: "memory \<Rightarrow> string \<Rightarrow> drive \<Rightarrow> drive \<Rightarrow> drive result" where
  "restored_drive m userID snap cur =
     (let c1 = (if trim_space (dName snap) \<noteq> [] then cur\<lparr>dName := dName snap\<rparr> else cur)
      in and_then (if trim_space (dAlias snap) \<noteq> []
                   then (case NormalizeAlias (dAlias snap) of
                           Inl e \<Rightarrow> Inl (Errorf (''snapshot alias: '' @ error_text e))
                         | Inr alias \<Rightarrow>
                             and_then (if alias \<noteq> [] \<and> alias \<noteq> dAlias c1 then alias_free m userID alias else Inr ())
                               (\<lambda>_. Inr (c1\<lparr>dAlias := alias\<rparr>)))
                   else Inr c1)
           (\<lambda>c2. let c3 = c2\<lparr>dPrefix := dPrefix snap\<rparr>
                 in and_then (if trim_space (dMountPoint snap) \<noteq> []
                              then (case validateMountPoint (dMountPoint snap) of
                                      Inl e \<Rightarrow> Inl (Errorf (''snapshot mount_point: '' @ error_text e))
                                    | Inr _ \<Rightarrow> Inr (c3\<lparr>dMountPoint := dMountPoint snap\<rparr>))
                              else Inr c3)
                      (\<lambda>c4. Inr (c4\<lparr>dRegion := dRegion snap\<rparr>))))"

record restore_result =
  rrSnapshot :: snapshot
  rrPayload :: "(string \<times> json) list"
  rrApplied :: "drive option"

definition RestoreSnapshot ::
  "json_env \<Rightarrow> memory \<Rightarrow> string \<Rightarrow> string \<Rightarrow> string \<Rightarrow> bool \<Rightarrow> memory \<times> restore_result result" where
  "RestoreSnapshot env m userID driveID i apply =
     (case GetSnapshot m userID driveID i of
        Inl _ \<Rightarrow> (m, Inl (Errorf ''snapshot not found''))
      | Inr sn \<Rightarrow>
          (case (case je_decode env (snPayloadJSON sn) of
                   Inr (JObj fs) \<Rightarrow> Some fs | Inr JNull \<Rightarrow> Some [] | _ \<Rightarrow> None) of
             None \<Rightarrow> (m, Inl (Errorf ''corrupt snapshot payload''))
           | Some payload \<Rightarrow>
               if \<not> apply then (m, Inr \<lparr>rrSnapshot = sn, rrPayload = payload, rrApplied = None\<rparr>)
               else (case map_of payload ''drive'' of
                       None \<Rightarrow> (m, Inl (Errorf ''snapshot has no drive payload''))
                     | Some j \<Rightarrow>
                         (case json_drive env j of
                            Inl e \<Rightarrow> (m, Inl (Errorf (''invalid drive in snapshot: '' @ error_text e)))
                          | Inr snap \<Rightarrow>
                              (case and_then (Drive_Get m userID driveID) (restored_drive m userID snap) of
                                 Inl e \<Rightarrow> (m, Inl e)
                               | Inr cur \<Rightarrow>
                                   (case UpdateDrive m cur of
                                      Inl e \<Rightarrow> (m, Inl e)
                                    | Inr m1 \<Rightarrow>
                                        (m1, Inr \<lparr>rrSnapshot = sn, rrPayload = payload, rrApplied = Some cur\<rparr>)))))))"

end
