(* ===== verification/Drive_Facts.thy ===== *)
theory Drive_Facts
  imports Drive_Snapshots
begin

text \<open>
  What the drive service keeps of its drives: a name, a provider and a bucket, a valid mount point,
  an alias in canonical form that no other drive of the user has. Every call that changes drives is
  a step of \<open>drive_step\<close>; a step of the rest of the control plane leaves the drive table alone.
\<close>

section \<open>Normal forms\<close>

lemma to_upper_c_alpha: "is_alpha c \<Longrightarrow> is_alpha (to_upper_c c)"
  by (auto simp: is_alpha_def to_upper_c_def less_eq_char_def)

lemma to_upper_c_alias: "alias_char c \<Longrightarrow> alias_char (to_upper_c c)"
  using to_upper_c_alpha [of c] by (auto simp: alias_char_def to_upper_c_def is_alpha_def less_eq_char_def)

lemma to_upper_c_idem [simp]: "to_upper_c (to_upper_c c) = to_upper_c c"
  by (auto simp: to_upper_c_def less_eq_char_def)

lemma to_upper_idem [simp]: "to_upper (to_upper s) = to_upper s"
  by (simp add: to_upper_def)

definition canonical_alias :: "string \<Rightarrow> bool" where
  "canonical_alias a \<longleftrightarrow> a = [] \<or> (aliasPattern a \<and> to_upper a = a)"

lemma aliasPattern_upper: "aliasPattern s \<Longrightarrow> aliasPattern (to_upper s)"
  by (cases s) (auto simp: aliasPattern_def to_upper_def list_all_iff to_upper_c_alpha to_upper_c_alias)

lemma NormalizeAlias_canonical: "NormalizeAlias raw = Inr a \<Longrightarrow> canonical_alias a"
  by (auto simp: NormalizeAlias_def canonical_alias_def Let_def aliasPattern_upper split: if_splits)

lemma alias_chars_not_space:
  "\<forall>w \<in> set go_spaces. \<forall>c \<in> set w. \<not> alias_char c"
  by code_simp

lemma alias_trim: "aliasPattern a \<Longrightarrow> trim_space a = a"
proof (rule trim_space_id)
  fix w assume a: "aliasPattern a" and w: "w \<in> set go_spaces" "w \<noteq> []"
  have "set a \<subseteq> Collect alias_char"
    using a by (cases a) (auto simp: aliasPattern_def alias_char_def list_all_iff)
  moreover obtain c where "c \<in> set w" using w(2) by (cases w) auto
  ultimately have "\<not> set w \<subseteq> set a" using alias_chars_not_space w(1) by auto
  then show "\<not> prefix w a" "\<not> suffix w a" by (auto dest: set_mono_prefix set_mono_suffix)
qed

text \<open>A canonical alias is its own normal form.\<close>

lemma NormalizeAlias_id: "canonical_alias a \<Longrightarrow> NormalizeAlias a = Inr a"
  by (auto simp: canonical_alias_def NormalizeAlias_def Let_def alias_trim)

lemma default_mount_valid: "validateMountPoint (defaultMountPoint g) = Inr ()"
  by (cases "g = ''windows''") (simp_all add: defaultMountPoint_def validateMountPoint_def is_alpha_def less_eq_char_def)

text \<open>A text that trims to nothing consists of white space, so a valid mount point does not.\<close>

lemma trim_pre_split: "\<exists>vs. set vs \<subseteq> set ws \<and> s = concat vs @ trim_pre ws s"
proof (induction ws s rule: trim_pre.induct)
  case (1 ws s)
  show ?case
  proof (cases "find (\<lambda>w. w \<noteq> [] \<and> prefix w s) ws")
    case None
    then show ?thesis by (intro exI [of _ "[]"]) (simp add: trim_pre.simps [of ws s])
  next
    case (Some w)
    then have w: "w \<in> set ws" "prefix w s" by (auto dest: find_SomeD)
    from "1.IH" [OF Some] obtain vs where
      vs: "set vs \<subseteq> set ws" "drop (length w) s = concat vs @ trim_pre ws (drop (length w) s)" by blast
    have "s = w @ drop (length w) s" using w(2) by (auto simp: prefix_def)
    with vs(2) have "s = concat (w # vs) @ trim_pre ws (drop (length w) s)" by simp
    moreover have "trim_pre ws s = trim_pre ws (drop (length w) s)" using Some by (simp add: trim_pre.simps [of ws s])
    ultimately show ?thesis using vs(1) w(1) by (intro exI [of _ "w # vs"]) auto
  qed
qed

lemma trim_space_blank:
  assumes "trim_space s = []" "c \<in> set s"
  shows "\<exists>w \<in> set go_spaces. c \<in> set w"
proof -
  obtain vs where vs: "set vs \<subseteq> set go_spaces" "s = concat vs @ trim_pre go_spaces s"
    using trim_pre_split by blast
  obtain us where us: "set us \<subseteq> set (map rev go_spaces)" "rev (trim_pre go_spaces s) = concat us"
    using trim_pre_split [of "map rev go_spaces" "rev (trim_pre go_spaces s)"] assms(1) by (auto simp: trim_space_def)
  have "c \<in> set (concat vs) \<union> set (rev (trim_pre go_spaces s))" using assms(2) vs(2) by (metis set_append set_rev)
  with vs(1) us show ?thesis by (auto 0 4)
qed

lemma marks_not_space: "\<forall>w \<in> set go_spaces. CHR '':'' \<notin> set w \<and> CHR ''/'' \<notin> set w"
  by code_simp

lemma valid_mount_not_blank: "validateMountPoint mp = Inr () \<Longrightarrow> trim_space mp \<noteq> []"
proof
  assume v: "validateMountPoint mp = Inr ()" and t: "trim_space mp = []"
  have "(2 \<le> length mp \<and> mp ! 1 = CHR '':'') \<or> prefix ''/'' mp \<or> prefix ''~/'' mp"
    using v by (auto simp: validateMountPoint_def split: if_splits)
  then have "CHR '':'' \<in> set mp \<or> CHR ''/'' \<in> set mp"
  proof
    assume c: "2 \<le> length mp \<and> mp ! 1 = CHR '':''"
    then have "mp ! 1 \<in> set mp" by (intro nth_mem) simp
    with c show ?thesis by simp
  qed (auto simp: prefix_def)
  then show False using trim_space_blank [OF t] marks_not_space by blast
qed

section \<open>The invariant\<close>

definition drive_ok :: "drive \<Rightarrow> bool" where
  "drive_ok d \<longleftrightarrow>
     trim_space (dName d) \<noteq> [] \<and> dProviderID d \<noteq> [] \<and> dBucket d \<noteq> [] \<and>
     canonical_alias (dAlias d) \<and> validateMountPoint (dMountPoint d) = Inr ()"

definition drive_rows :: "memory \<Rightarrow> drive set" where
  "drive_rows m = set (gvals (m_drives m))"

definition aliases_unique :: "drive set \<Rightarrow> bool" where
  "aliases_unique D \<longleftrightarrow>
     (\<forall>d \<in> D. \<forall>e \<in> D. dUserID d = dUserID e \<and> dAlias d = dAlias e \<and> dAlias d \<noteq> [] \<longrightarrow> d = e)"

definition drives_inv :: "memory \<Rightarrow> bool" where
  "drives_inv m \<longleftrightarrow>
     keyed dID (m_drives m) \<and> (\<forall>d \<in> drive_rows m. drive_ok d) \<and> aliases_unique (drive_rows m)"

lemma drive_rows_put:
  assumes "keyed dID (m_drives m)"
  shows "drive_rows (m\<lparr>m_drives := gset (dID d) d (m_drives m)\<rparr>) = insert d {e \<in> drive_rows m. dID e \<noteq> dID d}"
proof -
  have k: "keyed dID (gset (dID d) d (m_drives m))" using assms by (rule keyed_gset) simp
  have "e \<in> snd ` set (gset (dID d) d (m_drives m)) \<longleftrightarrow> e = d \<or> e \<in> snd ` set (m_drives m) \<and> dID e \<noteq> dID d" for e
    using keyed_in [OF k, of e] keyed_in [OF assms, of e] by auto
  then show ?thesis by (auto simp: drive_rows_def)
qed

lemma drives_inv_put:
  assumes "drives_inv m" "drive_ok d"
    and "dAlias d = [] \<or> (\<forall>e \<in> drive_rows m. dID e \<noteq> dID d \<and> dUserID e = dUserID d \<longrightarrow> dAlias e \<noteq> dAlias d)"
  shows "drives_inv (m\<lparr>m_drives := gset (dID d) d (m_drives m)\<rparr>)"
proof -
  have k: "keyed dID (m_drives m)" "\<forall>d \<in> drive_rows m. drive_ok d" "aliases_unique (drive_rows m)"
    using assms(1) by (simp_all add: drives_inv_def)
  have "aliases_unique (insert d {e \<in> drive_rows m. dID e \<noteq> dID d})"
    using k(3) assms(3) unfolding aliases_unique_def by auto
  with k assms(2) keyed_gset [OF k(1), of d "dID d"] show ?thesis
    unfolding drives_inv_def drive_rows_put [OF k(1)] by simp
qed

lemma alias_free_Inr:
  "alias_free m u a = Inr x \<Longrightarrow> a \<noteq> [] \<Longrightarrow> e \<in> drive_rows m \<Longrightarrow> dUserID e = u \<Longrightarrow> dAlias e \<noteq> a"
  by (auto simp: alias_free_def GetDriveByAlias_def find_None_iff drive_rows_def
      split: option.splits sum.splits if_splits)

lemma drives_inv_del:
  assumes "drives_inv m"
  shows "drives_inv (m\<lparr>m_drives := gdel i (m_drives m)\<rparr>)"
proof -
  have "drive_rows (m\<lparr>m_drives := gdel i (m_drives m)\<rparr>) \<subseteq> drive_rows m"
    using set_gdel [of i "m_drives m"] by (auto simp: drive_rows_def)
  with assms show ?thesis by (auto simp: drives_inv_def aliases_unique_def)
qed

lemma drives_inv_row:
  assumes "drives_inv m" "GetDrive m u i = Inr d"
  shows "d \<in> drive_rows m" "drive_ok d" "dID d = i" "dUserID d = u"
proof -
  have g: "gget (m_drives m) i = Some d" "dUserID d = u" using assms(2) by (simp_all add: drives.get_iff)
  show "d \<in> drive_rows m" using map_of_SomeD [OF g(1)] by (force simp: drive_rows_def)
  then show "drive_ok d" using assms(1) by (simp add: drives_inv_def)
  show "dID d = i" using keyed_gget [OF _ g(1)] assms(1) by (simp add: drives_inv_def)
  show "dUserID d = u" by (rule g)
qed

text \<open>Replacing a row by one with the same identity, whose alias is empty, kept or free.\<close>

lemma drives_inv_update:
  assumes "drives_inv m" "GetDrive m u i = Inr cur" "drive_ok d" "dID d = i" "dUserID d = u"
    and "dAlias d = [] \<or> dAlias d = dAlias cur \<or> alias_free m u (dAlias d) = Inr x"
  shows "drives_inv (m\<lparr>m_drives := gset i d (m_drives m)\<rparr>)"
proof -
  note c = drives_inv_row [OF assms(1,2)]
  have "dAlias e \<noteq> dAlias d"
    if "dAlias d \<noteq> []" "e \<in> drive_rows m" "dID e \<noteq> dID d" "dUserID e = dUserID d" for e
  proof (cases "alias_free m u (dAlias d) = Inr x")
    case True
    from alias_free_Inr [OF this that(1,2)] that(4) assms(5) show ?thesis by simp
  next
    case False
    then have "dAlias d = dAlias cur" using assms(6) that(1) by simp
    then show ?thesis using assms(1,4,5) c that unfolding drives_inv_def aliases_unique_def by metis
  qed
  then have "drives_inv (m\<lparr>m_drives := gset (dID d) d (m_drives m)\<rparr>)"
    using assms(1,3) by (intro drives_inv_put) auto
  then show ?thesis using assms(4) by simp
qed

section \<open>The operations keep it\<close>

lemma new_drive_Inr:
  assumes "new_drive sv dr m u inp = Inr d"
  shows "drive_ok d \<and> dID d = dr_id dr \<and> dUserID d = u \<and> (dAlias d = [] \<or> alias_free m u (dAlias d) = Inr ())"
proof -
  define mp where "mp = (if trim_space (diMountPoint inp) = [] then defaultMountPoint (ds_goos sv) else trim_space (diMountPoint inp))"
  from assms obtain al where
    v: "trim_space (diName inp) \<noteq> []" "trim_space (diBucket inp) \<noteq> []" "trim_space (diProviderID inp) \<noteq> []"
    "validateMountPoint mp = Inr ()" "NormalizeAlias (diAlias inp) = Inr al"
    "al = [] \<or> alias_free m u al = Inr ()"
    and d: "dID d = dr_id dr" "dUserID d = u" "dName d = trim_space (diName inp)" "dAlias d = al"
      "dProviderID d = trim_space (diProviderID inp)" "dBucket d = trim_space (diBucket inp)" "dMountPoint d = mp"
    by (auto simp: new_drive_def and_then_Inr Let_def mp_def split: if_splits sum.splits)
  show ?thesis using v d NormalizeAlias_canonical [OF v(5)] by (auto simp: drive_ok_def)
qed

text \<open>What an update may change of a drive.\<close>

definition revised :: "memory \<Rightarrow> string \<Rightarrow> drive \<Rightarrow> drive \<Rightarrow> bool" where
  "revised m u cur d \<longleftrightarrow>
     drive_ok d \<and> dID d = dID cur \<and> dUserID d = dUserID cur \<and> dProviderID d = dProviderID cur \<and>
     dBucket d = dBucket cur \<and> dCreatedAt d = dCreatedAt cur \<and>
     (dAlias d = [] \<or> dAlias d = dAlias cur \<or> alias_free m u (dAlias d) = Inr ())"

lemma revised_step:
  assumes "revised m u cur d"
  shows "trim_space n \<noteq> [] \<Longrightarrow> revised m u cur (d\<lparr>dName := n\<rparr>)"
    and "canonical_alias al \<Longrightarrow> al = [] \<or> al = dAlias cur \<or> alias_free m u al = Inr () \<Longrightarrow>
      revised m u cur (d\<lparr>dAlias := al\<rparr>)"
    and "revised m u cur (d\<lparr>dPrefix := p\<rparr>)"
    and "validateMountPoint mp = Inr () \<Longrightarrow> revised m u cur (d\<lparr>dMountPoint := mp\<rparr>)"
    and "revised m u cur (d\<lparr>dRegion := r\<rparr>)"
  using assms by (auto simp: revised_def drive_ok_def)

lemma revised_refl: "drive_ok cur \<Longrightarrow> revised m u cur cur"
  by (simp add: revised_def)

lemma unit_result: "(r :: unit result) = Inr x \<longleftrightarrow> r = Inr ()"
  by simp

lemma set_alias_Inr:
  assumes "set_alias m u raw c = Inr d" "revised m u cur c" "dAlias c = dAlias cur"
  shows "revised m u cur d"
proof -
  obtain al where al: "NormalizeAlias raw = Inr al" "d = c\<lparr>dAlias := al\<rparr>"
    "al = [] \<or> al = dAlias c \<or> alias_free m u al = Inr ()"
    using assms(1) by (auto simp: set_alias_def and_then_Inr split: if_splits)
  with assms(2,3) NormalizeAlias_canonical [OF al(1)] show ?thesis by (auto intro: revised_step(2))
qed

lemma patched_drive_Inr:
  assumes "patched_drive m u inp cur = Inr d" "drive_ok cur"
  shows "revised m u cur d"
proof -
  define c1 where "c1 = (if trim_space (duName inp) \<noteq> [] then cur\<lparr>dName := trim_space (duName inp)\<rparr> else cur)"
  obtain c2 where c2: "(if duSetAlias inp then set_alias m u (duAlias inp) c1 else Inr c1) = Inr c2"
    and r2: "(let c3 = (case duPrefix inp of None \<Rightarrow> c2 | Some p \<Rightarrow> c2\<lparr>dPrefix := trim_c (CHR ''/'') (trim_space p)\<rparr>);
                  mp = trim_space (duMountPoint inp)
              in and_then (if mp \<noteq> [] then and_then (validateMountPoint mp) (\<lambda>_. Inr (c3\<lparr>dMountPoint := mp\<rparr>)) else Inr c3)
                   (\<lambda>c4. Inr (case duRegion inp of None \<Rightarrow> c4 | Some r \<Rightarrow> c4\<lparr>dRegion := trim_space r\<rparr>))) = Inr d"
    using assms(1) unfolding patched_drive_def Let_def c1_def and_then_Inr by blast
  have "revised m u cur c1" using revised_refl [OF assms(2)] by (auto simp: c1_def intro: revised_step(1))
  moreover have "dAlias c1 = dAlias cur" by (simp add: c1_def)
  ultimately have "revised m u cur c2" using c2 set_alias_Inr by (auto split: if_splits)
  then have "revised m u cur (case duPrefix inp of None \<Rightarrow> c2 | Some p \<Rightarrow> c2\<lparr>dPrefix := trim_c (CHR ''/'') (trim_space p)\<rparr>)"
    by (auto intro: revised_step(3) split: option.splits)
  with r2 show ?thesis
    by (auto simp: Let_def and_then_Inr intro: revised_step(4,5) split: if_splits option.splits)
qed

lemma restored_drive_Inr:
  assumes "restored_drive m u snap cur = Inr d" "drive_ok cur"
  shows "revised m u cur d"
proof -
  define c1 where "c1 = (if trim_space (dName snap) \<noteq> [] then cur\<lparr>dName := dName snap\<rparr> else cur)"
  have r1: "revised m u cur c1" "dAlias c1 = dAlias cur"
    using revised_refl [OF assms(2)] by (auto simp: c1_def intro: revised_step(1))
  obtain c2 where c2: "(if trim_space (dAlias snap) \<noteq> []
         then (case NormalizeAlias (dAlias snap) of
                 Inl e \<Rightarrow> Inl (Errorf (''snapshot alias: '' @ error_text e))
               | Inr al \<Rightarrow> and_then (if al \<noteq> [] \<and> al \<noteq> dAlias c1 then alias_free m u al else Inr ())
                   (\<lambda>_. Inr (c1\<lparr>dAlias := al\<rparr>)))
         else Inr c1) = Inr c2"
    and rest: "and_then (if trim_space (dMountPoint snap) \<noteq> []
         then (case validateMountPoint (dMountPoint snap) of
                 Inl e \<Rightarrow> Inl (Errorf (''snapshot mount_point: '' @ error_text e))
               | Inr _ \<Rightarrow> Inr (c2\<lparr>dPrefix := dPrefix snap, dMountPoint := dMountPoint snap\<rparr>))
         else Inr (c2\<lparr>dPrefix := dPrefix snap\<rparr>)) (\<lambda>c4. Inr (c4\<lparr>dRegion := dRegion snap\<rparr>)) = Inr d"
    using assms(1) unfolding restored_drive_def Let_def c1_def and_then_Inr by blast
  have "revised m u cur c2"
  proof (cases "trim_space (dAlias snap) \<noteq> []")
    case True
    with c2 obtain al where "NormalizeAlias (dAlias snap) = Inr al" "c2 = c1\<lparr>dAlias := al\<rparr>"
      "al = [] \<or> al = dAlias c1 \<or> alias_free m u al = Inr ()"
      by (auto simp: and_then_Inr split: sum.splits if_splits)
    then show ?thesis using r1 NormalizeAlias_canonical by (auto intro: revised_step(2))
  next
    case False
    then show ?thesis using c2 r1 by simp
  qed
  then have "revised m u cur (c2\<lparr>dPrefix := dPrefix snap\<rparr>)" by (rule revised_step(3))
  with rest show ?thesis
    by (auto simp: and_then_Inr intro!: revised_step(4,5) split: if_splits sum.splits)
qed

lemma updated_same:
  "GetDrive m u i = Inr cur \<Longrightarrow> dID d = i \<Longrightarrow> dProviderID d = dProviderID cur \<Longrightarrow> dBucket d = dBucket cur \<Longrightarrow>
   dCreatedAt d = dCreatedAt cur \<Longrightarrow> updated_drive m d = d"
  by (simp add: updated_drive_def drives.get_iff)

lemma UpdateDrive_inv:
  assumes "drives_inv m" "GetDrive m u i = Inr cur" "UpdateDrive m d = Inr m'"
    and "revised m u cur d"
  shows "drives_inv m' \<and> GetDrive m' u i = Inr d"
proof -
  have c: "dID cur = i" "dUserID cur = u" using drives_inv_row [OF assms(1,2)] by simp_all
  note r = assms(4) [unfolded revised_def]
  have "m' = m\<lparr>m_drives := gset i d (m_drives m)\<rparr>"
    using assms(3) r c updated_same [OF assms(2)]
    by (auto simp: UpdateDrive_def split: option.splits if_splits)
  moreover have "drives_inv (m\<lparr>m_drives := gset i d (m_drives m)\<rparr>)"
    using r c by (intro drives_inv_update [OF assms(1,2)]) auto
  ultimately show ?thesis using r c by (simp add: drives.get_iff)
qed

section \<open>Steps\<close>

inductive drive_step :: "drive_service \<Rightarrow> json_env \<Rightarrow> memory \<Rightarrow> memory \<Rightarrow> bool" for sv env where
  step_create: "gget (m_drives m) (dr_id dr) = None \<Longrightarrow> drive_step sv env m (fst (Drive_Create sv dr m u inp))"
| step_update: "drive_step sv env m (fst (Drive_Update m u i inp'))"
| step_delete: "drive_step sv env m (fst (Drive_Delete m u i))"
| step_restore: "drive_step sv env m (fst (RestoreSnapshot env m u i s apply))"
| step_other: "m_drives m' = m_drives m \<Longrightarrow> drive_step sv env m m'"

inductive drive_steps :: "drive_service \<Rightarrow> json_env \<Rightarrow> memory \<Rightarrow> memory \<Rightarrow> bool" for sv env where
  steps_none: "drive_steps sv env m m"
| steps_more: "drive_steps sv env m m1 \<Longrightarrow> drive_step sv env m1 m2 \<Longrightarrow> drive_steps sv env m m2"

lemma Drive_Create_inv:
  assumes "drives_inv m" "gget (m_drives m) (dr_id dr) = None"
  shows "drives_inv (fst (Drive_Create sv dr m u inp))"
proof (cases "new_drive sv dr m u inp")
  case (Inl e)
  then show ?thesis using assms by (simp add: Drive_Create_def)
next
  case (Inr d)
  note n = new_drive_Inr [OF Inr]
  then have "dAlias d = [] \<or> (\<forall>e \<in> drive_rows m.
      dID e \<noteq> dID d \<and> dUserID e = dUserID d \<longrightarrow> dAlias e \<noteq> dAlias d)"
    using alias_free_Inr [of m u "dAlias d"] by auto
  with drives_inv_put [OF assms(1), of d] n have "drives_inv (m\<lparr>m_drives := gset (dID d) d (m_drives m)\<rparr>)" by blast
  with Inr show ?thesis by (simp add: Drive_Create_def CreateDrive_def)
qed

lemma Drive_Update_inv:
  assumes "drives_inv m"
  shows "drives_inv (fst (Drive_Update m u i inp))"
proof (cases "and_then (Drive_Get m u i) (patched_drive m u inp)")
  case (Inl e)
  then show ?thesis using assms by (simp add: Drive_Update_def)
next
  case (Inr d)
  then obtain cur where c: "GetDrive m u i = Inr cur" "patched_drive m u inp cur = Inr d"
    by (auto simp: and_then_Inr Drive_Get_def split: sum.splits)
  show ?thesis
  proof (cases "UpdateDrive m d")
    case (Inl e)
    then show ?thesis using assms Inr by (simp add: Drive_Update_def)
  next
    case ok: (Inr m')
    have "drive_ok cur" using drives_inv_row [OF assms c(1)] by simp
    from UpdateDrive_inv [OF assms c(1) ok patched_drive_Inr [OF c(2) this]]
    show ?thesis using Inr ok by (simp add: Drive_Update_def)
  qed
qed

lemma Drive_Delete_inv: "drives_inv m \<Longrightarrow> drives_inv (fst (Drive_Delete m u i))"
  by (auto simp: Drive_Delete_def DeleteDrive_def drives_inv_del split: sum.splits option.splits if_splits)

lemma RestoreSnapshot_cases:
  obtains (same) "fst (RestoreSnapshot env m u did i apply) = m"
  | (applied) snap cur d m' where "GetDrive m u did = Inr cur" "restored_drive m u snap cur = Inr d"
      "UpdateDrive m d = Inr m'" "fst (RestoreSnapshot env m u did i apply) = m'"
  by (cases "fst (RestoreSnapshot env m u did i apply) = m")
    (auto simp: RestoreSnapshot_def and_then_Inr Drive_Get_def split: sum.splits option.splits if_splits json.splits)

lemma RestoreSnapshot_inv:
  assumes "drives_inv m"
  shows "drives_inv (fst (RestoreSnapshot env m u did i apply))"
proof (cases rule: RestoreSnapshot_cases [of env m u did i "apply"])
  case same
  then show ?thesis using assms by simp
next
  case (applied snap cur d m')
  have "drive_ok cur" using drives_inv_row [OF assms applied(1)] by simp
  from UpdateDrive_inv [OF assms applied(1,3) restored_drive_Inr [OF applied(2) this]]
  show ?thesis using applied(4) by simp
qed

lemma drive_step_inv: "drive_step sv env m m' \<Longrightarrow> drives_inv m \<Longrightarrow> drives_inv m'"
proof (induction rule: drive_step.induct)
  case (step_other m' m)
  then show ?case by (simp add: drives_inv_def drive_rows_def)
qed (simp_all add: Drive_Create_inv Drive_Update_inv Drive_Delete_inv RestoreSnapshot_inv)

lemma drive_steps_inv: "drive_steps sv env m m' \<Longrightarrow> drives_inv m \<Longrightarrow> drives_inv m'"
  by (induction rule: drive_steps.induct) (auto intro: drive_step_inv)

lemma drives_inv_empty: "m_drives m = [] \<Longrightarrow> drives_inv m"
  by (simp add: drives_inv_def drive_rows_def aliases_unique_def)

section \<open>Aliases\<close>

lemma alias_lookup:
  assumes "drives_inv m" "a \<noteq> []"
  shows "GetDriveByAlias m u a = Inr d \<longleftrightarrow> GetDrive m u (dID d) = Inr d \<and> dAlias d = a"
proof
  assume "GetDriveByAlias m u a = Inr d"
  then have d: "dUserID d = u" "dAlias d = a" "d \<in> set (ListDrives m u)" using GetDriveByAlias_owner by blast+
  have "keyed dID (m_drives m)" using assms(1) by (simp add: drives_inv_def)
  with d show "GetDrive m u (dID d) = Inr d \<and> dAlias d = a" using drives.listing_get by blast
next
  assume d: "GetDrive m u (dID d) = Inr d \<and> dAlias d = a"
  then have r: "d \<in> drive_rows m" "dUserID d = u" using drives_inv_row [OF assms(1)] by blast+
  then obtain e where e: "find (\<lambda>d. dUserID d = u \<and> dAlias d = a) (gvals (m_drives m)) = Some e"
    using d by (cases "find (\<lambda>d. dUserID d = u \<and> dAlias d = a) (gvals (m_drives m))")
      (auto simp: find_None_iff drive_rows_def)
  then have "e \<in> drive_rows m" "dUserID e = u" "dAlias e = a" by (auto simp: drive_rows_def dest: find_SomeD)
  then have "e = d" using r d assms unfolding drives_inv_def aliases_unique_def by metis
  with e assms(2) show "GetDriveByAlias m u a = Inr d" by (simp add: GetDriveByAlias_def)
qed

end
