(* ===== verification/Device_Service.thy ===== *)
theory Device_Service
  imports Store_Resources
begin

text \<open>
  Registration of runtime devices (\<open>internal/device/service.go\<close>) over the device table of the store.
  The API type has the fields of the stored row.
\<close>

record device_input =
  dvID :: string
  dvName :: string

definition device_row :: "draw \<Rightarrow> memory \<Rightarrow> string \<Rightarrow> device_input \<Rightarrow> device" where
  "device_row dr m userID inp =
     (let id0 = trim_space (dvID inp);
          i = (if id0 = [] then dr_id dr else id0);
          name0 = trim_space (dvName inp);
          name = (if name0 = [] then i else name0)
      in \<lparr>vID = i, vUserID = userID,
          vName = (case GetDevice m userID i of
                     Inr existing \<Rightarrow> if trim_space (dvName inp) = [] then vName existing else name
                   | Inl _ \<Rightarrow> name),
          vLastSeen = dr_now dr\<rparr>)"

definition Device_Register :: "draw \<Rightarrow> memory \<Rightarrow> string \<Rightarrow> device_input \<Rightarrow> memory \<times> device result" where
  "Device_Register dr m userID inp =
     (let d = device_row dr m userID inp
      in (case UpsertDevice m d of Inl e \<Rightarrow> (m, Inl e) | Inr m1 \<Rightarrow> (m1, Inr d)))"

definition Device_Get :: "memory \<Rightarrow> string \<Rightarrow> string \<Rightarrow> device result" where
  "Device_Get m userID i =
     (case GetDevice m userID i of Inl _ \<Rightarrow> Inl (Errorf ''device not found'') | Inr d \<Rightarrow> Inr d)"

definition Device_List :: "memory \<Rightarrow> string \<Rightarrow> device list" where
  "Device_List m userID = ListDevices m userID"

definition Touch :: "time \<Rightarrow> memory \<Rightarrow> string \<Rightarrow> string \<Rightarrow> memory \<times> unit result" where
  "Touch now m userID i =
     (case GetDevice m userID i of
        Inl e \<Rightarrow> (m, Inl e)
      | Inr d \<Rightarrow> (case UpsertDevice m (d\<lparr>vLastSeen := now\<rparr>) of Inl e \<Rightarrow> (m, Inl e) | Inr m1 \<Rightarrow> (m1, Inr ())))"

section \<open>Facts\<close>

text \<open>Registering with an id in use by the same user keeps its name unless a new one is given.\<close>

lemma register_keeps_name:
  assumes "store_wf m" "GetDevice m u i = Inr d" "trim_space i = i" "i \<noteq> []"
  shows "device_row dr m u \<lparr>dvID = i, dvName = []\<rparr> = d\<lparr>vLastSeen := dr_now dr\<rparr>"
proof -
  have d: "gget (m_devices m) i = Some d" "vUserID d = u" using assms(2) by (simp_all add: devices.get_iff)
  have "vID d = i" using keyed_gget [OF store_wfD(5) [OF assms(1)] d(1)] .
  with d assms show ?thesis unfolding device_row_def Let_def by (cases d) simp
qed

text \<open>A device id belongs to one user: registering it for another one changes nothing.\<close>

lemma register_conflict:
  assumes "GetDevice m v i = Inr d" "v \<noteq> u" "trim_space (dvID inp) = i" "i \<noteq> []"
  shows "Device_Register dr m u inp = (m, Inl (Errorf ''device id conflict''))"
  using assms by (auto simp: Device_Register_def device_row_def UpsertDevice_def devices.get_iff Let_def
      split: option.splits)

lemma registered_gets:
  assumes "Device_Register dr m u inp = (m', Inr d)"
  shows "Device_Get m' u (vID d) = Inr d \<and> vLastSeen d = dr_now dr"
proof -
  have d: "d = device_row dr m u inp" "UpsertDevice m d = Inr m'"
    using assms by (auto simp: Device_Register_def Let_def split: sum.splits)
  then have "vUserID d = u" "vLastSeen d = dr_now dr" by (simp_all add: device_row_def Let_def)
  with devices_c.get_create [OF d(2)] show ?thesis by (simp add: Device_Get_def)
qed

end
