(* ===== verification/Drive_Properties.thy ===== *)
theory Drive_Properties
  imports Drive_Facts Device_Service Provider_Properties
begin

text \<open>
  Properties of drives: they stay well formed with unambiguous aliases, a snapshot restores what it
  captured, the difference of two inventories is exact, and an object key never leaves the prefix of
  its drive.
\<close>

section \<open>JSON round trips\<close>

text \<open>The documented contract of the encoder: a value of valid UTF-8 strings decodes to itself, and an
  instant since the zero time survives its text.\<close>

definition json_ok :: "json_env \<Rightarrow> bool" where
  "json_ok env \<longleftrightarrow>
     (\<forall>j s. je_encode env j = Inr s \<longrightarrow> je_decode env s = Inr j) \<and>
     (\<forall>t \<ge> 0. je_parse_time env (je_time env t) = Inr t)"

lemma json_drive_roundtrip:
  assumes "je_parse_time env (je_time env (dCreatedAt d)) = Inr (dCreatedAt d)"
  shows "json_drive env (drive_json env d) = Inr d"
  using assms by (simp add: json_drive_def drive_json_def str_field_def time_field_def omit_empty_def)

section \<open>A concrete installation\<close>

definition sample_drives :: drive_service where
  "sample_drives = \<lparr>ds_providers = sample_registry, ds_quota = DefaultQuota, ds_goos = ''linux''\<rparr>"

definition sample_drive_input :: drive_input where
  "sample_drive_input =
    \<lparr>diName = ''data'', diAlias = ''work'', diProviderID = ''p1'', diBucket = ''b'', diPrefix = ''/team/a/'',
     diMountPoint = [], diRegion = []\<rparr>"

definition sample_drive :: drive where
  "sample_drive =
    \<lparr>dID = ''d1'', dUserID = ''u1'', dName = ''data'', dAlias = ''WORK'', dProviderID = ''p1'', dBucket = ''b'',
     dPrefix = ''team/a'', dMountPoint = ''/workspace'', dRegion = [], dCreatedAt = 5\<rparr>"

definition id_draw :: "string \<Rightarrow> time \<Rightarrow> draw" where
  "id_draw i t = \<lparr>dr_now = t, dr_id = i, dr_jti = [], dr_rand = Inr (replicate 24 (CHR ''n''))\<rparr>"

definition drive_store :: memory where
  "drive_store = fst (Drive_Create sample_drives (id_draw ''d1'' 5) sample_store ''u1'' sample_drive_input)"

definition sample_objects :: "unit object_env" where
  "sample_objects =
    \<lparr>oe_providers = sample_registry,
     oe_minio = \<lparr>mc_new = (\<lambda>_ _ _ _ _. Inr ()), mc_list_buckets = (\<lambda>_. Inr []), mc_bucket_exists = (\<lambda>_ _. Inr True),
       mc_make_bucket = (\<lambda>_ _ _. Inr ()), mc_list_objects = (\<lambda>_ _ _ _ _. []),
       mc_presign = (\<lambda>_ _ _ _ _ _. Inr ''https://x''), mc_copy = (\<lambda>_ _ _ _. Inr ())\<rparr>,
     oe_hmac_sha1 = (\<lambda>k d. ''h'')\<rparr>"

definition sample_payload :: json where
  "sample_payload =
     JObj [(''captured_at'', JStr ''6''),
           (''drive'', JObj [(''id'', JStr ''d1''), (''user_id'', JStr ''u1''), (''name'', JStr ''data''), (''alias'', JStr ''WORK''),
             (''provider_id'', JStr ''p1''), (''bucket'', JStr ''b''), (''prefix'', JStr ''team/a''),
             (''mount_point'', JStr ''/workspace''), (''created_at'', JStr ''5'')]),
           (''kind'', JStr ''ai-cloudhub.snapshot.v0'')]"

definition sample_json :: json_env where
  "sample_json =
    \<lparr>je_encode = (\<lambda>j. if j = sample_payload then Inr ''{}'' else Inl ''unsupported''),
     je_decode = (\<lambda>s. Inr sample_payload), je_time = show_int,
     je_parse_time = (\<lambda>s. case digits_val 0 s of Some n \<Rightarrow> Inr (int n) | None \<Rightarrow> Inl ''bad time'')\<rparr>"

definition sample_snapshot_input :: snapshot_input where
  "sample_snapshot_input =
    \<lparr>siLabel = ''before'', siNote = [], siAgentID = [], siManifest = [], siIncludeObjects = False, siMaxObjects = 0\<rparr>"

definition sample_snapshot :: snapshot where
  "sample_snapshot =
    \<lparr>snID = ''s1'', snUserID = ''u1'', snDriveID = ''d1'', snAgentID = [], snLabel = ''before'', snNote = [],
     snPayloadJSON = ''{}'', snCreatedAt = 6\<rparr>"

definition snapshot_store :: memory where
  "snapshot_store = fst (Drive_CreateSnapshot sample_json sample_objects (id_draw ''s1'' 6) drive_store ''u1'' ''d1'' sample_snapshot_input)"

definition moved_store :: memory where
  "moved_store = fst (Drive_Update snapshot_store ''u1'' ''d1''
     \<lparr>duName = ''other'', duAlias = [], duSetAlias = True, duPrefix = Some ''x'', duMountPoint = ''G:'', duRegion = Some ''eu''\<rparr>)"

lemma sample_json_ok: "json_ok sample_json"
  by (auto simp: json_ok_def sample_json_def show_int_def digits_val_show_nat split: if_splits)

lemma sample_drive_steps: "drive_steps sample_drives sample_json NewMemory moved_store"
proof -
  have 1: "drive_steps sample_drives sample_json NewMemory sample_store"
    by (rule steps_more [OF steps_none step_other]) code_simp
  have 2: "drive_steps sample_drives sample_json NewMemory drive_store"
    unfolding drive_store_def by (rule steps_more [OF 1 step_create]) code_simp
  have 3: "drive_steps sample_drives sample_json NewMemory snapshot_store"
    by (rule steps_more [OF 2 step_other]) code_simp
  show ?thesis unfolding moved_store_def by (rule steps_more [OF 3 step_update])
qed

lemma drive_store_inv: "drives_inv drive_store"
proof -
  have "m_drives drive_store = [(''d1'', sample_drive)]" by code_simp
  moreover have "drive_ok sample_drive" unfolding drive_ok_def canonical_alias_def by code_simp
  ultimately show ?thesis
    by (simp add: drives_inv_def drive_rows_def aliases_unique_def keyed_def) (simp add: sample_drive_def)
qed

section \<open>Well-formed drives\<close>

text \<open>C18: Whatever calls are made, every stored drive has a name, a provider and a bucket, a valid mount
  point and an alias in canonical form, and no two drives of a user share an alias.\<close>
theorem drives_stay_well_formed:
  assumes "drive_steps sv env m m'" "drives_inv m"
  shows "drives_inv m'"
  using assms by (rule drive_steps_inv)

theorem drives_stay_well_formed_witness: "drives_inv moved_store"
  using drives_stay_well_formed [OF sample_drive_steps drives_inv_empty] by (simp add: NewMemory_def)

text \<open>An alias names one drive: in every well-formed store the lookup by alias answers with the
  drive of the user that has the alias in canonical form, however the name was written and in
  whatever order the map is iterated, and fails when there is none.\<close>
theorem alias_names_one_drive:
  assumes "drives_inv m"
  shows "Drive_GetByAlias m u raw = Inr d \<longleftrightarrow>
    (\<exists>a. NormalizeAlias raw = Inr a \<and> a \<noteq> [] \<and> GetDrive m u (dID d) = Inr d \<and> dAlias d = a)"
proof (cases "NormalizeAlias raw")
  case (Inl e)
  then show ?thesis by (simp add: Drive_GetByAlias_def)
next
  case (Inr a)
  then show ?thesis
    using alias_lookup [OF assms, of a u d]
    by (cases "GetDriveByAlias m u a") (auto simp: Drive_GetByAlias_def)
qed

theorem alias_names_one_drive_witness:
  "Drive_GetByAlias drive_store ''u1'' '' Work '' = Inr sample_drive"
proof -
  have "NormalizeAlias '' Work '' = Inr ''WORK''" "GetDrive drive_store ''u1'' (dID sample_drive) = Inr sample_drive"
    "dAlias sample_drive = ''WORK''" by code_simp+
  then show ?thesis using alias_names_one_drive [OF drive_store_inv, of "''u1''" "'' Work ''" sample_drive] by simp
qed

section \<open>Snapshots\<close>

lemma new_snapshot_Inr:
  assumes "new_snapshot env ob dr m u did inp = Inr sn"
  obtains d man objs where "GetDrive m u did = Inr d"
    "je_encode env (snapshot_payload env (dr_now dr) d man objs) = Inr (snPayloadJSON sn)"
    "snID sn = dr_id dr" "snUserID sn = u" "snDriveID sn = did"
    "length (ListSnapshots m u did (DefaultMaxSnapshotsPerDrive + 1)) < 50"
proof -
  define objs where "objs d = (if siIncludeObjects inp
    then Some (listObjectInventory env ob m u d (siMaxObjects inp)) else None)" for d
  define out where "out d man = (case je_encode env (snapshot_payload env (dr_now dr) d man (objs d)) of
       Inl e \<Rightarrow> Inl (Errorf e)
     | Inr raw \<Rightarrow> Inr \<lparr>snID = dr_id dr, snUserID = u, snDriveID = did, snAgentID = trim_space (siAgentID inp),
         snLabel = trim_space (siLabel inp), snNote = trim_space (siNote inp), snPayloadJSON = raw,
         snCreatedAt = dr_now dr\<rparr>)" for d man
  from assms obtain d where d: "GetDrive m u did = Inr d"
    "length (ListSnapshots m u did (DefaultMaxSnapshotsPerDrive + 1)) < 50"
    "and_then (decode_manifest env (siManifest inp)) (out d) = Inr sn"
    unfolding new_snapshot_def and_then_Inr [of "Drive_Get m u did"] Drive_Get_def objs_def [symmetric] out_def [symmetric]
    by (auto split: if_splits sum.splits)
  then obtain man where sn: "out d man = Inr sn" by (auto simp: and_then_Inr)
  then obtain raw where "je_encode env (snapshot_payload env (dr_now dr) d man (objs d)) = Inr raw"
    by (cases "je_encode env (snapshot_payload env (dr_now dr) d man (objs d))") (auto simp: out_def)
  with d sn that [of d man "objs d"] show ?thesis by (auto simp: out_def)
qed

lemma Drive_CreateSnapshot_Inr:
  "Drive_CreateSnapshot env ob dr m u did inp = (m', Inr sn) \<Longrightarrow>
   new_snapshot env ob dr m u did inp = Inr sn \<and> CreateSnapshot m sn = Inr m'"
  by (auto simp: Drive_CreateSnapshot_def split: sum.splits)

lemma payload_drive:
  "\<exists>fs. snapshot_payload env now d man objs = JObj fs \<and> map_of fs ''drive'' = Some (drive_json env d)"
  by (auto simp: snapshot_payload_def split: option.splits)

lemma restored_drive_captured:
  assumes "drive_ok d" "dAlias d = [] \<or> dAlias d = dAlias cur \<or> alias_free m u (dAlias d) = Inr ()"
  shows "restored_drive m u d cur =
    Inr (cur\<lparr>dName := dName d, dAlias := (if dAlias d = [] then dAlias cur else dAlias d), dPrefix := dPrefix d,
             dMountPoint := dMountPoint d, dRegion := dRegion d\<rparr>)"
proof -
  have n: "trim_space (dName d) \<noteq> []" "validateMountPoint (dMountPoint d) = Inr ()" "canonical_alias (dAlias d)"
    using assms(1) by (auto simp: drive_ok_def)
  have a: "dAlias d = [] \<or> trim_space (dAlias d) \<noteq> []"
    using n(3) alias_trim by (auto simp: canonical_alias_def)
  have mp: "trim_space (dMountPoint d) \<noteq> []" using n(2) by (rule valid_mount_not_blank)
  have a': "trim_space (dAlias d) \<noteq> [] \<longleftrightarrow> dAlias d \<noteq> []" using a by auto
  have na: "NormalizeAlias (dAlias d) = Inr (dAlias d)" using n(3) by (rule NormalizeAlias_id)
  show ?thesis
    using assms(2) n mp unfolding restored_drive_def Let_def a' na
    by (cases "dAlias d = []") (auto simp: and_then_def)
qed

text \<open>C19: Restoring a snapshot brings back the name, prefix, mount point and region the drive had when it
  was captured, whatever has been changed since, and its alias, unless another drive has taken it;
  a drive captured without an alias keeps the alias it has now.\<close>
theorem snapshot_restores:
  assumes "json_ok env" "drives_inv m" "GetDrive m u did = Inr d" "0 \<le> dCreatedAt d"
    and "Drive_CreateSnapshot env ob dr m u did inp = (m1, Inr sn)"
    and "GetSnapshot m2 u did (dr_id dr) = Inr sn" "GetDrive m2 u did = Inr cur" "drives_inv m2"
    and "dAlias d = [] \<or> dAlias d = dAlias cur \<or> (\<forall>e. GetDriveByAlias m2 u (dAlias d) \<noteq> Inr e)"
  shows "\<exists>m3 r. RestoreSnapshot env m2 u did (dr_id dr) True = (m3, Inr r) \<and>
    GetDrive m3 u did = Inr (cur\<lparr>dName := dName d, dAlias := (if dAlias d = [] then dAlias cur else dAlias d),
      dPrefix := dPrefix d, dMountPoint := dMountPoint d, dRegion := dRegion d\<rparr>)"
proof -
  let ?new = "cur\<lparr>dName := dName d, dAlias := (if dAlias d = [] then dAlias cur else dAlias d),
      dPrefix := dPrefix d, dMountPoint := dMountPoint d, dRegion := dRegion d\<rparr>"
  obtain man objs where enc: "je_encode env (snapshot_payload env (dr_now dr) d man objs) = Inr (snPayloadJSON sn)"
    using Drive_CreateSnapshot_Inr [OF assms(5)] assms(3) by (elim conjE new_snapshot_Inr) auto
  obtain fs where fs: "snapshot_payload env (dr_now dr) d man objs = JObj fs" "map_of fs ''drive'' = Some (drive_json env d)"
    using payload_drive by blast
  have dec: "je_decode env (snPayloadJSON sn) = Inr (JObj fs)"
    using assms(1) enc fs(1) unfolding json_ok_def by metis
  have jd: "json_drive env (drive_json env d) = Inr d"
    using assms(1,4) by (intro json_drive_roundtrip) (simp add: json_ok_def)
  have ok: "drive_ok d" "drive_ok cur" "dID cur = did" "dUserID cur = u"
    using drives_inv_row [OF assms(2,3)] drives_inv_row [OF assms(8,7)] by auto
  have "dAlias d = [] \<or> dAlias d = dAlias cur \<or> alias_free m2 u (dAlias d) = Inr ()"
    using assms(9) by (auto simp: alias_free_def split: sum.splits)
  note r = restored_drive_captured [OF ok(1) this]
  obtain m3 where m3: "UpdateDrive m2 ?new = Inr m3"
    using assms(7) ok(3,4) by (auto simp: UpdateDrive_def drives.get_iff)
  from UpdateDrive_inv [OF assms(8,7) m3 restored_drive_Inr [OF r ok(2)]]
  have "GetDrive m3 u did = Inr ?new" by simp
  moreover have "RestoreSnapshot env m2 u did (dr_id dr) True =
      (m3, Inr \<lparr>rrSnapshot = sn, rrPayload = fs, rrApplied = Some ?new\<rparr>)"
    using assms(6,7) dec fs(2) jd r m3 by (simp add: RestoreSnapshot_def Drive_Get_def)
  ultimately show ?thesis by blast
qed

theorem snapshot_restores_witness:
  "\<exists>m3 r. RestoreSnapshot sample_json moved_store ''u1'' ''d1'' ''s1'' True = (m3, Inr r) \<and>
    GetDrive m3 ''u1'' ''d1'' = Inr sample_drive"
proof -
  let ?cur = "sample_drive\<lparr>dName := ''other'', dAlias := [], dPrefix := ''x'', dMountPoint := ''G:'', dRegion := ''eu''\<rparr>"
  have g: "GetDrive drive_store ''u1'' ''d1'' = Inr sample_drive" "0 \<le> dCreatedAt sample_drive"
    "GetSnapshot moved_store ''u1'' ''d1'' (dr_id (id_draw ''s1'' 6)) = Inr sample_snapshot"
    "GetDrive moved_store ''u1'' ''d1'' = Inr ?cur" by code_simp+
  have c: "Drive_CreateSnapshot sample_json sample_objects (id_draw ''s1'' 6) drive_store ''u1'' ''d1'' sample_snapshot_input =
      (snapshot_store, Inr sample_snapshot)"
    unfolding snapshot_store_def prod_eq_iff by code_simp
  have f: "GetDriveByAlias moved_store ''u1'' (dAlias sample_drive) = Inl (Errorf ''drive not found'')" by code_simp
  have i: "drives_inv moved_store" using drive_steps_inv [OF sample_drive_steps drives_inv_empty] by (simp add: NewMemory_def)
  have "dAlias sample_drive = [] \<or> dAlias sample_drive = dAlias ?cur \<or>
      (\<forall>e. GetDriveByAlias moved_store ''u1'' (dAlias sample_drive) \<noteq> Inr e)" using f by simp
  from snapshot_restores [OF sample_json_ok drive_store_inv g(1,2) c g(3,4) i this]
  show ?thesis by (simp add: sample_drive_def id_draw_def)
qed

text \<open>A drive has at most fifty snapshots.\<close>
lemma snapshot_quota:
  assumes "Drive_CreateSnapshot env ob dr m u did inp = (m', Inr sn)"
  shows "length (filter (\<lambda>s. snUserID s = u \<and> snDriveID s = did) (gvals (m_snapshots m))) < 50"
  using Drive_CreateSnapshot_Inr [OF assms]
  by (elim conjE new_snapshot_Inr) (simp add: ListSnapshots_def Let_def)

section \<open>Differences\<close>

lemma index_entries_snoc: "index_entries (es @ [e]) = gset (ieKey e) e (index_entries es)"
  by (simp add: index_entries_def)

lemma index_entries_keyed: "keyed ieKey (index_entries es)"
proof (induction es rule: rev_induct)
  case Nil
  then show ?case by (simp add: index_entries_def)
next
  case (snoc e es)
  then show ?case unfolding index_entries_snoc by (rule keyed_gset) simp
qed

text \<open>Of several versions of a key the index keeps the one listed last, the oldest in the order of a
  versioned listing.\<close>

lemma last_version_wins: "gget (index_entries (es @ [e])) (ieKey e) = Some e"
  by (simp add: index_entries_snoc)

lemma inventoryMap_keyed: "inventoryMap env raw = Inr a \<Longrightarrow> keyed ieKey a"
  by (auto simp: inventoryMap_def index_entries_keyed and_then_Inr split: sum.splits option.splits if_splits json.splits)

lemma keyed_entry: "keyed f m \<Longrightarrow> (k, e) \<in> set m \<longleftrightarrow> gget m k = Some e"
  by (simp add: keyed_def)

lemma keyed_filter_vals:
  assumes "keyed f m"
  shows "set (map snd (filter (\<lambda>(k, _). P k) m)) = {e. gget m (f e) = Some e \<and> P (f e)}"
proof -
  have "e \<in> set (map snd (filter (\<lambda>(k, _). P k) m)) \<longleftrightarrow> (\<exists>k. gget m k = Some e \<and> P k)" for e
    unfolding keyed_entry [OF assms, symmetric] by force
  moreover have "(\<exists>k. gget m k = Some e \<and> P k) \<longleftrightarrow> gget m (f e) = Some e \<and> P (f e)" for e
    using keyed_gget [OF assms, of _ e] by metis
  ultimately show ?thesis by (intro set_eqI) simp
qed

lemma diff_sets:
  assumes "keyed ieKey a" "keyed ieKey b"
  shows "set (sdAdded (diff_inventories a b)) = {e. gget b (ieKey e) = Some e \<and> gget a (ieKey e) = None}"
    and "set (sdRemoved (diff_inventories a b)) = {e. gget a (ieKey e) = Some e \<and> gget b (ieKey e) = None}"
    and "set (sdChanged (diff_inventories a b)) =
      {(ea, eb). gget a (ieKey ea) = Some ea \<and> gget b (ieKey eb) = Some eb \<and> ieKey ea = ieKey eb \<and> differs ea eb}"
proof -
  show "set (sdAdded (diff_inventories a b)) = {e. gget b (ieKey e) = Some e \<and> gget a (ieKey e) = None}"
    unfolding diff_inventories_def snapshot_diff.simps by (rule keyed_filter_vals [OF assms(2)])
  show "set (sdRemoved (diff_inventories a b)) = {e. gget a (ieKey e) = Some e \<and> gget b (ieKey e) = None}"
    unfolding diff_inventories_def snapshot_diff.simps by (rule keyed_filter_vals [OF assms(1)])
  have "(ea, eb) \<in> set (sdChanged (diff_inventories a b)) \<longleftrightarrow>
      (\<exists>k. gget b k = Some eb \<and> gget a k = Some ea \<and> differs ea eb)" for ea eb
    unfolding keyed_entry [OF assms(2), symmetric]
    by (auto simp: diff_inventories_def split: option.splits if_splits) force+
  moreover have "(\<exists>k. gget b k = Some eb \<and> gget a k = Some ea \<and> differs ea eb) \<longleftrightarrow>
      gget a (ieKey ea) = Some ea \<and> gget b (ieKey eb) = Some eb \<and> ieKey ea = ieKey eb \<and> differs ea eb" for ea eb
    using keyed_gget [OF assms(1), of _ ea] keyed_gget [OF assms(2), of _ eb] by metis
  ultimately show "set (sdChanged (diff_inventories a b)) =
      {(ea, eb). gget a (ieKey ea) = Some ea \<and> gget b (ieKey eb) = Some eb \<and> ieKey ea = ieKey eb \<and> differs ea eb}"
    by auto
qed

text \<open>The difference of two snapshots with inventories is exact: added are the keys only the second
  has, removed the keys only the first has, changed the keys of both whose size or etag differs;
  it is empty only when both inventories have the same keys with the same sizes and etags.\<close>
theorem snapshot_diff_exact:
  assumes "GetSnapshot m u did ia = Inr sa" "GetSnapshot m u did ib = Inr sb"
    and "inventoryMap env (snPayloadJSON sa) = Inr a" "inventoryMap env (snPayloadJSON sb) = Inr b"
  shows "\<exists>df. DiffSnapshots env m u did ia ib = Inr (Inr df) \<and>
    set (sdAdded df) = {e. gget b (ieKey e) = Some e \<and> gget a (ieKey e) = None} \<and>
    set (sdRemoved df) = {e. gget a (ieKey e) = Some e \<and> gget b (ieKey e) = None} \<and>
    set (sdChanged df) = {(ea, eb). gget a (ieKey ea) = Some ea \<and> gget b (ieKey eb) = Some eb \<and>
      ieKey ea = ieKey eb \<and> differs ea eb} \<and>
    (sdAdded df = [] \<and> sdRemoved df = [] \<and> sdChanged df = [] \<longrightarrow>
      (\<forall>k. map_option (\<lambda>e. (ieSize e, ieETag e)) (gget a k) = map_option (\<lambda>e. (ieSize e, ieETag e)) (gget b k)))"
proof (intro exI conjI impI)
  let ?df = "diff_inventories a b"
  have k: "keyed ieKey a" "keyed ieKey b" using assms(3,4) inventoryMap_keyed by blast+
  note d = diff_sets [OF k]
  show "DiffSnapshots env m u did ia ib = Inr (Inr ?df)" using assms by (simp add: DiffSnapshots_def)
  show "set (sdAdded ?df) = {e. gget b (ieKey e) = Some e \<and> gget a (ieKey e) = None}" by (rule d)
  show "set (sdRemoved ?df) = {e. gget a (ieKey e) = Some e \<and> gget b (ieKey e) = None}" by (rule d)
  show "set (sdChanged ?df) = {(ea, eb). gget a (ieKey ea) = Some ea \<and> gget b (ieKey eb) = Some eb \<and>
      ieKey ea = ieKey eb \<and> differs ea eb}" by (rule d)
  assume z: "sdAdded ?df = [] \<and> sdRemoved ?df = [] \<and> sdChanged ?df = []"
  have e: "gget b (ieKey e) = Some e \<Longrightarrow> gget a (ieKey e) \<noteq> None"
    "gget a (ieKey e) = Some e \<Longrightarrow> gget b (ieKey e) \<noteq> None"
    "gget a (ieKey ea) = Some ea \<Longrightarrow> gget b (ieKey eb) = Some eb \<Longrightarrow> ieKey ea = ieKey eb \<Longrightarrow> \<not> differs ea eb"
    for e ea eb
    using d [unfolded conjunct1 [OF z] conjunct1 [OF conjunct2 [OF z]] conjunct2 [OF conjunct2 [OF z]]]
    by (simp_all add: set_eq_iff)
  show "\<forall>k. map_option (\<lambda>e. (ieSize e, ieETag e)) (gget a k) = map_option (\<lambda>e. (ieSize e, ieETag e)) (gget b k)"
  proof
    fix i
    consider "gget a i = None" "gget b i = None" | eb where "gget a i = None" "gget b i = Some eb"
      | ea where "gget a i = Some ea" "gget b i = None" | ea eb where "gget a i = Some ea" "gget b i = Some eb"
      by (cases "gget a i"; cases "gget b i") auto
    then show "map_option (\<lambda>e. (ieSize e, ieETag e)) (gget a i) = map_option (\<lambda>e. (ieSize e, ieETag e)) (gget b i)"
    proof cases
      case (2 eb)
      then show ?thesis using e(1) [of eb] keyed_gget [OF k(2)] by metis
    next
      case (3 ea)
      then show ?thesis using e(2) [of ea] keyed_gget [OF k(1)] by metis
    next
      case (4 ea eb)
      then show ?thesis
        using e(3) [of ea eb] keyed_gget [OF k(1) 4(1)] keyed_gget [OF k(2) 4(2)] by (simp add: differs_def)
    qed simp
  qed
qed

text \<open>The objects of a bucket with versions: the current version of the key has changed, the oldest has
  not.\<close>

definition versions_before :: "inventory_entry list" where
  "versions_before =
    [\<lparr>ieKey = ''a'', ieSize = 1, ieETag = ''e1'', ieLastModified = 1, ieVersionID = ''v1'', ieIsLatest = True, ieDeleteMarker = False\<rparr>]"

definition versions_after :: "inventory_entry list" where
  "versions_after =
    [\<lparr>ieKey = ''a'', ieSize = 2, ieETag = ''e2'', ieLastModified = 2, ieVersionID = ''v2'', ieIsLatest = True, ieDeleteMarker = False\<rparr>,
     \<lparr>ieKey = ''a'', ieSize = 1, ieETag = ''e1'', ieLastModified = 1, ieVersionID = ''v1'', ieIsLatest = False, ieDeleteMarker = False\<rparr>]"

lemma new_version_missed:
  "sdChanged (diff_inventories (index_entries versions_before) (index_entries versions_after)) = []"
  by code_simp

definition versioned_json :: json_env where
  "versioned_json =
    \<lparr>je_encode = (\<lambda>j. Inl ''unused''),
     je_decode = (\<lambda>s. Inr (JObj [(''objects'', JObj [(''entries'', JArr (if s = ''A''
         then [JObj [(''key'', JStr ''a''), (''size'', JNum 1)]]
         else [JObj [(''key'', JStr ''a''), (''size'', JNum 2)], JObj [(''key'', JStr ''b'')]])), (''ok'', JBool True)])])),
     je_time = show_int, je_parse_time = (\<lambda>s. Inr 0)\<rparr>"

definition two_snapshots :: memory where
  "two_snapshots = NewMemory\<lparr>m_snapshots :=
     [(''x'', sample_snapshot\<lparr>snID := ''x'', snPayloadJSON := ''A''\<rparr>), (''y'', sample_snapshot\<lparr>snID := ''y'', snPayloadJSON := ''B''\<rparr>)]\<rparr>"

definition plain_entry :: "string \<Rightarrow> int \<Rightarrow> inventory_entry" where
  "plain_entry k n = \<lparr>ieKey = k, ieSize = n, ieETag = [], ieLastModified = 0, ieVersionID = [], ieIsLatest = False, ieDeleteMarker = False\<rparr>"

theorem snapshot_diff_exact_witness:
  "\<exists>df. DiffSnapshots versioned_json two_snapshots ''u1'' ''d1'' ''x'' ''y'' = Inr (Inr df) \<and>
    plain_entry ''b'' 0 \<in> set (sdAdded df) \<and> (plain_entry ''a'' 1, plain_entry ''a'' 2) \<in> set (sdChanged df)"
proof -
  have g: "GetSnapshot two_snapshots ''u1'' ''d1'' ''x'' = Inr (sample_snapshot\<lparr>snID := ''x'', snPayloadJSON := ''A''\<rparr>)"
    "GetSnapshot two_snapshots ''u1'' ''d1'' ''y'' = Inr (sample_snapshot\<lparr>snID := ''y'', snPayloadJSON := ''B''\<rparr>)"
    by code_simp+
  have a: "inventoryMap versioned_json (snPayloadJSON (sample_snapshot\<lparr>snID := ''x'', snPayloadJSON := ''A''\<rparr>)) =
      Inr [(''a'', plain_entry ''a'' 1)]" by code_simp
  have b: "inventoryMap versioned_json (snPayloadJSON (sample_snapshot\<lparr>snID := ''y'', snPayloadJSON := ''B''\<rparr>)) =
      Inr [(''a'', plain_entry ''a'' 2), (''b'', plain_entry ''b'' 0)]" by code_simp
  from snapshot_diff_exact [OF g a b] show ?thesis
    by (elim exE conjE) (intro exI conjI, assumption, simp_all add: plain_entry_def differs_def)
qed

section \<open>Object keys\<close>

lemma sublist_sep:
  assumes "sublist [a, a] (xs @ y # ys)" "y \<noteq> a"
  shows "sublist [a, a] xs \<or> sublist [a, a] ys"
proof -
  from assms(1) obtain ps ss where e: "xs @ y # ys = ps @ a # a # ss" by (auto simp: sublist_def)
  then consider us where "xs @ us = ps" "y # ys = us @ a # a # ss" | us where "xs = ps @ us" "us @ y # ys = a # a # ss"
    by (auto simp: append_eq_append_conv2)
  then show ?thesis
  proof cases
    case 1
    then show ?thesis using assms(2) by (cases us) (auto simp: sublist_def)
  next
    case 2
    then show ?thesis using assms(2) by (cases us; cases "tl us") (auto simp: sublist_def)
  qed
qed

text \<open>C20: An object call of a drive acts on a key under the drive's prefix, on the drive of the caller:
  the key a request names is either below the prefix already or is put there, it is not empty, and
  it contains two dots in a row only if the prefix of the drive does.\<close>
theorem object_key_scoped:
  assumes "resolveObjectKey env m u did key = Inr (d, r, k)"
  shows "GetDrive m u did = Inr d \<and> k \<noteq> [] \<and> under_prefix (trim_c (CHR ''/'') (dPrefix d)) k \<and>
    (sublist ''..'' k \<longrightarrow> sublist ''..'' (trim_c (CHR ''/'') (dPrefix d)))"
proof -
  note r = resolveObjectKey_Inr [OF assms]
  let ?p = "trim_c (CHR ''/'') (dPrefix d)" and ?k = "trim_left_c (CHR ''/'') (trim_space key)"
  have "\<not> sublist ''..'' ?k" "k = ?k \<or> k = ?p @ ''/'' @ ?k"
    using r by (auto simp: scope_key_def Let_def split: if_splits)
  then have "sublist ''..'' k \<longrightarrow> sublist ''..'' ?p"
    using sublist_sep [of "CHR ''.''" ?p "CHR ''/''" ?k] by auto
  with r scope_key_under [of "dPrefix d" key k] show ?thesis by auto
qed

theorem object_key_scoped_witness:
  "under_prefix ''team/a'' ''team/a/secret.txt'' \<and>
   resolveObjectKey sample_objects drive_store ''u1'' ''d1'' '' /secret.txt'' =
     Inr (sample_drive, sample_resolved\<lparr>rsUseSSL := False\<rparr>, ''team/a/secret.txt'')"
proof -
  have r: "resolveObjectKey sample_objects drive_store ''u1'' ''d1'' '' /secret.txt'' =
     Inr (sample_drive, sample_resolved\<lparr>rsUseSSL := False\<rparr>, ''team/a/secret.txt'')" by code_simp
  have p: "trim_c (CHR ''/'') (dPrefix sample_drive) = ''team/a''" by code_simp
  from object_key_scoped [OF r] r show ?thesis unfolding p by blast
qed

section \<open>Barriers\<close>

text \<open>Completing a barrier keeps at most 500 of them; beginning one never drops any.\<close>

lemma complete_barrier_bounded:
  assumes "CompleteBarrier dr m bs u inp = (bs', Inr b)"
  shows "length bs' \<le> 500 \<and> gget bs' (baID b) = Some b"
  using assms by (auto simp: CompleteBarrier_def Let_def split: if_splits sum.splits)

lemma begin_barrier_grows:
  assumes "BeginBarrier dr m bs u did dev = (bs', Inr b)" "gget bs (dr_id dr) = None"
  shows "length bs' = Suc (length bs)"
  using assms by (auto simp: BeginBarrier_def Let_def gset_new split: sum.splits)

end
