(* ===== verification/Sts_Oci.thy ===== *)
theory Sts_Oci
  imports Sts_Vendors Json_Value S3_Store
begin

text \<open>
  OCI API-key assistance of Oracle sessions (\<open>internal/sts/oci_iam.go\<close>, \<open>oci_par.go\<close>): loading and
  signing with the key, identity validation with its cache, customer secret keys and
  pre-authenticated requests. RSA, the PEM parser, files and the JSON decoder are parameters; \<open>'k\<close> is
  the type of private keys. The cache of the process is a map from keys to an answer and its instant.
\<close>

abbreviation SourceOracleSTS :: string where "SourceOracleSTS \<equiv> ''oracle_sts''"
abbreviation SourceOCIIAM :: string where "SourceOCIIAM \<equiv> ''oci_iam''"
abbreviation SourceOCIPAR :: string where "SourceOCIPAR \<equiv> ''oci_par''"
abbreviation SourceOCISecret :: string where "SourceOCISecret \<equiv> ''oci_secret''"

record 'k oci_env =
  oc_sts :: sts_env
  oc_read_file :: "string \<Rightarrow> string + string"
  oc_parse_pem :: "string \<Rightarrow> string + 'k"
  oc_rsa_sign :: "'k \<Rightarrow> string \<Rightarrow> string + string"
  oc_request_uri :: "string \<Rightarrow> string + string \<times> string"
  oc_json :: "string \<Rightarrow> string + (string \<times> json) list"

record 'k oci_key =
  okTenancy :: string
  okUser :: string
  okFingerprint :: string
  okPrivate :: 'k
  okRegion :: string

type_synonym oci_user = "(string \<times> json) list"
type_synonym oci_cache = "(oci_user \<times> time) gomap"

definition noteOracle :: string where
  "noteOracle = ''Oracle OCI: set AI_CLOUDHUB_ORACLE_STS=1 for S3-compat AssumeRole; AI_CLOUDHUB_ORACLE_NATIVE_IAM=1 + API-key env; Stage C: AI_CLOUDHUB_OCI_CREATE_SECRET=1 / AI_CLOUDHUB_OCI_PAR=1 + NAMESPACE/PAR_BUCKET''"

section \<open>Keys and signatures\<close>

definition ociIAMCacheTTL :: "sts_env \<Rightarrow> duration" where
  "ociIAMCacheTTL e =
     (let v = trim_space (se_env e ''AI_CLOUDHUB_OCI_IAM_CACHE_SEC'')
      in if v = [] then minutes 5
         else (case atoi v of
                 None \<Rightarrow> minutes 5
               | Some n \<Rightarrow> if n < 0 then minutes 5 else if n = 0 then 0 else duration_secs n))"

definition ociCacheKey :: "'k oci_key \<Rightarrow> string" where
  "ociCacheKey k = okTenancy k @ ''|'' @ okUser k @ ''|'' @ okFingerprint k @ ''|'' @ okRegion k"

definition ociNativeIAMEnabled :: "sts_env \<Rightarrow> bool" where
  "ociNativeIAMEnabled e = (envFlagTrue e ''AI_CLOUDHUB_ORACLE_NATIVE_IAM'' \<or> envFlagTrue e ''AI_CLOUDHUB_OCI_IAM'')"

definition LoadOCIAPIKeyFromEnv :: "'k oci_env \<Rightarrow> 'k oci_key result" where
  "LoadOCIAPIKeyFromEnv o' =
     (let env = se_env (oc_sts o');
          tenancy = trim_space (env ''AI_CLOUDHUB_OCI_TENANCY_OCID'');
          user = trim_space (env ''AI_CLOUDHUB_OCI_USER_OCID'');
          fp = trim_space (env ''AI_CLOUDHUB_OCI_FINGERPRINT'');
          region0 = trim_space (env ''AI_CLOUDHUB_OCI_REGION'');
          region = (if region0 = [] then ''us-ashburn-1'' else region0);
          file = trim_space (env ''AI_CLOUDHUB_OCI_PRIVATE_KEY_FILE'')
      in (case (if file \<noteq> [] then oc_read_file o' file else Inr (env ''AI_CLOUDHUB_OCI_PRIVATE_KEY_PEM'')) of
            Inl err \<Rightarrow> Inl (Errorf err)
          | Inr pem \<Rightarrow>
              if tenancy = [] \<or> user = [] \<or> fp = [] \<or> pem = []
              then Inl (Errorf ''oci iam env incomplete (tenancy/user/fingerprint/private_key)'')
              else (case oc_parse_pem o' pem of
                      Inl err \<Rightarrow> Inl (Errorf err)
                    | Inr key \<Rightarrow> Inr \<lparr>okTenancy = tenancy, okUser = user, okFingerprint = fp, okPrivate = key,
                                     okRegion = region\<rparr>)))"

definition OCISignHeaders ::
  "'k oci_env \<Rightarrow> 'k oci_key \<Rightarrow> string \<Rightarrow> string \<Rightarrow> string \<Rightarrow> string \<Rightarrow> string \<Rightarrow> string result" where
  "OCISignHeaders o' key method0 host pathAndQuery date body =
     (let method = to_upper method0;
          base = [''date: '' @ date, ''(request-target): '' @ to_lower method @ '' '' @ pathAndQuery, ''host: '' @ host];
          full = body \<noteq> [] \<or> method \<in> {''POST'', ''PUT'', ''PATCH''};
          parts = (if full
                   then base @ [''x-content-sha256: '' @ b64_std (se_sha256 (oc_sts o') body),
                                ''content-length: '' @ show_int (int (length body)),
                                ''content-type: application/json'']
                   else base);
          headers = (if full then ''date (request-target) host x-content-sha256 content-length content-type''
                     else ''date (request-target) host'')
      in (case oc_rsa_sign o' (okPrivate key) (se_sha256 (oc_sts o') (str_join newline parts)) of
            Inl err \<Rightarrow> Inl (Errorf err)
          | Inr sig \<Rightarrow>
              Inr (''Signature version='' @ quoted ''1'' @ '',keyId='' @
                   quoted (okTenancy key @ ''/'' @ okUser key @ ''/'' @ okFingerprint key) @
                   '',algorithm='' @ quoted ''rsa-sha256'' @ '',headers='' @ quoted headers @
                   '',signature='' @ quoted (b64_std sig))))"

abbreviation TimeFormat :: string where "TimeFormat \<equiv> ''Mon, 02 Jan 2006 15:04:05 GMT''"

section \<open>Signed calls\<close>

definition ociSignedJSON ::
  "'k oci_env \<Rightarrow> time \<Rightarrow> 'k oci_key \<Rightarrow> string \<Rightarrow> string \<Rightarrow> string \<Rightarrow> string \<Rightarrow> oci_user result" where
  "ociSignedJSON o' now key method base pathAndQuery body =
     (let full = trim_right_c (CHR ''/'') base @ pathAndQuery
      in (case oc_request_uri o' full of
            Inl err \<Rightarrow> Inl (Errorf err)
          | Inr (host, target) \<Rightarrow>
              (let date = se_format (oc_sts o') TimeFormat now
               in and_then (OCISignHeaders o' key method host target date body)
                    (\<lambda>auth.
                       case se_http (oc_sts o') \<lparr>hqMethod = method, hqURL = full,
                              hqHeaders = [(''date'', date), (''host'', host), (''Authorization'', auth)] @
                                (if body \<noteq> []
                                 then [(''Content-Type'', ''application/json''),
                                       (''Content-Length'', show_int (int (length body))),
                                       (''x-content-sha256'', b64_std (se_sha256 (oc_sts o') body))]
                                 else []),
                              hqBody = body\<rparr> of
                         Inl err \<Rightarrow> Inl (Errorf err)
                       | Inr (code, raw) \<Rightarrow>
                           if code \<ge> 300
                           then Inl (Errorf (''oci HTTP '' @ show_int code @ '': '' @ truncateSTS raw 240))
                           else if raw = [] then Inr []
                           else (case oc_json o' raw of
                                   Inl err \<Rightarrow> Inl (Errorf (''oci json: '' @ err))
                                 | Inr out \<Rightarrow> Inr out)))))"

definition identity_base :: "'k oci_env \<Rightarrow> 'k oci_key \<Rightarrow> string" where
  "identity_base o' key =
     (let ep = trim_space (se_env (oc_sts o') ''AI_CLOUDHUB_OCI_IDENTITY_ENDPOINT'')
      in if ep \<noteq> [] then trim_right_c (CHR ''/'') ep
         else ''https://identity.'' @ okRegion key @ ''.oraclecloud.com'')"

definition fetch_user :: "'k oci_env \<Rightarrow> time \<Rightarrow> 'k oci_key \<Rightarrow> oci_user result" where
  "fetch_user o' now key =
     (let full = identity_base o' key @ ''/20160918/users/'' @ okUser key
      in (case oc_request_uri o' full of
            Inl err \<Rightarrow> Inl (Errorf err)
          | Inr (host, target) \<Rightarrow>
              (let date = se_format (oc_sts o') TimeFormat now
               in and_then (OCISignHeaders o' key ''GET'' host target date [])
                    (\<lambda>auth.
                       case se_http (oc_sts o') \<lparr>hqMethod = ''GET'', hqURL = full,
                              hqHeaders = [(''date'', date), (''host'', host), (''Authorization'', auth)], hqBody = []\<rparr> of
                         Inl err \<Rightarrow> Inl (Errorf (''oci identity: '' @ err))
                       | Inr (code, body) \<Rightarrow>
                           if code \<ge> 300
                           then Inl (Errorf (''oci identity HTTP '' @ show_int code @ '': '' @ truncateSTS body 200))
                           else (case oc_json o' body of
                                   Inl err \<Rightarrow> Inl (Errorf (''oci identity json: '' @ err))
                                 | Inr out \<Rightarrow> Inr out)))))"

text \<open>A cached answer younger than the lifetime is used; a new answer is cached.\<close>

definition TryOCIValidateUser ::
  "'k oci_env \<Rightarrow> time \<Rightarrow> oci_cache \<Rightarrow> 'k oci_key \<Rightarrow> oci_cache \<times> oci_user result" where
  "TryOCIValidateUser o' now cache key =
     (let ck = ociCacheKey key; ttl = ociIAMCacheTTL (oc_sts o');
          hit = (if ttl > 0
                 then (case gget cache ck of
                         Some (u, at) \<Rightarrow> if now - at < ttl then Some u else None
                       | None \<Rightarrow> None)
                 else None)
      in (case hit of
            Some u \<Rightarrow> (cache, Inr u)
          | None \<Rightarrow>
              (case fetch_user o' now key of
                 Inl err \<Rightarrow> (cache, Inl err)
               | Inr out \<Rightarrow> (if ttl > 0 then gset ck (out, now) cache else cache, Inr out))))"

section \<open>Secret keys and pre-authenticated requests\<close>

definition ociPAREnabled :: "sts_env \<Rightarrow> bool" where
  "ociPAREnabled e = (envFlagTrue e ''AI_CLOUDHUB_OCI_PAR'' \<or> envFlagTrue e ''AI_CLOUDHUB_ORACLE_PAR'')"

definition ociCreateSecretEnabled :: "sts_env \<Rightarrow> bool" where
  "ociCreateSecretEnabled e =
     (envFlagTrue e ''AI_CLOUDHUB_OCI_CREATE_SECRET'' \<or> envFlagTrue e ''AI_CLOUDHUB_ORACLE_CREATE_SECRET'')"

definition OCINamespace :: "sts_env \<Rightarrow> string" where
  "OCINamespace e = trim_space (se_env e ''AI_CLOUDHUB_OCI_NAMESPACE'')"

definition ociObjectStorageBase :: "sts_env \<Rightarrow> string \<Rightarrow> string" where
  "ociObjectStorageBase e region =
     (let ep = trim_space (se_env e ''AI_CLOUDHUB_OCI_OBJECT_ENDPOINT'')
      in if ep \<noteq> [] then trim_right_c (CHR ''/'') ep else ''https://objectstorage.'' @ region @ ''.oraclecloud.com'')"

text \<open>\<open>url.PathEscape\<close>\<close>

definition path_escape :: "string \<Rightarrow> string" where
  "path_escape s =
     concat (map (\<lambda>c. if unreserved c \<or> c \<in> {CHR ''$'', CHR ''&'', CHR ''+'', CHR ''='', CHR '':'', CHR ''@''} then [c]
                    else [CHR ''%'', upper_hex (of_char c div 16), upper_hex (of_char c mod 16)]) s)"

definition TryOCICreateCustomerSecretKey ::
  "'k oci_env \<Rightarrow> time \<Rightarrow> 'k oci_key \<Rightarrow> string \<Rightarrow> (string \<times> string) result" where
  "TryOCICreateCustomerSecretKey o' now key name0 =
     (let name = (if name0 = [] then ''ai-cloudhub-'' @ se_format (oc_sts o') ''20060102-150405'' now else name0);
          path = ''/20160918/users/'' @ path_escape (okUser key) @ ''/customerSecretKeys'';
          payload = ''{'' @ quoted ''displayName'' @ '':'' @ json_quote name @ ''}''
      in and_then (ociSignedJSON o' now key ''POST'' (identity_base o' key) path payload)
           (\<lambda>out. let ak = (if string_at out ''id'' = [] then string_at out ''accessKey'' else string_at out ''id'');
                      sk = (if string_at out ''key'' = [] then string_at out ''secretKey'' else string_at out ''key'')
                  in if ak = [] \<or> sk = [] then Inl (Errorf ''oci create secret: response missing id/key'')
                     else Inr (ak, sk)))"

definition TryOCICreateObjectPAR ::
  "'k oci_env \<Rightarrow> time \<Rightarrow> 'k oci_key \<Rightarrow> string \<Rightarrow> string \<Rightarrow> string \<Rightarrow> duration \<Rightarrow> string result" where
  "TryOCICreateObjectPAR o' now key namespace0 bucket0 objectName0 ttl =
     (let namespace = trim_space namespace0; bucket = trim_space bucket0;
          objectName = trim_left_c (CHR ''/'') (trim_space objectName0)
      in if namespace = [] \<or> bucket = [] \<or> objectName = []
         then Inl (Errorf ''namespace, bucket, objectName required'')
         else (let base = ociObjectStorageBase (oc_sts o') (okRegion key);
                   path = ''/n/'' @ path_escape namespace @ ''/b/'' @ path_escape bucket @ ''/p/'';
                   payload = ''{'' @ quoted ''accessType'' @ '':'' @ quoted ''ObjectRead'' @ '','' @
                     quoted ''name'' @ '':'' @ json_quote (''ai-cloudhub-'' @ se_format (oc_sts o') ''150405'' now) @ '','' @
                     quoted ''objectName'' @ '':'' @ json_quote objectName @ '','' @
                     quoted ''timeExpires'' @ '':'' @
                     json_quote (se_format (oc_sts o') ''2006-01-02T15:04:05Z07:00'' (now + clamp_download ttl)) @ ''}''
               in and_then (ociSignedJSON o' now key ''POST'' base path payload)
                    (\<lambda>out. let uri0 = (if string_at out ''accessUri'' = [] then string_at out ''fullPath''
                                       else string_at out ''accessUri'');
                               uri = (if uri0 \<noteq> [] \<and> \<not> prefix ''http'' uri0 then base @ uri0 else uri0)
                           in if uri = [] then Inl (Errorf ''oci par: no accessUri in response'') else Inr uri)))"

definition appendNote :: "string \<Rightarrow> string \<Rightarrow> string" where
  "appendNote note extra0 =
     (let extra = trim_space extra0
      in if extra = [] then note else if note = [] then extra else note @ '' | '' @ extra)"

definition mint_secret :: "'k oci_env \<Rightarrow> time \<Rightarrow> 'k oci_key \<Rightarrow> attempt \<Rightarrow> attempt" where
  "mint_secret o' now key a =
     (case a of (out, src, n) \<Rightarrow>
        if ociCreateSecretEnabled (oc_sts o') \<and> rsAccessKey out = []
        then (case TryOCICreateCustomerSecretKey o' now key [] of
                Inl err \<Rightarrow> (out, src, appendNote n (''OCI create Customer Secret Key failed: '' @ error_text err))
              | Inr (ak, sk) \<Rightarrow>
                  (out\<lparr>rsAccessKey := ak, rsSecretKey := sk\<rparr>, SourceOCISecret,
                   appendNote n ''OCI Customer Secret Key minted (source=oci_secret); store securely '' @
                     [CHR 0xE2, CHR 0x80, CHR 0x94] @ '' secret shown only once by OCI''))
        else if ociCreateSecretEnabled (oc_sts o')
        then (out, src, appendNote n ''OCI create-secret skipped: provider already has access_key'')
        else (out, src, n))"

definition attach_par :: "'k oci_env \<Rightarrow> time \<Rightarrow> 'k oci_key \<Rightarrow> duration \<Rightarrow> attempt \<Rightarrow> attempt" where
  "attach_par o' now key d a =
     (case a of (out, src, n) \<Rightarrow>
        let e = oc_sts o' in
        if \<not> ociPAREnabled e then (out, src, n)
        else if OCINamespace e = [] then (out, src, appendNote n ''OCI PAR enabled but AI_CLOUDHUB_OCI_NAMESPACE unset'')
        else (let bucket = trim_space (se_env e ''AI_CLOUDHUB_OCI_PAR_BUCKET'');
                  obj0 = trim_space (se_env e ''AI_CLOUDHUB_OCI_PAR_OBJECT'');
                  obj = (if obj0 = [] then ''__sample_key__'' else obj0)
              in if bucket = []
                 then (out, src, appendNote n ''OCI PAR enabled but AI_CLOUDHUB_OCI_PAR_BUCKET unset (sample PAR skipped)'')
                 else (case TryOCICreateObjectPAR o' now key (OCINamespace e) bucket obj d of
                         Inl err \<Rightarrow> (out, src, appendNote n (''OCI PAR create failed: '' @ error_text err))
                       | Inr uri \<Rightarrow>
                           (out, if src \<in> {SourceOCIIAM, SourceEmbedded, SourceRefresh} then SourceOCIPAR else src,
                            appendNote n (''OCI PAR ObjectRead sample (source=oci_par): '' @ take 120 uri @ ellipsis)))))"

definition applyOCIStageCAssists :: "'k oci_env \<Rightarrow> time \<Rightarrow> 'k oci_key \<Rightarrow> resolved \<Rightarrow> duration \<Rightarrow> string \<Rightarrow> string \<Rightarrow> attempt" where
  "applyOCIStageCAssists o' now key r d source note =
     attach_par o' now key d (mint_secret o' now key (r, source, note))"

section \<open>Oracle sessions\<close>

definition noted :: "attempt \<Rightarrow> string \<Rightarrow> attempt" where
  "noted a msg = (case a of (out, src, n) \<Rightarrow> (out, src, (if n = [] then [] else n @ '' | '') @ msg))"

definition oracle_s3 :: "'k oci_env \<Rightarrow> time \<Rightarrow> resolved \<Rightarrow> duration \<Rightarrow> string \<Rightarrow> attempt option" where
  "oracle_s3 o' now r d fallbackSource =
     (if s3CompatSTSWanted (oc_sts o') TypeOracle
      then Some (applyOptionalS3CompatSTS (oc_sts o') now r d fallbackSource
             (if vendorSTSEnabled (oc_sts o') ''ORACLE'' then SourceOracleSTS else SourceS3STS) ''Oracle'' noteOracle)
      else None)"

definition applyOptionalOracleSTS ::
  "'k oci_env \<Rightarrow> time \<Rightarrow> oci_cache \<Rightarrow> resolved \<Rightarrow> duration \<Rightarrow> string \<Rightarrow> oci_cache \<times> attempt" where
  "applyOptionalOracleSTS o' now cache r d fallbackSource =
     (if rsType r \<noteq> TypeOracle then (cache, r, fallbackSource, [])
      else (let s3 = oracle_s3 o' now r d fallbackSource
            in if \<not> ociNativeIAMEnabled (oc_sts o')
               then (cache, case s3 of Some a \<Rightarrow> a | None \<Rightarrow> (r, fallbackSource, noteOracle))
               else (case LoadOCIAPIKeyFromEnv o' of
                       Inl err \<Rightarrow>
                         (let msg = ''OCI native IAM enabled but key env incomplete: '' @ error_text err
                          in (cache, case s3 of Some a \<Rightarrow> noted a msg | None \<Rightarrow> (r, fallbackSource, msg)))
                     | Inr key \<Rightarrow>
                         (case TryOCIValidateUser o' now cache key of
                            (cache1, Inl err) \<Rightarrow>
                              (let msg = ''OCI IAM API-key validation failed: '' @ error_text err @
                                         ''; using embedded/S3-compat path''
                               in (cache1, case s3 of Some a \<Rightarrow> noted a msg | None \<Rightarrow> (r, fallbackSource, msg)))
                          | (cache1, Inr user) \<Rightarrow>
                              (let msg = ''OCI IAM API-key validated (user='' @ string_at user ''name'' @ '' region='' @
                                         okRegion key @ ''); mount uses S3-compat AK/SK when present''
                               in (cache1,
                                   case s3 of
                                     Some (out, src, n) \<Rightarrow>
                                       if src = SourceOracleSTS \<or> src = SourceS3STS
                                       then applyOCIStageCAssists o' now key out d src
                                              (if n \<noteq> [] then n @ '' | '' @ msg else msg)
                                       else applyOCIStageCAssists o' now key r d SourceOCIIAM
                                              (if rsAccessKey r = []
                                               then msg @ ''; no S3 access_key on provider '' @ [CHR 0xE2, CHR 0x80, CHR 0x94] @
                                                 '' enable AI_CLOUDHUB_OCI_CREATE_SECRET=1 to mint Customer Secret Key (best-effort)''
                                               else msg)
                                   | None \<Rightarrow>
                                       applyOCIStageCAssists o' now key r d SourceOCIIAM
                                         (if rsAccessKey r = []
                                          then msg @ ''; no S3 access_key on provider '' @ [CHR 0xE2, CHR 0x80, CHR 0x94] @
                                            '' enable AI_CLOUDHUB_OCI_CREATE_SECRET=1 to mint Customer Secret Key (best-effort)''
                                          else msg)))))))"

section \<open>The entry\<close>

definition applyOptionalTypeS3STS :: "sts_env \<Rightarrow> time \<Rightarrow> resolved \<Rightarrow> duration \<Rightarrow> string \<Rightarrow> attempt" where
  "applyOptionalTypeS3STS e now r d fallbackSource =
     (if looksLikeAWS r then applyOptionalAWSSTS e now r d fallbackSource
      else if \<not> s3STSEnabled e then (r, fallbackSource, [])
      else applyOptionalS3CompatSTS e now r d fallbackSource SourceS3STS ''S3'' [])"

definition applyOptionalSTS ::
  "'k oci_env \<Rightarrow> time \<Rightarrow> oci_cache \<Rightarrow> resolved \<Rightarrow> duration \<Rightarrow> string \<Rightarrow> oci_cache \<times> attempt" where
  "applyOptionalSTS o' now cache r d fallbackSource =
     (let e = oc_sts o'; t = rsType r
      in if t = TypeMinIO then (cache, applyOptionalMinioSTS e now r d fallbackSource)
         else if t = TypeS3 then (cache, applyOptionalTypeS3STS e now r d fallbackSource)
         else if t = TypeR2 then (cache, applyOptionalS3CompatSTS e now r d fallbackSource SourceS3STS ''R2'' noteR2)
         else if t = TypeB2 then (cache, applyOptionalS3CompatSTS e now r d fallbackSource SourceS3STS ''B2'' noteB2)
         else if t = TypeOSS then (cache, applyOptionalOSSSTS e now r d fallbackSource)
         else if t = TypeCOS then (cache, applyOptionalCOSSTS e now r d fallbackSource)
         else if t = TypeQiniu then (cache, applyOptionalQiniuSTS e now r d fallbackSource)
         else if t = TypeOracle then applyOptionalOracleSTS o' now cache r d fallbackSource
         else (cache, r, fallbackSource, []))"

section \<open>Facts\<close>

text \<open>
  What an attempt may do to a connection: leave it, or replace both keys by non-empty ones. The other
  fields are never touched.
\<close>

definition recredited :: "resolved \<Rightarrow> resolved \<Rightarrow> bool" where
  "recredited r out \<longleftrightarrow>
     out = r \<or> (\<exists>ak sk tok. ak \<noteq> [] \<and> sk \<noteq> [] \<and> out = r\<lparr>rsAccessKey := ak, rsSecretKey := sk, rsSessionToken := tok\<rparr>)"

lemma recredited_refl [simp]: "recredited r r"
  by (simp add: recredited_def)

lemma recredited_with: "tcAccess c \<noteq> [] \<Longrightarrow> tcSecret c \<noteq> [] \<Longrightarrow> recredited r (with_creds r c)"
  unfolding recredited_def with_creds_def by blast

lemma recredited_keys:
  assumes "recredited r out" "ak \<noteq> []" "sk \<noteq> []"
  shows "recredited r (out\<lparr>rsAccessKey := ak, rsSecretKey := sk\<rparr>)"
proof -
  have "out\<lparr>rsAccessKey := ak, rsSecretKey := sk\<rparr> =
      r\<lparr>rsAccessKey := ak, rsSecretKey := sk, rsSessionToken := rsSessionToken out\<rparr>"
    using assms(1) unfolding recredited_def by (cases r) auto
  then show ?thesis using assms(2,3) unfolding recredited_def by blast
qed

lemma checked_creds_nonempty: "checked_creds l now s a = Inr c \<Longrightarrow> tcAccess c \<noteq> [] \<and> tcSecret c \<noteq> []"
  by (auto simp: checked_creds_def split: sum.splits if_splits)

lemma TryS3_nonempty: "TryS3AssumeRole e now r d arn = Inr c \<Longrightarrow> tcAccess c \<noteq> [] \<and> tcSecret c \<noteq> []"
  by (auto simp: TryS3AssumeRole_def Let_def dest: checked_creds_nonempty split: if_splits)

lemma TryAWS_nonempty: "TryAWSAssumeRole e now r d = Inr c \<Longrightarrow> tcAccess c \<noteq> [] \<and> tcSecret c \<noteq> []"
  by (auto simp: TryAWSAssumeRole_def Let_def dest: checked_creds_nonempty split: if_splits)

lemma TryAliyun_nonempty: "TryAliyunAssumeRole e now r d = Inr c \<Longrightarrow> tcAccess c \<noteq> [] \<and> tcSecret c \<noteq> []"
  by (auto simp: TryAliyunAssumeRole_def Let_def split: if_splits sum.splits prod.splits)

lemma TryTencent_nonempty: "TryTencentAssumeRole e now r d = Inr c \<Longrightarrow> tcAccess c \<noteq> [] \<and> tcSecret c \<noteq> []"
  by (auto simp: TryTencentAssumeRole_def Let_def split: if_splits sum.splits prod.splits option.splits)

text \<open>An attempt under a fallback label: it recredits, and under that label it leaves the connection.\<close>

definition honest :: "resolved \<Rightarrow> string \<Rightarrow> attempt \<Rightarrow> bool" where
  "honest r fallback a \<longleftrightarrow> recredited r (fst a) \<and> (fst (snd a) = fallback \<longrightarrow> fst a = r)"

lemma S3Compat_honest:
  "success \<noteq> fallback \<Longrightarrow> honest r fallback (applyOptionalS3CompatSTS e now r d fallback success l n)"
  by (auto simp: honest_def applyOptionalS3CompatSTS_def recredited_with split: sum.splits dest: TryS3_nonempty)

lemma honest_same: "honest r f (r, s, n)"
  by (simp add: honest_def)

lemma honest_creds: "tcAccess c \<noteq> [] \<and> tcSecret c \<noteq> [] \<Longrightarrow> s \<noteq> f \<Longrightarrow> honest r f (with_creds r c, s, n)"
  by (simp add: honest_def recredited_with)

lemma honest_note: "honest r f a \<Longrightarrow> honest r f (noted a msg)"
  by (auto simp: honest_def noted_def split: prod.splits)

lemma honest_source: "honest r f (out, s, n) \<Longrightarrow> s' \<noteq> f \<Longrightarrow> honest r f (out, s', n')"
  by (simp add: honest_def)

lemma AWS_honest: "f \<noteq> SourceAWSSTS \<Longrightarrow> honest r f (applyOptionalAWSSTS e now r d f)"
  by (auto simp: applyOptionalAWSSTS_def honest_same honest_creds split: sum.splits dest: TryAWS_nonempty)

lemma Minio_honest: "f \<noteq> SourceMinioSTS \<Longrightarrow> honest r f (applyOptionalMinioSTS e now r d f)"
  by (simp add: applyOptionalMinioSTS_def honest_same S3Compat_honest)

lemma OSS_honest:
  assumes "f \<noteq> SourceAliyunSTS" "f \<noteq> SourceS3STS"
  shows "honest r f (applyOptionalOSSSTS e now r d f)"
proof -
  obtain out src n where A: "applyOptionalS3CompatSTS e now r d f SourceS3STS ''OSS'' [] = (out, src, n)"
    by (metis prod_cases3)
  have "honest r f (out, src, n)" "honest r f (out, src, [])"
    using S3Compat_honest [of SourceS3STS f r e now d "''OSS''" "[]"] assms
    unfolding A by (simp_all add: honest_def)
  moreover have "honest r f (applyOptionalS3CompatSTS e now r d f SourceS3STS ''OSS'' noteOSS)"
    using assms by (intro S3Compat_honest) simp
  ultimately show ?thesis
    using assms unfolding applyOptionalOSSSTS_def Let_def A
    by (simp add: honest_same) (auto simp: honest_same honest_creds split: sum.splits dest: TryAliyun_nonempty)
qed

lemma COS_honest:
  assumes "f \<noteq> SourceTencentSTS" "f \<noteq> SourceS3STS"
  shows "honest r f (applyOptionalCOSSTS e now r d f)"
proof -
  obtain out src n where A: "applyOptionalS3CompatSTS e now r d f SourceS3STS ''COS'' [] = (out, src, n)"
    by (metis prod_cases3)
  have "honest r f (out, src, n)" "honest r f (out, src, [])"
    using S3Compat_honest [of SourceS3STS f r e now d "''COS''" "[]"] assms
    unfolding A by (simp_all add: honest_def)
  moreover have "honest r f (applyOptionalS3CompatSTS e now r d f SourceS3STS ''COS'' noteCOS)"
    using assms by (intro S3Compat_honest) simp
  ultimately show ?thesis
    using assms unfolding applyOptionalCOSSTS_def Let_def A
    by (simp add: honest_same) (auto simp: honest_same honest_creds split: sum.splits dest: TryTencent_nonempty)
qed

lemma Qiniu_honest:
  assumes "f \<notin> {SourceQiniuSTS, SourceS3STS, SourceQiniuDownload}"
  shows "honest r f (applyOptionalQiniuSTS e now r d f)"
proof -
  have s3: "honest r f (applyOptionalS3CompatSTS e now r d f
      (if vendorSTSEnabled e ''QINIU'' then SourceQiniuSTS else SourceS3STS) ''Qiniu'' noteQiniu)"
    using assms by (intro S3Compat_honest) auto
  obtain out src n where A: "applyOptionalS3CompatSTS e now r d f
      (if vendorSTSEnabled e ''QINIU'' then SourceQiniuSTS else SourceS3STS) ''Qiniu'' noteQiniu = (out, src, n)"
    by (metis prod_cases3)
  show ?thesis
    using s3 assms unfolding A applyOptionalQiniuSTS_def
    by (simp add: honest_same A) (auto simp: honest_def)
qed

lemma secret_key_nonempty:
  "TryOCICreateCustomerSecretKey o' now key n = Inr (ak, sk) \<Longrightarrow> ak \<noteq> [] \<and> sk \<noteq> []"
  by (auto simp: TryOCICreateCustomerSecretKey_def Let_def and_then_def split: sum.splits if_splits)

lemma mint_secret_honest:
  assumes "honest r f (out, src, n)" "f \<noteq> SourceOCISecret"
  shows "honest r f (mint_secret o' now key (out, src, n))"
proof (cases "TryOCICreateCustomerSecretKey o' now key []")
  case (Inl err)
  then show ?thesis using assms by (simp add: mint_secret_def honest_def)
next
  case (Inr keys)
  obtain ak sk where K: "keys = (ak, sk)" by (cases keys)
  show ?thesis
    using assms secret_key_nonempty [OF Inr [unfolded K]]
    by (simp add: mint_secret_def honest_def Inr K recredited_keys)
qed

lemma attach_par_honest:
  assumes "honest r f (out, src, n)" "f \<noteq> SourceOCIPAR"
  shows "honest r f (attach_par o' now key d (out, src, n))"
  using assms by (auto simp: attach_par_def honest_def Let_def split: sum.splits)

lemma assists_honest:
  assumes "honest r f (out, src, n)" "f \<noteq> SourceOCISecret" "f \<noteq> SourceOCIPAR"
  shows "honest r f (applyOCIStageCAssists o' now key out d src n)"
  unfolding applyOCIStageCAssists_def
  by (metis assms attach_par_honest mint_secret_honest prod_cases3)

definition fallback_label :: "string \<Rightarrow> bool" where
  "fallback_label f \<longleftrightarrow> f = SourceEmbedded \<or> f = SourceRefresh"

lemma oracle_s3_honest: "fallback_label f \<Longrightarrow> oracle_s3 o' now r d f = Some a \<Longrightarrow> honest r f a"
  by (auto simp: oracle_s3_def fallback_label_def S3Compat_honest split: if_splits)

lemma iam_honest: "fallback_label f \<Longrightarrow> honest r f (r, SourceOCIIAM, n)"
  by (rule honest_same)

lemma Oracle_honest:
  assumes f: "fallback_label f"
  shows "honest r f (snd (applyOptionalOracleSTS o' now cache r d f))"
proof -
  have ne: "f \<noteq> SourceOCISecret" "f \<noteq> SourceOCIPAR" using f by (auto simp: fallback_label_def)
  have s3: "honest r f a" if "oracle_s3 o' now r d f = Some a" for a
    using oracle_s3_honest [OF f that] .
  have s3': "honest r f (out, src, m)" if "oracle_s3 o' now r d f = Some (out, src, n)" for out src n m
    using s3 [OF that] by (simp add: honest_def)
  show ?thesis
    unfolding applyOptionalOracleSTS_def Let_def
    by (auto simp: honest_same s3 honest_note assists_honest [OF _ ne] s3'
        split: sum.splits prod.splits option.splits)
qed

lemma applyOptionalSTS_honest:
  assumes "fallback_label f"
  shows "honest r f (snd (applyOptionalSTS o' now cache r d f))"
  using assms Oracle_honest [OF assms]
  unfolding applyOptionalSTS_def applyOptionalTypeS3STS_def Let_def fallback_label_def
  by (auto simp: honest_same S3Compat_honest AWS_honest Minio_honest OSS_honest COS_honest Qiniu_honest)

end
