(* ===== verification/Mount_Spec.thy ===== *)
theory Mount_Spec
  imports Drive_Service
begin

text \<open>
  Mount specifications and workspace manifests (\<open>internal/mountlib/rclone.go\<close>, \<open>internal/manifest/manifest.go\<close>)
  and the mount bundle of a drive (\<open>MountConfig\<close> of \<open>internal/drive/service.go\<close>). The operating system
  name is an argument, as it is for the drives. A nil slice is the empty list.
\<close>

section \<open>Mount specifications\<close>

abbreviation DefaultRemote :: string where "DefaultRemote \<equiv> ''aihub''"

record mount_spec =
  spRemoteName :: string
  spRemotePath :: string
  spMountPoint :: string
  spRcloneConf :: string
  spMode :: string

definition rcloneProvider :: "resolved \<Rightarrow> string" where
  "rcloneProvider r =
     (if rsProviderLabel r \<noteq> [] then rsProviderLabel r
      else if rsType r = TypeR2 then ''Cloudflare''
      else if rsType r = TypeMinIO then ''Minio'' else ''Other'')"

definition endpointURL :: "resolved \<Rightarrow> string" where
  "endpointURL r =
     (let scheme = (if rsUseSSL r then ''https'' else ''http'')
      in if prefix ''http://'' (rsEndpoint r) \<or> prefix ''https://'' (rsEndpoint r) then rsEndpoint r
         else scheme @ ''://'' @ rsEndpoint r)"

definition conf_lines :: "string \<Rightarrow> resolved \<Rightarrow> string list" where
  "conf_lines remote r =
     [''['' @ remote @ '']'', ''type = s3'', ''provider = '' @ rcloneProvider r,
      ''access_key_id = '' @ rsAccessKey r, ''secret_access_key = '' @ rsSecretKey r] @
     (if rsSessionToken r \<noteq> [] then [''session_token = '' @ rsSessionToken r] else []) @
     [''endpoint = '' @ endpointURL r, ''region = '' @ rsRegion r,
      (if rsForcePathStyle r then ''force_path_style = true'' else ''force_path_style = false''),
      ''acl = private'', ''no_check_bucket = true'']"

definition BuildConf :: "string \<Rightarrow> resolved \<Rightarrow> string" where
  "BuildConf remoteName r =
     concat (map (\<lambda>l. l @ newline) (conf_lines (if remoteName = [] then DefaultRemote else remoteName) r))"

definition RemotePath :: "string \<Rightarrow> string \<Rightarrow> string \<Rightarrow> string" where
  "RemotePath remote0 bucket prefix0 =
     (let remote = (if remote0 = [] then DefaultRemote else remote0);
          pre = trim_c (CHR ''/'') prefix0
      in if pre = [] then remote @ '':'' @ bucket else remote @ '':'' @ bucket @ ''/'' @ pre)"

definition NewSpec :: "resolved \<Rightarrow> string \<Rightarrow> string \<Rightarrow> string \<Rightarrow> string \<Rightarrow> mount_spec" where
  "NewSpec r bucket pre mountPoint mode =
     \<lparr>spRemoteName = DefaultRemote, spRemotePath = RemotePath DefaultRemote bucket pre,
      spMountPoint = mountPoint, spRcloneConf = BuildConf DefaultRemote r,
      spMode = (if mode = [] then ''mount'' else mode)\<rparr>"

definition MountArgs :: "mount_spec \<Rightarrow> string \<Rightarrow> string list" where
  "MountArgs spec confPath =
     [''mount'', spRemotePath spec, spMountPoint spec, ''--config'', confPath,
      ''--vfs-cache-mode'', ''full'', ''--dir-cache-time'', ''10s'']"

definition UnmountHint :: "string \<Rightarrow> string \<Rightarrow> string" where
  "UnmountHint goos mountPoint =
     (if goos = ''windows'' then ''stop hubd/rclone process holding the mount''
      else ''fusermount -u '' @ mountPoint @ '' 2>/dev/null || umount '' @ mountPoint)"

section \<open>Workspace manifests\<close>

record manifest_permissions =
  mpRead :: "string list"
  mpWrite :: "string list"

record agent_policy =
  apAgentID :: string
  apAllowedPaths :: "string list"
  apDenyUploadTools :: bool
  apInstructions :: string

record manifest_document =
  mdVersion :: int
  mdProduct :: string
  mdDriveID :: string
  mdMountPoint :: string
  mdMode :: string
  mdWriteBarrier :: string
  mdIssuedAt :: time
  mdExpiresAt :: time
  mdEnv :: "string gomap"
  mdAgent :: agent_policy
  mdPermissions :: "manifest_permissions option"

record manifest_input =
  miDriveID :: string
  miMountPoint :: string
  miMode :: string
  miAPIBase :: string
  miTTL :: duration
  miAgentID :: string
  miReadPrefixes :: "string list"
  miWritePrefixes :: "string list"

definition joinPrefixes :: "string \<Rightarrow> string list \<Rightarrow> string list" where
  "joinPrefixes mount prefs =
     map (\<lambda>p0. let p = trim_c (CHR ''/'') (trim_space p0)
               in if p = [] then mount else trim_right_c (CHR ''/'') mount @ ''/'' @ p) prefs"

text \<open>The union of the two lists in order, each path once.\<close>

fun add_unseen :: "string list \<Rightarrow> string list \<Rightarrow> string list" where
  "add_unseen acc [] = acc"
| "add_unseen acc (p # ps) = add_unseen (if p \<in> set acc then acc else acc @ [p]) ps"

definition allowed_paths :: "string \<Rightarrow> manifest_permissions option \<Rightarrow> string list" where
  "allowed_paths mount perms =
     (case perms of
        None \<Rightarrow> [mount]
      | Some p \<Rightarrow> (let allowed = add_unseen (add_unseen [] (mpRead p)) (mpWrite p)
                   in if allowed = [] then [mount] else allowed))"

definition manifest_env :: "manifest_input \<Rightarrow> string \<Rightarrow> string \<Rightarrow> string gomap" where
  "manifest_env inp mount mode =
     (let env = [(''AI_CLOUDHUB_WORKSPACE'', mount), (''AI_CLOUDHUB_DRIVE_ID'', miDriveID inp),
                 (''AI_CLOUDHUB_MODE'', mode), (''AI_CLOUDHUB_API'', miAPIBase inp)]
      in if miAgentID inp \<noteq> [] then gset ''AI_CLOUDHUB_AGENT_ID'' (miAgentID inp) env else env)"

definition manifest_Build :: "time \<Rightarrow> manifest_input \<Rightarrow> manifest_document" where
  "manifest_Build now inp =
     (let mode = (if miMode inp = [] then ''mount'' else miMode inp);
          mount = (if miMountPoint inp = [] then ''/workspace'' else miMountPoint inp);
          perms = (if miReadPrefixes inp \<noteq> [] \<or> miWritePrefixes inp \<noteq> []
                   then Some \<lparr>mpRead = joinPrefixes mount (miReadPrefixes inp),
                              mpWrite = joinPrefixes mount (miWritePrefixes inp)\<rparr>
                   else None)
      in \<lparr>mdVersion = (if perms = None then 1 else 2), mdProduct = ''AI-cloudhub'', mdDriveID = miDriveID inp,
          mdMountPoint = mount, mdMode = mode, mdWriteBarrier = ''fsync_on_close'', mdIssuedAt = now,
          mdExpiresAt = (if miTTL inp > 0 then now + miTTL inp else 0),
          mdEnv = manifest_env inp mount mode,
          mdAgent = \<lparr>apAgentID = miAgentID inp, apAllowedPaths = allowed_paths mount perms,
                     apDenyUploadTools = True,
                     apInstructions = ''All artifacts MUST be written under AI_CLOUDHUB_WORKSPACE (and permissions.write when set). Do not use cloud upload APIs.''\<rparr>,
          mdPermissions = perms\<rparr>)"

definition EnvFile :: "manifest_document \<Rightarrow> string" where
  "EnvFile d = concat (map (\<lambda>(k, v). k @ ''='' @ v @ newline) (mdEnv d))"

section \<open>The mount bundle of a drive\<close>

record mount_commands =
  mcWriteConf :: string
  mcMount :: string
  mcUnmount :: string

record mount_bundle =
  mbDrive :: drive
  mbProvider :: "(string \<times> string) list"
  mbRcloneConf :: string
  mbRemoteName :: string
  mbRemotePath :: string
  mbSpec :: mount_spec
  mbCommands :: mount_commands
  mbNote :: string

definition MountConfig :: "drive_service \<Rightarrow> memory \<Rightarrow> string \<Rightarrow> string \<Rightarrow> mount_bundle result" where
  "MountConfig sv m userID driveID =
     and_then (Drive_Get m userID driveID)
       (\<lambda>d. and_then (ResolveRecord (ds_providers sv) m userID (dProviderID d))
         (\<lambda>(r, rec).
            let spec = NewSpec r (dBucket d) (dPrefix d) (dMountPoint d) ''mount''
            in Inr \<lparr>mbDrive = d, mbProvider = Public rec, mbRcloneConf = spRcloneConf spec,
                    mbRemoteName = spRemoteName spec, mbRemotePath = spRemotePath spec, mbSpec = spec,
                    mbCommands =
                      \<lparr>mcWriteConf = ''# write rclone_conf to a local file; prefer hubd/runner + STS session'',
                       mcMount = ''rclone '' @ str_join '' '' (MountArgs spec ''/tmp/aihub-rclone.conf''),
                       mcUnmount = UnmountHint (ds_goos sv) (dMountPoint d)\<rparr>,
                    mbNote = ''Prefer POST /v1/drives/{id}/session for STS. hubd/runner consume session automatically.''\<rparr>))"

section \<open>Facts\<close>

lemma set_add_unseen [simp]: "set (add_unseen acc ps) = set acc \<union> set ps"
  by (induction acc ps rule: add_unseen.induct) auto

lemma distinct_add_unseen [simp]: "distinct acc \<Longrightarrow> distinct (add_unseen acc ps)"
  by (induction acc ps rule: add_unseen.induct) auto

lemma joinPrefixes_under:
  "p \<in> set (joinPrefixes mount prefs) \<Longrightarrow> p = mount \<or> prefix (trim_right_c (CHR ''/'') mount @ ''/'') p"
  by (auto simp: joinPrefixes_def Let_def)

lemma joinPrefixes_Nil [simp]: "joinPrefixes mount prefs = [] \<longleftrightarrow> prefs = []"
  by (simp add: joinPrefixes_def)

lemma allowed_paths_set:
  "set (allowed_paths mount (Some p)) = (if mpRead p = [] \<and> mpWrite p = [] then {mount} else set (mpRead p) \<union> set (mpWrite p))"
proof -
  have "add_unseen (add_unseen [] (mpRead p)) (mpWrite p) = [] \<longleftrightarrow> mpRead p = [] \<and> mpWrite p = []"
    by (metis (no_types, lifting) Un_empty set_add_unseen set_empty)
  then show ?thesis by (simp add: allowed_paths_def Let_def)
qed

text \<open>
  The paths of a manifest: without prefixes the mount point alone; with prefixes their images, without
  repetition, each the mount point or below it.
\<close>

lemma manifest_paths:
  fixes inp now
  defines "d \<equiv> manifest_Build now inp"
  shows "distinct (apAllowedPaths (mdAgent d))"
    and "apAllowedPaths (mdAgent d) \<noteq> []"
    and "p \<in> set (apAllowedPaths (mdAgent d)) \<Longrightarrow>
      p = mdMountPoint d \<or> prefix (trim_right_c (CHR ''/'') (mdMountPoint d) @ ''/'') p"
proof -
  show "distinct (apAllowedPaths (mdAgent d))"
    by (simp add: d_def manifest_Build_def allowed_paths_def Let_def)
  show "apAllowedPaths (mdAgent d) \<noteq> []"
    by (simp add: d_def manifest_Build_def allowed_paths_def Let_def)
  show "p = mdMountPoint d \<or> prefix (trim_right_c (CHR ''/'') (mdMountPoint d) @ ''/'') p"
    if "p \<in> set (apAllowedPaths (mdAgent d))"
  proof (cases "miReadPrefixes inp = [] \<and> miWritePrefixes inp = []")
    case True
    with that show ?thesis by (auto simp: d_def manifest_Build_def allowed_paths_def Let_def)
  next
    case False
    with that show ?thesis
      unfolding d_def manifest_Build_def
      by (auto simp: Let_def allowed_paths_set dest!: joinPrefixes_under split: if_splits)
  qed
qed

end
