(* ===== verification/Sts_Session.thy ===== *)
theory Sts_Session
  imports Sts_Oci Mount_Spec
begin

text \<open>
  Mount sessions (\<open>internal/sts/session.go\<close>) and their use by the drive service (\<open>IssueSession\<close>,
  \<open>RefreshSession\<close> of \<open>internal/drive/binding.go\<close>). Both maps of the service hold pointers to the same
  session, so the sessions live in a heap, a list indexed by the pointer, and a refresh through one map
  is seen through the other. The cache of the Oracle assistance is passed along.
\<close>

record mount_session =
  seID :: string
  seUserID :: string
  seDriveID :: string
  seDeviceID :: string
  seMountPoint :: string
  seMode :: string
  seExpiresAt :: time
  seSpec :: mount_spec
  seManifest :: manifest_document
  seToken :: string
  seSource :: string
  seNote :: string
  seAgentID :: string
  seReadPrefixes :: "string list"
  seWritePrefixes :: "string list"

record sts_service =
  ss_ttl :: duration
  ss_apiBase :: string
  ss_heap :: "mount_session list"
  ss_byToken :: "nat gomap"
  ss_byID :: "nat gomap"

record issue_input =
  iiUserID :: string
  iiDriveID :: string
  iiDeviceID :: string
  iiMountPoint :: string
  iiMode :: string
  iiBucket :: string
  iiPrefix :: string
  iiResolved :: "resolved option"
  iiAgentID :: string
  iiReadPrefixes :: "string list"
  iiWritePrefixes :: "string list"

section \<open>The session service\<close>

definition New_sts :: "duration \<Rightarrow> string \<Rightarrow> sts_service" where
  "New_sts ttl apiBase =
     \<lparr>ss_ttl = (if ttl \<le> 0 then minutes 30 else ttl),
      ss_apiBase = (if apiBase = [] then ''http://127.0.0.1:8080'' else apiBase),
      ss_heap = [], ss_byToken = [], ss_byID = []\<rparr>"

definition randomToken :: "draw \<Rightarrow> string result" where
  "randomToken dr = (case dr_rand dr of Inl e \<Rightarrow> Inl (Errorf e) | Inr b \<Rightarrow> Inr (lower_hex b))"

definition session_manifest ::
  "sts_service \<Rightarrow> time \<Rightarrow> string \<Rightarrow> string \<Rightarrow> string \<Rightarrow> string \<Rightarrow> string list \<Rightarrow> string list \<Rightarrow> manifest_document" where
  "session_manifest s now driveID mountPoint mode agentID reads writes =
     manifest_Build now \<lparr>miDriveID = driveID, miMountPoint = mountPoint, miMode = mode, miAPIBase = ss_apiBase s,
       miTTL = ss_ttl s, miAgentID = agentID, miReadPrefixes = reads, miWritePrefixes = writes\<rparr>"

definition issued_session ::
  "sts_service \<Rightarrow> draw \<Rightarrow> issue_input \<Rightarrow> attempt \<Rightarrow> string \<Rightarrow> mount_session" where
  "issued_session s dr inp a tok =
     (case a of (r, source, n) \<Rightarrow>
        let mode = (if iiMode inp = [] then ''mount'' else iiMode inp)
        in \<lparr>seID = dr_id dr, seUserID = iiUserID inp, seDriveID = iiDriveID inp, seDeviceID = iiDeviceID inp,
            seMountPoint = iiMountPoint inp, seMode = mode, seExpiresAt = dr_now dr + ss_ttl s,
            seSpec = NewSpec r (iiBucket inp) (iiPrefix inp) (iiMountPoint inp) mode,
            seManifest = session_manifest s (dr_now dr) (iiDriveID inp) (iiMountPoint inp) mode (iiAgentID inp)
                           (iiReadPrefixes inp) (iiWritePrefixes inp),
            seToken = tok, seSource = source, seNote = n, seAgentID = iiAgentID inp,
            seReadPrefixes = iiReadPrefixes inp, seWritePrefixes = iiWritePrefixes inp\<rparr>)"

text \<open>The result is a pointer.\<close>

definition Session_Issue ::
  "'k oci_env \<Rightarrow> draw \<Rightarrow> oci_cache \<Rightarrow> sts_service \<Rightarrow> issue_input \<Rightarrow> (oci_cache \<times> sts_service) \<times> nat result" where
  "Session_Issue env dr cache s inp =
     (case iiResolved inp of
        None \<Rightarrow> ((cache, s), Inl (Errorf ''resolved provider required''))
      | Some r \<Rightarrow>
          if iiMountPoint inp = [] then ((cache, s), Inl (Errorf ''mount_point required''))
          else (case applyOptionalSTS env (dr_now dr) cache r (ss_ttl s) SourceEmbedded of
                  (cache1, a) \<Rightarrow>
                    (case randomToken dr of
                       Inl e \<Rightarrow> ((cache1, s), Inl e)
                     | Inr tok \<Rightarrow>
                         (let sess = issued_session s dr inp a tok; p = length (ss_heap s)
                          in ((cache1, s\<lparr>ss_heap := ss_heap s @ [sess],
                                         ss_byToken := gset tok p (ss_byToken s),
                                         ss_byID := gset (seID sess) p (ss_byID s)\<rparr>), Inr p)))))"

definition GetByToken :: "time \<Rightarrow> sts_service \<Rightarrow> string \<Rightarrow> nat result" where
  "GetByToken now s token =
     (case gget (ss_byToken s) token of
        None \<Rightarrow> Inl (Errorf ''invalid session token'')
      | Some p \<Rightarrow> if now > seExpiresAt (ss_heap s ! p) then Inl (Errorf ''session expired'') else Inr p)"

definition Session_Revoke :: "sts_service \<Rightarrow> string \<Rightarrow> sts_service" where
  "Session_Revoke s i =
     (case gget (ss_byID s) i of
        None \<Rightarrow> s
      | Some p \<Rightarrow> s\<lparr>ss_byToken := gdel (seToken (ss_heap s ! p)) (ss_byToken s), ss_byID := gdel i (ss_byID s)\<rparr>)"

definition refreshed_session ::
  "sts_service \<Rightarrow> time \<Rightarrow> mount_session \<Rightarrow> attempt \<Rightarrow> string \<Rightarrow> string \<Rightarrow> string \<Rightarrow> mount_session" where
  "refreshed_session s now old a bucket pre tok =
     (case a of (r, source, n) \<Rightarrow>
        old\<lparr>seToken := tok, seExpiresAt := now + ss_ttl s,
            seSpec := NewSpec r bucket pre (seMountPoint old) (seMode old),
            seManifest := session_manifest s now (seDriveID old) (seMountPoint old) (seMode old) (seAgentID old)
                            (seReadPrefixes old) (seWritePrefixes old),
            seSource := source, seNote := n\<rparr>)"

definition Session_Refresh ::
  "'k oci_env \<Rightarrow> draw \<Rightarrow> oci_cache \<Rightarrow> sts_service \<Rightarrow> string \<Rightarrow> resolved option \<Rightarrow> string \<Rightarrow> string
   \<Rightarrow> (oci_cache \<times> sts_service) \<times> nat result" where
  "Session_Refresh env dr cache s oldToken resolved bucket pre =
     (case resolved of
        None \<Rightarrow> ((cache, s), Inl (Errorf ''resolved provider required''))
      | Some r \<Rightarrow>
          (case gget (ss_byToken s) oldToken of
             None \<Rightarrow> ((cache, s), Inl (Errorf ''invalid session token''))
           | Some p \<Rightarrow>
               (let old = ss_heap s ! p; now = dr_now dr
                in if now > seExpiresAt old + minutes 2
                   then ((cache, s), Inl (Errorf ''session expired beyond grace''))
                   else (case applyOptionalSTS env now cache r (ss_ttl s) SourceRefresh of
                           (cache1, a) \<Rightarrow>
                             (case randomToken dr of
                                Inl e \<Rightarrow> ((cache1, s), Inl e)
                              | Inr tok \<Rightarrow>
                                  ((cache1, s\<lparr>ss_heap := (ss_heap s)[p := refreshed_session s now old a bucket pre tok],
                                              ss_byToken := gset tok p (gdel (seToken old) (ss_byToken s))\<rparr>), Inr p))))))"

section \<open>Sessions of drives\<close>

record session_opts =
  soAgentID :: string
  soReadPrefixes :: "string list"
  soWritePrefixes :: "string list"

record session_bundle =
  sbBinding :: "binding option"
  sbDrive :: drive
  sbSession :: mount_session
  sbManifest :: manifest_document
  sbSpec :: mount_spec
  sbNote :: string

text \<open>\<open>sess.Manifest.Env["AI_CLOUDHUB_STORAGE_REGION"] = region\<close> through the pointer.\<close>

definition with_region :: "string \<Rightarrow> mount_session \<Rightarrow> mount_session" where
  "with_region region se =
     se\<lparr>seManifest := (seManifest se)\<lparr>mdEnv := gset ''AI_CLOUDHUB_STORAGE_REGION'' region (mdEnv (seManifest se))\<rparr>\<rparr>"

definition note_region :: "string \<Rightarrow> nat \<Rightarrow> sts_service \<Rightarrow> sts_service" where
  "note_region region p s =
     (if region = [] then s else s\<lparr>ss_heap := (ss_heap s)[p := with_region region (ss_heap s ! p)]\<rparr>)"

definition session_answer :: "binding option \<Rightarrow> drive \<Rightarrow> mount_session \<Rightarrow> string \<Rightarrow> session_bundle" where
  "session_answer b d se n =
     \<lparr>sbBinding = b, sbDrive = d, sbSession = se, sbManifest = seManifest se, sbSpec = seSpec se,
      sbNote = (if seNote se = [] then n else n @ '' '' @ seNote se)\<rparr>"

definition IssueSessionOpts ::
  "drive_service \<Rightarrow> 'k oci_env \<Rightarrow> draw \<Rightarrow> memory \<Rightarrow> oci_cache \<Rightarrow> sts_service option \<Rightarrow> string \<Rightarrow> string \<Rightarrow> string
   \<Rightarrow> string \<Rightarrow> string \<Rightarrow> session_opts \<Rightarrow> (oci_cache \<times> sts_service option) \<times> session_bundle result" where
  "IssueSessionOpts sv env dr m cache sts userID driveID deviceID mountPoint0 mode0 opts =
     (case sts of
        None \<Rightarrow> ((cache, sts), Inl (Errorf ''sts not configured''))
      | Some s \<Rightarrow>
          (case and_then (Drive_Get m userID driveID)
                  (\<lambda>d. and_then (ResolveRecord (ds_providers sv) m userID (dProviderID d)) (\<lambda>(r, _). Inr (d, r))) of
             Inl e \<Rightarrow> ((cache, sts), Inl e)
           | Inr (d, r) \<Rightarrow>
               (case Session_Issue env dr cache s
                       \<lparr>iiUserID = userID, iiDriveID = driveID, iiDeviceID = deviceID,
                        iiMountPoint = (if mountPoint0 = [] then dMountPoint d else mountPoint0),
                        iiMode = (if mode0 = [] then ''mount'' else mode0), iiBucket = dBucket d, iiPrefix = dPrefix d,
                        iiResolved = Some r, iiAgentID = soAgentID opts, iiReadPrefixes = soReadPrefixes opts,
                        iiWritePrefixes = soWritePrefixes opts\<rparr> of
                  ((cache1, s1), Inl e) \<Rightarrow> ((cache1, Some s1), Inl e)
                | ((cache1, s1), Inr p) \<Rightarrow>
                    (let s2 = note_region (dRegion d) p s1;
                         n = ''Refresh session before expires_at. Runtime must not persist secrets beyond session TTL. BYOC: run on user compute only.'' @
                             (if dRegion d = [] then [] else '' AI_CLOUDHUB_STORAGE_REGION='' @ dRegion d)
                     in ((cache1, Some s2), Inr (session_answer None d (ss_heap s2 ! p) n))))))"

definition IssueSession ::
  "drive_service \<Rightarrow> 'k oci_env \<Rightarrow> draw \<Rightarrow> memory \<Rightarrow> oci_cache \<Rightarrow> sts_service option \<Rightarrow> string \<Rightarrow> string \<Rightarrow> string
   \<Rightarrow> string \<Rightarrow> string \<Rightarrow> (oci_cache \<times> sts_service option) \<times> session_bundle result" where
  "IssueSession sv env dr m cache sts userID driveID deviceID mountPoint mode =
     IssueSessionOpts sv env dr m cache sts userID driveID deviceID mountPoint mode
       \<lparr>soAgentID = [], soReadPrefixes = [], soWritePrefixes = []\<rparr>"

definition IssueSessionForBindingOpts ::
  "drive_service \<Rightarrow> 'k oci_env \<Rightarrow> draw \<Rightarrow> memory \<Rightarrow> oci_cache \<Rightarrow> sts_service option \<Rightarrow> string \<Rightarrow> string
   \<Rightarrow> session_opts \<Rightarrow> (oci_cache \<times> sts_service option) \<times> session_bundle result" where
  "IssueSessionForBindingOpts sv env dr m cache sts userID bindingID opts =
     (case Drive_GetBinding m userID bindingID of
        Inl e \<Rightarrow> ((cache, sts), Inl e)
      | Inr b \<Rightarrow>
          (case IssueSessionOpts sv env dr m cache sts userID (bDriveID b) (bDeviceID b) (bMountPoint b) (bMode b) opts of
             (st, Inl e) \<Rightarrow> (st, Inl e)
           | (st, Inr bundle) \<Rightarrow> (st, Inr (bundle\<lparr>sbBinding := Some b\<rparr>))))"

definition IssueSessionForBinding ::
  "drive_service \<Rightarrow> 'k oci_env \<Rightarrow> draw \<Rightarrow> memory \<Rightarrow> oci_cache \<Rightarrow> sts_service option \<Rightarrow> string \<Rightarrow> string
   \<Rightarrow> (oci_cache \<times> sts_service option) \<times> session_bundle result" where
  "IssueSessionForBinding sv env dr m cache sts userID bindingID =
     IssueSessionForBindingOpts sv env dr m cache sts userID bindingID
       \<lparr>soAgentID = [], soReadPrefixes = [], soWritePrefixes = []\<rparr>"

text \<open>The owner and the drive are compared after the session has been refreshed.\<close>

definition RefreshSession ::
  "drive_service \<Rightarrow> 'k oci_env \<Rightarrow> draw \<Rightarrow> memory \<Rightarrow> oci_cache \<Rightarrow> sts_service option \<Rightarrow> string \<Rightarrow> string \<Rightarrow> string
   \<Rightarrow> (oci_cache \<times> sts_service option) \<times> session_bundle result" where
  "RefreshSession sv env dr m cache sts userID token driveID =
     (case sts of
        None \<Rightarrow> ((cache, sts), Inl (Errorf ''sts not configured''))
      | Some s \<Rightarrow>
          if token = [] \<or> driveID = [] then ((cache, sts), Inl (Errorf ''session_token and drive_id required''))
          else (case and_then (Drive_Get m userID driveID)
                  (\<lambda>d. and_then (ResolveRecord (ds_providers sv) m userID (dProviderID d)) (\<lambda>(r, _). Inr (d, r))) of
                  Inl e \<Rightarrow> ((cache, sts), Inl e)
                | Inr (d, r) \<Rightarrow>
                    (case Session_Refresh env dr cache s token (Some r) (dBucket d) (dPrefix d) of
                       ((cache1, s1), Inl e) \<Rightarrow> ((cache1, Some s1), Inl e)
                     | ((cache1, s1), Inr p) \<Rightarrow>
                         if seUserID (ss_heap s1 ! p) \<noteq> userID \<or> seDriveID (ss_heap s1 ! p) \<noteq> driveID
                         then ((cache1, Some s1), Inl (Errorf ''session mismatch''))
                         else (let s2 = note_region (dRegion d) p s1
                               in ((cache1, Some s2),
                                   Inr (session_answer None d (ss_heap s2 ! p)
                                     ''session refreshed; update local rclone conf if credentials rotated''))))))"

end
