(* ===== verification/Sts_Properties.thy ===== *)
theory Sts_Properties
  imports Sts_Session
begin

text \<open>
  Facts of the mount sessions: the two maps of the service always agree (\<open>sessions_ok\<close>), over every run
  of the service; the properties of tokens, of a refresh and of the temporary credentials rest on it.
\<close>

section \<open>Runs of the session service\<close>

datatype session_event = EvIssue string | EvRefresh string string | EvRevoke string | EvRegion nat

text \<open>
  A step draws a token no session has had and an identifier no session has; \<open>used\<close> collects the tokens.
  The last step is the edit of the environment of a manifest by the drive service.
\<close>

inductive session_step ::
  "'k oci_env \<Rightarrow> sts_service \<times> string set \<Rightarrow> session_event \<Rightarrow> sts_service \<times> string set \<Rightarrow> bool" for env where
  issue: "Session_Issue env dr cache s inp = ((cache1, s1), Inr p) \<Longrightarrow> randomToken dr = Inr tok \<Longrightarrow>
    tok \<notin> used \<Longrightarrow> gget (ss_byID s) (dr_id dr) = None \<Longrightarrow>
    session_step env (s, used) (EvIssue tok) (s1, insert tok used)"
| refresh: "Session_Refresh env dr cache s old r bucket pre = ((cache1, s1), Inr p) \<Longrightarrow> randomToken dr = Inr tok \<Longrightarrow>
    tok \<notin> used \<Longrightarrow> session_step env (s, used) (EvRefresh old tok) (s1, insert tok used)"
| revoke: "session_step env (s, used) (EvRevoke i) (Session_Revoke s i, used)"
| region: "p < length (ss_heap s) \<Longrightarrow> session_step env (s, used) (EvRegion p) (note_region region p s, used)"

inductive session_run :: "'k oci_env \<Rightarrow> sts_service \<times> string set \<Rightarrow> sts_service \<times> string set \<Rightarrow> bool" for env where
  stop: "session_run env st st"
| more: "session_run env st st1 \<Longrightarrow> session_step env st1 ev st2 \<Longrightarrow> session_run env st st2"

inductive_cases session_stepE: "session_step env (s, used) ev (s1, used1)"
inductive_cases refresh_stepE: "session_step env (s, used) (EvRefresh old tok) (s1, used1)"
inductive_cases revoke_stepE: "session_step env (s, used) (EvRevoke i) (s1, used1)"

section \<open>The invariant\<close>

text \<open>The prefixes a session was issued with are those of its manifest.\<close>

definition grant_ok :: "mount_session \<Rightarrow> bool" where
  "grant_ok se \<longleftrightarrow> seMountPoint se \<noteq> [] \<and> mdMountPoint (seManifest se) = seMountPoint se \<and>
     mdPermissions (seManifest se) =
       (if seReadPrefixes se \<noteq> [] \<or> seWritePrefixes se \<noteq> []
        then Some \<lparr>mpRead = joinPrefixes (seMountPoint se) (seReadPrefixes se),
                   mpWrite = joinPrefixes (seMountPoint se) (seWritePrefixes se)\<rparr>
        else None) \<and>
     apAllowedPaths (mdAgent (seManifest se)) = allowed_paths (seMountPoint se) (mdPermissions (seManifest se))"

definition points :: "sts_service \<Rightarrow> string \<Rightarrow> nat \<Rightarrow> bool" where
  "points s t p \<longleftrightarrow> p < length (ss_heap s) \<and> seToken (ss_heap s ! p) = t \<and>
     gget (ss_byToken s) t = Some p \<and> gget (ss_byID s) (seID (ss_heap s ! p)) = Some p"

definition sessions_ok :: "sts_service \<Rightarrow> string set \<Rightarrow> bool" where
  "sessions_ok s used \<longleftrightarrow>
     (\<forall>t p. gget (ss_byToken s) t = Some p \<longrightarrow> points s t p \<and> t \<in> used) \<and>
     (\<forall>i p. gget (ss_byID s) i = Some p \<longrightarrow> seID (ss_heap s ! p) = i \<and> points s (seToken (ss_heap s ! p)) p) \<and>
     (\<forall>se \<in> set (ss_heap s). grant_ok se)"

lemma sessions_okI:
  assumes "\<And>t p. gget (ss_byToken s) t = Some p \<Longrightarrow> points s t p \<and> t \<in> used"
    and "\<And>i p. gget (ss_byID s) i = Some p \<Longrightarrow> seID (ss_heap s ! p) = i \<and> points s (seToken (ss_heap s ! p)) p"
    and "\<And>se. se \<in> set (ss_heap s) \<Longrightarrow> grant_ok se"
  shows "sessions_ok s used"
  using assms unfolding sessions_ok_def by blast

lemma sessions_ok_token: "sessions_ok s used \<Longrightarrow> gget (ss_byToken s) t = Some p \<Longrightarrow> points s t p \<and> t \<in> used"
  unfolding sessions_ok_def by blast

lemma sessions_ok_id:
  "sessions_ok s used \<Longrightarrow> gget (ss_byID s) i = Some p \<Longrightarrow>
   seID (ss_heap s ! p) = i \<and> points s (seToken (ss_heap s ! p)) p"
  unfolding sessions_ok_def by blast

lemma sessions_ok_grant: "sessions_ok s used \<Longrightarrow> se \<in> set (ss_heap s) \<Longrightarrow> grant_ok se"
  unfolding sessions_ok_def by blast

lemma New_ok: "sessions_ok (New_sts ttl base) {}"
  by (rule sessions_okI) (simp_all add: New_sts_def)

lemma issued_grant: "iiMountPoint inp \<noteq> [] \<Longrightarrow> grant_ok (issued_session s dr inp a tok)"
  by (auto simp: grant_ok_def issued_session_def session_manifest_def manifest_Build_def Let_def split: prod.splits)

lemma refreshed_grant: "grant_ok old \<Longrightarrow> grant_ok (refreshed_session s now old a bucket pre tok)"
  by (auto simp: grant_ok_def refreshed_session_def session_manifest_def manifest_Build_def Let_def split: prod.splits)

lemma with_region_grant: "grant_ok se \<Longrightarrow> grant_ok (with_region region se)"
  by (simp add: grant_ok_def with_region_def)

lemma session_issue_cases:
  assumes "Session_Issue env dr cache s inp = ((cache1, s1), Inr p)"
  obtains tok a where "randomToken dr = Inr tok" "iiMountPoint inp \<noteq> []" "p = length (ss_heap s)"
    "s1 = s\<lparr>ss_heap := ss_heap s @ [issued_session s dr inp a tok],
            ss_byToken := gset tok p (ss_byToken s), ss_byID := gset (dr_id dr) p (ss_byID s)\<rparr>"
proof -
  have id: "seID (issued_session s dr inp a tok) = dr_id dr" for a tok
    by (simp add: issued_session_def Let_def split: prod.splits)
  show thesis
    using assms that
    by (auto simp: Session_Issue_def Let_def id split: option.splits if_splits prod.splits sum.splits)
qed

lemma session_refresh_cases:
  assumes "Session_Refresh env dr cache s old r bucket pre = ((cache1, s1), Inr p)"
  obtains tok a where "randomToken dr = Inr tok" "gget (ss_byToken s) old = Some p"
    "dr_now dr \<le> seExpiresAt (ss_heap s ! p) + minutes 2"
    "s1 = s\<lparr>ss_heap := (ss_heap s)[p := refreshed_session s (dr_now dr) (ss_heap s ! p) a bucket pre tok],
            ss_byToken := gset tok p (gdel (seToken (ss_heap s ! p)) (ss_byToken s))\<rparr>"
  using assms that
  by (auto simp: Session_Refresh_def Let_def split: option.splits if_splits prod.splits sum.splits)

lemma issued_fields [simp]:
  "seID (issued_session s dr inp a tok) = dr_id dr" "seToken (issued_session s dr inp a tok) = tok"
  by (simp_all add: issued_session_def Let_def split: prod.splits)

lemma refreshed_fields [simp]:
  "seID (refreshed_session s now old a b p tok) = seID old"
  "seToken (refreshed_session s now old a b p tok) = tok"
  by (simp_all add: refreshed_session_def split: prod.splits)

lemma Issue_ok:
  assumes ok: "sessions_ok s used" and call: "Session_Issue env dr cache s inp = ((cache1, s1), Inr p)"
    and tok: "randomToken dr = Inr tok" "tok \<notin> used" and fresh: "gget (ss_byID s) (dr_id dr) = None"
  shows "sessions_ok s1 (insert tok used)"
proof -
  obtain a where mp: "iiMountPoint inp \<noteq> []" and p: "p = length (ss_heap s)"
    and s1: "s1 = s\<lparr>ss_heap := ss_heap s @ [issued_session s dr inp a tok],
            ss_byToken := gset tok p (ss_byToken s), ss_byID := gset (dr_id dr) p (ss_byID s)\<rparr>"
    using session_issue_cases [OF call] tok(1) by (metis sum.inject(2))
  have keep: "points s1 t q" if "points s t q" for t q
  proof -
    from that have "t \<in> used" "q < length (ss_heap s)"
      using sessions_ok_token [OF ok] by (auto simp: points_def)
    then show ?thesis using that tok(2) fresh by (auto simp: s1 points_def nth_append)
  qed
  have self: "points s1 tok p" by (simp add: s1 points_def p nth_append)
  show ?thesis
  proof (rule sessions_okI)
    fix t q assume t: "gget (ss_byToken s1) t = Some q"
    show "points s1 t q \<and> t \<in> insert tok used"
    proof (cases "t = tok")
      case True
      with t self show ?thesis by (simp add: s1)
    next
      case False
      with t have "gget (ss_byToken s) t = Some q" by (simp add: s1)
      from sessions_ok_token [OF ok this] keep show ?thesis by blast
    qed
  next
    fix i q assume i: "gget (ss_byID s1) i = Some q"
    show "seID (ss_heap s1 ! q) = i \<and> points s1 (seToken (ss_heap s1 ! q)) q"
    proof (cases "i = dr_id dr")
      case True
      with i self show ?thesis by (simp add: s1 p nth_append)
    next
      case False
      with i have "gget (ss_byID s) i = Some q" by (simp add: s1)
      from sessions_ok_id [OF ok this] have q: "seID (ss_heap s ! q) = i" "points s (seToken (ss_heap s ! q)) q" by auto
      then have "ss_heap s1 ! q = ss_heap s ! q" by (simp add: s1 points_def nth_append)
      with q keep show ?thesis by simp
    qed
  next
    fix se assume "se \<in> set (ss_heap s1)"
    then show "grant_ok se" using sessions_ok_grant [OF ok] mp by (auto simp: s1 issued_grant)
  qed
qed

text \<open>A new token for the session of a pointer.\<close>

lemma rotate_ok:
  assumes ok: "sessions_ok s used" and p: "points s old p" and tok: "tok \<notin> used"
    and se: "seID se = seID (ss_heap s ! p)" "seToken se = tok" "grant_ok se"
    and s1: "s1 = s\<lparr>ss_heap := (ss_heap s)[p := se], ss_byToken := gset tok p (gdel old (ss_byToken s))\<rparr>"
  shows "sessions_ok s1 (insert tok used)"
proof -
  have p': "p < length (ss_heap s)" "gget (ss_byToken s) old = Some p" "seToken (ss_heap s ! p) = old"
    using p by (auto simp: points_def)
  have self: "points s1 tok p" using p se by (simp add: s1 points_def)
  have keep: "points s1 t q" if "points s t q" "q \<noteq> p" for t q
  proof -
    have "t \<in> used" using that(1) sessions_ok_token [OF ok, of t q] by (simp add: points_def)
    moreover have "t \<noteq> old" using that p' by (auto simp: points_def)
    ultimately show ?thesis using that tok by (auto simp: s1 points_def)
  qed
  show ?thesis
  proof (rule sessions_okI)
    fix t q assume t: "gget (ss_byToken s1) t = Some q"
    show "points s1 t q \<and> t \<in> insert tok used"
    proof (cases "t = tok")
      case True
      with t self show ?thesis by (simp add: s1)
    next
      case False
      with t have t': "gget (ss_byToken s) t = Some q" "t \<noteq> old" by (auto simp: s1 split: if_splits)
      with sessions_ok_token [OF ok t'(1)] p' have "q \<noteq> p" by (auto simp: points_def)
      with sessions_ok_token [OF ok t'(1)] keep show ?thesis by blast
    qed
  next
    fix i q assume "gget (ss_byID s1) i = Some q"
    then have i: "gget (ss_byID s) i = Some q" by (simp add: s1)
    show "seID (ss_heap s1 ! q) = i \<and> points s1 (seToken (ss_heap s1 ! q)) q"
    proof (cases "q = p")
      case True
      with sessions_ok_id [OF ok i] self se p' show ?thesis by (simp add: s1)
    next
      case False
      with sessions_ok_id [OF ok i] keep [OF _ False] show ?thesis by (auto simp: s1)
    qed
  next
    fix x assume "x \<in> set (ss_heap s1)"
    then show "grant_ok x" using sessions_ok_grant [OF ok] se(3) by (auto simp: s1 dest: set_update_subset_insert [THEN subsetD])
  qed
qed

lemma Refresh_ok:
  assumes ok: "sessions_ok s used"
    and call: "Session_Refresh env dr cache s old r bucket pre = ((cache1, s1), Inr p)"
    and tok: "randomToken dr = Inr tok" "tok \<notin> used"
  shows "sessions_ok s1 (insert tok used)"
proof -
  from call obtain tok' a where tok': "randomToken dr = Inr tok'" and p: "gget (ss_byToken s) old = Some p"
    and s1': "s1 = s\<lparr>ss_heap := (ss_heap s)[p := refreshed_session s (dr_now dr) (ss_heap s ! p) a bucket pre tok'],
            ss_byToken := gset tok' p (gdel (seToken (ss_heap s ! p)) (ss_byToken s))\<rparr>"
    by (rule session_refresh_cases)
  have "tok' = tok" using tok' tok(1) by simp
  with s1' have s1: "s1 = s\<lparr>ss_heap := (ss_heap s)[p := refreshed_session s (dr_now dr) (ss_heap s ! p) a bucket pre tok],
            ss_byToken := gset tok p (gdel (seToken (ss_heap s ! p)) (ss_byToken s))\<rparr>"
    by (simp only:)
  from sessions_ok_token [OF ok p] have pt: "points s old p" by simp
  then have t: "seToken (ss_heap s ! p) = old" and m: "ss_heap s ! p \<in> set (ss_heap s)" by (simp_all add: points_def)
  from m have g: "grant_ok (refreshed_session s (dr_now dr) (ss_heap s ! p) a bucket pre tok)"
    by (intro refreshed_grant sessions_ok_grant [OF ok])
  show ?thesis
  proof (rule rotate_ok [OF ok pt tok(2) _ _ g])
    show "s1 = s\<lparr>ss_heap := (ss_heap s)[p := refreshed_session s (dr_now dr) (ss_heap s ! p) a bucket pre tok],
        ss_byToken := gset tok p (gdel old (ss_byToken s))\<rparr>"
      using s1 t by (simp only:)
  qed (rule refreshed_fields)+
qed

lemma Revoke_ok:
  assumes ok: "sessions_ok s used"
  shows "sessions_ok (Session_Revoke s i) used"
proof (cases "gget (ss_byID s) i")
  case None
  then show ?thesis using ok by (simp add: Session_Revoke_def)
next
  case (Some p)
  let ?t = "seToken (ss_heap s ! p)"
  have p: "seID (ss_heap s ! p) = i" "points s ?t p" using sessions_ok_id [OF ok Some] by auto
  have s1: "Session_Revoke s i = s\<lparr>ss_byToken := gdel ?t (ss_byToken s), ss_byID := gdel i (ss_byID s)\<rparr>"
    by (simp add: Session_Revoke_def Some)
  have keep: "points (Session_Revoke s i) t q" if "points s t q" "q \<noteq> p" for t q
    using that p by (auto simp: s1 points_def)
  show ?thesis
  proof (rule sessions_okI)
    fix t q assume "gget (ss_byToken (Session_Revoke s i)) t = Some q"
    then have t: "gget (ss_byToken s) t = Some q" "t \<noteq> ?t" by (auto simp: s1 split: if_splits)
    with sessions_ok_token [OF ok t(1)] have "q \<noteq> p" by (auto simp: points_def)
    with sessions_ok_token [OF ok t(1)] keep show "points (Session_Revoke s i) t q \<and> t \<in> used" by blast
  next
    fix j q assume "gget (ss_byID (Session_Revoke s i)) j = Some q"
    then have j: "gget (ss_byID s) j = Some q" "j \<noteq> i" by (auto simp: s1 split: if_splits)
    with sessions_ok_id [OF ok j(1)] p have "q \<noteq> p" by auto
    with sessions_ok_id [OF ok j(1)] keep
    show "seID (ss_heap (Session_Revoke s i) ! q) = j \<and>
        points (Session_Revoke s i) (seToken (ss_heap (Session_Revoke s i) ! q)) q"
      by (auto simp: s1)
  next
    fix se assume "se \<in> set (ss_heap (Session_Revoke s i))"
    then show "grant_ok se" using sessions_ok_grant [OF ok] by (simp add: s1)
  qed
qed

lemma region_ok:
  assumes ok: "sessions_ok s used" and p: "p < length (ss_heap s)"
  shows "sessions_ok (note_region region p s) used"
proof (cases "region = []")
  case True
  then show ?thesis using ok by (simp add: note_region_def)
next
  case False
  let ?s = "note_region region p s"
  have same: "seToken (ss_heap ?s ! q) = seToken (ss_heap s ! q)" "seID (ss_heap ?s ! q) = seID (ss_heap s ! q)" for q
    using False p by (auto simp: note_region_def with_region_def nth_list_update)
  have maps: "ss_byToken ?s = ss_byToken s" "ss_byID ?s = ss_byID s" "length (ss_heap ?s) = length (ss_heap s)"
    using False by (auto simp: note_region_def)
  have pts: "points ?s t q = points s t q" for t q by (simp add: points_def same maps)
  show ?thesis
  proof (rule sessions_okI)
    fix se assume "se \<in> set (ss_heap ?s)"
    then show "grant_ok se" using sessions_ok_grant [OF ok] False p
      by (auto simp: note_region_def with_region_grant dest!: set_update_subset_insert [THEN subsetD])
  qed (use sessions_ok_token [OF ok] sessions_ok_id [OF ok] in \<open>auto simp: pts maps same\<close>)
qed

lemma session_step_ok:
  "session_step env (s, used) ev (s1, used1) \<Longrightarrow> sessions_ok s used \<Longrightarrow> sessions_ok s1 used1 \<and> used \<subseteq> used1"
  by (erule session_stepE) (auto intro: Issue_ok Refresh_ok Revoke_ok region_ok)

lemma session_run_ok:
  "session_run env st st1 \<Longrightarrow> sessions_ok (fst st) (snd st) \<Longrightarrow>
   sessions_ok (fst st1) (snd st1) \<and> snd st \<subseteq> snd st1"
proof (induction rule: session_run.induct)
  case (more st st1 ev st2)
  then show ?case using session_step_ok [of env "fst st1" "snd st1" ev "fst st2" "snd st2"] by auto
qed simp

lemma run_from_New: "session_run env (New_sts ttl base, {}) (s, used) \<Longrightarrow> sessions_ok s used"
  using session_run_ok [of env "(New_sts ttl base, {})" "(s, used)"] New_ok by simp

section \<open>Dead tokens\<close>

text \<open>A token that has been given out and belongs to no session stays unknown.\<close>

definition dead :: "string \<Rightarrow> sts_service \<times> string set \<Rightarrow> bool" where
  "dead t st \<longleftrightarrow> t \<in> snd st \<and> gget (ss_byToken (fst st)) t = None"

lemma session_step_dead: "session_step env (s, used) ev (s1, used1) \<Longrightarrow> dead t (s, used) \<Longrightarrow> dead t (s1, used1)"
proof (erule session_stepE)
  fix dr cache inp cache1 p tok
  assume "dead t (s, used)" "used1 = insert tok used" "Session_Issue env dr cache s inp = ((cache1, s1), Inr p)"
    "randomToken dr = Inr tok" "tok \<notin> used"
  then show "dead t (s1, used1)" by (auto simp: dead_def elim!: session_issue_cases)
next
  fix dr cache old r bucket pre cache1 p tok
  assume "dead t (s, used)" "used1 = insert tok used"
    "Session_Refresh env dr cache s old r bucket pre = ((cache1, s1), Inr p)" "randomToken dr = Inr tok" "tok \<notin> used"
  then show "dead t (s1, used1)" by (auto simp: dead_def elim!: session_refresh_cases)
qed (auto simp: dead_def Session_Revoke_def note_region_def split: option.splits)

lemma session_run_dead: "session_run env st st1 \<Longrightarrow> dead t st \<Longrightarrow> dead t st1"
proof (induction rule: session_run.induct)
  case (more st st1 ev st2)
  then show ?case using session_step_dead [of env "fst st1" "snd st1" ev "fst st2" "snd st2"] by simp
qed

lemma dead_rejected: "dead t (s, used) \<Longrightarrow> GetByToken now s t = Inl (Errorf ''invalid session token'')"
  by (simp add: dead_def GetByToken_def)


lemma refresh_kills:
  assumes "sessions_ok s used" "Session_Refresh env dr cache s old r bucket pre = ((cache1, s1), Inr p)"
    "randomToken dr = Inr tok" "tok \<notin> used"
  shows "gget (ss_byToken s1) old = None \<and> old \<in> used"
proof -
  from assms(2) obtain tok' a where t: "randomToken dr = Inr tok'" and p: "gget (ss_byToken s) old = Some p"
    and s1: "s1 = s\<lparr>ss_heap := (ss_heap s)[p := refreshed_session s (dr_now dr) (ss_heap s ! p) a bucket pre tok'],
            ss_byToken := gset tok' p (gdel (seToken (ss_heap s ! p)) (ss_byToken s))\<rparr>"
    by (rule session_refresh_cases)
  from sessions_ok_token [OF assms(1) p] have o: "seToken (ss_heap s ! p) = old" "old \<in> used"
    by (simp_all add: points_def)
  with assms(3,4) t have "old \<noteq> tok'" by auto
  then show ?thesis using o by (simp add: s1)
qed

lemma revoke_kills:
  assumes "sessions_ok s used" "gget (ss_byToken s) t = Some p"
  shows "gget (ss_byToken (Session_Revoke s (seID (ss_heap s ! p)))) t = None \<and> t \<in> used"
  using sessions_ok_token [OF assms] by (simp add: points_def Session_Revoke_def)

section \<open>A concrete run\<close>

definition demo_sts :: sts_env where
  "demo_sts = \<lparr>se_env = (\<lambda>k. if k = ''AI_CLOUDHUB_MINIO_STS'' then ''1'' else []),
     se_assume = (\<lambda>q. Inr \<lparr>tcAccess = ''tmp'', tcSecret = arSecretKey q @ ''-tmp'', tcToken = ''st'', tcExpires = 0\<rparr>),
     se_http = (\<lambda>_. Inl ''offline''), se_hmac_sha1 = (\<lambda>k v. k @ v), se_hmac_sha256 = (\<lambda>k v. k @ v),
     se_sha256 = (\<lambda>v. v), se_format = (\<lambda>f t. show_int t), se_parse_rfc3339 = (\<lambda>_. None),
     se_aliyun_json = (\<lambda>_. Inl ''bad''), se_tencent_json = (\<lambda>_. Inl ''bad''), se_urls = (\<lambda>_. Inl ''bad'')\<rparr>"

definition demo_oci :: "unit oci_env" where
  "demo_oci = \<lparr>oc_sts = demo_sts, oc_read_file = (\<lambda>_. Inl ''none''), oc_parse_pem = (\<lambda>_. Inl ''none''),
     oc_rsa_sign = (\<lambda>_ v. Inr v), oc_request_uri = (\<lambda>_. Inl ''none''), oc_json = (\<lambda>_. Inl ''none'')\<rparr>"

definition demo_resolved :: resolved where
  "demo_resolved = \<lparr>rsType = TypeMinIO, rsAccessKey = ''ak'', rsSecretKey = ''sk'', rsSessionToken = [],
     rsEndpoint = ''m:9000'', rsRegion = [], rsForcePathStyle = True, rsUseSSL = False, rsProviderLabel = ''Minio''\<rparr>"

definition demo_draw :: "time \<Rightarrow> string \<Rightarrow> string \<Rightarrow> draw" where
  "demo_draw now i b = \<lparr>dr_now = now, dr_id = i, dr_jti = [], dr_rand = Inr b\<rparr>"

definition demo_input :: issue_input where
  "demo_input = \<lparr>iiUserID = ''u'', iiDriveID = ''d'', iiDeviceID = [], iiMountPoint = ''/w'', iiMode = [],
     iiBucket = ''b'', iiPrefix = [], iiResolved = Some demo_resolved, iiAgentID = ''a'', iiReadPrefixes = [''in''],
     iiWritePrefixes = []\<rparr>"

definition demo_issued :: sts_service where
  "demo_issued = snd (fst (Session_Issue demo_oci (demo_draw 10 ''s'' ''A'') [] (New_sts 100 []) demo_input))"

definition demo_refreshed :: sts_service where
  "demo_refreshed =
     snd (fst (Session_Refresh demo_oci (demo_draw 50 [] ''B'') [] demo_issued ''41'' (Some demo_resolved) ''b'' []))"

lemma demo_issue:
  "Session_Issue demo_oci (demo_draw 10 ''s'' ''A'') [] (New_sts 100 []) demo_input = (([], demo_issued), Inr 0)"
  by code_simp

lemma demo_refresh:
  "Session_Refresh demo_oci (demo_draw 50 [] ''B'') [] demo_issued ''41'' (Some demo_resolved) ''b'' []
     = (([], demo_refreshed), Inr 0)"
  by code_simp

lemma demo_tokens:
  "randomToken (demo_draw 10 ''s'' ''A'') = Inr ''41''" "randomToken (demo_draw 50 [] ''B'') = Inr ''42''"
  "gget (ss_byID (New_sts 100 [])) (dr_id (demo_draw 10 ''s'' ''A'')) = None"
  by code_simp+

lemma demo_run: "session_run demo_oci (New_sts 100 [], {}) (demo_issued, {''41''})"
  using more [OF stop issue [OF demo_issue demo_tokens(1) _ demo_tokens(3)]] by simp

lemma demo_step: "session_step demo_oci (demo_issued, {''41''}) (EvRefresh ''41'' ''42'') (demo_refreshed, {''42'', ''41''})"
  by (rule refresh [OF demo_refresh demo_tokens(2)]) simp

section \<open>Properties\<close>



text \<open>C23: a session token that was rotated by a refresh or whose session was revoked is never accepted again,
  whatever sessions are issued, refreshed or revoked later.
\<close>

theorem session_tokens_die_for_good:
  assumes "session_run env (New_sts ttl base, {}) (s, used)"
    and "GetByToken now s t = Inr p"
    and "session_step env (s, used) ev (s1, used1)"
    and "ev = EvRefresh t tok \<or> ev = EvRevoke (seID (ss_heap s ! p))"
    and "session_run env (s1, used1) (s2, used2)"
  shows "GetByToken now2 s2 t = Inl (Errorf ''invalid session token'')"
proof -
  have ok: "sessions_ok s used" using assms(1) by (rule run_from_New)
  have t: "gget (ss_byToken s) t = Some p" using assms(2) by (auto simp: GetByToken_def split: option.splits if_splits)
  have sub: "used \<subseteq> used1" using session_step_ok [OF assms(3) ok] by simp
  from assms(4) have "dead t (s1, used1)"
  proof
    assume "ev = EvRefresh t tok"
    with assms(3) have "session_step env (s, used) (EvRefresh t tok) (s1, used1)" by simp
    then show ?thesis
    proof (rule refresh_stepE)
      fix dr cache r bucket pre cache1 q
      assume "Session_Refresh env dr cache s t r bucket pre = ((cache1, s1), Inr q)" "randomToken dr = Inr tok" "tok \<notin> used"
      from refresh_kills [OF ok this] show ?thesis using sub by (auto simp: dead_def)
    qed
  next
    assume "ev = EvRevoke (seID (ss_heap s ! p))"
    with assms(3) have "session_step env (s, used) (EvRevoke (seID (ss_heap s ! p))) (s1, used1)" by simp
    then show ?thesis
      by (rule revoke_stepE) (use revoke_kills [OF ok t] in \<open>simp add: dead_def\<close>)
  qed
  with assms(5) have "dead t (s2, used2)" by (rule session_run_dead)
  then show ?thesis by (rule dead_rejected)
qed

lemma session_tokens_die_for_good_witness:
  "GetByToken 20 demo_issued ''41'' = Inr 0 \<and>
   GetByToken 60 demo_refreshed ''41'' = Inl (Errorf ''invalid session token'') \<and>
   GetByToken 60 demo_refreshed ''42'' = Inr 0"
proof -
  have a: "GetByToken 20 demo_issued ''41'' = Inr 0" by code_simp
  have "GetByToken 60 demo_refreshed ''41'' = Inl (Errorf ''invalid session token'')"
    by (rule session_tokens_die_for_good [OF demo_run a demo_step _ stop]) simp
  moreover have "GetByToken 60 demo_refreshed ''42'' = Inr 0" by code_simp
  ultimately show ?thesis using a by simp
qed

text \<open>a refresh keeps the grant of the session (owner, drive, device, mount point, mode, agent and the
  paths its manifest allows), runs for one more lifetime from now under the new token and ends the old one.
\<close>

theorem refresh_keeps_grant:
  assumes "session_run env (New_sts ttl base, {}) (s, used)"
    and "Session_Refresh env dr cache s old r bucket pre = ((cache1, s1), Inr p)"
    and "randomToken dr = Inr tok" and "tok \<notin> used"
  shows "let se = ss_heap s ! p; se1 = ss_heap s1 ! p
    in (seID se1, seUserID se1, seDriveID se1, seDeviceID se1, seMountPoint se1, seMode se1, seAgentID se1) =
         (seID se, seUserID se, seDriveID se, seDeviceID se, seMountPoint se, seMode se, seAgentID se) \<and>
       mdPermissions (seManifest se1) = mdPermissions (seManifest se) \<and>
       apAllowedPaths (mdAgent (seManifest se1)) = apAllowedPaths (mdAgent (seManifest se)) \<and>
       GetByToken now s1 old = Inl (Errorf ''invalid session token'') \<and>
       GetByToken now s1 tok = (if now > dr_now dr + ss_ttl s then Inl (Errorf ''session expired'') else Inr p)"
proof -
  have ok: "sessions_ok s used" using assms(1) by (rule run_from_New)
  from assms(2) obtain tok' a where "randomToken dr = Inr tok'" and p: "gget (ss_byToken s) old = Some p"
    and s1': "s1 = s\<lparr>ss_heap := (ss_heap s)[p := refreshed_session s (dr_now dr) (ss_heap s ! p) a bucket pre tok'],
            ss_byToken := gset tok' p (gdel (seToken (ss_heap s ! p)) (ss_byToken s))\<rparr>"
    by (rule session_refresh_cases)
  with assms(3) have s1: "ss_heap s1 = (ss_heap s)[p := refreshed_session s (dr_now dr) (ss_heap s ! p) a bucket pre tok]"
      "gget (ss_byToken s1) tok = Some p" by simp_all
  from sessions_ok_token [OF ok p] have l: "p < length (ss_heap s)" by (simp add: points_def)
  then have h: "ss_heap s1 ! p = refreshed_session s (dr_now dr) (ss_heap s ! p) a bucket pre tok" by (simp add: s1)
  have g: "grant_ok (ss_heap s ! p)" using sessions_ok_grant [OF ok] l by simp
  from refreshed_grant [OF g] have g1: "grant_ok (ss_heap s1 ! p)" by (simp add: h)
  have same: "(seID x, seUserID x, seDriveID x, seDeviceID x, seMountPoint x, seMode x, seAgentID x) =
         (seID y, seUserID y, seDriveID y, seDeviceID y, seMountPoint y, seMode y, seAgentID y)"
      "seReadPrefixes x = seReadPrefixes y" "seWritePrefixes x = seWritePrefixes y"
      "seExpiresAt x = dr_now dr + ss_ttl s"
    if "x = refreshed_session s (dr_now dr) y a bucket pre tok" for x y
    by (simp_all add: that refreshed_session_def split: prod.splits)
  have perms: "mdPermissions (seManifest (ss_heap s1 ! p)) = mdPermissions (seManifest (ss_heap s ! p))"
    using g g1 same [OF h] by (simp add: grant_ok_def)
  moreover have "apAllowedPaths (mdAgent (seManifest (ss_heap s1 ! p))) = apAllowedPaths (mdAgent (seManifest (ss_heap s ! p)))"
    using g g1 same [OF h] perms unfolding grant_ok_def by (metis prod.inject)
  moreover have "GetByToken now s1 old = Inl (Errorf ''invalid session token'')"
    using refresh_kills [OF ok assms(2,3,4)] by (simp add: GetByToken_def)
  moreover have "GetByToken now s1 tok = (if now > dr_now dr + ss_ttl s then Inl (Errorf ''session expired'') else Inr p)"
    using same(4) [OF h] by (simp add: GetByToken_def s1(2))
  ultimately show ?thesis using same(1) [OF h] by (simp add: Let_def)
qed

lemma refresh_keeps_grant_witness:
  "apAllowedPaths (mdAgent (seManifest (ss_heap demo_refreshed ! 0))) = [''/w/in''] \<and>
   seUserID (ss_heap demo_refreshed ! 0) = ''u'' \<and> GetByToken 150 demo_refreshed ''42'' = Inr 0 \<and>
   GetByToken 151 demo_refreshed ''42'' = Inl (Errorf ''session expired'')"
proof -
  have e: "apAllowedPaths (mdAgent (seManifest (ss_heap demo_issued ! 0))) = [''/w/in'']"
    "seUserID (ss_heap demo_issued ! 0) = ''u''" "dr_now (demo_draw 50 [] ''B'') + ss_ttl demo_issued = 150"
    by code_simp+
  have "''42'' \<notin> {''41''}" by simp
  from refresh_keeps_grant [OF demo_run demo_refresh demo_tokens(2) this, of 150]
    refresh_keeps_grant [OF demo_run demo_refresh demo_tokens(2) this, of 151]
  show ?thesis unfolding e Let_def by (simp add: e)
qed

text \<open>
  The owner of a session is compared only after the refresh: a caller who presents the token of another
  user's session is refused, and that session has lost its token all the same.
\<close>

lemma refused_refresh_rotates:
  assumes "RefreshSession sv env dr m cache (Some s) userID token driveID = ((cache1, sts1), Inl e)"
    and "sts1 \<noteq> Some s"
  shows "e = Errorf ''session mismatch'' \<and>
    (\<exists>d r s1 p. Drive_Get m userID driveID = Inr d \<and> sts1 = Some s1 \<and>
       Session_Refresh env dr cache s token (Some r) (dBucket d) (dPrefix d) = ((cache1, s1), Inr p))"
proof -
  have keeps: "s1 = s" if "Session_Refresh env dr cache s token r b pr = ((c1, s1), Inl x)" for r b pr c1 s1 x
    using that by (auto simp: Session_Refresh_def Let_def split: option.splits if_splits prod.splits sum.splits)
  from assms show ?thesis
    by (auto simp: RefreshSession_def Let_def and_then_Inr dest!: keeps split: if_splits sum.splits prod.splits)
qed

end
