(* ===== verification/Connector_Service.thy ===== *)
theory Connector_Service
  imports Store_StageC Json_Value
begin

text \<open>
  Connector bindings, the lineage log and the identity graph as services (\<open>internal/connector/catalog.go\<close>,
  \<open>internal/lineage/service.go\<close>, \<open>internal/idgraph/service.go\<close>). Parameters: the JSON encoder of a
  configuration and the name-based UUID. A service with a nil store is not modelled.
\<close>

section \<open>The connector catalogue\<close>

record connector_meta =
  cmType :: string
  cmName :: string
  cmCategory :: string
  cmImplemented :: bool
  cmFields :: "string list"
  cmNotes :: string

definition Connector_Catalog :: "connector_meta list" where
  "Connector_Catalog =
    [\<lparr>cmType = ''git'', cmName = ''Git repository'', cmCategory = ''git'', cmImplemented = True,
      cmFields = [''remote_url'', ''branch?'', ''path_prefix?''],
      cmNotes = ''Metadata binding only; clone/sync runs on user runner (BYOC), not control plane''\<rparr>,
     \<lparr>cmType = ''postgres'', cmName = ''PostgreSQL'', cmCategory = ''db'', cmImplemented = True,
      cmFields = [''host'', ''port?'', ''database'', ''user?'', ''schema?'', ''sslmode?'', ''dsn_template?''],
      cmNotes = ''Non-secret binding; runner injects AI_CLOUDHUB_PG_*; password via host PGPASSWORD (D-001)''\<rparr>,
     \<lparr>cmType = ''mysql'', cmName = ''MySQL'', cmCategory = ''db'', cmImplemented = True,
      cmFields = [''host'', ''port?'', ''database'', ''user?'', ''params?'', ''dsn_template?''],
      cmNotes = ''Non-secret binding; runner injects AI_CLOUDHUB_MYSQL_*; password via host MYSQL_PWD (D-001)''\<rparr>,
     \<lparr>cmType = ''notion'', cmName = ''Notion workspace'', cmCategory = ''saas'', cmImplemented = True,
      cmFields = [''workspace_id''],
      cmNotes = ''OAuth/token held by user; control plane stores non-secret config only''\<rparr>,
     \<lparr>cmType = ''slack'', cmName = ''Slack workspace'', cmCategory = ''saas'', cmImplemented = True,
      cmFields = [''team_id''], cmNotes = ''Bot token stays on user runner''\<rparr>,
     \<lparr>cmType = ''github'', cmName = ''GitHub'', cmCategory = ''saas'', cmImplemented = True,
      cmFields = [''org_or_user'', ''repo?''], cmNotes = ''App install on user side''\<rparr>]"

definition IsKnown :: "string \<Rightarrow> bool" where
  "IsKnown t0 = (let t = to_lower (trim_space t0) in list_ex (\<lambda>m. cmType m = t) Connector_Catalog)"

section \<open>Secrets in a configuration\<close>

type_synonym config = "(string \<times> json) list"

definition secretConfigKeys :: "string list" where
  "secretConfigKeys =
    [''password'', ''token'', ''secret'', ''api_key'', ''access_token'', ''dsn'', ''url'', ''connection_string'',
     ''conn_str'', ''pgpassword'', ''mysql_pwd'', ''private_key'']"

text \<open>Two of the three tests of the loop over the keys do not depend on the key.\<close>

definition secret_key_name :: "string \<Rightarrow> bool" where
  "secret_key_name k \<longleftrightarrow>
     (let lk = to_lower (trim_space k)
      in lk \<in> set secretConfigKeys \<or> sublist ''password'' lk \<or> suffix ''_secret'' lk)"

definition stripSecretKeys :: "config \<Rightarrow> config" where
  "stripSecretKeys cfg = filter (\<lambda>(k, _). \<not> secret_key_name k) cfg"

text \<open>\<open>strings.Index\<close>\<close>

fun str_index :: "string \<Rightarrow> string \<Rightarrow> nat option" where
  "str_index p [] = (if p = [] then Some 0 else None)"
| "str_index p (c # cs) = (if prefix p (c # cs) then Some 0 else map_option Suc (str_index p cs))"

definition dsnTemplateLooksSecret :: "string \<Rightarrow> bool" where
  "dsnTemplateLooksSecret tmpl =
     (let t = to_lower tmpl
      in if sublist ''password='' t then True
         else (case str_index ''://'' t of
                 None \<Rightarrow> False
               | Some i \<Rightarrow>
                   (let rest = drop (i + 3) t
                    in (case str_index ''@'' rest of
                          None \<Rightarrow> False
                        | Some a \<Rightarrow> a > 0 \<and> sublist '':'' (take a rest)))))"

section \<open>Connector bindings\<close>

record connector_input =
  ciType :: string
  ciName :: string
  ciConfig :: config

definition checked_config :: "string \<Rightarrow> config \<Rightarrow> unit result" where
  "checked_config t cfg =
     (if t = ''postgres'' \<or> t = ''mysql''
      then (if trim_space (string_at cfg ''host'') = [] \<or> trim_space (string_at cfg ''database'') = []
            then Inl (Errorf (t @ '' connector requires host and database''))
            else if string_at cfg ''dsn_template'' \<noteq> [] \<and> dsnTemplateLooksSecret (string_at cfg ''dsn_template'')
            then Inl (Errorf (''dsn_template must not embed credentials (use runner '' @
                       (if t = ''mysql'' then ''MYSQL_PWD'' else ''PGPASSWORD'') @ '')''))
            else Inr ())
      else Inr ())"

definition Connector_Create ::
  "(config \<Rightarrow> string) \<Rightarrow> draw \<Rightarrow> memory \<Rightarrow> string \<Rightarrow> connector_input \<Rightarrow> memory \<times> connector_binding result" where
  "Connector_Create marshal dr m userID inp =
     (let t = to_lower (trim_space (ciType inp))
      in if \<not> IsKnown t then (m, Inl (Errorf (''unknown connector type '' @ quoted (ciType inp))))
         else (let name = trim_space (ciName inp); cfg = stripSecretKeys (ciConfig inp)
               in (case checked_config t cfg of
                     Inl e \<Rightarrow> (m, Inl e)
                   | Inr _ \<Rightarrow>
                       (let c = \<lparr>cbID = dr_id dr, cbUserID = userID, cbType = t, cbName = (if name = [] then t else name),
                                 cbConfigJSON = marshal cfg, cbStatus = ''registered'', cbCreatedAt = dr_now dr\<rparr>
                        in (case CreateConnector m c of Inl e \<Rightarrow> (m, Inl e) | Inr m1 \<Rightarrow> (m1, Inr c))))))"

definition Connector_List :: "memory \<Rightarrow> string \<Rightarrow> connector_binding list" where
  "Connector_List m userID = ListConnectors m userID"

definition Connector_Get :: "memory \<Rightarrow> string \<Rightarrow> string \<Rightarrow> connector_binding result" where
  "Connector_Get m userID i = GetConnector m userID i"

definition Connector_Delete :: "memory \<Rightarrow> string \<Rightarrow> string \<Rightarrow> memory \<times> unit result" where
  "Connector_Delete m userID i = (case DeleteConnector m userID i of Inl e \<Rightarrow> (m, Inl e) | Inr m1 \<Rightarrow> (m1, Inr ()))"

section \<open>Lineage\<close>

definition Lineage_Record ::
  "draw \<Rightarrow> memory \<Rightarrow> string \<Rightarrow> string \<Rightarrow> string \<Rightarrow> string \<Rightarrow> string \<Rightarrow> string \<Rightarrow> memory \<times> lineage_event result" where
  "Lineage_Record dr m userID actorID action0 entity0 parent detail =
     (let action = trim_space action0; entity = trim_space entity0
      in if action = [] \<or> entity = [] then (m, Inl (Errorf ''action and entity required''))
         else (let e = \<lparr>leID = dr_id dr, leUserID = userID, leActorID = actorID, leAction = action, leEntity = entity,
                        leParent = trim_space parent, leDetail = trim_space detail, leCreatedAt = dr_now dr\<rparr>
               in (case AppendLineage m e of Inl x \<Rightarrow> (m, Inl x) | Inr m1 \<Rightarrow> (m1, Inr e))))"

definition Lineage_List :: "memory \<Rightarrow> string \<Rightarrow> string \<Rightarrow> int \<Rightarrow> lineage_event list" where
  "Lineage_List m userID entity limit = ListLineage m userID entity limit"

section \<open>Identity graph\<close>

definition hashID :: "(string \<Rightarrow> string) \<Rightarrow> string list \<Rightarrow> string" where
  "hashID uuid_sha1 parts = uuid_sha1 (str_join ''|'' parts)"

definition Graph_Link ::
  "(string \<Rightarrow> string) \<Rightarrow> draw \<Rightarrow> memory \<Rightarrow> string \<Rightarrow> string \<Rightarrow> string \<Rightarrow> string \<Rightarrow> string \<Rightarrow> memory \<times> graph_edge result" where
  "Graph_Link uuid_sha1 dr m userID subject0 relation0 object0 meta =
     (let subject = trim_space subject0; relation = trim_space relation0; obj = trim_space object0
      in if subject = [] \<or> relation = [] \<or> obj = []
         then (m, Inl (Errorf ''subject, relation, object required''))
         else (let e = \<lparr>geID = hashID uuid_sha1 [userID, subject, relation, obj], geUserID = userID, geSubject = subject,
                        geRelation = relation, geObject = obj, geMetaJSON = meta, geCreatedAt = dr_now dr\<rparr>
               in (case UpsertGraphEdge m e of Inl x \<Rightarrow> (m, Inl x) | Inr m1 \<Rightarrow> (m1, Inr e))))"

definition Graph_List :: "memory \<Rightarrow> string \<Rightarrow> string \<Rightarrow> string \<Rightarrow> int \<Rightarrow> graph_edge list" where
  "Graph_List m userID subject object limit = ListGraphEdges m userID subject object limit"

section \<open>Facts\<close>

lemma stripSecretKeys_clean: "(k, v) \<in> set (stripSecretKeys cfg) \<Longrightarrow> \<not> secret_key_name k"
  by (auto simp: stripSecretKeys_def)

text \<open>
  The identifier of an edge joins its parts with a bar, so a bar inside a part makes two different edges
  of a user share one identifier, and linking the second replaces the first.
\<close>

lemma edge_ids_collide:
  "hashID h [u, a @ ''|'' @ b, c, d] = hashID h [u, a, b @ ''|'' @ c, d]"
  by (simp add: hashID_def)

text \<open>a registered connector holds a configuration without any key that names a secret, and for a
  database also a host, a database and no credentials in its connection template.\<close>

theorem connector_config_clean:
  assumes "Connector_Create marshal dr m userID inp = (m1, Inr c)"
  shows "\<exists>cfg. cbConfigJSON c = marshal cfg \<and> (\<forall>k v. (k, v) \<in> set cfg \<longrightarrow> \<not> secret_key_name k \<and> (k, v) \<in> set (ciConfig inp)) \<and>
    cbUserID c = userID \<and> GetConnector m1 userID (cbID c) = Inr c \<and>
    (cbType c \<in> {''postgres'', ''mysql''} \<longrightarrow>
       trim_space (string_at cfg ''host'') \<noteq> [] \<and> trim_space (string_at cfg ''database'') \<noteq> [] \<and>
       \<not> dsnTemplateLooksSecret (string_at cfg ''dsn_template''))"
proof -
  let ?t = "to_lower (trim_space (ciType inp))" and ?cfg = "stripSecretKeys (ciConfig inp)"
  have empty: "\<not> dsnTemplateLooksSecret []" by code_simp
  from assms have ok: "checked_config ?t ?cfg = Inr ()" and c: "cbConfigJSON c = marshal ?cfg" "cbType c = ?t" "cbUserID c = userID"
    and m1: "CreateConnector m c = Inr m1"
    by (auto simp: Connector_Create_def Let_def split: if_splits sum.splits)
  from m1 c(3) have "GetConnector m1 userID (cbID c) = Inr c"
    by (auto simp: CreateConnector_def GetConnector_def split: if_splits)
  moreover from ok have "?t \<in> {''postgres'', ''mysql''} \<Longrightarrow>
      trim_space (string_at ?cfg ''host'') \<noteq> [] \<and> trim_space (string_at ?cfg ''database'') \<noteq> [] \<and>
      \<not> dsnTemplateLooksSecret (string_at ?cfg ''dsn_template'')"
    using empty by (auto simp: checked_config_def split: if_splits)
  moreover have "\<forall>k v. (k, v) \<in> set ?cfg \<longrightarrow> \<not> secret_key_name k \<and> (k, v) \<in> set (ciConfig inp)"
    by (auto simp: stripSecretKeys_def)
  ultimately show ?thesis using c by (intro exI [of _ ?cfg]) simp
qed



definition demo_connector :: connector_input where
  "demo_connector = \<lparr>ciType = '' Postgres'', ciName = [],
     ciConfig = [(''host'', JStr ''db''), (''Token'', JStr ''x''), (''database'', JStr ''d'')]\<rparr>"

lemma demo_strings:
  "to_lower (trim_space '' Postgres'') = ''postgres''" "trim_space [] = []" "IsKnown ''postgres''"
  "secret_key_name ''Token''" "\<not> secret_key_name ''host''" "\<not> secret_key_name ''database''"
  "checked_config ''postgres'' [(''host'', JStr ''db''), (''database'', JStr ''d'')] = Inr ()"
  by code_simp+

lemma connector_config_clean_witness:
  "\<exists>m1 c cfg. Connector_Create (\<lambda>cfg. concat (map fst cfg)) \<lparr>dr_now = 5, dr_id = ''c1'', dr_jti = [], dr_rand = Inr []\<rparr>
       NewMemory ''u'' demo_connector = (m1, Inr c) \<and>
     cbConfigJSON c = concat (map fst cfg) \<and> (''Token'', JStr ''x'') \<notin> set cfg"
proof -
  let ?call = "Connector_Create (\<lambda>cfg. concat (map fst cfg)) \<lparr>dr_now = 5, dr_id = ''c1'', dr_jti = [], dr_rand = Inr []\<rparr>
       NewMemory ''u'' demo_connector"
  have ok: "?call = (fst ?call, Inr \<lparr>cbID = ''c1'', cbUserID = ''u'', cbType = ''postgres'', cbName = ''postgres'',
      cbConfigJSON = ''hostdatabase'', cbStatus = ''registered'', cbCreatedAt = 5\<rparr>)"
    by (simp add: Connector_Create_def demo_connector_def demo_strings stripSecretKeys_def CreateConnector_def Let_def)
  from connector_config_clean [OF ok] demo_strings(4) ok show ?thesis by blast
qed

end
