(* ===== verification/Memory_Kernel.thy ===== *)
theory Memory_Kernel
  imports Store_StageC Complex_Main
begin

text \<open>
  The memory kernel (\<open>internal/memkernel/service.go\<close>): layered memories with expiry and a search by cosine
  similarity. Floating-point numbers are modelled as reals, so scores are exact; the JSON encoder and
  decoder of vectors are parameters. A service with a nil store is not modelled.
\<close>

abbreviation LayerWorking :: string where "LayerWorking \<equiv> ''working''"
abbreviation LayerEpisodic :: string where "LayerEpisodic \<equiv> ''episodic''"
abbreviation LayerSemantic :: string where "LayerSemantic \<equiv> ''semantic''"
abbreviation MaxContentBytes :: nat where "MaxContentBytes \<equiv> 65536"
abbreviation MaxEmbeddingDims :: nat where "MaxEmbeddingDims \<equiv> 4096"
abbreviation MaxSearchK :: int where "MaxSearchK \<equiv> 50"
abbreviation DefaultSearchK :: int where "DefaultSearchK \<equiv> 10"
abbreviation MaxListLimit :: int where "MaxListLimit \<equiv> 500"
abbreviation DefaultListLimit :: int where "DefaultListLimit \<equiv> 100"

record vector_codec =
  vc_encode :: "real list \<Rightarrow> string + string"
  vc_decode :: "string \<Rightarrow> real list option"

record put_input =
  ptAgentID :: string
  ptDriveID :: string
  ptLayer :: string
  ptKey :: string
  ptContent :: string
  ptMetaJSON :: string
  ptEmbedding :: "real list"
  ptTTL :: duration
  ptExpiresAt :: time

section \<open>Storing\<close>

definition memory_layer :: "string \<Rightarrow> string result" where
  "memory_layer raw =
     (let l0 = trim_space raw; l = (if l0 = [] then LayerWorking else l0)
      in if l \<in> {LayerWorking, LayerEpisodic, LayerSemantic} then Inr l
         else Inl (Errorf ''layer must be working|episodic|semantic''))"

definition embedding_json :: "vector_codec \<Rightarrow> real list \<Rightarrow> string result" where
  "embedding_json vc emb =
     (if emb = [] then Inr []
      else if length emb > MaxEmbeddingDims
      then Inl (Errorf (''embedding too large (max '' @ show_nat MaxEmbeddingDims @ '' dims)''))
      else (case vc_encode vc emb of Inl e \<Rightarrow> Inl (Errorf e) | Inr b \<Rightarrow> Inr b))"

definition memory_expiry :: "time \<Rightarrow> put_input \<Rightarrow> time" where
  "memory_expiry now inp = (if ptTTL inp > 0 then now + ptTTL inp else ptExpiresAt inp)"

definition new_entry :: "vector_codec \<Rightarrow> draw \<Rightarrow> string \<Rightarrow> put_input \<Rightarrow> memory_entry result" where
  "new_entry vc dr userID inp =
     and_then (memory_layer (ptLayer inp))
       (\<lambda>layer. let content = trim_space (ptContent inp)
         in if content = [] then Inl (Errorf ''content required'')
            else if length content > MaxContentBytes
            then Inl (Errorf (''content too large (max '' @ show_nat MaxContentBytes @ '' bytes)''))
            else if length (ptMetaJSON inp) > MaxContentBytes
            then Inl (Errorf (''meta too large (max '' @ show_nat MaxContentBytes @ '' bytes)''))
            else and_then (embedding_json vc (ptEmbedding inp))
                   (\<lambda>emb. Inr \<lparr>meID = dr_id dr, meUserID = userID, meAgentID = trim_space (ptAgentID inp),
                      meDriveID = trim_space (ptDriveID inp), meLayer = layer, meKey = trim_space (ptKey inp),
                      meContent = content, meMetaJSON = ptMetaJSON inp, meEmbeddingJSON = emb,
                      meCreatedAt = dr_now dr, meExpiresAt = memory_expiry (dr_now dr) inp\<rparr>))"

definition Memory_Put :: "vector_codec \<Rightarrow> draw \<Rightarrow> memory \<Rightarrow> string \<Rightarrow> put_input \<Rightarrow> memory \<times> memory_entry result" where
  "Memory_Put vc dr m userID inp =
     (case new_entry vc dr userID inp of
        Inl e \<Rightarrow> (m, Inl e)
      | Inr x \<Rightarrow> (case CreateMemory m x of Inl e \<Rightarrow> (m, Inl e) | Inr m1 \<Rightarrow> (m1, Inr x)))"

section \<open>Reading\<close>

definition expired :: "time \<Rightarrow> memory_entry \<Rightarrow> bool" where
  "expired now e \<longleftrightarrow> \<not> is_zero (meExpiresAt e) \<and> meExpiresAt e \<le> now"

definition Memory_Get :: "time \<Rightarrow> memory \<Rightarrow> string \<Rightarrow> string \<Rightarrow> memory_entry result" where
  "Memory_Get now m userID i =
     and_then (GetMemory m userID i)
       (\<lambda>e. if expired now e then Inl (Errorf ''memory not found'') else Inr e)"

definition Memory_List :: "time \<Rightarrow> memory \<Rightarrow> string \<Rightarrow> memory_filter \<Rightarrow> memory_entry list" where
  "Memory_List now m userID f =
     (let l0 = (if mfLimit f \<le> 0 then DefaultListLimit else mfLimit f);
          l = (if l0 > MaxListLimit then MaxListLimit else l0)
      in filter (\<lambda>e. \<not> expired now e) (ListMemory now m (f\<lparr>mfUserID := userID, mfLimit := l\<rparr>)))"

definition Memory_Delete :: "memory \<Rightarrow> string \<Rightarrow> string \<Rightarrow> memory \<times> unit result" where
  "Memory_Delete m userID i = (case DeleteMemory m userID i of Inl e \<Rightarrow> (m, Inl e) | Inr m1 \<Rightarrow> (m1, Inr ()))"

section \<open>Search\<close>

fun dot :: "real list \<Rightarrow> real list \<Rightarrow> real" where
  "dot (x # xs) (y # ys) = x * y + dot xs ys"
| "dot _ _ = 0"

definition cosine :: "real list \<Rightarrow> real list \<Rightarrow> real" where
  "cosine a b =
     (let n = min (length a) (length b); x = take n a; y = take n b
      in if dot x x = 0 \<or> dot y y = 0 then 0 else dot x y / (sqrt (dot x x) * sqrt (dot y y)))"

type_synonym search_hit = "memory_entry \<times> real"

definition hit_of :: "vector_codec \<Rightarrow> time \<Rightarrow> real list \<Rightarrow> memory_entry \<Rightarrow> search_hit list" where
  "hit_of vc now query e =
     (if expired now e \<or> meEmbeddingJSON e = [] then []
      else (case vc_decode vc (meEmbeddingJSON e) of
              None \<Rightarrow> []
            | Some emb \<Rightarrow> if length emb \<noteq> length query then [] else [(e, cosine query emb)]))"

definition better_hit :: "search_hit \<Rightarrow> search_hit \<Rightarrow> bool" where
  "better_hit x y \<longleftrightarrow> snd x > snd y"

definition search_hits :: "vector_codec \<Rightarrow> time \<Rightarrow> memory \<Rightarrow> string \<Rightarrow> real list \<Rightarrow> string \<Rightarrow> search_hit list" where
  "search_hits vc now m userID query layer =
     concat (map (hit_of vc now query)
       (Memory_List now m userID \<lparr>mfUserID = [], mfAgentID = [], mfDriveID = [], mfLayer = layer, mfKey = [],
                                  mfLimit = MaxListLimit\<rparr>))"

definition SearchVector ::
  "vector_codec \<Rightarrow> time \<Rightarrow> memory \<Rightarrow> string \<Rightarrow> real list \<Rightarrow> int \<Rightarrow> string \<Rightarrow> search_hit list result" where
  "SearchVector vc now m userID query k0 layer =
     (if query = [] then Inl (Errorf ''query embedding required'')
      else if length query > MaxEmbeddingDims
      then Inl (Errorf (''query embedding too large (max '' @ show_nat MaxEmbeddingDims @ '' dims)''))
      else (let k = (if k0 \<le> 0 then DefaultSearchK else k0)
            in if k > MaxSearchK then Inl (Errorf (''k too large (max '' @ show_int MaxSearchK @ '')''))
               else Inr (take (nat k) (exch_sort better_hit (search_hits vc now m userID query layer)))))"

section \<open>Cosine similarity\<close>

lemma dot_add_sq:
  "length a = length b \<Longrightarrow>
   dot (map2 (\<lambda>x y. s * x + t * y) a b) (map2 (\<lambda>x y. s * x + t * y) a b) =
     s\<^sup>2 * dot a a + 2 * s * t * dot a b + t\<^sup>2 * dot b b"
  by (induction a b rule: list_induct2) (simp_all add: algebra_simps power2_eq_square)

lemma dot_nonneg: "0 \<le> dot a a"
  by (induction a) simp_all

text \<open>Cauchy--Schwarz, from the square of \<open>|b|^2 a - (a.b) b\<close>.\<close>

lemma dot_cauchy:
  assumes "length a = length b"
  shows "(dot a b)\<^sup>2 \<le> dot a a * dot b b"
proof (cases "dot b b = 0")
  case False
  let ?s = "dot b b" and ?t = "- dot a b"
  have "0 \<le> ?s\<^sup>2 * dot a a + 2 * ?s * ?t * dot a b + ?t\<^sup>2 * dot b b"
    using dot_add_sq [OF assms, of ?s ?t] dot_nonneg by metis
  also have "\<dots> = dot b b * (dot a a * dot b b - (dot a b)\<^sup>2)"
    by (simp add: algebra_simps power2_eq_square)
  finally show ?thesis using False dot_nonneg [of b] by (simp add: zero_le_mult_iff)
next
  case True
  then have "\<forall>y \<in> set b. y = 0" by (induction b) (auto simp: add_nonneg_eq_0_iff dot_nonneg)
  with assms have "dot a b = 0" by (induction a b rule: list_induct2) auto
  then show ?thesis using True by simp
qed

lemma cosine_bounded: "\<bar>cosine a b\<bar> \<le> 1"
proof -
  let ?n = "min (length a) (length b)"
  let ?x = "take ?n a" and ?y = "take ?n b"
  have "(dot ?x ?y)\<^sup>2 \<le> dot ?x ?x * dot ?y ?y" by (rule dot_cauchy) simp
  then have "\<bar>dot ?x ?y\<bar> \<le> sqrt (dot ?x ?x) * sqrt (dot ?y ?y)"
    by (metis real_sqrt_abs real_sqrt_le_iff real_sqrt_mult)
  moreover have "0 < sqrt (dot ?x ?x) * sqrt (dot ?y ?y)" if "dot ?x ?x \<noteq> 0" "dot ?y ?y \<noteq> 0"
    using that dot_nonneg [of ?x] dot_nonneg [of ?y] by simp
  ultimately show ?thesis by (auto simp: cosine_def Let_def abs_divide abs_mult divide_le_eq dot_nonneg)
qed

section \<open>The result of a search\<close>

interpretation hits: strict_weak better_hit
  by unfold_locales (auto simp: better_hit_def)

lemma Memory_List_live: "e \<in> set (Memory_List now m userID f) \<Longrightarrow> \<not> expired now e \<and> meUserID e = userID"
  if "userID \<noteq> []"
  using that by (auto simp: Memory_List_def ListMemory_def memory_matches_def Let_def dest!: in_set_takeD)

text \<open>a search returns at most k live memories of the user, best first, with their scores between -1
  and 1, and no candidate that is left out beats one that is returned.\<close>

theorem search_returns_best:
  assumes "SearchVector vc now m userID query k layer = Inr hits" and "userID \<noteq> []"
  shows "length hits \<le> nat (if k \<le> 0 then DefaultSearchK else k) \<and> length hits \<le> 50 \<and>
    sorted_wrt (\<lambda>x y. snd y \<le> snd x) hits \<and>
    (\<forall>(e, score) \<in> set hits. \<not> expired now e \<and> meUserID e = userID \<and> -1 \<le> score \<and> score \<le> 1) \<and>
    mset hits \<subseteq># mset (search_hits vc now m userID query layer) \<and>
    (\<forall>x \<in># mset (search_hits vc now m userID query layer) - mset hits. \<forall>y \<in> set hits. snd x \<le> snd y)"
proof -
  let ?k = "if k \<le> 0 then DefaultSearchK else k" and ?all = "search_hits vc now m userID query layer"
  let ?sorted = "exch_sort better_hit ?all"
  from assms(1) have h: "hits = take (nat ?k) ?sorted" and k: "?k \<le> MaxSearchK"
    by (auto simp: SearchVector_def Let_def split: if_splits)
  have split: "mset ?sorted = mset hits + mset (drop (nat ?k) ?sorted)"
    unfolding h by (metis append_take_drop_id mset_append)
  then have sub: "mset hits \<subseteq># mset ?all" and rest: "mset ?all - mset hits = mset (drop (nat ?k) ?sorted)"
    by simp_all
  have "sorted_wrt (\<lambda>x y. \<not> better_hit y x) hits"
    unfolding h by (intro sorted_wrt_take hits.sorted_exch_sort)
  then have sorted: "sorted_wrt (\<lambda>x y. snd y \<le> snd x) hits" by (simp add: better_hit_def not_less)
  have out: "snd x \<le> snd y" if "x \<in># mset ?all - mset hits" "y \<in> set hits" for x y
  proof -
    have "x \<in> set (drop (nat ?k) ?sorted)" using that(1) unfolding rest by simp
    moreover have "y \<in> set (take (nat ?k) ?sorted)" using that(2) unfolding h .
    ultimately have "\<not> better_hit x y" by (intro hits.take_sorted)
    then show ?thesis by (simp add: better_hit_def)
  qed
  have each: "\<not> expired now e \<and> meUserID e = userID \<and> -1 \<le> score \<and> score \<le> 1" if "(e, score) \<in> set hits" for e score
  proof -
    from that have "(e, score) \<in> set ?all" unfolding h by (auto dest: in_set_takeD)
    then obtain emb where "e \<in> set (Memory_List now m userID \<lparr>mfUserID = [], mfAgentID = [], mfDriveID = [],
        mfLayer = layer, mfKey = [], mfLimit = MaxListLimit\<rparr>)" "score = cosine query emb"
      by (auto simp: search_hits_def hit_of_def split: if_splits option.splits)
    then show ?thesis using Memory_List_live [OF assms(2)] cosine_bounded [of query emb] by (auto simp: abs_le_iff)
  qed
  show ?thesis using h k sorted sub out each by auto
qed


definition demo_vectors :: vector_codec where
  "demo_vectors = \<lparr>vc_encode = (\<lambda>_. Inr ''v''), vc_decode = (\<lambda>_. Some [1])\<rparr>"

definition demo_memory :: memory_entry where
  "demo_memory = \<lparr>meID = ''m'', meUserID = ''u'', meAgentID = [], meDriveID = [], meLayer = LayerWorking, meKey = [],
     meContent = ''c'', meMetaJSON = [], meEmbeddingJSON = ''v'', meCreatedAt = 1, meExpiresAt = 0\<rparr>"

lemma demo_hits:
  "SearchVector demo_vectors 9 (NewMemory\<lparr>m_memories := [(''m'', demo_memory)]\<rparr>) ''u'' [2] 0 [] = Inr [(demo_memory, 1)]"
  by (simp add: SearchVector_def search_hits_def hit_of_def Memory_List_def ListMemory_def memory_matches_def
      memory_live_def expired_def demo_memory_def demo_vectors_def cosine_def)

lemma search_returns_best_witness:
  "\<exists>hits. SearchVector demo_vectors 9 (NewMemory\<lparr>m_memories := [(''m'', demo_memory)]\<rparr>) ''u'' [2] 0 [] = Inr hits \<and>
     hits \<noteq> [] \<and> length hits \<le> 50 \<and> (\<forall>(e, score) \<in> set hits. \<not> expired 9 e \<and> score \<le> 1)"
  using search_returns_best [OF demo_hits] demo_hits by fastforce

end
