(* ===== verification/Market_Service.thy ===== *)
theory Market_Service
  imports Store_StageC Sts_Vendors
begin

text \<open>
  The marketplace (\<open>internal/marketplace/service.go\<close>, \<open>stripe.go\<close>, \<open>checkout_session.go\<close>): the built-in
  catalogue, listings, purchases, the payment webhook with its signature and the installation of items.
  Parameters (\<open>market_env\<close>): the process environment, HMAC-SHA256, the HTTP client, the Base64 encoder
  of the basic authentication and the JSON encoder and decoders; a payload that does not decode is the
  empty object. A service with a nil store is not modelled. Seconds are within int64.
\<close>

abbreviation KindAgentTemplate :: string where "KindAgentTemplate \<equiv> ''agent_template''"
abbreviation KindSkill :: string where "KindSkill \<equiv> ''skill''"
abbreviation KindManifest :: string where "KindManifest \<equiv> ''manifest''"

type_synonym payload = "(string \<times> json) list"

record stripe_event =
  evType :: string
  evObjectID :: string
  evMetadata :: "string gomap option"

record market_env =
  mk_env :: environment
  mk_hmac_sha256 :: "string \<Rightarrow> string \<Rightarrow> string"
  mk_http :: "http_request \<Rightarrow> string + int \<times> string"
  mk_marshal :: "payload \<Rightarrow> string + string"
  mk_payload :: "string \<Rightarrow> payload"
  mk_event :: "string \<Rightarrow> string + stripe_event"
  mk_session :: "string \<Rightarrow> string + string \<times> string"

section \<open>The catalogue\<close>

definition sys_item :: "market_env \<Rightarrow> string \<Rightarrow> string \<Rightarrow> string \<Rightarrow> string \<Rightarrow> payload \<Rightarrow> marketplace_item" where
  "sys_item e i name desc kind p =
     \<lparr>miID = i, miPublisherUserID = [], miName = name, miDescription = desc, miKind = kind, miVersion = ''1.0.0'',
      miPayloadJSON = (case mk_marshal e p of Inl _ \<Rightarrow> [] | Inr b \<Rightarrow> b), miPublic = True, miPriceCents = 0,
      miCurrency = [], miCreatedAt = from_unix 0\<rparr>"

definition systemCatalog :: "market_env \<Rightarrow> marketplace_item list" where
  "systemCatalog e =
    [sys_item e ''sys.agent.readonly'' ''Read-only Drive Agent'' ''Agent template with drive.read only'' KindAgentTemplate
       [(''name'', JStr ''readonly-bot''), (''default_scopes'', JArr [JStr ''drive.read'']),
        (''description'', JStr ''list and read drives'')],
     sys_item e ''sys.agent.jobs'' ''BYOC Job Worker Agent'' ''Agent with job.run + drive.read for claim loops'' KindAgentTemplate
       [(''name'', JStr ''job-worker''), (''default_scopes'', JArr [JStr ''drive.read'', JStr ''job.run'']),
        (''description'', JStr ''claim and complete BYOC jobs'')],
     sys_item e ''sys.skill.qiniu_presign'' ''Qiniu private GET skill'' ''Hints for object_presign_get on type=qiniu'' KindSkill
       [(''tool'', JStr ''object_presign_get''), (''notes'', JStr ''method=qiniu_download without live S3'')],
     sys_item e ''sys.manifest.workspace_v2'' ''Workspace Manifest v2 skeleton'' ''permissions.read/write prefixes'' KindManifest
       [(''version'', JNum 2), (''permissions'', JObj [(''read'', JArr [JStr ''*'']), (''write'', JArr [JStr ''out/''])])]]"

definition Market_List :: "market_env \<Rightarrow> memory \<Rightarrow> string \<Rightarrow> bool \<Rightarrow> marketplace_item list" where
  "Market_List e m userID mineOnly =
     (let out = systemCatalog e @ ListMarketplaceItems m True []
      in if mineOnly \<and> userID \<noteq> []
         then out @ filter (\<lambda>it. miID it \<notin> miID ` set out) (ListMarketplaceItems m False userID)
         else out)"

definition Market_Get :: "market_env \<Rightarrow> memory \<Rightarrow> string \<Rightarrow> marketplace_item result" where
  "Market_Get e m i =
     (case find (\<lambda>it. miID it = i) (systemCatalog e) of Some it \<Rightarrow> Inr it | None \<Rightarrow> GetMarketplaceItem m i)"

section \<open>Listings\<close>

record publish_input =
  pbName :: string
  pbDescription :: string
  pbKind :: string
  pbVersion :: string
  pbPayload :: payload
  pbPublic :: bool
  pbPriceCents :: int
  pbCurrency :: string

definition new_listing :: "market_env \<Rightarrow> draw \<Rightarrow> string \<Rightarrow> publish_input \<Rightarrow> marketplace_item result" where
  "new_listing e dr userID inp =
     (let kind0 = trim_space (pbKind inp); kind = (if kind0 = [] then KindAgentTemplate else kind0);
          name = trim_space (pbName inp); ver = trim_space (pbVersion inp); cur = trim_space (pbCurrency inp)
      in if kind \<notin> {KindAgentTemplate, KindSkill, KindManifest}
         then Inl (Errorf ''kind must be agent_template|skill|manifest'')
         else if name = [] then Inl (Errorf ''name required'')
         else (case mk_marshal e (pbPayload inp) of
                 Inl x \<Rightarrow> Inl (Errorf x)
               | Inr b \<Rightarrow>
                   Inr \<lparr>miID = dr_id dr, miPublisherUserID = userID, miName = name,
                        miDescription = trim_space (pbDescription inp), miKind = kind,
                        miVersion = (if ver = [] then ''0.1.0'' else ver), miPayloadJSON = b, miPublic = pbPublic inp,
                        miPriceCents = pbPriceCents inp,
                        miCurrency = (if pbPriceCents inp > 0 \<and> cur = [] then ''usd'' else cur),
                        miCreatedAt = dr_now dr\<rparr>))"

definition Publish :: "market_env \<Rightarrow> draw \<Rightarrow> memory \<Rightarrow> string \<Rightarrow> publish_input \<Rightarrow> memory \<times> marketplace_item result" where
  "Publish e dr m userID inp =
     (case new_listing e dr userID inp of
        Inl x \<Rightarrow> (m, Inl x)
      | Inr it \<Rightarrow> (case CreateMarketplaceItem m it of Inl x \<Rightarrow> (m, Inl x) | Inr m1 \<Rightarrow> (m1, Inr it)))"

definition Market_Delete :: "memory \<Rightarrow> string \<Rightarrow> string \<Rightarrow> memory \<times> unit result" where
  "Market_Delete m userID i =
     (if prefix ''sys.'' i then (m, Inl (Errorf ''cannot delete system catalog item''))
      else (case DeleteMarketplaceItem m userID i of Inl x \<Rightarrow> (m, Inl x) | Inr m1 \<Rightarrow> (m1, Inr ())))"

section \<open>Purchases\<close>

definition new_purchase :: "draw \<Rightarrow> string \<Rightarrow> string \<Rightarrow> marketplace_item \<Rightarrow> purchase" where
  "new_purchase dr userID itemID it =
     (let free = miPriceCents it \<le> 0
      in \<lparr>puID = dr_id dr, puUserID = userID, puItemID = itemID, puAmountCents = miPriceCents it,
          puCurrency = (if \<not> free \<and> miCurrency it = [] then ''usd'' else miCurrency it),
          puStatus = (if free then ''paid'' else ''pending''), puProvider = (if free then ''free'' else ''stripe''),
          puProviderRef = (if free then ''free'' else ''pending_'' @ dr_id dr), puCreatedAt = dr_now dr\<rparr>)"

definition Checkout :: "market_env \<Rightarrow> draw \<Rightarrow> memory \<Rightarrow> string \<Rightarrow> string \<Rightarrow> memory \<times> purchase result" where
  "Checkout e dr m userID itemID =
     (case Market_Get e m itemID of
        Inl x \<Rightarrow> (m, Inl x)
      | Inr it \<Rightarrow>
          (let p = new_purchase dr userID itemID it
           in (case CreatePurchase m p of Inl x \<Rightarrow> (m, Inl x) | Inr m1 \<Rightarrow> (m1, Inr p))))"

definition truncateBody :: "string \<Rightarrow> nat \<Rightarrow> string" where
  "truncateBody b n = (if length b \<le> n then b else take n b @ ellipsis)"

text \<open>The form of a session request; empty metadata is left out.\<close>

definition checkout_form :: "market_env \<Rightarrow> int \<Rightarrow> string \<Rightarrow> string \<Rightarrow> string gomap \<Rightarrow> string gomap" where
  "checkout_form e amount currency product metadata =
     (let ok = trim_space (mk_env e ''AI_CLOUDHUB_STRIPE_SUCCESS_URL'');
          cancel = trim_space (mk_env e ''AI_CLOUDHUB_STRIPE_CANCEL_URL'')
      in fold (\<lambda>(k, v) form. if k = [] \<or> v = [] then form else gset (''metadata['' @ k @ '']'') v form) metadata
           [(''mode'', ''payment''),
            (''success_url'', if ok = [] then ''https://example.com/marketplace/paid?session_id={CHECKOUT_SESSION_ID}'' else ok),
            (''cancel_url'', if cancel = [] then ''https://example.com/marketplace/cancel'' else cancel),
            (''line_items[0][quantity]'', ''1''), (''line_items[0][price_data][currency]'', currency),
            (''line_items[0][price_data][unit_amount]'', show_int amount),
            (''line_items[0][price_data][product_data][name]'', product)])"

definition stripe_secret :: "market_env \<Rightarrow> string" where
  "stripe_secret e =
     (let s = trim_space (mk_env e ''AI_CLOUDHUB_STRIPE_SECRET_KEY'')
      in if s = [] then trim_space (mk_env e ''STRIPE_SECRET_KEY'') else s)"

definition CreateCheckoutSessionURL ::
  "market_env \<Rightarrow> int \<Rightarrow> string \<Rightarrow> string \<Rightarrow> string gomap \<Rightarrow> (string \<times> string) result" where
  "CreateCheckoutSessionURL e amount currency0 product0 metadata =
     (let secret = stripe_secret e;
          currency = (if currency0 = [] then ''usd'' else currency0);
          product = (if product0 = [] then ''AI-cloudhub marketplace item'' else product0);
          pid0 = (case gget metadata ''purchase_id'' of Some p \<Rightarrow> p | None \<Rightarrow> [])
      in if secret = []
         then (let sid = ''cs_test_mock_'' @ (if pid0 = [] then ''unknown'' else pid0)
               in Inr (''https://checkout.stripe.com/c/pay/'' @ sid, sid))
         else (case mk_http e
                   \<lparr>hqMethod = ''POST'', hqURL = ''https://api.stripe.com/v1/checkout/sessions'',
                    hqHeaders = [(''Authorization'', ''Basic '' @ b64_std (secret @ '':'')),
                                 (''Content-Type'', ''application/x-www-form-urlencoded'')],
                    hqBody = encode_values (checkout_form e amount currency product metadata)\<rparr> of
                 Inl x \<Rightarrow> Inl (Errorf (''stripe checkout session: '' @ x))
               | Inr (code, body) \<Rightarrow>
                   if code \<ge> 300
                   then Inl (Errorf (''stripe checkout session HTTP '' @ show_int code @ '': '' @ truncateBody body 400))
                   else (case mk_session e body of
                           Inl x \<Rightarrow> Inl (Errorf (''stripe checkout parse: '' @ x))
                         | Inr (sid, url) \<Rightarrow>
                             if url = [] \<or> sid = [] then Inl (Errorf ''stripe checkout missing url/id'')
                             else Inr (url, sid))))"

record checkout_result =
  crPurchase :: purchase
  crStripeMetadata :: "string gomap"
  crCheckoutURL :: string
  crSessionID :: string
  crNote :: string

definition stripe_metadata :: "string \<Rightarrow> string \<Rightarrow> purchase \<Rightarrow> string gomap" where
  "stripe_metadata userID itemID p = [(''purchase_id'', puID p), (''user_id'', userID), (''item_id'', itemID)]"

text \<open>The update of the reference ignores its error.\<close>

definition with_session :: "memory \<Rightarrow> string \<Rightarrow> purchase \<Rightarrow> memory \<times> purchase" where
  "with_session m sid p =
     (if sid = [] then (m, p)
      else (let p1 = p\<lparr>puProviderRef := sid\<rparr>
            in (case UpdatePurchase m p1 of Inl _ \<Rightarrow> m | Inr m1 \<Rightarrow> m1, p1)))"

definition CheckoutDetailed :: "market_env \<Rightarrow> draw \<Rightarrow> memory \<Rightarrow> string \<Rightarrow> string \<Rightarrow> memory \<times> checkout_result result" where
  "CheckoutDetailed e dr m userID itemID =
     (case Checkout e dr m userID itemID of
        (m1, Inl x) \<Rightarrow> (m1, Inl x)
      | (m1, Inr p) \<Rightarrow>
          (let out = \<lparr>crPurchase = p, crStripeMetadata = [], crCheckoutURL = [], crSessionID = [], crNote = []\<rparr>
           in if puStatus p \<noteq> ''pending'' then (m1, Inr out)
              else (let md = stripe_metadata userID itemID p; out1 = out\<lparr>crStripeMetadata := md\<rparr>;
                        name = (case Market_Get e m1 itemID of
                                  Inr it \<Rightarrow> if miName it = [] then itemID else miName it | Inl _ \<Rightarrow> itemID)
                    in (case CreateCheckoutSessionURL e (puAmountCents p) (puCurrency p) name md of
                          Inl x \<Rightarrow>
                            (m1, Inr (out1\<lparr>crNote := ''checkout_url unavailable: '' @ error_text x @
                               ''; use stripe_metadata client-side or set AI_CLOUDHUB_STRIPE_SECRET_KEY''\<rparr>))
                        | Inr (url, sid) \<Rightarrow>
                            (case with_session m1 sid p of
                               (m2, p2) \<Rightarrow>
                                 (m2, Inr (out1\<lparr>crPurchase := p2, crCheckoutURL := url, crSessionID := sid,
                                    crNote := (if prefix ''cs_test_mock_'' sid
                                      then ''Mock checkout_url (no AI_CLOUDHUB_STRIPE_SECRET_KEY). Set secret + SUCCESS/CANCEL URLs for live Stripe Session; complete via webhook or POST /v1/purchases/{id}/pay''
                                      else ''Redirect buyer to checkout_url; complete via webhook POST /v1/webhooks/stripe'')\<rparr>)))))))"

definition WebhookPaid :: "memory \<Rightarrow> string \<Rightarrow> string \<Rightarrow> string \<Rightarrow> memory \<times> purchase result" where
  "WebhookPaid m userID purchaseID providerRef =
     (case GetPurchase m userID purchaseID of
        Inl x \<Rightarrow> (m, Inl x)
      | Inr p0 \<Rightarrow>
          (let p1 = p0\<lparr>puStatus := ''paid''\<rparr>;
               p = (if providerRef \<noteq> [] then p1\<lparr>puProviderRef := providerRef\<rparr> else p1)
           in (case UpdatePurchase m p of Inl x \<Rightarrow> (m, Inl x) | Inr m1 \<Rightarrow> (m1, Inr p))))"

definition Market_ListPurchases :: "memory \<Rightarrow> string \<Rightarrow> int \<Rightarrow> purchase list" where
  "Market_ListPurchases m userID limit = ListPurchases m userID limit"

section \<open>The payment webhook\<close>

text \<open>The loop over the parts of the header: the last timestamp and the last signature count.\<close>

fun signature_parts :: "string list \<Rightarrow> int \<Rightarrow> string \<Rightarrow> (int \<times> string) result" where
  "signature_parts [] ts v1 = Inr (ts, v1)"
| "signature_parts (part0 # parts) ts v1 =
     (let part = trim_space part0
      in if prefix ''t='' part
         then (case atoi (trim_prefix ''t='' part) of
                 None \<Rightarrow> Inl (Errorf ''bad t in signature'')
               | Some n \<Rightarrow> signature_parts parts n v1)
         else if prefix ''v1='' part then signature_parts parts ts (trim_prefix ''v1='' part)
         else signature_parts parts ts v1)"

definition stripe_tolerance :: "market_env \<Rightarrow> int" where
  "stripe_tolerance e =
     (let v = trim_space (mk_env e ''AI_CLOUDHUB_STRIPE_TOLERANCE_SEC'')
      in if v = [] then 300 else (case atoi v of Some n \<Rightarrow> if n > 0 then n else 300 | None \<Rightarrow> 300))"

definition stripe_mac :: "market_env \<Rightarrow> string \<Rightarrow> int \<Rightarrow> string \<Rightarrow> string" where
  "stripe_mac e secret ts payload = lower_hex (mk_hmac_sha256 e secret (show_int ts @ ''.'' @ payload))"

definition VerifyStripeSignature :: "market_env \<Rightarrow> string \<Rightarrow> string \<Rightarrow> string \<Rightarrow> time \<Rightarrow> unit result" where
  "VerifyStripeSignature e payload sigHeader secret0 now =
     (let secret = trim_space secret0
      in if secret = [] then Inl (Errorf ''webhook secret not configured'')
         else if sigHeader = [] then Inl (Errorf ''missing Stripe-Signature'')
         else and_then (signature_parts (split_c (CHR '','') sigHeader) 0 [])
                (\<lambda>(ts, v1).
                   if ts = 0 \<or> v1 = [] then Inl (Errorf ''incomplete Stripe-Signature'')
                   else (let d = unix_seconds now - ts; tol = stripe_tolerance e
                         in if d > tol \<or> d < - tol then Inl (Errorf ''timestamp outside tolerance'')
                            else if stripe_mac e secret ts payload \<noteq> v1 then Inl (Errorf ''signature mismatch'')
                            else Inr ())))"

definition ParseStripeCheckoutCompleted :: "market_env \<Rightarrow> string \<Rightarrow> (string \<times> string \<times> string) result" where
  "ParseStripeCheckoutCompleted e payload =
     (case mk_event e payload of
        Inl x \<Rightarrow> Inl (Errorf (''json: '' @ x))
      | Inr ev \<Rightarrow>
          if evType ev \<notin> {[], ''checkout.session.completed'', ''payment_intent.succeeded'', ''ai_cloudhub.purchase.paid''}
          then Inl (Errorf (''unsupported event type '' @ quoted (evType ev)))
          else (case evMetadata ev of
                  None \<Rightarrow> Inl (Errorf ''missing metadata'')
                | Some md \<Rightarrow>
                    (let field = (\<lambda>k. trim_space (case gget md k of Some v \<Rightarrow> v | None \<Rightarrow> []))
                     in if field ''purchase_id'' = [] \<or> field ''user_id'' = []
                        then Inl (Errorf ''metadata.purchase_id and metadata.user_id required'')
                        else Inr (field ''purchase_id'', field ''user_id'', evObjectID ev))))"

definition SignStripeTest :: "market_env \<Rightarrow> string \<Rightarrow> string \<Rightarrow> time \<Rightarrow> string" where
  "SignStripeTest e payload secret ts =
     ''t='' @ show_int (unix_seconds ts) @ '',v1='' @ stripe_mac e secret (unix_seconds ts) payload"

definition market_envTruthy :: "market_env \<Rightarrow> string \<Rightarrow> bool" where
  "market_envTruthy e k = (to_lower (trim_space (mk_env e k)) \<in> {''1'', ''true'', ''yes''})"

definition HandleStripeWebhook :: "market_env \<Rightarrow> time \<Rightarrow> memory \<Rightarrow> string \<Rightarrow> string \<Rightarrow> memory \<times> purchase result" where
  "HandleStripeWebhook e now m payload sigHeader =
     (let secret = trim_space (mk_env e ''AI_CLOUDHUB_STRIPE_WEBHOOK_SECRET'');
          checked = (if secret \<noteq> []
                     then (case VerifyStripeSignature e payload sigHeader secret now of
                             Inl x \<Rightarrow> Inl (Errorf (''stripe signature: '' @ error_text x)) | Inr _ \<Rightarrow> Inr ())
                     else if \<not> market_envTruthy e ''AI_CLOUDHUB_STRIPE_ALLOW_INSECURE''
                     then Inl (Errorf ''set AI_CLOUDHUB_STRIPE_WEBHOOK_SECRET (or AI_CLOUDHUB_STRIPE_ALLOW_INSECURE=1 for local dev)'')
                     else Inr ())
      in (case and_then checked (\<lambda>_. ParseStripeCheckoutCompleted e payload) of
            Inl x \<Rightarrow> (m, Inl x)
          | Inr (pid, uid, sid) \<Rightarrow> WebhookPaid m uid pid sid))"

section \<open>Access and installation\<close>

definition HasPaidAccess :: "market_env \<Rightarrow> memory \<Rightarrow> string \<Rightarrow> string \<Rightarrow> bool result" where
  "HasPaidAccess e m userID itemID =
     and_then (Market_Get e m itemID)
       (\<lambda>it. if miPriceCents it \<le> 0 then Inr True
             else Inr (list_ex (\<lambda>p. puItemID p = itemID \<and> puStatus p = ''paid'') (Market_ListPurchases m userID 200)))"

definition requirePaid :: "market_env \<Rightarrow> memory \<Rightarrow> string \<Rightarrow> string \<Rightarrow> unit result" where
  "requirePaid e m userID itemID =
     and_then (HasPaidAccess e m userID itemID)
       (\<lambda>ok. if ok then Inr ()
             else Inl (Errorf (''purchase required: POST /v1/marketplace/'' @ itemID @
               ''/checkout then complete payment (status=paid)'')))"

record install_result =
  irKind :: string
  irAgentID :: string
  irName :: string
  irScopes :: "string list"
  irItemID :: string
  irExtra :: payload

definition string_items :: "json option \<Rightarrow> string list" where
  "string_items j = (case j of Some (JArr js) \<Rightarrow> concat (map (\<lambda>x. case x of JStr s \<Rightarrow> [s] | _ \<Rightarrow> []) js) | _ \<Rightarrow> [])"

text \<open>The agent is created by the caller's function, which may change the store.\<close>

definition InstallAgentTemplate ::
  "market_env \<Rightarrow> memory \<Rightarrow> string \<Rightarrow> string \<Rightarrow> (memory \<Rightarrow> string \<Rightarrow> string \<Rightarrow> string list \<Rightarrow> memory \<times> string result)
   \<Rightarrow> memory \<times> install_result result" where
  "InstallAgentTemplate e m userID itemID createAgent =
     (case and_then (Market_Get e m itemID)
             (\<lambda>it. if miKind it \<noteq> KindAgentTemplate
                   then Inl (Errorf (''item kind is '' @ miKind it @ '', need agent_template''))
                   else and_then (requirePaid e m userID itemID) (\<lambda>_. Inr it)) of
        Inl x \<Rightarrow> (m, Inl x)
      | Inr it \<Rightarrow>
          (let p = mk_payload e (miPayloadJSON it);
               name = (if string_at p ''name'' = [] then miName it else string_at p ''name'');
               desc = (if string_at p ''description'' = [] then miDescription it else string_at p ''description'');
               scopes0 = string_items (map_of p ''default_scopes'');
               scopes = (if scopes0 = [] then [''drive.read''] else scopes0)
           in (case createAgent m name desc scopes of
                 (m1, Inl x) \<Rightarrow> (m1, Inl x)
               | (m1, Inr aid) \<Rightarrow>
                   (m1, Inr \<lparr>irKind = KindAgentTemplate, irAgentID = aid, irName = name, irScopes = scopes,
                             irItemID = itemID, irExtra = p\<rparr>))))"

definition installPayloadItem :: "market_env \<Rightarrow> memory \<Rightarrow> string \<Rightarrow> string \<Rightarrow> string \<Rightarrow> install_result result" where
  "installPayloadItem e m userID itemID wantKind =
     and_then (Market_Get e m itemID)
       (\<lambda>it. if miKind it \<noteq> wantKind then Inl (Errorf (''item kind is '' @ miKind it @ '', need '' @ wantKind))
             else and_then (requirePaid e m userID itemID)
                    (\<lambda>_. let p = mk_payload e (miPayloadJSON it)
                          in Inr \<lparr>irKind = wantKind, irAgentID = [],
                                  irName = (if string_at p ''name'' = [] then miName it else string_at p ''name''),
                                  irScopes = [], irItemID = itemID, irExtra = p\<rparr>))"

definition InstallSkill :: "market_env \<Rightarrow> memory \<Rightarrow> string \<Rightarrow> string \<Rightarrow> install_result result" where
  "InstallSkill e m userID itemID = installPayloadItem e m userID itemID KindSkill"

definition InstallManifest :: "market_env \<Rightarrow> memory \<Rightarrow> string \<Rightarrow> string \<Rightarrow> install_result result" where
  "InstallManifest e m userID itemID = installPayloadItem e m userID itemID KindManifest"

end
