(* ===== verification/Market_Properties.thy ===== *)
theory Market_Properties
  imports Market_Service
begin

text \<open>
  Facts of the marketplace: what a payment event must carry to be accepted, and where access to a priced
  item can come from: a payment event for a purchase of that user and item, or the buyer's own call of
  the pay route.
\<close>

section \<open>Runs of the marketplace\<close>

text \<open>The operations that change the tables of the marketplace; identifiers are drawn fresh. \<open>OpStripe\<close>
  is a request of the payment provider, \<open>OpPay\<close> the call POST /v1/purchases/\<open>id\<close>/pay of the user.\<close>

datatype market_op =
    OpPublish string publish_input
  | OpDelete string string
  | OpCheckout string string
  | OpDetailed string string
  | OpStripe time string string
  | OpPay string string string

fun market_call :: "market_env \<Rightarrow> draw \<Rightarrow> memory \<Rightarrow> market_op \<Rightarrow> memory" where
  "market_call e dr m (OpPublish u inp) = fst (Publish e dr m u inp)"
| "market_call e dr m (OpDelete u i) = fst (Market_Delete m u i)"
| "market_call e dr m (OpCheckout u i) = fst (Checkout e dr m u i)"
| "market_call e dr m (OpDetailed u i) = fst (CheckoutDetailed e dr m u i)"
| "market_call e dr m (OpStripe now payload hdr) = fst (HandleStripeWebhook e now m payload hdr)"
| "market_call e dr m (OpPay u i ref) = fst (WebhookPaid m u i ref)"

text \<open>A request of the payment provider that is genuine and names a purchase of a user: its header
  carries, for an instant within the tolerance, the code of exactly these bytes under the configured
  secret, and its metadata name the purchase and the user. Without a secret the service takes
  every event when it is told to run insecurely, and none otherwise.\<close>

definition genuine :: "market_env \<Rightarrow> time \<Rightarrow> string \<Rightarrow> string \<Rightarrow> bool" where
  "genuine e now payload hdr \<longleftrightarrow>
     (let secret = trim_space (mk_env e ''AI_CLOUDHUB_STRIPE_WEBHOOK_SECRET'')
      in if secret = [] then market_envTruthy e ''AI_CLOUDHUB_STRIPE_ALLOW_INSECURE''
         else \<exists>ts. ts \<noteq> 0 \<and> \<bar>unix_seconds now - ts\<bar> \<le> stripe_tolerance e \<and>
                signature_parts (split_c (CHR '','') hdr) 0 [] = Inr (ts, stripe_mac e secret ts payload))"

definition names_purchase :: "market_env \<Rightarrow> string \<Rightarrow> string \<Rightarrow> string \<Rightarrow> bool" where
  "names_purchase e payload u k \<longleftrightarrow>
     (\<exists>ev md pv uv. mk_event e payload = Inr ev \<and> evMetadata ev = Some md \<and>
        gget md ''purchase_id'' = Some pv \<and> trim_space pv = k \<and>
        gget md ''user_id'' = Some uv \<and> trim_space uv = u)"

text \<open>Why a purchase may be marked paid: a genuine event that names it, or the buyer's own call.\<close>

definition event_paid :: "market_env \<Rightarrow> market_op set \<Rightarrow> string \<Rightarrow> string \<Rightarrow> bool" where
  "event_paid e ops u k \<longleftrightarrow>
     (\<exists>now payload hdr. OpStripe now payload hdr \<in> ops \<and> genuine e now payload hdr \<and> names_purchase e payload u k)"

definition self_paid :: "market_op set \<Rightarrow> string \<Rightarrow> string \<Rightarrow> bool" where
  "self_paid ops u k \<longleftrightarrow> (\<exists>ref. OpPay u k ref \<in> ops)"

definition unused_id :: "market_env \<Rightarrow> memory \<Rightarrow> string \<Rightarrow> bool" where
  "unused_id e m i \<longleftrightarrow> (case Market_Get e m i of Inl _ \<Rightarrow> True | Inr _ \<Rightarrow> False) \<and>
     gget (m_purchases m) i = None \<and> i \<notin> puItemID ` set (gvals (m_purchases m))"

inductive market_run :: "market_env \<Rightarrow> memory \<Rightarrow> market_op set \<Rightarrow> bool" for e where
  start: "m_purchases m = [] \<Longrightarrow> market_run e m {}"
| step: "market_run e m ops \<Longrightarrow> unused_id e m (dr_id dr) \<Longrightarrow>
    market_run e (market_call e dr m op) (insert op ops)"

text \<open>Every purchase is filed under its identifier, carries the price of its item while the item exists,
  and is paid only when it was free, a payment event named it or its buyer said so.\<close>

definition purchase_ok :: "market_env \<Rightarrow> memory \<Rightarrow> market_op set \<Rightarrow> string \<Rightarrow> purchase \<Rightarrow> bool" where
  "purchase_ok e m ops k p \<longleftrightarrow> puID p = k \<and> k \<noteq> [] \<and>
     (puStatus p = ''paid'' \<longrightarrow> puAmountCents p \<le> 0 \<or> event_paid e ops (puUserID p) k \<or> self_paid ops (puUserID p) k) \<and>
     (\<forall>it. Market_Get e m (puItemID p) = Inr it \<longrightarrow> puAmountCents p = miPriceCents it)"

definition market_ok :: "market_env \<Rightarrow> memory \<Rightarrow> market_op set \<Rightarrow> bool" where
  "market_ok e m ops \<longleftrightarrow> gwf (m_purchases m) \<and> (\<forall>k p. gget (m_purchases m) k = Some p \<longrightarrow> purchase_ok e m ops k p)"

lemma paid_mono:
  "event_paid e ops u k \<Longrightarrow> ops \<subseteq> ops1 \<Longrightarrow> event_paid e ops1 u k"
  "self_paid ops u k \<Longrightarrow> ops \<subseteq> ops1 \<Longrightarrow> self_paid ops1 u k"
  unfolding event_paid_def self_paid_def by blast+

lemma Market_Get_market: "m_market m1 = m_market m \<Longrightarrow> Market_Get e m1 i = Market_Get e m i"
  by (simp add: Market_Get_def GetMarketplaceItem_def split: option.split)

lemma purchase_ok_mono:
  "purchase_ok e m paid k p \<Longrightarrow> paid \<subseteq> paid1 \<Longrightarrow> m_market m1 = m_market m \<Longrightarrow> purchase_ok e m1 paid1 k p"
  unfolding purchase_ok_def using Market_Get_market [of m1 m] paid_mono by metis

text \<open>A new or replaced purchase in an unchanged market.\<close>

lemma market_ok_put:
  assumes "market_ok e m paid" "m_purchases m1 = gset k p (m_purchases m)" "m_market m1 = m_market m"
    "paid \<subseteq> paid1" "purchase_ok e m paid1 k p"
  shows "market_ok e m1 paid1"
  unfolding market_ok_def
proof (intro conjI allI impI)
  show "gwf (m_purchases m1)" using assms(1,2) by (simp add: market_ok_def)
next
  fix j q assume j: "gget (m_purchases m1) j = Some q"
  show "purchase_ok e m1 paid1 j q"
  proof (cases "j = k")
    case True
    with j assms(2) have "q = p" by simp
    then show ?thesis using True purchase_ok_mono [OF assms(5) order_refl assms(3)] by simp
  next
    case False
    with j assms(2) have "gget (m_purchases m) j = Some q" by simp
    then have "purchase_ok e m paid j q" using assms(1) by (simp add: market_ok_def)
    then show ?thesis by (rule purchase_ok_mono [OF _ assms(4,3)])
  qed
qed

lemma market_ok_same:
  "market_ok e m paid \<Longrightarrow> m_purchases m1 = m_purchases m \<Longrightarrow> m_market m1 = m_market m \<Longrightarrow> paid \<subseteq> paid1 \<Longrightarrow> market_ok e m1 paid1"
  unfolding market_ok_def using purchase_ok_mono by metis

lemma CreatePurchase_cases:
  "CreatePurchase m p = Inr m1 \<Longrightarrow> m_purchases m1 = gset (puID p) p (m_purchases m) \<and> m_market m1 = m_market m"
  by (auto simp: CreatePurchase_def split: if_splits)

lemma UpdatePurchase_cases:
  "UpdatePurchase m p = Inr m1 \<Longrightarrow> m_purchases m1 = gset (puID p) p (m_purchases m) \<and> m_market m1 = m_market m"
  by (auto simp: UpdatePurchase_def split: if_splits option.splits)

lemma Checkout_ok:
  assumes ok: "market_ok e m paid" and call: "Checkout e dr m u i = (m1, r)"
  shows "market_ok e m1 paid \<and> m_market m1 = m_market m \<and>
    (\<forall>p. r = Inr p \<longrightarrow> purchase_ok e m1 paid (puID p) p \<and> gget (m_purchases m1) (puID p) = Some p)"
proof (cases r)
  case (Inl x)
  with call have "m1 = m" by (auto simp: Checkout_def Let_def split: sum.splits)
  with ok Inl show ?thesis by simp
next
  case (Inr p)
  with call obtain it where it: "Market_Get e m i = Inr it" and p: "p = new_purchase dr u i it"
    and m1: "CreatePurchase m p = Inr m1"
    by (auto simp: Checkout_def Let_def split: sum.splits)
  have "puID p \<noteq> []" using m1 by (auto simp: CreatePurchase_def split: if_splits)
  then have new: "purchase_ok e m paid (puID p) p"
    by (auto simp: p purchase_ok_def new_purchase_def Let_def it)
  from CreatePurchase_cases [OF m1] new ok Inr show ?thesis
    by (auto intro: market_ok_put purchase_ok_mono)
qed

lemma with_session_ok:
  assumes ok: "market_ok e m paid" and p: "gget (m_purchases m) (puID p) = Some p" and call: "with_session m sid p = (m1, p1)"
  shows "market_ok e m1 paid"
proof (cases "sid = []")
  case True
  then show ?thesis using ok call by (simp add: with_session_def)
next
  case False
  let ?q = "p\<lparr>puProviderRef := sid\<rparr>"
  from ok p have "purchase_ok e m paid (puID p) p" by (simp add: market_ok_def)
  then have q: "purchase_ok e m paid (puID p) ?q" by (simp add: purchase_ok_def)
  show ?thesis
  proof (cases "UpdatePurchase m ?q")
    case (Inl x)
    then show ?thesis using ok call False by (simp add: with_session_def)
  next
    case (Inr m2)
    with call False have "m1 = m2" by (simp add: with_session_def)
    with UpdatePurchase_cases [OF Inr] show ?thesis by (intro market_ok_put [OF ok _ _ order_refl q]) simp_all
  qed
qed

lemma Detailed_ok:
  assumes ok: "market_ok e m paid"
  shows "market_ok e (fst (CheckoutDetailed e dr m u i)) paid"
proof -
  obtain m1 r where c: "Checkout e dr m u i = (m1, r)" by fastforce
  note C = Checkout_ok [OF ok c]
  show ?thesis
  proof (cases r)
    case (Inl x)
    then show ?thesis using C by (simp add: CheckoutDetailed_def c)
  next
    case (Inr p)
    then have p: "gget (m_purchases m1) (puID p) = Some p" using C by simp
    show ?thesis using C with_session_ok [OF _ p]
      by (auto simp: CheckoutDetailed_def c Inr Let_def split: sum.splits prod.splits)
  qed
qed

lemma WebhookPaid_cases:
  obtains "fst (WebhookPaid m u i ref) = m"
  | p0 p where "gget (m_purchases m) i = Some p0" "puUserID p0 = u" "puID p \<noteq> []"
      "p = (if ref \<noteq> [] then p0\<lparr>puStatus := ''paid'', puProviderRef := ref\<rparr> else p0\<lparr>puStatus := ''paid''\<rparr>)"
      "m_purchases (fst (WebhookPaid m u i ref)) = gset (puID p) p (m_purchases m)"
      "m_market (fst (WebhookPaid m u i ref)) = m_market m"
proof (cases "snd (WebhookPaid m u i ref)")
  case (Inl x)
  then have "fst (WebhookPaid m u i ref) = m" by (auto simp: WebhookPaid_def Let_def split: sum.splits)
  then show ?thesis by (rule that(1))
next
  case (Inr p)
  then obtain p0 where p0: "GetPurchase m u i = Inr p0"
    and p: "p = (if ref \<noteq> [] then p0\<lparr>puStatus := ''paid'', puProviderRef := ref\<rparr> else p0\<lparr>puStatus := ''paid''\<rparr>)"
    and m1: "UpdatePurchase m p = Inr (fst (WebhookPaid m u i ref))"
    by (auto simp: WebhookPaid_def Let_def split: sum.splits if_splits)
  from p0 have g: "gget (m_purchases m) i = Some p0" "puUserID p0 = u"
    by (auto simp: GetPurchase_def split: option.splits if_splits)
  have "puID p \<noteq> []" using m1 by (auto simp: UpdatePurchase_def split: if_splits)
  from that(2) [OF g this p] UpdatePurchase_cases [OF m1] show ?thesis by simp
qed

lemma Paid_ok:
  assumes ok: "market_ok e m ops" and sub: "ops \<subseteq> ops1" and why: "event_paid e ops1 u i \<or> self_paid ops1 u i"
  shows "market_ok e (fst (WebhookPaid m u i ref)) ops1"
proof (cases rule: WebhookPaid_cases [of m u i ref])
  case 1
  then show ?thesis using ok sub by (auto intro: market_ok_same)
next
  case (2 p0 p)
  with ok have old: "purchase_ok e m ops i p0" by (simp add: market_ok_def)
  then have new: "purchase_ok e m ops1 i p" using 2(2,4) why by (auto simp: purchase_ok_def)
  then have "puID p = i" by (simp add: purchase_ok_def)
  with 2(5,6) show ?thesis by (intro market_ok_put [OF ok _ _ sub new]) simp_all
qed

lemma Verify_genuine:
  assumes "VerifyStripeSignature e payload hdr (trim_space (mk_env e ''AI_CLOUDHUB_STRIPE_WEBHOOK_SECRET'')) now = Inr ()"
  shows "genuine e now payload hdr"
proof -
  let ?s = "trim_space (mk_env e ''AI_CLOUDHUB_STRIPE_WEBHOOK_SECRET'')"
  have "?s \<noteq> []" using assms by (auto simp: VerifyStripeSignature_def Let_def)
  obtain ts v1 where sp: "signature_parts (split_c (CHR '','') hdr) 0 [] = Inr (ts, v1)" and t: "ts \<noteq> 0"
    and d: "\<not> unix_seconds now - ts > stripe_tolerance e" "\<not> unix_seconds now - ts < - stripe_tolerance e"
    and v: "stripe_mac e ?s ts payload = v1"
    using assms by (auto simp: VerifyStripeSignature_def Let_def and_then_Inr split: if_splits)
  then have "\<exists>ts. ts \<noteq> 0 \<and> \<bar>unix_seconds now - ts\<bar> \<le> stripe_tolerance e \<and>
      signature_parts (split_c (CHR '','') hdr) 0 [] = Inr (ts, stripe_mac e ?s ts payload)"
    by (intro exI [of _ ts]) auto
  with \<open>?s \<noteq> []\<close> show ?thesis unfolding genuine_def Let_def by simp
qed

lemma Stripe_cases:
  obtains x where "HandleStripeWebhook e now m payload hdr = (m, Inl x)"
  | u i ref where "genuine e now payload hdr" "names_purchase e payload u i"
      "HandleStripeWebhook e now m payload hdr = WebhookPaid m u i ref"
proof -
  let ?s = "trim_space (mk_env e ''AI_CLOUDHUB_STRIPE_WEBHOOK_SECRET'')"
  let ?checked = "if ?s \<noteq> []
                     then (case VerifyStripeSignature e payload hdr ?s now of
                             Inl x \<Rightarrow> Inl (Errorf (''stripe signature: '' @ error_text x)) | Inr _ \<Rightarrow> Inr ())
                     else if \<not> market_envTruthy e ''AI_CLOUDHUB_STRIPE_ALLOW_INSECURE''
                     then Inl (Errorf ''set AI_CLOUDHUB_STRIPE_WEBHOOK_SECRET (or AI_CLOUDHUB_STRIPE_ALLOW_INSECURE=1 for local dev)'')
                     else Inr ()"
  have h: "HandleStripeWebhook e now m payload hdr =
      (case and_then ?checked (\<lambda>_. ParseStripeCheckoutCompleted e payload) of
            Inl x \<Rightarrow> (m, Inl x) | Inr (pid, uid, sid) \<Rightarrow> WebhookPaid m uid pid sid)"
    unfolding HandleStripeWebhook_def Let_def ..
  show thesis
  proof (cases "and_then ?checked (\<lambda>_. ParseStripeCheckoutCompleted e payload)")
    case (Inl x)
    then show ?thesis using that(1) h by simp
  next
    case (Inr r)
    obtain i u ref where r: "r = (i, u, ref)" by (cases r)
    from Inr have c: "?checked = Inr ()" and ps: "ParseStripeCheckoutCompleted e payload = Inr (i, u, ref)"
      by (auto simp: and_then_Inr r)
    have "genuine e now payload hdr"
    proof (cases "?s = []")
      case True
      with c show ?thesis unfolding genuine_def Let_def by (auto split: if_splits)
    next
      case False
      then show ?thesis using c by (intro Verify_genuine) (auto split: sum.splits)
    qed
    moreover have "names_purchase e payload u i"
      using ps unfolding names_purchase_def ParseStripeCheckoutCompleted_def
      by (auto simp: Let_def split: sum.splits if_splits option.splits)
    ultimately show ?thesis by (rule that(2)) (simp add: h Inr r)
  qed
qed

lemma Stripe_ok:
  assumes ok: "market_ok e m ops"
  shows "market_ok e (fst (HandleStripeWebhook e now m payload hdr)) (insert (OpStripe now payload hdr) ops)"
proof (cases rule: Stripe_cases [of e now m payload hdr])
  case (1 x)
  then show ?thesis using ok by (auto intro: market_ok_same)
next
  case (2 u i ref)
  then have "event_paid e (insert (OpStripe now payload hdr) ops) u i" by (auto simp: event_paid_def)
  then show ?thesis unfolding 2(3) by (intro Paid_ok [OF ok]) auto
qed

lemma CreateMarketplaceItem_cases:
  "CreateMarketplaceItem m it = Inr m1 \<Longrightarrow> m_market m1 = gset (miID it) it (m_market m) \<and> m_purchases m1 = m_purchases m"
  by (auto simp: CreateMarketplaceItem_def split: if_splits)

lemma new_listing_id: "new_listing e dr u inp = Inr it \<Longrightarrow> miID it = dr_id dr"
  unfolding new_listing_def Let_def by (auto split: if_splits sum.splits)

lemma Publish_ok:
  assumes ok: "market_ok e m paid" and fresh: "unused_id e m (dr_id dr)"
  shows "market_ok e (fst (Publish e dr m u inp)) paid"
proof (cases "snd (Publish e dr m u inp)")
  case (Inl x)
  then have "fst (Publish e dr m u inp) = m" by (auto simp: Publish_def split: sum.splits)
  then show ?thesis using ok by simp
next
  case (Inr it)
  let ?m = "fst (Publish e dr m u inp)"
  from Inr have "CreateMarketplaceItem m it = Inr ?m" and i: "miID it = dr_id dr"
    by (auto simp: Publish_def split: sum.splits dest: new_listing_id)
  from CreateMarketplaceItem_cases [OF this(1)] i
  have m1: "m_market ?m = gset (dr_id dr) it (m_market m)" "m_purchases ?m = m_purchases m" by simp_all
  have get: "Market_Get e ?m j = Market_Get e m j" if "j \<noteq> dr_id dr" for j
    using that m1 by (auto simp: Market_Get_def GetMarketplaceItem_def split: option.splits)
  show ?thesis unfolding market_ok_def
  proof (intro conjI allI impI)
    show "gwf (m_purchases ?m)" using ok by (simp add: market_ok_def m1)
  next
    fix k p assume "gget (m_purchases ?m) k = Some p"
    then have k: "gget (m_purchases m) k = Some p" by (simp add: m1)
    then have "puItemID p \<noteq> dr_id dr" using fresh map_of_SomeD [OF k] by (force simp: unused_id_def)
    with k ok show "purchase_ok e ?m paid k p" using get by (auto simp: market_ok_def purchase_ok_def)
  qed
qed

lemma Delete_ok:
  assumes ok: "market_ok e m paid"
  shows "market_ok e (fst (Market_Delete m u i)) paid"
proof -
  let ?m = "fst (Market_Delete m u i)"
  have m1: "m_purchases ?m = m_purchases m" "m_market ?m = m_market m \<or> m_market ?m = gdel i (m_market m)"
    by (auto simp: Market_Delete_def DeleteMarketplaceItem_def split: sum.splits option.splits)
  have get: "Market_Get e ?m j = Inr it \<Longrightarrow> Market_Get e m j = Inr it" for j it
    using m1(2) by (auto simp: Market_Get_def GetMarketplaceItem_def split: option.splits if_splits)
  show ?thesis using ok get by (auto simp: market_ok_def purchase_ok_def m1(1))
qed

lemma market_run_ok: "market_run e m ops \<Longrightarrow> market_ok e m ops"
proof (induction rule: market_run.induct)
  case (start m)
  then show ?case by (simp add: market_ok_def)
next
  case (step m ops dr op)
  have grow: "market_ok e m1 ops \<Longrightarrow> market_ok e m1 (insert x ops)" for m1 x
    by (rule market_ok_same) auto
  show ?case
  proof (cases op)
    case (OpCheckout u i)
    with Checkout_ok [OF step.IH, of dr u i "fst (Checkout e dr m u i)" "snd (Checkout e dr m u i)"] grow
    show ?thesis by simp
  next
    case (OpStripe now payload hdr)
    with Stripe_ok [OF step.IH, of now payload hdr] show ?thesis by simp
  next
    case (OpPay u i ref)
    then have "self_paid (insert op ops) u i" by (auto simp: self_paid_def)
    with Paid_ok [OF step.IH, of "insert op ops" u i ref] OpPay show ?thesis by auto
  qed (simp_all add: step Publish_ok Delete_ok Detailed_ok grow)
qed

section \<open>Properties\<close>

text \<open>C33: with a webhook secret configured, an event changes or reports a purchase only under a signature
  over its exact bytes and a timestamp within the tolerance.\<close>

theorem webhook_requires_signature:
  assumes "trim_space (mk_env e ''AI_CLOUDHUB_STRIPE_WEBHOOK_SECRET'') \<noteq> []"
    and "HandleStripeWebhook e now m payload sigHeader = (m1, r)"
    and "m1 \<noteq> m \<or> (\<exists>p. r = Inr p)"
  shows "\<exists>ts. ts \<noteq> 0 \<and> \<bar>unix_seconds now - ts\<bar> \<le> stripe_tolerance e \<and>
    signature_parts (split_c (CHR '','') sigHeader) 0 [] =
      Inr (ts, stripe_mac e (trim_space (mk_env e ''AI_CLOUDHUB_STRIPE_WEBHOOK_SECRET'')) ts payload)"
proof (cases rule: Stripe_cases [of e now m payload sigHeader])
  case (1 x)
  with assms(2,3) show ?thesis by auto
next
  case (2 u i ref)
  from 2(1) assms(1) show ?thesis unfolding genuine_def Let_def by simp
qed

lemma pay_opens:
  assumes ok: "market_ok e m ops" and p: "gget (m_purchases m) k = Some p" and few: "length (m_purchases m) \<le> 200"
    and it: "Market_Get e m (puItemID p) = Inr it"
  shows "HasPaidAccess e (fst (WebhookPaid m (puUserID p) k ref)) (puUserID p) (puItemID p) = Inr True"
proof -
  have id: "puID p = k" "k \<noteq> []" using ok p by (auto simp: market_ok_def purchase_ok_def)
  define q where "q = (if ref \<noteq> [] then p\<lparr>puStatus := ''paid'', puProviderRef := ref\<rparr> else p\<lparr>puStatus := ''paid''\<rparr>)"
  have q: "puID q = k" "puUserID q = puUserID p" "puItemID q = puItemID p" "puStatus q = ''paid''"
    using id by (simp_all add: q_def)
  let ?m = "m\<lparr>m_purchases := gset k q (m_purchases m)\<rparr>"
  have get: "GetPurchase m (puUserID p) k = Inr p" using p by (simp add: GetPurchase_def)
  have up: "UpdatePurchase m q = Inr ?m" using id p q(1) by (simp add: UpdatePurchase_def)
  have call: "fst (WebhookPaid m (puUserID p) k ref) = ?m"
  proof (cases "ref = []")
    case True
    then have "q = p\<lparr>puStatus := ''paid''\<rparr>" by (simp add: q_def)
    with True get up show ?thesis by (simp add: WebhookPaid_def Let_def)
  next
    case False
    then have "q = p\<lparr>puStatus := ''paid'', puProviderRef := ref\<rparr>" by (simp add: q_def)
    with False get up show ?thesis by (simp add: WebhookPaid_def Let_def)
  qed
  have it': "Market_Get e ?m (puItemID p) = Inr it" using it Market_Get_market [of ?m m] by simp
  let ?l = "filter (\<lambda>x. puUserID x = puUserID p) (gvals (gset k q (m_purchases m)))"
  have wf: "gwf (gset k q (m_purchases m))" using ok by (simp add: market_ok_def)
  have "q \<in> set (gvals (gset k q (m_purchases m)))" unfolding gvals_gget [OF wf] by (intro exI [of _ k]) simp
  with q(2) have "q \<in> set ?l" by simp
  moreover have "k \<in> fst ` set (m_purchases m)" using map_of_SomeD [OF p] by force
  then have "map fst (gset k q (m_purchases m)) = map fst (m_purchases m)" by (rule gset_same_keys)
  then have "length (gset k q (m_purchases m)) = length (m_purchases m)" by (metis length_map)
  then have "length ?l \<le> 200" using few length_filter_le [of _ "gvals (gset k q (m_purchases m))"] by (metis le_trans length_map)
  then have "Market_ListPurchases ?m (puUserID p) 200 = ?l"
    by (simp add: Market_ListPurchases_def ListPurchases_def)
  ultimately have "list_ex (\<lambda>x. puItemID x = puItemID p \<and> puStatus x = ''paid'') (Market_ListPurchases ?m (puUserID p) 200)"
    unfolding list_ex_iff using q(3,4) by (simp only:) blast
  then show ?thesis unfolding call HasPaidAccess_def it' and_then_Inr by (cases "miPriceCents it \<le> 0") simp_all
qed

text \<open>C34: Access to a priced item has one of two origins: in every run of the marketplace a user who
  may install it holds a purchase of that item at its price, marked paid, which either a genuine
  event of the payment provider named for that user, or the user's own call of the pay route did. That
  call needs no payment: it opens the item of any purchase of the caller (while the service holds at
  most the 200 purchases the check looks at), so access does not prove that anything was paid.\<close>

theorem paid_access_origin:
  assumes "market_run e m ops" and "Market_Get e m itemID = Inr it" and "miPriceCents it > 0"
  shows "(HasPaidAccess e m userID itemID = Inr True \<longrightarrow>
      (\<exists>k p. gget (m_purchases m) k = Some p \<and> puUserID p = userID \<and> puItemID p = itemID \<and>
        puStatus p = ''paid'' \<and> puAmountCents p = miPriceCents it \<and>
        (event_paid e ops userID k \<or> self_paid ops userID k))) \<and>
    (\<forall>k p ref. gget (m_purchases m) k = Some p \<and> puUserID p = userID \<and> puItemID p = itemID \<and>
        length (m_purchases m) \<le> 200 \<longrightarrow>
      HasPaidAccess e (market_call e dr m (OpPay userID k ref)) userID itemID = Inr True)"
proof (intro conjI impI allI)
  have ok: "market_ok e m ops" using assms(1) by (rule market_run_ok)
  show "\<exists>k p. gget (m_purchases m) k = Some p \<and> puUserID p = userID \<and> puItemID p = itemID \<and>
        puStatus p = ''paid'' \<and> puAmountCents p = miPriceCents it \<and>
        (event_paid e ops userID k \<or> self_paid ops userID k)"
    if "HasPaidAccess e m userID itemID = Inr True"
  proof -
    from that assms(2,3) obtain p where p: "p \<in> set (ListPurchases m userID 200)" "puItemID p = itemID" "puStatus p = ''paid''"
      by (auto simp: HasPaidAccess_def Market_ListPurchases_def list_ex_iff)
    from p(1) have m: "p \<in> set (gvals (m_purchases m))" and u: "puUserID p = userID"
      by (auto simp: ListPurchases_def Let_def dest: in_set_takeD)
    with ok obtain k where k: "gget (m_purchases m) k = Some p" by (auto simp: market_ok_def gvals_gget)
    with ok have "purchase_ok e m ops k p" by (simp add: market_ok_def)
    with k p u assms(2,3) show ?thesis by (auto simp: purchase_ok_def)
  qed
  show "HasPaidAccess e (market_call e dr m (OpPay userID k ref)) userID itemID = Inr True"
    if "gget (m_purchases m) k = Some p \<and> puUserID p = userID \<and> puItemID p = itemID \<and> length (m_purchases m) \<le> 200"
    for k p ref
    using that pay_opens [OF ok, of k p it ref] assms(2) by auto
qed


definition demo_market :: market_env where
  "demo_market = \<lparr>mk_env = (\<lambda>k. if k = ''AI_CLOUDHUB_STRIPE_WEBHOOK_SECRET'' then ''s'' else []),
     mk_hmac_sha256 = (\<lambda>k v. k @ v), mk_http = (\<lambda>_. Inl ''offline''), mk_marshal = (\<lambda>_. Inr ''{}''), mk_payload = (\<lambda>_. []),
     mk_event = (\<lambda>_. Inr \<lparr>evType = [], evObjectID = ''cs'',
       evMetadata = Some [(''purchase_id'', ''p''), (''user_id'', ''u'')]\<rparr>), mk_session = (\<lambda>_. Inl ''none'')\<rparr>"

definition demo_publish :: publish_input where
  "demo_publish = \<lparr>pbName = ''n'', pbDescription = [], pbKind = ''skill'', pbVersion = [], pbPayload = [],
     pbPublic = True, pbPriceCents = 500, pbCurrency = []\<rparr>"

definition demo_market_draw :: "string \<Rightarrow> draw" where
  "demo_market_draw i = \<lparr>dr_now = 5, dr_id = i, dr_jti = [], dr_rand = Inr []\<rparr>"

definition demo_listed :: memory where
  "demo_listed = market_call demo_market (demo_market_draw ''i'') NewMemory (OpPublish ''v'' demo_publish)"

definition demo_bought :: memory where
  "demo_bought = market_call demo_market (demo_market_draw ''p'') demo_listed (OpCheckout ''u'' ''i'')"

definition demo_header :: string where
  "demo_header = SignStripeTest demo_market ''{}'' ''s'' (from_unix 1000)"

definition demo_paid :: memory where
  "demo_paid = market_call demo_market (demo_market_draw ''z'') demo_bought (OpStripe (from_unix 1200) ''{}'' demo_header)"

lemma demo_fresh:
  "unused_id demo_market NewMemory (dr_id (demo_market_draw ''i''))"
  "unused_id demo_market demo_listed (dr_id (demo_market_draw ''p''))"
  "unused_id demo_market demo_bought (dr_id (demo_market_draw ''z''))"
  by code_simp+

definition demo_ops :: "market_op set" where
  "demo_ops = {OpCheckout ''u'' ''i'', OpPublish ''v'' demo_publish}"

lemma demo_market_run:
  "market_run demo_market demo_bought demo_ops"
  "market_run demo_market demo_paid (insert (OpStripe (from_unix 1200) ''{}'' demo_header) demo_ops)"
proof -
  have "market_run demo_market NewMemory {}" by (rule start) (simp add: NewMemory_def)
  from step [OF step [OF this demo_fresh(1), of "OpPublish ''v'' demo_publish", folded demo_listed_def] demo_fresh(2),
      of "OpCheckout ''u'' ''i''", folded demo_bought_def]
  show run: "market_run demo_market demo_bought demo_ops" unfolding demo_ops_def .
  from step [OF this demo_fresh(3), of "OpStripe (from_unix 1200) ''{}'' demo_header", folded demo_paid_def]
  show "market_run demo_market demo_paid (insert (OpStripe (from_unix 1200) ''{}'' demo_header) demo_ops)" .
qed

text \<open>The witness: after the checkout there is no access, after the event there is, and it goes back to
  the event because the buyer made no call of the pay route; that call opens the item as well.\<close>

lemma paid_access_origin_witness:
  "HasPaidAccess demo_market demo_bought ''u'' ''i'' = Inr False \<and>
   (\<exists>k p. gget (m_purchases demo_paid) k = Some p \<and> puStatus p = ''paid'' \<and> puAmountCents p = 500 \<and>
      event_paid demo_market (insert (OpStripe (from_unix 1200) ''{}'' demo_header) demo_ops) ''u'' k) \<and>
   HasPaidAccess demo_market (market_call demo_market (demo_market_draw ''z'') demo_bought (OpPay ''u'' ''p'' []))
     ''u'' ''i'' = Inr True"
proof -
  have a: "HasPaidAccess demo_market demo_paid ''u'' ''i'' = Inr True"
    "HasPaidAccess demo_market demo_bought ''u'' ''i'' = Inr False"
    by code_simp+
  have "map_sum id miPriceCents (Market_Get demo_market demo_paid ''i'') = Inr 500" by code_simp
  then obtain it1 where it1: "Market_Get demo_market demo_paid ''i'' = Inr it1" "miPriceCents it1 = 500"
    by (cases "Market_Get demo_market demo_paid ''i''") auto
  have "map_sum id miPriceCents (Market_Get demo_market demo_bought ''i'') = Inr 500" by code_simp
  then obtain it2 where it2: "Market_Get demo_market demo_bought ''i'' = Inr it2" "miPriceCents it2 = 500"
    by (cases "Market_Get demo_market demo_bought ''i''") auto
  have no: "\<not> self_paid (insert (OpStripe (from_unix 1200) ''{}'' demo_header) demo_ops) ''u'' k" for k
    by (simp add: self_paid_def demo_ops_def)
  have "map_option (\<lambda>p. (puUserID p, puItemID p)) (gget (m_purchases demo_bought) ''p'') = Some (''u'', ''i'')"
    "length (m_purchases demo_bought) = 1" by code_simp+
  then obtain p where p: "gget (m_purchases demo_bought) ''p'' = Some p" "puUserID p = ''u''" "puItemID p = ''i''"
    "length (m_purchases demo_bought) \<le> 200" by auto
  have pos: "miPriceCents it1 > 0" "miPriceCents it2 > 0" using it1 it2 by simp_all
  from paid_access_origin [OF demo_market_run(2) it1(1) pos(1), of "''u''"] a(1) no it1(2)
  have "\<exists>k p. gget (m_purchases demo_paid) k = Some p \<and> puStatus p = ''paid'' \<and> puAmountCents p = 500 \<and>
      event_paid demo_market (insert (OpStripe (from_unix 1200) ''{}'' demo_header) demo_ops) ''u'' k" by metis
  moreover from paid_access_origin [OF demo_market_run(1) it2(1) pos(2), of "''u''" "demo_market_draw ''z''"] p
  have "HasPaidAccess demo_market (market_call demo_market (demo_market_draw ''z'') demo_bought (OpPay ''u'' ''p'' []))
     ''u'' ''i'' = Inr True" by blast
  ultimately show ?thesis using a(2) by blast
qed

lemma webhook_requires_signature_witness:
  "let h = demo_header;
       st = HandleStripeWebhook demo_market (from_unix 1200) demo_bought ''{}'' h
   in st = (demo_paid, snd st) \<and> fst st \<noteq> demo_bought \<and>
      (\<exists>ts. \<bar>1200 - ts\<bar> \<le> 300 \<and> signature_parts (split_c (CHR '','') h) 0 [] = Inr (ts, stripe_mac demo_market ''s'' ts ''{}''))"
proof -
  let ?h = "demo_header"
  let ?st = "HandleStripeWebhook demo_market (from_unix 1200) demo_bought ''{}'' ?h"
  have a: "fst ?st = demo_paid" by code_simp
  have b: "demo_paid \<noteq> demo_bought" by code_simp
  have c: "trim_space (mk_env demo_market ''AI_CLOUDHUB_STRIPE_WEBHOOK_SECRET'') = ''s''" "unix_seconds (from_unix 1200) = 1200"
    "stripe_tolerance demo_market = 300"
    by code_simp+
  from a have d: "?st = (demo_paid, snd ?st)" by (metis surjective_pairing)
  from webhook_requires_signature [OF _ d] b c
  obtain ts where "\<bar>1200 - ts\<bar> \<le> 300"
      "signature_parts (split_c (CHR '','') ?h) 0 [] = Inr (ts, stripe_mac demo_market ''s'' ts ''{}'')"
    by auto
  with a b d show ?thesis unfolding Let_def by metis
qed

end
