(* ===== verification/Sandbox_Env.thy ===== *)
theory Sandbox_Env
  imports Cloud_Prelude
begin

text \<open>
  The environment of agent processes (\<open>internal/sandbox/env.go\<close>) and the switches of the system call filter
  (\<open>internal/sandbox/seccomp.go\<close>). An entry is a text \<open>KEY=VALUE\<close>; the extra variables are a map. Upper case
  is taken on ASCII letters.
\<close>

section \<open>Tables\<close>

definition DefaultEnvAllowPrefixes :: "string list" where
  "DefaultEnvAllowPrefixes =
    [''AI_CLOUDHUB_'', ''PATH'', ''HOME'', ''USER'', ''LOGNAME'', ''LANG'', ''LC_'', ''TZ'', ''TERM'', ''TMPDIR'', ''TEMP'',
     ''TMP'', ''PWD'', ''SHELL'', ''HOSTNAME'', ''HTTP_PROXY'', ''HTTPS_PROXY'', ''NO_PROXY'', ''http_proxy'',
     ''https_proxy'', ''no_proxy'']"

definition DefaultEnvBlockExact :: "string list" where
  "DefaultEnvBlockExact =
    [''AWS_SECRET_ACCESS_KEY'', ''AWS_ACCESS_KEY_ID'', ''AWS_SESSION_TOKEN'', ''MINIO_SECRET_KEY'', ''MINIO_ACCESS_KEY'',
     ''AI_CLOUDHUB_TOKEN'', ''JWT_SECRET'', ''AI_CLOUDHUB_MASTER_KEY'']"

definition networkEnvKeys :: "string list" where
  "networkEnvKeys =
    [''HTTP_PROXY'', ''HTTPS_PROXY'', ''ALL_PROXY'', ''NO_PROXY'', ''http_proxy'', ''https_proxy'', ''all_proxy'', ''no_proxy'',
     ''FTP_PROXY'', ''ftp_proxy'', ''SOCKS_PROXY'', ''socks_proxy'']"

definition libpqPassExact :: "string list" where
  "libpqPassExact =
    [''PGPASSWORD'', ''PGUSER'', ''PGHOST'', ''PGDATABASE'', ''PGPORT'', ''PGSSLMODE'', ''PGSSLROOTCERT'', ''PGSSLCERT'',
     ''PGSSLKEY'', ''PGPASSFILE'']"

definition mysqlPassExact :: "string list" where
  "mysqlPassExact = [''MYSQL_PWD'', ''MYSQL_PASSWORD'', ''MYSQL_HOST'', ''MYSQL_TCP_PORT'', ''MYSQL_UNIX_PORT'']"

record env_filter =
  efAllowPrefixes :: "string list"
  efBlockExact :: "string list"
  efPassToken :: bool
  efPassLibpq :: bool
  efPassMysql :: bool
  efDenyNetwork :: bool

section \<open>The filter\<close>

definition key_matches :: "string \<Rightarrow> string \<Rightarrow> bool" where
  "key_matches uk p0 =
     (let p = trim_space p0
      in if p = [] then False
         else if suffix ''_'' p then prefix (to_upper p) uk
         else uk = to_upper p \<or> prefix (to_upper p @ ''_'') uk)"

definition keyAllowed :: "string \<Rightarrow> string list \<Rightarrow> bool" where
  "keyAllowed key ps = list_ex (key_matches (to_upper key)) ps"

definition block_set :: "env_filter \<Rightarrow> string set" where
  "block_set f =
     (let block = (if efBlockExact f = [] then DefaultEnvBlockExact else efBlockExact f);
          b1 = set (map to_upper block);
          b2 = (if efPassToken f then b1 - {''AI_CLOUDHUB_TOKEN''} else b1)
      in if efDenyNetwork f then b2 \<union> set (map to_upper networkEnvKeys) else b2)"

definition secret_pass :: "env_filter \<Rightarrow> string set" where
  "secret_pass f =
     (if efPassLibpq f then set (map to_upper libpqPassExact) else {}) \<union>
     (if efPassMysql f then set (map to_upper mysqlPassExact) else {})"

definition allow_list :: "env_filter \<Rightarrow> string list" where
  "allow_list f = (if efAllowPrefixes f = [] then DefaultEnvAllowPrefixes else efAllowPrefixes f)"

text \<open>The key of an entry, up to the first equality sign.\<close>

definition entry_key :: "string \<Rightarrow> string" where
  "entry_key kv = takeWhile (\<lambda>c. c \<noteq> CHR ''='') kv"

definition passes :: "env_filter \<Rightarrow> string \<Rightarrow> bool" where
  "passes f key =
     (let uk = to_upper key
      in uk \<notin> block_set f \<and> \<not> (efDenyNetwork f \<and> sublist ''PROXY'' uk) \<and>
         (keyAllowed key (allow_list f) \<or> uk \<in> secret_pass f))"

fun replace_entry :: "string \<Rightarrow> string \<Rightarrow> string list \<Rightarrow> string list" where
  "replace_entry uk kv [] = []"
| "replace_entry uk kv (e # es) = (if prefix (uk @ ''='') (to_upper e) then kv # es else e # replace_entry uk kv es)"

text \<open>The entries kept so far, with the set of their upper-case keys.\<close>

type_synonym kept = "string list \<times> string set"

definition add_entry :: "env_filter \<Rightarrow> string \<Rightarrow> kept \<Rightarrow> kept" where
  "add_entry f kv acc =
     (case acc of (out, seen) \<Rightarrow>
        let key = entry_key kv; uk = to_upper key
        in if key = [] \<or> key = kv then (out, seen)
           else if \<not> passes f key then (out, seen)
           else if uk \<in> seen \<and> list_ex (\<lambda>e. prefix (uk @ ''='') (to_upper e)) out then (replace_entry uk kv out, seen)
           else (out @ [kv], insert uk seen))"

definition network_marker :: "env_filter \<Rightarrow> string list" where
  "network_marker f = (if efDenyNetwork f then [''AI_CLOUDHUB_NETWORK=deny'', ''NO_PROXY=*''] else [])"

definition FilterEnv :: "string list \<Rightarrow> string gomap \<Rightarrow> env_filter \<Rightarrow> string list" where
  "FilterEnv base extra f =
     fst (fold (add_entry f) (network_marker f)
       (fold (\<lambda>(k, v). add_entry f (k @ ''='' @ v)) extra (fold (add_entry f) base ([], {}))))"

section \<open>The switches of the system call filter\<close>

definition sandbox_envTruthy :: "environment \<Rightarrow> string \<Rightarrow> bool" where
  "sandbox_envTruthy env key = (to_lower (trim_space (env key)) \<in> {''1'', ''true'', ''yes''})"

definition seccomp_Enabled :: "environment \<Rightarrow> bool" where
  "seccomp_Enabled env = sandbox_envTruthy env ''AI_CLOUDHUB_SECCOMP''"

definition seccomp_Strict :: "environment \<Rightarrow> bool" where
  "seccomp_Strict env = sandbox_envTruthy env ''AI_CLOUDHUB_SECCOMP_STRICT''"

definition ProfileName :: "environment \<Rightarrow> string" where
  "ProfileName env =
     (let v = to_lower (trim_space (env ''AI_CLOUDHUB_SECCOMP_PROFILE''))
      in if v = ''strict'' then ''strict''
         else if v \<in> {''netdeny'', ''net-deny'', ''network_deny''} then ''netdeny'' else ''default'')"

definition NetDeny :: "environment \<Rightarrow> bool" where
  "NetDeny env =
     (ProfileName env = ''netdeny'' \<or>
      to_lower (trim_space (env ''AI_CLOUDHUB_SECCOMP_NET'')) \<in> {''1'', ''true'', ''yes'', ''deny''})"

definition EffectiveProfile :: "environment \<Rightarrow> string" where
  "EffectiveProfile env =
     (let p = ProfileName env in if p = ''netdeny'' then ''netdeny'' else if NetDeny env then p @ ''+netdeny'' else p)"

section \<open>The filter as a map\<close>

text \<open>The value a key ends up with: the last entry for it that the filter lets through.\<close>

definition ukey :: "string \<Rightarrow> string" where
  "ukey e = to_upper (entry_key e)"

definition permitted :: "env_filter \<Rightarrow> string \<Rightarrow> bool" where
  "permitted f kv \<longleftrightarrow> entry_key kv \<noteq> [] \<and> entry_key kv \<noteq> kv \<and> passes f (entry_key kv)"

definition env_inputs :: "string list \<Rightarrow> string gomap \<Rightarrow> env_filter \<Rightarrow> string list" where
  "env_inputs base extra f = base @ map (\<lambda>(k, v). k @ ''='' @ v) extra @ network_marker f"

definition last_permitted :: "env_filter \<Rightarrow> string list \<Rightarrow> string \<Rightarrow> string option" where
  "last_permitted f kvs uk = find (\<lambda>kv. permitted f kv \<and> ukey kv = uk) (rev kvs)"

lemma to_upper_eq_char: "to_upper_c c = CHR ''='' \<longleftrightarrow> c = CHR ''=''"
proof -
  have False if "CHR ''a'' \<le> c" "c \<le> CHR ''z''" "char_of (of_char c - (32::nat)) = CHR ''=''"
  proof -
    have r: "97 \<le> (of_char c :: nat)" "(of_char c :: nat) \<le> 122" using that(1,2) by (simp_all add: less_eq_char_def)
    have "of_char (char_of (of_char c - (32::nat)) :: char) = (61::nat)" unfolding that(3) by simp
    with r show False by (simp add: of_char_of take_bit_eq_mod)
  qed
  then show ?thesis by (auto simp: to_upper_c_def less_eq_char_def)
qed

lemma to_upper_takeWhile: "takeWhile (\<lambda>c. c \<noteq> CHR ''='') (to_upper s) = to_upper (takeWhile (\<lambda>c. c \<noteq> CHR ''='') s)"
  by (simp add: to_upper_def takeWhile_map comp_def to_upper_eq_char)

lemma to_upper_has_eq: "CHR ''='' \<in> set (to_upper s) \<longleftrightarrow> CHR ''='' \<in> set s"
  by (metis to_upper_eq_char to_upper_def image_iff list.set_map)

lemma prefix_key: "x \<notin> set u \<Longrightarrow> prefix (u @ [x]) s \<longleftrightarrow> takeWhile (\<lambda>c. c \<noteq> x) s = u \<and> x \<in> set s"
proof (induction u arbitrary: s)
  case Nil
  then show ?case by (cases s) auto
next
  case (Cons a u)
  then show ?case by (cases s) auto
qed

lemma entry_key_wf: "entry_key kv \<noteq> kv \<longleftrightarrow> CHR ''='' \<in> set kv"
  by (auto simp: entry_key_def takeWhile_eq_all_conv)

lemma entry_prefix:
  assumes "entry_key e \<noteq> e"
  shows "prefix (to_upper (entry_key kv) @ ''='') (to_upper e) \<longleftrightarrow> ukey e = ukey kv"
proof -
  have "CHR ''='' \<notin> set (entry_key kv)" by (auto simp: entry_key_def dest: set_takeWhileD)
  then have "CHR ''='' \<notin> set (to_upper (entry_key kv))" by (simp add: to_upper_has_eq)
  from prefix_key [OF this, of "to_upper e"] show ?thesis
    using assms by (simp add: to_upper_takeWhile to_upper_has_eq entry_key_wf ukey_def entry_key_def)
qed

text \<open>The invariant of the accumulation.\<close>

definition kept_ok :: "env_filter \<Rightarrow> string list \<Rightarrow> kept \<Rightarrow> bool" where
  "kept_ok f kvs acc \<longleftrightarrow> distinct (map ukey (fst acc)) \<and> (\<forall>e \<in> set (fst acc). permitted f e) \<and>
     snd acc = ukey ` set (fst acc) \<and> (\<forall>uk. find (\<lambda>e. ukey e = uk) (fst acc) = last_permitted f kvs uk)"

lemma last_permitted_snoc:
  "last_permitted f (kvs @ [kv]) uk = (if permitted f kv \<and> ukey kv = uk then Some kv else last_permitted f kvs uk)"
  by (simp add: last_permitted_def)

lemma env_find_append: "find P (xs @ ys) = (case find P xs of Some x \<Rightarrow> Some x | None \<Rightarrow> find P ys)"
  by (induction xs) auto

lemma replace_entry_facts:
  assumes "\<forall>e \<in> set out. entry_key e \<noteq> e" "ukey kv \<in> ukey ` set out" "distinct (map ukey out)"
  shows "map ukey (replace_entry (to_upper (entry_key kv)) kv out) = map ukey out \<and>
    set (replace_entry (to_upper (entry_key kv)) kv out) \<subseteq> insert kv (set out) \<and>
    find (\<lambda>e. ukey e = uk) (replace_entry (to_upper (entry_key kv)) kv out) =
      (if ukey kv = uk then Some kv else find (\<lambda>e. ukey e = uk) out)"
  using assms
proof (induction out)
  case Nil
  then show ?case by simp
next
  case (Cons e out)
  note p = entry_prefix [of e kv]
  show ?case
  proof (cases "ukey e = ukey kv")
    case True
    with p Cons.prems show ?thesis by auto
  next
    case False
    with p Cons.prems Cons.IH show ?thesis by auto
  qed
qed

lemma add_entry_ok:
  assumes "kept_ok f kvs acc"
  shows "kept_ok f (kvs @ [kv]) (add_entry f kv acc)"
proof -
  obtain out seen where acc: "acc = (out, seen)" by (cases acc)
  have ok: "distinct (map ukey out)" "\<forall>e \<in> set out. permitted f e" "seen = ukey ` set out"
    "\<And>uk. find (\<lambda>e. ukey e = uk) out = last_permitted f kvs uk"
    using assms by (simp_all add: kept_ok_def acc)
  then have wf: "\<forall>e \<in> set out. entry_key e \<noteq> e" by (auto simp: permitted_def)
  have "list_ex (\<lambda>e. prefix (to_upper (entry_key kv) @ ''='') (to_upper e)) out \<longleftrightarrow> list_ex (\<lambda>e. ukey e = ukey kv) out"
    unfolding list_ex_iff using wf entry_prefix [of _ kv] by blast
  also have "\<dots> \<longleftrightarrow> ukey kv \<in> ukey ` set out"
    unfolding list_ex_iff image_iff by metis
  finally have ex: "list_ex (\<lambda>e. prefix (to_upper (entry_key kv) @ ''='') (to_upper e)) out \<longleftrightarrow> ukey kv \<in> ukey ` set out" .
  show ?thesis
  proof (cases "permitted f kv")
    case False
    then have "add_entry f kv acc = acc" by (auto simp: add_entry_def acc permitted_def Let_def)
    with assms False show ?thesis by (simp add: kept_ok_def last_permitted_snoc)
  next
    case True
    show ?thesis
    proof (cases "ukey kv \<in> seen")
      case in_seen: True
      then have u: "ukey kv \<in> ukey ` set out" using ok(3) by simp
      from True in_seen u ex have call: "add_entry f kv acc = (replace_entry (to_upper (entry_key kv)) kv out, seen)"
        by (simp add: add_entry_def acc permitted_def Let_def ukey_def)
      from replace_entry_facts [OF wf u ok(1)] have r:
        "map ukey (replace_entry (to_upper (entry_key kv)) kv out) = map ukey out"
        "set (replace_entry (to_upper (entry_key kv)) kv out) \<subseteq> insert kv (set out)"
        "\<And>uk. find (\<lambda>e. ukey e = uk) (replace_entry (to_upper (entry_key kv)) kv out) =
           (if ukey kv = uk then Some kv else find (\<lambda>e. ukey e = uk) out)"
        by blast+
      from arg_cong [OF r(1), of set] have "ukey ` set (replace_entry (to_upper (entry_key kv)) kv out) = ukey ` set out"
        by simp
      then show ?thesis unfolding call kept_ok_def using r ok True by (auto simp: last_permitted_snoc)
    next
      case False
      with True have call: "add_entry f kv acc = (out @ [kv], insert (ukey kv) seen)"
        by (simp add: add_entry_def acc permitted_def Let_def ukey_def)
      have none: "last_permitted f kvs (ukey kv) = None"
        using False ok(3) unfolding ok(4) [symmetric] find_None_iff by (metis image_eqI)
      show ?thesis unfolding call kept_ok_def
        using ok True False none by (auto simp: last_permitted_snoc env_find_append split: option.splits)
    qed
  qed
qed

lemma add_entries_ok: "kept_ok f kvs acc \<Longrightarrow> kept_ok f (kvs @ xs) (fold (add_entry f) xs acc)"
proof (induction xs arbitrary: kvs acc)
  case (Cons x xs)
  from Cons.IH [OF add_entry_ok [OF Cons.prems, of x]] show ?case by simp
qed simp

lemma FilterEnv_inputs: "FilterEnv base extra f = fst (fold (add_entry f) (env_inputs base extra f) ([], {}))"
proof -
  have "fold (\<lambda>(k, v). add_entry f (k @ ''='' @ v)) extra acc = fold (add_entry f) (map (\<lambda>(k, v). k @ ''='' @ v) extra) acc" for acc
    by (induction extra arbitrary: acc) auto
  then show ?thesis by (simp add: FilterEnv_def env_inputs_def)
qed

text \<open>the environment of an agent process holds, for every key up to case, the last entry for it that is
  neither blocked nor outside the allow list, once, and nothing else.\<close>

theorem filtered_env_exact:
  "distinct (map ukey (FilterEnv base extra f)) \<and>
   (\<forall>e \<in> set (FilterEnv base extra f). passes f (entry_key e)) \<and>
   find (\<lambda>e. ukey e = uk) (FilterEnv base extra f) = last_permitted f (env_inputs base extra f) uk"
proof -
  have "kept_ok f [] ([], {})" by (simp add: kept_ok_def last_permitted_def)
  from add_entries_ok [OF this, of "env_inputs base extra f"] show ?thesis
    by (simp add: FilterEnv_inputs kept_ok_def permitted_def)
qed

definition demo_env_filter :: env_filter where
  "demo_env_filter = \<lparr>efAllowPrefixes = [''PATH''], efBlockExact = [''K''], efPassToken = False, efPassLibpq = False,
     efPassMysql = False, efDenyNetwork = False\<rparr>"

lemma filtered_env_exact_witness:
  "FilterEnv [''PATH=/b'', ''path=/x'', ''K=k''] [(''E'', ''v'')] demo_env_filter = [''path=/x''] \<and>
   passes demo_env_filter (entry_key ''path=/x'')"
proof -
  have e: "FilterEnv [''PATH=/b'', ''path=/x'', ''K=k''] [(''E'', ''v'')] demo_env_filter = [''path=/x'']"
    by code_simp
  from filtered_env_exact [of "[''PATH=/b'', ''path=/x'', ''K=k'']" "[(''E'', ''v'')]" demo_env_filter]
  show ?thesis unfolding e by simp
qed

text \<open>The marker \<open>NO_PROXY=*\<close> that denying the network adds never reaches the process.\<close>

lemma no_proxy_marker_dropped:
  assumes "efDenyNetwork f"
  shows "\<not> passes f ''NO_PROXY''"
proof -
  have "sublist ''PROXY'' (to_upper ''NO_PROXY'')" by code_simp
  with assms show ?thesis by (simp only: passes_def Let_def) simp
qed

end
