(* ===== verification/Sandbox_Path.thy ===== *)
theory Sandbox_Path
  imports Cloud_Prelude
begin

text \<open>
  The path jail of the runner (\<open>internal/sandbox/path.go\<close>) on a Unix system. A cleaned path is a pair: whether it
  is absolute, and its components; \<open>clean\<close>, \<open>rel\<close> and \<open>parent\<close> are \<open>filepath.Clean\<close>, \<open>Rel\<close> and \<open>Dir\<close> on such
  paths. The file system is a parameter: \<open>fs_lstat\<close> tells whether a path exists, a symbolic link counting
  as itself, and \<open>fs_eval\<close> is \<open>filepath.EvalSymlinks\<close>.
\<close>

type_synonym cpath = "bool \<times> string list"

record file_system =
  fs_lstat :: "string \<Rightarrow> bool"
  fs_eval :: "string \<Rightarrow> string option"

section \<open>Cleaned paths\<close>

text \<open>\<open>acc\<close> holds the components kept so far, the last one first.\<close>

fun clean_parts :: "bool \<Rightarrow> string list \<Rightarrow> string list \<Rightarrow> string list" where
  "clean_parts rooted acc [] = rev acc"
| "clean_parts rooted acc (c # cs) =
     (if c = [] \<or> c = ''.'' then clean_parts rooted acc cs
      else if c = ''..''
      then (case acc of
              a # acc' \<Rightarrow> if a \<noteq> ''..'' then clean_parts rooted acc' cs
                         else clean_parts rooted (''..'' # acc) cs
            | [] \<Rightarrow> clean_parts rooted (if rooted then [] else [''..'']) cs)
      else clean_parts rooted (c # acc) cs)"

definition clean :: "string \<Rightarrow> cpath" where
  "clean p = (prefix ''/'' p, clean_parts (prefix ''/'' p) [] (split_c (CHR ''/'') p))"

definition path_text :: "cpath \<Rightarrow> string" where
  "path_text p =
     (case p of (rooted, ps) \<Rightarrow>
        if rooted then CHR ''/'' # str_join ''/'' ps else if ps = [] then ''.'' else str_join ''/'' ps)"

definition is_abs :: "string \<Rightarrow> bool" where
  "is_abs p = prefix ''/'' p"

definition isWindowsDrive :: "string \<Rightarrow> bool" where
  "isWindowsDrive p =
     (length p \<ge> 2 \<and> p ! 1 = CHR '':'' \<and>
      ((CHR ''A'' \<le> p ! 0 \<and> p ! 0 \<le> CHR ''Z'') \<or> (CHR ''a'' \<le> p ! 0 \<and> p ! 0 \<le> CHR ''z'')))"

text \<open>The components \<open>filepath.Rel\<close> walks over: none for the base \<open>.\<close>, the dot itself for the target.\<close>

fun rel_parts :: "string list \<Rightarrow> string list \<Rightarrow> string list option" where
  "rel_parts [] ts = Some ts"
| "rel_parts (b # bs) [] = Some (replicate (length (b # bs)) ''..'')"
| "rel_parts (b # bs) (t # ts) =
     (if b = t then rel_parts bs ts
      else if b = ''..'' then None
      else Some (replicate (length (b # bs)) ''..'' @ t # ts))"

definition target_parts :: "cpath \<Rightarrow> string list" where
  "target_parts t = (if t = (False, []) then [''.''] else snd t)"

definition rel :: "cpath \<Rightarrow> cpath \<Rightarrow> string list option" where
  "rel base targ =
     (if base = targ then Some [''.'']
      else if fst base \<noteq> fst targ then None
      else rel_parts (snd base) (target_parts targ))"

definition underRoot :: "cpath \<Rightarrow> cpath \<Rightarrow> bool" where
  "underRoot root candidate =
     (case rel root candidate of None \<Rightarrow> False | Some ps \<Rightarrow> \<not> (ps \<noteq> [] \<and> hd ps = ''..''))"

definition parent :: "cpath \<Rightarrow> cpath" where
  "parent p = (fst p, butlast (snd p))"

definition join_clean :: "cpath \<Rightarrow> string \<Rightarrow> cpath" where
  "join_clean root p = clean (path_text root @ ''/'' @ p)"

section \<open>The longest existing parent\<close>

text \<open>The loop over the parents ends at the root of the path, whose parent is itself.\<close>

function eval_parents :: "file_system \<Rightarrow> cpath \<Rightarrow> cpath \<Rightarrow> cpath option" where
  "eval_parents fs candidate dir =
     (if fs_lstat fs (path_text dir)
      then (case fs_eval fs (path_text dir) of
              None \<Rightarrow> None
            | Some r \<Rightarrow> (case rel dir candidate of
                          None \<Rightarrow> None
                        | Some ps \<Rightarrow> Some (join_clean (clean r) (str_join ''/'' ps))))
      else if snd dir = [] then None
      else eval_parents fs candidate (parent dir))"
  by pat_completeness auto
termination
  by (relation "measure (\<lambda>(fs, c, d). length (snd d))") (auto simp: parent_def)

declare eval_parents.simps [simp del]

definition evalExisting :: "file_system \<Rightarrow> cpath \<Rightarrow> cpath option" where
  "evalExisting fs candidate =
     (if fs_lstat fs (path_text candidate) then map_option clean (fs_eval fs (path_text candidate))
      else eval_parents fs candidate (parent candidate))"

section \<open>The jail\<close>

definition NewPathJail :: "string \<Rightarrow> cpath" where
  "NewPathJail root0 = (let root = trim_space root0 in clean (if root = [] then ''/workspace'' else root))"

definition resolved_root :: "file_system \<Rightarrow> cpath \<Rightarrow> cpath" where
  "resolved_root fs root = (case fs_eval fs (path_text root) of Some r \<Rightarrow> clean r | None \<Rightarrow> root)"

definition candidate_of :: "file_system \<Rightarrow> cpath \<Rightarrow> string \<Rightarrow> cpath" where
  "candidate_of fs root path =
     (if is_abs path \<or> isWindowsDrive path then clean path else join_clean (resolved_root fs root) path)"

definition Jail_Allow :: "file_system \<Rightarrow> cpath \<Rightarrow> string \<Rightarrow> unit result" where
  "Jail_Allow fs root path0 =
     (let path = trim_space path0
      in if path = [] then Inl (Errorf ''sandbox: empty path'')
         else if CHR 0x00 \<in> set path then Inl (Errorf ''sandbox: invalid path'')
         else (let rr = resolved_root fs root; candidate = candidate_of fs root path
               in if \<not> underRoot root candidate \<and> \<not> underRoot rr candidate
                  then Inl (Errorf (''sandbox: path outside workspace: '' @ path))
                  else (case evalExisting fs candidate of
                          None \<Rightarrow> Inr ()
                        | Some r \<Rightarrow>
                            if \<not> underRoot rr r \<and> \<not> underRoot root r
                            then Inl (Errorf (''sandbox: symlink escape: '' @ path @ '' -> '' @ path_text r))
                            else Inr ())))"

fun AllowAll :: "file_system \<Rightarrow> cpath \<Rightarrow> string list \<Rightarrow> unit result" where
  "AllowAll fs root [] = Inr ()"
| "AllowAll fs root (p # ps) =
     (if p = [] then AllowAll fs root ps
      else (case Jail_Allow fs root p of Inl e \<Rightarrow> Inl e | Inr _ \<Rightarrow> AllowAll fs root ps))"

section \<open>Facts\<close>

definition plain_part :: "bool \<Rightarrow> string \<Rightarrow> bool" where
  "plain_part rooted a \<longleftrightarrow> a \<noteq> [] \<and> a \<noteq> ''.'' \<and> (rooted \<longrightarrow> a \<noteq> ''..'')"

lemma plain_parts [simp]:
  "c \<noteq> [] \<Longrightarrow> c \<noteq> ''.'' \<Longrightarrow> c \<noteq> ''..'' \<Longrightarrow> plain_part rooted c" "plain_part False ''..''"
  by (simp_all add: plain_part_def)

lemma clean_parts_plain:
  "list_all (plain_part rooted) acc \<Longrightarrow> list_all (plain_part rooted) (clean_parts rooted acc cs)"
proof (induction rooted acc cs rule: clean_parts.induct)
  case (1 rooted acc)
  then show ?case by (simp add: list_all_iff)
next
  case (2 rooted acc c cs)
  consider "c = [] \<or> c = ''.''" | "c = ''..''" | "c \<noteq> []" "c \<noteq> ''.''" "c \<noteq> ''..''" by blast
  then show ?case
  proof cases
    case 1
    then show ?thesis using 2 by simp
  next
    case c: 2
    have n: "\<not> (c = [] \<or> c = ''.'')" using c by simp
    show ?thesis
    proof (cases acc)
      case Nil
      have "list_all (plain_part rooted) (if rooted then [] else [''..''])" by simp
      from "2.IH"(2) [OF n c Nil this] show ?thesis using c Nil by simp
    next
      case (Cons a acc')
      show ?thesis
      proof (cases "a = ''..''")
        case False
        from "2.IH"(3) [OF n c Cons False] show ?thesis using c Cons False "2.prems" by simp
      next
        case True
        have "\<not> rooted" using "2.prems" Cons True by (auto simp: plain_part_def)
        with "2.IH"(4) [OF n c Cons] True show ?thesis using c Cons "2.prems" by simp
      qed
    qed
  next
    case 3
    then show ?thesis using "2.IH"(5) "2.prems" by simp
  qed
qed

lemma clean_plain: "list_all (plain_part (fst (clean p))) (snd (clean p))"
  by (simp add: clean_def clean_parts_plain)

text \<open>An absolute path without dots.\<close>

definition plain :: "cpath \<Rightarrow> bool" where
  "plain p \<longleftrightarrow> fst p \<and> list_all (plain_part True) (snd p)"

lemma clean_is_plain: "is_abs p \<Longrightarrow> plain (clean p)"
  using clean_plain [of p] by (simp add: plain_def is_abs_def clean_def)

lemma rel_parts_under:
  "''..'' \<notin> set bs \<Longrightarrow> ''..'' \<notin> set ts \<Longrightarrow>
   (\<exists>ps. rel_parts bs ts = Some ps \<and> \<not> (ps \<noteq> [] \<and> hd ps = ''..'')) \<longleftrightarrow> prefix bs ts"
proof (induction bs ts rule: rel_parts.induct)
  case (1 ts)
  then show ?case by (cases ts) auto
qed auto

text \<open>Between such paths, containment is that of the component lists.\<close>

lemma underRoot_prefix:
  assumes "plain root" "plain c"
  shows "underRoot root c \<longleftrightarrow> prefix (snd root) (snd c)"
proof (cases "root = c")
  case True
  then show ?thesis by (simp add: underRoot_def rel_def)
next
  case False
  have "''..'' \<notin> set (snd root)" "''..'' \<notin> set (snd c)" "fst root" "fst c"
    using assms by (auto simp: plain_def list_all_iff plain_part_def)
  then show ?thesis
    using False rel_parts_under [of "snd root" "snd c"]
    by (auto simp: underRoot_def rel_def target_parts_def split: option.splits)
qed


text \<open>What the code relies on: the resolution of an absolute path is absolute.\<close>

definition resolves_absolute :: "file_system \<Rightarrow> bool" where
  "resolves_absolute fs \<longleftrightarrow> (\<forall>p r. fs_eval fs p = Some r \<longrightarrow> is_abs p \<longrightarrow> is_abs r)"

lemma path_text_abs: "fst p \<Longrightarrow> is_abs (path_text p)"
  by (cases p) (simp add: path_text_def is_abs_def)

lemma join_clean_plain: "fst r \<Longrightarrow> plain (join_clean r p)"
  using path_text_abs [of r] by (simp add: join_clean_def clean_is_plain is_abs_def)

lemma fst_clean: "fst (clean p) = is_abs p"
  by (simp add: clean_def is_abs_def)

lemma eval_parents_plain:
  "eval_parents fs c d = Some r \<Longrightarrow> resolves_absolute fs \<Longrightarrow> fst d \<Longrightarrow> plain r"
proof (induction fs c d rule: eval_parents.induct)
  case (1 fs c d)
  show ?case
  proof (cases "fs_lstat fs (path_text d)")
    case True
    with "1.prems"(1) obtain x ps where "fs_eval fs (path_text d) = Some x" "r = join_clean (clean x) ps"
      by (subst (asm) eval_parents.simps) (auto split: option.splits)
    moreover from this have "is_abs x" using "1.prems"(2,3) path_text_abs [of d] by (auto simp: resolves_absolute_def)
    ultimately show ?thesis using join_clean_plain by (simp add: fst_clean)
  next
    case False
    with "1.prems"(1) have "snd d \<noteq> []" "eval_parents fs c (parent d) = Some r"
      by (subst (asm) eval_parents.simps, simp split: if_splits)+
    with "1.IH" False "1.prems"(2,3) show ?thesis by (simp add: parent_def)
  qed
qed

lemma evalExisting_plain:
  assumes "evalExisting fs c = Some r" "resolves_absolute fs" "fst c"
  shows "plain r"
proof (cases "fs_lstat fs (path_text c)")
  case True
  with assms(1) obtain x where x: "fs_eval fs (path_text c) = Some x" "r = clean x"
    by (auto simp: evalExisting_def)
  with assms(2,3) path_text_abs [of c] have "is_abs x" by (auto simp: resolves_absolute_def)
  then show ?thesis using x clean_is_plain by simp
next
  case False
  with assms show ?thesis by (auto simp: evalExisting_def parent_def intro: eval_parents_plain)
qed

lemma NewPathJail_plain:
  "is_abs (trim_space root0) \<or> trim_space root0 = [] \<Longrightarrow> plain (NewPathJail root0)"
  unfolding NewPathJail_def Let_def by (rule clean_is_plain) (auto simp: is_abs_def)

lemma resolved_root_plain: "plain root \<Longrightarrow> resolves_absolute fs \<Longrightarrow> plain (resolved_root fs root)"
  using path_text_abs [of root] clean_is_plain
  by (auto simp: resolved_root_def resolves_absolute_def plain_def split: option.splits)

lemma underRoot_abs: "underRoot root c \<Longrightarrow> fst c = fst root"
  by (auto simp: underRoot_def rel_def split: if_splits)

lemma candidate_plain:
  assumes "plain root" "plain rr" "rr = resolved_root fs root" "underRoot root (candidate_of fs root p) \<or> underRoot rr (candidate_of fs root p)"
  shows "plain (candidate_of fs root p)"
proof (cases "is_abs p \<or> isWindowsDrive p")
  case True
  then have c: "candidate_of fs root p = clean p" by (simp add: candidate_of_def)
  with assms(4) have "fst (clean p) = fst root \<or> fst (clean p) = fst rr"
    using underRoot_abs [of root "clean p"] underRoot_abs [of rr "clean p"] by auto
  with assms(1,2) have "fst (clean p)" by (auto simp: plain_def)
  then show ?thesis unfolding c using clean_is_plain by (simp add: fst_clean)
next
  case False
  then show ?thesis using assms join_clean_plain [of rr p] by (simp add: candidate_of_def plain_def)
qed

section \<open>The loop\<close>

text \<open>The path and its parents, the longest first.\<close>

definition ancestors :: "cpath \<Rightarrow> cpath list" where
  "ancestors d = map (\<lambda>n. (fst d, take n (snd d))) (rev [0..<Suc (length (snd d))])"

definition through :: "file_system \<Rightarrow> cpath \<Rightarrow> cpath \<Rightarrow> cpath option" where
  "through fs c d =
     (case fs_eval fs (path_text d) of
        None \<Rightarrow> None
      | Some r \<Rightarrow> (case rel d c of None \<Rightarrow> None | Some ps \<Rightarrow> Some (join_clean (clean r) (str_join ''/'' ps))))"

lemma ancestors_step: "snd d \<noteq> [] \<Longrightarrow> ancestors d = d # ancestors (parent d)"
proof -
  assume ne: "snd d \<noteq> []"
  have "map (\<lambda>n. (fst d, take n (snd d))) (rev [0..<length (snd d)]) =
      map (\<lambda>n. (fst d, take n (butlast (snd d)))) (rev [0..<length (snd d)])"
    using ne by (intro map_cong) (auto simp: butlast_conv_take min_def)
  moreover have "[0..<length (snd d)] = [0..<Suc (length (butlast (snd d)))]" using ne by simp
  ultimately show ?thesis by (simp add: ancestors_def parent_def)
qed

lemma ancestors_root: "snd d = [] \<Longrightarrow> ancestors d = [d]"
  by (cases d) (simp add: ancestors_def)

lemma eval_parents_find:
  "eval_parents fs c d =
     (case find (\<lambda>x. fs_lstat fs (path_text x)) (ancestors d) of None \<Rightarrow> None | Some x \<Rightarrow> through fs c x)"
proof (induction fs c d rule: eval_parents.induct)
  case (1 fs c d)
  then show ?case
    by (subst eval_parents.simps) (cases "snd d = []"; simp add: ancestors_root ancestors_step through_def)
qed

text \<open>C40: the search for an existing parent ends for every path and file system: it looks at the path's
  parents one by one, the longest first, and answers through the first that exists, or fails after the root.\<close>

theorem parent_search_ends:
  "eval_parents fs c d =
     (case find (\<lambda>x. fs_lstat fs (path_text x)) (ancestors d) of None \<Rightarrow> None | Some x \<Rightarrow> through fs c x) \<and>
   length (ancestors d) = Suc (length (snd d))"
  by (simp add: eval_parents_find) (simp add: ancestors_def)

section \<open>What the search resolves\<close>

text \<open>The existing part of an absolute path with components \<open>ps\<close>: its first \<open>n\<close> components exist (a
  symbolic link counting as itself), and no longer part does.\<close>

definition existing_part :: "file_system \<Rightarrow> string list \<Rightarrow> nat \<Rightarrow> bool" where
  "existing_part fs ps n \<longleftrightarrow>
     n \<le> length ps \<and> fs_lstat fs (path_text (True, take n ps)) \<and>
     (\<forall>k. n < k \<and> k \<le> length ps \<longrightarrow> \<not> fs_lstat fs (path_text (True, take k ps)))"

definition slash_free :: "string list \<Rightarrow> bool" where
  "slash_free ps \<longleftrightarrow> list_all (\<lambda>c. CHR ''/'' \<notin> set c) ps"

lemma clean_parts_set: "set (clean_parts rooted acc cs) \<subseteq> insert ''..'' (set acc \<union> set cs)"
  by (induction rooted acc cs rule: clean_parts.induct) (fastforce split: list.splits if_splits)+

lemma clean_slash_free: "slash_free (snd (clean p))"
proof -
  have "CHR ''/'' \<notin> set c" if "c \<in> set (snd (clean p))" for c
    using that clean_parts_set [of "prefix ''/'' p" "[]" "split_c (CHR ''/'') p"] split_c_without [of c "CHR ''/''" p]
    by (auto simp: clean_def)
  then show ?thesis by (simp add: slash_free_def list_all_iff)
qed

lemma clean_parts_keep:
  "list_all (\<lambda>c. c = [] \<or> plain_part True c) cs \<Longrightarrow> clean_parts True acc cs = rev acc @ filter (\<lambda>c. c \<noteq> []) cs"
  by (induction cs arbitrary: acc) (auto simp: plain_part_def)

lemma split_components:
  "slash_free ps \<Longrightarrow> split_c (CHR ''/'') (str_join ''/'' ps) = (if ps = [] then [[]] else ps)"
  using split_c_join [of ps "CHR ''/''"] by (simp add: slash_free_def)

lemma join_clean_components:
  assumes "slash_free xs" "slash_free ys" "list_all (plain_part True) xs" "list_all (plain_part True) ys"
  shows "join_clean (True, xs) (str_join ''/'' ys) = (True, xs @ ys)"
proof -
  let ?s = "path_text (True, xs) @ ''/'' @ str_join ''/'' ys"
  have "?s = CHR ''/'' # str_join ''/'' xs @ CHR ''/'' # str_join ''/'' ys" by (simp add: path_text_def)
  then have split: "split_c (CHR ''/'') ?s = [] # (if xs = [] then [[]] else xs) @ (if ys = [] then [[]] else ys)"
    using split_c_append [of "CHR ''/''" "str_join ''/'' xs" "str_join ''/'' ys"]
    by (simp add: split_components assms(1,2))
  have keep: "filter (\<lambda>c. c \<noteq> []) zs = zs" if "list_all (plain_part True) zs" for zs :: "string list"
    using that by (induction zs) (simp_all add: plain_part_def)
  have "clean_parts True [] (split_c (CHR ''/'') ?s) = filter (\<lambda>c. c \<noteq> []) (split_c (CHR ''/'') ?s)"
    unfolding split using assms(3,4) by (subst clean_parts_keep) (auto simp: list_all_iff)
  also have "\<dots> = xs @ ys"
    unfolding split using keep [OF assms(3)] keep [OF assms(4)] by simp
  finally show ?thesis by (simp add: join_clean_def clean_def path_text_def)
qed

lemma rel_parts_suffix: "rel_parts xs (xs @ ys) = Some ys"
  by (induction xs) simp_all

lemma rel_of_part: "n < length ps \<Longrightarrow> rel (True, take n ps) (True, ps) = Some (drop n ps)"
  using rel_parts_suffix [of "take n ps" "drop n ps"] by (auto simp: rel_def target_parts_def)

lemma path_text_root_abs: "is_abs (path_text (True, ps))"
  by (simp add: path_text_abs)

text \<open>The answer through the first \<open>n\<close> components: their resolution with the rest behind it.\<close>

lemma through_part:
  assumes "plain (True, ps)" "slash_free ps" "resolves_absolute fs" "n < length ps"
  shows "through fs (True, ps) (True, take n ps) =
    map_option (\<lambda>r. (True, snd (clean r) @ drop n ps)) (fs_eval fs (path_text (True, take n ps)))"
proof (cases "fs_eval fs (path_text (True, take n ps))")
  case None
  then show ?thesis by (simp add: through_def)
next
  case (Some r)
  then have "is_abs r" using assms(3) path_text_root_abs by (auto simp: resolves_absolute_def)
  then have r: "plain (clean r)" by (rule clean_is_plain)
  have rest: "slash_free (drop n ps)" "list_all (plain_part True) (drop n ps)"
    using assms(1,2) by (auto simp: slash_free_def plain_def list_all_iff dest: in_set_dropD)
  from r have "clean r = (True, snd (clean r))" by (simp add: plain_def prod_eq_iff)
  with join_clean_components [OF clean_slash_free rest(1) _ rest(2), of r] r
  have "join_clean (clean r) (str_join ''/'' (drop n ps)) = (True, snd (clean r) @ drop n ps)"
    by (simp add: plain_def)
  with Some rel_of_part [OF assms(4)] show ?thesis by (simp add: through_def)
qed

lemma eval_parents_part:
  assumes "k \<le> n" "n < length ps" "fs_lstat fs (path_text (True, take k ps))"
    and "\<And>j. k < j \<Longrightarrow> j \<le> n \<Longrightarrow> \<not> fs_lstat fs (path_text (True, take j ps))"
  shows "eval_parents fs c (True, take n ps) = through fs c (True, take k ps)"
  using assms
proof (induction n)
  case 0
  then have "k = 0" by simp
  with 0 show ?case by (subst eval_parents.simps) (simp only: through_def take_0 if_True)
next
  case (Suc n)
  show ?case
  proof (cases "k = Suc n")
    case True
    then show ?thesis using Suc.prems(3) by (subst eval_parents.simps) (simp add: through_def)
  next
    case False
    then have n: "\<not> fs_lstat fs (path_text (True, take (Suc n) ps))" "k \<le> n" using Suc.prems(1,4) by simp_all
    have "parent (True, take (Suc n) ps) = (True, take n ps)"
      using Suc.prems(2) by (simp add: parent_def butlast_take)
    moreover have "take (Suc n) ps \<noteq> []" using Suc.prems(2) by auto
    ultimately have "eval_parents fs c (True, take (Suc n) ps) = eval_parents fs c (True, take n ps)"
      using n(1) by (subst eval_parents.simps) simp
    then show ?thesis using Suc.IH [OF n(2)] Suc.prems by simp
  qed
qed

lemma eval_parents_none:
  assumes "\<And>j. j \<le> n \<Longrightarrow> \<not> fs_lstat fs (path_text (True, take j ps))" "n \<le> length ps"
  shows "eval_parents fs c (True, take n ps) = None"
  using assms
proof (induction n)
  case 0
  then show ?case by (subst eval_parents.simps) simp
next
  case (Suc n)
  have "parent (True, take (Suc n) ps) = (True, take n ps)"
    using Suc.prems(2) by (simp add: parent_def butlast_take)
  then show ?case using Suc by (subst eval_parents.simps) simp
qed

text \<open>So the code resolves a path through its existing part.\<close>

lemma evalExisting_iff:
  assumes "plain (True, ps)" "slash_free ps" "resolves_absolute fs"
  shows "evalExisting fs (True, ps) = Some x \<longleftrightarrow>
    (\<exists>n r. existing_part fs ps n \<and> fs_eval fs (path_text (True, take n ps)) = Some r \<and>
       x = (True, snd (clean r) @ drop n ps))"
proof -
  let ?E = "\<lambda>n. fs_lstat fs (path_text (True, take n ps))"
  have unique: "n = m" if "existing_part fs ps n" "existing_part fs ps m" for n m
    using that unfolding existing_part_def by (meson linorder_neqE_nat)
  have at: "evalExisting fs (True, ps) =
      map_option (\<lambda>r. (True, snd (clean r) @ drop n ps)) (fs_eval fs (path_text (True, take n ps)))"
    if n: "existing_part fs ps n" for n
  proof (cases "n = length ps")
    case True
    then have "?E (length ps)" using n by (simp add: existing_part_def)
    moreover have "clean r = (True, snd (clean r))" if "fs_eval fs (path_text (True, ps)) = Some r" for r
      using that assms(3) path_text_root_abs clean_is_plain [of r] by (auto simp: resolves_absolute_def plain_def prod_eq_iff)
    ultimately show ?thesis
      using True by (cases "fs_eval fs (path_text (True, ps))") (simp_all add: evalExisting_def)
  next
    case False
    then have lt: "n < length ps" using n by (simp add: existing_part_def)
    then have none: "\<not> ?E (length ps)" using n unfolding existing_part_def by blast
    have "parent (True, ps) = (True, take (length ps - 1) ps)" by (simp add: parent_def butlast_conv_take)
    moreover have "eval_parents fs (True, ps) (True, take (length ps - 1) ps) = through fs (True, ps) (True, take n ps)"
      using n lt by (intro eval_parents_part) (auto simp: existing_part_def)
    ultimately show ?thesis using none through_part [OF assms lt] by (simp add: evalExisting_def)
  qed
  show ?thesis
  proof (cases "\<exists>n \<le> length ps. ?E n")
    case True
    define n where "n = Max {n. n \<le> length ps \<and> ?E n}"
    have fin: "finite {n. n \<le> length ps \<and> ?E n}" by simp
    have "n \<in> {n. n \<le> length ps \<and> ?E n}" unfolding n_def using True by (intro Max_in [OF fin]) blast
    moreover have "m \<le> n" if "m \<le> length ps" "?E m" for m
      unfolding n_def by (rule Max_ge [OF fin]) (use that in simp)
    ultimately have part: "existing_part fs ps n" unfolding existing_part_def by (auto simp flip: not_le)
    show ?thesis unfolding at [OF part]
    proof
      assume "map_option (\<lambda>r. (True, snd (clean r) @ drop n ps)) (fs_eval fs (path_text (True, take n ps))) = Some x"
      then show "\<exists>n r. existing_part fs ps n \<and> fs_eval fs (path_text (True, take n ps)) = Some r \<and>
          x = (True, snd (clean r) @ drop n ps)"
        using part by auto
    next
      assume "\<exists>n r. existing_part fs ps n \<and> fs_eval fs (path_text (True, take n ps)) = Some r \<and>
          x = (True, snd (clean r) @ drop n ps)"
      then obtain m r where m: "existing_part fs ps m" "fs_eval fs (path_text (True, take m ps)) = Some r"
        "x = (True, snd (clean r) @ drop m ps)" by blast
      from unique [OF part m(1)] m(2,3)
      show "map_option (\<lambda>r. (True, snd (clean r) @ drop n ps)) (fs_eval fs (path_text (True, take n ps))) = Some x"
        by simp
    qed
  next
    case False
    then have "eval_parents fs (True, ps) (True, take (length ps - 1) ps) = None"
      by (intro eval_parents_none) auto
    moreover have "parent (True, ps) = (True, take (length ps - 1) ps)" by (simp add: parent_def butlast_conv_take)
    moreover have "\<not> ?E (length ps)" using False by blast
    ultimately have "evalExisting fs (True, ps) = None" by (simp add: evalExisting_def)
    then show ?thesis using False by (auto simp: existing_part_def)
  qed
qed

section \<open>Confinement\<close>

text \<open>C35: The jail allows exactly the paths that are not empty, hold no NUL, lie once cleaned under the
  workspace root or its resolution, component by component, and whose existing part (the longest part
  that exists, a link counting as itself), where it resolves, resolves to a place from which the rest of
  the path still lies under one of the two. A path whose existing part does not resolve, such as a
  dangling link, passes the second check wherever the link points; lemma dangling_link_allowed shows it.\<close>

theorem jail_confines:
  assumes "resolves_absolute fs" and "is_abs (trim_space root0) \<or> trim_space root0 = []"
  shows "let root = NewPathJail root0; rr = resolved_root fs root; p = trim_space path;
      c = candidate_of fs root p; inside = (\<lambda>ps. prefix (snd root) ps \<or> prefix (snd rr) ps)
    in Jail_Allow fs root path = Inr () \<longleftrightarrow>
       p \<noteq> [] \<and> CHR 0x00 \<notin> set p \<and> plain c \<and> inside (snd c) \<and>
       (\<forall>n r. existing_part fs (snd c) n \<and> fs_eval fs (path_text (True, take n (snd c))) = Some r \<longrightarrow>
          inside (snd (clean r) @ drop n (snd c)))"
proof -
  let ?root = "NewPathJail root0"
  let ?rr = "resolved_root fs ?root"
  let ?p = "trim_space path"
  let ?c = "candidate_of fs ?root ?p"
  have root: "plain ?root" using assms(2) by (rule NewPathJail_plain)
  then have rr: "plain ?rr" using assms(1) by (rule resolved_root_plain)
  have allow: "Jail_Allow fs ?root path = Inr () \<longleftrightarrow> ?p \<noteq> [] \<and> CHR 0x00 \<notin> set ?p \<and>
      (underRoot ?root ?c \<or> underRoot ?rr ?c) \<and>
      (\<forall>x. evalExisting fs ?c = Some x \<longrightarrow> underRoot ?rr x \<or> underRoot ?root x)"
    by (auto simp: Jail_Allow_def Let_def split: option.splits)
  have lexical: "(underRoot ?root ?c \<or> underRoot ?rr ?c) \<longleftrightarrow>
      plain ?c \<and> (prefix (snd ?root) (snd ?c) \<or> prefix (snd ?rr) (snd ?c))"
    using candidate_plain [OF root rr refl] underRoot_prefix [OF root] underRoot_prefix [OF rr] by blast
  have links: "(\<forall>x. evalExisting fs ?c = Some x \<longrightarrow> underRoot ?rr x \<or> underRoot ?root x) \<longleftrightarrow>
      (\<forall>n r. existing_part fs (snd ?c) n \<and> fs_eval fs (path_text (True, take n (snd ?c))) = Some r \<longrightarrow>
         prefix (snd ?root) (snd (clean r) @ drop n (snd ?c)) \<or> prefix (snd ?rr) (snd (clean r) @ drop n (snd ?c)))"
    if c: "plain ?c"
  proof -
    obtain ps where ps: "?c = (True, ps)" using c by (cases ?c) (simp add: plain_def)
    have "slash_free (snd ?c)" by (simp add: candidate_of_def join_clean_def clean_slash_free)
    then have free: "slash_free ps" by (simp add: ps)
    have p: "plain (True, ps)" using c ps by simp
    have under: "underRoot ?rr x \<or> underRoot ?root x \<longleftrightarrow> prefix (snd ?root) (snd x) \<or> prefix (snd ?rr) (snd x)"
      if "evalExisting fs (True, ps) = Some x" for x
    proof -
      have "plain x" using that assms(1) by (intro evalExisting_plain) auto
      then show ?thesis by (auto simp: underRoot_prefix root rr)
    qed
    show ?thesis unfolding ps snd_conv
    proof (intro iffI allI impI; (elim conjE)?)
      fix n r assume all: "\<forall>x. evalExisting fs (True, ps) = Some x \<longrightarrow> underRoot ?rr x \<or> underRoot ?root x"
        and n: "existing_part fs ps n" "fs_eval fs (path_text (True, take n ps)) = Some r"
      then have "evalExisting fs (True, ps) = Some (True, snd (clean r) @ drop n ps)"
        unfolding evalExisting_iff [OF p free assms(1)] by blast
      with all under show "prefix (snd ?root) (snd (clean r) @ drop n ps) \<or> prefix (snd ?rr) (snd (clean r) @ drop n ps)"
        by fastforce
    next
      fix x assume all: "\<forall>n r. existing_part fs ps n \<and> fs_eval fs (path_text (True, take n ps)) = Some r \<longrightarrow>
          prefix (snd ?root) (snd (clean r) @ drop n ps) \<or> prefix (snd ?rr) (snd (clean r) @ drop n ps)"
        and x: "evalExisting fs (True, ps) = Some x"
      from x obtain n r where "existing_part fs ps n" "fs_eval fs (path_text (True, take n ps)) = Some r"
        "x = (True, snd (clean r) @ drop n ps)"
        unfolding evalExisting_iff [OF p free assms(1)] by blast
      with all under [OF x] show "underRoot ?rr x \<or> underRoot ?root x" by auto
    qed
  qed
  show ?thesis unfolding Let_def allow lexical using links by blast
qed

definition demo_files :: file_system where
  "demo_files = \<lparr>fs_lstat = (\<lambda>p. p \<in> {''/'', ''/w'', ''/w/in'', ''/w/out'', ''/w/link''}),
     fs_eval = (\<lambda>p. if p = ''/w/in'' then Some ''/w/data'' else if p = ''/w/out'' then Some ''/etc''
       else if p = ''/w/link'' then None else Some p)\<rparr>"

lemma demo_files_absolute: "resolves_absolute demo_files"
  by (auto simp: resolves_absolute_def demo_files_def is_abs_def split: if_splits)

text \<open>The witness: a new file below a link that stays inside is allowed, one below a link that leaves the
  workspace is refused.\<close>

lemma jail_confines_witness:
  "Jail_Allow demo_files (NewPathJail ''/w'') ''in/f'' = Inr () \<and> prefix [''w''] [''w'', ''data'', ''f''] \<and>
   Jail_Allow demo_files (NewPathJail ''/w'') ''out/f'' \<noteq> Inr ()"
proof -
  have a: "NewPathJail ''/w'' = (True, [''w''])" "resolved_root demo_files (True, [''w'']) = (True, [''w''])"
    "trim_space ''in/f'' = ''in/f''" "trim_space ''out/f'' = ''out/f''"
    "candidate_of demo_files (True, [''w'']) ''in/f'' = (True, [''w'', ''in'', ''f''])"
    "candidate_of demo_files (True, [''w'']) ''out/f'' = (True, [''w'', ''out'', ''f''])"
    "Jail_Allow demo_files (True, [''w'']) ''in/f'' = Inr ()"
    by code_simp+
  have abs: "is_abs (trim_space ''/w'') \<or> trim_space ''/w'' = []" by code_simp
  note jail = jail_confines [OF demo_files_absolute abs, unfolded Let_def a(1) a(2) snd_conv]
  have "path_text (True, take 2 [''w'', ''in'', ''f'']) = ''/w/in''" "path_text (True, [''w'', ''in'', ''f'']) = ''/w/in/f''"
    "path_text (True, take 2 [''w'', ''out'', ''f'']) = ''/w/out''" "path_text (True, [''w'', ''out'', ''f'']) = ''/w/out/f''"
    "snd (clean ''/w/data'') = [''w'', ''data'']" "snd (clean ''/etc'') = [''etc'']"
    by code_simp+
  note t = this
  have part: "existing_part demo_files [''w'', ''in'', ''f''] 2" "existing_part demo_files [''w'', ''out'', ''f''] 2"
  proof -
    have "j = 3" if "2 < j" "j \<le> 3" for j :: nat using that by simp
    then show "existing_part demo_files [''w'', ''in'', ''f''] 2" "existing_part demo_files [''w'', ''out'', ''f''] 2"
      using t by (auto simp: existing_part_def demo_files_def)
  qed
  have ev: "fs_eval demo_files ''/w/in'' = Some ''/w/data''" "fs_eval demo_files ''/w/out'' = Some ''/etc''"
    by (simp_all add: demo_files_def)
  from jail [of "''in/f''"] a part(1) t(1,5) ev(1)
  have "prefix [''w''] (snd (clean ''/w/data'') @ drop 2 [''w'', ''in'', ''f''])" by (metis snd_conv)
  moreover have "Jail_Allow demo_files (True, [''w'']) ''out/f'' \<noteq> Inr ()"
  proof
    assume "Jail_Allow demo_files (True, [''w'']) ''out/f'' = Inr ()"
    with jail [of "''out/f''"] a part(2) t(3) ev(2)
    have "prefix [''w''] (snd (clean ''/etc'') @ drop 2 [''w'', ''out'', ''f''])" by (metis snd_conv)
    then show False using t(6) by simp
  qed
  ultimately show ?thesis using a(1,7) t(5) by simp
qed

text \<open>
  A link whose target does not exist yet is allowed wherever it points: it exists, its resolution fails,
  and a failed resolution is not a refusal. Writing through it creates the target outside the workspace.
\<close>

lemma dangling_link_allowed:
  "fs_lstat demo_files ''/w/link'' \<and> fs_eval demo_files ''/w/link'' = None \<and>
   Jail_Allow demo_files (NewPathJail ''/w'') ''link'' = Inr ()"
  by code_simp

end
