(* ===== verification/Workspace_Service.thy ===== *)
theory Workspace_Service
  imports S3_Store
begin

text \<open>
  The workspaces (\<open>internal/workspace/service.go\<close>): a bucket per workspace, and the file operations
  that go to the object store adapter. \<open>byID\<close> is an association list. The calls of the object client that
  read or write the bytes of an object act on a state \<open>'w\<close> of the buckets and are parameters
  (\<open>object_io\<close>), next to those of \<open>minio\<close>; a listing shows the buckets as they are at the call.
\<close>

record ('c, 'w) object_io =
  io_put :: "'c \<Rightarrow> string \<Rightarrow> string \<Rightarrow> string \<Rightarrow> int \<Rightarrow> string \<Rightarrow> 'w \<Rightarrow> 'w \<times> (string + unit)"
  io_get :: "'c \<Rightarrow> string \<Rightarrow> string \<Rightarrow> 'w \<Rightarrow> string + string"
  io_remove :: "'c \<Rightarrow> string \<Rightarrow> string \<Rightarrow> 'w \<Rightarrow> 'w \<times> (string + unit)"

definition s3_Put ::
  "('c, 'w) object_io \<Rightarrow> 'c s3_store \<Rightarrow> 'w \<Rightarrow> string \<Rightarrow> string \<Rightarrow> string \<Rightarrow> int \<Rightarrow> string \<Rightarrow> 'w \<times> unit result" where
  "s3_Put io s w bucket key body len contentType =
     (let ct = (if contentType = [] then ''application/octet-stream'' else contentType)
      in case io_put io (st_client s) bucket key body len ct w of
           (w1, Inl e) \<Rightarrow> (w1, Inl (Errorf e))
         | (w1, Inr u) \<Rightarrow> (w1, Inr u))"

definition s3_Get :: "('c, 'w) object_io \<Rightarrow> 'c s3_store \<Rightarrow> 'w \<Rightarrow> string \<Rightarrow> string \<Rightarrow> string result" where
  "s3_Get io s w bucket key =
     (case io_get io (st_client s) bucket key w of
        Inl e \<Rightarrow> Inl (Errorf e)
      | Inr b \<Rightarrow> Inr b)"

definition s3_Delete :: "('c, 'w) object_io \<Rightarrow> 'c s3_store \<Rightarrow> 'w \<Rightarrow> string \<Rightarrow> string \<Rightarrow> 'w \<times> unit result" where
  "s3_Delete io s w bucket key =
     (case io_remove io (st_client s) bucket key w of
        (w1, Inl e) \<Rightarrow> (w1, Inl (Errorf e))
      | (w1, Inr u) \<Rightarrow> (w1, Inr u))"

definition PresignPut ::
  "'c minio \<Rightarrow> 'c s3_store \<Rightarrow> string \<Rightarrow> string \<Rightarrow> duration \<Rightarrow> string result" where
  "PresignPut mc s bucket key ttl =
     (case mc_presign mc (st_client s) ''PUT'' bucket key ttl [] of
        Inl e \<Rightarrow> Inl (Errorf e)
      | Inr u \<Rightarrow> Inr u)"

definition PresignGet ::
  "'c minio \<Rightarrow> 'c s3_store \<Rightarrow> string \<Rightarrow> string \<Rightarrow> duration \<Rightarrow> string result" where
  "PresignGet mc s bucket key ttl = PresignGetVersion mc s bucket key [] ttl"

section \<open>Workspaces\<close>

record ws_meta =
  wmID :: string
  wmName :: string
  wmOwnerID :: string
  wmBucket :: string
  wmCreatedAt :: time

record 'c workspace_service =
  ws_store :: "'c s3_store"
  ws_bucketPrefix :: string
  ws_presignTTL :: duration
  ws_byID :: "ws_meta gomap"

definition NewService :: "'c s3_store \<Rightarrow> string \<Rightarrow> duration \<Rightarrow> 'c workspace_service" where
  "NewService s bucketPrefix presignTTL =
     \<lparr>ws_store = s, ws_bucketPrefix = bucketPrefix, ws_presignTTL = presignTTL, ws_byID = []\<rparr>"

text \<open>The expression \<open>^[a-z0-9][a-z0-9-]{1,61}[a-z0-9]$\<close>.\<close>

definition slug_char :: "char \<Rightarrow> bool" where
  "slug_char c \<longleftrightarrow> (CHR ''a'' \<le> c \<and> c \<le> CHR ''z'') \<or> (CHR ''0'' \<le> c \<and> c \<le> CHR ''9'')"

definition slugRe :: "string \<Rightarrow> bool" where
  "slugRe s \<longleftrightarrow> 3 \<le> length s \<and> length s \<le> 63 \<and> slug_char (hd s) \<and> slug_char (last s) \<and>
     list_all (\<lambda>c. slug_char c \<or> c = CHR ''-'') s"

definition undashed :: "string \<Rightarrow> string" where
  "undashed s = filter (\<lambda>c. c \<noteq> CHR ''-'') s"

definition shortID :: "string \<Rightarrow> string" where
  "shortID s = (let u = undashed s in if length u > 12 then take 12 u else u)"

definition cleanKey :: "string \<Rightarrow> string result" where
  "cleanKey key =
     (let k = trim_left_c (CHR ''/'') (trim_space key)
      in if k = [] then Inl (Errorf ''key required'')
         else if sublist ''..'' k then Inl (Errorf ''invalid key'')
         else Inr k)"

text \<open>The slice \<open>[:12]\<close> of the fallback is in range: an identifier has 32 hexadecimal digits.\<close>

definition workspace_bucket :: "string \<Rightarrow> string \<Rightarrow> string" where
  "workspace_bucket bucketPrefix wid =
     (let bucket = bucketPrefix @ shortID wid
      in if \<not> slugRe bucket then bucketPrefix @ take 12 (undashed wid) else bucket)"

definition Workspace_Create ::
  "'c minio \<Rightarrow> draw \<Rightarrow> 'c workspace_service \<Rightarrow> string \<Rightarrow> string \<Rightarrow> 'c workspace_service \<times> ws_meta result" where
  "Workspace_Create mc dr s ownerID name0 =
     (let name = trim_space name0
      in if name = [] then (s, Inl (Errorf ''name required''))
         else
           (let bucket = workspace_bucket (ws_bucketPrefix s) (dr_id dr)
            in case s3_EnsureBucket mc (ws_store s) bucket of
                 Inl e \<Rightarrow> (s, Inl (Errorf (''ensure bucket: '' @ error_text e)))
               | Inr _ \<Rightarrow>
                   (let m = \<lparr>wmID = dr_id dr, wmName = name, wmOwnerID = ownerID, wmBucket = bucket,
                             wmCreatedAt = dr_now dr\<rparr>
                    in (s\<lparr>ws_byID := gset (dr_id dr) m (ws_byID s)\<rparr>, Inr m))))"

definition Workspace_Get :: "'c workspace_service \<Rightarrow> string \<Rightarrow> ws_meta result" where
  "Workspace_Get s wid =
     (case gget (ws_byID s) wid of
        None \<Rightarrow> Inl (Errorf ''workspace not found'')
      | Some m \<Rightarrow> Inr m)"

definition ListByOwner :: "'c workspace_service \<Rightarrow> string \<Rightarrow> ws_meta list" where
  "ListByOwner s ownerID = filter (\<lambda>m. wmOwnerID m = ownerID) (gvals (ws_byID s))"

section \<open>Files\<close>

definition ListFiles :: "'c minio \<Rightarrow> 'c workspace_service \<Rightarrow> string \<Rightarrow> string \<Rightarrow> object_info list result" where
  "ListFiles mc s wid pre =
     and_then (Workspace_Get s wid) (\<lambda>m.
       s3_List mc (ws_store s) (wmBucket m) (trim_left_c (CHR ''/'') pre))"

definition PutFile ::
  "('c, 'w) object_io \<Rightarrow> 'c workspace_service \<Rightarrow> 'w \<Rightarrow> string \<Rightarrow> string \<Rightarrow> string \<Rightarrow> int \<Rightarrow> string \<Rightarrow> 'w \<times> unit result" where
  "PutFile io s w wid key body len contentType =
     (case Workspace_Get s wid of
        Inl e \<Rightarrow> (w, Inl e)
      | Inr m \<Rightarrow>
          (case cleanKey key of
             Inl e \<Rightarrow> (w, Inl e)
           | Inr k \<Rightarrow> s3_Put io (ws_store s) w (wmBucket m) k body len contentType))"

definition GetFile :: "('c, 'w) object_io \<Rightarrow> 'c workspace_service \<Rightarrow> 'w \<Rightarrow> string \<Rightarrow> string \<Rightarrow> string result" where
  "GetFile io s w wid key =
     and_then (Workspace_Get s wid) (\<lambda>m. and_then (cleanKey key) (\<lambda>k.
       s3_Get io (ws_store s) w (wmBucket m) k))"

definition DeleteFile ::
  "('c, 'w) object_io \<Rightarrow> 'c workspace_service \<Rightarrow> 'w \<Rightarrow> string \<Rightarrow> string \<Rightarrow> 'w \<times> unit result" where
  "DeleteFile io s w wid key =
     (case Workspace_Get s wid of
        Inl e \<Rightarrow> (w, Inl e)
      | Inr m \<Rightarrow>
          (case cleanKey key of
             Inl e \<Rightarrow> (w, Inl e)
           | Inr k \<Rightarrow> s3_Delete io (ws_store s) w (wmBucket m) k))"

definition PresignUpload :: "'c minio \<Rightarrow> 'c workspace_service \<Rightarrow> string \<Rightarrow> string \<Rightarrow> (string \<times> string) result" where
  "PresignUpload mc s wid key =
     and_then (Workspace_Get s wid) (\<lambda>m. and_then (cleanKey key) (\<lambda>k.
       and_then (PresignPut mc (ws_store s) (wmBucket m) k (ws_presignTTL s)) (\<lambda>u. Inr (u, wmBucket m))))"

definition PresignDownload :: "'c minio \<Rightarrow> 'c workspace_service \<Rightarrow> string \<Rightarrow> string \<Rightarrow> string result" where
  "PresignDownload mc s wid key =
     and_then (Workspace_Get s wid) (\<lambda>m. and_then (cleanKey key) (\<lambda>k.
       PresignGet mc (ws_store s) (wmBucket m) k (ws_presignTTL s)))"

definition rclone_env_example :: "string \<Rightarrow> string \<Rightarrow> string \<Rightarrow> string" where
  "rclone_env_example remote accessKey secretKey =
     ''RCLONE_CONFIG_MYS3_TYPE=s3'' @ newline @ ''RCLONE_CONFIG_MYS3_PROVIDER=Minio'' @ newline @
     ''RCLONE_CONFIG_MYS3_ENDPOINT='' @ remote @ newline @
     ''RCLONE_CONFIG_MYS3_ACCESS_KEY_ID='' @ accessKey @ newline @
     ''RCLONE_CONFIG_MYS3_SECRET_ACCESS_KEY='' @ secretKey @ newline @
     ''RCLONE_CONFIG_MYS3_FORCE_PATH_STYLE=true''"

definition AgentMountHint ::
  "'c workspace_service \<Rightarrow> string \<Rightarrow> string \<Rightarrow> string \<Rightarrow> string \<Rightarrow> bool \<Rightarrow> string gomap result" where
  "AgentMountHint s wid endpoint accessKey secretKey useSSL =
     and_then (Workspace_Get s wid) (\<lambda>m.
       (let remote = (if useSSL then ''https'' else ''http'') @ ''://'' @ endpoint
        in Inr [(''workspace_id'', wmID m),
                (''bucket'', wmBucket m),
                (''rclone_remote_type'', ''s3''),
                (''rclone_env_example'',
                 rclone_env_example remote accessKey secretKey),
                (''mount_command'', ''rclone mount mys3:'' @ wmBucket m @ '' /workspace --vfs-cache-mode full --daemon''),
                (''agent_workdir'', ''/workspace''),
                (''note'', ''Point Agent working_directory to /workspace. Writes go to MinIO without a separate upload step.'')]))"

section \<open>Facts\<close>

lemma cleanKey_facts:
  "cleanKey key = Inr k \<Longrightarrow> k \<noteq> [] \<and> hd k \<noteq> CHR ''/'' \<and> \<not> sublist ''..'' k \<and> k = trim_left_c (CHR ''/'') (trim_space key)"
  using hd_dropWhile [of "\<lambda>c. c = CHR ''/''" "trim_space key"]
  by (auto simp: cleanKey_def Let_def trim_left_c_def split: if_splits)

text \<open>
  The fallback of \<open>Create\<close> is the name it replaces: \<open>shortID\<close> is the same slice, so a prefix that
  makes the name invalid reaches the store unchanged.
\<close>

lemma fallback_bucket_same: "workspace_bucket p wid = p @ take 12 (undashed wid)"
  by (simp add: workspace_bucket_def shortID_def Let_def)

lemma bucket_valid:
  assumes "list_all (\<lambda>c. slug_char c \<or> c = CHR ''-'') p" "length p \<le> 51" "p \<noteq> [] \<Longrightarrow> slug_char (hd p)"
    "list_all slug_char (undashed wid)" "12 \<le> length (undashed wid)"
  shows "slugRe (workspace_bucket p wid)"
proof -
  define u where "u = take 12 (undashed wid)"
  have u: "length u = 12" "list_all slug_char u" using assms(4,5) by (auto simp: u_def list_all_iff dest: in_set_takeD)
  then have ne: "u \<noteq> []" by auto
  with u have "slug_char (hd u)" "slug_char (last u)" by (auto simp: list_all_iff)
  with u ne assms(1-3) show ?thesis
    unfolding fallback_bucket_same u_def [symmetric] slugRe_def by (cases p) (auto simp: list_all_iff)
qed

definition ws_ok :: "'c workspace_service \<Rightarrow> bool" where
  "ws_ok s \<longleftrightarrow> gwf (ws_byID s) \<and>
     (\<forall>(k, m) \<in> set (ws_byID s). wmID m = k \<and> wmName m \<noteq> [] \<and> wmBucket m = workspace_bucket (ws_bucketPrefix s) k)"

lemma ws_ok_new: "ws_ok (NewService st p ttl)"
  by (simp add: ws_ok_def NewService_def)

lemma ws_ok_create:
  assumes "ws_ok s" "Workspace_Create mc dr s owner nm = (s', r)"
  shows "ws_ok s' \<and> ws_bucketPrefix s' = ws_bucketPrefix s"
proof -
  have upd: "x \<in> set (gset k v m) \<Longrightarrow> x = (k, v) \<or> x \<in> set m" for x k v and m :: "ws_meta gomap"
    by (induction m) (auto split: if_splits)
  show ?thesis using assms upd
    by (fastforce simp: ws_ok_def Workspace_Create_def Let_def split: if_splits sum.splits)
qed

text \<open>
  The contract of the object client: an accepted upload is what a read of that object returns, and an
  upload or a removal leaves every other object as it is.
\<close>

definition object_contract :: "('c, 'w) object_io \<Rightarrow> bool" where
  "object_contract io \<longleftrightarrow>
     (\<forall>c b k body n ct w w' r. io_put io c b k body n ct w = (w', r) \<longrightarrow>
        (r = Inr () \<longrightarrow> io_get io c b k w' = Inr body) \<and>
        (\<forall>b' k'. (b', k') \<noteq> (b, k) \<longrightarrow> io_get io c b' k' w' = io_get io c b' k' w)) \<and>
     (\<forall>c b k w w' r. io_remove io c b k w = (w', r) \<longrightarrow>
        (\<forall>b' k'. (b', k') \<noteq> (b, k) \<longrightarrow> io_get io c b' k' w' = io_get io c b' k' w))"

lemma object_contract_put:
  "object_contract io \<Longrightarrow> io_put io c b k body n ct w = (w', r) \<Longrightarrow>
     (r = Inr () \<longrightarrow> io_get io c b k w' = Inr body) \<and>
     (\<forall>b' k'. (b', k') \<noteq> (b, k) \<longrightarrow> io_get io c b' k' w' = io_get io c b' k' w)"
  unfolding object_contract_def by blast

lemma object_contract_remove:
  "object_contract io \<Longrightarrow> io_remove io c b k w = (w', r) \<Longrightarrow> (b', k') \<noteq> (b, k) \<Longrightarrow>
     io_get io c b' k' w' = io_get io c b' k' w"
  unfolding object_contract_def by blast

lemma GetFile_eq: "GetFile io s w wid key =
   (case Workspace_Get s wid of Inl e \<Rightarrow> Inl e | Inr m \<Rightarrow> (case cleanKey key of Inl e \<Rightarrow> Inl e | Inr k \<Rightarrow>
     s3_Get io (ws_store s) w (wmBucket m) k))"
  by (simp add: GetFile_def and_then_def split: sum.splits)

lemma put_frame:
  assumes io: "object_contract io" and put: "PutFile io s w wid key body n ct = (w', r)"
    and far: "\<not> (\<exists>m m' k. Workspace_Get s wid = Inr m \<and> Workspace_Get s wid' = Inr m' \<and> wmBucket m = wmBucket m' \<and>
        cleanKey key = Inr k \<and> cleanKey key' = Inr k)"
  shows "GetFile io s w' wid' key' = GetFile io s w wid' key'"
proof (cases "Workspace_Get s wid")
  case (Inr m)
  show ?thesis
  proof (cases "cleanKey key")
    case k: (Inr k)
    from put Inr k obtain r1 where p: "\<exists>ct'. io_put io (st_client (ws_store s)) (wmBucket m) k body n ct' w = (w', r1)"
      by (auto simp: PutFile_def s3_Put_def Let_def split: prod.splits sum.splits)
    with object_contract_put [OF io] have "(b', k') \<noteq> (wmBucket m, k) \<Longrightarrow>
        io_get io (st_client (ws_store s)) b' k' w' = io_get io (st_client (ws_store s)) b' k' w" for b' k' by blast
    with far Inr k show ?thesis
      by (auto simp: GetFile_eq s3_Get_def split: sum.splits)
  qed (use put Inr in \<open>auto simp: PutFile_def\<close>)
qed (use put in \<open>auto simp: PutFile_def\<close>)

lemma delete_frame:
  assumes io: "object_contract io" and del: "DeleteFile io s w wid key = (w', r)"
    and far: "\<not> (\<exists>m m' k. Workspace_Get s wid = Inr m \<and> Workspace_Get s wid' = Inr m' \<and> wmBucket m = wmBucket m' \<and>
        cleanKey key = Inr k \<and> cleanKey key' = Inr k)"
  shows "GetFile io s w' wid' key' = GetFile io s w wid' key'"
proof (cases "Workspace_Get s wid")
  case (Inr m)
  show ?thesis
  proof (cases "cleanKey key")
    case k: (Inr k)
    from del Inr k obtain r1 where "io_remove io (st_client (ws_store s)) (wmBucket m) k w = (w', r1)"
      by (auto simp: DeleteFile_def s3_Delete_def split: prod.splits sum.splits)
    from object_contract_remove [OF io this] far Inr k show ?thesis
      by (auto simp: GetFile_eq s3_Get_def split: sum.splits)
  qed (use del Inr in \<open>auto simp: DeleteFile_def\<close>)
qed (use del in \<open>auto simp: DeleteFile_def\<close>)

text \<open>Against an object store that keeps its contract, an accepted PutFile is what GetFile of that workspace and key returns, and PutFile and DeleteFile leave every other file as it was: another key of the workspace (after the trimming of spaces and leading slashes) and every key of a workspace with another bucket.\<close>

theorem workspace_files_apart:
  assumes io: "object_contract io" and put: "PutFile io s w wid key body n ct = (w1, r1)"
    and del: "DeleteFile io s w wid key = (w2, r2)"
    and far: "\<not> (\<exists>m m' k. Workspace_Get s wid = Inr m \<and> Workspace_Get s wid' = Inr m' \<and> wmBucket m = wmBucket m' \<and>
        cleanKey key = Inr k \<and> cleanKey key' = Inr k)"
  shows "(r1 = Inr () \<longrightarrow> GetFile io s w1 wid key = Inr body) \<and>
    GetFile io s w1 wid' key' = GetFile io s w wid' key' \<and>
    GetFile io s w2 wid' key' = GetFile io s w wid' key'"
proof -
  have "GetFile io s w1 wid key = Inr body" if ok: "r1 = Inr ()"
  proof -
    from put ok obtain m k where m: "Workspace_Get s wid = Inr m" and k: "cleanKey key = Inr k"
      by (auto simp: PutFile_def split: sum.splits)
    with put ok obtain ct' where "io_put io (st_client (ws_store s)) (wmBucket m) k body n ct' w = (w1, Inr ())"
      by (auto simp: PutFile_def s3_Put_def Let_def split: prod.splits sum.splits)
    from object_contract_put [OF io this] m k show ?thesis by (simp add: GetFile_eq s3_Get_def)
  qed
  then show ?thesis using put_frame [OF io put far] delete_frame [OF io del far] by blast
qed

definition demo_io :: "(unit, ((string \<times> string) \<times> string) list) object_io" where
  "demo_io = \<lparr>io_put = (\<lambda>_ b k body _ _ w. (AList.update (b, k) body w, Inr ())),
     io_get = (\<lambda>_ b k w. (case map_of w (b, k) of None \<Rightarrow> Inl ''no such key'' | Some x \<Rightarrow> Inr x)),
     io_remove = (\<lambda>_ b k w. (AList.delete (b, k) w, Inr ()))\<rparr>"

definition demo_workspaces :: "unit workspace_service" where
  "demo_workspaces = \<lparr>ws_store = \<lparr>st_client = (), st_region = ''r''\<rparr>, ws_bucketPrefix = ''ws-'', ws_presignTTL = 0,
     ws_byID = [(''a'', \<lparr>wmID = ''a'', wmName = ''n'', wmOwnerID = ''u'', wmBucket = ''b1'', wmCreatedAt = 1\<rparr>),
                (''b'', \<lparr>wmID = ''b'', wmName = ''n'', wmOwnerID = ''v'', wmBucket = ''b2'', wmCreatedAt = 1\<rparr>)]\<rparr>"

lemma demo_io_contract: "object_contract demo_io"
  by (auto simp: object_contract_def demo_io_def update_conv' delete_conv')

lemma demo_key: "cleanKey ''/k'' = Inr ''k''" "cleanKey ''k'' = Inr ''k''"
  by code_simp+

lemma workspace_files_apart_witness:
  "GetFile demo_io demo_workspaces (fst (PutFile demo_io demo_workspaces [((''b2'', ''k''), ''old'')] ''a'' ''/k'' ''new'' 3 []))
     ''a'' ''/k'' = Inr ''new'' \<and>
   GetFile demo_io demo_workspaces (fst (PutFile demo_io demo_workspaces [((''b2'', ''k''), ''old'')] ''a'' ''/k'' ''new'' 3 []))
     ''b'' ''k'' = Inr ''old''"
proof -
  let ?w = "[((''b2'', ''k''), ''old'')]"
  let ?p = "PutFile demo_io demo_workspaces ?w ''a'' ''/k'' ''new'' 3 []"
  let ?d = "DeleteFile demo_io demo_workspaces ?w ''a'' ''/k''"
  have ok: "snd ?p = Inr ()"
    by (simp add: PutFile_def Workspace_Get_def demo_workspaces_def demo_key s3_Put_def demo_io_def)
  have far: "\<not> (\<exists>m m' k. Workspace_Get demo_workspaces ''a'' = Inr m \<and> Workspace_Get demo_workspaces ''b'' = Inr m' \<and>
      wmBucket m = wmBucket m' \<and> cleanKey ''/k'' = Inr k \<and> cleanKey ''k'' = Inr k)"
    by (simp add: Workspace_Get_def demo_workspaces_def)
  have old: "GetFile demo_io demo_workspaces ?w ''b'' ''k'' = Inr ''old''"
    by (simp add: GetFile_eq Workspace_Get_def demo_workspaces_def demo_key s3_Get_def demo_io_def)
  have pd: "?p = (fst ?p, snd ?p)" "?d = (fst ?d, snd ?d)" by simp_all
  from workspace_files_apart [OF demo_io_contract pd far] ok old show ?thesis by metis
qed

text \<open>
  The bucket of a workspace is made from the first twelve digits of its identifier alone, and an
  existing bucket is taken as it is: two workspaces that share those digits share their files, whoever
  owns them.
\<close>

lemma same_digits_share_bucket:
  "take 12 (undashed a) = take 12 (undashed b) \<Longrightarrow> workspace_bucket p a = workspace_bucket p b"
  by (simp add: fallback_bucket_same)

end
