(* ===== verification/Config_Load.thy ===== *)
theory Config_Load
  imports Cloud_Prelude
begin

text \<open>
  The process settings (\<open>internal/config/config.go\<close>): reading them from the environment and the
  checks at start. An unset variable reads as the empty text. The products of a setting and a unit
  of time wrap as int64 do (\<open>duration_secs\<close>).
\<close>

abbreviation DefaultJWTSecret :: string where "DefaultJWTSecret \<equiv> ''dev-change-me''"
abbreviation em_dash :: string where "em_dash \<equiv> [CHR 0xE2, CHR 0x80, CHR 0x94]"
abbreviation MinJWTSecretLen :: nat where "MinJWTSecretLen \<equiv> 16"

record settings =
  cfHTTPAddr :: string
  cfS3Endpoint :: string
  cfS3AccessKey :: string
  cfS3SecretKey :: string
  cfS3UseSSL :: bool
  cfS3Region :: string
  cfBucketPrefix :: string
  cfJWTSecret :: string
  cfMasterKey :: string
  cfPresignTTL :: duration
  cfDBPath :: string
  cfStrict :: bool
  cfAllowRegister :: bool
  cfTokenTTL :: duration
  cfRefreshTTL :: duration
  cfMaxBodyBytes :: int
  cfHSTS :: bool
  cfMetricsToken :: string
  cfAuthRatePerMin :: int
  cfAuthFailMax :: int
  cfAuthFailWindowMin :: int
  cfAdminCIDRs :: "string list"
  cfPolicyFile :: string
  cfPolicyReloadSec :: int
  cfOPAPolicyFile :: string
  cfPDPURL :: string

definition getenv :: "environment \<Rightarrow> string \<Rightarrow> string \<Rightarrow> string" where
  "getenv env k dflt = (if env k \<noteq> [] then env k else dflt)"

definition parse_bool :: "string \<Rightarrow> bool option" where
  "parse_bool s =
     (if s \<in> {''1'', ''t'', ''T'', ''TRUE'', ''true'', ''True''} then Some True
      else if s \<in> {''0'', ''f'', ''F'', ''FALSE'', ''false'', ''False''} then Some False else None)"

definition getenvBool :: "environment \<Rightarrow> string \<Rightarrow> bool \<Rightarrow> bool" where
  "getenvBool env k dflt =
     (if env k = [] then dflt else (case parse_bool (env k) of None \<Rightarrow> dflt | Some b \<Rightarrow> b))"

definition getenvInt :: "environment \<Rightarrow> string \<Rightarrow> int \<Rightarrow> int" where
  "getenvInt env k dflt =
     (if env k = [] then dflt else (case atoi (env k) of None \<Rightarrow> dflt | Some n \<Rightarrow> n))"

definition splitCSV :: "string \<Rightarrow> string list" where
  "splitCSV s0 =
     (let s = trim_space s0
      in if s = [] then [] else filter (\<lambda>p. p \<noteq> []) (map trim_space (split_c (CHR '','') s)))"

definition duration_of :: "int \<Rightarrow> int \<Rightarrow> duration" where
  "duration_of n unit_ns = sint (of_int (n * unit_ns) :: 64 word)"

definition positive_or :: "int \<Rightarrow> int \<Rightarrow> int" where
  "positive_or dflt n = (if n \<le> 0 then dflt else n)"

definition Config_Load :: "environment \<Rightarrow> settings" where
  "Config_Load env =
     (let ttlH = positive_or 24 (getenvInt env ''AI_CLOUDHUB_TOKEN_TTL_HOURS'' 24);
          refH = positive_or 168 (getenvInt env ''AI_CLOUDHUB_REFRESH_TTL_HOURS'' 168);
          maxBody = positive_or 1048576 (getenvInt env ''AI_CLOUDHUB_MAX_BODY_BYTES'' 1048576)
      in \<lparr>cfHTTPAddr = getenv env ''HTTP_ADDR'' '':8080'',
          cfS3Endpoint = getenv env ''S3_ENDPOINT'' ''127.0.0.1:9000'',
          cfS3AccessKey = getenv env ''S3_ACCESS_KEY'' ''minioadmin'',
          cfS3SecretKey = getenv env ''S3_SECRET_KEY'' ''minioadmin'',
          cfS3UseSSL = getenvBool env ''S3_USE_SSL'' False,
          cfS3Region = getenv env ''S3_REGION'' ''us-east-1'',
          cfBucketPrefix = getenv env ''BUCKET_PREFIX'' ''ws-'',
          cfJWTSecret = getenv env ''JWT_SECRET'' DefaultJWTSecret,
          cfMasterKey = getenv env ''AI_CLOUDHUB_MASTER_KEY'' [],
          cfPresignTTL = duration_of (getenvInt env ''PRESIGN_TTL_MIN'' 15) (minutes 1),
          cfDBPath = getenv env ''AI_CLOUDHUB_DB'' ''./data/ai-cloudhub.db'',
          cfStrict = getenvBool env ''AI_CLOUDHUB_STRICT'' False,
          cfAllowRegister = getenvBool env ''AI_CLOUDHUB_ALLOW_REGISTER'' True,
          cfTokenTTL = duration_of ttlH (minutes 60),
          cfRefreshTTL = duration_of refH (minutes 60),
          cfMaxBodyBytes = maxBody,
          cfHSTS = getenvBool env ''AI_CLOUDHUB_HSTS'' False,
          cfMetricsToken = getenv env ''AI_CLOUDHUB_METRICS_TOKEN'' [],
          cfAuthRatePerMin = getenvInt env ''AI_CLOUDHUB_AUTH_RATE_PER_MIN'' 20,
          cfAuthFailMax = getenvInt env ''AI_CLOUDHUB_AUTH_FAIL_MAX'' 8,
          cfAuthFailWindowMin = getenvInt env ''AI_CLOUDHUB_AUTH_FAIL_WINDOW_MIN'' 15,
          cfAdminCIDRs = splitCSV (getenv env ''AI_CLOUDHUB_ADMIN_CIDRS'' []),
          cfPolicyFile = getenv env ''AI_CLOUDHUB_POLICY_FILE'' [],
          cfPolicyReloadSec = getenvInt env ''AI_CLOUDHUB_POLICY_RELOAD_SEC'' 0,
          cfOPAPolicyFile = getenv env ''AI_CLOUDHUB_OPA_POLICY_FILE'' [],
          cfPDPURL = getenv env ''AI_CLOUDHUB_PDP_URL'' []\<rparr>)"

section \<open>The checks at start\<close>

record validation =
  vrErrors :: "string list"
  vrWarnings :: "string list"

definition validation_OK :: "validation \<Rightarrow> bool" where
  "validation_OK v \<longleftrightarrow> vrErrors v = []"

definition hard :: "string \<Rightarrow> validation \<Rightarrow> validation" where
  "hard msg v = v\<lparr>vrErrors := vrErrors v @ [msg]\<rparr>"

definition soft :: "string \<Rightarrow> validation \<Rightarrow> validation" where
  "soft msg v = v\<lparr>vrWarnings := vrWarnings v @ [msg]\<rparr>"

definition strict_hard :: "settings \<Rightarrow> string \<Rightarrow> validation \<Rightarrow> validation" where
  "strict_hard c msg v = (if cfStrict c then hard msg v else soft msg v)"

definition check_jwt :: "settings \<Rightarrow> validation \<Rightarrow> validation" where
  "check_jwt c v =
     (let sec = trim_space (cfJWTSecret c)
      in if sec = [] then hard ''JWT_SECRET is empty'' v
         else if sec = DefaultJWTSecret
         then strict_hard c ''JWT_SECRET is the insecure default (dev-change-me); set a strong secret for production'' v
         else if length sec < MinJWTSecretLen
         then strict_hard c (''JWT_SECRET too short ('' @ show_nat (length sec) @ '' chars; need >= '' @
                show_nat MinJWTSecretLen @ '')'') v
         else v)"

definition check_rest :: "settings \<Rightarrow> validation \<Rightarrow> validation" where
  "check_rest c v0 =
     (let sec = trim_space (cfJWTSecret c);
          v = (if trim_space (cfMasterKey c) = []
               then strict_hard c (''AI_CLOUDHUB_MASTER_KEY unset '' @ em_dash @ '' provider secrets stored in plaintext'') v0 else v0);
          v = (if cfHTTPAddr c = [] then hard ''HTTP_ADDR is empty'' v else v);
          v = (if cfStrict c \<and> cfAllowRegister c
               then soft ''AI_CLOUDHUB_ALLOW_REGISTER is true under STRICT; consider false after bootstrap'' v else v);
          v = (if cfStrict c \<and> trim_space (cfMetricsToken c) = []
               then soft (''AI_CLOUDHUB_METRICS_TOKEN unset under STRICT '' @ em_dash @ '' /metrics is public'') v else v);
          v = (if cfStrict c \<and> cfAdminCIDRs c = []
               then soft (''AI_CLOUDHUB_ADMIN_CIDRS empty under STRICT '' @ em_dash @ '' admin APIs not IP-restricted'') v else v);
          v = (if cfStrict c \<and> MinJWTSecretLen \<le> length sec \<and> length sec < 32 \<and> sec \<noteq> DefaultJWTSecret
               then soft (''JWT_SECRET length < 32 under STRICT '' @ em_dash @ '' prefer openssl rand -hex 32'') v else v)
      in if cfTokenTTL c > 0 \<and> cfTokenTTL c < minutes 60
         then soft ''AI_CLOUDHUB_TOKEN_TTL_HOURS < 1h is very short'' v else v)"

definition Config_Validate :: "settings \<Rightarrow> validation" where
  "Config_Validate c = check_rest c (check_jwt c \<lparr>vrErrors = [], vrWarnings = []\<rparr>)"

section \<open>Facts\<close>

lemma hard_not_ok [simp]: "\<not> validation_OK (hard msg v)"
  by (simp add: validation_OK_def hard_def)

lemma soft_ok [simp]: "validation_OK (soft msg v) = validation_OK v"
  by (simp add: validation_OK_def soft_def)

lemma check_rest_ok:
  "validation_OK (check_rest c v) \<longleftrightarrow>
     validation_OK v \<and> cfHTTPAddr c \<noteq> [] \<and> (cfStrict c \<longrightarrow> trim_space (cfMasterKey c) \<noteq> [])"
  by (simp add: check_rest_def Let_def strict_hard_def)

lemma check_jwt_ok:
  "validation_OK (check_jwt c v) \<longleftrightarrow>
     validation_OK v \<and> trim_space (cfJWTSecret c) \<noteq> [] \<and>
     (cfStrict c \<longrightarrow> trim_space (cfJWTSecret c) \<noteq> DefaultJWTSecret \<and> MinJWTSecretLen \<le> length (trim_space (cfJWTSecret c)))"
  by (auto simp: check_jwt_def Let_def strict_hard_def not_less)

text \<open>The process starts with these settings exactly when the secrets are set, and are strong if strict.\<close>

lemma Config_Validate_ok:
  "validation_OK (Config_Validate c) \<longleftrightarrow>
     cfHTTPAddr c \<noteq> [] \<and> trim_space (cfJWTSecret c) \<noteq> [] \<and>
     (cfStrict c \<longrightarrow> trim_space (cfMasterKey c) \<noteq> [] \<and> trim_space (cfJWTSecret c) \<noteq> DefaultJWTSecret \<and>
        MinJWTSecretLen \<le> length (trim_space (cfJWTSecret c)))"
proof -
  have "validation_OK \<lparr>vrErrors = [], vrWarnings = []\<rparr>" by (simp add: validation_OK_def)
  then show ?thesis by (auto simp: Config_Validate_def check_rest_ok check_jwt_ok)
qed

text \<open>
  The lifetimes are set in hours with no upper bound, and the product with an hour wraps: a large
  setting gives a negative lifetime.
\<close>

lemma token_lifetime_wraps: "duration_of 2562048 (minutes 60) < 0"
  unfolding duration_of_def by (simp add: signed_take_bit_eq_if_positive)

end
