(* ===== verification/Http_Core.thy ===== *)
theory Http_Core
  imports Config_Load Auth_Service Agent_Service Policy_Limits Job_Webhooks Sts_Session
begin

text \<open>
  What every handler of \<open>internal/httpserver\<close> rests on: requests, answers, the state of the server,
  the checks of tokens, roles, scopes and policy (\<open>server.go\<close>) and the helpers of \<open>middleware.go\<close> that
  look at a request. A header or query parameter that is absent reads as the empty text. An answer is
  the status with the error text or the value that the JSON encoder would write; the decoders of the
  request bodies are parameters of the handlers. A request reads the clock once and takes its
  identifiers from \<open>we_draw\<close>. The counters of the metrics package are left out, and so are services
  that are nil.
\<close>

record web_request =
  hqMethod :: string
  hqPath :: string
  hqHeader :: "string \<Rightarrow> string"
  hqQuery :: "string \<Rightarrow> string list"
  hqBody :: string
  hqRemoteAddr :: string

type_synonym 'b answer = "int \<times> (string + 'b)"

abbreviation fail :: "int \<Rightarrow> string \<Rightarrow> 'b answer" where "fail code msg \<equiv> (code, Inl msg)"
abbreviation reply :: "int \<Rightarrow> 'b \<Rightarrow> 'b answer" where "reply code b \<equiv> (code, Inr b)"
abbreviation bad_method :: "'b answer" where "bad_method \<equiv> fail 405 ''method not allowed''"
abbreviation not_found :: "'b answer" where "not_found \<equiv> fail 404 ''not found''"

definition query :: "web_request \<Rightarrow> string \<Rightarrow> string" where
  "query r k = (case hqQuery r k of [] \<Rightarrow> [] | v # _ \<Rightarrow> v)"

definition trimmed_query :: "web_request \<Rightarrow> string \<Rightarrow> string" where
  "trimmed_query r k = trim_space (query r k)"

text \<open>\<open>n, _ := strconv.Atoi\<close>: zero when the text is not a number, the nearest int64 when it is out of range.\<close>

definition atoi_lenient :: "string \<Rightarrow> int" where
  "atoi_lenient s =
     (case atoi s of
        Some n \<Rightarrow> n
      | None \<Rightarrow>
          (let ds = (case s of c # cs \<Rightarrow> if c = CHR ''-'' \<or> c = CHR ''+'' then cs else s | [] \<Rightarrow> [])
           in if ds = [] \<or> digits_val 0 ds = None then 0
              else if hd s = CHR ''-'' then - (2 ^ 63) else 2 ^ 63 - 1))"

text \<open>The rest of the path below a route, without outer slashes, and its segments.\<close>

definition below :: "string \<Rightarrow> web_request \<Rightarrow> string" where
  "below route r = trim_c (CHR ''/'') (trim_prefix route (hqPath r))"

definition segments :: "string \<Rightarrow> web_request \<Rightarrow> string list" where
  "segments route r = split_c (CHR ''/'') (below route r)"

section \<open>Addresses\<close>

record ip_lib =
  ip_split_host :: "string \<Rightarrow> string option"
  ip_parse :: "string \<Rightarrow> nat option"
  ip_in_cidr :: "string \<Rightarrow> nat \<Rightarrow> bool option"

definition ip_entry_matches :: "ip_lib \<Rightarrow> string \<Rightarrow> string \<Rightarrow> bool" where
  "ip_entry_matches il client a0 =
     (let a = trim_space a0
      in a \<noteq> [] \<and>
         (a = client \<or>
          (case ip_parse il client of
             None \<Rightarrow> False
           | Some ip \<Rightarrow> if CHR ''/'' \<in> set a then ip_in_cidr il a ip = Some True
                        else ip_parse il a = Some ip)))"

definition ipAllowed :: "ip_lib \<Rightarrow> string \<Rightarrow> string list \<Rightarrow> bool" where
  "ipAllowed il client0 allow =
     (allow = [] \<or> list_ex (ip_entry_matches il (trim_space client0)) allow)"

definition clientIP :: "ip_lib \<Rightarrow> environment \<Rightarrow> web_request \<Rightarrow> string" where
  "clientIP il env r =
     (let direct = (case ip_split_host il (hqRemoteAddr r) of None \<Rightarrow> hqRemoteAddr r | Some h \<Rightarrow> h);
          real = trim_space (hqHeader r ''X-Real-IP'');
          xff = trim_space (hqHeader r ''X-Forwarded-For'');
          hop = (if CHR '','' \<in> set xff then trim_space (takeWhile (\<lambda>c. c \<noteq> CHR '','') xff) else xff)
      in if trim_space (env ''AI_CLOUDHUB_TRUST_PROXY'') = ''1''
         then (if hop \<noteq> [] then hop else if real \<noteq> [] then real else direct)
         else direct)"

definition requireJSON :: "web_request \<Rightarrow> bool" where
  "requireJSON r =
     (let ct = hqHeader r ''Content-Type''
      in hqMethod r \<notin> {''POST'', ''PUT'', ''PATCH''} \<or> ct = [] \<or>
         to_lower (trim_space (takeWhile (\<lambda>c. c \<noteq> CHR '';'') ct)) = ''application/json'')"

abbreviation not_json :: "'b answer" where
  "not_json \<equiv> fail 415 ''Content-Type must be application/json''"

section \<open>The server\<close>

record server =
  sv_world :: world
  sv_limit :: "limiter option"
  sv_authLim :: "limiter option"
  sv_authFail :: "tracker option"
  sv_engine :: "engine option"
  sv_barriers :: "barrier gomap"
  sv_sts :: "sts_service option"
  sv_oci :: oci_cache

record web_env =
  we_auth :: auth_service
  we_cfg :: settings
  we_ctx :: ctx
  we_files :: files
  we_ip :: ip_lib
  we_draw :: "nat \<Rightarrow> draw"

abbreviation now_of :: "web_env \<Rightarrow> time" where "now_of e \<equiv> cx_now (we_ctx e)"
abbreviation sv_mem :: "server \<Rightarrow> memory" where "sv_mem s \<equiv> wd_mem (sv_world s)"

definition put_mem :: "memory \<Rightarrow> server \<Rightarrow> server" where
  "put_mem m s = s\<lparr>sv_world := (sv_world s)\<lparr>wd_mem := m\<rparr>\<rparr>"

definition put_world :: "world \<Rightarrow> server \<Rightarrow> server" where
  "put_world w s = s\<lparr>sv_world := w\<rparr>"

text \<open>\<open>New\<close>: the limits of the login routes with their defaults.\<close>

definition New_server :: "settings \<Rightarrow> limiter option \<Rightarrow> engine option \<Rightarrow> sts_service option \<Rightarrow> world \<Rightarrow> server" where
  "New_server cfg lm eng sts w =
     \<lparr>sv_world = w,
      sv_limit = Some (case lm of None \<Rightarrow> NewLimiter 20 40 | Some l \<Rightarrow> l),
      sv_authLim = Some (NewAuthLimiter (of_int (positive_or 20 (cfAuthRatePerMin cfg))) 5),
      sv_authFail = Some (NewFailureTracker (positive_or 8 (cfAuthFailMax cfg))
        (duration_of (positive_or 15 (cfAuthFailWindowMin cfg)) (minutes 1))),
      sv_engine = eng, sv_barriers = [], sv_sts = sts, sv_oci = []\<rparr>"

text \<open>The audit trail; the \<open>k\<close>-th draw of the request identifies the record.\<close>

definition audit_agent :: "web_env \<Rightarrow> nat \<Rightarrow> string \<Rightarrow> string \<Rightarrow> string \<Rightarrow> string \<Rightarrow> string \<Rightarrow> server \<Rightarrow> server" where
  "audit_agent e k userID agentID action target detail s =
     put_mem (AuditAgent (we_draw e k) (sv_mem s) userID agentID action target detail) s"

definition audit :: "web_env \<Rightarrow> nat \<Rightarrow> string \<Rightarrow> string \<Rightarrow> string \<Rightarrow> string \<Rightarrow> server \<Rightarrow> server" where
  "audit e k userID action target detail s =
     put_mem (Audit (we_draw e k) (sv_mem s) userID action target detail) s"

section \<open>Who asks\<close>

abbreviation is_agent :: "principal \<Rightarrow> bool" where "is_agent p \<equiv> prlAgentID p \<noteq> []"

definition limit_allows :: "web_env \<Rightarrow> string \<Rightarrow> server \<Rightarrow> server \<times> bool" where
  "limit_allows e userID s =
     (case sv_limit s of
        None \<Rightarrow> (s, True)
      | Some l \<Rightarrow> (case Allow (now_of e) l userID of (l1, ok) \<Rightarrow> (s\<lparr>sv_limit := Some l1\<rparr>, ok)))"

type_synonym 'b handler = "principal \<Rightarrow> web_request \<Rightarrow> server \<Rightarrow> server \<times> 'b answer"

definition authenticate :: "web_env \<Rightarrow> web_request \<Rightarrow> server \<Rightarrow> server \<times> (int \<times> string + principal)" where
  "authenticate e r s =
     (let h = hqHeader r ''Authorization''
      in if \<not> prefix ''Bearer '' h then (s, Inl (401, ''missing bearer token''))
         else (case ParsePrincipal (we_auth e) (now_of e) (sv_mem s) (trim_prefix ''Bearer '' h) of
                 (m1, Inl err) \<Rightarrow> (put_mem m1 s, Inl (401, error_text err))
               | (m1, Inr p) \<Rightarrow>
                   (case limit_allows e (prlUserID p) (put_mem m1 s) of
                      (s2, False) \<Rightarrow> (s2, Inl (429, ''rate limited''))
                    | (s2, True) \<Rightarrow> (s2, Inr p))))"

definition withAuth :: "web_env \<Rightarrow> 'b handler \<Rightarrow> web_request \<Rightarrow> server \<Rightarrow> server \<times> 'b answer" where
  "withAuth e next r s =
     (case authenticate e r s of
        (s1, Inl (code, msg)) \<Rightarrow> (s1, fail code msg)
      | (s1, Inr p) \<Rightarrow> next p r s1)"

definition admin_only :: "web_env \<Rightarrow> 'b handler \<Rightarrow> 'b handler" where
  "admin_only e next p r s =
     (if is_agent p then (s, fail 403 ''agent token cannot use admin APIs'')
      else if prlRole p \<noteq> ''admin'' then (s, fail 403 ''admin required'')
      else if cfAdminCIDRs (we_cfg e) \<noteq> [] \<and>
              \<not> ipAllowed (we_ip e) (clientIP (we_ip e) (cx_env (we_ctx e)) r) (cfAdminCIDRs (we_cfg e))
      then (s, fail 403 ''admin API not allowed from this IP'')
      else next p r s)"

definition withAdmin :: "web_env \<Rightarrow> 'b handler \<Rightarrow> web_request \<Rightarrow> server \<Rightarrow> server \<times> 'b answer" where
  "withAdmin e next = withAuth e (admin_only e next)"

definition requireScope :: "string \<Rightarrow> principal \<Rightarrow> bool" where
  "requireScope need p = HasScope (prlAgentID p) (prlScopes p) need"

abbreviation missing_scope :: "string \<Rightarrow> 'b answer" where
  "missing_scope need \<equiv> fail 403 (''missing scope: '' @ need)"

definition requireHuman :: "principal \<Rightarrow> bool" where
  "requireHuman p \<longleftrightarrow> \<not> is_agent p"

abbreviation not_human :: "'b answer" where "not_human \<equiv> fail 403 ''human session required''"

text \<open>The policy question an agent token raises; a human never asks one.\<close>

definition policy_question :: "principal \<Rightarrow> string \<Rightarrow> string \<Rightarrow> policy_request" where
  "policy_question p action driveID =
     \<lparr>prAgentID = prlAgentID p, prAllowedDriveIDs = [], prReadPrefixes = [], prWritePrefixes = [],
      prScopes = prlScopes p, prAction = action, prDriveID = driveID, prPath = []\<rparr>"

definition check_access :: "web_env \<Rightarrow> principal \<Rightarrow> string \<Rightarrow> string \<Rightarrow> server \<Rightarrow> server \<times> unit result" where
  "check_access e p action driveID s =
     (case CheckAccess (we_files e) (now_of e) (sv_mem s) (sv_engine s) (policy_question p action driveID) of
        (eng, res) \<Rightarrow> (s\<lparr>sv_engine := eng\<rparr>, res))"

text \<open>\<open>agentJobDriveDenyReason\<close>: the empty text allows.\<close>

definition agentJobDriveDenyReason :: "web_env \<Rightarrow> principal \<Rightarrow> string \<Rightarrow> server \<Rightarrow> server \<times> string" where
  "agentJobDriveDenyReason e p driveID s =
     (if \<not> is_agent p then (s, [])
      else (case check_access e p ''job.run'' driveID s of
              (s1, Inl err) \<Rightarrow> (s1, error_text err)
            | (s1, Inr _) \<Rightarrow> (s1, [])))"

definition allowAgentJob :: "web_env \<Rightarrow> principal \<Rightarrow> string \<Rightarrow> server \<Rightarrow> server \<times> string option" where
  "allowAgentJob e p driveID s =
     (case agentJobDriveDenyReason e p driveID s of
        (s1, reason) \<Rightarrow> (s1, if reason \<noteq> [] then Some reason else None))"

definition allowAgentProvider :: "web_env \<Rightarrow> principal \<Rightarrow> string \<Rightarrow> server \<Rightarrow> server \<times> string option" where
  "allowAgentProvider e p action s =
     (if \<not> is_agent p then (s, None)
      else (case check_access e p action [] s of
              (s1, Inl err) \<Rightarrow> (s1, Some (error_text err))
            | (s1, Inr _) \<Rightarrow> (s1, None)))"

text \<open>The action \<open>allowAgentDrive\<close> reads off the method and the path.\<close>

definition drive_action :: "web_request \<Rightarrow> string" where
  "drive_action r =
     (let a = (if hqMethod r \<in> {''POST'', ''PUT'', ''PATCH'', ''DELETE''} then ''drive.write'' else ''drive.read'');
          a = (if sublist ''/session'' (hqPath r) then ''drive.session'' else a)
      in if sublist ''/objects/'' (hqPath r)
         then (if suffix ''/restore-version'' (hqPath r) \<or> sublist ''/objects/restore-version'' (hqPath r) then ''drive.write''
               else if sublist ''/presign-get'' (hqPath r) \<or> sublist ''/restore-plan'' (hqPath r) \<or>
                       sublist ''/version-hint'' (hqPath r) then ''drive.read''
               else a)
         else a)"

definition allowAgentDrive :: "web_env \<Rightarrow> principal \<Rightarrow> web_request \<Rightarrow> string \<Rightarrow> server \<Rightarrow> server \<times> string option" where
  "allowAgentDrive e p r driveID s =
     (if \<not> is_agent p then (s, None)
      else (case check_access e p (drive_action r) driveID s of
              (s1, Inl err) \<Rightarrow> (s1, Some (error_text err))
            | (s1, Inr _) \<Rightarrow> (s1, None)))"

text \<open>A denied check is the answer 403 with its reason; otherwise the handler goes on.\<close>

definition unless_denied :: "server \<times> string option \<Rightarrow> (server \<Rightarrow> server \<times> 'b answer) \<Rightarrow> server \<times> 'b answer" where
  "unless_denied c next = (case c of (s, Some reason) \<Rightarrow> (s, fail 403 reason) | (s, None) \<Rightarrow> next s)"

end
