(* ===== verification/Http_Accounts.thy ===== *)
theory Http_Accounts
  imports Http_Core
begin

text \<open>
  The routes of accounts, sessions and agents (\<open>internal/httpserver/server.go\<close>): registration, login with
  its lockout, refresh, logout, password change, and the agents with their tokens. \<open>account_bodies\<close> holds
  the decoders of the request bodies.
\<close>

record account_bodies =
  ab_credentials :: "string \<Rightarrow> string + string \<times> string"
  ab_refresh :: "string \<Rightarrow> string + string"
  ab_logout :: "string \<Rightarrow> string"
  ab_passwords :: "string \<Rightarrow> string + string \<times> string"
  ab_agent :: "string \<Rightarrow> string + agent_input"
  ab_agent_patch :: "string \<Rightarrow> string + agent_update"
  ab_token :: "string \<Rightarrow> string list \<times> int"

record agent_grant =
  gtToken :: string
  gtExpiresIn :: int
  gtAgentID :: string
  gtScopes :: "string list"

datatype account_reply =
    AccountBody account
  | PairBody token_pair
  | Done "(string \<times> string) list"
  | Whoami principal
  | AgentBody agent
  | AgentList "agent list"
  | AgentToken agent_grant

abbreviation ip_of :: "web_env \<Rightarrow> web_request \<Rightarrow> string" where
  "ip_of e r \<equiv> clientIP (we_ip e) (cx_env (we_ctx e)) r"

text \<open>The limiter of the login routes, keyed by the kind of call and the address.\<close>

definition auth_limited :: "web_env \<Rightarrow> string \<Rightarrow> server \<Rightarrow> server \<times> bool" where
  "auth_limited e key s =
     (case AuthAllow (now_of e) (sv_authLim s) key of (l, ok) \<Rightarrow> (s\<lparr>sv_authLim := l\<rparr>, \<not> ok))"

abbreviation limited :: "'b answer" where "limited \<equiv> fail 429 ''rate limited''"

definition handleRegister :: "account_bodies \<Rightarrow> web_env \<Rightarrow> web_request \<Rightarrow> server \<Rightarrow> server \<times> account_reply answer" where
  "handleRegister ab e r s0 =
     (case auth_limited e (''reg:'' @ ip_of e r) s0 of
        (s, True) \<Rightarrow> (s, limited)
      | (s, False) \<Rightarrow>
          if \<not> cfAllowRegister (we_cfg e) \<and> CountUsers (sv_mem s) > 0 then (s, fail 403 ''registration disabled'')
          else if \<not> requireJSON r then (s, not_json)
          else (case ab_credentials ab (hqBody r) of
                  Inl err \<Rightarrow> (s, fail 400 err)
                | Inr (username, password) \<Rightarrow>
                    (case Register (we_auth e) (we_draw e 0) (sv_mem s) username password of
                       (m1, Inl err) \<Rightarrow> (put_mem m1 s, fail 400 (error_text err))
                     | (m1, Inr u) \<Rightarrow>
                         (audit e 1 (acID u) ''auth.register'' (acUsername u) (''role='' @ acRole u) (put_mem m1 s),
                          reply 201 (AccountBody u)))))"

definition lock_key :: "web_env \<Rightarrow> web_request \<Rightarrow> string \<Rightarrow> string" where
  "lock_key e r username = ''user:'' @ to_lower (trim_space username) @ ''|ip:'' @ ip_of e r"

definition fail_locked :: "web_env \<Rightarrow> string \<Rightarrow> server \<Rightarrow> server \<times> bool" where
  "fail_locked e key s =
     (case sv_authFail s of
        None \<Rightarrow> (s, False)
      | Some t \<Rightarrow> (case Locked (now_of e) t key of (t1, b) \<Rightarrow> (s\<lparr>sv_authFail := Some t1\<rparr>, b)))"

definition fail_count :: "web_env \<Rightarrow> string \<Rightarrow> server \<Rightarrow> server \<times> bool" where
  "fail_count e key s =
     (case sv_authFail s of
        None \<Rightarrow> (s, False)
      | Some t \<Rightarrow> (case Fail (now_of e) t key of (t1, b) \<Rightarrow> (s\<lparr>sv_authFail := Some t1\<rparr>, b)))"

definition fail_clear :: "string \<Rightarrow> server \<Rightarrow> server" where
  "fail_clear key s = s\<lparr>sv_authFail := map_option (\<lambda>t. Clear t key) (sv_authFail s)\<rparr>"

text \<open>The password check of the login handler, once the address and the lock let it through.\<close>

definition try_login :: "web_env \<Rightarrow> web_request \<Rightarrow> string \<Rightarrow> string \<Rightarrow> server \<Rightarrow> server \<times> account_reply answer" where
  "try_login e r username password s =
     (let key = lock_key e r username
      in case Login (we_auth e) (we_draw e 0) (sv_mem s) username password of
           (m1, Inl _) \<Rightarrow>
             (case fail_count e key (put_mem m1 s) of
                (s1, locked) \<Rightarrow>
                  (audit e 1 [] ''auth.login_fail'' username
                     (''fail ip='' @ ip_of e r @ (if locked then '' locked'' else [])) s1,
                   fail 401 ''invalid credentials''))
         | (m1, Inr pair) \<Rightarrow>
             (audit e 1 (acID (tkUser pair)) ''auth.login'' (acUsername (tkUser pair)) ''ok''
                (fail_clear key (put_mem m1 s)),
              reply 200 (PairBody pair)))"

definition handleLogin :: "account_bodies \<Rightarrow> web_env \<Rightarrow> web_request \<Rightarrow> server \<Rightarrow> server \<times> account_reply answer" where
  "handleLogin ab e r s0 =
     (case auth_limited e (''login:'' @ ip_of e r) s0 of
        (s, True) \<Rightarrow> (s, limited)
      | (s, False) \<Rightarrow>
          if \<not> requireJSON r then (s, not_json)
          else (case ab_credentials ab (hqBody r) of
                  Inl err \<Rightarrow> (s, fail 400 err)
                | Inr (username, password) \<Rightarrow>
                    (case fail_locked e (lock_key e r username) s of
                       (s1, True) \<Rightarrow>
                         (audit e 1 [] ''auth.login_locked'' username (''ip='' @ ip_of e r) s1,
                          fail 429 ''too many failed attempts; try later'')
                     | (s1, False) \<Rightarrow> try_login e r username password s1)))"

text \<open>What a login does to the failure tracker is \<open>login_attempt\<close>, the step of the runs in
  \<open>Policy_Limits\<close>, under the key of the account and the address.\<close>

lemma handleLogin_attempt:
  assumes "auth_limited e (''login:'' @ ip_of e r) s0 = (s, False)" "requireJSON r"
    and "ab_credentials ab (hqBody r) = Inr (username, password)" "sv_authFail s = Some t"
  shows "sv_authFail (fst (handleLogin ab e r s0)) = Some (fst (login_attempt t
    (case snd (Login (we_auth e) (we_draw e 0) (sv_mem s) username password) of
       Inl _ \<Rightarrow> BadLogin (now_of e) (lock_key e r username)
     | Inr _ \<Rightarrow> GoodLogin (now_of e) (lock_key e r username))))"
proof -
  obtain t1 locked where l: "Locked (now_of e) t (lock_key e r username) = (t1, locked)" by fastforce
  obtain m1 res where g: "Login (we_auth e) (we_draw e 0) (sv_mem s) username password = (m1, res)" by fastforce
  show ?thesis
    using assms l g
    by (cases locked; cases res)
       (auto simp: handleLogin_def fail_locked_def try_login_def fail_count_def fail_clear_def login_attempt_def
          audit_def put_mem_def Let_def split: prod.splits)
qed

definition handleRefresh :: "account_bodies \<Rightarrow> web_env \<Rightarrow> web_request \<Rightarrow> server \<Rightarrow> server \<times> account_reply answer" where
  "handleRefresh ab e r s0 =
     (case auth_limited e (''refresh:'' @ ip_of e r) s0 of
        (s, True) \<Rightarrow> (s, limited)
      | (s, False) \<Rightarrow>
          if \<not> requireJSON r then (s, not_json)
          else (case ab_refresh ab (hqBody r) of
                  Inl err \<Rightarrow> (s, fail 400 err)
                | Inr tok \<Rightarrow>
                    (case Refresh (we_auth e) (we_draw e 0) (sv_mem s) tok of
                       (m1, Inl err) \<Rightarrow>
                         (audit e 1 [] ''auth.refresh_fail'' [] (''ip='' @ ip_of e r) (put_mem m1 s),
                          fail 401 (error_text err))
                     | (m1, Inr pair) \<Rightarrow>
                         (audit e 1 (acID (tkUser pair)) ''auth.refresh'' (acUsername (tkUser pair)) ''ok'' (put_mem m1 s),
                          reply 200 (PairBody pair)))))"

definition handleLogout :: "account_bodies \<Rightarrow> web_env \<Rightarrow> account_reply handler" where
  "handleLogout ab e p r s =
     (if hqMethod r \<noteq> ''POST'' then (s, bad_method)
      else (case Logout (we_auth e) (now_of e) (sv_mem s) (trim_prefix ''Bearer '' (hqHeader r ''Authorization''))
                   (ab_logout ab (hqBody r)) of
              (m1, Inl err) \<Rightarrow> (put_mem m1 s, fail 401 (error_text err))
            | (m1, Inr _) \<Rightarrow>
                (audit e 1 (prlUserID p) ''auth.logout'' (prlUsername p) ''ok'' (put_mem m1 s),
                 reply 200 (Done [(''status'', ''ok'')]))))"

definition handleMe :: "account_reply handler" where
  "handleMe p r s = (if hqMethod r \<noteq> ''GET'' then (s, bad_method) else (s, reply 200 (Whoami p)))"

definition handleChangePassword :: "account_bodies \<Rightarrow> web_env \<Rightarrow> account_reply handler" where
  "handleChangePassword ab e p r s =
     (if hqMethod r \<noteq> ''POST'' then (s, bad_method)
      else (case ab_passwords ab (hqBody r) of
              Inl err \<Rightarrow> (s, fail 400 err)
            | Inr (old, new) \<Rightarrow>
                (case ChangePassword (we_auth e) (sv_mem s) (prlUserID p) old new of
                   (m1, Inl err) \<Rightarrow> (put_mem m1 s, fail 400 (error_text err))
                 | (m1, Inr _) \<Rightarrow>
                     (audit e 1 (prlUserID p) ''auth.password_change'' (prlUsername p) ''sessions_revoked'' (put_mem m1 s),
                      reply 200 (Done [(''status'', ''ok''), (''note'', ''re-login required'')])))))"

section \<open>Agents\<close>

definition routeAgentsRoot :: "account_bodies \<Rightarrow> web_env \<Rightarrow> account_reply handler" where
  "routeAgentsRoot ab e p r s =
     (if hqMethod r = ''POST''
      then (if \<not> requireHuman p then (s, not_human)
            else if \<not> requireJSON r then (s, not_json)
            else (case ab_agent ab (hqBody r) of
                    Inl err \<Rightarrow> (s, fail 400 err)
                  | Inr inp \<Rightarrow>
                      (case Agent_Create (we_draw e 0) (sv_mem s) (prlUserID p) inp of
                         (m1, Inl err) \<Rightarrow> (put_mem m1 s, fail 400 (error_text err))
                       | (m1, Inr a) \<Rightarrow>
                           (audit e 1 (prlUserID p) ''agent.create'' (agID a) (agName a) (put_mem m1 s),
                            reply 201 (AgentBody a)))))
      else if hqMethod r = ''GET''
      then (if \<not> requireHuman p then (s, not_human)
            else (s, reply 200 (AgentList (ListAgents (sv_mem s) (prlUserID p)))))
      else (s, bad_method))"

definition update_agent :: "account_bodies \<Rightarrow> web_env \<Rightarrow> string \<Rightarrow> account_reply handler" where
  "update_agent ab e i p r s =
     (if \<not> requireHuman p then (s, not_human)
      else if \<not> requireJSON r then (s, not_json)
      else (case ab_agent_patch ab (hqBody r) of
              Inl err \<Rightarrow> (s, fail 400 err)
            | Inr inp0 \<Rightarrow>
                (let inp = (if auAllowedDriveIDs inp0 \<noteq> None then inp0\<lparr>auSetDrives := True\<rparr> else inp0)
                 in case Agent_Update (sv_mem s) (prlUserID p) i inp of
                      (m1, Inl err) \<Rightarrow> (put_mem m1 s, fail 400 (error_text err))
                    | (m1, Inr a) \<Rightarrow>
                        (audit e 1 (prlUserID p) ''agent.update'' i (agName a) (put_mem m1 s),
                         reply 200 (AgentBody a)))))"

definition mint_token :: "account_bodies \<Rightarrow> web_env \<Rightarrow> string \<Rightarrow> account_reply handler" where
  "mint_token ab e i p r s =
     (if hqMethod r \<noteq> ''POST'' then (s, bad_method)
      else if \<not> requireHuman p then (s, not_human)
      else (case Agent_Get (sv_mem s) (prlUserID p) i of
              Inl err \<Rightarrow> (s, fail 404 (error_text err))
            | Inr a \<Rightarrow>
                if agStatus a \<noteq> ''active'' then (s, fail 400 ''agent disabled'')
                else (let (scopes0, ttlMin) = ab_token ab (hqBody r);
                          scopes = (if scopes0 = [] then agDefaultScopes a else scopes0);
                          ttl0 = duration_of ttlMin (minutes 1);
                          ttl = (if ttl0 \<le> 0 then hour else ttl0)
                      in case GetUserByID (sv_mem s) (prlUserID p) of
                           Inl err \<Rightarrow> (s, fail 500 (error_text err))
                         | Inr u \<Rightarrow>
                             (case IssueAgentToken (we_auth e) (we_draw e 0) (prlUserID p) (prlUsername p) (prlRole p)
                                     (agID a) (uTokenVersion u) (agTokenVersion a) scopes ttl of
                                Inl err \<Rightarrow> (s, fail 400 (error_text err))
                              | Inr tok \<Rightarrow>
                                  (audit e 1 (prlUserID p) ''agent.token'' (agID a) (str_join '','' scopes) s,
                                   reply 200 (AgentToken \<lparr>gtToken = tok, gtExpiresIn = ttl div second,
                                                          gtAgentID = agID a, gtScopes = scopes\<rparr>))))))"

definition routeAgentsSub :: "account_bodies \<Rightarrow> web_env \<Rightarrow> account_reply handler" where
  "routeAgentsSub ab e p r s =
     (let parts = segments ''/v1/agents/'' r; i = hd parts
      in if i = [] then (s, not_found)
         else if length parts = 1 \<and> hqMethod r \<in> {''PUT'', ''PATCH''} then update_agent ab e i p r s
         else if length parts = 2 \<and> parts ! 1 = ''token'' then mint_token ab e i p r s
         else if length parts \<noteq> 1 then (s, not_found)
         else if hqMethod r = ''GET''
         then (if \<not> requireHuman p then (s, not_human)
               else (case Agent_Get (sv_mem s) (prlUserID p) i of
                       Inl err \<Rightarrow> (s, fail 404 (error_text err))
                     | Inr a \<Rightarrow> (s, reply 200 (AgentBody a))))
         else if hqMethod r = ''DELETE''
         then (if \<not> requireHuman p then (s, not_human)
               else (case Agent_Delete (sv_mem s) (prlUserID p) i of
                       (m1, Inl err) \<Rightarrow> (put_mem m1 s, fail 404 (error_text err))
                     | (m1, Inr _) \<Rightarrow>
                         (audit e 1 (prlUserID p) ''agent.delete'' i [] (put_mem m1 s),
                          reply 200 (Done [(''status'', ''deleted'')]))))
         else (s, bad_method))"

end
