(* ===== verification/Http_Jobs.thy ===== *)
theory Http_Jobs
  imports Http_Core
begin

text \<open>
  The job routes of \<open>internal/httpserver/server.go\<close>: those of the users and their agents, and those of
  the administrators. \<open>job_bodies\<close> holds the decoders of the request bodies and of the page cursor; a
  body whose decoding error the code ignores decodes to some value.
\<close>

record complete_body =
  cbOK :: "bool option"
  cbInput :: complete_input

record job_bodies =
  jb_create :: "string \<Rightarrow> string + create_input"
  jb_claim :: "string \<Rightarrow> string \<times> string"
  jb_complete :: "string \<Rightarrow> complete_input"
  jb_admin :: "string \<Rightarrow> complete_body"
  jb_cursor :: "string \<Rightarrow> cursor"

datatype job_reply =
    JobBody job_view
  | JobPage "job_view list" list_filter int cursor
  | PendingJobs "job_view list"
  | JobCounts job_status_counts
  | AdminJobPage "job_view list" admin_list_filter int cursor
  | JobWithHooks job_view "webhook_view list"
  | HookPage "webhook_view list" webhook_outbox_filter int
  | HookBody webhook_view
  | HookCounts webhook_outbox_counts
  | Affected string int "(string \<times> string) list"

definition page_size :: "int \<Rightarrow> int" where
  "page_size n = (let l = (if n \<le> 0 then 100 else n) in if l > 500 then 500 else l)"

definition label_pair :: "string \<Rightarrow> (string \<times> string) option" where
  "label_pair v0 =
     (let v = trim_space v0; k = takeWhile (\<lambda>c. c \<noteq> CHR '':'') v; rest = drop (Suc (length k)) v
      in if k = v \<or> k = [] \<or> rest = [] \<or> trim_space k = [] then None
         else Some (trim_space k, trim_space rest))"

definition parseLabelQuery :: "string list \<Rightarrow> string gomap" where
  "parseLabelQuery vals =
     fold (\<lambda>v out. case label_pair v of None \<Rightarrow> out | Some (k, x) \<Rightarrow> gset k x out) vals []"

text \<open>A call of the job service, and its failure as an answer.\<close>

abbreviation (input) job_answer :: "job_view result \<Rightarrow> int \<Rightarrow> job_reply answer" where
  "job_answer res code \<equiv> (case res of Inl err \<Rightarrow> fail code (error_text err) | Inr j \<Rightarrow> reply 200 (JobBody j))"

definition drive_of_job :: "server \<Rightarrow> string \<Rightarrow> string \<Rightarrow> string" where
  "drive_of_job s userID i = (case Get (sv_world s) userID i of Inl _ \<Rightarrow> [] | Inr j \<Rightarrow> vwDriveID j)"

definition create_job :: "job_bodies \<Rightarrow> web_env \<Rightarrow> job_reply handler" where
  "create_job jb e p r s =
     (if \<not> requireScope ''job.run'' p then (s, missing_scope ''job.run'')
      else (case jb_create jb (hqBody r) of
              Inl err \<Rightarrow> (s, fail 400 err)
            | Inr inp0 \<Rightarrow>
                (case Drive_Get (sv_mem s) (prlUserID p) (ciDriveID inp0) of
                   Inl err \<Rightarrow> (s, fail 400 (''drive: '' @ error_text err))
                 | Inr _ \<Rightarrow>
                     unless_denied (allowAgentJob e p (ciDriveID inp0) s)
                       (\<lambda>s1. let inp = inp0\<lparr>ciAgentID := prlAgentID p\<rparr>
                             in case Create (we_ctx e) (sv_world s1) (prlUserID p) inp of
                                  (w1, Inl ErrIdempotencyConflict) \<Rightarrow>
                                    (put_world w1 s1, fail 409 (error_text ErrIdempotencyConflict))
                                | (w1, Inl err) \<Rightarrow> (put_world w1 s1, fail 400 (error_text err))
                                | (w1, Inr (j, created)) \<Rightarrow>
                                    if created
                                    then (audit_agent e 0 (prlUserID p) (prlAgentID p) ''job.create'' (vwID j) (ciDriveID inp)
                                            (put_world w1 s1), reply 201 (JobBody j))
                                    else (put_world w1 s1, reply 200 (JobBody j))))))"

definition list_filter_of :: "job_bodies \<Rightarrow> web_request \<Rightarrow> list_filter" where
  "list_filter_of jb r =
     \<lparr>lfAgentID = trimmed_query r ''agent_id'', lfClaimedByAgentID = trimmed_query r ''claimed_by_agent_id'',
      lfClaimedByRunnerID = trimmed_query r ''runner_id'', lfRegionHint = trimmed_query r ''region'',
      lfStatus = trimmed_query r ''status'', lfLabels = parseLabelQuery (hqQuery r ''label''),
      lfLimit = atoi_lenient (trimmed_query r ''limit''), lfCursor = jb_cursor jb (trimmed_query r ''cursor'')\<rparr>"

definition list_jobs :: "job_bodies \<Rightarrow> web_env \<Rightarrow> job_reply handler" where
  "list_jobs jb e p r s0 =
     (if is_agent p \<and> \<not> requireScope ''job.run'' p then (s0, missing_scope ''job.run'')
      else unless_denied (allowAgentJob e p [] s0)
        (\<lambda>s. if trimmed_query r ''status'' = ''pending''
             then (s, reply 200 (PendingJobs (ListPending (sv_world s) (prlUserID p) (query r ''region''))))
             else (let f = list_filter_of jb r; (items, nxt) = List (sv_world s) (prlUserID p) f
                   in (s, reply 200 (JobPage items f (page_size (lfLimit f)) nxt)))))"

definition routeJobsRoot :: "job_bodies \<Rightarrow> web_env \<Rightarrow> job_reply handler" where
  "routeJobsRoot jb e p r s =
     (if hqMethod r = ''POST'' then create_job jb e p r s
      else if hqMethod r = ''GET'' then list_jobs jb e p r s
      else (s, bad_method))"

definition get_job :: "web_env \<Rightarrow> string \<Rightarrow> job_reply handler" where
  "get_job e i p r s =
     (if hqMethod r \<noteq> ''GET'' then (s, bad_method)
      else if i = ''stats''
      then (if is_agent p \<and> \<not> requireScope ''job.run'' p then (s, missing_scope ''job.run'')
            else unless_denied (allowAgentJob e p [] s)
              (\<lambda>s1. (s1, reply 200 (JobCounts (Stats (sv_world s1) (prlUserID p))))))
      else (case Get (sv_world s) (prlUserID p) i of
              Inl err \<Rightarrow> (s, fail 404 (error_text err))
            | Inr j \<Rightarrow>
                if is_agent p \<and> \<not> requireScope ''job.run'' p then (s, missing_scope ''job.run'')
                else unless_denied (allowAgentJob e p (vwDriveID j) s) (\<lambda>s1. (s1, reply 200 (JobBody j)))))"

text \<open>Who claims: the headers, then the query, then the body.\<close>

definition claim_runner :: "job_bodies \<Rightarrow> web_request \<Rightarrow> string" where
  "claim_runner jb r =
     (let h = trim_space (hqHeader r ''X-AI-Cloudhub-Runner-Id'');
          v = (if h = [] then trim_space (fst (jb_claim jb (hqBody r))) else h)
      in if length v > 128 then take 128 v else v)"

definition claim_region :: "job_bodies \<Rightarrow> web_request \<Rightarrow> string" where
  "claim_region jb r =
     (let h = trim_space (hqHeader r ''X-AI-Cloudhub-Region'');
          q = (if h = [] then trimmed_query r ''region'' else h)
      in if q = [] then trim_space (snd (jb_claim jb (hqBody r))) else q)"

text \<open>The policy as a function of the drive, at the instant of the request.\<close>

definition deny_reason :: "web_env \<Rightarrow> principal \<Rightarrow> server \<Rightarrow> string \<Rightarrow> string" where
  "deny_reason e p s d = snd (agentJobDriveDenyReason e p d s)"

text \<open>The outcome of a claim; a refusal with an answer of its own is \<open>Inl\<close>.\<close>

definition claim_known :: "web_env \<Rightarrow> principal \<Rightarrow> string \<Rightarrow> string \<Rightarrow> server \<Rightarrow> server \<times> (job_reply answer + job_view result)" where
  "claim_known e p i runner s =
     (case allowAgentJob e p (drive_of_job s (prlUserID p) i) s of
        (s1, Some reason) \<Rightarrow> (s1, Inl (fail 403 reason))
      | (s1, None) \<Rightarrow>
          (case Claim (we_ctx e) (sv_world s1) (prlUserID p) i (prlAgentID p) runner of
             (w1, Inl err) \<Rightarrow> (put_world w1 s1, Inr (Inl err))
           | (w1, Inr j) \<Rightarrow>
               (case agentJobDriveDenyReason e p (vwDriveID j) (put_world w1 s1) of
                  (s2, reason) \<Rightarrow>
                    if reason = [] then (s2, Inr (Inr j))
                    else (case ReleaseToPending (we_ctx e) (sv_world s2) (prlUserID p) (vwID j) reason of
                            (w2, Inl rerr) \<Rightarrow>
                              (put_world w2 s2, Inl (fail 403 (reason @ ''; release failed: '' @ error_text rerr)))
                          | (w2, Inr _) \<Rightarrow> (put_world w2 s2, Inl (fail 403 reason))))))"

definition claim_next :: "web_env \<Rightarrow> principal \<Rightarrow> string \<Rightarrow> string \<Rightarrow> server \<Rightarrow> server \<times> (job_reply answer + job_view result)" where
  "claim_next e p runner region s =
     (case ClaimNextFiltered (we_ctx e) (sv_world s) (prlUserID p) (prlAgentID p) runner region
             (Some (deny_reason e p s, deny_reason e p s)) of
        (w1, res) \<Rightarrow> (put_world w1 s, Inr res))"

definition claim_job :: "job_bodies \<Rightarrow> web_env \<Rightarrow> string \<Rightarrow> job_reply handler" where
  "claim_job jb e i p r s0 =
     (if hqMethod r \<noteq> ''POST'' then (s0, bad_method)
      else if \<not> requireScope ''job.run'' p then (s0, missing_scope ''job.run'')
      else unless_denied (allowAgentJob e p [] s0)
        (\<lambda>s. case (if i = ''next'' then claim_next e p (claim_runner jb r) (claim_region jb r) s
                   else claim_known e p i (claim_runner jb r) s) of
               (s1, Inl ans) \<Rightarrow> (s1, ans)
             | (s1, Inr (Inl err)) \<Rightarrow>
                 (s1, fail (if sublist ''no claimable'' (error_text err) \<or> sublist ''for this agent'' (error_text err)
                            then 403 else 400) (error_text err))
             | (s1, Inr (Inr j)) \<Rightarrow>
                 (audit_agent e 0 (prlUserID p) (prlAgentID p) ''job.claim'' (vwID j)
                    (vwDriveID j @ (if vwClaimedByAgentID j \<noteq> [] then '' claimer='' @ vwClaimedByAgentID j else [])) s1,
                  reply 200 (JobBody j))))"

text \<open>The routes that act on one job: a scope, the policy on its drive, then the call.\<close>

definition on_job :: "web_env \<Rightarrow> string \<Rightarrow> (string \<Rightarrow> server \<Rightarrow> server \<times> job_reply answer) \<Rightarrow> job_reply handler" where
  "on_job e i act p r s =
     (if hqMethod r \<noteq> ''POST'' then (s, bad_method)
      else if \<not> requireScope ''job.run'' p then (s, missing_scope ''job.run'')
      else (let driveID = drive_of_job s (prlUserID p) i
            in unless_denied (allowAgentJob e p driveID s) (act driveID)))"

definition complete_job :: "job_bodies \<Rightarrow> web_env \<Rightarrow> string \<Rightarrow> job_reply handler" where
  "complete_job jb e i p r =
     on_job e i
       (\<lambda>driveID s. case Complete (we_ctx e) (sv_world s) (prlUserID p) i (jb_complete jb (hqBody r)) of
          (w1, Inl err) \<Rightarrow> (put_world w1 s, fail 400 (error_text err))
        | (w1, Inr j) \<Rightarrow>
            (audit_agent e 0 (prlUserID p) (prlAgentID p) ''job.complete'' (vwID j)
               (if coOK (jb_complete jb (hqBody r)) then ''ok'' else ''failed'') (put_world w1 s),
             reply 200 (JobBody j))) p r"

definition heartbeat_job :: "web_env \<Rightarrow> string \<Rightarrow> job_reply handler" where
  "heartbeat_job e i p r =
     on_job e i
       (\<lambda>driveID s. case Heartbeat (we_ctx e) (sv_world s) (prlUserID p) i of
          (w1, res) \<Rightarrow> (put_world w1 s, job_answer res 400)) p r"

definition cancel_job :: "web_env \<Rightarrow> string \<Rightarrow> job_reply handler" where
  "cancel_job e i p r =
     on_job e i
       (\<lambda>driveID s. case Cancel (we_ctx e) (sv_world s) (prlUserID p) i of
          (w1, Inl err) \<Rightarrow> (put_world w1 s, fail 400 (error_text err))
        | (w1, Inr j) \<Rightarrow>
            (audit_agent e 0 (prlUserID p) (prlAgentID p) ''job.cancel'' (vwID j) driveID (put_world w1 s),
             reply 200 (JobBody j))) p r"

definition routeJobsSub :: "job_bodies \<Rightarrow> web_env \<Rightarrow> job_reply handler" where
  "routeJobsSub jb e p r s =
     (let parts = segments ''/v1/jobs/'' r; i = hd parts
      in if i = [] then (s, not_found)
         else if length parts = 1 then get_job e i p r s
         else if parts ! 1 = ''claim'' then claim_job jb e i p r s
         else if parts ! 1 = ''complete'' then complete_job jb e i p r s
         else if parts ! 1 = ''heartbeat'' then heartbeat_job e i p r s
         else if parts ! 1 = ''cancel'' then cancel_job e i p r s
         else (s, not_found))"

end
