(* ===== verification/Http_Admin.thy ===== *)
theory Http_Admin
  imports Http_Accounts Http_Jobs
begin

text \<open>
  The administrator routes (\<open>internal/httpserver/server.go\<close>): users, the audit trail, the state of the
  policy engine, jobs and the webhook outbox of every user. They run behind \<open>withAdmin\<close>.
\<close>

section \<open>Users, audit and policy\<close>

record admin_bodies =
  xb_user :: "string \<Rightarrow> string + string \<times> string \<times> string"
  xb_role :: "string \<Rightarrow> string + string"

record policy_status =
  stFilePath :: string
  stLoaded :: bool
  stReloadEvery :: duration
  stVersion :: int
  stMode :: string
  stRuleCount :: nat
  stModTime :: time
  stOPAEnabled :: bool
  stPDPEnabled :: bool
  stPDPURL :: string

datatype admin_reply =
    UserBody account
  | UserList "account list"
  | AuditList "audit_event list" audit_filter
  | PolicyBody policy_status "document option"
  | RoleSet string string
  | Revoked string int

definition engine_status :: "engine \<Rightarrow> policy_status" where
  "engine_status g =
     \<lparr>stFilePath = egFilePath g, stLoaded = (egDoc g \<noteq> None),
      stReloadEvery = (if egReloadEvery g > 0 then egReloadEvery g else 0),
      stVersion = (case egDoc g of None \<Rightarrow> 0 | Some d \<Rightarrow> doVersion d),
      stMode = (case egDoc g of None \<Rightarrow> [] | Some d \<Rightarrow> doMode d),
      stRuleCount = (case egDoc g of None \<Rightarrow> 0 | Some d \<Rightarrow> length (doRules d)),
      stModTime = fst (egMeta g), stOPAEnabled = (egOPA g \<noteq> None),
      stPDPEnabled = (case egPDP g of None \<Rightarrow> False | Some q \<Rightarrow> pdp_enabled q),
      stPDPURL = (case egPDP g of None \<Rightarrow> [] | Some q \<Rightarrow> if pdp_enabled q then pdURL q else [])\<rparr>"

definition routeAdminUsersRoot :: "admin_bodies \<Rightarrow> web_env \<Rightarrow> admin_reply handler" where
  "routeAdminUsersRoot xb e p r s =
     (if hqMethod r = ''GET'' then (s, reply 200 (UserList (ListAccounts (sv_mem s))))
      else if hqMethod r = ''POST''
      then (if \<not> requireJSON r then (s, not_json)
            else (case xb_user xb (hqBody r) of
                    Inl err \<Rightarrow> (s, fail 400 err)
                  | Inr (username, password, role) \<Rightarrow>
                      (case AdminCreateUser (we_auth e) (we_draw e 0) (sv_mem s) username password role of
                         (m1, Inl err) \<Rightarrow> (put_mem m1 s, fail 400 (error_text err))
                       | (m1, Inr u) \<Rightarrow>
                           (audit e 1 (prlUserID p) ''admin.create_user'' (acID u)
                              (acUsername u @ '' role='' @ acRole u) (put_mem m1 s),
                            reply 201 (UserBody u)))))
      else (s, bad_method))"

definition set_role :: "admin_bodies \<Rightarrow> web_env \<Rightarrow> string \<Rightarrow> admin_reply handler" where
  "set_role xb e target p r s =
     (case xb_role xb (hqBody r) of
        Inl err \<Rightarrow> (s, fail 400 err)
      | Inr role \<Rightarrow>
          (case SetRole (sv_mem s) target role of
             (m1, Inl err) \<Rightarrow> (put_mem m1 s, fail 400 (error_text err))
           | (m1, Inr _) \<Rightarrow>
               (audit e 1 (prlUserID p) ''admin.set_role'' target role (put_mem m1 s), reply 200 (RoleSet target role))))"

definition revoke_sessions :: "web_env \<Rightarrow> string \<Rightarrow> admin_reply handler" where
  "revoke_sessions e target p r s =
     (case RevokeAllSessions (sv_mem s) target of
        (m1, Inl err) \<Rightarrow> (put_mem m1 s, fail 400 (error_text err))
      | (m1, Inr ver) \<Rightarrow>
          (audit e 1 (prlUserID p) ''admin.revoke_sessions'' target (''token_version='' @ show_int ver) (put_mem m1 s),
           reply 200 (Revoked target ver)))"

definition routeAdminUsers :: "admin_bodies \<Rightarrow> web_env \<Rightarrow> admin_reply handler" where
  "routeAdminUsers xb e p r s =
     (let parts = segments ''/v1/admin/users/'' r
      in if length parts < 2 then (s, not_found)
         else if hqMethod r \<noteq> ''POST'' then (s, bad_method)
         else if parts ! 1 = ''role'' then set_role xb e (hd parts) p r s
         else if parts ! 1 = ''revoke-sessions'' then revoke_sessions e (hd parts) p r s
         else (s, not_found))"

definition handleAdminAudit :: "admin_reply handler" where
  "handleAdminAudit p r s =
     (if hqMethod r \<noteq> ''GET'' then (s, bad_method)
      else (let limit = (case atoi (trimmed_query r ''limit'') of None \<Rightarrow> 100 | Some n \<Rightarrow> n);
                f = \<lparr>afUserID = trimmed_query r ''user_id'', afAgentID = trimmed_query r ''agent_id'',
                     afAction = trimmed_query r ''action'', afLimit = limit\<rparr>
            in (s, reply 200 (AuditList (ListAudit (sv_mem s) f) f))))"

definition handleAdminPolicy :: "admin_reply handler" where
  "handleAdminPolicy p r s =
     (if hqMethod r \<noteq> ''GET'' then (s, bad_method)
      else (let g = (case sv_engine s of None \<Rightarrow> new_engine | Some x \<Rightarrow> x)
            in (s, reply 200 (PolicyBody (engine_status g)
                  (if query r ''rules'' = ''1'' \<or> query r ''rules'' = ''true'' then egDoc g else None)))))"

section \<open>Jobs\<close>

definition show_bool :: "bool \<Rightarrow> string" where
  "show_bool b = (if b then ''true'' else ''false'')"

definition admin_filter_of :: "job_bodies \<Rightarrow> web_request \<Rightarrow> admin_list_filter" where
  "admin_filter_of jb r =
     \<lparr>alUserID = trimmed_query r ''user_id'', alStatus = trimmed_query r ''status'',
      alRegionHint = trimmed_query r ''region'', alClaimedByRunnerID = trimmed_query r ''runner_id'',
      alLimit = atoi_lenient (trimmed_query r ''limit''), alCursor = jb_cursor jb (trimmed_query r ''cursor'')\<rparr>"

definition handleAdminJobsList :: "job_bodies \<Rightarrow> web_env \<Rightarrow> job_reply handler" where
  "handleAdminJobsList jb e p r s =
     (if hqMethod r \<noteq> ''GET'' then (s, bad_method)
      else (let f = admin_filter_of jb r; (items, nxt) = AdminList (sv_world s) f
            in (audit e 0 (prlUserID p) ''admin.jobs.list'' []
                  (''n='' @ show_nat (length items) @ '' user_id='' @ alUserID f @ '' status='' @ alStatus f @
                   '' region='' @ alRegionHint f @ '' runner='' @ alClaimedByRunnerID f @
                   '' has_next='' @ show_bool (nxt \<noteq> None)) s,
                reply 200 (AdminJobPage items f (page_size (alLimit f)) nxt))))"

definition cancel_all_jobs :: "web_env \<Rightarrow> job_reply handler" where
  "cancel_all_jobs e p r s =
     (if hqMethod r \<noteq> ''POST'' then (s, bad_method)
      else (case AdminCancelAll (we_ctx e) (sv_world s) (trimmed_query r ''user_id'') (trimmed_query r ''status'')
                   (atoi_lenient (trimmed_query r ''limit'')) of
              (w1, Inl err) \<Rightarrow> (put_world w1 s, fail 400 (error_text err))
            | (w1, Inr n) \<Rightarrow>
                (audit e 0 (prlUserID p) ''admin.jobs.cancel_all'' [] (''n='' @ show_int n) (put_world w1 s),
                 reply 200 (Affected ''cancelled'' n []))))"

definition reclaim_jobs :: "web_env \<Rightarrow> job_reply handler" where
  "reclaim_jobs e p r s =
     (if hqMethod r \<noteq> ''POST'' then (s, bad_method)
      else (let uid = trimmed_query r ''user_id''
            in case (if uid \<noteq> [] then ReclaimStale (we_ctx e) (sv_world s) uid
                     else ReclaimStaleAll (we_ctx e) (sv_world s)) of
                 (w1, n) \<Rightarrow>
                   (audit e 0 (prlUserID p) ''admin.jobs.reclaim'' uid (''n='' @ show_nat n) (put_world w1 s),
                    reply 200 (Affected ''reclaimed'' (int n) [(''user_id'', uid)]))))"

text \<open>\<open>older_than_sec\<close>: the product with a second wraps.\<close>

definition older_than :: "web_request \<Rightarrow> duration" where
  "older_than r =
     (case atoi (trimmed_query r ''older_than_sec'') of
        None \<Rightarrow> 0
      | Some sec \<Rightarrow> if sec > 0 then duration_secs sec else 0)"

definition purge_jobs :: "web_env \<Rightarrow> job_reply handler" where
  "purge_jobs e p r s =
     (if hqMethod r \<noteq> ''POST'' then (s, bad_method)
      else (case AdminPurgeTerminalJobs (we_ctx e) (sv_world s) (older_than r) of
              (w1, n) \<Rightarrow>
                (audit e 0 (prlUserID p) ''admin.jobs.purge_terminal'' [] (''deleted='' @ show_nat n) (put_world w1 s),
                 reply 200 (Affected ''deleted'' (int n) []))))"

definition admin_job_call :: "job_bodies \<Rightarrow> web_env \<Rightarrow> string \<Rightarrow> string \<Rightarrow> web_request \<Rightarrow> server \<Rightarrow> world \<times> job_view result" where
  "admin_job_call jb e i act r s =
     (let body = jb_admin jb (hqBody r); inp = cbInput body
      in if act = ''cancel'' then AdminCancel (we_ctx e) (sv_world s) i (coNote inp)
         else if act = ''release'' then AdminRelease (we_ctx e) (sv_world s) i (coNote inp)
         else AdminComplete (we_ctx e) (sv_world s) i
                \<lparr>coOK = (case cbOK body of None \<Rightarrow> True | Some b \<Rightarrow> b), coNote = coNote inp, coExitCode = coExitCode inp,
                 coDurationMs = coDurationMs inp, coStdout = [], coStderr = [], coStdoutTruncated = False,
                 coStderrTruncated = False\<rparr>)"

definition admin_job_detail :: "job_bodies \<Rightarrow> string \<Rightarrow> web_request \<Rightarrow> job_view \<Rightarrow> string" where
  "admin_job_detail jb act r j =
     (let body = jb_admin jb (hqBody r)
      in ''user='' @ vwUserID j @
         (if act = ''complete'' then '' ok='' @ show_bool (case cbOK body of None \<Rightarrow> True | Some b \<Rightarrow> b)
          else '' note='' @ trim_space (coNote (cbInput body))))"

definition admin_job_action :: "job_bodies \<Rightarrow> web_env \<Rightarrow> string \<Rightarrow> string \<Rightarrow> job_reply handler" where
  "admin_job_action jb e i act p r s =
     (if hqMethod r \<noteq> ''POST'' then (s, bad_method)
      else (case admin_job_call jb e i act r s of
              (w1, Inl err) \<Rightarrow>
                (put_world w1 s, fail (if sublist ''not found'' (error_text err) then 404 else 400) (error_text err))
            | (w1, Inr j) \<Rightarrow>
                (audit e 0 (prlUserID p) (''admin.jobs.'' @ act) (vwID j) (admin_job_detail jb act r j) (put_world w1 s),
                 reply 200 (JobBody j))))"

definition routeAdminJobsSub :: "job_bodies \<Rightarrow> web_env \<Rightarrow> job_reply handler" where
  "routeAdminJobsSub jb e p r s =
     (let path = below ''/v1/admin/jobs/'' r; parts = split_c (CHR ''/'') path
      in if path = [] then (s, not_found)
         else if path = ''cancel-all'' then cancel_all_jobs e p r s
         else if path = ''reclaim'' then reclaim_jobs e p r s
         else if path = ''purge-terminal'' then purge_jobs e p r s
         else if length parts = 2 \<and> parts ! 1 \<in> {''cancel'', ''release'', ''complete''}
         then admin_job_action jb e (parts ! 0) (parts ! 1) p r s
         else if hqMethod r \<noteq> ''GET'' then (s, bad_method)
         else if path = ''stats''
         then (let uid = trimmed_query r ''user_id''; st = AdminStats (sv_world s) uid
               in (audit e 0 (prlUserID p) ''admin.jobs.stats'' uid (''total='' @ show_nat (cTotal st)) s,
                   reply 200 (JobCounts st)))
         else (case AdminGetWithWebhooks (sv_world s) path of
                 Inl err \<Rightarrow> (s, fail 404 (error_text err))
               | Inr (j, hooks) \<Rightarrow>
                   (audit e 0 (prlUserID p) ''admin.jobs.get'' (vwID j) (''user='' @ vwUserID j) s,
                    reply 200 (JobWithHooks j hooks))))"

section \<open>The webhook outbox\<close>

definition validJobWebhookEvent :: "string \<Rightarrow> bool" where
  "validJobWebhookEvent event \<longleftrightarrow>
     event \<in> {''job.succeeded'', ''job.failed'', ''job.cancelled''} \<or> prefix ''job.'' event \<and> length event > 4"

abbreviation bad_event :: "'b answer" where
  "bad_event \<equiv> fail 400 ''event must be job.succeeded, job.failed, job.cancelled, or job.*''"

definition webhook_filter_of :: "web_request \<Rightarrow> webhook_outbox_filter" where
  "webhook_filter_of r =
     \<lparr>wfStatus = trimmed_query r ''status'', wfJobID = trimmed_query r ''job_id'', wfUserID = trimmed_query r ''user_id'',
      wfEvent = trimmed_query r ''event'', wfLimit = atoi_lenient (trimmed_query r ''limit'')\<rparr>"

definition handleAdminJobWebhooksList :: "web_env \<Rightarrow> job_reply handler" where
  "handleAdminJobWebhooksList e p r s =
     (let f = webhook_filter_of r; status = wfStatus f; event = wfEvent f
      in if hqMethod r \<noteq> ''GET'' then (s, bad_method)
         else if status \<notin> {[], ''pending'', ''delivered'', ''dead''}
         then (s, fail 400 ''status must be pending, delivered, or dead'')
         else if event \<noteq> [] \<and> \<not> validJobWebhookEvent event then (s, bad_event)
         else (let items = AdminListWebhooks (sv_world s) f
               in (audit e 0 (prlUserID p) ''admin.job_webhooks.list'' (wfJobID f)
                     (''n='' @ show_nat (length items) @ '' status='' @ status @ '' job_id='' @ wfJobID f @
                      '' user_id='' @ wfUserID f @ '' event='' @ event) s,
                   reply 200 (HookPage items f (page_size (wfLimit f))))))"

definition purge_webhooks :: "web_env \<Rightarrow> job_reply handler" where
  "purge_webhooks e p r s =
     (if hqMethod r \<noteq> ''POST'' then (s, bad_method)
      else (case AdminPurgeWebhooks (we_ctx e) (sv_world s) (older_than r) of
              (w1, n) \<Rightarrow>
                (audit e 0 (prlUserID p) ''admin.job_webhooks.purge'' []
                   (''deleted='' @ show_nat n @ '' older_than_sec='' @ show_int (older_than r div second)) (put_world w1 s),
                 reply 200 (Affected ''deleted'' (int n) []))))"

definition retry_webhooks :: "web_env \<Rightarrow> job_reply handler" where
  "retry_webhooks e p r s =
     (let f = webhook_filter_of r; event = wfEvent f
      in if hqMethod r \<noteq> ''POST'' then (s, bad_method)
         else if event \<noteq> [] \<and> \<not> validJobWebhookEvent event then (s, bad_event)
         else (case AdminRetryWebhooksBatch (we_ctx e) (sv_world s) f of
                 (w1, Inl err) \<Rightarrow> (put_world w1 s, fail 400 (error_text err))
               | (w1, Inr n) \<Rightarrow>
                   (let status = (if wfStatus f = [] then ''dead'' else wfStatus f); eff = page_size (wfLimit f)
                    in (audit e 0 (prlUserID p) ''admin.job_webhooks.retry_all'' (wfJobID f)
                          (''requeued='' @ show_nat n @ '' status='' @ status @ '' job_id='' @ wfJobID f @
                           '' user_id='' @ wfUserID f @ '' event='' @ event @ '' limit='' @ show_int eff) (put_world w1 s),
                        reply 200 (Affected ''requeued'' (int n)
                          [(''status'', status), (''job_id'', wfJobID f), (''user_id'', wfUserID f), (''event'', event)])))))"

definition retry_webhook :: "web_env \<Rightarrow> string \<Rightarrow> job_reply handler" where
  "retry_webhook e i p r s =
     (if hqMethod r \<noteq> ''POST'' then (s, bad_method)
      else (case AdminRetryWebhook (we_ctx e) (sv_world s) i of
              (w1, Inl err) \<Rightarrow> (put_world w1 s, fail 404 (error_text err))
            | (w1, Inr v) \<Rightarrow>
                (audit e 0 (prlUserID p) ''admin.job_webhooks.retry'' (wvID v)
                   (''job='' @ wvJobID v @ '' event='' @ wvEvent v) (put_world w1 s),
                 reply 200 (HookBody v))))"

definition routeAdminJobWebhooksSub :: "web_env \<Rightarrow> job_reply handler" where
  "routeAdminJobWebhooksSub e p r s =
     (let path = below ''/v1/admin/job-webhooks/'' r; parts = split_c (CHR ''/'') path
      in if path = [] then (s, not_found)
         else if path = ''stats''
         then (if hqMethod r \<noteq> ''GET'' then (s, bad_method)
               else (let c = CountWebhookOutbox (sv_mem s)
                     in (audit e 0 (prlUserID p) ''admin.job_webhooks.stats'' [] (''total='' @ show_nat (wcTotal c)) s,
                         reply 200 (HookCounts c))))
         else if path = ''purge'' then purge_webhooks e p r s
         else if path = ''retry-all'' then retry_webhooks e p r s
         else if length parts = 2 \<and> parts ! 1 = ''retry'' then retry_webhook e (parts ! 0) p r s
         else if length parts \<noteq> 1 then (s, not_found)
         else if hqMethod r \<noteq> ''GET'' then (s, bad_method)
         else (case AdminGetWebhook (sv_world s) path of
                 Inl err \<Rightarrow> (s, fail 404 (error_text err))
               | Inr v \<Rightarrow>
                   (audit e 0 (prlUserID p) ''admin.job_webhooks.get'' (wvID v)
                      (''job='' @ wvJobID v @ '' event='' @ wvEvent v) s,
                    reply 200 (HookBody v))))"

end
