(* ===== verification/Http_Drives.thy ===== *)
theory Http_Drives
  imports Http_Core Drive_Snapshots
begin

text \<open>
  The drive routes of \<open>internal/httpserver/server.go\<close> with their sub-resources: objects, snapshots,
  mounts, sessions and barriers. \<open>drive_bodies\<close> holds the decoders of the request bodies, \<open>drive_deps\<close>
  what the drive service is built from.
\<close>

record ('c, 'k) drive_deps =
  dd_drives :: drive_service
  dd_json :: json_env
  dd_objects :: "'c object_env"
  dd_oci :: "'k oci_env"

record drive_bodies =
  db_create :: "string \<Rightarrow> string + drive_input"
  db_patch :: "string \<Rightarrow> string + drive_update"
  db_names_alias :: "string \<Rightarrow> bool"
  db_session :: "string \<Rightarrow> string \<times> string \<times> string"
  db_barrier :: "string \<Rightarrow> string + barrier_input"
  db_version :: "string \<Rightarrow> string + string \<times> string"
  db_object_key :: "string \<Rightarrow> string \<times> string \<times> int"
  db_snapshot :: "string \<Rightarrow> string + snapshot_input"
  db_apply :: "string \<Rightarrow> bool"

datatype drive_reply =
    DriveBody drive
  | DriveList "drive list"
  | DriveDeleted
  | MountBody mount_bundle
  | SessionBody session_bundle
  | ManifestHint string string
  | BarrierBody barrier
  | BarrierList "barrier list"
  | ObjectsBody objects_inventory
  | HintBody version_hint
  | SignedBody signed_get
  | PlanBody restore_plan
  | VersionRestored string string string
  | SnapshotBody snapshot
  | SnapshotList "snapshot list"
  | DiffBody "go_error option \<times> go_error option + snapshot_diff"
  | RestoreBody restore_result
  | SnapshotDeleted

section \<open>Drives\<close>

definition create_drive :: "drive_bodies \<Rightarrow> ('c, 'k) drive_deps \<Rightarrow> web_env \<Rightarrow> drive_reply handler" where
  "create_drive db dd e p r s =
     (if \<not> requireScope ''drive.write'' p then (s, missing_scope ''drive.write'')
      else (case db_create db (hqBody r) of
              Inl err \<Rightarrow> (s, fail 400 err)
            | Inr inp \<Rightarrow>
                (case Drive_Create (dd_drives dd) (we_draw e 0) (sv_mem s) (prlUserID p) inp of
                   (m1, Inl err) \<Rightarrow>
                     (put_mem m1 s,
                      fail (if sublist ''quota exceeded'' (error_text err) \<or> sublist ''alias already in use'' (error_text err)
                            then 409 else 400) (error_text err))
                 | (m1, Inr d) \<Rightarrow>
                     (audit e 1 (prlUserID p) ''drive.create'' (dID d)
                        (if dAlias d \<noteq> [] then dName d @ '' alias='' @ dAlias d else dName d) (put_mem m1 s),
                      reply 201 (DriveBody d)))))"

text \<open>An agent with an allowlist sees only the drives on it.\<close>

definition visible_drives :: "principal \<Rightarrow> memory \<Rightarrow> drive list \<Rightarrow> drive list" where
  "visible_drives p m ds =
     (if \<not> is_agent p then ds
      else (case GetAgentByID m (prlAgentID p) of
              Inl _ \<Rightarrow> ds
            | Inr a \<Rightarrow> if agAllowedDriveIDs a = [] then ds
                       else filter (\<lambda>d. dID d \<in> set (agAllowedDriveIDs a)) ds))"

definition list_drives :: "drive_reply handler" where
  "list_drives p r s =
     (if \<not> requireScope ''drive.read'' p then (s, missing_scope ''drive.read'')
      else (let items = visible_drives p (sv_mem s) (Drive_List (sv_mem s) (prlUserID p));
                aliasQ = trimmed_query r ''alias''; nameQ = trimmed_query r ''name'';
                named = (\<lambda>ds. if nameQ = [] then ds else filter (\<lambda>d. dName d = nameQ) ds)
            in if aliasQ = [] then (s, reply 200 (DriveList (named items)))
               else (case NormalizeAlias aliasQ of
                       Inl err \<Rightarrow> (s, fail 400 (error_text err))
                     | Inr canon \<Rightarrow> (s, reply 200 (DriveList (named (filter (\<lambda>d. dAlias d = canon) items)))))))"

definition routeDrivesRoot :: "drive_bodies \<Rightarrow> ('c, 'k) drive_deps \<Rightarrow> web_env \<Rightarrow> drive_reply handler" where
  "routeDrivesRoot db dd e p r s =
     (if hqMethod r = ''POST'' then create_drive db dd e p r s
      else if hqMethod r = ''GET'' then list_drives p r s
      else (s, bad_method))"

definition routeDriveByAlias :: "web_env \<Rightarrow> string list \<Rightarrow> drive_reply handler" where
  "routeDriveByAlias e rest p r s =
     (if length rest \<noteq> 1 \<or> hd rest = [] then (s, not_found)
      else if hqMethod r \<noteq> ''GET'' then (s, bad_method)
      else if \<not> requireScope ''drive.read'' p then (s, missing_scope ''drive.read'')
      else (case NormalizeAlias (hd rest) of
              Inl err \<Rightarrow> (s, fail 400 (error_text err))
            | Inr alias' \<Rightarrow>
                if alias' = [] then (s, fail 404 ''drive not found'')
                else (case Drive_GetByAlias (sv_mem s) (prlUserID p) alias' of
                        Inl err \<Rightarrow> (s, fail 404 (error_text err))
                      | Inr d \<Rightarrow>
                          unless_denied (allowAgentDrive e p r (dID d) s) (\<lambda>s1. (s1, reply 200 (DriveBody d))))))"

section \<open>One drive\<close>

definition get_drive :: "web_env \<Rightarrow> string \<Rightarrow> drive_reply handler" where
  "get_drive e i p r s =
     (if \<not> requireScope ''drive.read'' p then (s, missing_scope ''drive.read'')
      else unless_denied (allowAgentDrive e p r i s)
        (\<lambda>s1. case Drive_Get (sv_mem s1) (prlUserID p) i of
           Inl err \<Rightarrow> (s1, fail 404 (error_text err))
         | Inr d \<Rightarrow> (s1, reply 200 (DriveBody d))))"

definition update_status :: "string \<Rightarrow> int" where
  "update_status msg =
     (if sublist ''alias already in use'' msg then 409 else if sublist ''not found'' msg then 404 else 400)"

definition patch_drive :: "drive_bodies \<Rightarrow> web_env \<Rightarrow> string \<Rightarrow> drive_reply handler" where
  "patch_drive db e i p r s0 =
     (if \<not> requireScope ''drive.write'' p then (s0, missing_scope ''drive.write'')
      else unless_denied (allowAgentDrive e p r i s0)
        (\<lambda>s. case db_patch db (hqBody r) of
           Inl err \<Rightarrow> (s, fail 400 err)
         | Inr inp0 \<Rightarrow>
             (let inp = (if db_names_alias db (hqBody r) then inp0\<lparr>duSetAlias := True\<rparr> else inp0)
              in case Drive_Update (sv_mem s) (prlUserID p) i inp of
                   (m1, Inl err) \<Rightarrow> (put_mem m1 s, fail (update_status (error_text err)) (error_text err))
                 | (m1, Inr d) \<Rightarrow>
                     (audit e 1 (prlUserID p) ''drive.update'' (dID d) (dName d) (put_mem m1 s),
                      reply 200 (DriveBody d)))))"

definition delete_drive :: "web_env \<Rightarrow> string \<Rightarrow> drive_reply handler" where
  "delete_drive e i p r s =
     (if \<not> requireScope ''drive.write'' p then (s, missing_scope ''drive.write'')
      else (let detail = (case Drive_Get (sv_mem s) (prlUserID p) i of Inl _ \<Rightarrow> [] | Inr d \<Rightarrow> dName d)
            in case Drive_Delete (sv_mem s) (prlUserID p) i of
                 (m1, Inl err) \<Rightarrow> (put_mem m1 s, fail 404 (error_text err))
               | (m1, Inr _) \<Rightarrow>
                   (audit e 1 (prlUserID p) ''drive.delete'' i detail (put_mem m1 s), reply 200 DriveDeleted)))"

definition drive_itself :: "drive_bodies \<Rightarrow> web_env \<Rightarrow> string \<Rightarrow> drive_reply handler" where
  "drive_itself db e i p r s =
     (if hqMethod r = ''GET'' then get_drive e i p r s
      else if hqMethod r \<in> {''PATCH'', ''PUT''} then patch_drive db e i p r s
      else if hqMethod r = ''DELETE'' then delete_drive e i p r s
      else (s, bad_method))"

definition mount_drive :: "('c, 'k) drive_deps \<Rightarrow> string \<Rightarrow> drive_reply handler" where
  "mount_drive dd i p r s =
     (if hqMethod r \<notin> {''GET'', ''POST''} then (s, bad_method)
      else if \<not> requireScope ''drive.read'' p then (s, missing_scope ''drive.read'')
      else (case MountConfig (dd_drives dd) (sv_mem s) (prlUserID p) i of
              Inl err \<Rightarrow> (s, fail 400 (error_text err))
            | Inr b \<Rightarrow> (s, reply 200 (MountBody b))))"

definition sessionOptsFrom :: "principal \<Rightarrow> memory \<Rightarrow> session_opts" where
  "sessionOptsFrom p m =
     (if \<not> is_agent p then \<lparr>soAgentID = [], soReadPrefixes = [], soWritePrefixes = []\<rparr>
      else (case GetAgentByID m (prlAgentID p) of
              Inl _ \<Rightarrow> \<lparr>soAgentID = prlAgentID p, soReadPrefixes = [], soWritePrefixes = []\<rparr>
            | Inr a \<Rightarrow> \<lparr>soAgentID = prlAgentID p, soReadPrefixes = agReadPrefixes a,
                        soWritePrefixes = agWritePrefixes a\<rparr>))"

definition put_sts :: "oci_cache \<times> sts_service option \<Rightarrow> server \<Rightarrow> server" where
  "put_sts c s = s\<lparr>sv_oci := fst c, sv_sts := snd c\<rparr>"

definition issue_session :: "drive_bodies \<Rightarrow> ('c, 'k) drive_deps \<Rightarrow> web_env \<Rightarrow> string \<Rightarrow> drive_reply handler" where
  "issue_session db dd e i p r s0 =
     (if hqMethod r \<noteq> ''POST'' then (s0, bad_method)
      else if \<not> requireScope ''drive.read'' p then (s0, missing_scope ''drive.read'')
      else unless_denied (allowAgentDrive e p r i s0)
        (\<lambda>s. let (mountPoint, deviceID, mode) = db_session db (hqBody r)
             in case IssueSessionOpts (dd_drives dd) (dd_oci dd) (we_draw e 0) (sv_mem s) (sv_oci s) (sv_sts s)
                       (prlUserID p) i deviceID mountPoint mode (sessionOptsFrom p (sv_mem s)) of
                  (c, Inl err) \<Rightarrow> (put_sts c s, fail 400 (error_text err))
                | (c, Inr b) \<Rightarrow>
                    ((if is_agent p then audit_agent e 1 (prlUserID p) (prlAgentID p) ''drive.session'' i ''ok'' else id)
                       (put_sts c s),
                     reply 200 (SessionBody b))))"

definition manifest_hint :: "string \<Rightarrow> drive_reply handler" where
  "manifest_hint i p r s =
     (if hqMethod r \<noteq> ''GET'' then (s, bad_method)
      else (case Drive_Get (sv_mem s) (prlUserID p) i of
              Inl err \<Rightarrow> (s, fail 404 (error_text err))
            | Inr d \<Rightarrow> (s, reply 200 (ManifestHint (dID d) (dMountPoint d)))))"

definition complete_barrier :: "drive_bodies \<Rightarrow> web_env \<Rightarrow> string \<Rightarrow> drive_reply handler" where
  "complete_barrier db e i p r s =
     (if hqMethod r \<noteq> ''POST'' then (s, bad_method)
      else (case db_barrier db (hqBody r) of
              Inl err \<Rightarrow> (s, fail 400 err)
            | Inr inp \<Rightarrow>
                (case CompleteBarrier (we_draw e 0) (sv_mem s) (sv_barriers s) (prlUserID p) (inp\<lparr>bciDriveID := i\<rparr>) of
                   (bs, Inl err) \<Rightarrow> (s\<lparr>sv_barriers := bs\<rparr>, fail 400 (error_text err))
                 | (bs, Inr b) \<Rightarrow> (s\<lparr>sv_barriers := bs\<rparr>, reply 200 (BarrierBody b)))))"

definition list_barriers :: "string \<Rightarrow> drive_reply handler" where
  "list_barriers i p r s =
     (if hqMethod r \<noteq> ''GET'' then (s, bad_method)
      else (s, reply 200 (BarrierList (ListBarriers (sv_barriers s) (prlUserID p) i))))"

section \<open>Objects\<close>

definition parseObjectKeyBody :: "drive_bodies \<Rightarrow> web_request \<Rightarrow> string \<times> string \<times> int" where
  "parseObjectKeyBody db r =
     (let key = query r ''key''; ver = query r ''version_id'';
          ttl = (case atoi (query r ''ttl_min'') of None \<Rightarrow> 15 | Some n \<Rightarrow> n);
          (bkey, bver, bttl) = db_object_key db (hqBody r)
      in if hqMethod r \<in> {''POST'', ''PUT''}
         then (if bkey \<noteq> [] then bkey else key, if bver \<noteq> [] then bver else ver, if bttl > 0 then bttl else ttl)
         else (key, ver, ttl))"

definition restore_version :: "drive_bodies \<Rightarrow> ('c, 'k) drive_deps \<Rightarrow> web_env \<Rightarrow> string \<Rightarrow> drive_reply handler" where
  "restore_version db dd e i p r s =
     (if \<not> requireScope ''drive.write'' p then (s, missing_scope ''drive.write'')
      else if hqMethod r \<noteq> ''POST'' then (s, bad_method)
      else (case db_version db (hqBody r) of
              Inl _ \<Rightarrow> (s, fail 400 ''invalid json'')
            | Inr (key, ver) \<Rightarrow>
                if key = [] \<or> ver = [] then (s, fail 400 ''key and version_id required'')
                else (case ObjectRestoreVersion (dd_objects dd) (sv_mem s) (prlUserID p) i key ver of
                        Inl err \<Rightarrow> (s, fail 502 (error_text err))
                      | Inr (b, k, v) \<Rightarrow>
                          (audit e 1 (prlUserID p) ''object.restore_version'' i (key @ '':'' @ ver) s,
                           reply 200 (VersionRestored b k v)))))"

definition version_hint_route :: "drive_bodies \<Rightarrow> ('c, 'k) drive_deps \<Rightarrow> string \<Rightarrow> drive_reply handler" where
  "version_hint_route db dd i p r s =
     (let (key, ver, ttl) = parseObjectKeyBody db r
      in if hqMethod r \<notin> {''GET'', ''POST''} then (s, bad_method)
         else if key = [] then (s, fail 400 ''key required'')
         else (case ObjectVersionHint (dd_objects dd) (sv_mem s) (prlUserID p) i key ver of
                 Inl err \<Rightarrow> (s, fail 400 (error_text err))
               | Inr h \<Rightarrow> (s, reply 200 (HintBody h))))"

definition presign_get_route :: "drive_bodies \<Rightarrow> ('c, 'k) drive_deps \<Rightarrow> web_env \<Rightarrow> string \<Rightarrow> drive_reply handler" where
  "presign_get_route db dd e i p r s =
     (let (key, ver, ttl) = parseObjectKeyBody db r
      in if hqMethod r \<notin> {''GET'', ''POST''} then (s, bad_method)
         else if key = [] then (s, fail 400 ''key required'')
         else (case ObjectPresignGet (dd_objects dd) (now_of e) (sv_mem s) (prlUserID p) i key ver ttl of
                 Inl err \<Rightarrow> (s, fail 502 (error_text err))
               | Inr g \<Rightarrow> (audit e 1 (prlUserID p) ''object.presign_get'' i key s, reply 200 (SignedBody g))))"

definition restore_plan_route :: "drive_bodies \<Rightarrow> ('c, 'k) drive_deps \<Rightarrow> web_env \<Rightarrow> string \<Rightarrow> drive_reply handler" where
  "restore_plan_route db dd e i p r s =
     (let (key, ver, ttl) = parseObjectKeyBody db r
      in if hqMethod r \<notin> {''GET'', ''POST''} then (s, bad_method)
         else if key = [] then (s, fail 400 ''key required'')
         else (case ObjectRestorePlan (dd_objects dd) (now_of e) (sv_mem s) (prlUserID p) i key ver ttl of
                 Inl err \<Rightarrow> (s, fail 400 (error_text err))
               | Inr g \<Rightarrow> (s, reply 200 (PlanBody g))))"

definition list_objects :: "('c, 'k) drive_deps \<Rightarrow> string \<Rightarrow> drive_reply handler" where
  "list_objects dd i p r s =
     (if hqMethod r \<noteq> ''GET'' then (s, bad_method)
      else (let maxKeys = (case atoi (query r ''max'') of None \<Rightarrow> 1000 | Some n \<Rightarrow> n);
                withVer = (query r ''versions'' \<in> {''1'', ''true''})
            in case ListObjects (dd_objects dd) (sv_mem s) (prlUserID p) i maxKeys withVer of
                 Inl err \<Rightarrow> (s, fail 502 (error_text err))
               | Inr inv' \<Rightarrow> (s, reply 200 (ObjectsBody inv'))))"

definition routeDriveObjects :: "drive_bodies \<Rightarrow> ('c, 'k) drive_deps \<Rightarrow> web_env \<Rightarrow> string \<Rightarrow> string list \<Rightarrow> drive_reply handler" where
  "routeDriveObjects db dd e i rest p r s =
     (let action = (case rest of [] \<Rightarrow> [] | a # _ \<Rightarrow> a)
      in if action = ''restore-version'' then restore_version db dd e i p r s
         else if \<not> requireScope ''drive.read'' p then (s, missing_scope ''drive.read'')
         else if action = ''version-hint'' then version_hint_route db dd i p r s
         else if action = ''presign-get'' then presign_get_route db dd e i p r s
         else if action = ''restore-plan'' then restore_plan_route db dd e i p r s
         else if action = [] then list_objects dd i p r s
         else (s, not_found))"

section \<open>Snapshots\<close>

definition diff_snapshots :: "('c, 'k) drive_deps \<Rightarrow> string \<Rightarrow> drive_reply handler" where
  "diff_snapshots dd i p r s =
     (if hqMethod r \<noteq> ''GET'' then (s, bad_method)
      else if query r ''a'' = [] \<or> query r ''b'' = [] then (s, fail 400 ''query a and b (snapshot ids) required'')
      else (case DiffSnapshots (dd_json dd) (sv_mem s) (prlUserID p) i (query r ''a'') (query r ''b'') of
              Inl err \<Rightarrow> (s, fail 404 (error_text err))
            | Inr d \<Rightarrow> (s, reply 200 (DiffBody d))))"

definition create_snapshot :: "drive_bodies \<Rightarrow> ('c, 'k) drive_deps \<Rightarrow> web_env \<Rightarrow> string \<Rightarrow> drive_reply handler" where
  "create_snapshot db dd e i p r s =
     (if \<not> requireScope ''drive.write'' p then (s, missing_scope ''drive.write'')
      else if \<not> requireJSON r then (s, not_json)
      else (case db_snapshot db (hqBody r) of
              Inl err \<Rightarrow> (s, fail 400 err)
            | Inr inp0 \<Rightarrow>
                (let inp = (if is_agent p \<and> siAgentID inp0 = [] then inp0\<lparr>siAgentID := prlAgentID p\<rparr> else inp0)
                 in case Drive_CreateSnapshot (dd_json dd) (dd_objects dd) (we_draw e 0) (sv_mem s) (prlUserID p) i inp of
                      (m1, Inl err) \<Rightarrow> (put_mem m1 s, fail 400 (error_text err))
                    | (m1, Inr sn) \<Rightarrow>
                        (audit_agent e 1 (prlUserID p) (prlAgentID p) ''snapshot.create'' (snID sn) i (put_mem m1 s),
                         reply 201 (SnapshotBody sn)))))"

definition restore_snapshot :: "drive_bodies \<Rightarrow> ('c, 'k) drive_deps \<Rightarrow> web_env \<Rightarrow> string \<Rightarrow> string \<Rightarrow> drive_reply handler" where
  "restore_snapshot db dd e i sid p r s =
     (if hqMethod r \<noteq> ''POST'' then (s, bad_method)
      else if \<not> requireScope ''drive.write'' p then (s, missing_scope ''drive.write'')
      else (let apply' = (db_apply db (hqBody r) \<or> query r ''apply'' \<in> {''1'', ''true''})
            in case RestoreSnapshot (dd_json dd) (sv_mem s) (prlUserID p) i sid apply' of
                 (m1, Inl err) \<Rightarrow>
                   (put_mem m1 s, fail (if sublist ''not found'' (error_text err) then 404 else 400) (error_text err))
               | (m1, Inr x) \<Rightarrow>
                   (audit_agent e 1 (prlUserID p) (prlAgentID p) ''snapshot.restore'' sid
                      (i @ '' '' @ (if apply' then ''applied'' else ''preview'')) (put_mem m1 s),
                    reply 200 (RestoreBody x))))"

definition one_snapshot :: "web_env \<Rightarrow> string \<Rightarrow> string \<Rightarrow> drive_reply handler" where
  "one_snapshot e i sid p r s =
     (if hqMethod r = ''GET''
      then (case Drive_GetSnapshot (sv_mem s) (prlUserID p) i sid of
              Inl err \<Rightarrow> (s, fail 404 (error_text err))
            | Inr sn \<Rightarrow> (s, reply 200 (SnapshotBody sn)))
      else if hqMethod r = ''DELETE''
      then (if \<not> requireScope ''drive.write'' p then (s, missing_scope ''drive.write'')
            else (case Drive_DeleteSnapshot (sv_mem s) (prlUserID p) i sid of
                    (m1, Inl err) \<Rightarrow> (put_mem m1 s, fail 404 (error_text err))
                  | (m1, Inr _) \<Rightarrow>
                      (audit e 1 (prlUserID p) ''snapshot.delete'' sid i (put_mem m1 s), reply 200 SnapshotDeleted)))
      else (s, bad_method))"

definition routeDriveSnapshots :: "drive_bodies \<Rightarrow> ('c, 'k) drive_deps \<Rightarrow> web_env \<Rightarrow> string \<Rightarrow> string list \<Rightarrow> drive_reply handler" where
  "routeDriveSnapshots db dd e i rest p r s =
     (if \<not> requireScope ''drive.read'' p then (s, missing_scope ''drive.read'')
      else if length rest = 1 \<and> hd rest = ''diff'' then diff_snapshots dd i p r s
      else if rest = [] \<or> hd rest = []
      then (if hqMethod r = ''GET''
            then (case Drive_ListSnapshots (sv_mem s) (prlUserID p) i 50 of
                    Inl err \<Rightarrow> (s, fail 404 (error_text err))
                  | Inr sns \<Rightarrow> (s, reply 200 (SnapshotList sns)))
            else if hqMethod r = ''POST'' then create_snapshot db dd e i p r s
            else (s, bad_method))
      else if length rest \<ge> 2 \<and> rest ! 1 = ''restore'' then restore_snapshot db dd e i (hd rest) p r s
      else if length rest \<noteq> 1 then (s, not_found)
      else one_snapshot e i (hd rest) p r s)"

section \<open>The sub-resources\<close>

definition drive_part :: "drive_bodies \<Rightarrow> ('c, 'k) drive_deps \<Rightarrow> web_env \<Rightarrow> string \<Rightarrow> string \<Rightarrow> string list \<Rightarrow> drive_reply handler" where
  "drive_part db dd e i part rest p r s =
     (if part = ''snapshots'' then routeDriveSnapshots db dd e i rest p r s
      else if part = ''objects'' then routeDriveObjects db dd e i rest p r s
      else if part = ''mount'' then mount_drive dd i p r s
      else if part = ''session'' then issue_session db dd e i p r s
      else if part = ''manifest'' then manifest_hint i p r s
      else if part = ''barrier'' then complete_barrier db e i p r s
      else if part = ''barriers'' then list_barriers i p r s
      else (s, not_found))"

definition routeDrivesSub :: "drive_bodies \<Rightarrow> ('c, 'k) drive_deps \<Rightarrow> web_env \<Rightarrow> drive_reply handler" where
  "routeDrivesSub db dd e p r s =
     (let parts = segments ''/v1/drives/'' r; i = hd parts
      in if i = [] then (s, not_found)
         else if i = ''by-alias'' then routeDriveByAlias e (tl parts) p r s
         else if length parts = 1 then drive_itself db e i p r s
         else unless_denied (allowAgentDrive e p r i s)
           (\<lambda>s1. drive_part db dd e i (parts ! 1) (drop 2 parts) p r s1))"

end
