(* ===== verification/Http_Resources.thy ===== *)
theory Http_Resources
  imports Http_Drives Device_Service
begin

text \<open>
  The routes of providers, bindings and devices and the refresh of a mount session
  (\<open>internal/httpserver/server.go\<close>).
\<close>

record resource_bodies =
  rb_provider :: "string \<Rightarrow> string + provider_input"
  rb_binding :: "string \<Rightarrow> string + binding_input"
  rb_report :: "string \<Rightarrow> string + string \<times> string"
  rb_desired :: "string \<Rightarrow> string + string"
  rb_device :: "string \<Rightarrow> string + device_input"
  rb_refresh :: "string \<Rightarrow> string + string \<times> string"

text \<open>The client of the health probe and the time it took in milliseconds.\<close>

record 'c prober =
  pb_new :: "resolved \<Rightarrow> string + 'c"
  pb_probe :: "'c \<Rightarrow> string + int"
  pb_latency :: int

datatype resource_reply =
    ProviderBody "(string \<times> string) list"
  | ProviderList "(string \<times> string) list list"
  | HealthBody health
  | BindingBody binding
  | BindingList "binding list"
  | BindingSession session_bundle
  | DeviceBody device
  | DeviceList "device list"
  | ResourceDeleted

section \<open>Providers\<close>

definition create_provider :: "resource_bodies \<Rightarrow> provider_service \<Rightarrow> web_env \<Rightarrow> resource_reply handler" where
  "create_provider rb sv e p r s0 =
     (if \<not> requireScope ''provider.write'' p then (s0, missing_scope ''provider.write'')
      else unless_denied (allowAgentProvider e p ''provider.write'' s0)
        (\<lambda>s. case rb_provider rb (hqBody r) of
           Inl err \<Rightarrow> (s, fail 400 err)
         | Inr inp \<Rightarrow>
             (case Provider_Create sv (we_draw e 0) (sv_mem s) (prlUserID p) inp of
                (m1, Inl err) \<Rightarrow>
                  (put_mem m1 s, fail (if sublist ''quota exceeded'' (error_text err) then 409 else 400) (error_text err))
              | (m1, Inr rec) \<Rightarrow>
                  (audit_agent e 1 (prlUserID p) (prlAgentID p) ''provider.create'' (rcID rec) (rcType rec) (put_mem m1 s),
                   reply 201 (ProviderBody (Public rec))))))"

definition routeProvidersRoot :: "resource_bodies \<Rightarrow> provider_service \<Rightarrow> web_env \<Rightarrow> resource_reply handler" where
  "routeProvidersRoot rb sv e p r s =
     (if hqMethod r = ''POST'' then create_provider rb sv e p r s
      else if hqMethod r = ''GET''
      then (if \<not> requireScope ''provider.read'' p then (s, missing_scope ''provider.read'')
            else unless_denied (allowAgentProvider e p ''provider.read'' s)
              (\<lambda>s1. (s1, reply 200 (ProviderList (map Public (Provider_List sv (sv_mem s1) (prlUserID p)))))))
      else (s, bad_method))"

definition provider_health :: "provider_service \<Rightarrow> 'c prober \<Rightarrow> web_env \<Rightarrow> string \<Rightarrow> resource_reply handler" where
  "provider_health sv pb e i p r s =
     (if hqMethod r \<notin> {''GET'', ''POST''} then (s, bad_method)
      else if \<not> requireScope ''provider.read'' p then (s, missing_scope ''provider.read'')
      else unless_denied (allowAgentProvider e p ''provider.read'' s)
        (\<lambda>s1. case HealthProbe sv (pb_new pb) (pb_probe pb) (pb_latency pb) (sv_mem s1) (prlUserID p) i of
           Inl err \<Rightarrow> (s1, fail 404 (error_text err))
         | Inr h \<Rightarrow>
             (audit_agent e 1 (prlUserID p) (prlAgentID p) ''provider.health'' i (heMessage h) s1,
              reply (if heOK h then 200 else 502) (HealthBody h))))"

definition get_provider :: "provider_service \<Rightarrow> web_env \<Rightarrow> string \<Rightarrow> resource_reply handler" where
  "get_provider sv e i p r s =
     (if \<not> requireScope ''provider.read'' p then (s, missing_scope ''provider.read'')
      else unless_denied (allowAgentProvider e p ''provider.read'' s)
        (\<lambda>s1. case Provider_Get sv (sv_mem s1) (prlUserID p) i of
           Inl err \<Rightarrow> (s1, fail 404 (error_text err))
         | Inr rec \<Rightarrow> (s1, reply 200 (ProviderBody (Public rec)))))"

definition delete_provider :: "provider_service \<Rightarrow> web_env \<Rightarrow> string \<Rightarrow> resource_reply handler" where
  "delete_provider sv e i p r s0 =
     (if \<not> requireScope ''provider.write'' p then (s0, missing_scope ''provider.write'')
      else unless_denied (allowAgentProvider e p ''provider.write'' s0)
        (\<lambda>s. let detail = (case Provider_Get sv (sv_mem s) (prlUserID p) i of
                             Inl _ \<Rightarrow> []
                           | Inr rec \<Rightarrow> rcName rec @ ''/'' @ rcType rec)
             in case Provider_Delete (sv_mem s) (prlUserID p) i of
                  (m1, Inl err) \<Rightarrow> (put_mem m1 s, fail 404 (error_text err))
                | (m1, Inr _) \<Rightarrow>
                    (audit_agent e 1 (prlUserID p) (prlAgentID p) ''provider.delete'' i detail (put_mem m1 s),
                     reply 200 ResourceDeleted)))"

definition routeProvidersSub :: "provider_service \<Rightarrow> 'c prober \<Rightarrow> web_env \<Rightarrow> resource_reply handler" where
  "routeProvidersSub sv pb e p r s =
     (let path = below ''/v1/providers/'' r; parts = split_c (CHR ''/'') path
      in if path = [] \<or> path = ''catalog'' then (s, not_found)
         else if length parts = 2 \<and> parts ! 1 = ''health'' then provider_health sv pb e (hd parts) p r s
         else if length parts \<noteq> 1 then (s, not_found)
         else if hqMethod r = ''GET'' then get_provider sv e (hd parts) p r s
         else if hqMethod r = ''DELETE'' then delete_provider sv e (hd parts) p r s
         else (s, bad_method))"

section \<open>Bindings\<close>

definition create_binding :: "resource_bodies \<Rightarrow> drive_service \<Rightarrow> web_env \<Rightarrow> resource_reply handler" where
  "create_binding rb sv e p r s0 =
     (if \<not> requireScope ''drive.write'' p then (s0, missing_scope ''drive.write'')
      else (case rb_binding rb (hqBody r) of
              Inl err \<Rightarrow> (s0, fail 400 err)
            | Inr inp \<Rightarrow>
                unless_denied (allowAgentDrive e p r (biDriveID inp) s0)
                  (\<lambda>s. case Drive_CreateBinding sv (we_draw e 0) (sv_mem s) (prlUserID p) inp of
                     (m1, Inl err) \<Rightarrow>
                       (put_mem m1 s, fail (if sublist ''quota exceeded'' (error_text err) then 409 else 400) (error_text err))
                   | (m1, Inr b) \<Rightarrow>
                       (audit_agent e 1 (prlUserID p) (prlAgentID p) ''binding.create'' (bID b) (bDriveID b) (put_mem m1 s),
                        reply 201 (BindingBody b)))))"

text \<open>The loop over the bindings an agent may see; each question may reload the policy file.\<close>

fun visible_bindings :: "web_env \<Rightarrow> principal \<Rightarrow> server \<Rightarrow> binding list \<Rightarrow> server \<times> binding list" where
  "visible_bindings e p s [] = (s, [])"
| "visible_bindings e p s (b # bs) =
     (case CheckDriveAccess (sv_mem s) (prlAgentID p) (bDriveID b) of
        Inl _ \<Rightarrow> visible_bindings e p s bs
      | Inr _ \<Rightarrow>
          (case check_access e p ''drive.read'' (bDriveID b) s of
             (s1, Inl _) \<Rightarrow> visible_bindings e p s1 bs
           | (s1, Inr _) \<Rightarrow> (case visible_bindings e p s1 bs of (s2, out) \<Rightarrow> (s2, b # out))))"

definition list_bindings :: "web_env \<Rightarrow> resource_reply handler" where
  "list_bindings e p r s =
     (if \<not> requireScope ''drive.read'' p then (s, missing_scope ''drive.read'')
      else (let items = Drive_ListBindings (sv_mem s) (prlUserID p) (query r ''device_id'')
            in case (if is_agent p then visible_bindings e p s items else (s, items)) of
                 (s1, out) \<Rightarrow> (s1, reply 200 (BindingList out))))"

definition routeBindingsRoot :: "resource_bodies \<Rightarrow> drive_service \<Rightarrow> web_env \<Rightarrow> resource_reply handler" where
  "routeBindingsRoot rb sv e p r s =
     (if hqMethod r = ''POST'' then create_binding rb sv e p r s
      else if hqMethod r = ''GET'' then list_bindings e p r s
      else (s, bad_method))"

definition get_binding :: "web_env \<Rightarrow> binding \<Rightarrow> resource_reply handler" where
  "get_binding e b p r s =
     (if hqMethod r \<noteq> ''GET'' then (s, bad_method)
      else if \<not> requireScope ''drive.read'' p then (s, missing_scope ''drive.read'')
      else unless_denied (allowAgentDrive e p r (bDriveID b) s) (\<lambda>s1. (s1, reply 200 (BindingBody b))))"

definition binding_session :: "('c, 'k) drive_deps \<Rightarrow> web_env \<Rightarrow> string \<Rightarrow> binding \<Rightarrow> resource_reply handler" where
  "binding_session dd e i b p r s0 =
     (if hqMethod r \<noteq> ''POST'' then (s0, bad_method)
      else if \<not> requireScope ''drive.read'' p then (s0, missing_scope ''drive.read'')
      else unless_denied (allowAgentDrive e p r (bDriveID b) s0)
        (\<lambda>s. case IssueSessionForBindingOpts (dd_drives dd) (dd_oci dd) (we_draw e 0) (sv_mem s) (sv_oci s) (sv_sts s)
                    (prlUserID p) i (sessionOptsFrom p (sv_mem s)) of
           (c, Inl err) \<Rightarrow> (put_sts c s, fail 400 (error_text err))
         | (c, Inr sb) \<Rightarrow>
             (audit_agent e 1 (prlUserID p) (prlAgentID p) ''binding.session'' i (bDriveID b) (put_sts c s),
              reply 200 (BindingSession sb))))"

definition report_binding :: "resource_bodies \<Rightarrow> web_env \<Rightarrow> string \<Rightarrow> binding \<Rightarrow> resource_reply handler" where
  "report_binding rb e i b p r s0 =
     (if hqMethod r \<noteq> ''POST'' then (s0, bad_method)
      else if \<not> requireScope ''drive.write'' p then (s0, missing_scope ''drive.write'')
      else unless_denied (allowAgentDrive e p r (bDriveID b) s0)
        (\<lambda>s. case rb_report rb (hqBody r) of
           Inl err \<Rightarrow> (s, fail 400 err)
         | Inr (actual, lastErr) \<Rightarrow>
             (case ReportActual (now_of e) (sv_mem s) (prlUserID p) i actual lastErr of
                (m1, Inl err) \<Rightarrow> (put_mem m1 s, fail 400 (error_text err))
              | (m1, Inr b1) \<Rightarrow>
                  (audit_agent e 1 (prlUserID p) (prlAgentID p) ''binding.report'' i (bActual b1) (put_mem m1 s),
                   reply 200 (BindingBody b1)))))"

definition desire_binding :: "resource_bodies \<Rightarrow> web_env \<Rightarrow> string \<Rightarrow> binding \<Rightarrow> resource_reply handler" where
  "desire_binding rb e i b p r s0 =
     (if hqMethod r \<noteq> ''POST'' then (s0, bad_method)
      else if \<not> requireScope ''drive.write'' p then (s0, missing_scope ''drive.write'')
      else unless_denied (allowAgentDrive e p r (bDriveID b) s0)
        (\<lambda>s. case rb_desired rb (hqBody r) of
           Inl err \<Rightarrow> (s, fail 400 err)
         | Inr desired \<Rightarrow>
             (case SetDesired (now_of e) (sv_mem s) (prlUserID p) i desired of
                (m1, Inl err) \<Rightarrow> (put_mem m1 s, fail 400 (error_text err))
              | (m1, Inr b1) \<Rightarrow>
                  (audit_agent e 1 (prlUserID p) (prlAgentID p) ''binding.desired'' i (bDesired b1) (put_mem m1 s),
                   reply 200 (BindingBody b1)))))"

definition routeBindingsSub :: "resource_bodies \<Rightarrow> ('c, 'k) drive_deps \<Rightarrow> web_env \<Rightarrow> resource_reply handler" where
  "routeBindingsSub rb dd e p r s =
     (let parts = segments ''/v1/bindings/'' r; i = hd parts
      in if i = [] then (s, not_found)
         else (case Drive_GetBinding (sv_mem s) (prlUserID p) i of
                 Inl err \<Rightarrow> (s, fail 404 (error_text err))
               | Inr b \<Rightarrow>
                   if length parts = 1 then get_binding e b p r s
                   else if parts ! 1 = ''session'' then binding_session dd e i b p r s
                   else if parts ! 1 = ''report'' then report_binding rb e i b p r s
                   else if parts ! 1 = ''desired'' then desire_binding rb e i b p r s
                   else (s, not_found)))"

section \<open>Devices and sessions\<close>

abbreviation no_devices :: "'b answer" where "no_devices \<equiv> fail 403 ''agent token cannot manage devices''"

definition routeDevicesRoot :: "resource_bodies \<Rightarrow> web_env \<Rightarrow> resource_reply handler" where
  "routeDevicesRoot rb e p r s =
     (if is_agent p then (s, no_devices)
      else if hqMethod r = ''POST''
      then (case rb_device rb (hqBody r) of
              Inl err \<Rightarrow> (s, fail 400 err)
            | Inr inp \<Rightarrow>
                (case Device_Register (we_draw e 0) (sv_mem s) (prlUserID p) inp of
                   (m1, Inl err) \<Rightarrow> (put_mem m1 s, fail 400 (error_text err))
                 | (m1, Inr d) \<Rightarrow> (put_mem m1 s, reply 201 (DeviceBody d))))
      else if hqMethod r = ''GET'' then (s, reply 200 (DeviceList (Device_List (sv_mem s) (prlUserID p))))
      else (s, bad_method))"

definition routeDevicesSub :: "resource_reply handler" where
  "routeDevicesSub p r s =
     (let i = below ''/v1/devices/'' r
      in if is_agent p then (s, no_devices)
         else if i = [] \<or> CHR ''/'' \<in> set i then (s, not_found)
         else if hqMethod r \<noteq> ''GET'' then (s, bad_method)
         else (case Device_Get (sv_mem s) (prlUserID p) i of
                 Inl err \<Rightarrow> (s, fail 404 (error_text err))
               | Inr d \<Rightarrow> (s, reply 200 (DeviceBody d))))"

definition handleSessionRefresh :: "resource_bodies \<Rightarrow> ('c, 'k) drive_deps \<Rightarrow> web_env \<Rightarrow> resource_reply handler" where
  "handleSessionRefresh rb dd e p r s =
     (if hqMethod r \<noteq> ''POST'' then (s, bad_method)
      else (case rb_refresh rb (hqBody r) of
              Inl err \<Rightarrow> (s, fail 400 err)
            | Inr (token, driveID) \<Rightarrow>
                (case RefreshSession (dd_drives dd) (dd_oci dd) (we_draw e 0) (sv_mem s) (sv_oci s) (sv_sts s)
                        (prlUserID p) token driveID of
                   (c, Inl err) \<Rightarrow> (put_sts c s, fail 400 (error_text err))
                 | (c, Inr b) \<Rightarrow> (put_sts c s, reply 200 (BindingSession b)))))"

end
