(* ===== verification/Http_StageC.thy ===== *)
theory Http_StageC
  imports Http_Core Connector_Service Memory_Kernel Market_Properties
begin

text \<open>
  The routes of memory, marketplace, lineage, graph, connectors and purchases
  (\<open>internal/httpserver/stage_c.go\<close>, \<open>stage_c2.go\<close>, \<open>stage_c_install.go\<close>), where several services meet in
  one request. \<open>stage_bodies\<close> holds the decoders of the request bodies, \<open>stage_deps\<close> what the services are
  built from. The failure of a side effect is ignored, as the code does.
\<close>

record stage_deps =
  sd_market :: market_env
  sd_vectors :: vector_codec
  sd_config :: "config \<Rightarrow> string"
  sd_uuid_sha1 :: "string \<Rightarrow> string"
  sd_meta :: "(string \<times> json) list \<Rightarrow> string"

record stage_bodies =
  tb_memory :: "string \<Rightarrow> string + put_input \<times> int"
  tb_search :: "string \<Rightarrow> string + real list \<times> int \<times> string"
  tb_publish :: "string \<Rightarrow> string + publish_input \<times> bool option"
  tb_lineage :: "string \<Rightarrow> string + string \<times> string \<times> string \<times> string"
  tb_edge :: "string \<Rightarrow> string + string \<times> string \<times> string \<times> string"
  tb_connector :: "string \<Rightarrow> string + connector_input"
  tb_pay :: "string \<Rightarrow> string"

datatype stage_reply =
    MemoryBody memory_entry
  | MemoryList "memory_entry list"
  | MemoryHits "search_hit list"
  | ItemBody marketplace_item
  | ItemList "marketplace_item list"
  | Installed install_result string
  | CheckoutBody checkout_result
  | PurchaseBody purchase
  | PurchaseList "purchase list"
  | EventBody lineage_event
  | EventList "lineage_event list"
  | EdgeBody graph_edge
  | EdgeList "graph_edge list"
  | ConnectorBody connector_binding
  | ConnectorList "connector_binding list" "connector_meta list"
  | StageDeleted

abbreviation bad_json :: "'b answer" where "bad_json \<equiv> fail 400 ''invalid json''"

definition actor_of :: "principal \<Rightarrow> string" where
  "actor_of p = (if is_agent p then ''agent:'' @ prlAgentID p else ''user:'' @ prlUserID p)"

text \<open>A lineage record or a graph edge whose failure nobody looks at.\<close>

definition note_lineage :: "web_env \<Rightarrow> nat \<Rightarrow> string \<Rightarrow> string \<Rightarrow> string \<Rightarrow> string \<Rightarrow> string \<Rightarrow> string \<Rightarrow> server \<Rightarrow> server" where
  "note_lineage e k userID actor action entity parent detail s =
     put_mem (fst (Lineage_Record (we_draw e k) (sv_mem s) userID actor action entity parent detail)) s"

definition note_edge :: "stage_deps \<Rightarrow> web_env \<Rightarrow> nat \<Rightarrow> string \<Rightarrow> string \<Rightarrow> string \<Rightarrow> string \<Rightarrow> server \<Rightarrow> server" where
  "note_edge sd e k userID subject relation object s =
     put_mem (fst (Graph_Link (sd_uuid_sha1 sd) (we_draw e k) (sv_mem s) userID subject relation object [])) s"

section \<open>Memory\<close>

definition memory_query :: "principal \<Rightarrow> web_request \<Rightarrow> memory_filter" where
  "memory_query p r =
     (let lm = atoi_lenient (query r ''limit'')
      in \<lparr>mfUserID = [], mfAgentID = (if is_agent p then prlAgentID p else query r ''agent_id''),
          mfDriveID = query r ''drive_id'', mfLayer = query r ''layer'', mfKey = query r ''key'',
          mfLimit = (if lm > 0 then lm else 0)\<rparr>)"

definition put_memory :: "stage_bodies \<Rightarrow> stage_deps \<Rightarrow> web_env \<Rightarrow> stage_reply handler" where
  "put_memory tb sd e p r s =
     (case tb_memory tb (hqBody r) of
        Inl _ \<Rightarrow> (s, bad_json)
      | Inr (inp0, ttlSec) \<Rightarrow>
          (let inp1 = (if is_agent p then inp0\<lparr>ptAgentID := prlAgentID p\<rparr> else inp0);
               inp = inp1\<lparr>ptTTL := (if ttlSec > 0 then duration_secs ttlSec else 0), ptExpiresAt := 0\<rparr>
           in case Memory_Put (sd_vectors sd) (we_draw e 0) (sv_mem s) (prlUserID p) inp of
                (m1, Inl err) \<Rightarrow> (put_mem m1 s, fail 400 (error_text err))
              | (m1, Inr x) \<Rightarrow>
                  (let s1 = audit e 1 (prlUserID p) ''memory.put'' (meID x) (meLayer x) (put_mem m1 s);
                       s2 = note_lineage e 2 (prlUserID p) (actor_of p) ''memory.put'' (''memory:'' @ meID x) [] (meLayer x) s1;
                       s3 = (if meAgentID x \<noteq> []
                             then note_edge sd e 3 (prlUserID p) (''agent:'' @ meAgentID x) ''wrote_memory'' (''memory:'' @ meID x) s2
                             else s2)
                   in (s3, reply 201 (MemoryBody x)))))"

definition routeMemoryRoot :: "stage_bodies \<Rightarrow> stage_deps \<Rightarrow> web_env \<Rightarrow> stage_reply handler" where
  "routeMemoryRoot tb sd e p r s =
     (if hqMethod r = ''GET''
      then (s, reply 200 (MemoryList (Memory_List (now_of e) (sv_mem s) (prlUserID p) (memory_query p r))))
      else if hqMethod r = ''POST'' then put_memory tb sd e p r s
      else (s, bad_method))"

text \<open>An entry that belongs to another agent; the entries without agent belong to all.\<close>

definition foreign_entry :: "principal \<Rightarrow> memory_entry \<Rightarrow> bool" where
  "foreign_entry p x \<longleftrightarrow> is_agent p \<and> meAgentID x \<noteq> [] \<and> meAgentID x \<noteq> prlAgentID p"

abbreviation foreign :: "'b answer" where "foreign \<equiv> fail 403 ''memory not owned by agent''"

definition delete_memory :: "web_env \<Rightarrow> string \<Rightarrow> stage_reply handler" where
  "delete_memory e i p r s =
     (case Memory_Get (now_of e) (sv_mem s) (prlUserID p) i of
        Inl _ \<Rightarrow>
          (case Memory_Delete (sv_mem s) (prlUserID p) i of
             (m1, Inl err) \<Rightarrow> (put_mem m1 s, fail 404 (error_text err))
           | (m1, Inr _) \<Rightarrow>
               (audit e 1 (prlUserID p) ''memory.delete'' i ''expired_or_missing_get'' (put_mem m1 s), reply 200 StageDeleted))
      | Inr x \<Rightarrow>
          if foreign_entry p x then (s, foreign)
          else (case Memory_Delete (sv_mem s) (prlUserID p) i of
                  (m1, Inl err) \<Rightarrow> (put_mem m1 s, fail 404 (error_text err))
                | (m1, Inr _) \<Rightarrow>
                    (note_lineage e 2 (prlUserID p) (actor_of p) ''memory.delete'' (''memory:'' @ i) [] (meLayer x)
                       (audit e 1 (prlUserID p) ''memory.delete'' i (meLayer x) (put_mem m1 s)),
                     reply 200 StageDeleted)))"

definition routeMemorySub :: "web_env \<Rightarrow> stage_reply handler" where
  "routeMemorySub e p r s =
     (let i = below ''/v1/memory/'' r
      in if i = [] \<or> CHR ''/'' \<in> set i then (s, not_found)
         else if hqMethod r = ''GET''
         then (case Memory_Get (now_of e) (sv_mem s) (prlUserID p) i of
                 Inl err \<Rightarrow> (s, fail 404 (error_text err))
               | Inr x \<Rightarrow> if foreign_entry p x then (s, foreign) else (s, reply 200 (MemoryBody x)))
         else if hqMethod r = ''DELETE'' then delete_memory e i p r s
         else (s, bad_method))"

definition routeMemorySearch :: "stage_bodies \<Rightarrow> stage_deps \<Rightarrow> web_env \<Rightarrow> stage_reply handler" where
  "routeMemorySearch tb sd e p r s =
     (if hqMethod r \<noteq> ''POST'' then (s, bad_method)
      else (case tb_search tb (hqBody r) of
              Inl _ \<Rightarrow> (s, bad_json)
            | Inr (vec, k, layer) \<Rightarrow>
                (case SearchVector (sd_vectors sd) (now_of e) (sv_mem s) (prlUserID p) vec k layer of
                   Inl err \<Rightarrow> (s, fail 400 (error_text err))
                 | Inr hits \<Rightarrow> (s, reply 200 (MemoryHits hits)))))"

section \<open>Marketplace\<close>

definition publish_item :: "stage_bodies \<Rightarrow> stage_deps \<Rightarrow> web_env \<Rightarrow> stage_reply handler" where
  "publish_item tb sd e p r s =
     (if \<not> requireHuman p then (s, not_human)
      else (case tb_publish tb (hqBody r) of
              Inl _ \<Rightarrow> (s, bad_json)
            | Inr (inp0, pub) \<Rightarrow>
                (let inp = inp0\<lparr>pbPublic := (case pub of None \<Rightarrow> True | Some b \<Rightarrow> b)\<rparr>
                 in case Publish (sd_market sd) (we_draw e 0) (sv_mem s) (prlUserID p) inp of
                      (m1, Inl err) \<Rightarrow> (put_mem m1 s, fail 400 (error_text err))
                    | (m1, Inr it) \<Rightarrow>
                        (audit e 1 (prlUserID p) ''marketplace.publish'' (miID it) (miKind it) (put_mem m1 s),
                         reply 201 (ItemBody it)))))"

definition routeMarketplaceRoot :: "stage_bodies \<Rightarrow> stage_deps \<Rightarrow> web_env \<Rightarrow> stage_reply handler" where
  "routeMarketplaceRoot tb sd e p r s =
     (if hqMethod r = ''GET''
      then (s, reply 200 (ItemList (Market_List (sd_market sd) (sv_mem s) (prlUserID p) (query r ''mine'' = ''1''))))
      else if hqMethod r = ''POST'' then publish_item tb sd e p r s
      else (s, bad_method))"

text \<open>The side effects of an installation: lineage, a memory entry and graph edges.\<close>

definition install_kind :: "install_result \<Rightarrow> string" where
  "install_kind res =
     (if irKind res \<noteq> [] then irKind res else if irAgentID res \<noteq> [] then KindAgentTemplate else KindSkill)"

definition install_meta :: "string \<Rightarrow> install_result \<Rightarrow> (string \<times> json) list" where
  "install_meta itemID res =
     [(''item_id'', JStr itemID), (''agent_id'', JStr (irAgentID res)), (''name'', JStr (irName res)),
      (''scopes'', JArr (map JStr (irScopes res))), (''kind'', JStr (install_kind res)),
      (''source'', JStr ''marketplace.install''), (''payload'', JObj (irExtra res))]"

definition install_entry :: "stage_deps \<Rightarrow> string \<Rightarrow> install_result \<Rightarrow> put_input" where
  "install_entry sd itemID res =
     \<lparr>ptAgentID = irAgentID res, ptDriveID = [], ptLayer = LayerEpisodic, ptKey = ''marketplace.install.'' @ itemID,
      ptContent =
        (if irAgentID res \<noteq> []
         then ''Installed marketplace item '' @ itemID @ '' as agent '' @ irAgentID res @ '' ('' @ irName res @ '')''
         else ''Installed marketplace '' @ install_kind res @ '' '' @ itemID @ '' ('' @ irName res @ '')''),
      ptMetaJSON = sd_meta sd (install_meta itemID res), ptEmbedding = [], ptTTL = 0, ptExpiresAt = 0\<rparr>"

definition install_detail :: "install_result \<Rightarrow> string" where
  "install_detail res =
     ''kind='' @ install_kind res @ (if irAgentID res \<noteq> [] then '' agent='' @ irAgentID res else []) @
     '' name='' @ irName res"

definition install_memory :: "stage_deps \<Rightarrow> web_env \<Rightarrow> string \<Rightarrow> string \<Rightarrow> install_result \<Rightarrow> server \<Rightarrow> server \<times> string" where
  "install_memory sd e userID itemID res s =
     (case Memory_Put (sd_vectors sd) (we_draw e 3) (sv_mem s) userID (install_entry sd itemID res) of
        (m1, Inl _) \<Rightarrow> (put_mem m1 s, [])
      | (m1, Inr x) \<Rightarrow>
          (let s1 = note_lineage e 4 userID (''user:'' @ userID) ''memory.put'' (''memory:'' @ meID x) (''item:'' @ itemID)
                      ''marketplace.install'' (put_mem m1 s);
               s2 = (if irAgentID res \<noteq> []
                     then note_edge sd e 5 userID (''agent:'' @ irAgentID res) ''wrote_memory'' (''memory:'' @ meID x) s1
                     else s1)
           in (s2, meID x)))"

definition recordMarketplaceInstall ::
  "stage_deps \<Rightarrow> web_env \<Rightarrow> string \<Rightarrow> string \<Rightarrow> install_result \<Rightarrow> server \<Rightarrow> server \<times> string" where
  "recordMarketplaceInstall sd e userID itemID res s =
     (let user = ''user:'' @ userID; agent = ''agent:'' @ irAgentID res; item = ''item:'' @ itemID;
          s1 = note_lineage e 2 userID user ''marketplace.install'' item (if irAgentID res \<noteq> [] then agent else user)
                 (install_detail res) s;
          (s2, mid) = install_memory sd e userID itemID res s1;
          s3 = note_edge sd e 6 userID user ''installed'' item s2;
          s4 = (if irAgentID res \<noteq> []
                then note_edge sd e 8 userID user ''owns_agent'' agent (note_edge sd e 7 userID agent ''from_item'' item s3)
                else s3)
      in (s4, mid))"

text \<open>The agent of a template, created through the agent service.\<close>

definition agent_from_template :: "web_env \<Rightarrow> string \<Rightarrow> memory \<Rightarrow> string \<Rightarrow> string \<Rightarrow> string list \<Rightarrow> memory \<times> string result" where
  "agent_from_template e userID m name desc scopes =
     (case Agent_Create (we_draw e 0) m userID
             \<lparr>aiName = name, aiDescription = desc, aiDefaultScopes = scopes, aiAllowedDriveIDs = [], aiReadPrefixes = [],
              aiWritePrefixes = []\<rparr> of
        (m1, Inl err) \<Rightarrow> (m1, Inl err)
      | (m1, Inr a) \<Rightarrow> (m1, Inr (agID a)))"

definition install_call :: "stage_deps \<Rightarrow> web_env \<Rightarrow> principal \<Rightarrow> marketplace_item \<Rightarrow> string \<Rightarrow> server \<Rightarrow> server \<times> install_result result" where
  "install_call sd e p it i s =
     (if miKind it = KindAgentTemplate
      then (case InstallAgentTemplate (sd_market sd) (sv_mem s) (prlUserID p) i (agent_from_template e (prlUserID p)) of
              (m1, res) \<Rightarrow> (put_mem m1 s, res))
      else if miKind it = KindSkill then (s, InstallSkill (sd_market sd) (sv_mem s) (prlUserID p) i)
      else if miKind it = KindManifest then (s, InstallManifest (sd_market sd) (sv_mem s) (prlUserID p) i)
      else (s, Inl (Errorf ''install supports agent_template|skill|manifest'')))"

definition install_item :: "stage_deps \<Rightarrow> web_env \<Rightarrow> string \<Rightarrow> stage_reply handler" where
  "install_item sd e i p r s =
     (case Market_Get (sd_market sd) (sv_mem s) i of
        Inl err \<Rightarrow> (s, fail 404 (error_text err))
      | Inr it \<Rightarrow>
          if miKind it = KindAgentTemplate \<and> \<not> requireHuman p then (s, not_human)
          else (case install_call sd e p it i s of
                  (s1, Inl err) \<Rightarrow> (s1, fail 400 (error_text err))
                | (s1, Inr res) \<Rightarrow>
                    (let detail = (if irAgentID res \<noteq> [] then irAgentID res
                                   else if irKind res \<noteq> [] then irKind res else miKind it);
                         (s2, mid) = recordMarketplaceInstall sd e (prlUserID p) i res
                           (audit e 1 (prlUserID p) ''marketplace.install'' i detail s1)
                     in (s2, reply 201 (Installed (if irKind res = [] then res\<lparr>irKind := miKind it\<rparr> else res) mid)))))"

definition routeMarketplaceCheckout :: "stage_deps \<Rightarrow> web_env \<Rightarrow> string \<Rightarrow> stage_reply handler" where
  "routeMarketplaceCheckout sd e i p r s =
     (if hqMethod r \<noteq> ''POST'' then (s, bad_method)
      else if \<not> requireHuman p then (s, not_human)
      else (case CheckoutDetailed (sd_market sd) (we_draw e 0) (sv_mem s) (prlUserID p) i of
              (m1, Inl err) \<Rightarrow> (put_mem m1 s, fail 400 (error_text err))
            | (m1, Inr c) \<Rightarrow>
                (note_lineage e 2 (prlUserID p) (''user:'' @ prlUserID p) ''marketplace.checkout'' (''item:'' @ i)
                   (''purchase:'' @ puID (crPurchase c)) (puStatus (crPurchase c)) (put_mem m1 s),
                 reply 201 (CheckoutBody c))))"

definition routeMarketplaceSub :: "stage_deps \<Rightarrow> web_env \<Rightarrow> stage_reply handler" where
  "routeMarketplaceSub sd e p r s =
     (let parts = segments ''/v1/marketplace/'' r; i = hd parts
      in if i = [] then (s, not_found)
         else if length parts = 2 \<and> parts ! 1 = ''install'' \<and> hqMethod r = ''POST'' then install_item sd e i p r s
         else if length parts = 2 \<and> parts ! 1 = ''checkout'' then routeMarketplaceCheckout sd e i p r s
         else if hqMethod r = ''GET''
         then (case Market_Get (sd_market sd) (sv_mem s) i of
                 Inl err \<Rightarrow> (s, fail 404 (error_text err))
               | Inr it \<Rightarrow> (s, reply 200 (ItemBody it)))
         else if hqMethod r = ''DELETE''
         then (if \<not> requireHuman p then (s, not_human)
               else (case Market_Delete (sv_mem s) (prlUserID p) i of
                       (m1, Inl err) \<Rightarrow> (put_mem m1 s, fail 400 (error_text err))
                     | (m1, Inr _) \<Rightarrow>
                         (audit e 1 (prlUserID p) ''marketplace.delete'' i [] (put_mem m1 s), reply 200 StageDeleted)))
         else (s, bad_method))"

section \<open>Purchases\<close>

definition routePurchases :: "stage_reply handler" where
  "routePurchases p r s =
     (if hqMethod r \<noteq> ''GET'' then (s, bad_method)
      else if \<not> requireHuman p then (s, not_human)
      else (s, reply 200 (PurchaseList (Market_ListPurchases (sv_mem s) (prlUserID p) 50))))"

definition routePurchaseWebhook :: "stage_bodies \<Rightarrow> string \<Rightarrow> stage_reply handler" where
  "routePurchaseWebhook tb i p r s =
     (if hqMethod r \<noteq> ''POST'' then (s, bad_method)
      else (case WebhookPaid (sv_mem s) (prlUserID p) i (tb_pay tb (hqBody r)) of
              (m1, Inl err) \<Rightarrow> (put_mem m1 s, fail 400 (error_text err))
            | (m1, Inr x) \<Rightarrow> (put_mem m1 s, reply 200 (PurchaseBody x))))"

definition routePurchasesSub :: "stage_bodies \<Rightarrow> stage_reply handler" where
  "routePurchasesSub tb p r s =
     (let parts = segments ''/v1/purchases/'' r
      in if length parts = 2 \<and> parts ! 1 = ''pay'' then routePurchaseWebhook tb (hd parts) p r s
         else (s, not_found))"

definition handleStripeWebhook :: "stage_deps \<Rightarrow> web_env \<Rightarrow> web_request \<Rightarrow> server \<Rightarrow> server \<times> stage_reply answer" where
  "handleStripeWebhook sd e r s =
     (if hqMethod r \<noteq> ''POST'' then (s, bad_method)
      else (case HandleStripeWebhook (sd_market sd) (now_of e) (sv_mem s) (take 1048576 (hqBody r))
                   (hqHeader r ''Stripe-Signature'') of
              (m1, Inl err) \<Rightarrow> (put_mem m1 s, fail 400 (error_text err))
            | (m1, Inr x) \<Rightarrow>
                (note_lineage e 2 (puUserID x) ''stripe'' ''marketplace.paid'' (''purchase:'' @ puID x) (''item:'' @ puItemID x)
                   (puProviderRef x) (put_mem m1 s),
                 reply 200 (PurchaseBody x))))"

section \<open>Lineage, graph and connectors\<close>

definition routeLineage :: "stage_bodies \<Rightarrow> web_env \<Rightarrow> stage_reply handler" where
  "routeLineage tb e p r s =
     (if hqMethod r = ''GET''
      then (s, reply 200 (EventList (Lineage_List (sv_mem s) (prlUserID p) (query r ''entity'') (atoi_lenient (query r ''limit'')))))
      else if hqMethod r = ''POST''
      then (case tb_lineage tb (hqBody r) of
              Inl _ \<Rightarrow> (s, bad_json)
            | Inr (action, entity, parent', detail) \<Rightarrow>
                (case Lineage_Record (we_draw e 0) (sv_mem s) (prlUserID p) (actor_of p) action entity parent' detail of
                   (m1, Inl err) \<Rightarrow> (put_mem m1 s, fail 400 (error_text err))
                 | (m1, Inr x) \<Rightarrow> (put_mem m1 s, reply 201 (EventBody x))))
      else (s, bad_method))"

definition routeGraph :: "stage_bodies \<Rightarrow> stage_deps \<Rightarrow> web_env \<Rightarrow> stage_reply handler" where
  "routeGraph tb sd e p r s =
     (if hqMethod r = ''GET''
      then (s, reply 200 (EdgeList (Graph_List (sv_mem s) (prlUserID p) (query r ''subject'') (query r ''object'')
                                     (atoi_lenient (query r ''limit'')))))
      else if hqMethod r = ''POST''
      then (case tb_edge tb (hqBody r) of
              Inl _ \<Rightarrow> (s, bad_json)
            | Inr (subject, relation, object, meta) \<Rightarrow>
                (case Graph_Link (sd_uuid_sha1 sd) (we_draw e 0) (sv_mem s) (prlUserID p) subject relation object meta of
                   (m1, Inl err) \<Rightarrow> (put_mem m1 s, fail 400 (error_text err))
                 | (m1, Inr x) \<Rightarrow> (put_mem m1 s, reply 201 (EdgeBody x))))
      else (s, bad_method))"

definition create_connector :: "stage_bodies \<Rightarrow> stage_deps \<Rightarrow> web_env \<Rightarrow> stage_reply handler" where
  "create_connector tb sd e p r s =
     (if \<not> requireHuman p then (s, not_human)
      else (case tb_connector tb (hqBody r) of
              Inl _ \<Rightarrow> (s, bad_json)
            | Inr inp \<Rightarrow>
                (case Connector_Create (sd_config sd) (we_draw e 0) (sv_mem s) (prlUserID p) inp of
                   (m1, Inl err) \<Rightarrow> (put_mem m1 s, fail 400 (error_text err))
                 | (m1, Inr c) \<Rightarrow>
                     (note_lineage e 2 (prlUserID p) (''user:'' @ prlUserID p) ''connector.register'' (''connector:'' @ cbID c)
                        [] (cbType c) (put_mem m1 s),
                      reply 201 (ConnectorBody c)))))"

definition routeConnectorsRoot :: "stage_bodies \<Rightarrow> stage_deps \<Rightarrow> web_env \<Rightarrow> stage_reply handler" where
  "routeConnectorsRoot tb sd e p r s =
     (if hqMethod r = ''GET''
      then (s, reply 200 (ConnectorList (Connector_List (sv_mem s) (prlUserID p)) Connector_Catalog))
      else if hqMethod r = ''POST'' then create_connector tb sd e p r s
      else (s, bad_method))"

definition routeConnectorsSub :: "stage_reply handler" where
  "routeConnectorsSub p r s =
     (let i = below ''/v1/connectors/'' r
      in if i = [] \<or> CHR ''/'' \<in> set i then (s, not_found)
         else if hqMethod r = ''GET''
         then (case Connector_Get (sv_mem s) (prlUserID p) i of
                 Inl err \<Rightarrow> (s, fail 404 (error_text err))
               | Inr c \<Rightarrow> (s, reply 200 (ConnectorBody c)))
         else if hqMethod r = ''DELETE''
         then (if \<not> requireHuman p then (s, not_human)
               else (case Connector_Delete (sv_mem s) (prlUserID p) i of
                       (m1, Inl err) \<Rightarrow> (put_mem m1 s, fail 404 (error_text err))
                     | (m1, Inr _) \<Rightarrow> (put_mem m1 s, reply 200 StageDeleted)))
         else (s, bad_method))"

end
