(* ===== verification/Http_Workspaces.thy ===== *)
theory Http_Workspaces
  imports Http_Core Workspace_Service
begin

text \<open>
  The workspace routes of \<open>internal/httpserver/server.go\<close>. They act on the workspace service and on the
  buckets, not on the store; a body of a request is the text of the file. \<open>workspace_bodies\<close> holds the
  decoders of the request bodies.
\<close>

record ('c, 'w) workspace_state =
  wx_service :: "'c workspace_service"
  wx_buckets :: 'w

record ('c, 'w) workspace_deps =
  wk_minio :: "'c minio"
  wk_io :: "('c, 'w) object_io"

record workspace_bodies =
  kb_name :: "string \<Rightarrow> string + string"
  kb_key :: "string \<Rightarrow> string + string"

datatype workspace_reply =
    WorkspaceBody ws_meta
  | WorkspaceList "ws_meta list"
  | FileList "object_info list"
  | FileStored string
  | FileBytes string
  | FileDeleted
  | UploadURL string string string int
  | DownloadURL string int
  | MountHint "string gomap"

type_synonym ('c, 'w) workspace_handler =
  "principal \<Rightarrow> web_request \<Rightarrow> ('c, 'w) workspace_state \<Rightarrow> ('c, 'w) workspace_state \<times> workspace_reply answer"

definition ensureOwner :: "'c workspace_service \<Rightarrow> string \<Rightarrow> string \<Rightarrow> unit result" where
  "ensureOwner sv wsID userID =
     and_then (Workspace_Get sv wsID)
       (\<lambda>m. if wmOwnerID m \<noteq> userID then Inl (Errorf ''forbidden'') else Inr ())"

definition handleCreateWorkspace ::
  "workspace_bodies \<Rightarrow> ('c, 'w) workspace_deps \<Rightarrow> web_env \<Rightarrow> ('c, 'w) workspace_handler" where
  "handleCreateWorkspace kb wd e p r s =
     (case kb_name kb (hqBody r) of
        Inl err \<Rightarrow> (s, fail 400 err)
      | Inr name \<Rightarrow>
          (case Workspace_Create (wk_minio wd) (we_draw e 0) (wx_service s) (prlUserID p) name of
             (sv, Inl err) \<Rightarrow> (s\<lparr>wx_service := sv\<rparr>, fail 400 (error_text err))
           | (sv, Inr m) \<Rightarrow> (s\<lparr>wx_service := sv\<rparr>, reply 201 (WorkspaceBody m))))"

definition routeWorkspacesRoot ::
  "workspace_bodies \<Rightarrow> ('c, 'w) workspace_deps \<Rightarrow> web_env \<Rightarrow> ('c, 'w) workspace_handler" where
  "routeWorkspacesRoot kb wd e p r s =
     (if hqMethod r = ''POST'' then handleCreateWorkspace kb wd e p r s
      else if hqMethod r = ''GET'' then (s, reply 200 (WorkspaceList (ListByOwner (wx_service s) (prlUserID p))))
      else (s, bad_method))"

definition handleGetWorkspace :: "string \<Rightarrow> ('c, 'w) workspace_handler" where
  "handleGetWorkspace wsID p r s =
     (case Workspace_Get (wx_service s) wsID of
        Inl err \<Rightarrow> (s, fail 404 (error_text err))
      | Inr m \<Rightarrow> if wmOwnerID m \<noteq> prlUserID p then (s, fail 403 ''forbidden'') else (s, reply 200 (WorkspaceBody m)))"

definition put_file :: "('c, 'w) workspace_deps \<Rightarrow> string \<Rightarrow> string \<Rightarrow> ('c, 'w) workspace_handler" where
  "put_file wd wsID key p r s =
     (case PutFile (wk_io wd) (wx_service s) (wx_buckets s) wsID key (hqBody r) (int (length (hqBody r)))
             (hqHeader r ''Content-Type'') of
        (w1, Inl err) \<Rightarrow> (s\<lparr>wx_buckets := w1\<rparr>, fail 400 (error_text err))
      | (w1, Inr _) \<Rightarrow> (s\<lparr>wx_buckets := w1\<rparr>, reply 200 (FileStored key)))"

definition get_file :: "('c, 'w) workspace_deps \<Rightarrow> string \<Rightarrow> string \<Rightarrow> ('c, 'w) workspace_handler" where
  "get_file wd wsID key p r s =
     (case GetFile (wk_io wd) (wx_service s) (wx_buckets s) wsID key of
        Inl err \<Rightarrow> (s, fail 404 (error_text err))
      | Inr b \<Rightarrow> (s, reply 200 (FileBytes b)))"

definition delete_file :: "('c, 'w) workspace_deps \<Rightarrow> string \<Rightarrow> string \<Rightarrow> ('c, 'w) workspace_handler" where
  "delete_file wd wsID key p r s =
     (case DeleteFile (wk_io wd) (wx_service s) (wx_buckets s) wsID key of
        (w1, Inl err) \<Rightarrow> (s\<lparr>wx_buckets := w1\<rparr>, fail 400 (error_text err))
      | (w1, Inr _) \<Rightarrow> (s\<lparr>wx_buckets := w1\<rparr>, reply 200 FileDeleted))"

definition routeFiles :: "('c, 'w) workspace_deps \<Rightarrow> string \<Rightarrow> string \<Rightarrow> ('c, 'w) workspace_handler" where
  "routeFiles wd wsID key p r s =
     (case ensureOwner (wx_service s) wsID (prlUserID p) of
        Inl err \<Rightarrow> (s, fail 403 (error_text err))
      | Inr _ \<Rightarrow>
          if key = [] \<and> hqMethod r = ''GET''
          then (case ListFiles (wk_minio wd) (wx_service s) wsID (query r ''prefix'') of
                  Inl err \<Rightarrow> (s, fail 400 (error_text err))
                | Inr items \<Rightarrow> (s, reply 200 (FileList items)))
          else if key = [] then (s, fail 400 ''key required'')
          else if hqMethod r = ''PUT'' then put_file wd wsID key p r s
          else if hqMethod r = ''GET'' then get_file wd wsID key p r s
          else if hqMethod r = ''DELETE'' then delete_file wd wsID key p r s
          else (s, bad_method))"

abbreviation ttl_minutes :: "web_env \<Rightarrow> int" where
  "ttl_minutes e \<equiv> (cfPresignTTL (we_cfg e)) div minutes 1"

definition handlePresignUpload ::
  "workspace_bodies \<Rightarrow> ('c, 'w) workspace_deps \<Rightarrow> web_env \<Rightarrow> string \<Rightarrow> ('c, 'w) workspace_handler" where
  "handlePresignUpload kb wd e wsID p r s =
     (case ensureOwner (wx_service s) wsID (prlUserID p) of
        Inl err \<Rightarrow> (s, fail 403 (error_text err))
      | Inr _ \<Rightarrow>
          (case kb_key kb (hqBody r) of
             Inl err \<Rightarrow> (s, fail 400 err)
           | Inr key \<Rightarrow>
               (case PresignUpload (wk_minio wd) (wx_service s) wsID key of
                  Inl err \<Rightarrow> (s, fail 400 (error_text err))
                | Inr (u, bucket) \<Rightarrow> (s, reply 200 (UploadURL u bucket key (ttl_minutes e))))))"

definition handlePresignDownload ::
  "workspace_bodies \<Rightarrow> ('c, 'w) workspace_deps \<Rightarrow> web_env \<Rightarrow> string \<Rightarrow> ('c, 'w) workspace_handler" where
  "handlePresignDownload kb wd e wsID p r s =
     (case ensureOwner (wx_service s) wsID (prlUserID p) of
        Inl err \<Rightarrow> (s, fail 403 (error_text err))
      | Inr _ \<Rightarrow>
          (case kb_key kb (hqBody r) of
             Inl err \<Rightarrow> (s, fail 400 err)
           | Inr key \<Rightarrow>
               (case PresignDownload (wk_minio wd) (wx_service s) wsID key of
                  Inl err \<Rightarrow> (s, fail 400 (error_text err))
                | Inr u \<Rightarrow> (s, reply 200 (DownloadURL u (ttl_minutes e))))))"

definition handleAgentMount :: "web_env \<Rightarrow> string \<Rightarrow> ('c, 'w) workspace_handler" where
  "handleAgentMount e wsID p r s =
     (case ensureOwner (wx_service s) wsID (prlUserID p) of
        Inl err \<Rightarrow> (s, fail 403 (error_text err))
      | Inr _ \<Rightarrow>
          (case AgentMountHint (wx_service s) wsID (cfS3Endpoint (we_cfg e)) (cfS3AccessKey (we_cfg e))
                  (cfS3SecretKey (we_cfg e)) (cfS3UseSSL (we_cfg e)) of
             Inl err \<Rightarrow> (s, fail 400 (error_text err))
           | Inr h \<Rightarrow> (s, reply 200 (MountHint h))))"

definition presign_route ::
  "workspace_bodies \<Rightarrow> ('c, 'w) workspace_deps \<Rightarrow> web_env \<Rightarrow> string \<Rightarrow> string list \<Rightarrow> ('c, 'w) workspace_handler" where
  "presign_route kb wd e wsID parts p r s =
     (if length parts < 3 then (s, not_found)
      else if hqMethod r \<noteq> ''POST'' then (s, bad_method)
      else if parts ! 2 = ''upload'' then handlePresignUpload kb wd e wsID p r s
      else if parts ! 2 = ''download'' then handlePresignDownload kb wd e wsID p r s
      else (s, not_found))"

definition routeWorkspaceSub ::
  "workspace_bodies \<Rightarrow> ('c, 'w) workspace_deps \<Rightarrow> web_env \<Rightarrow> ('c, 'w) workspace_handler" where
  "routeWorkspaceSub kb wd e p r s =
     (let path = below ''/v1/workspaces/'' r; parts = split_c (CHR ''/'') path; wsID = hd parts
      in if path = [] then (s, not_found)
         else if length parts = 1
         then (if hqMethod r = ''GET'' then handleGetWorkspace wsID p r s else (s, bad_method))
         else if parts ! 1 = ''files'' then routeFiles wd wsID (str_join ''/'' (drop 2 parts)) p r s
         else if parts ! 1 = ''presign'' then presign_route kb wd e wsID parts p r s
         else if parts ! 1 = ''agent-mount''
         then (if hqMethod r \<noteq> ''GET'' then (s, bad_method) else handleAgentMount e wsID p r s)
         else (s, not_found))"

section \<open>Facts\<close>

lemma ensureOwner_ok: "ensureOwner sv wsID u = Inr x \<longleftrightarrow> (\<exists>m. Workspace_Get sv wsID = Inr m \<and> wmOwnerID m = u)"
  by (auto simp: ensureOwner_def and_then_Inr)

text \<open>Nobody but the owner of a workspace changes it or its bucket, or reads a file of it.\<close>

lemma strangers_kept_out:
  assumes m: "Workspace_Get (wx_service s) wsID = Inr m" "wmOwnerID m \<noteq> prlUserID p"
  shows "routeFiles wd wsID key p r s = (s, fail 403 ''forbidden'')"
    "handlePresignUpload kb wd e wsID p r s = (s, fail 403 ''forbidden'')"
    "handlePresignDownload kb wd e wsID p r s = (s, fail 403 ''forbidden'')"
    "handleAgentMount e wsID p r s = (s, fail 403 ''forbidden'')"
    "handleGetWorkspace wsID p r s = (s, fail 403 ''forbidden'')"
proof -
  have no: "ensureOwner (wx_service s) wsID (prlUserID p) = Inl (Errorf ''forbidden'')"
    using m by (simp add: ensureOwner_def)
  show "routeFiles wd wsID key p r s = (s, fail 403 ''forbidden'')"
    using no by (simp add: routeFiles_def)
  show "handlePresignUpload kb wd e wsID p r s = (s, fail 403 ''forbidden'')"
    using no by (simp add: handlePresignUpload_def)
  show "handlePresignDownload kb wd e wsID p r s = (s, fail 403 ''forbidden'')"
    using no by (simp add: handlePresignDownload_def)
  show "handleAgentMount e wsID p r s = (s, fail 403 ''forbidden'')"
    using no by (simp add: handleAgentMount_def)
  show "handleGetWorkspace wsID p r s = (s, fail 403 ''forbidden'')"
    using m by (simp add: handleGetWorkspace_def)
qed

text \<open>
  The mount hint of a workspace carries the secret key of the platform's own object store, for any
  account that owns a workspace and for its agents whatever their scopes.
\<close>

lemma mount_hint_leaks_platform_key:
  assumes "ensureOwner (wx_service s) wsID (prlUserID p) = Inr ()"
  shows "\<exists>h remote. handleAgentMount e wsID p r s = (s, reply 200 (MountHint h)) \<and>
    map_of h ''rclone_env_example'' =
      Some (rclone_env_example remote (cfS3AccessKey (we_cfg e)) (cfS3SecretKey (we_cfg e)))"
proof -
  obtain m where "Workspace_Get (wx_service s) wsID = Inr m" using assms by (auto simp: ensureOwner_ok)
  with assms show ?thesis by (auto simp: handleAgentMount_def AgentMountHint_def Let_def)
qed

end
