(* ===== verification/Http_Router.thy ===== *)
theory Http_Router
  imports Http_Admin Http_Resources Http_StageC Http_Workspaces
begin

text \<open>
  The whole API: the table of routes that \<open>New\<close> registers (\<open>internal/httpserver/server.go\<close>), the
  choice of the longest matching pattern, and the middleware around it (\<open>middleware.go\<close>). The path is
  as the server delivers it to the table, already cleaned. The cap on the size of a body, which the
  readers of the body enforce, is part of the decoders. Static pages are left out of the answers.
\<close>

section \<open>The modules\<close>

record module_info =
  moID :: string
  moName :: string
  moPackage :: string
  moProcess :: string
  moStatus :: string
  moDescription :: string
  moAPIs :: "string list"

definition module_row :: "string \<Rightarrow> string \<Rightarrow> string \<Rightarrow> string \<Rightarrow> string \<Rightarrow> string \<Rightarrow> string list \<Rightarrow> module_info" where
  "module_row i n pkg pr st d apis =
     \<lparr>moID = i, moName = n, moPackage = pkg, moProcess = pr, moStatus = st, moDescription = d, moAPIs = apis\<rparr>"

definition Registry :: "module_info list" where
  "Registry =
   [
    module_row ''identity'' ''Identity & Auth'' ''internal/auth'' ''api'' ''embedded'' (''Users, JWT, refresh, agents tokens'') [''/v1/auth/*'', ''/v1/me'', ''/v1/agents*''],
    module_row ''policy'' ''Policy Engine'' ''internal/policy'' ''api'' ''embedded'' (''Built-in + JSON + OPA + remote PDP client'') [''/v1/admin/policy''],
    module_row ''drive'' ''Drive & Bindings'' ''internal/drive'' ''api'' ''embedded'' (''Drives, bindings, sessions, objects, snapshots'') [''/v1/drives*'', ''/v1/bindings*'', ''/v1/sessions/*''],
    module_row ''sts'' ''STS Assist'' ''internal/sts'' ''api'' ''embedded'' (''Multi-vendor short sessions; OCI PAR/secret Stage C'') [''session.source''],
    module_row ''jobs'' ''BYOC Jobs'' ''internal/job'' ''api'' ''embedded'' (''Job queue; runners claim on user compute only (D-001)'') [''/v1/jobs*''],
    module_row ''memory'' ''Memory Kernel v0'' ''internal/memkernel'' ''api'' ''embedded'' (''working/episodic/semantic small memories'') [''/v1/memory*''],
    module_row ''marketplace'' ''Agent Marketplace v0'' ''internal/marketplace'' ''api'' ''embedded'' (''Templates/skills + checkout skeleton'') [''/v1/marketplace*'', ''/v1/purchases*''],
    module_row ''lineage'' ''Data Lineage v0'' ''internal/lineage'' ''api'' ''embedded'' (''Append-only activity events'') [''/v1/lineage''],
    module_row ''idgraph'' ''Identity Graph v0'' ''internal/idgraph'' ''api'' ''embedded'' (''Subject-relation-object edges'') [''/v1/graph''],
    module_row ''connectors'' ''Git/DB/SaaS connectors'' ''internal/connector'' ''api'' ''embedded'' (''First-class connector catalog + bindings (sync on BYOC)'') [''/v1/connectors*''],
    module_row ''pdp-remote'' ''Remote PDP'' ''internal/policy'' ''external'' ''optional'' (''HTTP PDP you host; AI_CLOUDHUB_PDP_URL'') [''POST AI_CLOUDHUB_PDP_URL''],
    module_row ''runtime'' ''hubd / runner'' ''cmd/hubd,cmd/runner'' ''user-host'' ''external'' (''Mount and BYOC workers on user machines '' @ em_dash @ '' never a platform pool'') []
   ]"

section \<open>The state of the process\<close>

record ('c, 'w) api_state =
  ap_server :: server
  ap_workspaces :: "('c, 'w) workspace_state"

record ('c, 'k, 'w) api_deps =
  ad_env :: web_env
  ad_accounts :: account_bodies
  ad_admin :: admin_bodies
  ad_jobs :: job_bodies
  ad_drives :: drive_bodies
  ad_drive_deps :: "('c, 'k) drive_deps"
  ad_resources :: resource_bodies
  ad_prober :: "'c prober"
  ad_stage :: stage_bodies
  ad_stage_deps :: stage_deps
  ad_workspace :: workspace_bodies
  ad_workspace_deps :: "('c, 'w) workspace_deps"
  ad_platform_s3 :: bool
  ad_ping :: "string option"

datatype api_reply =
    Accounts account_reply
  | Admins admin_reply
  | Jobs job_reply
  | Drives drive_reply
  | Resources resource_reply
  | Stage stage_reply
  | Workspaces workspace_reply
  | RootPage bool
  | WizardPage
  | WizardMoved string
  | Health webhook_outbox_counts job_status_counts
  | Ready webhook_outbox_counts job_status_counts
  | Metrics webhook_outbox_counts job_status_counts
  | RuntimeCheck
  | Modules "module_info list"
  | ProviderCatalog "type_meta list"
  | ConnectorCatalog "connector_meta list"

type_synonym ('c, 'w) route = "web_request \<Rightarrow> ('c, 'w) api_state \<Rightarrow> ('c, 'w) api_state \<times> api_reply answer"

definition wrap :: "('b \<Rightarrow> api_reply) \<Rightarrow> 'b answer \<Rightarrow> api_reply answer" where
  "wrap f a = (case a of (code, Inl msg) \<Rightarrow> (code, Inl msg) | (code, Inr b) \<Rightarrow> (code, Inr (f b)))"

text \<open>A route that needs no token, one for any token, one for administrators, one on the workspaces.\<close>

definition open_route :: "('b \<Rightarrow> api_reply) \<Rightarrow> (web_request \<Rightarrow> server \<Rightarrow> server \<times> 'b answer) \<Rightarrow> ('c, 'w) route" where
  "open_route f h r a = (case h r (ap_server a) of (s, ans) \<Rightarrow> (a\<lparr>ap_server := s\<rparr>, wrap f ans))"

definition auth_route :: "web_env \<Rightarrow> ('b \<Rightarrow> api_reply) \<Rightarrow> 'b handler \<Rightarrow> ('c, 'w) route" where
  "auth_route e f h = open_route f (withAuth e h)"

definition admin_route :: "web_env \<Rightarrow> ('b \<Rightarrow> api_reply) \<Rightarrow> 'b handler \<Rightarrow> ('c, 'w) route" where
  "admin_route e f h = open_route f (withAdmin e h)"

definition workspace_route :: "web_env \<Rightarrow> ('c, 'w) workspace_handler \<Rightarrow> ('c, 'w) route" where
  "workspace_route e h r a =
     (case authenticate e r (ap_server a) of
        (s, Inl (code, msg)) \<Rightarrow> (a\<lparr>ap_server := s\<rparr>, fail code msg)
      | (s, Inr p) \<Rightarrow>
          (case h p r (ap_workspaces a) of
             (w, ans) \<Rightarrow> (\<lparr>ap_server = s, ap_workspaces = w\<rparr>, wrap Workspaces ans)))"

definition with_method :: "string \<Rightarrow> (web_request \<Rightarrow> server \<Rightarrow> server \<times> 'b answer) \<Rightarrow> web_request \<Rightarrow> server \<Rightarrow> server \<times> 'b answer" where
  "with_method m h r s = (if hqMethod r \<noteq> m then (s, bad_method) else h r s)"

section \<open>Pages and probes\<close>

definition handleRoot :: "web_request \<Rightarrow> server \<Rightarrow> server \<times> api_reply answer" where
  "handleRoot r s =
     (if hqPath r \<noteq> ''/'' then (s, not_found)
      else (let accept = hqHeader r ''Accept''
            in (s, reply 200 (RootPage (sublist ''application/json'' accept \<and> \<not> sublist ''text/html'' accept)))))"

definition handleWizard :: "web_request \<Rightarrow> server \<Rightarrow> server \<times> api_reply answer" where
  "handleWizard r s =
     (let path = hqPath r
      in if path \<notin> {''/wizard'', ''/app'', ''/wizard/'', ''/app/''} then (s, not_found)
         else if suffix ''/'' path then (s, reply 302 (WizardMoved (trim_suffix ''/'' path)))
         else (s, reply 200 WizardPage))"

definition handleHealth :: "web_request \<Rightarrow> server \<Rightarrow> server \<times> api_reply answer" where
  "handleHealth r s = (s, reply 200 (Health (CountWebhookOutbox (sv_mem s)) (AdminStats (sv_world s) [])))"

definition handleReadyz :: "string option \<Rightarrow> web_request \<Rightarrow> server \<Rightarrow> server \<times> api_reply answer" where
  "handleReadyz ping r s =
     (case ping of
        Some err \<Rightarrow> (s, fail 503 err)
      | None \<Rightarrow> (s, reply 200 (Ready (CountWebhookOutbox (sv_mem s)) (AdminStats (sv_world s) []))))"

definition handleMetrics :: "web_env \<Rightarrow> web_request \<Rightarrow> server \<Rightarrow> server \<times> api_reply answer" where
  "handleMetrics e r s =
     (let tok = trim_space (cfMetricsToken (we_cfg e)); h = hqHeader r ''Authorization''
      in if hqMethod r \<noteq> ''GET'' then (s, bad_method)
         else if tok \<noteq> [] \<and> \<not> (prefix ''Bearer '' h \<and> trim_prefix ''Bearer '' h = tok) \<and> query r ''token'' \<noteq> tok
         then (s, fail 401 ''metrics token required'')
         else (s, reply 200 (Metrics (CountWebhookOutbox (sv_mem s)) (AdminStats (sv_world s) []))))"

definition handleRuntimeCheck :: "web_request \<Rightarrow> server \<Rightarrow> server \<times> api_reply answer" where
  "handleRuntimeCheck r s = (s, reply 200 RuntimeCheck)"

definition handleModules :: "web_request \<Rightarrow> server \<Rightarrow> server \<times> api_reply answer" where
  "handleModules r s = (if hqMethod r \<noteq> ''GET'' then (s, bad_method) else (s, reply 200 (Modules Registry)))"

definition handleProviderCatalog :: "web_request \<Rightarrow> server \<Rightarrow> server \<times> api_reply answer" where
  "handleProviderCatalog r s = (s, reply 200 (ProviderCatalog Provider_Catalog))"

definition handleConnectorCatalog :: "web_request \<Rightarrow> server \<Rightarrow> server \<times> api_reply answer" where
  "handleConnectorCatalog r s =
     (if hqMethod r \<noteq> ''GET'' then (s, bad_method) else (s, reply 200 (ConnectorCatalog Connector_Catalog)))"

section \<open>The table of routes\<close>

abbreviation (input) page :: "(web_request \<Rightarrow> server \<Rightarrow> server \<times> api_reply answer) \<Rightarrow> ('c, 'w) route" where
  "page h \<equiv> open_route (\<lambda>b. b) h"

definition open_table :: "('c, 'k, 'w) api_deps \<Rightarrow> (string \<times> ('c, 'w) route) list" where
  "open_table d =
     (let e = ad_env d; get = with_method ''GET''
      in [(''/'', page (get handleRoot)),
          (''/wizard'', page (get handleWizard)),
          (''/wizard/'', page (get handleWizard)),
          (''/app'', page (get handleWizard)),
          (''/app/'', page (get handleWizard)),
          (''/healthz'', page (get handleHealth)),
          (''/readyz'', page (get (handleReadyz (ad_ping d)))),
          (''/metrics'', page (handleMetrics e)),
          (''/v1/runtime/check'', page (get handleRuntimeCheck)),
          (''/v1/auth/register'', open_route Accounts (with_method ''POST'' (handleRegister (ad_accounts d) e))),
          (''/v1/auth/login'', open_route Accounts (with_method ''POST'' (handleLogin (ad_accounts d) e))),
          (''/v1/auth/refresh'', open_route Accounts (with_method ''POST'' (handleRefresh (ad_accounts d) e))),
          (''/v1/modules'', page (get handleModules)),
          (''/v1/webhooks/stripe'', open_route Stage (handleStripeWebhook (ad_stage_deps d) e)),
          (''/v1/providers/catalog'', page (get handleProviderCatalog)),
          (''/v1/connectors/catalog'', page (get handleConnectorCatalog))])"

definition admin_table :: "('c, 'k, 'w) api_deps \<Rightarrow> (string \<times> ('c, 'w) route) list" where
  "admin_table d =
     (let e = ad_env d; xb = ad_admin d; jb = ad_jobs d
      in [(''/v1/admin/users'', admin_route e Admins (routeAdminUsersRoot xb e)),
          (''/v1/admin/users/'', admin_route e Admins (routeAdminUsers xb e)),
          (''/v1/admin/audit'', admin_route e Admins handleAdminAudit),
          (''/v1/admin/policy'', admin_route e Admins handleAdminPolicy),
          (''/v1/admin/jobs'', admin_route e Jobs (handleAdminJobsList jb e)),
          (''/v1/admin/jobs/'', admin_route e Jobs (routeAdminJobsSub jb e)),
          (''/v1/admin/job-webhooks'', admin_route e Jobs (handleAdminJobWebhooksList e)),
          (''/v1/admin/job-webhooks/'', admin_route e Jobs (routeAdminJobWebhooksSub e))])"

definition user_table :: "('c, 'k, 'w) api_deps \<Rightarrow> (string \<times> ('c, 'w) route) list" where
  "user_table d =
     (let e = ad_env d; ab = ad_accounts d; jb = ad_jobs d; db = ad_drives d; dd = ad_drive_deps d;
          rb = ad_resources d; sv = ds_providers (dd_drives dd); tb = ad_stage d; sd = ad_stage_deps d
      in [(''/v1/auth/logout'', auth_route e Accounts (handleLogout ab e)),
          (''/v1/me'', auth_route e Accounts handleMe),
          (''/v1/me/password'', auth_route e Accounts (handleChangePassword ab e)),
          (''/v1/agents'', auth_route e Accounts (routeAgentsRoot ab e)),
          (''/v1/agents/'', auth_route e Accounts (routeAgentsSub ab e)),
          (''/v1/memory'', auth_route e Stage (routeMemoryRoot tb sd e)),
          (''/v1/memory/search'', auth_route e Stage (routeMemorySearch tb sd e)),
          (''/v1/memory/'', auth_route e Stage (routeMemorySub e)),
          (''/v1/marketplace'', auth_route e Stage (routeMarketplaceRoot tb sd e)),
          (''/v1/marketplace/'', auth_route e Stage (routeMarketplaceSub sd e)),
          (''/v1/purchases'', auth_route e Stage routePurchases),
          (''/v1/purchases/'', auth_route e Stage (routePurchasesSub tb)),
          (''/v1/lineage'', auth_route e Stage (routeLineage tb e)),
          (''/v1/graph'', auth_route e Stage (routeGraph tb sd e)),
          (''/v1/connectors'', auth_route e Stage (routeConnectorsRoot tb sd e)),
          (''/v1/connectors/'', auth_route e Stage routeConnectorsSub),
          (''/v1/providers'', auth_route e Resources (routeProvidersRoot rb sv e)),
          (''/v1/providers/'', auth_route e Resources (routeProvidersSub sv (ad_prober d) e)),
          (''/v1/drives'', auth_route e Drives (routeDrivesRoot db dd e)),
          (''/v1/drives/'', auth_route e Drives (routeDrivesSub db dd e)),
          (''/v1/bindings'', auth_route e Resources (routeBindingsRoot rb (dd_drives dd) e)),
          (''/v1/bindings/'', auth_route e Resources (routeBindingsSub rb dd e)),
          (''/v1/sessions/refresh'', auth_route e Resources (handleSessionRefresh rb dd e)),
          (''/v1/jobs'', auth_route e Jobs (routeJobsRoot jb e)),
          (''/v1/jobs/'', auth_route e Jobs (routeJobsSub jb e)),
          (''/v1/devices'', auth_route e Resources (routeDevicesRoot rb e)),
          (''/v1/devices/'', auth_route e Resources routeDevicesSub)])"

definition workspace_table :: "('c, 'k, 'w) api_deps \<Rightarrow> (string \<times> ('c, 'w) route) list" where
  "workspace_table d =
     (if ad_platform_s3 d
      then [(''/v1/workspaces'', workspace_route (ad_env d) (routeWorkspacesRoot (ad_workspace d) (ad_workspace_deps d) (ad_env d))),
            (''/v1/workspaces/'', workspace_route (ad_env d) (routeWorkspaceSub (ad_workspace d) (ad_workspace_deps d) (ad_env d)))]
      else [])"

definition route_table :: "('c, 'k, 'w) api_deps \<Rightarrow> (string \<times> ('c, 'w) route) list" where
  "route_table d = open_table d @ admin_table d @ user_table d @ workspace_table d"

text \<open>A pattern that ends in a slash matches the paths below it; the longest match wins.\<close>

definition pattern_matches :: "string \<Rightarrow> string \<Rightarrow> bool" where
  "pattern_matches pat path \<longleftrightarrow> pat = path \<or> suffix ''/'' pat \<and> prefix pat path"

fun longest_match :: "string \<Rightarrow> (string \<times> 'h) list \<Rightarrow> (string \<times> 'h) option" where
  "longest_match path [] = None"
| "longest_match path ((pat, h) # rest) =
     (case longest_match path rest of
        None \<Rightarrow> if pattern_matches pat path then Some (pat, h) else None
      | Some (pat2, h2) \<Rightarrow>
          if pattern_matches pat path \<and> length pat \<ge> length pat2 then Some (pat, h) else Some (pat2, h2))"

definition route_request :: "('c, 'k, 'w) api_deps \<Rightarrow> ('c, 'w) route" where
  "route_request d r a =
     (case longest_match (hqPath r) (route_table d) of
        None \<Rightarrow> (a, not_found)
      | Some (pat, h) \<Rightarrow> h r a)"

section \<open>Middleware\<close>

type_synonym headers = "string gomap"

record 'b full_answer =
  faHeaders :: headers
  faStatus :: int
  faBody :: "string + 'b option"

definition withSecurityHeaders :: "bool \<Rightarrow> headers \<Rightarrow> headers" where
  "withSecurityHeaders hsts h0 =
     (let h = fold (\<lambda>(k, v). gset k v)
                [(''X-Content-Type-Options'', ''nosniff''), (''X-Frame-Options'', ''DENY''),
                 (''Referrer-Policy'', ''no-referrer''),
                 (''Permissions-Policy'', ''geolocation=(), microphone=(), camera=()'')] h0;
          h = (if gget h ''Cache-Control'' = None then gset ''Cache-Control'' ''no-store'' h else h)
      in if hsts then gset ''Strict-Transport-Security'' ''max-age=31536000; includeSubDomains'' h else h)"

definition cors_origins :: "environment \<Rightarrow> string list" where
  "cors_origins env =
     (let raw = trim_space (env ''AI_CLOUDHUB_CORS_ORIGINS'')
      in if raw = [] then [] else filter (\<lambda>p. p \<noteq> []) (map trim_space (split_c (CHR '','') raw)))"

definition originAllowed :: "string \<Rightarrow> string list \<Rightarrow> bool" where
  "originAllowed origin allowed \<longleftrightarrow> origin \<in> set allowed"

definition cors_headers :: "string list \<Rightarrow> string \<Rightarrow> headers \<Rightarrow> headers" where
  "cors_headers allowed origin h0 =
     (let h = (if ''*'' \<in> set allowed then gset ''Access-Control-Allow-Origin'' ''*'' h0
               else if origin \<noteq> [] \<and> originAllowed origin allowed
               then gset ''Vary'' ''Origin'' (gset ''Access-Control-Allow-Origin'' origin h0) else h0)
      in fold (\<lambda>(k, v). gset k v)
           [(''Access-Control-Allow-Methods'', ''GET, POST, PUT, PATCH, DELETE, OPTIONS''),
            (''Access-Control-Allow-Headers'', ''Authorization, Content-Type, X-Request-ID''),
            (''Access-Control-Expose-Headers'', ''X-Request-ID''),
            (''Access-Control-Max-Age'', ''86400'')] h)"

text \<open>The handler with its CORS layer; a preflight request is answered without it.\<close>

definition withCORS :: "environment \<Rightarrow> ('c, 'w) route \<Rightarrow> web_request \<Rightarrow> headers \<Rightarrow> ('c, 'w) api_state
    \<Rightarrow> ('c, 'w) api_state \<times> api_reply full_answer" where
  "withCORS env next r h0 a =
     (let allowed = cors_origins env;
          h = (if allowed = [] then h0 else cors_headers allowed (hqHeader r ''Origin'') h0)
      in if allowed \<noteq> [] \<and> hqMethod r = ''OPTIONS''
         then (a, \<lparr>faHeaders = h, faStatus = 204, faBody = Inr None\<rparr>)
         else (case next r a of
                 (a1, code, Inl msg) \<Rightarrow>
                   (a1, \<lparr>faHeaders = (if code = 429 then gset ''Retry-After'' ''1'' h else h), faStatus = code, faBody = Inl msg\<rparr>)
               | (a1, code, Inr b) \<Rightarrow> (a1, \<lparr>faHeaders = h, faStatus = code, faBody = Inr (Some b)\<rparr>)))"

definition request_id :: "web_env \<Rightarrow> web_request \<Rightarrow> string" where
  "request_id e r =
     (let i = trim_space (hqHeader r ''X-Request-ID'') in if i = [] then dr_id (we_draw e 9) else i)"

definition serve_request :: "('c, 'k, 'w) api_deps \<Rightarrow> web_request \<Rightarrow> ('c, 'w) api_state
    \<Rightarrow> ('c, 'w) api_state \<times> api_reply full_answer" where
  "serve_request d r a =
     (let e = ad_env d
      in withCORS (cx_env (we_ctx e)) (route_request d) r
           (withSecurityHeaders (cfHSTS (we_cfg e)) [(''X-Request-ID'', request_id e r)]) a)"

end
