(* ===== verification/Tenant_Frames.thy ===== *)
theory Tenant_Frames
  imports Http_Router Provider_Properties Drive_Properties Job_Machine
begin

text \<open>
  What a call on behalf of one user leaves alone. \<open>others_kept u m m'\<close> says that every row of another
  user in the tables of users, providers, drives, bindings, devices, jobs, agents, snapshots, memories,
  listings, purchases and connectors is the same before and after. Each operation of the services keeps
  them; a creation needs an identifier that is not in use.
\<close>

named_theorems frames \<open>operations that keep the rows of other users\<close>

definition same_rows :: "('v \<Rightarrow> string) \<Rightarrow> string \<Rightarrow> 'v gomap \<Rightarrow> 'v gomap \<Rightarrow> bool" where
  "same_rows owner u t t' \<longleftrightarrow> (\<forall>i v. owner v \<noteq> u \<longrightarrow> (gget t' i = Some v \<longleftrightarrow> gget t i = Some v))"

definition others_kept :: "string \<Rightarrow> memory \<Rightarrow> memory \<Rightarrow> bool" where
  "others_kept u m m' \<longleftrightarrow>
     same_rows uID u (m_users m) (m_users m') \<and>
     same_rows pUserID u (m_providers m) (m_providers m') \<and>
     same_rows dUserID u (m_drives m) (m_drives m') \<and>
     same_rows bUserID u (m_bindings m) (m_bindings m') \<and>
     same_rows vUserID u (m_devices m) (m_devices m') \<and>
     same_rows jUserID u (m_jobs m) (m_jobs m') \<and>
     same_rows agOwnerUserID u (m_agents m) (m_agents m') \<and>
     same_rows snUserID u (m_snapshots m) (m_snapshots m') \<and>
     same_rows meUserID u (m_memories m) (m_memories m') \<and>
     same_rows miPublisherUserID u (m_market m) (m_market m') \<and>
     same_rows puUserID u (m_purchases m) (m_purchases m') \<and>
     same_rows cbUserID u (m_connectors m) (m_connectors m')"

lemma same_rows_refl [simp]: "same_rows owner u t t"
  by (simp add: same_rows_def)

lemma same_rows_trans: "same_rows owner u t1 t2 \<Longrightarrow> same_rows owner u t2 t3 \<Longrightarrow> same_rows owner u t1 t3"
  by (simp add: same_rows_def)

lemma same_rows_gset:
  assumes "owner v = u" "\<And>w. gget t i = Some w \<Longrightarrow> owner w = u"
  shows "same_rows owner u t (gset i v t)"
  using assms by (auto simp: same_rows_def)

lemma same_rows_gdel: "(\<And>w. gget t i = Some w \<Longrightarrow> owner w = u) \<Longrightarrow> same_rows owner u t (gdel i t)"
  by (auto simp: same_rows_def)

lemma same_rows_update_first:
  "update_first P f t = Some t' \<Longrightarrow> (\<And>v. P v \<Longrightarrow> owner v = u \<and> owner (f v) = u) \<Longrightarrow> same_rows owner u t t'"
  by (induction t arbitrary: t') (force simp: same_rows_def split: if_splits)+

lemma others_kept_refl [simp]: "others_kept u m m"
  by (simp add: others_kept_def)

lemma others_kept_trans: "others_kept u m1 m2 \<Longrightarrow> others_kept u m2 m3 \<Longrightarrow> others_kept u m1 m3"
  by (simp add: others_kept_def) (meson same_rows_trans)

lemma others_kept_tables [simp]:
  "others_kept u m (m\<lparr>m_users := a1\<rparr>) \<longleftrightarrow> same_rows uID u (m_users m) a1"
  "others_kept u m (m\<lparr>m_providers := a2\<rparr>) \<longleftrightarrow> same_rows pUserID u (m_providers m) a2"
  "others_kept u m (m\<lparr>m_drives := a3\<rparr>) \<longleftrightarrow> same_rows dUserID u (m_drives m) a3"
  "others_kept u m (m\<lparr>m_bindings := a4\<rparr>) \<longleftrightarrow> same_rows bUserID u (m_bindings m) a4"
  "others_kept u m (m\<lparr>m_devices := a5\<rparr>) \<longleftrightarrow> same_rows vUserID u (m_devices m) a5"
  "others_kept u m (m\<lparr>m_jobs := a6\<rparr>) \<longleftrightarrow> same_rows jUserID u (m_jobs m) a6"
  "others_kept u m (m\<lparr>m_agents := a7\<rparr>) \<longleftrightarrow> same_rows agOwnerUserID u (m_agents m) a7"
  "others_kept u m (m\<lparr>m_snapshots := a8\<rparr>) \<longleftrightarrow> same_rows snUserID u (m_snapshots m) a8"
  "others_kept u m (m\<lparr>m_memories := a9\<rparr>) \<longleftrightarrow> same_rows meUserID u (m_memories m) a9"
  "others_kept u m (m\<lparr>m_market := a10\<rparr>) \<longleftrightarrow> same_rows miPublisherUserID u (m_market m) a10"
  "others_kept u m (m\<lparr>m_purchases := a11\<rparr>) \<longleftrightarrow> same_rows puUserID u (m_purchases m) a11"
  "others_kept u m (m\<lparr>m_connectors := a12\<rparr>) \<longleftrightarrow> same_rows cbUserID u (m_connectors m) a12"
  by (simp_all add: others_kept_def)

lemma others_kept_rest [simp]:
  "others_kept u m (m'\<lparr>m_audits := b1\<rparr>) \<longleftrightarrow> others_kept u m m'"
  "others_kept u m (m'\<lparr>m_revokedJTI := b2\<rparr>) \<longleftrightarrow> others_kept u m m'"
  "others_kept u m (m'\<lparr>m_refresh := b3\<rparr>) \<longleftrightarrow> others_kept u m m'"
  "others_kept u m (m'\<lparr>m_lineage := b4\<rparr>) \<longleftrightarrow> others_kept u m m'"
  "others_kept u m (m'\<lparr>m_graph := b5\<rparr>) \<longleftrightarrow> others_kept u m m'"
  "others_kept u m (m'\<lparr>m_webhooks := b6\<rparr>) \<longleftrightarrow> others_kept u m m'"
  by (simp_all add: others_kept_def)

section \<open>Accounts\<close>

lemma Audit_frame [simp]: "others_kept u m (Audit dr m' a b c d) \<longleftrightarrow> others_kept u m m'"
  by (simp add: Audit_def AuditAgent_def AppendAudit_def Let_def)

lemma AuditAgent_frame [simp]: "others_kept u m (AuditAgent dr m' a b c d f) \<longleftrightarrow> others_kept u m m'"
  by (simp add: AuditAgent_def AppendAudit_def Let_def)

lemma RevokeRefreshTokensForUser_frame [simp]:
  "others_kept u m (RevokeRefreshTokensForUser m' i) \<longleftrightarrow> others_kept u m m'"
  by (simp add: RevokeRefreshTokensForUser_def)

lemma denylist_read_keeps [frames]: "IsJTIRevoked now m j = (m', b) \<Longrightarrow> others_kept u m m'"
  by (auto simp: IsJTIRevoked_def split: if_splits option.splits)

lemma RevokeRefreshToken_frame [frames]: "RevokeRefreshToken m i = Inr m' \<Longrightarrow> others_kept u m m'"
  by (auto simp: RevokeRefreshToken_def split: if_splits option.splits)

lemma RevokeJTI_frame [frames]: "RevokeJTI now m j t = Inr m' \<Longrightarrow> others_kept u m m'"
  by (auto simp: RevokeJTI_def split: if_splits)

lemma refresh_revocation_keeps [simp]: "others_kept u m (RevokeRefresh s now m raw)"
  by (auto simp: RevokeRefresh_def Let_def dest: RevokeRefreshToken_frame split: sum.split)

lemma BumpTokenVersion_frame [frames]: "BumpTokenVersion m u = Inr (m', n) \<Longrightarrow> others_kept u m m'"
  by (auto simp: BumpTokenVersion_def elim!: same_rows_update_first split: option.splits)

lemma password_update_keeps [frames]: "UpdateUserPassword m u h = Inr m' \<Longrightarrow> others_kept u m m'"
  by (auto simp: UpdateUserPassword_def elim!: same_rows_update_first split: option.splits)

lemma bump_quietly_frame: "others_kept u m (bump_quietly m u)"
  by (auto simp: bump_quietly_def dest: BumpTokenVersion_frame split: sum.split)

lemma ChangePassword_frame [frames]: "ChangePassword sv m u a b = (m', r) \<Longrightarrow> others_kept u m m'"
  by (auto simp: ChangePassword_def dest!: password_update_keeps
      intro: others_kept_trans [OF _ bump_quietly_frame] split: sum.splits if_splits)

lemma token_read_keeps [frames]: "parsePayload sv now m tok = (m', r) \<Longrightarrow> others_kept u m m'"
  by (auto simp: parsePayload_def Let_def dest: denylist_read_keeps
      split: list.splits option.splits if_splits sum.splits prod.splits)

lemma ParsePrincipal_frame [frames]: "ParsePrincipal sv now m tok = (m', r) \<Longrightarrow> others_kept u m m'"
  by (auto simp: ParsePrincipal_def dest: token_read_keeps split: prod.splits sum.splits)

lemma Logout_frame:
  assumes "Logout sv now m tok raw = (m', r)" "\<And>m1 p. parsePayload sv now m tok = (m1, Inr p) \<Longrightarrow> tpUserID p = u"
  shows "others_kept u m m'"
proof -
  obtain m1 q where q: "parsePayload sv now m tok = (m1, q)" by fastforce
  then have m1: "others_kept u m m1" by (rule token_read_keeps)
  show ?thesis
  proof (cases q)
    case (Inl err)
    with q m1 assms(1) show ?thesis by (simp add: Logout_def)
  next
    case (Inr p)
    define m2 where "m2 = (if raw = [] then m1 else RevokeRefresh sv now m1 raw)"
    have m2: "others_kept u m m2" using m1 by (auto simp: m2_def intro: others_kept_trans)
    have u: "tpUserID p = u" using q Inr by (auto intro: assms(2))
    have "others_kept u m2 m'"
      using assms(1) q Inr u by (auto simp: Logout_def Let_def simp flip: m2_def
          dest: RevokeJTI_frame BumpTokenVersion_frame split: if_splits sum.splits)
    with m2 show ?thesis by (rule others_kept_trans)
  qed
qed

section \<open>Agents, providers, drives and devices\<close>

lemma Agent_Create_frame [frames]:
  assumes "Agent_Create dr m u inp = (m', r)" "gget (m_agents m) (dr_id dr) = None"
  shows "others_kept u m m'"
  using assms by (auto simp: Agent_Create_def CreateAgent_def Let_def intro!: same_rows_gset
      split: if_splits sum.splits)

lemma Agent_Update_frame [frames]:
  assumes "Agent_Update m u i inp = (m', r)"
  shows "others_kept u m m'"
  using assms patched_keeps [of m u inp]
  by (auto simp: Agent_Update_def UpdateAgent_def agents.get_iff Let_def intro!: same_rows_gset
      split: if_splits sum.splits option.splits)

lemma Agent_Delete_frame [frames]: "Agent_Delete m u i = (m', r) \<Longrightarrow> others_kept u m m'"
  by (auto simp: Agent_Delete_def DeleteAgent_def intro!: same_rows_gdel split: if_splits sum.splits option.splits)

lemma Provider_Create_frame [frames]:
  assumes "Provider_Create sv dr m u inp = (m', r)" "gget (m_providers m) (dr_id dr) = None"
  shows "others_kept u m m'"
proof (cases r)
  case (Inl e)
  with assms(1) show ?thesis by (auto simp: Provider_Create_def CreateProvider_def split: if_splits sum.splits)
next
  case (Inr rec)
  show ?thesis
  proof (rule Provider_Create_Inr [OF assms(1) [unfolded Inr]])
    fix x q
    assume x: "seal_record sv dr (new_record dr u inp x) = Inr rec" "recordToStore sv rec = Inr q" "CreateProvider m q = Inr m'"
    then have "pID q = dr_id dr" "pUserID q = u"
      using seal_record_keeps recordToStore_Inr by (auto simp: new_record_def)
    with x(3) assms(2) show ?thesis by (auto simp: CreateProvider_def intro!: same_rows_gset)
  qed
qed

lemma Provider_Delete_frame [frames]: "Provider_Delete m u i = (m', r) \<Longrightarrow> others_kept u m m'"
  by (auto simp: Provider_Delete_def DeleteProvider_def intro!: same_rows_gdel split: if_splits sum.splits option.splits)

lemma Device_Register_frame [frames]: "Device_Register dr m u inp = (m', r) \<Longrightarrow> others_kept u m m'"
  by (auto simp: Device_Register_def device_row_def UpsertDevice_def Let_def intro!: same_rows_gset
      split: if_splits sum.splits option.splits)

lemma Drive_Create_frame [frames]:
  assumes "Drive_Create sv dr m u inp = (m', r)" "gget (m_drives m) (dr_id dr) = None"
  shows "others_kept u m m'"
  using assms new_drive_Inr [of sv dr m u inp]
  by (auto simp: Drive_Create_def CreateDrive_def intro!: same_rows_gset split: sum.splits)

lemma UpdateDrive_frame: "UpdateDrive m d = Inr m' \<Longrightarrow> dUserID d = u \<Longrightarrow> others_kept u m m'"
  by (auto simp: UpdateDrive_def updated_drive_def intro!: same_rows_gset split: if_splits option.splits)

lemma Drive_Delete_frame [frames]: "Drive_Delete m u i = (m', r) \<Longrightarrow> others_kept u m m'"
  by (auto simp: Drive_Delete_def DeleteDrive_def intro!: same_rows_gdel split: if_splits sum.splits option.splits)

lemma set_alias_owner: "set_alias m u raw c = Inr d \<Longrightarrow> dUserID d = dUserID c"
  by (auto simp: set_alias_def and_then_Inr)

lemma patched_drive_owner:
  assumes "patched_drive m u inp cur = Inr d"
  shows "dUserID d = dUserID cur"
proof -
  define c1 where "c1 = (if trim_space (duName inp) \<noteq> [] then cur\<lparr>dName := trim_space (duName inp)\<rparr> else cur)"
  obtain c2 where c2: "(if duSetAlias inp then set_alias m u (duAlias inp) c1 else Inr c1) = Inr c2"
    and r2: "(let c3 = (case duPrefix inp of None \<Rightarrow> c2 | Some p \<Rightarrow> c2\<lparr>dPrefix := trim_c (CHR ''/'') (trim_space p)\<rparr>);
                  mp = trim_space (duMountPoint inp)
              in and_then (if mp \<noteq> [] then and_then (validateMountPoint mp) (\<lambda>_. Inr (c3\<lparr>dMountPoint := mp\<rparr>)) else Inr c3)
                   (\<lambda>c4. Inr (case duRegion inp of None \<Rightarrow> c4 | Some r \<Rightarrow> c4\<lparr>dRegion := trim_space r\<rparr>))) = Inr d"
    using assms unfolding patched_drive_def Let_def c1_def and_then_Inr by blast
  have "dUserID c1 = dUserID cur" by (simp add: c1_def)
  moreover have "dUserID c2 = dUserID c1" using c2 set_alias_owner by (auto split: if_splits)
  moreover have "dUserID d = dUserID c2"
    using r2 by (auto simp: Let_def and_then_Inr split: if_splits option.splits)
  ultimately show ?thesis by simp
qed

lemma restored_drive_owner: "restored_drive m u snap cur = Inr d \<Longrightarrow> dUserID d = dUserID cur"
  by (auto simp: restored_drive_def and_then_Inr Let_def split: if_splits option.splits sum.splits)

lemma Drive_Get_owner: "Drive_Get m u i = Inr d \<Longrightarrow> dUserID d = u"
  by (auto simp: Drive_Get_def drives.get_iff split: sum.splits)

lemma Drive_Update_frame [frames]:
  assumes "Drive_Update m u i inp = (m', r)"
  shows "others_kept u m m'"
proof (cases "and_then (Drive_Get m u i) (patched_drive m u inp)")
  case (Inl e)
  with assms show ?thesis by (simp add: Drive_Update_def)
next
  case (Inr d)
  then obtain cur where "Drive_Get m u i = Inr cur" "patched_drive m u inp cur = Inr d" by (auto simp: and_then_Inr)
  then have "dUserID d = u" by (simp add: patched_drive_owner Drive_Get_owner)
  with Inr assms show ?thesis by (auto simp: Drive_Update_def intro: UpdateDrive_frame split: sum.splits)
qed

lemma Drive_CreateSnapshot_frame [frames]:
  assumes "Drive_CreateSnapshot env ob dr m u i inp = (m', r)" "gget (m_snapshots m) (dr_id dr) = None"
  shows "others_kept u m m'"
proof (cases "new_snapshot env ob dr m u i inp")
  case (Inl e)
  with assms(1) show ?thesis by (simp add: Drive_CreateSnapshot_def)
next
  case (Inr sn)
  then have "snID sn = dr_id dr" "snUserID sn = u" by (auto elim: new_snapshot_Inr)
  with Inr assms show ?thesis by (auto simp: Drive_CreateSnapshot_def CreateSnapshot_def intro!: same_rows_gset)
qed

lemma Drive_DeleteSnapshot_frame [frames]: "Drive_DeleteSnapshot m u i j = (m', r) \<Longrightarrow> others_kept u m m'"
  by (auto simp: Drive_DeleteSnapshot_def DeleteSnapshot_def intro!: same_rows_gdel split: if_splits sum.splits option.splits)

lemma RestoreSnapshot_frame [frames]: "RestoreSnapshot env m u i j b = (m', r) \<Longrightarrow> others_kept u m m'"
  by (auto simp: RestoreSnapshot_def and_then_Inr dest!: restored_drive_owner Drive_Get_owner
      intro: UpdateDrive_frame split: if_splits sum.splits option.splits json.splits)

lemma Drive_CreateBinding_frame [frames]:
  assumes "Drive_CreateBinding sv dr m u inp = (m', r)" "gget (m_bindings m) (dr_id dr) = None"
  shows "others_kept u m m'"
  using assms by (auto simp: Drive_CreateBinding_def new_binding_def CreateBinding_def and_then_Inr Let_def
      intro!: same_rows_gset split: if_splits sum.splits)

lemma UpdateBinding_frame: "UpdateBinding m b = Inr m' \<Longrightarrow> bUserID b = u \<Longrightarrow> others_kept u m m'"
  by (auto simp: UpdateBinding_def intro!: same_rows_gset split: if_splits option.splits)

lemma Drive_GetBinding_owner: "Drive_GetBinding m u i = Inr b \<Longrightarrow> bUserID b = u"
  by (auto simp: Drive_GetBinding_def bindings.get_iff split: sum.splits)

lemma SetDesired_frame [frames]: "SetDesired now m u i x = (m', r) \<Longrightarrow> others_kept u m m'"
  by (auto simp: SetDesired_def Let_def dest!: Drive_GetBinding_owner intro: UpdateBinding_frame split: sum.splits)

lemma ReportActual_frame [frames]: "ReportActual now m u i x y = (m', r) \<Longrightarrow> others_kept u m m'"
  by (auto simp: ReportActual_def Let_def dest!: Drive_GetBinding_owner intro: UpdateBinding_frame split: sum.splits)

section \<open>Jobs\<close>

lemma UpdateJob_frame: "UpdateJob m j = Inr m' \<Longrightarrow> jUserID j = u \<Longrightarrow> others_kept u m m'"
  by (auto simp: UpdateJob_def intro!: same_rows_gset split: if_splits option.splits)

lemma EnqueueWebhookOutbox_frame: "EnqueueWebhookOutbox m e = Inr m' \<Longrightarrow> others_kept u m m'"
  by (auto simp: EnqueueWebhookOutbox_def split: if_splits option.splits)

lemma notify_frame: "others_kept u m (wd_mem (notifyJobTerminal c w v)) \<longleftrightarrow> others_kept u m (wd_mem w)"
proof (cases "EnqueueWebhookOutbox (wd_mem w) (outbox_row c (cx_uuid c (wd_next w)) v)")
  case (Inr m')
  then have "\<exists>x. m' = (wd_mem w)\<lparr>m_webhooks := x\<rparr>"
    by (auto simp: EnqueueWebhookOutbox_def split: if_splits option.splits)
  with Inr show ?thesis by (auto simp: notifyJobTerminal_def Let_def)
qed (simp add: notifyJobTerminal_def Let_def)

lemma finish_job_frame:
  assumes "jUserID sj = u"
  shows "others_kept u (wd_mem w) (wd_mem (fst (finish_job c w sj)))"
  using assms by (auto simp: finish_job_def notify_frame Let_def intro: UpdateJob_frame split: sum.splits)

lemma next_job_owner [simp]:
  "jUserID (released_job c x j) = jUserID j" "jUserID (failed_job c n x j) = jUserID j"
  "jUserID (completed_job c ci j) = jUserID j" "jUserID (cancelled_job c x j) = jUserID j"
  using same_request_id [OF released_job_simps(1)] same_request_id [OF failed_job_simps(1)]
    same_request_id [OF completed_job_simps(1)] same_request_id [OF cancelled_job_simps(1)] by blast+

lemma GetJob_owner: "GetJob m u i = Inr j \<Longrightarrow> jUserID j = u"
  by (simp add: jobs.get_iff)

lemma Heartbeat_frame: "others_kept u (wd_mem w) (wd_mem (fst (Heartbeat c w u i)))"
  by (auto simp: Heartbeat_def Let_def dest!: GetJob_owner intro!: UpdateJob_frame split: sum.split)

lemma ReleaseToPending_frame: "others_kept u (wd_mem w) (wd_mem (fst (ReleaseToPending c w u i reason)))"
  by (auto simp: ReleaseToPending_def Let_def dest!: GetJob_owner intro!: UpdateJob_frame split: sum.split)

lemma failTimeout_frame: "others_kept u (wd_mem w) (wd_mem (fst (failTimeout c w u i n)))"
  by (auto simp: failTimeout_def dest!: GetJob_owner intro!: finish_job_frame split: sum.split)

lemma failMaxAttempts_frame: "others_kept u (wd_mem w) (wd_mem (fst (failMaxAttempts c w u i n k)))"
  by (auto simp: failMaxAttempts_def dest!: GetJob_owner intro!: finish_job_frame split: sum.split)

lemma Complete_frame: "others_kept u (wd_mem w) (wd_mem (fst (Complete c w u i ci)))"
  by (auto simp: Complete_def dest!: GetJob_owner intro!: finish_job_frame split: sum.split)

lemma Cancel_frame: "others_kept u (wd_mem w) (wd_mem (fst (Cancel c w u i)))"
  by (auto simp: Cancel_def cancelStoreJob_def dest!: GetJob_owner intro!: finish_job_frame split: sum.split)

lemma reclaim_step_frame: "others_kept u (wd_mem w) (wd_mem (fst (reclaim_step c u ts sj (w, n))))"
  by (simp add: reclaim_step_def count_ok_def failTimeout_frame failMaxAttempts_frame ReleaseToPending_frame)

lemma ReclaimStale_frame: "others_kept u (wd_mem w) (wd_mem (fst (ReclaimStale c w u)))"
proof -
  have "others_kept u (wd_mem w) (wd_mem (fst (fold (\<lambda>sj. reclaim_step c u (f sj) sj) js (w, n))))" for f js n
  proof (induction js arbitrary: w n)
    case (Cons j js)
    obtain w1 n1 where st: "reclaim_step c u (f j) j (w, n) = (w1, n1)" by fastforce
    have "others_kept u (wd_mem w) (wd_mem w1)" using reclaim_step_frame [of u w c "f j" j n] by (simp add: st)
    from others_kept_trans [OF this Cons.IH [of w1 n1]] show ?case by (simp add: st)
  qed simp
  then show ?thesis by (simp add: ReclaimStale_def)
qed

lemma ClaimPendingJob_frame: "ClaimPendingJob now m u i a r = Inr (m', j) \<Longrightarrow> others_kept u m m'"
  by (auto simp: ClaimPendingJob_def claimed_def Let_def intro!: same_rows_gset split: if_splits option.splits)

lemma claim_filtered_frame:
  "others_kept u (wd_mem w) (wd_mem (fst (claim_filtered c w u a r region allow recheck deny n js)))"
proof (induction js arbitrary: w deny n)
  case Nil
  then show ?case by simp
next
  case (Cons j js)
  show ?case
  proof (cases "ClaimPendingJob (cx_now c) (wd_mem w) u (jID j) a r")
    case (Inl e)
    with Cons show ?thesis by (cases "region = []") simp_all
  next
    case (Inr q)
    obtain m' cl where q: "q = (m', cl)" by fastforce
    let ?w = "w\<lparr>wd_mem := m'\<rparr>"
    have k: "others_kept u (wd_mem w) (wd_mem ?w)" using Inr q ClaimPendingJob_frame by simp
    obtain w2 res where rel: "ReleaseToPending c ?w u (jID cl) (recheck (jDriveID cl)) = (w2, res)" by fastforce
    have k2: "others_kept u (wd_mem w) (wd_mem w2)"
      using others_kept_trans [OF k ReleaseToPending_frame [of u ?w c "jID cl"]] rel by (metis fst_conv)
    have "others_kept u (wd_mem w) (wd_mem (fst (claim_filtered c w2 u a r region allow recheck d s js)))" for d s
      using others_kept_trans [OF k2 Cons.IH] .
    with Cons k k2 rel Inr q show ?thesis by (cases "region = []") (simp_all add: Let_def split: sum.split)
  qed
qed

lemma Claim_frame: "others_kept u (wd_mem w) (wd_mem (fst (Claim c w u i a r)))"
  by (auto simp: Claim_def Let_def ReclaimStale_frame dest!: ClaimPendingJob_frame
      intro: others_kept_trans [OF ReclaimStale_frame] split: sum.split)

lemma ClaimNextFiltered_frame:
  "others_kept u (wd_mem w) (wd_mem (fst (ClaimNextFiltered c w u a r region (Some (allow, recheck)))))"
  by (auto simp: ClaimNextFiltered_def Let_def ReclaimStale_frame
      intro: others_kept_trans [OF ReclaimStale_frame] claim_filtered_frame)

lemma Create_frame:
  assumes "gget (m_jobs (wd_mem w)) (cx_uuid c (wd_next w)) = None"
  shows "others_kept u (wd_mem w) (wd_mem (fst (Create c w u ci)))"
  using assms by (auto simp: Create_def CreateJob_def new_job_def Let_def intro!: same_rows_gset
      split: sum.split option.split)

text \<open>The same facts for a call whose result is known.\<close>

lemma job_call_frames [frames]:
  "Heartbeat c w u i = (w', r) \<Longrightarrow> others_kept u (wd_mem w) (wd_mem w')"
  "ReleaseToPending c w u i reason = (w', r) \<Longrightarrow> others_kept u (wd_mem w) (wd_mem w')"
  "Complete c w u i ci = (w', r) \<Longrightarrow> others_kept u (wd_mem w) (wd_mem w')"
  "Cancel c w u i = (w', r) \<Longrightarrow> others_kept u (wd_mem w) (wd_mem w')"
  "Claim c w u i a b = (w', r) \<Longrightarrow> others_kept u (wd_mem w) (wd_mem w')"
  "ClaimNextFiltered c w u a b region (Some (f, g)) = (w', r) \<Longrightarrow> others_kept u (wd_mem w) (wd_mem w')"
  using Heartbeat_frame [of u w c i] ReleaseToPending_frame [of u w c i reason] Complete_frame [of u w c i ci]
    Cancel_frame [of u w c i] Claim_frame [of u w c i a b] ClaimNextFiltered_frame [of u w c a b region f g]
  by simp_all

lemma Create_call_frame [frames]:
  "Create c w u ci = (w', r) \<Longrightarrow> gget (m_jobs (wd_mem w)) (cx_uuid c (wd_next w)) = None \<Longrightarrow>
   others_kept u (wd_mem w) (wd_mem w')"
  using Create_frame [of w c u ci] by simp

section \<open>Memories, marketplace, connectors\<close>

lemma Memory_Put_frame [frames]:
  assumes "Memory_Put vc dr m u inp = (m', r)" "gget (m_memories m) (dr_id dr) = None"
  shows "others_kept u m m'"
  using assms by (auto simp: Memory_Put_def new_entry_def CreateMemory_def and_then_Inr Let_def intro!: same_rows_gset
      split: if_splits sum.splits)

lemma Memory_Delete_frame [frames]: "Memory_Delete m u i = (m', r) \<Longrightarrow> others_kept u m m'"
  by (auto simp: Memory_Delete_def DeleteMemory_def intro!: same_rows_gdel split: if_splits sum.splits option.splits)

lemma Publish_frame [frames]:
  assumes "Publish e dr m u inp = (m', r)" "gget (m_market m) (dr_id dr) = None"
  shows "others_kept u m m'"
  using assms by (auto simp: Publish_def new_listing_def CreateMarketplaceItem_def and_then_Inr Let_def
      intro!: same_rows_gset split: if_splits sum.splits)

lemma Market_Delete_frame [frames]: "Market_Delete m u i = (m', r) \<Longrightarrow> others_kept u m m'"
  by (auto simp: Market_Delete_def DeleteMarketplaceItem_def intro!: same_rows_gdel
      split: if_splits sum.splits option.splits)

lemma UpdatePurchase_frame:
  "UpdatePurchase m p = Inr m' \<Longrightarrow> puUserID p = u \<Longrightarrow> (\<And>w. gget (m_purchases m) (puID p) = Some w \<Longrightarrow> puUserID w = u) \<Longrightarrow>
   others_kept u m m'"
  by (auto simp: UpdatePurchase_def intro!: same_rows_gset split: if_splits option.splits)

lemma Checkout_frame:
  assumes "Checkout e dr m u i = (m', r)" "gget (m_purchases m) (dr_id dr) = None"
  shows "others_kept u m m'"
  using assms by (auto simp: Checkout_def new_purchase_def CreatePurchase_def Let_def intro!: same_rows_gset
      split: if_splits sum.splits)

lemma with_session_frame:
  assumes "with_session m sid p = (m', p')" "gget (m_purchases m) (puID p) = Some p" "puUserID p = u"
  shows "others_kept u m m'"
  using assms by (auto simp: with_session_def Let_def intro: UpdatePurchase_frame split: if_splits sum.splits)

lemma Checkout_stored:
  assumes "Checkout e dr m u i = (m', Inr p)"
  shows "gget (m_purchases m') (puID p) = Some p \<and> puUserID p = u"
  using assms by (auto simp: Checkout_def new_purchase_def CreatePurchase_def Let_def split: if_splits sum.splits)

lemma CheckoutDetailed_frame [frames]:
  assumes "CheckoutDetailed e dr m u i = (m', r)" "gget (m_purchases m) (dr_id dr) = None"
  shows "others_kept u m m'"
proof -
  obtain m1 q where q: "Checkout e dr m u i = (m1, q)" by fastforce
  have k: "others_kept u m m1" using Checkout_frame [OF q assms(2)] .
  show ?thesis
  proof (cases q)
    case (Inl x)
    with q k assms(1) show ?thesis by (simp add: CheckoutDetailed_def)
  next
    case (Inr p)
    have s: "others_kept u m m2" if "with_session m1 sid p = (m2, p2)" for sid m2 p2
      using with_session_frame [OF that] Checkout_stored q Inr k by (auto intro: others_kept_trans)
    from q Inr k assms(1) show ?thesis
      by (auto simp: CheckoutDetailed_def Let_def dest: s split: if_splits sum.splits prod.splits)
  qed
qed

lemma WebhookPaid_frame [frames]:
  assumes "WebhookPaid m u i pref = (m', r)" "store_wf m"
  shows "others_kept u m m'"
proof (cases "GetPurchase m u i")
  case (Inl e)
  with assms(1) show ?thesis by (simp add: WebhookPaid_def)
next
  case (Inr p)
  then have p: "gget (m_purchases m) i = Some p" "puUserID p = u" by (simp_all add: purchases.get_iff)
  have "puID p = i" using keyed_gget [OF _ p(1)] store_wfD [OF assms(2)] by blast
  with p Inr assms(1) show ?thesis
    by (auto simp: WebhookPaid_def Let_def intro!: UpdatePurchase_frame split: sum.splits if_splits)
qed

lemma Connector_Create_frame [frames]:
  assumes "Connector_Create f dr m u inp = (m', r)" "gget (m_connectors m) (dr_id dr) = None"
  shows "others_kept u m m'"
  using assms by (auto simp: Connector_Create_def CreateConnector_def Let_def intro!: same_rows_gset
      split: if_splits sum.splits)

lemma Connector_Delete_frame [frames]: "Connector_Delete m u i = (m', r) \<Longrightarrow> others_kept u m m'"
  by (auto simp: Connector_Delete_def DeleteConnector_def intro!: same_rows_gdel
      split: if_splits sum.splits option.splits)

lemma Lineage_Record_frame [frames]: "Lineage_Record dr m i a b c d f = (m', r) \<Longrightarrow> others_kept u m m'"
  by (auto simp: Lineage_Record_def AppendLineage_def Let_def split: if_splits sum.splits)

lemma Graph_Link_frame [frames]: "Graph_Link h dr m i a b c d = (m', r) \<Longrightarrow> others_kept u m m'"
  by (auto simp: Graph_Link_def UpsertGraphEdge_def Let_def split: if_splits sum.splits)

end
