(* ===== verification/Http_Isolation.thy ===== *)
theory Http_Isolation
  imports Tenant_Frames
begin

text \<open>
  Tenant isolation of the API: each handler keeps the rows of the users other than the one its token
  belongs to. \<open>keeps e h\<close> says so of a handler; the routes are put together at the end.
\<close>

text \<open>The identifiers a request draws are not in use.\<close>

definition unused_id :: "memory \<Rightarrow> string \<Rightarrow> bool" where
  "unused_id m i \<longleftrightarrow>
     gget (m_providers m) i = None \<and> gget (m_drives m) i = None \<and> gget (m_bindings m) i = None \<and>
     gget (m_agents m) i = None \<and> gget (m_snapshots m) i = None \<and> gget (m_memories m) i = None \<and>
     gget (m_market m) i = None \<and> gget (m_purchases m) i = None \<and> gget (m_connectors m) i = None"

definition fresh_ids :: "web_env \<Rightarrow> world \<Rightarrow> bool" where
  "fresh_ids e w \<longleftrightarrow>
     store_wf (wd_mem w) \<and> gget (m_jobs (wd_mem w)) (cx_uuid (we_ctx e) (wd_next w)) = None \<and>
     (\<forall>k. unused_id (wd_mem w) (dr_id (we_draw e k)))"

lemma fresh_idsD [simp]:
  assumes "fresh_ids e w"
  shows "store_wf (wd_mem w)" "gget (m_jobs (wd_mem w)) (cx_uuid (we_ctx e) (wd_next w)) = None"
    "gget (m_providers (wd_mem w)) (dr_id (we_draw e k)) = None" "gget (m_drives (wd_mem w)) (dr_id (we_draw e k)) = None"
    "gget (m_bindings (wd_mem w)) (dr_id (we_draw e k)) = None" "gget (m_agents (wd_mem w)) (dr_id (we_draw e k)) = None"
    "gget (m_snapshots (wd_mem w)) (dr_id (we_draw e k)) = None" "gget (m_memories (wd_mem w)) (dr_id (we_draw e k)) = None"
    "gget (m_market (wd_mem w)) (dr_id (we_draw e k)) = None" "gget (m_purchases (wd_mem w)) (dr_id (we_draw e k)) = None"
    "gget (m_connectors (wd_mem w)) (dr_id (we_draw e k)) = None"
  using assms by (simp_all add: fresh_ids_def unused_id_def)

definition keeps :: "web_env \<Rightarrow> 'b handler \<Rightarrow> bool" where
  "keeps e h \<longleftrightarrow>
     (\<forall>p r s. fresh_ids e (sv_world s) \<longrightarrow> others_kept (prlUserID p) (sv_mem s) (sv_mem (fst (h p r s))))"

lemma keepsI:
  "(\<And>p r s. fresh_ids e (sv_world s) \<Longrightarrow> others_kept (prlUserID p) (sv_mem s) (sv_mem (fst (h p r s)))) \<Longrightarrow> keeps e h"
  by (simp add: keeps_def)

lemma keepsD:
  "keeps e h \<Longrightarrow> fresh_ids e (sv_world s) \<Longrightarrow> others_kept (prlUserID p) (sv_mem s) (sv_mem (fst (h p r s)))"
  by (simp add: keeps_def)

section \<open>The parts of the handlers\<close>

lemma put_mem_world [simp]: "sv_world (put_mem m s) = (sv_world s)\<lparr>wd_mem := m\<rparr>"
  by (simp add: put_mem_def)

lemma put_world_world [simp]: "sv_world (put_world w s) = w"
  by (simp add: put_world_def)

lemma put_sts_world [simp]: "sv_world (put_sts c s) = sv_world s"
  by (simp add: put_sts_def)

lemma audit_frame [simp]:
  "others_kept u m (sv_mem (audit e k a b c d s)) \<longleftrightarrow> others_kept u m (sv_mem s)"
  "others_kept u m (sv_mem (audit_agent e k a f b c d s)) \<longleftrightarrow> others_kept u m (sv_mem s)"
  by (simp_all add: audit_def audit_agent_def)

lemma check_access_world: "check_access e p act d s = (s1, res) \<Longrightarrow> sv_world s1 = sv_world s"
  by (auto simp: check_access_def split: prod.splits)

lemma deny_world: "agentJobDriveDenyReason e p d s = (s1, x) \<Longrightarrow> sv_world s1 = sv_world s"
  by (auto simp: agentJobDriveDenyReason_def dest: check_access_world split: if_splits prod.splits sum.splits)

lemma allow_world:
  "allowAgentJob e p d s = (s1, x) \<Longrightarrow> sv_world s1 = sv_world s"
  "allowAgentProvider e p act s = (s1, x) \<Longrightarrow> sv_world s1 = sv_world s"
  "allowAgentDrive e p r d s = (s1, x) \<Longrightarrow> sv_world s1 = sv_world s"
  by (auto simp: allowAgentJob_def allowAgentProvider_def allowAgentDrive_def dest: check_access_world deny_world
      split: if_splits prod.splits sum.splits)

lemma unless_denied_frame:
  assumes "\<And>s1. sv_world s1 = sv_world s \<Longrightarrow> others_kept u (sv_mem s) (sv_mem (fst (next s1)))"
  shows "others_kept u (sv_mem s) (sv_mem (fst (unless_denied (allowAgentJob e p d s) next)))"
    "others_kept u (sv_mem s) (sv_mem (fst (unless_denied (allowAgentProvider e p act s) next)))"
    "others_kept u (sv_mem s) (sv_mem (fst (unless_denied (allowAgentDrive e p r d s) next)))"
  using assms by (auto simp: unless_denied_def dest!: allow_world split: prod.split option.split)

lemma limit_allows_world: "limit_allows e u s = (s1, b) \<Longrightarrow> sv_world s1 = sv_world s"
  by (auto simp: limit_allows_def split: option.splits prod.splits)

section \<open>Drives\<close>

lemma create_drive_keeps: "keeps e (create_drive db dd e)"
  by (auto simp: keeps_def create_drive_def dest!: Drive_Create_frame split: sum.split prod.split)

lemma patch_drive_keeps: "keeps e (patch_drive db e i)"
  by (auto simp: keeps_def patch_drive_def Let_def dest!: Drive_Update_frame intro!: unless_denied_frame
      split: sum.split prod.split)

lemma delete_drive_keeps: "keeps e (delete_drive e i)"
  by (auto simp: keeps_def delete_drive_def Let_def dest!: Drive_Delete_frame split: sum.split prod.split)

lemma get_drive_keeps: "keeps e (get_drive e i)"
  by (auto simp: keeps_def get_drive_def intro!: unless_denied_frame split: sum.split)

lemma issue_session_keeps: "keeps e (issue_session db dd e i)"
  by (auto simp: keeps_def issue_session_def Let_def intro!: unless_denied_frame split: sum.split prod.split)

lemma complete_barrier_keeps: "keeps e (complete_barrier db e i)"
  by (auto simp: keeps_def complete_barrier_def split: sum.split prod.split)

lemma restore_version_keeps: "keeps e (restore_version db dd e i)"
  by (auto simp: keeps_def restore_version_def split: sum.split prod.split)

lemma presign_get_keeps: "keeps e (presign_get_route db dd e i)"
  by (auto simp: keeps_def presign_get_route_def Let_def split: sum.split prod.split)

lemma drive_reads_keep:
  "keeps e list_drives" "keeps e (mount_drive dd i)" "keeps e (manifest_hint i)" "keeps e (list_barriers i)"
  "keeps e (version_hint_route db dd i)" "keeps e (restore_plan_route db dd e i)" "keeps e (list_objects dd i)"
  "keeps e (diff_snapshots dd i)"
  by (auto simp: keeps_def list_drives_def mount_drive_def manifest_hint_def list_barriers_def version_hint_route_def
      restore_plan_route_def list_objects_def diff_snapshots_def Let_def split: sum.split prod.split)

lemma create_snapshot_keeps: "keeps e (create_snapshot db dd e i)"
  by (auto simp: keeps_def create_snapshot_def Let_def dest!: Drive_CreateSnapshot_frame split: sum.split prod.split)

lemma restore_snapshot_keeps: "keeps e (restore_snapshot db dd e i j)"
  by (auto simp: keeps_def restore_snapshot_def Let_def dest!: RestoreSnapshot_frame split: sum.split prod.split)

lemma one_snapshot_keeps: "keeps e (one_snapshot e i j)"
  by (auto simp: keeps_def one_snapshot_def Let_def dest!: Drive_DeleteSnapshot_frame split: sum.split prod.split)

lemma by_alias_keeps: "keeps e (routeDriveByAlias e rest)"
  by (auto simp: keeps_def routeDriveByAlias_def Let_def intro!: unless_denied_frame split: sum.split)

lemma snapshots_keep: "keeps e (routeDriveSnapshots db dd e i rest)"
  by (rule keepsI) (simp add: keepsD [of e] routeDriveSnapshots_def drive_reads_keep create_snapshot_keeps restore_snapshot_keeps
      one_snapshot_keeps split: sum.split)

lemma objects_keep: "keeps e (routeDriveObjects db dd e i rest)"
  by (rule keepsI) (simp add: keepsD [of e] routeDriveObjects_def drive_reads_keep restore_version_keeps presign_get_keeps Let_def
      split: list.split)

lemma drive_part_keeps: "keeps e (drive_part db dd e i part rest)"
  by (rule keepsI) (simp add: keepsD [of e] drive_part_def snapshots_keep objects_keep drive_reads_keep issue_session_keeps
      complete_barrier_keeps)

lemma drive_itself_keeps: "keeps e (drive_itself db e i)"
  by (rule keepsI) (simp add: keepsD [of e] drive_itself_def get_drive_keeps patch_drive_keeps delete_drive_keeps)

lemma routeDrives_keep: "keeps e (routeDrivesRoot db dd e)" "keeps e (routeDrivesSub db dd e)"
proof -
  show "keeps e (routeDrivesRoot db dd e)"
    by (rule keepsI) (simp add: keepsD [of e] routeDrivesRoot_def create_drive_keeps drive_reads_keep)
  have "others_kept (prlUserID p) (sv_mem s) (sv_mem (fst (drive_part db dd e i part rest p r s1)))"
    if "fresh_ids e (sv_world s)" "sv_world s1 = sv_world s" for p r s s1 i part rest
    using keepsD [OF drive_part_keeps, of e s1 p db dd i part rest r] that by simp
  then show "keeps e (routeDrivesSub db dd e)"
    by (intro keepsI)
       (simp add: keepsD [of e] routeDrivesSub_def by_alias_keeps drive_itself_keeps Let_def unless_denied_frame(3))
qed

section \<open>Providers, bindings and devices\<close>

lemma create_provider_keeps: "keeps e (create_provider rb sv e)"
  by (auto simp: keeps_def create_provider_def dest!: Provider_Create_frame intro!: unless_denied_frame
      split: sum.split prod.split)

lemma delete_provider_keeps: "keeps e (delete_provider sv e i)"
  by (auto simp: keeps_def delete_provider_def Let_def dest!: Provider_Delete_frame intro!: unless_denied_frame
      split: sum.split prod.split)

lemma read_provider_keeps: "keeps e (get_provider sv e i)" "keeps e (provider_health sv pb e i)"
  by (auto simp: keeps_def get_provider_def provider_health_def intro!: unless_denied_frame split: sum.split)

lemma routeProviders_keep: "keeps e (routeProvidersRoot rb sv e)" "keeps e (routeProvidersSub sv pb e)"
proof -
  show "keeps e (routeProvidersRoot rb sv e)"
    by (rule keepsI) (simp add: keepsD [of e] routeProvidersRoot_def create_provider_keeps unless_denied_frame(2))
  show "keeps e (routeProvidersSub sv pb e)"
    by (rule keepsI) (simp add: keepsD [of e] routeProvidersSub_def read_provider_keeps delete_provider_keeps Let_def)
qed

lemma create_binding_keeps: "keeps e (create_binding rb sv e)"
  by (auto simp: keeps_def create_binding_def dest!: Drive_CreateBinding_frame intro!: unless_denied_frame
      split: sum.split prod.split)

lemma visible_bindings_world: "visible_bindings e p s bs = (s1, out) \<Longrightarrow> sv_world s1 = sv_world s"
  by (induction bs arbitrary: s s1 out)
     (auto dest: check_access_world split: sum.splits prod.splits)

lemma list_bindings_keeps: "keeps e (list_bindings e)"
  by (auto simp: keeps_def list_bindings_def Let_def dest!: visible_bindings_world split: prod.split)

lemma get_binding_keeps: "keeps e (get_binding e b)"
  by (auto simp: keeps_def get_binding_def intro!: unless_denied_frame)

lemma binding_session_keeps: "keeps e (binding_session dd e i b)"
  by (auto simp: keeps_def binding_session_def intro!: unless_denied_frame split: sum.split prod.split)

lemma report_binding_keeps: "keeps e (report_binding rb e i b)"
  by (auto simp: keeps_def report_binding_def dest!: ReportActual_frame intro!: unless_denied_frame
      split: sum.split prod.split)

lemma desire_binding_keeps: "keeps e (desire_binding rb e i b)"
  by (auto simp: keeps_def desire_binding_def dest!: SetDesired_frame intro!: unless_denied_frame
      split: sum.split prod.split)

lemma routeBindings_keep: "keeps e (routeBindingsRoot rb sv e)" "keeps e (routeBindingsSub rb dd e)"
proof -
  show "keeps e (routeBindingsRoot rb sv e)"
    by (rule keepsI) (simp add: keepsD [of e] routeBindingsRoot_def create_binding_keeps list_bindings_keeps)
  show "keeps e (routeBindingsSub rb dd e)"
    by (rule keepsI) (simp add: keepsD [of e] routeBindingsSub_def get_binding_keeps binding_session_keeps report_binding_keeps
        desire_binding_keeps Let_def split: sum.split)
qed

lemma routeDevices_keep: "keeps e (routeDevicesRoot rb e)" "keeps e routeDevicesSub"
  by (auto simp: keeps_def routeDevicesRoot_def routeDevicesSub_def Let_def dest!: Device_Register_frame
      split: sum.split prod.split)

lemma session_refresh_keeps: "keeps e (handleSessionRefresh rb dd e)"
  by (auto simp: keeps_def handleSessionRefresh_def split: sum.split prod.split)

section \<open>Jobs\<close>

lemma create_job_keeps: "keeps e (create_job jb e)"
proof (rule keepsI)
  fix p :: principal and r and s :: server
  assume fresh: "fresh_ids e (sv_world s)"
  have "others_kept (prlUserID p) (sv_mem s) (wd_mem w1)"
    if "sv_world s1 = sv_world s" "Create (we_ctx e) (sv_world s1) (prlUserID p) inp = (w1, res)"
    for s1 :: server and inp w1 res
    using Create_call_frame [OF that(2)] that(1) fresh by simp
  then show "others_kept (prlUserID p) (sv_mem s) (sv_mem (fst (create_job jb e p r s)))"
    by (auto simp: create_job_def Let_def intro!: unless_denied_frame split: sum.split prod.split go_error.split)
qed

lemma list_jobs_keeps: "keeps e (list_jobs jb e)"
  by (auto simp: keeps_def list_jobs_def Let_def intro!: unless_denied_frame split: prod.split)

lemma get_job_keeps: "keeps e (get_job e i)"
  by (auto simp: keeps_def get_job_def intro!: unless_denied_frame split: sum.split)

lemma claim_next_frame:
  assumes "claim_next e p runner region s = (s1, res)"
  shows "others_kept (prlUserID p) (sv_mem s) (sv_mem s1)"
  using assms by (auto simp: claim_next_def dest: job_call_frames split: prod.splits)

lemma claim_known_frame:
  assumes "claim_known e p i runner s = (s1, res)"
  shows "others_kept (prlUserID p) (sv_mem s) (sv_mem s1)"
proof -
  let ?u = "prlUserID p"
  obtain s2 x where a: "allowAgentJob e p (drive_of_job s ?u i) s = (s2, x)" by fastforce
  then have w2: "sv_world s2 = sv_world s" by (rule allow_world)
  obtain w q where c: "Claim (we_ctx e) (sv_world s2) ?u i (prlAgentID p) runner = (w, q)" by fastforce
  have k: "others_kept ?u (sv_mem s) (wd_mem w)" using job_call_frames(5) [OF c] w2 by simp
  have rel: "others_kept ?u (sv_mem s) (wd_mem w3)"
    if "ReleaseToPending (we_ctx e) w ?u j reason = (w3, y)" for j reason w3 y
    using others_kept_trans [OF k job_call_frames(2) [OF that]] .
  show ?thesis
    using assms a c k w2 rel
    by (auto simp: claim_known_def dest!: deny_world split: option.splits sum.splits prod.splits if_splits)
qed

lemma claim_job_keeps: "keeps e (claim_job jb e i)"
proof (rule keepsI)
  fix p r s
  show "others_kept (prlUserID p) (sv_mem s) (sv_mem (fst (claim_job jb e i p r s)))"
  proof -
    have "others_kept (prlUserID p) (sv_mem s) (sv_mem (fst (case q of
         (s1, Inl ans) \<Rightarrow> (s1, ans)
       | (s1, Inr (Inl err)) \<Rightarrow> (s1, ans2 err)
       | (s1, Inr (Inr j)) \<Rightarrow> (audit_agent e 0 a b ''job.claim'' (vwID j) (f j) s1, g j))))"
      if "\<And>s1 res. q = (s1, res) \<Longrightarrow> others_kept (prlUserID p) (sv_mem s) (sv_mem s1)"
      for q :: "server \<times> (job_reply answer + job_view result)" and ans2 a b f g
      using that by (auto split: prod.split sum.split)
    then show ?thesis
      unfolding claim_job_def
      by (auto intro!: unless_denied_frame dest: claim_next_frame claim_known_frame split: prod.split sum.split)
        (metis claim_next_frame claim_known_frame)+
  qed
qed

lemma job_actions_keep: "keeps e (complete_job jb e i)" "keeps e (heartbeat_job e i)" "keeps e (cancel_job e i)"
  by (auto simp: keeps_def complete_job_def heartbeat_job_def cancel_job_def on_job_def Let_def
      dest!: job_call_frames intro!: unless_denied_frame split: sum.split prod.split)

lemma routeJobs_keep: "keeps e (routeJobsRoot jb e)" "keeps e (routeJobsSub jb e)"
proof -
  show "keeps e (routeJobsRoot jb e)"
    by (rule keepsI) (simp add: keepsD [of e] routeJobsRoot_def create_job_keeps list_jobs_keeps)
  show "keeps e (routeJobsSub jb e)"
    by (rule keepsI) (simp add: keepsD [of e] routeJobsSub_def get_job_keeps claim_job_keeps job_actions_keep Let_def)
qed

section \<open>Accounts and agents\<close>

lemma routeAgentsRoot_keeps: "keeps e (routeAgentsRoot ab e)"
  by (auto simp: keeps_def routeAgentsRoot_def dest!: Agent_Create_frame split: sum.split prod.split)

lemma update_agent_keeps: "keeps e (update_agent ab e i)"
  by (auto simp: keeps_def update_agent_def Let_def dest!: Agent_Update_frame split: sum.split prod.split)

lemma mint_token_keeps: "keeps e (mint_token ab e i)"
  by (auto simp: keeps_def mint_token_def Let_def split: sum.split prod.split)

lemma routeAgentsSub_keeps: "keeps e (routeAgentsSub ab e)"
  by (auto simp: keeps_def routeAgentsSub_def Let_def keepsD [of e, OF update_agent_keeps] keepsD [of e, OF mint_token_keeps]
      dest!: Agent_Delete_frame split: sum.split prod.split)

lemma account_routes_keep: "keeps e handleMe" "keeps e (handleChangePassword ab e)"
  by (auto simp: keeps_def handleMe_def handleChangePassword_def dest!: ChangePassword_frame split: sum.split prod.split)

section \<open>Memory, marketplace, lineage, graph and connectors\<close>

lemma note_frames [simp]:
  "others_kept u m (sv_mem (note_lineage e k i a b c d f s)) \<longleftrightarrow> others_kept u m (sv_mem s)"
  "others_kept u m (sv_mem (note_edge sd e k i x y z s)) \<longleftrightarrow> others_kept u m (sv_mem s)"
  by (simp_all add: note_lineage_def note_edge_def Lineage_Record_def Graph_Link_def AppendLineage_def
      UpsertGraphEdge_def Let_def)

lemma memories_untouched [simp]:
  "m_memories (sv_mem (note_lineage e k i a b c d f s)) = m_memories (sv_mem s)"
  "m_memories (sv_mem (audit e k a b c d s)) = m_memories (sv_mem s)"
  by (simp_all add: note_lineage_def Lineage_Record_def AppendLineage_def audit_def Audit_def AuditAgent_def
      AppendAudit_def Let_def)

lemma put_memory_keeps: "keeps e (put_memory tb sd e)"
  by (auto simp: keeps_def put_memory_def Let_def dest!: Memory_Put_frame split: sum.split prod.split)

lemma delete_memory_keeps: "keeps e (delete_memory e i)"
  by (auto simp: keeps_def delete_memory_def dest!: Memory_Delete_frame split: sum.split prod.split)

lemma routeMemory_keep:
  "keeps e (routeMemoryRoot tb sd e)" "keeps e (routeMemorySearch tb sd e)" "keeps e (routeMemorySub e)"
  by (auto simp: keeps_def routeMemoryRoot_def routeMemorySearch_def routeMemorySub_def Let_def
      keepsD [of e, OF put_memory_keeps] keepsD [of e, OF delete_memory_keeps] split: sum.split)

lemma publish_item_keeps: "keeps e (publish_item tb sd e)"
  by (auto simp: keeps_def publish_item_def Let_def dest!: Publish_frame split: sum.split prod.split)

lemma checkout_keeps: "keeps e (routeMarketplaceCheckout sd e i)"
  by (auto simp: keeps_def routeMarketplaceCheckout_def dest!: CheckoutDetailed_frame split: sum.split prod.split)

lemma agent_from_template_frame:
  assumes "agent_from_template e u m a b c = (m', r)" "gget (m_agents m) (dr_id (we_draw e 0)) = None"
  shows "others_kept u m m' \<and> m_memories m' = m_memories m"
  using assms by (auto simp: agent_from_template_def dest: Agent_Create_frame split: prod.splits sum.splits)
     (auto simp: Agent_Create_def CreateAgent_def Let_def split: if_splits sum.splits)

lemma install_call_frame:
  assumes "install_call sd e p it i s = (s1, res)" "gget (m_agents (sv_mem s)) (dr_id (we_draw e 0)) = None"
  shows "others_kept (prlUserID p) (sv_mem s) (sv_mem s1) \<and> m_memories (sv_mem s1) = m_memories (sv_mem s)"
proof -
  have "others_kept (prlUserID p) (sv_mem s) m' \<and> m_memories m' = m_memories (sv_mem s)"
    if "InstallAgentTemplate mk (sv_mem s) (prlUserID p) i (agent_from_template e (prlUserID p)) = (m', r)" for mk m' r
    using that agent_from_template_frame [of e "prlUserID p" "sv_mem s", OF _ assms(2)]
    by (auto simp: InstallAgentTemplate_def Let_def split: sum.splits prod.splits)
  with assms(1) show ?thesis by (auto simp: install_call_def split: if_splits prod.splits)
qed

lemma install_memory_frame:
  assumes "install_memory sd e u i res s = (s1, mid)" "gget (m_memories (sv_mem s)) (dr_id (we_draw e 3)) = None"
  shows "others_kept u (sv_mem s) (sv_mem s1)"
  using assms by (auto simp: install_memory_def Let_def dest: Memory_Put_frame split: prod.splits sum.splits)

lemma recordMarketplaceInstall_frame:
  assumes "recordMarketplaceInstall sd e u i res s = (s1, mid)" "gget (m_memories (sv_mem s)) (dr_id (we_draw e 3)) = None"
  shows "others_kept u (sv_mem s) (sv_mem s1)"
proof -
  let ?s1 = "note_lineage e 2 u (''user:'' @ u) ''marketplace.install'' (''item:'' @ i)
      (if irAgentID res \<noteq> [] then ''agent:'' @ irAgentID res else ''user:'' @ u) (install_detail res) s"
  obtain s2 m2 where i: "install_memory sd e u i res ?s1 = (s2, m2)" by fastforce
  have a: "others_kept u (sv_mem s) (sv_mem ?s1)" by simp
  have "others_kept u (sv_mem s) (sv_mem s2)"
    using others_kept_trans [OF a install_memory_frame [OF i]] assms(2) by simp
  with assms(1) i show ?thesis by (auto simp: recordMarketplaceInstall_def Let_def split: if_splits)
qed

lemma install_item_keeps: "keeps e (install_item sd e i)"
proof (rule keepsI)
  fix p :: principal and r and s :: server
  assume fresh: "fresh_ids e (sv_world s)"
  let ?u = "prlUserID p"
  have both: "others_kept ?u (sv_mem s) (sv_mem s2)"
    if c: "install_call sd e p it i s = (s1, q)"
      and rec: "recordMarketplaceInstall sd e ?u i res (audit e 1 ?u ''marketplace.install'' i d s1) = (s2, mid)"
    for it s1 q res d s2 mid
  proof -
    have f: "others_kept ?u (sv_mem s) (sv_mem s1)" "m_memories (sv_mem s1) = m_memories (sv_mem s)"
      using install_call_frame [OF c] fresh by simp_all
    then have "others_kept ?u (sv_mem s) (sv_mem (audit e 1 ?u ''marketplace.install'' i d s1))" by simp
    from others_kept_trans [OF this recordMarketplaceInstall_frame [OF rec]] f(2) fresh show ?thesis by simp
  qed
  have one: "others_kept ?u (sv_mem s) (sv_mem s1)" if "install_call sd e p it i s = (s1, q)" for it s1 q
    using install_call_frame [OF that] fresh by simp
  show "others_kept ?u (sv_mem s) (sv_mem (fst (install_item sd e i p r s)))"
    by (auto simp: install_item_def Let_def dest: one both split: sum.split prod.split)
qed

lemma routeMarketplace_keep: "keeps e (routeMarketplaceRoot tb sd e)" "keeps e (routeMarketplaceSub sd e)"
  by (auto simp: keeps_def routeMarketplaceRoot_def routeMarketplaceSub_def Let_def keepsD [of e, OF publish_item_keeps]
      keepsD [of e, OF install_item_keeps] keepsD [of e, OF checkout_keeps] dest!: Market_Delete_frame
      split: sum.split prod.split)

lemma routePurchases_keep: "keeps e routePurchases" "keeps e (routePurchasesSub tb)"
  by (auto simp: keeps_def routePurchases_def routePurchasesSub_def routePurchaseWebhook_def Let_def
      dest!: WebhookPaid_frame split: sum.split prod.split)

lemma log_routes_keep: "keeps e (routeLineage tb e)" "keeps e (routeGraph tb sd e)"
  by (auto simp: keeps_def routeLineage_def routeGraph_def dest!: Lineage_Record_frame Graph_Link_frame
      split: sum.split prod.split)

lemma routeConnectors_keep: "keeps e (routeConnectorsRoot tb sd e)" "keeps e routeConnectorsSub"
  by (auto simp: keeps_def routeConnectorsRoot_def routeConnectorsSub_def create_connector_def Let_def
      dest!: Connector_Create_frame Connector_Delete_frame split: sum.split prod.split)

section \<open>Tokens\<close>

lemma checked_payload_same: "check_versions m p = Inr q \<Longrightarrow> q = p"
  by (auto simp: check_versions_def split: sum.splits if_splits)

definition signed_payload :: "auth_service \<Rightarrow> string \<Rightarrow> Auth_Service.payload \<Rightarrow> bool" where
  "signed_payload sv tok p \<longleftrightarrow>
     (\<exists>h g raw. split_c (CHR ''.'') tok = [h, g] \<and> b64_decode h = Some raw \<and> as_unmarshal sv raw = Inr p)"

lemma parsePayload_signed: "parsePayload sv now m tok = (m1, Inr p) \<Longrightarrow> signed_payload sv tok p"
  by (auto simp: parsePayload_def signed_payload_def Let_def dest: checked_payload_same
      split: list.splits option.splits if_splits sum.splits prod.splits)

lemma parsePayload_same:
  assumes "parsePayload sv now m tok = (m1, Inr p)" "parsePayload sv now' m' tok = (m2, Inr q)"
  shows "q = p"
  using assms [THEN parsePayload_signed] by (auto simp: signed_payload_def)

lemma parsePayload_denylist:
  assumes "parsePayload sv now m tok = (m1, x)"
  shows "\<exists>t. m1 = m\<lparr>m_revokedJTI := t\<rparr> \<and> (gwf (m_revokedJTI m) \<longrightarrow> gwf t)"
proof -
  have same: "\<exists>t. m = m\<lparr>m_revokedJTI := t\<rparr> \<and> (gwf (m_revokedJTI m) \<longrightarrow> gwf t)"
    by (rule exI [of _ "m_revokedJTI m"]) simp
  have "\<exists>t. m2 = m\<lparr>m_revokedJTI := t\<rparr> \<and> (gwf (m_revokedJTI m) \<longrightarrow> gwf t)"
    if "IsJTIRevoked now m j = (m2, b)" for j m2 b
    using that same by (auto simp: IsJTIRevoked_def split: if_splits option.splits)
  with assms same show ?thesis
    by (auto simp: parsePayload_def Let_def split: list.splits option.splits if_splits sum.splits prod.splits)
qed

lemma ParsePrincipal_payload:
  "ParsePrincipal sv now m tok = (m1, Inr p) \<Longrightarrow> \<exists>q. parsePayload sv now m tok = (m1, Inr q) \<and> prlUserID p = tpUserID q"
  by (auto simp: ParsePrincipal_def split: prod.splits sum.splits)

lemma ParsePrincipal_denylist:
  "ParsePrincipal sv now m tok = (m1, x) \<Longrightarrow> \<exists>t. m1 = m\<lparr>m_revokedJTI := t\<rparr> \<and> (gwf (m_revokedJTI m) \<longrightarrow> gwf t)"
  by (auto simp: ParsePrincipal_def dest: parsePayload_denylist split: prod.splits sum.splits)

text \<open>All that a check of the token changes: expired entries of the denylist and the rate limiter.\<close>

lemma authenticate_changes:
  assumes "authenticate e r s = (s1, x)"
  shows "\<exists>t l. s1 = s\<lparr>sv_world := (sv_world s)\<lparr>wd_mem := (sv_mem s)\<lparr>m_revokedJTI := t\<rparr>\<rparr>, sv_limit := l\<rparr> \<and>
    (gwf (m_revokedJTI (sv_mem s)) \<longrightarrow> gwf t)"
proof -
  define same where "same s2 \<longleftrightarrow> (\<exists>t l. s2 = s\<lparr>sv_world := (sv_world s)\<lparr>wd_mem := (sv_mem s)\<lparr>m_revokedJTI := t\<rparr>\<rparr>, sv_limit := l\<rparr> \<and>
    (gwf (m_revokedJTI (sv_mem s)) \<longrightarrow> gwf t))" for s2
  have refl: "same s" unfolding same_def by (rule exI [of _ "m_revokedJTI (sv_mem s)"], rule exI [of _ "sv_limit s"]) simp
  have put: "same (put_mem m1 s)" if "ParsePrincipal sv now (sv_mem s) tok = (m1, y)" for sv now tok m1 y
    using ParsePrincipal_denylist [OF that] unfolding same_def put_mem_def
    by (elim exE) (rule_tac x = t in exI, rule_tac x = "sv_limit s" in exI, simp)
  have lim: "same s3" if "limit_allows e u s2 = (s3, b)" "same s2" for s2 s3 u b
    using that by (auto simp: same_def limit_allows_def split: option.splits prod.splits)
  have "same s1"
    using assms refl by (auto simp: authenticate_def Let_def intro: put lim split: if_splits prod.splits sum.splits bool.splits)
  then show ?thesis by (simp add: same_def)
qed

lemma authenticate_fresh:
  assumes "authenticate e r s = (s1, x)" "fresh_ids e (sv_world s)"
  shows "fresh_ids e (sv_world s1)"
proof -
  obtain t l where s1: "s1 = s\<lparr>sv_world := (sv_world s)\<lparr>wd_mem := (sv_mem s)\<lparr>m_revokedJTI := t\<rparr>\<rparr>, sv_limit := l\<rparr>"
    and t: "gwf (m_revokedJTI (sv_mem s)) \<longrightarrow> gwf t"
    using authenticate_changes [OF assms(1)] by blast
  have wf: "store_wf (sv_mem s)" using assms(2) by simp
  then have "gwf t" using t store_wfD(17) by blast
  then have "store_wf ((sv_mem s)\<lparr>m_revokedJTI := t\<rparr>)" by (rule store_wf_upd(17) [OF wf])
  with assms(2) show ?thesis by (simp add: s1 fresh_ids_def unused_id_def del: fresh_idsD)
qed

lemma authenticate_frame: "authenticate e r s = (s1, x) \<Longrightarrow> others_kept u (sv_mem s) (sv_mem s1)"
  by (auto dest!: authenticate_changes)

lemma logout_keeps:
  assumes "authenticate e r s = (s1, Inr p)"
  shows "others_kept (prlUserID p) (sv_mem s1) (sv_mem (fst (handleLogout ab e p r s1)))"
proof -
  let ?tok = "trim_prefix ''Bearer '' (hqHeader r ''Authorization'')"
  obtain m1 where "ParsePrincipal (we_auth e) (now_of e) (sv_mem s) ?tok = (m1, Inr p)"
    using assms by (auto simp: authenticate_def Let_def split: if_splits prod.splits sum.splits bool.splits)
  then obtain q where q: "parsePayload (we_auth e) (now_of e) (sv_mem s) ?tok = (m1, Inr q)" "prlUserID p = tpUserID q"
    by (auto dest: ParsePrincipal_payload)
  have "tpUserID x = prlUserID p" if "parsePayload (we_auth e) (now_of e) (sv_mem s1) ?tok = (m2, Inr x)" for m2 x
    using parsePayload_same [OF q(1) that] q(2) by simp
  then have "others_kept (prlUserID p) (sv_mem s1) m2"
    if "Logout (we_auth e) (now_of e) (sv_mem s1) ?tok raw = (m2, y)" for raw m2 y
    using Logout_frame [OF that] by blast
  then show ?thesis by (auto simp: handleLogout_def split: prod.split sum.split)
qed


text \<open>
  Properties of the API as a whole, over the table of routes: which requests need a token, what the
  administrator routes answer to others, and that a request changes rows of its own user only.
\<close>

section \<open>Routes by pattern\<close>

text \<open>The pattern that serves a request, and the patterns of the tables of \<open>New\<close>.\<close>

definition route_of :: "('c, 'k, 'w) api_deps \<Rightarrow> web_request \<Rightarrow> string option" where
  "route_of d r = map_option fst (longest_match (hqPath r) (route_table d))"

definition open_patterns :: "string list" where
  "open_patterns =
     [''/'', ''/wizard'', ''/wizard/'', ''/app'', ''/app/'', ''/healthz'', ''/readyz'', ''/metrics'',
      ''/v1/runtime/check'', ''/v1/auth/register'', ''/v1/auth/login'', ''/v1/auth/refresh'', ''/v1/modules'',
      ''/v1/webhooks/stripe'', ''/v1/providers/catalog'', ''/v1/connectors/catalog'']"

definition admin_patterns :: "string list" where
  "admin_patterns =
     [''/v1/admin/users'', ''/v1/admin/users/'', ''/v1/admin/audit'', ''/v1/admin/policy'', ''/v1/admin/jobs'',
      ''/v1/admin/jobs/'', ''/v1/admin/job-webhooks'', ''/v1/admin/job-webhooks/'']"

definition user_patterns :: "string list" where
  "user_patterns =
     [''/v1/auth/logout'', ''/v1/me'', ''/v1/me/password'', ''/v1/agents'', ''/v1/agents/'', ''/v1/memory'',
      ''/v1/memory/search'', ''/v1/memory/'', ''/v1/marketplace'', ''/v1/marketplace/'', ''/v1/purchases'',
      ''/v1/purchases/'', ''/v1/lineage'', ''/v1/graph'', ''/v1/connectors'', ''/v1/connectors/'', ''/v1/providers'',
      ''/v1/providers/'', ''/v1/drives'', ''/v1/drives/'', ''/v1/bindings'', ''/v1/bindings/'',
      ''/v1/sessions/refresh'', ''/v1/jobs'', ''/v1/jobs/'', ''/v1/devices'', ''/v1/devices/'']"

definition workspace_patterns :: "string list" where
  "workspace_patterns = [''/v1/workspaces'', ''/v1/workspaces/'']"

lemma table_patterns:
  "map fst (open_table d) = open_patterns" "map fst (admin_table d) = admin_patterns"
  "map fst (user_table d) = user_patterns" "set (map fst (workspace_table d)) \<subseteq> set workspace_patterns"
  by (auto simp: open_table_def admin_table_def user_table_def workspace_table_def open_patterns_def
      admin_patterns_def user_patterns_def workspace_patterns_def Let_def)

lemma longest_match_in: "longest_match path t = Some (pat, h) \<Longrightarrow> (pat, h) \<in> set t"
  by (induction path t arbitrary: pat h rule: longest_match.induct) (auto split: option.splits if_splits)

lemma pattern_lists_apart:
  "set admin_patterns \<inter> set user_patterns = {}" "set workspace_patterns \<inter> set user_patterns = {}"
  "set open_patterns \<inter> set user_patterns = {}" "set workspace_patterns \<inter> set admin_patterns = {}"
  "set open_patterns \<inter> set admin_patterns = {}" "set open_patterns \<inter> set workspace_patterns = {}"
  by (simp_all add: open_patterns_def admin_patterns_def user_patterns_def workspace_patterns_def)

lemma in_patterns: "(pat, h) \<in> set t \<Longrightarrow> map fst t = ps \<Longrightarrow> pat \<in> set ps"
  by force

lemma served_by:
  assumes "route_of d r = Some pat"
  obtains h where "(pat, h) \<in> set (route_table d)" "\<And>a. route_request d r a = h r a"
proof -
  from assms obtain h where h: "longest_match (hqPath r) (route_table d) = Some (pat, h)"
    by (auto simp: route_of_def)
  show thesis using that [OF longest_match_in [OF h]] h by (simp add: route_request_def)
qed

lemma entry_tables:
  assumes "(pat, h) \<in> set (route_table d)"
  shows "pat \<in> set admin_patterns \<Longrightarrow> (pat, h) \<in> set (admin_table d)"
    and "pat \<in> set user_patterns \<Longrightarrow> (pat, h) \<in> set (user_table d)"
    and "pat \<in> set workspace_patterns \<Longrightarrow> (pat, h) \<in> set (workspace_table d)"
proof -
  note ps = in_patterns [OF _ table_patterns(1)] in_patterns [OF _ table_patterns(2)] in_patterns [OF _ table_patterns(3)]
  have ws: "pat \<in> set workspace_patterns" if "(pat, h) \<in> set (workspace_table d)"
    using that table_patterns(4) [of d] by force
  from assms have c: "(pat, h) \<in> set (open_table d) \<or> (pat, h) \<in> set (admin_table d) \<or> (pat, h) \<in> set (user_table d) \<or>
      (pat, h) \<in> set (workspace_table d)"
    by (auto simp: route_table_def)
  show "pat \<in> set admin_patterns \<Longrightarrow> (pat, h) \<in> set (admin_table d)"
    using c ps ws pattern_lists_apart by blast
  show "pat \<in> set user_patterns \<Longrightarrow> (pat, h) \<in> set (user_table d)"
    using c ps ws pattern_lists_apart by blast
  show "pat \<in> set workspace_patterns \<Longrightarrow> (pat, h) \<in> set (workspace_table d)"
    using c ps ws pattern_lists_apart by blast
qed

section \<open>Requests without a valid token\<close>

definition guarded :: "web_env \<Rightarrow> ('c, 'w) route \<Rightarrow> bool" where
  "guarded e h \<longleftrightarrow>
     (\<forall>r a s1 code msg. authenticate e r (ap_server a) = (s1, Inl (code, msg)) \<longrightarrow>
        h r a = (a\<lparr>ap_server := s1\<rparr>, fail code msg))"

lemma auth_route_guarded: "guarded e (auth_route e f h)"
  by (simp add: guarded_def auth_route_def open_route_def withAuth_def wrap_def)

lemma admin_route_guarded: "guarded e (admin_route e f h)"
  by (simp add: guarded_def admin_route_def open_route_def withAdmin_def withAuth_def wrap_def)

lemma workspace_route_guarded: "guarded e (workspace_route e h)"
  by (simp add: guarded_def workspace_route_def)

lemma tables_guarded:
  "list_all (\<lambda>x. guarded (ad_env d) (snd x)) (admin_table d)"
  "list_all (\<lambda>x. guarded (ad_env d) (snd x)) (user_table d)"
  "list_all (\<lambda>x. guarded (ad_env d) (snd x)) (workspace_table d)"
  by (simp_all add: admin_table_def user_table_def workspace_table_def Let_def auth_route_guarded
      admin_route_guarded workspace_route_guarded)

lemma route_guarded:
  assumes "route_of d r = Some pat" "pat \<in> set (admin_patterns @ user_patterns @ workspace_patterns)"
    "authenticate (ad_env d) r (ap_server a) = (s1, Inl (code, msg))"
  shows "route_request d r a = (a\<lparr>ap_server := s1\<rparr>, fail code msg)"
proof -
  obtain h where h: "(pat, h) \<in> set (route_table d)" "\<And>a. route_request d r a = h r a"
    using served_by [OF assms(1)] by blast
  have "guarded (ad_env d) h"
    using assms(2) entry_tables [OF h(1)] tables_guarded [of d] by (fastforce simp: list_all_iff)
  with assms(3) show ?thesis by (simp add: guarded_def h(2))
qed

section \<open>Rows of other users\<close>

definition tenant_safe :: "web_env \<Rightarrow> ('c, 'w) route \<Rightarrow> bool" where
  "tenant_safe e h \<longleftrightarrow>
     (\<forall>r a s1 p. authenticate e r (ap_server a) = (s1, Inr p) \<longrightarrow> fresh_ids e (sv_world (ap_server a)) \<longrightarrow>
        others_kept (prlUserID p) (sv_mem (ap_server a)) (sv_mem (ap_server (fst (h r a)))))"

lemma auth_route_safe:
  assumes "\<And>r s s1 p. authenticate e r s = (s1, Inr p) \<Longrightarrow> fresh_ids e (sv_world s1) \<Longrightarrow>
    others_kept (prlUserID p) (sv_mem s1) (sv_mem (fst (h p r s1)))"
  shows "tenant_safe e (auth_route e f h :: ('c, 'w) route)"
  unfolding tenant_safe_def
proof (intro allI impI)
  fix r s1 p and a :: "('c, 'w) api_state"
  assume a: "authenticate e r (ap_server a) = (s1, Inr p)" and f: "fresh_ids e (sv_world (ap_server a))"
  from others_kept_trans [OF authenticate_frame [OF a] assms [OF a authenticate_fresh [OF a f]]]
  show "others_kept (prlUserID p) (sv_mem (ap_server a)) (sv_mem (ap_server (fst (auth_route e f h r a))))"
    using a by (auto simp: auth_route_def open_route_def withAuth_def split: prod.split)
qed

lemma kept_route_safe: "keeps e h \<Longrightarrow> tenant_safe e (auth_route e f h)"
  by (rule auth_route_safe) (rule keepsD)

lemma workspace_route_safe: "tenant_safe e (workspace_route e h)"
  by (auto simp: tenant_safe_def workspace_route_def dest: authenticate_frame split: prod.split)

lemma user_table_safe: "list_all (\<lambda>x. tenant_safe (ad_env d) (snd x)) (user_table d)"
proof -
  have "tenant_safe e (auth_route e f (handleLogout ab e))" for e f ab
    by (rule auth_route_safe) (rule logout_keeps)
  then show ?thesis
    by (simp add: user_table_def Let_def kept_route_safe account_routes_keep routeAgentsRoot_keeps routeAgentsSub_keeps
        routeMemory_keep routeMarketplace_keep routePurchases_keep log_routes_keep routeConnectors_keep routeProviders_keep
        routeDrives_keep routeBindings_keep session_refresh_keeps routeJobs_keep routeDevices_keep)
qed

lemma workspace_table_safe: "list_all (\<lambda>x. tenant_safe (ad_env d) (snd x)) (workspace_table d)"
  by (simp add: workspace_table_def workspace_route_safe)

lemma route_safe:
  assumes "route_of d r = Some pat" "pat \<in> set (user_patterns @ workspace_patterns)"
    "authenticate (ad_env d) r (ap_server a) = (s1, Inr p)" "fresh_ids (ad_env d) (sv_world (ap_server a))"
  shows "others_kept (prlUserID p) (sv_mem (ap_server a)) (sv_mem (ap_server (fst (route_request d r a))))"
proof -
  obtain h where h: "(pat, h) \<in> set (route_table d)" "\<And>a. route_request d r a = h r a"
    using served_by [OF assms(1)] by blast
  have "tenant_safe (ad_env d) h"
    using assms(2) entry_tables [OF h(1)] user_table_safe [of d] workspace_table_safe [of d] by (fastforce simp: list_all_iff)
  with assms(3,4) show ?thesis by (auto simp: tenant_safe_def h(2))
qed

end
