(* ===== verification/Http_Confinement.thy ===== *)
theory Http_Confinement
  imports Http_Isolation
begin

text \<open>
  What an agent token cannot change. \<open>confined p m m'\<close> compares the tables of agents, devices, connectors
  and listings, and those whose changes need a scope the principal \<open>p\<close> does not have; each handler
  keeps them when an agent calls it.
\<close>

definition confined :: "principal \<Rightarrow> memory \<Rightarrow> memory \<Rightarrow> bool" where
  "confined p m m' \<longleftrightarrow>
     m_agents m' = m_agents m \<and> m_devices m' = m_devices m \<and> m_connectors m' = m_connectors m \<and>
     m_market m' = m_market m \<and>
     (\<not> requireScope ''drive.write'' p \<longrightarrow>
        m_drives m' = m_drives m \<and> m_snapshots m' = m_snapshots m \<and> m_bindings m' = m_bindings m) \<and>
     (\<not> requireScope ''provider.write'' p \<longrightarrow> m_providers m' = m_providers m) \<and>
     (\<not> requireScope ''job.run'' p \<longrightarrow> m_jobs m' = m_jobs m \<and> m_webhooks m' = m_webhooks m)"

lemma confined_refl [simp]: "confined p m m"
  by (simp add: confined_def)

lemma confined_trans: "confined p m1 m2 \<Longrightarrow> confined p m2 m3 \<Longrightarrow> confined p m1 m3"
  by (simp add: confined_def)

lemma confined_scoped [simp]:
  "requireScope ''drive.write'' p \<Longrightarrow> confined p m (m'\<lparr>m_drives := a1\<rparr>) \<longleftrightarrow> confined p m m'"
  "requireScope ''drive.write'' p \<Longrightarrow> confined p m (m'\<lparr>m_snapshots := a2\<rparr>) \<longleftrightarrow> confined p m m'"
  "requireScope ''drive.write'' p \<Longrightarrow> confined p m (m'\<lparr>m_bindings := a3\<rparr>) \<longleftrightarrow> confined p m m'"
  "requireScope ''provider.write'' p \<Longrightarrow> confined p m (m'\<lparr>m_providers := a4\<rparr>) \<longleftrightarrow> confined p m m'"
  "requireScope ''job.run'' p \<Longrightarrow> confined p m (m'\<lparr>m_jobs := a5\<rparr>) \<longleftrightarrow> confined p m m'"
  "requireScope ''job.run'' p \<Longrightarrow> confined p m (m'\<lparr>m_webhooks := a6\<rparr>) \<longleftrightarrow> confined p m m'"
  by (simp_all add: confined_def)

lemma confined_free [simp]:
  "confined p m (m'\<lparr>m_users := b1\<rparr>) \<longleftrightarrow> confined p m m'"
  "confined p m (m'\<lparr>m_refresh := b2\<rparr>) \<longleftrightarrow> confined p m m'"
  "confined p m (m'\<lparr>m_revokedJTI := b3\<rparr>) \<longleftrightarrow> confined p m m'"
  "confined p m (m'\<lparr>m_audits := b4\<rparr>) \<longleftrightarrow> confined p m m'"
  "confined p m (m'\<lparr>m_memories := b5\<rparr>) \<longleftrightarrow> confined p m m'"
  "confined p m (m'\<lparr>m_purchases := b6\<rparr>) \<longleftrightarrow> confined p m m'"
  "confined p m (m'\<lparr>m_lineage := b7\<rparr>) \<longleftrightarrow> confined p m m'"
  "confined p m (m'\<lparr>m_graph := b8\<rparr>) \<longleftrightarrow> confined p m m'"
  by (simp_all add: confined_def)

section \<open>The tables a call touches\<close>

lemma audit_confined [simp]:
  "confined p m (sv_mem (audit e k a b c d s)) \<longleftrightarrow> confined p m (sv_mem s)"
  "confined p m (sv_mem (audit_agent e k a f b c d s)) \<longleftrightarrow> confined p m (sv_mem s)"
  by (simp_all add: audit_def audit_agent_def Audit_def AuditAgent_def AppendAudit_def Let_def)

lemma note_confined [simp]:
  "confined p m (sv_mem (note_lineage e k i a b c d f s)) \<longleftrightarrow> confined p m (sv_mem s)"
  "confined p m (sv_mem (note_edge sd e k i x y z s)) \<longleftrightarrow> confined p m (sv_mem s)"
  by (simp_all add: note_lineage_def note_edge_def Lineage_Record_def Graph_Link_def AppendLineage_def
      UpsertGraphEdge_def Let_def)

lemma drive_touches:
  assumes "requireScope ''drive.write'' p"
  shows "Drive_Create sv dr m u inp = (m', r) \<Longrightarrow> confined p m m'"
    and "Drive_Update m u i inp2 = (m', r) \<Longrightarrow> confined p m m'"
    and "Drive_Delete m u i = (m', r2) \<Longrightarrow> confined p m m'"
    and "Drive_CreateSnapshot env ob dr m u i inp3 = (m', r3) \<Longrightarrow> confined p m m'"
    and "Drive_DeleteSnapshot m u i j = (m', r4) \<Longrightarrow> confined p m m'"
    and "RestoreSnapshot env m u i j b = (m', r5) \<Longrightarrow> confined p m m'"
    and "Drive_CreateBinding sv dr m u inp4 = (m', r6) \<Longrightarrow> confined p m m'"
    and "SetDesired now m u i x = (m', r7) \<Longrightarrow> confined p m m'"
    and "ReportActual now m u i x y = (m', r8) \<Longrightarrow> confined p m m'"
  using assms
  by (auto simp: Drive_Create_def CreateDrive_def Drive_Update_def UpdateDrive_def Drive_Delete_def DeleteDrive_def
      Drive_CreateSnapshot_def CreateSnapshot_def Drive_DeleteSnapshot_def DeleteSnapshot_def RestoreSnapshot_def
      Drive_CreateBinding_def CreateBinding_def SetDesired_def ReportActual_def UpdateBinding_def Let_def
      split: sum.splits option.splits if_splits json.splits)

lemma provider_touches:
  assumes "requireScope ''provider.write'' p"
  shows "Provider_Create sv dr m u inp = (m', r) \<Longrightarrow> confined p m m'"
    and "Provider_Delete m u i = (m', r2) \<Longrightarrow> confined p m m'"
  using assms by (auto simp: Provider_Create_def CreateProvider_def Provider_Delete_def DeleteProvider_def
      split: sum.splits option.splits if_splits)

lemma free_touches:
  "Memory_Put vc dr m u inp = (m', r) \<Longrightarrow> confined p m m'"
  "Memory_Delete m u i = (m', r2) \<Longrightarrow> confined p m m'"
  "WebhookPaid m u i x = (m', r3) \<Longrightarrow> confined p m m'"
  "Lineage_Record dr m i a b c d f = (m', r4) \<Longrightarrow> confined p m m'"
  "Graph_Link h dr m i a b c d = (m', r5) \<Longrightarrow> confined p m m'"
  by (auto simp: Memory_Put_def CreateMemory_def Memory_Delete_def DeleteMemory_def WebhookPaid_def UpdatePurchase_def
      Lineage_Record_def AppendLineage_def Graph_Link_def UpsertGraphEdge_def Let_def
      split: sum.splits option.splits if_splits)

section \<open>Calls of the job service\<close>

definition jobs_only :: "memory \<Rightarrow> memory \<Rightarrow> bool" where
  "jobs_only m m' \<longleftrightarrow> (\<exists>t h. m' = m\<lparr>m_jobs := t, m_webhooks := h\<rparr>)"

lemma jobs_only_refl [simp]: "jobs_only m m"
proof -
  have "m = m\<lparr>m_jobs := m_jobs m, m_webhooks := m_webhooks m\<rparr>" by simp
  then show ?thesis unfolding jobs_only_def by blast
qed

lemma jobs_only_trans: "jobs_only m1 m2 \<Longrightarrow> jobs_only m2 m3 \<Longrightarrow> jobs_only m1 m3"
  by (fastforce simp: jobs_only_def)

lemma jobs_only_upd [simp]:
  "jobs_only m (m\<lparr>m_jobs := t\<rparr>)" "jobs_only m (m\<lparr>m_webhooks := h\<rparr>)"
proof -
  have "m\<lparr>m_jobs := t\<rparr> = m\<lparr>m_jobs := t, m_webhooks := m_webhooks m\<rparr>"
    "m\<lparr>m_webhooks := h\<rparr> = m\<lparr>m_jobs := m_jobs m, m_webhooks := h\<rparr>" by simp_all
  then show "jobs_only m (m\<lparr>m_jobs := t\<rparr>)" "jobs_only m (m\<lparr>m_webhooks := h\<rparr>)"
    unfolding jobs_only_def by blast+
qed

lemma jobs_only_confined: "jobs_only m m' \<Longrightarrow> requireScope ''job.run'' p \<Longrightarrow> confined p m m'"
  by (auto simp: jobs_only_def)

lemma store_job_touches:
  "UpdateJob m j = Inr m' \<Longrightarrow> jobs_only m m'"
  "CreateJob m j = Inr m' \<Longrightarrow> jobs_only m m'"
  "EnqueueWebhookOutbox m e = Inr m' \<Longrightarrow> jobs_only m m'"
  "ClaimPendingJob now m u i a r = Inr (m', j2) \<Longrightarrow> jobs_only m m'"
  by (auto simp: UpdateJob_def CreateJob_def EnqueueWebhookOutbox_def ClaimPendingJob_def Let_def
      split: if_splits option.splits)

lemma notify_touches: "jobs_only (wd_mem w) (wd_mem (notifyJobTerminal c w v))"
  by (auto simp: notifyJobTerminal_def Let_def dest: store_job_touches split: sum.split)

lemma finish_touches: "jobs_only (wd_mem w) (wd_mem (fst (finish_job c w sj)))"
proof (cases "UpdateJob (wd_mem w) sj")
  case (Inr m')
  have "jobs_only (wd_mem w) (wd_mem (notifyJobTerminal c (w\<lparr>wd_mem := m'\<rparr>) v))" for v
    using jobs_only_trans [OF store_job_touches(1) [OF Inr]] notify_touches [of "w\<lparr>wd_mem := m'\<rparr>" c v] by simp
  with Inr show ?thesis by (simp add: finish_job_def Let_def)
qed (simp add: finish_job_def Let_def)

lemma single_job_touches:
  "jobs_only (wd_mem w) (wd_mem (fst (Heartbeat c w u i)))"
  "jobs_only (wd_mem w) (wd_mem (fst (ReleaseToPending c w u i reason)))"
  "jobs_only (wd_mem w) (wd_mem (fst (failTimeout c w u i n)))"
  "jobs_only (wd_mem w) (wd_mem (fst (failMaxAttempts c w u i n k)))"
  "jobs_only (wd_mem w) (wd_mem (fst (Complete c w u i ci)))"
  "jobs_only (wd_mem w) (wd_mem (fst (Cancel c w u i)))"
  by (auto simp: Heartbeat_def ReleaseToPending_def failTimeout_def failMaxAttempts_def Complete_def Cancel_def
      cancelStoreJob_def finish_touches Let_def dest: store_job_touches split: sum.split)

lemma reclaim_touches: "jobs_only (wd_mem w) (wd_mem (fst (ReclaimStale c w u)))"
proof -
  have "jobs_only (wd_mem w) (wd_mem (fst (fold (\<lambda>sj. reclaim_step c u (f sj) sj) js (w, n))))" for f js n
  proof (induction js arbitrary: w n)
    case (Cons j js)
    obtain w1 n1 where st: "reclaim_step c u (f j) j (w, n) = (w1, n1)" by fastforce
    have "jobs_only (wd_mem w) (wd_mem (fst (reclaim_step c u (f j) j (w, n))))"
      by (simp add: reclaim_step_def count_ok_def single_job_touches)
    then have "jobs_only (wd_mem w) (wd_mem w1)" by (simp add: st)
    from jobs_only_trans [OF this Cons.IH [of w1 n1]] show ?case by (simp add: st)
  qed simp
  then show ?thesis by (simp add: ReclaimStale_def)
qed

lemma claim_filtered_touches:
  "jobs_only (wd_mem w) (wd_mem (fst (claim_filtered c w u a r region allow recheck deny n js)))"
proof (induction js arbitrary: w deny n)
  case (Cons j js)
  show ?case
  proof (cases "ClaimPendingJob (cx_now c) (wd_mem w) u (jID j) a r")
    case (Inl e)
    with Cons show ?thesis by (cases "region = []") simp_all
  next
    case (Inr q)
    obtain m' cl where q: "q = (m', cl)" by fastforce
    let ?w = "w\<lparr>wd_mem := m'\<rparr>"
    have k: "jobs_only (wd_mem w) (wd_mem ?w)" using Inr q store_job_touches by simp
    obtain w2 res where rel: "ReleaseToPending c ?w u (jID cl) (recheck (jDriveID cl)) = (w2, res)" by fastforce
    have k2: "jobs_only (wd_mem w) (wd_mem w2)"
      using jobs_only_trans [OF k single_job_touches(2) [of ?w c u "jID cl"]] rel by (metis fst_conv)
    have "jobs_only (wd_mem w) (wd_mem (fst (claim_filtered c w2 u a r region allow recheck d s js)))" for d s
      using jobs_only_trans [OF k2 Cons.IH] .
    with Cons k k2 rel Inr q show ?thesis by (cases "region = []") (simp_all add: Let_def split: sum.split)
  qed
qed simp

lemma claim_touches:
  "jobs_only (wd_mem w) (wd_mem (fst (Claim c w u i a r)))"
  "jobs_only (wd_mem w) (wd_mem (fst (ClaimNextFiltered c w u a r region (Some (allow, recheck)))))"
  "jobs_only (wd_mem w) (wd_mem (fst (Create c w u ci)))"
  by (auto simp: Claim_def ClaimNextFiltered_def Create_def Let_def reclaim_touches dest!: store_job_touches
      intro: jobs_only_trans [OF reclaim_touches] claim_filtered_touches split: sum.split option.split)

lemma job_touches:
  assumes "requireScope ''job.run'' p"
  shows "Heartbeat c w u i = (w', r) \<Longrightarrow> confined p (wd_mem w) (wd_mem w')"
    and "ReleaseToPending c w u i reason = (w', r) \<Longrightarrow> confined p (wd_mem w) (wd_mem w')"
    and "Complete c w u i ci = (w', r) \<Longrightarrow> confined p (wd_mem w) (wd_mem w')"
    and "Cancel c w u i = (w', r) \<Longrightarrow> confined p (wd_mem w) (wd_mem w')"
    and "Claim c w u i a b = (w', r) \<Longrightarrow> confined p (wd_mem w) (wd_mem w')"
    and "ClaimNextFiltered c w u a b region (Some (f, g)) = (w', r3) \<Longrightarrow> confined p (wd_mem w) (wd_mem w')"
    and "Create c w u inp = (w', r2) \<Longrightarrow> confined p (wd_mem w) (wd_mem w')"
  using assms single_job_touches(1) [of w c u i] single_job_touches(2) [of w c u i reason] single_job_touches(5) [of w c u i ci]
    single_job_touches(6) [of w c u i] claim_touches(1) [of w c u i a b] claim_touches(2) [of w c u a b region f g]
    claim_touches(3) [of w c u inp]
  by (auto intro: jobs_only_confined)


text \<open>
  Each handler keeps the tables that \<open>confined\<close> compares when an agent calls it, and so does the whole
  table of routes: what an agent token without a scope cannot change through any route.
\<close>

definition confines :: "'b handler \<Rightarrow> bool" where
  "confines h \<longleftrightarrow> (\<forall>p r s. is_agent p \<longrightarrow> confined p (sv_mem s) (sv_mem (fst (h p r s))))"

lemma confinesI:
  "(\<And>p r s. is_agent p \<Longrightarrow> confined p (sv_mem s) (sv_mem (fst (h p r s)))) \<Longrightarrow> confines h"
  by (simp add: confines_def)

lemma confinesD: "confines h \<Longrightarrow> is_agent p \<Longrightarrow> confined p (sv_mem s) (sv_mem (fst (h p r s)))"
  by (simp add: confines_def)

lemma unless_denied_confined:
  assumes "\<And>s1. sv_world s1 = sv_world s \<Longrightarrow> confined q (sv_mem s) (sv_mem (fst (next s1)))"
  shows "confined q (sv_mem s) (sv_mem (fst (unless_denied (allowAgentJob e p d s) next)))"
    "confined q (sv_mem s) (sv_mem (fst (unless_denied (allowAgentProvider e p act s) next)))"
    "confined q (sv_mem s) (sv_mem (fst (unless_denied (allowAgentDrive e p r d s) next)))"
  using assms by (auto simp: unless_denied_def dest!: allow_world split: prod.split option.split)

lemmas write_effects = drive_touches [rotated] provider_touches [rotated] job_touches [rotated]

section \<open>Drives\<close>

lemma drive_writes_confine:
  "confines (create_drive db dd e)" "confines (delete_drive e i)" "confines (create_snapshot db dd e i)"
  "confines (restore_snapshot db dd e i j)" "confines (one_snapshot e i j)"
  by (auto simp: confines_def create_drive_def delete_drive_def create_snapshot_def restore_snapshot_def one_snapshot_def Let_def
      dest!: write_effects split: sum.split prod.split)

lemma patch_drive_confines: "confines (patch_drive db e i)"
  by (auto simp: confines_def patch_drive_def Let_def dest!: write_effects intro!: unless_denied_confined
      split: sum.split prod.split)

lemma drive_reads_confine:
  "confines list_drives" "confines (mount_drive dd i)" "confines (manifest_hint i)" "confines (list_barriers i)"
  "confines (version_hint_route db dd i)" "confines (restore_plan_route db dd e i)" "confines (list_objects dd i)"
  "confines (diff_snapshots dd i)" "confines (complete_barrier db e i)" "confines (restore_version db dd e i)"
  "confines (presign_get_route db dd e i)"
  by (auto simp: confines_def list_drives_def mount_drive_def manifest_hint_def list_barriers_def version_hint_route_def
      restore_plan_route_def list_objects_def diff_snapshots_def complete_barrier_def restore_version_def
      presign_get_route_def Let_def split: sum.split prod.split)

lemma drive_checked_reads_confine:
  "confines (get_drive e i)" "confines (issue_session db dd e i)" "confines (routeDriveByAlias e rest)"
  by (auto simp: confines_def get_drive_def issue_session_def routeDriveByAlias_def Let_def intro!: unless_denied_confined
      split: sum.split prod.split)

lemma snapshots_confine: "confines (routeDriveSnapshots db dd e i rest)"
  by (rule confinesI) (simp add: confinesD routeDriveSnapshots_def drive_reads_confine drive_writes_confine split: sum.split)

lemma objects_confine: "confines (routeDriveObjects db dd e i rest)"
  by (rule confinesI) (simp add: confinesD routeDriveObjects_def drive_reads_confine Let_def split: list.split)

lemma drive_part_confines: "confines (drive_part db dd e i part rest)"
  by (rule confinesI) (simp add: confinesD drive_part_def snapshots_confine objects_confine drive_reads_confine
      drive_checked_reads_confine)

lemma drive_itself_confines: "confines (drive_itself db e i)"
  by (rule confinesI) (simp add: confinesD drive_itself_def drive_checked_reads_confine patch_drive_confines drive_writes_confine)

lemma routeDrives_confine: "confines (routeDrivesRoot db dd e)" "confines (routeDrivesSub db dd e)"
proof -
  show "confines (routeDrivesRoot db dd e)"
    by (rule confinesI) (simp add: confinesD routeDrivesRoot_def drive_writes_confine drive_reads_confine)
  have "confined p (sv_mem s) (sv_mem (fst (drive_part db dd e i part rest p r s1)))"
    if "is_agent p" "sv_world s1 = sv_world s" for p r and s s1 :: server and i part rest
    using confinesD [OF drive_part_confines, of p s1 db dd e i part rest r] that by simp
  then show "confines (routeDrivesSub db dd e)"
    by (intro confinesI)
       (simp add: confinesD routeDrivesSub_def drive_checked_reads_confine drive_itself_confines Let_def
         unless_denied_confined(3))
qed

section \<open>Providers, bindings and devices\<close>

lemma provider_writes_confine: "confines (create_provider rb sv e)" "confines (delete_provider sv e i)"
  by (auto simp: confines_def create_provider_def delete_provider_def Let_def dest!: write_effects
      intro!: unless_denied_confined split: sum.split prod.split)

lemma provider_reads_confine: "confines (get_provider sv e i)" "confines (provider_health sv pb e i)"
  by (auto simp: confines_def get_provider_def provider_health_def intro!: unless_denied_confined split: sum.split)

lemma routeProviders_confine: "confines (routeProvidersRoot rb sv e)" "confines (routeProvidersSub sv pb e)"
proof -
  show "confines (routeProvidersRoot rb sv e)"
    by (rule confinesI) (simp add: confinesD routeProvidersRoot_def provider_writes_confine unless_denied_confined(2))
  show "confines (routeProvidersSub sv pb e)"
    by (rule confinesI) (simp add: confinesD routeProvidersSub_def provider_reads_confine provider_writes_confine Let_def)
qed

lemma binding_writes_confine:
  "confines (create_binding rb sv e)" "confines (report_binding rb e i b)" "confines (desire_binding rb e i b)"
  by (auto simp: confines_def create_binding_def report_binding_def desire_binding_def dest!: write_effects
      intro!: unless_denied_confined split: sum.split prod.split)

lemma binding_reads_confine:
  "confines (list_bindings e)" "confines (get_binding e b)" "confines (binding_session dd e i b)"
  by (auto simp: confines_def list_bindings_def get_binding_def binding_session_def Let_def dest!: visible_bindings_world
      intro!: unless_denied_confined split: sum.split prod.split)

lemma routeBindings_confine: "confines (routeBindingsRoot rb sv e)" "confines (routeBindingsSub rb dd e)"
proof -
  show "confines (routeBindingsRoot rb sv e)"
    by (rule confinesI) (simp add: confinesD routeBindingsRoot_def binding_writes_confine binding_reads_confine)
  show "confines (routeBindingsSub rb dd e)"
    by (rule confinesI) (simp add: confinesD routeBindingsSub_def binding_writes_confine binding_reads_confine Let_def
        split: sum.split)
qed

lemma device_routes_confine:
  "confines (routeDevicesRoot rb e)" "confines routeDevicesSub" "confines (handleSessionRefresh rb dd e)"
  by (auto simp: confines_def routeDevicesRoot_def routeDevicesSub_def handleSessionRefresh_def Let_def
      split: sum.split prod.split)

section \<open>Jobs\<close>

lemma create_job_confines: "confines (create_job jb e)"
proof (rule confinesI)
  fix p :: principal and r and s :: server
  have "confined p (sv_mem s) (wd_mem w1)"
    if "requireScope ''job.run'' p" "sv_world s1 = sv_world s" "Create (we_ctx e) (sv_world s1) (prlUserID p) inp = (w1, res)"
    for s1 :: server and inp w1 res
    using job_touches(7) [OF that(1,3)] that(2) by simp
  then show "confined p (sv_mem s) (sv_mem (fst (create_job jb e p r s)))"
    by (auto simp: create_job_def Let_def intro!: unless_denied_confined split: sum.split prod.split go_error.split)
qed

lemma job_reads_confine: "confines (list_jobs jb e)" "confines (get_job e i)"
  by (auto simp: confines_def list_jobs_def get_job_def Let_def intro!: unless_denied_confined split: prod.split sum.split)

lemma claim_next_confined:
  assumes "claim_next e p runner region s = (s1, res)" "requireScope ''job.run'' p"
  shows "confined p (sv_mem s) (sv_mem s1)"
  using assms by (auto simp: claim_next_def dest!: write_effects split: prod.splits)

lemma claim_known_confined:
  assumes "claim_known e p i runner s = (s1, res)" and job: "requireScope ''job.run'' p"
  shows "confined p (sv_mem s) (sv_mem s1)"
proof -
  let ?u = "prlUserID p"
  obtain s2 x where a: "allowAgentJob e p (drive_of_job s ?u i) s = (s2, x)" by fastforce
  then have w2: "sv_world s2 = sv_world s" by (rule allow_world)
  obtain w q where c: "Claim (we_ctx e) (sv_world s2) ?u i (prlAgentID p) runner = (w, q)" by fastforce
  have k: "confined p (sv_mem s) (wd_mem w)" using job_touches(5) [OF job c] w2 by simp
  have rel: "confined p (sv_mem s) (wd_mem w3)"
    if "ReleaseToPending (we_ctx e) w ?u j reason = (w3, y)" for j reason w3 y
    using confined_trans [OF k job_touches(2) [OF job that]] .
  show ?thesis
    using assms a c k w2 rel
    by (auto simp: claim_known_def dest!: deny_world split: option.splits sum.splits prod.splits if_splits)
qed

lemma claim_job_confines: "confines (claim_job jb e i)"
proof (rule confinesI)
  fix p :: principal and r and s :: server
  have claimed: "confined p (sv_mem s) (sv_mem s2)"
    if "requireScope ''job.run'' p" "sv_world s1 = sv_world s"
      "(if i = ''next'' then claim_next e p a b s1 else claim_known e p i a s1) = (s2, res)" for s1 s2 a b res
    using that claim_next_confined [of e p a b s1 s2 res] claim_known_confined [of e p i a s1 s2 res]
    by (auto split: if_splits)
  show "confined p (sv_mem s) (sv_mem (fst (claim_job jb e i p r s)))"
    unfolding claim_job_def
    by (auto intro!: unless_denied_confined split: prod.split sum.split simp del: confined_scoped) (metis claimed)+
qed

lemma job_actions_confine: "confines (complete_job jb e i)" "confines (heartbeat_job e i)" "confines (cancel_job e i)"
  by (auto simp: confines_def complete_job_def heartbeat_job_def cancel_job_def on_job_def Let_def
      dest!: write_effects intro!: unless_denied_confined split: sum.split prod.split)

lemma routeJobs_confine: "confines (routeJobsRoot jb e)" "confines (routeJobsSub jb e)"
proof -
  show "confines (routeJobsRoot jb e)"
    by (rule confinesI) (simp add: confinesD routeJobsRoot_def create_job_confines job_reads_confine)
  show "confines (routeJobsSub jb e)"
    by (rule confinesI) (simp add: confinesD routeJobsSub_def job_reads_confine claim_job_confines job_actions_confine Let_def)
qed

section \<open>Accounts and agents\<close>

definition users_only :: "memory \<Rightarrow> memory \<Rightarrow> bool" where
  "users_only m m' \<longleftrightarrow> (\<exists>t f v. m' = m\<lparr>m_users := t, m_refresh := f, m_revokedJTI := v\<rparr>)"

lemma users_only_confined: "users_only m m' \<Longrightarrow> confined p m m'"
  by (auto simp: users_only_def)

lemma users_onlyI [simp]:
  "users_only m m" "users_only m (m\<lparr>m_users := t\<rparr>)" "users_only m (m\<lparr>m_refresh := f\<rparr>)" "users_only m (m\<lparr>m_revokedJTI := v\<rparr>)"
proof -
  have "m = m\<lparr>m_users := m_users m, m_refresh := m_refresh m, m_revokedJTI := m_revokedJTI m\<rparr>"
    "m\<lparr>m_users := t\<rparr> = m\<lparr>m_users := t, m_refresh := m_refresh m, m_revokedJTI := m_revokedJTI m\<rparr>"
    "m\<lparr>m_refresh := f\<rparr> = m\<lparr>m_users := m_users m, m_refresh := f, m_revokedJTI := m_revokedJTI m\<rparr>"
    "m\<lparr>m_revokedJTI := v\<rparr> = m\<lparr>m_users := m_users m, m_refresh := m_refresh m, m_revokedJTI := v\<rparr>" by simp_all
  then show "users_only m m" "users_only m (m\<lparr>m_users := t\<rparr>)" "users_only m (m\<lparr>m_refresh := f\<rparr>)"
    "users_only m (m\<lparr>m_revokedJTI := v\<rparr>)"
    unfolding users_only_def by blast+
qed

lemma users_only_trans: "users_only m1 m2 \<Longrightarrow> users_only m2 m3 \<Longrightarrow> users_only m1 m3"
  by (fastforce simp: users_only_def)

lemma user_write_touches:
  "UpdateUserPassword m u h = Inr m' \<Longrightarrow> users_only m m'"
  "BumpTokenVersion m u = Inr (m', n) \<Longrightarrow> users_only m m'"
  "RevokeJTI now m j x = Inr m' \<Longrightarrow> users_only m m'"
  "RevokeRefreshToken m i = Inr m' \<Longrightarrow> users_only m m'"
  by (auto simp: UpdateUserPassword_def BumpTokenVersion_def RevokeJTI_def RevokeRefreshToken_def Let_def
      split: if_splits option.splits sum.splits)

lemma user_quiet_touches [simp]:
  "users_only m (RevokeRefreshTokensForUser m u)" "users_only m (RevokeRefresh sv now m raw)" "users_only m (bump_quietly m u)"
  by (auto simp: RevokeRefreshTokensForUser_def RevokeRefresh_def bump_quietly_def dest: user_write_touches
      split: sum.split)

lemma ChangePassword_touches: "ChangePassword sv m u a b = (m', r) \<Longrightarrow> users_only m m'"
  by (auto simp: ChangePassword_def dest!: user_write_touches(1)
      intro: users_only_trans [OF _ user_quiet_touches(1)] users_only_trans [OF _ user_quiet_touches(3)]
        users_only_trans [OF users_only_trans [OF _ user_quiet_touches(3)] user_quiet_touches(1)]
        users_only_trans [OF users_only_trans [OF _ user_quiet_touches(1)] user_quiet_touches(3)]
      split: sum.splits if_splits)

lemma parsePayload_touches: "parsePayload sv now m tok = (m', x) \<Longrightarrow> users_only m m'"
  by (auto dest!: parsePayload_denylist)

lemma Logout_touches:
  assumes "Logout sv now m tok raw = (m', r)"
  shows "users_only m m'"
proof -
  obtain m1 q where q: "parsePayload sv now m tok = (m1, q)" by fastforce
  then have m1: "users_only m m1" by (rule parsePayload_touches)
  show ?thesis
  proof (cases q)
    case (Inl err)
    with q m1 assms show ?thesis by (simp add: Logout_def)
  next
    case (Inr p)
    define m2 where "m2 = (if raw = [] then m1 else RevokeRefresh sv now m1 raw)"
    have m2: "users_only m m2" using m1 by (auto simp: m2_def intro: users_only_trans)
    have then_refresh: "users_only m (RevokeRefreshTokensForUser m3 u)" if "users_only m m3" for m3 u
      using users_only_trans [OF that user_quiet_touches(1)] .
    have bump: "users_only m m3" if "BumpTokenVersion m2 u = Inr (m3, n)" for m3 u n
      using users_only_trans [OF m2 user_write_touches(2) [OF that]] .
    have deny: "users_only m m3" if "RevokeJTI now m2 j x = Inr m3" for m3 j x
      using users_only_trans [OF m2 user_write_touches(3) [OF that]] .
    show ?thesis
      using assms q Inr m2 bump deny then_refresh
      by (auto simp: Logout_def m2_def [symmetric] Let_def split: if_splits sum.splits)
  qed
qed

lemma account_routes_confine:
  "confines (handleLogout ab e)" "confines handleMe" "confines (handleChangePassword ab e)"
  by (auto simp: confines_def handleLogout_def handleMe_def handleChangePassword_def
      dest!: Logout_touches [THEN users_only_confined] ChangePassword_touches [THEN users_only_confined]
      split: sum.split prod.split)

lemma agent_routes_confine: "confines (routeAgentsRoot ab e)" "confines (routeAgentsSub ab e)"
  by (auto simp: confines_def routeAgentsRoot_def routeAgentsSub_def update_agent_def mint_token_def requireHuman_def Let_def
      split: sum.split prod.split)

section \<open>Memory, marketplace, lineage, graph and connectors\<close>

lemmas free_effects = free_touches

lemma memory_routes_confine:
  "confines (routeMemoryRoot tb sd e)" "confines (routeMemorySearch tb sd e)" "confines (routeMemorySub e)"
  by (auto simp: confines_def routeMemoryRoot_def routeMemorySearch_def routeMemorySub_def put_memory_def delete_memory_def
      Let_def dest!: free_touches split: sum.split prod.split)

lemma install_memory_confined: "confined p m (sv_mem s) \<Longrightarrow> confined p m (sv_mem (fst (install_memory sd e u i res s)))"
proof -
  assume k: "confined p m (sv_mem s)"
  have "confined p m m1" if "Memory_Put vc dr (sv_mem s) u inp = (m1, r)" for vc dr inp m1 r
    using confined_trans [OF k free_touches(1) [OF that]] .
  then show ?thesis by (auto simp: install_memory_def Let_def split: prod.split sum.split)
qed

lemma recorded_install_confined:
  "confined p m (sv_mem s) \<Longrightarrow> confined p m (sv_mem (fst (recordMarketplaceInstall sd e u i res s)))"
  by (simp add: recordMarketplaceInstall_def Let_def split_beta install_memory_confined)

lemma install_item_confines: "confines (install_item sd e i)"
proof (rule confinesI)
  fix p :: principal and r and s :: server
  assume a: "is_agent p"
  have call: "s1 = s" if "install_call sd e p it i s = (s1, res)" "miKind it \<noteq> KindAgentTemplate" for it s1 res
    using that by (auto simp: install_call_def split: if_splits)
  have recd: "confined p (sv_mem s) (sv_mem s2)"
    if "recordMarketplaceInstall sd e u i res (audit e k u a1 i a2 s) = (s2, mid)" for k u a1 a2 res s2 mid
    using recorded_install_confined [of p "sv_mem s" "audit e k u a1 i a2 s" sd e u i res] that by simp
  show "confined p (sv_mem s) (sv_mem (fst (install_item sd e i p r s)))"
    using a by (auto simp: install_item_def requireHuman_def Let_def dest!: call recd split: sum.split prod.split)
qed

lemma marketplace_routes_confine: "confines (routeMarketplaceRoot tb sd e)" "confines (routeMarketplaceSub sd e)"
  by (auto simp: confines_def routeMarketplaceRoot_def routeMarketplaceSub_def publish_item_def routeMarketplaceCheckout_def
      requireHuman_def Let_def confinesD [OF install_item_confines] split: sum.split prod.split)

lemma log_routes_confine:
  "confines routePurchases" "confines (routePurchasesSub tb)" "confines (routeLineage tb e)" "confines (routeGraph tb sd e)"
  by (auto simp: confines_def routePurchases_def routePurchasesSub_def routePurchaseWebhook_def routeLineage_def routeGraph_def
      Let_def dest!: free_touches split: sum.split prod.split)

lemma connector_routes_confine: "confines (routeConnectorsRoot tb sd e)" "confines routeConnectorsSub"
  by (auto simp: confines_def routeConnectorsRoot_def routeConnectorsSub_def create_connector_def requireHuman_def Let_def
      split: sum.split prod.split)

section \<open>The routes\<close>

definition route_confines :: "web_env \<Rightarrow> ('c, 'w) route \<Rightarrow> bool" where
  "route_confines e h \<longleftrightarrow>
     (\<forall>r a s1 p. authenticate e r (ap_server a) = (s1, Inr p) \<longrightarrow> is_agent p \<longrightarrow>
        confined p (sv_mem (ap_server a)) (sv_mem (ap_server (fst (h r a)))))"

lemma authenticate_confined: "authenticate e r s = (s1, x) \<Longrightarrow> confined p (sv_mem s) (sv_mem s1)"
  by (auto dest!: authenticate_changes)

lemma auth_route_confines:
  assumes "confines h"
  shows "route_confines e (auth_route e f h :: ('c, 'w) route)"
  unfolding route_confines_def
proof (intro allI impI)
  fix r s1 p and a :: "('c, 'w) api_state"
  assume a: "authenticate e r (ap_server a) = (s1, Inr p)" and ag: "is_agent p"
  have "confined p (sv_mem (ap_server a)) (sv_mem (fst (h p r s1)))"
    by (rule confined_trans [OF authenticate_confined [OF a] confinesD [OF assms ag]])
  then show "confined p (sv_mem (ap_server a)) (sv_mem (ap_server (fst (auth_route e f h r a))))"
    using a by (auto simp: auth_route_def open_route_def withAuth_def split: prod.split)
qed

lemma admin_route_confines: "route_confines e (admin_route e f h)"
  by (auto simp: route_confines_def admin_route_def open_route_def withAdmin_def withAuth_def admin_only_def
      dest: authenticate_confined)

lemma workspace_route_confines: "route_confines e (workspace_route e h)"
  by (auto simp: route_confines_def workspace_route_def dest: authenticate_confined split: prod.split)

lemma tables_confine:
  "list_all (\<lambda>x. route_confines (ad_env d) (snd x)) (admin_table d)"
  "list_all (\<lambda>x. route_confines (ad_env d) (snd x)) (user_table d)"
  "list_all (\<lambda>x. route_confines (ad_env d) (snd x)) (workspace_table d)"
  by (simp_all add: admin_table_def user_table_def workspace_table_def Let_def admin_route_confines workspace_route_confines
      auth_route_confines account_routes_confine agent_routes_confine memory_routes_confine marketplace_routes_confine
      log_routes_confine connector_routes_confine routeProviders_confine routeDrives_confine routeBindings_confine
      device_routes_confine routeJobs_confine)

lemma route_confined:
  assumes "route_of d r = Some pat" "pat \<in> set (admin_patterns @ user_patterns @ workspace_patterns)"
    "authenticate (ad_env d) r (ap_server a) = (s1, Inr p)" "is_agent p"
  shows "confined p (sv_mem (ap_server a)) (sv_mem (ap_server (fst (route_request d r a))))"
proof -
  obtain h where h: "(pat, h) \<in> set (route_table d)" "\<And>a. route_request d r a = h r a"
    using served_by [OF assms(1)] by blast
  have "route_confines (ad_env d) h"
    using assms(2) entry_tables [OF h(1)] tables_confine [of d] by (fastforce simp: list_all_iff)
  with assms(3,4) show ?thesis by (auto simp: route_confines_def h(2))
qed

text \<open>The administrator routes answer others with 403.\<close>

definition admin_closed :: "web_env \<Rightarrow> ('c, 'w) route \<Rightarrow> bool" where
  "admin_closed e h \<longleftrightarrow>
     (\<forall>r a s1 p. authenticate e r (ap_server a) = (s1, Inr p) \<longrightarrow> is_agent p \<or> prlRole p \<noteq> ''admin'' \<longrightarrow>
        fst (h r a) = a\<lparr>ap_server := s1\<rparr> \<and> (\<exists>msg. snd (h r a) = fail 403 msg))"

lemma admin_route_closed: "admin_closed e (admin_route e f h)"
  by (auto simp: admin_closed_def admin_route_def open_route_def withAdmin_def withAuth_def admin_only_def wrap_def)

lemma admin_table_closed: "list_all (\<lambda>x. admin_closed (ad_env d) (snd x)) (admin_table d)"
  by (simp add: admin_table_def Let_def admin_route_closed)

lemma route_closed:
  assumes "route_of d r = Some pat" "pat \<in> set admin_patterns"
    "authenticate (ad_env d) r (ap_server a) = (s1, Inr p)" "is_agent p \<or> prlRole p \<noteq> ''admin''"
  shows "fst (route_request d r a) = a\<lparr>ap_server := s1\<rparr> \<and> (\<exists>msg. snd (route_request d r a) = fail 403 msg)"
proof -
  obtain h where h: "(pat, h) \<in> set (route_table d)" "\<And>a. route_request d r a = h r a"
    using served_by [OF assms(1)] by blast
  have "admin_closed (ad_env d) h"
    using assms(2) entry_tables [OF h(1)] admin_table_closed [of d] by (fastforce simp: list_all_iff)
  with assms(3,4) show ?thesis unfolding admin_closed_def h(2) by blast
qed

end
