(* ===== verification/Api_Properties.thy ===== *)
theory Api_Properties
  imports Http_Confinement Agent_Properties
begin

text \<open>
  Properties of the API as a whole: what a request without a token, a request of another user, a request
  of an agent and a request of an ordinary user cannot do, whatever its route, its body and the state.
\<close>

section \<open>A concrete server\<close>

definition demo_web :: "auth_service \<Rightarrow> web_env" where
  "demo_web sv =
    \<lparr>we_auth = sv, we_cfg = Config_Load (\<lambda>_. []),
     we_ctx = \<lparr>cx_env = (\<lambda>_. []), cx_now = 5, cx_uuid = (\<lambda>_. ''j9''), cx_lease = 0\<rparr>,
     we_files = \<lparr>fs_unmarshal = (\<lambda>_. Inl []), fs_read = (\<lambda>_. Inl []), fs_stat = (\<lambda>_. Inl [])\<rparr>,
     we_ip = \<lparr>ip_split_host = (\<lambda>_. None), ip_parse = (\<lambda>_. None), ip_in_cidr = (\<lambda>_ _. None)\<rparr>,
     we_draw = (\<lambda>_. demo_draw 5 ''9'')\<rparr>"

definition demo_server :: "memory \<Rightarrow> server" where
  "demo_server m =
    \<lparr>sv_world = \<lparr>wd_mem = m, wd_next = 0\<rparr>, sv_limit = None, sv_authLim = None, sv_authFail = None,
     sv_engine = None, sv_barriers = [], sv_sts = None, sv_oci = []\<rparr>"

definition demo_call :: "string \<Rightarrow> string \<Rightarrow> string \<Rightarrow> web_request" where
  "demo_call m path tok =
    \<lparr>hqMethod = m, hqPath = path, hqHeader = (\<lambda>k. if k = ''Authorization'' then tok else []),
     hqQuery = (\<lambda>_. []), hqBody = [], hqRemoteAddr = []\<rparr>"

definition bearer :: string where "bearer = ''Bearer '' @ tkAccess pair1"

definition demo_api :: "auth_service \<Rightarrow> ('c, 'k, 'w) api_deps \<Rightarrow> ('c, 'k, 'w) api_deps" where
  "demo_api sv d = d\<lparr>ad_env := demo_web sv, ad_platform_s3 := False\<rparr>"

definition demo_state :: "memory \<Rightarrow> ('c, 'w) workspace_state \<Rightarrow> ('c, 'w) api_state" where
  "demo_state m w = \<lparr>ap_server = demo_server m, ap_workspaces = w\<rparr>"

lemma demo_simps [simp]:
  "ad_env (demo_api sv d) = demo_web sv" "ap_server (demo_state m w) = demo_server m"
  by (simp_all add: demo_api_def demo_state_def)

lemma longest_match_pattern:
  "map_option fst (longest_match path t) = map_option fst (longest_match path (map (\<lambda>x. (fst x, ())) t))"
proof (induction t)
  case (Cons x t)
  then show ?case
    by (cases x; cases "longest_match path t"; cases "longest_match path (map (\<lambda>x. (fst x, ())) t)") auto
qed simp

definition served_patterns :: "string \<Rightarrow> string option" where
  "served_patterns path = map_option fst (longest_match path (map (\<lambda>p. (p, ())) (open_patterns @ admin_patterns @ user_patterns)))"

lemma demo_route: "route_of (demo_api sv d) r = served_patterns (hqPath r)"
proof -
  have "map (\<lambda>x. (fst x, ())) (route_table (demo_api sv d)) =
      map (\<lambda>p. (p, ())) (map fst (open_table (demo_api sv d)) @ map fst (admin_table (demo_api sv d)) @
        map fst (user_table (demo_api sv d)))"
    by (simp add: route_table_def workspace_table_def demo_api_def)
  then show ?thesis
    by (simp add: route_of_def served_patterns_def longest_match_pattern [of _ "route_table _"] table_patterns)
qed

lemma demo_routes:
  "served_patterns ''/v1/drives/d1'' = Some ''/v1/drives/''" "served_patterns ''/v1/admin/users'' = Some ''/v1/admin/users''"
  by code_simp+

lemma demo_patterns: "''/v1/drives/'' \<in> set user_patterns" "''/v1/admin/users'' \<in> set admin_patterns"
  by (simp_all add: user_patterns_def admin_patterns_def)

text \<open>The administrator ann, and an agent of hers whose token holds \<open>drive.read\<close> only.\<close>

definition ann :: principal where
  "ann = \<lparr>prlUserID = ''u1'', prlUsername = ''ann'', prlRole = ''admin'', prlAgentID = [], prlScopes = []\<rparr>"

definition bot :: principal where
  "bot = ann\<lparr>prlAgentID := ''u7'', prlScopes := [''drive.read'']\<rparr>"

lemma demo_principals:
  "snd (authenticate (demo_web demo_auth) (demo_call k path bearer) (demo_server auth2)) = Inr ann"
  "snd (authenticate (demo_web agent_auth) (demo_call k path bearer) (demo_server agents1)) = Inr bot"
proof -
  have "snd (ParsePrincipal demo_auth 5 auth2 (tkAccess pair1)) = Inr ann"
    "snd (ParsePrincipal agent_auth 5 agents1 (tkAccess pair1)) = Inr bot" by code_simp+
  then show "snd (authenticate (demo_web demo_auth) (demo_call k path bearer) (demo_server auth2)) = Inr ann"
    "snd (authenticate (demo_web agent_auth) (demo_call k path bearer) (demo_server agents1)) = Inr bot"
    by (auto simp: authenticate_def demo_web_def demo_call_def demo_server_def bearer_def limit_allows_def trim_prefix_def
        put_mem_def Let_def prod_eq_iff split: prod.split sum.split)
qed

lemma demo_unused: "fresh_ids (demo_web demo_auth) (sv_world (demo_server auth2))"
proof -
  have t: "m_providers auth2 = []" "m_drives auth2 = []" "m_bindings auth2 = []" "m_agents auth2 = []" "m_snapshots auth2 = []"
    "m_memories auth2 = []" "m_market auth2 = []" "m_purchases auth2 = []" "m_connectors auth2 = []" "m_jobs auth2 = []"
    by code_simp+
  show ?thesis by (simp add: fresh_ids_def unused_id_def demo_server_def demo_web_def store_wf_auth2 t)
qed

section \<open>Properties\<close>

text \<open>C8: Nothing below a protected route runs without a valid bearer token: for every route of the accounts, drives, jobs, stage C, workspace and administrator tables, when the token check fails the answer is that failure, 401 or 429, and the state is unchanged but for expired entries of the denylist and the rate limiter.\<close>

theorem protected_routes_need_token:
  assumes "route_of d r = Some pat" "pat \<in> set (admin_patterns @ user_patterns @ workspace_patterns)"
    and "authenticate (ad_env d) r (ap_server a) = (s1, Inl (code, msg))"
  shows "route_request d r a = (a\<lparr>ap_server := s1\<rparr>, fail code msg) \<and> code \<in> {401, 429} \<and>
    (\<exists>t l. s1 = (ap_server a)\<lparr>sv_world := (sv_world (ap_server a))\<lparr>wd_mem := (sv_mem (ap_server a))\<lparr>m_revokedJTI := t\<rparr>\<rparr>,
       sv_limit := l\<rparr>)"
proof (intro conjI)
  show "route_request d r a = (a\<lparr>ap_server := s1\<rparr>, fail code msg)" by (rule route_guarded [OF assms])
  show "code \<in> {401, 429}"
    using assms(3) by (auto simp: authenticate_def Let_def split: if_splits prod.splits sum.splits bool.splits)
  show "\<exists>t l. s1 = (ap_server a)\<lparr>sv_world := (sv_world (ap_server a))\<lparr>wd_mem := (sv_mem (ap_server a))\<lparr>m_revokedJTI := t\<rparr>\<rparr>,
       sv_limit := l\<rparr>"
    using authenticate_changes [OF assms(3)] by blast
qed

theorem protected_routes_need_token_witness:
  "\<forall>d w. route_request (demo_api demo_auth d) (demo_call ''DELETE'' ''/v1/drives/d1'' ''Basic x'') (demo_state auth2 w) =
     (demo_state auth2 w, fail 401 ''missing bearer token'')"
proof (intro allI)
  fix d :: "('a, 'b, 'c) api_deps" and w :: "('a, 'c) workspace_state"
  let ?r = "demo_call ''DELETE'' ''/v1/drives/d1'' ''Basic x''"
  have a: "authenticate (ad_env (demo_api demo_auth d)) ?r (ap_server (demo_state auth2 w)) =
      (demo_server auth2, Inl (401, ''missing bearer token''))"
    by (simp add: authenticate_def demo_call_def)
  have r: "route_of (demo_api demo_auth d) ?r = Some ''/v1/drives/''"
    by (simp add: demo_route demo_call_def demo_routes)
  have "''/v1/drives/'' \<in> set (admin_patterns @ user_patterns @ workspace_patterns)" by (simp add: demo_patterns)
  from protected_routes_need_token [OF r this a]
  show "route_request (demo_api demo_auth d) ?r (demo_state auth2 w) = (demo_state auth2 w, fail 401 ''missing bearer token'')"
    by (simp add: demo_state_def)
qed

text \<open>C5: Tenants are isolated: a request with a valid token changes, through any route a user has, no drive, binding, device, snapshot, provider, job, agent, memory, listing, purchase, connector or account of another user, provided the identifiers it draws are not in use.\<close>

theorem tenants_isolated:
  assumes "route_of d r = Some pat" "pat \<in> set (user_patterns @ workspace_patterns)"
    and "authenticate (ad_env d) r (ap_server a) = (s1, Inr p)" "fresh_ids (ad_env d) (sv_world (ap_server a))"
  shows "others_kept (prlUserID p) (sv_mem (ap_server a)) (sv_mem (ap_server (fst (route_request d r a))))"
  by (rule route_safe [OF assms])

theorem tenants_isolated_witness:
  "\<forall>d w. others_kept ''u1'' auth2
     (sv_mem (ap_server (fst (route_request (demo_api demo_auth d) (demo_call ''DELETE'' ''/v1/drives/d1'' bearer) (demo_state auth2 w)))))"
proof (intro allI)
  fix d :: "('a, 'b, 'c) api_deps" and w :: "('a, 'c) workspace_state"
  let ?r = "demo_call ''DELETE'' ''/v1/drives/d1'' bearer"
  obtain s1 where a: "authenticate (ad_env (demo_api demo_auth d)) ?r (ap_server (demo_state auth2 w)) = (s1, Inr ann)"
    using demo_principals(1) by (metis demo_simps prod.collapse)
  have r: "route_of (demo_api demo_auth d) ?r = Some ''/v1/drives/''"
    by (simp add: demo_route demo_call_def demo_routes)
  have "''/v1/drives/'' \<in> set (user_patterns @ workspace_patterns)" by (simp add: demo_patterns)
  from tenants_isolated [OF r this a] demo_unused
  show "others_kept ''u1'' auth2 (sv_mem (ap_server (fst (route_request (demo_api demo_auth d) ?r (demo_state auth2 w)))))"
    by (simp add: ann_def demo_server_def)
qed

text \<open>C6: An agent token is confined by its scopes: through no protected route can it change agents, devices, connectors or marketplace listings; without drive.write it changes no drive, snapshot or binding, without provider.write no provider, and without job.run no job and no webhook row.\<close>

theorem agent_confined_by_scopes:
  assumes "route_of d r = Some pat" "pat \<in> set (admin_patterns @ user_patterns @ workspace_patterns)"
    and "authenticate (ad_env d) r (ap_server a) = (s1, Inr p)" "is_agent p"
  shows "confined p (sv_mem (ap_server a)) (sv_mem (ap_server (fst (route_request d r a))))"
  by (rule route_confined [OF assms])

theorem agent_confined_by_scopes_witness:
  "\<forall>d w. m_drives (sv_mem (ap_server (fst (route_request (demo_api agent_auth d)
       (demo_call ''DELETE'' ''/v1/drives/d1'' bearer) (demo_state agents1 w))))) = m_drives agents1"
proof (intro allI)
  fix d :: "('a, 'b, 'c) api_deps" and w :: "('a, 'c) workspace_state"
  let ?r = "demo_call ''DELETE'' ''/v1/drives/d1'' bearer"
  obtain s1 where a: "authenticate (ad_env (demo_api agent_auth d)) ?r (ap_server (demo_state agents1 w)) = (s1, Inr bot)"
    using demo_principals(2) by (metis demo_simps prod.collapse)
  have r: "route_of (demo_api agent_auth d) ?r = Some ''/v1/drives/''"
    by (simp add: demo_route demo_call_def demo_routes)
  have p: "''/v1/drives/'' \<in> set (admin_patterns @ user_patterns @ workspace_patterns)" by (simp add: demo_patterns)
  have "is_agent bot" "\<not> requireScope ''drive.write'' bot" by code_simp+
  with agent_confined_by_scopes [OF r p a]
  show "m_drives (sv_mem (ap_server (fst (route_request (demo_api agent_auth d) ?r (demo_state agents1 w))))) = m_drives agents1"
    by (simp add: confined_def demo_server_def)
qed

text \<open>C7: The administrator API is closed to agents and to ordinary users: such a request is answered with 403 on every route of the table and does nothing beyond the check of its token.\<close>

theorem admin_api_closed:
  assumes "route_of d r = Some pat" "pat \<in> set admin_patterns"
    and "authenticate (ad_env d) r (ap_server a) = (s1, Inr p)" "is_agent p \<or> prlRole p \<noteq> ''admin''"
  shows "fst (route_request d r a) = a\<lparr>ap_server := s1\<rparr> \<and> (\<exists>msg. snd (route_request d r a) = fail 403 msg)"
  by (rule route_closed [OF assms])

theorem admin_api_closed_witness:
  "\<forall>d w. \<exists>msg. snd (route_request (demo_api agent_auth d) (demo_call ''GET'' ''/v1/admin/users'' bearer) (demo_state agents1 w)) =
     fail 403 msg"
proof (intro allI)
  fix d :: "('a, 'b, 'c) api_deps" and w :: "('a, 'c) workspace_state"
  let ?r = "demo_call ''GET'' ''/v1/admin/users'' bearer"
  obtain s1 where a: "authenticate (ad_env (demo_api agent_auth d)) ?r (ap_server (demo_state agents1 w)) = (s1, Inr bot)"
    using demo_principals(2) by (metis demo_simps prod.collapse)
  have r: "route_of (demo_api agent_auth d) ?r = Some ''/v1/admin/users''"
    by (simp add: demo_route demo_call_def demo_routes)
  have "is_agent bot \<or> prlRole bot \<noteq> ''admin''" by (simp add: bot_def)
  from admin_api_closed [OF r demo_patterns(2) a this]
  show "\<exists>msg. snd (route_request (demo_api agent_auth d) ?r (demo_state agents1 w)) = fail 403 msg" by blast
qed

end
