(* ===== verification/Postgres_Store.thy ===== *)
theory Postgres_Store
  imports Sqlite_Accounts Sqlite_Resources Sqlite_Jobs
begin

text \<open>
  The PostgreSQL store (\<open>internal/store/postgres.go\<close>). Its tables have the columns, primary keys and
  unique indexes of the SQLite schema, so the state holds the same record of tables, and a statement
  that both stores send in the same words is the same definition. What differs: an instant is a
  TIMESTAMPTZ, which keeps microseconds, is compared as an instant and truncates the parameters of a
  query as well; an INTEGER column takes 32 bits, and the driver refuses a parameter outside of them
  (\<open>pg_range\<close>), as the server refuses a sum (\<open>pg_overflow\<close>); texts are ordered by the collation of the
  database (\<open>pg_before\<close>); labels are read with \<open>->>\<close>; most errors come without a context. A TEXT column
  refuses a NUL and bytes that are not UTF-8; the model takes every text as one the server accepts, so
  what a refusal of the captured output of a job would do is outside of it.
\<close>

record postgres =
  pg_tables :: sqlite
  pg_before :: "string \<Rightarrow> string \<Rightarrow> bool"
  pg_range :: string
  pg_overflow :: string

definition on_tables :: "postgres \<Rightarrow> sqlite result \<Rightarrow> postgres result" where
  "on_tables p r = map_sum id (\<lambda>q. p\<lparr>pg_tables := q\<rparr>) r"

definition micro :: "time \<Rightarrow> time" where
  "micro t = t div 1000 * 1000"

definition int4 :: "int \<Rightarrow> bool" where
  "int4 n \<longleftrightarrow> - (2 ^ 31) \<le> n \<and> n < 2 ^ 31"

text \<open>The driver encodes the parameters before the server sees the statement.\<close>

definition encoded :: "bool \<Rightarrow> postgres \<Rightarrow> string + 'a \<Rightarrow> string + 'a" where
  "encoded fits p r = (if fits then r else Inl (pg_range p))"

definition pg_asc :: "('r \<Rightarrow> time) \<Rightarrow> 'r \<Rightarrow> 'r \<Rightarrow> bool" where
  "pg_asc at a b \<longleftrightarrow> at a < at b"

definition pg_desc :: "('r \<Rightarrow> time) \<Rightarrow> 'r \<Rightarrow> 'r \<Rightarrow> bool" where
  "pg_desc at a b \<longleftrightarrow> at b < at a"

interpretation pg_asc_order: strict_weak "pg_asc at" for at :: "'r \<Rightarrow> time"
  by unfold_locales (auto simp: pg_asc_def)

interpretation pg_desc_order: strict_weak "pg_desc at" for at :: "'r \<Rightarrow> time"
  by unfold_locales (auto simp: pg_desc_def)

text \<open>The keys and unique indexes of \<open>Migrate\<close>, and a database as it leaves a new one.\<close>

definition pg_ok :: "postgres \<Rightarrow> bool" where
  "pg_ok p \<longleftrightarrow> sqlite_ok (pg_tables p)"

definition IsPostgresDSN :: "string \<Rightarrow> bool" where
  "IsPostgresDSN s0 =
     (let s = to_lower (trim_space s0) in prefix ''postgres://'' s \<or> prefix ''postgresql://'' s)"

section \<open>Users and the audit log\<close>

definition pg_CreateUser :: "postgres \<Rightarrow> user \<Rightarrow> postgres result" where
  "pg_CreateUser p u =
     (let q = pg_tables p; role = (if uRole u = [] then ''user'' else uRole u)
      in on_tables p (stored ''create user: '' (\<lambda>rows. q\<lparr>q_users := rows\<rparr>)
           (encoded (int4 (uTokenVersion u)) p
              (sql_insert users_ok (q_clash q) (u\<lparr>uRole := role\<rparr>) (q_users q)))))"

definition pg_GetUserByUsername :: "postgres \<Rightarrow> string \<Rightarrow> user result" where
  "pg_GetUserByUsername p username = sq_GetUserByUsername (pg_tables p) username"

definition pg_GetUserByID :: "postgres \<Rightarrow> string \<Rightarrow> user result" where
  "pg_GetUserByID p i = sq_GetUserByID (pg_tables p) i"

definition pg_CountUsers :: "postgres \<Rightarrow> nat" where
  "pg_CountUsers p = length (q_users (pg_tables p))"

definition pg_UpdateUserRole :: "postgres \<Rightarrow> string \<Rightarrow> string \<Rightarrow> postgres result" where
  "pg_UpdateUserRole p i role = on_tables p (sq_UpdateUserRole (pg_tables p) i role)"

definition pg_UpdateUserPassword :: "postgres \<Rightarrow> string \<Rightarrow> string \<Rightarrow> postgres result" where
  "pg_UpdateUserPassword p i hash =
     (let q = pg_tables p
      in on_tables p (affected_or [] ''user not found'' (\<lambda>rows. q\<lparr>q_users := rows\<rparr>)
           (sql_update users_ok (q_clash q) (\<lambda>u. uID u = i) (\<lambda>u. u\<lparr>uPassword := hash\<rparr>) (q_users q))))"

definition pg_ListUsers :: "postgres \<Rightarrow> user list" where
  "pg_ListUsers p =
     map (\<lambda>u. u\<lparr>uPassword := [], uTokenVersion := 0\<rparr>)
       (sort_slice (\<lambda>a b. pg_before p (uUsername a) (uUsername b)) (q_users (pg_tables p)))"

text \<open>\<open>UPDATE ... SET token_version = token_version + 1 ... RETURNING token_version\<close>.\<close>

definition pg_BumpTokenVersion :: "postgres \<Rightarrow> string \<Rightarrow> (postgres \<times> int) result" where
  "pg_BumpTokenVersion p i =
     (let q = pg_tables p
      in case find (\<lambda>u. uID u = i) (q_users q) of
           None \<Rightarrow> Inl (Errorf ''user not found'')
         | Some u \<Rightarrow>
             if \<not> int4 (uTokenVersion u + 1) then Inl (Errorf (pg_overflow p))
             else Inr (p\<lparr>pg_tables := q\<lparr>q_users :=
                    map (\<lambda>u. if uID u = i then u\<lparr>uTokenVersion := uTokenVersion u + 1\<rparr> else u) (q_users q)\<rparr>\<rparr>,
                  uTokenVersion u + 1))"

definition pg_BumpAgentTokenVersion :: "postgres \<Rightarrow> string \<Rightarrow> (postgres \<times> int) result" where
  "pg_BumpAgentTokenVersion p i =
     (let q = pg_tables p
      in case find (\<lambda>a. agID a = i) (q_agents q) of
           None \<Rightarrow> Inl (Errorf ''agent not found'')
         | Some a \<Rightarrow>
             if \<not> int4 (agTokenVersion a + 1) then Inl (Errorf ''agent not found'')
             else Inr (p\<lparr>pg_tables := q\<lparr>q_agents :=
                    map (\<lambda>a. if agID a = i then a\<lparr>agTokenVersion := agTokenVersion a + 1\<rparr> else a) (q_agents q)\<rparr>\<rparr>,
                  agTokenVersion a + 1))"

definition pg_AppendAudit :: "postgres \<Rightarrow> audit_event \<Rightarrow> postgres result" where
  "pg_AppendAudit p e =
     (let q = pg_tables p
      in on_tables p (stored [] (\<lambda>rows. q\<lparr>q_audits := rows\<rparr>)
           (sql_insert (key_ok aeID) (q_clash q) (e\<lparr>aeCreatedAt := micro (aeCreatedAt e)\<rparr>) (q_audits q))))"

definition pg_ListAudit :: "postgres \<Rightarrow> audit_filter \<Rightarrow> audit_event list" where
  "pg_ListAudit p f =
     (let limit = (if afLimit f \<le> 0 \<or> afLimit f > 500 then 100 else afLimit f)
      in take (nat limit)
           (sort_slice (pg_desc aeCreatedAt)
              (filter (\<lambda>e. (afUserID f = [] \<or> aeUserID e = afUserID f) \<and>
                           (afAgentID f = [] \<or> aeAgentID e = afAgentID f) \<and>
                           (afAction f = [] \<or> aeAction e = afAction f)) (q_audits (pg_tables p)))))"

section \<open>Tokens\<close>

text \<open>The pruning reads the clock of the server, \<open>NOW()\<close>; its error is ignored.\<close>

definition pg_RevokeJTI :: "time \<Rightarrow> postgres \<Rightarrow> string \<Rightarrow> time \<Rightarrow> postgres result" where
  "pg_RevokeJTI server_now p jti expiresAt =
     (if jti = [] then Inl (Errorf ''jti required'')
      else (let q = pg_tables p;
                pruned = filter (\<lambda>(j, exp). \<not> exp < server_now) (q_jtis q);
                rows = (if jti \<in> set (map fst pruned)
                        then map (\<lambda>(j, exp). (j, if j = jti then micro expiresAt else exp)) pruned
                        else pruned @ [(jti, micro expiresAt)])
            in Inr (p\<lparr>pg_tables := q\<lparr>q_jtis := rows\<rparr>\<rparr>)))"

definition pg_IsJTIRevoked :: "time \<Rightarrow> postgres \<Rightarrow> string \<Rightarrow> postgres \<times> bool" where
  "pg_IsJTIRevoked now p jti =
     (case sq_IsJTIRevoked now (pg_tables p) jti of (q, b) \<Rightarrow> (p\<lparr>pg_tables := q\<rparr>, b))"

definition pg_CreateRefreshToken :: "postgres \<Rightarrow> refresh_token \<Rightarrow> postgres result" where
  "pg_CreateRefreshToken p t =
     on_tables p (sq_CreateRefreshToken (pg_tables p)
       (t\<lparr>rtExpiresAt := micro (rtExpiresAt t), rtCreatedAt := micro (rtCreatedAt t)\<rparr>))"

definition pg_GetRefreshTokenByHash :: "time \<Rightarrow> postgres \<Rightarrow> string \<Rightarrow> refresh_token result" where
  "pg_GetRefreshTokenByHash now p hash = sq_GetRefreshTokenByHash now (pg_tables p) hash"

definition pg_RevokeRefreshToken :: "postgres \<Rightarrow> string \<Rightarrow> postgres result" where
  "pg_RevokeRefreshToken p i = on_tables p (sq_RevokeRefreshToken (pg_tables p) i)"

definition pg_RevokeRefreshTokensForUser :: "postgres \<Rightarrow> string \<Rightarrow> postgres result" where
  "pg_RevokeRefreshTokensForUser p u = on_tables p (sq_RevokeRefreshTokensForUser (pg_tables p) u)"

section \<open>Agents\<close>

definition pg_CreateAgent :: "postgres \<Rightarrow> agent \<Rightarrow> postgres result" where
  "pg_CreateAgent p a =
     (let q = pg_tables p
      in on_tables p (stored [] (\<lambda>rows. q\<lparr>q_agents := rows\<rparr>)
           (encoded (int4 (agTokenVersion a)) p
              (sql_insert (key_ok agID) (q_clash q) (a\<lparr>agCreatedAt := micro (agCreatedAt a)\<rparr>) (q_agents q)))))"

definition pg_GetAgent :: "postgres \<Rightarrow> string \<Rightarrow> string \<Rightarrow> agent result" where
  "pg_GetAgent p owner i = sq_GetAgent (pg_tables p) owner i"

definition pg_GetAgentByID :: "postgres \<Rightarrow> string \<Rightarrow> agent result" where
  "pg_GetAgentByID p i = sq_GetAgentByID (pg_tables p) i"

definition pg_ListAgents :: "postgres \<Rightarrow> string \<Rightarrow> agent list" where
  "pg_ListAgents p owner =
     sort_slice (pg_desc agCreatedAt) (filter (\<lambda>a. agOwnerUserID a = owner) (q_agents (pg_tables p)))"

definition pg_UpdateAgent :: "postgres \<Rightarrow> agent \<Rightarrow> postgres result" where
  "pg_UpdateAgent p a =
     (let q = pg_tables p
      in on_tables p (affected_or [] ''agent not found'' (\<lambda>rows. q\<lparr>q_agents := rows\<rparr>)
           (encoded (int4 (agTokenVersion a)) p
              (sql_update (key_ok agID) (q_clash q) (\<lambda>r. agID r = agID a \<and> agOwnerUserID r = agOwnerUserID a)
                 (set_agent a) (q_agents q)))))"

definition pg_DeleteAgent :: "postgres \<Rightarrow> string \<Rightarrow> string \<Rightarrow> postgres result" where
  "pg_DeleteAgent p owner i = on_tables p (sq_DeleteAgent (pg_tables p) owner i)"

section \<open>Providers and drives\<close>

definition pg_CreateProvider :: "postgres \<Rightarrow> provider \<Rightarrow> postgres result" where
  "pg_CreateProvider p pr =
     (let q = pg_tables p
      in on_tables p (stored [] (\<lambda>rows. q\<lparr>q_providers := rows\<rparr>)
           (sql_insert (key_ok pID) (q_clash q) pr (q_providers q))))"

definition pg_GetProvider :: "postgres \<Rightarrow> string \<Rightarrow> string \<Rightarrow> provider result" where
  "pg_GetProvider p u i = sq_GetProvider (pg_tables p) u i"

definition pg_ListProviders :: "postgres \<Rightarrow> string \<Rightarrow> provider list" where
  "pg_ListProviders p u = sq_ListProviders (pg_tables p) u"

definition pg_DeleteProvider :: "postgres \<Rightarrow> string \<Rightarrow> string \<Rightarrow> postgres result" where
  "pg_DeleteProvider p u i = on_tables p (sq_DeleteProvider (pg_tables p) u i)"

definition pg_CreateDrive :: "postgres \<Rightarrow> drive \<Rightarrow> postgres result" where
  "pg_CreateDrive p d =
     (let q = pg_tables p
      in on_tables p (stored [] (\<lambda>rows. q\<lparr>q_drives := rows\<rparr>)
           (sql_insert drives_ok (q_clash q) (d\<lparr>dCreatedAt := micro (dCreatedAt d)\<rparr>) (q_drives q))))"

definition pg_GetDrive :: "postgres \<Rightarrow> string \<Rightarrow> string \<Rightarrow> drive result" where
  "pg_GetDrive p u i = sq_GetDrive (pg_tables p) u i"

definition pg_GetDriveByAlias :: "postgres \<Rightarrow> string \<Rightarrow> string \<Rightarrow> drive result" where
  "pg_GetDriveByAlias p u alias = sq_GetDriveByAlias (pg_tables p) u alias"

definition pg_UpdateDrive :: "postgres \<Rightarrow> drive \<Rightarrow> postgres result" where
  "pg_UpdateDrive p d = on_tables p (sq_UpdateDrive (pg_tables p) d)"

definition pg_ListDrives :: "postgres \<Rightarrow> string \<Rightarrow> drive list" where
  "pg_ListDrives p u = sq_ListDrives (pg_tables p) u"

definition pg_DeleteDrive :: "postgres \<Rightarrow> string \<Rightarrow> string \<Rightarrow> postgres result" where
  "pg_DeleteDrive p u i = on_tables p (sq_DeleteDrive (pg_tables p) u i)"

section \<open>Bindings, devices and snapshots\<close>

definition pg_CreateBinding :: "postgres \<Rightarrow> binding \<Rightarrow> postgres result" where
  "pg_CreateBinding p b =
     (let q = pg_tables p
      in on_tables p (stored [] (\<lambda>rows. q\<lparr>q_bindings := rows\<rparr>)
           (sql_insert (key_ok bID) (q_clash q)
              (b\<lparr>bUpdatedAt := micro (bUpdatedAt b), bCreatedAt := micro (bCreatedAt b)\<rparr>) (q_bindings q))))"

definition pg_GetBinding :: "postgres \<Rightarrow> string \<Rightarrow> string \<Rightarrow> binding result" where
  "pg_GetBinding p u i = sq_GetBinding (pg_tables p) u i"

definition pg_ListBindings :: "postgres \<Rightarrow> string \<Rightarrow> string \<Rightarrow> binding list" where
  "pg_ListBindings p u deviceID = sq_ListBindings (pg_tables p) u deviceID"

definition pg_UpdateBinding :: "postgres \<Rightarrow> binding \<Rightarrow> postgres result" where
  "pg_UpdateBinding p b = on_tables p (sq_UpdateBinding (pg_tables p) (b\<lparr>bUpdatedAt := micro (bUpdatedAt b)\<rparr>))"

text \<open>
  One statement, \<open>ON CONFLICT (id) DO UPDATE ... WHERE devices.user_id = EXCLUDED.user_id\<close>: the row of
  another user stays as it is, and the call reports success.
\<close>

definition pg_UpsertDevice :: "postgres \<Rightarrow> device \<Rightarrow> postgres result" where
  "pg_UpsertDevice p d =
     (let q = pg_tables p; seen = micro (vLastSeen d);
          rows = (if vID d \<in> set (map vID (q_devices q))
                  then map (\<lambda>r. if vID r = vID d \<and> vUserID r = vUserID d
                                then r\<lparr>vName := vName d, vLastSeen := seen\<rparr> else r) (q_devices q)
                  else q_devices q @ [d\<lparr>vLastSeen := seen\<rparr>])
      in Inr (p\<lparr>pg_tables := q\<lparr>q_devices := rows\<rparr>\<rparr>))"

definition pg_GetDevice :: "postgres \<Rightarrow> string \<Rightarrow> string \<Rightarrow> device result" where
  "pg_GetDevice p u i = sq_GetDevice (pg_tables p) u i"

definition pg_ListDevices :: "postgres \<Rightarrow> string \<Rightarrow> device list" where
  "pg_ListDevices p u = sq_ListDevices (pg_tables p) u"

definition pg_CreateSnapshot :: "postgres \<Rightarrow> snapshot \<Rightarrow> postgres result" where
  "pg_CreateSnapshot p s =
     on_tables p (sq_CreateSnapshot (pg_tables p) (s\<lparr>snCreatedAt := micro (snCreatedAt s)\<rparr>))"

definition pg_GetSnapshot :: "postgres \<Rightarrow> string \<Rightarrow> string \<Rightarrow> string \<Rightarrow> snapshot result" where
  "pg_GetSnapshot p u d i = sq_GetSnapshot (pg_tables p) u d i"

definition pg_ListSnapshots :: "postgres \<Rightarrow> string \<Rightarrow> string \<Rightarrow> int \<Rightarrow> snapshot list" where
  "pg_ListSnapshots p u d limit0 =
     (let limit = (if limit0 \<le> 0 \<or> limit0 > 200 then 50 else limit0)
      in take (nat limit)
           (sort_slice (pg_desc snCreatedAt)
              (filter (\<lambda>s. snUserID s = u \<and> snDriveID s = d) (q_snapshots (pg_tables p)))))"

definition pg_DeleteSnapshot :: "postgres \<Rightarrow> string \<Rightarrow> string \<Rightarrow> string \<Rightarrow> postgres result" where
  "pg_DeleteSnapshot p u d i = on_tables p (sq_DeleteSnapshot (pg_tables p) u d i)"

text \<open>
  Jobs, the webhook outbox and the Stage C tables of the PostgreSQL store
  (\<open>internal/store/postgres.go\<close>). A NULL instant is the zero instant of the row.
\<close>

section \<open>Jobs\<close>

definition pg_job :: "job \<Rightarrow> job" where
  "pg_job j =
     j\<lparr>jHeartbeatAt := (if is_zero (jHeartbeatAt j) then 0 else micro (jHeartbeatAt j)),
       jClaimedAt := (if is_zero (jClaimedAt j) then 0 else micro (jClaimedAt j)),
       jCreatedAt := micro (jCreatedAt j), jUpdatedAt := micro (jUpdatedAt j)\<rparr>"

definition job_fits :: "job \<Rightarrow> bool" where
  "job_fits j \<longleftrightarrow>
     int4 (jPriority j) \<and> int4 (jTimeoutSec j) \<and> int4 (jAttemptCount j) \<and> int4 (jMaxAttempts j) \<and>
     (case jExitCode j of None \<Rightarrow> True | Some c \<Rightarrow> int4 c)"

definition pg_CreateJob :: "postgres \<Rightarrow> job \<Rightarrow> postgres result" where
  "pg_CreateJob p j =
     (let q = pg_tables p
      in on_tables p (stored [] (\<lambda>rows. q\<lparr>q_jobs := rows\<rparr>)
           (encoded (job_fits j) p (sql_insert jobs_ok (q_clash q) (pg_job j) (q_jobs q)))))"

definition pg_GetJob :: "postgres \<Rightarrow> string \<Rightarrow> string \<Rightarrow> job result" where
  "pg_GetJob p u i = sq_GetJob (pg_tables p) u i"

definition pg_GetJobByID :: "postgres \<Rightarrow> string \<Rightarrow> job result" where
  "pg_GetJobByID p i = sq_GetJobByID (pg_tables p) i"

definition pg_GetJobByIdempotencyKey :: "postgres \<Rightarrow> string \<Rightarrow> string \<Rightarrow> job result" where
  "pg_GetJobByIdempotencyKey p u key = sq_GetJobByIdempotencyKey (pg_tables p) u key"

definition pg_UpdateJob :: "postgres \<Rightarrow> job \<Rightarrow> postgres result" where
  "pg_UpdateJob p j =
     (let q = pg_tables p
      in on_tables p (affected_or [] ''job not found'' (\<lambda>rows. q\<lparr>q_jobs := rows\<rparr>)
           (encoded (job_fits j) p
              (sql_update jobs_ok (q_clash q) (\<lambda>r. jID r = jID j \<and> jUserID r = jUserID j)
                 (set_job (pg_job j)) (q_jobs q)))))"

definition pg_job_desc :: "(string \<Rightarrow> string \<Rightarrow> bool) \<Rightarrow> job \<Rightarrow> job \<Rightarrow> bool" where
  "pg_job_desc before a b \<longleftrightarrow>
     jCreatedAt b < jCreatedAt a \<or> (jCreatedAt a = jCreatedAt b \<and> before (jID b) (jID a))"

definition pg_job_asc :: "(string \<Rightarrow> string \<Rightarrow> bool) \<Rightarrow> job \<Rightarrow> job \<Rightarrow> bool" where
  "pg_job_asc before a b \<longleftrightarrow>
     jCreatedAt a < jCreatedAt b \<or> (jCreatedAt a = jCreatedAt b \<and> before (jID a) (jID b))"

definition pg_queue_order :: "job \<Rightarrow> job \<Rightarrow> bool" where
  "pg_queue_order a b \<longleftrightarrow>
     jPriority b < jPriority a \<or> (jPriority a = jPriority b \<and> jCreatedAt a < jCreatedAt b)"

definition pg_past_cursor :: "(string \<Rightarrow> string \<Rightarrow> bool) \<Rightarrow> time \<Rightarrow> string \<Rightarrow> job \<Rightarrow> bool" where
  "pg_past_cursor before created cid j \<longleftrightarrow>
     (if \<not> is_zero created \<and> cid \<noteq> []
      then jCreatedAt j < micro created \<or> (jCreatedAt j = micro created \<and> before (jID j) cid)
      else True)"

definition pg_ListJobsAdmin :: "postgres \<Rightarrow> admin_job_filter \<Rightarrow> job list" where
  "pg_ListJobsAdmin p f =
     (let limit = (if ajLimit f \<le> 0 then 100 else ajLimit f);
          limit = (if limit > 501 then 501 else limit);
          region = trim_space (ajRegionHint f); runner = trim_space (ajClaimedByRunnerID f)
      in take (nat limit)
           (sort_slice (pg_job_desc (pg_before p))
              (filter (\<lambda>j. (ajUserID f = [] \<or> jUserID j = ajUserID f) \<and>
                           (ajStatus f = [] \<or> jStatus j = ajStatus f) \<and>
                           (region = [] \<or> jRegionHint j = region) \<and>
                           (runner = [] \<or> jClaimedByRunnerID j = runner) \<and>
                           pg_past_cursor (pg_before p) (ajCursorCreated f) (ajCursorID f) j) (q_jobs (pg_tables p)))))"

definition pg_ListJobs :: "postgres \<Rightarrow> string \<Rightarrow> job list" where
  "pg_ListJobs p u = sort_slice (pg_desc jCreatedAt) (filter (\<lambda>j. jUserID j = u) (q_jobs (pg_tables p)))"

text \<open>\<open>labels_json::json ->> k = v\<close>; an absent label is NULL, which equals nothing.\<close>

definition pg_labels_match :: "string gomap \<Rightarrow> job \<Rightarrow> bool" where
  "pg_labels_match want j \<longleftrightarrow>
     list_all (\<lambda>(k0, v). let k = trim_space k0 in k = [] \<or> gget (jLabels j) k = Some v) want"

definition pg_ListJobsPage :: "postgres \<Rightarrow> job_list_filter \<Rightarrow> job list" where
  "pg_ListJobsPage p f =
     (let limit = (if jlLimit f \<le> 0 then 100 else jlLimit f);
          limit = (if limit > 501 then 501 else limit);
          aid = trim_space (jlAgentID f); cid = trim_space (jlClaimedByAgentID f);
          rid = trim_space (jlClaimedByRunnerID f); reg = trim_space (jlRegionHint f);
          st = trim_space (jlStatus f)
      in take (nat limit)
           (sort_slice (pg_job_desc (pg_before p))
              (filter (\<lambda>j. jUserID j = trim_space (jlUserID f) \<and>
                           (aid = [] \<or> jAgentID j = aid) \<and>
                           (cid = [] \<or> jClaimedByAgentID j = cid) \<and>
                           (rid = [] \<or> jClaimedByRunnerID j = rid) \<and>
                           (reg = [] \<or> jRegionHint j = reg) \<and>
                           (st = [] \<or> jStatus j = st) \<and>
                           pg_labels_match (jlLabels f) j \<and>
                           pg_past_cursor (pg_before p) (jlCursorCreated f) (jlCursorID f) j) (q_jobs (pg_tables p)))))"

definition pg_CountJobsByStatus :: "postgres \<Rightarrow> string \<Rightarrow> job_status_counts" where
  "pg_CountJobsByStatus p u = sq_CountJobsByStatus (pg_tables p) u"

definition pg_ListPendingJobs :: "postgres \<Rightarrow> string \<Rightarrow> job list" where
  "pg_ListPendingJobs p u =
     sort_slice pg_queue_order
       (filter (\<lambda>j. jUserID j = u \<and> jStatus j \<in> set [''pending'', ''dispatched'']) (q_jobs (pg_tables p)))"

definition pg_ListRunningJobs :: "postgres \<Rightarrow> string \<Rightarrow> job list" where
  "pg_ListRunningJobs p u0 =
     (let u = trim_space u0; rows = q_jobs (pg_tables p)
      in sort_slice (pg_job_asc (pg_before p))
           (if u \<noteq> [] then filter (\<lambda>j. jUserID j = u \<and> jStatus j = ''running'') rows
            else filter (\<lambda>j. jStatus j = ''running'') rows))"

text \<open>The claim: an error of the statement and an absent row are told apart by a second read only.\<close>

definition pg_ClaimPendingJob ::
  "time \<Rightarrow> postgres \<Rightarrow> string \<Rightarrow> string \<Rightarrow> string \<Rightarrow> string \<Rightarrow> (postgres \<times> job) result" where
  "pg_ClaimPendingJob now0 p u i agent runner =
     (let q = pg_tables p; now = micro now0;
          P = (\<lambda>j. jID j = i \<and> jUserID j = u \<and> jStatus j \<in> set [''pending'', ''dispatched'']);
          set_claim = (\<lambda>j. j\<lparr>jStatus := ''running'', jClaimedByAgentID := agent,
                             jClaimedByRunnerID := runner, jHeartbeatAt := now, jClaimedAt := now,
                             jAttemptCount := jAttemptCount j + 1, jUpdatedAt := now\<rparr>);
          refused = (case pg_GetJob p u i of
                       Inl _ \<Rightarrow> Inl (Errorf ''job not found'')
                     | Inr cur \<Rightarrow> Inl (Errorf (''job not claimable: '' @ jStatus cur)))
      in case find P (q_jobs q) of
           None \<Rightarrow> refused
         | Some j \<Rightarrow>
             if \<not> int4 (jAttemptCount j + 1) then refused
             else Inr (p\<lparr>pg_tables := q\<lparr>q_jobs := map (\<lambda>j. if P j then set_claim j else j) (q_jobs q)\<rparr>\<rparr>, set_claim j))"

section \<open>Retention\<close>

definition pg_DeleteWebhookOutboxByJobIDs :: "postgres \<Rightarrow> string list \<Rightarrow> postgres \<times> nat" where
  "pg_DeleteWebhookOutboxByJobIDs p ids =
     (let q = pg_tables p
      in if ids = [] then (p, 0)
         else (p\<lparr>pg_tables := q\<lparr>q_outbox := filter (\<lambda>e. wJobID e \<notin> set ids) (q_outbox q)\<rparr>\<rparr>,
               length (filter (\<lambda>e. wJobID e \<in> set ids) (q_outbox q))))"

definition pg_PurgeTerminalJobs :: "postgres \<Rightarrow> time \<Rightarrow> int \<Rightarrow> postgres \<times> nat" where
  "pg_PurgeTerminalJobs p olderThan limit0 =
     (let q = pg_tables p;
          limit = (if limit0 \<le> 0 then 500 else limit0);
          limit = (if limit > 5000 then 5000 else limit);
          ids = map jID (take (nat limit)
                  (sort_slice (pg_asc jUpdatedAt)
                     (filter (\<lambda>j. jStatus j \<in> set [''succeeded'', ''failed'', ''cancelled''] \<and>
                                  jUpdatedAt j < micro olderThan) (q_jobs q))))
      in if ids = [] then (p, 0)
         else (fst (pg_DeleteWebhookOutboxByJobIDs
                 (p\<lparr>pg_tables := q\<lparr>q_jobs := filter (\<lambda>j. jID j \<notin> set ids) (q_jobs q)\<rparr>\<rparr>) ids),
               length (filter (\<lambda>j. jID j \<in> set ids) (q_jobs q))))"

section \<open>The webhook outbox\<close>

definition pg_outbox :: "webhook_outbox \<Rightarrow> webhook_outbox" where
  "pg_outbox e =
     e\<lparr>wNextAttemptAt := micro (wNextAttemptAt e), wCreatedAt := micro (wCreatedAt e), wUpdatedAt := micro (wUpdatedAt e),
       wDeliveredAt := (if is_zero (wDeliveredAt e) then 0 else micro (wDeliveredAt e))\<rparr>"

definition pg_EnqueueWebhookOutbox :: "postgres \<Rightarrow> webhook_outbox \<Rightarrow> postgres result" where
  "pg_EnqueueWebhookOutbox p e =
     (let q = pg_tables p
      in if trim_space (wID e) = [] then Inl (Errorf ''webhook outbox id required'')
         else on_tables p (stored ''enqueue webhook outbox: '' (\<lambda>rows. q\<lparr>q_outbox := rows\<rparr>)
                (encoded (int4 (wAttempts e)) p
                   (sql_insert (key_ok wID) (q_clash q) (pg_outbox e) (q_outbox q)))))"

definition pg_ListDueWebhookOutbox :: "postgres \<Rightarrow> time \<Rightarrow> int \<Rightarrow> webhook_outbox list" where
  "pg_ListDueWebhookOutbox p now limit0 =
     (let limit = (if limit0 \<le> 0 then 32 else limit0);
          limit = (if limit > 200 then 200 else limit)
      in take (nat limit)
           (sort_slice (pg_asc wNextAttemptAt)
              (filter (\<lambda>e. wStatus e = ''pending'' \<and> wNextAttemptAt e \<le> micro now) (q_outbox (pg_tables p)))))"

definition pg_UpdateWebhookOutbox :: "postgres \<Rightarrow> webhook_outbox \<Rightarrow> postgres result" where
  "pg_UpdateWebhookOutbox p e =
     (let q = pg_tables p
      in if trim_space (wID e) = [] then Inl (Errorf ''webhook outbox id required'')
         else on_tables p (affected_or [] ''webhook outbox not found'' (\<lambda>rows. q\<lparr>q_outbox := rows\<rparr>)
                (encoded (int4 (wAttempts e)) p
                   (sql_update (key_ok wID) (q_clash q) (\<lambda>r. wID r = wID e) (set_outbox (pg_outbox e)) (q_outbox q)))))"

definition pg_GetWebhookOutbox :: "postgres \<Rightarrow> string \<Rightarrow> webhook_outbox result" where
  "pg_GetWebhookOutbox p i = sq_GetWebhookOutbox (pg_tables p) i"

definition pg_ListWebhookOutbox :: "postgres \<Rightarrow> webhook_outbox_filter \<Rightarrow> webhook_outbox list" where
  "pg_ListWebhookOutbox p f =
     (let limit = (if wfLimit f \<le> 0 then 100 else wfLimit f);
          limit = (if limit > 500 then 500 else limit);
          status = trim_space (wfStatus f); jobID = trim_space (wfJobID f);
          userID = trim_space (wfUserID f); event = trim_space (wfEvent f)
      in take (nat limit)
           (sort_slice (pg_desc wCreatedAt)
              (filter (\<lambda>e. (status = [] \<or> wStatus e = status) \<and> (jobID = [] \<or> wJobID e = jobID) \<and>
                           (userID = [] \<or> wUserID e = userID) \<and> (event = [] \<or> wEvent e = event))
                 (q_outbox (pg_tables p)))))"

definition pg_CountWebhookOutbox :: "postgres \<Rightarrow> webhook_outbox_counts" where
  "pg_CountWebhookOutbox p = sq_CountWebhookOutbox (pg_tables p)"

text \<open>\<open>COALESCE(delivered_at, updated_at)\<close> orders and dates a delivered row.\<close>

definition pg_PurgeWebhookOutbox :: "postgres \<Rightarrow> time \<Rightarrow> int \<Rightarrow> postgres \<times> nat" where
  "pg_PurgeWebhookOutbox p olderThan limit0 =
     (let q = pg_tables p; cut = micro olderThan;
          limit = (if limit0 \<le> 0 then 500 else limit0);
          limit = (if limit > 5000 then 5000 else limit);
          doomed = map wID (take (nat limit)
                     (sort_slice (pg_asc settled_column)
                        (filter (\<lambda>e. (wStatus e = ''delivered'' \<and> settled_column e < cut) \<or>
                                     (wStatus e = ''dead'' \<and> wUpdatedAt e < cut)) (q_outbox q))))
      in (p\<lparr>pg_tables := q\<lparr>q_outbox := filter (\<lambda>e. wID e \<notin> set doomed) (q_outbox q)\<rparr>\<rparr>,
          length (filter (\<lambda>e. wID e \<in> set doomed) (q_outbox q))))"

section \<open>Agent memories and the marketplace\<close>

definition pg_CreateMemory :: "postgres \<Rightarrow> memory_entry \<Rightarrow> postgres result" where
  "pg_CreateMemory p e =
     on_tables p (sq_CreateMemory (pg_tables p)
       (e\<lparr>meCreatedAt := micro (meCreatedAt e),
          meExpiresAt := (if is_zero (meExpiresAt e) then 0 else micro (meExpiresAt e))\<rparr>))"

definition pg_GetMemory :: "postgres \<Rightarrow> string \<Rightarrow> string \<Rightarrow> memory_entry result" where
  "pg_GetMemory p u i = sq_GetMemory (pg_tables p) u i"

definition pg_ListMemory :: "time \<Rightarrow> postgres \<Rightarrow> memory_filter \<Rightarrow> memory_entry list" where
  "pg_ListMemory now p f =
     (let limit = (if mfLimit f \<le> 0 \<or> mfLimit f > 500 then 100 else mfLimit f);
          rows = take (nat (limit * 3))
                   (sort_slice (pg_desc meCreatedAt) (filter (\<lambda>e. meUserID e = mfUserID f) (q_memories (pg_tables p))))
      in take (nat limit)
           (filter (\<lambda>e. \<not> (mfAgentID f \<noteq> [] \<and> meAgentID e \<noteq> mfAgentID f) \<and>
                        \<not> (mfDriveID f \<noteq> [] \<and> meDriveID e \<noteq> mfDriveID f) \<and>
                        \<not> (mfLayer f \<noteq> [] \<and> meLayer e \<noteq> mfLayer f) \<and>
                        \<not> (mfKey f \<noteq> [] \<and> meKey e \<noteq> mfKey f) \<and>
                        \<not> (\<not> is_zero (meExpiresAt e) \<and> meExpiresAt e < now)) rows))"

definition pg_DeleteMemory :: "postgres \<Rightarrow> string \<Rightarrow> string \<Rightarrow> postgres result" where
  "pg_DeleteMemory p u i = on_tables p (sq_DeleteMemory (pg_tables p) u i)"

definition pg_CreateMarketplaceItem :: "postgres \<Rightarrow> marketplace_item \<Rightarrow> postgres result" where
  "pg_CreateMarketplaceItem p it =
     on_tables p (sq_CreateMarketplaceItem (pg_tables p) (it\<lparr>miCreatedAt := micro (miCreatedAt it)\<rparr>))"

definition pg_GetMarketplaceItem :: "postgres \<Rightarrow> string \<Rightarrow> marketplace_item result" where
  "pg_GetMarketplaceItem p i = sq_GetMarketplaceItem (pg_tables p) i"

definition pg_ListMarketplaceItems :: "postgres \<Rightarrow> bool \<Rightarrow> string \<Rightarrow> marketplace_item list" where
  "pg_ListMarketplaceItems p publicOnly publisher =
     filter (\<lambda>it. \<not> (publicOnly \<and> \<not> miPublic it) \<and>
                  \<not> (publisher \<noteq> [] \<and> miPublisherUserID it \<noteq> publisher))
       (take 500 (sort_slice (pg_desc miCreatedAt) (q_market (pg_tables p))))"

definition pg_DeleteMarketplaceItem :: "postgres \<Rightarrow> string \<Rightarrow> string \<Rightarrow> postgres result" where
  "pg_DeleteMarketplaceItem p publisher i = on_tables p (sq_DeleteMarketplaceItem (pg_tables p) publisher i)"

section \<open>Lineage, the identity graph, purchases and connectors\<close>

definition pg_AppendLineage :: "postgres \<Rightarrow> lineage_event \<Rightarrow> postgres result" where
  "pg_AppendLineage p e =
     on_tables p (sq_AppendLineage (pg_tables p) (e\<lparr>leCreatedAt := micro (leCreatedAt e)\<rparr>))"

definition pg_ListLineage :: "postgres \<Rightarrow> string \<Rightarrow> string \<Rightarrow> int \<Rightarrow> lineage_event list" where
  "pg_ListLineage p u entity limit0 =
     (let limit = (if limit0 \<le> 0 \<or> limit0 > 500 then 100 else limit0);
          rows = take (nat (limit * 2))
                   (sort_slice (pg_desc leCreatedAt) (filter (\<lambda>e. leUserID e = u) (q_lineage (pg_tables p))))
      in take (nat limit)
           (filter (\<lambda>e. \<not> (entity \<noteq> [] \<and> leEntity e \<noteq> entity \<and> leParent e \<noteq> entity)) rows))"

text \<open>The conflict clause sets neither the owner nor the creation instant of an edge that is there.\<close>

definition pg_UpsertGraphEdge :: "postgres \<Rightarrow> graph_edge \<Rightarrow> postgres result" where
  "pg_UpsertGraphEdge p e =
     (let q = pg_tables p;
          rows = (if geID e \<in> set (map geID (q_graph q))
                  then map (\<lambda>r. if geID r = geID e
                                then e\<lparr>geUserID := geUserID r, geCreatedAt := geCreatedAt r\<rparr> else r) (q_graph q)
                  else q_graph q @ [e\<lparr>geCreatedAt := micro (geCreatedAt e)\<rparr>])
      in Inr (p\<lparr>pg_tables := q\<lparr>q_graph := rows\<rparr>\<rparr>))"

definition pg_ListGraphEdges :: "postgres \<Rightarrow> string \<Rightarrow> string \<Rightarrow> string \<Rightarrow> int \<Rightarrow> graph_edge list" where
  "pg_ListGraphEdges p u subject object limit = sq_ListGraphEdges (pg_tables p) u subject object limit"

definition pg_CreatePurchase :: "postgres \<Rightarrow> purchase \<Rightarrow> postgres result" where
  "pg_CreatePurchase p pu =
     on_tables p (sq_CreatePurchase (pg_tables p) (pu\<lparr>puCreatedAt := micro (puCreatedAt pu)\<rparr>))"

definition pg_GetPurchase :: "postgres \<Rightarrow> string \<Rightarrow> string \<Rightarrow> purchase result" where
  "pg_GetPurchase p u i = sq_GetPurchase (pg_tables p) u i"

definition pg_ListPurchases :: "postgres \<Rightarrow> string \<Rightarrow> int \<Rightarrow> purchase list" where
  "pg_ListPurchases p u limit0 =
     (let limit = (if limit0 \<le> 0 \<or> limit0 > 200 then 50 else limit0)
      in take (nat limit)
           (sort_slice (pg_desc puCreatedAt) (filter (\<lambda>r. puUserID r = u) (q_purchases (pg_tables p)))))"

definition pg_UpdatePurchase :: "postgres \<Rightarrow> purchase \<Rightarrow> postgres result" where
  "pg_UpdatePurchase p pu = on_tables p (sq_UpdatePurchase (pg_tables p) pu)"

definition pg_CreateConnector :: "postgres \<Rightarrow> connector_binding \<Rightarrow> postgres result" where
  "pg_CreateConnector p c =
     on_tables p (sq_CreateConnector (pg_tables p) (c\<lparr>cbCreatedAt := micro (cbCreatedAt c)\<rparr>))"

definition pg_GetConnector :: "postgres \<Rightarrow> string \<Rightarrow> string \<Rightarrow> connector_binding result" where
  "pg_GetConnector p u i = sq_GetConnector (pg_tables p) u i"

definition pg_ListConnectors :: "postgres \<Rightarrow> string \<Rightarrow> connector_binding list" where
  "pg_ListConnectors p u =
     sort_slice (pg_desc cbCreatedAt) (filter (\<lambda>c. cbUserID c = u) (q_connectors (pg_tables p)))"

definition pg_DeleteConnector :: "postgres \<Rightarrow> string \<Rightarrow> string \<Rightarrow> postgres result" where
  "pg_DeleteConnector p u i = on_tables p (sq_DeleteConnector (pg_tables p) u i)"

end
