(* ===== verification/Postgres_Properties.thy ===== *)
theory Postgres_Properties
  imports Postgres_Store Sqlite_Properties
begin

text \<open>
  The PostgreSQL store refines the in-memory store with instants cut to microseconds, and its pages of
  jobs are those of the in-memory store when the database sorts texts by their bytes.
\<close>

section \<open>The calls\<close>

fun postgres_write :: "postgres \<Rightarrow> store_write \<Rightarrow> postgres result" where
  "postgres_write p (Create_user u) = pg_CreateUser p u"
| "postgres_write p (Set_role i role) = pg_UpdateUserRole p i role"
| "postgres_write p (Set_password i hash) = pg_UpdateUserPassword p i hash"
| "postgres_write p (Bump_user i) = map_sum id fst (pg_BumpTokenVersion p i)"
| "postgres_write p (Bump_agent i) = map_sum id fst (pg_BumpAgentTokenVersion p i)"
| "postgres_write p (Create_refresh t) = pg_CreateRefreshToken p t"
| "postgres_write p (Revoke_refresh i) = pg_RevokeRefreshToken p i"
| "postgres_write p (Revoke_user_refresh u) = pg_RevokeRefreshTokensForUser p u"
| "postgres_write p (Create_agent a) = pg_CreateAgent p a"
| "postgres_write p (Update_agent a) = pg_UpdateAgent p a"
| "postgres_write p (Delete_agent u i) = pg_DeleteAgent p u i"
| "postgres_write p (Create_provider pr) = pg_CreateProvider p pr"
| "postgres_write p (Delete_provider u i) = pg_DeleteProvider p u i"
| "postgres_write p (Create_drive d) = pg_CreateDrive p d"
| "postgres_write p (Update_drive d) = pg_UpdateDrive p d"
| "postgres_write p (Delete_drive u i) = pg_DeleteDrive p u i"
| "postgres_write p (Create_binding b) = pg_CreateBinding p b"
| "postgres_write p (Update_binding b) = pg_UpdateBinding p b"
| "postgres_write p (Upsert_device d) = pg_UpsertDevice p d"
| "postgres_write p (Create_snapshot s) = pg_CreateSnapshot p s"
| "postgres_write p (Delete_snapshot u d i) = pg_DeleteSnapshot p u d i"
| "postgres_write p (Create_job j) = pg_CreateJob p j"
| "postgres_write p (Update_job j) = pg_UpdateJob p j"
| "postgres_write p (Claim_job now u i a r) = map_sum id fst (pg_ClaimPendingJob now p u i a r)"
| "postgres_write p (Create_memory e) = pg_CreateMemory p e"
| "postgres_write p (Delete_memory u i) = pg_DeleteMemory p u i"
| "postgres_write p (Create_item it) = pg_CreateMarketplaceItem p it"
| "postgres_write p (Delete_item u i) = pg_DeleteMarketplaceItem p u i"
| "postgres_write p (Upsert_edge e) = pg_UpsertGraphEdge p e"
| "postgres_write p (Create_purchase pu) = pg_CreatePurchase p pu"
| "postgres_write p (Update_purchase pu) = pg_UpdatePurchase p pu"
| "postgres_write p (Create_connector c) = pg_CreateConnector p c"
| "postgres_write p (Delete_connector u i) = pg_DeleteConnector p u i"
| "postgres_write p (Enqueue_webhook e) = pg_EnqueueWebhookOutbox p e"
| "postgres_write p (Update_webhook e) = pg_UpdateWebhookOutbox p e"

text \<open>The call with the instants of its arguments cut to microseconds.\<close>

definition micro_or_zero :: "time \<Rightarrow> time" where
  "micro_or_zero t = (if is_zero t then 0 else micro t)"

fun micro_write :: "store_write \<Rightarrow> store_write" where
  "micro_write (Create_refresh t) =
     Create_refresh (t\<lparr>rtExpiresAt := micro (rtExpiresAt t), rtCreatedAt := micro (rtCreatedAt t)\<rparr>)"
| "micro_write (Create_agent a) = Create_agent (a\<lparr>agCreatedAt := micro (agCreatedAt a)\<rparr>)"
| "micro_write (Create_drive d) = Create_drive (d\<lparr>dCreatedAt := micro (dCreatedAt d)\<rparr>)"
| "micro_write (Create_binding b) =
     Create_binding (b\<lparr>bUpdatedAt := micro (bUpdatedAt b), bCreatedAt := micro (bCreatedAt b)\<rparr>)"
| "micro_write (Update_binding b) = Update_binding (b\<lparr>bUpdatedAt := micro (bUpdatedAt b)\<rparr>)"
| "micro_write (Upsert_device d) = Upsert_device (d\<lparr>vLastSeen := micro (vLastSeen d)\<rparr>)"
| "micro_write (Create_snapshot s) = Create_snapshot (s\<lparr>snCreatedAt := micro (snCreatedAt s)\<rparr>)"
| "micro_write (Create_job j) = Create_job (pg_job j)"
| "micro_write (Update_job j) = Update_job (pg_job j)"
| "micro_write (Claim_job now u i a r) = Claim_job (micro now) u i a r"
| "micro_write (Create_memory e) =
     Create_memory (e\<lparr>meCreatedAt := micro (meCreatedAt e), meExpiresAt := micro_or_zero (meExpiresAt e)\<rparr>)"
| "micro_write (Create_item it) = Create_item (it\<lparr>miCreatedAt := micro (miCreatedAt it)\<rparr>)"
| "micro_write (Upsert_edge e) = Upsert_edge (e\<lparr>geCreatedAt := micro (geCreatedAt e)\<rparr>)"
| "micro_write (Create_purchase pu) = Create_purchase (pu\<lparr>puCreatedAt := micro (puCreatedAt pu)\<rparr>)"
| "micro_write (Create_connector c) = Create_connector (c\<lparr>cbCreatedAt := micro (cbCreatedAt c)\<rparr>)"
| "micro_write (Enqueue_webhook e) = Enqueue_webhook (pg_outbox e)"
| "micro_write (Update_webhook e) = Update_webhook (pg_outbox e)"
| "micro_write w = w"

text \<open>
  Integers within their columns, a device that is new or the caller's own, an edge that is new or keeps
  its owner and creation instant.
\<close>

fun pg_admissible :: "sqlite \<Rightarrow> store_write \<Rightarrow> bool" where
  "pg_admissible q (Create_user u) \<longleftrightarrow> int4 (uTokenVersion u)"
| "pg_admissible q (Bump_user i) \<longleftrightarrow> (\<forall>u \<in> set (q_users q). uID u = i \<longrightarrow> int4 (uTokenVersion u + 1))"
| "pg_admissible q (Bump_agent i) \<longleftrightarrow> (\<forall>a \<in> set (q_agents q). agID a = i \<longrightarrow> int4 (agTokenVersion a + 1))"
| "pg_admissible q (Create_agent a) \<longleftrightarrow> int4 (agTokenVersion a)"
| "pg_admissible q (Update_agent a) \<longleftrightarrow> int4 (agTokenVersion a)"
| "pg_admissible q (Upsert_device d) \<longleftrightarrow> (\<forall>r \<in> set (q_devices q). vID r = vID d \<longrightarrow> vUserID r = vUserID d)"
| "pg_admissible q (Create_job j) \<longleftrightarrow> job_fits j"
| "pg_admissible q (Update_job j) \<longleftrightarrow> job_fits j"
| "pg_admissible q (Claim_job now u i a r) \<longleftrightarrow> (\<forall>j \<in> set (q_jobs q). jID j = i \<longrightarrow> int4 (jAttemptCount j + 1))"
| "pg_admissible q (Upsert_edge e) \<longleftrightarrow> (\<forall>r \<in> set (q_graph q). geID r = geID e \<longrightarrow>
       geUserID r = geUserID e \<and> geCreatedAt r = micro (geCreatedAt e))"
| "pg_admissible q (Enqueue_webhook e) \<longleftrightarrow> int4 (wAttempts e)"
| "pg_admissible q (Update_webhook e) \<longleftrightarrow> int4 (wAttempts e)"
| "pg_admissible _ _ \<longleftrightarrow> True"

section \<open>Comparison with the SQLite store\<close>

text \<open>The same tables on success; on failure the same error or the driver's.\<close>

definition like_sqlite :: "bool \<Rightarrow> postgres \<Rightarrow> postgres result \<Rightarrow> sqlite result \<Rightarrow> bool" where
  "like_sqlite key p a b \<longleftrightarrow>
     (case a of
        Inr p' \<Rightarrow> b = Inr (pg_tables p')
      | Inl e \<Rightarrow> b = Inl e \<or> (key \<and> clash_error (q_clash (pg_tables p)) e))"

lemma on_tables_like [simp]: "like_sqlite key p (on_tables p r) r"
  by (cases r) (simp_all add: like_sqlite_def on_tables_def)

lemma clash_refl [simp]: "clash_error c (Errorf c)" "clash_error c (Errorf (x @ c))"
  by (simp_all add: clash_error_def suffix_def)

lemma insert_like:
  "like_sqlite (\<not> ok (rows @ [r])) p
     (on_tables p (stored ctxt put (sql_insert ok (q_clash (pg_tables p)) r rows)))
     (stored ctxt' put (sql_insert ok (q_clash (pg_tables p)) r rows))"
  by (simp add: like_sqlite_def on_tables_def stored_def sql_insert_def)

lemma encoded_fits [simp]: "encoded True p r = r"
  by (simp add: encoded_def)

lemma like_same_error [simp]: "like_sqlite key p (Inl e) (Inl e)"
  by (simp add: like_sqlite_def)

lemma pg_row_keys [simp]:
  "jID (pg_job j) = jID j" "jUserID (pg_job j) = jUserID j" "wID (pg_outbox e) = wID e"
  by (simp_all add: pg_job_def pg_outbox_def)


lemma map_keeps_key: "(\<And>r. key (g r) = key r) \<Longrightarrow> map key (map (\<lambda>r. if P r then g r else r) rows) = map key rows"
  by (induction rows) auto

lemma users_ok_map:
  assumes "\<And>u. uID (g u) = uID u" "\<And>u. uUsername (g u) = uUsername u"
  shows "users_ok (map (\<lambda>u. if P u then g u else u) rows) = users_ok rows"
  unfolding users_ok_def map_keeps_key [of uID g, OF assms(1)] map_keeps_key [of uUsername g, OF assms(2)] ..

lemma key_ok_map: "(\<And>r. key (g r) = key r) \<Longrightarrow> key_ok key (map (\<lambda>r. if P r then g r else r) rows) = key_ok key rows"
  unfolding key_ok_def by (simp only: map_keeps_key)

lemma find_map_upd:
  assumes "\<And>r. key (g r) = key r"
  shows "find (\<lambda>r. key r = i) (map (\<lambda>r. if key r = i then g r else r) rows) = map_option g (find (\<lambda>r. key r = i) rows)"
  using assms by (induction rows) auto

lemma find_filter_length: "find P rows = None \<longleftrightarrow> length (filter P rows) = 0"
  by (induction rows) auto

lemma sq_bump_user:
  assumes "users_ok (q_users q)"
  shows "sq_BumpTokenVersion q i =
    (case find (\<lambda>u. uID u = i) (q_users q) of
       None \<Rightarrow> Inl (Errorf ''user not found'')
     | Some u \<Rightarrow> Inr (q\<lparr>q_users := map (\<lambda>u. if uID u = i then u\<lparr>uTokenVersion := uTokenVersion u + 1\<rparr> else u) (q_users q)\<rparr>,
                   uTokenVersion u + 1))"
proof -
  let ?g = "\<lambda>u :: user. u\<lparr>uTokenVersion := uTokenVersion u + 1\<rparr>"
  have ok: "users_ok (map (\<lambda>u. if uID u = i then ?g u else u) (q_users q))" using assms by (subst users_ok_map) simp_all
  have f: "find (\<lambda>u. uID u = i) (map (\<lambda>u. if uID u = i then ?g u else u) (q_users q)) =
      map_option ?g (find (\<lambda>u. uID u = i) (q_users q))" by (rule find_map_upd) simp
  show ?thesis
    using ok find_filter_length [of "\<lambda>u. uID u = i" "q_users q"]
    by (cases "find (\<lambda>u. uID u = i) (q_users q)") (simp_all add: sq_BumpTokenVersion_def affected_or_def sql_update_def Let_def f)
qed

lemma sq_bump_agent:
  assumes "key_ok agID (q_agents q)"
  shows "sq_BumpAgentTokenVersion q i =
    (case find (\<lambda>a. agID a = i) (q_agents q) of
       None \<Rightarrow> Inl (Errorf ''agent not found'')
     | Some a \<Rightarrow> Inr (q\<lparr>q_agents := map (\<lambda>a. if agID a = i then a\<lparr>agTokenVersion := agTokenVersion a + 1\<rparr> else a) (q_agents q)\<rparr>,
                   agTokenVersion a + 1))"
proof -
  let ?g = "\<lambda>a :: agent. a\<lparr>agTokenVersion := agTokenVersion a + 1\<rparr>"
  have ok: "key_ok agID (map (\<lambda>a. if agID a = i then ?g a else a) (q_agents q))" using assms by (subst key_ok_map) simp_all
  have f: "find (\<lambda>a. agID a = i) (map (\<lambda>a. if agID a = i then ?g a else a) (q_agents q)) =
      map_option ?g (find (\<lambda>a. agID a = i) (q_agents q))" by (rule find_map_upd) simp
  show ?thesis
    using ok find_filter_length [of "\<lambda>a. agID a = i" "q_agents q"]
    by (cases "find (\<lambda>a. agID a = i) (q_agents q)") (simp_all add: sq_BumpAgentTokenVersion_def affected_or_def sql_update_def Let_def f)
qed

lemma bump_like:
  assumes "users_ok (q_users (pg_tables p))" "key_ok agID (q_agents (pg_tables p))"
  shows "pg_admissible (pg_tables p) (Bump_user i) \<Longrightarrow>
      like_sqlite False p (postgres_write p (Bump_user i)) (sqlite_write (pg_tables p) (Bump_user i))"
    and "pg_admissible (pg_tables p) (Bump_agent i) \<Longrightarrow>
      like_sqlite False p (postgres_write p (Bump_agent i)) (sqlite_write (pg_tables p) (Bump_agent i))"
  by (auto simp: sq_bump_user [OF assms(1)] sq_bump_agent [OF assms(2)] pg_BumpTokenVersion_def pg_BumpAgentTokenVersion_def
      like_sqlite_def Let_def dest: find_SomeD split: option.split)

lemma password_like:
  assumes "users_ok (q_users (pg_tables p))"
  shows "like_sqlite False p (pg_UpdateUserPassword p i h) (sq_UpdateUserPassword (pg_tables p) i h)"
proof -
  have "users_ok (map (\<lambda>u. if uID u = i then u\<lparr>uPassword := h\<rparr> else u) (q_users (pg_tables p)))"
    using assms by (subst users_ok_map) simp_all
  then show ?thesis
    by (simp add: pg_UpdateUserPassword_def sq_UpdateUserPassword_def affected_or_def sql_update_def Let_def
        like_sqlite_def on_tables_def)
qed

lemma claim_like:
  assumes "pg_admissible (pg_tables p) (Claim_job now u i a r)"
  shows "like_sqlite False p (postgres_write p (Claim_job now u i a r)) (sqlite_write (pg_tables p) (Claim_job (micro now) u i a r))"
  using assms
  by (auto simp: pg_ClaimPendingJob_def sq_ClaimPendingJob_def pg_GetJob_def like_sqlite_def Let_def
      dest: find_SomeD split: option.split sum.split)

text \<open>Every call but the two upserts.\<close>

lemma write_like:
  assumes "users_ok (q_users (pg_tables p))" "key_ok agID (q_agents (pg_tables p))" "pg_admissible (pg_tables p) w"
    and "admissible m (micro_write w)"
    and "\<And>d. w \<noteq> Upsert_device d" "\<And>e. w \<noteq> Upsert_edge e"
  shows "like_sqlite (breaks_index (pg_tables p) (micro_write w)) p (postgres_write p w) (sqlite_write (pg_tables p) (micro_write w))"
proof (cases w)
  case (Set_password i h)
  then show ?thesis using password_like [OF assms(1)] by simp
next
  case (Bump_user i)
  then show ?thesis using bump_like(1) [OF assms(1,2)] assms(3) by simp
next
  case (Bump_agent i)
  then show ?thesis using bump_like(2) [OF assms(1,2)] assms(3) by simp
next
  case (Claim_job now u i a r)
  then show ?thesis using claim_like assms(3) by simp
next
  case (Create_provider pr)
  with assms(4) have "pCredsJSON pr \<noteq> []" by simp
  moreover from this have "pr\<lparr>pCredsJSON := pCredsJSON pr\<rparr> = pr" by simp
  ultimately show ?thesis using Create_provider
    by (simp add: pg_CreateProvider_def sq_CreateProvider_def Let_def insert_like)
qed (use assms(3,5,6) in \<open>simp_all add: pg_CreateUser_def sq_CreateUser_def pg_UpdateUserRole_def pg_CreateRefreshToken_def
    pg_RevokeRefreshToken_def pg_RevokeRefreshTokensForUser_def pg_CreateAgent_def sq_CreateAgent_def pg_UpdateAgent_def
    sq_UpdateAgent_def pg_DeleteAgent_def pg_DeleteProvider_def pg_CreateDrive_def sq_CreateDrive_def pg_UpdateDrive_def
    pg_DeleteDrive_def pg_CreateBinding_def sq_CreateBinding_def pg_UpdateBinding_def pg_CreateSnapshot_def
    pg_DeleteSnapshot_def pg_CreateJob_def sq_CreateJob_def pg_UpdateJob_def sq_UpdateJob_def pg_CreateMemory_def
    pg_DeleteMemory_def pg_CreateMarketplaceItem_def pg_DeleteMarketplaceItem_def pg_CreatePurchase_def
    pg_UpdatePurchase_def pg_CreateConnector_def pg_DeleteConnector_def pg_EnqueueWebhookOutbox_def
    sq_EnqueueWebhookOutbox_def pg_UpdateWebhookOutbox_def sq_UpdateWebhookOutbox_def micro_or_zero_def Let_def insert_like\<close>)

section \<open>Comparison with the in-memory store\<close>

lemma sim_upsert:
  assumes s: "sim f rows m" and k: "f x = k" and x: "\<And>r. r \<in> set rows \<Longrightarrow> f r = k \<Longrightarrow> g r = x"
  shows "sim f (if k \<in> set (map f rows) then map (\<lambda>r. if f r = k then g r else r) rows else rows @ [x]) (gset k x m)"
proof (cases "k \<in> set (map f rows)")
  case True
  then obtain v where v: "v \<in> set rows" "f v = k" by auto
  have at: "gget m k = Some v" using v s by (metis sim_in)
  have gv: "g v = x" by (rule x [OF v])
  have "f r = k \<longleftrightarrow> r = v" if "r \<in> set rows" for r using v(2) sim_inj [OF s that v(1)] by auto
  with sim_update_where [OF s at, of g "\<lambda>r. f r = k"] gv k
  have "sim f (map (\<lambda>r. if f r = k then g r else r) rows) (gset k x m)" by simp
  with True show ?thesis by simp
next
  case False
  then have "key_ok f (rows @ [x])" using sim_key_ok [OF s] k by (simp add: key_ok_def)
  with False sim_insert [OF s] k show ?thesis by auto
qed

lemma device_upsert:
  assumes rep: "represents (pg_tables p) m" and adm: "pg_admissible (pg_tables p) (Upsert_device d)"
  shows "\<exists>p' m'. pg_UpsertDevice p d = Inr p' \<and> UpsertDevice m (d\<lparr>vLastSeen := micro (vLastSeen d)\<rparr>) = Inr m' \<and>
    represents (pg_tables p') m'"
proof -
  let ?d = "d\<lparr>vLastSeen := micro (vLastSeen d)\<rparr>"
  let ?g = "\<lambda>r. if vUserID r = vUserID d then r\<lparr>vName := vName d, vLastSeen := micro (vLastSeen d)\<rparr> else r"
  note s = representsD(10) [OF rep]
  have g: "?g r = ?d" if "r \<in> set (q_devices (pg_tables p))" "vID r = vID d" for r
    using adm that by simp
  have upserted: "sim vID (if vID d \<in> set (map vID (q_devices (pg_tables p)))
      then map (\<lambda>r. if vID r = vID d then ?g r else r) (q_devices (pg_tables p)) else q_devices (pg_tables p) @ [?d])
      (gset (vID d) ?d (m_devices m))"
    by (rule sim_upsert [OF s _ g]) simp_all
  have same: "(\<lambda>r. if vID r = vID d then ?g r else r) =
      (\<lambda>r. if vID r = vID d \<and> vUserID r = vUserID d then r\<lparr>vName := vName d, vLastSeen := micro (vLastSeen d)\<rparr> else r)"
    by (rule ext) simp
  define rows where "rows = (if vID d \<in> set (map vID (q_devices (pg_tables p)))
      then map (\<lambda>r. if vID r = vID d \<and> vUserID r = vUserID d then r\<lparr>vName := vName d, vLastSeen := micro (vLastSeen d)\<rparr> else r)
             (q_devices (pg_tables p)) else q_devices (pg_tables p) @ [?d])"
  have "sim vID rows (gset (vID d) ?d (m_devices m))" using upserted unfolding same rows_def .
  then have "represents ((pg_tables p)\<lparr>q_devices := rows\<rparr>) (m\<lparr>m_devices := gset (vID d) ?d (m_devices m)\<rparr>)"
    by (rule represents_upd(5) [OF rep])
  moreover have "pg_UpsertDevice p d = Inr (p\<lparr>pg_tables := (pg_tables p)\<lparr>q_devices := rows\<rparr>\<rparr>)"
    by (simp only: pg_UpsertDevice_def Let_def rows_def)
  moreover have "UpsertDevice m ?d = Inr (m\<lparr>m_devices := gset (vID d) ?d (m_devices m)\<rparr>)"
  proof -
    have "vUserID v = vUserID d" if v: "gget (m_devices m) (vID d) = Some v" for v
    proof -
      have k: "vID v = vID d" by (rule sim_key [OF s v])
      have "v \<in> set (q_devices (pg_tables p))" using v k sim_in [OF s, of v] by simp
      with adm k show ?thesis by simp
    qed
    then show ?thesis by (cases "gget (m_devices m) (vID d)") (simp_all add: UpsertDevice_def)
  qed
  ultimately show ?thesis by simp
qed

lemma edge_upsert:
  assumes rep: "represents (pg_tables p) m" and adm: "pg_admissible (pg_tables p) (Upsert_edge e)" and "geID e \<noteq> []"
  shows "\<exists>p' m'. pg_UpsertGraphEdge p e = Inr p' \<and> UpsertGraphEdge m (e\<lparr>geCreatedAt := micro (geCreatedAt e)\<rparr>) = Inr m' \<and>
    represents (pg_tables p') m'"
proof -
  let ?e = "e\<lparr>geCreatedAt := micro (geCreatedAt e)\<rparr>"
  let ?g = "\<lambda>r. e\<lparr>geUserID := geUserID r, geCreatedAt := geCreatedAt r\<rparr>"
  note s = representsD(17) [OF rep]
  have g: "?g r = ?e" if "r \<in> set (q_graph (pg_tables p))" "geID r = geID e" for r
    using adm that by simp
  have "sim geID (if geID e \<in> set (map geID (q_graph (pg_tables p)))
      then map (\<lambda>r. if geID r = geID e then ?g r else r) (q_graph (pg_tables p)) else q_graph (pg_tables p) @ [?e])
      (gset (geID e) ?e (m_graph m))"
    by (rule sim_upsert [OF s _ g]) simp_all
  from represents_upd(12) [OF rep this]
  show ?thesis using assms(3) by (simp only: pg_UpsertGraphEdge_def Let_def UpsertGraphEdge_def) simp
qed

lemma postgres_write_agrees:
  assumes rep: "represents (pg_tables p) m" and adm: "pg_admissible (pg_tables p) w" "admissible m (micro_write w)"
  shows "case postgres_write p w of
      Inr p' \<Rightarrow> \<exists>m'. memory_write m (micro_write w) = Inr m' \<and> represents (pg_tables p') m'
    | Inl e \<Rightarrow> (breaks_index (pg_tables p) (micro_write w) \<and> clash_error (q_clash (pg_tables p)) e) \<or>
               memory_write m (micro_write w) = Inl e"
proof -
  consider d where "w = Upsert_device d" | e where "w = Upsert_edge e"
    | "\<And>d. w \<noteq> Upsert_device d" "\<And>e. w \<noteq> Upsert_edge e" by blast
  then show ?thesis
  proof cases
    case 1
    then show ?thesis using device_upsert [OF rep, of d] adm(1) by auto
  next
    case 2
    then show ?thesis using edge_upsert [OF rep, of e] adm by auto
  next
    case 3
    have "like_sqlite (breaks_index (pg_tables p) (micro_write w)) p (postgres_write p w) (sqlite_write (pg_tables p) (micro_write w))"
      by (rule write_like [OF representsD(1) [OF rep] sim_key_ok [OF representsD(13) [OF rep]] adm 3])
    then show ?thesis using write_agrees [OF rep adm(2)]
      by (auto simp: like_sqlite_def agree_def split: sum.splits)
  qed
qed

section \<open>Properties\<close>

definition demo_pg :: postgres where
  "demo_pg =
    \<lparr>pg_tables = demo_db\<lparr>q_jobs := demo_rows\<rparr>, pg_before = (<), pg_range = ''is greater than maximum value for int4'',
     pg_overflow = ''integer out of range''\<rparr>"

lemma demo_pg_tables [simp]: "pg_tables demo_pg = demo_db\<lparr>q_jobs := demo_rows\<rparr>" "pg_before demo_pg = (<)"
  by (simp_all add: demo_pg_def)

text \<open>C14: The PostgreSQL store refines the in-memory store with instants cut to microseconds: for every one of the 35 state-changing calls, with integers that fit their columns, a device that is new or the caller's own and an edge that keeps its owner and creation instant, a successful call is a successful in-memory call on the cut arguments with related results, and a failing one fails with the very same error, unless the new rows would break a key of the schema and the driver says so.\<close>

theorem postgres_refines_memory:
  assumes "represents (pg_tables p) m" and "pg_admissible (pg_tables p) w" and "admissible m (micro_write w)"
  shows "case postgres_write p w of
      Inr p' \<Rightarrow> \<exists>m'. memory_write m (micro_write w) = Inr m' \<and> represents (pg_tables p') m'
    | Inl e \<Rightarrow> (breaks_index (pg_tables p) (micro_write w) \<and> clash_error (q_clash (pg_tables p)) e) \<or>
               memory_write m (micro_write w) = Inl e"
  by (rule postgres_write_agrees [OF assms])

theorem postgres_refines_memory_witness:
  "case postgres_write demo_pg (Claim_job 7001 ''u1'' ''a'' ''ag'' ''r'') of
      Inr p' \<Rightarrow> \<exists>m'. memory_write (NewMemory\<lparr>m_jobs := map (\<lambda>j. (jID j, j)) demo_rows\<rparr>)
                  (Claim_job 7000 ''u1'' ''a'' ''ag'' ''r'') = Inr m' \<and> represents (pg_tables p') m'
    | Inl e \<Rightarrow> memory_write (NewMemory\<lparr>m_jobs := map (\<lambda>j. (jID j, j)) demo_rows\<rparr>)
                 (Claim_job 7000 ''u1'' ''a'' ''ag'' ''r'') = Inl e"
proof -
  let ?w = "Claim_job 7001 ''u1'' ''a'' ''ag'' ''r''"
  have w: "micro_write ?w = Claim_job 7000 ''u1'' ''a'' ''ag'' ''r''" by (simp add: micro_def)
  have rep: "represents (pg_tables demo_pg) (NewMemory\<lparr>m_jobs := map (\<lambda>j. (jID j, j)) demo_rows\<rparr>)"
    using demo_represents by simp
  have adm: "pg_admissible (pg_tables demo_pg) ?w" by (simp add: demo_rows_def sq_job_def int4_def)
  have "admissible (NewMemory\<lparr>m_jobs := map (\<lambda>j. (jID j, j)) demo_rows\<rparr>) (micro_write ?w)" unfolding w by simp
  from postgres_refines_memory [OF rep adm this] show ?thesis unfolding w breaks_index.simps by (simp split: sum.splits)
qed

lemma pg_labels_agree:
  assumes "list_all (\<lambda>(k, v). trim_space k = k \<and> k \<noteq> [] \<and> v \<noteq> []) want"
  shows "pg_labels_match want j = jobLabelsMatchStore (jLabels j) want"
proof -
  have "(let k = trim_space k0 in k = [] \<or> gget (jLabels j) k = Some v) \<longleftrightarrow> label_of (jLabels j) k0 = v"
    if "trim_space k0 = k0" "k0 \<noteq> []" "v \<noteq> []" for k0 v
    using that by (auto simp: Let_def label_of_def split: option.splits)
  then have "pg_labels_match want j \<longleftrightarrow> list_all (\<lambda>(k, v). label_of (jLabels j) k = v) want"
    using assms unfolding pg_labels_match_def list_all_iff by (auto split: prod.splits)
  moreover have "\<not> list_all (\<lambda>(k, v). label_of [] k = v) want" if "want \<noteq> []"
    using that assms by (cases want) (auto simp: label_of_def)
  ultimately show ?thesis by (auto simp: jobLabelsMatchStore_def)
qed

text \<open>A page of jobs is the same on PostgreSQL and in memory: when the collation of the database is that of the bytes, for a named user, labels with trimmed names and non-empty values and a cursor instant of whole microseconds, as the store hands them out, the query with its keyset cursor and LIMIT returns exactly the list the in-memory store filters, sorts and cuts.\<close>

theorem postgres_pages_agree:
  assumes rep: "represents (pg_tables p) m" and bytes: "pg_before p = (<)"
    and user: "trim_space (jlUserID f) \<noteq> []"
    and labels: "list_all (\<lambda>(k, v). trim_space k = k \<and> k \<noteq> [] \<and> v \<noteq> []) (jlLabels f)"
    and cursor: "micro (jlCursorCreated f) = jlCursorCreated f"
  shows "pg_ListJobsPage p f = ListJobsPage m f"
proof -
  note s = representsD(11) [OF rep]
  let ?P = "\<lambda>j. job_list_matches f j \<and> past_cursor (jlCursorCreated f) (jlCursorID f) j"
  have cur: "pg_past_cursor (<) (jlCursorCreated f) (jlCursorID f) = past_cursor (jlCursorCreated f) (jlCursorID f)"
    unfolding pg_past_cursor_def [abs_def] past_cursor_def [abs_def] cursor by (auto simp: fun_eq_iff not_less)
  have order: "pg_job_desc (<) = job_newer" by (auto simp: pg_job_desc_def job_newer_def fun_eq_iff)
  have rows: "filter (\<lambda>j. jUserID j = trim_space (jlUserID f) \<and>
        (trim_space (jlAgentID f) = [] \<or> jAgentID j = trim_space (jlAgentID f)) \<and>
        (trim_space (jlClaimedByAgentID f) = [] \<or> jClaimedByAgentID j = trim_space (jlClaimedByAgentID f)) \<and>
        (trim_space (jlClaimedByRunnerID f) = [] \<or> jClaimedByRunnerID j = trim_space (jlClaimedByRunnerID f)) \<and>
        (trim_space (jlRegionHint f) = [] \<or> jRegionHint j = trim_space (jlRegionHint f)) \<and>
        (trim_space (jlStatus f) = [] \<or> jStatus j = trim_space (jlStatus f)) \<and>
        pg_labels_match (jlLabels f) j \<and>
        past_cursor (jlCursorCreated f) (jlCursorID f) j) (q_jobs (pg_tables p)) = filter ?P (q_jobs (pg_tables p))"
    using user pg_labels_agree [OF labels]
    by (intro filter_cong [OF refl]) (auto simp: job_list_matches_def Let_def)
  have "sort_slice job_newer (filter ?P (q_jobs (pg_tables p))) = exch_sort job_newer (filter ?P (gvals (m_jobs m)))"
    using sim_inj [OF s] by (intro newer_sorts_agree sim_filter_mset [OF s]) auto
  then show ?thesis
    unfolding pg_ListJobsPage_def ListJobsPage_def Let_def bytes cur order rows job_page_limit_def by (simp only:)
qed

theorem postgres_pages_agree_witness:
  "pg_ListJobsPage demo_pg demo_page = ListJobsPage (NewMemory\<lparr>m_jobs := map (\<lambda>j. (jID j, j)) demo_rows\<rparr>) demo_page"
proof (rule postgres_pages_agree)
  show "represents (pg_tables demo_pg) (NewMemory\<lparr>m_jobs := map (\<lambda>j. (jID j, j)) demo_rows\<rparr>)"
    using demo_represents by simp
  show "trim_space (jlUserID demo_page) \<noteq> []" by code_simp
  show "list_all (\<lambda>(k, v). trim_space k = k \<and> k \<noteq> [] \<and> v \<noteq> []) (jlLabels demo_page)" by code_simp
  show "micro (jlCursorCreated demo_page) = jlCursorCreated demo_page" by code_simp
qed simp

text \<open>What the two upserts do otherwise: the device of another user is left alone and the call succeeds.\<close>

lemma foreign_device_kept:
  assumes "key_ok vID (q_devices (pg_tables p))" "r \<in> set (q_devices (pg_tables p))" "vID r = vID d" "vUserID r \<noteq> vUserID d"
  shows "pg_UpsertDevice p d = Inr p"
proof -
  have "x = r" if "x \<in> set (q_devices (pg_tables p))" "vID x = vID d" for x
    using assms(1,2,3) that inj_onD [of vID "set (q_devices (pg_tables p))" x r] by (simp add: key_ok_def distinct_map)
  then have "map (\<lambda>x. if vID x = vID d \<and> vUserID x = vUserID d then x\<lparr>vName := vName d, vLastSeen := micro (vLastSeen d)\<rparr> else x)
      (q_devices (pg_tables p)) = q_devices (pg_tables p)"
    using assms(4) by (intro map_idI) auto
  moreover have "vID d \<in> set (map vID (q_devices (pg_tables p)))" using imageI [OF assms(2), of vID] assms(3) by simp
  ultimately show ?thesis by (simp only: pg_UpsertDevice_def Let_def if_True) simp
qed

end
