(* ===== verification/Client_World.thy ===== *)
theory Client_World
  imports Sts_Oci Sandbox_Path
begin

text \<open>
  What the programs that talk to the control plane share (\<open>cmd/mcp\<close>, \<open>cmd/runner\<close>, \<open>cmd/hubd\<close>): requests and
  answers of the HTTP client, and \<open>json.Unmarshal\<close> into a struct or a map. A request that could not be
  sent, or whose answer could not be read, carries an error text. Keys of a JSON object match the
  fields of a struct without regard to case; an object holds a key once. A value of the wrong kind leaves
  the field at its zero value and makes the decoding fail.
\<close>

section \<open>Requests\<close>

record http_call =
  hcMethod :: string
  hcURL :: string
  hcHeaders :: "(string \<times> string) list"
  hcPayload :: "json option"

record http_reply =
  rpBody :: string
  rpStatus :: int
  rpError :: "string option"

definition truncate_at :: "string \<Rightarrow> nat \<Rightarrow> string" where
  "truncate_at s n = (if length s \<le> n then s else take n s @ ellipsis)"

text \<open>The verb \<open>%v\<close> on a list of texts.\<close>

definition show_strings :: "string list \<Rightarrow> string" where
  "show_strings ss = ''['' @ str_join '' '' ss @ '']''"

definition getenv_or :: "environment \<Rightarrow> string \<Rightarrow> string \<Rightarrow> string" where
  "getenv_or env k d = (if env k \<noteq> [] then env k else d)"

section \<open>Decoding\<close>

record codec =
  cd_parse :: "string \<Rightarrow> string + json"
  cd_indent :: "json \<Rightarrow> string"
  cd_mismatch :: "json \<Rightarrow> string"

datatype kind =
    KAny
  | KStr
  | KBool
  | KInt
  | KNum
  | KList kind
  | KMap kind
  | KStruct "(string \<times> kind) list"

definition field_kind :: "(string \<times> kind) list \<Rightarrow> string \<Rightarrow> kind" where
  "field_kind sh key = (case map_of sh (to_lower key) of Some k \<Rightarrow> k | None \<Rightarrow> KAny)"

fun fits :: "kind \<Rightarrow> json \<Rightarrow> bool" where
  "fits k JNull = True"
| "fits k (JStr s) = (k = KAny \<or> k = KStr)"
| "fits k (JBool b) = (k = KAny \<or> k = KBool)"
| "fits k (JNum n) = (k = KAny \<or> k = KNum \<or> k = KInt \<and> is_int64 n)"
| "fits k (JArr js) =
     (case k of KAny \<Rightarrow> True | KList e \<Rightarrow> list_all (fits e) js | _ \<Rightarrow> False)"
| "fits k (JObj fs) =
     (case k of KAny \<Rightarrow> True
              | KMap e \<Rightarrow> list_all (\<lambda>f. fits e (snd f)) fs
              | KStruct sh \<Rightarrow> list_all (\<lambda>f. fits (field_kind sh (fst f)) (snd f)) fs
              | _ \<Rightarrow> False)"

definition unmarshal :: "codec \<Rightarrow> kind \<Rightarrow> string \<Rightarrow> string + json" where
  "unmarshal cd k body =
     (case cd_parse cd body of Inl e \<Rightarrow> Inl e | Inr j \<Rightarrow> if fits k j then Inr j else Inl (cd_mismatch cd j))"

text \<open>A field of a struct, and a key of a map.\<close>

definition field :: "json \<Rightarrow> string \<Rightarrow> json" where
  "field j k =
     (case j of JObj fs \<Rightarrow> (case find (\<lambda>f. to_lower (fst f) = k) fs of Some f \<Rightarrow> snd f | None \<Rightarrow> JNull) | _ \<Rightarrow> JNull)"

definition key :: "json \<Rightarrow> string \<Rightarrow> json" where
  "key j k = (case j of JObj fs \<Rightarrow> (case map_of fs k of Some v \<Rightarrow> v | None \<Rightarrow> JNull) | _ \<Rightarrow> JNull)"

fun text_of :: "json \<Rightarrow> string" where
  "text_of (JStr s) = s"
| "text_of _ = []"

fun int_of :: "json \<Rightarrow> int" where
  "int_of (JNum n) = n"
| "int_of _ = 0"

fun bool_of :: "json \<Rightarrow> bool" where
  "bool_of (JBool b) = b"
| "bool_of _ = False"

fun items_of :: "json \<Rightarrow> json list" where
  "items_of (JArr js) = js"
| "items_of _ = []"

fun entries_of :: "json \<Rightarrow> (string \<times> json) list" where
  "entries_of (JObj fs) = fs"
| "entries_of _ = []"

definition text_field :: "json \<Rightarrow> string \<Rightarrow> string" where "text_field j k = text_of (field j k)"
definition num_field :: "json \<Rightarrow> string \<Rightarrow> int" where "num_field j k = int_of (field j k)"
definition flag_field :: "json \<Rightarrow> string \<Rightarrow> bool" where "flag_field j k = bool_of (field j k)"

text \<open>Optional entries of a payload.\<close>

definition opt :: "bool \<Rightarrow> string \<Rightarrow> json \<Rightarrow> (string \<times> json) list" where
  "opt c k v = (if c then [(k, v)] else [])"

definition opt_str :: "string \<Rightarrow> string \<Rightarrow> (string \<times> json) list" where
  "opt_str k s = opt (s \<noteq> []) k (JStr s)"

definition opt_pos :: "string \<Rightarrow> int \<Rightarrow> (string \<times> json) list" where
  "opt_pos k n = opt (n > 0) k (JNum n)"

section \<open>Host checks\<close>

text \<open>
  The preflight check (\<open>internal/runtimeenv/check.go\<close>). The host is a parameter: the operating system, the
  search path, the file system and the output of a command that succeeds. Paths of Windows are joined
  with backslashes; their roots are taken as clean.
\<close>

record host =
  ho_os :: string
  ho_arch :: string
  ho_env :: environment
  ho_look :: "string \<Rightarrow> string option"
  ho_file :: "string \<Rightarrow> bool"
  ho_exists :: "string \<Rightarrow> bool"
  ho_output :: "string list \<Rightarrow> string option"

record report =
  rpOS :: string
  rpArch :: string
  rpRcloneOK :: bool
  rpRclonePath :: string
  rpRcloneVer :: string
  rpFuseHint :: string
  rpWinFspOK :: bool
  rpWinFspHint :: string
  rpInstallHint :: string
  rpOK :: bool
  rpWarnings :: "string list"
  rpErrors :: "string list"

abbreviation long_dash :: string where "long_dash \<equiv> [CHR 0xE2, CHR 0x80, CHR 0x94]"
abbreviation backslash :: string where "backslash \<equiv> [CHR 0x5C]"

definition win_path :: "string list \<Rightarrow> string" where "win_path parts = str_join backslash parts"

definition windowsInstallHint :: string where
  "windowsInstallHint =
     ''Install deps: powershell -ExecutionPolicy Bypass -File '' @ win_path [''scripts'', ''windows'', ''install-deps.ps1''] @
     ''  (or double-click '' @ win_path [''scripts'', ''windows'', ''install-deps.bat''] @
     ''). Check-only: install-deps.ps1 -CheckOnly. See docs/WINDOWS.md''"

definition windowsRcloneCandidates :: "host \<Rightarrow> string list" where
  "windowsRcloneCandidates h =
     (let local = ho_env h ''LOCALAPPDATA''
      in if local \<noteq> [] then [win_path [local, ''rclone'', ''rclone.exe''],
                            win_path [local, ''Microsoft'', ''WinGet'', ''Links'', ''rclone.exe'']] else []) @
     map (\<lambda>root. win_path [root, ''rclone'', ''rclone.exe''])
       (filter (\<lambda>root. root \<noteq> []) [ho_env h ''ProgramFiles'', win_path [''C:'', ''Program Files'']])"

definition findRclone :: "host \<Rightarrow> string option" where
  "findRclone h =
     (case ho_look h ''rclone'' of
        Some p \<Rightarrow> Some p
      | None \<Rightarrow> if ho_os h = ''windows'' then find (ho_file h) (windowsRcloneCandidates h) else None)"

definition winfsp_candidates :: "host \<Rightarrow> string list" where
  "winfsp_candidates h =
     concat (map (\<lambda>root. map (\<lambda>f. win_path [root, ''WinFsp'', ''bin'', f])
                  [''launcher-x64.exe'', ''launcher-x86.exe'', ''winfsp-x64.dll'', ''winfsp-x86.dll''])
       (filter (\<lambda>root. root \<noteq> [])
          [ho_env h ''ProgramFiles(x86)'', ho_env h ''ProgramFiles'', win_path [''C:'', ''Program Files (x86)''],
           win_path [''C:'', ''Program Files'']]))"

definition detectWinFspRegistry :: "host \<Rightarrow> string option" where
  "detectWinFspRegistry h =
     map_option (\<lambda>k. ''registry:'' @ k)
       (find (\<lambda>k. case ho_output h [''reg'', ''query'', k] of Some out \<Rightarrow> out \<noteq> [] | None \<Rightarrow> False)
          [win_path [''HKLM'', ''SOFTWARE'', ''WinFsp''], win_path [''HKLM'', ''SOFTWARE'', ''WOW6432Node'', ''WinFsp''],
           win_path [''HKLM'', ''SYSTEM'', ''CurrentControlSet'', ''Services'', ''WinFsp.Launcher'']])"

definition detectWinFsp :: "host \<Rightarrow> string option" where
  "detectWinFsp h =
     (case find (ho_file h) (winfsp_candidates h) of Some c \<Rightarrow> Some c | None \<Rightarrow> detectWinFspRegistry h)"

definition empty_report :: "host \<Rightarrow> report" where
  "empty_report h =
     \<lparr>rpOS = ho_os h, rpArch = ho_arch h, rpRcloneOK = False, rpRclonePath = [], rpRcloneVer = [], rpFuseHint = [],
      rpWinFspOK = False, rpWinFspHint = [], rpInstallHint = [], rpOK = False, rpWarnings = [], rpErrors = []\<rparr>"

definition check_rclone :: "host \<Rightarrow> report \<Rightarrow> report" where
  "check_rclone h r =
     (case findRclone h of
        Some path \<Rightarrow>
          if path \<noteq> []
          then r\<lparr>rpRcloneOK := True, rpRclonePath := path,
                 rpRcloneVer := (case ho_output h [path, ''version''] of
                    Some out \<Rightarrow> trim_space (hd (split_c (CHR 0x0A) out)) | None \<Rightarrow> [])\<rparr>
          else r
      | None \<Rightarrow> r)"

definition rclone_missing :: "host \<Rightarrow> report \<Rightarrow> report" where
  "rclone_missing h r =
     (if rpRcloneOK r then r
      else r\<lparr>rpErrors := [''rclone not found in PATH '' @ long_dash @ '' install https://rclone.org/downloads/''] @
               (if ho_os h = ''windows''
                then [''Windows: run '' @ win_path [''scripts'', ''windows'', ''install-deps.ps1''] @
                      '' (or install-deps.bat) to install rclone + WinFsp; open a NEW terminal after install''] else []),
             rpInstallHint := (if ho_os h = ''windows'' then windowsInstallHint else [])\<rparr>)"

definition check_mounting :: "host \<Rightarrow> report \<Rightarrow> report" where
  "check_mounting h r =
     (if ho_os h = ''windows''
      then (case detectWinFsp h of
              Some c \<Rightarrow> r\<lparr>rpWinFspOK := True, rpWinFspHint := ''WinFsp detected: '' @ c\<rparr>
            | None \<Rightarrow>
                r\<lparr>rpWinFspHint := ''Windows mount requires WinFsp: https://winfsp.dev/rel/ '' @ long_dash @
                    '' install then restart shell'',
                  rpInstallHint := windowsInstallHint,
                  rpWarnings := rpWarnings r @ [''WinFsp not detected; rclone mount may fail on Windows '' @ long_dash @ '' run '' @
                    win_path [''scripts'', ''windows'', ''install-deps.ps1''] @
                    '' (mount-only; sync_workspace still works)'']\<rparr>)
      else if ho_os h = ''darwin''
      then r\<lparr>rpFuseHint := ''macOS: install macFUSE (https://osxfuse.github.io/) or use rclone mount backend supported on your OS version'',
             rpWarnings := rpWarnings r @
               (if ho_look h ''mount_macfuse'' = None \<and> \<not> ho_exists h ''/Library/Filesystems/macfuse.fs''
                then [''macFUSE not clearly installed; mount mode may fail '' @ long_dash @ '' try mode=sync_workspace''] else [])\<rparr>
      else if ho_os h = ''linux''
      then r\<lparr>rpFuseHint := ''Linux: need FUSE (fusermount). Most distros: apt install fuse3 / fuse'',
             rpWarnings := rpWarnings r @
               (if ho_look h ''fusermount'' = None \<and> ho_look h ''fusermount3'' = None
                then [''fusermount not found; mount mode may fail '' @ long_dash @ '' try mode=sync_workspace''] else [])\<rparr>
      else r)"

definition Host_Check :: "host \<Rightarrow> report" where
  "Host_Check h =
     (let r = check_mounting h (rclone_missing h (check_rclone h (empty_report h))) in r\<lparr>rpOK := rpErrors r = []\<rparr>)"

definition RequireOK :: "host \<Rightarrow> string option" where
  "RequireOK h =
     (let r = Host_Check h in if rpOK r then None else Some (''runtimeenv: '' @ str_join ''; '' (rpErrors r)))"

definition is_letter :: "char \<Rightarrow> bool" where
  "is_letter c \<longleftrightarrow> (CHR ''A'' \<le> c \<and> c \<le> CHR ''Z'') \<or> (CHR ''a'' \<le> c \<and> c \<le> CHR ''z'')"

definition IsWindowsDriveLetter :: "string \<Rightarrow> bool" where
  "IsWindowsDriveLetter mp0 =
     (case trim_space mp0 of
        c # d # rest \<Rightarrow> is_letter c \<and> d = CHR '':'' \<and> rest \<in> {[], backslash, ''/''}
      | _ \<Rightarrow> False)"

text \<open>The only hard requirement is rclone.\<close>

lemma host_ok_iff: "rpOK (Host_Check h) \<longleftrightarrow> rpRcloneOK (Host_Check h)"
  by (auto simp: Host_Check_def check_mounting_def rclone_missing_def check_rclone_def empty_report_def Let_def
      split: option.split)

lemma fits_str: "fits KStr j \<Longrightarrow> j = JNull \<or> j = JStr (text_of j)"
  by (cases j) auto

end
