(* ===== verification/Mcp_Server.thy ===== *)
theory Mcp_Server
  imports Client_World Auth_Service
begin

text \<open>
  The bridge from the Model Context Protocol to the API (\<open>cmd/mcp\<close>): one JSON-RPC request per line, a
  registry of tools with the scopes they ask for, a cached answer of \<open>GET /v1/me\<close>, and one request to
  the control plane for a tool. The network is a parameter that sees every request sent before, so
  an answer may depend on them; each call returns the requests it sent. Descriptions written for a
  reader are left out of the registry, and so is the time limit of the HTTP client.
\<close>

section \<open>The process and its requests\<close>

record mcp =
  mcp_api :: string
  mcp_token :: string
  mcp_workspace :: string
  mcp_env :: environment
  mcp_codec :: codec
  mcp_fs :: file_system

definition mcp_start :: "environment \<Rightarrow> codec \<Rightarrow> file_system \<Rightarrow> mcp" where
  "mcp_start env cd fs =
     \<lparr>mcp_api = trim_right_c (CHR ''/'') (getenv_or env ''AI_CLOUDHUB_API'' ''http://127.0.0.1:8080''),
      mcp_token = env ''AI_CLOUDHUB_TOKEN'',
      mcp_workspace = getenv_or env ''AI_CLOUDHUB_WORKSPACE'' (getenv_or env ''AI_CLOUDHUB_MOUNT'' ''/workspace''),
      mcp_env = env, mcp_codec = cd, mcp_fs = fs\<rparr>"

type_synonym network = "http_call list \<Rightarrow> http_call \<Rightarrow> http_reply"
type_synonym tool_answer = "http_call list \<times> (string + json)"

definition http_headers :: "mcp \<Rightarrow> json option \<Rightarrow> (string \<times> string) list \<Rightarrow> (string \<times> string) list" where
  "http_headers m payload extra =
     [(''Authorization'', ''Bearer '' @ mcp_token m)] @
     (if payload \<noteq> None then [(''Content-Type'', ''application/json'')] else []) @
     [(''Accept'', ''application/json'')] @
     filter (\<lambda>(k, v). trim_space k \<noteq> [] \<and> trim_space v \<noteq> []) extra"

definition httpDoHeaders :: "mcp \<Rightarrow> network \<Rightarrow> string \<Rightarrow> string \<Rightarrow> json option \<Rightarrow> (string \<times> string) list
    \<Rightarrow> http_call list \<Rightarrow> http_call list \<times> http_reply" where
  "httpDoHeaders m net meth path payload extra tr =
     (let c = \<lparr>hcMethod = meth, hcURL = mcp_api m @ path, hcHeaders = http_headers m payload extra,
               hcPayload = payload\<rparr>
      in (tr @ [c], net tr c))"

definition httpDo :: "mcp \<Rightarrow> network \<Rightarrow> string \<Rightarrow> string \<Rightarrow> json option \<Rightarrow> http_call list
    \<Rightarrow> http_call list \<times> http_reply" where
  "httpDo m net meth path payload tr = httpDoHeaders m net meth path payload [] tr"

definition toolResult :: "bool \<Rightarrow> string \<Rightarrow> json" where
  "toolResult isError s =
     JObj [(''content'', JArr [JObj [(''type'', JStr ''text''), (''text'', JStr s)]]), (''isError'', JBool isError)]"

definition toolResultJSON :: "mcp \<Rightarrow> json \<Rightarrow> json" where
  "toolResultJSON m v = toolResult False (trim_space (cd_indent (mcp_codec m) v))"

definition parsed_body :: "mcp \<Rightarrow> string \<Rightarrow> json" where
  "parsed_body m body = (case cd_parse (mcp_codec m) body of Inr j \<Rightarrow> j | Inl _ \<Rightarrow> JNull)"

definition http_error :: "string \<Rightarrow> http_reply \<Rightarrow> nat \<Rightarrow> string" where
  "http_error what r n = what @ '' HTTP '' @ show_int (rpStatus r) @ '': '' @ truncate_at (rpBody r) n"

text \<open>The body of the tools: one request, its errors, the decoded answer.\<close>

definition api_answer :: "mcp \<Rightarrow> string \<Rightarrow> http_reply \<Rightarrow> string + json" where
  "api_answer m what r =
     (case rpError r of
        Some e \<Rightarrow> Inl e
      | None \<Rightarrow> if rpStatus r \<ge> 300 then Inl (http_error what r 512)
                else Inr (toolResultJSON m (parsed_body m (rpBody r))))"

definition call_api :: "mcp \<Rightarrow> network \<Rightarrow> string \<Rightarrow> string \<Rightarrow> string \<Rightarrow> json option \<Rightarrow> http_call list \<Rightarrow> tool_answer" where
  "call_api m net what meth path payload tr =
     (case httpDo m net meth path payload tr of (tr', r) \<Rightarrow> (tr', api_answer m what r))"

definition with_query :: "string \<Rightarrow> string list \<Rightarrow> string" where
  "with_query path q = (if q \<noteq> [] then path @ ''?'' @ str_join ''&'' q else path)"

definition with_values :: "string \<Rightarrow> string gomap \<Rightarrow> string" where
  "with_values path q = (if encode_values q \<noteq> [] then path @ ''?'' @ encode_values q else path)"

definition opt_value :: "string \<Rightarrow> string \<Rightarrow> string gomap" where
  "opt_value k v = (if v \<noteq> [] then [(k, v)] else [])"

definition opt_limit :: "int \<Rightarrow> string gomap" where
  "opt_limit n = (if n > 0 then [(''limit'', show_int n)] else [])"

section \<open>The principal\<close>

record principal_cache =
  pcLoaded :: bool
  pcAgentID :: string
  pcScopes :: "string list option"
  pcRole :: string
  pcUsername :: string
  pcUserID :: string
  pcErr :: "string option"

definition new_cache :: principal_cache where
  "new_cache = \<lparr>pcLoaded = False, pcAgentID = [], pcScopes = None, pcRole = [], pcUsername = [], pcUserID = [],
                pcErr = None\<rparr>"

definition me_kind :: kind where
  "me_kind = KStruct [(''id'', KStr), (''username'', KStr), (''role'', KStr), (''agent_id'', KStr),
                      (''scopes'', KList KStr)]"

definition remember :: "principal_cache \<Rightarrow> json \<Rightarrow> principal_cache" where
  "remember pc me =
     pc\<lparr>pcUserID := text_field me ''id'', pcUsername := text_field me ''username'', pcRole := text_field me ''role'',
        pcAgentID := text_field me ''agent_id'',
        pcScopes := (case field me ''scopes'' of JArr js \<Rightarrow> Some (map text_of js) | _ \<Rightarrow> None)\<rparr>"

definition loadPrincipal :: "mcp \<Rightarrow> network \<Rightarrow> principal_cache \<Rightarrow> http_call list
    \<Rightarrow> principal_cache \<times> http_call list \<times> string option" where
  "loadPrincipal m net pc0 tr =
     (if pcLoaded pc0 then (pc0, tr, pcErr pc0)
      else (let pc = pc0\<lparr>pcLoaded := True\<rparr>
            in case httpDo m net ''GET'' ''/v1/me'' None tr of (tr', r) \<Rightarrow>
              (case (case rpError r of
                       Some e \<Rightarrow> Inl e
                     | None \<Rightarrow> if rpStatus r \<ge> 300 then Inl (http_error ''GET /v1/me'' r 256)
                               else unmarshal (mcp_codec m) me_kind (rpBody r)) of
                 Inl e \<Rightarrow> (pc\<lparr>pcErr := Some e\<rparr>, tr', Some e)
               | Inr me \<Rightarrow> (remember pc me, tr', None))))"

definition scopes_of :: "principal_cache \<Rightarrow> string list" where
  "scopes_of pc = (case pcScopes pc of Some ss \<Rightarrow> ss | None \<Rightarrow> [])"

definition ensureScopes :: "mcp \<Rightarrow> network \<Rightarrow> principal_cache \<Rightarrow> string list \<Rightarrow> http_call list
    \<Rightarrow> principal_cache \<times> http_call list \<times> string option" where
  "ensureScopes m net pc0 needAny tr =
     (if mcp_token m = [] then (pc0, tr, Some ''AI_CLOUDHUB_TOKEN is not set'')
      else if needAny = [] then (pc0, tr, None)
      else (case loadPrincipal m net pc0 tr of (pc, tr', err) \<Rightarrow>
        (case err of
           Some e \<Rightarrow> (pc, tr', Some e)
         | None \<Rightarrow>
             if pcAgentID pc = [] then (pc, tr', None)
             else if list_ex (HasScope (pcAgentID pc) (scopes_of pc)) needAny then (pc, tr', None)
             else (pc, tr', Some (''missing scope (need any of '' @ show_strings needAny @ ''); agent scopes='' @
                                  show_strings (scopes_of pc))))))"

definition toolWhoami :: "mcp \<Rightarrow> network \<Rightarrow> principal_cache \<Rightarrow> http_call list
    \<Rightarrow> principal_cache \<times> tool_answer" where
  "toolWhoami m net pc0 tr =
     (case loadPrincipal m net pc0 tr of (pc, tr', err) \<Rightarrow>
        (case err of
           Some e \<Rightarrow> (pc, tr', Inl e)
         | None \<Rightarrow> (pc, tr', Inr (toolResultJSON m (JObj
             [(''user_id'', JStr (pcUserID pc)), (''username'', JStr (pcUsername pc)), (''role'', JStr (pcRole pc)),
              (''agent_id'', JStr (pcAgentID pc)),
              (''scopes'', (case pcScopes pc of Some ss \<Rightarrow> JArr (map JStr ss) | None \<Rightarrow> JNull)),
              (''principal'', JStr (if pcAgentID pc \<noteq> [] then ''agent'' else ''human''))])))))"

section \<open>Drives\<close>

definition toolListDrives :: "mcp \<Rightarrow> network \<Rightarrow> http_call list \<Rightarrow> tool_answer" where
  "toolListDrives m net tr =
     (case httpDo m net ''GET'' ''/v1/drives'' None tr of (tr', r) \<Rightarrow>
       (tr', case rpError r of
               Some e \<Rightarrow> Inl e
             | None \<Rightarrow>
                 if rpStatus r \<ge> 300 then Inl (http_error ''GET /v1/drives'' r 512)
                 else (case cd_parse (mcp_codec m) (rpBody r) of
                         Inl _ \<Rightarrow> Inr (toolResult False (rpBody r))
                       | Inr p \<Rightarrow> Inr (toolResultJSON m (JObj
                           [(''drives'', p),
                            (''hint'', JStr (''Use ensure_mounted_hint with drive_id (or resolve_drive by alias); '' @
                                             ''hubd/runner for actual mount.''))])))))"

definition toolResolveDrive :: "mcp \<Rightarrow> network \<Rightarrow> string \<Rightarrow> string \<Rightarrow> http_call list \<Rightarrow> tool_answer" where
  "toolResolveDrive m net alias0 name0 tr =
     (let ali = trim_space alias0; nam = trim_space name0
      in if ali = [] \<and> nam = [] then (tr, Inl ''alias or name required'')
         else (let path = (if ali \<noteq> [] then ''/v1/drives?alias='' @ query_escape ali
                           else ''/v1/drives?name='' @ query_escape nam)
               in case httpDo m net ''GET'' path None tr of (tr', r) \<Rightarrow>
                 (tr', case rpError r of
                    Some e \<Rightarrow> Inl e
                  | None \<Rightarrow>
                      if rpStatus r \<ge> 300 then Inl (http_error ''GET /v1/drives'' r 512)
                      else (case unmarshal (mcp_codec m) (KStruct [(''items'', KList (KMap KAny))]) (rpBody r) of
                              Inl e \<Rightarrow> Inl (''parse drives: '' @ e)
                            | Inr w \<Rightarrow>
                                (case items_of (field w ''items'') of
                                   [] \<Rightarrow> Inl ''drive not found''
                                 | [item] \<Rightarrow> Inr (toolResultJSON m (JObj
                                     [(''id'', key item ''id''), (''alias'', key item ''alias''),
                                      (''name'', key item ''name''), (''mount_point'', key item ''mount_point''),
                                      (''hint'', JStr (''Use id with ensure_mounted_hint / object tools; '' @
                                                       ''hubd/runner for actual mount.''))]))
                                 | items \<Rightarrow> Inr (toolResultJSON m (JObj
                                     [(''matches'', JArr items),
                                      (''hint'', JStr ''Multiple matches; prefer unique alias.'')])))))))"

definition toolListBindings :: "mcp \<Rightarrow> network \<Rightarrow> string \<Rightarrow> http_call list \<Rightarrow> tool_answer" where
  "toolListBindings m net deviceID tr =
     (let path = (if trim_space deviceID \<noteq> [] then ''/v1/bindings?device_id='' @ deviceID else ''/v1/bindings'')
      in case httpDo m net ''GET'' path None tr of (tr', r) \<Rightarrow>
       (tr', case rpError r of
               Some e \<Rightarrow> Inl e
             | None \<Rightarrow>
                 if rpStatus r \<ge> 300 then Inl (http_error ''GET /v1/bindings'' r 512)
                 else (case cd_parse (mcp_codec m) (rpBody r) of
                         Inl _ \<Rightarrow> Inr (toolResult False (rpBody r))
                       | Inr p \<Rightarrow> Inr (toolResultJSON m (JObj
                           [(''bindings'', p),
                            (''hint'', JStr (''Use ensure_mounted_hint with binding_id for session probe; '' @
                                             ''hubd/runner for actual mount.''))])))))"

definition jailPath :: "mcp \<Rightarrow> string \<Rightarrow> string option" where
  "jailPath m path =
     (case Jail_Allow (mcp_fs m) (NewPathJail (mcp_workspace m)) path of Inl e \<Rightarrow> Some (error_text e) | Inr _ \<Rightarrow> None)"

definition mapKeys :: "json \<Rightarrow> string list" where
  "mapKeys j = map fst (entries_of j)"

definition sessionSummary :: "json \<Rightarrow> json" where
  "sessionSummary p =
     JObj ((case key p ''manifest'' of
              JObj mf \<Rightarrow>
                [(''has_manifest'', JBool True)] @
                (case map_of mf ''env'' of
                   Some (JObj e) \<Rightarrow> [(''manifest_env_keys'', JArr (map JStr (mapKeys (JObj e))))] | _ \<Rightarrow> []) @
                (case map_of mf ''version'' of Some v \<Rightarrow> [(''manifest_version'', v)] | None \<Rightarrow> []) @
                (case map_of mf ''permissions'' of Some v \<Rightarrow> [(''permissions'', v)] | None \<Rightarrow> [])
            | _ \<Rightarrow> []) @
           (case key p ''session'' of
              JObj s \<Rightarrow> (case map_of s ''expires_at'' of Some v \<Rightarrow> [(''expires_at'', v)] | None \<Rightarrow> [])
            | _ \<Rightarrow> []))"

definition session_probe :: "mcp \<Rightarrow> string \<Rightarrow> http_reply \<Rightarrow> json" where
  "session_probe m url r =
     JObj ([(''url'', JStr url), (''status'', JNum (rpStatus r))] @
       (case rpError r of
          Some e \<Rightarrow> [(''ok'', JBool False), (''error'', JStr e)]
        | None \<Rightarrow>
            if rpStatus r \<ge> 300
            then [(''ok'', JBool False), (''error'', JStr (truncate_at (rpBody r) 512))]
            else [(''ok'', JBool True)] @
                 (case unmarshal (mcp_codec m) (KMap KAny) (rpBody r) of
                    Inl _ \<Rightarrow> [] | Inr p \<Rightarrow> [(''summary'', sessionSummary p)])))"

definition mount_instructions :: "mcp \<Rightarrow> string \<Rightarrow> (string \<times> json) list" where
  "mount_instructions m mountPoint =
     [(''action'', JStr ''ensure_mounted_hint''), (''mount_point'', JStr mountPoint),
      (''workspace'', JStr (mcp_workspace m)),
      (''instructions'', JArr (map JStr
         [''This MCP helper does not mount FUSE locally.'',
          ''Desktop: hubd with AI_CLOUDHUB_API + TOKEN + DEVICE_ID.'',
          ''Cloud BYOC: runner with DRIVE_ID or BINDING_ID (D-001: no platform pool).'',
          ''Write artifacts only under workspace (path jail enforced by runner).''])),
      (''commands'', JObj
         [(''hubd'', JStr (''AI_CLOUDHUB_API='' @ mcp_api m @
             '' AI_CLOUDHUB_TOKEN=<token> AI_CLOUDHUB_DEVICE_ID=<device> ./.bin/hubd'')),
          (''runner'', JStr (''AI_CLOUDHUB_API='' @ mcp_api m @
             '' AI_CLOUDHUB_TOKEN=<token> AI_CLOUDHUB_DRIVE_ID=<drive_id> AI_CLOUDHUB_MOUNT='' @ mountPoint @
             '' ./.bin/runner -- <agent>''))])]"

definition session_payload :: "mcp \<Rightarrow> string \<Rightarrow> json" where
  "session_payload m mountPoint =
     JObj [(''mount_point'', JStr mountPoint),
           (''device_id'', JStr (getenv_or (mcp_env m) ''AI_CLOUDHUB_DEVICE_ID'' ''mcp-helper'')),
           (''mode'', JStr (getenv_or (mcp_env m) ''AI_CLOUDHUB_MODE'' ''mount''))]"

definition toolEnsureMountedHint :: "mcp \<Rightarrow> network \<Rightarrow> string \<Rightarrow> string \<Rightarrow> string \<Rightarrow> http_call list \<Rightarrow> tool_answer" where
  "toolEnsureMountedHint m net driveID bindingID mountPoint0 tr =
     (let mountPoint = (if mountPoint0 = [] then mcp_workspace m else mountPoint0)
      in case jailPath m mountPoint of
           Some e \<Rightarrow> (tr, Inl (''mount_point jail: '' @ e))
         | None \<Rightarrow>
             if bindingID = [] \<and> driveID = []
             then (tr, Inr (toolResultJSON m (JObj (mount_instructions m mountPoint))))
             else (let path = (if bindingID \<noteq> [] then ''/v1/bindings/'' @ bindingID @ ''/session''
                               else ''/v1/drives/'' @ driveID @ ''/session'');
                       ids = (if bindingID \<noteq> [] then (''binding_id'', JStr bindingID) else (''drive_id'', JStr driveID));
                       payload = (if bindingID \<noteq> [] then None else Some (session_payload m mountPoint))
                   in case httpDo m net ''POST'' path payload tr of (tr', r) \<Rightarrow>
                     (tr', Inr (toolResultJSON m (JObj (mount_instructions m mountPoint @
                        [ids, (''session_probe'', session_probe m (mcp_api m @ path) r)]))))))"

definition toolResolvePath :: "mcp \<Rightarrow> string \<Rightarrow> string + json" where
  "toolResolvePath m path =
     (if trim_space path = [] then Inl ''path required''
      else Inr (toolResultJSON m (JObj
        [(''workspace'', JStr (mcp_workspace m)), (''path'', JStr path),
         (''allowed'', JBool (jailPath m path = None)),
         (''error'', JStr (case jailPath m path of Some e \<Rightarrow> e | None \<Rightarrow> []))])))"

definition toolListSnapshots :: "mcp \<Rightarrow> network \<Rightarrow> string \<Rightarrow> http_call list \<Rightarrow> tool_answer" where
  "toolListSnapshots m net driveID tr =
     call_api m net ''list snapshots'' ''GET'' (''/v1/drives/'' @ driveID @ ''/snapshots'') None tr"

definition toolCreateSnapshot :: "mcp \<Rightarrow> network \<Rightarrow> string \<Rightarrow> string \<Rightarrow> string \<Rightarrow> http_call list \<Rightarrow> tool_answer" where
  "toolCreateSnapshot m net driveID label note tr =
     call_api m net ''create snapshot'' ''POST'' (''/v1/drives/'' @ driveID @ ''/snapshots'')
       (Some (JObj [(''label'', JStr label), (''note'', JStr note)])) tr"

definition toolListObjects :: "mcp \<Rightarrow> network \<Rightarrow> string \<Rightarrow> bool \<Rightarrow> int \<Rightarrow> http_call list \<Rightarrow> tool_answer" where
  "toolListObjects m net driveID versions mx tr =
     call_api m net ''list objects'' ''GET''
       (with_query (''/v1/drives/'' @ driveID @ ''/objects'')
          ((if versions then [''versions=1''] else []) @ (if mx > 0 then [''max='' @ show_int mx] else []))) None tr"

definition toolObjectPost :: "mcp \<Rightarrow> network \<Rightarrow> string \<Rightarrow> string \<Rightarrow> (string \<times> json) list \<Rightarrow> http_call list \<Rightarrow> tool_answer" where
  "toolObjectPost m net driveID action payload tr =
     call_api m net action ''POST'' (''/v1/drives/'' @ driveID @ ''/objects/'' @ action) (Some (JObj payload)) tr"

section \<open>Jobs and providers\<close>

definition toolJobStats :: "mcp \<Rightarrow> network \<Rightarrow> http_call list \<Rightarrow> tool_answer" where
  "toolJobStats m net tr = call_api m net ''job stats'' ''GET'' ''/v1/jobs/stats'' None tr"

definition label_params :: "(string \<times> json) list \<Rightarrow> string list" where
  "label_params labels =
     map (\<lambda>(k, v). ''label='' @ k @ '':'' @ text_of v) (filter (\<lambda>(k, v). trim_space k \<noteq> []) labels)"

definition opt_param :: "string \<Rightarrow> string \<Rightarrow> string list" where
  "opt_param k v = (if v \<noteq> [] then [k @ ''='' @ v] else [])"

definition toolListJobs :: "mcp \<Rightarrow> network \<Rightarrow> json \<Rightarrow> http_call list \<Rightarrow> tool_answer" where
  "toolListJobs m net args tr =
     (let q = opt_param ''status'' (text_field args ''status'') @ opt_param ''agent_id'' (text_field args ''agent_id'') @
              opt_param ''claimed_by_agent_id'' (text_field args ''claimed_by_agent_id'') @
              opt_param ''region'' (text_field args ''region'') @
              (let n = num_field args ''limit'' in if n > 0 then [''limit='' @ show_int n] else []) @
              opt_param ''cursor'' (text_field args ''cursor'') @ label_params (entries_of (field args ''labels''))
      in call_api m net ''list jobs'' ''GET'' (with_query ''/v1/jobs'' q) None tr)"

definition job_payload :: "json \<Rightarrow> (string \<times> json) list" where
  "job_payload args =
     [(''drive_id'', JStr (text_field args ''drive_id'')),
      (''command'', JArr (map (JStr \<circ> text_of) (items_of (field args ''command''))))] @
     opt_str ''mode'' (text_field args ''mode'') @ opt_str ''binding_id'' (text_field args ''binding_id'') @
     opt_str ''region_hint'' (text_field args ''region_hint'') @ opt_str ''note'' (text_field args ''note'') @
     opt_str ''connector_id'' (text_field args ''connector_id'') @
     opt_pos ''timeout_sec'' (num_field args ''timeout_sec'') @ opt_pos ''max_attempts'' (num_field args ''max_attempts'') @
     opt (num_field args ''priority'' \<noteq> 0) ''priority'' (JNum (num_field args ''priority'')) @
     (let ls = entries_of (field args ''labels'')
      in opt (ls \<noteq> []) ''labels'' (JObj (map (\<lambda>(k, v). (k, JStr (text_of v))) ls))) @
     opt_str ''idempotency_key'' (trim_space (text_field args ''idempotency_key''))"

definition toolCreateJob :: "mcp \<Rightarrow> network \<Rightarrow> json \<Rightarrow> http_call list \<Rightarrow> tool_answer" where
  "toolCreateJob m net args tr =
     call_api m net ''create job'' ''POST'' ''/v1/jobs'' (Some (JObj (job_payload args))) tr"

definition toolClaimNextJob :: "mcp \<Rightarrow> network \<Rightarrow> string \<Rightarrow> string \<Rightarrow> http_call list \<Rightarrow> tool_answer" where
  "toolClaimNextJob m net runnerID region tr =
     (let rid = trim_space runnerID; reg = trim_space region;
          headers = (if rid \<noteq> [] then [(''X-AI-Cloudhub-Runner-Id'', rid)] else []) @
                    (if reg \<noteq> [] then [(''X-AI-Cloudhub-Region'', reg)] else []);
          payload = opt_str ''runner_id'' rid @ opt_str ''region'' reg
      in case httpDoHeaders m net ''POST'' ''/v1/jobs/next/claim''
                (if payload \<noteq> [] then Some (JObj payload) else None) headers tr of
           (tr', r) \<Rightarrow> (tr', api_answer m ''claim next'' r))"

definition toolGetJob :: "mcp \<Rightarrow> network \<Rightarrow> string \<Rightarrow> http_call list \<Rightarrow> tool_answer" where
  "toolGetJob m net jobID tr = call_api m net ''get job'' ''GET'' (''/v1/jobs/'' @ jobID) None tr"

definition toolHeartbeatJob :: "mcp \<Rightarrow> network \<Rightarrow> string \<Rightarrow> http_call list \<Rightarrow> tool_answer" where
  "toolHeartbeatJob m net jobID tr =
     call_api m net ''heartbeat job'' ''POST'' (''/v1/jobs/'' @ jobID @ ''/heartbeat'') None tr"

definition complete_payload :: "bool \<Rightarrow> string \<Rightarrow> int option \<Rightarrow> int \<Rightarrow> string \<Rightarrow> string \<Rightarrow> bool \<Rightarrow> bool \<Rightarrow> json" where
  "complete_payload ok note exitCode durationMs out err outTrunc errTrunc =
     JObj ([(''ok'', JBool ok), (''note'', JStr note)] @
       (case exitCode of Some n \<Rightarrow> [(''exit_code'', JNum n)] | None \<Rightarrow> []) @ opt_pos ''duration_ms'' durationMs @
       opt_str ''stdout'' out @ opt_str ''stderr'' err @ opt outTrunc ''stdout_truncated'' (JBool True) @
       opt errTrunc ''stderr_truncated'' (JBool True))"

definition toolCompleteJob :: "mcp \<Rightarrow> network \<Rightarrow> json \<Rightarrow> bool \<Rightarrow> http_call list \<Rightarrow> tool_answer" where
  "toolCompleteJob m net args ok tr =
     call_api m net ''complete job'' ''POST'' (''/v1/jobs/'' @ text_field args ''job_id'' @ ''/complete'')
       (Some (complete_payload ok (text_field args ''note'')
          (case field args ''exit_code'' of JNum n \<Rightarrow> Some n | _ \<Rightarrow> None) (num_field args ''duration_ms'')
          (text_field args ''stdout'') (text_field args ''stderr'') (flag_field args ''stdout_truncated'')
          (flag_field args ''stderr_truncated''))) tr"

definition toolCancelJob :: "mcp \<Rightarrow> network \<Rightarrow> string \<Rightarrow> http_call list \<Rightarrow> tool_answer" where
  "toolCancelJob m net jobID tr =
     call_api m net ''cancel job'' ''POST'' (''/v1/jobs/'' @ jobID @ ''/cancel'') None tr"

definition toolListProviders :: "mcp \<Rightarrow> network \<Rightarrow> http_call list \<Rightarrow> tool_answer" where
  "toolListProviders m net tr = call_api m net ''list providers'' ''GET'' ''/v1/providers'' None tr"

section \<open>Marketplace, memory, graph, connectors, lineage\<close>

definition toolListMarketplace :: "mcp \<Rightarrow> network \<Rightarrow> bool \<Rightarrow> http_call list \<Rightarrow> tool_answer" where
  "toolListMarketplace m net mine tr =
     call_api m net ''list marketplace'' ''GET'' (if mine then ''/v1/marketplace?mine=1'' else ''/v1/marketplace'') None tr"

definition toolInstallMarketplace :: "mcp \<Rightarrow> network \<Rightarrow> string \<Rightarrow> http_call list \<Rightarrow> tool_answer" where
  "toolInstallMarketplace m net itemID tr =
     call_api m net ''install marketplace'' ''POST'' (''/v1/marketplace/'' @ path_escape itemID @ ''/install'')
       (Some (JObj [])) tr"

definition toolListMemory :: "mcp \<Rightarrow> network \<Rightarrow> json \<Rightarrow> http_call list \<Rightarrow> tool_answer" where
  "toolListMemory m net args tr =
     call_api m net ''list memory'' ''GET''
       (with_values ''/v1/memory'' (opt_value ''layer'' (text_field args ''layer'') @ opt_value ''key'' (text_field args ''key'') @
          opt_value ''drive_id'' (text_field args ''drive_id'') @ opt_limit (num_field args ''limit''))) None tr"

text \<open>A map of the arguments that was not sent is nil, and so is one sent as null.\<close>

definition opt_map :: "string \<Rightarrow> json \<Rightarrow> (string \<times> json) list" where
  "opt_map k j = opt (j \<noteq> JNull) k j"

definition numbers :: "json \<Rightarrow> json" where
  "numbers j = JArr (map (JNum \<circ> int_of) (items_of j))"

definition toolPutMemory :: "mcp \<Rightarrow> network \<Rightarrow> json \<Rightarrow> http_call list \<Rightarrow> tool_answer" where
  "toolPutMemory m net args tr =
     call_api m net ''put memory'' ''POST'' ''/v1/memory''
       (Some (JObj ([(''content'', JStr (text_field args ''content''))] @ opt_str ''layer'' (text_field args ''layer'') @
          opt_str ''key'' (text_field args ''key'') @ opt_str ''drive_id'' (text_field args ''drive_id'') @
          opt_map ''meta'' (field args ''meta'') @
          opt (items_of (field args ''embedding'') \<noteq> []) ''embedding'' (numbers (field args ''embedding'')) @
          opt_pos ''ttl_sec'' (num_field args ''ttl_sec'')))) tr"

definition toolSearchMemory :: "mcp \<Rightarrow> network \<Rightarrow> json \<Rightarrow> http_call list \<Rightarrow> tool_answer" where
  "toolSearchMemory m net args tr =
     call_api m net ''search memory'' ''POST'' ''/v1/memory/search''
       (Some (JObj ([(''query'', numbers (field args ''query''))] @ opt_pos ''k'' (num_field args ''k'') @
          opt_str ''layer'' (text_field args ''layer'')))) tr"

definition toolListGraph :: "mcp \<Rightarrow> network \<Rightarrow> json \<Rightarrow> http_call list \<Rightarrow> tool_answer" where
  "toolListGraph m net args tr =
     call_api m net ''list graph'' ''GET''
       (with_values ''/v1/graph'' (opt_value ''subject'' (text_field args ''subject'') @
          opt_value ''object'' (text_field args ''object'') @ opt_limit (num_field args ''limit''))) None tr"

definition toolLinkGraph :: "mcp \<Rightarrow> network \<Rightarrow> json \<Rightarrow> http_call list \<Rightarrow> tool_answer" where
  "toolLinkGraph m net args tr =
     call_api m net ''link graph'' ''POST'' ''/v1/graph''
       (Some (JObj ([(''subject'', JStr (text_field args ''subject'')), (''relation'', JStr (text_field args ''relation'')),
          (''object'', JStr (text_field args ''object''))] @ opt_map ''meta'' (field args ''meta'')))) tr"

definition toolListConnectors :: "mcp \<Rightarrow> network \<Rightarrow> http_call list \<Rightarrow> tool_answer" where
  "toolListConnectors m net tr = call_api m net ''list connectors'' ''GET'' ''/v1/connectors'' None tr"

definition toolConnectorsCatalog :: "mcp \<Rightarrow> network \<Rightarrow> http_call list \<Rightarrow> tool_answer" where
  "toolConnectorsCatalog m net tr = call_api m net ''connectors catalog'' ''GET'' ''/v1/connectors/catalog'' None tr"

definition toolCreateConnector :: "mcp \<Rightarrow> network \<Rightarrow> json \<Rightarrow> http_call list \<Rightarrow> tool_answer" where
  "toolCreateConnector m net args tr =
     call_api m net ''create connector'' ''POST'' ''/v1/connectors''
       (Some (JObj ([(''type'', JStr (text_field args ''type''))] @ opt_str ''name'' (text_field args ''name'') @
          [(''config'', if field args ''config'' \<noteq> JNull then field args ''config'' else JObj [])]))) tr"

definition toolGetConnector :: "mcp \<Rightarrow> network \<Rightarrow> string \<Rightarrow> http_call list \<Rightarrow> tool_answer" where
  "toolGetConnector m net i tr = call_api m net ''get connector'' ''GET'' (''/v1/connectors/'' @ path_escape i) None tr"

definition toolDeleteConnector :: "mcp \<Rightarrow> network \<Rightarrow> string \<Rightarrow> http_call list \<Rightarrow> tool_answer" where
  "toolDeleteConnector m net i tr =
     call_api m net ''delete connector'' ''DELETE'' (''/v1/connectors/'' @ path_escape i) None tr"

definition toolMarketplaceCheckout :: "mcp \<Rightarrow> network \<Rightarrow> string \<Rightarrow> http_call list \<Rightarrow> tool_answer" where
  "toolMarketplaceCheckout m net itemID tr =
     call_api m net ''marketplace checkout'' ''POST'' (''/v1/marketplace/'' @ path_escape itemID @ ''/checkout'')
       (Some (JObj [])) tr"

definition toolListLineage :: "mcp \<Rightarrow> network \<Rightarrow> json \<Rightarrow> http_call list \<Rightarrow> tool_answer" where
  "toolListLineage m net args tr =
     call_api m net ''list lineage'' ''GET''
       (with_values ''/v1/lineage'' (opt_value ''entity'' (text_field args ''entity'') @ opt_limit (num_field args ''limit'')))
       None tr"

definition toolRecordLineage :: "mcp \<Rightarrow> network \<Rightarrow> json \<Rightarrow> http_call list \<Rightarrow> tool_answer" where
  "toolRecordLineage m net args tr =
     call_api m net ''record lineage'' ''POST'' ''/v1/lineage''
       (Some (JObj ([(''action'', JStr (text_field args ''action'')), (''entity'', JStr (text_field args ''entity''))] @
          opt_str ''parent'' (text_field args ''parent'') @ opt_str ''detail'' (text_field args ''detail'')))) tr"

definition toolWorkspaceEnv :: "mcp \<Rightarrow> json" where
  "toolWorkspaceEnv m =
     toolResultJSON m (JObj
       [(''workspace_default'', JStr (mcp_workspace m)),
        (''required_env'', JArr (map (\<lambda>(n, d). JObj [(''name'', JStr n), (''meaning'', JStr d)])
           [(''AI_CLOUDHUB_WORKSPACE'', ''Absolute workspace root''), (''AI_CLOUDHUB_DRIVE_ID'', ''Logical drive id''),
            (''AI_CLOUDHUB_MODE'', ''mount | sync_workspace | direct'')])),
        (''security'', JObj
           [(''mcp_scopes'', JStr (''Agent tokens need drive.read/write, job.run, provider.* for those tools; Stage C '' @
               ''memory/graph/marketplace use authenticated token (skill install OK for agents)'')),
            (''path_jail'', JStr ''resolve_path and mount_point checked against workspace''),
            (''runner_env'', JStr (''runner filters secrets; set AI_CLOUDHUB_PASS_TOKEN=1 to pass API token into agent'')),
            (''mcp_version'', JStr ''0.2.50'')]),
        (''tools'', JArr (map JStr
           [''whoami'', ''list_drives'', ''resolve_drive'', ''list_bindings'', ''list_providers'', ''ensure_mounted_hint'',
            ''workspace_env'', ''resolve_path'', ''list_snapshots'', ''create_snapshot'', ''list_objects'', ''list_jobs'',
            ''job_stats'', ''get_job'', ''create_job'', ''claim_next_job'', ''complete_job'', ''heartbeat_job'',
            ''cancel_job'', ''list_marketplace'', ''install_marketplace'', ''marketplace_checkout'', ''list_memory'',
            ''put_memory'', ''search_memory'', ''list_graph'', ''link_graph'', ''list_connectors'', ''connectors_catalog'',
            ''create_connector'', ''get_connector'', ''delete_connector'', ''list_lineage'', ''record_lineage'']))])"


section \<open>The registry of tools\<close>

record tool_meta =
  tmName :: string
  tmScopes :: "string list"
  tmSchema :: json

definition json_type :: "string \<Rightarrow> json" where "json_type t = JObj [(''type'', JStr t)]"

abbreviation p_string :: json where "p_string \<equiv> json_type ''string''"
abbreviation p_integer :: json where "p_integer \<equiv> json_type ''integer''"
abbreviation p_boolean :: json where "p_boolean \<equiv> json_type ''boolean''"
abbreviation p_object :: json where "p_object \<equiv> json_type ''object''"
abbreviation p_number :: json where "p_number \<equiv> json_type ''number''"
abbreviation p_labels :: json where
  "p_labels \<equiv> JObj [(''type'', JStr ''object''), (''additionalProperties'', p_string)]"
abbreviation p_list :: "json \<Rightarrow> json" where "p_list t \<equiv> JObj [(''type'', JStr ''array''), (''items'', t)]"

definition tool :: "string \<Rightarrow> string list \<Rightarrow> (string \<times> json) list \<Rightarrow> string list \<Rightarrow> tool_meta" where
  "tool n scopes props required =
     \<lparr>tmName = n, tmScopes = scopes,
      tmSchema = JObj ([(''type'', JStr ''object''), (''properties'', JObj props)] @
        opt (required \<noteq> []) ''required'' (JArr (map JStr required)))\<rparr>"

abbreviation read_scopes :: "string list" where "read_scopes \<equiv> [''drive.read'', ''drive.write'']"

definition drive_registry :: "tool_meta list" where
  "drive_registry =
     [tool ''whoami'' [] [] [],
      tool ''list_drives'' read_scopes [] [],
      tool ''resolve_drive'' read_scopes [(''alias'', p_string), (''name'', p_string)] [],
      tool ''list_bindings'' read_scopes [(''device_id'', p_string)] [],
      tool ''ensure_mounted_hint'' read_scopes [(''drive_id'', p_string), (''binding_id'', p_string),
         (''mount_point'', p_string)] [],
      tool ''workspace_env'' [] [] [],
      tool ''resolve_path'' [] [(''path'', p_string)] [''path''],
      tool ''list_snapshots'' read_scopes [(''drive_id'', p_string)] [''drive_id''],
      tool ''create_snapshot'' [''drive.write''] [(''drive_id'', p_string), (''label'', p_string), (''note'',
         p_string)] [''drive_id''],
      tool ''list_objects'' read_scopes [(''drive_id'', p_string), (''versions'', p_boolean), (''max'',
         p_integer)] [''drive_id''],
      tool ''object_restore_plan'' read_scopes [(''drive_id'', p_string), (''key'', p_string), (''version_id'',
         p_string), (''ttl_min'', p_integer)] [''drive_id'', ''key''],
      tool ''object_presign_get'' read_scopes [(''drive_id'', p_string), (''key'', p_string), (''version_id'',
         p_string), (''ttl_min'', p_integer)] [''drive_id'', ''key''],
      tool ''object_restore_version'' [''drive.write''] [(''drive_id'', p_string), (''key'', p_string),
         (''version_id'', p_string)] [''drive_id'', ''key'', ''version_id'']]"

definition job_registry :: "tool_meta list" where
  "job_registry =
     [tool ''list_jobs'' [''job.run''] [(''status'', p_string), (''agent_id'', p_string),
         (''claimed_by_agent_id'', p_string), (''region'', p_string), (''labels'', p_labels), (''limit'',
         p_integer), (''cursor'', p_string)] [],
      tool ''job_stats'' [''job.run''] [] [],
      tool ''get_job'' [''job.run''] [(''job_id'', p_string)] [''job_id''],
      tool ''create_job'' [''job.run''] [(''drive_id'', p_string), (''command'', (p_list p_string)), (''mode'',
         p_string), (''binding_id'', p_string), (''region_hint'', p_string), (''note'', p_string),
         (''connector_id'', p_string), (''timeout_sec'', p_integer), (''max_attempts'', p_integer), (''priority'',
         p_integer), (''labels'', p_labels), (''idempotency_key'', p_string)] [''drive_id'', ''command''],
      tool ''claim_next_job'' [''job.run''] [(''runner_id'', p_string), (''region'', p_string)] [],
      tool ''complete_job'' [''job.run''] [(''job_id'', p_string), (''ok'', p_boolean), (''note'', p_string),
         (''exit_code'', p_integer), (''duration_ms'', p_integer), (''stdout'', p_string), (''stderr'', p_string),
         (''stdout_truncated'', p_boolean), (''stderr_truncated'', p_boolean)] [''job_id''],
      tool ''heartbeat_job'' [''job.run''] [(''job_id'', p_string)] [''job_id''],
      tool ''cancel_job'' [''job.run''] [(''job_id'', p_string)] [''job_id''],
      tool ''list_providers'' [''provider.read'', ''provider.write''] [] []]"

definition stage_c_registry :: "tool_meta list" where
  "stage_c_registry =
     [tool ''list_marketplace'' [] [(''mine'', p_boolean)] [],
      tool ''install_marketplace'' [] [(''item_id'', p_string)] [''item_id''],
      tool ''list_memory'' [] [(''layer'', p_string), (''key'', p_string), (''drive_id'', p_string), (''limit'',
         p_integer)] [],
      tool ''put_memory'' [] [(''layer'', p_string), (''content'', p_string), (''key'', p_string), (''drive_id'',
         p_string), (''meta'', p_object), (''embedding'', (p_list p_number)), (''ttl_sec'',
         p_integer)] [''content''],
      tool ''search_memory'' [] [(''query'', (p_list p_number)), (''k'', p_integer), (''layer'',
         p_string)] [''query''],
      tool ''list_graph'' [] [(''subject'', p_string), (''object'', p_string), (''limit'', p_integer)] [],
      tool ''link_graph'' [] [(''subject'', p_string), (''relation'', p_string), (''object'', p_string),
         (''meta'', p_object)] [''subject'', ''relation'', ''object''],
      tool ''list_connectors'' [] [] [],
      tool ''connectors_catalog'' [] [] [],
      tool ''create_connector'' [] [(''type'', p_string), (''name'', p_string), (''config'', p_object)] [''type''],
      tool ''get_connector'' [] [(''connector_id'', p_string)] [''connector_id''],
      tool ''delete_connector'' [] [(''connector_id'', p_string)] [''connector_id''],
      tool ''marketplace_checkout'' [] [(''item_id'', p_string)] [''item_id''],
      tool ''list_lineage'' [] [(''entity'', p_string), (''limit'', p_integer)] [],
      tool ''record_lineage'' [] [(''action'', p_string), (''entity'', p_string), (''parent'', p_string),
         (''detail'', p_string)] [''action'', ''entity'']]"

definition toolRegistry :: "tool_meta list" where
  "toolRegistry = drive_registry @ job_registry @ stage_c_registry"

definition metaFor :: "string \<Rightarrow> tool_meta option" where
  "metaFor n = find (\<lambda>t. tmName t = n) toolRegistry"

definition toolDescriptors :: json where
  "toolDescriptors =
     JArr (map (\<lambda>t. JObj [(''name'', JStr (tmName t)), (''inputSchema'', tmSchema t),
       (''annotations'', JObj [(''required_scopes_any'',
          if tmScopes t = [] then JNull else JArr (map JStr (tmScopes t)))])]) toolRegistry)"

section \<open>Calls of tools\<close>

definition decodeArgs :: "mcp \<Rightarrow> (string \<times> kind) list \<Rightarrow> json \<Rightarrow> string option" where
  "decodeArgs m sh raw = (if fits (KStruct sh) raw then None else Some (cd_mismatch (mcp_codec m) raw))"

definition with_args :: "mcp \<Rightarrow> (string \<times> kind) list \<Rightarrow> json \<Rightarrow> http_call list \<Rightarrow> tool_answer \<Rightarrow> tool_answer" where
  "with_args m sh raw tr go = (case decodeArgs m sh raw of Some e \<Rightarrow> (tr, Inl e) | None \<Rightarrow> go)"

definition missing :: "json \<Rightarrow> string list \<Rightarrow> bool" where
  "missing raw names = list_ex (\<lambda>n. trim_space (text_field raw n) = []) names"

definition requires :: "bool \<Rightarrow> string \<Rightarrow> http_call list \<Rightarrow> tool_answer \<Rightarrow> tool_answer" where
  "requires absent msg tr go = (if absent then (tr, Inl msg) else go)"

abbreviation strs :: "string list \<Rightarrow> (string \<times> kind) list" where "strs ns \<equiv> map (\<lambda>n. (n, KStr)) ns"

text \<open>A tool that needs one text.\<close>

definition for_id :: "mcp \<Rightarrow> string \<Rightarrow> json \<Rightarrow> http_call list \<Rightarrow> (string \<Rightarrow> tool_answer) \<Rightarrow> tool_answer" where
  "for_id m n raw tr go =
     with_args m (strs [n]) raw tr (requires (missing raw [n]) (n @ '' required'') tr (go (text_field raw n)))"

definition object_args :: "(string \<times> kind) list" where
  "object_args = strs [''drive_id'', ''key'', ''version_id''] @ [(''ttl_min'', KInt)]"

definition object_payload :: "json \<Rightarrow> (string \<times> json) list" where
  "object_payload raw =
     [(''key'', JStr (text_field raw ''key'')), (''version_id'', JStr (text_field raw ''version_id'')),
      (''ttl_min'', JNum (num_field raw ''ttl_min''))]"

definition ensure_hint :: "mcp \<Rightarrow> network \<Rightarrow> json \<Rightarrow> http_call list \<Rightarrow> tool_answer" where
  "ensure_hint m net raw tr =
     (let mp = text_field raw ''mount_point''
      in case (if mp \<noteq> [] then jailPath m mp else None) of
           Some e \<Rightarrow> (tr, Inl e)
         | None \<Rightarrow> toolEnsureMountedHint m net (text_field raw ''drive_id'') (text_field raw ''binding_id'') mp tr)"

definition stage_c_tool :: "mcp \<Rightarrow> network \<Rightarrow> string \<Rightarrow> json \<Rightarrow> http_call list \<Rightarrow> tool_answer" where
  "stage_c_tool m net n raw tr =
     (if n = ''list_marketplace''
      then with_args m [(''mine'', KBool)] raw tr (toolListMarketplace m net (flag_field raw ''mine'') tr)
      else if n = ''install_marketplace'' then for_id m ''item_id'' raw tr (\<lambda>i. toolInstallMarketplace m net i tr)
      else if n = ''list_memory''
      then with_args m (strs [''layer'', ''key'', ''drive_id''] @ [(''limit'', KInt)]) raw tr (toolListMemory m net raw tr)
      else if n = ''put_memory''
      then with_args m (strs [''layer'', ''content'', ''key'', ''drive_id''] @
              [(''meta'', KMap KAny), (''embedding'', KList KNum), (''ttl_sec'', KInt)]) raw tr
             (requires (missing raw [''content'']) ''content required'' tr (toolPutMemory m net raw tr))
      else if n = ''search_memory''
      then with_args m [(''query'', KList KNum), (''k'', KInt), (''layer'', KStr)] raw tr
             (requires (items_of (field raw ''query'') = []) ''query embedding required'' tr (toolSearchMemory m net raw tr))
      else if n = ''list_graph''
      then with_args m (strs [''subject'', ''object''] @ [(''limit'', KInt)]) raw tr (toolListGraph m net raw tr)
      else if n = ''link_graph''
      then with_args m (strs [''subject'', ''relation'', ''object''] @ [(''meta'', KMap KAny)]) raw tr
             (requires (missing raw [''subject'', ''relation'', ''object'']) ''subject, relation, object required'' tr
                (toolLinkGraph m net raw tr))
      else if n = ''list_connectors'' then toolListConnectors m net tr
      else if n = ''connectors_catalog'' then toolConnectorsCatalog m net tr
      else if n = ''create_connector''
      then with_args m (strs [''type'', ''name''] @ [(''config'', KMap KAny)]) raw tr
             (requires (missing raw [''type'']) ''type required'' tr (toolCreateConnector m net raw tr))
      else if n = ''get_connector'' then for_id m ''connector_id'' raw tr (\<lambda>i. toolGetConnector m net i tr)
      else if n = ''delete_connector'' then for_id m ''connector_id'' raw tr (\<lambda>i. toolDeleteConnector m net i tr)
      else if n = ''marketplace_checkout'' then for_id m ''item_id'' raw tr (\<lambda>i. toolMarketplaceCheckout m net i tr)
      else if n = ''list_lineage''
      then with_args m [(''entity'', KStr), (''limit'', KInt)] raw tr (toolListLineage m net raw tr)
      else if n = ''record_lineage''
      then with_args m (strs [''action'', ''entity'', ''parent'', ''detail'']) raw tr
             (requires (missing raw [''action'', ''entity'']) ''action and entity required'' tr
                (toolRecordLineage m net raw tr))
      else (tr, Inl (''unknown tool: '' @ n)))"

definition job_tool :: "mcp \<Rightarrow> network \<Rightarrow> string \<Rightarrow> json \<Rightarrow> http_call list \<Rightarrow> tool_answer" where
  "job_tool m net n raw tr =
     (if n = ''list_jobs''
      then with_args m (strs [''status'', ''agent_id'', ''claimed_by_agent_id'', ''region'', ''cursor''] @
              [(''labels'', KMap KStr), (''limit'', KInt)]) raw tr (toolListJobs m net raw tr)
      else if n = ''job_stats'' then toolJobStats m net tr
      else if n = ''get_job'' then for_id m ''job_id'' raw tr (\<lambda>i. toolGetJob m net i tr)
      else if n = ''create_job''
      then with_args m (strs [''drive_id'', ''mode'', ''binding_id'', ''region_hint'', ''note'', ''connector_id'', ''idempotency_key''] @
              [(''command'', KList KStr), (''timeout_sec'', KInt), (''max_attempts'', KInt), (''priority'', KInt),
               (''labels'', KMap KStr)]) raw tr
             (requires (missing raw [''drive_id''] \<or> items_of (field raw ''command'') = []) ''drive_id and command required'' tr
                (toolCreateJob m net raw tr))
      else if n = ''claim_next_job''
      then toolClaimNextJob m net (text_field raw ''runner_id'') (text_field raw ''region'') tr
      else if n = ''complete_job''
      then with_args m (strs [''job_id'', ''note'', ''stdout'', ''stderr''] @
              [(''ok'', KBool), (''exit_code'', KInt), (''duration_ms'', KInt), (''stdout_truncated'', KBool),
               (''stderr_truncated'', KBool)]) raw tr
             (requires (missing raw [''job_id'']) ''job_id required'' tr
                (toolCompleteJob m net raw (case field raw ''ok'' of JBool b \<Rightarrow> b | _ \<Rightarrow> True) tr))
      else if n = ''heartbeat_job'' then for_id m ''job_id'' raw tr (\<lambda>i. toolHeartbeatJob m net i tr)
      else if n = ''cancel_job'' then for_id m ''job_id'' raw tr (\<lambda>i. toolCancelJob m net i tr)
      else if n = ''list_providers'' then toolListProviders m net tr
      else stage_c_tool m net n raw tr)"

definition run_tool :: "mcp \<Rightarrow> network \<Rightarrow> string \<Rightarrow> json \<Rightarrow> http_call list \<Rightarrow> tool_answer" where
  "run_tool m net n raw tr =
     (if n = ''list_drives'' then toolListDrives m net tr
      else if n = ''resolve_drive''
      then with_args m (strs [''alias'', ''name'']) raw tr
             (toolResolveDrive m net (text_field raw ''alias'') (text_field raw ''name'') tr)
      else if n = ''list_bindings''
      then with_args m (strs [''device_id'']) raw tr (toolListBindings m net (text_field raw ''device_id'') tr)
      else if n = ''ensure_mounted_hint''
      then with_args m (strs [''drive_id'', ''binding_id'', ''mount_point'']) raw tr (ensure_hint m net raw tr)
      else if n = ''workspace_env'' then (tr, Inr (toolWorkspaceEnv m))
      else if n = ''resolve_path''
      then with_args m (strs [''path'']) raw tr (tr, toolResolvePath m (text_field raw ''path''))
      else if n = ''list_snapshots'' then for_id m ''drive_id'' raw tr (\<lambda>i. toolListSnapshots m net i tr)
      else if n = ''create_snapshot''
      then with_args m (strs [''drive_id'', ''label'', ''note'']) raw tr
             (requires (missing raw [''drive_id'']) ''drive_id required'' tr
                (toolCreateSnapshot m net (text_field raw ''drive_id'') (text_field raw ''label'') (text_field raw ''note'') tr))
      else if n = ''list_objects''
      then with_args m [(''drive_id'', KStr), (''versions'', KBool), (''max'', KInt)] raw tr
             (requires (missing raw [''drive_id'']) ''drive_id required'' tr
                (toolListObjects m net (text_field raw ''drive_id'') (flag_field raw ''versions'') (num_field raw ''max'') tr))
      else if n = ''object_restore_plan''
      then with_args m object_args raw tr
             (requires (missing raw [''drive_id'', ''key'']) ''drive_id and key required'' tr
                (toolObjectPost m net (text_field raw ''drive_id'') ''restore-plan'' (object_payload raw) tr))
      else if n = ''object_presign_get''
      then with_args m object_args raw tr
             (requires (missing raw [''drive_id'', ''key'']) ''drive_id and key required'' tr
                (toolObjectPost m net (text_field raw ''drive_id'') ''presign-get'' (object_payload raw) tr))
      else if n = ''object_restore_version''
      then with_args m (strs [''drive_id'', ''key'', ''version_id'']) raw tr
             (requires (missing raw [''drive_id'', ''key'', ''version_id'']) ''drive_id, key, version_id required'' tr
                (toolObjectPost m net (text_field raw ''drive_id'') ''restore-version''
                   [(''key'', JStr (text_field raw ''key'')), (''version_id'', JStr (text_field raw ''version_id''))] tr))
      else job_tool m net n raw tr)"

definition callTool :: "mcp \<Rightarrow> network \<Rightarrow> principal_cache \<Rightarrow> string \<Rightarrow> json
    \<Rightarrow> principal_cache \<times> tool_answer" where
  "callTool m net pc0 n raw =
     (case metaFor n of
        None \<Rightarrow> (pc0, [], Inl (''unknown tool: '' @ n))
      | Some t \<Rightarrow>
          (case (if n = ''workspace_env'' \<or> n = ''resolve_path'' then (pc0, [], None)
                 else ensureScopes m net pc0 (tmScopes t) []) of (pc, tr, err) \<Rightarrow>
             (case err of
                Some e \<Rightarrow> (pc, tr, Inl e)
              | None \<Rightarrow> if n = ''whoami'' then toolWhoami m net pc tr else (pc, run_tool m net n raw tr))))"

section \<open>JSON-RPC\<close>

record rpc_response =
  rrID :: json
  rrResult :: "json option"
  rrError :: "(int \<times> string) option"

definition okResp :: "json \<Rightarrow> json \<Rightarrow> rpc_response" where
  "okResp i r = \<lparr>rrID = i, rrResult = Some r, rrError = None\<rparr>"

definition errResp :: "json \<Rightarrow> int \<Rightarrow> string \<Rightarrow> rpc_response" where
  "errResp i code msg = \<lparr>rrID = i, rrResult = None, rrError = Some (code, msg)\<rparr>"

definition direct_methods :: "string list" where
  "direct_methods =
     [''list_drives'', ''resolve_drive'', ''list_bindings'', ''ensure_mounted_hint'', ''workspace_env'', ''resolve_path'',
      ''list_snapshots'', ''create_snapshot'', ''whoami'', ''list_objects'', ''object_restore_plan'', ''object_presign_get'',
      ''object_restore_version'', ''list_jobs'', ''job_stats'', ''get_job'', ''create_job'', ''claim_next_job'',
      ''complete_job'', ''heartbeat_job'', ''cancel_job'', ''list_providers'', ''list_marketplace'', ''install_marketplace'',
      ''list_memory'', ''put_memory'', ''search_memory'', ''list_graph'', ''link_graph'', ''list_connectors'',
      ''connectors_catalog'', ''create_connector'', ''get_connector'', ''delete_connector'', ''marketplace_checkout'',
      ''list_lineage'', ''record_lineage'']"

definition server_info :: json where
  "server_info =
     JObj [(''protocolVersion'', JStr ''2024-11-05''), (''capabilities'', JObj [(''tools'', JObj [])]),
           (''serverInfo'', JObj [(''name'', JStr ''ai-cloudhub-mcp''), (''version'', JStr ''0.2.50'')]),
           (''instructions'', JStr (''AI-cloudhub MCP helper v0.2. Tools require scopes when using agent tokens. '' @
              ''Paths must stay under workspace. Prefer hubd/runner for mounts.''))]"

text \<open>A failed tool is a successful response whose result says so.\<close>

definition tool_response :: "mcp \<Rightarrow> network \<Rightarrow> principal_cache \<Rightarrow> json \<Rightarrow> string \<Rightarrow> json
    \<Rightarrow> principal_cache \<times> http_call list \<times> rpc_response option" where
  "tool_response m net pc0 i n raw =
     (case callTool m net pc0 n raw of (pc, tr, r) \<Rightarrow>
        (pc, tr, Some (okResp i (case r of Inl e \<Rightarrow> toolResult True e | Inr v \<Rightarrow> v))))"

definition handleLine :: "mcp \<Rightarrow> network \<Rightarrow> principal_cache \<Rightarrow> string
    \<Rightarrow> principal_cache \<times> http_call list \<times> rpc_response option" where
  "handleLine m net pc line =
     (case unmarshal (mcp_codec m) (KStruct [(''jsonrpc'', KStr), (''method'', KStr)]) line of
        Inl e \<Rightarrow> (pc, [], Some (errResp JNull (-32700) (''parse error: '' @ e)))
      | Inr req \<Rightarrow>
          (let i = field req ''id''; meth = text_field req ''method''; params = field req ''params''
           in if i = JNull then (pc, [], None)
              else if meth = ''initialize'' then (pc, [], Some (okResp i server_info))
              else if meth = ''ping'' then (pc, [], Some (okResp i (JObj [])))
              else if meth = ''tools/list'' then (pc, [], Some (okResp i (JObj [(''tools'', toolDescriptors)])))
              else if meth = ''tools/call''
              then (if \<not> fits (KStruct [(''name'', KStr)]) params
                    then (pc, [], Some (errResp i (-32602) (''invalid tools/call params: '' @
                                                            cd_mismatch (mcp_codec m) params)))
                    else tool_response m net pc i (text_field params ''name'') (field params ''arguments''))
              else if meth \<in> set direct_methods then tool_response m net pc i meth params
              else (pc, [], Some (errResp i (-32601) (''method not found: '' @ meth)))))"

text \<open>What is written to standard output for the lines of standard input, each with its network.\<close>

fun mcp_serve :: "mcp \<Rightarrow> principal_cache \<Rightarrow> (string \<times> network) list \<Rightarrow> rpc_response list" where
  "mcp_serve m pc [] = []"
| "mcp_serve m pc ((text0, net) # rest) =
     (let line = trim_space text0
      in if line = [] then mcp_serve m pc rest
         else (case handleLine m net pc line of (pc', tr, resp) \<Rightarrow>
                 (case resp of Some r \<Rightarrow> r # mcp_serve m pc' rest | None \<Rightarrow> mcp_serve m pc' rest)))"

section \<open>Facts\<close>

lemmas registry_defs = toolRegistry_def drive_registry_def job_registry_def stage_c_registry_def

text \<open>Every tool of the registry can also be named as the method of a request, and nothing else can.\<close>

lemma direct_methods_registered: "n \<in> set direct_methods \<longleftrightarrow> metaFor n \<noteq> None"
proof -
  have "n \<in> set direct_methods \<longleftrightarrow> n \<in> tmName ` set toolRegistry"
    by (auto simp: direct_methods_def registry_defs tool_def)
  then show ?thesis by (auto simp: metaFor_def find_None_iff)
qed

text \<open>All requests of a call go below \<open>/v1/\<close> of the configured API and carry the token of the process.\<close>

definition home :: "mcp \<Rightarrow> http_call \<Rightarrow> bool" where
  "home m c \<longleftrightarrow> prefix (mcp_api m @ ''/v1/'') (hcURL c) \<and>
     (''Authorization'', ''Bearer '' @ mcp_token m) \<in> set (hcHeaders c)"

definition homely :: "mcp \<Rightarrow> tool_answer \<Rightarrow> bool" where
  "homely m a \<longleftrightarrow> list_all (home m) (fst a)"

lemma homely_stay [simp]: "homely m (tr, r) \<longleftrightarrow> list_all (home m) tr"
  by (simp add: homely_def)

lemma do_home:
  "httpDoHeaders m net meth path payload extra tr = (tr', r) \<Longrightarrow> prefix ''/v1/'' path \<Longrightarrow>
   list_all (home m) tr' \<longleftrightarrow> list_all (home m) tr"
  by (auto simp: httpDoHeaders_def Let_def home_def http_headers_def)

lemma call_homely: "prefix ''/v1/'' path \<Longrightarrow> homely m (call_api m net what meth path payload tr) \<longleftrightarrow> list_all (home m) tr"
  by (auto simp: call_api_def httpDo_def do_home split: prod.splits)

lemma with_args_homely: "list_all (home m) tr \<Longrightarrow> homely m go \<Longrightarrow> homely m (with_args m sh raw tr go)"
  by (simp add: with_args_def split: option.splits)

lemma requires_homely: "list_all (home m) tr \<Longrightarrow> homely m go \<Longrightarrow> homely m (requires b msg tr go)"
  by (simp add: requires_def)

lemma for_id_homely: "list_all (home m) tr \<Longrightarrow> (\<And>i. homely m (go i)) \<Longrightarrow> homely m (for_id m n raw tr go)"
  by (simp add: for_id_def with_args_homely requires_homely)

lemma path_prefixes [simp]:
  "prefix p path \<Longrightarrow> prefix p (with_query path q)" "prefix p path \<Longrightarrow> prefix p (with_values path vs)"
  by (auto simp: with_query_def with_values_def)

lemmas tool_defs =
  toolListSnapshots_def toolCreateSnapshot_def toolListObjects_def toolObjectPost_def toolJobStats_def toolListJobs_def
  toolCreateJob_def toolGetJob_def toolHeartbeatJob_def toolCompleteJob_def toolCancelJob_def toolListProviders_def
  toolListMarketplace_def toolInstallMarketplace_def toolListMemory_def toolPutMemory_def toolSearchMemory_def
  toolListGraph_def toolLinkGraph_def toolListConnectors_def toolConnectorsCatalog_def toolCreateConnector_def
  toolGetConnector_def toolDeleteConnector_def toolMarketplaceCheckout_def toolListLineage_def toolRecordLineage_def

lemma drive_tools_homely:
  "list_all (home m) tr \<Longrightarrow> homely m (toolListDrives m net tr)"
  "list_all (home m) tr \<Longrightarrow> homely m (toolResolveDrive m net a b tr)"
  "list_all (home m) tr \<Longrightarrow> homely m (toolListBindings m net a tr)"
  "list_all (home m) tr \<Longrightarrow> homely m (toolClaimNextJob m net a b tr)"
  "list_all (home m) tr \<Longrightarrow> homely m (toolEnsureMountedHint m net a b c tr)"
  by (auto simp: toolListDrives_def toolResolveDrive_def toolListBindings_def toolClaimNextJob_def httpDo_def
      toolEnsureMountedHint_def do_home Let_def split: prod.splits option.splits if_splits)

lemma stage_c_homely: "list_all (home m) tr \<Longrightarrow> homely m (stage_c_tool m net n raw tr)"
  unfolding stage_c_tool_def
  by (simp add: with_args_homely requires_homely for_id_homely tool_defs call_homely)

lemma job_tool_homely: "list_all (home m) tr \<Longrightarrow> homely m (job_tool m net n raw tr)"
  unfolding job_tool_def
  by (simp add: with_args_homely requires_homely for_id_homely tool_defs call_homely drive_tools_homely stage_c_homely)

lemma run_tool_homely: "list_all (home m) tr \<Longrightarrow> homely m (run_tool m net n raw tr)"
  unfolding run_tool_def
  by (simp add: with_args_homely requires_homely for_id_homely tool_defs call_homely drive_tools_homely job_tool_homely
      ensure_hint_def Let_def split: option.splits)

lemma load_home:
  "loadPrincipal m net pc0 tr = (pc, tr', err) \<Longrightarrow> list_all (home m) tr \<Longrightarrow> list_all (home m) tr'"
  by (auto simp: loadPrincipal_def httpDo_def do_home Let_def split: prod.splits sum.splits if_splits)

lemma ensure_home:
  "ensureScopes m net pc0 need [] = (pc, tr, err) \<Longrightarrow> list_all (home m) tr"
  by (auto simp: ensureScopes_def dest: load_home split: prod.splits option.splits if_splits)

lemma whoami_homely: "list_all (home m) tr \<Longrightarrow> homely m (snd (toolWhoami m net pc tr))"
  by (auto simp: toolWhoami_def dest: load_home split: prod.splits option.splits)

lemma call_tool_homely: "homely m (snd (callTool m net pc0 n raw))"
proof (cases "metaFor n")
  case None
  then show ?thesis by (simp add: callTool_def)
next
  case (Some t)
  obtain pc tr err where
    e: "(if n = ''workspace_env'' \<or> n = ''resolve_path'' then (pc0, [], None) else ensureScopes m net pc0 (tmScopes t) []) =
        (pc, tr, err)"
    by (metis prod_cases3)
  then have tr: "list_all (home m) tr" by (auto dest: ensure_home split: if_splits)
  have "callTool m net pc0 n raw =
          (case err of Some x \<Rightarrow> (pc, tr, Inl x)
                     | None \<Rightarrow> if n = ''whoami'' then toolWhoami m net pc tr else (pc, run_tool m net n raw tr))"
    by (simp add: callTool_def Some e)
  with tr show ?thesis by (simp add: run_tool_homely whoami_homely split: option.split)
qed

text \<open>A principal that failed to load is never asked for again.\<close>

lemma failed_principal_sticks:
  assumes "pcLoaded pc" "pcErr pc = Some e" "mcp_token m \<noteq> []" "metaFor n = Some t" "tmScopes t \<noteq> []"
    "n \<noteq> ''workspace_env''" "n \<noteq> ''resolve_path''"
  shows "callTool m net pc n raw = (pc, [], Inl e)"
  using assms by (simp add: callTool_def ensureScopes_def loadPrincipal_def)

text \<open>A response carries the id of its request; a request without id gets none.\<close>

lemma response_keeps_id:
  assumes "handleLine m net pc line = (pc', tr, Some r)"
    "unmarshal (mcp_codec m) (KStruct [(''jsonrpc'', KStr), (''method'', KStr)]) line = Inr req"
  shows "rrID r = field req ''id'' \<and> field req ''id'' \<noteq> JNull"
  using assms by (auto simp: handleLine_def tool_response_def okResp_def errResp_def Let_def
      split: prod.splits sum.splits if_splits)

section \<open>The gate\<close>

lemma load_sends_me:
  "loadPrincipal m net pc0 tr = (pc, tr', err) \<Longrightarrow> tr' = tr \<or> (\<exists>c. tr' = tr @ [c] \<and> hcURL c = mcp_api m @ ''/v1/me'')"
  by (auto simp: loadPrincipal_def httpDo_def httpDoHeaders_def Let_def split: prod.splits sum.splits if_splits)

lemma ensure_sends_me:
  assumes "ensureScopes m net pc0 need [] = (pc, tr, err)" "c \<in> set tr"
  shows "hcURL c = mcp_api m @ ''/v1/me''"
  using assms load_sends_me [of m net pc0 "[]"]
  by (fastforce simp: ensureScopes_def split: prod.splits option.splits if_splits)

lemma ensure_passes:
  assumes "ensureScopes m net pc0 need tr0 = (pc, tr, None)" "need \<noteq> []"
  shows "HasAnyScope (pcAgentID pc) (scopes_of pc) need"
  using assms by (auto simp: ensureScopes_def HasAnyScope_def split: prod.splits option.splits if_splits)

lemma scoped_tools:
  "metaFor n = Some t \<Longrightarrow> tmScopes t \<noteq> [] \<Longrightarrow> n \<notin> {''whoami'', ''workspace_env'', ''resolve_path''}"
  by (auto simp: metaFor_def registry_defs tool_def)

text \<open>C39: A tool of the bridge that asks for scopes sends a request other than GET /v1/me only for a human or for an agent that holds one of these scopes.\<close>

theorem bridge_asks_for_scope:
  assumes "callTool m net pc0 n raw = (pc, tr, r)" "metaFor n = Some t" "tmScopes t \<noteq> []"
    "c \<in> set tr" "hcURL c \<noteq> mcp_api m @ ''/v1/me''"
  shows "HasAnyScope (pcAgentID pc) (scopes_of pc) (tmScopes t)"
proof -
  obtain pc1 tr1 err where e: "ensureScopes m net pc0 (tmScopes t) [] = (pc1, tr1, err)" by (metis prod_cases3)
  from scoped_tools [OF assms(2,3)] assms(1,2) e
  have r: "(pc, tr, r) = (case err of Some x \<Rightarrow> (pc1, tr1, Inl x) | None \<Rightarrow> (pc1, run_tool m net n raw tr1))"
    by (simp add: callTool_def)
  show ?thesis
  proof (cases err)
    case None
    with r e show ?thesis using ensure_passes [OF _ assms(3)] by auto
  next
    case (Some x)
    with r e assms(4,5) show ?thesis using ensure_sends_me by fastforce
  qed
qed

definition demo_codec :: codec where
  "demo_codec =
     \<lparr>cd_parse = (\<lambda>b. if b = ''me'' then Inr (JObj [(''agent_id'', JStr ''ag1''), (''scopes'', JArr [JStr ''drive.read''])])
                      else Inr JNull),
      cd_indent = (\<lambda>j. []), cd_mismatch = (\<lambda>j. ''mismatch'')\<rparr>"

definition demo_mcp :: mcp where
  "demo_mcp = \<lparr>mcp_api = ''http://hub'', mcp_token = ''tok'', mcp_workspace = ''/w'', mcp_env = (\<lambda>k. []),
               mcp_codec = demo_codec, mcp_fs = \<lparr>fs_lstat = (\<lambda>p. False), fs_eval = (\<lambda>p. None)\<rparr>\<rparr>"

definition demo_net :: network where
  "demo_net tr c = \<lparr>rpBody = (if hcURL c = ''http://hub/v1/me'' then ''me'' else ''ok''), rpStatus = 200, rpError = None\<rparr>"

definition demo_tool_call :: "string \<Rightarrow> principal_cache \<times> tool_answer" where
  "demo_tool_call n = callTool demo_mcp demo_net new_cache n (JObj [(''drive_id'', JStr ''d1'')])"

lemma demo_snapshots:
  "map hcURL (fst (snd (demo_tool_call ''list_snapshots''))) = [''http://hub/v1/me'', ''http://hub/v1/drives/d1/snapshots'']"
  by code_simp

lemma demo_metas: "map_option tmScopes (metaFor ''list_snapshots'') = Some read_scopes"
  by code_simp

theorem bridge_asks_for_scope_witness:
  "HasAnyScope ''ag1'' [''drive.read''] [''drive.read'', ''drive.write''] \<and>
   map hcURL (fst (snd (demo_tool_call ''create_snapshot''))) = [''http://hub/v1/me'']"
proof
  obtain pc tr r where d: "demo_tool_call ''list_snapshots'' = (pc, tr, r)" by (metis prod_cases3)
  obtain t where t: "metaFor ''list_snapshots'' = Some t" "tmScopes t = read_scopes" using demo_metas by auto
  have "''http://hub/v1/drives/d1/snapshots'' \<in> hcURL ` set tr"
    using arg_cong [OF demo_snapshots, of set] d by simp
  then obtain c where c: "c \<in> set tr" "hcURL c = ''http://hub/v1/drives/d1/snapshots''" by auto
  have p: "pcAgentID (fst (demo_tool_call ''list_snapshots'')) = ''ag1''"
    "scopes_of (fst (demo_tool_call ''list_snapshots'')) = [''drive.read'']" by code_simp+
  have "HasAnyScope (pcAgentID pc) (scopes_of pc) (tmScopes t)"
    by (rule bridge_asks_for_scope [OF d [unfolded demo_tool_call_def] t(1) _ c(1)])
      (simp_all add: t(2) c(2) demo_mcp_def)
  with p d t(2) show "HasAnyScope ''ag1'' [''drive.read''] [''drive.read'', ''drive.write'']" by simp
  show "map hcURL (fst (snd (demo_tool_call ''create_snapshot''))) = [''http://hub/v1/me'']" by code_simp
qed

end
