(* ===== verification/Runner_Worker.thy ===== *)
theory Runner_Worker
  imports Client_World Sandbox_Env
begin

text \<open>
  The runner (\<open>cmd/runner\<close>): it claims a job, opens a session, mounts or pulls the drive, fetches the
  connector of the job, runs the command of the agent in the sandbox, and reports. The world is a
  parameter (\<open>host_world\<close>): it sees every action taken before (\<open>trace\<close>) and answers the next one, so any
  behaviour of the control plane, of rclone and of the agent is an instance. An operation returns the
  trace extended by its actions. Heartbeats and the cancellation poll run beside the agent and are
  operations of their own; signals, log lines and time are left out.
\<close>

section \<open>The world\<close>

datatype action =
    Request http_call
  | Command "string list"
  | Background "string list"
  | StopMount string
  | WriteText string string
  | WriteJson string json
  | MakeDir string
  | Print json
  | Pause
  | Seccomp
  | AwaitSignal
  | Agent "string list" "string list" string "duration option"

type_synonym trace = "action list"

text \<open>How a process ends when it does not end well, and how its context ended.\<close>

datatype process_end = Exited int string | NotStarted string

datatype context_end = Live | DeadlineExceeded | Canceled

record agent_run =
  ag_stdout :: "string list"
  ag_stderr :: "string list"
  ag_end :: "process_end option"
  ag_context :: context_end

record host_world =
  wd_http :: "trace \<Rightarrow> http_call \<Rightarrow> http_reply"
  wd_run :: "trace \<Rightarrow> string list \<Rightarrow> process_end option"
  wd_start :: "trace \<Rightarrow> string list \<Rightarrow> string option"
  wd_agent :: "trace \<Rightarrow> string list \<Rightarrow> agent_run"
  wd_look :: "trace \<Rightarrow> string \<Rightarrow> bool"
  wd_is_dir :: "trace \<Rightarrow> string \<Rightarrow> bool"
  wd_exists :: "trace \<Rightarrow> string \<Rightarrow> bool"
  wd_write :: "trace \<Rightarrow> string \<Rightarrow> string option"
  wd_mkdir :: "trace \<Rightarrow> string \<Rightarrow> string option"
  wd_seccomp :: "trace \<Rightarrow> string option"
  wd_fs :: "trace \<Rightarrow> file_system"
  wd_hostname :: "string option"
  wd_temp :: string
  wd_duration :: "string \<Rightarrow> duration option"
  wd_codec :: codec

record runner =
  rn_api :: string
  rn_token :: string
  rn_env :: "string gomap"
  rn_world :: host_world

definition penv :: "runner \<Rightarrow> environment" where
  "penv r k = (case gget (rn_env r) k of Some v \<Rightarrow> v | None \<Rightarrow> [])"

definition os_environ :: "runner \<Rightarrow> string list" where
  "os_environ r = map (\<lambda>(k, v). k @ ''='' @ v) (rn_env r)"

definition os_setenv :: "string \<Rightarrow> string \<Rightarrow> runner \<Rightarrow> runner" where
  "os_setenv k v r = r\<lparr>rn_env := gset k v (rn_env r)\<rparr>"

fun exit_text :: "process_end \<Rightarrow> string" where
  "exit_text (Exited n s) = s"
| "exit_text (NotStarted s) = s"

definition filepath_join :: "string \<Rightarrow> string \<Rightarrow> string" where
  "filepath_join a b =
     (if a = [] \<and> b = [] then [] else if a = [] then path_text (clean b) else path_text (clean (a @ ''/'' @ b)))"

definition one_of :: "string \<Rightarrow> string list \<Rightarrow> bool" where
  "one_of v vs \<longleftrightarrow> to_lower (trim_space v) \<in> set vs"

definition envTruthy :: "string \<Rightarrow> bool" where
  "envTruthy v = one_of v [''1'', ''true'', ''yes'']"

definition send :: "runner \<Rightarrow> string \<Rightarrow> string \<Rightarrow> json option \<Rightarrow> (string \<times> string) list \<Rightarrow> trace
    \<Rightarrow> trace \<times> http_reply" where
  "send r meth path payload extra tr =
     (let c = \<lparr>hcMethod = meth, hcURL = rn_api r @ path,
               hcHeaders = [(''Authorization'', ''Bearer '' @ rn_token r)] @
                 (if payload \<noteq> None then [(''Content-Type'', ''application/json'')] else []) @ extra,
               hcPayload = payload\<rparr>
      in (tr @ [Request c], wd_http (rn_world r) tr c))"

text \<open>An error of the client, a status of 300 and more with the given text, or the body.\<close>

definition reply_body :: "(http_reply \<Rightarrow> string) \<Rightarrow> http_reply \<Rightarrow> string + string" where
  "reply_body refusal a =
     (case rpError a of Some e \<Rightarrow> Inl e | None \<Rightarrow> if rpStatus a \<ge> 300 then Inl (refusal a) else Inr (rpBody a))"

definition plain_refusal :: "http_reply \<Rightarrow> string" where
  "plain_refusal a = ''HTTP '' @ show_int (rpStatus a) @ '': '' @ rpBody a"

definition decoded :: "runner \<Rightarrow> kind \<Rightarrow> string + string \<Rightarrow> string + json" where
  "decoded r k b = (case b of Inl e \<Rightarrow> Inl e | Inr body \<Rightarrow> unmarshal (wd_codec (rn_world r)) k body)"

definition postJSON :: "runner \<Rightarrow> string \<Rightarrow> json option \<Rightarrow> trace \<Rightarrow> trace \<times> (string + string)" where
  "postJSON r path payload tr =
     (case send r ''POST'' path payload [] tr of (tr', a) \<Rightarrow> (tr', reply_body plain_refusal a))"

section \<open>Modes\<close>

datatype runner_mode = RModeRun | RModeCheck | RModeDryRun | RModeHelp | RModeWorker | RModeMaterialize

definition env_mode :: "string \<Rightarrow> runner_mode option" where
  "env_mode v =
     map_of [(''check'', RModeCheck), (''dry-run'', RModeDryRun), (''dryrun'', RModeDryRun), (''help'', RModeHelp),
             (''worker'', RModeWorker), (''materialize'', RModeMaterialize), (''run'', RModeRun), (''daemon'', RModeRun)] v"

definition arg_mode :: "string \<Rightarrow> runner_mode option" where
  "arg_mode v =
     map_of [(''check'', RModeCheck), (''--check'', RModeCheck), (''-check'', RModeCheck),
             (''dry-run'', RModeDryRun), (''--dry-run'', RModeDryRun), (''-dry-run'', RModeDryRun),
             (''dryrun'', RModeDryRun), (''--dryrun'', RModeDryRun),
             (''help'', RModeHelp), (''--help'', RModeHelp), (''-h'', RModeHelp),
             (''worker'', RModeWorker), (''--worker'', RModeWorker),
             (''materialize'', RModeMaterialize), (''--materialize'', RModeMaterialize), (''run'', RModeRun)] v"

definition parseRunnerMode :: "runner \<Rightarrow> string list \<Rightarrow> runner_mode \<times> string list" where
  "parseRunnerMode r args =
     (case env_mode (to_lower (trim_space (penv r ''AI_CLOUDHUB_RUNNER_MODE''))) of
        Some md \<Rightarrow> (md, args)
      | None \<Rightarrow>
          (case args of
             [] \<Rightarrow> (RModeRun, [])
           | a # rest \<Rightarrow> (case arg_mode (to_lower (trim_space a)) of
                            Some md \<Rightarrow> (md, rest) | None \<Rightarrow> (RModeRun, args))))"

section \<open>Jobs\<close>

record jobDTO =
  jdID :: string
  jdDriveID :: string
  jdBindingID :: string
  jdMode :: string
  jdCommand :: "string list"
  jdStatus :: string
  jdConnectorID :: string
  jdAgentID :: string
  jdClaimedByAgentID :: string
  jdTimeoutSec :: int
  jdPriority :: int

definition job_kind :: kind where
  "job_kind = KStruct
     [(''id'', KStr), (''drive_id'', KStr), (''binding_id'', KStr), (''mode'', KStr), (''command'', KList KStr),
      (''status'', KStr), (''connector_id'', KStr), (''agent_id'', KStr), (''claimed_by_agent_id'', KStr),
      (''timeout_sec'', KInt), (''priority'', KInt)]"

definition json_job :: "json \<Rightarrow> jobDTO" where
  "json_job j =
     \<lparr>jdID = text_field j ''id'', jdDriveID = text_field j ''drive_id'', jdBindingID = text_field j ''binding_id'',
      jdMode = text_field j ''mode'', jdCommand = map text_of (items_of (field j ''command'')),
      jdStatus = text_field j ''status'', jdConnectorID = text_field j ''connector_id'',
      jdAgentID = text_field j ''agent_id'', jdClaimedByAgentID = text_field j ''claimed_by_agent_id'',
      jdTimeoutSec = num_field j ''timeout_sec'', jdPriority = num_field j ''priority''\<rparr>"

fun note_parts :: "string list \<Rightarrow> string list \<Rightarrow> string list" where
  "note_parts seen [] = []"
| "note_parts seen (p0 # ps) =
     (let p = trim_space p0
      in if p = [] \<or> p \<in> set seen then note_parts seen ps else p # note_parts (p # seen) ps)"

definition joinJobNote :: "string list \<Rightarrow> string" where
  "joinJobNote parts = str_join '' | '' (note_parts [] parts)"

definition runnerIdentity :: "runner \<Rightarrow> string" where
  "runnerIdentity r =
     (let v = trim_space (penv r ''AI_CLOUDHUB_RUNNER_ID'')
      in if v \<noteq> [] then take 128 v
         else (case wd_hostname (rn_world r) of None \<Rightarrow> [] | Some h \<Rightarrow> take 128 (trim_space h)))"

definition claimNext :: "runner \<Rightarrow> trace \<Rightarrow> trace \<times> (string + jobDTO)" where
  "claimNext r tr =
     (let rid = runnerIdentity r; reg = trim_space (penv r ''AI_CLOUDHUB_REGION'');
          hs = (if rid \<noteq> [] then [(''X-AI-Cloudhub-Runner-Id'', rid)] else []) @
               (if reg \<noteq> [] then [(''X-AI-Cloudhub-Region'', reg)] else [])
      in case send r ''POST'' ''/v1/jobs/next/claim'' None hs tr of (tr', a) \<Rightarrow>
           (tr', map_sum id json_job (decoded r job_kind (reply_body plain_refusal a))))"

record run_out =
  roNote :: string
  roStdout :: string
  roStderr :: string
  roStdoutTruncated :: bool
  roStderrTruncated :: bool

definition no_output :: run_out where
  "no_output = \<lparr>roNote = [], roStdout = [], roStderr = [], roStdoutTruncated = False, roStderrTruncated = False\<rparr>"

definition report_payload :: "bool \<Rightarrow> string \<Rightarrow> int \<Rightarrow> int \<Rightarrow> run_out \<Rightarrow> json" where
  "report_payload ok note exitCode durationMs out =
     JObj ([(''ok'', JBool ok), (''note'', JStr note), (''exit_code'', JNum exitCode)] @
       opt_pos ''duration_ms'' durationMs @ opt_str ''stdout'' (roStdout out) @ opt_str ''stderr'' (roStderr out) @
       opt (roStdoutTruncated out) ''stdout_truncated'' (JBool True) @
       opt (roStderrTruncated out) ''stderr_truncated'' (JBool True))"

definition completeJob :: "runner \<Rightarrow> string \<Rightarrow> bool \<Rightarrow> string \<Rightarrow> int \<Rightarrow> int \<Rightarrow> run_out \<Rightarrow> trace \<Rightarrow> trace" where
  "completeJob r i ok note exitCode durationMs out tr =
     fst (send r ''POST'' (''/v1/jobs/'' @ i @ ''/complete'') (Some (report_payload ok note exitCode durationMs out)) [] tr)"

definition heartbeatJob :: "runner \<Rightarrow> string \<Rightarrow> trace \<Rightarrow> trace \<times> string option" where
  "heartbeatJob r i tr =
     (case send r ''POST'' (''/v1/jobs/'' @ i @ ''/heartbeat'') None [] tr of (tr', a) \<Rightarrow>
        (tr', case reply_body plain_refusal a of Inl e \<Rightarrow> Some e | Inr _ \<Rightarrow> None))"

definition positive_duration :: "runner \<Rightarrow> string \<Rightarrow> duration \<Rightarrow> duration" where
  "positive_duration r v d =
     (if v = [] then d else (case wd_duration (rn_world r) v of Some x \<Rightarrow> if x > 0 then x else d | None \<Rightarrow> d))"

definition heartbeat_interval :: "runner \<Rightarrow> duration" where
  "heartbeat_interval r = positive_duration r (trim_space (penv r ''AI_CLOUDHUB_HEARTBEAT'')) (30 * second)"

definition getJobStatus :: "runner \<Rightarrow> string \<Rightarrow> trace \<Rightarrow> trace \<times> (string + string)" where
  "getJobStatus r i tr =
     (case send r ''GET'' (''/v1/jobs/'' @ i) None [] tr of (tr', a) \<Rightarrow>
        (tr', map_sum id (\<lambda>j. text_field j ''status'')
           (decoded r (KStruct [(''status'', KStr)]) (reply_body (\<lambda>a. ''HTTP '' @ show_int (rpStatus a)) a))))"

text \<open>One tick of the cancellation poll: whether it cancels the agent.\<close>

definition watch_tick :: "runner \<Rightarrow> string \<Rightarrow> trace \<Rightarrow> trace \<times> bool" where
  "watch_tick r i tr =
     (case getJobStatus r i tr of (tr', st) \<Rightarrow> (tr', st = Inr ''cancelled''))"

definition cancel_poll_interval :: "runner \<Rightarrow> duration" where
  "cancel_poll_interval r = positive_duration r (trim_space (penv r ''AI_CLOUDHUB_CANCEL_POLL'')) (5 * second)"

section \<open>Connectors\<close>

record materialization =
  mtNote :: string
  mtClonePath :: string
  mtExtraEnv :: "string gomap"
  mtPassLibpq :: bool
  mtPassMysql :: bool
  mtErr :: "string option"
  mtStrictHint :: string

definition no_connector :: materialization where
  "no_connector = \<lparr>mtNote = [], mtClonePath = [], mtExtraEnv = [], mtPassLibpq = False, mtPassMysql = False,
                   mtErr = None, mtStrictHint = []\<rparr>"

definition connector_failed :: "string \<Rightarrow> string \<Rightarrow> string \<Rightarrow> materialization" where
  "connector_failed what e hint = no_connector\<lparr>mtErr := Some e, mtNote := what @ '' failed: '' @ e, mtStrictHint := hint\<rparr>"

text \<open>The configuration is a map; text that is no object leaves it empty.\<close>

definition fetchConnector :: "runner \<Rightarrow> string \<Rightarrow> trace \<Rightarrow> trace \<times> (string + string \<times> json)" where
  "fetchConnector r cid tr =
     (case send r ''GET'' (''/v1/connectors/'' @ cid) None [] tr of (tr', a) \<Rightarrow>
        (tr', map_sum id (\<lambda>c. (text_field c ''type'', JObj (entries_of (field c ''config''))))
           (decoded r (KStruct [(''type'', KStr), (''name'', KStr)])
              (reply_body (\<lambda>a. ''GET connector HTTP '' @ show_int (rpStatus a) @ '': '' @ rpBody a) a))))"

definition cfgStr :: "json \<Rightarrow> string \<Rightarrow> string" where
  "cfgStr cfg k = (case key cfg k of JStr s \<Rightarrow> trim_space s | JNum n \<Rightarrow> trim_space (show_int n) | _ \<Rightarrow> [])"

definition after_first :: "string \<Rightarrow> string \<Rightarrow> string option" where
  "after_first pat s =
     (case find (\<lambda>i. prefix pat (drop i s)) [0..<Suc (length s)] of Some i \<Rightarrow> Some (drop (i + length pat) s) | None \<Rightarrow> None)"

definition dsnLooksSecret :: "string \<Rightarrow> bool" where
  "dsnLooksSecret tmpl =
     (let t = to_lower tmpl
      in sublist ''password='' t \<or>
         (case after_first ''://'' t of
            None \<Rightarrow> False
          | Some rest \<Rightarrow> CHR ''@'' \<in> set rest \<and> CHR '':'' \<in> set (takeWhile (\<lambda>c. c \<noteq> CHR ''@'') rest)))"

definition or_text :: "string \<Rightarrow> string \<Rightarrow> string" where
  "or_text s d = (if s = [] then d else s)"

definition applyPostgresEnv :: "json \<Rightarrow> string + string gomap \<times> string" where
  "applyPostgresEnv cfg =
     (let host = cfgStr cfg ''host''; db = cfgStr cfg ''database''; port = or_text (cfgStr cfg ''port'') ''5432'';
          user = cfgStr cfg ''user''; schema = cfgStr cfg ''schema'';
          sslmode = or_text (cfgStr cfg ''sslmode'') ''prefer''; tmpl0 = cfgStr cfg ''dsn_template''
      in if host = [] \<or> db = [] then Inl ''postgres connector missing host or database''
         else if tmpl0 \<noteq> [] \<and> dsnLooksSecret tmpl0 then Inl ''dsn_template must not embed credentials''
         else (let tmpl = or_text tmpl0 (''postgres://'' @ (if user \<noteq> [] then user @ ''@'' else []) @ host @ '':'' @ port @
                            ''/'' @ db @ ''?sslmode='' @ sslmode)
               in Inr ([(''AI_CLOUDHUB_PG_HOST'', host), (''AI_CLOUDHUB_PG_PORT'', port), (''AI_CLOUDHUB_PG_DATABASE'', db),
                        (''AI_CLOUDHUB_PG_SSLMODE'', sslmode), (''AI_CLOUDHUB_PG_DSN_TEMPLATE'', tmpl)] @
                       (if user \<noteq> [] then [(''AI_CLOUDHUB_PG_USER'', user)] else []) @
                       (if schema \<noteq> [] then [(''AI_CLOUDHUB_PG_SCHEMA'', schema)] else []),
                       ''pg ready host='' @ host @ '' db='' @ db)))"

definition applyMysqlEnv :: "json \<Rightarrow> string + string gomap \<times> string" where
  "applyMysqlEnv cfg =
     (let host = cfgStr cfg ''host''; db = cfgStr cfg ''database''; port = or_text (cfgStr cfg ''port'') ''3306'';
          user = cfgStr cfg ''user''; params = cfgStr cfg ''params''; tmpl0 = cfgStr cfg ''dsn_template''
      in if host = [] \<or> db = [] then Inl ''mysql connector missing host or database''
         else if tmpl0 \<noteq> [] \<and> dsnLooksSecret tmpl0 then Inl ''dsn_template must not embed credentials''
         else (let tmpl = or_text tmpl0 (or_text user ''root'' @ ''@tcp('' @ host @ '':'' @ port @ '')/'' @ db @
                            (if params \<noteq> [] then ''?'' @ params else []))
               in Inr ([(''AI_CLOUDHUB_MYSQL_HOST'', host), (''AI_CLOUDHUB_MYSQL_PORT'', port),
                        (''AI_CLOUDHUB_MYSQL_DATABASE'', db), (''AI_CLOUDHUB_MYSQL_DSN_TEMPLATE'', tmpl)] @
                       (if user \<noteq> [] then [(''AI_CLOUDHUB_MYSQL_USER'', user)] else []) @
                       (if params \<noteq> [] then [(''AI_CLOUDHUB_MYSQL_PARAMS'', params)] else []),
                       ''mysql ready host='' @ host @ '' db='' @ db)))"

definition git_args :: "json \<Rightarrow> string \<Rightarrow> string \<Rightarrow> string list" where
  "git_args cfg remote dest =
     (let branch = text_of (key cfg ''branch'')
      in [''git'', ''clone'', ''--depth'', ''1''] @ (if branch \<noteq> [] then [''--branch'', branch] else []) @ [remote, dest])"

definition applyGitClone :: "runner \<Rightarrow> json \<Rightarrow> string \<Rightarrow> trace \<Rightarrow> trace \<times> (string + string)" where
  "applyGitClone r cfg mountPoint tr =
     (let remote = or_text (text_of (key cfg ''remote_url'')) (text_of (key cfg ''url''));
          pre = text_of (key cfg ''path_prefix''); dest = filepath_join mountPoint (or_text pre ''repo'')
      in if remote = [] then (tr, Inl ''git connector missing remote_url'')
         else if wd_exists (rn_world r) tr (filepath_join dest ''.git'') then (tr, Inr dest)
         else if \<not> wd_look (rn_world r) tr ''git'' then (tr, Inl ''git not in PATH'')
         else (let tr1 = tr @ [MakeDir (path_text (parent (clean dest)))]; cmd = git_args cfg remote dest
               in (tr1 @ [Command cmd],
                   case wd_run (rn_world r) tr1 cmd of
                     Some e \<Rightarrow> Inl (''git clone: '' @ exit_text e) | None \<Rightarrow> Inr dest)))"

definition materializeConnector :: "runner \<Rightarrow> string \<Rightarrow> trace \<Rightarrow> trace \<times> materialization" where
  "materializeConnector r mountPoint tr =
     (let cid = trim_space (penv r ''AI_CLOUDHUB_CONNECTOR_ID'')
      in if cid = [] then (tr, no_connector)
         else (case fetchConnector r cid tr of (tr1, fetched) \<Rightarrow>
           (case fetched of
              Inl e \<Rightarrow> (tr1, connector_failed ''connector'' e ''any'')
            | Inr (typ, cfg) \<Rightarrow>
                if to_lower typ = ''git''
                then (case applyGitClone r cfg mountPoint tr1 of (tr2, cloned) \<Rightarrow>
                       (tr2, case cloned of
                               Inl e \<Rightarrow> connector_failed ''clone'' e ''clone''
                             | Inr dest \<Rightarrow> no_connector\<lparr>mtNote := ''cloned to '' @ dest, mtClonePath := dest\<rparr>))
                else if to_lower typ = ''postgres''
                then (tr1, case applyPostgresEnv cfg of
                             Inl e \<Rightarrow> connector_failed ''pg'' e ''pg''
                           | Inr (extra, note) \<Rightarrow> no_connector\<lparr>mtNote := note, mtExtraEnv := extra, mtPassLibpq := True\<rparr>)
                else if to_lower typ = ''mysql''
                then (tr1, case applyMysqlEnv cfg of
                             Inl e \<Rightarrow> connector_failed ''mysql'' e ''mysql''
                           | Inr (extra, note) \<Rightarrow> no_connector\<lparr>mtNote := note, mtExtraEnv := extra, mtPassMysql := True\<rparr>)
                else (tr1, no_connector))))"

definition connector_strict :: "runner \<Rightarrow> string \<Rightarrow> bool" where
  "connector_strict r hint =
     (let cl = envTruthy (penv r ''AI_CLOUDHUB_CLONE_STRICT''); pg = envTruthy (penv r ''AI_CLOUDHUB_PG_STRICT'');
          my = envTruthy (penv r ''AI_CLOUDHUB_MYSQL_STRICT'')
      in if hint = ''clone'' then cl else if hint = ''pg'' then pg else if hint = ''mysql'' then my else cl \<or> pg \<or> my)"

text \<open>The extra variables are printed as a map; nil prints as null.\<close>

definition runMaterializeOnly :: "runner \<Rightarrow> string \<Rightarrow> trace \<Rightarrow> trace \<times> string option" where
  "runMaterializeOnly r mountPoint tr =
     (if trim_space (penv r ''AI_CLOUDHUB_CONNECTOR_ID'') = []
      then (tr, Some ''AI_CLOUDHUB_CONNECTOR_ID required for MATERIALIZE_ONLY'')
      else (case wd_mkdir (rn_world r) tr mountPoint of
              Some e \<Rightarrow> (tr @ [MakeDir mountPoint], Some e)
            | None \<Rightarrow>
                (case materializeConnector r mountPoint (tr @ [MakeDir mountPoint]) of (tr1, mat) \<Rightarrow>
                   (let env = (if mtExtraEnv mat = [] then JNull else JObj (map (\<lambda>(k, v). (k, JStr v)) (mtExtraEnv mat)));
                        rep = JObj ([(''note'', JStr (mtNote mat)), (''clone_path'', JStr (mtClonePath mat)),
                          (''extra_env'', env), (''pass_libpq'', JBool (mtPassLibpq mat)),
                          (''pass_mysql'', JBool (mtPassMysql mat)), (''strict_hint'', JStr (mtStrictHint mat)),
                          (''ok'', JBool (mtErr mat = None)), (''mount'', JStr mountPoint)] @
                          (case mtErr mat of Some e \<Rightarrow> [(''error'', JStr e)] | None \<Rightarrow> []));
                        path = trim_space (penv r ''AI_CLOUDHUB_MATERIALIZE_REPORT'')
                    in (tr1 @ (if path \<noteq> [] then [WriteJson path rep] else []) @ [Print rep], mtErr mat)))))"

section \<open>Output\<close>

definition runnerOutputCap :: "runner \<Rightarrow> nat" where
  "runnerOutputCap r =
     (case atoi (trim_space (penv r ''AI_CLOUDHUB_JOB_OUTPUT_MAX'')) of
        None \<Rightarrow> 8192
      | Some n \<Rightarrow> if n \<le> 0 then 8192 else if n > 262144 then 262144 else nat n)"

text \<open>\<open>limitedBuffer\<close>: the bytes kept and the mark that some were dropped.\<close>

definition limited_write :: "nat \<Rightarrow> string \<Rightarrow> string \<times> bool \<Rightarrow> string \<times> bool" where
  "limited_write mx p b =
     (case b of (buf, trunc) \<Rightarrow>
        if mx = 0 then (buf @ p, trunc)
        else (let all = buf @ p in if length all > mx then (drop (length all - mx) all, True) else (all, trunc)))"

definition capture :: "nat \<Rightarrow> string list \<Rightarrow> string \<times> bool" where
  "capture mx chunks = fold (limited_write mx) chunks ([], False)"

section \<open>One run\<close>

datatype run_error = JobTimeout string | JobCancelled string | ProcessFailed string process_end | OtherError string

fun run_error_text :: "run_error \<Rightarrow> string" where
  "run_error_text (JobTimeout s) = ''job timeout'' @ s"
| "run_error_text (JobCancelled s) = ''job cancelled'' @ s"
| "run_error_text (ProcessFailed what e) = what @ '': '' @ exit_text e"
| "run_error_text (OtherError s) = s"

fun exitCodeFromErr :: "run_error \<Rightarrow> int" where
  "exitCodeFromErr (ProcessFailed what (Exited n s)) = n"
| "exitCodeFromErr _ = 1"

record run_spec =
  msRemotePath :: string
  msMountPoint :: string
  msRcloneConf :: string

definition spec_kind :: kind where
  "spec_kind = KStruct [(''remote_path'', KStr), (''mount_point'', KStr), (''rclone_conf'', KStr)]"

definition json_spec :: "json \<Rightarrow> run_spec" where
  "json_spec j = \<lparr>msRemotePath = text_field j ''remote_path'', msMountPoint = text_field j ''mount_point'',
                  msRcloneConf = text_field j ''rclone_conf''\<rparr>"

definition bundle_kind :: kind where
  "bundle_kind = KStruct
     [(''spec'', spec_kind),
      (''session'', KStruct [(''spec'', spec_kind), (''manifest'', KStruct [(''env'', KMap KStr)])])]"

definition has_field :: "json \<Rightarrow> string \<Rightarrow> bool" where
  "has_field j k \<longleftrightarrow> list_ex (\<lambda>f. to_lower (fst f) = k) (entries_of j)"

definition bundle_spec :: "json \<Rightarrow> run_spec" where
  "bundle_spec b =
     (let s = json_spec (field b ''spec'') in if msRcloneConf s = [] then json_spec (field (field b ''session'') ''spec'') else s)"

definition session_env :: "json \<Rightarrow> string gomap" where
  "session_env b =
     map (\<lambda>(k, v). (k, text_of v)) (entries_of (field (field (field b ''session'') ''manifest'') ''env''))"

definition env_value :: "string gomap \<Rightarrow> string \<Rightarrow> string" where
  "env_value m k = (case gget m k of Some v \<Rightarrow> v | None \<Rightarrow> [])"

definition open_session :: "runner \<Rightarrow> string \<Rightarrow> string \<Rightarrow> string \<Rightarrow> trace \<Rightarrow> trace \<times> (string + json)" where
  "open_session r mountPoint driveID bindingID tr =
     (case (if bindingID \<noteq> [] then postJSON r (''/v1/bindings/'' @ bindingID @ ''/session'') None tr
            else postJSON r (''/v1/drives/'' @ driveID @ ''/session'') (Some (JObj
              [(''mount_point'', JStr mountPoint),
               (''device_id'', JStr (getenv_or (penv r) ''AI_CLOUDHUB_DEVICE_ID'' ''cloud-runner'')),
               (''mode'', JStr (getenv_or (penv r) ''AI_CLOUDHUB_MODE'' ''mount''))])) tr) of
        (tr', b) \<Rightarrow>
          (tr', case b of Inl e \<Rightarrow> Inl (''session: '' @ e) | Inr body \<Rightarrow> unmarshal (wd_codec (rn_world r)) bundle_kind body))"

text \<open>What a run works with after the session is open.\<close>

record run_setup =
  rsMount :: string
  rsRemote :: string
  rsConf :: string
  rsMode :: string
  rsEnv :: "string gomap"

definition run_mode :: "runner \<Rightarrow> json \<Rightarrow> string" where
  "run_mode r b =
     (let m0 = penv r ''AI_CLOUDHUB_MODE''; m1 = (if m0 = [] then env_value (session_env b) ''AI_CLOUDHUB_MODE'' else m0)
      in if m1 = [] then ''mount'' else m1)"

definition prepare :: "runner \<Rightarrow> string \<Rightarrow> json \<Rightarrow> trace \<Rightarrow> trace \<times> (string + run_setup)" where
  "prepare r mountPoint0 b tr =
     (let spec = bundle_spec b; mountPoint = or_text (msMountPoint spec) mountPoint0;
          state = filepath_join (wd_temp (rn_world r)) ''ai-cloudhub-runner''; conf = filepath_join state ''rclone.conf'';
          tr1 = tr @ [MakeDir state]; tr2 = tr1 @ [WriteText conf (msRcloneConf spec)]
      in if \<not> wd_look (rn_world r) tr ''rclone'' then (tr, Inl ''rclone not found in PATH'')
         else (case wd_write (rn_world r) tr1 conf of
                 Some e \<Rightarrow> (tr2, Inl e)
               | None \<Rightarrow>
                   (tr2 @ [MakeDir (filepath_join mountPoint ''.ai-cloudhub''), MakeDir mountPoint] @
                      (if has_field b ''manifest''
                       then [WriteJson (filepath_join (filepath_join mountPoint ''.ai-cloudhub'') ''manifest.json'')
                               (field b ''manifest'')] else []),
                    Inr \<lparr>rsMount = mountPoint, rsRemote = msRemotePath spec, rsConf = conf, rsMode = run_mode r b,
                         rsEnv = session_env b\<rparr>)))"

definition sync_command :: "run_setup \<Rightarrow> string \<Rightarrow> string \<Rightarrow> string list" where
  "sync_command s src dst = [''rclone'', ''sync'', src, dst, ''--config'', rsConf s, ''--create-empty-src-dirs'']"

definition mount_command :: "run_setup \<Rightarrow> string list" where
  "mount_command s =
     [''rclone'', ''mount'', rsRemote s, rsMount s, ''--config'', rsConf s, ''--vfs-cache-mode'', ''full'',
      ''--dir-cache-time'', ''10s'']"

text \<open>The deferred clean-up.\<close>

definition cleanup :: "run_setup \<Rightarrow> bool \<Rightarrow> action list" where
  "cleanup s started =
     (if rsMode s = ''sync_workspace'' then [Command (sync_command s (rsMount s) (rsRemote s))]
      else (if started then [StopMount (rsMount s)] else []) @
           [Command [''fusermount'', ''-u'', rsMount s], Command [''umount'', rsMount s]])"

fun await_dir :: "host_world \<Rightarrow> string \<Rightarrow> nat \<Rightarrow> trace \<Rightarrow> trace" where
  "await_dir w dir 0 tr = tr"
| "await_dir w dir (Suc n) tr = (if wd_is_dir w tr dir then tr else await_dir w dir n (tr @ [Pause]))"

text \<open>Whether a mount process was started, and the error that ends the run.\<close>

definition attach :: "runner \<Rightarrow> run_setup \<Rightarrow> trace \<Rightarrow> trace \<times> bool \<times> run_error option" where
  "attach r s tr =
     (if rsMode s = ''sync_workspace''
      then (let cmd = sync_command s (rsRemote s) (rsMount s)
            in (tr @ [Command cmd], False, map_option (ProcessFailed ''sync pull'') (wd_run (rn_world r) tr cmd)))
      else (let cmd = mount_command s
            in case wd_start (rn_world r) tr cmd of
                 Some e \<Rightarrow> (tr @ [Background cmd], False, Some (OtherError (''mount: '' @ e)))
               | None \<Rightarrow> (await_dir (rn_world r) (rsMount s) 40 (tr @ [Background cmd]), True, None)))"

fun put_all :: "string gomap \<Rightarrow> string gomap \<Rightarrow> string gomap" where
  "put_all [] m = m"
| "put_all ((k, v) # kvs) m = put_all kvs (gset k v m)"

definition extra_env :: "run_setup \<Rightarrow> string \<Rightarrow> string \<Rightarrow> materialization \<Rightarrow> string gomap" where
  "extra_env s jobID clonePath mat =
     (let e1 = gset ''AI_CLOUDHUB_MODE'' (rsMode s) (gset ''AI_CLOUDHUB_WORKSPACE'' (rsMount s) (put_all (rsEnv s) []));
          e2 = (if jobID \<noteq> [] then gset ''AI_CLOUDHUB_JOB_ID'' jobID e1 else e1);
          e3 = (if clonePath \<noteq> [] then gset ''AI_CLOUDHUB_CLONE_PATH'' clonePath e2 else e2)
      in put_all (mtExtraEnv mat) e3)"

definition jail_on :: "runner \<Rightarrow> bool" where
  "jail_on r \<longleftrightarrow> getenv_or (penv r) ''AI_CLOUDHUB_JAIL'' ''1'' \<notin> {''0'', ''false''}"

definition pass_token :: "runner \<Rightarrow> bool" where
  "pass_token r \<longleftrightarrow> penv r ''AI_CLOUDHUB_PASS_TOKEN'' \<in> {''1'', ''true''}"

definition not_refused :: "runner \<Rightarrow> string \<Rightarrow> bool" where
  "not_refused r k \<longleftrightarrow> penv r k \<noteq> ''0'' \<and> to_lower (penv r k) \<noteq> ''false''"

definition agent_filter :: "runner \<Rightarrow> materialization \<Rightarrow> env_filter" where
  "agent_filter r mat =
     \<lparr>efAllowPrefixes = [], efBlockExact = [], efPassToken = pass_token r,
      efPassLibpq = (mtPassLibpq mat \<and> not_refused r ''AI_CLOUDHUB_PASS_PG''),
      efPassMysql = (mtPassMysql mat \<and> not_refused r ''AI_CLOUDHUB_PASS_MYSQL''),
      efDenyNetwork = (to_lower (penv r ''AI_CLOUDHUB_NETWORK'') = ''deny'' \<or>
                       penv r ''AI_CLOUDHUB_NETWORK'' \<in> {''0'', ''off''})\<rparr>"

definition child_env :: "runner \<Rightarrow> materialization \<Rightarrow> string gomap \<Rightarrow> string list" where
  "child_env r mat extra =
     (if jail_on r then FilterEnv (os_environ r) extra (agent_filter r mat)
      else os_environ r @ map (\<lambda>(k, v). k @ ''='' @ v) extra)"

definition looks_like_path :: "string \<Rightarrow> bool" where
  "looks_like_path a \<longleftrightarrow> CHR ''/'' \<in> set a \<or> CHR 0x5C \<in> set a \<or> sublist ''..'' a"

fun check_args :: "file_system \<Rightarrow> string \<Rightarrow> string list \<Rightarrow> string option" where
  "check_args fs mountPoint [] = None"
| "check_args fs mountPoint (a # as) =
     (if \<not> looks_like_path a then check_args fs mountPoint as
      else (case Jail_Allow fs (NewPathJail mountPoint) a of
              Inl e \<Rightarrow> Some (''path jail: arg '' @ quoted a @ '': '' @ error_text e)
            | Inr _ \<Rightarrow> check_args fs mountPoint as))"

definition jail_error :: "runner \<Rightarrow> file_system \<Rightarrow> string \<Rightarrow> string list \<Rightarrow> string option" where
  "jail_error r fs mountPoint args =
     (if \<not> jail_on r then None
      else (case Jail_Allow fs (NewPathJail mountPoint) mountPoint of
              Inl e \<Rightarrow> Some (''jail mount: '' @ error_text e)
            | Inr _ \<Rightarrow> check_args fs mountPoint (tl args)))"

definition run_timeout :: "runner \<Rightarrow> int \<Rightarrow> int" where
  "run_timeout r t =
     (if t > 0 then t
      else (case atoi (trim_space (penv r ''AI_CLOUDHUB_JOB_TIMEOUT_SEC'')) of
              Some n \<Rightarrow> if n > 0 then n else t | None \<Rightarrow> t))"

text \<open>The filter of system calls: none, loaded, or an error that only counts when strict.\<close>

definition apply_seccomp :: "runner \<Rightarrow> trace \<Rightarrow> trace \<times> string option" where
  "apply_seccomp r tr =
     (if \<not> seccomp_Enabled (penv r) then (tr, None)
      else (tr @ [Seccomp], case wd_seccomp (rn_world r) tr of
              Some e \<Rightarrow> if seccomp_Strict (penv r) then Some (''seccomp: '' @ e) else None
            | None \<Rightarrow> None))"

definition agent_error :: "int \<Rightarrow> agent_run \<Rightarrow> run_error option" where
  "agent_error timeout a =
     (case ag_end a of
        None \<Rightarrow> None
      | Some e \<Rightarrow>
          Some (case ag_context a of
                  DeadlineExceeded \<Rightarrow> JobTimeout ('' after '' @ show_int timeout @ ''s: '' @ exit_text e)
                | Canceled \<Rightarrow> JobCancelled ('': '' @ exit_text e)
                | Live \<Rightarrow> ProcessFailed ''agent'' e))"

definition run_agent :: "runner \<Rightarrow> run_setup \<Rightarrow> string \<Rightarrow> string list \<Rightarrow> int \<Rightarrow> string list \<Rightarrow> trace
    \<Rightarrow> trace \<times> run_out \<times> run_error option" where
  "run_agent r s note args timeoutSec env tr =
     (case jail_error r (wd_fs (rn_world r) tr) (rsMount s) args of
        Some e \<Rightarrow> (tr, no_output\<lparr>roNote := note\<rparr>, Some (OtherError e))
      | None \<Rightarrow>
          (case apply_seccomp r tr of (tr1, sec) \<Rightarrow>
             (case sec of
                Some e \<Rightarrow> (tr1, no_output\<lparr>roNote := note\<rparr>, Some (OtherError e))
              | None \<Rightarrow>
                  (let t = run_timeout r timeoutSec; a = wd_agent (rn_world r) tr1 args;
                       out = capture (runnerOutputCap r) (ag_stdout a); err = capture (runnerOutputCap r) (ag_stderr a)
                   in (tr1 @ [Agent args env (rsMount s) (if t > 0 then Some (duration_secs t) else None)],
                       \<lparr>roNote = note, roStdout = fst out, roStderr = fst err, roStdoutTruncated = snd out,
                        roStderrTruncated = snd err\<rparr>,
                       agent_error t a)))))"

text \<open>The part of a run below the clean-up. Without a command the runner waits for a signal.\<close>

definition run_attached :: "runner \<Rightarrow> run_setup \<Rightarrow> string \<Rightarrow> string list \<Rightarrow> int \<Rightarrow> trace
    \<Rightarrow> trace \<times> run_out \<times> run_error option" where
  "run_attached r s jobID args timeoutSec tr =
     (case materializeConnector r (rsMount s) tr of (tr1, mat) \<Rightarrow>
        (if mtErr mat \<noteq> None \<and> connector_strict r (mtStrictHint mat)
         then (tr1, no_output\<lparr>roNote := mtNote mat\<rparr>, Some (OtherError (mtNote mat)))
         else (let clonePath = (if mtErr mat = None then mtClonePath mat else []);
                   env = child_env r mat (extra_env s jobID clonePath mat)
               in if args = [] then (tr1 @ [AwaitSignal], no_output\<lparr>roNote := mtNote mat\<rparr>, None)
                  else run_agent r s (mtNote mat) args timeoutSec env tr1)))"

definition runOnce :: "runner \<Rightarrow> string \<Rightarrow> string \<Rightarrow> string \<Rightarrow> string \<Rightarrow> string list \<Rightarrow> int \<Rightarrow> trace
    \<Rightarrow> trace \<times> run_out \<times> run_error option" where
  "runOnce r mountPoint driveID bindingID jobID args timeoutSec tr =
     (case open_session r mountPoint driveID bindingID tr of (tr1, sess) \<Rightarrow>
        (case sess of
           Inl e \<Rightarrow> (tr1, no_output, Some (OtherError e))
         | Inr b \<Rightarrow>
             (case prepare r mountPoint b tr1 of (tr2, prep) \<Rightarrow>
                (case prep of
                   Inl e \<Rightarrow> (tr2, no_output, Some (OtherError e))
                 | Inr s \<Rightarrow>
                     (case attach r s tr2 of (tr3, started, err) \<Rightarrow>
                        (case err of
                           Some e \<Rightarrow> (tr3 @ cleanup s started, no_output, Some e)
                         | None \<Rightarrow>
                             (case run_attached r s jobID args timeoutSec tr3 of (tr4, out, res) \<Rightarrow>
                                (tr4 @ cleanup s started, out, res))))))))"

section \<open>The worker\<close>

definition job_exit :: "run_out \<Rightarrow> run_error option \<Rightarrow> string \<times> int" where
  "job_exit out res =
     (case res of
        None \<Rightarrow> (roNote out, 0)
      | Some (JobTimeout s) \<Rightarrow> (joinJobNote [roNote out, run_error_text (JobTimeout s)], 124)
      | Some (JobCancelled s) \<Rightarrow> (joinJobNote [roNote out, ''cancelled''], 130)
      | Some e \<Rightarrow> (joinJobNote [roNote out, run_error_text e], exitCodeFromErr e))"

definition job_environment :: "jobDTO \<Rightarrow> runner \<Rightarrow> runner" where
  "job_environment j r =
     (let r1 = (if jdMode j \<noteq> [] then os_setenv ''AI_CLOUDHUB_MODE'' (jdMode j) r else r)
      in if jdConnectorID j \<noteq> [] then os_setenv ''AI_CLOUDHUB_CONNECTOR_ID'' (jdConnectorID j) r1 else r1)"

text \<open>One tick of the worker; the duration is what the clock says.\<close>

definition worker_tick :: "string \<Rightarrow> int \<Rightarrow> runner \<Rightarrow> trace \<Rightarrow> runner \<times> trace" where
  "worker_tick mountPoint durMs r tr =
     (case claimNext r tr of (tr1, claimed) \<Rightarrow>
        (case claimed of
           Inl e \<Rightarrow> (r, tr1)
         | Inr j \<Rightarrow>
             (let r1 = job_environment j r
              in case runOnce r1 mountPoint (jdDriveID j) (jdBindingID j) (jdID j) (jdCommand j) (jdTimeoutSec j) tr1 of
                   (tr2, out, res) \<Rightarrow>
                     (case job_exit out res of (note, code) \<Rightarrow>
                        (r1, completeJob r1 (jdID j) (res = None) note code durMs out tr2)))))"

fun runWorker :: "string \<Rightarrow> int list \<Rightarrow> runner \<Rightarrow> trace \<Rightarrow> runner \<times> trace" where
  "runWorker mountPoint [] r tr = (r, tr)"
| "runWorker mountPoint (d # ds) r tr = (case worker_tick mountPoint d r tr of (r', tr') \<Rightarrow> runWorker mountPoint ds r' tr')"

section \<open>Check and dry run\<close>

text \<open>The exit code, and what is printed.\<close>

definition runRunnerCheck :: "runner \<Rightarrow> host \<Rightarrow> trace \<Rightarrow> trace \<times> int" where
  "runRunnerCheck r h tr =
     (let p = Host_Check h
      in (tr @ [Print (JObj
            [(''component'', JStr ''runner''), (''os'', JStr (rpOS p)), (''arch'', JStr (rpArch p)),
             (''rclone_ok'', JBool (rpRcloneOK p)), (''rclone_path'', JStr (rpRclonePath p)),
             (''rclone_version'', JStr (rpRcloneVer p)), (''fuse_hint'', JStr (rpFuseHint p)),
             (''winfsp_ok'', JBool (rpWinFspOK p)), (''winfsp_hint'', JStr (rpWinFspHint p)),
             (''install_hint'', JStr (rpInstallHint p)), (''ok'', JBool (rpOK p)),
             (''warnings'', if rpWarnings p = [] then JNull else JArr (map JStr (rpWarnings p))),
             (''errors'', if rpErrors p = [] then JNull else JArr (map JStr (rpErrors p))),
             (''goos'', JStr (ho_os h)),
             (''jail_default'', JBool (getenv_or (penv r) ''AI_CLOUDHUB_JAIL'' ''1'' \<noteq> ''0'')),
             (''byoc_note'', JStr ''jobs run only on this host; no platform pool (D-001)'')])],
          if rpRcloneOK p then 0 else 1))"

definition listPendingJobs :: "runner \<Rightarrow> trace \<Rightarrow> trace \<times> (string + jobDTO list)" where
  "listPendingJobs r tr =
     (case send r ''GET'' ''/v1/jobs?status=pending&limit=50'' None [] tr of (tr', a) \<Rightarrow>
        (tr', map_sum id (\<lambda>w. map json_job (items_of (field w ''items'')))
           (decoded r (KStruct [(''items'', KList job_kind)])
              (reply_body (\<lambda>a. ''list jobs HTTP '' @ show_int (rpStatus a) @ '': '' @ truncate_at (rpBody a) 200) a))))"

definition is_object :: "json \<Rightarrow> bool" where
  "is_object j = (case j of JObj _ \<Rightarrow> True | _ \<Rightarrow> False)"

text \<open>The workspace of a manifest, when the manifest and its environment are objects.\<close>

definition manifest_workspace :: "json \<Rightarrow> (string \<times> json) list" where
  "manifest_workspace man =
     (if is_object (key man ''env'') then [(''workspace'', key (key man ''env'') ''AI_CLOUDHUB_WORKSPACE'')] else [])"

definition session_info :: "json \<Rightarrow> json \<Rightarrow> json" where
  "session_info raw sess =
     JObj ([(''source'', key sess ''source''), (''expires_at'', key sess ''expires_at''), (''id'', key sess ''id'')] @
       (if is_object (key raw ''manifest'') then manifest_workspace (key raw ''manifest'')
        else if is_object (key sess ''manifest'') then manifest_workspace (key sess ''manifest'') else []))"

definition dry_conf :: "json \<Rightarrow> json \<Rightarrow> string" where
  "dry_conf raw sess =
     text_of (key (if is_object (key raw ''spec'') then key raw ''spec'' else key sess ''spec'') ''rclone_conf'')"

definition dryRunSessionConf :: "runner \<Rightarrow> string \<Rightarrow> string \<Rightarrow> string \<Rightarrow> trace \<Rightarrow> trace \<times> (string + json \<times> string)" where
  "dryRunSessionConf r driveID bindingID stateDir tr =
     (let path = (if bindingID \<noteq> [] then ''/v1/bindings/'' @ bindingID @ ''/session'' else ''/v1/drives/'' @ driveID @ ''/session'');
          payload = JObj [(''device_id'', JStr (getenv_or (penv r) ''AI_CLOUDHUB_DEVICE_ID'' ''cloud-runner'')),
                          (''mode'', JStr (getenv_or (penv r) ''AI_CLOUDHUB_MODE'' ''sync_workspace''))]
      in case send r ''POST'' path (Some payload) [] tr of (tr1, a) \<Rightarrow>
           (case decoded r (KMap KAny)
                   (reply_body (\<lambda>a. ''session HTTP '' @ show_int (rpStatus a) @ '': '' @ truncate_at (rpBody a) 240) a) of
              Inl e \<Rightarrow> (tr1, Inl e)
            | Inr raw \<Rightarrow>
                (let sess = (if is_object (key raw ''session'') then key raw ''session'' else raw);
                     conf = dry_conf raw sess; dir = filepath_join stateDir ''dry-run'';
                     confPath = filepath_join dir ''rclone.conf''; tr2 = tr1 @ [MakeDir dir]
                 in if conf = [] then (tr2, Inl ''empty rclone_conf in session'')
                    else (tr2 @ [WriteText confPath conf],
                          case wd_write (rn_world r) tr2 confPath of
                            Some e \<Rightarrow> Inl e | None \<Rightarrow> Inr (session_info raw sess, confPath)))))"

definition job_summary :: "jobDTO \<Rightarrow> json" where
  "job_summary j =
     JObj [(''id'', JStr (jdID j)), (''drive_id'', JStr (jdDriveID j)), (''status'', JStr (jdStatus j)),
           (''command'', JArr (map JStr (jdCommand j))), (''mode'', JStr (jdMode j)),
           (''connector_id'', JStr (jdConnectorID j)), (''agent_id'', JStr (jdAgentID j))]"

definition runRunnerDryRun :: "runner \<Rightarrow> string \<Rightarrow> trace \<Rightarrow> trace \<times> int" where
  "runRunnerDryRun r mountPoint tr =
     (let head0 = [(''mode'', JStr ''dry-run''), (''component'', JStr ''runner''), (''api'', JStr (rn_api r)),
                   (''mount'', JStr mountPoint), (''runner_id'', JStr (runnerIdentity r)),
                   (''region'', JStr (trim_space (penv r ''AI_CLOUDHUB_REGION''))),
                   (''byoc_note'', JStr ''dry-run does not claim or execute jobs'')];
          driveID = trim_space (penv r ''AI_CLOUDHUB_DRIVE_ID''); bindingID = trim_space (penv r ''AI_CLOUDHUB_BINDING_ID'');
          stateDir = getenv_or (penv r) ''AI_CLOUDHUB_STATE'' (filepath_join (wd_temp (rn_world r)) ''ai-cloudhub-runner'')
      in case listPendingJobs r tr of (tr1, jobs) \<Rightarrow>
           (case (if driveID \<noteq> [] \<or> bindingID \<noteq> []
                  then map_prod id Some (dryRunSessionConf r driveID bindingID stateDir tr1) else (tr1, None)) of
              (tr2, sess) \<Rightarrow>
                (tr2 @ [Print (JObj (head0 @
                   (case jobs of
                      Inl e \<Rightarrow> [(''jobs_error'', JStr e)]
                    | Inr js \<Rightarrow> [(''pending_jobs'', JArr (map job_summary js)),
                                (''pending_count'', JNum (int (length js)))]) @
                   (case sess of
                      None \<Rightarrow> []
                    | Some (Inl e) \<Rightarrow> [(''session_error'', JStr e)]
                    | Some (Inr (info, p)) \<Rightarrow> [(''session'', info), (''conf_path'', JStr p)])))],
                 if (\<exists>e. jobs = Inl e) \<or> (\<exists>e. sess = Some (Inl e)) then 1 else 0)))"

text \<open>The entry: the exit code of a mode that ends, or the error the process dies with.\<close>

definition runner_of :: "string gomap \<Rightarrow> host_world \<Rightarrow> runner" where
  "runner_of env w =
     (let p = env_value env
      in \<lparr>rn_api = getenv_or p ''AI_CLOUDHUB_API'' ''http://127.0.0.1:8080'', rn_token = p ''AI_CLOUDHUB_TOKEN'',
          rn_env = env, rn_world = w\<rparr>)"

definition runner_main :: "runner \<Rightarrow> host \<Rightarrow> string list \<Rightarrow> int list \<Rightarrow> trace \<times> (string + int)" where
  "runner_main r h argv ticks =
     (case parseRunnerMode r argv of (md, rest) \<Rightarrow>
        let mountPoint = getenv_or (penv r) ''AI_CLOUDHUB_MOUNT'' ''/workspace'';
            driveID = penv r ''AI_CLOUDHUB_DRIVE_ID''; bindingID = penv r ''AI_CLOUDHUB_BINDING_ID'';
            args = (case rest of a # as \<Rightarrow> if a = ''--'' then as else rest | [] \<Rightarrow> [])
        in if md = RModeHelp then ([], Inr 0)
           else if md = RModeCheck then map_prod id Inr (runRunnerCheck r h [])
           else if rn_token r = [] then ([], Inl ''AI_CLOUDHUB_TOKEN required (except: runner check)'')
           else if md = RModeDryRun then map_prod id Inr (runRunnerDryRun r mountPoint [])
           else if md = RModeMaterialize \<or> envTruthy (penv r ''AI_CLOUDHUB_MATERIALIZE_ONLY'')
           then map_prod id (\<lambda>e. case e of Some x \<Rightarrow> Inl x | None \<Rightarrow> Inr 0) (runMaterializeOnly r mountPoint [])
           else if md = RModeWorker \<or> penv r ''AI_CLOUDHUB_WORKER'' \<in> {''1'', ''true''}
           then (snd (runWorker mountPoint ticks r []), Inr 0)
           else if driveID = [] \<and> bindingID = []
           then ([], Inl (''set AI_CLOUDHUB_DRIVE_ID / BINDING_ID, AI_CLOUDHUB_WORKER=1, '' @
                          ''AI_CLOUDHUB_MATERIALIZE_ONLY=1, or: runner check|dry-run''))
           else (case runOnce r mountPoint driveID bindingID [] args 0 [] of (tr, out, res) \<Rightarrow>
                   (tr, case res of Some e \<Rightarrow> Inl (run_error_text e) | None \<Rightarrow> Inr 0)))"

section \<open>Output is the tail\<close>

lemma drop_drop_append: "length s \<ge> n \<Longrightarrow> drop (length (drop (length s - n) s @ p) - n) (drop (length s - n) s @ p) = drop (length (s @ p) - n) (s @ p)"
  by (simp add: algebra_simps)

lemma limited_write_tail:
  assumes "mx > 0"
  shows "limited_write mx p (drop (length s - mx) s, length s > mx) =
           (drop (length (s @ p) - mx) (s @ p), length (s @ p) > mx)"
proof (cases "length s \<ge> mx")
  case True
  with assms drop_drop_append [OF True, of p] show ?thesis
    by (cases p) (auto simp: limited_write_def Let_def)
next
  case False
  with assms show ?thesis by (auto simp: limited_write_def Let_def)
qed

lemma capture_from:
  assumes "mx > 0"
  shows "fold (limited_write mx) chunks (drop (length s - mx) s, length s > mx) =
           (drop (length (s @ concat chunks) - mx) (s @ concat chunks), length (s @ concat chunks) > mx)"
proof (induction chunks arbitrary: s)
  case Nil
  show ?case by simp
next
  case (Cons p ps)
  from limited_write_tail [OF assms, of p s] Cons.IH [of "s @ p"] show ?case by simp
qed

lemma capture_tail:
  "mx > 0 \<Longrightarrow> capture mx chunks = (drop (length (concat chunks) - mx) (concat chunks), length (concat chunks) > mx)"
  using capture_from [of mx chunks "[]"] by (simp add: capture_def)

lemma cap_bounds: "0 < runnerOutputCap r \<and> runnerOutputCap r \<le> 262144"
  by (auto simp: runnerOutputCap_def split: option.split)

section \<open>Actions of a run\<close>

text \<open>
  Only \<open>attach\<close> starts a process in the background and only \<open>run_agent\<close> starts an agent: a predicate that
  holds of every other action is kept by the other steps.
\<close>

definition ordinary :: "action \<Rightarrow> bool" where
  "ordinary a = (case a of Background _ \<Rightarrow> False | Agent _ _ _ _ \<Rightarrow> False | _ \<Rightarrow> True)"

definition adds :: "(action \<Rightarrow> bool) \<Rightarrow> trace \<Rightarrow> trace \<Rightarrow> bool" where
  "adds P tr tr' \<longleftrightarrow> (\<exists>as. tr' = tr @ as \<and> list_all P as)"

lemma adds_refl [simp]: "adds P tr tr"
  by (simp add: adds_def)

lemma adds_append [simp]: "adds P tr (tr @ as) \<longleftrightarrow> list_all P as"
  by (simp add: adds_def)

lemma adds_trans: "adds P a b \<Longrightarrow> adds P b c \<Longrightarrow> adds P a c"
  by (auto simp: adds_def)

lemma adds_in: "adds P tr tr' \<Longrightarrow> a \<in> set tr' \<Longrightarrow> a \<in> set tr \<or> P a"
  by (auto simp: adds_def list_all_iff)

lemma send_adds: "send r meth path payload extra tr = (tr', a) \<Longrightarrow> adds ordinary tr tr'"
  by (auto simp: send_def Let_def ordinary_def)

lemma session_adds: "open_session r mp d b tr = (tr', s) \<Longrightarrow> adds ordinary tr tr'"
  by (auto simp: open_session_def postJSON_def dest!: send_adds split: prod.splits if_splits)

lemma prepare_adds: "prepare r mp b tr = (tr', s) \<Longrightarrow> adds ordinary tr tr'"
  by (auto simp: prepare_def Let_def ordinary_def adds_def split: if_splits option.splits)

lemma clone_adds: "applyGitClone r cfg mp tr = (tr', s) \<Longrightarrow> adds ordinary tr tr'"
  by (auto simp: applyGitClone_def Let_def ordinary_def adds_def split: if_splits)

lemma fetch_adds: "fetchConnector r cid tr = (tr', s) \<Longrightarrow> adds ordinary tr tr'"
  by (auto simp: fetchConnector_def dest!: send_adds split: prod.splits)

lemma connector_adds:
  assumes "materializeConnector r mp tr = (tr', m)"
  shows "adds ordinary tr tr'"
proof (cases "trim_space (penv r ''AI_CLOUDHUB_CONNECTOR_ID'') = []")
  case True
  with assms show ?thesis by (simp add: materializeConnector_def)
next
  case False
  obtain tr1 fetched where f: "fetchConnector r (trim_space (penv r ''AI_CLOUDHUB_CONNECTOR_ID'')) tr = (tr1, fetched)"
    by fastforce
  have "tr' = tr1 \<or> (\<exists>cfg cloned. applyGitClone r cfg mp tr1 = (tr', cloned))"
    using assms False f by (auto simp: materializeConnector_def Let_def split: prod.splits sum.splits if_splits)
  then show ?thesis using fetch_adds [OF f] by (auto dest: clone_adds intro: adds_trans)
qed

lemma await_adds: "adds ordinary tr (await_dir w dir n tr)"
proof (induction n arbitrary: tr)
  case (Suc n)
  have "adds ordinary tr (tr @ [Pause])" by (simp add: ordinary_def)
  from adds_trans [OF this Suc] show ?case by simp
qed simp

lemma cleanup_ordinary: "list_all ordinary (cleanup s b)"
  by (simp add: cleanup_def ordinary_def)

lemma attach_adds:
  assumes "attach r s tr = (tr', started, err)"
  shows "adds (\<lambda>a. ordinary a \<or> a = Background (mount_command s) \<and> rsMode s \<noteq> ''sync_workspace'') tr tr'"
proof -
  define P where "P = (\<lambda>a. ordinary a \<or> a = Background (mount_command s) \<and> rsMode s \<noteq> ''sync_workspace'')"
  have w: "adds P t (await_dir w dir n t)" for w dir n t
    using await_adds [of t w dir n] by (auto simp: adds_def list_all_iff P_def)
  show ?thesis
  proof (cases "rsMode s = ''sync_workspace''")
    case True
    with assms show ?thesis by (auto simp: attach_def Let_def ordinary_def)
  next
    case False
    then have "adds P tr (tr @ [Background (mount_command s)])" by (simp add: P_def)
    with adds_trans [OF this w] assms False have "adds P tr tr'"
      by (auto simp: attach_def Let_def split: option.splits)
    then show ?thesis by (simp add: P_def)
  qed
qed

definition started_ok :: "runner \<Rightarrow> run_setup \<Rightarrow> action \<Rightarrow> bool" where
  "started_ok r s a \<longleftrightarrow> ordinary a \<or>
     (\<exists>args mat extra t fs. a = Agent args (child_env r mat extra) (rsMount s) t \<and> jail_error r fs (rsMount s) args = None)"

lemma agent_adds:
  assumes "run_agent r s note args n (child_env r mat extra) tr = (tr', out, res)"
  shows "adds (started_ok r s) tr tr'"
proof -
  have sec: "adds (started_ok r s) tr tr1" if "apply_seccomp r tr = (tr1, e)" for tr1 e
    using that by (auto simp: apply_seccomp_def started_ok_def ordinary_def split: if_splits)
  have "adds (started_ok r s) tr1 (tr1 @ [Agent args (child_env r mat extra) (rsMount s) t])"
    if "jail_error r (wd_fs (rn_world r) tr) (rsMount s) args = None" for t tr1
    using that by (auto simp: started_ok_def)
  with assms sec show ?thesis
    by (auto simp: run_agent_def Let_def intro: adds_trans split: option.splits prod.splits)
qed

lemma ordinary_agent_ok: "adds ordinary tr tr' \<Longrightarrow> adds (started_ok r s) tr tr'"
  by (auto simp: adds_def list_all_iff started_ok_def)

lemma attached_adds:
  assumes "run_attached r s jobID args n tr = (tr', out, res)"
  shows "adds (started_ok r s) tr tr'"
proof -
  obtain tr1 mat where m: "materializeConnector r (rsMount s) tr = (tr1, mat)" by fastforce
  have a: "adds (started_ok r s) tr tr1" by (rule ordinary_agent_ok [OF connector_adds [OF m]])
  have w: "adds (started_ok r s) tr1 (tr1 @ [AwaitSignal])" by (simp add: started_ok_def ordinary_def)
  from assms m a adds_trans [OF a w] adds_trans [OF a agent_adds] show ?thesis
    by (force simp: run_attached_def Let_def simp del: adds_append split: if_splits)
qed

text \<open>A run, taken apart: either it ends before the drive is attached, or it ends with the clean-up.\<close>

lemma run_cases:
  assumes "runOnce r mp d b jobID args n tr = (tr', out, res)"
  obtains "adds ordinary tr tr'"
  | s started tr2 tr3 err tr4 where "adds ordinary tr tr2" "attach r s tr2 = (tr3, started, err)"
      "adds (started_ok r s) tr3 tr4" "tr' = tr4 @ cleanup s started"
proof -
  obtain tr1 sess where o: "open_session r mp d b tr = (tr1, sess)" by fastforce
  note o1 = session_adds [OF o]
  show ?thesis
  proof (cases sess)
    case (Inl e)
    with o o1 assms that(1) show ?thesis by (simp add: runOnce_def)
  next
    case (Inr bnd)
    note sess = this
    obtain tr2 prep where p: "prepare r mp bnd tr1 = (tr2, prep)" by fastforce
    note p1 = adds_trans [OF o1 prepare_adds [OF p]]
    show ?thesis
    proof (cases prep)
      case (Inl e)
      with o p p1 Inr assms that(1) show ?thesis by (simp add: runOnce_def)
    next
      case (Inr s)
      obtain tr3 started err where a: "attach r s tr2 = (tr3, started, err)" by (metis prod_cases3)
      show ?thesis
      proof (cases err)
        case (Some e)
        with o p a sess Inr assms have "tr' = tr3 @ cleanup s started" by (simp add: runOnce_def)
        with that(2) [OF p1 a adds_refl] show ?thesis by blast
      next
        case None
        obtain tr4 out' res' where q: "run_attached r s jobID args n tr3 = (tr4, out', res')" by (metis prod_cases3)
        with o p a sess Inr None assms have "tr' = tr4 @ cleanup s started" by (simp add: runOnce_def)
        with that(2) [OF p1 a attached_adds [OF q]] show ?thesis by blast
      qed
    qed
  qed
qed

lemma ordinary_not [simp]: "\<not> ordinary (Background c)" "\<not> ordinary (Agent a e w t)"
  by (simp_all add: ordinary_def)

section \<open>What the runner does wrong\<close>

text \<open>
  When the first synchronisation of the workspace fails, the deferred clean-up still mirrors the local
  directory to the drive: whatever was not pulled is deleted there.
\<close>

lemma failed_pull_pushes:
  assumes "open_session r mp d b tr = (tr1, Inr bnd)" "prepare r mp bnd tr1 = (tr2, Inr s)"
    "rsMode s = ''sync_workspace''" "wd_run (rn_world r) tr2 (sync_command s (rsRemote s) (rsMount s)) = Some e"
  shows "runOnce r mp d b jobID args n tr =
           (tr2 @ [Command (sync_command s (rsRemote s) (rsMount s)), Command (sync_command s (rsMount s) (rsRemote s))],
            no_output, Some (ProcessFailed ''sync pull'' e))"
  using assms by (simp add: runOnce_def attach_def cleanup_def)

text \<open>The connector and the mode of a job stay in the environment of the worker for the jobs after it.\<close>

lemma penv_setenv [simp]: "penv (os_setenv k v r) k' = (if k' = k then v else penv r k')"
  by (simp add: penv_def os_setenv_def update_conv')

lemma worker_keeps_connector:
  assumes "claimNext r tr = (tr1, Inr j)" "jdConnectorID j = []"
  shows "penv (fst (worker_tick mp d r tr)) ''AI_CLOUDHUB_CONNECTOR_ID'' = penv r ''AI_CLOUDHUB_CONNECTOR_ID''"
  using assms by (auto simp: worker_tick_def job_environment_def Let_def split: prod.splits)

section \<open>Properties\<close>

lemma blocked_secrets: "\<not> efPassToken f \<Longrightarrow> efBlockExact f = [] \<Longrightarrow> set DefaultEnvBlockExact \<subseteq> block_set f"
proof -
  have "map to_upper DefaultEnvBlockExact = DefaultEnvBlockExact" by code_simp
  then have "set DefaultEnvBlockExact = to_upper ` set DefaultEnvBlockExact" by (metis list.set_map)
  then show "\<not> efPassToken f \<Longrightarrow> efBlockExact f = [] \<Longrightarrow> set DefaultEnvBlockExact \<subseteq> block_set f"
    by (simp add: block_set_def Let_def)
qed

lemma child_env_clean:
  assumes "jail_on r" "\<not> pass_token r" "e \<in> set (child_env r mat extra)"
  shows "ukey e \<notin> set DefaultEnvBlockExact"
proof -
  have "e \<in> set (FilterEnv (os_environ r) extra (agent_filter r mat))" using assms by (simp add: child_env_def)
  then have "passes (agent_filter r mat) (entry_key e)" using filtered_env_exact by blast
  then have "ukey e \<notin> block_set (agent_filter r mat)" by (simp add: passes_def ukey_def Let_def)
  with blocked_secrets [of "agent_filter r mat"] assms(2) show ?thesis by (auto simp: agent_filter_def)
qed

text \<open>C36: With the jail on and PASS_TOKEN off, the runner starts an agent only with an environment in which none of the blocked secrets (API token, master key, JWT secret, AWS and MinIO keys) is set, whatever the control plane and the connector sent.\<close>

theorem agent_never_sees_secrets:
  assumes "runOnce r mp d b jobID args n [] = (tr, out, res)" "jail_on r" "\<not> pass_token r"
    "Agent cmd env dir t \<in> set tr" "e \<in> set env"
  shows "ukey e \<notin> set DefaultEnvBlockExact"
  using assms(1)
proof (cases rule: run_cases)
  case 1
  with assms(4) show ?thesis by (auto dest: adds_in)
next
  case (2 s started tr2 tr3 err tr4)
  from assms(4) 2(4) cleanup_ordinary [of s started] have "Agent cmd env dir t \<in> set tr4"
    by (auto simp: list_all_iff)
  then have "started_ok r s (Agent cmd env dir t)"
    using adds_in [OF 2(3)] adds_in [OF attach_adds [OF 2(2)]] adds_in [OF 2(1)] by (fastforce simp: started_ok_def)
  then obtain mat extra where "env = child_env r mat extra" by (auto simp: started_ok_def)
  with child_env_clean assms(2,3,5) show ?thesis by blast
qed

text \<open>C37: A run that starts an rclone mount ends with the two commands that unmount this mount point, on every path, errors included.\<close>

theorem mounts_always_released:
  assumes "runOnce r mp d b jobID args n [] = (tr, out, res)" "Background cmd \<in> set tr"
  shows "\<exists>acts. tr = acts @ [Command [''fusermount'', ''-u'', cmd ! 3], Command [''umount'', cmd ! 3]]"
  using assms(1)
proof (cases rule: run_cases)
  case 1
  with assms(2) show ?thesis by (auto dest: adds_in)
next
  case (2 s started tr2 tr3 err tr4)
  from assms(2) 2(4) cleanup_ordinary [of s started] have "Background cmd \<in> set tr4" by (auto simp: list_all_iff)
  with adds_in [OF 2(3)] have "Background cmd \<in> set tr3" by (fastforce simp: started_ok_def)
  with adds_in [OF attach_adds [OF 2(2)]] adds_in [OF 2(1)]
  have "cmd = mount_command s \<and> rsMode s \<noteq> ''sync_workspace''" by fastforce
  with 2(4) show ?thesis by (auto simp: cleanup_def mount_command_def)
qed

text \<open>A run with a mount and an agent, for the witnesses.\<close>

definition demo_world :: host_world where
  "demo_world =
     \<lparr>wd_http = (\<lambda>tr c. \<lparr>rpBody = ''session'', rpStatus = 200, rpError = None\<rparr>), wd_run = (\<lambda>tr c. None),
      wd_start = (\<lambda>tr c. None),
      wd_agent = (\<lambda>tr c. \<lparr>ag_stdout = [''hi''], ag_stderr = [], ag_end = None, ag_context = Live\<rparr>),
      wd_look = (\<lambda>tr p. True), wd_is_dir = (\<lambda>tr p. True), wd_exists = (\<lambda>tr p. False), wd_write = (\<lambda>tr p. None),
      wd_mkdir = (\<lambda>tr p. None), wd_seccomp = (\<lambda>tr. None),
      wd_fs = (\<lambda>tr. \<lparr>fs_lstat = (\<lambda>p. False), fs_eval = (\<lambda>p. None)\<rparr>), wd_hostname = None, wd_temp = ''/tmp'',
      wd_duration = (\<lambda>v. None),
      wd_codec = \<lparr>cd_parse = (\<lambda>b. Inr (JObj [(''spec'', JObj [(''remote_path'', JStr ''r:b''), (''rclone_conf'', JStr ''c'')]),
           (''session'', JObj [(''manifest'', JObj [(''env'', JObj [(''AI_CLOUDHUB_TOKEN'', JStr ''x'')])])])])),
         cd_indent = (\<lambda>j. []), cd_mismatch = (\<lambda>j. [])\<rparr>\<rparr>"

definition demo_runner :: runner where
  "demo_runner =
     \<lparr>rn_api = ''http://hub'', rn_token = ''tok'',
      rn_env = [(''PATH'', ''/bin''), (''AI_CLOUDHUB_TOKEN'', ''tok''), (''JWT_SECRET'', ''s'')], rn_world = demo_world\<rparr>"

definition demo_session_run :: "trace \<times> run_out \<times> run_error option" where
  "demo_session_run = runOnce demo_runner ''/w'' ''d1'' [] ''j1'' [''cat'', ''a/b''] 0 []"

definition agents_of :: "trace \<Rightarrow> (string list \<times> string list \<times> string \<times> duration option) list" where
  "agents_of tr = concat (map (\<lambda>a. case a of Agent c e d t \<Rightarrow> [(c, e, d, t)] | _ \<Rightarrow> []) tr)"

definition mounts_of :: "trace \<Rightarrow> string list list" where
  "mounts_of tr = concat (map (\<lambda>a. case a of Background c \<Rightarrow> [c] | _ \<Rightarrow> []) tr)"

lemma agents_of_iff: "(c, e, d, t) \<in> set (agents_of tr) \<longleftrightarrow> Agent c e d t \<in> set tr"
  by (force simp: agents_of_def split: action.splits)

lemma mounts_of_iff: "c \<in> set (mounts_of tr) \<longleftrightarrow> Background c \<in> set tr"
  by (force simp: mounts_of_def split: action.splits)

lemma demo_agents:
  "agents_of (fst demo_session_run) =
     [([''cat'', ''a/b''], [''PATH=/bin'', ''AI_CLOUDHUB_WORKSPACE=/w'', ''AI_CLOUDHUB_MODE=mount'', ''AI_CLOUDHUB_JOB_ID=j1''],
       ''/w'', None)]"
  by code_simp

lemma demo_mounts: "map (\<lambda>c. c ! 3) (mounts_of (fst demo_session_run)) = [''/w'']"
  by code_simp

lemma demo_jail: "jail_on demo_runner \<and> \<not> pass_token demo_runner"
  by code_simp

theorem agent_never_sees_secrets_witness:
  "map (fst \<circ> snd) (agents_of (fst demo_session_run)) =
     [[''PATH=/bin'', ''AI_CLOUDHUB_WORKSPACE=/w'', ''AI_CLOUDHUB_MODE=mount'', ''AI_CLOUDHUB_JOB_ID=j1'']] \<and>
   ukey ''AI_CLOUDHUB_JOB_ID=j1'' \<notin> set DefaultEnvBlockExact"
proof
  show "map (fst \<circ> snd) (agents_of (fst demo_session_run)) =
     [[''PATH=/bin'', ''AI_CLOUDHUB_WORKSPACE=/w'', ''AI_CLOUDHUB_MODE=mount'', ''AI_CLOUDHUB_JOB_ID=j1'']]"
    by (simp add: demo_agents)
  obtain tr out res where r: "demo_session_run = (tr, out, res)" by (metis prod_cases3)
  have f: "fst demo_session_run = tr" by (simp only: r fst_conv)
  have "Agent [''cat'', ''a/b'']
      [''PATH=/bin'', ''AI_CLOUDHUB_WORKSPACE=/w'', ''AI_CLOUDHUB_MODE=mount'', ''AI_CLOUDHUB_JOB_ID=j1''] ''/w'' None \<in> set tr"
    unfolding agents_of_iff [symmetric] using demo_agents unfolding f by simp
  from agent_never_sees_secrets [OF r [unfolded demo_session_run_def] _ _ this] demo_jail
  show "ukey ''AI_CLOUDHUB_JOB_ID=j1'' \<notin> set DefaultEnvBlockExact" by simp
qed

theorem mounts_always_released_witness:
  "\<exists>acts. fst demo_session_run = acts @ [Command [''fusermount'', ''-u'', ''/w''], Command [''umount'', ''/w'']]"
proof -
  obtain tr out res where r: "demo_session_run = (tr, out, res)" by (metis prod_cases3)
  have f: "fst demo_session_run = tr" by (simp only: r fst_conv)
  obtain cmd where c: "mounts_of tr = [cmd]" "cmd ! 3 = ''/w''" using demo_mounts unfolding f by auto
  then have "Background cmd \<in> set tr" using mounts_of_iff [of cmd tr] by simp
  from mounts_always_released [OF r [unfolded demo_session_run_def] this] c(2) show ?thesis unfolding f by simp
qed

end
