(* ===== verification/Hubd_Daemon.thy ===== *)
theory Hubd_Daemon
  imports Runner_Worker
begin

text \<open>
  The desktop daemon (\<open>cmd/hubd\<close>): it polls the bindings of its device, mounts what is wanted, unmounts what
  is not, keeps sessions fresh and reports. The world is that of the runner, with the clock, the state of
  the rclone processes and the readability of a mount point as further parameters. The processes it
  keeps are a map from binding ids; a loop over a Go map visits the entries in the order of the list.
  Log lines, signals and the time limits of probes are left out.
\<close>

section \<open>The daemon\<close>

record hub =
  hb_api :: string
  hb_token :: string
  hb_device :: string
  hb_state :: string
  hb_rclone :: string
  hb_winfsp :: bool
  hb_windows :: bool
  hb_env :: environment
  hb_world :: host_world
  hb_now :: "trace \<Rightarrow> time"
  hb_late :: "trace \<Rightarrow> bool"
  hb_exited :: "trace \<Rightarrow> string \<Rightarrow> string option option"
  hb_unreadable :: "trace \<Rightarrow> string \<Rightarrow> bool"
  hb_instant :: "string \<Rightarrow> time option"
  hb_rfc3339 :: "time \<Rightarrow> string"

record bindingDTO =
  bdID :: string
  bdDriveID :: string
  bdDeviceID :: string
  bdMountPoint :: string
  bdDesired :: string
  bdActual :: string
  bdMode :: string

record issued_bundle =
  sbToken :: string
  sbExpiresAt :: time
  sbMode :: string
  sbSource :: string
  sbSessionSpec :: run_spec
  sbSpec :: run_spec
  sbEnv :: "string gomap"
  sbManifest :: "json option"

record mount_proc =
  mpCmd :: bool
  mpExpiresAt :: time
  mpDriveID :: string
  mpMode :: string
  mpBindingMode :: string
  mpConfPath :: string
  mpRemotePath :: string
  mpMountPoint :: string
  mpSessionToken :: string

datatype hub_mode = HModeDaemon | HModeCheck | HModeDryRun | HModeOnce | HModeHelp

definition hub_env_mode :: "string \<Rightarrow> hub_mode option" where
  "hub_env_mode v =
     map_of [(''check'', HModeCheck), (''dry-run'', HModeDryRun), (''dryrun'', HModeDryRun), (''once'', HModeOnce),
             (''daemon'', HModeDaemon), (''help'', HModeHelp)] v"

definition hub_arg_mode :: "string \<Rightarrow> hub_mode option" where
  "hub_arg_mode v =
     map_of [(''check'', HModeCheck), (''--check'', HModeCheck), (''-check'', HModeCheck),
             (''dry-run'', HModeDryRun), (''--dry-run'', HModeDryRun), (''-dry-run'', HModeDryRun),
             (''dryrun'', HModeDryRun), (''--dryrun'', HModeDryRun),
             (''once'', HModeOnce), (''--once'', HModeOnce), (''-once'', HModeOnce),
             (''help'', HModeHelp), (''--help'', HModeHelp), (''-h'', HModeHelp),
             (''daemon'', HModeDaemon), (''run'', HModeDaemon)] v"

fun first_arg_mode :: "string list \<Rightarrow> hub_mode" where
  "first_arg_mode [] = HModeDaemon"
| "first_arg_mode (a # as) =
     (case hub_arg_mode (to_lower (trim_space a)) of Some md \<Rightarrow> md | None \<Rightarrow> first_arg_mode as)"

definition parseHubdMode :: "environment \<Rightarrow> string list \<Rightarrow> hub_mode" where
  "parseHubdMode env args =
     (case hub_env_mode (to_lower (trim_space (env ''AI_CLOUDHUB_HUBD_MODE''))) of
        Some md \<Rightarrow> md | None \<Rightarrow> first_arg_mode args)"

section \<open>Requests\<close>

definition hub_send :: "hub \<Rightarrow> string \<Rightarrow> string \<Rightarrow> json option \<Rightarrow> trace \<Rightarrow> trace \<times> http_reply" where
  "hub_send h meth path payload tr =
     (let c = \<lparr>hcMethod = meth, hcURL = hb_api h @ path,
               hcHeaders = [(''Authorization'', ''Bearer '' @ hb_token h)] @
                 (if payload \<noteq> None then [(''Content-Type'', ''application/json'')] else []),
               hcPayload = payload\<rparr>
      in (tr @ [Request c], wd_http (hb_world h) tr c))"

definition json_binding :: "json \<Rightarrow> bindingDTO" where
  "json_binding j =
     \<lparr>bdID = text_field j ''id'', bdDriveID = text_field j ''drive_id'', bdDeviceID = text_field j ''device_id'',
      bdMountPoint = text_field j ''mount_point'', bdDesired = text_field j ''desired'',
      bdActual = text_field j ''actual'', bdMode = text_field j ''mode''\<rparr>"

definition binding_kind :: kind where
  "binding_kind = KStruct (map (\<lambda>n. (n, KStr))
     [''id'', ''drive_id'', ''device_id'', ''mount_point'', ''desired'', ''actual'', ''mode''])"

definition hub_decoded :: "hub \<Rightarrow> kind \<Rightarrow> http_reply \<Rightarrow> string + json" where
  "hub_decoded h k a =
     (case reply_body plain_refusal a of Inl e \<Rightarrow> Inl e | Inr body \<Rightarrow> unmarshal (wd_codec (hb_world h)) k body)"

definition listBindings :: "hub \<Rightarrow> trace \<Rightarrow> trace \<times> (string + bindingDTO list)" where
  "listBindings h tr =
     (case hub_send h ''GET'' (''/v1/bindings?device_id='' @ hb_device h) None tr of (tr', a) \<Rightarrow>
        (tr', map_sum id (\<lambda>w. map json_binding (items_of (field w ''items'')))
           (hub_decoded h (KStruct [(''items'', KList binding_kind)]) a)))"

definition session_bundle_kind :: kind where
  "session_bundle_kind = KStruct
     [(''session'', KStruct
        [(''id'', KStr), (''token'', KStr), (''expires_at'', KStr), (''mode'', KStr), (''source'', KStr), (''note'', KStr),
         (''spec'', spec_kind), (''manifest'', KStruct [(''env'', KMap KStr)])]),
      (''spec'', spec_kind), (''note'', KStr)]"

text \<open>An instant that is absent or null stays zero; a text that is no instant fails the decoding.\<close>

definition json_bundle :: "hub \<Rightarrow> json \<Rightarrow> string + issued_bundle" where
  "json_bundle h j =
     (let s = field j ''session'';
          sb = (\<lambda>t. \<lparr>sbToken = text_field s ''token'', sbExpiresAt = t, sbMode = text_field s ''mode'',
                     sbSource = text_field s ''source'', sbSessionSpec = json_spec (field s ''spec''),
                     sbSpec = json_spec (field j ''spec''), sbEnv = session_env j,
                     sbManifest = (if has_field j ''manifest'' then Some (field j ''manifest'') else None)\<rparr>)
      in case field s ''expires_at'' of
           JStr v \<Rightarrow> (case hb_instant h v of
                       Some t \<Rightarrow> Inr (sb t) | None \<Rightarrow> Inl (cd_mismatch (wd_codec (hb_world h)) (JStr v)))
         | _ \<Rightarrow> Inr (sb 0))"

definition bundle_of :: "hub \<Rightarrow> http_reply \<Rightarrow> string + issued_bundle" where
  "bundle_of h a = (case hub_decoded h session_bundle_kind a of Inl e \<Rightarrow> Inl e | Inr j \<Rightarrow> json_bundle h j)"

definition issueSession :: "hub \<Rightarrow> string \<Rightarrow> trace \<Rightarrow> trace \<times> (string + issued_bundle)" where
  "issueSession h i tr =
     (case hub_send h ''POST'' (''/v1/bindings/'' @ i @ ''/session'') None tr of (tr', a) \<Rightarrow> (tr', bundle_of h a))"

definition refreshSession :: "hub \<Rightarrow> string \<Rightarrow> string \<Rightarrow> trace \<Rightarrow> trace \<times> (string + issued_bundle)" where
  "refreshSession h tok driveID tr =
     (case hub_send h ''POST'' ''/v1/sessions/refresh''
             (Some (JObj [(''session_token'', JStr tok), (''drive_id'', JStr driveID)])) tr of
        (tr', a) \<Rightarrow> (tr', bundle_of h a))"

definition sent_ok :: "string \<Rightarrow> http_reply \<Rightarrow> string option" where
  "sent_ok what a =
     (case rpError a of
        Some e \<Rightarrow> Some e
      | None \<Rightarrow> if rpStatus a \<ge> 300 then Some (what @ ''HTTP '' @ show_int (rpStatus a) @ '': '' @ rpBody a) else None)"

definition reportActual :: "hub \<Rightarrow> string \<Rightarrow> string \<Rightarrow> string \<Rightarrow> trace \<Rightarrow> trace \<times> string option" where
  "reportActual h i actual lastErr tr =
     (case hub_send h ''POST'' (''/v1/bindings/'' @ i @ ''/report'')
             (Some (JObj [(''actual'', JStr actual), (''last_error'', JStr lastErr)])) tr of
        (tr', a) \<Rightarrow> (tr', sent_ok ''report '' a))"

text \<open>At least one attempt, a pause after each that fails.\<close>

fun report_loop :: "hub \<Rightarrow> string \<Rightarrow> string \<Rightarrow> string \<Rightarrow> nat \<Rightarrow> trace \<Rightarrow> trace \<times> string option" where
  "report_loop h i actual lastErr 0 tr = (tr, None)"
| "report_loop h i actual lastErr (Suc n) tr =
     (case reportActual h i actual lastErr tr of (tr1, err) \<Rightarrow>
        (case err of
           None \<Rightarrow> (tr1, None)
         | Some e \<Rightarrow> if n = 0 then (tr1 @ [Pause], Some e) else report_loop h i actual lastErr n (tr1 @ [Pause])))"

definition reportActualRetry :: "hub \<Rightarrow> string \<Rightarrow> string \<Rightarrow> string \<Rightarrow> int \<Rightarrow> trace \<Rightarrow> trace \<times> string option" where
  "reportActualRetry h i actual lastErr attempts tr =
     report_loop h i actual lastErr (if attempts \<le> 0 then 1 else nat attempts) tr"

definition postBarrier :: "hub \<Rightarrow> string \<Rightarrow> trace \<Rightarrow> trace \<times> string option" where
  "postBarrier h driveID tr =
     (if driveID = [] then (tr, None)
      else (case hub_send h ''POST'' (''/v1/drives/'' @ driveID @ ''/barrier'')
                  (Some (JObj [(''status'', JStr ''ok''), (''device_id'', JStr (hb_device h)),
                               (''note'', JStr ''hubd unmount flush'')])) tr of
              (tr', a) \<Rightarrow> (tr', sent_ok [] a)))"

section \<open>Mounts\<close>

definition bundle_mount_spec :: "issued_bundle \<Rightarrow> run_spec" where
  "bundle_mount_spec s = (if msRcloneConf (sbSpec s) \<noteq> [] then sbSpec s else sbSessionSpec s)"

definition bundle_workspace :: "issued_bundle \<Rightarrow> string" where
  "bundle_workspace s = or_text (env_value (sbEnv s) ''AI_CLOUDHUB_WORKSPACE'') (msMountPoint (bundle_mount_spec s))"

definition resolveMode :: "string \<Rightarrow> issued_bundle \<Rightarrow> string" where
  "resolveMode bindingMode s =
     (let m1 = trim_space bindingMode; m2 = trim_space (sbMode s);
          m3 = trim_space (env_value (sbEnv s) ''AI_CLOUDHUB_MODE'')
      in if m1 \<noteq> [] then m1 else if m2 \<noteq> [] then m2 else if m3 \<noteq> [] then m3 else ''mount'')"

definition forceRemountOnRefresh :: "hub \<Rightarrow> bool" where
  "forceRemountOnRefresh h = envTruthy (hb_env h ''AI_CLOUDHUB_FORCE_REMOUNT_ON_REFRESH'')"

definition mountPointUnreachable :: "hub \<Rightarrow> trace \<Rightarrow> string \<Rightarrow> bool" where
  "mountPointUnreachable h tr path = (trim_space path = [] \<or> hb_unreadable h tr (trim_space path))"

definition mountDead :: "hub \<Rightarrow> trace \<Rightarrow> mount_proc \<Rightarrow> bool" where
  "mountDead h tr mp = (mpMode mp \<noteq> ''sync_workspace'' \<and> mpCmd mp \<and> hb_exited h tr (mpMountPoint mp) \<noteq> None)"

definition rclone_sync :: "hub \<Rightarrow> mount_proc \<Rightarrow> string \<Rightarrow> string \<Rightarrow> string list" where
  "rclone_sync h mp src dst =
     [or_text (hb_rclone h) ''rclone'', ''sync'', src, dst, ''--config'', mpConfPath mp, ''--create-empty-src-dirs'']"

definition stop_actions :: "hub \<Rightarrow> mount_proc \<Rightarrow> trace \<Rightarrow> trace" where
  "stop_actions h mp tr =
     (let tr1 = (if mpMode mp = ''sync_workspace'' \<and> mpConfPath mp \<noteq> [] \<and> mpRemotePath mp \<noteq> [] \<and> mpMountPoint mp \<noteq> []
                 then tr @ [Command (rclone_sync h mp (mpMountPoint mp) (mpRemotePath mp))] else tr);
          tr2 = (if mpCmd mp \<and> hb_exited h tr1 (mpMountPoint mp) = None then tr1 @ [StopMount (mpMountPoint mp)] else tr1)
      in if mpMode mp = ''mount'' \<and> mpMountPoint mp \<noteq> [] \<and> \<not> hb_windows h
         then tr2 @ [Command [''fusermount'', ''-u'', mpMountPoint mp], Command [''umount'', mpMountPoint mp]]
         else tr2)"

datatype mount_wait = MountUp | MountExited "string option" | MountLate

text \<open>
  The wait for a new mount: 15 seconds in pauses of 400 ms, so 38 pauses at most, fewer when the probes
  of the path are slow.
\<close>

fun await_mount :: "hub \<Rightarrow> string \<Rightarrow> nat \<Rightarrow> trace \<Rightarrow> trace \<times> mount_wait" where
  "await_mount h p n tr =
     (case hb_exited h tr p of
        Some e \<Rightarrow> (tr, MountExited e)
      | None \<Rightarrow>
          if \<not> mountPointUnreachable h tr p then (tr, MountUp)
          else if hb_late h tr then (tr, MountLate)
          else (case n of 0 \<Rightarrow> (tr, MountLate) | Suc k \<Rightarrow> await_mount h p k (tr @ [Pause])))"

declare await_mount.simps [simp del]

definition env_file :: "string gomap \<Rightarrow> string" where
  "env_file m = concat (map (\<lambda>(k, v). k @ ''='' @ v @ newline) m)"

definition rclone_found :: "hub \<Rightarrow> trace \<Rightarrow> bool" where
  "rclone_found h tr =
     (let w = hb_world h; bin = or_text (hb_rclone h) ''rclone''
      in wd_look w tr bin \<or> wd_exists w tr bin \<and> \<not> wd_is_dir w tr bin)"

text \<open>The files of a session, or the reason there are none.\<close>

definition write_session :: "hub \<Rightarrow> string \<Rightarrow> issued_bundle \<Rightarrow> trace \<Rightarrow> trace \<times> string option" where
  "write_session h dir s tr =
     (let conf = filepath_join dir ''rclone.conf''; body = msRcloneConf (bundle_mount_spec s); tr1 = tr @ [MakeDir dir]
      in if body = [] then (tr1, Some ''empty rclone_conf in session'')
         else (case wd_write (hb_world h) tr1 conf of
                 Some e \<Rightarrow> (tr1 @ [WriteText conf body], Some e)
               | None \<Rightarrow>
                   (tr1 @ [WriteText conf body] @
                      (case sbManifest s of Some j \<Rightarrow> [WriteJson (filepath_join dir ''manifest.json'') j] | None \<Rightarrow> []) @
                      [WriteText (filepath_join dir ''env'') (env_file (sbEnv s))], None)))"

definition mount_refused :: "hub \<Rightarrow> string \<Rightarrow> string \<Rightarrow> string option" where
  "mount_refused h mode mp =
     (if IsWindowsDriveLetter mp \<and> mode = ''sync_workspace''
      then Some (''sync_workspace requires a directory mount_point, not drive letter '' @ quoted mp @ '' '' @ long_dash @
                 '' use e.g. '' @ win_path [''C:'', ''Users'', ellipsis, ''aihub-ws''])
      else if mode = ''mount'' \<and> hb_windows h \<and> \<not> hb_winfsp h
      then Some (''mount mode requires WinFsp '' @ long_dash @ '' run '' @ win_path [''scripts'', ''windows'', ''install-deps.ps1''] @
                 '' (admin) or set binding mode=sync_workspace; see docs/WINDOWS.md'')
      else None)"

definition hub_mount_command :: "hub \<Rightarrow> mount_proc \<Rightarrow> string list" where
  "hub_mount_command h mp =
     [or_text (hb_rclone h) ''rclone'', ''mount'', mpRemotePath mp, mpMountPoint mp, ''--config'', mpConfPath mp,
      ''--vfs-cache-mode'', ''full'', ''--dir-cache-time'', ''10s'']"

definition exit_hint :: "hub \<Rightarrow> string" where
  "exit_hint h =
     (if hb_windows h
      then '' '' @ long_dash @ '' check WinFsp ('' @ win_path [''scripts'', ''windows'', ''install-deps.ps1''] @
           '') or use mode=sync_workspace'' else [])"

definition start_process :: "hub \<Rightarrow> mount_proc \<Rightarrow> trace \<Rightarrow> trace \<times> (string + mount_proc)" where
  "start_process h mp0 tr =
     (if mpMode mp0 = ''sync_workspace''
      then (let cmd = rclone_sync h mp0 (mpRemotePath mp0) (mpMountPoint mp0)
            in (tr @ [Command cmd],
                case wd_run (hb_world h) tr cmd of Some e \<Rightarrow> Inl (''sync pull: '' @ exit_text e) | None \<Rightarrow> Inr mp0))
      else (let cmd = hub_mount_command h mp0; mp = mp0\<lparr>mpCmd := True\<rparr>; tr1 = tr @ [Background cmd]
            in case wd_start (hb_world h) tr cmd of
                 Some e \<Rightarrow> (tr1, Inl (''rclone mount start: '' @ e @
                              '' (WinFsp required on Windows; install-deps.ps1)''))
               | None \<Rightarrow>
                   (case await_mount h (mpMountPoint mp) 38 tr1 of (tr2, up) \<Rightarrow>
                      (case up of
                         MountUp \<Rightarrow> (tr2, Inr mp)
                       | MountExited e \<Rightarrow> (tr2, Inl ((case e of Some x \<Rightarrow> ''rclone mount exited: '' @ x
                                                            | None \<Rightarrow> ''rclone mount exited unexpectedly'') @ exit_hint h))
                       | MountLate \<Rightarrow> (stop_actions h mp tr2,
                                      Inl (''mount path unreachable after start: '' @ mpMountPoint mp))))))"

definition startMount :: "hub \<Rightarrow> string \<Rightarrow> issued_bundle \<Rightarrow> string \<Rightarrow> trace \<Rightarrow> trace \<times> (string + mount_proc)" where
  "startMount h i s mode0 tr =
     (let spec = bundle_mount_spec s; dir = filepath_join (hb_state h) i; mp = msMountPoint spec;
          mode = (if trim_space mode0 = [] then resolveMode [] s else trim_space mode0)
      in if \<not> rclone_found h tr then (tr, Inl (''rclone not found ('' @ or_text (hb_rclone h) ''rclone'' @ '') '' @ long_dash @ '' install https://rclone.org/downloads/ or '' @
              win_path [''scripts'', ''windows'', ''install-deps.ps1'']))
         else (case write_session h dir s tr of (tr1, err) \<Rightarrow>
           (case err of
              Some e \<Rightarrow> (tr1, Inl e)
            | None \<Rightarrow>
                if mp = [] then (tr1, Inl ''empty mount_point'')
                else (case (if IsWindowsDriveLetter mp then (tr1, None)
                            else (tr1 @ [MakeDir mp], wd_mkdir (hb_world h) tr1 mp)) of (tr2, made) \<Rightarrow>
                  (case made of
                     Some e \<Rightarrow> (tr2, Inl (''mkdir mount_point '' @ quoted mp @ '': '' @ e))
                   | None \<Rightarrow>
                       (case mount_refused h mode mp of
                          Some e \<Rightarrow> (tr2, Inl e)
                        | None \<Rightarrow>
                            start_process h
                              \<lparr>mpCmd = False, mpExpiresAt = 0, mpDriveID = [], mpMode = mode, mpBindingMode = [],
                               mpConfPath = filepath_join dir ''rclone.conf'', mpRemotePath = msRemotePath spec,
                               mpMountPoint = mp, mpSessionToken = []\<rparr> tr2))))))"

section \<open>Reconciliation\<close>

type_synonym hub_state = "mount_proc gomap \<times> trace"

definition stop_binding :: "hub \<Rightarrow> string \<Rightarrow> hub_state \<Rightarrow> hub_state" where
  "stop_binding h i st =
     (case st of (active, tr) \<Rightarrow>
        (case gget active i of Some mp \<Rightarrow> (gdel i active, stop_actions h mp tr) | None \<Rightarrow> (active, tr)))"

definition report_error :: "hub \<Rightarrow> string \<Rightarrow> string \<Rightarrow> hub_state \<Rightarrow> hub_state" where
  "report_error h i e st = (fst st, fst (reportActual h i ''error'' e (snd st)))"

definition report_mounted :: "hub \<Rightarrow> string \<Rightarrow> trace \<Rightarrow> trace" where
  "report_mounted h i tr =
     (case reportActualRetry h i ''mounted'' [] 3 tr of (tr1, err) \<Rightarrow>
        (case err of
           None \<Rightarrow> tr1
         | Some e \<Rightarrow> fst (reportActualRetry h i ''error'' (''report mounted failed: '' @ e) 2 tr1)))"

definition remount :: "hub \<Rightarrow> string \<Rightarrow> bindingDTO \<Rightarrow> hub_state \<Rightarrow> hub_state" where
  "remount h i b st =
     (case stop_binding h i st of (active, tr) \<Rightarrow>
       (case issueSession h i tr of (tr1, sess) \<Rightarrow>
         (case sess of
            Inl e \<Rightarrow> report_error h i e (active, tr1)
          | Inr s \<Rightarrow>
              (case startMount h i s (resolveMode (bdMode b) s) tr1 of (tr2, started) \<Rightarrow>
                 (case started of
                    Inl e \<Rightarrow> report_error h i e (active, tr2)
                  | Inr mp \<Rightarrow>
                      (gset i (mp\<lparr>mpExpiresAt := sbExpiresAt s, mpSessionToken := sbToken s, mpDriveID := bdDriveID b,
                                  mpBindingMode := trim_space (bdMode b)\<rparr>) active,
                       report_mounted h i tr2))))))"

text \<open>A refresh that keeps the mount: the new process record, or none when the binding has to be remounted.\<close>

definition soft_refresh :: "hub \<Rightarrow> mount_proc \<Rightarrow> trace \<Rightarrow> trace \<times> mount_proc option" where
  "soft_refresh h mp tr =
     (if mpSessionToken mp = [] \<or> mpDriveID mp = [] then (tr, None)
      else (case refreshSession h (mpSessionToken mp) (mpDriveID mp) tr of (tr1, nb) \<Rightarrow>
        (case nb of
           Inl e \<Rightarrow> (tr1, None)
         | Inr s \<Rightarrow>
             (let conf = msRcloneConf (bundle_mount_spec s)
              in if mpConfPath mp = [] \<or> conf = [] then (tr1, None)
                 else (tr1 @ [WriteText (mpConfPath mp) conf],
                       case wd_write (hb_world h) tr1 (mpConfPath mp) of
                         Some e \<Rightarrow> None
                       | None \<Rightarrow> Some (mp\<lparr>mpExpiresAt := sbExpiresAt s, mpSessionToken := sbToken s\<rparr>))))))"

definition refresh_binding :: "hub \<Rightarrow> string \<Rightarrow> bindingDTO \<Rightarrow> mount_proc \<Rightarrow> hub_state \<Rightarrow> hub_state" where
  "refresh_binding h i b mp st =
     (case st of (active, tr) \<Rightarrow>
        if forceRemountOnRefresh h then remount h i b st
        else (case soft_refresh h mp tr of (tr1, fresh) \<Rightarrow>
                (case fresh of
                   None \<Rightarrow> remount h i b (active, tr1)
                 | Some mp' \<Rightarrow>
                     (let st' = (gset i mp' active, tr1)
                      in if mountDead h tr1 mp' \<or> mountPointUnreachable h tr1 (mpMountPoint mp')
                         then remount h i b st' else st'))))"

definition mode_changed :: "bindingDTO \<Rightarrow> mount_proc \<Rightarrow> bool" where
  "mode_changed b mp =
     (trim_space (bdMode b) \<noteq> [] \<and> trim_space (bdMode b) \<noteq> mpBindingMode mp \<and> trim_space (bdMode b) \<noteq> mpMode mp)"

definition tend :: "hub \<Rightarrow> string \<times> bindingDTO \<Rightarrow> hub_state \<Rightarrow> hub_state" where
  "tend h ib st =
     (case ib of (i, b) \<Rightarrow>
       (case st of (active, tr) \<Rightarrow>
         (case gget active i of
            None \<Rightarrow> remount h i b st
          | Some mp \<Rightarrow>
              if mode_changed b mp then remount h i b st
              else if mountDead h tr mp
              then remount h i b (stop_binding h i (report_error h i ''rclone mount process exited'' st))
              else if mpMode mp = ''mount'' \<and> mountPointUnreachable h tr (mpMountPoint mp)
              then remount h i b (stop_binding h i (report_error h i ''mount path unreachable'' st))
              else if \<not> is_zero (mpExpiresAt mp) \<and> mpExpiresAt mp - hb_now h tr < minutes 5
              then refresh_binding h i b mp st
              else st)))"

definition release :: "hub \<Rightarrow> string \<Rightarrow> string \<times> mount_proc \<Rightarrow> trace \<Rightarrow> trace" where
  "release h note imp tr =
     (case imp of (i, mp) \<Rightarrow>
        fst (reportActual h i ''unmounted'' note (fst (postBarrier h (mpDriveID mp) (stop_actions h mp tr)))))"

definition drop_unwanted :: "hub \<Rightarrow> bindingDTO gomap \<Rightarrow> hub_state \<Rightarrow> hub_state" where
  "drop_unwanted h want st =
     (case st of (active, tr) \<Rightarrow>
        (filter (\<lambda>imp. gget want (fst imp) \<noteq> None) active,
         fold (release h []) (filter (\<lambda>imp. gget want (fst imp) = None) active) tr))"

definition wanted :: "bindingDTO list \<Rightarrow> bindingDTO gomap" where
  "wanted bs = fold (\<lambda>b m. gset (bdID b) b m) (filter (\<lambda>b. bdDesired b = ''mounted'') bs) []"

definition reconcile :: "hub \<Rightarrow> hub_state \<Rightarrow> hub_state" where
  "reconcile h st =
     (case st of (active, tr) \<Rightarrow>
        (case listBindings h tr of (tr1, bs) \<Rightarrow>
           (case bs of
              Inl e \<Rightarrow> (active, tr1)
            | Inr l \<Rightarrow> fold (tend h) (wanted l) (drop_unwanted h (wanted l) (active, tr1)))))"

fun daemon_loop :: "hub \<Rightarrow> nat \<Rightarrow> hub_state \<Rightarrow> hub_state" where
  "daemon_loop h 0 st = st"
| "daemon_loop h (Suc n) st = daemon_loop h n (reconcile h st)"

text \<open>What the process does before it ends: every mount is released.\<close>

definition shut_down :: "hub \<Rightarrow> string \<Rightarrow> hub_state \<Rightarrow> trace" where
  "shut_down h note st = fold (release h note) (fst st) (snd st)"

section \<open>Dry run and entry\<close>

text \<open>One binding: the item printed, with an error or without.\<close>

definition dry_item :: "hub \<Rightarrow> bindingDTO \<Rightarrow> trace \<Rightarrow> trace \<times> json \<times> bool" where
  "dry_item h b tr =
     (let base = (\<lambda>mode. [(''binding_id'', JStr (bdID b)), (''drive_id'', JStr (bdDriveID b)),
                         (''mount_point'', JStr (bdMountPoint b)), (''mode'', JStr mode)])
      in case issueSession h (bdID b) tr of (tr1, sess) \<Rightarrow>
        (case sess of
           Inl e \<Rightarrow> (tr1, JObj (base (trim_space (bdMode b)) @ opt_str ''error'' e), e = [])
         | Inr s \<Rightarrow>
             (let head0 = base (resolveMode (bdMode b) s) @ opt_str ''workspace'' (bundle_workspace s) @
                          opt_str ''session_source'' (trim_space (sbSource s));
                  dir = filepath_join (filepath_join (hb_state h) ''dry-run'') (bdID b);
                  conf = filepath_join dir ''rclone.conf''; body = msRcloneConf (bundle_mount_spec s);
                  tr2 = tr1 @ [MakeDir dir]; tr3 = tr2 @ [WriteText conf body]
              in if body = [] then (tr2, JObj (head0 @ [(''error'', JStr ''empty rclone_conf'')]), False)
                 else (case wd_write (hb_world h) tr2 conf of
                         Some e \<Rightarrow> (tr3, JObj (head0 @ opt_str ''error'' e), e = [])
                       | None \<Rightarrow>
                           (tr3 @ (case sbManifest s of
                                     Some j \<Rightarrow> [WriteJson (filepath_join dir ''manifest.json'') j] | None \<Rightarrow> []),
                            JObj (head0 @ [(''conf_path'', JStr conf)] @
                              opt (\<not> is_zero (sbExpiresAt s)) ''expires_at'' (JStr (hb_rfc3339 h (sbExpiresAt s)))), True)))))"

fun dry_items :: "hub \<Rightarrow> bindingDTO list \<Rightarrow> trace \<Rightarrow> trace \<times> (json \<times> bool) list" where
  "dry_items h [] tr = (tr, [])"
| "dry_items h (b # bs) tr =
     (case dry_item h b tr of (tr1, j, ok) \<Rightarrow> (case dry_items h bs tr1 of (tr2, rest) \<Rightarrow> (tr2, (j, ok) # rest)))"

definition is_conf :: "json \<Rightarrow> bool" where "is_conf j \<longleftrightarrow> key j ''conf_path'' \<noteq> JNull"

definition runHubdDryRun :: "hub \<Rightarrow> trace \<Rightarrow> trace \<times> int" where
  "runHubdDryRun h tr =
     (case listBindings h tr of (tr1, bs) \<Rightarrow>
        (case bs of
           Inl e \<Rightarrow> (tr1, 1)
         | Inr l \<Rightarrow>
             (case dry_items h (filter (\<lambda>b. bdDesired b = ''mounted'') l) tr1 of (tr2, items) \<Rightarrow>
                (tr2 @ [Print (JObj
                   [(''mode'', JStr ''dry-run''), (''device'', JStr (hb_device h)), (''api'', JStr (hb_api h)),
                    (''bindings'', if items = [] then JNull else JArr (map fst items)),
                    (''ok_count'', JNum (int (length (filter (\<lambda>x. is_conf (fst x)) items))))])],
                 if list_all snd items then 0 else 1))))"

definition runHubdCheck :: "host \<Rightarrow> int" where
  "runHubdCheck p = (if rpRcloneOK (Host_Check p) then 0 else 1)"

text \<open>The entry: the exit code of a mode that ends, or the error the process dies with.\<close>

definition hubd_main :: "hub \<Rightarrow> host \<Rightarrow> string list \<Rightarrow> nat \<Rightarrow> trace \<times> (string + int)" where
  "hubd_main h0 p argv ticks =
     (let md = parseHubdMode (hb_env h0) argv; rep = Host_Check p; start = [MakeDir (hb_state h0)];
          h = h0\<lparr>hb_rclone := or_text (rpRclonePath rep) ''rclone'', hb_winfsp := rpWinFspOK rep\<rparr>
      in if md = HModeHelp then ([], Inr 0)
         else if md = HModeCheck then ([], Inr (runHubdCheck p))
         else if hb_token h = [] then ([], Inl ''AI_CLOUDHUB_TOKEN required (except: hubd check)'')
         else if md = HModeDryRun then map_prod id Inr (runHubdDryRun h start)
         else if \<not> rpRcloneOK rep
         then (start, Inl (if rpInstallHint rep \<noteq> [] then ''runtimeenv: rclone required '' @ long_dash @ '' '' @ rpInstallHint rep
                           else ''runtimeenv: '' @ show_strings (rpErrors rep)))
         else if \<not> rpOK rep then (start, Inl (''runtimeenv: '' @ show_strings (rpErrors rep)))
         else (let st = reconcile h ([], start)
               in (if md = HModeOnce then shut_down h ''hubd once exit'' st
                   else shut_down h ''hubd shutdown'' (daemon_loop h ticks st), Inr 0)))"

section \<open>Traces only grow\<close>

definition grows :: "trace \<Rightarrow> trace \<Rightarrow> bool" where
  "grows tr tr' \<longleftrightarrow> (\<exists>as. tr' = tr @ as)"

lemma grows_refl [simp]: "grows tr tr"
  by (simp add: grows_def)

lemma grows_append [simp]: "grows tr (tr @ as)"
  by (simp add: grows_def)

lemma grows_trans: "grows a b \<Longrightarrow> grows b c \<Longrightarrow> grows a c"
  by (auto simp: grows_def)

lemma grows_append2: "grows a b \<Longrightarrow> grows a (b @ as)"
  by (auto simp: grows_def)

lemma grows_in: "grows tr tr' \<Longrightarrow> a \<in> set tr \<Longrightarrow> a \<in> set tr'"
  by (auto simp: grows_def)

lemma hub_send_grows: "hub_send h meth path payload tr = (tr', a) \<Longrightarrow> grows tr tr'"
  by (auto simp: hub_send_def Let_def)

lemma requests_grow:
  "grows tr (fst (reportActual h i actual e tr))" "grows tr (fst (postBarrier h d tr))"
  "grows tr (fst (issueSession h i tr))" "grows tr (fst (refreshSession h tok d tr))" "grows tr (fst (listBindings h tr))"
  by (auto simp: reportActual_def postBarrier_def issueSession_def refreshSession_def listBindings_def
      dest: hub_send_grows split: prod.splits)

lemma report_loop_grows: "grows tr (fst (report_loop h i actual e n tr))"
proof (induction n arbitrary: tr)
  case 0
  show ?case by simp
next
  case (Suc n)
  obtain tr1 err where r: "reportActual h i actual e tr = (tr1, err)" by fastforce
  then have g: "grows tr tr1" using requests_grow(1) [of tr h i actual e] by simp
  have "grows tr (tr1 @ [Pause])" by (rule grows_append2 [OF g])
  with Suc [of "tr1 @ [Pause]"] have "grows tr (fst (report_loop h i actual e n (tr1 @ [Pause])))" by (rule grows_trans [rotated])
  with r g \<open>grows tr (tr1 @ [Pause])\<close> show ?case by (simp split: option.split)
qed

lemma report_mounted_grows: "grows tr (report_mounted h i tr)"
proof -
  obtain tr1 err where r: "reportActualRetry h i ''mounted'' [] 3 tr = (tr1, err)" by fastforce
  have g: "grows tr tr1" using report_loop_grows [of tr h i "''mounted''" "[]" "nat 3"] r by (simp add: reportActualRetry_def)
  have "grows tr1 (fst (reportActualRetry h i ''error'' e 2 tr1))" for e
    unfolding reportActualRetry_def by (rule report_loop_grows)
  with r g show ?thesis by (auto simp: report_mounted_def intro: grows_trans split: option.split)
qed

lemma stop_grows: "grows tr (stop_actions h mp tr)"
  by (simp add: stop_actions_def Let_def)

lemma await_grows: "grows tr (fst (await_mount h p n tr))"
proof (induction n arbitrary: tr)
  case 0
  show ?case by (subst await_mount.simps) (simp split: option.split)
next
  case (Suc n)
  have "grows tr (fst (await_mount h p n (tr @ [Pause])))" by (rule grows_trans [OF grows_append Suc])
  then show ?case by (subst await_mount.simps) (simp split: option.split)
qed

lemma write_session_grows: "grows tr (fst (write_session h dir s tr))"
  by (simp add: write_session_def Let_def split: option.split)

lemma start_process_grows: "grows tr (fst (start_process h mp tr))"
proof -
  obtain tr2 up where w: "await_mount h (mpMountPoint mp) 38 (tr @ [Background (hub_mount_command h mp)]) = (tr2, up)"
    by fastforce
  have "grows (tr @ [Background (hub_mount_command h mp)]) tr2"
    using await_grows [of "tr @ [Background (hub_mount_command h mp)]" h "mpMountPoint mp" 38] w by simp
  then have g: "grows tr tr2" by (rule grows_trans [OF grows_append])
  from g stop_grows have "grows tr (stop_actions h m tr2)" for m by (rule grows_trans)
  with g w show ?thesis by (simp add: start_process_def Let_def split: option.split mount_wait.split)
qed

lemma startMount_grows: "grows tr (fst (startMount h i s mode tr))"
proof -
  obtain tr1 err where w: "write_session h (filepath_join (hb_state h) i) s tr = (tr1, err)" by fastforce
  have g: "grows tr tr1" using write_session_grows [of tr h _ s] w by (metis fst_conv)
  have "grows tr (fst (start_process h mp tr1))" "grows tr (fst (start_process h mp (tr1 @ [a])))" for mp a
    by (rule grows_trans [OF g start_process_grows], rule grows_trans [OF grows_append2 [OF g] start_process_grows])
  with g w grows_append2 [OF g] show ?thesis
    by (simp add: startMount_def Let_def split: option.split if_split)
qed

section \<open>What a pass achieves\<close>

text \<open>An error of a binding was reported.\<close>

definition error_reported :: "hub \<Rightarrow> string \<Rightarrow> trace \<Rightarrow> bool" where
  "error_reported h i tr \<longleftrightarrow>
     (\<exists>c e. Request c \<in> set tr \<and> hcURL c = hb_api h @ ''/v1/bindings/'' @ i @ ''/report'' \<and>
            hcPayload c = Some (JObj [(''actual'', JStr ''error''), (''last_error'', JStr e)]))"

lemma error_report_reports: "error_reported h i (snd (report_error h i e st))"
  by (fastforce simp: error_reported_def report_error_def reportActual_def hub_send_def Let_def)

lemma error_reported_grows: "grows tr tr' \<Longrightarrow> error_reported h i tr \<Longrightarrow> error_reported h i tr'"
  by (auto simp: error_reported_def dest: grows_in)

lemma report_error_simps [simp]: "fst (report_error h i e st) = fst st"
  by (simp add: report_error_def)

lemma report_error_grows: "grows (snd st) (snd (report_error h i e st))"
  by (simp add: report_error_def requests_grow)

text \<open>
  A step on one binding leaves the other ones alone, extends the trace, and ends with the binding mounted
  or its error reported.
\<close>

definition tended :: "hub \<Rightarrow> string \<Rightarrow> hub_state \<Rightarrow> hub_state \<Rightarrow> bool" where
  "tended h i st st' \<longleftrightarrow>
     (\<forall>k. k \<noteq> i \<longrightarrow> gget (fst st') k = gget (fst st) k) \<and> grows (snd st) (snd st') \<and>
     (gget (fst st') i \<noteq> None \<or> error_reported h i (snd st'))"

lemma stop_binding_keeps:
  "k \<noteq> i \<Longrightarrow> gget (fst (stop_binding h i st)) k = gget (fst st) k" "grows (snd st) (snd (stop_binding h i st))"
  by (auto simp: stop_binding_def delete_conv' stop_grows split: prod.split option.split)

lemma remount_tended: "tended h i st (remount h i b st)"
proof -
  obtain active tr where s: "stop_binding h i st = (active, tr)" by fastforce
  from stop_binding_keeps(1) [where i = i and h = h and st = st] stop_binding_keeps(2) [where i = i and h = h and st = st] s
  have k: "k \<noteq> i \<Longrightarrow> gget active k = gget (fst st) k" and g: "grows (snd st) tr" for k by auto
  obtain tr1 sess where i: "issueSession h i tr = (tr1, sess)" by fastforce
  have g1: "grows (snd st) tr1" using grows_trans [OF g requests_grow(3), of h i] i by simp
  have err: "tended h i st (report_error h i e (active, t))" if "grows (snd st) t" for e t
    using k error_report_reports [of h i e "(active, t)"] grows_trans [OF that] report_error_grows [of "(active, t)" h i e]
    by (simp add: tended_def)
  show ?thesis
  proof (cases sess)
    case (Inl e)
    with s i err [OF g1] show ?thesis by (simp add: remount_def)
  next
    case (Inr sb)
    obtain tr2 started where m: "startMount h i sb (resolveMode (bdMode b) sb) tr1 = (tr2, started)" by fastforce
    have g2: "grows (snd st) tr2" using grows_trans [OF g1 startMount_grows] m by (metis fst_conv)
    show ?thesis
    proof (cases started)
      case (Inl e)
      with s i m \<open>sess = Inr sb\<close> err [OF g2] show ?thesis by (simp add: remount_def)
    next
      case (Inr mp)
      with s i m \<open>sess = Inr sb\<close> k grows_trans [OF g2 report_mounted_grows] show ?thesis
        by (simp add: remount_def tended_def update_conv')
    qed
  qed
qed

lemma tended_after:
  assumes "\<And>k. k \<noteq> i \<Longrightarrow> gget (fst st1) k = gget (fst st) k" "grows (snd st) (snd st1)" "tended h i st1 st'"
  shows "tended h i st st'"
  using assms by (auto simp: tended_def intro: grows_trans)

lemma soft_refresh_grows: "soft_refresh h mp tr = (tr', m) \<Longrightarrow> grows tr tr'"
  using requests_grow(4) [of tr h "mpSessionToken mp" "mpDriveID mp"]
  by (auto simp: soft_refresh_def Let_def intro: grows_append2 split: prod.splits sum.splits if_splits)

lemma refresh_tended: "tended h i st (refresh_binding h i b mp st)"
proof -
  obtain active tr where st: "st = (active, tr)" by fastforce
  obtain tr1 fresh where f: "soft_refresh h mp tr = (tr1, fresh)" by fastforce
  note g = soft_refresh_grows [OF f]
  have none: "tended h i st (remount h i b (active, tr1))"
    by (rule tended_after [OF _ _ remount_tended]) (simp_all add: st g)
  have some: "tended h i st (remount h i b (gset i m active, tr1))" for m
    by (rule tended_after [OF _ _ remount_tended]) (simp_all add: st g update_conv')
  have keep: "tended h i st (gset i m active, tr1)" for m by (simp add: tended_def st g update_conv')
  from f none some keep remount_tended [of h i st b] show ?thesis
    by (simp add: refresh_binding_def st Let_def split: option.split)
qed

lemma restart_tended: "tended h i st (remount h i b (stop_binding h i (report_error h i e st)))"
proof (rule tended_after [OF _ _ remount_tended])
  show "k \<noteq> i \<Longrightarrow> gget (fst (stop_binding h i (report_error h i e st))) k = gget (fst st) k" for k
    by (simp add: stop_binding_keeps)
  show "grows (snd st) (snd (stop_binding h i (report_error h i e st)))"
    by (rule grows_trans [OF report_error_grows stop_binding_keeps(2)])
qed

lemma tend_tended: "tended h i st (tend h (i, b) st)"
proof -
  obtain active tr where st: "st = (active, tr)" by fastforce
  have stay: "tended h i st st" if "gget active i = Some mp" for mp using that by (simp add: tended_def st)
  from remount_tended [of h i st b] refresh_tended [of h i st b] restart_tended [of h i st b] stay show ?thesis
    by (simp add: tend_def st split: option.split)
qed

definition all_tended :: "hub \<Rightarrow> string set \<Rightarrow> hub_state \<Rightarrow> hub_state \<Rightarrow> bool" where
  "all_tended h I st st' \<longleftrightarrow>
     (\<forall>k. k \<notin> I \<longrightarrow> gget (fst st') k = gget (fst st) k) \<and> grows (snd st) (snd st') \<and>
     (\<forall>k \<in> I. gget (fst st') k \<noteq> None \<or> error_reported h k (snd st'))"

lemma all_tended_step:
  assumes t: "tended h i st st1" and r: "all_tended h I st1 st'"
  shows "all_tended h (insert i I) st st'"
proof -
  have "gget (fst st') i \<noteq> None \<or> error_reported h i (snd st')"
  proof (cases "i \<in> I")
    case True
    with r show ?thesis by (simp add: all_tended_def)
  next
    case False
    with r have "gget (fst st') i = gget (fst st1) i" "grows (snd st1) (snd st')" by (simp_all add: all_tended_def)
    with t show ?thesis using error_reported_grows by (auto simp: tended_def)
  qed
  moreover have "grows (snd st) (snd st')"
    using t r by (auto simp: tended_def all_tended_def intro: grows_trans)
  ultimately show ?thesis using t r by (simp add: tended_def all_tended_def)
qed

lemma tend_all: "all_tended h (fst ` set want) st (fold (tend h) want st)"
proof (induction want arbitrary: st)
  case Nil
  show ?case by (simp add: all_tended_def)
next
  case (Cons ib want)
  obtain i b where ib: "ib = (i, b)" by fastforce
  from all_tended_step [OF tend_tended Cons] show ?case by (simp add: ib)
qed

lemma wanted_keys: "i \<in> fst ` set (wanted l) \<longleftrightarrow> (\<exists>b \<in> set l. bdID b = i \<and> bdDesired b = ''mounted'')"
proof -
  have "fst ` set (fold (\<lambda>b m. gset (bdID b) b m) bs m) = bdID ` set bs \<union> fst ` set m"
    for bs :: "bindingDTO list" and m
  proof (induction bs arbitrary: m)
    case (Cons b bs)
    have "fst ` set (gset (bdID b) b m) = insert (bdID b) (fst ` set m)"
      using dom_update [of "bdID b" b m] by (simp add: dom_map_of_conv_image_fst)
    with Cons show ?case by auto
  qed simp
  from this [of "filter (\<lambda>b. bdDesired b = ''mounted'') l" "[]"] show ?thesis by (auto simp: wanted_def)
qed

lemma kept_keys: "gget want i = None \<Longrightarrow> gget (filter (\<lambda>imp. gget want (fst imp) \<noteq> None) active) i = None"
  by (induction active) auto

text \<open>C38: After a pass of the daemon that could list the bindings, only bindings with desired state mounted are kept active, and each of them is active or its error was reported to the control plane.\<close>

theorem reconcile_follows_desired:
  assumes "listBindings h tr = (tr1, Inr l)" "reconcile h (active, tr) = (active', tr')"
  shows "(gget active' i \<noteq> None \<longrightarrow> (\<exists>b \<in> set l. bdID b = i \<and> bdDesired b = ''mounted'')) \<and>
         ((\<exists>b \<in> set l. bdID b = i \<and> bdDesired b = ''mounted'') \<longrightarrow> gget active' i \<noteq> None \<or> error_reported h i tr')"
proof -
  let ?st = "drop_unwanted h (wanted l) (active, tr1)"
  have r: "fold (tend h) (wanted l) ?st = (active', tr')" using assms by (simp add: reconcile_def)
  note t = tend_all [of h "wanted l" ?st, unfolded r all_tended_def fst_conv snd_conv]
  have "gget active' i = None" if "i \<notin> fst ` set (wanted l)"
  proof -
    have "gget (wanted l) i = None" using that by (simp add: map_of_eq_None_iff)
    with kept_keys [of "wanted l" i active] have "gget (fst ?st) i = None" unfolding drop_unwanted_def by simp
    with t that show ?thesis by simp
  qed
  with t show ?thesis by (metis wanted_keys)
qed

text \<open>A pass over a wanted binding that cannot be mounted and an active one that is no longer wanted.\<close>

definition demo_hub :: hub where
  "demo_hub =
     \<lparr>hb_api = ''http://hub'', hb_token = ''tok'', hb_device = ''dev'', hb_state = ''/s'', hb_rclone = [], hb_winfsp = False,
      hb_windows = False, hb_env = (\<lambda>k. []),
      hb_world = demo_world
        \<lparr>wd_http := (\<lambda>tr c. if hcMethod c = ''GET'' then \<lparr>rpBody = ''list'', rpStatus = 200, rpError = None\<rparr>
                            else \<lparr>rpBody = ''down'', rpStatus = 500, rpError = None\<rparr>),
         wd_codec := \<lparr>cd_parse = (\<lambda>b. Inr (JObj [(''items'', JArr
             [JObj [(''id'', JStr ''b1''), (''desired'', JStr ''mounted'')],
              JObj [(''id'', JStr ''b2''), (''desired'', JStr ''unmounted'')]])])),
           cd_indent = (\<lambda>j. []), cd_mismatch = (\<lambda>j. [])\<rparr>\<rparr>,
      hb_now = (\<lambda>tr. 0), hb_late = (\<lambda>tr. True), hb_exited = (\<lambda>tr p. None), hb_unreadable = (\<lambda>tr p. False),
      hb_instant = (\<lambda>v. None), hb_rfc3339 = (\<lambda>t. [])\<rparr>"

definition demo_mount :: mount_proc where
  "demo_mount =
     \<lparr>mpCmd = True, mpExpiresAt = 0, mpDriveID = ''d2'', mpMode = ''mount'', mpBindingMode = [], mpConfPath = ''/s/c'',
      mpRemotePath = ''r:b'', mpMountPoint = ''/m'', mpSessionToken = []\<rparr>"

definition demo_pass :: hub_state where
  "demo_pass = reconcile demo_hub ([(''b2'', demo_mount)], [])"

lemma demo_bindings:
  "map_sum id (map (\<lambda>b. (bdID b, bdDesired b))) (snd (listBindings demo_hub [])) =
     Inr [(''b1'', ''mounted''), (''b2'', ''unmounted'')]"
  by code_simp

lemma demo_active: "map fst (fst demo_pass) = []"
  by code_simp

theorem reconcile_follows_desired_witness:
  "gget (fst demo_pass) ''b2'' = None \<and> error_reported demo_hub ''b1'' (snd demo_pass)"
proof -
  obtain tr1 r where lb: "listBindings demo_hub [] = (tr1, r)" by fastforce
  then obtain l where l: "r = Inr l" "map (\<lambda>b. (bdID b, bdDesired b)) l = [(''b1'', ''mounted''), (''b2'', ''unmounted'')]"
    using demo_bindings by (cases r) auto
  obtain active tr' where p: "demo_pass = (active, tr')" by fastforce
  have f: "fst demo_pass = active" "snd demo_pass = tr'" by (simp_all only: p fst_conv snd_conv)
  have none: "active = []" using demo_active unfolding f by simp
  from l(2) have "hd l \<in> set l" "bdID (hd l) = ''b1''" "bdDesired (hd l) = ''mounted''" by auto
  with reconcile_follows_desired [OF lb [unfolded l(1)] p [unfolded demo_pass_def], of "''b1''"]
  show ?thesis unfolding f none by auto
qed

section \<open>What the daemon does wrong\<close>

text \<open>
  The barrier of an unmounted binding says that its writes are flushed, whether the last
  synchronisation of the workspace to the drive succeeded or not.
\<close>

lemma barrier_whatever_the_push:
  assumes "mpDriveID mp \<noteq> []"
  shows "\<exists>c. Request c \<in> set (release h note (i, mp) tr) \<and> hcURL c = hb_api h @ ''/v1/drives/'' @ mpDriveID mp @ ''/barrier'' \<and>
             (\<exists>rest. hcPayload c = Some (JObj ((''status'', JStr ''ok'') # rest)))"
proof -
  let ?tr = "fst (postBarrier h (mpDriveID mp) (stop_actions h mp tr))"
  have "grows ?tr (release h note (i, mp) tr)" by (simp add: release_def requests_grow)
  moreover have "\<exists>c. Request c \<in> set ?tr \<and> hcURL c = hb_api h @ ''/v1/drives/'' @ mpDriveID mp @ ''/barrier'' \<and>
      (\<exists>rest. hcPayload c = Some (JObj ((''status'', JStr ''ok'') # rest)))"
    using assms by (fastforce simp: postBarrier_def hub_send_def Let_def)
  ultimately show ?thesis using grows_in by blast
qed

end
