(* ===== verification/Metrics.thy ===== *)
theory Metrics
  imports Cloud_Prelude
begin

text \<open>
  The counters of the control plane and their text exposition (\<open>internal/metrics/metrics.go\<close>). Every atomic
  variable is a value of \<open>metric\<close>; the state gives each its 64-bit value, and an addition wraps.
  Each increment is one atomic step, so the interleaving of requests is a sequence of them.
\<close>

section \<open>Counters\<close>

datatype metric =
    HTTPRequests | SessionsIssued | JobsCreated | JobsClaimed | JobsCompleted | JobsCancelled | RateLimited
  | STSEmbedded | STSRefresh | STSMinio | STSAWS | STSS3 | STSAliyun | STSTencent | STSQiniu | STSOracle
  | STSQiniuDownload | STSOCIIAM | STSOCIPAR | STSOCISecret | Snapshots | MarketplaceInstalls
  | MarketplaceCheckouts | MarketplacePaid | ConnectorsCreated | MemoryPuts | MemorySearches
  | JobsWithConnector | JobsCompletedConn | JobsTimeout | JobsLeaseReclaim | JobsMaxAttempts | JobsHeartbeat
  | JobsWebhookOK | JobsWebhookFail | JobsWebhookDead | JobsWebhookPurged | JobsWebhookPendingGauge
  | JobsWebhookDeliveredGauge | JobsWebhookDeadGauge | JobsRunningGauge | JobsPendingGauge
  | JobsDispatchedGauge | JobsSucceededGauge | JobsFailedGauge | JobsCancelledGauge | JobsPurged

type_synonym counters = "metric \<Rightarrow> 64 word"

definition no_counts :: counters where "no_counts m = 0"

definition add_metric :: "metric \<Rightarrow> 64 word \<Rightarrow> counters \<Rightarrow> counters" where
  "add_metric m n c = c(m := c m + n)"

definition store_metric :: "metric \<Rightarrow> 64 word \<Rightarrow> counters \<Rightarrow> counters" where
  "store_metric m n c = c(m := n)"

definition IncHTTP :: "counters \<Rightarrow> counters" where "IncHTTP = add_metric HTTPRequests 1"
definition IncSession :: "counters \<Rightarrow> counters" where "IncSession = add_metric SessionsIssued 1"
definition IncJobCreated :: "counters \<Rightarrow> counters" where "IncJobCreated = add_metric JobsCreated 1"
definition IncJobClaimed :: "counters \<Rightarrow> counters" where "IncJobClaimed = add_metric JobsClaimed 1"
definition IncJobCompleted :: "counters \<Rightarrow> counters" where "IncJobCompleted = add_metric JobsCompleted 1"
definition IncJobCancelled :: "counters \<Rightarrow> counters" where "IncJobCancelled = add_metric JobsCancelled 1"
definition IncRateLimited :: "counters \<Rightarrow> counters" where "IncRateLimited = add_metric RateLimited 1"
definition IncSnapshot :: "counters \<Rightarrow> counters" where "IncSnapshot = add_metric Snapshots 1"
definition IncMarketplaceInstall :: "counters \<Rightarrow> counters" where "IncMarketplaceInstall = add_metric MarketplaceInstalls 1"
definition IncMarketplaceCheckout :: "counters \<Rightarrow> counters" where "IncMarketplaceCheckout = add_metric MarketplaceCheckouts 1"
definition IncMarketplacePaid :: "counters \<Rightarrow> counters" where "IncMarketplacePaid = add_metric MarketplacePaid 1"
definition IncConnectorCreated :: "counters \<Rightarrow> counters" where "IncConnectorCreated = add_metric ConnectorsCreated 1"
definition IncMemoryPut :: "counters \<Rightarrow> counters" where "IncMemoryPut = add_metric MemoryPuts 1"
definition IncMemorySearch :: "counters \<Rightarrow> counters" where "IncMemorySearch = add_metric MemorySearches 1"
definition IncJobWithConnector :: "counters \<Rightarrow> counters" where "IncJobWithConnector = add_metric JobsWithConnector 1"
definition IncJobCompletedWithConnector :: "counters \<Rightarrow> counters" where "IncJobCompletedWithConnector = add_metric JobsCompletedConn 1"
definition IncJobTimeout :: "counters \<Rightarrow> counters" where "IncJobTimeout = add_metric JobsTimeout 1"
definition IncJobLeaseReclaim :: "counters \<Rightarrow> counters" where "IncJobLeaseReclaim = add_metric JobsLeaseReclaim 1"
definition IncJobMaxAttempts :: "counters \<Rightarrow> counters" where "IncJobMaxAttempts = add_metric JobsMaxAttempts 1"
definition IncJobHeartbeat :: "counters \<Rightarrow> counters" where "IncJobHeartbeat = add_metric JobsHeartbeat 1"
definition IncJobWebhook :: "counters \<Rightarrow> counters" where "IncJobWebhook = add_metric JobsWebhookOK 1"
definition IncJobWebhookFail :: "counters \<Rightarrow> counters" where "IncJobWebhookFail = add_metric JobsWebhookFail 1"
definition IncJobWebhookDead :: "counters \<Rightarrow> counters" where "IncJobWebhookDead = add_metric JobsWebhookDead 1"

definition source_metric :: "string \<Rightarrow> metric" where
  "source_metric source =
     (case map_of [(''minio_sts'', STSMinio), (''aws_sts'', STSAWS), (''s3_sts'', STSS3), (''aliyun_sts'', STSAliyun),
        (''tencent_sts'', STSTencent), (''qiniu_sts'', STSQiniu), (''oracle_sts'', STSOracle), (''qiniu_download'', STSQiniuDownload),
        (''oci_iam'', STSOCIIAM), (''oci_par'', STSOCIPAR), (''oci_secret'', STSOCISecret), (''refresh'', STSRefresh)] source of
        Some m \<Rightarrow> m | None \<Rightarrow> STSEmbedded)"

definition IncSTSSource :: "string \<Rightarrow> counters \<Rightarrow> counters" where
  "IncSTSSource source = add_metric (source_metric source) 1"

definition AddJobWebhookPurged :: "64 word \<Rightarrow> counters \<Rightarrow> counters" where
  "AddJobWebhookPurged n c = (if n > 0 then add_metric JobsWebhookPurged n c else c)"

definition AddJobsPurged :: "64 word \<Rightarrow> counters \<Rightarrow> counters" where
  "AddJobsPurged n c = (if n > 0 then add_metric JobsPurged n c else c)"

definition SetWebhookOutboxGauges :: "64 word \<Rightarrow> 64 word \<Rightarrow> 64 word \<Rightarrow> counters \<Rightarrow> counters" where
  "SetWebhookOutboxGauges pending delivered dead c =
     store_metric JobsWebhookDeadGauge dead
       (store_metric JobsWebhookDeliveredGauge delivered (store_metric JobsWebhookPendingGauge pending c))"

definition SetJobStatusGauges :: "64 word \<Rightarrow> 64 word \<Rightarrow> 64 word \<Rightarrow> 64 word \<Rightarrow> 64 word \<Rightarrow> counters \<Rightarrow> counters" where
  "SetJobStatusGauges pending running succeeded failed cancelled c =
     store_metric JobsCancelledGauge cancelled (store_metric JobsFailedGauge failed
       (store_metric JobsSucceededGauge succeeded (store_metric JobsRunningGauge running
         (store_metric JobsPendingGauge pending c))))"

definition SetJobDispatchedGauge :: "64 word \<Rightarrow> counters \<Rightarrow> counters" where
  "SetJobDispatchedGauge n c = store_metric JobsDispatchedGauge n c"

section \<open>Exposition\<close>

text \<open>A family of samples: its name, help text and type, and its samples with the value of the label \<open>source\<close>.\<close>

datatype family = Family string string string "(string \<times> metric) list"

definition sts_samples :: "(string \<times> metric) list" where
  "sts_samples =
     [(''embedded'', STSEmbedded), (''refresh'', STSRefresh), (''minio_sts'', STSMinio), (''aws_sts'', STSAWS),
      (''s3_sts'', STSS3), (''aliyun_sts'', STSAliyun), (''tencent_sts'', STSTencent), (''qiniu_sts'', STSQiniu),
      (''oracle_sts'', STSOracle), (''qiniu_download'', STSQiniuDownload), (''oci_iam'', STSOCIIAM), (''oci_par'', STSOCIPAR),
      (''oci_secret'', STSOCISecret)]"

definition request_families :: "family list" where
  "request_families =
     [Family ''aicloudhub_http_requests_total'' ''Authenticated and public HTTP hits tracked'' ''counter'' [([], HTTPRequests)],
      Family ''aicloudhub_sessions_issued_total'' ''Mount STS sessions issued'' ''counter'' [([], SessionsIssued)],
      Family ''aicloudhub_sts_source_total'' ''Sessions by STS source'' ''counter'' sts_samples,
      Family ''aicloudhub_jobs_created_total'' ''BYOC jobs created'' ''counter'' [([], JobsCreated)],
      Family ''aicloudhub_jobs_claimed_total'' ''BYOC jobs claimed'' ''counter'' [([], JobsClaimed)],
      Family ''aicloudhub_jobs_completed_total'' ''BYOC jobs completed'' ''counter'' [([], JobsCompleted)],
      Family ''aicloudhub_jobs_cancelled_total'' ''BYOC jobs cancelled'' ''counter'' [([], JobsCancelled)],
      Family ''aicloudhub_rate_limited_total'' ''Rate limited requests'' ''counter'' [([], RateLimited)],
      Family ''aicloudhub_snapshots_created_total'' ''Metadata snapshots created'' ''counter'' [([], Snapshots)],
      Family ''aicloudhub_marketplace_installs_total'' ''Marketplace installs succeeded'' ''counter'' [([], MarketplaceInstalls)],
      Family ''aicloudhub_marketplace_checkouts_total'' ''Marketplace checkouts created'' ''counter'' [([], MarketplaceCheckouts)],
      Family ''aicloudhub_marketplace_paid_total'' ''Marketplace purchases marked paid'' ''counter'' [([], MarketplacePaid)],
      Family ''aicloudhub_connectors_created_total'' ''Connector bindings registered'' ''counter'' [([], ConnectorsCreated)],
      Family ''aicloudhub_memory_puts_total'' ''Memory Kernel puts'' ''counter'' [([], MemoryPuts)],
      Family ''aicloudhub_memory_searches_total'' ''Memory vector searches'' ''counter'' [([], MemorySearches)],
      Family ''aicloudhub_jobs_with_connector_created_total'' ''Jobs created with connector_id'' ''counter'' [([], JobsWithConnector)],
      Family ''aicloudhub_jobs_completed_with_connector_total'' ''Jobs completed that had connector_id'' ''counter'' [([], JobsCompletedConn)]]"

definition job_families :: "family list" where
  "job_families =
     [Family ''aicloudhub_jobs_timeout_total'' ''BYOC jobs failed by hard timeout'' ''counter'' [([], JobsTimeout)],
      Family ''aicloudhub_jobs_lease_reclaim_total'' ''Running jobs released to pending after lease expiry'' ''counter'' [([], JobsLeaseReclaim)],
      Family ''aicloudhub_jobs_max_attempts_total'' ''Jobs failed after max_attempts on lease expiry'' ''counter'' [([], JobsMaxAttempts)],
      Family ''aicloudhub_jobs_heartbeat_total'' ''Successful job lease heartbeats'' ''counter'' [([], JobsHeartbeat)],
      Family ''aicloudhub_jobs_webhook_ok_total'' ''Terminal job webhooks delivered (HTTP <300)'' ''counter'' [([], JobsWebhookOK)],
      Family ''aicloudhub_jobs_webhook_fail_total'' ''Terminal job webhook delivery attempts that failed'' ''counter'' [([], JobsWebhookFail)],
      Family ''aicloudhub_jobs_webhook_dead_total'' ''Terminal job webhooks moved to dead after max attempts'' ''counter'' [([], JobsWebhookDead)],
      Family ''aicloudhub_jobs_webhook_purged_total'' ''Terminal job webhook outbox rows deleted by TTL purge'' ''counter'' [([], JobsWebhookPurged)],
      Family ''aicloudhub_jobs_webhook_pending'' ''Job webhook outbox rows currently pending delivery'' ''gauge'' [([], JobsWebhookPendingGauge)],
      Family ''aicloudhub_jobs_webhook_delivered'' ''Job webhook outbox rows currently delivered (not yet purged)'' ''gauge'' [([], JobsWebhookDeliveredGauge)],
      Family ''aicloudhub_jobs_webhook_dead'' ''Job webhook outbox rows currently dead-lettered (not yet purged)'' ''gauge'' [([], JobsWebhookDeadGauge)],
      Family ''aicloudhub_jobs_pending'' ''Current BYOC jobs in pending status'' ''gauge'' [([], JobsPendingGauge)],
      Family ''aicloudhub_jobs_dispatched'' ''Current BYOC jobs in dispatched status'' ''gauge'' [([], JobsDispatchedGauge)],
      Family ''aicloudhub_jobs_running'' ''Current BYOC jobs in running status'' ''gauge'' [([], JobsRunningGauge)],
      Family ''aicloudhub_jobs_succeeded'' ''Current BYOC jobs in succeeded status'' ''gauge'' [([], JobsSucceededGauge)],
      Family ''aicloudhub_jobs_failed'' ''Current BYOC jobs in failed status'' ''gauge'' [([], JobsFailedGauge)],
      Family ''aicloudhub_jobs_cancelled'' ''Current BYOC jobs in cancelled status'' ''gauge'' [([], JobsCancelledGauge)],
      Family ''aicloudhub_jobs_purged_total'' ''Terminal jobs deleted by TTL purge'' ''counter'' [([], JobsPurged)]]"

definition sample_name :: "string \<Rightarrow> string \<Rightarrow> string" where
  "sample_name n label = (if label = [] then n else n @ ''{source='' @ quoted label @ ''}'')"

definition sample_line :: "counters \<Rightarrow> string \<Rightarrow> string \<times> metric \<Rightarrow> string" where
  "sample_line c n s = sample_name n (fst s) @ '' '' @ show_int (uint (c (snd s))) @ newline"

fun family_text :: "counters \<Rightarrow> family \<Rightarrow> string" where
  "family_text c (Family n h k ss) =
     ''# HELP '' @ n @ '' '' @ h @ newline @ ''# TYPE '' @ n @ '' '' @ k @ newline @ concat (map (sample_line c n) ss)"

definition Metrics_Handler :: "counters \<Rightarrow> string" where
  "Metrics_Handler c = concat (map (family_text c) (request_families @ job_families))"

section \<open>Facts\<close>

fun family_metrics :: "family \<Rightarrow> metric list" where
  "family_metrics (Family n h k ss) = map snd ss"

lemmas family_defs = request_families_def job_families_def sts_samples_def

text \<open>Every counter is exposed, and none twice.\<close>

lemma every_metric_exposed: "m \<in> set (concat (map family_metrics (request_families @ job_families)))"
  by (cases m) (simp_all add: family_defs)

lemma no_metric_twice: "distinct (concat (map family_metrics (request_families @ job_families)))"
  by (simp add: family_defs)

text \<open>A session counts for one source, and for none of the other counters.\<close>

lemma source_metric_exposed: "source_metric source \<in> snd ` set sts_samples"
  by (auto simp: source_metric_def sts_samples_def split: option.split dest!: map_of_SomeD)

lemma source_counted_once:
  "IncSTSSource source c m = (if m = source_metric source then c m + 1 else c m)"
  by (simp add: IncSTSSource_def add_metric_def)

end
