(* ===== verification/Spec2Isabelle.thy ===== *)
theory Spec2Isabelle
  imports Job_Properties Queue_Properties Store_Accounts Store_Resources Store_StageC
    Auth_Properties Policy_Properties Agent_Properties Sqlite_Properties Provider_Properties Drive_Properties
    Sts_Properties Connector_Service Memory_Kernel Market_Properties Sandbox_Env Sandbox_Path Workspace_Service
    Config_Load Api_Properties Postgres_Properties
    Mcp_Server Hubd_Daemon Metrics
begin

text \<open>
  The control plane of AI-cloudhub (\<open>cmd/api\<close> with the packages under \<open>internal\<close>): an HTTP API that
  keeps accounts, agent principals, drives on object stores the users own, mount sessions, and a queue of
  jobs that runners on the users' own machines claim. The control plane executes nothing itself.

  \<^bold>\<open>The program and its model.\<close> A request passes the middleware and the routing table, a handler checks
  token, scope and policy, calls services, and the services call a store. The model has the same layers.
  Every operation is a function of the state and its arguments that returns the new state with a result;
  an error of the source is a value of \<open>go_error\<close> (left of the sum), an HTTP answer is a status with a
  text or a value. A Go map is an association list with distinct keys (\<open>gomap\<close>), a struct is a record of
  the same fields, a nil slice is the empty list, an optional pointer an \<open>option\<close>.

  \<^item> \<open>Cloud_Prelude\<close>, \<open>Json_Value\<close>, \<open>Codec_Base64\<close>: byte strings, \<open>strings\<close> and \<open>strconv\<close> calls,
    instants and 64-bit durations, Go maps, stable sorting, JSON values, RawURL Base64.
  \<^item> \<open>Store_Types\<close> (\<open>store/store.go\<close>), \<open>Store_Accounts\<close>, \<open>Store_Resources\<close>, \<open>Store_Jobs\<close>,
    \<open>Store_StageC\<close>: the in-memory store (\<open>store/memory.go\<close>), one record of maps, every operation.
    \<open>Store_Interface\<close> states the contract of a table owned by users (\<open>owned_get\<close> and its extensions),
    interpreted on drives, bindings, devices, providers and snapshots.
  \<^item> \<open>Sql_Table\<close>, \<open>Sqlite_Accounts\<close>, \<open>Sqlite_Resources\<close>, \<open>Sqlite_Jobs\<close>: the statements of
    \<open>store/sqlite.go\<close> on tables with keys and unique indexes. \<open>Sqlite_Simulation\<close>, \<open>Sqlite_Refinement\<close>,
    \<open>Sqlite_Order\<close>, \<open>Sqlite_Properties\<close> prove that each call and read agrees with the in-memory store,
    where it does: listings that cut before they filter agree while their rows fit the limit, and job
    pages agree for instants written with all their digits.
  \<^item> \<open>Postgres_Store\<close>, \<open>Postgres_Properties\<close>: the same operations as \<open>store/postgres.go\<close>
    writes them, on the same tables, with what that database does differently: instants are kept to
    the microsecond, integer columns have 32 bits and refuse what does not fit, strings are compared under
    a collation, a claim locks its row. Where the values fit, each call agrees with the in-memory store.
  \<^item> \<open>Job_Core\<close>, \<open>Job_Lifecycle\<close>, \<open>Job_Webhooks\<close> (\<open>job/service.go\<close>): settings, creation, claims, leases,
    completion, cancellation, reclaim, the webhook outbox. \<open>Job_Machine\<close> is the abstract state machine of a
    job and its outbox rows; \<open>Job_Refinement\<close> shows that every call of the service is a run of it;
    \<open>Job_Facts\<close> and \<open>Job_Behaviour\<close> hold what single calls and delivery passes achieve; \<open>Job_Properties\<close>
    and \<open>Queue_Properties\<close> the properties, the latter with the order of the queue, the ends of a lease and
    the schedule of a refused delivery written out in the statements.
  \<^item> \<open>Auth_Service\<close> (\<open>auth/*.go\<close>): accounts, bearer tokens, refresh tokens, roles. \<open>Auth_Machine\<close> shows
    what no sequence of calls undoes, \<open>Auth_Properties\<close> the properties. Account calls are atomic; a change of
    role is a check and a write, and \<open>overlapping_demotions\<close> shows what two that overlap can do.
  \<^item> \<open>Agent_Service\<close> (\<open>agent/service.go\<close>), \<open>Policy_Engine\<close> (\<open>policy/engine.go\<close>, \<open>file.go\<close>, \<open>opa.go\<close>,
    \<open>pdp.go\<close>), \<open>Policy_Limits\<close> (\<open>quota.go\<close>, \<open>ratelimit.go\<close>, \<open>authlimit.go\<close>,
    \<open>redis_limit.go\<close>) with \<open>Agent_Properties\<close> and
    \<open>Policy_Properties\<close>: what an agent may do, and how often anybody may ask.
  \<^item> \<open>Secret_Box\<close>, \<open>Provider_Config\<close>, \<open>Provider_Service\<close> (\<open>crypto/secretbox\<close>, \<open>provider/*.go\<close>) with
    \<open>Provider_Properties\<close>: registered object stores and their sealed credentials.
  \<^item> \<open>Drive_Service\<close>, \<open>Drive_Snapshots\<close>, \<open>Drive_Objects\<close>, \<open>S3_Store\<close>, \<open>Device_Service\<close>, \<open>Mount_Spec\<close>
    (\<open>drive/*.go\<close>, \<open>s3store/store.go\<close>, \<open>device/service.go\<close>, \<open>mountlib/rclone.go\<close>,
    \<open>manifest/manifest.go\<close>) with \<open>Drive_Facts\<close> and \<open>Drive_Properties\<close>.
  \<^item> \<open>Sts_Vendors\<close>, \<open>Sts_Oci\<close>, \<open>Sts_Session\<close> (\<open>sts/*.go\<close>) with \<open>Sts_Properties\<close>: temporary
    credentials of the vendors and mount sessions. The two maps of the session service share their
    objects, so sessions live in a heap of records and the maps hold addresses.
  \<^item> \<open>Memory_Kernel\<close>, \<open>Market_Service\<close>, \<open>Market_Properties\<close>, \<open>Connector_Service\<close> (\<open>memkernel\<close>,
    \<open>marketplace\<close>, \<open>connector\<close>, \<open>lineage\<close>, \<open>idgraph\<close>), \<open>Workspace_Service\<close> (\<open>workspace/service.go\<close>). The
    runs of the marketplace keep the events of the payment provider and the pay calls of the buyers apart.
  \<^item> \<open>Sandbox_Env\<close>, \<open>Sandbox_Path\<close> (\<open>sandbox/*.go\<close>): the environment filter and the path jail a runner
    puts around agent processes. What the jail accepts is stated over the existing part of a path.
  \<^item> \<open>Metrics\<close> (\<open>metrics/metrics.go\<close>): counters, gauges and their exposition; no decision reads them, so the
    handlers do not carry them.
  \<^item> \<open>Config_Load\<close> (\<open>config/config.go\<close>) and the API itself (\<open>httpserver\<close>): \<open>Http_Core\<close> holds the state of
    the server and the checks, \<open>Http_Accounts\<close>, \<open>Http_Jobs\<close>, \<open>Http_Admin\<close>, \<open>Http_Drives\<close>,
    \<open>Http_Resources\<close>, \<open>Http_StageC\<close>, \<open>Http_Workspaces\<close> the handlers, \<open>Http_Router\<close> the table of routes and
    the middleware (\<open>serve_request\<close>). \<open>Tenant_Frames\<close> and \<open>Http_Isolation\<close> show which rows each
    operation, each handler and each route keeps, \<open>Http_Confinement\<close> what an agent token cannot change,
    and \<open>Api_Properties\<close> states the properties of the whole API.
  \<^item> \<open>Client_World\<close>: requests, JSON decoding and the host check (\<open>runtimeenv/check.go\<close>) for the programs that
    run on the machines of the users. \<open>Mcp_Server\<close> (\<open>cmd/mcp\<close>): the tools for agents, their scopes and the
    request each sends; it asks for the scope before the request. \<open>Runner_Worker\<close> (\<open>cmd/runner\<close>): claim,
    session, mount or pull, connector, agent in the sandbox, clean-up, report; a mount is released on every
    path and the agent sees none of the blocked secrets. \<open>Hubd_Daemon\<close> (\<open>cmd/hubd\<close>): reconciliation of the
    mounts with the wanted bindings. The world of these programs is a function of the actions taken so far.

  \<^bold>\<open>What is a parameter.\<close> Code outside the repository and the world outside the process are arguments:
  HMAC, SHA and RSA, bcrypt, scrypt, the AEAD cipher, the random source, JSON and XML encoders and
  decoders of particular payloads, \<open>url.Parse\<close>, \<open>net.ParseIP\<close>, HTTP clients, the MinIO client, the Rego
  evaluator, the file system, \<open>json_extract\<close> and error texts of the SQL driver. Where a property needs
  more than their type, the law is a hypothesis and the witness instantiates it with a concrete function.
  A \<open>draw\<close> holds the random values and the clock reading of one call; an operation reads the clock once.

  \<^bold>\<open>Numbers and bounds.\<close> Go's \<open>int\<close> is \<open>int\<close>, except durations, which wrap at 64 bits (\<open>duration_of\<close>),
  because a configured or submitted number of seconds can overflow them. Token counts of the limiter and
  cosine similarities are exact rationals and reals in place of \<open>float64\<close>. The zero instant is 0. Loops
  are recursive on lists or have a measure (the search for the nearest existing ancestor of a path,
  batches of a reclaim pass); no operation needs fuel; the waits for a mount are bounded by the
  number of polls in the code (40 in the runner, 38 pauses of 400 ms in 15 s in the daemon).

  \<^bold>\<open>Not modelled.\<close> The wiring in \<open>cmd/api\<close>; the loading of the system call filter; of the runner and the daemon
  signals, timers and the concurrency of heartbeats with the agent. Inside modelled parts:
  migrations of old databases and driver I/O failures; JSON columns and list cursors are kept decoded;
  strings are valid UTF-8 without NUL, as PostgreSQL demands of its texts, and case mapping is that of
  ASCII; loading a changed Rego module again; services that are nil; calls that overlap inside one service; the static pages, the
  cap on body sizes, the recovery from panics and the JSON text of answers; a background delivery of
  webhooks is a call of its own, so any interleaving with other calls is a sequence of calls.
\<close>

end
